(* ===== verification/Prelude.thy ===== *)
theory Prelude
  imports Complex_Main "HOL-Library.Sublist" "HOL-Library.Char_ord" "HOL-Library.List_Lexorder"
begin

text \<open>
  The part of Go and of its standard library that the program uses, over byte strings.
  A Go \<open>string\<close> is a sequence of bytes, here a \<open>char list\<close>; \<open><\<close> on strings is the byte-wise
  lexicographic order of \<open>List_Lexorder\<close>. An \<open>int\<close> of Go (64 bits on every platform the
  program is built for) is an \<open>int\<close> whose arithmetic is wrapped by \<open>wrap64\<close> wherever the code
  can leave the range.

  Functions of package \<open>strings\<close> are exact on bytes (\<open>TrimSpace\<close> and \<open>Fields\<close> know the UTF-8
  encodings of all white space of Unicode), but for the case mappings \<open>to_upper\<close>, \<open>to_lower\<close> and
  \<open>equal_fold\<close>, which map the ASCII letters and leave every other byte alone: the strings the
  program maps are finding identifiers, severities and command output patterns in ASCII.
\<close>

named_theorems go_simps "unfolding of the library functions of Go"
named_theorems model_defs "definitions of the operations of the program"

section \<open>Bytes and prefixes\<close>

abbreviation has_prefix :: "string \<Rightarrow> string \<Rightarrow> bool" where
  "has_prefix s p \<equiv> prefix p s"

abbreviation has_suffix :: "string \<Rightarrow> string \<Rightarrow> bool" where
  "has_suffix s p \<equiv> suffix p s"

abbreviation contains :: "string \<Rightarrow> string \<Rightarrow> bool" where
  "contains s p \<equiv> sublist p s"

definition trim_prefix :: "string \<Rightarrow> string \<Rightarrow> string" where
  "trim_prefix s p = (if has_prefix s p then drop (length p) s else s)"

definition trim_suffix :: "string \<Rightarrow> string \<Rightarrow> string" where
  "trim_suffix s p = (if has_suffix s p then take (length s - length p) s else s)"

lemma trim_prefix_append [simp]: "trim_prefix (p @ s) p = s"
  by (simp add: trim_prefix_def)

lemma trim_suffix_append [simp]: "trim_suffix (s @ p) p = s"
  by (simp add: trim_suffix_def suffix_def)

lemma prefix_append_self [simp]: "prefix p (p @ s)"
  by simp

lemma sublist_mid [intro]: "sublist p (a @ p @ b)"
  by (simp add: sublist_appendI)

section \<open>Index, Cut, Split, Join, Replace\<close>

text \<open>\<open>strings.Index\<close>: the first position of \<open>p\<close> in \<open>s\<close>; \<open>None\<close> is Go's \<open>-1\<close>.\<close>

fun index_of :: "string \<Rightarrow> string \<Rightarrow> nat option" where
  "index_of p [] = (if p = [] then Some 0 else None)"
| "index_of p (c # s) = (if prefix p (c # s) then Some 0 else map_option Suc (index_of p s))"

text \<open>\<open>strings.LastIndex\<close>.\<close>

definition last_index_of :: "string \<Rightarrow> string \<Rightarrow> nat option" where
  "last_index_of p s = map_option (\<lambda>i. length s - length p - i) (index_of (rev p) (rev s))"

lemma index_of_SomeD:
  "index_of p s = Some i \<Longrightarrow> s = take i s @ p @ drop (i + length p) s"
proof (induction p s arbitrary: i rule: index_of.induct)
  case (2 p c s)
  then show ?case by (auto simp: prefix_def split: if_splits)
qed (auto split: if_splits)

lemma index_of_length: "index_of p s = Some i \<Longrightarrow> i + length p \<le> length s"
proof (induction p s arbitrary: i rule: index_of.induct)
  case (2 p c s)
  then show ?case by (auto dest: prefix_length_le split: if_splits)
qed (auto split: if_splits)

lemma index_of_None_iff: "index_of p s = None \<longleftrightarrow> \<not> sublist p s"
  by (induction p s rule: index_of.induct) (auto simp: sublist_Cons_right)

text \<open>The parts of \<open>s\<close> before and after the first \<open>sep\<close>.\<close>

definition cut :: "string \<Rightarrow> string \<Rightarrow> (string \<times> string) option" where
  "cut sep s = map_option (\<lambda>i. (take i s, drop (i + length sep) s)) (index_of sep s)"

lemma cut_Some: "cut sep s = Some (a, b) \<Longrightarrow> s = a @ sep @ b"
  by (auto simp: cut_def dest: index_of_SomeD)

lemma cut_length: "cut sep s = Some (a, b) \<Longrightarrow> length s = length a + length sep + length b"
  by (auto dest!: cut_Some)

lemma cut_None_iff: "cut sep s = None \<longleftrightarrow> \<not> sublist sep s"
  by (auto simp: cut_def index_of_None_iff)

text \<open>\<open>strings.Split\<close>; the code never splits at the empty separator.\<close>

function split_at :: "string \<Rightarrow> string \<Rightarrow> string list" where
  "split_at sep s =
     (if sep = [] then [s]
      else case cut sep s of None \<Rightarrow> [s] | Some (a, b) \<Rightarrow> a # split_at sep b)"
  by pat_completeness auto
termination
  by (relation "measure (\<lambda>(sep, s). length s)") (auto dest!: cut_length)

declare split_at.simps [simp del]

text \<open>\<open>strings.SplitN(s, sep, 2)\<close>.\<close>

definition split_at2 :: "string \<Rightarrow> string \<Rightarrow> string list" where
  "split_at2 sep s = (case cut sep s of None \<Rightarrow> [s] | Some (a, b) \<Rightarrow> [a, b])"

fun join :: "string \<Rightarrow> string list \<Rightarrow> string" where
  "join sep [] = []"
| "join sep [x] = x"
| "join sep (x # y # xs) = x @ sep @ join sep (y # xs)"

lemma split_at_not_Nil [simp]: "split_at sep s \<noteq> []"
  by (subst split_at.simps) (simp split: option.split prod.split)

lemma join_Cons: "xs \<noteq> [] \<Longrightarrow> join sep (x # xs) = x @ sep @ join sep xs"
  by (cases xs) auto

lemma join_split_at: "join sep (split_at sep s) = s"
proof (induction sep s rule: split_at.induct)
  case (1 sep s)
  then show ?case
    by (subst split_at.simps) (auto simp: join_Cons dest!: cut_Some split: option.split)
qed

lemma split_at_single: "sep \<noteq> [] \<Longrightarrow> \<not> sublist sep s \<Longrightarrow> split_at sep s = [s]"
  by (subst split_at.simps) (simp add: cut_None_iff [symmetric])

text \<open>Splitting at a single character undoes joining strings without it.\<close>

lemma index_of_char: "c \<notin> set x \<Longrightarrow> index_of [c] (x @ c # r) = Some (length x)"
  by (induction x) auto

lemma cut_char: "c \<notin> set x \<Longrightarrow> cut [c] (x @ c # r) = Some (x, r)"
  by (simp add: cut_def index_of_char)

lemma sublist_single: "sublist [c] s \<longleftrightarrow> c \<in> set s"
  by (induction s) (auto simp: sublist_Cons_right)

lemma split_at_join:
  "\<forall>x \<in> set xs. c \<notin> set x \<Longrightarrow> xs \<noteq> [] \<Longrightarrow> split_at [c] (join [c] xs) = xs"
proof (induction "[c]" xs rule: join.induct)
  case (2 x)
  then show ?case by (simp add: split_at_single sublist_single)
next
  case (3 x y xs)
  then show ?case by (subst split_at.simps) (simp add: cut_char)
qed simp

text \<open>\<open>strings.ReplaceAll\<close> and \<open>strings.Replace(s, old, new, 1)\<close> with a non-empty \<open>old\<close>.\<close>

definition replace_all :: "string \<Rightarrow> string \<Rightarrow> string \<Rightarrow> string" where
  "replace_all s old new = join new (split_at old s)"

definition replace_first :: "string \<Rightarrow> string \<Rightarrow> string \<Rightarrow> string" where
  "replace_first s old new = (case cut old s of None \<Rightarrow> s | Some (a, b) \<Rightarrow> a @ new @ b)"

lemma replace_all_absent: "old \<noteq> [] \<Longrightarrow> \<not> sublist old s \<Longrightarrow> replace_all s old new = s"
  by (simp add: replace_all_def split_at_single)

lemma replace_all_same: "replace_all s old old = s"
  by (simp add: replace_all_def join_split_at)

section \<open>White space\<close>

definition ascii_space :: "char \<Rightarrow> bool" where
  "ascii_space c \<longleftrightarrow>
     c = CHR 0x20 \<or> c = CHR 0x09 \<or> c = CHR 0x0A \<or> c = CHR 0x0B \<or> c = CHR 0x0C \<or> c = CHR 0x0D"

text \<open>
  The UTF-8 encodings of the white space of \<open>unicode.IsSpace\<close> beyond ASCII. A lead byte is never
  a continuation byte, so an occurrence of such a sequence is always a rune of its own.
\<close>

definition multi_spaces :: "string list" where
  "multi_spaces =
    [[CHR 0xC2, CHR 0x85], [CHR 0xC2, CHR 0xA0], [CHR 0xE1, CHR 0x9A, CHR 0x80],
     [CHR 0xE2, CHR 0x80, CHR 0x80], [CHR 0xE2, CHR 0x80, CHR 0x81],
     [CHR 0xE2, CHR 0x80, CHR 0x82], [CHR 0xE2, CHR 0x80, CHR 0x83],
     [CHR 0xE2, CHR 0x80, CHR 0x84], [CHR 0xE2, CHR 0x80, CHR 0x85],
     [CHR 0xE2, CHR 0x80, CHR 0x86], [CHR 0xE2, CHR 0x80, CHR 0x87],
     [CHR 0xE2, CHR 0x80, CHR 0x88], [CHR 0xE2, CHR 0x80, CHR 0x89],
     [CHR 0xE2, CHR 0x80, CHR 0x8A], [CHR 0xE2, CHR 0x80, CHR 0xA8],
     [CHR 0xE2, CHR 0x80, CHR 0xA9], [CHR 0xE2, CHR 0x80, CHR 0xAF],
     [CHR 0xE2, CHR 0x81, CHR 0x9F], [CHR 0xE3, CHR 0x80, CHR 0x80]]"

fun space_len_in :: "string list \<Rightarrow> string \<Rightarrow> nat" where
  "space_len_in encs [] = 0"
| "space_len_in encs (c # s) =
     (if ascii_space c then 1
      else case find (\<lambda>e. prefix e (c # s)) encs of None \<Rightarrow> 0 | Some e \<Rightarrow> length e)"

abbreviation space_len :: "string \<Rightarrow> nat" where
  "space_len \<equiv> space_len_in multi_spaces"

function drop_spaces :: "string list \<Rightarrow> string \<Rightarrow> string" where
  "drop_spaces encs s =
     (if s = [] \<or> space_len_in encs s = 0 then s
      else drop_spaces encs (drop (space_len_in encs s) s))"
  by pat_completeness auto
termination
  by (relation "measure (\<lambda>(encs, s). length s)") auto

declare drop_spaces.simps [simp del]

definition trim_left :: "string \<Rightarrow> string" where
  "trim_left s = drop_spaces multi_spaces s"

definition trim_right :: "string \<Rightarrow> string" where
  "trim_right s = rev (drop_spaces (map rev multi_spaces) (rev s))"

definition trim_space :: "string \<Rightarrow> string" where
  "trim_space s = trim_right (trim_left s)"

function str_fields_from :: "string \<Rightarrow> string \<Rightarrow> string list" where
  "str_fields_from acc s =
     (if s = [] then (if acc = [] then [] else [acc])
      else if space_len s = 0 then str_fields_from (acc @ [hd s]) (tl s)
      else (if acc = [] then [] else [acc]) @ str_fields_from [] (drop (space_len s) s))"
  by pat_completeness auto
termination
  by (relation "measure (\<lambda>(acc, s). length s)") auto

declare str_fields_from.simps [simp del]

text \<open>\<open>strings.Fields\<close>: the maximal runs without white space.\<close>

definition str_fields :: "string \<Rightarrow> string list" where
  "str_fields s = str_fields_from [] s"

lemma drop_spaces_suffix: "suffix (drop_spaces encs s) s"
proof (induction encs s rule: drop_spaces.induct)
  case (1 encs s)
  show ?case
    by (subst drop_spaces.simps) (use 1 in \<open>auto intro: suffix_order.trans suffix_drop\<close>)
qed

lemma drop_spaces_stop: "space_len_in encs (drop_spaces encs s) = 0"
proof (induction encs s rule: drop_spaces.induct)
  case (1 encs s)
  then show ?case by (subst drop_spaces.simps) auto
qed

lemma drop_spaces_fix: "space_len_in encs s = 0 \<Longrightarrow> drop_spaces encs s = s"
  by (subst drop_spaces.simps) simp

lemma drop_spaces_Nil [simp]: "drop_spaces encs [] = []"
  by (simp add: drop_spaces_fix)

lemma trim_space_Nil [simp]: "trim_space [] = []"
  by (simp add: trim_space_def trim_left_def trim_right_def)

lemma trim_right_prefix: "prefix (trim_right s) s"
  using drop_spaces_suffix [of "map rev multi_spaces" "rev s"]
  by (simp add: trim_right_def suffix_to_prefix)

lemma trim_left_suffix: "suffix (trim_left s) s"
  by (simp add: trim_left_def drop_spaces_suffix)

lemma set_trim_space: "set (trim_space s) \<subseteq> set s"
  unfolding trim_space_def
  using trim_right_prefix [of "trim_left s"] trim_left_suffix [of s]
  by (meson set_mono_prefix set_mono_suffix subset_trans)

section \<open>ASCII letters and digits\<close>

text \<open>Bit 5 tells the case of an ASCII letter; the low five bits number it from 1 to 26.\<close>

fun letter_bits :: "bool \<Rightarrow> bool \<Rightarrow> bool \<Rightarrow> bool \<Rightarrow> bool \<Rightarrow> bool" where
  "letter_bits b0 b1 b2 b3 b4 \<longleftrightarrow>
     (b0 \<or> b1 \<or> b2 \<or> b3 \<or> b4) \<and> \<not> (b4 \<and> b3 \<and> (b2 \<or> b1 \<and> b0))"

fun upper_char :: "char \<Rightarrow> char" where
  "upper_char (Char b0 b1 b2 b3 b4 b5 b6 b7) =
     (if b5 \<and> b6 \<and> \<not> b7 \<and> letter_bits b0 b1 b2 b3 b4
      then Char b0 b1 b2 b3 b4 False b6 b7 else Char b0 b1 b2 b3 b4 b5 b6 b7)"

fun lower_char :: "char \<Rightarrow> char" where
  "lower_char (Char b0 b1 b2 b3 b4 b5 b6 b7) =
     (if \<not> b5 \<and> b6 \<and> \<not> b7 \<and> letter_bits b0 b1 b2 b3 b4
      then Char b0 b1 b2 b3 b4 True b6 b7 else Char b0 b1 b2 b3 b4 b5 b6 b7)"

definition to_upper :: "string \<Rightarrow> string" where
  "to_upper s = map upper_char s"

definition to_lower :: "string \<Rightarrow> string" where
  "to_lower s = map lower_char s"

definition equal_fold :: "string \<Rightarrow> string \<Rightarrow> bool" where
  "equal_fold s t \<longleftrightarrow> to_lower s = to_lower t"

lemma upper_alphabet:
  "to_upper ''abcdefghijklmnopqrstuvwxyz'' = ''ABCDEFGHIJKLMNOPQRSTUVWXYZ''"
  "to_lower ''ABCDEFGHIJKLMNOPQRSTUVWXYZ'' = ''abcdefghijklmnopqrstuvwxyz''"
  by (simp_all add: to_upper_def to_lower_def)

lemma upper_char_idem [simp]: "upper_char (upper_char c) = upper_char c"
  by (cases c) simp

lemma lower_char_idem [simp]: "lower_char (lower_char c) = lower_char c"
  by (cases c) simp

lemma to_upper_idem [simp]: "to_upper (to_upper s) = to_upper s"
  by (simp add: to_upper_def)

lemma to_lower_idem [simp]: "to_lower (to_lower s) = to_lower s"
  by (simp add: to_lower_def)

lemma to_upper_append: "to_upper (s @ t) = to_upper s @ to_upper t"
  by (simp add: to_upper_def)

lemma prefix_to_upper: "prefix p s \<Longrightarrow> prefix (to_upper p) (to_upper s)"
  by (auto simp: prefix_def to_upper_append)

lemma length_to_upper [simp]: "length (to_upper s) = length s"
  by (simp add: to_upper_def)

lemma equal_fold_refl [simp]: "equal_fold s s"
  by (simp add: equal_fold_def)

definition digits :: string where "digits = ''0123456789''"

definition digit_val :: "char \<Rightarrow> int option" where
  "digit_val c = map_of (zip digits [0, 1, 2, 3, 4, 5, 6, 7, 8, 9]) c"

definition digit_char :: "nat \<Rightarrow> char" where
  "digit_char n = digits ! n"

lemma digit_char_simps:
  "digit_char 0 = CHR ''0''" "digit_char 1 = CHR ''1''" "digit_char 2 = CHR ''2''"
  "digit_char 3 = CHR ''3''" "digit_char 4 = CHR ''4''" "digit_char 5 = CHR ''5''"
  "digit_char 6 = CHR ''6''" "digit_char 7 = CHR ''7''" "digit_char 8 = CHR ''8''"
  "digit_char 9 = CHR ''9''" "digit_char (Suc 0) = CHR ''1''"
  by code_simp+

lemma digit_val_SomeD: "digit_val c = Some d \<Longrightarrow> c \<in> set digits \<and> 0 \<le> d"
  by (auto simp: digit_val_def digits_def split: if_splits)

lemma digit_val_digit_char: "n < 10 \<Longrightarrow> digit_val (digit_char n) = Some (int n)"
proof -
  have "\<forall>n \<in> set [0..<10]. digit_val (digit_char n) = Some (int n)" by code_simp
  then show "n < 10 \<Longrightarrow> digit_val (digit_char n) = Some (int n)" by simp
qed

text \<open>The value of a string of decimal digits, and the digits of a value.\<close>

fun digits_val :: "int \<Rightarrow> string \<Rightarrow> int option" where
  "digits_val acc [] = Some acc"
| "digits_val acc (c # s) =
     (case digit_val c of None \<Rightarrow> None | Some d \<Rightarrow> digits_val (10 * acc + d) s)"

fun nat_digits :: "nat \<Rightarrow> string" where
  "nat_digits n = (if n < 10 then [digit_char n] else nat_digits (n div 10) @ [digit_char (n mod 10)])"

declare nat_digits.simps [simp del]

definition itoa :: "int \<Rightarrow> string" where
  "itoa i = (if i < 0 then CHR ''-'' # nat_digits (nat (- i)) else nat_digits (nat i))"

definition min_int64 :: int where "min_int64 = - 9223372036854775808"
definition max_int64 :: int where "max_int64 = 9223372036854775807"

definition wrap64 :: "int \<Rightarrow> int" where
  "wrap64 i = (i + 9223372036854775808) mod 18446744073709551616 - 9223372036854775808"

text \<open>\<open>strconv.Atoi\<close>: an optional sign and decimal digits, within the range of an \<open>int\<close>.\<close>

definition atoi :: "string \<Rightarrow> int option" where
  "atoi s =
     (let neg = prefix ''-'' s;
          body = (if neg \<or> prefix ''+'' s then tl s else s)
      in if body = [] then None
         else case digits_val 0 body of
                None \<Rightarrow> None
              | Some n \<Rightarrow>
                  (let i = (if neg then - n else n)
                   in if min_int64 \<le> i \<and> i \<le> max_int64 then Some i else None))"

lemma digits_val_append:
  "digits_val acc (s @ t) =
     (case digits_val acc s of None \<Rightarrow> None | Some n \<Rightarrow> digits_val n t)"
  by (induction acc s rule: digits_val.induct) (auto split: option.split)

lemma digits_val_nat_digits: "digits_val 0 (nat_digits n) = Some (int n)"
proof (induction n rule: nat_digits.induct)
  case (1 n)
  have "10 * int (n div 10) + int (n mod 10) = int n" by presburger
  with 1 show ?case
    by (subst nat_digits.simps) (simp add: digits_val_append digit_val_digit_char)
qed

lemma nat_digits_not_Nil [simp]: "nat_digits n \<noteq> []"
  by (subst nat_digits.simps) simp

lemma set_nat_digits: "set (nat_digits n) \<subseteq> set digits"
proof (induction n rule: nat_digits.induct)
  case (1 n)
  have "digit_char m \<in> set digits" if "m < 10" for m
    using digit_val_digit_char [OF that] digit_val_SomeD by blast
  with 1 show ?case by (subst nat_digits.simps) auto
qed

lemma hd_nat_digits: "\<exists>c s. nat_digits n = c # s \<and> c \<noteq> CHR ''-'' \<and> c \<noteq> CHR ''+''"
proof -
  obtain c s where cs: "nat_digits n = c # s"
    by (cases "nat_digits n") auto
  with set_nat_digits [of n] have "c \<in> set digits" by auto
  then have "c \<noteq> CHR ''-'' \<and> c \<noteq> CHR ''+''" by (auto simp: digits_def)
  with cs show ?thesis by blast
qed

lemma atoi_itoa: "min_int64 \<le> i \<Longrightarrow> i \<le> max_int64 \<Longrightarrow> atoi (itoa i) = Some i"
  using hd_nat_digits [of "nat i"] digits_val_nat_digits [of "nat i"]
    digits_val_nat_digits [of "nat (- i)"]
  by (auto simp: atoi_def itoa_def)

lemma atoi_range: "atoi s = Some i \<Longrightarrow> min_int64 \<le> i \<and> i \<le> max_int64"
  by (auto simp: atoi_def Let_def split: if_splits option.splits)

lemma wrap64_id: "min_int64 \<le> i \<Longrightarrow> i \<le> max_int64 \<Longrightarrow> wrap64 i = i"
  by (simp add: wrap64_def min_int64_def max_int64_def)

lemma wrap64_range: "min_int64 \<le> wrap64 i \<and> wrap64 i \<le> max_int64"
proof -
  have "0 \<le> (i + 9223372036854775808) mod 18446744073709551616"
    and "(i + 9223372036854775808) mod 18446744073709551616 < 18446744073709551616" by simp_all
  then show ?thesis unfolding wrap64_def min_int64_def max_int64_def by linarith
qed

text \<open>\<open>strings.TrimRight\<close> and \<open>strings.Trim\<close> with a cutset of ASCII characters.\<close>

definition trim_right_set :: "string \<Rightarrow> string \<Rightarrow> string" where
  "trim_right_set cs s = rev (dropWhile (\<lambda>c. c \<in> set cs) (rev s))"

lemma trim_right_set_id:
  assumes "set s \<inter> set cs = {}"
  shows "trim_right_set cs s = s"
proof -
  have "dropWhile (\<lambda>c. c \<in> set cs) (rev s) = rev s"
  proof (cases "rev s")
    case (Cons c t)
    then have "c \<in> set s" by (metis list.set_intros(1) set_rev)
    with Cons assms show ?thesis by auto
  qed simp
  then show ?thesis by (simp add: trim_right_set_def)
qed

definition trim_set :: "string \<Rightarrow> string \<Rightarrow> string" where
  "trim_set cs s = trim_right_set cs (dropWhile (\<lambda>c. c \<in> set cs) s)"

section \<open>Trimming is idempotent and commutes with upper case\<close>

lemma space_len_prefix:
  "prefix t s \<Longrightarrow> space_len_in encs s = 0 \<Longrightarrow> [] \<notin> set encs \<Longrightarrow> space_len_in encs t = 0"
proof (cases t)
  case (Cons c t')
  assume p: "prefix t s" and z: "space_len_in encs s = 0" and ne: "[] \<notin> set encs"
  then obtain s' where s: "s = c # s'" using Cons by (cases s) auto
  have "find (\<lambda>e. prefix e s) encs = None"
    using z s ne by (auto split: if_splits option.splits simp: find_Some_iff) (metis nth_mem)
  then have "\<forall>e \<in> set encs. \<not> prefix e s" by (auto simp: find_None_iff)
  then have "\<forall>e \<in> set encs. \<not> prefix e t" using p prefix_order.trans by blast
  then have "find (\<lambda>e. prefix e t) encs = None" by (auto simp: find_None_iff)
  with z s Cons show ?thesis by (auto split: if_splits)
qed simp

lemma multi_spaces_not_Nil: "[] \<notin> set multi_spaces" "[] \<notin> set (map rev multi_spaces)"
  by (auto simp: multi_spaces_def)

lemma trim_right_stop: "trim_right (trim_right s) = trim_right s"
  by (simp add: trim_right_def drop_spaces_fix drop_spaces_stop)

lemma space_len_trim_space [simp]: "space_len (trim_space s) = 0"
  unfolding trim_space_def
  by (rule space_len_prefix [OF trim_right_prefix _ multi_spaces_not_Nil(1)])
    (simp add: trim_left_def drop_spaces_stop)

lemma trim_space_idem [simp]: "trim_space (trim_space s) = trim_space s"
proof -
  have "trim_left (trim_space s) = trim_space s"
    by (simp add: trim_left_def drop_spaces_fix)
  then show ?thesis by (metis trim_right_stop trim_space_def)
qed

text \<open>Bytes that take part in no white space.\<close>

definition no_space_byte :: "char \<Rightarrow> bool" where
  "no_space_byte c \<longleftrightarrow> \<not> ascii_space c \<and> c \<notin> set (concat multi_spaces)"

lemma enc_bytes:
  assumes "e \<in> set encs" "encs = multi_spaces \<or> encs = map rev multi_spaces" "d \<in> set e"
  shows "\<exists>e' \<in> set multi_spaces. d \<in> set e'"
  using assms(2)
proof
  assume "encs = map rev multi_spaces"
  with assms(1) obtain e' where "e' \<in> set multi_spaces" "e = rev e'" by auto
  with assms(3) show ?thesis by (intro bexI [of _ e']) auto
qed (use assms in auto)

lemma space_len_no_space:
  assumes "\<forall>c \<in> set s. no_space_byte c" "encs = multi_spaces \<or> encs = map rev multi_spaces"
  shows "space_len_in encs s = 0"
proof (cases s)
  case (Cons c s')
  have "\<not> prefix e s" if "e \<in> set encs" for e
  proof
    assume "prefix e s"
    moreover have "e \<noteq> []" using that assms(2) multi_spaces_not_Nil by metis
    then obtain d e' where "e = d # e'" by (cases e) auto
    moreover from this have "d \<in> set (concat multi_spaces)"
      using enc_bytes [OF that assms(2), of d] by auto
    ultimately have "d = c" "d \<in> set (concat multi_spaces)" using Cons by simp_all
    with assms(1) Cons show False by (auto simp: no_space_byte_def)
  qed
  then have "find (\<lambda>e. prefix e (c # s')) encs = None" using Cons by (auto simp: find_None_iff)
  with assms(1) Cons show ?thesis by (auto simp: no_space_byte_def)
qed simp

lemma trim_space_no_space: "\<forall>c \<in> set s. no_space_byte c \<Longrightarrow> trim_space s = s"
  by (simp add: trim_space_def trim_left_def trim_right_def drop_spaces_fix space_len_no_space)

lemma ascii_space_upper [simp]: "ascii_space (upper_char c) = ascii_space c"
  by (cases c) (auto simp: ascii_space_def)

lemma upper_char_high:
  "\<exists>e \<in> set multi_spaces. d \<in> set e \<Longrightarrow> upper_char c = d \<longleftrightarrow> c = d"
  by (cases c) (auto simp: multi_spaces_def)

lemma prefix_map_upper:
  "\<forall>d \<in> set e. \<exists>e' \<in> set multi_spaces. d \<in> set e' \<Longrightarrow>
   prefix e (map upper_char s) \<longleftrightarrow> prefix e s"
proof (induction e arbitrary: s)
  case (Cons d e)
  then have "upper_char c = d \<longleftrightarrow> c = d" for c by (intro upper_char_high) simp
  then have "d = upper_char c \<longleftrightarrow> d = c" for c by metis
  with Cons show ?case by (cases s) simp_all
qed simp

lemma space_len_upper:
  assumes "encs = multi_spaces \<or> encs = map rev multi_spaces"
  shows "space_len_in encs (map upper_char s) = space_len_in encs s"
proof (cases s)
  case (Cons c s')
  have "prefix e (map upper_char s) = prefix e s" if "e \<in> set encs" for e
    using enc_bytes [OF that assms] by (intro prefix_map_upper) blast
  then have "find (\<lambda>e. prefix e (map upper_char s)) encs = find (\<lambda>e. prefix e s) encs"
    by (auto intro: find_cong)
  with Cons show ?thesis by simp
qed simp

lemma drop_spaces_upper:
  assumes "encs = multi_spaces \<or> encs = map rev multi_spaces"
  shows "drop_spaces encs (map upper_char s) = map upper_char (drop_spaces encs s)"
  using assms
proof (induction encs s rule: drop_spaces.induct)
  case (1 encs s)
  then show ?case
    by (subst (1 2) drop_spaces.simps) (auto simp: space_len_upper drop_map)
qed

lemma trim_space_upper: "trim_space (to_upper s) = to_upper (trim_space s)"
  by (simp add: trim_space_def trim_left_def trim_right_def to_upper_def drop_spaces_upper rev_map)

lemma to_upper_eq_Nil [simp]: "to_upper s = [] \<longleftrightarrow> s = []"
  by (simp add: to_upper_def)

section \<open>Decimal digits are not white space\<close>

lemma digit_no_space: "c \<in> set digits \<Longrightarrow> no_space_byte c"
  by (auto simp: digits_def no_space_byte_def ascii_space_def multi_spaces_def)

lemma set_itoa_nonneg: "0 \<le> n \<Longrightarrow> set (itoa n) \<subseteq> set digits"
  using set_nat_digits [of "nat n"] by (simp add: itoa_def)

lemma itoa_not_Nil [simp]: "itoa n \<noteq> []"
  by (simp add: itoa_def)

section \<open>Quoting, and text that is not trimmed\<close>

text \<open>\<open>%q\<close> of a string of printable ASCII characters.\<close>

definition quote_go :: "string \<Rightarrow> string" where
  "quote_go s = CHR 0x22 # concat (map (\<lambda>c. if c = CHR 0x22 \<or> c = CHR 0x5C then [CHR 0x5C, c] else [c]) s)
     @ [CHR 0x22]"


lemma space_len_hd: "s = [] \<or> no_space_byte (hd s) \<Longrightarrow> encs = multi_spaces \<or> encs = map rev multi_spaces \<Longrightarrow>
    space_len_in encs s = 0"
proof (cases s)
  case (Cons c s')
  assume hd: "s = [] \<or> no_space_byte (hd s)" and encs: "encs = multi_spaces \<or> encs = map rev multi_spaces"
  have "\<not> prefix e s" if "e \<in> set encs" for e
  proof
    assume "prefix e s"
    moreover have "e \<noteq> []" using that encs multi_spaces_not_Nil by metis
    then obtain d e' where "e = d # e'" by (cases e) auto
    ultimately have "c \<in> set e" using Cons by simp
    with enc_bytes [OF that encs, of c] hd Cons show False by (auto simp: no_space_byte_def)
  qed
  then have "find (\<lambda>e. prefix e (c # s')) encs = None" using Cons by (auto simp: find_None_iff)
  with hd Cons show ?thesis by (auto simp: no_space_byte_def)
qed simp

text \<open>A text that begins and ends with something else than white space is what is left of it within white space.\<close>

definition trimmed :: "string \<Rightarrow> bool" where
  "trimmed s \<longleftrightarrow> s = [] \<or> no_space_byte (hd s) \<and> no_space_byte (last s)"

lemma drop_spaces_ascii: "list_all ascii_space w \<Longrightarrow> drop_spaces encs (w @ s) = drop_spaces encs s"
proof (induction w)
  case (Cons c w)
  then show ?case by (subst drop_spaces.simps) simp
qed simp

lemma trim_space_within:
  assumes "list_all ascii_space a" "list_all ascii_space b" "trimmed s"
  shows "trim_space (a @ s @ b) = s"
proof (cases "s = []")
  case True
  have "drop_spaces e (w :: string) = []" if "list_all ascii_space w" for e w
    using drop_spaces_ascii [OF that, of e "[]"] by simp
  from this [of "a @ b"] assms True show ?thesis
    by (simp add: trim_space_def trim_left_def trim_right_def)
next
  case False
  with assms(3) have "no_space_byte (hd (s @ b))" "no_space_byte (hd (rev s))"
    by (auto simp: trimmed_def hd_rev hd_append)
  then have "space_len (s @ b) = 0" "space_len_in (map rev multi_spaces) (rev s) = 0"
    by (simp_all add: space_len_hd)
  moreover have "list_all ascii_space (rev b)" using assms(2) by (simp add: list_all_iff)
  ultimately show ?thesis
    using drop_spaces_ascii [OF assms(1), of multi_spaces "s @ b"]
      drop_spaces_ascii [of "rev b" "map rev multi_spaces" "rev s"]
    by (simp add: trim_space_def trim_left_def trim_right_def drop_spaces_fix)
qed

lemma trim_space_trimmed: "trimmed s \<Longrightarrow> trim_space s = s"
  using trim_space_within [of "[]" "[]" s] by simp

lemma str_fields_word:
  assumes "w \<noteq> []" "\<forall>c \<in> set w. no_space_byte c" "ascii_space sp"
  shows "str_fields (w @ sp # s) = w # str_fields s" "str_fields w = [w]"
proof -
  have one: "space_len (c # r) = 0" if "no_space_byte c" for c r using that space_len_hd [of "c # r" multi_spaces] by simp
  have step: "str_fields_from acc (c # r) = str_fields_from (acc @ [c]) r" if "no_space_byte c" for acc c r
    by (subst str_fields_from.simps) (simp del: space_len_in.simps add: one [OF that])
  have run: "str_fields_from acc (v @ r) = str_fields_from (acc @ v) r" if "\<forall>c \<in> set v. no_space_byte c" for acc v r
    using that by (induction v arbitrary: acc) (simp_all add: step)
  have "str_fields_from w (sp # s) = w # str_fields_from [] s" "str_fields_from w [] = [w]"
    using assms by (subst str_fields_from.simps; simp)+
  with run [OF assms(2), of "[]"] run [OF assms(2), of "[]" "[]"]
  show "str_fields (w @ sp # s) = w # str_fields s" "str_fields w = [w]"
    by (simp_all add: str_fields_def)
qed

lemma str_fields_space: "ascii_space sp \<Longrightarrow> str_fields (sp # s) = str_fields s"
  by (simp add: str_fields_def str_fields_from.simps [of _ "sp # s"])

section \<open>Lines\<close>

text \<open>
  \<open>bufio.Scanner\<close> with a buffer of at most \<open>limit\<close> bytes: the lines without their ends, up to one that
  does not fit, with the error it then ends in.
\<close>

definition drop_cr :: "string \<Rightarrow> string" where
  "drop_cr l = (if l \<noteq> [] \<and> last l = CHR 0x0D then butlast l else l)"

definition scan_lines :: "nat \<Rightarrow> string \<Rightarrow> string list \<times> string option" where
  "scan_lines limit content =
     (let parts = split_at [CHR 0x0A] content;
          parts = (if last parts = [] then butlast parts else parts);
          fit = takeWhile (\<lambda>l. length l < limit) parts
      in (map drop_cr fit, if length fit < length parts then Some ''bufio.Scanner: token too long'' else None))"

end
