(* ===== verification/Schema.thy ===== *)
theory Schema
  imports Prelude
begin

text \<open>
  Package \<open>internal/schema\<close>: the data every component exchanges. Go's typed strings (\<open>Severity\<close>,
  \<open>CollectorStatus\<close>, \<open>FixClass\<close>, \<open>FixSource\<close>) stay strings, since reports are read back from JSON
  and may hold any value; their constants are abbreviations of the literals. A confidence is a
  finite \<open>float64\<close>, here a rational number; \<open>Applicable *bool\<close> is an option. Record fields carry
  the initials of their struct. \<open>zero_*\<close> are Go's zero values, from which composite literals are
  built by update. Times are nanoseconds since Go's zero time, as integers.
\<close>

type_synonym severity = string
type_synonym collector_status = string
type_synonym fix_class = string
type_synonym fix_source = string
type_synonym time = int

abbreviation SeverityCritical :: severity where "SeverityCritical \<equiv> ''critical''"
abbreviation SeverityHigh :: severity where "SeverityHigh \<equiv> ''high''"
abbreviation SeverityMedium :: severity where "SeverityMedium \<equiv> ''medium''"
abbreviation SeverityLow :: severity where "SeverityLow \<equiv> ''low''"
abbreviation SeverityInfo :: severity where "SeverityInfo \<equiv> ''info''"

abbreviation CollectorOK :: collector_status where "CollectorOK \<equiv> ''ok''"
abbreviation CollectorPartial :: collector_status where "CollectorPartial \<equiv> ''partial''"
abbreviation CollectorTimeout :: collector_status where "CollectorTimeout \<equiv> ''timeout''"
abbreviation CollectorPermissionDenied :: collector_status where
  "CollectorPermissionDenied \<equiv> ''permission_denied''"
abbreviation CollectorUnavailable :: collector_status where
  "CollectorUnavailable \<equiv> ''unavailable''"
abbreviation CollectorFailed :: collector_status where "CollectorFailed \<equiv> ''failed''"

abbreviation FixSafe :: fix_class where "FixSafe \<equiv> ''safe''"
abbreviation FixGuarded :: fix_class where "FixGuarded \<equiv> ''guarded''"
abbreviation FixManual :: fix_class where "FixManual \<equiv> ''manual''"
abbreviation FixBlocked :: fix_class where "FixBlocked \<equiv> ''blocked''"

abbreviation FixSourceSavedReport :: fix_source where
  "FixSourceSavedReport \<equiv> ''saved_report''"
abbreviation FixSourceFreshScan :: fix_source where "FixSourceFreshScan \<equiv> ''fresh_scan''"

record evidence =
  ev_Source :: string
  ev_Value :: string

definition mk_ev :: "string \<Rightarrow> string \<Rightarrow> evidence" where
  "mk_ev s v = \<lparr>ev_Source = s, ev_Value = v\<rparr>"

lemma mk_ev_sel [simp]: "ev_Source (mk_ev s v) = s" "ev_Value (mk_ev s v) = v"
  by (simp_all add: mk_ev_def)

lemma mk_ev_inject [simp]: "mk_ev s v = mk_ev s' v' \<longleftrightarrow> s = s' \<and> v = v'"
  by (simp add: mk_ev_def)

record fix_option =
  fx_Class :: fix_class
  fx_Title :: string
  fx_Commands :: "string list"
  fx_Rollback :: "string list"

record finding =
  f_ID :: string
  f_Title :: string
  f_Severity :: severity
  f_Confidence :: rat
  f_Layers :: "string list"
  f_Symptom :: string
  f_Evidence :: "evidence list"
  f_LikelyCauses :: "string list"
  f_Fixes :: "fix_option list"
  f_FixHints :: "string list"
  f_RedactionStatus :: string

definition zero_finding :: finding where
  "zero_finding =
     \<lparr>f_ID = [], f_Title = [], f_Severity = [], f_Confidence = 0, f_Layers = [], f_Symptom = [],
      f_Evidence = [], f_LikelyCauses = [], f_Fixes = [], f_FixHints = [], f_RedactionStatus = []\<rparr>"

lemma zero_finding_sel [simp]:
  "f_ID zero_finding = []" "f_Title zero_finding = []" "f_Severity zero_finding = []"
  "f_Layers zero_finding = []" "f_Symptom zero_finding = []" "f_Evidence zero_finding = []"
  "f_LikelyCauses zero_finding = []" "f_Fixes zero_finding = []" "f_FixHints zero_finding = []"
  "f_RedactionStatus zero_finding = []" "f_Confidence zero_finding = 0"
  by (simp_all add: zero_finding_def)

record collector_result =
  c_Name :: string
  c_Status :: collector_status
  c_Applicable :: "bool option"
  c_TimeoutMs :: int
  c_Partial :: bool
  c_Evidence :: "evidence list"
  c_Notes :: "string list"

definition zero_result :: collector_result where
  "zero_result =
     \<lparr>c_Name = [], c_Status = [], c_Applicable = None, c_TimeoutMs = 0, c_Partial = False,
      c_Evidence = [], c_Notes = []\<rparr>"

lemma zero_result_sel [simp]:
  "c_Name zero_result = []" "c_Status zero_result = []" "c_Applicable zero_result = None"
  "c_TimeoutMs zero_result = 0" "c_Partial zero_result = False" "c_Evidence zero_result = []"
  "c_Notes zero_result = []"
  by (simp_all add: zero_result_def)

text \<open>Values of JSON, as \<open>interface{}\<close> holds them after decoding.\<close>

datatype json =
    JNull
  | JBool bool
  | JNumber rat
  | JString string
  | JArray "json list"
  | JObject "(string \<times> json) list"

record host_info =
  h_OS :: string
  h_Distro :: string
  h_Version :: string
  h_Kernel :: string
  h_Arch :: string
  h_Session :: string

definition zero_host :: host_info where
  "zero_host = \<lparr>h_OS = [], h_Distro = [], h_Version = [], h_Kernel = [], h_Arch = [], h_Session = []\<rparr>"

record report =
  r_SchemaVersion :: string
  r_DevDiagVersion :: string
  r_RunID :: string
  r_RedactionStatus :: string
  r_RepoRoot :: string
  r_RepoSignals :: "string list"
  r_Host :: host_info
  r_Collectors :: "collector_result list"
  r_Findings :: "finding list"
  r_Repro :: "(string \<times> json) list option"

text \<open>\<open>graph.NormalizedSnapshot\<close>: the results the engines evaluate, and its builder.\<close>

record snapshot =
  s_Collectors :: "collector_result list"

definition snapshot_Build :: "collector_result list \<Rightarrow> snapshot" where
  "snapshot_Build results = \<lparr>s_Collectors = results\<rparr>"

record fix_proposal =
  p_FindingID :: string
  p_HintID :: string
  p_Title :: string
  p_Class :: fix_class
  p_Bin :: string
  p_Args :: "string list"
  p_Rollback :: "string list"
  p_ConfirmMessage :: string
  p_BlockedReason :: string
  p_RequiredEvidence :: "string list"
  p_Source :: fix_source
  p_RunID :: string
  p_StalenessWarn :: string

record fix_execution =
  x_FindingID :: string
  x_HintID :: string
  x_Success :: bool
  x_ExitCode :: int
  x_Stdout :: string
  x_Stderr :: string
  x_Error :: string

record fix_audit_entry =
  a_RunID :: string
  a_FindingID :: string
  a_HintID :: string
  a_Class :: fix_class
  a_Source :: fix_source
  a_DryRun :: bool
  a_Execution :: "fix_execution option"
  a_Refused :: bool
  a_RefuseReason :: string
  a_Note :: string

section \<open>Exit codes\<close>

text \<open>\<open>exitcode.Code\<close>, the public contract of the command line, in the order of its values.\<close>

datatype exit_code =
    Success
  | FindingsExist
  | InvalidInput
  | ExitCollectorPartial
  | ExitPermissionDenied
  | UnsafeRefused
  | ReproFailed
  | TraceUnavailable
  | InternalError

fun exit_code_Int :: "exit_code \<Rightarrow> int" where
  "exit_code_Int Success = 0"
| "exit_code_Int FindingsExist = 1"
| "exit_code_Int InvalidInput = 2"
| "exit_code_Int ExitCollectorPartial = 3"
| "exit_code_Int ExitPermissionDenied = 4"
| "exit_code_Int UnsafeRefused = 5"
| "exit_code_Int ReproFailed = 6"
| "exit_code_Int TraceUnavailable = 7"
| "exit_code_Int InternalError = 8"

lemma exit_code_Int_inj: "exit_code_Int a = exit_code_Int b \<longleftrightarrow> a = b"
  by (cases a; cases b) simp_all

instantiation exit_code :: linorder
begin

definition less_eq_exit_code :: "exit_code \<Rightarrow> exit_code \<Rightarrow> bool" where
  "a \<le> b \<longleftrightarrow> exit_code_Int a \<le> exit_code_Int b"

definition less_exit_code :: "exit_code \<Rightarrow> exit_code \<Rightarrow> bool" where
  "a < b \<longleftrightarrow> exit_code_Int a < exit_code_Int b"

instance
  by intro_classes (auto simp: less_eq_exit_code_def less_exit_code_def exit_code_Int_inj [symmetric])

end

end
