(* ===== verification/Sorting_Go.thy ===== *)
theory Sorting_Go
  imports Prelude "HOL-Library.Multiset"
begin

text \<open>
  Package \<open>sort\<close> of Go, as the program relies on it: \<open>sort.SliceStable\<close> with a comparison that is
  a strict weak order has one result only, which \<open>slice_stable\<close> computes; \<open>sort.Slice\<close> may return
  any list \<open>is_sort\<close> admits. The locale states the contract a comparison must fulfil and what
  follows from it; the components interpret it on the comparisons of the code.
\<close>

fun insert_by :: "('a \<Rightarrow> 'a \<Rightarrow> bool) \<Rightarrow> 'a \<Rightarrow> 'a list \<Rightarrow> 'a list" where
  "insert_by lt x [] = [x]"
| "insert_by lt x (y # ys) = (if lt y x then y # insert_by lt x ys else x # y # ys)"

definition slice_stable :: "('a \<Rightarrow> 'a \<Rightarrow> bool) \<Rightarrow> 'a list \<Rightarrow> 'a list" where
  "slice_stable lt xs = foldr (insert_by lt) xs []"

text \<open>
  An insertion sort by swaps to the left; a round takes the sorted part with its last element first.
\<close>

fun swap_left :: "('a \<Rightarrow> 'a \<Rightarrow> bool) \<Rightarrow> 'a \<Rightarrow> 'a list \<Rightarrow> 'a list" where
  "swap_left lt p [] = [p]"
| "swap_left lt p (q # qs) = (if lt p q then q # swap_left lt p qs else p # q # qs)"

definition insertion_sort :: "('a \<Rightarrow> 'a \<Rightarrow> bool) \<Rightarrow> 'a list \<Rightarrow> 'a list" where
  "insertion_sort lt xs = foldl (\<lambda>ys p. rev (swap_left lt p (rev ys))) [] xs"

definition sorted_by :: "('a \<Rightarrow> 'a \<Rightarrow> bool) \<Rightarrow> 'a list \<Rightarrow> bool" where
  "sorted_by lt xs \<longleftrightarrow> sorted_wrt (\<lambda>a b. \<not> lt b a) xs"

definition is_sort :: "('a \<Rightarrow> 'a \<Rightarrow> bool) \<Rightarrow> 'a list \<Rightarrow> 'a list \<Rightarrow> bool" where
  "is_sort lt xs ys \<longleftrightarrow> mset ys = mset xs \<and> sorted_by lt ys"

text \<open>Elements the comparison does not tell apart.\<close>

definition tied :: "('a \<Rightarrow> 'a \<Rightarrow> bool) \<Rightarrow> 'a \<Rightarrow> 'a \<Rightarrow> bool" where
  "tied lt a b \<longleftrightarrow> \<not> lt a b \<and> \<not> lt b a"

lemma slice_stable_simps [simp]:
  "slice_stable lt [] = []"
  "slice_stable lt (x # xs) = insert_by lt x (slice_stable lt xs)"
  by (simp_all add: slice_stable_def)

lemma mset_insert_by [simp]: "mset (insert_by lt x xs) = add_mset x (mset xs)"
  by (induction xs) auto

lemma mset_slice_stable [simp]: "mset (slice_stable lt xs) = mset xs"
  by (induction xs) auto

lemma set_slice_stable [simp]: "set (slice_stable lt xs) = set xs"
  by (metis mset_slice_stable set_mset_mset)

lemma length_slice_stable [simp]: "length (slice_stable lt xs) = length xs"
  by (metis mset_slice_stable size_mset)

lemma sorted_by_simps [simp]:
  "sorted_by lt []"
  "sorted_by lt (x # xs) \<longleftrightarrow> list_all (\<lambda>y. \<not> lt y x) xs \<and> sorted_by lt xs"
  by (auto simp: sorted_by_def list_all_iff)

lemma insert_by_head: "list_all (\<lambda>y. \<not> lt y x) xs \<Longrightarrow> insert_by lt x xs = x # xs"
  by (cases xs) auto

lemma slice_stable_id: "sorted_by lt xs \<Longrightarrow> slice_stable lt xs = xs"
  by (induction xs) (auto simp: insert_by_head)

locale strict_weak_order =
  fixes lt :: "'a \<Rightarrow> 'a \<Rightarrow> bool"
  assumes irrefl: "\<not> lt a a"
    and trans: "lt a b \<Longrightarrow> lt b c \<Longrightarrow> lt a c"
    and neg_trans: "\<not> lt a b \<Longrightarrow> \<not> lt b c \<Longrightarrow> \<not> lt a c"
begin

lemma asym: "lt a b \<Longrightarrow> \<not> lt b a"
  using irrefl trans by blast

lemma sorted_insert: "sorted_by lt xs \<Longrightarrow> sorted_by lt (insert_by lt x xs)"
proof (induction xs)
  case (Cons y ys)
  have "set (insert_by lt x ys) = insert x (set ys)"
    by (metis mset_insert_by set_mset_add_mset_insert set_mset_mset)
  with Cons show ?case
    by (auto simp: list_all_iff asym) (use neg_trans in blast)
qed simp

lemma sorted_slice_stable: "sorted_by lt (slice_stable lt xs)"
  by (induction xs) (auto simp: sorted_insert)

lemma is_sort_slice_stable: "is_sort lt xs (slice_stable lt xs)"
  by (simp add: is_sort_def sorted_slice_stable)

lemma tied_refl: "tied lt a a"
  by (simp add: tied_def irrefl)

lemma tied_trans: "tied lt a b \<Longrightarrow> tied lt b c \<Longrightarrow> tied lt a c"
  by (auto simp: tied_def dest: neg_trans)

lemma filter_insert_other:
  "\<not> tied lt a x \<Longrightarrow> filter (tied lt a) (insert_by lt x ys) = filter (tied lt a) ys"
  by (induction ys) auto

lemma filter_insert_tied:
  "tied lt a x \<Longrightarrow> sorted_by lt ys \<Longrightarrow>
   filter (tied lt a) (insert_by lt x ys) = x # filter (tied lt a) ys"
proof (induction ys)
  case (Cons y ys)
  then show ?case by (auto simp: tied_def dest: trans neg_trans)
qed simp

text \<open>Stability: the sort keeps the order of tied elements.\<close>

lemma stable_slice_stable:
  "filter (tied lt a) (slice_stable lt xs) = filter (tied lt a) xs"
proof (induction xs)
  case (Cons x xs)
  then show ?case
    by (cases "tied lt a x")
      (simp_all add: filter_insert_tied filter_insert_other sorted_slice_stable)
qed simp

text \<open>A sorted, stable permutation is unique, so the result does not depend on the algorithm.\<close>

lemma stable_sort_unique:
  assumes "mset ys = mset zs" "sorted_by lt ys" "sorted_by lt zs"
    and "\<And>a. filter (tied lt a) ys = filter (tied lt a) zs"
  shows "ys = zs"
  using assms
proof (induction ys arbitrary: zs)
  case (Cons y ys)
  then obtain z zs' where zs: "zs = z # zs'" by (cases zs) auto
  have mem: "z \<in> set (y # ys)" "y \<in> set (z # zs')"
    using Cons.prems(1) zs by (metis list.set_intros(1) mset_eq_setD)+
  with Cons.prems(2,3) zs have "tied lt y z"
    by (auto simp: tied_def list_all_iff irrefl)
  then have "y = z"
    using Cons.prems(4) [of y] zs by (simp add: tied_refl)
  moreover have "ys = zs'"
  proof (rule Cons.IH)
    show "filter (tied lt a) ys = filter (tied lt a) zs'" for a
      using Cons.prems(4) [of a] zs \<open>y = z\<close> by (auto split: if_splits)
  qed (use Cons.prems zs \<open>y = z\<close> in auto)
  ultimately show ?case using zs by simp
qed simp

lemma slice_stable_unique:
  assumes "mset ys = mset xs" "sorted_by lt ys"
    and "\<And>a. filter (tied lt a) ys = filter (tied lt a) xs"
  shows "ys = slice_stable lt xs"
  by (rule stable_sort_unique) (use assms in \<open>auto simp: sorted_slice_stable stable_slice_stable\<close>)

text \<open>The insertion sort is stable too, hence the same function.\<close>

lemma mset_swap_left: "mset (swap_left lt p qs) = add_mset p (mset qs)"
  by (induction qs) auto

lemma filter_swap_left:
  "filter (tied lt a) (swap_left lt p qs) = filter (tied lt a) (p # qs)"
  by (induction qs) (auto simp: tied_def dest: trans neg_trans)

lemma sorted_swap_left: "sorted_by lt (rev qs) \<Longrightarrow> sorted_by lt (rev (swap_left lt p qs))"
proof (induction qs)
  case (Cons q qs)
  have set: "set (swap_left lt p qs) = insert p (set qs)"
    by (metis mset_swap_left set_mset_add_mset_insert set_mset_mset)
  have q: "\<not> lt q e" if "e \<in> set qs" for e
    using Cons.prems that by (auto simp: sorted_by_def sorted_wrt_append)
  show ?case
  proof (cases "lt p q")
    case True
    with Cons q set show ?thesis by (auto simp: sorted_by_def sorted_wrt_append asym)
  next
    case False
    with q have "\<not> lt p e" if "e \<in> set (q # qs)" for e
      using that neg_trans [of p q e] by auto
    with Cons.prems False show ?thesis by (auto simp: sorted_by_def sorted_wrt_append)
  qed
qed simp

lemma insertion_sort_snoc:
  "insertion_sort lt (xs @ [x]) = rev (swap_left lt x (rev (insertion_sort lt xs)))"
  by (simp add: insertion_sort_def)

lemma insertion_sort_eq: "insertion_sort lt xs = slice_stable lt xs"
proof (rule slice_stable_unique)
  show "mset (insertion_sort lt xs) = mset xs"
    by (induction xs rule: rev_induct)
       (simp_all add: insertion_sort_snoc mset_swap_left, simp add: insertion_sort_def)
  show "sorted_by lt (insertion_sort lt xs)"
    by (induction xs rule: rev_induct)
       (simp_all add: insertion_sort_snoc sorted_swap_left, simp add: insertion_sort_def)
  show "filter (tied lt a) (insertion_sort lt xs) = filter (tied lt a) xs" for a
    by (induction xs rule: rev_induct)
       (simp_all add: insertion_sort_snoc filter_swap_left flip: rev_filter, simp add: insertion_sort_def)
qed

text \<open>Sorted lists whose ties are equalities are determined by their elements.\<close>

lemma sort_unique:
  assumes "is_sort lt xs ys" "is_sort lt xs zs"
    and "\<And>a b. a \<in> set xs \<Longrightarrow> b \<in> set xs \<Longrightarrow> tied lt a b \<Longrightarrow> a = b"
  shows "ys = zs"
proof (rule stable_sort_unique)
  have m: "mset ys = mset xs" "mset zs = mset xs" using assms(1,2) by (auto simp: is_sort_def)
  then show "mset ys = mset zs" by simp
  have s: "set ys = set xs" "set zs = set xs" using m by (metis set_mset_mset)+
  show "filter (tied lt a) ys = filter (tied lt a) zs" for a
  proof (cases "\<exists>b \<in> set xs. tied lt a b")
    case True
    then obtain b where b: "b \<in> set xs" "tied lt a b" by blast
    have eq: "tied lt a c \<longleftrightarrow> c = b" if "c \<in> set xs" for c
      using that b assms(3) tied_trans by (metis tied_def)
    have "filter (tied lt a) ys = filter (\<lambda>c. c = b) ys"
      and "filter (tied lt a) zs = filter (\<lambda>c. c = b) zs"
      using s eq by (auto intro: filter_cong)
    moreover have "filter (\<lambda>c. c = b) vs = replicate (count (mset vs) b) b" for vs
      by (induction vs) auto
    ultimately show ?thesis using m by simp
  qed (use s in \<open>auto simp: filter_empty_conv\<close>)
qed (use assms in \<open>auto simp: is_sort_def\<close>)

end

text \<open>Comparing by a key in a linear order is such a comparison.\<close>

lemma strict_weak_order_key:
  fixes key :: "'a \<Rightarrow> 'b::linorder"
  assumes "\<And>a b. lt a b \<longleftrightarrow> key a < key b"
  shows "strict_weak_order lt"
  by unfold_locales (auto simp: assms)

end
