(* ===== verification/Domains.thy ===== *)
theory Domains
  imports Schema Sorting_Go
begin

text \<open>
  \<open>internal/domain/registry.go\<close>: the table of diagnostic domains and the searches in it. The table
  of prefixes is sorted at start-up by \<open>sort.Slice\<close>, which leaves the order of prefixes of equal
  length open; \<open>find_mapping\<close> takes the sorted table as an argument and the lemmas show that every
  sort gives the same answers. \<open>cloneDomain\<close> copies slices and is the identity on values.
\<close>

record domain =
  d_Name :: string
  d_Label :: string
  d_Target :: string
  d_Prefixes :: "string list"
  d_ScopePrefixes :: "string list"
  d_DefaultLayers :: "string list"
  d_TUIKey :: string
  d_TUIVisible :: bool

definition mk_domain ::
  "string \<Rightarrow> string \<Rightarrow> string \<Rightarrow> string list \<Rightarrow> string list \<Rightarrow> string list \<Rightarrow> string \<Rightarrow> bool \<Rightarrow> domain" where
  "mk_domain n l t ps sps ls k v =
     \<lparr>d_Name = n, d_Label = l, d_Target = t, d_Prefixes = ps, d_ScopePrefixes = sps,
      d_DefaultLayers = ls, d_TUIKey = k, d_TUIVisible = v\<rparr>"

lemma mk_domain_sel [simp]:
  "d_Name (mk_domain n l t ps sps ls k v) = n"
  "d_Prefixes (mk_domain n l t ps sps ls k v) = ps"
  "d_ScopePrefixes (mk_domain n l t ps sps ls k v) = sps"
  "d_DefaultLayers (mk_domain n l t ps sps ls k v) = ls"
  "d_TUIKey (mk_domain n l t ps sps ls k v) = k"
  "d_TUIVisible (mk_domain n l t ps sps ls k v) = v"
  by (simp_all add: mk_domain_def)

definition DomainRegistry :: "domain list" where
  "DomainRegistry =
    [mk_domain ''env'' ''Environment Variables'' ''environment''
       [''F-ENV-''] [''F-ENV-''] [''env''] ''1'' True,
     mk_domain ''ci'' ''CI/Local Parity'' ''CI pipeline''
       [''F-CI-''] [''F-CI-''] [''ci'', ''local''] ''2'' True,
     mk_domain ''containers'' ''Container Environment'' ''container environment''
       [''F-CONTAINER-'', ''F-DOCKER-'', ''F-PODMAN-'', ''F-COMPOSE-'']
       [''F-CONTAINER-'', ''F-DOCKER-'', ''F-PODMAN-'', ''F-COMPOSE-'']
       [''containers''] ''3'' True,
     mk_domain ''runtime'' ''Local Runtime'' ''local runtime''
       [''F-RUNTIME-'', ''F-DECL-''] [''F-RUNTIME-''] [''runtime''] ''4'' True,
     mk_domain ''gpu'' ''GPU/CUDA Diagnostics'' ''GPU/ML stack''
       [''F-GPU-'', ''F-CUDA-'', ''F-ML-'', ''F-DOCKER-GPU-'', ''F-AI-'']
       [''F-GPU-'', ''F-CUDA-'', ''F-ML-'', ''F-DOCKER-GPU-'']
       [''host'', ''runtime''] ''5'' True,
     mk_domain ''trace'' ''Process Trace'' ''process trace''
       [''F-TRACE-'', ''F-REPRO-''] [''F-TRACE-''] [''process''] ''6'' True,
     mk_domain ''network'' ''Network Services'' ''network services''
       [''F-PORT-'', ''F-NET-'', ''F-NETWORK-''] [''F-NET-''] [''network''] [] False,
     mk_domain ''security'' ''Security Posture'' ''security posture''
       [''F-SEC-'', ''F-SECURITY-''] [''F-SEC-''] [''security''] [] False,
     mk_domain ''cache'' ''Build Cache'' ''build cache''
       [''F-CACHE-''] [''F-CACHE-''] [''cache''] [] False,
     mk_domain ''filesystem'' ''File System & Permissions'' ''filesystem and permissions''
       [''F-DISK-'', ''F-FS-'', ''F-PERM-'', ''F-PERMISSION-'']
       [''F-DISK-'', ''F-FS-'', ''F-PERM-''] [''filesystem''] [] False,
     mk_domain ''git'' ''Git Repository'' ''repository''
       [''F-GIT-'', ''F-PM-''] [''F-GIT-'', ''F-PM-''] [''git''] [] False,
     mk_domain ''config'' ''Configuration'' ''configuration''
       [''F-CONFIG-''] [''F-CONFIG-''] [''config''] [] False,
     mk_domain ''host'' ''Host System'' ''host system''
       [''F-HOST-''] [''F-HOST-''] [''host''] [] False,
     mk_domain ''services'' ''System Services'' ''system services''
       [''F-SVC-''] [''F-SVC-''] [''services''] [] False]"

type_synonym prefix_mapping = "string \<times> domain"

definition prefixMappings :: "prefix_mapping list" where
  "prefixMappings =
     concat (map (\<lambda>d. map (\<lambda>p. (to_upper p, d)) (d_Prefixes d)) DomainRegistry)"

definition longerPrefix :: "prefix_mapping \<Rightarrow> prefix_mapping \<Rightarrow> bool" where
  "longerPrefix a b \<longleftrightarrow> length (fst a) > length (fst b)"

definition sortedPrefixMappings :: "prefix_mapping list" where
  "sortedPrefixMappings = slice_stable longerPrefix prefixMappings"

definition find_mapping :: "prefix_mapping list \<Rightarrow> string \<Rightarrow> domain option" where
  "find_mapping ms i =
     (let upperID = to_upper i
      in map_option snd (find (\<lambda>m. has_prefix upperID (fst m)) ms))"

definition FindDomainByFindingID :: "string \<Rightarrow> domain option" where
  "FindDomainByFindingID i = find_mapping sortedPrefixMappings i"

definition FindDomainByName :: "string \<Rightarrow> domain option" where
  "FindDomainByName name = find (\<lambda>d. equal_fold (d_Name d) name) DomainRegistry"

definition FindDomainByTUIKey :: "string \<Rightarrow> domain option" where
  "FindDomainByTUIKey key = find (\<lambda>d. d_TUIKey d = key) DomainRegistry"

definition GetTUIMappedDomains :: "domain list" where
  "GetTUIMappedDomains = filter (\<lambda>d. d_TUIVisible d \<and> d_TUIKey d \<noteq> []) DomainRegistry"

definition DomainPrefixes :: "string \<Rightarrow> string list" where
  "DomainPrefixes name = (case FindDomainByName name of None \<Rightarrow> [] | Some d \<Rightarrow> d_Prefixes d)"

definition DomainScopePrefixes :: "string \<Rightarrow> string list" where
  "DomainScopePrefixes name =
     (case FindDomainByName name of None \<Rightarrow> [] | Some d \<Rightarrow> d_ScopePrefixes d)"

section \<open>Longest-prefix matching\<close>

interpretation longer_prefix: strict_weak_order longerPrefix
  by unfold_locales (auto simp: longerPrefix_def)

lemma find_longest:
  assumes "sorted_by longerPrefix ms" "find P ms = Some m"
  shows "m \<in> set ms \<and> P m \<and> (\<forall>m' \<in> set ms. P m' \<longrightarrow> length (fst m') \<le> length (fst m))"
  using assms
  by (induction ms) (auto simp: longerPrefix_def list_all_iff not_less split: if_splits)

lemma distinct_prefixes: "distinct (map fst prefixMappings)"
  by code_simp

lemma prefix_mapping_unique:
  assumes "m \<in> set prefixMappings" "m' \<in> set prefixMappings"
    and "prefix (fst m) u" "prefix (fst m') u" "length (fst m) = length (fst m')"
  shows "m = m'"
proof -
  from assms(3-5) have "fst m = fst m'" by (metis prefix_length_prefix prefix_order.antisym order_refl)
  with assms(1,2) distinct_prefixes show ?thesis by (metis distinct_map inj_onD)
qed

lemma find_mapping_sort_independent:
  assumes "is_sort longerPrefix prefixMappings ms"
  shows "find_mapping ms i = FindDomainByFindingID i"
proof -
  let ?P = "\<lambda>m :: prefix_mapping. has_prefix (to_upper i) (fst m)"
  have ms: "sorted_by longerPrefix ms" "set ms = set prefixMappings"
    using assms by (auto simp: is_sort_def dest: mset_eq_setD)
  have ss: "sorted_by longerPrefix sortedPrefixMappings"
    "set sortedPrefixMappings = set prefixMappings"
    by (simp_all add: sortedPrefixMappings_def longer_prefix.sorted_slice_stable)
  have "find ?P ms = find ?P sortedPrefixMappings"
  proof (cases "find ?P ms")
    case None
    then show ?thesis using ms ss by (metis find_None_iff)
  next
    case (Some m)
    then obtain m' where m': "find ?P sortedPrefixMappings = Some m'"
      using ms ss find_longest by (metis find_None_iff not_None_eq)
    then have "m = m'"
      using find_longest [OF ms(1) Some] find_longest [OF ss(1) m'] ms(2) ss(2)
      by (metis prefix_mapping_unique le_antisym)
    with Some m' show ?thesis by simp
  qed
  then show ?thesis by (simp add: find_mapping_def FindDomainByFindingID_def Let_def)
qed

lemma mem_prefixMappings:
  "(p, d) \<in> set prefixMappings \<longleftrightarrow> d \<in> set DomainRegistry \<and> p \<in> to_upper ` set (d_Prefixes d)"
  by (auto simp: prefixMappings_def)

lemma registry_prefixes_upper:
  "d \<in> set DomainRegistry \<Longrightarrow> p \<in> set (d_Prefixes d) \<Longrightarrow> to_upper p = p"
proof -
  have "list_all (\<lambda>d. list_all (\<lambda>p. to_upper p = p) (d_Prefixes d)) DomainRegistry"
    by code_simp
  then show "d \<in> set DomainRegistry \<Longrightarrow> p \<in> set (d_Prefixes d) \<Longrightarrow> to_upper p = p"
    by (auto simp: list_all_iff)
qed

lemma FindDomain_registry: "FindDomainByFindingID i = Some d \<Longrightarrow> d \<in> set DomainRegistry"
proof -
  assume "FindDomainByFindingID i = Some d"
  then obtain m where "m \<in> set sortedPrefixMappings" "snd m = d"
    by (auto simp: FindDomainByFindingID_def find_mapping_def Let_def find_Some_iff)
      (metis nth_mem snd_conv)
  then show "d \<in> set DomainRegistry"
    using mem_prefixMappings [of "fst m" "snd m"] by (auto simp: sortedPrefixMappings_def)
qed

text \<open>
  \<open>FindDomainByFindingID\<close> returns a domain of the registry one of whose prefixes starts the
  upper-cased identifier, and no prefix of any domain that matches is longer.
\<close>

theorem FindDomain_longest_match:
  assumes "FindDomainByFindingID i = Some d"
  shows "d \<in> set DomainRegistry \<and>
    (\<exists>p \<in> set (d_Prefixes d). has_prefix (to_upper i) p \<and>
       (\<forall>d' \<in> set DomainRegistry. \<forall>p' \<in> set (d_Prefixes d').
          has_prefix (to_upper i) p' \<longrightarrow> length p' \<le> length p))"
proof -
  obtain p where f: "find (\<lambda>m. has_prefix (to_upper i) (fst m)) sortedPrefixMappings = Some (p, d)"
    using assms by (auto simp: FindDomainByFindingID_def find_mapping_def Let_def)
  have "sorted_by longerPrefix sortedPrefixMappings"
    "set sortedPrefixMappings = set prefixMappings"
    by (simp_all add: sortedPrefixMappings_def longer_prefix.sorted_slice_stable)
  with find_longest [OF _ f] have *: "(p, d) \<in> set prefixMappings" "has_prefix (to_upper i) p"
    "\<And>m. m \<in> set prefixMappings \<Longrightarrow> has_prefix (to_upper i) (fst m) \<Longrightarrow> length (fst m) \<le> length p"
    by auto
  then have d: "d \<in> set DomainRegistry" "p \<in> set (d_Prefixes d)"
    by (auto simp: mem_prefixMappings registry_prefixes_upper)
  have "length p' \<le> length p"
    if "d' \<in> set DomainRegistry" "p' \<in> set (d_Prefixes d')" "has_prefix (to_upper i) p'" for d' p'
    using *(3) [of "(p', d')"] that
    by (metis fst_conv imageI mem_prefixMappings registry_prefixes_upper)
  with d *(2) show ?thesis by blast
qed

theorem FindDomain_longest_match_witness:
  "\<exists>d. FindDomainByFindingID ''f-docker-gpu-002'' = Some d \<and> d_Name d = ''gpu'' \<and>
    d \<in> set DomainRegistry"
proof -
  have n: "map_option d_Name (FindDomainByFindingID ''f-docker-gpu-002'') = Some ''gpu''"
    by code_simp
  then obtain d where d: "FindDomainByFindingID ''f-docker-gpu-002'' = Some d" by auto
  from n d FindDomain_longest_match [OF d] show ?thesis by auto
qed

end
