(* ===== verification/Keyed_List.thy ===== *)
theory Keyed_List
  imports Prelude
begin

text \<open>
  The idiom \<open>seen := map[key]...; for x in xs { if seen ... }\<close> of the code: a list whose elements
  have distinct keys, into which elements are merged one by one. The locale \<open>keyed_merge\<close> states
  what a key and a merge must satisfy; \<open>keyed_cover\<close> adds a relation that merging preserves, so
  that nothing put in is lost. The aggregator and the baseline interpret them.
\<close>

definition upsert :: "('a \<Rightarrow> 'k) \<Rightarrow> ('a \<Rightarrow> 'a \<Rightarrow> 'a) \<Rightarrow> 'a \<Rightarrow> 'a list \<Rightarrow> 'a list" where
  "upsert key merge x xs =
     (if key x \<in> key ` set xs then map (\<lambda>y. if key y = key x then merge y x else y) xs
      else xs @ [x])"

definition upsert_all :: "('a \<Rightarrow> 'k) \<Rightarrow> ('a \<Rightarrow> 'a \<Rightarrow> 'a) \<Rightarrow> 'a list \<Rightarrow> 'a list \<Rightarrow> 'a list" where
  "upsert_all key merge xs acc = foldl (\<lambda>acc x. upsert key merge x acc) acc xs"

lemma upsert_all_simps [simp]:
  "upsert_all key merge [] acc = acc"
  "upsert_all key merge (x # xs) acc = upsert_all key merge xs (upsert key merge x acc)"
  by (simp_all add: upsert_all_def)

lemma upsert_fresh: "key x \<notin> key ` set xs \<Longrightarrow> upsert key merge x xs = xs @ [x]"
  by (simp add: upsert_def)

text \<open>With distinct keys, updating in place at the index of the key is \<open>upsert\<close>.\<close>

lemma upsert_at_index:
  assumes "distinct (map key xs)" "i < length xs" "key (xs ! i) = key x"
  shows "upsert key merge x xs = xs[i := merge (xs ! i) x]"
proof -
  have "key x \<in> key ` set xs" using assms(2,3) by (metis imageI nth_mem)
  moreover have "map (\<lambda>y. if key y = key x then merge y x else y) xs = xs[i := merge (xs ! i) x]"
  proof (rule nth_equalityI)
    fix j assume j: "j < length (map (\<lambda>y. if key y = key x then merge y x else y) xs)"
    then have "key (xs ! j) = key x \<longleftrightarrow> j = i"
      using assms nth_eq_iff_index_eq [OF assms(1), of j i] by simp
    with j show "map (\<lambda>y. if key y = key x then merge y x else y) xs ! j
        = xs[i := merge (xs ! i) x] ! j"
      by (auto simp: nth_list_update)
  qed simp
  ultimately show ?thesis by (simp add: upsert_def)
qed

locale keyed_merge =
  fixes key :: "'a \<Rightarrow> 'k" and merge :: "'a \<Rightarrow> 'a \<Rightarrow> 'a"
  assumes key_merge: "key a = key b \<Longrightarrow> key (merge a b) = key a"
begin

lemma keys_upsert:
  "map key (upsert key merge x xs) =
     (if key x \<in> key ` set xs then map key xs else map key xs @ [key x])"
  by (auto simp: upsert_def key_merge)

lemma key_set_upsert: "key ` set (upsert key merge x xs) = insert (key x) (key ` set xs)"
proof -
  have "key ` set (upsert key merge x xs) = set (map key (upsert key merge x xs))" by simp
  then show ?thesis by (auto simp: keys_upsert simp del: set_map split: if_splits) auto
qed

lemma distinct_upsert: "distinct (map key xs) \<Longrightarrow> distinct (map key (upsert key merge x xs))"
  by (auto simp: keys_upsert)

lemma distinct_upsert_all:
  "distinct (map key acc) \<Longrightarrow> distinct (map key (upsert_all key merge xs acc))"
  by (induction xs arbitrary: acc) (auto simp: distinct_upsert)

lemma key_set_upsert_all:
  "key ` set (upsert_all key merge xs acc) = key ` set acc \<union> key ` set xs"
  by (induction xs arbitrary: acc) (auto simp: key_set_upsert)

lemma upsert_all_distinct:
  "distinct (map key (acc @ xs)) \<Longrightarrow> upsert_all key merge xs acc = acc @ xs"
proof (induction xs arbitrary: acc)
  case (Cons x xs)
  then have "upsert key merge x acc = acc @ [x]"
    by (intro upsert_fresh) auto
  with Cons show ?case by simp
qed simp

end

locale keyed_cover = keyed_merge +
  fixes covers :: "'a \<Rightarrow> 'a \<Rightarrow> bool"
  assumes covers_refl: "covers x x"
    and covers_left: "key a = key b \<Longrightarrow> covers x a \<Longrightarrow> covers x (merge a b)"
    and covers_right: "key a = key b \<Longrightarrow> covers b (merge a b)"
begin

lemma cover_upsert_old:
  assumes "y \<in> set xs" "covers x y"
  shows "\<exists>z \<in> set (upsert key merge w xs). key z = key y \<and> covers x z"
proof (cases "key w = key y")
  case True
  then have "merge y w \<in> set (upsert key merge w xs)" using assms(1) by (auto simp: upsert_def)
  with True assms(2) show ?thesis by (metis covers_left key_merge)
next
  case False
  then have "y \<in> set (upsert key merge w xs)" using assms(1) by (auto simp: upsert_def)
  with assms(2) show ?thesis by blast
qed

lemma cover_upsert_new: "\<exists>z \<in> set (upsert key merge x xs). key z = key x \<and> covers x z"
proof (cases "key x \<in> key ` set xs")
  case True
  then obtain y where y: "y \<in> set xs" "key y = key x" by auto
  have "(\<lambda>y. if key y = key x then merge y x else y) y
      \<in> (\<lambda>y. if key y = key x then merge y x else y) ` set xs"
    using y(1) by (rule imageI)
  with True y(2) have "merge y x \<in> set (upsert key merge x xs)"
    by (simp add: upsert_def del: if_image_distrib)
  with y(2) show ?thesis by (metis covers_right key_merge)
qed (auto simp: upsert_def covers_refl)

lemma cover_upsert_all_old:
  "y \<in> set acc \<Longrightarrow> covers x y \<Longrightarrow>
   \<exists>z \<in> set (upsert_all key merge xs acc). key z = key y \<and> covers x z"
proof (induction xs arbitrary: acc y)
  case (Cons w xs)
  from cover_upsert_old [OF Cons.prems, of w] obtain z
    where z: "z \<in> set (upsert key merge w acc)" "key z = key y" "covers x z" by blast
  from Cons.IH [OF z(1,3)] z(2) show ?case by auto
qed auto

text \<open>Every element put in is covered by the element of its key.\<close>

lemma cover_upsert_all:
  "x \<in> set xs \<Longrightarrow> \<exists>z \<in> set (upsert_all key merge xs acc). key z = key x \<and> covers x z"
proof (induction xs arbitrary: acc)
  case (Cons w xs)
  show ?case
  proof (cases "x = w")
    case True
    obtain z where z: "z \<in> set (upsert key merge x acc)" "key z = key x" "covers x z"
      using cover_upsert_new by blast
    with cover_upsert_all_old [OF z(1,3), of xs] True show ?thesis by auto
  qed (use Cons in auto)
qed simp

end

section \<open>A list as a map from keys to elements\<close>

definition keyed_map :: "('a \<Rightarrow> 'k) \<Rightarrow> 'a list \<Rightarrow> ('k \<rightharpoonup> 'a)" where
  "keyed_map key xs = map_of (map (\<lambda>x. (key x, x)) xs)"

lemma keyed_map_None: "keyed_map key xs k = None \<longleftrightarrow> k \<notin> key ` set xs"
  by (force simp: keyed_map_def map_of_eq_None_iff)

lemma dom_keyed_map: "dom (keyed_map key xs) = key ` set xs"
proof -
  have "k \<in> dom (keyed_map key xs) \<longleftrightarrow> k \<in> key ` set xs" for k
    using keyed_map_None [of key xs k] by (simp add: domIff)
  then show ?thesis by blast
qed

lemma keyed_map_append: "keyed_map key (xs @ ys) = keyed_map key ys ++ keyed_map key xs"
  by (simp add: keyed_map_def)

lemma keyed_map_Cons: "keyed_map key (x # xs) = (keyed_map key xs)(key x \<mapsto> x)"
  by (simp add: keyed_map_def)

lemma keyed_map_Nil [simp]: "keyed_map key [] = Map.empty"
  by (simp add: keyed_map_def)

lemma keyed_map_replace:
  "distinct (map key xs) \<Longrightarrow> key x \<in> key ` set xs \<Longrightarrow>
   keyed_map key (map (\<lambda>y. if key y = key x then x else y) xs) = (keyed_map key xs)(key x \<mapsto> x)"
proof (induction xs)
  case (Cons y ys)
  then show ?case
  proof (cases "key y = key x")
    case True
    then have "\<forall>z \<in> set ys. key z \<noteq> key x" using Cons.prems(1) by (force simp: image_iff)
    then have "map (\<lambda>y. if key y = key x then x else y) ys = ys" by (auto intro: map_idI)
    with True show ?thesis by (simp add: keyed_map_Cons fun_eq_iff)
  qed (auto simp: keyed_map_Cons fun_upd_twist)
qed simp

lemma keyed_map_upsert:
  assumes "distinct (map key xs)"
  shows "keyed_map key (upsert key (\<lambda>_ x. x) x xs) = (keyed_map key xs)(key x \<mapsto> x)"
proof (cases "key x \<in> key ` set xs")
  case False
  have "keyed_map key (xs @ [x]) k = ((keyed_map key xs)(key x \<mapsto> x)) k" for k
  proof (cases "k = key x")
    case True
    with False have "keyed_map key xs k = None" by (simp add: keyed_map_None)
    with True show ?thesis
      by (simp add: keyed_map_append keyed_map_Cons map_add_def)
  qed (auto simp: keyed_map_append keyed_map_Cons map_add_def split: option.split)
  with False show ?thesis by (auto simp: upsert_def)
qed (auto simp: upsert_def keyed_map_replace assms)

lemma keyed_map_filter:
  "keyed_map key (filter (\<lambda>y. key y \<noteq> k) xs) = (keyed_map key xs)(k := None)"
  by (induction xs) (auto simp: keyed_map_Cons fun_upd_twist)

text \<open>
  The contract of a store of elements with distinct keys: \<open>put\<close> replaces or appends, \<open>del\<close> drops.
  It follows that the store is a map that both operations update as a map is updated.
\<close>

locale keyed_store =
  fixes entries :: "'s \<Rightarrow> 'a list" and key :: "'a \<Rightarrow> 'k"
    and put :: "'a \<Rightarrow> 's \<Rightarrow> 's" and del :: "'k \<Rightarrow> 's \<Rightarrow> 's"
  assumes put_entries: "distinct (map key (entries s)) \<Longrightarrow>
      entries (put a s) = upsert key (\<lambda>_ x. x) a (entries s)"
    and del_entries: "distinct (map key (entries s)) \<Longrightarrow>
      entries (del k s) = filter (\<lambda>x. key x \<noteq> k) (entries s)"
begin

lemma distinct_put:
  assumes "distinct (map key (entries s))"
  shows "distinct (map key (entries (put a s)))"
proof -
  have "keyed_merge key (\<lambda>_ x. x)" by unfold_locales simp
  from keyed_merge.distinct_upsert [OF this assms] show ?thesis using assms by (simp add: put_entries)
qed

lemma distinct_del:
  "distinct (map key (entries s)) \<Longrightarrow> distinct (map key (entries (del k s)))"
  by (simp add: del_entries distinct_map_filter)

lemma map_put:
  "distinct (map key (entries s)) \<Longrightarrow>
   keyed_map key (entries (put a s)) = (keyed_map key (entries s))(key a \<mapsto> a)"
  by (simp add: put_entries keyed_map_upsert)

lemma map_del:
  "distinct (map key (entries s)) \<Longrightarrow>
   keyed_map key (entries (del k s)) = (keyed_map key (entries s))(k := None)"
  by (simp add: del_entries keyed_map_filter)

end

end
