(* ===== verification/Aggregator.thy ===== *)
theory Aggregator
  imports Domains Keyed_List
begin

text \<open>
  \<open>internal/findings/aggregator.go\<close>: findings are normalised, merged by fingerprint and sorted by
  severity, then confidence. The loop of \<open>Add\<close> keeps the index of each fingerprint; it is shown
  to be the merge of \<open>Keyed_List\<close>, whose contract gives the facts about the result.
\<close>

fun severityRank :: "severity \<Rightarrow> nat" where
  "severityRank s =
     (if s = SeverityCritical then 0 else if s = SeverityHigh then 1
      else if s = SeverityMedium then 2 else if s = SeverityLow then 3
      else if s = SeverityInfo then 4 else 5)"

declare severityRank.simps [simp del]

definition ranksBefore :: "finding \<Rightarrow> finding \<Rightarrow> bool" where
  "ranksBefore a b =
     (let ai = severityRank (f_Severity a); bi = severityRank (f_Severity b)
      in if ai \<noteq> bi then ai < bi else f_Confidence a > f_Confidence b)"

definition evidenceBefore :: "evidence \<Rightarrow> evidence \<Rightarrow> bool" where
  "evidenceBefore a b =
     (if ev_Source a \<noteq> ev_Source b then ev_Source a < ev_Source b else ev_Value a < ev_Value b)"

definition evidenceKey :: "evidence \<Rightarrow> string" where
  "evidenceKey e = ev_Source e @ [CHR 0x00] @ ev_Value e"

fun dedupEvidence :: "string list \<Rightarrow> evidence list \<Rightarrow> evidence list" where
  "dedupEvidence seen [] = []"
| "dedupEvidence seen (e # es) =
     (if evidenceKey e \<in> set seen then dedupEvidence seen es
      else e # dedupEvidence (evidenceKey e # seen) es)"

definition mergeEvidence :: "evidence list \<Rightarrow> evidence list \<Rightarrow> evidence list" where
  "mergeEvidence left right = slice_stable evidenceBefore (dedupEvidence [] (left @ right))"

definition mergeFinding :: "finding \<Rightarrow> finding \<Rightarrow> finding" where
  "mergeFinding existing nxt =
     (if ranksBefore nxt existing
      then nxt\<lparr>f_Evidence := mergeEvidence (f_Evidence existing) (f_Evidence nxt)\<rparr>
      else existing\<lparr>f_Evidence := mergeEvidence (f_Evidence existing) (f_Evidence nxt)\<rparr>)"

definition findingFingerprint :: "finding \<Rightarrow> string" where
  "findingFingerprint f = join [CHR 0x00] [f_ID f, f_Title f, f_Symptom f]"

definition defaultLayers :: "string \<Rightarrow> string list" where
  "defaultLayers i =
     (case FindDomainByFindingID i of Some d \<Rightarrow> d_DefaultLayers d | None \<Rightarrow> [''diagnostic''])"

definition normalizeFinding :: "finding \<Rightarrow> finding" where
  "normalizeFinding f =
     (let f = (if f_Layers f = [] then f\<lparr>f_Layers := defaultLayers (f_ID f)\<rparr> else f);
          f = (if f_RedactionStatus f = [] then f\<lparr>f_RedactionStatus := ''default''\<rparr> else f);
          f = (if f_Fixes f = []
               then f\<lparr>f_Fixes := [\<lparr>fx_Class = FixManual,
                  fx_Title = ''Review the finding and apply the recommended remediation'',
                  fx_Commands = [], fx_Rollback = []\<rparr>]\<rparr> else f)
      in f)"

text \<open>The loop of \<open>Add\<close>: \<open>deduped\<close> and the index in it of every fingerprint \<open>seen\<close>.\<close>

fun Add_loop :: "finding list \<Rightarrow> finding list \<Rightarrow> (string \<rightharpoonup> nat) \<Rightarrow> finding list" where
  "Add_loop [] deduped seen = deduped"
| "Add_loop (finding # rest) deduped seen =
     (let normalized = normalizeFinding finding;
          key = findingFingerprint normalized
      in case seen key of
           Some existingIdx \<Rightarrow>
             Add_loop rest
               (deduped[existingIdx := mergeFinding (deduped ! existingIdx) normalized]) seen
         | None \<Rightarrow>
             Add_loop rest (deduped @ [normalized]) (seen(key \<mapsto> length deduped)))"

definition Aggregator_Add :: "finding list \<Rightarrow> finding list" where
  "Aggregator_Add findings = slice_stable ranksBefore (Add_loop findings [] Map.empty)"

section \<open>The comparisons are strict weak orders\<close>

interpretation ranks: strict_weak_order ranksBefore
  by unfold_locales (auto simp: ranksBefore_def Let_def split: if_splits)

interpretation ev_order: strict_weak_order evidenceBefore
  by unfold_locales (auto simp: evidenceBefore_def split: if_splits)

section \<open>Merging evidence\<close>

lemma dedupEvidence_keys:
  "evidenceKey ` set (dedupEvidence seen es) = evidenceKey ` set es - set seen"
  by (induction seen es rule: dedupEvidence.induct) auto

lemma dedupEvidence_distinct:
  "distinct (map evidenceKey (dedupEvidence seen es))"
proof (induction seen es rule: dedupEvidence.induct)
  case (2 seen e es)
  then show ?case
    using dedupEvidence_keys [of "evidenceKey e # seen" es] by auto
qed simp

lemma mergeEvidence_keys:
  "evidenceKey ` set (mergeEvidence l r) = evidenceKey ` set l \<union> evidenceKey ` set r"
  by (simp add: mergeEvidence_def dedupEvidence_keys image_Un)

lemma mergeFinding_sel [simp]:
  "f_Evidence (mergeFinding a b) = mergeEvidence (f_Evidence a) (f_Evidence b)"
  by (simp add: mergeFinding_def)

lemma ranksBefore_evidence [simp]:
  "ranksBefore (a\<lparr>f_Evidence := e\<rparr>) b = ranksBefore a b"
  "ranksBefore a (b\<lparr>f_Evidence := e\<rparr>) = ranksBefore a b"
  by (simp_all add: ranksBefore_def)

lemma fingerprint_merge:
  "findingFingerprint a = findingFingerprint b \<Longrightarrow>
   findingFingerprint (mergeFinding a b) = findingFingerprint a"
  by (simp add: mergeFinding_def findingFingerprint_def)

text \<open>One finding covers another when it ranks no later and holds all its evidence.\<close>

definition subsumes :: "finding \<Rightarrow> finding \<Rightarrow> bool" where
  "subsumes x y \<longleftrightarrow> \<not> ranksBefore x y \<and>
     evidenceKey ` set (f_Evidence x) \<subseteq> evidenceKey ` set (f_Evidence y)"

interpretation agg: keyed_cover findingFingerprint mergeFinding subsumes
proof unfold_locales
  fix a b x :: finding
  show "findingFingerprint a = findingFingerprint b \<Longrightarrow>
      findingFingerprint (mergeFinding a b) = findingFingerprint a"
    by (rule fingerprint_merge)
  show "subsumes x x" by (simp add: subsumes_def ranks.irrefl)
  assume s: "subsumes x a"
  then have "\<not> ranksBefore x b" if "ranksBefore b a"
    using that s ranks.trans unfolding subsumes_def by blast
  with s show "subsumes x (mergeFinding a b)"
    by (auto simp: subsumes_def mergeEvidence_keys mergeFinding_def)
next
  fix a b :: finding
  show "subsumes b (mergeFinding a b)"
    by (auto simp: subsumes_def mergeEvidence_keys mergeFinding_def ranks.irrefl)
qed

section \<open>The loop is a keyed merge\<close>

text \<open>What \<open>seen\<close> knows: the index of every fingerprint in \<open>deduped\<close>, and nothing else.\<close>

definition seen_inv :: "finding list \<Rightarrow> (string \<rightharpoonup> nat) \<Rightarrow> bool" where
  "seen_inv ds seen \<longleftrightarrow> distinct (map findingFingerprint ds) \<and>
     (\<forall>k i. seen k = Some i \<longleftrightarrow> i < length ds \<and> findingFingerprint (ds ! i) = k)"

lemma seen_inv_None:
  assumes "seen_inv ds seen"
  shows "seen k = None \<longleftrightarrow> k \<notin> findingFingerprint ` set ds"
proof -
  have "seen k \<noteq> None \<longleftrightarrow> (\<exists>i < length ds. findingFingerprint (ds ! i) = k)"
    using assms by (auto simp: seen_inv_def simp flip: not_None_eq)
  moreover have "k \<in> findingFingerprint ` set ds \<longleftrightarrow>
      (\<exists>i < length ds. findingFingerprint (ds ! i) = k)"
    by (metis (no_types) image_iff in_set_conv_nth)
  ultimately show ?thesis by blast
qed

lemma seen_inv_update:
  assumes "seen_inv ds seen" "seen (findingFingerprint f) = Some i"
  shows "seen_inv (ds[i := mergeFinding (ds ! i) f]) seen"
proof -
  let ?m = "mergeFinding (ds ! i) f"
  have i: "i < length ds" "findingFingerprint (ds ! i) = findingFingerprint f"
    using assms by (auto simp: seen_inv_def)
  then have fp: "findingFingerprint ?m = findingFingerprint (ds ! i)"
    by (simp add: fingerprint_merge)
  have "map findingFingerprint (ds[i := ?m]) = map findingFingerprint ds"
    using i fp by (metis list_update_id map_update)
  moreover have "findingFingerprint (ds[i := ?m] ! j) = findingFingerprint (ds ! j)"
    if "j < length ds" for j using that i fp by (cases "i = j") simp_all
  ultimately show ?thesis using assms(1) by (auto simp: seen_inv_def)
qed

lemma seen_inv_append:
  assumes "seen_inv ds seen" "seen (findingFingerprint f) = None"
  shows "seen_inv (ds @ [f]) (seen(findingFingerprint f \<mapsto> length ds))"
proof -
  have "findingFingerprint f \<notin> findingFingerprint ` set ds"
    using assms seen_inv_None by blast
  moreover from this have "findingFingerprint (ds ! j) \<noteq> findingFingerprint f"
    if "j < length ds" for j using that by (metis imageI nth_mem)
  ultimately show ?thesis using assms(1)
    by (auto simp: seen_inv_def nth_append less_Suc_eq)
qed

lemma Add_loop_refines:
  "seen_inv ds seen \<Longrightarrow>
   Add_loop fs ds seen = upsert_all findingFingerprint mergeFinding (map normalizeFinding fs) ds"
proof (induction fs ds seen rule: Add_loop.induct)
  case (2 finding rest ds seen)
  let ?n = "normalizeFinding finding"
  show ?case
  proof (cases "seen (findingFingerprint ?n)")
    case None
    then have "upsert findingFingerprint mergeFinding ?n ds = ds @ [?n]"
      using seen_inv_None [OF "2.prems"] by (intro upsert_fresh) blast
    with None 2 show ?thesis
      using seen_inv_append [OF "2.prems" None] by (simp add: Let_def fun_upd_def)
  next
    case (Some i)
    then have "upsert findingFingerprint mergeFinding ?n ds = ds[i := mergeFinding (ds ! i) ?n]"
      using 2 by (intro upsert_at_index) (auto simp: seen_inv_def)
    with Some 2 show ?thesis by (simp add: Let_def seen_inv_update)
  qed
qed simp

lemma Add_loop_eq:
  "Add_loop fs [] Map.empty = upsert_all findingFingerprint mergeFinding (map normalizeFinding fs) []"
  by (rule Add_loop_refines) (simp add: seen_inv_def)

section \<open>Properties of \<open>Add\<close>\<close>

lemma set_Aggregator_Add: "set (Aggregator_Add fs) = set (Add_loop fs [] Map.empty)"
  by (simp add: Aggregator_Add_def)

lemma Aggregator_Add_distinct: "distinct (map findingFingerprint (Aggregator_Add fs))"
proof -
  have "distinct (map findingFingerprint (Add_loop fs [] Map.empty))"
    by (simp add: Add_loop_eq agg.distinct_upsert_all)
  moreover have "mset (map findingFingerprint (Aggregator_Add fs))
      = mset (map findingFingerprint (Add_loop fs [] Map.empty))"
    by (simp add: Aggregator_Add_def)
  ultimately show ?thesis by (metis mset_eq_imp_distinct_iff)
qed

text \<open>What normalisation leaves non-empty in every finding, and so in every reported one.\<close>

definition normalized :: "finding \<Rightarrow> bool" where
  "normalized f \<longleftrightarrow> f_Layers f \<noteq> [] \<and> f_RedactionStatus f \<noteq> [] \<and> f_Fixes f \<noteq> []"

lemma registry_layers: "d \<in> set DomainRegistry \<Longrightarrow> d_DefaultLayers d \<noteq> []"
proof -
  have "list_all (\<lambda>d. d_DefaultLayers d \<noteq> []) DomainRegistry" by code_simp
  then show "d \<in> set DomainRegistry \<Longrightarrow> d_DefaultLayers d \<noteq> []" by (auto simp: list_all_iff)
qed

lemma defaultLayers_not_Nil [simp]: "defaultLayers i \<noteq> []"
  using FindDomain_registry [of i] registry_layers
  by (auto simp: defaultLayers_def split: option.split)

lemma normalized_normalize [simp]: "normalized (normalizeFinding f)"
  by (simp add: normalized_def normalizeFinding_def Let_def)

lemma normalize_id: "normalized f \<Longrightarrow> normalizeFinding f = f"
  by (simp add: normalized_def normalizeFinding_def Let_def)

lemma normalized_merge: "normalized a \<Longrightarrow> normalized b \<Longrightarrow> normalized (mergeFinding a b)"
  by (simp add: normalized_def mergeFinding_def)

lemma normalized_upsert_all:
  "\<forall>f \<in> set acc. normalized f \<Longrightarrow> \<forall>f \<in> set xs. normalized f \<Longrightarrow>
   f \<in> set (upsert_all findingFingerprint mergeFinding xs acc) \<Longrightarrow> normalized f"
proof (induction xs arbitrary: acc)
  case (Cons x xs)
  have "\<forall>f \<in> set (upsert findingFingerprint mergeFinding x acc). normalized f"
    using Cons.prems(1,2) by (auto simp: upsert_def normalized_merge)
  with Cons show ?case by simp
qed simp

lemma Add_normalized: "f \<in> set (Aggregator_Add fs) \<Longrightarrow> normalized f"
  using normalized_upsert_all [of "[]" "map normalizeFinding fs" f]
  by (simp add: set_Aggregator_Add Add_loop_eq)

text \<open>
  C6: the report lists every fingerprint once, in an order no finding of which is ranked before an
  earlier one, and every listed finding has layers, a redaction status and a fix.
\<close>

theorem Add_sorted_deduplicated:
  "sorted_by ranksBefore (Aggregator_Add fs) \<and>
   distinct (map findingFingerprint (Aggregator_Add fs)) \<and>
   findingFingerprint ` set (Aggregator_Add fs) = findingFingerprint ` set (map normalizeFinding fs) \<and>
   list_all normalized (Aggregator_Add fs)"
proof (intro conjI)
  show "sorted_by ranksBefore (Aggregator_Add fs)"
    by (simp add: Aggregator_Add_def ranks.sorted_slice_stable)
  show "findingFingerprint ` set (Aggregator_Add fs)
      = findingFingerprint ` set (map normalizeFinding fs)"
    using agg.key_set_upsert_all [of "map normalizeFinding fs" "[]"]
    by (simp add: set_Aggregator_Add Add_loop_eq)
qed (auto simp: Aggregator_Add_distinct list_all_iff Add_normalized)

text \<open>The evidence of a merge is evidence of what was merged.\<close>

lemma dedupEvidence_subset: "set (dedupEvidence seen es) \<subseteq> set es"
  by (induction seen es rule: dedupEvidence.induct) auto

lemma mergeEvidence_subset: "set (mergeEvidence l r) \<subseteq> set l \<union> set r"
  using dedupEvidence_subset [of "[]" "l @ r"] by (simp add: mergeEvidence_def)

lemma upsert_all_evidence:
  "\<forall>h \<in> set acc. set (f_Evidence h) \<subseteq> E \<Longrightarrow> \<forall>h \<in> set xs. set (f_Evidence h) \<subseteq> E \<Longrightarrow>
   h \<in> set (upsert_all findingFingerprint mergeFinding xs acc) \<Longrightarrow> set (f_Evidence h) \<subseteq> E"
proof (induction xs arbitrary: acc)
  case (Cons x xs)
  have m: "set (f_Evidence (mergeFinding a x)) \<subseteq> E" if "a \<in> set acc" for a
    using mergeEvidence_subset [of "f_Evidence a" "f_Evidence x"] Cons.prems(1,2) that by auto
  have "\<forall>h \<in> set (upsert findingFingerprint mergeFinding x acc). set (f_Evidence h) \<subseteq> E"
  proof
    fix h assume "h \<in> set (upsert findingFingerprint mergeFinding x acc)"
    then consider "h \<in> set acc" | "h = x" | a where "a \<in> set acc" "h = mergeFinding a x"
      by (auto simp: upsert_def split: if_splits)
    then show "set (f_Evidence h) \<subseteq> E" using Cons.prems(1,2) m by cases auto
  qed
  with Cons show ?case by simp
qed simp

lemma Add_evidence:
  assumes "g \<in> set (Aggregator_Add fs)" "e \<in> set (f_Evidence g)"
  shows "\<exists>f \<in> set fs. e \<in> set (f_Evidence f)"
proof -
  have "f_Evidence (normalizeFinding f) = f_Evidence f" for f by (simp add: normalizeFinding_def Let_def)
  then have "set (f_Evidence g) \<subseteq> (\<Union>f \<in> set fs. set (f_Evidence f))"
    using assms(1) upsert_all_evidence [of "[]" "\<Union>f \<in> set fs. set (f_Evidence f)" "map normalizeFinding fs" g]
    by (auto simp: set_Aggregator_Add Add_loop_eq)
  with assms(2) show ?thesis by blast
qed

lemma evidenceKey_inj:
  assumes "evidenceKey a = evidenceKey b" "CHR 0x00 \<notin> set (ev_Source a)" "CHR 0x00 \<notin> set (ev_Source b)"
  shows "ev_Source a = ev_Source b \<and> ev_Value a = ev_Value b"
proof -
  have "takeWhile (\<lambda>c. c \<noteq> CHR 0x00) (s @ [CHR 0x00] @ v) = s" if "CHR 0x00 \<notin> set s" for s v :: string
    using that by (induction s) auto
  with assms have "ev_Source a = ev_Source b" unfolding evidenceKey_def by metis
  with assms(1) show ?thesis by (simp add: evidenceKey_def)
qed

definition finding_example :: "severity \<Rightarrow> rat \<Rightarrow> string \<Rightarrow> finding" where
  "finding_example s c v = zero_finding\<lparr>f_ID := ''F-GIT-001'', f_Severity := s,
     f_Confidence := c, f_Evidence := [mk_ev ''git'' v]\<rparr>"

text \<open>
  C7: nothing is lost by merging: every finding added is represented in the report by one of the
  same fingerprint that ranks no later and holds each of its pieces of evidence, source and value, as long as
  the name of no source holds a zero byte, which separates the two in the keys of the code. And nothing
  is made up: each piece of evidence in the report is that of a finding that was added.
\<close>

theorem Add_covers:
  assumes f: "f \<in> set fs"
    and nul: "\<forall>h \<in> set fs. \<forall>e \<in> set (f_Evidence h). CHR 0x00 \<notin> set (ev_Source e)"
  shows "(\<exists>g \<in> set (Aggregator_Add fs).
      findingFingerprint g = findingFingerprint (normalizeFinding f) \<and> \<not> ranksBefore f g \<and>
      set (f_Evidence f) \<subseteq> set (f_Evidence g)) \<and>
    (\<forall>g \<in> set (Aggregator_Add fs). \<forall>e \<in> set (f_Evidence g). \<exists>h \<in> set fs. e \<in> set (f_Evidence h))"
proof
  have "normalizeFinding f \<in> set (map normalizeFinding fs)" using f by simp
  from agg.cover_upsert_all [OF this, of "[]"] obtain g
    where g: "g \<in> set (Aggregator_Add fs)"
      "findingFingerprint g = findingFingerprint (normalizeFinding f)"
      "subsumes (normalizeFinding f) g"
    by (auto simp: set_Aggregator_Add Add_loop_eq)
  moreover have "subsumes (normalizeFinding f) g \<longleftrightarrow> subsumes f g"
    by (simp add: subsumes_def ranksBefore_def normalizeFinding_def Let_def)
  ultimately have s: "\<not> ranksBefore f g" "evidenceKey ` set (f_Evidence f) \<subseteq> evidenceKey ` set (f_Evidence g)"
    by (simp_all add: subsumes_def)
  have "e \<in> set (f_Evidence g)" if e: "e \<in> set (f_Evidence f)" for e
  proof -
    from s(2) e obtain e' where e': "e' \<in> set (f_Evidence g)" "evidenceKey e = evidenceKey e'" by blast
    from Add_evidence [OF g(1) e'(1)] nul have "CHR 0x00 \<notin> set (ev_Source e')" by blast
    with e f nul e'(2) have "ev_Source e = ev_Source e' \<and> ev_Value e = ev_Value e'"
      by (intro evidenceKey_inj) auto
    then have "e = e'" by (intro evidence.equality) auto
    with e'(1) show ?thesis by simp
  qed
  with g(1,2) s(1) show "\<exists>g \<in> set (Aggregator_Add fs). findingFingerprint g = findingFingerprint (normalizeFinding f) \<and>
      \<not> ranksBefore f g \<and> set (f_Evidence f) \<subseteq> set (f_Evidence g)" by blast
  show "\<forall>g \<in> set (Aggregator_Add fs). \<forall>e \<in> set (f_Evidence g). \<exists>h \<in> set fs. e \<in> set (f_Evidence h)"
    using Add_evidence by blast
qed

theorem Add_covers_witness:
  "\<exists>g \<in> set (Aggregator_Add [finding_example SeverityLow (1/2) ''a'',
      finding_example SeverityHigh (7/10) ''b'']).
    \<not> ranksBefore (finding_example SeverityHigh (7/10) ''b'') g \<and> mk_ev ''git'' ''b'' \<in> set (f_Evidence g)"
proof -
  let ?l = "finding_example SeverityLow (1/2) ''a''" and ?h = "finding_example SeverityHigh (7/10) ''b''"
  have "\<forall>h \<in> set [?l, ?h]. \<forall>e \<in> set (f_Evidence h). CHR 0x00 \<notin> set (ev_Source e)"
    by (simp add: finding_example_def mk_ev_def)
  from Add_covers [OF _ this, of ?h] show ?thesis by (auto simp: finding_example_def)
qed

text \<open>
  Aggregating a report again changes nothing, so a saved report can be re-aggregated.
\<close>

theorem Add_idempotent: "Aggregator_Add (Aggregator_Add fs) = Aggregator_Add fs"
proof -
  let ?r = "Aggregator_Add fs"
  have "map normalizeFinding ?r = ?r"
    by (rule map_idI) (simp add: normalize_id Add_normalized)
  moreover have "upsert_all findingFingerprint mergeFinding ?r [] = ?r"
    using agg.upsert_all_distinct [of "[]" ?r] Aggregator_Add_distinct [of fs] by simp
  ultimately have "Aggregator_Add ?r = slice_stable ranksBefore ?r"
    by (simp add: Aggregator_Add_def Add_loop_eq)
  then show ?thesis
    by (simp add: Aggregator_Add_def slice_stable_id ranks.sorted_slice_stable)
qed

end
