(* ===== verification/Baseline.thy ===== *)
theory Baseline
  imports Schema Sorting_Go Keyed_List
begin

text \<open>
  \<open>internal/baseline/baseline.go\<close>: the file of accepted findings, its validation, the operations on
  its entries and the expiry durations. SHA-256 is the parameter \<open>sha256_hex\<close>, the lower-case
  hexadecimal digest of a byte string; loading and saving the file are in
  \<open>Baseline_Command\<close>. A nil \<open>*Baseline\<close> is \<open>None\<close>. A \<open>time.Time\<close> counts nanoseconds from Go's zero time,
  so \<open>IsZero\<close> is \<open>= 0\<close>; a \<open>time.Duration\<close> is a signed 64-bit count and its products wrap.
\<close>

record baseline_entry =
  b_ID :: string
  b_Reason :: string
  b_ExpiresAt :: "time option"
  b_CreatedAt :: time
  b_CreatedBy :: string
  b_Fingerprint :: string

record baseline =
  b_SchemaVersion :: string
  b_Entries :: "baseline_entry list"

record create_options =
  o_Reason :: string
  o_CreatedAt :: time
  o_CreatedBy :: string
  o_ExpiresAt :: "time option"
  o_MinSeverity :: severity
  o_UseFingerprint :: bool

datatype baseline_error =
    UnsupportedSchema string
  | EntryEmptyID nat
  | EntryZeroCreatedAt nat string
  | EntryInvalidFingerprint nat string
  | NilBaseline
  | EmptyID
  | EmptyReason
  | InvalidFingerprint string
  | EmptyExpiry
  | InvalidExpiry string
  | ExpiryNotPositive string
  | ExpiryUnit string

definition baselineSchemaVersion :: string where
  "baselineSchemaVersion = ''devdiag.baseline/v1''"

fun baseline_severityRank :: "severity \<Rightarrow> int" where
  "baseline_severityRank s =
     (if s = SeverityCritical then 4 else if s = SeverityHigh then 3
      else if s = SeverityMedium then 2 else if s = SeverityLow then 1
      else if s = SeverityInfo then 0 else - 1)"

declare baseline_severityRank.simps [simp del]

definition Fingerprint :: "(string \<Rightarrow> string) \<Rightarrow> finding \<Rightarrow> string" where
  "Fingerprint sha256_hex f =
     sha256_hex (to_upper (trim_space (f_ID f)) @ [CHR 0x0A] @ f_Symptom f)"

definition hex_digit :: "char \<Rightarrow> bool" where
  "hex_digit c \<longleftrightarrow> (CHR ''0'' \<le> c \<and> c \<le> CHR ''9'') \<or> (CHR ''a'' \<le> c \<and> c \<le> CHR ''f'')"

definition IsValidFingerprint :: "string \<Rightarrow> bool" where
  "IsValidFingerprint v \<longleftrightarrow> length v = 64 \<and> list_all hex_digit v"

fun validate_entries :: "nat \<Rightarrow> baseline_entry list \<Rightarrow> baseline_error option" where
  "validate_entries i [] = None"
| "validate_entries i (e # es) =
     (if trim_space (b_ID e) = [] then Some (EntryEmptyID i)
      else if b_CreatedAt e = 0 then Some (EntryZeroCreatedAt i (b_ID e))
      else if b_Fingerprint e \<noteq> [] \<and> \<not> IsValidFingerprint (b_Fingerprint e)
        then Some (EntryInvalidFingerprint i (b_ID e))
      else validate_entries (Suc i) es)"

definition baseline_validate :: "baseline \<Rightarrow> baseline_error option" where
  "baseline_validate b =
     (if b_SchemaVersion b \<noteq> baselineSchemaVersion
      then Some (UnsupportedSchema (b_SchemaVersion b))
      else validate_entries 0 (b_Entries b))"

definition expired :: "baseline_entry \<Rightarrow> time \<Rightarrow> bool" where
  "expired e now = (case b_ExpiresAt e of None \<Rightarrow> False | Some t \<Rightarrow> t < now)"

fun prune_loop :: "time \<Rightarrow> baseline_entry list \<Rightarrow> baseline_entry list \<Rightarrow> nat
    \<Rightarrow> baseline_entry list \<times> nat" where
  "prune_loop now [] active pruned = (active, pruned)"
| "prune_loop now (e # es) active pruned =
     (if expired e now then prune_loop now es active (Suc pruned)
      else prune_loop now es (active @ [e]) pruned)"

definition Baseline_Prune :: "baseline option \<Rightarrow> time \<Rightarrow> baseline option \<times> nat" where
  "Baseline_Prune b now =
     (case b of None \<Rightarrow> (None, 0)
      | Some b \<Rightarrow>
          (case prune_loop now (b_Entries b) [] 0 of
             (active, pruned) \<Rightarrow> (Some (b\<lparr>b_Entries := active\<rparr>), pruned)))"

definition ActiveEntries :: "baseline option \<Rightarrow> time \<Rightarrow> baseline_entry list" where
  "ActiveEntries b now =
     (case b of None \<Rightarrow> [] | Some b \<Rightarrow> filter (\<lambda>e. \<not> expired e now) (b_Entries b))"

text \<open>The entry \<open>Add\<close> stores: trimmed, with the identifier in upper case and a creation time.\<close>

definition normalize_entry :: "baseline_entry \<Rightarrow> baseline_entry" where
  "normalize_entry e =
     e\<lparr>b_ID := to_upper (trim_space (b_ID e)), b_Reason := trim_space (b_Reason e),
       b_CreatedBy := trim_space (b_CreatedBy e)\<rparr>"

fun replace_first_entry :: "baseline_entry \<Rightarrow> baseline_entry list \<Rightarrow> baseline_entry list option" where
  "replace_first_entry e [] = None"
| "replace_first_entry e (x # xs) =
     (if b_ID x = b_ID e \<and> b_Fingerprint x = b_Fingerprint e then Some (e # xs)
      else map_option (Cons x) (replace_first_entry e xs))"

definition Baseline_Add ::
  "time \<Rightarrow> baseline option \<Rightarrow> baseline_entry \<Rightarrow> baseline_error + (baseline \<times> bool)" where
  "Baseline_Add now b entry =
     (case b of None \<Rightarrow> Inl NilBaseline
      | Some b \<Rightarrow>
         (let entry = normalize_entry entry in
          if b_ID entry = [] then Inl EmptyID
          else if b_Reason entry = [] then Inl EmptyReason
          else if b_Fingerprint entry \<noteq> [] \<and> \<not> IsValidFingerprint (b_Fingerprint entry)
            then Inl (InvalidFingerprint (b_Fingerprint entry))
          else
            (let entry = (if b_CreatedAt entry = 0 then entry\<lparr>b_CreatedAt := now\<rparr> else entry);
                 b = (if b_SchemaVersion b = [] then b\<lparr>b_SchemaVersion := baselineSchemaVersion\<rparr>
                      else b)
             in case replace_first_entry entry (b_Entries b) of
                  Some es \<Rightarrow> Inr (b\<lparr>b_Entries := es\<rparr>, True)
                | None \<Rightarrow> Inr (b\<lparr>b_Entries := b_Entries b @ [entry]\<rparr>, False))))"

fun remove_first_entry :: "string \<Rightarrow> string \<Rightarrow> baseline_entry list \<Rightarrow> baseline_entry list option" where
  "remove_first_entry i fp [] = None"
| "remove_first_entry i fp (x # xs) =
     (if b_ID x = i \<and> b_Fingerprint x = fp then Some xs
      else map_option (Cons x) (remove_first_entry i fp xs))"

definition Baseline_Remove :: "baseline option \<Rightarrow> string \<Rightarrow> string \<Rightarrow> baseline option \<times> bool" where
  "Baseline_Remove b i fp =
     (case b of None \<Rightarrow> (None, False)
      | Some b \<Rightarrow>
         (let i = to_upper (trim_space i); fp = trim_space fp in
          if i = [] then (Some b, False)
          else case remove_first_entry i fp (b_Entries b) of
                 Some es \<Rightarrow> (Some (b\<lparr>b_Entries := es\<rparr>), True)
               | None \<Rightarrow> (Some b, False)))"

definition entryBefore :: "baseline_entry \<Rightarrow> baseline_entry \<Rightarrow> bool" where
  "entryBefore a b =
     (if b_ID a = b_ID b then b_Fingerprint a < b_Fingerprint b else b_ID a < b_ID b)"

fun create_loop :: "(string \<Rightarrow> string) \<Rightarrow> create_options \<Rightarrow> finding list \<Rightarrow> string list
    \<Rightarrow> baseline_entry list \<Rightarrow> baseline_entry list" where
  "create_loop sha opts [] seen entries = entries"
| "create_loop sha opts (f # fs) seen entries =
     (let i = trim_space (f_ID f) in
      if i = [] then create_loop sha opts fs seen entries
      else
        (let fingerprint = (if o_UseFingerprint opts then Fingerprint sha f else []);
             key = (if o_UseFingerprint opts then i @ '':'' @ fingerprint else i)
         in if key \<in> set seen then create_loop sha opts fs seen entries
            else if baseline_severityRank (f_Severity f)
                    < baseline_severityRank (o_MinSeverity opts)
              then create_loop sha opts fs seen entries
            else create_loop sha opts fs (key # seen)
                   (entries @ [\<lparr>b_ID = i, b_Reason = o_Reason opts,
                      b_ExpiresAt = o_ExpiresAt opts, b_CreatedAt = o_CreatedAt opts,
                      b_CreatedBy = o_CreatedBy opts, b_Fingerprint = fingerprint\<rparr>])))"

definition CreateFromFindings ::
  "(string \<Rightarrow> string) \<Rightarrow> finding list \<Rightarrow> create_options \<Rightarrow> baseline" where
  "CreateFromFindings sha findings opts =
     \<lparr>b_SchemaVersion = baselineSchemaVersion,
      b_Entries = slice_stable entryBefore (create_loop sha opts findings [] [])\<rparr>"

text \<open>The entries \<open>Save\<close> marshals; \<open>sort.Slice\<close> leaves the order of equal keys open.\<close>

definition Save_entries :: "baseline \<Rightarrow> baseline_entry list" where
  "Save_entries b = slice_stable entryBefore (b_Entries b)"

definition nanos_per_minute :: int where "nanos_per_minute = 60000000000"
definition nanos_per_hour :: int where "nanos_per_hour = 3600000000000"

definition ParseExpiryDuration :: "string \<Rightarrow> time \<Rightarrow> baseline_error + time" where
  "ParseExpiryDuration raw now =
     (let raw = trim_space raw in
      if raw = [] then Inl EmptyExpiry
      else if length raw < 2 then Inl (InvalidExpiry raw)
      else
        (let unit = last raw; numStr = butlast raw in
         case atoi numStr of
           None \<Rightarrow> Inl (ExpiryNotPositive raw)
         | Some n \<Rightarrow>
             if n \<le> 0 then Inl (ExpiryNotPositive raw)
             else if unit = CHR ''d'' then Inr (now + wrap64 (wrap64 (n * 24) * nanos_per_hour))
             else if unit = CHR ''h'' then Inr (now + wrap64 (n * nanos_per_hour))
             else if unit = CHR ''m'' then Inr (now + wrap64 (n * nanos_per_minute))
             else Inl (ExpiryUnit raw)))"

section \<open>Pruning\<close>

lemma prune_loop_eq:
  "prune_loop now es active pruned =
     (active @ filter (\<lambda>e. \<not> expired e now) es, pruned + length (filter (\<lambda>e. expired e now) es))"
  by (induction now es active pruned rule: prune_loop.induct) auto

lemma Baseline_Prune_eq:
  "Baseline_Prune (Some b) now =
     (Some (b\<lparr>b_Entries := filter (\<lambda>e. \<not> expired e now) (b_Entries b)\<rparr>),
      length (filter (\<lambda>e. expired e now) (b_Entries b)))"
  by (simp add: Baseline_Prune_def prune_loop_eq)

section \<open>The entries as a keyed store\<close>

definition entry_key :: "baseline_entry \<Rightarrow> string \<times> string" where
  "entry_key e = (b_ID e, b_Fingerprint e)"

definition put_entry :: "baseline_entry \<Rightarrow> baseline \<Rightarrow> baseline" where
  "put_entry e b = b\<lparr>b_Entries :=
     (case replace_first_entry e (b_Entries b) of Some es \<Rightarrow> es | None \<Rightarrow> b_Entries b @ [e])\<rparr>"

definition del_entry :: "string \<times> string \<Rightarrow> baseline \<Rightarrow> baseline" where
  "del_entry k b = b\<lparr>b_Entries :=
     (case remove_first_entry (fst k) (snd k) (b_Entries b) of Some es \<Rightarrow> es | None \<Rightarrow> b_Entries b)\<rparr>"

abbreviation baseline_map :: "baseline \<Rightarrow> (string \<times> string) \<rightharpoonup> baseline_entry" where
  "baseline_map b \<equiv> keyed_map entry_key (b_Entries b)"

definition distinct_keys :: "baseline \<Rightarrow> bool" where
  "distinct_keys b \<longleftrightarrow> distinct (map entry_key (b_Entries b))"

lemma replace_first_None: "replace_first_entry e xs = None \<longleftrightarrow> entry_key e \<notin> entry_key ` set xs"
  by (induction xs) (auto simp: entry_key_def)

lemma replace_first_Some:
  "distinct (map entry_key xs) \<Longrightarrow> replace_first_entry e xs = Some es \<Longrightarrow>
   es = map (\<lambda>y. if entry_key y = entry_key e then e else y) xs"
proof (induction xs arbitrary: es)
  case (Cons x xs)
  show ?case
  proof (cases "entry_key x = entry_key e")
    case True
    then have "\<forall>y \<in> set xs. entry_key y \<noteq> entry_key e"
      using Cons.prems(1) by (force simp: image_iff)
    then have "map (\<lambda>y. if entry_key y = entry_key e then e else y) xs = xs"
      by (auto intro: map_idI)
    with True Cons.prems(2) show ?thesis by (simp add: entry_key_def)
  qed (use Cons in \<open>auto simp: entry_key_def split: if_splits\<close>)
qed simp

lemma remove_first_None: "remove_first_entry i fp xs = None \<longleftrightarrow> (i, fp) \<notin> entry_key ` set xs"
  by (induction xs) (auto simp: entry_key_def)

lemma remove_first_Some:
  "distinct (map entry_key xs) \<Longrightarrow> remove_first_entry i fp xs = Some es \<Longrightarrow>
   es = filter (\<lambda>y. entry_key y \<noteq> (i, fp)) xs"
proof (induction xs arbitrary: es)
  case (Cons x xs)
  show ?case
  proof (cases "entry_key x = (i, fp)")
    case True
    then have "\<forall>y \<in> set xs. entry_key y \<noteq> (i, fp)"
      using Cons.prems(1) by (force simp: image_iff)
    then have "filter (\<lambda>y. entry_key y \<noteq> (i, fp)) xs = xs" by (simp add: filter_id_conv)
    with True Cons.prems(2) show ?thesis by (simp add: entry_key_def split: if_splits)
  qed (use Cons in \<open>auto simp: entry_key_def split: if_splits\<close>)
qed simp

interpretation bl: keyed_store b_Entries entry_key put_entry del_entry
proof unfold_locales
  fix s :: baseline and a
  assume d: "distinct (map entry_key (b_Entries s))"
  show "b_Entries (put_entry a s) = upsert entry_key (\<lambda>_ x. x) a (b_Entries s)"
  proof (cases "replace_first_entry a (b_Entries s)")
    case None
    then show ?thesis
      using replace_first_None [of a "b_Entries s"] by (simp add: put_entry_def upsert_def)
  next
    case (Some es)
    then have "entry_key a \<in> entry_key ` set (b_Entries s)"
      using replace_first_None [of a "b_Entries s"] by auto
    with Some replace_first_Some [OF d Some] show ?thesis by (simp add: put_entry_def upsert_def)
  qed
next
  fix s :: baseline and k
  assume d: "distinct (map entry_key (b_Entries s))"
  show "b_Entries (del_entry k s) = filter (\<lambda>x. entry_key x \<noteq> k) (b_Entries s)"
  proof (cases "remove_first_entry (fst k) (snd k) (b_Entries s)")
    case None
    then have "\<forall>x \<in> set (b_Entries s). entry_key x \<noteq> k"
      using remove_first_None [of "fst k" "snd k" "b_Entries s"] by force
    with None show ?thesis by (simp add: del_entry_def filter_id_conv)
  next
    case (Some es)
    with remove_first_Some [OF d Some] show ?thesis by (simp add: del_entry_def)
  qed
qed

text \<open>The entry that \<open>Add\<close> stores for \<open>e\<close> when it accepts it.\<close>

definition stored_entry :: "time \<Rightarrow> baseline_entry \<Rightarrow> baseline_entry" where
  "stored_entry now e = (let e' = normalize_entry e in
     if b_CreatedAt e' = 0 then e'\<lparr>b_CreatedAt := now\<rparr> else e')"

definition acceptable :: "baseline_entry \<Rightarrow> bool" where
  "acceptable e \<longleftrightarrow> trim_space (b_ID e) \<noteq> [] \<and> trim_space (b_Reason e) \<noteq> [] \<and>
     (b_Fingerprint e = [] \<or> IsValidFingerprint (b_Fingerprint e))"

definition with_schema :: "baseline \<Rightarrow> baseline" where
  "with_schema b =
     (if b_SchemaVersion b = [] then b\<lparr>b_SchemaVersion := baselineSchemaVersion\<rparr> else b)"

lemma with_schema_entries [simp]: "b_Entries (with_schema b) = b_Entries b"
  by (simp add: with_schema_def)

lemma normalize_entry_sel [simp]:
  "b_ID (normalize_entry e) = to_upper (trim_space (b_ID e))"
  "b_Reason (normalize_entry e) = trim_space (b_Reason e)"
  "b_CreatedAt (normalize_entry e) = b_CreatedAt e"
  "b_Fingerprint (normalize_entry e) = b_Fingerprint e"
  by (simp_all add: normalize_entry_def)

lemma stored_entry_sel [simp]:
  "b_ID (stored_entry now e) = to_upper (trim_space (b_ID e))"
  "b_Fingerprint (stored_entry now e) = b_Fingerprint e"
  "b_CreatedAt (stored_entry now e) = (if b_CreatedAt e = 0 then now else b_CreatedAt e)"
  by (simp_all add: stored_entry_def Let_def)

lemma put_entry_case:
  "(case replace_first_entry e (b_Entries b) of
      Some es \<Rightarrow> Inr (b\<lparr>b_Entries := es\<rparr>, True)
    | None \<Rightarrow> Inr (b\<lparr>b_Entries := b_Entries b @ [e]\<rparr>, False))
   = (Inr (put_entry e b, entry_key e \<in> entry_key ` set (b_Entries b)) :: baseline_error + _)"
  using replace_first_None [of e "b_Entries b"]
  by (cases "replace_first_entry e (b_Entries b)") (simp_all add: put_entry_def)

lemma Baseline_Add_accepts:
  assumes "acceptable e"
  shows "Baseline_Add now (Some b) e =
    Inr (put_entry (stored_entry now e) (with_schema b),
         entry_key (stored_entry now e) \<in> entry_key ` set (b_Entries b))"
proof -
  have s: "(if b_CreatedAt (normalize_entry e) = 0
      then normalize_entry e\<lparr>b_CreatedAt := now\<rparr> else normalize_entry e) = stored_entry now e"
    by (simp add: stored_entry_def Let_def)
  have w: "(if b_SchemaVersion b = [] then b\<lparr>b_SchemaVersion := baselineSchemaVersion\<rparr> else b)
      = with_schema b"
    by (simp add: with_schema_def)
  have "Baseline_Add now (Some b) e =
    (case replace_first_entry (stored_entry now e) (b_Entries (with_schema b)) of
        Some es \<Rightarrow> Inr (with_schema b\<lparr>b_Entries := es\<rparr>, True)
      | None \<Rightarrow> Inr (with_schema b\<lparr>b_Entries := b_Entries (with_schema b) @ [stored_entry now e]\<rparr>,
                    False))"
    unfolding Baseline_Add_def Let_def option.case s w
    using assms by (auto simp: acceptable_def)
  then show ?thesis using put_entry_case [of "with_schema b" "stored_entry now e"] by simp
qed

lemma Baseline_Add_rejects:
  "\<not> acceptable e \<Longrightarrow> Baseline_Add now (Some b) e =
     (if trim_space (b_ID e) = [] then Inl EmptyID
      else if trim_space (b_Reason e) = [] then Inl EmptyReason
      else Inl (InvalidFingerprint (b_Fingerprint e)))"
  unfolding Baseline_Add_def Let_def option.case by (auto simp: acceptable_def)

lemma Baseline_Add_Inr:
  "Baseline_Add now (Some b) e = Inr (b', updated) \<longleftrightarrow> acceptable e \<and>
     b' = put_entry (stored_entry now e) (with_schema b) \<and>
     updated = (entry_key (stored_entry now e) \<in> entry_key ` set (b_Entries b))"
  by (cases "acceptable e") (auto simp: Baseline_Add_accepts Baseline_Add_rejects)

lemma Baseline_Remove_eq:
  "Baseline_Remove (Some b) i fp =
     (let k = (to_upper (trim_space i), trim_space fp) in
      if fst k = [] then (Some b, False)
      else (Some (del_entry k b), k \<in> entry_key ` set (b_Entries b)))"
  using remove_first_None [of "to_upper (trim_space i)" "trim_space fp" "b_Entries b"]
  by (auto simp: Baseline_Remove_def del_entry_def Let_def split: option.split)

text \<open>
  An accepted \<open>Add\<close> is a map update at the normalised identifier and the fingerprint, it keeps
  the keys distinct and reports whether the key was present.
\<close>

theorem Baseline_Add_refines:
  assumes "distinct_keys b" "Baseline_Add now (Some b) e = Inr (b', updated)"
  shows "distinct_keys b' \<and>
    baseline_map b' = (baseline_map b)(entry_key (stored_entry now e) \<mapsto> stored_entry now e) \<and>
    updated = (entry_key (stored_entry now e) \<in> dom (baseline_map b))"
proof -
  have d: "distinct (map entry_key (b_Entries (with_schema b)))"
    using assms(1) by (simp add: distinct_keys_def)
  from assms(2) have "b' = put_entry (stored_entry now e) (with_schema b)"
    and "updated = (entry_key (stored_entry now e) \<in> entry_key ` set (b_Entries b))"
    by (simp_all add: Baseline_Add_Inr)
  with bl.distinct_put [OF d] bl.map_put [OF d] show ?thesis
    by (simp add: distinct_keys_def dom_keyed_map)
qed

text \<open>
  Removing deletes exactly the entry of the normalised key, and tells whether it was there.
\<close>

theorem Baseline_Remove_refines:
  assumes "distinct_keys b" "to_upper (trim_space i) \<noteq> []"
  shows "\<exists>b'. Baseline_Remove (Some b) i fp =
      (Some b', (to_upper (trim_space i), trim_space fp) \<in> dom (baseline_map b)) \<and>
    distinct_keys b' \<and>
    baseline_map b' = (baseline_map b)((to_upper (trim_space i), trim_space fp) := None)"
proof -
  let ?k = "(to_upper (trim_space i), trim_space fp)"
  have d: "distinct (map entry_key (b_Entries b))" using assms(1) by (simp add: distinct_keys_def)
  have "Baseline_Remove (Some b) i fp = (Some (del_entry ?k b), ?k \<in> dom (baseline_map b))"
    using assms(2) by (simp add: Baseline_Remove_eq Let_def dom_keyed_map)
  with bl.distinct_del [OF d, of ?k] bl.map_del [OF d, of ?k] show ?thesis
    by (simp add: distinct_keys_def)
qed

definition entry_example :: baseline_entry where
  "entry_example = \<lparr>b_ID = '' f-env-001 '', b_Reason = ''known drift'', b_ExpiresAt = None,
     b_CreatedAt = 5, b_CreatedBy = [], b_Fingerprint = []\<rparr>"

definition baseline_example :: baseline where
  "baseline_example = \<lparr>b_SchemaVersion = baselineSchemaVersion, b_Entries = []\<rparr>"

lemma Baseline_Add_example:
  "Baseline_Add 7 (Some baseline_example) entry_example =
     Inr (\<lparr>b_SchemaVersion = baselineSchemaVersion,
           b_Entries = [entry_example\<lparr>b_ID := ''F-ENV-001''\<rparr>]\<rparr>, False)"
  by code_simp

theorem Baseline_Add_refines_witness:
  "\<exists>b'. Baseline_Add 7 (Some baseline_example) entry_example = Inr (b', False) \<and> distinct_keys b'"
proof -
  have "distinct_keys baseline_example" by (simp add: distinct_keys_def baseline_example_def)
  from Baseline_Add_refines [OF this Baseline_Add_example] Baseline_Add_example show ?thesis by blast
qed

theorem Baseline_Remove_refines_witness:
  "\<exists>b'. Baseline_Remove (Some (baseline_example\<lparr>b_Entries := [entry_example\<lparr>b_ID := ''F-ENV-001''\<rparr>]\<rparr>))
      ''f-env-001'' [] = (Some b', True) \<and> baseline_map b' = Map.empty"
proof -
  let ?b = "baseline_example\<lparr>b_Entries := [entry_example\<lparr>b_ID := ''F-ENV-001''\<rparr>]\<rparr>"
  have u: "to_upper (trim_space ''f-env-001'') = ''F-ENV-001''" by code_simp
  have "distinct_keys ?b" by (simp add: distinct_keys_def)
  from Baseline_Remove_refines [OF this, of "''f-env-001''" "[]"] u show ?thesis
    by (auto simp: dom_keyed_map entry_key_def entry_example_def keyed_map_Cons)
qed

section \<open>Validity\<close>

definition valid_entry :: "baseline_entry \<Rightarrow> bool" where
  "valid_entry e \<longleftrightarrow> trim_space (b_ID e) \<noteq> [] \<and> b_CreatedAt e \<noteq> 0 \<and>
     (b_Fingerprint e = [] \<or> IsValidFingerprint (b_Fingerprint e))"

lemma validate_entries_None: "validate_entries i es = None \<longleftrightarrow> list_all valid_entry es"
  by (induction i es rule: validate_entries.induct) (auto simp: valid_entry_def)

lemma baseline_validate_None:
  "baseline_validate b = None \<longleftrightarrow>
   b_SchemaVersion b = baselineSchemaVersion \<and> list_all valid_entry (b_Entries b)"
  by (simp add: baseline_validate_def validate_entries_None)

lemma valid_stored_entry: "acceptable e \<Longrightarrow> now \<noteq> 0 \<Longrightarrow> valid_entry (stored_entry now e)"
  by (simp add: valid_entry_def acceptable_def trim_space_upper)

lemma replace_first_set:
  "replace_first_entry e xs = Some es \<Longrightarrow> set es \<subseteq> insert e (set xs)"
  by (induction xs arbitrary: es) (auto split: if_splits)

lemma remove_first_set: "remove_first_entry i fp xs = Some es \<Longrightarrow> set es \<subseteq> set xs"
  by (induction xs arbitrary: es) (auto split: if_splits)

lemma put_entry_schema [simp]: "b_SchemaVersion (put_entry e b) = b_SchemaVersion b"
  by (simp add: put_entry_def)

lemma del_entry_schema [simp]: "b_SchemaVersion (del_entry k b) = b_SchemaVersion b"
  by (simp add: del_entry_def)

lemma put_entry_set: "set (b_Entries (put_entry e b)) \<subseteq> insert e (set (b_Entries b))"
  by (auto simp: put_entry_def split: option.splits dest: replace_first_set)

lemma del_entry_set: "set (b_Entries (del_entry k b)) \<subseteq> set (b_Entries b)"
  by (auto simp: del_entry_def split: option.splits dest: remove_first_set)

text \<open>
  A baseline that loads (that \<open>validate\<close> accepts) still loads after any \<open>Add\<close>, \<open>Remove\<close> or
  \<open>Prune\<close>, whatever the arguments.
\<close>

theorem baseline_operations_keep_valid:
  assumes "baseline_validate b = None" "now \<noteq> 0"
  shows "(case Baseline_Add now (Some b) e of
            Inl _ \<Rightarrow> True | Inr (b', _) \<Rightarrow> baseline_validate b' = None) \<and>
    (case Baseline_Remove (Some b) i fp of
       (Some b', _) \<Rightarrow> baseline_validate b' = None | (None, _) \<Rightarrow> False) \<and>
    (case Baseline_Prune (Some b) now of
       (Some b', _) \<Rightarrow> baseline_validate b' = None | (None, _) \<Rightarrow> False)"
proof (intro conjI)
  have v: "b_SchemaVersion b = baselineSchemaVersion" "list_all valid_entry (b_Entries b)"
    using assms(1) by (auto simp: baseline_validate_None)
  have ws: "with_schema b = b" using v(1) by (simp add: with_schema_def baselineSchemaVersion_def)
  show "case Baseline_Add now (Some b) e of
      Inl _ \<Rightarrow> True | Inr (b', _) \<Rightarrow> baseline_validate b' = None"
  proof (cases "acceptable e")
    case True
    with v put_entry_set [of "stored_entry now e" b] valid_stored_entry [OF True assms(2)]
    show ?thesis
      by (auto simp: Baseline_Add_accepts ws baseline_validate_None list_all_iff)
  qed (simp add: Baseline_Add_rejects)
  show "case Baseline_Remove (Some b) i fp of
      (Some b', _) \<Rightarrow> baseline_validate b' = None | (None, _) \<Rightarrow> False"
    using v del_entry_set [of "(to_upper (trim_space i), trim_space fp)" b]
    by (auto simp: Baseline_Remove_eq Let_def baseline_validate_None list_all_iff)
  show "case Baseline_Prune (Some b) now of
      (Some b', _) \<Rightarrow> baseline_validate b' = None | (None, _) \<Rightarrow> False"
    using v by (auto simp: Baseline_Prune_eq baseline_validate_None list_all_iff)
qed

theorem baseline_operations_keep_valid_witness:
  "baseline_validate baseline_example = None \<and>
   (case Baseline_Add 7 (Some baseline_example) entry_example of
      Inl _ \<Rightarrow> True | Inr (b', _) \<Rightarrow> baseline_validate b' = None)"
proof -
  have "baseline_validate baseline_example = None"
    by (simp add: baseline_validate_None baseline_example_def)
  with baseline_operations_keep_valid [OF this, of 7 entry_example] show ?thesis by simp
qed

section \<open>Creation from findings\<close>

interpretation bl_order: strict_weak_order entryBefore
  by unfold_locales (auto simp: entryBefore_def split: if_splits)

lemma tied_entry_key: "tied entryBefore a b \<Longrightarrow> entry_key a = entry_key b"
  by (auto simp: tied_def entryBefore_def entry_key_def not_less split: if_splits)

text \<open>The findings \<open>CreateFromFindings\<close> takes and the entry it makes of one.\<close>

definition eligible :: "create_options \<Rightarrow> finding \<Rightarrow> bool" where
  "eligible opts f \<longleftrightarrow> trim_space (f_ID f) \<noteq> [] \<and>
     \<not> baseline_severityRank (f_Severity f) < baseline_severityRank (o_MinSeverity opts)"

definition created_entry :: "(string \<Rightarrow> string) \<Rightarrow> create_options \<Rightarrow> finding \<Rightarrow> baseline_entry" where
  "created_entry sha opts f =
     \<lparr>b_ID = trim_space (f_ID f), b_Reason = o_Reason opts, b_ExpiresAt = o_ExpiresAt opts,
      b_CreatedAt = o_CreatedAt opts, b_CreatedBy = o_CreatedBy opts,
      b_Fingerprint = (if o_UseFingerprint opts then Fingerprint sha f else [])\<rparr>"

definition seen_key :: "create_options \<Rightarrow> baseline_entry \<Rightarrow> string" where
  "seen_key opts e = (if o_UseFingerprint opts then b_ID e @ '':'' @ b_Fingerprint e else b_ID e)"

lemma create_loop_step:
  "create_loop sha opts (f # fs) seen entries =
     (let e = created_entry sha opts f in
      if eligible opts f \<and> seen_key opts e \<notin> set seen
      then create_loop sha opts fs (seen_key opts e # seen) (entries @ [e])
      else create_loop sha opts fs seen entries)"
  by (simp add: Let_def eligible_def seen_key_def created_entry_def)

declare create_loop.simps(2) [simp del]

lemma create_loop_from:
  "e \<in> set (create_loop sha opts fs seen entries) \<Longrightarrow>
   e \<in> set entries \<or> (\<exists>f \<in> set fs. eligible opts f \<and> e = created_entry sha opts f)"
proof (induction fs arbitrary: seen entries)
  case (Cons f fs)
  from Cons.prems Cons.IH show ?case
    by (auto simp: create_loop_step Let_def split: if_splits) fastforce+
qed simp

lemma create_loop_keys:
  assumes "set seen = seen_key opts ` set entries" "distinct (map (seen_key opts) entries)"
  shows "distinct (map (seen_key opts) (create_loop sha opts fs seen entries)) \<and>
    seen_key opts ` set (create_loop sha opts fs seen entries) =
      set seen \<union> (\<lambda>f. seen_key opts (created_entry sha opts f)) ` {f \<in> set fs. eligible opts f}"
  using assms
proof (induction fs arbitrary: seen entries)
  case (Cons f fs)
  let ?e = "created_entry sha opts f"
  show ?case
  proof (cases "eligible opts f \<and> seen_key opts ?e \<notin> set seen")
    case True
    with Cons.prems Cons.IH [of "seen_key opts ?e # seen" "entries @ [?e]"] show ?thesis
      by (auto simp: create_loop_step Let_def)
  next
    case False
    with Cons.prems Cons.IH [of seen entries] show ?thesis
      by (auto simp: create_loop_step Let_def)
  qed
qed auto

lemma valid_fingerprint_length: "IsValidFingerprint v \<Longrightarrow> length v = 64"
  by (simp add: IsValidFingerprint_def)

lemma seen_key_entry_key:
  assumes "\<And>s. IsValidFingerprint (sha s)"
  shows "seen_key opts (created_entry sha opts f) = seen_key opts (created_entry sha opts g)
    \<longleftrightarrow> entry_key (created_entry sha opts f) = entry_key (created_entry sha opts g)"
proof -
  have "length (sha s) = 64" for s using assms valid_fingerprint_length by blast
  then show ?thesis
    by (auto simp: seen_key_def entry_key_def created_entry_def Fingerprint_def)
qed

lemma create_loop_distinct:
  assumes "\<And>s. IsValidFingerprint (sha s)"
  shows "distinct (map entry_key (create_loop sha opts fs [] []))"
proof -
  let ?r = "create_loop sha opts fs [] []"
  have d: "distinct (map (seen_key opts) ?r)" using create_loop_keys [of "[]" opts "[]"] by simp
  have "inj_on entry_key (set ?r)"
  proof (rule inj_onI)
    fix a b assume ab: "a \<in> set ?r" "b \<in> set ?r" "entry_key a = entry_key b"
    from create_loop_from [OF ab(1)] create_loop_from [OF ab(2)]
    obtain f g where fg: "a = created_entry sha opts f" "b = created_entry sha opts g" by auto
    with ab(3) seen_key_entry_key [of sha opts f g, OF assms] have "seen_key opts a = seen_key opts b"
      by simp
    with ab d show "a = b" by (metis distinct_map inj_onD)
  qed
  with d show ?thesis by (metis distinct_map)
qed

lemma CreateFromFindings_facts:
  assumes "\<And>s. IsValidFingerprint (sha s)" "o_CreatedAt opts \<noteq> 0"
  shows "baseline_validate (CreateFromFindings sha fs opts) = None \<and>
    distinct_keys (CreateFromFindings sha fs opts) \<and>
    sorted_by entryBefore (b_Entries (CreateFromFindings sha fs opts)) \<and>
    entry_key ` set (b_Entries (CreateFromFindings sha fs opts)) =
      (\<lambda>f. entry_key (created_entry sha opts f)) ` {f \<in> set fs. eligible opts f}"
proof (intro conjI)
  let ?r = "create_loop sha opts fs [] []" and ?b = "CreateFromFindings sha fs opts"
  have set_b: "set (b_Entries ?b) = set ?r" by (simp add: CreateFromFindings_def)
  have orig: "\<exists>f \<in> set fs. eligible opts f \<and> e = created_entry sha opts f" if "e \<in> set ?r" for e
    using create_loop_from [OF that] by simp
  have "valid_entry e" if "e \<in> set ?r" for e
    using orig [OF that] assms
    by (auto simp: valid_entry_def created_entry_def eligible_def Fingerprint_def)
  then show "baseline_validate ?b = None"
    by (auto simp: baseline_validate_None list_all_iff set_b)
      (simp add: CreateFromFindings_def)
  have m: "mset (map entry_key (b_Entries ?b)) = mset (map entry_key ?r)"
    by (simp add: CreateFromFindings_def)
  show "distinct_keys ?b"
    using create_loop_distinct [of sha opts fs, OF assms(1)] mset_eq_imp_distinct_iff [OF m]
    by (simp add: distinct_keys_def)
  show "sorted_by entryBefore (b_Entries ?b)"
    by (simp add: CreateFromFindings_def bl_order.sorted_slice_stable)
  have "seen_key opts ` set ?r =
      (\<lambda>f. seen_key opts (created_entry sha opts f)) ` {f \<in> set fs. eligible opts f}"
    using create_loop_keys [of "[]" opts "[]"] by simp
  then have ex: "\<exists>e \<in> set ?r. seen_key opts e = seen_key opts (created_entry sha opts f)"
    if f: "f \<in> set fs" "eligible opts f" for f
  proof -
    assume "seen_key opts ` set ?r =
      (\<lambda>f. seen_key opts (created_entry sha opts f)) ` {f \<in> set fs. eligible opts f}"
    with f have "seen_key opts (created_entry sha opts f) \<in> seen_key opts ` set ?r" by blast
    then show ?thesis by (auto simp: image_iff)
  qed
  have covered: "\<exists>e \<in> set ?r. entry_key e = entry_key (created_entry sha opts f)"
    if f: "f \<in> set fs" "eligible opts f" for f
  proof -
    obtain e where e: "e \<in> set ?r" "seen_key opts e = seen_key opts (created_entry sha opts f)"
      using ex [OF f] by blast
    obtain g where "e = created_entry sha opts g" using orig [OF e(1)] by blast
    with e seen_key_entry_key [of sha opts g f, OF assms(1)] show ?thesis by auto
  qed
  show "entry_key ` set (b_Entries ?b) =
      (\<lambda>f. entry_key (created_entry sha opts f)) ` {f \<in> set fs. eligible opts f}"
    (is "?L = ?R")
  proof
    show "?L \<subseteq> ?R" using orig by (auto simp: set_b)
    show "?R \<subseteq> ?L"
    proof
      fix k assume "k \<in> ?R"
      then obtain f where f: "f \<in> set fs" "eligible opts f" "k = entry_key (created_entry sha opts f)"
        by blast
      from covered [OF f(1,2)] f(3) show "k \<in> ?L" unfolding set_b by (metis imageI)
    qed
  qed
qed

text \<open>
  C9: the baseline made from findings loads, has one entry per key in sorted order, suppresses
  every finding with an identifier and at least the minimal severity, and nothing else.
\<close>

theorem CreateFromFindings_correct:
  assumes "\<And>s. IsValidFingerprint (sha s)" "o_CreatedAt opts \<noteq> 0"
  shows "baseline_validate (CreateFromFindings sha fs opts) = None \<and>
    distinct_keys (CreateFromFindings sha fs opts) \<and>
    sorted_by entryBefore (b_Entries (CreateFromFindings sha fs opts)) \<and>
    entry_key ` set (b_Entries (CreateFromFindings sha fs opts)) =
      (\<lambda>f. entry_key (created_entry sha opts f)) ` {f \<in> set fs. eligible opts f}"
  by (rule CreateFromFindings_facts [OF assms])

definition sha_example :: "string \<Rightarrow> string" where
  "sha_example s = replicate 64 CHR ''a''"

lemma sha_example_valid: "IsValidFingerprint (sha_example s)"
  by (simp add: IsValidFingerprint_def sha_example_def hex_digit_def list_all_iff less_eq_char_def)

definition options_example :: create_options where
  "options_example = \<lparr>o_Reason = ''accepted'', o_CreatedAt = 9, o_CreatedBy = [],
     o_ExpiresAt = None, o_MinSeverity = SeverityMedium, o_UseFingerprint = True\<rparr>"

theorem CreateFromFindings_correct_witness:
  "baseline_validate (CreateFromFindings sha_example
     [zero_finding\<lparr>f_ID := ''F-GIT-001'', f_Severity := SeverityHigh\<rparr>] options_example) = None"
  using CreateFromFindings_correct [of sha_example options_example, OF sha_example_valid]
  by (simp add: options_example_def)

text \<open>
  The sort of \<open>CreateFromFindings\<close> has one possible result, so the file does not depend on the
  algorithm of \<open>sort.Slice\<close>.
\<close>

lemma CreateFromFindings_sort_independent:
  assumes "\<And>s. IsValidFingerprint (sha s)"
    and "is_sort entryBefore (create_loop sha opts fs [] []) es"
  shows "es = b_Entries (CreateFromFindings sha fs opts)"
proof -
  let ?r = "create_loop sha opts fs [] []"
  have d: "distinct (map entry_key ?r)" using create_loop_distinct [of sha opts fs, OF assms(1)] .
  have "is_sort entryBefore ?r (b_Entries (CreateFromFindings sha fs opts))"
    by (simp add: CreateFromFindings_def bl_order.is_sort_slice_stable)
  moreover have "a = b" if "a \<in> set ?r" "b \<in> set ?r" "tied entryBefore a b" for a b
    using that d tied_entry_key by (meson distinct_map inj_onD)
  ultimately show ?thesis using assms(2) bl_order.sort_unique by blast
qed

section \<open>Expiry durations\<close>

lemma unit_no_space: "no_space_byte CHR ''d''" "no_space_byte CHR ''h''" "no_space_byte CHR ''m''"
  by (simp_all add: no_space_byte_def ascii_space_def multi_spaces_def)

lemma ParseExpiry_itoa:
  assumes "0 < n" "n \<le> max_int64" "no_space_byte u"
  shows "ParseExpiryDuration (itoa n @ [u]) now =
    (if u = CHR ''d'' then Inr (now + wrap64 (wrap64 (n * 24) * nanos_per_hour))
     else if u = CHR ''h'' then Inr (now + wrap64 (n * nanos_per_hour))
     else if u = CHR ''m'' then Inr (now + wrap64 (n * nanos_per_minute))
     else Inl (ExpiryUnit (itoa n @ [u])))"
proof -
  have t: "trim_space (itoa n @ [u]) = itoa n @ [u]"
    using assms set_itoa_nonneg [of n] digit_no_space by (intro trim_space_no_space) auto
  have l: "\<not> length (itoa n @ [u]) < 2" using itoa_not_Nil [of n] by (cases "itoa n") auto
  have "atoi (itoa n) = Some n" using assms by (intro atoi_itoa) (auto simp: min_int64_def)
  with assms(1) show ?thesis unfolding ParseExpiryDuration_def t Let_def using l by simp
qed

text \<open>
  A duration of \<open>n\<close> days, hours or minutes that fits in a \<open>time.Duration\<close> expires exactly that
  long after now, so never in the past.
\<close>

theorem ParseExpiryDuration_in_range:
  assumes "0 < n"
    and "(u, unit) \<in> {(CHR ''d'', 24 * nanos_per_hour), (CHR ''h'', nanos_per_hour),
                      (CHR ''m'', nanos_per_minute)}"
    and "n * unit \<le> max_int64"
  shows "ParseExpiryDuration (itoa n @ [u]) now = Inr (now + n * unit) \<and> now < now + n * unit"
proof -
  have pos: "0 < unit" using assms(2) by (auto simp: nanos_per_hour_def nanos_per_minute_def)
  then have "n \<le> n * unit" using assms(1) by simp
  then have n: "n \<le> max_int64" using assms(3) by simp
  have w: "wrap64 k = k" if "0 < k" "k \<le> max_int64" for k
    using that by (intro wrap64_id) (auto simp: min_int64_def)
  have u: "no_space_byte u" using assms(2) unit_no_space by auto
  have pn: "0 < n * unit" using assms(1) pos by simp
  show ?thesis
    using assms(2) assms(1,3) w pn
    by (auto simp: ParseExpiry_itoa [OF assms(1) n u] nanos_per_hour_def nanos_per_minute_def
        max_int64_def)
qed

theorem ParseExpiryDuration_in_range_witness:
  "ParseExpiryDuration ''30d'' 0 = Inr 2592000000000000"
proof -
  have "itoa 30 = ''30''" by code_simp
  with ParseExpiryDuration_in_range [of 30 "CHR ''d''" "24 * nanos_per_hour" 0] show ?thesis
    by (simp add: nanos_per_hour_def max_int64_def)
qed

text \<open>
  Beyond that range the product wraps: 106752 days, about 292 years, is accepted and expires
  292 years before now, and an entry created with it is inactive at once.
\<close>

theorem ParseExpiryDuration_overflow:
  "ParseExpiryDuration ''106752d'' now = Inr (now - 9223371273709551616) \<and>
   ActiveEntries (Some \<lparr>b_SchemaVersion = baselineSchemaVersion,
     b_Entries = [entry_example\<lparr>b_ExpiresAt := Some (now - 9223371273709551616)\<rparr>]\<rparr>) now = []"
proof -
  have s: "itoa 106752 @ ''d'' = ''106752d''"
    by (simp add: itoa_def nat_digits.simps digit_char_simps)
  have w: "wrap64 (wrap64 (106752 * 24) * nanos_per_hour) = - 9223371273709551616"
    by code_simp
  have p: "(0::int) < 106752" "(106752::int) \<le> max_int64" by (simp_all add: max_int64_def)
  have "ParseExpiryDuration (itoa 106752 @ ''d'') now
      = Inr (now + wrap64 (wrap64 (106752 * 24) * nanos_per_hour))"
    using ParseExpiry_itoa [OF p unit_no_space(1), of now] by (simp only: simp_thms if_True)
  then have "ParseExpiryDuration ''106752d'' now = Inr (now - 9223371273709551616)"
    by (simp only: s w) simp
  then show ?thesis by (simp add: ActiveEntries_def expired_def)
qed

end
