(* ===== verification/Relevance.thy ===== *)
theory Relevance
  imports Baseline
begin

text \<open>
  \<open>internal/relevance/relevance.go\<close>: which findings of a report the user sees. The two maps of a
  policy are partial functions (a nil and an empty Go map look up alike); \<open>sha\<close> is the digest of
  \<open>Baseline\<close>. The guard \<open>len(SuppressedFingerprints) > 0\<close> only spares computing a fingerprint that
  an empty map cannot hold, and is left out.
\<close>

abbreviation ViewActionable :: string where "ViewActionable \<equiv> ''actionable''"
abbreviation ViewAll :: string where "ViewAll \<equiv> ''all''"
abbreviation ViewAudit :: string where "ViewAudit \<equiv> ''audit''"
abbreviation ViewCI :: string where "ViewCI \<equiv> ''ci''"
abbreviation ViewEnv :: string where "ViewEnv \<equiv> ''env''"

datatype actionability = ActionabilityHigh | ActionabilityMedium | ActionabilityLow

record finding_view =
  v_Finding :: finding
  v_Actionability :: actionability
  v_NoiseReason :: string

record policy =
  pl_IncludeHidden :: bool
  pl_MinSeverity :: severity
  pl_View :: string
  pl_SuppressedIDs :: "string \<rightharpoonup> string"
  pl_SuppressedFingerprints :: "string \<rightharpoonup> string"

record summary =
  sm_Visible :: nat
  sm_Hidden :: nat

definition DefaultPolicy :: policy where
  "DefaultPolicy =
     \<lparr>pl_IncludeHidden = False, pl_MinSeverity = SeverityMedium, pl_View = ViewActionable,
      pl_SuppressedIDs = Map.empty, pl_SuppressedFingerprints = Map.empty\<rparr>"

definition parseSuppressionEvidence :: "string \<Rightarrow> string \<times> string" where
  "parseSuppressionEvidence v =
     (let parts = split_at2 '' reason='' v;
          i = trim_space (trim_prefix (hd parts) ''id='');
          reason = (if length parts = 2 then trim_space (parts ! 1) else [])
      in (i, reason))"

fun suppress_from_evidence :: "evidence list \<Rightarrow> (string \<rightharpoonup> string) \<Rightarrow> (string \<rightharpoonup> string)" where
  "suppress_from_evidence [] m = m"
| "suppress_from_evidence (ev # evs) m =
     (if ev_Source ev \<noteq> ''devdiag_noise_suppress_finding'' then suppress_from_evidence evs m
      else
        (case parseSuppressionEvidence (ev_Value ev) of
           (i, reason) \<Rightarrow>
             if i = [] then suppress_from_evidence evs m
             else suppress_from_evidence evs (m(i \<mapsto> reason))))"

fun suppress_from_collectors ::
  "collector_result list \<Rightarrow> (string \<rightharpoonup> string) \<Rightarrow> (string \<rightharpoonup> string)" where
  "suppress_from_collectors [] m = m"
| "suppress_from_collectors (c # cs) m =
     (if c_Name c \<noteq> ''config'' then suppress_from_collectors cs m
      else suppress_from_collectors cs (suppress_from_evidence (c_Evidence c) m))"

definition PolicyFromReport :: "report option \<Rightarrow> bool \<Rightarrow> policy" where
  "PolicyFromReport r includeHidden =
     (let policy = DefaultPolicy\<lparr>pl_IncludeHidden := includeHidden\<rparr> in
      case r of
        None \<Rightarrow> policy
      | Some r \<Rightarrow> policy\<lparr>pl_SuppressedIDs :=
          suppress_from_collectors (r_Collectors r) (pl_SuppressedIDs policy)\<rparr>)"

definition apply_entry :: "policy \<Rightarrow> baseline_entry \<Rightarrow> policy" where
  "apply_entry policy e =
     (if b_Fingerprint e \<noteq> []
      then (case pl_SuppressedFingerprints policy (b_Fingerprint e) of
              None \<Rightarrow> policy\<lparr>pl_SuppressedFingerprints :=
                (pl_SuppressedFingerprints policy)(b_Fingerprint e \<mapsto> b_Reason e)\<rparr>
            | Some _ \<Rightarrow> policy)
      else (case pl_SuppressedIDs policy (b_ID e) of
              None \<Rightarrow> policy\<lparr>pl_SuppressedIDs :=
                (pl_SuppressedIDs policy)(b_ID e \<mapsto> b_Reason e)\<rparr>
            | Some _ \<Rightarrow> policy))"

definition ApplyBaseline :: "policy \<Rightarrow> baseline option \<Rightarrow> time \<Rightarrow> policy" where
  "ApplyBaseline policy b now =
     (case b of None \<Rightarrow> policy | Some _ \<Rightarrow> foldl apply_entry policy (ActiveEntries b now))"

definition hasFindingPrefix :: "finding \<Rightarrow> string \<Rightarrow> bool" where
  "hasFindingPrefix f p = has_prefix (to_upper (f_ID f)) (to_upper p)"

definition isEvidenceOnlyFinding :: "finding \<Rightarrow> bool" where
  "isEvidenceOnlyFinding f \<longleftrightarrow> f_ID f = ''F-RUNTIME-DECL-001''"

fun relevance_severityRank :: "severity \<Rightarrow> int" where
  "relevance_severityRank s =
     (if s = SeverityCritical then 4 else if s = SeverityHigh then 3
      else if s = SeverityMedium then 2 else if s = SeverityLow then 1
      else if s = SeverityInfo then 0 else - 1)"

definition ClassifyFinding :: "finding \<Rightarrow> finding_view" where
  "ClassifyFinding f =
     (let view = \<lparr>v_Finding = f, v_Actionability = ActionabilityLow, v_NoiseReason = []\<rparr> in
      if f_Severity f = SeverityCritical \<or> f_Severity f = SeverityHigh
        then view\<lparr>v_Actionability := ActionabilityHigh\<rparr>
      else if f_ID f = ''F-ENV-001-OPTIONAL''
        then view\<lparr>v_NoiseReason := ''optional env key''\<rparr>
      else if f_ID f = ''F-CI-ENV-DEPLOY-INFO''
        then view\<lparr>v_NoiseReason := ''deployment-only CI env''\<rparr>
      else if isEvidenceOnlyFinding f
        then view\<lparr>v_NoiseReason := ''evidence-only finding''\<rparr>
      else if f_Severity f = SeverityMedium
        then view\<lparr>v_Actionability := ActionabilityMedium\<rparr>
      else if f_Severity f = SeverityLow \<or> f_Severity f = SeverityInfo
        then view\<lparr>v_NoiseReason := ''low visibility severity''\<rparr>
      else view\<lparr>v_NoiseReason := ''unknown actionability''\<rparr>)"

definition IsHidden :: "(string \<Rightarrow> string) \<Rightarrow> finding \<Rightarrow> policy \<Rightarrow> bool" where
  "IsHidden sha f policy =
     (if pl_IncludeHidden policy then False
      else if pl_SuppressedFingerprints policy (Fingerprint sha f) \<noteq> None then True
      else if pl_SuppressedIDs policy (f_ID f) \<noteq> None then True
      else if pl_View policy = ViewAll \<or> pl_View policy = ViewAudit then False
      else if pl_View policy = ViewCI then \<not> hasFindingPrefix f ''F-CI-''
      else if pl_View policy = ViewEnv then \<not> hasFindingPrefix f ''F-ENV-''
      else if isEvidenceOnlyFinding f then True
      else if v_Actionability (ClassifyFinding f) = ActionabilityLow then True
      else relevance_severityRank (f_Severity f) < relevance_severityRank (pl_MinSeverity policy))"

fun filter_loop :: "(string \<Rightarrow> string) \<Rightarrow> policy \<Rightarrow> finding list \<Rightarrow> finding list \<Rightarrow> nat
    \<Rightarrow> finding list \<times> nat" where
  "filter_loop sha policy [] visible hidden = (visible, hidden)"
| "filter_loop sha policy (f # fs) visible hidden =
     (if IsHidden sha f policy then filter_loop sha policy fs visible (Suc hidden)
      else filter_loop sha policy fs (visible @ [f]) hidden)"

definition FilterReport ::
  "(string \<Rightarrow> string) \<Rightarrow> report option \<Rightarrow> policy \<Rightarrow> report option \<times> summary" where
  "FilterReport sha r policy =
     (case r of
        None \<Rightarrow> (None, \<lparr>sm_Visible = 0, sm_Hidden = 0\<rparr>)
      | Some r \<Rightarrow>
          (case filter_loop sha policy (r_Findings r) [] 0 of
             (visible, hidden) \<Rightarrow>
               (Some (r\<lparr>r_Findings := visible\<rparr>),
                \<lparr>sm_Visible = length visible, sm_Hidden = hidden\<rparr>)))"

section \<open>Filtering\<close>

lemma filter_loop_eq:
  "filter_loop sha p fs visible hidden =
     (visible @ filter (\<lambda>f. \<not> IsHidden sha f p) fs, hidden + length (filter (\<lambda>f. IsHidden sha f p) fs))"
  by (induction sha p fs visible hidden rule: filter_loop.induct) auto

lemma FilterReport_eq:
  "FilterReport sha (Some r) p =
     (Some (r\<lparr>r_Findings := filter (\<lambda>f. \<not> IsHidden sha f p) (r_Findings r)\<rparr>),
      \<lparr>sm_Visible = length (filter (\<lambda>f. \<not> IsHidden sha f p) (r_Findings r)),
       sm_Hidden = length (filter (\<lambda>f. IsHidden sha f p) (r_Findings r))\<rparr>)"
  by (simp add: FilterReport_def filter_loop_eq)

text \<open>
  Filtering keeps exactly the findings that are not hidden, in order, changes nothing else of
  the report, accounts for every finding in its summary, and filtering again hides nothing more.
\<close>

theorem FilterReport_correct:
  "\<exists>r' s. FilterReport sha (Some r) p = (Some r', s) \<and>
     r' = r\<lparr>r_Findings := filter (\<lambda>f. \<not> IsHidden sha f p) (r_Findings r)\<rparr> \<and>
     sm_Visible s = length (r_Findings r') \<and>
     sm_Visible s + sm_Hidden s = length (r_Findings r) \<and>
     FilterReport sha (Some r') p = (Some r', \<lparr>sm_Visible = sm_Visible s, sm_Hidden = 0\<rparr>)"
  using sum_length_filter_compl [of "\<lambda>f. IsHidden sha f p" "r_Findings r"]
  by (simp add: FilterReport_eq filter_id_conv)

section \<open>Suppression\<close>

definition suppressed :: "(string \<Rightarrow> string) \<Rightarrow> finding \<Rightarrow> policy \<Rightarrow> bool" where
  "suppressed sha f p \<longleftrightarrow> pl_SuppressedFingerprints p (Fingerprint sha f) \<noteq> None \<or>
     pl_SuppressedIDs p (f_ID f) \<noteq> None"

text \<open>What the policy hides without any suppression.\<close>

definition hidden_by_view :: "finding \<Rightarrow> policy \<Rightarrow> bool" where
  "hidden_by_view f p =
     IsHidden (\<lambda>s. s) f
       (p\<lparr>pl_SuppressedIDs := Map.empty, pl_SuppressedFingerprints := Map.empty\<rparr>)"

lemma IsHidden_cases:
  "IsHidden sha f p \<longleftrightarrow>
     \<not> pl_IncludeHidden p \<and> (suppressed sha f p \<or> hidden_by_view f p)"
  by (simp add: IsHidden_def suppressed_def hidden_by_view_def)

lemma apply_entry_other [simp]:
  "pl_IncludeHidden (apply_entry p e) = pl_IncludeHidden p"
  "pl_MinSeverity (apply_entry p e) = pl_MinSeverity p"
  "pl_View (apply_entry p e) = pl_View p"
  by (simp_all add: apply_entry_def split: option.split)

lemma apply_entry_keeps:
  "pl_SuppressedIDs p i = Some r \<Longrightarrow> pl_SuppressedIDs (apply_entry p e) i = Some r"
  "pl_SuppressedFingerprints p i = Some r \<Longrightarrow> pl_SuppressedFingerprints (apply_entry p e) i = Some r"
  by (auto simp: apply_entry_def split: option.split)

lemma apply_entry_adds:
  "b_Fingerprint e = [] \<Longrightarrow> pl_SuppressedIDs (apply_entry p e) (b_ID e) \<noteq> None"
  "b_Fingerprint e \<noteq> [] \<Longrightarrow> pl_SuppressedFingerprints (apply_entry p e) (b_Fingerprint e) \<noteq> None"
  by (auto simp: apply_entry_def split: option.split)

lemma foldl_apply_other [simp]:
  "pl_IncludeHidden (foldl apply_entry p es) = pl_IncludeHidden p"
  "pl_MinSeverity (foldl apply_entry p es) = pl_MinSeverity p"
  "pl_View (foldl apply_entry p es) = pl_View p"
  by (induction es arbitrary: p) simp_all

lemma foldl_apply_keeps:
  "pl_SuppressedIDs p i = Some r \<Longrightarrow> pl_SuppressedIDs (foldl apply_entry p es) i = Some r"
  "pl_SuppressedFingerprints p i = Some r \<Longrightarrow>
   pl_SuppressedFingerprints (foldl apply_entry p es) i = Some r"
  by (induction es arbitrary: p) (simp_all add: apply_entry_keeps)

lemma foldl_apply_adds:
  "e \<in> set es \<Longrightarrow> b_Fingerprint e = [] \<Longrightarrow>
   pl_SuppressedIDs (foldl apply_entry p es) (b_ID e) \<noteq> None"
  "e \<in> set es \<Longrightarrow> b_Fingerprint e \<noteq> [] \<Longrightarrow>
   pl_SuppressedFingerprints (foldl apply_entry p es) (b_Fingerprint e) \<noteq> None"
proof (induction es arbitrary: p)
  case (Cons a es)
  {
    case 1
    with Cons show ?case
      using apply_entry_adds(1) [of e p] foldl_apply_keeps(1) [of "apply_entry p e" "b_ID e" _ es] by auto
  next
    case 2
    with Cons show ?case
      using apply_entry_adds(2) [of e p]
        foldl_apply_keeps(2) [of "apply_entry p e" "b_Fingerprint e" _ es] by auto
  }
qed simp_all

lemma hidden_by_view_foldl [simp]: "hidden_by_view f (foldl apply_entry p es) = hidden_by_view f p"
  by (simp add: hidden_by_view_def IsHidden_def)

text \<open>
  Applying a baseline never reveals a finding, never changes the reason of an earlier
  suppression, suppresses what its unexpired entries name, and ignores the expired ones.
\<close>

theorem ApplyBaseline_correct:
  "(IsHidden sha f p \<longrightarrow> IsHidden sha f (ApplyBaseline p b now)) \<and>
   (\<forall>i r. pl_SuppressedIDs p i = Some r \<longrightarrow>
      pl_SuppressedIDs (ApplyBaseline p b now) i = Some r) \<and>
   (\<forall>e \<in> set (ActiveEntries b now). \<not> pl_IncludeHidden p \<longrightarrow>
      (if b_Fingerprint e = [] then b_ID e = f_ID f else b_Fingerprint e = Fingerprint sha f) \<longrightarrow>
      IsHidden sha f (ApplyBaseline p b now)) \<and>
   ApplyBaseline p (fst (Baseline_Prune b now)) now = ApplyBaseline p b now"
proof (cases b)
  case None
  then show ?thesis by (simp add: ApplyBaseline_def ActiveEntries_def Baseline_Prune_def)
next
  case (Some b')
  let ?es = "ActiveEntries b now" and ?p = "ApplyBaseline p b now"
  have p: "?p = foldl apply_entry p ?es" using Some by (simp add: ApplyBaseline_def)
  have mono: "suppressed sha f p \<Longrightarrow> suppressed sha f ?p"
    using foldl_apply_keeps [of p] by (auto simp: suppressed_def p)
  have adds: "suppressed sha f ?p" if e: "e \<in> set ?es"
    "if b_Fingerprint e = [] then b_ID e = f_ID f else b_Fingerprint e = Fingerprint sha f" for e
    using that foldl_apply_adds [OF e(1), of p] by (auto simp: suppressed_def p split: if_splits)
  have "ActiveEntries (fst (Baseline_Prune b now)) now = ?es"
    using Some by (simp add: Baseline_Prune_eq ActiveEntries_def)
  then have "ApplyBaseline p (fst (Baseline_Prune b now)) now = ?p"
    using Some by (simp add: ApplyBaseline_def Baseline_Prune_eq)
  with mono adds show ?thesis
    using foldl_apply_keeps(1) [of p _ _ ?es] by (auto simp: IsHidden_cases p simp del: split_paired_All)
qed

theorem ApplyBaseline_correct_witness:
  "IsHidden sha_example (zero_finding\<lparr>f_ID := ''F-ENV-001'', f_Severity := SeverityHigh\<rparr>)
     (ApplyBaseline DefaultPolicy (Some (baseline_example\<lparr>b_Entries :=
        [entry_example\<lparr>b_ID := ''F-ENV-001''\<rparr>]\<rparr>)) 100)"
  using ApplyBaseline_correct [of sha_example
      "zero_finding\<lparr>f_ID := ''F-ENV-001'', f_Severity := SeverityHigh\<rparr>" DefaultPolicy
      "Some (baseline_example\<lparr>b_Entries := [entry_example\<lparr>b_ID := ''F-ENV-001''\<rparr>]\<rparr>)" 100]
  by (simp add: ActiveEntries_def expired_def entry_example_def DefaultPolicy_def)

text \<open>
  With the default policy, a finding of critical or high severity is shown unless it is
  suppressed or evidence-only, and one of medium severity unless it is also an optional or
  deployment-only one; all others are hidden.
\<close>

theorem default_view_shows:
  assumes "pl_View p = ViewActionable" "pl_MinSeverity p = SeverityMedium"
    and "\<not> pl_IncludeHidden p" "\<not> suppressed sha f p"
  shows "\<not> IsHidden sha f p \<longleftrightarrow>
    f_ID f \<noteq> ''F-RUNTIME-DECL-001'' \<and>
    (f_Severity f \<in> {SeverityCritical, SeverityHigh} \<or>
     f_Severity f = SeverityMedium \<and> f_ID f \<notin> {''F-ENV-001-OPTIONAL'', ''F-CI-ENV-DEPLOY-INFO''})"
  using assms by (auto simp: IsHidden_def suppressed_def ClassifyFinding_def isEvidenceOnlyFinding_def
      Let_def)

theorem default_view_shows_witness:
  "\<not> IsHidden sha_example (zero_finding\<lparr>f_ID := ''F-SVC-001'', f_Severity := SeverityMedium\<rparr>) DefaultPolicy"
  using default_view_shows [of DefaultPolicy sha_example
      "zero_finding\<lparr>f_ID := ''F-SVC-001'', f_Severity := SeverityMedium\<rparr>"]
  by (simp add: DefaultPolicy_def suppressed_def)

end
