(* ===== verification/Versions.thy ===== *)
theory Versions
  imports Schema
begin

text \<open>
  The version arithmetic of \<open>internal/rules/m1engine.go\<close>: normalising version strings, parsing them
  into numbers, the range operators and the compatibility test the runtime rules use. Go's two
  results \<open>(satisfied, evaluated)\<close> are pairs. Version numbers are machine integers; the upper
  bounds of \<open>^\<close> and \<open>~\<close> add one with wrap-around.
\<close>

fun trim_prefixes :: "string \<Rightarrow> string list \<Rightarrow> string" where
  "trim_prefixes v [] = v"
| "trim_prefixes v (p # ps) = trim_prefixes (trim_prefix v p) ps"

definition normalizeVersion :: "string \<Rightarrow> string" where
  "normalizeVersion v =
     (let v = trim_space v;
          v = trim_prefix v ''v'';
          v = trim_prefix v ''go'';
          v = trim_prefixes v [''>='', ''<='', ''~>'', ''^'', ''>'', ''<'', ''='', ''node'', ''lts/'']
      in trim_space v)"

fun parse_fields :: "string list \<Rightarrow> int list \<Rightarrow> int list option" where
  "parse_fields [] parts = Some parts"
| "parse_fields (field # fs) parts =
     (let field = trim_right_set ''xX*'' (trim_space field) in
      if field = [] then Some parts
      else case atoi field of None \<Rightarrow> None | Some n \<Rightarrow> parse_fields fs (parts @ [n]))"

definition parseVersionParts :: "string \<Rightarrow> int list option" where
  "parseVersionParts v =
     (let v = trim_space (normalizeVersion v) in
      if v = [] \<or> v = ''*'' then None
      else case parse_fields (split_at ''.'' v) [] of
             None \<Rightarrow> None
           | Some parts \<Rightarrow> if parts = [] then None else Some parts)"

text \<open>Both comparison loops read a missing part as 0; the second one stops at the target's end.\<close>

fun compareVersionParts :: "int list \<Rightarrow> int list \<Rightarrow> int" where
  "compareVersionParts [] [] = 0"
| "compareVersionParts (a # as) [] =
     (if a < 0 then - 1 else if a > 0 then 1 else compareVersionParts as [])"
| "compareVersionParts [] (t # ts) =
     (if 0 < t then - 1 else if 0 > t then 1 else compareVersionParts [] ts)"
| "compareVersionParts (a # as) (t # ts) =
     (if a < t then - 1 else if a > t then 1 else compareVersionParts as ts)"

fun compareVersionPartsPrefix :: "int list \<Rightarrow> int list \<Rightarrow> int" where
  "compareVersionPartsPrefix as [] = 0"
| "compareVersionPartsPrefix [] (t # ts) =
     (if 0 < t then - 1 else if 0 > t then 1 else compareVersionPartsPrefix [] ts)"
| "compareVersionPartsPrefix (a # as) (t # ts) =
     (if a < t then - 1 else if a > t then 1 else compareVersionPartsPrefix as ts)"

fun caretUpperBound :: "int list \<Rightarrow> int list" where
  "caretUpperBound [] = [1]"
| "caretUpperBound (u # us) =
     (if u > 0 then [wrap64 (u + 1)]
      else case us of v # _ \<Rightarrow> [0, wrap64 (v + 1)] | [] \<Rightarrow> [1])"

text \<open>\<open>parseVersionParts\<close> never returns an empty slice, which \<open>tildeUpperBound\<close> would index.\<close>

fun tildeUpperBound :: "int list \<Rightarrow> int list option" where
  "tildeUpperBound [] = None"
| "tildeUpperBound [a] = Some [wrap64 (a + 1)]"
| "tildeUpperBound (a # b # _) = Some [a, wrap64 (b + 1)]"

text \<open>The operator a constraint starts with, and the rest of it.\<close>

definition constraint_operator :: "string \<Rightarrow> string \<times> string" where
  "constraint_operator token =
     (if has_prefix token ''>='' then (''>='', trim_space (trim_prefix token ''>=''))
      else if has_prefix token ''<='' then (''<='', trim_space (trim_prefix token ''<=''))
      else if has_prefix token ''>'' then (''>'', trim_space (trim_prefix token ''>''))
      else if has_prefix token ''<'' then (''<'', trim_space (trim_prefix token ''<''))
      else if has_prefix token ''='' then (''='', trim_space (trim_prefix token ''=''))
      else (''='', token))"

definition compare_holds :: "string \<Rightarrow> int \<Rightarrow> bool" where
  "compare_holds operator cmp =
     (if operator = ''>='' then cmp \<ge> 0
      else if operator = ''<='' then cmp \<le> 0
      else if operator = ''>'' then cmp > 0
      else if operator = ''<'' then cmp < 0
      else cmp = 0)"

definition versionConstraintSatisfied :: "string \<Rightarrow> int list \<Rightarrow> bool \<times> bool" where
  "versionConstraintSatisfied token actualParts =
     (let token = trim_space token in
      if token = [] then (True, True)
      else
        (let operator = fst (constraint_operator token);
             target = snd (constraint_operator token)
         in case parseVersionParts target of
              None \<Rightarrow> (False, False)
            | Some targetParts \<Rightarrow>
                (compare_holds operator (compareVersionPartsPrefix actualParts targetParts), True)))"

fun constraints_satisfied :: "string list \<Rightarrow> int list \<Rightarrow> bool \<times> bool" where
  "constraints_satisfied [] actualParts = (True, True)"
| "constraints_satisfied (token # tokens) actualParts =
     (case versionConstraintSatisfied token actualParts of
        (ok, evaluated) \<Rightarrow>
          if \<not> evaluated \<or> \<not> ok then (ok, evaluated)
          else constraints_satisfied tokens actualParts)"

definition looksLikeVersionExpression :: "string \<Rightarrow> bool" where
  "looksLikeVersionExpression expr \<longleftrightarrow>
     contains expr '' '' \<or> contains expr '','' \<or> has_prefix expr ''>'' \<or> has_prefix expr ''<'' \<or>
     has_prefix expr ''^'' \<or> has_prefix expr ''~'' \<or> contains expr ''.x'' \<or> contains expr ''.*''"

definition versionExpressionSatisfied :: "string \<Rightarrow> string \<Rightarrow> bool \<times> bool" where
  "versionExpressionSatisfied expr actual =
     (let expr = trim_space expr in
      if expr = [] \<or> \<not> looksLikeVersionExpression expr then (False, False)
      else case parseVersionParts actual of
        None \<Rightarrow> (False, False)
      | Some actualParts \<Rightarrow>
          if has_prefix expr ''^'' then
            (case parseVersionParts (trim_prefix expr ''^'') of
               None \<Rightarrow> (False, False)
             | Some base \<Rightarrow>
                 (compareVersionParts actualParts base \<ge> 0 \<and>
                  compareVersionParts actualParts (caretUpperBound base) < 0, True))
          else if has_prefix expr ''~'' \<and> \<not> has_prefix expr ''~>'' then
            (case parseVersionParts (trim_prefix expr ''~'') of
               None \<Rightarrow> (False, False)
             | Some base \<Rightarrow>
                 (case tildeUpperBound base of
                    None \<Rightarrow> (False, False)
                  | Some upper \<Rightarrow>
                      (compareVersionParts actualParts base \<ge> 0 \<and>
                       compareVersionParts actualParts upper < 0, True)))
          else
            (let tokens = str_fields (replace_all expr '','' '' '') in
             if tokens = [] then (False, False) else constraints_satisfied tokens actualParts))"

text \<open>The comparison loop over at most two segments, bounded by both lists.\<close>

definition segments_equal :: "string list \<Rightarrow> string list \<Rightarrow> bool" where
  "segments_equal eParts aParts = list_all (\<lambda>(e, a). e = a) (zip (take 2 eParts) aParts)"

definition versionsCompatible :: "string \<Rightarrow> string \<Rightarrow> bool" where
  "versionsCompatible expected actual =
     (let expected = trim_space expected; actual = trim_space actual in
      if expected = ''lts/*'' \<or> expected = ''node'' \<or> expected = [] then True
      else case versionExpressionSatisfied expected actual of
        (ok, True) \<Rightarrow> ok
      | (_, False) \<Rightarrow>
          (case versionExpressionSatisfied actual expected of
             (ok, True) \<Rightarrow> ok
           | (_, False) \<Rightarrow>
               segments_equal (split_at ''.'' (normalizeVersion expected))
                              (split_at ''.'' (normalizeVersion actual))))"

definition confidenceForVersion :: "string \<Rightarrow> rat" where
  "confidenceForVersion expected =
     (if expected = ''lts/*'' \<or> expected = ''node'' \<or> \<not> contains expected ''.'' then 1/2 else 4/5)"

definition runtimeFindingID :: "string \<Rightarrow> string" where
  "runtimeFindingID rt =
     (if rt = ''node'' then ''F-RUNTIME-001''
      else if rt = ''python'' then ''F-RUNTIME-002''
      else if rt = ''dotnet'' then ''F-RUNTIME-004''
      else if rt = ''go'' then ''F-RUNTIME-005''
      else if rt = ''rustc'' then ''F-RUNTIME-006''
      else ''F-RUNTIME-003'')"

section \<open>The comparisons order versions lexicographically\<close>

text \<open>Part \<open>i\<close> of a version, 0 beyond its end, as both loops read it.\<close>

definition part :: "int list \<Rightarrow> nat \<Rightarrow> int" where
  "part xs i = (if i < length xs then xs ! i else 0)"

lemma part_simps [simp]: "part [] i = 0" "part (x # xs) 0 = x" "part (x # xs) (Suc i) = part xs i"
  by (simp_all add: part_def)

lemma all_nat_split: fixes Q :: "nat \<Rightarrow> bool" shows "All Q = (Q 0 \<and> All (\<lambda>n. Q (Suc n)))"
proof
  assume "Q 0 \<and> (\<forall>n. Q (Suc n))"
  then show "All Q" by (intro allI) (case_tac x; simp)
qed simp

definition lex_less :: "int list \<Rightarrow> int list \<Rightarrow> bool" where
  "lex_less as ts \<longleftrightarrow> (\<exists>i. part as i < part ts i \<and> (\<forall>j < i. part as j = part ts j))"

lemma lex_less_Cons:
  "lex_less as ts \<longleftrightarrow>
     part as 0 < part ts 0 \<or> part as 0 = part ts 0 \<and> lex_less (tl as) (tl ts)"
proof -
  have tl: "part (tl xs) i = part xs (Suc i)" for xs i by (cases xs) simp_all
  show ?thesis
  proof
    assume "lex_less as ts"
    then obtain i where i: "part as i < part ts i" "\<forall>j < i. part as j = part ts j"
      by (auto simp: lex_less_def)
    show "part as 0 < part ts 0 \<or> part as 0 = part ts 0 \<and> lex_less (tl as) (tl ts)"
    proof (cases i)
      case (Suc k)
      with i show ?thesis unfolding lex_less_def tl by (metis Suc_mono zero_less_Suc)
    qed (use i in simp)
  next
    assume "part as 0 < part ts 0 \<or> part as 0 = part ts 0 \<and> lex_less (tl as) (tl ts)"
    then show "lex_less as ts"
    proof (elim disjE conjE)
      assume "part as 0 = part ts 0" "lex_less (tl as) (tl ts)"
      then obtain i where "part as (Suc i) < part ts (Suc i)"
        "\<forall>j < i. part as (Suc j) = part ts (Suc j)" "part as 0 = part ts 0"
        by (auto simp: lex_less_def tl)
      then show ?thesis unfolding lex_less_def by (metis less_Suc_eq_0_disj)
    qed (auto simp: lex_less_def)
  qed
qed

lemma lex_less_irrefl [simp]: "\<not> lex_less [] []"
  by (simp add: lex_less_def)

lemma compare_lt: "compareVersionParts as ts < 0 \<longleftrightarrow> lex_less as ts"
  by (induction as ts rule: compareVersionParts.induct)
    (subst lex_less_Cons; simp)+

lemma compare_swap: "compareVersionParts ts as = - compareVersionParts as ts"
  by (induction as ts rule: compareVersionParts.induct) auto

lemma compare_eq: "compareVersionParts as ts = 0 \<longleftrightarrow> (\<forall>i. part as i = part ts i)"
  by (induction as ts rule: compareVersionParts.induct) (subst all_nat_split; simp)+

text \<open>
  \<open>compareVersionParts\<close> is the lexicographic order of the versions padded with zeros: negative,
  zero or positive as the first differing part is smaller, there is none, or it is larger.
\<close>

theorem compareVersionParts_lexicographic:
  "(compareVersionParts as ts < 0 \<longleftrightarrow> lex_less as ts) \<and>
   (compareVersionParts as ts = 0 \<longleftrightarrow> (\<forall>i. part as i = part ts i)) \<and>
   (compareVersionParts as ts > 0 \<longleftrightarrow> lex_less ts as)"
  using compare_lt [of ts as] compare_swap [of ts as] by (simp add: compare_lt compare_eq)

section \<open>Parsing a dotted version\<close>

lemma parse_fields_itoa:
  "\<forall>n \<in> set ns. 0 \<le> n \<and> n \<le> max_int64 \<Longrightarrow> parse_fields (map itoa ns) parts = Some (parts @ ns)"
proof (induction ns arbitrary: parts)
  case (Cons n ns)
  have s: "set (itoa n) \<subseteq> set digits" using Cons.prems by (simp add: set_itoa_nonneg)
  then have "trim_space (itoa n) = itoa n"
    using digit_no_space by (intro trim_space_no_space) blast
  moreover have "trim_right_set ''xX*'' (itoa n) = itoa n"
    using s by (intro trim_right_set_id) (auto simp: digits_def)
  moreover have "atoi (itoa n) = Some n"
    using Cons.prems by (intro atoi_itoa) (auto simp: min_int64_def)
  ultimately show ?case using Cons by simp
qed simp

lemma normalizeVersion_digits:
  assumes "set v \<subseteq> insert CHR ''.'' (set digits)" "v \<noteq> []"
  shows "normalizeVersion v = v"
proof -
  have "no_space_byte CHR ''.''" by code_simp
  then have t: "trim_space v = v"
    using assms(1) digit_no_space by (intro trim_space_no_space) auto
  obtain c w where v: "v = c # w" using assms(2) by (cases v) auto
  then have "c \<in> insert CHR ''.'' (set digits)" using assms(1) by simp
  then have "trim_prefix v p = v" if "p \<in> {''v'', ''go'', ''>='', ''<='', ''~>'', ''^'', ''>'',
      ''<'', ''='', ''node'', ''lts/''}" for p
    using that v by (auto simp: trim_prefix_def digits_def)
  then show ?thesis by (simp add: normalizeVersion_def Let_def t)
qed

lemma set_join: "set (join sep xs) \<subseteq> set sep \<union> \<Union> (set ` set xs)"
  by (induction sep xs rule: join.induct) auto

text \<open>A version printed from its parts is parsed back to them.\<close>

theorem parseVersionParts_roundtrip:
  assumes "ns \<noteq> []" "\<forall>n \<in> set ns. 0 \<le> n \<and> n \<le> max_int64"
  shows "parseVersionParts (join ''.'' (map itoa ns)) = Some ns"
proof -
  let ?v = "join ''.'' (map itoa ns)"
  have digits_ns: "set (itoa n) \<subseteq> set digits" if "n \<in> set ns" for n
    using that assms(2) by (simp add: set_itoa_nonneg)
  then have sv: "set ?v \<subseteq> insert CHR ''.'' (set digits)"
    using set_join [of "''.''" "map itoa ns"] by fastforce
  have ne: "?v \<noteq> []" using assms(1) by (cases ns rule: list.exhaust; cases "tl ns") auto
  have no: "?v \<noteq> ''*''" using sv by (auto simp: digits_def)
  have n: "normalizeVersion ?v = ?v" using sv ne by (rule normalizeVersion_digits)
  have "trim_space ?v = ?v" using n by (metis normalizeVersion_def trim_space_idem)
  moreover have "split_at ''.'' ?v = map itoa ns"
    using digits_ns assms(1) by (intro split_at_join) (auto simp: digits_def)
  ultimately show ?thesis
    using assms ne no parse_fields_itoa [OF assms(2)] by (simp add: parseVersionParts_def n Let_def)
qed

theorem parseVersionParts_roundtrip_witness: "parseVersionParts ''3.11.4'' = Some [3, 11, 4]"
proof -
  have "join ''.'' (map itoa [3, 11, 4]) = ''3.11.4''" by code_simp
  with parseVersionParts_roundtrip [of "[3, 11, 4]"] show ?thesis by (simp add: max_int64_def)
qed

section \<open>Ranges\<close>

text \<open>
  Within the range of machine integers, \<open>^\<close> admits the versions from the base on that keep its
  major part, or its minor part when the major part is 0; \<open>~\<close> those that keep major and minor.
\<close>

definition nonneg_parts :: "int list \<Rightarrow> bool" where
  "nonneg_parts xs \<longleftrightarrow> list_all (\<lambda>x. 0 \<le> x \<and> x < max_int64) xs"

lemma nonneg_part: "nonneg_parts xs \<Longrightarrow> 0 \<le> part xs i"
  by (auto simp: nonneg_parts_def part_def list_all_length)

lemma nonneg_lex_Nil: "nonneg_parts xs \<Longrightarrow> \<not> lex_less xs []"
proof
  assume a: "nonneg_parts xs" "lex_less xs []"
  then obtain i where "part xs i < part [] i" by (auto simp: lex_less_def)
  with nonneg_part [OF a(1), of i] show False by (simp add: part_def)
qed

lemma wrap64_Suc: "0 \<le> x \<Longrightarrow> x < max_int64 \<Longrightarrow> wrap64 (x + 1) = x + 1"
  by (rule wrap64_id) (auto simp: min_int64_def)

lemma nonneg_tl: "nonneg_parts xs \<Longrightarrow> nonneg_parts (tl xs)"
  by (cases xs) (auto simp: nonneg_parts_def)

lemma lex_less_single:
  "nonneg_parts as \<Longrightarrow> lex_less as [t] \<longleftrightarrow> part as 0 < t"
  using nonneg_lex_Nil [OF nonneg_tl, of as] by (subst lex_less_Cons) auto

lemma lex_less_pair:
  "nonneg_parts as \<Longrightarrow>
   lex_less as [s, t] \<longleftrightarrow> part as 0 < s \<or> part as 0 = s \<and> part as 1 < t"
  using lex_less_single [OF nonneg_tl, of as t]
  by (subst lex_less_Cons) (cases as, auto)

theorem version_ranges:
  assumes "nonneg_parts as" "nonneg_parts (u # us)"
    and "\<not> compareVersionParts as (u # us) < 0"
  shows "(compareVersionParts as (caretUpperBound (u # us)) < 0 \<longleftrightarrow>
      part as 0 = u \<and> (u = 0 \<longrightarrow> us \<noteq> [] \<longrightarrow> part as 1 = part us 0)) \<and>
    (\<exists>b. tildeUpperBound (u # us) = Some b \<and>
      (compareVersionParts as b < 0 \<longleftrightarrow>
        part as 0 = u \<and> (us \<noteq> [] \<longrightarrow> part as 1 = part us 0)))"
proof -
  have ge: "u \<le> part as 0" "part as 0 = u \<Longrightarrow> \<not> lex_less (tl as) us"
    using assms(3) lex_less_Cons [of as "u # us"] by (auto simp: compare_lt)
  have tl1: "part (tl as) 0 = part as 1" by (cases as) simp_all
  have ge1: "part us 0 \<le> part as 1" if "part as 0 = u"
    using ge(2) [OF that] lex_less_Cons [of "tl as" us] by (auto simp: tl1)
  have u: "0 \<le> u" "u < max_int64" using assms(2) by (auto simp: nonneg_parts_def)
  show ?thesis
  proof (cases us)
    case Nil
    with ge u show ?thesis
      by (auto simp: compare_lt lex_less_single [OF assms(1)] wrap64_Suc)
  next
    case (Cons v vs)
    then have v: "0 \<le> v" "v < max_int64" using assms(2) by (auto simp: nonneg_parts_def)
    with Cons ge ge1 u show ?thesis
      by (auto simp: compare_lt lex_less_single [OF assms(1)] lex_less_pair [OF assms(1)] wrap64_Suc)
  qed
qed

theorem version_ranges_witness:
  "compareVersionParts [1, 9] (caretUpperBound [1, 2, 3]) < 0"
  using version_ranges [of "[1, 9]" 1 "[2, 3]"]
  by (simp add: nonneg_parts_def max_int64_def)

text \<open>
  What the range test makes of a space after the operator and of equal strict ranges:
  \<open>>=18\<close> admits 20 but \<open>>= 18\<close> does not, and \<open>>20\<close> is not compatible with itself.
\<close>

theorem versionsCompatible_surprises:
  "versionsCompatible ''>=18'' ''20'' \<and> \<not> versionsCompatible ''>= 18'' ''20'' \<and>
   \<not> versionsCompatible ''>20'' ''>20''"
  by (intro conjI) code_simp+

end
