(* ===== verification/Rules_Common.thy ===== *)
theory Rules_Common
  imports Versions Sorting_Go Schema "HOL-Library.AList" "HOL-Library.Multiset"
begin

text \<open>
  What the engines of \<open>internal/rules\<close> share: the lookup of collectors by name, readings of evidence
  lists, and Go's numeric parsers. A Go map with string keys is an association list without
  duplicate keys (\<open>AList.update\<close> is the assignment \<open>m[k] = v\<close>); Go visits the keys of a map in no
  fixed order, so every \<open>range\<close> over a map whose order can be observed takes the order from a
  parameter \<open>ord loop keys\<close>, where \<open>loop\<close> names the loop.
\<close>

named_theorems templates "the findings the rules emit"

type_synonym map_order = "string \<Rightarrow> string list \<Rightarrow> string list"

definition is_map_order :: "map_order \<Rightarrow> bool" where
  "is_map_order ord \<longleftrightarrow> (\<forall>loop ks. mset (ord loop ks) = mset ks)"

lemma map_order_set [simp]: "is_map_order ord \<Longrightarrow> set (ord loop ks) = set ks"
  by (metis is_map_order_def set_mset_mset)

lemma map_order_distinct [simp]: "is_map_order ord \<Longrightarrow> distinct (ord loop ks) = distinct ks"
  by (metis is_map_order_def mset_eq_imp_distinct_iff)

lemma map_order_mset: "is_map_order ord \<Longrightarrow> mset (ord loop ks) = mset ks"
  by (simp add: is_map_order_def)

lemma mset_concat_map: "mset (concat (map g xs)) = sum_list (map (\<lambda>x. mset (g x)) xs)"
  by (induction xs) simp_all

lemma mset_concat_order:
  "mset xs = mset ys \<Longrightarrow> mset (concat (map g xs)) = mset (concat (map g ys))"
  by (metis mset_concat_map mset_map sum_mset_sum_list)

lemma map_order_examples: "is_map_order (\<lambda>_ ks. ks)" "is_map_order (\<lambda>_. rev)"
  by (simp_all add: is_map_order_def)

text \<open>\<open>sort.Strings\<close> and the keys of a map in sorted order (\<open>sortedKeys\<close> of \<open>m8engine.go\<close>).\<close>

definition sort_strings :: "string list \<Rightarrow> string list" where
  "sort_strings = slice_stable (<)"

definition sortedKeys :: "(string \<times> 'v) list \<Rightarrow> string list" where
  "sortedKeys m = sort_strings (map fst m)"

interpretation string_order: strict_weak_order "(<) :: string \<Rightarrow> string \<Rightarrow> bool"
  by unfold_locales auto

lemma mset_sort_strings [simp]: "mset (sort_strings xs) = mset xs"
  by (simp add: sort_strings_def)

lemma set_sort_strings [simp]: "set (sort_strings xs) = set xs"
  by (simp add: sort_strings_def)

lemma distinct_sort_strings [simp]: "distinct (sort_strings xs) = distinct xs"
  by (rule mset_eq_imp_distinct_iff) simp

lemma sorted_sort_strings: "sorted (sort_strings xs)"
  using string_order.sorted_slice_stable [of xs]
  by (simp add: sort_strings_def sorted_by_def linorder_not_less)

text \<open>Sorting the keys of a map forgets the order in which they were visited.\<close>

lemma sort_strings_unique:
  "mset xs = mset ys \<Longrightarrow> sort_strings xs = sort_strings ys"
  by (metis sorted_sort_strings mset_sort_strings properties_for_sort)

lemma sort_strings_distinct_eq:
  "distinct xs \<Longrightarrow> distinct ys \<Longrightarrow> set xs = set ys \<Longrightarrow> sort_strings xs = sort_strings ys"
  by (rule sort_strings_unique) (simp add: set_eq_iff_mset_eq_distinct)

section \<open>Collectors and evidence\<close>

definition collectorMap :: "collector_result list \<Rightarrow> string \<Rightarrow> collector_result option" where
  "collectorMap cs = foldl (\<lambda>m c. m(c_Name c \<mapsto> c)) Map.empty cs"

text \<open>The evidence of a collector looked up by name, empty when it did not run.\<close>

definition evidence_of :: "(string \<Rightarrow> collector_result option) \<Rightarrow> string \<Rightarrow> evidence list" where
  "evidence_of collectors name = (case collectors name of Some c \<Rightarrow> c_Evidence c | None \<Rightarrow> [])"

definition values_of :: "string \<Rightarrow> evidence list \<Rightarrow> string list" where
  "values_of source evs = map ev_Value (filter (\<lambda>ev. ev_Source ev = source) evs)"

text \<open>A variable assigned at every piece of evidence of one source keeps the last value.\<close>

definition last_value :: "string \<Rightarrow> evidence list \<Rightarrow> string option" where
  "last_value source evs =
     (case rev (values_of source evs) of [] \<Rightarrow> None | v # _ \<Rightarrow> Some v)"

definition has_source :: "string \<Rightarrow> evidence list \<Rightarrow> bool" where
  "has_source source evs = list_ex (\<lambda>ev. ev_Source ev = source) evs"

definition evidenceContainsValue :: "evidence list \<Rightarrow> string \<Rightarrow> bool" where
  "evidenceContainsValue evs needle = list_ex (\<lambda>ev. contains (ev_Value ev) needle) evs"

definition evidenceSourceValue :: "evidence list \<Rightarrow> string \<Rightarrow> string \<Rightarrow> bool" where
  "evidenceSourceValue evs source v =
     list_ex (\<lambda>ev. ev_Source ev = source \<and> ev_Value ev = v) evs"

definition envKeysFromEvidence :: "string \<Rightarrow> string list" where
  "envKeysFromEvidence v =
     (if \<not> has_prefix v ''keys: '' then []
      else filter (\<lambda>k. k \<noteq> []) (map trim_space (split_at '','' (trim_prefix v ''keys: ''))))"

definition quoted :: "string \<Rightarrow> string" where
  "quoted s = CHR 0x27 # s @ [CHR 0x27]"

section \<open>Numbers\<close>

text \<open>
  \<open>strconv.ParseFloat\<close> on decimal numbers with an optional sign, fraction and exponent, as an
  exact rational. Infinities, NaN and hexadecimal floats, which no collector writes, are read as
  errors here, and neither rounding to 53 bits nor overflow to infinity is modelled.
\<close>

definition parse_decimal :: "string \<Rightarrow> rat option" where
  "parse_decimal s =
     (let w = takeWhile (\<lambda>c. c \<in> set digits) s; r = dropWhile (\<lambda>c. c \<in> set digits) s;
          f = (case r of c # t \<Rightarrow> if c = CHR ''.'' then t else [] | [] \<Rightarrow> [])
      in if r \<noteq> [] \<and> hd r \<noteq> CHR ''.'' \<or> w @ f = [] then None
         else case digits_val 0 (w @ f) of
                None \<Rightarrow> None
              | Some n \<Rightarrow> Some (of_int n / 10 ^ length f))"

definition parse_mantissa :: "string \<Rightarrow> rat option" where
  "parse_mantissa s =
     (case s of [] \<Rightarrow> None
      | c # t \<Rightarrow> if c = CHR ''-'' then map_option uminus (parse_decimal t)
                 else if c = CHR ''+'' then parse_decimal t
                 else parse_decimal s)"

definition scale10 :: "int \<Rightarrow> rat \<Rightarrow> rat" where
  "scale10 e q = (if 0 \<le> e then q * 10 ^ nat e else q / 10 ^ nat (- e))"

definition parse_exponent :: "string \<Rightarrow> int option" where
  "parse_exponent s =
     (case s of [] \<Rightarrow> None
      | c # t \<Rightarrow> if c = CHR ''-'' \<or> c = CHR ''+''
                 then (if t = [] then None
                       else map_option (\<lambda>e. if c = CHR ''-'' then - e else e) (digits_val 0 t))
                 else digits_val 0 s)"

definition ParseFloat :: "string \<Rightarrow> rat option" where
  "ParseFloat s =
     (let m = takeWhile (\<lambda>c. c \<noteq> CHR ''e'' \<and> c \<noteq> CHR ''E'') s;
          r = dropWhile (\<lambda>c. c \<noteq> CHR ''e'' \<and> c \<noteq> CHR ''E'') s
      in case r of
           [] \<Rightarrow> parse_mantissa m
         | _ # t \<Rightarrow> (case parse_mantissa m of
                       None \<Rightarrow> None
                     | Some q \<Rightarrow> map_option (\<lambda>e. scale10 e q) (parse_exponent t)))"

text \<open>The same with Go's zero value for the number of a failed call.\<close>

definition ParseFloat_or_0 :: "string \<Rightarrow> rat" where
  "ParseFloat_or_0 s = (case ParseFloat s of Some q \<Rightarrow> q | None \<Rightarrow> 0)"

text \<open>
  \<open>fmt.Sscanf(s, "%d", &n)\<close>: blanks (not line ends) are skipped, then a sign and as many decimal
  digits as follow are read, the rest of the input is ignored; \<open>None\<close> is an error.
\<close>

definition Sscanf_d :: "string \<Rightarrow> int option" where
  "Sscanf_d s =
     (let t = dropWhile (\<lambda>c. c \<in> {CHR '' '', CHR 0x09, CHR 0x0B, CHR 0x0C, CHR 0x0D}) s;
          sgn = (case t of c # _ \<Rightarrow> if c = CHR ''-'' \<or> c = CHR ''+'' then [c] else [] | [] \<Rightarrow> []);
          ds = takeWhile (\<lambda>c. c \<in> set digits) (drop (length sgn) t)
      in if ds = [] then None else atoi (sgn @ ds))"

section \<open>Facts about readings\<close>

lemma collectorMap_snoc:
  "collectorMap (cs @ [c]) = (collectorMap cs)(c_Name c \<mapsto> c)"
  by (simp add: collectorMap_def)

lemma collectorMap_Nil [simp]: "collectorMap [] = Map.empty"
  by (simp add: collectorMap_def)

text \<open>With one result per name the lookup is by name.\<close>

lemma collectorMap_Some:
  "collectorMap cs name = Some c \<Longrightarrow> c \<in> set cs \<and> c_Name c = name"
  by (induction cs rule: rev_induct) (auto simp: collectorMap_snoc split: if_splits)

lemma collectorMap_in:
  "distinct (map c_Name cs) \<Longrightarrow> c \<in> set cs \<Longrightarrow> collectorMap cs (c_Name c) = Some c"
proof (induction cs rule: rev_induct)
  case (snoc x xs)
  then have "c = x \<or> c \<in> set xs \<and> c_Name c \<noteq> c_Name x" by (auto; metis image_eqI)
  with snoc show ?case by (auto simp: collectorMap_snoc)
qed simp

lemma values_of_simps [simp]:
  "values_of s [] = []"
  "values_of s (ev # evs) =
     (if ev_Source ev = s then ev_Value ev # values_of s evs else values_of s evs)"
  by (simp_all add: values_of_def)

lemma has_source_iff: "has_source s evs \<longleftrightarrow> values_of s evs \<noteq> []"
  by (induction evs) (auto simp: has_source_def)

lemma set_values_of: "set (values_of s evs) = {ev_Value ev |ev. ev \<in> set evs \<and> ev_Source ev = s}"
  by (auto simp: values_of_def)

lemma last_value_in: "last_value s evs = Some v \<Longrightarrow> v \<in> set (values_of s evs)"
proof -
  assume "last_value s evs = Some v"
  then obtain vs where "rev (values_of s evs) = v # vs"
    by (auto simp: last_value_def split: list.splits)
  then have "v \<in> set (rev (values_of s evs))" by simp
  then show ?thesis by simp
qed

lemma envKeysFromEvidence_keys:
  "k \<in> set (envKeysFromEvidence v) \<Longrightarrow> k \<noteq> [] \<and> trim_space k = k"
  by (auto simp: envKeysFromEvidence_def split: if_splits)

lemma filter_not_Nil_iff: "filter P xs \<noteq> [] \<longleftrightarrow> (\<exists>x \<in> set xs. P x)"
  by (induction xs) auto

lemma set_map_filter_iff: "y \<in> set (List.map_filter g xs) \<longleftrightarrow> (\<exists>x \<in> set xs. g x = Some y)"
  by (induction xs) (auto simp: map_filter_simps split: option.splits)

section \<open>Identifiers of findings\<close>

text \<open>\<open>ids_in\<close> reads "only these identifiers".\<close>

definition ids_in :: "string list \<Rightarrow> finding list \<Rightarrow> bool" where
  "ids_in is fs \<longleftrightarrow> f_ID ` set fs \<subseteq> set is"

lemma ids_in_simps [simp]:
  "ids_in is []"
  "ids_in is (f # fs) \<longleftrightarrow> f_ID f \<in> set is \<and> ids_in is fs"
  "ids_in is (fs @ gs) \<longleftrightarrow> ids_in is fs \<and> ids_in is gs"
  by (auto simp: ids_in_def)

lemma ids_in_concat: "(\<And>x. x \<in> set xs \<Longrightarrow> ids_in is (g x)) \<Longrightarrow> ids_in is (concat (map g xs))"
  by (induction xs) auto

lemma ids_in_map: "(\<And>x. x \<in> set xs \<Longrightarrow> f_ID (g x) \<in> set is) \<Longrightarrow> ids_in is (map g xs)"
  by (induction xs) auto

lemma ids_in_map_filter:
  "(\<And>x f. g x = Some f \<Longrightarrow> f_ID f \<in> set is) \<Longrightarrow> ids_in is (List.map_filter g xs)"
  by (induction xs) (auto simp: map_filter_simps split: option.splits)

definition emit :: "bool \<Rightarrow> finding \<Rightarrow> finding list" where
  "emit b f = (if b then [f] else [])"

lemma set_emit [simp]: "set (emit b f) = (if b then {f} else {})"
  by (simp add: emit_def)

lemma ids_in_emit [simp]: "ids_in is (emit b f) \<longleftrightarrow> b \<longrightarrow> f_ID f \<in> set is"
  by (simp add: emit_def)

end
