(* ===== verification/Rules_M1.thy ===== *)
theory Rules_M1
  imports Rules_Common Schema
begin

text \<open>
  \<open>internal/rules/m1engine.go\<close>: the engine that turns the evidence of one run of the collectors into
  findings, one group of rules per collector. Every composite literal \<open>schema.Finding\<close> is a template
  below, in the order of the source; the rules are the functions of the same name. A loop that only
  assigns one variable per source is split into one expression per variable.
\<close>

section \<open>Environment files\<close>

definition env_missing_keys :: "string list \<Rightarrow> finding" where [templates]:
  "env_missing_keys ks = zero_finding
     \<lparr>f_ID := ''F-ENV-001'',
      f_Title := ''Missing env keys from .env: '' @ join '', '' ks,
      f_Severity := SeverityMedium, f_Confidence := 7/10,
      f_Symptom := ''Keys defined in .env.example are not present in .env'',
      f_Evidence := [mk_ev ''missing_keys'' (join '', '' ks)],
      f_LikelyCauses := [''.env file not created from .env.example''],
      f_FixHints := [''add-env-placeholder'']\<rparr>"

definition env_optional_keys :: "string list \<Rightarrow> finding" where [templates]:
  "env_optional_keys ks = zero_finding
     \<lparr>f_ID := ''F-ENV-001-OPTIONAL'',
      f_Title := ''Optional env keys missing from .env: '' @ join '', '' ks,
      f_Severity := SeverityInfo, f_Confidence := 7/10,
      f_Symptom := ''Optional keys defined in .env.example are not present in .env'',
      f_Evidence := [mk_ev ''missing_optional_keys'' (join '', '' ks)],
      f_LikelyCauses := [''Optional env variables were not configured locally'']\<rparr>"

definition env_file_missing :: "bool \<Rightarrow> evidence list \<Rightarrow> finding" where [templates]:
  "env_file_missing allOptional evs = zero_finding
     \<lparr>f_ID := (if allOptional then ''F-ENV-001-OPTIONAL'' else ''F-ENV-001''),
      f_Title := ''.env.example exists but no local .env was found'',
      f_Severity := (if allOptional then SeverityInfo else SeverityMedium),
      f_Confidence := 1/2,
      f_Symptom := ''.env.example exists but .env is missing'',
      f_Evidence := evs,
      f_LikelyCauses := [''Project may require local env vars but .env is not present''],
      f_FixHints := [''add-env-placeholder'']\<rparr>"

text \<open>The three sets \<open>envRules\<close> reads from the configuration; a key is in a set when it is listed.\<close>

record env_config =
  ignoreMissing :: "string list"
  optionalKeys :: "string list"
  requiredKeys :: "string list"

definition env_config_of :: "(string \<Rightarrow> collector_result option) \<Rightarrow> env_config" where
  "env_config_of collectors =
     \<lparr>ignoreMissing = values_of ''devdiag_env_ignore_missing'' (evidence_of collectors ''config''),
      optionalKeys = values_of ''devdiag_env_optional'' (evidence_of collectors ''config''),
      requiredKeys = values_of ''devdiag_env_required'' (evidence_of collectors ''config'')\<rparr>"

text \<open>The branches of the loop over the missing keys: skipped, optional or missing.\<close>

fun split_missing :: "env_config \<Rightarrow> string list \<Rightarrow> string list \<times> string list" where
  "split_missing cfg [] = ([], [])"
| "split_missing cfg (k # ks) =
     (let k = trim_space k; rest = split_missing cfg ks
      in if k = [] then rest
         else if k \<in> set (ignoreMissing cfg) then rest
         else if requiredKeys cfg \<noteq> [] \<and> k \<notin> set (requiredKeys cfg) then (fst rest, k # snd rest)
         else if k \<in> set (optionalKeys cfg) then (fst rest, k # snd rest)
         else (k # fst rest, snd rest))"

definition missing_keys_findings :: "env_config \<Rightarrow> string \<Rightarrow> finding list" where
  "missing_keys_findings cfg v =
     (let filteredMissing = fst (split_missing cfg (split_at '', '' v));
          filteredOptional = snd (split_missing cfg (split_at '', '' v))
      in (if filteredMissing \<noteq> [] then [env_missing_keys filteredMissing] else []) @
         (if filteredOptional \<noteq> [] then [env_optional_keys filteredOptional] else []))"

definition env_example_keys :: "evidence list \<Rightarrow> string list" where
  "env_example_keys evs =
     (case rev (filter (\<lambda>v. has_prefix v ''keys: '') (values_of ''.env.example'' evs)) of
        [] \<Rightarrow> []
      | v # _ \<Rightarrow> split_at '', '' (trim_prefix v ''keys: ''))"

fun all_optional :: "env_config \<Rightarrow> string list \<Rightarrow> bool" where
  "all_optional cfg [] \<longleftrightarrow> True"
| "all_optional cfg (k # ks) \<longleftrightarrow>
     (if requiredKeys cfg \<noteq> [] \<and> k \<notin> set (requiredKeys cfg) then all_optional cfg ks
      else if k \<notin> set (optionalKeys cfg) then False
      else all_optional cfg ks)"

definition envRules ::
  "collector_result \<Rightarrow> (string \<Rightarrow> collector_result option) \<Rightarrow> finding list" where
  "envRules result collectors =
     (let cfg = env_config_of collectors;
          envMissing = ''missing'' \<in> set (values_of ''.env'' (c_Evidence result));
          activeExampleKeys =
            filter (\<lambda>k. k \<noteq> [] \<and> k \<notin> set (ignoreMissing cfg))
              (map trim_space (env_example_keys (c_Evidence result)))
      in concat (map (missing_keys_findings cfg) (values_of ''missing_keys'' (c_Evidence result))) @
         (if envMissing \<and> env_example_keys (c_Evidence result) \<noteq> [] \<and> activeExampleKeys \<noteq> []
          then [env_file_missing (all_optional cfg activeExampleKeys) (c_Evidence result)]
          else []))"

section \<open>References of Compose files\<close>

definition compose_undefined :: "string \<Rightarrow> evidence list \<Rightarrow> finding" where [templates]:
  "compose_undefined varName evs = zero_finding
     \<lparr>f_ID := ''F-ENV-002'',
      f_Title := ''Compose references env variable that may be undefined: '' @ varName,
      f_Severity := SeverityMedium, f_Confidence := 3/5,
      f_Symptom := ''Compose file references environment variable '' @ varName @
        '' which may not be defined'',
      f_Evidence := evs,
      f_LikelyCauses := [''Variable was not found in collected local env file evidence'']\<rparr>"

text \<open>The first separator of a list that occurs ends the name; the flag tells whether one did.\<close>

fun cut_at_first :: "string list \<Rightarrow> string \<Rightarrow> string \<times> bool" where
  "cut_at_first [] inner = (inner, False)"
| "cut_at_first (sep # seps) inner =
     (case index_of sep inner of
        Some idx \<Rightarrow> (take idx inner, True)
      | None \<Rightarrow> cut_at_first seps inner)"

definition parse_braced :: "string \<Rightarrow> string \<times> bool" where
  "parse_braced inner =
     (let r = cut_at_first ['':-'', ''-'', '':+'', ''+''] inner
      in (trim_space (fst (cut_at_first ['':?'', ''?''] (fst r))), snd r))"

definition parseComposeRef :: "string \<Rightarrow> string \<times> bool" where
  "parseComposeRef raw0 =
     (let raw = trim_space raw0
      in if \<not> has_prefix raw ''$'' then ([], False)
         else let inner = trim_prefix raw ''$''
              in if has_prefix inner ''{'' \<and> has_suffix inner ''}''
                 then parse_braced (drop 1 (take (length inner - 1) inner))
                 else (inner, False))"

definition compose_ref :: "evidence \<Rightarrow> string option" where
  "compose_ref ev =
     (if \<not> contains (ev_Source ev) ''.yaml:'' \<and> \<not> contains (ev_Source ev) ''.yml:'' then None
      else case index_of '' references '' (ev_Value ev) of
             None \<Rightarrow> None
           | Some idx \<Rightarrow> Some (drop (idx + length '' references '') (ev_Value ev)))"

definition local_env_keys :: "(string \<Rightarrow> collector_result option) \<Rightarrow> string list" where
  "local_env_keys collectors =
     concat (map (\<lambda>ev. if ev_Source ev = ''.env'' \<or> ev_Source ev = ''.env.local''
                       then envKeysFromEvidence (ev_Value ev) else [])
       (evidence_of collectors ''env''))"

text \<open>The variable a piece of evidence is collected under, if it is one that may be undefined.\<close>

definition undefined_var :: "string list \<Rightarrow> evidence \<Rightarrow> string option" where
  "undefined_var envKeys ev =
     (case compose_ref ev of
        None \<Rightarrow> None
      | Some rawRef \<Rightarrow>
          let varName = fst (parseComposeRef rawRef)
          in if varName = [] then None
             else if varName \<in> set envKeys then None
             else if snd (parseComposeRef rawRef) then None
             else Some varName)"

fun group_missing ::
  "string list \<Rightarrow> evidence list \<Rightarrow> (string \<times> evidence list) list \<Rightarrow> (string \<times> evidence list) list"
where
  "group_missing envKeys [] m = m"
| "group_missing envKeys (ev # evs) m =
     (case undefined_var envKeys ev of
        None \<Rightarrow> group_missing envKeys evs m
      | Some v \<Rightarrow> group_missing envKeys evs
          (AList.update v (case map_of m v of Some es \<Rightarrow> es @ [ev] | None \<Rightarrow> [ev]) m))"

definition composeRules ::
  "collector_result \<Rightarrow> (string \<Rightarrow> collector_result option) \<Rightarrow> finding list" where
  "composeRules result collectors =
     (let missingVars = group_missing (local_env_keys collectors) (c_Evidence result) []
      in map (\<lambda>v. compose_undefined v (the (map_of missingVars v))) (sortedKeys missingVars))"

section \<open>Git, lockfiles, declarations\<close>

definition git_tracked_env :: "string list \<Rightarrow> evidence list \<Rightarrow> finding" where [templates]:
  "git_tracked_env trackedEnv evs = zero_finding
     \<lparr>f_ID := ''F-GIT-001'',
      f_Title := ''Env file tracked by Git: '' @ join '', '' trackedEnv,
      f_Severity := SeverityMedium, f_Confidence := 9/10,
      f_Symptom := ''Environment files containing secrets are tracked in version control'',
      f_Evidence := evs,
      f_LikelyCauses := [''.env file was committed to Git before being added to .gitignore''],
      f_FixHints := [''gitignore-env'']\<rparr>"

definition git_env_not_ignored :: "evidence list \<Rightarrow> finding" where [templates]:
  "git_env_not_ignored evs = zero_finding
     \<lparr>f_ID := ''F-GIT-002'',
      f_Title := ''.env exists but is not ignored by Git'',
      f_Severity := SeverityMedium, f_Confidence := 7/10,
      f_Symptom := ''.env file is not ignored by Git and may be committed accidentally'',
      f_Evidence := evs,
      f_LikelyCauses := [''Missing .env entry in .gitignore or ignore pattern does not match''],
      f_FixHints := [''gitignore-env'']\<rparr>"

definition safe_template_suffixes :: "string list" where
  "safe_template_suffixes =
     [''.example'', ''.sample'', ''.template'', ''.dist'', ''.schema'', ''.default'', ''.defaults'']"

definition path_base :: "string \<Rightarrow> string" where
  "path_base path =
     (case last_index_of ''/'' path of Some idx \<Rightarrow> drop (idx + 1) path | None \<Rightarrow> path)"

definition isSafeEnvTemplatePath :: "string \<Rightarrow> bool" where
  "isSafeEnvTemplatePath path =
     (let base = path_base path
      in if base = ''.env'' then False
         else if \<not> has_prefix base ''.env.'' then False
         else list_ex (\<lambda>suffix. has_suffix base suffix) safe_template_suffixes)"

definition riskyTrackedEnvFiles :: "string list \<Rightarrow> string list" where
  "riskyTrackedEnvFiles files =
     filter (\<lambda>file. \<not> (file = [] \<or> isSafeEnvTemplatePath file)) (map trim_space files)"

definition gitRules :: "collector_result \<Rightarrow> finding list" where
  "gitRules result =
     (let evs = c_Evidence result;
          trackedEnv = (case last_value ''git_tracked_env'' evs of
                          Some v \<Rightarrow> riskyTrackedEnvFiles (split_at '', '' v) | None \<Rightarrow> []);
          envIgnored = (last_value ''git_env_ignored'' evs = Some ''true'');
          envExists = (last_value ''git_env_exists'' evs = Some ''true'')
      in (if trackedEnv \<noteq> [] then [git_tracked_env trackedEnv evs] else []) @
         (if envExists \<and> \<not> envIgnored then [git_env_not_ignored evs] else []))"

definition multiple_lockfiles :: "evidence \<Rightarrow> finding" where [templates]:
  "multiple_lockfiles ev = zero_finding
     \<lparr>f_ID := ''F-PM-001'',
      f_Title := ''Multiple package manager lockfiles: '' @ ev_Value ev,
      f_Severity := SeverityMedium, f_Confidence := 3/5,
      f_Symptom := ''Multiple lockfiles may indicate package manager conflict or migration'',
      f_Evidence := [ev],
      f_LikelyCauses := [''Migration between package managers'',
                         ''Monorepo with different package managers'']\<rparr>"

definition repoRules :: "collector_result \<Rightarrow> finding list" where
  "repoRules result =
     map multiple_lockfiles
       (filter (\<lambda>ev. ev_Source ev = ''lockfiles'' \<and> length (split_at '', '' (ev_Value ev)) > 1)
         (c_Evidence result))"

definition runtime_declared :: "evidence list \<Rightarrow> finding" where [templates]:
  "runtime_declared evs = zero_finding
     \<lparr>f_ID := ''F-RUNTIME-DECL-001'',
      f_Title := ''Runtime version declaration discovered'',
      f_Severity := SeverityInfo, f_Confidence := 9/10,
      f_Symptom := ''Project declares expected runtime versions'',
      f_Evidence := evs,
      f_LikelyCauses := [''Version pinning helps reproducibility'']\<rparr>"

definition runtimeRules :: "collector_result \<Rightarrow> finding list" where
  "runtimeRules result =
     (if map ev_Value (c_Evidence result) \<noteq> [] then [runtime_declared (c_Evidence result)] else [])"

definition ciRules :: "collector_result \<Rightarrow> finding list" where
  "ciRules result = []"

section \<open>Runtimes of the host\<close>

definition runtime_missing :: "string \<Rightarrow> string \<Rightarrow> finding" where [templates]:
  "runtime_missing rt expVer = zero_finding
     \<lparr>f_ID := ''F-RUNTIME-003'',
      f_Title := ''Required runtime '' @ quoted rt @ '' not found on host'',
      f_Severity := SeverityHigh, f_Confidence := 4/5,
      f_Symptom := ''Project expects '' @ rt @ '' but it is not installed'',
      f_Evidence := [mk_ev (''expected_'' @ rt) expVer,
                     mk_ev (''host_'' @ rt @ ''_missing'') ''true''],
      f_LikelyCauses := [''Runtime is not installed or not in PATH'',
        ''Version manager (nvm, pyenv, etc.) may not be active in this shell'']\<rparr>"

definition runtime_mismatch :: "string \<Rightarrow> string \<Rightarrow> string \<Rightarrow> string \<Rightarrow> string \<Rightarrow> finding" where [templates]:
  "runtime_mismatch rt expVer actVer path manager = zero_finding
     \<lparr>f_ID := runtimeFindingID rt,
      f_Title := rt @ '' version mismatch: repo expects '' @ expVer @ '', host has '' @ actVer,
      f_Severity := SeverityMedium, f_Confidence := confidenceForVersion expVer,
      f_Symptom := ''Installed '' @ rt @ '' version does not match project expectation'',
      f_Evidence := [mk_ev (''expected_'' @ rt) expVer,
                     mk_ev (''host_'' @ rt @ ''_version'') actVer,
                     mk_ev (''host_'' @ rt @ ''_path'') path,
                     mk_ev (''host_'' @ rt @ ''_manager'') manager],
      f_LikelyCauses := [''Version manager may be using a different version'',
                         ''Project was developed with a different runtime version'']\<rparr>"

definition add_expected :: "(string \<times> string) list \<Rightarrow> evidence \<Rightarrow> (string \<times> string) list" where
  "add_expected m ev =
     (case split_at2 '' '' (ev_Value ev) of
        [name, ver] \<Rightarrow> AList.update (if name = ''rust'' then ''rustc'' else name) ver m
      | _ \<Rightarrow> m)"

definition expected_runtimes :: "evidence list \<Rightarrow> (string \<times> string) list" where
  "expected_runtimes evs = foldl add_expected [] evs"

text \<open>The four maps of the host's runtimes; each piece of evidence goes to the first that fits.\<close>

record host_runtimes =
  h_actual :: "string \<Rightarrow> string option"
  h_paths :: "string \<Rightarrow> string option"
  h_missing :: "string \<Rightarrow> bool option"
  h_managers :: "string \<Rightarrow> string option"

definition host_runtime_name :: "string \<Rightarrow> string \<Rightarrow> string" where
  "host_runtime_name source suf = trim_prefix (trim_suffix source suf) ''host_''"

definition add_host_runtime :: "host_runtimes \<Rightarrow> evidence \<Rightarrow> host_runtimes" where
  "add_host_runtime h ev =
     (if has_suffix (ev_Source ev) ''_version''
      then h\<lparr>h_actual := (h_actual h)(host_runtime_name (ev_Source ev) ''_version'' \<mapsto> ev_Value ev)\<rparr>
      else if has_suffix (ev_Source ev) ''_path''
      then h\<lparr>h_paths := (h_paths h)(host_runtime_name (ev_Source ev) ''_path'' \<mapsto> ev_Value ev)\<rparr>
      else if has_suffix (ev_Source ev) ''_missing''
      then h\<lparr>h_missing := (h_missing h)
               (host_runtime_name (ev_Source ev) ''_missing'' \<mapsto> (ev_Value ev = ''true''))\<rparr>
      else if has_suffix (ev_Source ev) ''_manager''
      then h\<lparr>h_managers := (h_managers h)
               (host_runtime_name (ev_Source ev) ''_manager'' \<mapsto> ev_Value ev)\<rparr>
      else h)"

definition host_runtimes_of :: "evidence list \<Rightarrow> host_runtimes" where
  "host_runtimes_of evs = foldl add_host_runtime
     \<lparr>h_actual = Map.empty, h_paths = Map.empty, h_missing = Map.empty, h_managers = Map.empty\<rparr> evs"

definition check_runtime :: "host_runtimes \<Rightarrow> string \<Rightarrow> string \<Rightarrow> finding list" where
  "check_runtime h rt expVer =
     (if h_missing h rt = Some True then [runtime_missing rt expVer]
      else case h_actual h rt of
             None \<Rightarrow> []
           | Some actVer \<Rightarrow>
               if actVer = [] then []
               else if \<not> versionsCompatible expVer actVer
               then [runtime_mismatch rt expVer actVer (case h_paths h rt of Some p \<Rightarrow> p | None \<Rightarrow> [])
                       (case h_managers h rt of Some m \<Rightarrow> m | None \<Rightarrow> [])]
               else [])"

definition hostRuntimeRules ::
  "map_order \<Rightarrow> collector_result \<Rightarrow> (string \<Rightarrow> collector_result option) \<Rightarrow> finding list" where
  "hostRuntimeRules ord result collectors =
     (let expected = expected_runtimes (evidence_of collectors ''runtime'');
          h = host_runtimes_of (c_Evidence result)
      in concat (map (\<lambda>rt. check_runtime h rt (the (map_of expected rt)))
           (ord ''expected'' (map fst expected))))"

section \<open>Disk, ports, network, services, permissions\<close>

definition disk_pressure :: "string \<Rightarrow> rat \<Rightarrow> evidence list \<Rightarrow> finding" where [templates]:
  "disk_pressure symptom conf evs = zero_finding
     \<lparr>f_ID := ''F-DISK-001'',
      f_Title := ''Disk or inode pressure on repo mount'',
      f_Severity := SeverityMedium, f_Confidence := conf,
      f_Symptom := symptom,
      f_Evidence := evs,
      f_LikelyCauses := [''Build artifacts or caches consuming space'', ''Large dependency trees''],
      f_FixHints := [''warn-disk-cleanup'']\<rparr>"

definition giB :: rat where "giB = 1024 * 1024 * 1024"

text \<open>\<open>freeInodesPct\<close> keeps the last value that parses.\<close>

definition free_inodes_pct :: "evidence list \<Rightarrow> rat option" where
  "free_inodes_pct evs =
     (case rev (filter (\<lambda>v. ParseFloat v \<noteq> None) (values_of ''host_disk_free_inodes_pct'' evs)) of
        [] \<Rightarrow> None
      | v # _ \<Rightarrow> ParseFloat v)"

definition float_of_last :: "string \<Rightarrow> evidence list \<Rightarrow> rat" where
  "float_of_last source evs =
     (case last_value source evs of Some v \<Rightarrow> ParseFloat_or_0 v | None \<Rightarrow> 0)"

definition diskRules :: "collector_result \<Rightarrow> finding list" where
  "diskRules result =
     (let evs = c_Evidence result;
          freeBytes = float_of_last ''host_disk_free_bytes'' evs;
          freePct = float_of_last ''host_disk_free_pct'' evs;
          inodesAvailable = (last_value ''host_disk_inodes_available'' evs \<noteq> Some ''false'');
          inode_below = (\<lambda>limit. inodesAvailable \<and>
            (case free_inodes_pct evs of Some q \<Rightarrow> q < limit | None \<Rightarrow> False))
      in if freeBytes < giB \<or> freePct < 2 \<or> inode_below 2
         then [disk_pressure ''Repo mount is critically low on disk space or inodes'' (4/5) evs]
         else if freeBytes < 5 * giB \<or> freePct < 10 \<or> inode_below 10
         then [disk_pressure ''Repo mount is low on disk space or inodes'' (7/10) evs]
         else [])"

definition port_in_use :: "int \<Rightarrow> finding" where [templates]:
  "port_in_use port = zero_finding
     \<lparr>f_ID := ''F-PORT-001'',
      f_Title := ''Declared host port '' @ itoa port @ '' already in use'',
      f_Severity := SeverityHigh, f_Confidence := 7/10,
      f_Symptom := ''A port declared in compose is already listening on the host'',
      f_Evidence := [mk_ev ''compose_host_port'' (itoa port), mk_ev ''host_listen_port'' (itoa port)],
      f_LikelyCauses := [''Another service is already bound to this port'',
                         ''Previous instance of the service did not shut down cleanly''],
      f_FixHints := [''change-compose-port'', ''stop-service'']\<rparr>"

definition compose_port :: "string \<Rightarrow> int option" where
  "compose_port val = atoi (if contains val '':'' then last (split_at '':'' val) else val)"

definition extractComposeHostPorts :: "(string \<Rightarrow> collector_result option) \<Rightarrow> int list" where
  "extractComposeHostPorts collectors =
     List.map_filter compose_port (values_of ''compose_host_port'' (evidence_of collectors ''compose''))"

definition listening_ports :: "evidence list \<Rightarrow> int list" where
  "listening_ports evs =
     List.map_filter
       (\<lambda>ev. if has_prefix (ev_Source ev) ''host_listen_port_'' then atoi (ev_Value ev) else None) evs"

definition portRules ::
  "collector_result \<Rightarrow> (string \<Rightarrow> collector_result option) \<Rightarrow> finding list" where
  "portRules result collectors =
     map port_in_use
       (filter (\<lambda>port. port \<in> set (listening_ports (c_Evidence result)))
         (extractComposeHostPorts collectors))"

definition proxy_without_exclusions :: "evidence list \<Rightarrow> finding" where [templates]:
  "proxy_without_exclusions evs = zero_finding
     \<lparr>f_ID := ''F-NET-001'',
      f_Title := ''Proxy env var set but NO_PROXY is empty'',
      f_Severity := SeverityLow, f_Confidence := 1/2,
      f_Symptom := ''HTTP proxy is configured without NO_PROXY exclusions'',
      f_Evidence := evs,
      f_LikelyCauses := [''Proxy may redirect local service traffic unexpectedly'',
        ''Add localhost, 127.0.0.1 to NO_PROXY if local services fail'']\<rparr>"

definition networkRules :: "collector_result \<Rightarrow> finding list" where
  "networkRules result =
     (let hasProxy = has_source ''host_proxy_env'' (c_Evidence result);
          hasNoProxy = has_source ''host_no_proxy'' (c_Evidence result)
      in if hasProxy \<and> \<not> hasNoProxy then [proxy_without_exclusions (c_Evidence result)] else [])"

definition docker_service_inactive :: "evidence list \<Rightarrow> finding" where [templates]:
  "docker_service_inactive evs = zero_finding
     \<lparr>f_ID := ''F-SVC-001'',
      f_Title := ''Docker service inactive but repo expects Docker'',
      f_Severity := SeverityMedium, f_Confidence := 7/10,
      f_Symptom := ''Repo contains Docker/Compose files but the Docker service is not running'',
      f_Evidence := evs,
      f_LikelyCauses := [''Docker daemon is not started'', ''User is not in the docker group'']\<rparr>"

definition systemdRules :: "collector_result \<Rightarrow> finding list" where
  "systemdRules result =
     map (\<lambda>ev. docker_service_inactive (c_Evidence result))
       (filter (\<lambda>ev. ev_Source ev = ''host_docker_service'' \<and> ev_Value ev = ''inactive'')
         (c_Evidence result))"

definition script_not_executable :: "evidence \<Rightarrow> finding" where [templates]:
  "script_not_executable ev = zero_finding
     \<lparr>f_ID := ''F-FS-001'',
      f_Title := ''Script missing executable bit: '' @ ev_Value ev,
      f_Severity := SeverityMedium, f_Confidence := 4/5,
      f_Symptom := ''A referenced script cannot be executed due to missing permissions'',
      f_Evidence := [ev],
      f_LikelyCauses := [''File was created without execute permissions'',
                         ''Permissions were reset during file copy or extraction''],
      f_FixHints := [''chmod-script'']\<rparr>"

definition file_root_owned :: "evidence \<Rightarrow> finding" where [templates]:
  "file_root_owned ev = zero_finding
     \<lparr>f_ID := ''F-PERM-002'',
      f_Title := ''File owned by root: '' @ ev_Value ev,
      f_Severity := SeverityLow, f_Confidence := 3/5,
      f_Symptom := ''A repo-relevant file is owned by root'',
      f_Evidence := [ev],
      f_LikelyCauses := [''Possibly created by prior sudo command'',
                         ''File was created as root and ownership was not transferred'']\<rparr>"

definition permissionRules :: "collector_result \<Rightarrow> finding list" where
  "permissionRules result =
     concat (map (\<lambda>ev.
       (if ev_Source ev = ''host_script_not_executable'' then [script_not_executable ev] else []) @
       (if ev_Source ev = ''host_file_root_owned'' then [file_root_owned ev] else []))
       (c_Evidence result))"

section \<open>Denials of the security modules\<close>

definition selinux_denial :: "bool \<Rightarrow> evidence list \<Rightarrow> finding" where [templates]:
  "selinux_denial relabel evs = zero_finding
     \<lparr>f_ID := ''F-SEC-SELINUX-001'',
      f_Title := ''SELinux denial likely blocking project access'',
      f_Severity := SeverityMedium, f_Confidence := 7/10,
      f_Symptom := ''Kernel audit logs show SELinux denied a file or process operation'',
      f_Evidence := evs,
      f_LikelyCauses :=
        (if relabel
         then [''Container bind mount is missing an SELinux shared/private relabel such as :z or :Z'']
         else []) @
        [''Bind mount or workspace path may have an SELinux label mismatch'',
         ''Container volume may need an explicit shared or private SELinux relabel'',
         ''Process domain is not allowed to access the target path''],
      f_FixHints := [''inspect-selinux-context''] @
        (if relabel then [''relabel-container-volume''] else [])\<rparr>"

definition apparmor_denial :: "bool \<Rightarrow> evidence list \<Rightarrow> finding" where [templates]:
  "apparmor_denial docker_default evs = zero_finding
     \<lparr>f_ID := ''F-SEC-APPARMOR-001'',
      f_Title := ''AppArmor denial likely blocking project access'',
      f_Severity := SeverityMedium, f_Confidence := 7/10,
      f_Symptom := ''Kernel audit logs show AppArmor denied a file or process operation'',
      f_Evidence := evs,
      f_LikelyCauses :=
        (if docker_default
         then [''Docker default AppArmor profile denied access to the mounted project path'']
         else []) @
        [''Container or process profile denies the requested operation'',
         ''Mounted workspace path is outside the allowed profile paths'',
         ''Service profile needs adjustment or a less restrictive local dev profile''],
      f_FixHints := [''inspect-apparmor-denial''] @
        (if docker_default then [''review-apparmor-profile''] else [])\<rparr>"

definition securityRules :: "collector_result \<Rightarrow> finding list" where
  "securityRules result =
     (let selinux = filter (\<lambda>ev. ev_Source ev = ''selinux_denial'') (c_Evidence result);
          appArmor = filter (\<lambda>ev. ev_Source ev = ''apparmor_denial'') (c_Evidence result)
      in (if selinux \<noteq> []
          then [selinux_denial
                  (evidenceContainsValue selinux ''container_label_hint=mount_relabel_z_or_Z'') selinux]
          else []) @
         (if appArmor \<noteq> []
          then [apparmor_denial (evidenceContainsValue appArmor ''profile=docker-default'') appArmor]
          else []))"

section \<open>Docker and Podman\<close>

definition docker_permission_denied :: "evidence list \<Rightarrow> finding" where [templates]:
  "docker_permission_denied evs = zero_finding
     \<lparr>f_ID := ''F-DOCKER-002'',
      f_Title := ''Docker socket permission denied'',
      f_Severity := SeverityMedium, f_Confidence := 7/10,
      f_Symptom := ''Cannot access Docker daemon socket due to permission restrictions'',
      f_Evidence := evs,
      f_LikelyCauses := [''Current user may not be in the docker group'',
        ''Docker daemon may be running with restricted socket permissions'',
        ''Rootless Docker may require different socket path''],
      f_FixHints := [''suggest-docker-group'']\<rparr>"

definition docker_inactive :: "severity \<Rightarrow> evidence list \<Rightarrow> finding" where [templates]:
  "docker_inactive sev evs = zero_finding
     \<lparr>f_ID := ''F-DOCKER-001'',
      f_Title := ''Docker daemon inactive or inaccessible'',
      f_Severity := sev, f_Confidence := 4/5,
      f_Symptom := ''Docker daemon is not running or is unreachable'',
      f_Evidence := evs,
      f_LikelyCauses := [''Docker service is not started'', ''Docker daemon is misconfigured''],
      f_FixHints := [''suggest-docker-group'']\<rparr>"

definition compose_plugin_missing :: "evidence list \<Rightarrow> finding" where [templates]:
  "compose_plugin_missing evs = zero_finding
     \<lparr>f_ID := ''F-DOCKER-003'',
      f_Title := ''Docker Compose plugin missing'',
      f_Severity := SeverityMedium, f_Confidence := 3/5,
      f_Symptom := ''Repo has Compose files but Docker Compose plugin is not available'',
      f_Evidence := evs,
      f_LikelyCauses := [''Docker Compose plugin is not installed'',
                         ''Legacy docker-compose binary may be available as fallback'']\<rparr>"

definition dockerDaemonSeverity :: "(string \<Rightarrow> collector_result option) \<Rightarrow> severity" where
  "dockerDaemonSeverity collectors =
     (case collectors ''repo'' of
        None \<Rightarrow> SeverityHigh
      | Some repo \<Rightarrow>
          if c_Status repo \<noteq> CollectorOK \<or> c_Partial repo then SeverityHigh
          else if list_ex (\<lambda>ev. ev_Source ev \<in> {''compose'', ''devcontainer'', ''devcontainer_image''})
                    (c_Evidence repo)
          then SeverityHigh else SeverityMedium)"

definition dockerRules ::
  "collector_result \<Rightarrow> (string \<Rightarrow> collector_result option) \<Rightarrow> finding list" where
  "dockerRules result collectors =
     (let evs = c_Evidence result;
          hasPermissionDenied = has_source ''docker_socket_permission_denied'' evs;
          hasComposePlugin = evidenceSourceValue evs ''docker_compose_plugin'' ''available'';
          repoHasCompose = has_source ''compose'' (evidence_of collectors ''compose'')
      in (if c_Status result = CollectorUnavailable
          then if hasPermissionDenied then [docker_permission_denied evs]
               else [docker_inactive (dockerDaemonSeverity collectors) evs]
          else []) @
         (if \<not> hasComposePlugin \<and> repoHasCompose \<and>
             list_ex (\<lambda>ev. ev_Source ev = ''docker_compose_plugin'' \<and>
               (ev_Value ev = ''missing'' \<or> ev_Value ev = ''legacy_docker-compose'')) evs
          then [compose_plugin_missing evs] else []))"

definition podman_unavailable :: "bool \<Rightarrow> evidence list \<Rightarrow> finding" where [templates]:
  "podman_unavailable runtime_dir_error evs = zero_finding
     \<lparr>f_ID := ''F-PODMAN-001'',
      f_Title := ''Podman unavailable (repo expects containers)'',
      f_Severity := SeverityMedium, f_Confidence := 7/10,
      f_Symptom := ''Repo has container signals but Podman is not accessible'',
      f_Evidence := evs,
      f_LikelyCauses :=
        (if runtime_dir_error
         then [''Rootless Podman runtime directory under /run/user is missing or inaccessible'']
         else []) @
        [''Podman is not installed'', ''Podman service is not running'']\<rparr>"

definition podmanRules :: "collector_result \<Rightarrow> finding list" where
  "podmanRules result =
     (if c_Status result = CollectorUnavailable
      then [podman_unavailable
              (evidenceSourceValue (c_Evidence result) ''podman_runtime_dir_error'' ''true'')
              (c_Evidence result)]
      else [])"

section \<open>Compose services\<close>

definition service_not_running :: "string \<Rightarrow> string \<Rightarrow> evidence \<Rightarrow> finding" where [templates]:
  "service_not_running serviceName status ev = zero_finding
     \<lparr>f_ID := ''F-CONTAINER-001'',
      f_Title := ''Compose service '' @ quoted serviceName @ '' is not running'',
      f_Severity := SeverityHigh, f_Confidence := 4/5,
      f_Symptom := ''Service '' @ quoted serviceName @ '' is in state '' @ quoted status,
      f_Evidence := [ev],
      f_LikelyCauses := [''Service may have crashed or failed to start'',
                         ''Dependent services may be unavailable''],
      f_FixHints := [''compose-up'', ''inspect-service'']\<rparr>"

definition service_unhealthy :: "string \<Rightarrow> evidence \<Rightarrow> finding" where [templates]:
  "service_unhealthy serviceName ev = zero_finding
     \<lparr>f_ID := ''F-CONTAINER-001'',
      f_Title := ''Compose service '' @ quoted serviceName @ '' is unhealthy'',
      f_Severity := SeverityHigh, f_Confidence := 4/5,
      f_Symptom := ''Service '' @ quoted serviceName @ '' healthcheck is failing'',
      f_Evidence := [ev],
      f_LikelyCauses := [''Service dependencies may be unavailable'',
                         ''Healthcheck configuration may be too strict''],
      f_FixHints := [''inspect-service'']\<rparr>"

definition bind_mount_missing :: "string \<Rightarrow> string \<Rightarrow> evidence \<Rightarrow> finding" where [templates]:
  "bind_mount_missing serviceName sourcePath ev = zero_finding
     \<lparr>f_ID := ''F-CONTAINER-003'',
      f_Title := ''Bind mount source missing or unreadable for service '' @ quoted serviceName,
      f_Severity := SeverityMedium, f_Confidence := 7/10,
      f_Symptom := ''Host path '' @ quoted sourcePath @ '' does not exist or is not readable'',
      f_Evidence := [ev],
      f_LikelyCauses := [''Path was removed after compose file was written'',
                         ''Path requires different permissions'']\<rparr>"

text \<open>The service a source speaks of, when the source has the given suffix.\<close>

definition service_of_source :: "string \<Rightarrow> string \<Rightarrow> string option" where
  "service_of_source suf source =
     (if \<not> has_suffix source suf then None
      else let serviceName = trim_suffix (trim_prefix source ''compose_service_'') suf
           in if serviceName = [] then None else Some serviceName)"

definition status_finding :: "evidence \<Rightarrow> finding option" where
  "status_finding ev =
     (case service_of_source ''_status'' (ev_Source ev) of
        None \<Rightarrow> None
      | Some serviceName \<Rightarrow>
          if ev_Value ev = ''exited'' \<or> ev_Value ev = ''dead'' \<or> ev_Value ev = ''restarting''
          then Some (service_not_running serviceName (ev_Value ev) ev) else None)"

definition health_finding :: "evidence \<Rightarrow> finding option" where
  "health_finding ev =
     (case service_of_source ''_health'' (ev_Source ev) of
        None \<Rightarrow> None
      | Some serviceName \<Rightarrow>
          if ev_Value ev = ''unhealthy'' then Some (service_unhealthy serviceName ev) else None)"

definition mount_finding :: "evidence \<Rightarrow> finding option" where
  "mount_finding ev =
     (case service_of_source ''_bind_mount_source'' (ev_Source ev) of
        None \<Rightarrow> None
      | Some serviceName \<Rightarrow>
          if has_suffix (ev_Value ev) ''=false''
          then Some (bind_mount_missing serviceName (trim_suffix (ev_Value ev) ''=false'') ev)
          else None)"

definition composeStatusRules :: "collector_result \<Rightarrow> finding list" where
  "composeStatusRules result =
     List.map_filter status_finding (c_Evidence result) @
     List.map_filter health_finding (c_Evidence result) @
     List.map_filter mount_finding (c_Evidence result)"

section \<open>Reproduced commands\<close>

definition repro_timeout :: "evidence list \<Rightarrow> finding" where [templates]:
  "repro_timeout evs = zero_finding
     \<lparr>f_ID := ''F-REPRO-009'',
      f_Title := ''Command timed out during reproduction'',
      f_Severity := SeverityHigh, f_Confidence := 9/10,
      f_Symptom := ''The repro command exceeded its timeout budget'',
      f_Evidence := evs,
      f_LikelyCauses := [''Command is slower than expected'',
                         ''Command may be waiting for input or a network resource'']\<rparr>"

definition repro_failed :: "int \<Rightarrow> evidence list \<Rightarrow> finding" where [templates]:
  "repro_failed exitCode evs = zero_finding
     \<lparr>f_ID := ''F-REPRO-001'',
      f_Title := ''Command exited with non-zero code'',
      f_Severity := SeverityHigh, f_Confidence := 4/5,
      f_Symptom := ''Command exited with code '' @ itoa exitCode,
      f_Evidence := evs\<rparr>"

definition repro_classified :: "string \<Rightarrow> string \<Rightarrow> string \<Rightarrow> evidence \<Rightarrow> finding" where [templates]:
  "repro_classified i title symptom ev = zero_finding
     \<lparr>f_ID := i, f_Title := title, f_Severity := SeverityMedium, f_Confidence := 7/10,
      f_Symptom := symptom, f_Evidence := [ev]\<rparr>"

definition classification_finding :: "evidence \<Rightarrow> finding option" where
  "classification_finding ev =
     (if ev_Value ev = ''permission_denied'' then
        Some (repro_classified ''F-REPRO-002'' ''Permission denied during command execution''
          ''Command output indicates permission was denied'' ev)
      else if ev_Value ev = ''missing_file'' then
        Some (repro_classified ''F-REPRO-003'' ''Missing file or command not found''
          ''Command output indicates a required file or command is missing'' ev)
      else if ev_Value ev = ''address_in_use'' then
        Some (repro_classified ''F-REPRO-004'' ''Address already in use (port conflict)''
          ''Command output indicates a port binding conflict'' ev)
      else if ev_Value ev = ''connection_refused'' then
        Some (repro_classified ''F-REPRO-005'' ''Connection refused or network unreachable''
          ''Command output indicates a connection was refused'' ev)
      else if ev_Value ev = ''runtime_version_failure'' then
        Some (repro_classified ''F-REPRO-006'' ''Runtime version failure during command execution''
          ''Command output indicates the active runtime version does not satisfy the project'' ev)
      else if ev_Value ev = ''dependency_failure'' then
        Some (repro_classified ''F-REPRO-007'' ''Dependency resolver failure''
          ''Command output indicates a dependency resolution failure'' ev)
      else if ev_Value ev = ''compose_config_error'' then
        Some (repro_classified ''F-REPRO-008'' ''Compose interpolation or config error''
          ''Command output indicates a Compose configuration error'' ev)
      else None)"

definition repro_exit_code :: "evidence list \<Rightarrow> int option" where
  "repro_exit_code evs =
     (case rev (List.map_filter Sscanf_d (values_of ''repro_exit_code'' evs)) of
        [] \<Rightarrow> None
      | n # _ \<Rightarrow> Some n)"

definition reproRules :: "collector_result \<Rightarrow> finding list" where
  "reproRules result =
     (let evs = c_Evidence result
      in if c_Status result = CollectorTimeout then [repro_timeout evs]
         else List.map_filter classification_finding
                (filter (\<lambda>ev. ev_Source ev = ''repro_classification'') evs) @
              (case repro_exit_code evs of
                 Some exitCode \<Rightarrow>
                   if exitCode \<noteq> 0 \<and> \<not> has_source ''repro_classification'' evs
                   then [repro_failed exitCode evs] else []
               | None \<Rightarrow> []))"

section \<open>The engine\<close>

definition m1_rules ::
  "map_order \<Rightarrow> (string \<Rightarrow> collector_result option) \<Rightarrow> collector_result \<Rightarrow> finding list" where
  "m1_rules ord collectors c =
     (if c_Name c = ''env'' then envRules c collectors
      else if c_Name c = ''compose'' then composeRules c collectors
      else if c_Name c = ''git'' then gitRules c
      else if c_Name c = ''repo'' then repoRules c
      else if c_Name c = ''runtime'' then runtimeRules c
      else if c_Name c = ''ci'' then ciRules c
      else if c_Name c = ''host_runtime'' then hostRuntimeRules ord c collectors
      else if c_Name c = ''disk'' then diskRules c
      else if c_Name c = ''port'' then portRules c collectors
      else if c_Name c = ''network'' then networkRules c
      else if c_Name c = ''systemd'' then systemdRules c
      else if c_Name c = ''security'' then securityRules c
      else if c_Name c = ''permission'' then permissionRules c
      else if c_Name c = ''docker'' then dockerRules c collectors
      else if c_Name c = ''podman'' then podmanRules c
      else if c_Name c = ''compose_status'' then composeStatusRules c
      else if c_Name c = ''repro'' then reproRules c
      else [])"

definition M1_Evaluate :: "map_order \<Rightarrow> snapshot \<Rightarrow> finding list" where
  "M1_Evaluate ord snapshot =
     concat (map (m1_rules ord (collectorMap (s_Collectors snapshot))) (s_Collectors snapshot))"

end
