(* ===== verification/M1_Correct.thy ===== *)
theory M1_Correct
  imports Rules_M1 Aggregator
begin

text \<open>
  The correctness of the rules of \<open>Rules_M1\<close>: which findings each collector can give rise to, when
  exactly the rules on environment files, Compose references, Git and runtimes speak, and what
  their output owes to the order in which Go visits a map.
\<close>

section \<open>Identifiers\<close>

text \<open>The identifiers a collector can give rise to.\<close>

definition m1_ids :: "string \<Rightarrow> string list" where
  "m1_ids name =
     (if name = ''env'' then [''F-ENV-001'', ''F-ENV-001-OPTIONAL'']
      else if name = ''compose'' then [''F-ENV-002'']
      else if name = ''git'' then [''F-GIT-001'', ''F-GIT-002'']
      else if name = ''repo'' then [''F-PM-001'']
      else if name = ''runtime'' then [''F-RUNTIME-DECL-001'']
      else if name = ''host_runtime''
      then [''F-RUNTIME-001'', ''F-RUNTIME-002'', ''F-RUNTIME-003'', ''F-RUNTIME-004'',
            ''F-RUNTIME-005'', ''F-RUNTIME-006'']
      else if name = ''disk'' then [''F-DISK-001'']
      else if name = ''port'' then [''F-PORT-001'']
      else if name = ''network'' then [''F-NET-001'']
      else if name = ''systemd'' then [''F-SVC-001'']
      else if name = ''security'' then [''F-SEC-SELINUX-001'', ''F-SEC-APPARMOR-001'']
      else if name = ''permission'' then [''F-FS-001'', ''F-PERM-002'']
      else if name = ''docker'' then [''F-DOCKER-001'', ''F-DOCKER-002'', ''F-DOCKER-003'']
      else if name = ''podman'' then [''F-PODMAN-001'']
      else if name = ''compose_status'' then [''F-CONTAINER-001'', ''F-CONTAINER-003'']
      else if name = ''repro''
      then [''F-REPRO-001'', ''F-REPRO-002'', ''F-REPRO-003'', ''F-REPRO-004'', ''F-REPRO-005'',
            ''F-REPRO-006'', ''F-REPRO-007'', ''F-REPRO-008'', ''F-REPRO-009'']
      else [])"

lemma m1_template_ids [simp]:
  "f_ID (env_missing_keys ks) = ''F-ENV-001''"
  "f_ID (env_optional_keys ks) = ''F-ENV-001-OPTIONAL''"
  "f_ID (env_file_missing b evs) = (if b then ''F-ENV-001-OPTIONAL'' else ''F-ENV-001'')"
  "f_ID (compose_undefined v evs) = ''F-ENV-002''"
  "f_ID (git_tracked_env ks evs) = ''F-GIT-001''"
  "f_ID (git_env_not_ignored evs) = ''F-GIT-002''"
  "f_ID (multiple_lockfiles ev) = ''F-PM-001''"
  "f_ID (runtime_declared evs) = ''F-RUNTIME-DECL-001''"
  "f_ID (runtime_missing rt ver) = ''F-RUNTIME-003''"
  "f_ID (runtime_mismatch rt ver act p m) = runtimeFindingID rt"
  "f_ID (disk_pressure sy q evs) = ''F-DISK-001''"
  "f_ID (port_in_use n) = ''F-PORT-001''"
  "f_ID (proxy_without_exclusions evs) = ''F-NET-001''"
  "f_ID (docker_service_inactive evs) = ''F-SVC-001''"
  "f_ID (script_not_executable ev) = ''F-FS-001''"
  "f_ID (file_root_owned ev) = ''F-PERM-002''"
  "f_ID (selinux_denial b evs) = ''F-SEC-SELINUX-001''"
  "f_ID (apparmor_denial b evs) = ''F-SEC-APPARMOR-001''"
  "f_ID (docker_permission_denied evs) = ''F-DOCKER-002''"
  "f_ID (docker_inactive s evs) = ''F-DOCKER-001''"
  "f_ID (compose_plugin_missing evs) = ''F-DOCKER-003''"
  "f_ID (podman_unavailable b evs) = ''F-PODMAN-001''"
  "f_ID (service_not_running v s ev) = ''F-CONTAINER-001''"
  "f_ID (service_unhealthy v ev) = ''F-CONTAINER-001''"
  "f_ID (bind_mount_missing v p ev) = ''F-CONTAINER-003''"
  "f_ID (repro_timeout evs) = ''F-REPRO-009''"
  "f_ID (repro_failed n evs) = ''F-REPRO-001''"
  "f_ID (repro_classified i t s ev) = i"
  by (simp_all add: templates)

lemma runtimeFindingID_ids: "runtimeFindingID rt \<in> set (m1_ids ''host_runtime'')"
  by (simp add: runtimeFindingID_def m1_ids_def)

lemma envRules_ids: "ids_in (m1_ids ''env'') (envRules c m)"
  by (auto simp: envRules_def Let_def m1_ids_def missing_keys_findings_def intro!: ids_in_concat)

lemma composeRules_ids: "ids_in (m1_ids ''compose'') (composeRules c m)"
  by (auto simp: composeRules_def Let_def m1_ids_def intro!: ids_in_map)

lemma gitRules_ids: "ids_in (m1_ids ''git'') (gitRules c)"
  by (simp add: gitRules_def Let_def m1_ids_def)

lemma repoRules_ids: "ids_in (m1_ids ''repo'') (repoRules c)"
  by (auto simp: repoRules_def m1_ids_def intro!: ids_in_map)

lemma runtimeRules_ids: "ids_in (m1_ids ''runtime'') (runtimeRules c)"
  by (simp add: runtimeRules_def m1_ids_def)

lemma check_runtime_ids: "ids_in (m1_ids ''host_runtime'') (check_runtime h rt v)"
  using runtimeFindingID_ids [of rt]
  by (auto simp: check_runtime_def m1_ids_def split: option.splits)

lemma hostRuntimeRules_ids: "ids_in (m1_ids ''host_runtime'') (hostRuntimeRules ord c m)"
  by (auto simp: hostRuntimeRules_def Let_def intro!: ids_in_concat check_runtime_ids)

lemma diskRules_ids: "ids_in (m1_ids ''disk'') (diskRules c)"
  by (simp add: diskRules_def Let_def m1_ids_def)

lemma portRules_ids: "ids_in (m1_ids ''port'') (portRules c m)"
  by (auto simp: portRules_def m1_ids_def intro!: ids_in_map)

lemma networkRules_ids: "ids_in (m1_ids ''network'') (networkRules c)"
  by (simp add: networkRules_def Let_def m1_ids_def)

lemma systemdRules_ids: "ids_in (m1_ids ''systemd'') (systemdRules c)"
  by (auto simp: systemdRules_def m1_ids_def intro!: ids_in_map)

lemma securityRules_ids: "ids_in (m1_ids ''security'') (securityRules c)"
  by (simp add: securityRules_def Let_def m1_ids_def)

lemma permissionRules_ids: "ids_in (m1_ids ''permission'') (permissionRules c)"
  by (auto simp: permissionRules_def m1_ids_def intro!: ids_in_concat)

lemma dockerRules_ids: "ids_in (m1_ids ''docker'') (dockerRules c m)"
  by (simp add: dockerRules_def Let_def m1_ids_def)

lemma podmanRules_ids: "ids_in (m1_ids ''podman'') (podmanRules c)"
  by (simp add: podmanRules_def m1_ids_def)

lemma composeStatusRules_ids: "ids_in (m1_ids ''compose_status'') (composeStatusRules c)"
  by (auto simp: composeStatusRules_def status_finding_def health_finding_def mount_finding_def
      m1_ids_def intro!: ids_in_map_filter split: option.splits if_splits)

lemma reproRules_ids: "ids_in (m1_ids ''repro'') (reproRules c)"
  by (auto simp: reproRules_def classification_finding_def Let_def m1_ids_def
      intro!: ids_in_map_filter split: option.splits if_splits)

lemmas m1_rules_ids =
  envRules_ids composeRules_ids gitRules_ids repoRules_ids runtimeRules_ids hostRuntimeRules_ids
  diskRules_ids portRules_ids networkRules_ids systemdRules_ids securityRules_ids
  permissionRules_ids dockerRules_ids podmanRules_ids composeStatusRules_ids reproRules_ids

lemma m1_rules_in: "ids_in (m1_ids (c_Name c)) (m1_rules ord m c)"
  unfolding m1_rules_def using m1_rules_ids by (auto simp: ciRules_def)

definition m1_collectors :: "string list" where
  "m1_collectors =
     [''env'', ''compose'', ''git'', ''repo'', ''runtime'', ''host_runtime'', ''disk'', ''port'',
      ''network'', ''systemd'', ''security'', ''permission'', ''docker'', ''podman'',
      ''compose_status'', ''repro'']"

lemma m1_ids_collectors: "i \<in> set (m1_ids name) \<Longrightarrow> name \<in> set m1_collectors"
  by (auto simp: m1_ids_def m1_collectors_def split: if_splits)

lemma m1_ids_domains:
  "list_all (\<lambda>name. list_all (\<lambda>i. FindDomainByFindingID i \<noteq> None) (m1_ids name)) m1_collectors"
  by code_simp

lemma m1_id_registered: "i \<in> set (m1_ids name) \<Longrightarrow> FindDomainByFindingID i \<noteq> None"
  using m1_ids_domains m1_ids_collectors [of i name] by (simp add: list_all_iff)

text \<open>
  C10: every finding of the engine comes from a collector that ran, has one of the identifiers of
  that collector (\<open>host\<close>, \<open>self\<close>, \<open>ci\<close> and \<open>config\<close> have none), and belongs to a registered domain.
\<close>

theorem M1_Evaluate_ids:
  assumes "f \<in> set (M1_Evaluate ord snapshot)"
  shows "\<exists>c \<in> set (s_Collectors snapshot).
    c_Name c \<in> set m1_collectors \<and> f_ID f \<in> set (m1_ids (c_Name c)) \<and>
    FindDomainByFindingID (f_ID f) \<noteq> None"
proof -
  obtain c where c: "c \<in> set (s_Collectors snapshot)"
    "f \<in> set (m1_rules ord (collectorMap (s_Collectors snapshot)) c)"
    using assms by (auto simp: M1_Evaluate_def)
  with m1_rules_in [of c ord "collectorMap (s_Collectors snapshot)"]
  have "f_ID f \<in> set (m1_ids (c_Name c))" by (auto simp: ids_in_def)
  with c m1_id_registered m1_ids_collectors show ?thesis by blast
qed

theorem M1_Evaluate_ids_witness:
  "\<exists>f. f \<in> set (M1_Evaluate (\<lambda>_ ks. ks)
      \<lparr>s_Collectors = [zero_result\<lparr>c_Name := ''podman'', c_Status := CollectorUnavailable\<rparr>]\<rparr>) \<and>
    FindDomainByFindingID (f_ID f) \<noteq> None"
  (is "\<exists>f. f \<in> set ?E \<and> _")
proof -
  have "podman_unavailable False [] \<in> set ?E"
    by (simp add: M1_Evaluate_def m1_rules_def podmanRules_def evidenceSourceValue_def)
  from M1_Evaluate_ids [OF this] this show ?thesis by blast
qed

section \<open>Environment files\<close>

text \<open>
  A key the project requires: not ignored, not optional, and listed among the required ones when
  there are any. An optional key is neither ignored nor required.
\<close>

definition must_have :: "env_config \<Rightarrow> string \<Rightarrow> bool" where
  "must_have cfg k \<longleftrightarrow>
     k \<notin> set (ignoreMissing cfg) \<and> k \<notin> set (optionalKeys cfg) \<and>
     (requiredKeys cfg \<noteq> [] \<longrightarrow> k \<in> set (requiredKeys cfg))"

definition may_lack :: "env_config \<Rightarrow> string \<Rightarrow> bool" where
  "may_lack cfg k \<longleftrightarrow> k \<notin> set (ignoreMissing cfg) \<and> \<not> must_have cfg k"

text \<open>The keys a list in evidence names.\<close>

definition named_keys :: "string list \<Rightarrow> string list" where
  "named_keys ks = filter (\<lambda>k. k \<noteq> []) (map trim_space ks)"

lemma split_missing_eq:
  "split_missing cfg ks =
     (filter (must_have cfg) (named_keys ks), filter (may_lack cfg) (named_keys ks))"
  by (induction cfg ks rule: split_missing.induct)
     (auto simp: Let_def named_keys_def must_have_def may_lack_def)

lemma all_optional_iff:
  "\<forall>k \<in> set ks. k \<notin> set (ignoreMissing cfg) \<Longrightarrow>
   all_optional cfg ks \<longleftrightarrow> \<not> (\<exists>k \<in> set ks. must_have cfg k)"
  by (induction cfg ks rule: all_optional.induct) (auto simp: must_have_def)

lemma named_keys_active:
  "filter (\<lambda>k. k \<noteq> [] \<and> k \<notin> set (ignoreMissing cfg)) (map trim_space ks) =
   filter (\<lambda>k. k \<notin> set (ignoreMissing cfg)) (named_keys ks)"
  by (simp add: named_keys_def conj_commute)

lemma missing_keys_findings_ids:
  "(\<exists>f \<in> set (missing_keys_findings cfg v). f_ID f = ''F-ENV-001'') \<longleftrightarrow>
     (\<exists>k \<in> set (named_keys (split_at '', '' v)). must_have cfg k)"
  "(\<exists>f \<in> set (missing_keys_findings cfg v). f_ID f = ''F-ENV-001-OPTIONAL'') \<longleftrightarrow>
     (\<exists>k \<in> set (named_keys (split_at '', '' v)). may_lack cfg k)"
  unfolding missing_keys_findings_def Let_def split_missing_eq fst_conv snd_conv filter_not_Nil_iff
  by (simp_all add: bex_Un)

lemma all_optional_active:
  "all_optional cfg (filter (\<lambda>k. k \<notin> set (ignoreMissing cfg)) ks) \<longleftrightarrow>
     \<not> (\<exists>k \<in> set ks. must_have cfg k)"
  by (subst all_optional_iff) (auto simp: must_have_def)

text \<open>
  C11: the severe form F-ENV-001 is reported exactly when some key named as missing, or some key of
  the example file when there is no local file, is one the project requires; the informational form
  exactly when a key named as missing may be lacking, or when the local file is missing and all
  keys of the example file that are not ignored may be.
\<close>

theorem envRules_correct:
  fixes c :: collector_result and m :: "string \<Rightarrow> collector_result option"
  defines "cfg \<equiv> env_config_of m"
    and "missing \<equiv> values_of ''missing_keys'' (c_Evidence c)"
    and "example \<equiv> named_keys (env_example_keys (c_Evidence c))"
    and "no_env \<equiv> ''missing'' \<in> set (values_of ''.env'' (c_Evidence c))"
  shows "((\<exists>f \<in> set (envRules c m). f_ID f = ''F-ENV-001'') \<longleftrightarrow>
      (\<exists>v \<in> set missing. \<exists>k \<in> set (named_keys (split_at '', '' v)). must_have cfg k) \<or>
      no_env \<and> (\<exists>k \<in> set example. must_have cfg k)) \<and>
    ((\<exists>f \<in> set (envRules c m). f_ID f = ''F-ENV-001-OPTIONAL'') \<longleftrightarrow>
      (\<exists>v \<in> set missing. \<exists>k \<in> set (named_keys (split_at '', '' v)). may_lack cfg k) \<or>
      no_env \<and> (\<exists>k \<in> set example. may_lack cfg k) \<and> \<not> (\<exists>k \<in> set example. must_have cfg k))"
proof -
  let ?active = "filter (\<lambda>k. k \<notin> set (ignoreMissing cfg)) example"
  have empty: "env_example_keys (c_Evidence c) = [] \<Longrightarrow> example = []"
    by (simp add: example_def named_keys_def)
  have rules: "envRules c m = concat (map (missing_keys_findings cfg) missing) @
      (if no_env \<and> ?active \<noteq> []
       then [env_file_missing (all_optional cfg ?active) (c_Evidence c)] else [])"
    using empty
    by (auto simp: envRules_def Let_def named_keys_active cfg_def missing_def example_def no_env_def)
  have must: "\<exists>k \<in> set example. must_have cfg k \<Longrightarrow> ?active \<noteq> []"
    by (auto simp: must_have_def filter_not_Nil_iff)
  have may: "?active \<noteq> [] \<longleftrightarrow> (\<exists>k \<in> set example. must_have cfg k \<or> may_lack cfg k)"
    by (auto simp: must_have_def may_lack_def filter_not_Nil_iff)
  have loop: "(\<exists>f \<in> set (concat (map (missing_keys_findings cfg) missing)). f_ID f = i) \<longleftrightarrow>
      (\<exists>v \<in> set missing. \<exists>f \<in> set (missing_keys_findings cfg v). f_ID f = i)" for i
    by auto
  show ?thesis
    unfolding rules set_append bex_Un loop missing_keys_findings_ids
    using must may by (auto simp: all_optional_active)
qed

section \<open>References of Compose files\<close>

lemma index_of_absent_first:
  "set v \<inter> {hd sep} = {} \<Longrightarrow> sep \<noteq> [] \<Longrightarrow> index_of sep (v @ sep @ r) = Some (length v)"
proof (induction v)
  case Nil
  then show ?case by (cases sep) auto
next
  case (Cons c v)
  then have "\<not> prefix sep (c # v @ sep @ r)" by (cases sep) auto
  with Cons show ?case by simp
qed

lemma index_of_absent: "hd sep \<notin> set s \<Longrightarrow> sep \<noteq> [] \<Longrightarrow> index_of sep s = None"
  by (metis index_of_None_iff hd_in_set set_mono_sublist subsetD)

text \<open>Names of variables: no white space and none of the characters of the modifiers.\<close>

definition plain_name :: "string \<Rightarrow> bool" where
  "plain_name v \<longleftrightarrow> v \<noteq> [] \<and> (\<forall>c \<in> set v. no_space_byte c \<and> c \<notin> set '':-+?{'')"

lemma plain_name_trim: "plain_name v \<Longrightarrow> trim_space v = v"
  by (simp add: plain_name_def trim_space_no_space)

lemma trim_space_wrapped:
  assumes "space_len (c # s @ [d]) = 0" "space_len_in (map rev multi_spaces) (d # rev s @ [c]) = 0"
  shows "trim_space (c # s @ [d]) = c # s @ [d]"
  using assms by (simp add: trim_space_def trim_left_def trim_right_def drop_spaces_fix)

lemma trim_braced: "trim_space (''${'' @ s @ ''}'') = ''${'' @ s @ ''}''"
proof -
  have "space_len (CHR ''$'' # (CHR ''{'' # s) @ [CHR ''}'']) = 0"
    "space_len_in (map rev multi_spaces) (CHR ''}'' # rev (CHR ''{'' # s) @ [CHR ''$'']) = 0"
    by (simp_all add: multi_spaces_def ascii_space_def)
  from trim_space_wrapped [OF this] show ?thesis by simp
qed

lemma parse_reference_braced: "parseComposeRef (''${'' @ s @ ''}'') = parse_braced s"
proof -
  have "suffix ''}'' (''{'' @ s @ ''}'')" by (simp add: suffix_def)
  then show ?thesis
    unfolding parseComposeRef_def Let_def trim_braced by (simp add: trim_prefix_def)
qed

lemma cut_absent: "\<forall>sep \<in> set seps. \<not> sublist sep s \<Longrightarrow> cut_at_first seps s = (s, False)"
proof (induction seps s rule: cut_at_first.induct)
  case (2 sep seps inner)
  then have "index_of sep inner = None" by (simp add: index_of_None_iff)
  with 2 show ?case by simp
qed simp

text \<open>A separator made of modifier characters does not occur in a plain name.\<close>

lemma plain_no_sep:
  "plain_name v \<Longrightarrow> sep \<noteq> [] \<Longrightarrow> set sep \<subseteq> set '':-+?'' \<Longrightarrow> \<not> sublist sep v"
proof
  assume v: "plain_name v" and sep: "sep \<noteq> []" "set sep \<subseteq> set '':-+?''" and "sublist sep v"
  from sep(1) have "hd sep \<in> set sep" by simp
  moreover from this \<open>sublist sep v\<close> have "hd sep \<in> set v" using set_mono_sublist by blast
  ultimately show False using v sep(2) unfolding plain_name_def by auto
qed

lemma cut_at_first_found:
  "sep \<in> set seps \<Longrightarrow> sublist sep s \<Longrightarrow> snd (cut_at_first seps s)"
proof (induction seps s rule: cut_at_first.induct)
  case (2 sep' seps inner)
  then show ?case by (auto simp: index_of_None_iff split: option.splits)
qed simp

declare cut_at_first.simps [simp del]

lemma parse_braced_default:
  "sep \<in> {'':-'', ''-'', '':+'', ''+''} \<Longrightarrow> snd (parse_braced (v @ sep @ d))"
  unfolding parse_braced_def Let_def snd_conv by (rule cut_at_first_found [of sep]) auto

lemma parse_braced_plain: "plain_name v \<Longrightarrow> parse_braced v = (v, False)"
proof -
  assume v: "plain_name v"
  have "cut_at_first ['':-'', ''-'', '':+'', ''+''] v = (v, False)"
    "cut_at_first ['':?'', ''?''] v = (v, False)"
    by (rule cut_absent; simp add: plain_no_sep [OF v])+
  then show ?thesis
    by (simp add: parse_braced_def plain_name_trim [OF v])
qed

lemma parse_braced_required:
  assumes "plain_name v" "CHR ''-'' \<notin> set msg" "CHR ''+'' \<notin> set msg"
  shows "parse_braced (v @ '':?'' @ msg) = (v, False)"
proof -
  let ?s = "v @ '':?'' @ msg"
  have "\<not> sublist sep ?s" if "sep \<in> {'':-'', ''-'', '':+'', ''+''}" for sep
  proof
    assume "sublist sep ?s"
    then have "set sep \<subseteq> set ?s" by (rule set_mono_sublist)
    moreover have "CHR ''-'' \<in> set sep \<or> CHR ''+'' \<in> set sep" using that by auto
    ultimately show False using assms by (auto simp: plain_name_def)
  qed
  then have "cut_at_first ['':-'', ''-'', '':+'', ''+''] ?s = (?s, False)"
    by (intro cut_absent) simp
  moreover have i: "index_of '':?'' ?s = Some (length v)"
    using assms(1) by (intro index_of_absent_first) (auto simp: plain_name_def)
  have "cut_at_first ['':?'', ''?''] ?s = (v, True)"
    using i by (simp add: cut_at_first.simps)
  ultimately show ?thesis
    by (simp add: parse_braced_def plain_name_trim [OF assms(1)] del: append.simps)
qed

text \<open>
  How a reference to a variable in a Compose file is read: the plain forms and the form with an
  error message name the variable and have no default; every form with a default or an alternative
  has one.
\<close>

theorem parseComposeRef_forms:
  assumes "plain_name v"
  shows "parseComposeRef (''$'' @ v) = (v, False) \<and>
    parseComposeRef (''${'' @ v @ ''}'') = (v, False) \<and>
    (CHR ''-'' \<notin> set msg \<longrightarrow> CHR ''+'' \<notin> set msg \<longrightarrow>
      parseComposeRef (''${'' @ (v @ '':?'' @ msg) @ ''}'') = (v, False)) \<and>
    snd (parseComposeRef (''${'' @ (v @ '':-'' @ d) @ ''}'')) \<and>
    snd (parseComposeRef (''${'' @ (v @ ''-'' @ d) @ ''}'')) \<and>
    snd (parseComposeRef (''${'' @ (v @ '':+'' @ d) @ ''}'')) \<and>
    snd (parseComposeRef (''${'' @ (v @ ''+'' @ d) @ ''}''))"
proof -
  have "\<forall>c \<in> set (''$'' @ v). no_space_byte c"
    using assms by (auto simp: plain_name_def no_space_byte_def ascii_space_def multi_spaces_def)
  then have "trim_space (''$'' @ v) = ''$'' @ v" by (rule trim_space_no_space)
  moreover have "\<not> prefix ''{'' v" using assms by (cases v) (auto simp: plain_name_def)
  ultimately have "parseComposeRef (''$'' @ v) = (v, False)"
    by (simp add: parseComposeRef_def trim_prefix_def)
  then show ?thesis
    unfolding parse_reference_braced
    using parse_braced_plain [OF assms] parse_braced_required [OF assms]
      parse_braced_default [of "'':-''" v d] parse_braced_default [of "''-''" v d]
      parse_braced_default [of "'':+''" v d] parse_braced_default [of "''+''" v d] by simp
qed

theorem parseComposeRef_forms_witness:
  "parseComposeRef ''${DB_URL}'' = (''DB_URL'', False)"
proof -
  have "plain_name ''DB_URL''" by code_simp
  from parseComposeRef_forms [OF this] show ?thesis by simp
qed

text \<open>The grouping loop: one entry per variable, with its references in order.\<close>

lemma group_missing_map:
  "map_of (group_missing ks evs m) v =
     (case filter (\<lambda>ev. undefined_var ks ev = Some v) evs of
        [] \<Rightarrow> map_of m v
      | es \<Rightarrow> Some ((case map_of m v of Some es0 \<Rightarrow> es0 | None \<Rightarrow> []) @ es))"
  by (induction ks evs m rule: group_missing.induct)
     (auto simp: update_conv' split: option.splits list.splits)

lemma group_missing_distinct:
  "distinct (map fst m) \<Longrightarrow> distinct (map fst (group_missing ks evs m))"
  by (induction ks evs m rule: group_missing.induct) (auto simp: distinct_update split: option.splits)

lemma group_missing_keys:
  "set (map fst (group_missing ks evs m)) =
     set (map fst m) \<union> set (List.map_filter (undefined_var ks) evs)"
  by (induction ks evs m rule: group_missing.induct)
     (auto simp: map_filter_simps update_keys split: option.splits)

text \<open>
  \<open>composeRules\<close> reports every variable that may be undefined once, in alphabetical order, with
  exactly the references to it that have no default, in the order of the files.
\<close>

theorem composeRules_correct:
  "composeRules c m =
     (let var = undefined_var (local_env_keys m); evs = c_Evidence c
      in map (\<lambda>v. compose_undefined v (filter (\<lambda>ev. var ev = Some v) evs))
           (sort_strings (remdups (List.map_filter var evs))))"
proof -
  let ?var = "undefined_var (local_env_keys m)" and ?evs = "c_Evidence c"
  let ?g = "group_missing (local_env_keys m) ?evs []"
  have "sortedKeys ?g = sort_strings (remdups (List.map_filter ?var ?evs))"
    unfolding sortedKeys_def using group_missing_keys [of "local_env_keys m" ?evs "[]"]
    by (intro sort_strings_distinct_eq) (simp_all add: group_missing_distinct)
  moreover have "the (map_of ?g v) = filter (\<lambda>ev. ?var ev = Some v) ?evs"
    if "v \<in> set (List.map_filter ?var ?evs)" for v
  proof -
    from that have "filter (\<lambda>ev. ?var ev = Some v) ?evs \<noteq> []"
      by (simp add: set_map_filter_iff filter_not_Nil_iff)
    then show ?thesis by (simp add: group_missing_map split: list.splits)
  qed
  ultimately show ?thesis by (simp add: composeRules_def Let_def)
qed

text \<open>
  A hyphen in the message of a required variable is taken for a default: the reference
  \<open>${DB_URL:?must-be-set}\<close> to an undefined variable is not reported, \<open>${DB_URL:?missing}\<close> is.
\<close>

definition compose_example :: "string \<Rightarrow> collector_result" where
  "compose_example ref = zero_result
     \<lparr>c_Name := ''compose'', c_Evidence := [mk_ev ''compose.yaml:3'' (''x references '' @ ref)]\<rparr>"

theorem composeRules_hyphen_in_message:
  "composeRules (compose_example ''${DB_URL:?must-be-set}'') Map.empty = [] \<and>
   map f_ID (composeRules (compose_example ''${DB_URL:?missing}'') Map.empty) = [''F-ENV-002'']"
proof -
  have "undefined_var [] (mk_ev ''compose.yaml:3'' (''x references '' @ ''${DB_URL:?must-be-set}'')) = None"
    "undefined_var [] (mk_ev ''compose.yaml:3'' (''x references '' @ ''${DB_URL:?missing}'')) =
       Some ''DB_URL''"
    by code_simp+
  then show ?thesis
    by (simp add: composeRules_def compose_example_def local_env_keys_def evidence_of_def
        sortedKeys_def sort_strings_def Let_def del: append.simps)
qed

section \<open>Runtimes of the host\<close>

lemma check_runtime_single: "length (check_runtime h rt v) \<le> 1"
  by (simp add: check_runtime_def split: option.splits)

text \<open>
  Whatever the order in which Go visits the expected runtimes, \<open>hostRuntimeRules\<close> reports the
  same findings, as many times each, and at most one for each runtime.
\<close>

theorem hostRuntimeRules_order:
  assumes "is_map_order ord" "is_map_order ord'"
  shows "mset (hostRuntimeRules ord c m) = mset (hostRuntimeRules ord' c m) \<and>
    length (hostRuntimeRules ord c m) \<le> length (expected_runtimes (evidence_of m ''runtime''))"
proof
  let ?ks = "map fst (expected_runtimes (evidence_of m ''runtime''))"
  have "mset (ord l ?ks) = mset (ord' l ?ks)" for l
    using assms by (simp add: map_order_mset)
  then show "mset (hostRuntimeRules ord c m) = mset (hostRuntimeRules ord' c m)"
    unfolding hostRuntimeRules_def Let_def by (rule mset_concat_order)
  have len: "length (ord l ?ks) = length ?ks" for l
    by (rule mset_eq_length) (rule map_order_mset [OF assms(1)])
  have le: "length (concat (map (\<lambda>rt. check_runtime h rt (g rt)) ks)) \<le> length ks" for h g ks
  proof (induction ks)
    case (Cons k ks)
    then show ?case using check_runtime_single [of h k "g k"] by simp
  qed simp
  show "length (hostRuntimeRules ord c m) \<le> length (expected_runtimes (evidence_of m ''runtime''))"
    unfolding hostRuntimeRules_def Let_def by (rule le [THEN order_trans]) (simp add: len)
qed

theorem hostRuntimeRules_order_witness:
  "mset (hostRuntimeRules (\<lambda>_ ks. ks) zero_result Map.empty) =
   mset (hostRuntimeRules (\<lambda>_. rev) zero_result Map.empty)"
  using hostRuntimeRules_order [OF map_order_examples, of zero_result Map.empty] by blast

text \<open>
  The order of the report does depend on it: two missing runtimes have the same severity and
  confidence, so the stable sort of the aggregator keeps them in the order of the map.
\<close>

definition two_missing :: snapshot where
  "two_missing = \<lparr>s_Collectors =
     [zero_result\<lparr>c_Name := ''runtime'', c_Evidence := [mk_ev ''a'' ''node 20'', mk_ev ''b'' ''ruby 3'']\<rparr>,
      zero_result\<lparr>c_Name := ''host_runtime'',
        c_Evidence := [mk_ev ''host_node_missing'' ''true'', mk_ev ''host_ruby_missing'' ''true'']\<rparr>]\<rparr>"

theorem report_depends_on_map_order:
  "map f_Symptom (Aggregator_Add (M1_Evaluate (\<lambda>_ ks. ks) two_missing)) \<noteq>
   map f_Symptom (Aggregator_Add (M1_Evaluate (\<lambda>_. rev) two_missing))"
  by code_simp

section \<open>Disk\<close>

text \<open>
  When the free space was not measured (the disk collector is unavailable, or its evidence is
  missing) \<open>diskRules\<close> takes it for zero and reports a critically low disk.
\<close>

theorem diskRules_unmeasured:
  "has_source ''host_disk_free_bytes'' (c_Evidence r) \<or>
   map f_Symptom (diskRules r) = [''Repo mount is critically low on disk space or inodes'']"
proof (cases "has_source ''host_disk_free_bytes'' (c_Evidence r)")
  case False
  then have "float_of_last ''host_disk_free_bytes'' (c_Evidence r) = 0"
    by (simp add: has_source_iff float_of_last_def last_value_def)
  then show ?thesis by (simp add: diskRules_def Let_def giB_def disk_pressure_def)
qed simp

end
