(* ===== verification/Rules_M6.thy ===== *)
theory Rules_M6
  imports Rules_Common Domains
begin

text \<open>
  \<open>internal/rules/m6engine.go\<close>: the engine of the GPU, machine learning, container GPU and cache
  findings. It reads one map from sources to values over all collectors, in which the last piece of
  evidence of a source wins, and whose missing keys read as the empty string.
\<close>

definition evMap :: "snapshot \<Rightarrow> string \<Rightarrow> string option" where
  "evMap snapshot =
     foldl (\<lambda>m ev. m(ev_Source ev \<mapsto> ev_Value ev)) Map.empty
       (concat (map c_Evidence (s_Collectors snapshot)))"

definition get :: "(string \<Rightarrow> string option) \<Rightarrow> string \<Rightarrow> string" where
  "get m k = (case m k of Some v \<Rightarrow> v | None \<Rightarrow> [])"

definition atoi_or_0 :: "string \<Rightarrow> int" where
  "atoi_or_0 s = (case atoi s of Some n \<Rightarrow> n | None \<Rightarrow> 0)"

definition nvidiaSMIDriverUnavailable :: "string \<Rightarrow> bool" where
  "nvidiaSMIDriverUnavailable status \<longleftrightarrow>
     status \<in> {''error'', ''permission_denied'', ''timeout'', ''parse_error''}"

section \<open>Templates\<close>

definition gpu_driver_unavailable :: "bool \<Rightarrow> finding" where [templates]:
  "gpu_driver_unavailable moduleLoaded = zero_finding
     \<lparr>f_ID := ''F-GPU-001'',
      f_Title := ''NVIDIA hardware present but driver unavailable'',
      f_Severity := SeverityHigh, f_Confidence := 4/5,
      f_Symptom :=
        (if moduleLoaded
         then ''NVIDIA hardware and kernel module are present, but nvidia-smi could not enumerate GPUs''
         else ''NVIDIA GPU detected but kernel module is not loaded''),
      f_LikelyCauses :=
        (if moduleLoaded
         then [''NVIDIA user-space driver libraries may not match the loaded kernel module'',
               ''Driver stack may be partially installed or unhealthy'',
               ''GPU device nodes may be inaccessible'']
         else [''NVIDIA driver not installed'', ''Driver version incompatible with kernel'',
               ''Secure Boot blocking unsigned module'']),
      f_FixHints := [''install-nvidia-driver'']\<rparr>"

definition gpu_secure_boot :: finding where [templates]:
  "gpu_secure_boot = zero_finding
     \<lparr>f_ID := ''F-GPU-002'',
      f_Title := ''Secure Boot may be blocking NVIDIA module'',
      f_Severity := SeverityMedium, f_Confidence := 3/5,
      f_Symptom := ''Secure Boot is enabled and NVIDIA kernel module is not loaded'',
      f_LikelyCauses := [''NVIDIA kernel module may not be signed for Secure Boot'',
                         ''Module signing key not enrolled in MOK''],
      f_FixHints := [''disable-secure-boot-or-sign-module'']\<rparr>"

definition pytorch_cpu_only :: finding where [templates]:
  "pytorch_cpu_only = zero_finding
     \<lparr>f_ID := ''F-ML-PYTORCH-001'',
      f_Title := ''PyTorch installed with CPU-only build in GPU project'',
      f_Severity := SeverityMedium, f_Confidence := 3/4,
      f_Symptom := ''PyTorch is installed but CUDA is not available while a GPU is present'',
      f_LikelyCauses := [''Installed CPU-only PyTorch wheel'', ''Missing CUDA runtime libraries''],
      f_FixHints := [''install-pytorch-cuda'']\<rparr>"

definition pytorch_no_gpu :: finding where [templates]:
  "pytorch_no_gpu = zero_finding
     \<lparr>f_ID := ''F-ML-PYTORCH-002'',
      f_Title := ''PyTorch CUDA build installed but GPU unavailable'',
      f_Severity := SeverityMedium, f_Confidence := 7/10,
      f_Symptom := ''PyTorch reports CUDA available but no GPU devices are visible'',
      f_LikelyCauses := [''NVIDIA driver issue'', ''GPU is in compute-exclusive mode'',
                         ''Container lacks GPU access''],
      f_FixHints := [''check-nvidia-driver'']\<rparr>"

definition tensorflow_no_gpu :: finding where [templates]:
  "tensorflow_no_gpu = zero_finding
     \<lparr>f_ID := ''F-ML-TF-001'',
      f_Title := ''TensorFlow installed but no GPU visible'',
      f_Severity := SeverityMedium, f_Confidence := 3/5,
      f_Symptom := ''TensorFlow is installed but no GPU devices are detected'',
      f_LikelyCauses := [''TensorFlow CPU-only build'', ''Missing NVIDIA libraries'',
                         ''Driver version incompatible''],
      f_FixHints := [''install-tensorflow-gpu'']\<rparr>"

definition jax_no_gpu :: finding where [templates]:
  "jax_no_gpu = zero_finding
     \<lparr>f_ID := ''F-ML-JAX-001'',
      f_Title := ''JAX installed but no GPU visible'',
      f_Severity := SeverityMedium, f_Confidence := 3/5,
      f_Symptom := ''JAX is installed but no GPU devices are detected'',
      f_LikelyCauses := [''JAX CPU-only build'', ''Missing CUDA/cuDNN libraries''],
      f_FixHints := [''install-jax-cuda'']\<rparr>"

definition docker_gpu_runtime :: finding where [templates]:
  "docker_gpu_runtime = zero_finding
     \<lparr>f_ID := ''F-DOCKER-GPU-001'',
      f_Title := ''Host GPU visible but Docker GPU runtime unavailable'',
      f_Severity := SeverityMedium, f_Confidence := 7/10,
      f_Symptom := ''NVIDIA GPU is present but Docker cannot access it'',
      f_LikelyCauses := [''NVIDIA Container Toolkit not installed'',
                         ''Docker daemon not configured with nvidia runtime''],
      f_FixHints := [''install-nvidia-toolkit'']\<rparr>"

definition docker_gpu_verify :: finding where [templates]:
  "docker_gpu_verify = zero_finding
     \<lparr>f_ID := ''F-DOCKER-GPU-002'',
      f_Title := ''Container GPU verification failed'',
      f_Severity := SeverityMedium, f_Confidence := 7/10,
      f_Symptom := ''Docker GPU container could not run nvidia-smi successfully'',
      f_LikelyCauses := [''NVIDIA Container Toolkit misconfigured'',
                         ''Image incompatible with host driver''],
      f_FixHints := [''install-nvidia-toolkit'']\<rparr>"

definition cache_not_writable :: "string \<Rightarrow> string \<Rightarrow> finding" where [templates]:
  "cache_not_writable tool path = zero_finding
     \<lparr>f_ID := ''F-CACHE-001'',
      f_Title := ''Package cache not writable'',
      f_Severity := SeverityLow, f_Confidence := 7/10,
      f_Symptom := tool @ '' cache directory is not writable by current user'',
      f_LikelyCauses := [''Cache owned by root or another user''],
      f_FixHints := [''fix-cache-permissions''],
      f_Evidence := [mk_ev ''cache_tool'' tool, mk_ev ''cache_path'' path]\<rparr>"

definition cache_root_owned :: "string \<Rightarrow> string \<Rightarrow> finding" where [templates]:
  "cache_root_owned tool path = zero_finding
     \<lparr>f_ID := ''F-CACHE-002'',
      f_Title := ''Package cache appears root-owned'',
      f_Severity := SeverityLow, f_Confidence := 7/10,
      f_Symptom := tool @ '' cache directory is owned by root'',
      f_LikelyCauses := [''Cache was created by a previous sudo/root package-manager invocation''],
      f_FixHints := [''fix-cache-permissions''],
      f_Evidence := [mk_ev ''cache_tool'' tool, mk_ev ''cache_path'' path,
                     mk_ev ''cache_owner_uid'' ''0'']\<rparr>"

definition docker_cache :: "string \<Rightarrow> finding" where [templates]:
  "docker_cache dockerSize = zero_finding
     \<lparr>f_ID := ''F-CACHE-003'',
      f_Title := ''Docker cache present'',
      f_Severity := SeverityLow, f_Confidence := 1/2,
      f_Symptom := ''Docker cache size: '' @ dockerSize,
      f_LikelyCauses := [''Accumulated image layers and build cache''],
      f_FixHints := [''warn-docker-cleanup'']\<rparr>"

section \<open>The engine\<close>

definition cache_tools :: "string list" where
  "cache_tools = [''pip'', ''uv'', ''poetry'', ''npm'', ''pnpm'', ''go'']"

definition gpu_rules :: "(string \<Rightarrow> string option) \<Rightarrow> finding list" where
  "gpu_rules m =
     (let gpuPresent = get m ''gpu_present'' = ''true'';
          gpuHardware = get m ''gpu_hardware_detected'' = ''true'';
          moduleLoaded = get m ''gpu_nvidia_module_loaded'' = ''true'';
          nvidiaSMIStatus = get m ''gpu_nvidia_smi_status''
      in emit (gpuHardware \<and> (\<not> moduleLoaded \<or>
             (\<not> gpuPresent \<and> nvidiaSMIDriverUnavailable nvidiaSMIStatus)))
           (gpu_driver_unavailable moduleLoaded) @
         emit (get m ''gpu_secure_boot_enabled'' = ''true'' \<and> \<not> moduleLoaded \<and> gpuHardware)
           gpu_secure_boot)"

definition ml_rules :: "(string \<Rightarrow> string option) \<Rightarrow> finding list" where
  "ml_rules m =
     (let gpuPresent = get m ''gpu_present'' = ''true'';
          pytorchVersion = get m ''ml_pytorch_version'';
          pytorchCUDA = get m ''ml_pytorch_cuda_available'' = ''true'';
          pytorchGPUCount = atoi_or_0 (get m ''ml_pytorch_gpu_count'');
          tfVersion = get m ''ml_tensorflow_version'';
          tfGPUCount = atoi_or_0 (get m ''ml_tensorflow_gpu_count'');
          jaxVersion = get m ''ml_jax_version'';
          jaxGPUCount = atoi_or_0 (get m ''ml_jax_gpu_count'')
      in emit (pytorchVersion \<noteq> [] \<and> \<not> pytorchCUDA \<and> gpuPresent) pytorch_cpu_only @
         emit (pytorchVersion \<noteq> [] \<and> pytorchCUDA \<and> pytorchGPUCount = 0) pytorch_no_gpu @
         emit (tfVersion \<noteq> [] \<and> tfGPUCount = 0 \<and> gpuPresent) tensorflow_no_gpu @
         emit (jaxVersion \<noteq> [] \<and> jaxGPUCount = 0 \<and> gpuPresent) jax_no_gpu)"

definition docker_gpu_rules :: "(string \<Rightarrow> string option) \<Rightarrow> finding list" where
  "docker_gpu_rules m =
     (let gpuPresent = get m ''gpu_present'' = ''true'';
          dockerBinaryPresent = get m ''docker_binary_present'' = ''true'';
          dockerDaemonAccessible = get m ''docker_daemon_accessible'' = ''true'';
          dockerGPURuntime = get m ''docker_gpu_runtime_present'' = ''true'';
          dockerGPUVerify = get m ''docker_gpu_verify_result'';
          toolkitVersion = get m ''nvidia_container_toolkit_version''
      in emit (gpuPresent \<and> dockerBinaryPresent \<and> dockerDaemonAccessible \<and> \<not> dockerGPURuntime \<and>
               toolkitVersion = []) docker_gpu_runtime @
         emit (dockerGPUVerify = ''failed'' \<or> dockerGPUVerify = ''timeout'') docker_gpu_verify)"

definition cache_rules :: "(string \<Rightarrow> string option) \<Rightarrow> finding list" where
  "cache_rules m =
     concat (map (\<lambda>tool.
       let path = get m (''cache_'' @ tool @ ''_path'')
       in emit (get m (''cache_'' @ tool @ ''_writable'') = ''false'' \<and> path \<noteq> [])
            (cache_not_writable tool path)) cache_tools) @
     concat (map (\<lambda>tool.
       let path = get m (''cache_'' @ tool @ ''_path'');
           uidStr = get m (''cache_'' @ tool @ ''_owner_uid'')
       in emit (path \<noteq> [] \<and> uidStr \<noteq> [] \<and> atoi uidStr = Some 0)
            (cache_root_owned tool path)) cache_tools) @
     (let dockerSize = get m ''cache_docker_size_mb''
      in emit (dockerSize \<noteq> [] \<and> dockerSize \<noteq> ''unknown'') (docker_cache dockerSize))"

definition M6_Evaluate :: "snapshot \<Rightarrow> finding list" where
  "M6_Evaluate snapshot =
     (let m = evMap snapshot
      in gpu_rules m @ ml_rules m @ docker_gpu_rules m @ cache_rules m)"

section \<open>Facts\<close>

definition m6_ids :: "string list" where
  "m6_ids =
     [''F-GPU-001'', ''F-GPU-002'', ''F-ML-PYTORCH-001'', ''F-ML-PYTORCH-002'', ''F-ML-TF-001'',
      ''F-ML-JAX-001'', ''F-DOCKER-GPU-001'', ''F-DOCKER-GPU-002'', ''F-CACHE-001'', ''F-CACHE-002'',
      ''F-CACHE-003'']"

lemma m6_template_ids [simp]:
  "f_ID (gpu_driver_unavailable b) = ''F-GPU-001''"
  "f_ID gpu_secure_boot = ''F-GPU-002''"
  "f_ID pytorch_cpu_only = ''F-ML-PYTORCH-001''"
  "f_ID pytorch_no_gpu = ''F-ML-PYTORCH-002''"
  "f_ID tensorflow_no_gpu = ''F-ML-TF-001''"
  "f_ID jax_no_gpu = ''F-ML-JAX-001''"
  "f_ID docker_gpu_runtime = ''F-DOCKER-GPU-001''"
  "f_ID docker_gpu_verify = ''F-DOCKER-GPU-002''"
  "f_ID (cache_not_writable t p) = ''F-CACHE-001''"
  "f_ID (cache_root_owned t p) = ''F-CACHE-002''"
  "f_ID (docker_cache s) = ''F-CACHE-003''"
  by (simp_all add: templates)

lemma gpu_rules_facts:
  "f \<in> set (gpu_rules m) \<Longrightarrow> f_ID f \<in> set [''F-GPU-001'', ''F-GPU-002''] \<and>
     get m ''gpu_hardware_detected'' = ''true''"
  by (auto simp: gpu_rules_def Let_def split: if_splits)

lemma ml_rules_facts:
  "f \<in> set (ml_rules m) \<Longrightarrow>
     f_ID f = ''F-ML-PYTORCH-002'' \<or>
     f_ID f \<in> set [''F-ML-PYTORCH-001'', ''F-ML-TF-001'', ''F-ML-JAX-001''] \<and>
     get m ''gpu_present'' = ''true''"
  by (auto simp: ml_rules_def Let_def split: if_splits)

lemma docker_gpu_rules_facts:
  "f \<in> set (docker_gpu_rules m) \<Longrightarrow>
     f_ID f = ''F-DOCKER-GPU-002'' \<or>
     f_ID f = ''F-DOCKER-GPU-001'' \<and> get m ''gpu_present'' = ''true''"
  by (auto simp: docker_gpu_rules_def Let_def split: if_splits)

lemma cache_rules_facts:
  "ids_in [''F-CACHE-001'', ''F-CACHE-002'', ''F-CACHE-003''] (cache_rules m)"
  by (auto simp: cache_rules_def Let_def intro!: ids_in_concat)

text \<open>Whether a finding of the engine has the evidence it needs, by its identifier.\<close>

definition m6_grounded :: "(string \<Rightarrow> string option) \<Rightarrow> string \<Rightarrow> bool" where
  "m6_grounded m i \<longleftrightarrow>
     (if i \<in> {''F-GPU-001'', ''F-GPU-002''} then get m ''gpu_hardware_detected'' = ''true''
      else if i \<in> {''F-ML-PYTORCH-001'', ''F-ML-TF-001'', ''F-ML-JAX-001'', ''F-DOCKER-GPU-001''}
      then get m ''gpu_present'' = ''true''
      else i \<in> set m6_ids)"

lemma M6_grounded: "f \<in> set (M6_Evaluate s) \<Longrightarrow> m6_grounded (evMap s) (f_ID f)"
proof -
  assume "f \<in> set (M6_Evaluate s)"
  then consider "f \<in> set (gpu_rules (evMap s))" | "f \<in> set (ml_rules (evMap s))"
    | "f \<in> set (docker_gpu_rules (evMap s))" | "f \<in> set (cache_rules (evMap s))"
    by (auto simp: M6_Evaluate_def Let_def)
  then show ?thesis
  proof cases
    case 1
    from gpu_rules_facts [OF 1] show ?thesis by (auto simp: m6_grounded_def)
  next
    case 2
    from ml_rules_facts [OF 2] show ?thesis by (auto simp: m6_grounded_def m6_ids_def)
  next
    case 3
    from docker_gpu_rules_facts [OF 3] show ?thesis by (auto simp: m6_grounded_def m6_ids_def)
  next
    case 4
    with cache_rules_facts [of "evMap s"] show ?thesis
      by (auto simp: ids_in_def m6_grounded_def m6_ids_def)
  qed
qed

lemma m6_grounded_ids: "m6_grounded m i \<Longrightarrow> i \<in> set m6_ids"
  by (auto simp: m6_grounded_def m6_ids_def split: if_splits)

text \<open>The evidence map holds the last value of every source.\<close>

lemma evMap_last:
  "evMap s k = last_value k (concat (map c_Evidence (s_Collectors s)))"
proof -
  have "foldl (\<lambda>m ev. m(ev_Source ev \<mapsto> ev_Value ev)) Map.empty evs k = last_value k evs" for evs
    by (induction evs rule: rev_induct) (auto simp: last_value_def values_of_def)
  then show ?thesis by (simp add: evMap_def)
qed

lemma m6_ids_domains: "list_all (\<lambda>i. FindDomainByFindingID i \<noteq> None) m6_ids"
  by code_simp

text \<open>
  Every finding of the engine has one of its identifiers and belongs to a registered domain;
  the driver findings need NVIDIA hardware, and the findings on CPU-only builds and on the GPU
  runtime of Docker need a visible GPU, each in the last evidence on it.
\<close>

theorem M6_Evaluate_safe:
  assumes "f \<in> set (M6_Evaluate s)"
  shows "f_ID f \<in> set m6_ids \<and> FindDomainByFindingID (f_ID f) \<noteq> None \<and>
    (f_ID f \<in> {''F-GPU-001'', ''F-GPU-002''} \<longrightarrow>
      last_value ''gpu_hardware_detected'' (concat (map c_Evidence (s_Collectors s))) = Some ''true'') \<and>
    (f_ID f \<in> {''F-ML-PYTORCH-001'', ''F-ML-TF-001'', ''F-ML-JAX-001'', ''F-DOCKER-GPU-001''} \<longrightarrow>
      last_value ''gpu_present'' (concat (map c_Evidence (s_Collectors s))) = Some ''true'')"
proof -
  have get: "get (evMap s) k = ''true'' \<longleftrightarrow>
      last_value k (concat (map c_Evidence (s_Collectors s))) = Some ''true''" for k
    by (auto simp: get_def evMap_last split: option.splits)
  have g: "m6_grounded (evMap s) (f_ID f)" using assms by (rule M6_grounded)
  from m6_grounded_ids [OF g] have "f_ID f \<in> set m6_ids \<and> FindDomainByFindingID (f_ID f) \<noteq> None"
    using m6_ids_domains by (auto simp: list_all_iff)
  then show ?thesis using g unfolding m6_grounded_def get by (auto split: if_splits)
qed

theorem M6_Evaluate_safe_witness:
  "FindDomainByFindingID (f_ID pytorch_cpu_only) \<noteq> None"
proof -
  have "pytorch_cpu_only \<in> set (M6_Evaluate \<lparr>s_Collectors = [zero_result\<lparr>c_Evidence :=
      [mk_ev ''gpu_present'' ''true'', mk_ev ''ml_pytorch_version'' ''2.1'']\<rparr>]\<rparr>)"
    by (simp add: M6_Evaluate_def ml_rules_def Let_def get_def evMap_def)
  from M6_Evaluate_safe [OF this] show ?thesis by blast
qed

end
