(* ===== verification/Rules_M8.thy ===== *)
theory Rules_M8
  imports Rules_Common Domains
begin

text \<open>
  \<open>internal/rules/m8engine.go\<close>: the engine that compares the evidence on the CI workflows with the
  local evidence. Sets of strings (\<open>map[string]bool\<close>) are lists used by membership; where the code
  collects the keys of a map and sorts them, the order of the map does not show and the sorted
  list is taken directly.
\<close>

section \<open>Keys of environment variables\<close>

definition decodeSourceSegment :: "string \<Rightarrow> string" where
  "decodeSourceSegment s = replace_all s ''%5F%5F'' ''__''"

definition after_last_sep :: "string \<Rightarrow> string option" where
  "after_last_sep rest =
     (case last_index_of ''__'' rest of
        Some idx \<Rightarrow> Some (decodeSourceSegment (drop (idx + 2) rest))
      | None \<Rightarrow> None)"

definition ciEnvKey :: "string \<Rightarrow> string option" where
  "ciEnvKey source =
     (if has_prefix source ''ci_env__workflow__''
      then Some (decodeSourceSegment (trim_prefix source ''ci_env__workflow__''))
      else if has_prefix source ''ci_env__job__''
      then after_last_sep (trim_prefix source ''ci_env__job__'')
      else if has_prefix source ''ci_env__step__''
      then after_last_sep (trim_prefix source ''ci_env__step__'')
      else None)"

text \<open>The configured sets of keys; \<open>collectM8Config\<close> trims them and drops empty ones.\<close>

record m8_config =
  ignoreMissingLocal :: "string list"
  ignoreMissingCI :: "string list"
  localRequired :: "string list"
  deploymentOnly :: "string list"
  ciOnly :: "string list"

definition config_keys :: "string \<Rightarrow> evidence list \<Rightarrow> string list" where
  "config_keys source evs = filter (\<lambda>k. k \<noteq> []) (map trim_space (values_of source evs))"

definition collectM8Config :: "evidence list \<Rightarrow> m8_config" where
  "collectM8Config evs =
     \<lparr>ignoreMissingLocal = config_keys ''devdiag_ci_env_ignore_missing_local'' evs,
      ignoreMissingCI = config_keys ''devdiag_ci_env_ignore_missing_ci'' evs,
      localRequired = config_keys ''devdiag_ci_env_local_required'' evs,
      deploymentOnly = config_keys ''devdiag_ci_env_deployment_only'' evs,
      ciOnly = config_keys ''devdiag_ci_env_ci_only'' evs\<rparr>"

definition isDeploymentOnlyHeuristics :: "string \<Rightarrow> bool" where
  "isDeploymentOnlyHeuristics key0 =
     (let key = to_upper key0
      in has_prefix key ''OCI_'' \<or> has_suffix key ''_SSH_PRIVATE_KEY'' \<or>
         has_suffix key ''_KNOWN_HOSTS'' \<or> key = ''RELEASE_SHA'' \<or> key = ''CONFIRM_DEPLOY'' \<or>
         has_suffix key ''_PRODUCTION_URL'' \<or> has_suffix key ''_DEPLOY_PATH'')"

definition isStandardCIControlEnv :: "string \<Rightarrow> bool" where
  "isStandardCIControlEnv key \<longleftrightarrow>
     key \<in> {''NODE_ENV'', ''NODE_VERSION'', ''PYTHON_VERSION'', ''GO_VERSION'', ''DOTNET_VERSION'',
            ''DOTNET_NOLOGO'', ''DOTNET_CLI_TELEMETRY_OPTOUT'', ''DOTNET_SKIP_FIRST_TIME_EXPERIENCE''}"

definition isIgnoredCIEnv :: "string \<Rightarrow> string \<Rightarrow> bool" where
  "isIgnoredCIEnv key val =
     (if key = [] then True
      else if key = ''CI'' \<or> key = ''GITHUB_TOKEN'' then True
      else if isStandardCIControlEnv key then True
      else if has_prefix key ''GITHUB_'' \<or> has_prefix key ''RUNNER_'' \<or> has_prefix key ''ACTIONS_'' then True
      else if isDeploymentOnlyHeuristics key then False
      else has_prefix (trim_space val) ''${{ github.'' \<or> has_prefix (trim_space val) ''${{ runner.'' \<or>
           has_prefix (trim_space val) ''${{ env.'')"

definition envSourceRequiresCI :: "string \<Rightarrow> bool" where
  "envSourceRequiresCI source \<longleftrightarrow> source = ''.env''"

definition isOpaqueCIValue :: "string \<Rightarrow> bool" where
  "isOpaqueCIValue v \<longleftrightarrow> contains v ''${{''"

definition summarizeKeysForTitle :: "string list \<Rightarrow> string" where
  "summarizeKeysForTitle keys =
     (if length keys \<le> 5 then join '', '' keys
      else join '', '' (take 5 keys) @ '', and '' @ itoa (int (length keys) - 5) @ '' more'')"

definition summarizeEvidenceValues :: "evidence list \<Rightarrow> string" where
  "summarizeEvidenceValues evs =
     (let keys = sort_strings (remdups (filter (\<lambda>v. v \<noteq> []) (map (\<lambda>ev. trim_space (ev_Value ev)) evs)))
      in if keys = [] then ''unknown'' else summarizeKeysForTitle keys)"

definition envKeyEvidence :: "string \<Rightarrow> string list \<Rightarrow> evidence list" where
  "envKeyEvidence source keys = map (mk_ev source) keys"

section \<open>Runtimes\<close>

definition actionRuntimeKey :: "string \<Rightarrow> string" where
  "actionRuntimeKey action =
     (if action = ''setup_node'' then ''setup-node''
      else if action = ''setup_python'' then ''setup-python''
      else if action = ''setup_go'' then ''setup-go''
      else if action = ''setup_ruby'' then ''setup-ruby''
      else if action = ''setup_dotnet'' then ''setup-dotnet''
      else action)"

definition ciSetupInfo :: "string \<Rightarrow> string option" where
  "ciSetupInfo source =
     (if \<not> has_prefix source ''ci_setup__'' then None
      else let parts = split_at ''__'' (trim_prefix source ''ci_setup__'')
           in if length parts < 4 then None
              else Some (actionRuntimeKey (decodeSourceSegment (parts ! (length parts - 2)))))"

text \<open>The version of one part of the engines of a \<open>package.json\<close>, such as \<open>"node": ">=20"\<close>.\<close>

definition engine_version :: "string \<Rightarrow> string option" where
  "engine_version piece0 =
     (let piece = trim_space piece0; ep = split_at '':'' piece
      in if \<not> has_prefix piece ([CHR 0x22] @ ''node'' @ [CHR 0x22]) then None
         else if length ep \<noteq> 2 then None
         else let ver = trim_set [CHR 0x22] (trim_space (ep ! 1))
              in if ver = [] then None else Some ver)"

fun put_engines :: "string list \<Rightarrow> (string \<rightharpoonup> string) \<Rightarrow> (string \<rightharpoonup> string)" where
  "put_engines [] m = m"
| "put_engines (piece # pieces) m =
     put_engines pieces (case engine_version piece of Some v \<Rightarrow> m(''setup-node'' \<mapsto> v) | None \<Rightarrow> m)"

definition pinned :: "string \<Rightarrow> string \<Rightarrow> string" where
  "pinned val name = trim_space (trim_prefix val (name @ '' ''))"

text \<open>The runtime a file pins, with the word its evidence starts with.\<close>

definition runtime_file :: "string \<Rightarrow> (string \<times> string) option" where
  "runtime_file src =
     (if src = ''.nvmrc'' then Some (''setup-node'', ''node'')
      else if src = ''.python-version'' then Some (''setup-python'', ''python'')
      else if src = ''go.mod'' then Some (''setup-go'', ''go'')
      else if src = ''.ruby-version'' then Some (''setup-ruby'', ''ruby'')
      else if src = ''global.json'' then Some (''setup-dotnet'', ''dotnet'')
      else None)"

definition put_runtime :: "(string \<rightharpoonup> string) \<Rightarrow> string \<Rightarrow> string \<Rightarrow> (string \<rightharpoonup> string)" where
  "put_runtime m src val =
     (let m = (case runtime_file src of
                 Some kn \<Rightarrow> m(fst kn \<mapsto> pinned val (snd kn)) | None \<Rightarrow> m)
      in if has_suffix src ''package.json'' \<and> contains val ''engines:''
         then put_engines (split_at '','' (trim_prefix val ''engines: '')) m else m)"

definition extractLocalRuntimes ::
  "map_order \<Rightarrow> (string \<times> string) list \<Rightarrow> (string \<rightharpoonup> string)" where
  "extractLocalRuntimes ord runtimeEvs =
     foldl (\<lambda>m src. put_runtime m src (the (map_of runtimeEvs src))) Map.empty
       (ord ''runtimeEvs'' (map fst runtimeEvs))"

section \<open>Commands\<close>

definition with_prefix :: "string \<Rightarrow> evidence list \<Rightarrow> evidence list" where
  "with_prefix p evs = filter (\<lambda>ev. has_prefix (ev_Source ev) p) evs"

definition collectCIRunCommands :: "evidence list \<Rightarrow> evidence list" where
  "collectCIRunCommands evs = with_prefix ''ci_run__'' evs"

definition collectRepoCommands :: "evidence list \<Rightarrow> evidence list" where
  "collectRepoCommands evs = with_prefix ''repo_command__'' evs"

definition collectRepoPackageManager :: "evidence list \<Rightarrow> string" where
  "collectRepoPackageManager evs =
     (case values_of ''repo_package_manager'' evs of [] \<Rightarrow> [] | v # _ \<Rightarrow> v)"

definition commandPackageManager :: "string \<Rightarrow> string" where
  "commandPackageManager command =
     (case str_fields command of
        [] \<Rightarrow> []
      | w # _ \<Rightarrow> if w \<in> {''npm'', ''pnpm'', ''yarn'', ''bun''} then w else [])"

definition packageManagerName :: "string \<Rightarrow> string" where
  "packageManagerName pm = (case index_of ''@'' pm of Some idx \<Rightarrow> take idx pm | None \<Rightarrow> pm)"

definition normalizeCommand :: "string \<Rightarrow> string" where
  "normalizeCommand command = join '' '' (str_fields command)"

definition localCommandMatches :: "string \<Rightarrow> evidence list \<Rightarrow> bool" where
  "localCommandMatches command localCommands =
     list_ex (\<lambda>ev. normalizeCommand (ev_Value ev) = normalizeCommand command) localCommands"

definition commandWithoutPackageManager :: "string \<Rightarrow> string" where
  "commandWithoutPackageManager command =
     (case str_fields command of
        [] \<Rightarrow> []
      | _ # args \<Rightarrow>
          if commandPackageManager command = [] then normalizeCommand command
          else join '' '' args)"

definition localCommandWithSameArgs :: "string \<Rightarrow> evidence list \<Rightarrow> bool" where
  "localCommandWithSameArgs command localCommands =
     (let targetArgs = commandWithoutPackageManager command
      in if targetArgs = [] then False
         else list_ex (\<lambda>ev. commandWithoutPackageManager (ev_Value ev) = targetArgs) localCommands)"

section \<open>Services\<close>

record m8_service =
  sv_Name :: string
  sv_Image :: string
  sv_HostPorts :: "int list"
  sv_ContainerPorts :: "int list"
  sv_Evidence :: "evidence list"

definition newM8ServiceSpec :: "string \<Rightarrow> m8_service" where
  "newM8ServiceSpec name =
     \<lparr>sv_Name = name, sv_Image = [], sv_HostPorts = [], sv_ContainerPorts = [], sv_Evidence = []\<rparr>"

definition parsePortInt :: "string \<Rightarrow> int option" where
  "parsePortInt v =
     (case atoi (hd (split_at2 ''/'' (trim_space v))) of
        Some port \<Rightarrow> if port > 0 then Some port else None
      | None \<Rightarrow> None)"

definition applyServiceEvidence :: "m8_service \<Rightarrow> string \<Rightarrow> evidence \<Rightarrow> m8_service" where
  "applyServiceEvidence spec0 field ev =
     (let spec = spec0\<lparr>sv_Evidence := sv_Evidence spec0 @ [ev]\<rparr>
      in if field = ''image'' then spec\<lparr>sv_Image := trim_space (ev_Value ev)\<rparr>
         else if field = ''host_port''
         then (case parsePortInt (ev_Value ev) of
                 Some port \<Rightarrow> spec\<lparr>sv_HostPorts := List.insert port (sv_HostPorts spec)\<rparr>
               | None \<Rightarrow> spec)
         else if field = ''container_port''
         then (case parsePortInt (ev_Value ev) of
                 Some port \<Rightarrow> spec\<lparr>sv_ContainerPorts := List.insert port (sv_ContainerPorts spec)\<rparr>
               | None \<Rightarrow> spec)
         else spec)"

definition parseCIServiceEvidenceSource :: "string \<Rightarrow> (string \<times> string) option" where
  "parseCIServiceEvidenceSource source =
     (if \<not> has_prefix source ''ci_service__'' then None
      else let parts = split_at ''__'' (trim_prefix source ''ci_service__'')
           in if length parts < 2 then None
              else let field = last parts;
                       service = (if length parts \<ge> 3 then parts ! (length parts - 2) else hd parts)
                   in if service = [] \<or> field = [] then None
                      else Some (decodeSourceSegment service, field))"

definition parseServiceEvidenceSource :: "string \<Rightarrow> string \<Rightarrow> (string \<times> string) option" where
  "parseServiceEvidenceSource source pre =
     (if \<not> has_prefix source pre then None
      else let rest = trim_prefix source pre
           in case last_index_of ''__'' rest of
                None \<Rightarrow> None
              | Some idx \<Rightarrow> Some (decodeSourceSegment (take idx rest), drop (idx + 2) rest))"

text \<open>One step of both loops: the service of the name is made when it is not in the map.\<close>

definition put_service ::
  "(string \<times> m8_service) list \<Rightarrow> string \<times> string \<Rightarrow> evidence \<Rightarrow> (string \<times> m8_service) list" where
  "put_service services nf ev =
     (let name = fst nf;
          spec = (case map_of services name of
                    Some s \<Rightarrow> if sv_Name s = [] then newM8ServiceSpec name else s
                  | None \<Rightarrow> newM8ServiceSpec name)
      in AList.update name (applyServiceEvidence spec (snd nf) ev) services)"

definition collectCIServices :: "evidence list \<Rightarrow> (string \<times> m8_service) list" where
  "collectCIServices evs =
     foldl (\<lambda>services ev. case parseCIServiceEvidenceSource (ev_Source ev) of
              Some nf \<Rightarrow> put_service services nf ev | None \<Rightarrow> services) [] evs"

definition collectComposeServices :: "evidence list \<Rightarrow> (string \<times> m8_service) list" where
  "collectComposeServices evs =
     foldl (\<lambda>services ev. case parseServiceEvidenceSource (ev_Source ev) ''compose_service__'' of
              Some nf \<Rightarrow> put_service services nf ev | None \<Rightarrow> services) [] evs"

definition portsOverlap :: "int list \<Rightarrow> int list \<Rightarrow> bool" where
  "portsOverlap left right = list_ex (\<lambda>port. port \<in> set right) left"

definition legacyComposePortMatch :: "m8_service \<Rightarrow> int list \<Rightarrow> bool" where
  "legacyComposePortMatch ciService composePorts =
     list_ex (\<lambda>port. port \<in> set composePorts) (sv_HostPorts ciService)"

definition index_less :: "nat option \<Rightarrow> nat option \<Rightarrow> bool" where
  "index_less a b = (case (a, b) of (None, None) \<Rightarrow> False | (None, Some _) \<Rightarrow> True
     | (Some _, None) \<Rightarrow> False | (Some i, Some j) \<Rightarrow> i < j)"

text \<open>A tag \<open>:latest\<close> is added when there is no colon after the last slash.\<close>

definition add_latest :: "string \<Rightarrow> string" where
  "add_latest img =
     (if \<not> contains img '':'' \<or> index_less (last_index_of '':'' img) (last_index_of ''/'' img)
      then img @ '':latest'' else img)"

definition cut_digest :: "string \<Rightarrow> string" where
  "cut_digest img = (case index_of ''@'' img of Some idx \<Rightarrow> take idx img | None \<Rightarrow> img)"

definition qualify_image :: "string \<Rightarrow> string" where
  "qualify_image img =
     (let parts = split_at ''/'' img
      in if length parts = 1 then ''docker.io/library/'' @ hd parts
         else if length parts = 2 \<and> \<not> contains (hd parts) ''.'' \<and> \<not> contains (hd parts) '':'' \<and>
           hd parts \<noteq> ''localhost'' then ''docker.io/'' @ img
         else if has_prefix img ''index.docker.io/'' then trim_prefix img ''index.''
         else img)"

definition normalizeContainerImage :: "string \<Rightarrow> string" where
  "normalizeContainerImage img0 =
     (let img = trim_space (to_lower img0)
      in if img = [] then [] else qualify_image (add_latest (cut_digest img)))"

definition serviceMismatch :: "m8_service \<Rightarrow> m8_service \<Rightarrow> bool" where
  "serviceMismatch ciService composeService =
     (if sv_Image ciService \<noteq> [] \<and> sv_Image composeService \<noteq> [] \<and>
         normalizeContainerImage (sv_Image ciService) \<noteq> normalizeContainerImage (sv_Image composeService)
      then True
      else if sv_HostPorts ciService \<noteq> [] \<and> sv_HostPorts composeService \<noteq> [] \<and>
         \<not> portsOverlap (sv_HostPorts ciService) (sv_HostPorts composeService)
      then True
      else if sv_ContainerPorts ciService \<noteq> [] \<and> sv_ContainerPorts composeService \<noteq> [] \<and>
         \<not> portsOverlap (sv_ContainerPorts ciService) (sv_ContainerPorts composeService)
      then True
      else False)"

section \<open>Templates\<close>

definition ci_runtime_differs :: "string \<Rightarrow> string \<Rightarrow> evidence \<Rightarrow> finding" where [templates]:
  "ci_runtime_differs actionName localRT ev = zero_finding
     \<lparr>f_ID := ''F-CI-RUNTIME-001'',
      f_Title := ''CI '' @ actionName @ '' version '' @ ev_Value ev @ '' differs from local '' @ localRT,
      f_Severity := SeverityMedium, f_Confidence := 7/10,
      f_Symptom := ''Version mismatch: CI uses '' @ actionName @ ''='' @ ev_Value ev @
        '', local runtime pin is '' @ localRT,
      f_Evidence := [mk_ev (ev_Source ev) (ev_Value ev), mk_ev ''local_runtime'' localRT],
      f_LikelyCauses := [''Runtime versions drifted between CI and local dev environment'']\<rparr>"

definition ci_runtime_unpinned :: "string \<Rightarrow> evidence list \<Rightarrow> finding" where [templates]:
  "ci_runtime_unpinned actionName evs = zero_finding
     \<lparr>f_ID := ''F-CI-PACKAGE-001'',
      f_Title := ''CI uses '' @ actionName @ '' but repo has no local runtime pin'',
      f_Severity := SeverityLow, f_Confidence := 1/2,
      f_Symptom := ''CI configures '' @ actionName @ ''='' @ summarizeEvidenceValues evs @
        '' but no .nvmrc/.python-version/go.mod version matches'',
      f_Evidence := evs,
      f_LikelyCauses := [''Add a local runtime pin file so dev and CI stay in sync'']\<rparr>"

definition ci_package_manager_differs :: "string \<Rightarrow> evidence \<Rightarrow> finding" where [templates]:
  "ci_package_manager_differs repoPackageManager ciCmd = zero_finding
     \<lparr>f_ID := ''F-CI-PACKAGE-002'',
      f_Title := ''CI command package manager differs from local '' @ repoPackageManager,
      f_Severity := SeverityLow, f_Confidence := 3/5,
      f_Symptom := ''CI runs '' @ ev_Value ciCmd @ '' but repo package manager is '' @ repoPackageManager,
      f_Evidence := [ciCmd, mk_ev ''repo_package_manager'' repoPackageManager],
      f_LikelyCauses := [''CI workflow may use a stale package manager command'']\<rparr>"

definition ci_undocumented_commands :: "evidence list \<Rightarrow> finding" where [templates]:
  "ci_undocumented_commands dedupedEvs = zero_finding
     \<lparr>f_ID := ''F-CI-COMMAND-001'',
      f_Title := ''CI has '' @ itoa (int (length dedupedEvs)) @ '' undocumented commands'',
      f_Severity := SeverityLow, f_Confidence := 1/2,
      f_Symptom := ''CI run commands do not match collected local README/package/Makefile/Taskfile/justfile commands'',
      f_Evidence := mk_ev ''ci_undocumented_command_count'' (itoa (int (length dedupedEvs))) # dedupedEvs,
      f_LikelyCauses := [''Local command documentation may be out of sync with CI'']\<rparr>"

definition ci_env_not_local :: "string list \<Rightarrow> finding" where [templates]:
  "ci_env_not_local keys = zero_finding
     \<lparr>f_ID := ''F-CI-ENV-001'',
      f_Title := ''CI env vars not found locally: '' @ summarizeKeysForTitle keys,
      f_Severity := SeverityMedium, f_Confidence := 3/5,
      f_Symptom := ''One or more environment variables are set in CI but missing from local .env evidence'',
      f_Evidence := envKeyEvidence ''ci_env'' keys,
      f_LikelyCauses := [''Local .env is out of date with CI configuration'']\<rparr>"

definition ci_deploy_env_not_local :: "string list \<Rightarrow> finding" where [templates]:
  "ci_deploy_env_not_local keys = zero_finding
     \<lparr>f_ID := ''F-CI-ENV-DEPLOY-INFO'',
      f_Title := ''CI deployment env vars not found locally: '' @ summarizeKeysForTitle keys,
      f_Severity := SeverityInfo, f_Confidence := 3/5,
      f_Symptom := ''One or more CI deployment/secrets environment variables are not present locally'',
      f_Evidence := envKeyEvidence ''ci_env'' keys,
      f_LikelyCauses := [''Variables are deployment-only or secrets meant only for production/CI environments'']\<rparr>"

definition local_env_not_ci :: "string list \<Rightarrow> finding" where [templates]:
  "local_env_not_ci keys = zero_finding
     \<lparr>f_ID := ''F-CI-ENV-002'',
      f_Title := ''Local env vars not found in CI: '' @ summarizeKeysForTitle keys,
      f_Severity := SeverityLow, f_Confidence := 1/2,
      f_Symptom := ''One or more local .env variables are not referenced in CI'',
      f_Evidence := envKeyEvidence ''.env'' keys,
      f_LikelyCauses := [''CI workflow may be missing required environment variables'']\<rparr>"

definition ci_service_unmatched :: "string \<Rightarrow> m8_service \<Rightarrow> finding" where [templates]:
  "ci_service_unmatched name ciService = zero_finding
     \<lparr>f_ID := ''F-CI-SERVICE-001'',
      f_Title := ''CI service '' @ name @ '' is not matched locally'',
      f_Severity := SeverityMedium, f_Confidence := 3/5,
      f_Symptom := ''CI defines service '' @ name @ '' but local compose does not define a matching service'',
      f_Evidence := sv_Evidence ciService,
      f_LikelyCauses := [''Local compose.yaml is missing a matching service definition'']\<rparr>"

definition ci_service_differs :: "string \<Rightarrow> m8_service \<Rightarrow> m8_service \<Rightarrow> finding" where [templates]:
  "ci_service_differs name ciService composeService = zero_finding
     \<lparr>f_ID := ''F-CI-SERVICE-001'',
      f_Title := ''CI service '' @ name @ '' differs from local compose service'',
      f_Severity := SeverityMedium, f_Confidence := 3/5,
      f_Symptom := ''CI service '' @ name @ '' image or ports do not match local compose'',
      f_Evidence := sv_Evidence ciService @ sv_Evidence composeService,
      f_LikelyCauses := [''CI and local compose service definitions drifted'']\<rparr>"

definition compose_service_not_ci :: "string \<Rightarrow> m8_service \<Rightarrow> finding" where [templates]:
  "compose_service_not_ci name composeService = zero_finding
     \<lparr>f_ID := ''F-CI-SERVICE-002'',
      f_Title := ''Local compose service '' @ name @ '' is not defined in CI'',
      f_Severity := SeverityLow, f_Confidence := 1/2,
      f_Symptom := ''Local compose defines service '' @ name @ '' but CI does not define a matching service'',
      f_Evidence := sv_Evidence composeService,
      f_LikelyCauses := [''CI workflow may not start a local dependency required during development'']\<rparr>"

definition ci_container_differs :: "string \<Rightarrow> evidence \<Rightarrow> finding" where [templates]:
  "ci_container_differs devcontainerImage ev = zero_finding
     \<lparr>f_ID := ''F-CI-CONTAINER-001'',
      f_Title := ''CI container image differs from devcontainer image'',
      f_Severity := SeverityMedium, f_Confidence := 3/5,
      f_Symptom := ''CI job container image does not match the devcontainer configuration'',
      f_Evidence := [mk_ev (ev_Source ev) (ev_Value ev), mk_ev ''devcontainer_image'' devcontainerImage],
      f_LikelyCauses := [''Devcontainer and CI images drifted out of sync'']\<rparr>"

definition ci_shell_differs :: "string \<Rightarrow> evidence \<Rightarrow> finding" where [templates]:
  "ci_shell_differs hostShell ev = zero_finding
     \<lparr>f_ID := ''F-CI-SHELL-001'',
      f_Title := ''CI shell '' @ ev_Value ev @ '' differs from host shell '' @ hostShell,
      f_Severity := SeverityLow, f_Confidence := 1/2,
      f_Symptom := ''CI default shell may behave differently from local shell'',
      f_Evidence := [mk_ev (ev_Source ev) (ev_Value ev), mk_ev ''host_shell'' hostShell],
      f_LikelyCauses := [''Shell-specific syntax may behave differently in CI'']\<rparr>"

section \<open>The rules of the engine\<close>

definition setup_runtime :: "evidence \<Rightarrow> string option" where
  "setup_runtime ev = (if isOpaqueCIValue (ev_Value ev) then None else ciSetupInfo (ev_Source ev))"

definition local_runtime :: "(string \<rightharpoonup> string) \<Rightarrow> string \<Rightarrow> string" where
  "local_runtime runtimes name = (case runtimes name of Some v \<Rightarrow> v | None \<Rightarrow> [])"

definition runtime_difference :: "(string \<rightharpoonup> string) \<Rightarrow> evidence \<Rightarrow> finding option" where
  "runtime_difference runtimes ev =
     (case setup_runtime ev of
        None \<Rightarrow> None
      | Some a \<Rightarrow>
          if local_runtime runtimes a = [] then None
          else if \<not> versionsCompatible (local_runtime runtimes a) (ev_Value ev)
          then Some (ci_runtime_differs a (local_runtime runtimes a) ev) else None)"

definition unpinned_name :: "(string \<rightharpoonup> string) \<Rightarrow> evidence \<Rightarrow> string option" where
  "unpinned_name runtimes ev =
     (case setup_runtime ev of
        None \<Rightarrow> None
      | Some a \<Rightarrow> if local_runtime runtimes a = [] then Some a else None)"

definition m8_runtime_rules :: "(string \<rightharpoonup> string) \<Rightarrow> evidence list \<Rightarrow> finding list" where
  "m8_runtime_rules runtimes ciSetupActions =
     List.map_filter (runtime_difference runtimes) ciSetupActions @
     map (\<lambda>a. ci_runtime_unpinned a
            (filter (\<lambda>ev. unpinned_name runtimes ev = Some a) ciSetupActions))
       (sort_strings (remdups (List.map_filter (unpinned_name runtimes) ciSetupActions)))"

definition pm_conflict :: "string \<Rightarrow> evidence list \<Rightarrow> evidence \<Rightarrow> bool" where
  "pm_conflict repoPackageManager localCommands ciCmd =
     (let ciPM = commandPackageManager (ev_Value ciCmd)
      in repoPackageManager \<noteq> [] \<and> ciPM \<noteq> [] \<and> ciPM \<noteq> packageManagerName repoPackageManager \<and>
         localCommandWithSameArgs (ev_Value ciCmd) localCommands)"

fun dedup_commands :: "string list \<Rightarrow> evidence list \<Rightarrow> evidence list" where
  "dedup_commands seenCmds [] = []"
| "dedup_commands seenCmds (cmd # cmds) =
     (let norm = normalizeCommand (ev_Value cmd)
      in if norm \<in> set seenCmds then dedup_commands seenCmds cmds
         else cmd # dedup_commands (norm # seenCmds) cmds)"

definition m8_command_rules :: "string \<Rightarrow> evidence list \<Rightarrow> evidence list \<Rightarrow> finding list" where
  "m8_command_rules repoPackageManager localCommands ciRunCommands =
     (let undocumentedCmds = filter (\<lambda>cmd.
            \<not> pm_conflict repoPackageManager localCommands cmd \<and>
            localCommands \<noteq> [] \<and> \<not> localCommandMatches (ev_Value cmd) localCommands) ciRunCommands
      in map (ci_package_manager_differs repoPackageManager)
           (filter (pm_conflict repoPackageManager localCommands) ciRunCommands) @
         emit (undocumentedCmds \<noteq> []) (ci_undocumented_commands (dedup_commands [] undocumentedCmds)))"

definition all_ci_env_keys :: "m8_config \<Rightarrow> evidence list \<Rightarrow> string list" where
  "all_ci_env_keys cfg ciEvidence =
     List.map_filter (\<lambda>ev. case ciEnvKey (ev_Source ev) of
        None \<Rightarrow> None
      | Some key \<Rightarrow>
          if isIgnoredCIEnv key (ev_Value ev) then None
          else if key \<in> set (ignoreMissingLocal cfg) then None
          else if key \<in> set (ciOnly cfg) then None
          else Some key) ciEvidence"

definition is_local_env_source :: "string \<Rightarrow> bool" where
  "is_local_env_source source \<longleftrightarrow>
     source = ''.env'' \<or> source = ''.env.example'' \<or> source = ''.env.local'' \<or>
     (has_prefix source ''.env.'' \<and> has_suffix source ''.example'')"

definition local_env_key_list :: "evidence list \<Rightarrow> string list" where
  "local_env_key_list envEvs =
     concat (map (\<lambda>ev. if is_local_env_source (ev_Source ev)
                       then envKeysFromEvidence (ev_Value ev) else []) envEvs)"

definition local_env_keys_for_ci :: "m8_config \<Rightarrow> evidence list \<Rightarrow> string list" where
  "local_env_keys_for_ci cfg envEvs =
     concat (map (\<lambda>ev. if is_local_env_source (ev_Source ev) \<and> envSourceRequiresCI (ev_Source ev)
                       then filter (\<lambda>k. k \<notin> set (ignoreMissingCI cfg)) (envKeysFromEvidence (ev_Value ev))
                       else []) envEvs)"

definition deploy_key :: "m8_config \<Rightarrow> string \<Rightarrow> bool" where
  "deploy_key cfg key \<longleftrightarrow> key \<notin> set (localRequired cfg) \<and>
     (key \<in> set (deploymentOnly cfg) \<or> isDeploymentOnlyHeuristics key)"

definition m8_env_rules :: "m8_config \<Rightarrow> evidence list \<Rightarrow> evidence list \<Rightarrow> finding list" where
  "m8_env_rules cfg ciEvidence envEvs =
     (let ciKeys = all_ci_env_keys cfg ciEvidence;
          missing = filter (\<lambda>k. k \<notin> set (local_env_key_list envEvs)) (remdups ciKeys);
          missingLocalKeys = sort_strings (filter (\<lambda>k. \<not> deploy_key cfg k) missing);
          missingDeployKeys = sort_strings (filter (deploy_key cfg) missing);
          missingCIKeys = sort_strings
            (filter (\<lambda>k. k \<notin> set ciKeys) (remdups (local_env_keys_for_ci cfg envEvs)))
      in emit (missingLocalKeys \<noteq> []) (ci_env_not_local missingLocalKeys) @
         emit (missingDeployKeys \<noteq> []) (ci_deploy_env_not_local missingDeployKeys) @
         emit (missingCIKeys \<noteq> []) (local_env_not_ci missingCIKeys))"

definition compose_ports :: "evidence list \<Rightarrow> int list" where
  "compose_ports composeEvs =
     filter (\<lambda>p. p > 0) (List.map_filter atoi (values_of ''compose_host_port'' composeEvs))"

definition check_ci_service ::
  "(string \<times> m8_service) list \<Rightarrow> int list \<Rightarrow> string \<Rightarrow> m8_service \<Rightarrow> finding list" where
  "check_ci_service composeServices composePorts name ciService =
     (case map_of composeServices name of
        None \<Rightarrow> if composeServices = [] \<and> legacyComposePortMatch ciService composePorts then []
                else [ci_service_unmatched name ciService]
      | Some composeService \<Rightarrow>
          if serviceMismatch ciService composeService
          then [ci_service_differs name ciService composeService] else [])"

definition m8_service_rules ::
  "map_order \<Rightarrow> (string \<times> m8_service) list \<Rightarrow> (string \<times> m8_service) list \<Rightarrow> int list \<Rightarrow> finding list" where
  "m8_service_rules ord ciServices composeServices composePorts =
     concat (map (\<lambda>name. check_ci_service composeServices composePorts name (the (map_of ciServices name)))
       (ord ''ciServices'' (map fst ciServices))) @
     (if ciServices \<noteq> []
      then concat (map (\<lambda>name.
             if map_of ciServices name \<noteq> None then []
             else [compose_service_not_ci name (the (map_of composeServices name))])
             (ord ''composeServices'' (map fst composeServices)))
      else [])"

definition m8_container_rules :: "string \<Rightarrow> evidence list \<Rightarrow> finding list" where
  "m8_container_rules devcontainerImage ciContainers =
     map (ci_container_differs devcontainerImage)
       (filter (\<lambda>ev. devcontainerImage \<noteq> [] \<and>
          normalizeContainerImage (ev_Value ev) \<noteq> normalizeContainerImage devcontainerImage) ciContainers)"

definition m8_shell_rules :: "string \<Rightarrow> evidence list \<Rightarrow> finding list" where
  "m8_shell_rules hostShell ciShells =
     map (ci_shell_differs hostShell) (filter (\<lambda>ev. hostShell \<noteq> [] \<and> ev_Value ev \<noteq> hostShell) ciShells)"

section \<open>The engine\<close>

definition named_evidence :: "string \<Rightarrow> snapshot \<Rightarrow> evidence list" where
  "named_evidence name snapshot =
     concat (map c_Evidence (filter (\<lambda>c. c_Name c = name) (s_Collectors snapshot)))"

text \<open>\<open>runtimeEvs\<close> is made anew for every runtime collector: the last one is read.\<close>

definition runtime_evs :: "snapshot \<Rightarrow> (string \<times> string) list" where
  "runtime_evs snapshot =
     (case rev (filter (\<lambda>c. c_Name c = ''runtime'') (s_Collectors snapshot)) of
        [] \<Rightarrow> []
      | c # _ \<Rightarrow> foldl (\<lambda>m ev. AList.update (ev_Source ev) (ev_Value ev) m) [] (c_Evidence c))"

definition last_or_empty :: "string \<Rightarrow> evidence list \<Rightarrow> string" where
  "last_or_empty source evs = (case last_value source evs of Some v \<Rightarrow> v | None \<Rightarrow> [])"

definition is_ci_shell :: "string \<Rightarrow> bool" where
  "is_ci_shell source \<longleftrightarrow> source = ''ci_defaults__workflow__shell'' \<or>
     (has_prefix source ''ci_defaults__job__'' \<and> has_suffix source ''__shell'')"

definition M8_Evaluate :: "map_order \<Rightarrow> snapshot \<Rightarrow> finding list" where
  "M8_Evaluate ord snapshot =
     (let ciEvidence = named_evidence ''ci'' snapshot;
          envEvs = named_evidence ''env'' snapshot;
          composeEvs = named_evidence ''compose'' snapshot;
          repoEvs = named_evidence ''repo'' snapshot;
          cfg = collectM8Config (named_evidence ''config'' snapshot);
          hostShell = last_or_empty ''host_shell'' (named_evidence ''host'' snapshot);
          devcontainerImage = last_or_empty ''devcontainer_image'' repoEvs
      in if ciEvidence = [] then []
         else m8_runtime_rules (extractLocalRuntimes ord (runtime_evs snapshot))
                (with_prefix ''ci_setup__'' ciEvidence) @
              m8_command_rules (collectRepoPackageManager repoEvs) (collectRepoCommands repoEvs)
                (collectCIRunCommands ciEvidence) @
              m8_env_rules cfg ciEvidence envEvs @
              m8_service_rules ord (collectCIServices ciEvidence) (collectComposeServices composeEvs)
                (compose_ports composeEvs) @
              m8_container_rules devcontainerImage
                (filter (\<lambda>ev. has_suffix (ev_Source ev) ''__image'')
                  (with_prefix ''ci_container__'' ciEvidence)) @
              m8_shell_rules hostShell (filter (\<lambda>ev. is_ci_shell (ev_Source ev)) ciEvidence))"

end
