(* ===== verification/M8_Correct.thy ===== *)
theory M8_Correct
  imports Rules_M8
begin

text \<open>
  The correctness of the parity rules of \<open>Rules_M8\<close>: their identifiers, the partition of the
  environment keys, the comparison of services and images, and the two places where the result
  depends on the order in which Go visits a map.
\<close>

section \<open>Identifiers\<close>

definition m8_ids :: "string list" where
  "m8_ids =
     [''F-CI-RUNTIME-001'', ''F-CI-PACKAGE-001'', ''F-CI-PACKAGE-002'', ''F-CI-COMMAND-001'',
      ''F-CI-ENV-001'', ''F-CI-ENV-DEPLOY-INFO'', ''F-CI-ENV-002'', ''F-CI-SERVICE-001'',
      ''F-CI-SERVICE-002'', ''F-CI-CONTAINER-001'', ''F-CI-SHELL-001'']"

lemma m8_template_ids [simp]:
  "f_ID (ci_runtime_differs a l ev) = ''F-CI-RUNTIME-001''"
  "f_ID (ci_runtime_unpinned a evs) = ''F-CI-PACKAGE-001''"
  "f_ID (ci_package_manager_differs a ev) = ''F-CI-PACKAGE-002''"
  "f_ID (ci_undocumented_commands evs) = ''F-CI-COMMAND-001''"
  "f_ID (ci_env_not_local ks) = ''F-CI-ENV-001''"
  "f_ID (ci_deploy_env_not_local ks) = ''F-CI-ENV-DEPLOY-INFO''"
  "f_ID (local_env_not_ci ks) = ''F-CI-ENV-002''"
  "f_ID (ci_service_unmatched a sv) = ''F-CI-SERVICE-001''"
  "f_ID (ci_service_differs a sv sv') = ''F-CI-SERVICE-001''"
  "f_ID (compose_service_not_ci a sv) = ''F-CI-SERVICE-002''"
  "f_ID (ci_container_differs a ev) = ''F-CI-CONTAINER-001''"
  "f_ID (ci_shell_differs a ev) = ''F-CI-SHELL-001''"
  by (simp_all add: templates)

lemma m8_runtime_rules_ids: "ids_in m8_ids (m8_runtime_rules rs evs)"
  by (auto simp: m8_runtime_rules_def runtime_difference_def m8_ids_def
      intro!: ids_in_map_filter ids_in_map split: option.splits if_splits)

lemma m8_command_rules_ids: "ids_in m8_ids (m8_command_rules pm ls cs)"
  by (auto simp: m8_command_rules_def Let_def m8_ids_def intro!: ids_in_map)

lemma m8_env_rules_ids: "ids_in m8_ids (m8_env_rules cfg ci env)"
  by (simp add: m8_env_rules_def Let_def m8_ids_def)

lemma m8_service_rules_ids: "ids_in m8_ids (m8_service_rules ord ci co ps)"
  by (auto simp: m8_service_rules_def check_ci_service_def m8_ids_def
      intro!: ids_in_concat split: option.splits)

lemma m8_container_rules_ids: "ids_in m8_ids (m8_container_rules i evs)"
  by (auto simp: m8_container_rules_def m8_ids_def intro!: ids_in_map)

lemma m8_shell_rules_ids: "ids_in m8_ids (m8_shell_rules s evs)"
  by (auto simp: m8_shell_rules_def m8_ids_def intro!: ids_in_map)

lemma M8_ids: "ids_in m8_ids (M8_Evaluate ord s)"
  by (simp add: M8_Evaluate_def Let_def m8_runtime_rules_ids m8_command_rules_ids m8_env_rules_ids
      m8_service_rules_ids m8_container_rules_ids m8_shell_rules_ids)

lemma m8_ids_domains: "list_all (\<lambda>i. FindDomainByFindingID i \<noteq> None) m8_ids"
  by code_simp

section \<open>Environment keys\<close>

text \<open>The keys a finding of the environment rules lists.\<close>

definition listed_keys :: "string \<Rightarrow> finding list \<Rightarrow> string list" where
  "listed_keys i fs = concat (map (\<lambda>f. map ev_Value (f_Evidence f)) (filter (\<lambda>f. f_ID f = i) fs))"

lemma envKeyEvidence_values [simp]: "map ev_Value (envKeyEvidence source keys) = keys"
  by (simp add: envKeyEvidence_def comp_def)

lemma env_templates_evidence [simp]:
  "f_Evidence (ci_env_not_local ks) = envKeyEvidence ''ci_env'' ks"
  "f_Evidence (ci_deploy_env_not_local ks) = envKeyEvidence ''ci_env'' ks"
  "f_Evidence (local_env_not_ci ks) = envKeyEvidence ''.env'' ks"
  by (simp_all add: templates)

lemma listed_keys_emit [simp]:
  "listed_keys i (fs @ gs) = listed_keys i fs @ listed_keys i gs"
  "listed_keys i (emit b f) = (if b \<and> f_ID f = i then map ev_Value (f_Evidence f) else [])"
  by (simp_all add: listed_keys_def emit_def)

text \<open>
  The keys of the CI that no local environment file has are divided without loss between
  F-CI-ENV-001 and, for those only a deployment needs, F-CI-ENV-DEPLOY-INFO; F-CI-ENV-002 lists the
  keys of \<open>.env\<close> the CI does not have; every list is in alphabetical order and free of duplicates.
\<close>

theorem m8_env_rules_partition:
  fixes cfg :: m8_config and ci env :: "evidence list"
  defines "fs \<equiv> m8_env_rules cfg ci env"
  shows "set (listed_keys ''F-CI-ENV-001'' fs) \<union> set (listed_keys ''F-CI-ENV-DEPLOY-INFO'' fs) =
      set (all_ci_env_keys cfg ci) - set (local_env_key_list env) \<and>
    set (listed_keys ''F-CI-ENV-001'' fs) \<inter> set (listed_keys ''F-CI-ENV-DEPLOY-INFO'' fs) = {} \<and>
    set (listed_keys ''F-CI-ENV-DEPLOY-INFO'' fs) \<inter> set (localRequired cfg) = {} \<and>
    set (listed_keys ''F-CI-ENV-002'' fs) =
      set (local_env_keys_for_ci cfg env) - set (all_ci_env_keys cfg ci) \<and>
    sorted (listed_keys ''F-CI-ENV-001'' fs) \<and> distinct (listed_keys ''F-CI-ENV-001'' fs) \<and>
    sorted (listed_keys ''F-CI-ENV-DEPLOY-INFO'' fs) \<and>
    distinct (listed_keys ''F-CI-ENV-DEPLOY-INFO'' fs) \<and>
    sorted (listed_keys ''F-CI-ENV-002'' fs) \<and> distinct (listed_keys ''F-CI-ENV-002'' fs)"
proof -
  let ?missing = "filter (\<lambda>k. k \<notin> set (local_env_key_list env)) (remdups (all_ci_env_keys cfg ci))"
  have if_Nil: "(if xs \<noteq> [] then xs else []) = xs" for xs :: "string list" by simp
  have lists: "listed_keys ''F-CI-ENV-001'' fs = sort_strings (filter (\<lambda>k. \<not> deploy_key cfg k) ?missing)"
    "listed_keys ''F-CI-ENV-DEPLOY-INFO'' fs = sort_strings (filter (deploy_key cfg) ?missing)"
    "listed_keys ''F-CI-ENV-002'' fs = sort_strings
       (filter (\<lambda>k. k \<notin> set (all_ci_env_keys cfg ci)) (remdups (local_env_keys_for_ci cfg env)))"
    by (simp_all add: fs_def m8_env_rules_def Let_def if_Nil)
  show ?thesis
    unfolding lists by (auto simp: sorted_sort_strings deploy_key_def)
qed

section \<open>Images\<close>

text \<open>
  Four spellings of the official image of PostgreSQL are the same, but the short form with the
  name of the registry, which Docker reads as the same image, is taken for another.
\<close>

theorem normalizeContainerImage_official:
  "normalizeContainerImage ''Postgres'' = ''docker.io/library/postgres:latest'' \<and>
   normalizeContainerImage ''library/postgres:latest'' = ''docker.io/library/postgres:latest'' \<and>
   normalizeContainerImage ''docker.io/library/postgres'' = ''docker.io/library/postgres:latest'' \<and>
   normalizeContainerImage ''index.docker.io/library/postgres'' = ''docker.io/library/postgres:latest'' \<and>
   normalizeContainerImage ''docker.io/postgres'' = ''docker.io/postgres:latest''"
  by (intro conjI) code_simp+

section \<open>The order of maps\<close>

text \<open>Declarations in different files that are no \<open>package.json\<close> go to different runtimes.\<close>

lemma runtime_file_inj:
  "runtime_file a = Some (k, n) \<Longrightarrow> runtime_file b = Some (k, n') \<Longrightarrow> a = b"
  by (auto simp: runtime_file_def split: if_splits)

lemma put_runtime_commute:
  assumes "\<not> has_suffix a ''package.json''" "\<not> has_suffix b ''package.json''" "a \<noteq> b"
  shows "put_runtime (put_runtime m a u) b v = put_runtime (put_runtime m b v) a u"
proof -
  have "fst x \<noteq> fst y" if "runtime_file a = Some x" "runtime_file b = Some y" for x y
    using runtime_file_inj [of a "fst x" "snd x" b "snd y"] that assms(3) by auto
  with assms show ?thesis
    by (cases "runtime_file a"; cases "runtime_file b") (auto simp: put_runtime_def fun_upd_twist)
qed

lemma extractLocalRuntimes_order:
  assumes "is_map_order ord" "is_map_order ord'"
    and "\<forall>src \<in> set (map fst evs). \<not> has_suffix src ''package.json''"
  shows "extractLocalRuntimes ord evs = extractLocalRuntimes ord' evs"
proof -
  let ?f = "\<lambda>src m. put_runtime m src (the (map_of evs src))"
  let ?l = "ord ''runtimeEvs'' (map fst evs)" and ?r = "ord' ''runtimeEvs'' (map fst evs)"
  have "?f a \<circ> ?f b = ?f b \<circ> ?f a" if "a \<in> set ?l" "b \<in> set ?l" for a b
  proof (cases "a = b")
    case False
    from that assms have "\<not> has_suffix a ''package.json''" "\<not> has_suffix b ''package.json''" by auto
    from put_runtime_commute [OF this False] show ?thesis by (simp add: fun_eq_iff)
  qed simp
  then have "fold ?f ?l = fold ?f ?r"
    using map_order_mset [OF assms(1)] map_order_mset [OF assms(2)]
    by (intro fold_multiset_equiv) simp_all
  then show ?thesis by (simp add: extractLocalRuntimes_def foldl_conv_fold)
qed

lemma m8_service_rules_order:
  assumes "is_map_order ord" "is_map_order ord'"
  shows "mset (m8_service_rules ord ci co ps) = mset (m8_service_rules ord' ci co ps)"
proof -
  have "mset (ord l ks) = mset (ord' l ks)" for l ks using assms by (simp add: map_order_mset)
  then show ?thesis
    unfolding m8_service_rules_def by (auto intro!: arg_cong2 [of _ _ _ _ "(+)"] mset_concat_order)
qed

text \<open>
  When no runtime is declared in a \<open>package.json\<close>, the engine reports the same findings, as many
  times each, whatever the order in which Go visits its maps.
\<close>

theorem M8_Evaluate_order:
  assumes "is_map_order ord" "is_map_order ord'"
    and "\<forall>src \<in> set (map fst (runtime_evs s)). \<not> has_suffix src ''package.json''"
  shows "mset (M8_Evaluate ord s) = mset (M8_Evaluate ord' s)"
  using m8_service_rules_order [OF assms(1,2)] extractLocalRuntimes_order [OF assms]
  by (simp add: M8_Evaluate_def Let_def)

text \<open>A runtime pinned by \<open>.nvmrc\<close> and constrained by the engines of a \<open>package.json\<close>.\<close>

definition node_example :: "string \<Rightarrow> snapshot" where
  "node_example pkg = \<lparr>s_Collectors =
     [zero_result\<lparr>c_Name := ''runtime'', c_Evidence :=
        [mk_ev ''.nvmrc'' ''node 18'',
         mk_ev pkg (''engines: '' @ [CHR 0x22] @ ''node'' @ [CHR 0x22] @ '': '' @
                    [CHR 0x22] @ ''>=20'' @ [CHR 0x22])]\<rparr>,
      zero_result\<lparr>c_Name := ''ci'', c_Evidence :=
        [mk_ev ''ci_setup__test__0__setup_node__node_version'' ''18'']\<rparr>]\<rparr>"

theorem M8_Evaluate_order_witness:
  "mset (M8_Evaluate (\<lambda>_ ks. ks) (node_example ''other'')) =
   mset (M8_Evaluate (\<lambda>_. rev) (node_example ''other''))"
proof -
  have "\<forall>src \<in> set (map fst (runtime_evs (node_example ''other''))). \<not> has_suffix src ''package.json''"
    by code_simp
  from M8_Evaluate_order [OF map_order_examples this] show ?thesis .
qed

text \<open>
  When \<open>.nvmrc\<close> and \<open>package.json\<close> disagree, the order of the map decides which one the CI is
  compared with, and so whether a version mismatch is reported at all.
\<close>

theorem M8_depends_on_map_order:
  "map f_ID (M8_Evaluate (\<lambda>_ ks. ks) (node_example ''package.json'')) = [''F-CI-RUNTIME-001''] \<and>
   M8_Evaluate (\<lambda>_. rev) (node_example ''package.json'') = []"
  by (rule conjI) code_simp+

end
