(* ===== verification/Engines.thy ===== *)
theory Engines
  imports M1_Correct Rules_M6 M8_Correct
begin

text \<open>
  \<open>internal/rules/interface.go\<close> and \<open>scopedengine.go\<close>: the interface of the engines, engines that
  filter the findings of others by the prefixes of their identifiers, and the engines of the
  commands. An engine is a function from a snapshot to an error or a list of findings; M1 and M8
  take the order of maps as their first argument.
\<close>

type_synonym policy_engine = "snapshot \<Rightarrow> string + finding list"

record scoped_engine =
  se_engines :: "policy_engine list"
  se_prefixes :: "string list"

definition NewScopedEngine :: "policy_engine \<Rightarrow> string list \<Rightarrow> scoped_engine" where
  "NewScopedEngine engine ps = \<lparr>se_engines = [engine], se_prefixes = ps\<rparr>"

definition NewCompositeScopedEngine :: "policy_engine list \<Rightarrow> string list \<Rightarrow> scoped_engine" where
  "NewCompositeScopedEngine engines ps = \<lparr>se_engines = engines, se_prefixes = ps\<rparr>"

fun evaluate_all :: "policy_engine list \<Rightarrow> snapshot \<Rightarrow> finding list \<Rightarrow> string + finding list" where
  "evaluate_all [] snapshot allf = Inr allf"
| "evaluate_all (eng # engs) snapshot allf =
     (case eng snapshot of
        Inl err \<Rightarrow> Inl err
      | Inr findings \<Rightarrow> evaluate_all engs snapshot (allf @ findings))"

definition in_scope :: "string list \<Rightarrow> finding \<Rightarrow> bool" where
  "in_scope ps f = list_ex (\<lambda>p. has_prefix (to_upper (f_ID f)) (to_upper p)) ps"

definition ScopedEngine_Evaluate :: "scoped_engine \<Rightarrow> policy_engine" where
  "ScopedEngine_Evaluate e snapshot =
     (case evaluate_all (se_engines e) snapshot [] of
        Inl err \<Rightarrow> Inl err
      | Inr allf \<Rightarrow> Inr (filter (in_scope (se_prefixes e)) allf))"

definition M1Engine :: "map_order \<Rightarrow> policy_engine" where
  "M1Engine ord snapshot = Inr (M1_Evaluate ord snapshot)"

definition M6Engine :: policy_engine where
  "M6Engine snapshot = Inr (M6_Evaluate snapshot)"

definition M8Engine :: "map_order \<Rightarrow> policy_engine" where
  "M8Engine ord snapshot = Inr (M8_Evaluate ord snapshot)"

definition NewEnvEngine :: "map_order \<Rightarrow> policy_engine" where
  "NewEnvEngine ord =
     ScopedEngine_Evaluate (NewScopedEngine (M1Engine ord) (DomainScopePrefixes ''env''))"

definition NewPortEngine :: "map_order \<Rightarrow> policy_engine" where
  "NewPortEngine ord = ScopedEngine_Evaluate (NewScopedEngine (M1Engine ord) [''F-PORT-''])"

definition NewRuntimeEngine :: "map_order \<Rightarrow> policy_engine" where
  "NewRuntimeEngine ord =
     ScopedEngine_Evaluate (NewScopedEngine (M1Engine ord) (DomainScopePrefixes ''runtime''))"

definition NewGitEngine :: "map_order \<Rightarrow> policy_engine" where
  "NewGitEngine ord =
     ScopedEngine_Evaluate (NewScopedEngine (M1Engine ord) (DomainScopePrefixes ''git''))"

definition NewServiceEngine :: "map_order \<Rightarrow> policy_engine" where
  "NewServiceEngine ord =
     ScopedEngine_Evaluate (NewScopedEngine (M1Engine ord) (DomainScopePrefixes ''services''))"

definition NewNetworkEngine :: "map_order \<Rightarrow> policy_engine" where
  "NewNetworkEngine ord = ScopedEngine_Evaluate (NewScopedEngine (M1Engine ord) [''F-NET-''])"

definition NewFilesystemEngine :: "map_order \<Rightarrow> policy_engine" where
  "NewFilesystemEngine ord =
     ScopedEngine_Evaluate (NewScopedEngine (M1Engine ord) (DomainScopePrefixes ''filesystem''))"

definition NewSecurityEngine :: "map_order \<Rightarrow> policy_engine" where
  "NewSecurityEngine ord =
     ScopedEngine_Evaluate (NewScopedEngine (M1Engine ord) (DomainScopePrefixes ''security''))"

definition NewContainerEngine :: "map_order \<Rightarrow> bool \<Rightarrow> policy_engine" where
  "NewContainerEngine ord includeGPU =
     (if \<not> includeGPU
      then ScopedEngine_Evaluate (NewScopedEngine (M1Engine ord) (DomainScopePrefixes ''containers''))
      else ScopedEngine_Evaluate (NewCompositeScopedEngine [M1Engine ord, M6Engine]
             (DomainScopePrefixes ''containers'' @ [''F-GPU-''])))"

section \<open>The contract of an engine\<close>

text \<open>What a caller relies on: an answer for every snapshot, whose findings have a domain.\<close>

locale policy_engine =
  fixes Evaluate :: policy_engine
  assumes total: "\<exists>fs. Evaluate s = Inr fs"
    and registered: "Evaluate s = Inr fs \<Longrightarrow> f \<in> set fs \<Longrightarrow> FindDomainByFindingID (f_ID f) \<noteq> None"
begin

definition results :: "snapshot \<Rightarrow> finding list" where
  "results s = (case Evaluate s of Inr fs \<Rightarrow> fs | Inl e \<Rightarrow> [])"

lemma Evaluate_results: "Evaluate s = Inr (results s)"
  using total [of s] by (auto simp: results_def)

lemma scoped_results:
  "ScopedEngine_Evaluate (NewScopedEngine Evaluate ps) s = Inr (filter (in_scope ps) (results s))"
  by (simp add: ScopedEngine_Evaluate_def NewScopedEngine_def Evaluate_results)

text \<open>A report on the findings of the engine has the layers of their domains.\<close>

lemma layers_of_domain:
  "f \<in> set (results s) \<Longrightarrow> \<exists>d. FindDomainByFindingID (f_ID f) = Some d \<and>
     defaultLayers (f_ID f) = d_DefaultLayers d"
  using registered [OF Evaluate_results, of f s]
  by (cases "FindDomainByFindingID (f_ID f)") (simp_all add: defaultLayers_def)

end

interpretation m1: policy_engine "M1Engine ord" for ord
proof unfold_locales
  fix s fs f
  show "\<exists>fs. M1Engine ord s = Inr fs" by (simp add: M1Engine_def)
  assume "M1Engine ord s = Inr fs" "f \<in> set fs"
  then obtain c where "f \<in> set (m1_rules ord (collectorMap (s_Collectors s)) c)"
    by (auto simp: M1Engine_def M1_Evaluate_def)
  then have "f_ID f \<in> set (m1_ids (c_Name c))"
    using m1_rules_in [of c ord "collectorMap (s_Collectors s)"] by (auto simp: ids_in_def)
  then show "FindDomainByFindingID (f_ID f) \<noteq> None" by (rule m1_id_registered)
qed

interpretation m6: policy_engine M6Engine
proof unfold_locales
  fix s fs f
  show "\<exists>fs. M6Engine s = Inr fs" by (simp add: M6Engine_def)
  assume "M6Engine s = Inr fs" "f \<in> set fs"
  then have "f_ID f \<in> set m6_ids" using m6_grounded_ids [OF M6_grounded] by (auto simp: M6Engine_def)
  then show "FindDomainByFindingID (f_ID f) \<noteq> None" using m6_ids_domains by (auto simp: list_all_iff)
qed

interpretation m8: policy_engine "M8Engine ord" for ord
proof unfold_locales
  fix s fs f
  show "\<exists>fs. M8Engine ord s = Inr fs" by (simp add: M8Engine_def)
  assume "M8Engine ord s = Inr fs" "f \<in> set fs"
  then have "f_ID f \<in> set m8_ids" using M8_ids [of ord s] by (auto simp: M8Engine_def ids_in_def)
  then show "FindDomainByFindingID (f_ID f) \<noteq> None" using m8_ids_domains by (auto simp: list_all_iff)
qed

lemma m1_results [simp]: "m1.results ord s = M1_Evaluate ord s"
  by (simp add: m1.results_def M1Engine_def)

lemma m6_results [simp]: "m6.results s = M6_Evaluate s"
  by (simp add: m6.results_def M6Engine_def)

lemma m8_results [simp]: "m8.results ord s = M8_Evaluate ord s"
  by (simp add: m8.results_def M8Engine_def)

text \<open>A scoped engine over several engines filters the findings of all, in their order.\<close>

lemma scoped_container_gpu:
  "NewContainerEngine ord True s =
     Inr (filter (in_scope (DomainScopePrefixes ''containers'' @ [''F-GPU-'']))
       (M1_Evaluate ord s @ M6_Evaluate s))"
  by (simp add: NewContainerEngine_def ScopedEngine_Evaluate_def NewCompositeScopedEngine_def
      M1Engine_def M6Engine_def)

section \<open>The commands divide the findings\<close>

text \<open>The engines of the scoped commands over M1, and their prefixes.\<close>

definition m1_commands :: "map_order \<Rightarrow> policy_engine list" where
  "m1_commands ord =
     [NewEnvEngine ord, NewPortEngine ord, NewRuntimeEngine ord, NewGitEngine ord,
      NewServiceEngine ord, NewNetworkEngine ord, NewFilesystemEngine ord, NewSecurityEngine ord,
      NewContainerEngine ord False]"

definition m1_scopes :: "string list list" where
  "m1_scopes =
     [DomainScopePrefixes ''env'', [''F-PORT-''], DomainScopePrefixes ''runtime'',
      DomainScopePrefixes ''git'', DomainScopePrefixes ''services'', [''F-NET-''],
      DomainScopePrefixes ''filesystem'', DomainScopePrefixes ''security'',
      DomainScopePrefixes ''containers'']"

definition id_in_scope :: "string list \<Rightarrow> string \<Rightarrow> bool" where
  "id_in_scope ps i = list_ex (\<lambda>p. has_prefix (to_upper i) (to_upper p)) ps"

lemma in_scope_id: "in_scope ps f = id_in_scope ps (f_ID f)"
  by (simp add: in_scope_def id_in_scope_def)

lemma one_scope:
  "list_all (\<lambda>name. list_all (\<lambda>i.
     length (filter (\<lambda>ps. id_in_scope ps i) m1_scopes) =
       (if has_prefix i ''F-REPRO-'' then 0 else 1)) (m1_ids name)) m1_collectors"
  by code_simp

lemma m1_commands_results:
  "map (\<lambda>e. e s) (m1_commands ord) =
     map Inr (map (\<lambda>ps. filter (in_scope ps) (M1_Evaluate ord s)) m1_scopes)"
  by (simp add: m1_commands_def m1_scopes_def NewEnvEngine_def NewPortEngine_def
      NewRuntimeEngine_def NewGitEngine_def NewServiceEngine_def NewNetworkEngine_def
      NewFilesystemEngine_def NewSecurityEngine_def NewContainerEngine_def m1.scoped_results)

lemma filters_Cons:
  "mset (concat (map (\<lambda>ps. filter (P ps) (f # fs)) scopes)) =
     replicate_mset (length (filter (\<lambda>ps. P ps f) scopes)) f +
     mset (concat (map (\<lambda>ps. filter (P ps) fs) scopes))"
  by (induction scopes) simp_all

lemma filters_partition:
  "(\<And>f. f \<in> set fs \<Longrightarrow> length (filter (\<lambda>ps. P ps f) scopes) = (if Q f then 1 else 0)) \<Longrightarrow>
   mset (concat (map (\<lambda>ps. filter (P ps) fs) scopes)) = mset (filter Q fs)"
proof (induction fs)
  case Nil
  show ?case by (induction scopes) simp_all
next
  case (Cons f fs)
  then show ?case unfolding filters_Cons by (simp add: Cons.prems [of f])
qed

text \<open>
  The scoped commands over M1 answer for every snapshot, and together they report every finding
  of the full scan exactly once, the findings on reproduced commands apart.
\<close>

theorem scoped_commands_partition:
  "\<exists>fss. map (\<lambda>e. e s) (m1_commands ord) = map Inr fss \<and>
     mset (concat fss) = mset (filter (\<lambda>f. \<not> has_prefix (f_ID f) ''F-REPRO-'') (M1_Evaluate ord s))"
proof (intro exI conjI)
  show "map (\<lambda>e. e s) (m1_commands ord) =
      map Inr (map (\<lambda>ps. filter (in_scope ps) (M1_Evaluate ord s)) m1_scopes)"
    by (rule m1_commands_results)
  show "mset (concat (map (\<lambda>ps. filter (in_scope ps) (M1_Evaluate ord s)) m1_scopes)) =
      mset (filter (\<lambda>f. \<not> has_prefix (f_ID f) ''F-REPRO-'') (M1_Evaluate ord s))"
  proof (rule filters_partition)
    fix f assume "f \<in> set (M1_Evaluate ord s)"
    then obtain c where "f \<in> set (m1_rules ord (collectorMap (s_Collectors s)) c)"
      by (auto simp: M1_Evaluate_def)
    then have i: "f_ID f \<in> set (m1_ids (c_Name c))"
      using m1_rules_in [of c ord "collectorMap (s_Collectors s)"] by (auto simp: ids_in_def)
    with one_scope m1_ids_collectors [OF i]
    show "length (filter (\<lambda>ps. in_scope ps f) m1_scopes) =
        (if \<not> has_prefix (f_ID f) ''F-REPRO-'' then 1 else 0)"
      unfolding in_scope_id list_all_iff by fastforce
  qed
qed

end
