(* ===== verification/Go_Path.thy ===== *)
theory Go_Path
  imports Prelude
begin

text \<open>
  The lexical functions of \<open>path/filepath\<close> on Unix that the program uses, and what cleaning,
  joining and relating paths guarantee.
\<close>

section \<open>Paths\<close>

definition IsAbs :: "string \<Rightarrow> bool" where
  "IsAbs p = has_prefix p ''/''"

definition path_elems :: "string \<Rightarrow> string list" where
  "path_elems p = filter (\<lambda>e. e \<noteq> [] \<and> e \<noteq> ''.'') (split_at ''/'' p)"

text \<open>The loop of \<open>filepath.Clean\<close>; \<open>out\<close> is its output, last element first.\<close>

fun clean_elems :: "bool \<Rightarrow> string list \<Rightarrow> string list \<Rightarrow> string list" where
  "clean_elems rooted out [] = rev out"
| "clean_elems rooted out (e # es) =
     (if e = ''..''
      then (case out of
              d # out' \<Rightarrow> if d \<noteq> ''..'' then clean_elems rooted out' es
                          else clean_elems rooted (''..'' # out) es
            | [] \<Rightarrow> if rooted then clean_elems rooted [] es
                    else clean_elems rooted [''..''] es)
      else clean_elems rooted (e # out) es)"

definition Clean :: "string \<Rightarrow> string" where
  "Clean p =
     (let es = clean_elems (IsAbs p) [] (path_elems p)
      in if IsAbs p then ''/'' @ join ''/'' es
         else if es = [] then ''.'' else join ''/'' es)"

definition Join2 :: "string \<Rightarrow> string \<Rightarrow> string" where
  "Join2 a b =
     (if a = [] then (if b = [] then [] else Clean b)
      else if b = [] then Clean a else Clean (a @ ''/'' @ b))"

definition Dir :: "string \<Rightarrow> string" where
  "Dir p = Clean (rev (dropWhile (\<lambda>c. c \<noteq> CHR ''/'') (rev p)))"

text \<open>\<open>filepath.Base\<close> on Unix.\<close>

definition path_Base :: "string \<Rightarrow> string" where
  "path_Base p =
     (if p = [] then ''.''
      else let t = trim_right_set ''/'' p
           in if t = [] then ''/''
              else case last_index_of ''/'' t of Some i \<Rightarrow> drop (i + 1) t | None \<Rightarrow> t)"

fun strip_common :: "string list \<Rightarrow> string list \<Rightarrow> string list \<times> string list" where
  "strip_common (x # xs) (y # ys) = (if x = y then strip_common xs ys else (x # xs, y # ys))"
| "strip_common xs ys = (xs, ys)"

definition Rel :: "string \<Rightarrow> string \<Rightarrow> string option" where
  "Rel base targ =
     (if Clean targ = Clean base then Some ''.''
      else if IsAbs base \<noteq> IsAbs targ then None
      else let rest = strip_common (path_elems (Clean base)) (path_elems (Clean targ))
           in if fst rest \<noteq> [] \<and> hd (fst rest) = ''..'' then None
              else Some (join ''/'' (replicate (length (fst rest)) ''..'' @ snd rest)))"

section \<open>Clean paths\<close>

lemma cut_char_no_sep: "cut [c] s = Some (a, b) \<Longrightarrow> c \<notin> set a"
proof -
  have "index_of [c] s = Some i \<Longrightarrow> c \<notin> set (take i s)" for i
    by (induction s arbitrary: i) (auto split: if_splits)
  then show "cut [c] s = Some (a, b) \<Longrightarrow> c \<notin> set a"
    by (auto simp: cut_def split: option.splits)
qed

lemma split_at_no_sep: "x \<in> set (split_at [c] s) \<Longrightarrow> c \<notin> set x"
proof (induction "[c]" s rule: split_at.induct)
  case (1 s)
  show ?case
  proof (cases "cut [c] s")
    case None
    then have "c \<notin> set s" by (simp add: cut_None_iff sublist_single)
    with 1(2) None show ?thesis by (subst (asm) split_at.simps) auto
  next
    case (Some ab)
    obtain a b where ab: "ab = (a, b)" by (cases ab)
    with 1(2) Some have "x = a \<or> x \<in> set (split_at [c] b)"
      by (subst (asm) split_at.simps) auto
    with 1(1) [OF _ Some ab [symmetric]] cut_char_no_sep [of c s a b] Some ab show ?thesis by auto
  qed
qed

lemma join_append:
  "xs \<noteq> [] \<Longrightarrow> ys \<noteq> [] \<Longrightarrow> join sep (xs @ ys) = join sep xs @ sep @ join sep ys"
proof (induction xs)
  case (Cons x xs)
  then show ?case by (cases xs) (simp_all add: join_Cons)
qed simp

lemma split_at_append: "split_at [c] (a @ [c] @ b) = split_at [c] a @ split_at [c] b"
proof -
  have "a @ [c] @ b = join [c] (split_at [c] a @ split_at [c] b)"
    by (simp add: join_append join_split_at)
  also have "split_at [c] \<dots> = split_at [c] a @ split_at [c] b"
    by (rule split_at_join) (auto dest: split_at_no_sep)
  finally show ?thesis .
qed

lemma path_elems_append: "path_elems (a @ ''/'' @ b) = path_elems a @ path_elems b"
  by (simp only: path_elems_def split_at_append filter_append)

lemma split_at_Nil [simp]: "split_at [c] [] = [[]]"
  by (subst split_at.simps) (simp add: cut_def)

lemma path_elems_Nil [simp]: "path_elems [] = []"
  by (simp add: path_elems_def)

text \<open>Elements of a path, and those of a clean absolute one.\<close>

definition path_elem :: "string \<Rightarrow> bool" where
  "path_elem e \<longleftrightarrow> e \<noteq> [] \<and> e \<noteq> ''.'' \<and> CHR ''/'' \<notin> set e"

definition down_elem :: "string \<Rightarrow> bool" where
  "down_elem e \<longleftrightarrow> path_elem e \<and> e \<noteq> ''..''"

lemma path_elems_elem: "e \<in> set (path_elems p) \<Longrightarrow> path_elem e"
  by (auto simp: path_elems_def path_elem_def dest: split_at_no_sep)

lemma path_elems_join:
  assumes "\<forall>e \<in> set es. path_elem e"
  shows "path_elems (join ''/'' es) = es"
proof (cases "es = []")
  case False
  with assms have "split_at ''/'' (join ''/'' es) = es"
    by (intro split_at_join) (auto simp: path_elem_def)
  with assms show ?thesis by (auto simp: path_elems_def path_elem_def filter_id_conv)
qed simp

lemma clean_elems_down:
  "\<forall>e \<in> set out. down_elem e \<Longrightarrow> \<forall>e \<in> set es. path_elem e \<Longrightarrow>
   e \<in> set (clean_elems True out es) \<Longrightarrow> down_elem e"
  by (induction "True" out es rule: clean_elems.induct)
     (auto simp: down_elem_def split: if_splits list.splits)

lemma clean_elems_id:
  "\<forall>e \<in> set es. e \<noteq> ''..'' \<Longrightarrow> clean_elems r out es = rev out @ es"
  by (induction es arbitrary: out) auto

lemma IsAbs_Cons: "IsAbs p \<longleftrightarrow> (\<exists>q. p = ''/'' @ q)"
  by (auto simp: IsAbs_def prefix_def)

lemma IsAbs_hd: "IsAbs p \<longleftrightarrow> p \<noteq> [] \<and> hd p = CHR ''/''"
  by (cases p) (auto simp: IsAbs_def)

lemma IsAbs_Clean: "IsAbs p \<Longrightarrow> IsAbs (Clean p)"
  by (simp add: Clean_def Let_def IsAbs_def)

lemma clean_abs_elems: "IsAbs p \<Longrightarrow> e \<in> set (path_elems (Clean p)) \<Longrightarrow> down_elem e"
  and path_elems_Clean: "IsAbs p \<Longrightarrow> path_elems (Clean p) = clean_elems True [] (path_elems p)"
proof -
  have down: "\<forall>e \<in> set (clean_elems True [] (path_elems p)). down_elem e"
    using clean_elems_down [of "[]" "path_elems p"] path_elems_elem by auto
  show elems: "path_elems (Clean p) = clean_elems True [] (path_elems p)" if "IsAbs p"
  proof -
    have "Clean p = [] @ ''/'' @ join ''/'' (clean_elems True [] (path_elems p))"
      using that by (simp add: Clean_def Let_def)
    moreover have "path_elems \<dots> = clean_elems True [] (path_elems p)"
      unfolding path_elems_append using down
      by (subst path_elems_join) (auto simp: down_elem_def)
    ultimately show ?thesis by simp
  qed
  with down show "IsAbs p \<Longrightarrow> e \<in> set (path_elems (Clean p)) \<Longrightarrow> down_elem e" by simp
qed

lemma Clean_Clean: "IsAbs p \<Longrightarrow> Clean (Clean p) = Clean p"
proof -
  assume p: "IsAbs p"
  have "clean_elems True [] (path_elems (Clean p)) = path_elems (Clean p)"
    using clean_abs_elems [OF p] by (subst clean_elems_id) (auto simp: down_elem_def)
  then show ?thesis
    using p IsAbs_Clean [OF p] path_elems_Clean [OF p] by (simp add: Clean_def [of "Clean p"])
      (simp add: Clean_def)
qed

text \<open>An absolute clean path is determined by its elements.\<close>

lemma Clean_abs: "IsAbs p \<Longrightarrow> Clean p = ''/'' @ join ''/'' (path_elems (Clean p))"
  using path_elems_Clean [of p] by (simp add: Clean_def)

section \<open>Relative paths between absolute ones\<close>

lemma strip_common_split:
  "\<exists>cs. xs = cs @ fst (strip_common xs ys) \<and> ys = cs @ snd (strip_common xs ys)"
proof (induction xs ys rule: strip_common.induct)
  case (1 x xs y ys)
  show ?case
  proof (cases "x = y")
    case True
    with 1 obtain cs where "xs = cs @ fst (strip_common xs ys)" "ys = cs @ snd (strip_common xs ys)"
      by blast
    with True show ?thesis by (intro exI [of _ "x # cs"]) simp
  qed simp
qed simp_all

lemma strip_common_hd:
  "fst (strip_common xs ys) = x # xs' \<Longrightarrow> snd (strip_common xs ys) = y # ys' \<Longrightarrow> x \<noteq> y"
  by (induction xs ys rule: strip_common.induct) (auto split: if_splits)

lemma strip_common_prefix: "fst (strip_common xs ys) = [] \<longleftrightarrow> prefix xs ys"
  by (induction xs ys rule: strip_common.induct) auto

text \<open>How the two tests on the result of \<open>Rel\<close> read its elements.\<close>

definition up_path :: "nat \<Rightarrow> string list \<Rightarrow> string" where
  "up_path n es = join ''/'' (replicate n ''..'' @ es)"

lemma up_path_Suc:
  "up_path (Suc n) es = ''..'' \<longleftrightarrow> n = 0 \<and> es = []"
  "has_prefix (up_path (Suc n) es) ''../'' \<longleftrightarrow> \<not> (n = 0 \<and> es = [])"
proof -
  have "replicate n ''..'' @ es = [] \<longleftrightarrow> n = 0 \<and> es = []" by (cases n) auto
  then show "up_path (Suc n) es = ''..'' \<longleftrightarrow> n = 0 \<and> es = []"
    "has_prefix (up_path (Suc n) es) ''../'' \<longleftrightarrow> \<not> (n = 0 \<and> es = [])"
    by (cases "replicate n ''..'' @ es = []"; simp add: up_path_def join_Cons)+
qed

lemma up_path_0:
  assumes "\<forall>e \<in> set es. down_elem e"
  shows "up_path 0 es \<noteq> ''..'' \<and> \<not> has_prefix (up_path 0 es) ''../'' \<and> \<not> IsAbs (up_path 0 es)"
proof (cases es)
  case (Cons e es')
  then have e: "e \<noteq> []" "e \<noteq> ''..''" "CHR ''/'' \<notin> set e"
    using assms by (auto simp: down_elem_def path_elem_def)
  have "up_path 0 es = e \<or> up_path 0 es = e @ ''/'' @ join ''/'' es'"
    using Cons by (cases "es' = []") (simp_all add: up_path_def join_Cons)
  then have "takeWhile (\<lambda>c. c \<noteq> CHR ''/'') (up_path 0 es) = e"
    using e(3) by (auto simp: takeWhile_append takeWhile_eq_all_conv)
  then show ?thesis using e by (auto simp: IsAbs_def prefix_def)
qed (simp add: up_path_def IsAbs_def)

text \<open>Both use the elements of the paths only.\<close>

lemma Rel_abs:
  assumes "IsAbs b" "IsAbs t"
  defines "rest \<equiv> strip_common (path_elems (Clean b)) (path_elems (Clean t))"
  shows "Rel b t = Some (if Clean t = Clean b then ''.'' else up_path (length (fst rest)) (snd rest))"
proof -
  obtain cs where "path_elems (Clean b) = cs @ fst rest"
    unfolding rest_def using strip_common_split by metis
  then have "fst rest = [] \<or> hd (fst rest) \<noteq> ''..''"
    using clean_abs_elems [OF assms(1)] by (cases "fst rest") (auto simp: down_elem_def)
  with assms show ?thesis by (auto simp: Rel_def Let_def up_path_def)
qed

lemma rest_down:
  assumes "IsAbs t"
  shows "\<forall>e \<in> set (snd (strip_common xs (path_elems (Clean t)))). down_elem e"
proof -
  obtain cs where "path_elems (Clean t) = cs @ snd (strip_common xs (path_elems (Clean t)))"
    using strip_common_split by metis
  with clean_abs_elems [OF assms] show ?thesis by (metis Un_iff set_append)
qed

text \<open>The test of the code on relative paths: the target is below the base.\<close>

lemma Rel_below:
  assumes "IsAbs b" "IsAbs t" "Rel b t = Some r" "\<not> (r = ''..'' \<or> has_prefix r ''../'' \<or> IsAbs r)"
  shows "prefix (path_elems (Clean b)) (path_elems (Clean t))"
proof (cases "Clean t = Clean b")
  case False
  let ?rest = "strip_common (path_elems (Clean b)) (path_elems (Clean t))"
  have "r = up_path (length (fst ?rest)) (snd ?rest)"
    using assms(3) False by (simp add: Rel_abs [OF assms(1,2)])
  with assms(4) have "length (fst ?rest) = 0"
    using up_path_Suc by (cases "length (fst ?rest)") auto
  then show ?thesis by (simp add: strip_common_prefix)
qed simp


lemma clean_elems_path:
  "\<forall>e \<in> set out. path_elem e \<Longrightarrow> \<forall>e \<in> set es. path_elem e \<Longrightarrow>
   e \<in> set (clean_elems r out es) \<Longrightarrow> path_elem e"
  by (induction r out es rule: clean_elems.induct)
     (auto simp: path_elem_def split: if_splits list.splits)

lemma IsAbs_join: "\<forall>e \<in> set es. path_elem e \<Longrightarrow> \<not> IsAbs (join ''/'' es)"
proof (cases es)
  case (Cons e es')
  assume "\<forall>e \<in> set es. path_elem e"
  with Cons have e: "e \<noteq> []" "CHR ''/'' \<notin> set e" by (simp_all add: path_elem_def)
  then have "hd e \<noteq> CHR ''/''" by (metis hd_in_set)
  with Cons e show ?thesis by (cases "es' = []") (auto simp: IsAbs_hd join_Cons)
qed (simp add: IsAbs_hd)

lemma IsAbs_Clean_iff [simp]: "IsAbs (Clean p) = IsAbs p"
proof (cases "IsAbs p")
  case False
  have "\<forall>e \<in> set (clean_elems False [] (path_elems p)). path_elem e"
    using clean_elems_path [of "[]" "path_elems p"] path_elems_elem by auto
  from IsAbs_join [OF this] False show ?thesis by (simp add: Clean_def Let_def) (simp add: IsAbs_def)
qed (simp add: IsAbs_Clean)

lemma Join2_abs: "IsAbs a \<Longrightarrow> \<exists>q. IsAbs q \<and> Join2 a b = Clean q"
proof (cases "b = []")
  case False
  then show "IsAbs a \<Longrightarrow> ?thesis"
    by (intro exI [of _ "a @ ''/'' @ b"]) (auto simp: Join2_def IsAbs_hd)
qed (auto simp: Join2_def IsAbs_hd)

lemma Dir_abs: "IsAbs p \<Longrightarrow> IsAbs (Dir p) \<and> Clean (Dir p) = Dir p"
proof -
  assume "IsAbs p"
  then obtain q where "p = CHR ''/'' # q" by (auto simp: IsAbs_Cons)
  then have "IsAbs (rev (dropWhile (\<lambda>c. c \<noteq> CHR ''/'') (rev p)))"
    by (auto simp: IsAbs_hd dropWhile_append hd_append hd_rev
        dest: dropWhile_eq_Nil_conv [THEN iffD1] split: if_splits)
  then show ?thesis by (simp add: Dir_def Clean_Clean)
qed

text \<open>Joining a relative path without \<open>..\<close> to an absolute directory stays below it.\<close>

lemma Join2_below:
  assumes "IsAbs d" "Clean d = d" "''..'' \<notin> set (path_elems f)" "f \<noteq> []"
  shows "path_elems (Join2 d f) = path_elems d @ path_elems f"
proof -
  have "''..'' \<notin> set (path_elems d)"
    using clean_abs_elems [OF assms(1)] assms(2) by (auto simp: down_elem_def)
  moreover have "Join2 d f = Clean (d @ ''/'' @ f)" "IsAbs (d @ ''/'' @ f)"
    using assms by (auto simp: Join2_def IsAbs_hd)
  moreover have "path_elems (d @ ''/'' @ f) = path_elems d @ path_elems f"
    by (rule path_elems_append)
  ultimately show ?thesis using assms(3)
    by (auto simp: path_elems_Clean intro!: trans [OF clean_elems_id])
qed

lemma join_sublist: "x \<in> set xs \<Longrightarrow> sublist x (join sep xs)"
proof (induction sep xs rule: join.induct)
  case (3 sep y z ys)
  have "sublist (join sep (z # ys)) (y @ sep @ join sep (z # ys))"
    using sublist_append_leftI [of "join sep (z # ys)" "y @ sep"] by simp
  with 3 show ?case by (auto intro: sublist_order.order.trans)
qed auto

lemma split_at_sublist: "x \<in> set (split_at sep s) \<Longrightarrow> sublist x s"
  using join_sublist [of x "split_at sep s" sep] by (simp add: join_split_at)

text \<open>Cleaning relative paths: elements that climb come first.\<close>

definition climbs_first :: "string list \<Rightarrow> bool" where
  "climbs_first es \<longleftrightarrow> (\<exists>n ds. es = replicate n ''..'' @ ds \<and> ''..'' \<notin> set ds)"

lemma clean_elems_append: "clean_elems r out (xs @ ys) = clean_elems r (rev (clean_elems r out xs)) ys"
  by (induction r out xs rule: clean_elems.induct) (auto split: list.splits)

lemma clean_elems_climbs: "climbs_first (rev out) \<Longrightarrow> climbs_first (clean_elems False out es)"
proof (induction es arbitrary: out)
  case (Cons e es)
  show ?case
  proof (cases "e = ''..''")
    case False
    have "climbs_first (rev (e # out))"
      using Cons.prems False by (auto simp: climbs_first_def) (metis append_assoc insert_iff list.simps(15) rotate1.simps(2) set_rotate1)
    with Cons.IH [of "e # out"] False show ?thesis by simp
  next
    case True
    show ?thesis
    proof (cases out)
      case Nil
      have "climbs_first (rev [''..''])" unfolding climbs_first_def by (intro exI [of _ 1] exI [of _ "[]"]) simp
      with Cons.IH [of "[''..'']"] True Nil show ?thesis by simp
    next
      case (Cons d out')
      obtain n ds where nd: "rev out' @ [d] = replicate n ''..'' @ ds" "''..'' \<notin> set ds"
        using Cons.prems Cons by (auto simp: climbs_first_def)
      show ?thesis
      proof (cases "d = ''..''")
        case False
        have "ds \<noteq> []"
        proof
          assume "ds = []"
          with nd(1) have "d \<in> set (replicate n ''..'')" by (metis append.right_neutral in_set_conv_decomp)
          with False show False by auto
        qed
        then have "rev out' = replicate n ''..'' @ butlast ds" "''..'' \<notin> set (butlast ds)"
          using nd by (metis butlast_append butlast_snoc) (use nd(2) in_set_butlastD in fast)
        then have "climbs_first (rev out')" by (auto simp: climbs_first_def)
        with Cons.IH [of out'] True False Cons show ?thesis by simp
      next
        case up: True
        have "ds = []"
        proof (rule ccontr)
          assume "ds \<noteq> []"
          then have "last ds = d" using nd(1) by (metis last_appendR last_snoc)
          with nd(2) up \<open>ds \<noteq> []\<close> show False by (metis last_in_set)
        qed
        then have "rev (''..'' # out) = replicate (Suc n) ''..''"
          using nd(1) Cons up by (simp add: replicate_append_same)
        then have "climbs_first (rev (''..'' # out))" unfolding climbs_first_def
          by (intro exI [of _ "Suc n"] exI [of _ "[]"]) simp
        with Cons.IH [of "''..'' # out"] True Cons up show ?thesis by simp
      qed
    qed
  qed
qed simp

lemma clean_elems_climbs_id: "climbs_first es \<Longrightarrow> clean_elems False [] es = es"
proof -
  have up: "clean_elems False (replicate k ''..'') (replicate n ''..'' @ ds) = clean_elems False (replicate (n + k) ''..'') ds" for n k ds
  proof (induction n arbitrary: k)
    case (Suc n)
    show ?case using Suc [of "Suc k"] by (cases k) (simp_all add: replicate_app_Cons_same)
  qed simp
  assume "climbs_first es"
  then obtain n ds where "es = replicate n ''..'' @ ds" "''..'' \<notin> set ds" by (auto simp: climbs_first_def)
  with up [of 0 n ds] clean_elems_id [of ds False "replicate n ''..''"] show ?thesis by fastforce
qed

lemma path_elems_Clean_rel:
  assumes "\<not> IsAbs p"
  shows "path_elems (Clean p) = clean_elems False [] (path_elems p)"
proof -
  have e: "\<forall>e \<in> set (clean_elems False [] (path_elems p)). path_elem e"
  proof
    fix e assume m: "e \<in> set (clean_elems False [] (path_elems p))"
    have plain: "x \<in> set (clean_elems r out es) \<Longrightarrow> x \<in> set out \<or> x \<in> set es \<or> x = ''..''" for x r out es
      by (induction r out es rule: clean_elems.induct) (auto split: if_splits list.splits)
    have "path_elem ''..''" by (simp add: path_elem_def)
    with plain [OF m] path_elems_elem show "path_elem e" by auto
  qed
  have "path_elems ''.'' = []" by code_simp
  then show ?thesis using assms path_elems_join [OF e] by (simp add: Clean_def Let_def)
qed

lemma Clean_nonempty: "Clean q \<noteq> []"
proof
  assume c: "Clean q = []"
  then have rel: "\<not> IsAbs q" and ne: "clean_elems False [] (path_elems q) \<noteq> []"
    by (auto simp: Clean_def Let_def split: if_splits)
  have "path_elems [] = []" by code_simp
  with path_elems_Clean_rel [OF rel] ne c show False by simp
qed

text \<open>A path without \<open>..\<close> stays below a clean directory, absolute or relative, when it is joined to it.\<close>

lemma Join2_Clean_below:
  assumes "''..'' \<notin> set (path_elems f)" "f \<noteq> []" "d = Clean q" "d \<noteq> []"
  shows "path_elems (Join2 d f) = path_elems d @ path_elems f"
proof -
  have j: "Join2 d f = Clean (d @ ''/'' @ f)" using assms(2,4) by (simp add: Join2_def)
  have ab: "IsAbs (d @ ''/'' @ f) \<longleftrightarrow> IsAbs d" using assms(4) by (cases d) (auto simp: IsAbs_hd)
  have idem: "clean_elems (IsAbs d) [] (path_elems d) = path_elems d"
  proof (cases "IsAbs q")
    case True
    then have "IsAbs d" "Clean d = d" using IsAbs_Clean Clean_Clean assms(3) by simp_all
    then show ?thesis using path_elems_Clean [of d] by simp
  next
    case False
    then have e: "path_elems d = clean_elems False [] (path_elems q)" using path_elems_Clean_rel assms(3) by simp
    have "climbs_first (rev [])" unfolding climbs_first_def by (intro exI [of _ 0] exI [of _ "[]"]) simp
    from clean_elems_climbs [OF this] have "climbs_first (path_elems d)" by (simp add: e)
    moreover have "\<not> IsAbs d"
    proof -
      have "\<forall>x \<in> set (clean_elems False [] (path_elems q)). path_elem x"
        using path_elems_elem [of _ d] by (simp add: e)
      from IsAbs_join [OF this] False assms(3) show ?thesis by (auto simp: Clean_def Let_def IsAbs_def)
    qed
    ultimately show ?thesis by (simp add: clean_elems_climbs_id)
  qed
  have "path_elems (Clean (d @ ''/'' @ f)) = clean_elems (IsAbs d) [] (path_elems (d @ ''/'' @ f))"
    using ab path_elems_Clean [of "d @ ''/'' @ f"] path_elems_Clean_rel [of "d @ ''/'' @ f"] by (cases "IsAbs d") simp_all
  also have "\<dots> = clean_elems (IsAbs d) (rev (path_elems d)) (path_elems f)"
    by (simp only: path_elems_append clean_elems_append idem)
  also have "\<dots> = path_elems d @ path_elems f" using assms(1) by (subst clean_elems_id) auto
  finally show ?thesis by (simp add: j)
qed

end
