(* ===== verification/Fix_Registry.thy ===== *)
theory Fix_Registry
  imports Go_Path Rules_Common
begin

text \<open>
  \<open>internal/fix/registry.go\<close> and \<open>blocklist.go\<close>: the registered fix templates, the test for dangerous
  commands that guards registration and execution, and the binding of values into a template. The
  registry is an association list from hint identifiers; the operating system (\<open>runtime.GOOS\<close>) and
  the order in which Go visits the map of values are arguments.
\<close>

record fix_template =
  t_HintID :: string
  t_Title :: string
  t_Class :: fix_class
  t_Bin :: string
  t_Args :: "string list"
  t_Rollback :: "string list"
  t_RequiredEvidence :: "string list"
  t_Platforms :: "string list"
  t_ConfirmMessage :: string
  t_BlockedReason :: string

definition zero_template :: fix_template where
  "zero_template =
     \<lparr>t_HintID = [], t_Title = [], t_Class = [], t_Bin = [], t_Args = [], t_Rollback = [],
      t_RequiredEvidence = [], t_Platforms = [], t_ConfirmMessage = [], t_BlockedReason = []\<rparr>"

type_synonym fix_registry = "(string \<times> fix_template) list"

section \<open>The blocklist\<close>

definition isBlockedBin :: "string \<Rightarrow> bool" where
  "isBlockedBin bin \<longleftrightarrow>
     path_Base bin \<in> {''rm'', ''rmdir'', ''chown'', ''setenforce'', ''sestatus'', ''mkfs'', ''fdisk'', ''dd'',
       ''sh'', ''bash'', ''zsh'', ''dash'', ''ksh'', ''fish'', ''csh'', ''tcsh''}"

definition dangerous :: "string list" where
  "dangerous =
     [''rm -rf'', ''rm -fr'', ''rm -r -f'', ''rmdir -p'', ''chown -R /'', ''chown -R ~'',
      ''chown -R $HOME'', ''setenforce 0'', ''mkfs'', ''fdisk'', ''dd if='']"

definition isBlockedArg :: "string \<Rightarrow> bool" where
  "isBlockedArg arg =
     (if list_ex (\<lambda>d. contains arg d) dangerous then True
      else if contains arg ''docker volume rm'' \<or> contains arg ''podman volume rm'' then True
      else contains arg ''ssh'' \<and> contains arg ''rm'')"

definition IsBlockedCommand :: "string \<Rightarrow> string list \<Rightarrow> bool" where
  "IsBlockedCommand bin args =
     (isBlockedBin bin \<or> list_ex isBlockedArg args \<or> isBlockedArg (join '' '' args))"

definition isBlockedTemplate :: "fix_template \<Rightarrow> bool" where
  "isBlockedTemplate t =
     (if isBlockedBin (t_Bin t) then True
      else if list_ex isBlockedArg (t_Args t) then True
      else if isBlockedArg (join '' '' (t_Args t)) then True
      else if list_ex isBlockedArg (t_Rollback t) then True
      else if t_Rollback t \<noteq> [] \<and> isBlockedBin (hd (t_Rollback t)) then True
      else isBlockedArg (join '' '' (t_Rollback t)))"

section \<open>The registry\<close>

definition gate_template :: "fix_template \<Rightarrow> fix_template" where
  "gate_template t =
     (if isBlockedTemplate t
      then t\<lparr>t_Class := FixBlocked,
             t_BlockedReason := (if t_BlockedReason t = [] then ''command matches blocklist''
                                 else t_BlockedReason t)\<rparr>
      else t)"

definition register :: "fix_registry \<Rightarrow> fix_template \<Rightarrow> fix_registry" where
  "register r t = AList.update (t_HintID t) (gate_template t) r"

definition Lookup :: "fix_registry \<Rightarrow> string \<Rightarrow> fix_template option" where
  "Lookup r hintID = map_of r hintID"

definition IsApplicable :: "string \<Rightarrow> fix_template \<Rightarrow> bool" where
  "IsApplicable goos t =
     (t_Platforms t = [] \<or> list_ex (\<lambda>p. equal_fold p goos) (t_Platforms t))"

definition manual_note :: "string \<Rightarrow> string \<Rightarrow> string \<Rightarrow> string list \<Rightarrow> fix_template" where
  "manual_note hint title note platforms = zero_template
     \<lparr>t_HintID := hint, t_Title := title, t_Class := FixManual, t_Args := [note],
      t_Platforms := platforms\<rparr>"

definition trace_note :: "string \<Rightarrow> string \<Rightarrow> string \<Rightarrow> fix_template" where
  "trace_note hint title message = zero_template
     \<lparr>t_HintID := hint, t_Title := title, t_Class := FixManual, t_ConfirmMessage := message\<rparr>"

abbreviation all_platforms :: "string list" where
  "all_platforms \<equiv> [''linux'', ''darwin'', ''windows'']"

definition default_templates :: "fix_template list" where
  "default_templates =
    [zero_template\<lparr>t_HintID := ''chmod-script'', t_Title := ''Make script executable'',
       t_Class := FixSafe, t_Bin := ''chmod'', t_Args := [''+x'', ''{{path}}''],
       t_Rollback := [''chmod'', ''-x'', ''{{path}}''],
       t_RequiredEvidence := [''host_script_not_executable''], t_Platforms := [''linux'', ''darwin'']\<rparr>,
     (manual_note ''gitignore-env'' ''Add .env to .gitignore''
       (''# Add '' @ quoted ''.env'' @ '' to .gitignore: echo '' @ quoted ''.env'' @ '' >> .gitignore'')
       all_platforms)\<lparr>t_RequiredEvidence := [''git_tracked_env'', ''git_env_exists'']\<rparr>,
     (manual_note ''change-compose-port'' ''Change Compose service port binding''
       ''# Edit compose.yaml and change the host port from {{port}} to an available port''
       all_platforms)\<lparr>t_RequiredEvidence := [''compose_host_port'', ''host_listen_port'']\<rparr>,
     (manual_note ''stop-service'' ''Stop the conflicting host service''
       ''# Find the service on port {{port}} and stop it: sudo ss -tlnp | grep :{{port}}''
       [''linux''])\<lparr>t_RequiredEvidence := [''host_listen_port'']\<rparr>,
     zero_template\<lparr>t_HintID := ''systemctl-daemon-reload'',
       t_Title := ''Reload systemd manager configuration'', t_Class := FixGuarded,
       t_Bin := ''systemctl'', t_Args := [''daemon-reload''], t_Platforms := [''linux''],
       t_ConfirmMessage := ''Reloads systemd manager configuration on this host. Use only after reviewing changed unit files.''\<rparr>,
     (manual_note ''suggest-docker-group'' ''Add user to docker group''
       ''# Run: sudo usermod -aG docker $USER && newgrp docker''
       [''linux''])\<lparr>t_RequiredEvidence := [''docker_socket_permission_denied'']\<rparr>,
     zero_template\<lparr>t_HintID := ''compose-up'', t_Title := ''Start compose service'',
       t_Class := FixGuarded, t_Bin := ''docker'',
       t_Args := [''compose'', ''--project-directory'', ''{{repo_root}}'', ''up'', ''-d'', ''{{service}}''],
       t_Rollback := [''docker'', ''compose'', ''--project-directory'', ''{{repo_root}}'', ''stop'', ''{{service}}''],
       t_RequiredEvidence := [''compose_status''], t_Platforms := all_platforms,
       t_ConfirmMessage := ''Starts a Docker Compose service and may create or restart containers. Review the service logs and rollback command first.''\<rparr>,
     manual_note ''inspect-service'' ''Inspect compose service logs''
       ''# View logs: docker compose logs --tail=200'' all_platforms,
     (manual_note ''add-env-placeholder'' ''Add missing env keys as placeholders''
       ''# Create .env and add placeholders for the missing keys'' all_platforms)
       \<lparr>t_RequiredEvidence := [''missing_keys'']\<rparr>,
     (manual_note ''warn-disk-cleanup'' ''Clean up disk or inode usage''
       ''# Consider: docker system prune -f, npm cache clean --force, or remove node_modules/.cache''
       all_platforms)\<lparr>t_RequiredEvidence := [''host_disk_free_bytes'', ''host_disk_free_pct'']\<rparr>,
     manual_note ''install-nvidia-driver'' ''Install or reinstall NVIDIA driver''
       ''# Follow NVIDIA documentation for your distribution to install the correct driver'' [''linux''],
     manual_note ''check-nvidia-driver'' ''Check NVIDIA driver and GPU visibility''
       ''# Verify driver state: nvidia-smi; check kernel module: lsmod | grep nvidia; review dmesg for NVRM errors''
       [''linux''],
     manual_note ''install-cuda-toolkit'' ''Install CUDA toolkit''
       ''# Install CUDA toolkit via distribution package manager or NVIDIA installer'' [''linux''],
     manual_note ''install-pytorch-cuda'' ''Install PyTorch with CUDA support''
       ''# Visit https://pytorch.org/get-started/locally/ for the correct CUDA wheel'' all_platforms,
     manual_note ''install-tensorflow-gpu'' ''Install TensorFlow with GPU support''
       ''# Follow https://www.tensorflow.org/install/gpu for platform-specific instructions'' all_platforms,
     manual_note ''install-jax-cuda'' ''Install JAX with CUDA support''
       ''# Follow https://github.com/google/jax#pip-installation-gpu-cuda for CUDA-enabled JAX'' all_platforms,
     manual_note ''install-nvidia-toolkit'' ''Install NVIDIA Container Toolkit''
       ''# Follow https://docs.nvidia.com/datacenter/cloud-native/container-toolkit/install-guide.html''
       [''linux''],
     manual_note ''fix-cache-permissions'' ''Fix cache directory permissions''
       ''# Run: sudo chown $USER:$USER <cache-path> (replace <cache-path> with the exact path from the finding)''
       [''linux'', ''darwin''],
     manual_note ''warn-docker-cleanup'' ''Clean up Docker build cache and unused images''
       ''# Run: docker system prune -f  (review what will be removed before confirming)'' all_platforms,
     manual_note ''disable-secure-boot-or-sign-module'' ''Disable Secure Boot or sign NVIDIA kernel module''
       ''# Prefer signing the module over disabling Secure Boot. See distribution docs for module signing.''
       [''linux''],
     trace_note ''check-wd'' ''Verify working directory''
       ''Check that the process is running from the expected working directory.'',
     trace_note ''verify-config-path'' ''Verify config file path''
       ''Ensure config files referenced by the process exist at the expected paths.'',
     trace_note ''check-parent-permissions'' ''Check parent directory permissions''
       ''Verify that parent directories allow access for the current user.'',
     trace_note ''check-file-owner'' ''Check file ownership''
       ''Verify that the file is owned by the expected user or group.'',
     trace_note ''start-service'' ''Start the required service''
       ''Start the service the process is trying to connect to.'',
     trace_note ''verify-port'' ''Verify port and host''
       ''Check that the process is connecting to the correct host and port.'',
     trace_note ''verify-service-listening'' ''Verify service is listening''
       ''Check that the target service is actually listening on the expected address.'',
     trace_note ''verify-unix-socket'' ''Verify UNIX socket path''
       ''Check that the UNIX socket file exists and has correct permissions.'',
     zero_template\<lparr>t_HintID := ''ebpf-setcap-grant'',
       t_Title := ''Grant permanent eBPF capabilities to devdiag binary'', t_Class := FixGuarded,
       t_Bin := ''sudo'', t_Args := [''setcap'', ''cap_bpf,cap_perfmon=ep'', ''{{value}}''],
       t_RequiredEvidence := [''trace_self_binary_path''], t_Platforms := [''linux''],
       t_ConfirmMessage := ''This will elevate devdiag'' @ [CHR 0x27] @ ''s binary permissions via setcap to allow raw tracepoint access for unprivileged users.''\<rparr>]"

definition NewRegistry :: fix_registry where
  "NewRegistry = foldl register [] default_templates"

section \<open>Binding\<close>

definition placeholder :: "string \<Rightarrow> string" where
  "placeholder k = ''{{'' @ k @ ''}}''"

definition bind_all :: "map_order \<Rightarrow> (string \<times> string) list \<Rightarrow> string list \<Rightarrow> string list" where
  "bind_all ord vals xs =
     foldl (\<lambda>xs k. map (\<lambda>x. replace_all x (placeholder k) (the (map_of vals k))) xs) xs
       (ord ''values'' (map fst vals))"

datatype bind_error = UnboundInArgs string | UnboundInRollback string

definition BindTemplate ::
  "map_order \<Rightarrow> fix_template \<Rightarrow> (string \<times> string) list \<Rightarrow> bind_error + string list \<times> string list" where
  "BindTemplate ord t vals =
     (case find (\<lambda>a. contains a ''{{'') (bind_all ord vals (t_Args t)) of
        Some a \<Rightarrow> Inl (UnboundInArgs a)
      | None \<Rightarrow>
          (case find (\<lambda>a. contains a ''{{'') (bind_all ord vals (t_Rollback t)) of
             Some a \<Rightarrow> Inl (UnboundInRollback a)
           | None \<Rightarrow> Inr (bind_all ord vals (t_Args t), bind_all ord vals (t_Rollback t))))"

section \<open>The gate at registration\<close>

lemma gate_template_sel [simp]:
  "t_HintID (gate_template t) = t_HintID t"
  "isBlockedTemplate (gate_template t) = isBlockedTemplate t"
  by (simp_all add: gate_template_def isBlockedTemplate_def)

lemma gate_template_class: "t_Class (gate_template t) \<noteq> FixBlocked \<Longrightarrow> \<not> isBlockedTemplate t"
  by (auto simp: gate_template_def split: if_splits)

definition gated :: "fix_registry \<Rightarrow> bool" where
  "gated r \<longleftrightarrow> (\<forall>h t. Lookup r h = Some t \<longrightarrow>
     t_HintID t = h \<and> (t_Class t \<noteq> FixBlocked \<longrightarrow> \<not> isBlockedTemplate t))"

lemma gated_Nil: "gated []"
  by (simp add: gated_def Lookup_def)

lemma gated_register: "gated r \<Longrightarrow> gated (register r t)"
  using gate_template_class [of t]
  by (auto simp: gated_def Lookup_def register_def update_conv')

lemma gated_registers: "gated r \<Longrightarrow> gated (foldl register r ts)"
  by (induction ts arbitrary: r) (simp_all add: gated_register)

text \<open>The default registry: no template is blocked and no hint is registered twice.\<close>

lemma default_templates_safe: "list_all (\<lambda>t. \<not> isBlockedTemplate t) default_templates"
  by code_simp

lemma default_templates_distinct: "distinct (map t_HintID default_templates)"
  by code_simp

lemma update_new: "k \<notin> fst ` set m \<Longrightarrow> AList.update k v m = m @ [(k, v)]"
  by (induction m) auto

lemma register_all:
  "list_all (\<lambda>t. \<not> isBlockedTemplate t) ts \<Longrightarrow> distinct (map fst r @ map t_HintID ts) \<Longrightarrow>
   foldl register r ts = r @ map (\<lambda>t. (t_HintID t, t)) ts"
proof (induction ts arbitrary: r)
  case (Cons t ts)
  then have "register r t = r @ [(t_HintID t, t)]"
    by (auto simp: register_def gate_template_def update_new)
  with Cons.IH [of "r @ [(t_HintID t, t)]"] Cons.prems show ?case by simp
qed simp

lemma NewRegistry_eq [code]: "NewRegistry = map (\<lambda>t. (t_HintID t, t)) default_templates"
  unfolding NewRegistry_def using default_templates_safe default_templates_distinct
  by (subst register_all) simp_all

text \<open>
  Whatever templates are registered, one that is looked up under a hint has that hint, and is
  free of blocked binaries and dangerous arguments unless its class is blocked; every default
  template passes the gate unchanged.
\<close>

theorem registry_gate:
  "gated (foldl register [] ts) \<and> gated NewRegistry \<and>
   list_all (\<lambda>t. Lookup NewRegistry (t_HintID t) = Some t \<and> t_Class t \<noteq> FixBlocked) default_templates"
proof (intro conjI)
  show "gated (foldl register [] ts)" "gated NewRegistry"
    unfolding NewRegistry_def by (rule gated_registers [OF gated_Nil])+
  have find: "map_of (map (\<lambda>t. (t_HintID t, t)) ts) (t_HintID t) = Some t"
    if "distinct (map t_HintID ts)" "t \<in> set ts" for t ts
    using that by (intro map_of_is_SomeI) (auto simp: comp_def)
  have "list_all (\<lambda>t. t_Class t \<noteq> FixBlocked) default_templates" by code_simp
  with find [OF default_templates_distinct]
  show "list_all (\<lambda>t. Lookup NewRegistry (t_HintID t) = Some t \<and> t_Class t \<noteq> FixBlocked) default_templates"
    by (simp add: Lookup_def NewRegistry_eq list_all_iff)
qed

lemma BindTemplate_no_placeholder:
  assumes "BindTemplate ord t vals = Inr b"
  shows "\<forall>a \<in> set (fst b @ snd b). \<not> contains a ''{{''" "length (fst b) = length (t_Args t)"
proof -
  have len: "length (bind_all ord vals xs) = length xs" for xs
  proof -
    have "length (foldl (\<lambda>xs k. map (g k) xs) xs ks) = length xs" for g and xs :: "string list" and ks
      by (induction ks arbitrary: xs) simp_all
    then show ?thesis by (simp add: bind_all_def)
  qed
  from assms len show "\<forall>a \<in> set (fst b @ snd b). \<not> contains a ''{{''" "length (fst b) = length (t_Args t)"
    by (auto simp: BindTemplate_def find_None_iff split: option.splits)
qed

end
