(* ===== verification/Fix_Validate.thy ===== *)
theory Fix_Validate
  imports Go_Path
begin

text \<open>
  \<open>internal/fix/validate.go\<close>: the checks that evidence passes before it is put into a command. The
  home directory of the user is a parameter, \<open>None\<close> when it is not known.
\<close>

section \<open>The validators\<close>

datatype validate_error =
    PathEmpty
  | AbsoluteNotAllowed
  | RootNotAbsolute
  | CannotResolve
  | TraversalOutsideRoot
  | PathTraversal
  | PortEmpty
  | PortNotANumber
  | PortOutOfRange
  | ServiceNameEmpty
  | InvalidServiceName
  | EnvKeyEmpty
  | InvalidEnvKey

definition expand_home :: "string option \<Rightarrow> string \<Rightarrow> string" where
  "expand_home home p =
     (if \<not> has_prefix p ''~'' then p
      else case home of
             None \<Rightarrow> p
           | Some h \<Rightarrow> if p = ''~'' then h
                       else if has_prefix p ''~/'' then Join2 h (trim_prefix p ''~/'') else p)"

definition allowedPrefixes :: "string list" where
  "allowedPrefixes = [''/tmp'', ''/var/tmp'', ''/dev/shm'', ''/home'', ''/usr/local'']"

definition under_prefix :: "string \<Rightarrow> string \<Rightarrow> bool" where
  "under_prefix cleanValue prefix0 =
     (case Rel prefix0 cleanValue of
        None \<Rightarrow> False
      | Some rel \<Rightarrow> rel = ''.'' \<or> (\<not> has_prefix rel ''../'' \<and> \<not> IsAbs rel))"

definition ValidatePath :: "string option \<Rightarrow> string \<Rightarrow> string \<Rightarrow> validate_error + string" where
  "ValidatePath home root0 value0 =
     (if trim_space value0 = [] then Inl PathEmpty
      else
        let root = expand_home home root0;
            cleanValue = expand_home home (Clean (trim_space value0))
        in if IsAbs cleanValue
           then (if list_ex (under_prefix cleanValue) allowedPrefixes then Inr cleanValue
                 else Inl AbsoluteNotAllowed)
           else if root \<noteq> []
           then (let cleanRoot = Clean root; resolved = Join2 cleanRoot cleanValue
                 in if \<not> IsAbs cleanRoot then Inl RootNotAbsolute
                    else case Rel cleanRoot resolved of
                           None \<Rightarrow> Inl CannotResolve
                         | Some rel \<Rightarrow>
                             if rel = ''..'' \<or> has_prefix rel ''../'' \<or> IsAbs rel
                             then Inl TraversalOutsideRoot else Inr resolved)
           else if ''..'' \<in> set (split_at ''/'' cleanValue) then Inl PathTraversal
           else Inr cleanValue)"

definition ValidatePort :: "string \<Rightarrow> validate_error + int" where
  "ValidatePort v =
     (if v = [] then Inl PortEmpty
      else case atoi v of
             None \<Rightarrow> Inl PortNotANumber
           | Some p \<Rightarrow> if p < 1 \<or> p > 65535 then Inl PortOutOfRange else Inr p)"

definition is_letter :: "char \<Rightarrow> bool" where
  "is_letter c \<longleftrightarrow> c \<in> set ''abcdefghijklmnopqrstuvwxyzABCDEFGHIJKLMNOPQRSTUVWXYZ''"

text \<open>The two regular expressions, anchored at both ends.\<close>

definition validServiceName :: "string \<Rightarrow> bool" where
  "validServiceName v =
     (case v of [] \<Rightarrow> False
      | c # cs \<Rightarrow> (is_letter c \<or> c \<in> set digits) \<and>
                  list_all (\<lambda>c. is_letter c \<or> c \<in> set digits \<or> c = CHR ''_'' \<or> c = CHR ''-'') cs)"

definition validEnvKey :: "string \<Rightarrow> bool" where
  "validEnvKey v =
     (case v of [] \<Rightarrow> False
      | c # cs \<Rightarrow> (is_letter c \<or> c = CHR ''_'') \<and>
                  list_all (\<lambda>c. is_letter c \<or> c \<in> set digits \<or> c = CHR ''_'') cs)"

definition ValidateServiceName :: "string \<Rightarrow> validate_error + string" where
  "ValidateServiceName v =
     (if v = [] then Inl ServiceNameEmpty
      else if \<not> validServiceName v then Inl InvalidServiceName else Inr v)"

definition ValidateEnvKey :: "string \<Rightarrow> validate_error + string" where
  "ValidateEnvKey v =
     (if v = [] then Inl EnvKeyEmpty else if \<not> validEnvKey v then Inl InvalidEnvKey else Inr v)"

text \<open>The test of the code on absolute paths: it also lets the parent of the base pass.\<close>

lemma under_prefix_iff:
  assumes "IsAbs b" "IsAbs t"
  shows "under_prefix t b \<longleftrightarrow>
    prefix (path_elems (Clean b)) (path_elems (Clean t)) \<or>
    path_elems (Clean b) \<noteq> [] \<and> butlast (path_elems (Clean b)) = path_elems (Clean t)"
proof (cases "Clean t = Clean b")
  case True
  then show ?thesis using assms by (simp add: under_prefix_def Rel_abs)
next
  case False
  let ?B = "path_elems (Clean b)" and ?T = "path_elems (Clean t)"
  let ?rest = "strip_common ?B ?T"
  obtain cs where cs: "?B = cs @ fst ?rest" "?T = cs @ snd ?rest"
    using strip_common_split [of ?B ?T] by blast
  have u: "under_prefix t b \<longleftrightarrow> (let r = up_path (length (fst ?rest)) (snd ?rest)
      in r = ''.'' \<or> \<not> has_prefix r ''../'' \<and> \<not> IsAbs r)"
    using False by (simp add: under_prefix_def Rel_abs [OF assms] Let_def)
  show ?thesis
  proof (cases "fst ?rest")
    case Nil
    then have "prefix ?B ?T" by (simp add: strip_common_prefix [symmetric])
    with u Nil up_path_0 [OF rest_down [OF assms(2), of ?B]] show ?thesis by (simp add: Let_def)
  next
    case (Cons x xs)
    then have np: "\<not> prefix ?B ?T" by (metis list.distinct(1) strip_common_prefix)
    have "under_prefix t b \<longleftrightarrow> xs = [] \<and> snd ?rest = []"
    proof -
      have "\<not> IsAbs (up_path (Suc n) es)" "up_path (Suc n) es \<noteq> ''.''" for n es
        by (cases "replicate n ''..'' @ es = []"; simp add: up_path_def join_Cons IsAbs_def)+
      then show ?thesis using u Cons up_path_Suc(2) [of "length xs" "snd ?rest"]
        by (simp add: Let_def)
    qed
    also have "\<dots> \<longleftrightarrow> butlast ?B = ?T"
    proof
      assume "xs = [] \<and> snd ?rest = []"
      with cs Cons show "butlast ?B = ?T" by (metis append.right_neutral butlast_snoc)
    next
      assume "butlast ?B = ?T"
      then have "cs @ butlast (fst ?rest) = cs @ snd ?rest" using cs Cons
        by (metis butlast_append list.distinct(1))
      then have e: "snd ?rest = butlast (x # xs)" using Cons by simp
      have "xs = []"
      proof (rule ccontr)
        assume "xs \<noteq> []"
        with e have "snd ?rest = x # butlast xs" by simp
        from strip_common_hd [OF Cons this] show False by simp
      qed
      with e show "xs = [] \<and> snd ?rest = []" by simp
    qed
    finally show ?thesis using np cs Cons by auto
  qed
qed

section \<open>What the validators accept\<close>

text \<open>
  C13: a relative value that passes is returned resolved, as a clean absolute path that stays below
  the root however the value climbs, and contains no \<open>..\<close> any more.
\<close>

theorem ValidatePath_contained:
  assumes "ValidatePath home base v = Inr p"
    and "\<not> IsAbs (expand_home home (Clean (trim_space v)))"
    and "expand_home home base \<noteq> []"
  shows "IsAbs p \<and> Clean p = p \<and> ''..'' \<notin> set (path_elems p) \<and>
    prefix (path_elems (Clean (expand_home home base))) (path_elems p)"
proof -
  let ?r = "Clean (expand_home home base)" and ?v = "expand_home home (Clean (trim_space v))"
  have r: "IsAbs ?r" and p: "p = Join2 ?r ?v"
    and rel: "\<exists>rel. Rel ?r p = Some rel \<and> \<not> (rel = ''..'' \<or> has_prefix rel ''../'' \<or> IsAbs rel)"
    using assms unfolding ValidatePath_def
    by (auto simp: Let_def split: if_splits option.splits)
  obtain q where q: "IsAbs q" "p = Clean q" using Join2_abs [OF r] p by blast
  then have "IsAbs p" "Clean p = p" by (simp_all add: Clean_Clean)
  moreover have "Clean ?r = ?r" using r by (simp add: Clean_Clean)
  moreover have "\<forall>e \<in> set (path_elems p). down_elem e" using clean_abs_elems [OF q(1)] q(2) by simp
  ultimately show ?thesis using rel Rel_below [OF r \<open>IsAbs p\<close>] by (auto simp: down_elem_def)
qed

theorem ValidatePath_contained_witness:
  "ValidatePath None ''/repo'' ''a/../b.sh'' = Inr ''/repo/b.sh'' \<and>
   prefix (path_elems (Clean ''/repo'')) (path_elems ''/repo/b.sh'')"
proof -
  have v: "ValidatePath None ''/repo'' ''a/../b.sh'' = Inr ''/repo/b.sh''" by code_simp
  moreover have "\<not> IsAbs (expand_home None (Clean (trim_space ''a/../b.sh'')))"
    "expand_home None ''/repo'' \<noteq> []" "expand_home None ''/repo'' = ''/repo''" by code_simp+
  ultimately show ?thesis using ValidatePath_contained [OF v] by simp
qed

lemma expand_home_abs: "IsAbs p \<Longrightarrow> expand_home home p = p"
  by (cases p) (auto simp: expand_home_def IsAbs_hd)

lemma allowedPrefixes_abs: "a \<in> set allowedPrefixes \<Longrightarrow> IsAbs a \<and> path_elems a \<noteq> [] \<and> Clean a = a"
proof -
  have "list_all (\<lambda>a. IsAbs a \<and> path_elems a \<noteq> [] \<and> Clean a = a) allowedPrefixes" by code_simp
  then show "a \<in> set allowedPrefixes \<Longrightarrow> IsAbs a \<and> path_elems a \<noteq> [] \<and> Clean a = a"
    by (simp add: list_all_iff)
qed

text \<open>
  an absolute value is accepted exactly when it lies below one of the allowed directories or is
  the parent of one: the test on \<open>..\<close> lets \<open>/\<close>, \<open>/usr\<close>, \<open>/var\<close> and \<open>/dev\<close> pass.
\<close>

theorem ValidatePath_absolute:
  assumes "IsAbs (trim_space v)"
  shows "ValidatePath home base v =
    (if list_ex (\<lambda>a. prefix (path_elems a) (path_elems (Clean (trim_space v))) \<or>
          butlast (path_elems a) = path_elems (Clean (trim_space v))) allowedPrefixes
     then Inr (Clean (trim_space v)) else Inl AbsoluteNotAllowed)"
proof -
  let ?c = "Clean (trim_space v)"
  have c: "IsAbs ?c" "Clean ?c = ?c" "expand_home home ?c = ?c" "trim_space v \<noteq> []"
    using assms by (auto simp: Clean_Clean expand_home_abs IsAbs_hd [of "[]"])
  have "under_prefix ?c a \<longleftrightarrow>
      prefix (path_elems a) (path_elems ?c) \<or> butlast (path_elems a) = path_elems ?c"
    if "a \<in> set allowedPrefixes" for a
    using under_prefix_iff [of a ?c] allowedPrefixes_abs [OF that] c by simp
  then have "list_ex (under_prefix ?c) allowedPrefixes \<longleftrightarrow>
      list_ex (\<lambda>a. prefix (path_elems a) (path_elems ?c) \<or> butlast (path_elems a) = path_elems ?c)
        allowedPrefixes"
    by (auto simp: list_ex_iff)
  then show ?thesis unfolding ValidatePath_def using c by (simp add: Let_def)
qed

theorem ValidatePath_absolute_witness:
  "ValidatePath None ''/repo'' ''/usr'' = Inr ''/usr'' \<and>
   ValidatePath None ''/repo'' ''/'' = Inr ''/'' \<and>
   ValidatePath None ''/repo'' ''/etc'' = Inl AbsoluteNotAllowed"
proof -
  have abs: "IsAbs (trim_space ''/usr'')" "IsAbs (trim_space ''/'')" "IsAbs (trim_space ''/etc'')"
    by code_simp+
  have "list_ex (\<lambda>a. prefix (path_elems a) (path_elems (Clean (trim_space x))) \<or>
      butlast (path_elems a) = path_elems (Clean (trim_space x))) allowedPrefixes = (x \<noteq> ''/etc'')"
    "Clean (trim_space x) = x" if "x \<in> {''/usr'', ''/'', ''/etc''}" for x
    using that by (elim insertE emptyE; simp only:; code_simp)+
  then show ?thesis
    unfolding ValidatePath_absolute [OF abs(1)] ValidatePath_absolute [OF abs(2)]
      ValidatePath_absolute [OF abs(3)] by simp
qed

lemma ValidatePort_range: "ValidatePort v = Inr p \<Longrightarrow> 1 \<le> p \<and> p \<le> 65535"
  by (auto simp: ValidatePort_def split: if_splits option.splits)

text \<open>Accepted ports print back to themselves, so the bound command names that port.\<close>

lemma ValidatePort_itoa: "1 \<le> p \<Longrightarrow> p \<le> 65535 \<Longrightarrow> ValidatePort (itoa p) = Inr p"
  by (simp add: ValidatePort_def atoi_itoa min_int64_def max_int64_def)

end
