(* ===== verification/Fix_Planner.thy ===== *)
theory Fix_Planner
  imports Fix_Registry Fix_Validate Keyed_List
begin

text \<open>
  \<open>internal/fix/planner.go\<close>: from the fix hints of a finding to proposals with validated values. What
  the planner reads of its surroundings is a record: the operating system, the home and the working
  directory (\<open>None\<close> when they are not known) and the order of maps. The debug log of skipped hints
  is left out.
\<close>

record fix_env =
  fe_goos :: string
  fe_home :: "string option"
  fe_cwd :: "string option"
  fe_order :: map_order

record resolve_options =
  ro_FindingID :: string
  ro_Source :: fix_source
  ro_RunID :: string
  ro_ReportAge :: int

datatype planner_error = ReportNil | FindingNotFound string

section \<open>Evidence\<close>

definition buildEvidenceMap :: "report \<Rightarrow> (string \<times> evidence list) list" where
  "buildEvidenceMap rep =
     foldl (\<lambda>m ev. AList.update (ev_Source ev)
              ((case map_of m (ev_Source ev) of Some es \<Rightarrow> es | None \<Rightarrow> []) @ [ev]) m) []
       (concat (map c_Evidence (r_Collectors rep)))"

definition evidenceForFinding ::
  "finding \<Rightarrow> (string \<times> evidence list) list \<Rightarrow> (string \<times> string) list" where
  "evidenceForFinding f evidenceMap =
     foldl (\<lambda>result kv. if map_of result (fst kv) = None \<and> snd kv \<noteq> []
                        then AList.update (fst kv) (ev_Value (hd (snd kv))) result else result)
       (foldl (\<lambda>result ev. AList.update (ev_Source ev) (ev_Value ev) result) [] (f_Evidence f))
       evidenceMap"

definition compose_status_of :: "string \<Rightarrow> string \<Rightarrow> (string \<times> string) option" where
  "compose_status_of source val =
     (if \<not> has_prefix source ''compose_service_'' \<or> \<not> has_suffix source ''_status'' then None
      else case ValidateServiceName (trim_suffix (trim_prefix source ''compose_service_'') ''_status'') of
             Inl e \<Rightarrow> None
           | Inr validName \<Rightarrow>
               if val \<in> {''exited'', ''dead'', ''restarting''} then Some (validName, val) else None)"

text \<open>The first service in the order of the map that has stopped.\<close>

definition composeStatusEvidence ::
  "map_order \<Rightarrow> (string \<times> string) list \<Rightarrow> (string \<times> string) option" where
  "composeStatusEvidence ord evs =
     (case List.map_filter (\<lambda>source. compose_status_of source (the (map_of evs source)))
             (ord ''evidence'' (map fst evs)) of
        [] \<Rightarrow> None
      | sv # _ \<Rightarrow> Some sv)"

definition absolute_root :: "fix_env \<Rightarrow> string \<Rightarrow> string option" where
  "absolute_root env repoRoot0 =
     (let repoRoot = expand_home (fe_home env) (if repoRoot0 = [] then ''.'' else repoRoot0)
      in if IsAbs repoRoot then Some repoRoot
         else map_option (\<lambda>cwd. Join2 cwd repoRoot) (fe_cwd env))"

definition port_of_evidence :: "string \<Rightarrow> string" where
  "port_of_evidence val = (if contains val '':'' then last (split_at '':'' val) else val)"

definition valid_keys :: "string \<Rightarrow> string list" where
  "valid_keys val =
     filter (\<lambda>k. case ValidateEnvKey k of Inr v \<Rightarrow> True | Inl e \<Rightarrow> False) (map trim_space (split_at '','' val))"

text \<open>The value one piece of required evidence binds.\<close>

definition bind_evidence ::
  "fix_env \<Rightarrow> string \<Rightarrow> string \<Rightarrow> string \<Rightarrow> validate_error + string \<times> string" where
  "bind_evidence env repoRoot req val =
     (if req = ''host_script_not_executable''
      then (case ValidatePath (fe_home env) repoRoot val of
              Inl e \<Rightarrow> Inl e | Inr p \<Rightarrow> Inr (''path'', p))
      else if req = ''git_tracked_env'' \<or> req = ''git_env_exists'' then Inr (''env'', val)
      else if req = ''compose_host_port'' \<or> req = ''host_listen_port''
      then (case ValidatePort (port_of_evidence val) of
              Inl e \<Rightarrow> Inl e | Inr p \<Rightarrow> Inr (''port'', itoa p))
      else if req = ''missing_keys'' then Inr (''keys'', join '' '' (valid_keys val))
      else if req = ''host_disk_free_bytes'' \<or> req = ''host_disk_free_pct'' then Inr (''disk'', val)
      else if req = ''docker_socket_permission_denied'' then Inr (''docker'', val)
      else Inr (''value'', val))"

fun validate_reqs ::
  "fix_env \<Rightarrow> string \<Rightarrow> (string \<times> string) list \<Rightarrow> string list \<Rightarrow>
   (string \<times> string) list \<Rightarrow> string list \<Rightarrow> validate_error + (string \<times> string) list \<times> string list"
where
  "validate_reqs env repoRoot evs [] vals missing = Inr (vals, missing)"
| "validate_reqs env repoRoot evs (req # reqs) vals missing =
     (if req = ''compose_status''
      then (case composeStatusEvidence (fe_order env) evs of
              None \<Rightarrow> validate_reqs env repoRoot evs reqs vals (missing @ [req])
            | Some sv \<Rightarrow> validate_reqs env repoRoot evs reqs
                (AList.update ''status'' (snd sv) (AList.update ''service'' (fst sv) vals)) missing)
      else case map_of evs req of
             None \<Rightarrow> validate_reqs env repoRoot evs reqs vals (missing @ [req])
           | Some val \<Rightarrow>
               if val = [] then validate_reqs env repoRoot evs reqs vals (missing @ [req])
               else (case bind_evidence env repoRoot req val of
                       Inl e \<Rightarrow> Inl e
                     | Inr kv \<Rightarrow> validate_reqs env repoRoot evs reqs
                         (AList.update (fst kv) (snd kv) vals) missing))"

definition validateEvidence ::
  "fix_env \<Rightarrow> fix_template \<Rightarrow> (string \<times> string) list \<Rightarrow> string \<Rightarrow>
   validate_error + (string \<times> string) list \<times> string list" where
  "validateEvidence env tmpl evs repoRoot0 =
     (case absolute_root env repoRoot0 of
        None \<Rightarrow> Inl RootNotAbsolute
      | Some repoRoot \<Rightarrow> validate_reqs env repoRoot evs (t_RequiredEvidence tmpl)
          [(''repo_root'', Clean repoRoot)] [])"

section \<open>Staleness\<close>

text \<open>\<open>time.Duration.String\<close> for durations of a second and more.\<close>

definition duration_fraction :: "int \<Rightarrow> string" where
  "duration_fraction nanos =
     (let ds = itoa nanos; s = trim_right_set ''0'' (replicate (9 - length ds) CHR ''0'' @ ds)
      in if s = [] then [] else CHR ''.'' # s)"

definition Duration_String :: "int \<Rightarrow> string" where
  "Duration_String d =
     (let u = d div 1000000000;
          secs = itoa (u mod 60) @ duration_fraction (d mod 1000000000) @ ''s''
      in if u div 60 = 0 then secs
         else if u div 3600 = 0 then itoa (u div 60) @ ''m'' @ secs
         else itoa (u div 3600) @ ''h'' @ itoa (u div 60 mod 60) @ ''m'' @ secs)"

definition minutes :: "int \<Rightarrow> int" where
  "minutes n = n * 60000000000"

definition staleness :: "int \<Rightarrow> string" where
  "staleness age =
     (if age > minutes 30
      then ''Report is '' @ Duration_String age @ '' old; consider --fresh before applying''
      else if age > minutes 5 then ''Report is '' @ Duration_String age @ '' old''
      else [])"

section \<open>Proposals\<close>

definition class_order :: "fix_class \<Rightarrow> nat" where
  "class_order c =
     (if c = FixSafe then 0 else if c = FixGuarded then 1 else if c = FixManual then 2
      else if c = FixBlocked then 3 else 0)"

definition ranked_before :: "fix_proposal \<Rightarrow> fix_proposal \<Rightarrow> bool" where
  "ranked_before p q \<longleftrightarrow> class_order (p_Class p) < class_order (p_Class q)"

definition rankProposals :: "fix_proposal list \<Rightarrow> fix_proposal list" where
  "rankProposals proposals = insertion_sort ranked_before proposals"

definition propose ::
  "fix_env \<Rightarrow> fix_registry \<Rightarrow> (string \<times> string) list \<Rightarrow> string \<Rightarrow> resolve_options \<Rightarrow> string \<Rightarrow>
   fix_proposal option" where
  "propose env reg findingEvidence repoRoot opts hintID =
     (case Lookup reg hintID of
        None \<Rightarrow> None
      | Some tmpl \<Rightarrow>
          if \<not> IsApplicable (fe_goos env) tmpl then None
          else case validateEvidence env tmpl findingEvidence repoRoot of
                 Inl e \<Rightarrow> None
               | Inr vm \<Rightarrow>
                   if snd vm \<noteq> [] \<and> t_Class tmpl \<noteq> FixManual then None
                   else case BindTemplate (fe_order env) tmpl (fst vm) of
                          Inl e \<Rightarrow> None
                        | Inr b \<Rightarrow> Some
                            \<lparr>p_FindingID = ro_FindingID opts, p_HintID = hintID,
                             p_Title = t_Title tmpl, p_Class = t_Class tmpl, p_Bin = t_Bin tmpl,
                             p_Args = fst b, p_Rollback = snd b,
                             p_ConfirmMessage = t_ConfirmMessage tmpl,
                             p_BlockedReason = t_BlockedReason tmpl,
                             p_RequiredEvidence = t_RequiredEvidence tmpl,
                             p_Source = ro_Source opts, p_RunID = ro_RunID opts,
                             p_StalenessWarn = staleness (ro_ReportAge opts)\<rparr>)"

definition Resolve ::
  "fix_env \<Rightarrow> fix_registry \<Rightarrow> report option \<Rightarrow> resolve_options \<Rightarrow> planner_error + fix_proposal list" where
  "Resolve env reg rep opts =
     (case rep of
        None \<Rightarrow> Inl ReportNil
      | Some rep \<Rightarrow>
          (case find (\<lambda>f. f_ID f = ro_FindingID opts) (r_Findings rep) of
             None \<Rightarrow> Inl (FindingNotFound (ro_FindingID opts))
           | Some target \<Rightarrow>
               Inr (rankProposals (List.map_filter
                 (propose env reg (evidenceForFinding target (buildEvidenceMap rep))
                   (r_RepoRoot rep) opts) (f_FixHints target)))))"

definition ListAll ::
  "fix_env \<Rightarrow> fix_registry \<Rightarrow> report option \<Rightarrow> fix_source \<Rightarrow> string \<Rightarrow> int \<Rightarrow>
   planner_error + fix_proposal list" where
  "ListAll env reg rep source runID reportAge =
     (case rep of
        None \<Rightarrow> Inl ReportNil
      | Some r \<Rightarrow> Inr (concat (map (\<lambda>f.
          if f_FixHints f = [] then []
          else case Resolve env reg rep
                 \<lparr>ro_FindingID = f_ID f, ro_Source = source, ro_RunID = runID, ro_ReportAge = reportAge\<rparr> of
                 Inl e \<Rightarrow> []
               | Inr proposals \<Rightarrow> proposals) (r_Findings r))))"

section \<open>What is proposed\<close>

interpretation ranked: strict_weak_order ranked_before
  by unfold_locales (auto simp: ranked_before_def)

lemma rankProposals_eq: "rankProposals ps = slice_stable ranked_before ps"
  by (simp add: rankProposals_def ranked.insertion_sort_eq)

text \<open>The required evidence is there, as the planner looks for it.\<close>

definition has_required :: "fix_env \<Rightarrow> (string \<times> string) list \<Rightarrow> string \<Rightarrow> bool" where
  "has_required env evs req \<longleftrightarrow>
     (if req = ''compose_status'' then composeStatusEvidence (fe_order env) evs \<noteq> None
      else \<exists>v. map_of evs req = Some v \<and> v \<noteq> [])"

lemma validate_reqs_missing:
  "validate_reqs env rt evs reqs vals missing = Inr (vals', missing') \<Longrightarrow>
   missing' = missing @ filter (\<lambda>req. \<not> has_required env evs req) reqs"
proof (induction env rt evs reqs vals missing rule: validate_reqs.induct)
  case (2 env rt evs req reqs vals missing)
  then show ?case
    by (auto simp: has_required_def [of env evs req] split: if_splits option.splits sum.splits)
qed simp

lemma validateEvidence_missing:
  "validateEvidence env tmpl evs rt = Inr vm \<Longrightarrow>
   snd vm = filter (\<lambda>req. \<not> has_required env evs req) (t_RequiredEvidence tmpl)"
  by (cases vm) (auto simp: validateEvidence_def dest: validate_reqs_missing split: option.splits)

text \<open>A repository with two scripts that lack the executable bit.\<close>

definition script_finding :: "string \<Rightarrow> finding" where
  "script_finding script = zero_finding
     \<lparr>f_ID := ''F-FS-001'', f_Evidence := [mk_ev ''host_script_not_executable'' script],
      f_FixHints := [''chmod-script'']\<rparr>"

definition two_scripts :: report where
  "two_scripts = \<lparr>r_SchemaVersion = [], r_DevDiagVersion = [], r_RunID = [], r_RedactionStatus = [],
     r_RepoRoot = ''/repo'', r_RepoSignals = [],
     r_Host = zero_host, r_Collectors = [],
     r_Findings = [script_finding ''a.sh'', script_finding ''b.sh''],
     r_Repro = None\<rparr>"

definition linux_env :: fix_env where
  "linux_env = \<lparr>fe_goos = ''linux'', fe_home = None, fe_cwd = None, fe_order = (\<lambda>_ ks. ks)\<rparr>"

definition proposals_of :: "planner_error + fix_proposal list \<Rightarrow> fix_proposal list" where
  "proposals_of r = (case r of Inr ps \<Rightarrow> ps | Inl e \<Rightarrow> [])"

text \<open>
  \<open>ListAll\<close> resolves every finding by its identifier, and so proposes the fix of the first
  finding of an identifier for all of them: of two scripts only the first is made executable.
\<close>

theorem ListAll_repeats_first:
  "map p_Args (proposals_of (ListAll linux_env NewRegistry (Some two_scripts) [] [] 0)) =
     [[''+x'', ''/repo/a.sh''], [''+x'', ''/repo/a.sh'']]"
  by code_simp

text \<open>Two stopped services of a Compose project, and the finding on the first.\<close>

definition two_services :: report where
  "two_services = two_scripts
     \<lparr>r_Collectors := [zero_result\<lparr>c_Name := ''compose_status'', c_Evidence :=
        [mk_ev ''compose_service_web_status'' ''exited'', mk_ev ''compose_service_db_status'' ''exited'']\<rparr>],
      r_Findings := [zero_finding\<lparr>f_ID := ''F-CONTAINER-001'',
        f_Evidence := [mk_ev ''compose_service_web_status'' ''exited''],
        f_FixHints := [''compose-up'', ''inspect-service'']\<rparr>]\<rparr>"

definition compose_options :: resolve_options where
  "compose_options =
     \<lparr>ro_FindingID = ''F-CONTAINER-001'', ro_Source = FixSourceFreshScan, ro_RunID = [], ro_ReportAge = 0\<rparr>"

text \<open>
  The service a \<open>compose-up\<close> proposal starts is any stopped service of the report, as the order
  of the map has it: for the finding on \<open>web\<close> it may be \<open>db\<close>.
\<close>

theorem compose_up_any_service:
  "map (\<lambda>p. last (p_Args p)) (filter (\<lambda>p. p_HintID p = ''compose-up'')
     (proposals_of (Resolve linux_env NewRegistry (Some two_services) compose_options))) = [''web''] \<and>
   map (\<lambda>p. last (p_Args p)) (filter (\<lambda>p. p_HintID p = ''compose-up'')
     (proposals_of (Resolve (linux_env\<lparr>fe_order := \<lambda>_. rev\<rparr>) NewRegistry (Some two_services)
       compose_options))) = [''db'']"
  by (rule conjI) code_simp+

text \<open>
  What a value bound to a placeholder is, by its name: what the validators made of the evidence, and the
  text of the evidence itself for the names that go into no path, port or name.
\<close>

definition sound_binding ::
  "fix_env \<Rightarrow> string \<Rightarrow> (string \<times> string) list \<Rightarrow> string \<Rightarrow> string \<Rightarrow> bool" where
  "sound_binding env rt evs name v \<longleftrightarrow>
     name = ''repo_root'' \<and> v = Clean rt \<or>
     name = ''path'' \<and> (\<exists>raw. map_of evs ''host_script_not_executable'' = Some raw \<and>
        ValidatePath (fe_home env) rt raw = Inr v) \<or>
     name = ''port'' \<and> (\<exists>n. v = itoa n \<and> 1 \<le> n \<and> n \<le> 65535 \<and>
        (\<exists>req \<in> {''compose_host_port'', ''host_listen_port''}. \<exists>raw. map_of evs req = Some raw \<and>
           atoi (port_of_evidence raw) = Some n)) \<or>
     name = ''keys'' \<and> (\<exists>raw. map_of evs ''missing_keys'' = Some raw \<and>
        v = join '' '' (filter validEnvKey (map trim_space (split_at '','' raw)))) \<or>
     name = ''service'' \<and> validServiceName v \<and>
        (\<exists>source. trim_suffix (trim_prefix source ''compose_service_'') ''_status'' = v \<and>
           (\<exists>status \<in> {''exited'', ''dead'', ''restarting''}. map_of evs source = Some status)) \<or>
     name = ''status'' \<and> v \<in> {''exited'', ''dead'', ''restarting''} \<or>
     name \<in> {''env'', ''disk'', ''docker'', ''value''} \<and> v \<noteq> [] \<and> (\<exists>req. map_of evs req = Some v)"

definition sound_bindings ::
  "fix_env \<Rightarrow> string \<Rightarrow> (string \<times> string) list \<Rightarrow> (string \<times> string) list \<Rightarrow> bool" where
  "sound_bindings env rt evs vals \<longleftrightarrow> (\<forall>name v. map_of vals name = Some v \<longrightarrow> sound_binding env rt evs name v)"

lemma sound_bindings_update:
  "sound_bindings env rt evs vals \<Longrightarrow> sound_binding env rt evs name v \<Longrightarrow>
   sound_bindings env rt evs (AList.update name v vals)"
  by (auto simp: sound_bindings_def update_conv split: if_splits)

lemma valid_keys_eq: "valid_keys raw = filter validEnvKey (map trim_space (split_at '','' raw))"
proof -
  have "(case ValidateEnvKey k of Inr v \<Rightarrow> True | Inl e \<Rightarrow> False) \<longleftrightarrow> validEnvKey k" for k
    by (simp add: ValidateEnvKey_def validEnvKey_def split: list.split)
  then show ?thesis by (simp add: valid_keys_def)
qed

lemma sound_bindingI:
  "map_of evs ''host_script_not_executable'' = Some raw \<Longrightarrow> ValidatePath (fe_home env) rt raw = Inr v \<Longrightarrow>
     sound_binding env rt evs ''path'' v"
  "req \<in> {''compose_host_port'', ''host_listen_port''} \<Longrightarrow> map_of evs req = Some raw \<Longrightarrow>
     atoi (port_of_evidence raw) = Some n \<Longrightarrow> 1 \<le> n \<Longrightarrow> n \<le> 65535 \<Longrightarrow> sound_binding env rt evs ''port'' (itoa n)"
  "map_of evs ''missing_keys'' = Some raw \<Longrightarrow> sound_binding env rt evs ''keys'' (join '' '' (valid_keys raw))"
  "name \<in> {''env'', ''disk'', ''docker'', ''value''} \<Longrightarrow> v \<noteq> [] \<Longrightarrow> map_of evs req = Some v \<Longrightarrow>
     sound_binding env rt evs name v"
  "validServiceName v \<Longrightarrow> trim_suffix (trim_prefix source ''compose_service_'') ''_status'' = v \<Longrightarrow>
     map_of evs source = Some status \<Longrightarrow> status \<in> {''exited'', ''dead'', ''restarting''} \<Longrightarrow>
     sound_binding env rt evs ''service'' v \<and> sound_binding env rt evs ''status'' status"
  unfolding sound_binding_def valid_keys_eq
      apply (rule disjI2, rule disjI1, intro conjI exI; (assumption | rule refl))
     apply (rule disjI2, rule disjI2, rule disjI1, intro conjI exI bexI; (assumption | rule refl))
    apply (rule disjI2, rule disjI2, rule disjI2, rule disjI1, intro conjI exI; (assumption | rule refl))
   apply (rule disjI2, rule disjI2, rule disjI2, rule disjI2, rule disjI2, rule disjI2, intro conjI exI; assumption)
  apply (rule conjI, rule disjI2, rule disjI2, rule disjI2, rule disjI2, rule disjI1, intro conjI exI bexI; (assumption | rule refl)?)
  apply (rule disjI2, rule disjI2, rule disjI2, rule disjI2, rule disjI2, rule disjI1, intro conjI; (assumption | rule refl))
  done

lemma bind_evidence_sound:
  assumes "map_of evs req = Some val" "val \<noteq> []" "bind_evidence env rt req val = Inr kv"
  shows "sound_binding env rt evs (fst kv) (snd kv)"
proof -
  note raw = assms(1) and full = assms(2) and kv = assms(3) [unfolded bind_evidence_def]
  have plain: "sound_binding env rt evs (fst kv) (snd kv)" if "kv = (name, val)" "name \<in> {''env'', ''disk'', ''docker'', ''value''}" for name
    unfolding that(1) fst_conv snd_conv by (rule sound_bindingI(4) [OF that(2) full raw])
  show ?thesis
  proof (cases "req = ''host_script_not_executable''")
    case True
    then obtain p where "ValidatePath (fe_home env) rt val = Inr p" "kv = (''path'', p)"
      using kv by (auto split: sum.splits)
    with True raw show ?thesis by (simp add: sound_bindingI(1))
  next
    case script: False
    show ?thesis
    proof (cases "req = ''git_tracked_env'' \<or> req = ''git_env_exists''")
      case True
      then have "kv = (''env'', val)" using kv script by simp
      then show ?thesis by (rule plain) simp
    next
      case git: False
      show ?thesis
      proof (cases "req = ''compose_host_port'' \<or> req = ''host_listen_port''")
        case True
        then obtain n where n: "ValidatePort (port_of_evidence val) = Inr n" "kv = (''port'', itoa n)"
          using kv script git by (auto split: sum.splits)
        from n(1) have "atoi (port_of_evidence val) = Some n" "1 \<le> n" "n \<le> 65535"
          by (auto simp: ValidatePort_def split: if_splits option.splits)
        with True raw n(2) show ?thesis using sound_bindingI(2) [of req evs val n] by simp
      next
        case port: False
        show ?thesis
        proof (cases "req = ''missing_keys''")
          case True
          then have "kv = (''keys'', join '' '' (valid_keys val))" using kv by simp
          with True raw show ?thesis by (simp add: sound_bindingI(3))
        next
          case False
          have rest: "(Inr kv :: validate_error + string \<times> string) = (if req = ''host_disk_free_bytes'' \<or> req = ''host_disk_free_pct'' then Inr (''disk'', val)
              else if req = ''docker_socket_permission_denied'' then Inr (''docker'', val) else Inr (''value'', val))"
            using kv [symmetric] False script git port by (simp only: if_False simp_thms de_Morgan_disj)
          show ?thesis
          proof (cases "req = ''host_disk_free_bytes'' \<or> req = ''host_disk_free_pct''")
            case True
            then have "kv = (''disk'', val)" using rest by (simp only: if_True sum.inject)
            then show ?thesis by (rule plain) simp
          next
            case disk: False
            then have "kv = (''docker'', val) \<or> kv = (''value'', val)"
              using rest by (cases "req = ''docker_socket_permission_denied''") (simp_all only: if_True if_False sum.inject simp_thms)
            then show ?thesis by (elim disjE) (rule plain, assumption, simp)+
          qed
        qed
      qed
    qed
  qed
qed

text \<open>The service is found among the keys of the evidence, in whatever order these come.\<close>

definition keeps_keys :: "fix_env \<Rightarrow> bool" where
  "keeps_keys env \<longleftrightarrow> (\<forall>i ks. set (fe_order env i ks) = set ks)"

lemma composeStatus_sound:
  assumes "keeps_keys env" "composeStatusEvidence (fe_order env) evs = Some sv"
  shows "sound_binding env rt evs ''service'' (fst sv)" "sound_binding env rt evs ''status'' (snd sv)"
proof -
  have "sv \<in> set (List.map_filter (\<lambda>source. compose_status_of source (the (map_of evs source)))
      (fe_order env ''evidence'' (map fst evs)))"
    using assms(2) by (auto simp: composeStatusEvidence_def split: list.splits)
  then obtain source where s: "source \<in> fst ` set evs" "compose_status_of source (the (map_of evs source)) = Some sv"
    using assms(1) by (auto simp: set_map_filter_iff keeps_keys_def)
  then obtain status where m: "map_of evs source = Some status" by (metis map_of_eq_None_iff not_None_eq)
  have "validServiceName (fst sv) \<and> trim_suffix (trim_prefix source ''compose_service_'') ''_status'' = fst sv \<and>
      snd sv = status \<and> status \<in> {''exited'', ''dead'', ''restarting''}"
    using s(2) m by (auto simp: compose_status_of_def ValidateServiceName_def split: if_splits)
  with m sound_bindingI(5) [of "fst sv" source evs status]
  show "sound_binding env rt evs ''service'' (fst sv)" "sound_binding env rt evs ''status'' (snd sv)" by simp_all
qed

lemma validate_reqs_sound:
  "keeps_keys env \<Longrightarrow> sound_bindings env rt evs vals \<Longrightarrow>
   validate_reqs env rt evs reqs vals missing = Inr (vals', missing') \<Longrightarrow> sound_bindings env rt evs vals'"
proof (induction env rt evs reqs vals missing rule: validate_reqs.induct)
  case (2 env rt evs req reqs vals missing)
  show ?case
  proof (cases "req = ''compose_status''")
    case True
    then show ?thesis
      using 2 composeStatus_sound [OF "2.prems"(1)] sound_bindings_update
      by (cases "composeStatusEvidence (fe_order env) evs") auto
  next
    case False
    show ?thesis
    proof (cases "\<exists>val. map_of evs req = Some val \<and> val \<noteq> []")
      case True
      then obtain val where v: "map_of evs req = Some val" "val \<noteq> []" by blast
      with 2 False obtain kv where kv: "bind_evidence env rt req val = Inr kv"
        by (auto split: sum.splits)
      have b: "sound_bindings env rt evs (AList.update (fst kv) (snd kv) vals)"
        by (intro sound_bindings_update "2.prems" bind_evidence_sound [OF v kv])
      show ?thesis using "2.IH"(5) [OF False v(1) v(2) kv "2.prems"(1) b] "2.prems" False v kv by simp
    qed (use 2 False in \<open>auto split: option.splits\<close>)
  qed
qed simp

lemma validateEvidence_sound:
  assumes "keeps_keys env" "validateEvidence env tmpl evs rt0 = Inr (vals, missing)"
  shows "\<exists>rt. absolute_root env rt0 = Some rt \<and> sound_bindings env rt evs vals"
proof -
  obtain rt where rt: "absolute_root env rt0 = Some rt"
    "validate_reqs env rt evs (t_RequiredEvidence tmpl) [(''repo_root'', Clean rt)] [] = Inr (vals, missing)"
    using assms(2) by (auto simp: validateEvidence_def split: option.splits)
  have "sound_bindings env rt evs [(''repo_root'', Clean rt)]" by (simp add: sound_bindings_def sound_binding_def)
  with validate_reqs_sound [OF assms(1) _ rt(2)] rt(1) show ?thesis by blast
qed

text \<open>What a proposal owes to its template: its command is the template's with sound values put in.\<close>

definition from_template ::
  "fix_env \<Rightarrow> string \<Rightarrow> (string \<times> string) list \<Rightarrow> fix_template \<Rightarrow> fix_proposal \<Rightarrow> bool" where
  "from_template env rt0 evs tmpl p \<longleftrightarrow>
     IsApplicable (fe_goos env) tmpl \<and> p_Class p = t_Class tmpl \<and> p_Bin p = t_Bin tmpl \<and>
     length (p_Args p) = length (t_Args tmpl) \<and>
     list_all (\<lambda>a. \<not> contains a ''{{'') (p_Args p @ p_Rollback p) \<and>
     (p_Class p = FixManual \<or> list_all (has_required env evs) (t_RequiredEvidence tmpl)) \<and>
     (\<exists>rt vals. absolute_root env rt0 = Some rt \<and> sound_bindings env rt evs vals \<and>
        BindTemplate (fe_order env) tmpl vals = Inr (p_Args p, p_Rollback p))"

lemma propose_from_template:
  assumes keys: "keeps_keys env" and made: "propose env reg evs rt opts hint = Some p"
  shows "p_HintID p = hint \<and> p_FindingID p = ro_FindingID opts \<and>
    (\<exists>tmpl. Lookup reg hint = Some tmpl \<and> from_template env rt evs tmpl p)"
proof -
  obtain tmpl where tmpl: "Lookup reg hint = Some tmpl" "IsApplicable (fe_goos env) tmpl"
    using made by (auto simp: propose_def split: option.splits if_splits)
  obtain vals missing where vm: "validateEvidence env tmpl evs rt = Inr (vals, missing)"
      "\<not> (missing \<noteq> [] \<and> t_Class tmpl \<noteq> FixManual)"
    using made tmpl by (auto simp: propose_def split: sum.splits if_splits)
  obtain args rollback where b: "BindTemplate (fe_order env) tmpl vals = Inr (args, rollback)"
    using made tmpl vm by (cases "BindTemplate (fe_order env) tmpl vals") (auto simp: propose_def)
  have p: "p_HintID p = hint" "p_FindingID p = ro_FindingID opts" "p_Class p = t_Class tmpl"
      "p_Bin p = t_Bin tmpl" "p_Args p = args" "p_Rollback p = rollback"
    using made tmpl vm b by (auto simp: propose_def)
  have "t_Class tmpl = FixManual \<or> list_all (has_required env evs) (t_RequiredEvidence tmpl)"
    using vm validateEvidence_missing [OF vm(1)] by (auto simp: filter_empty_conv list_all_iff)
  with p tmpl b BindTemplate_no_placeholder [OF b] validateEvidence_sound [OF keys vm(1)] show ?thesis
    by (auto simp: from_template_def list_all_iff)
qed



end
