(* ===== verification/Cmdrunner.thy ===== *)
theory Cmdrunner
  imports Schema
begin

text \<open>
  \<open>internal/cmdrunner\<close>: the buffer that limits captured output, and how the outcome of a process is
  turned into a result. Starting, waiting for and killing the process is the operating system's;
  what came of it is an argument, with the chunks the process wrote to its outputs.
\<close>

section \<open>The capped buffer\<close>

record capped_buffer =
  cb_buf :: string
  cb_cap :: int
  cb_seen :: int
  cb_truncated :: bool

definition maxCaptureBytes :: int where
  "maxCaptureBytes = 10 * 1024 * 1024"

definition TruncationMarker :: string where
  "TruncationMarker = CHR 0x0A # ''... [output truncated]''"

definition NewCappedBuffer :: "int \<Rightarrow> capped_buffer" where
  "NewCappedBuffer c =
     \<lparr>cb_buf = [], cb_cap = (if c \<le> 0 then maxCaptureBytes else c), cb_seen = 0, cb_truncated = False\<rparr>"

definition CappedBuffer_Write :: "capped_buffer \<Rightarrow> string \<Rightarrow> capped_buffer" where
  "CappedBuffer_Write b p =
     (let b = b\<lparr>cb_seen := wrap64 (cb_seen b + int (length p))\<rparr>;
          remaining = cb_cap b - int (length (cb_buf b))
      in if cb_truncated b then b
         else if remaining \<le> 0 then b\<lparr>cb_truncated := True\<rparr>
         else if int (length p) > remaining
         then b\<lparr>cb_buf := cb_buf b @ take (nat remaining) p, cb_truncated := True\<rparr>
         else b\<lparr>cb_buf := cb_buf b @ p\<rparr>)"

definition CappedBuffer_String :: "capped_buffer \<Rightarrow> string" where
  "CappedBuffer_String b = (if cb_truncated b then cb_buf b @ TruncationMarker else cb_buf b)"

definition CappedBuffer_Len :: "capped_buffer \<Rightarrow> nat" where
  "CappedBuffer_Len b = length (cb_buf b)"

definition write_all :: "capped_buffer \<Rightarrow> string list \<Rightarrow> capped_buffer" where
  "write_all b ps = foldl CappedBuffer_Write b ps"

section \<open>Results of commands\<close>

record cmd_result =
  cr_Command :: string
  cr_Args :: "string list"
  cr_Stdout :: string
  cr_Stderr :: string
  cr_ExitCode :: int
  cr_TimedOut :: bool
  cr_NotFound :: bool
  cr_PermissionDenied :: bool
  cr_StdoutTruncated :: bool
  cr_StderrTruncated :: bool
  cr_StdoutSeenBytes :: int
  cr_StderrSeenBytes :: int

record run_options =
  rn_Dir :: string
  rn_Stdin :: "string option"
  rn_StdoutCapBytes :: int
  rn_StderrCapBytes :: int

definition zero_cmd_result :: cmd_result where
  "zero_cmd_result =
     \<lparr>cr_Command = [], cr_Args = [], cr_Stdout = [], cr_Stderr = [], cr_ExitCode = 0, cr_TimedOut = False,
      cr_NotFound = False, cr_PermissionDenied = False, cr_StdoutTruncated = False,
      cr_StderrTruncated = False, cr_StdoutSeenBytes = 0, cr_StderrSeenBytes = 0\<rparr>"

definition zero_run_options :: run_options where
  "zero_run_options = \<lparr>rn_Dir = [], rn_Stdin = None, rn_StdoutCapBytes = 0, rn_StderrCapBytes = 0\<rparr>"

definition isPermissionDenied :: "string \<Rightarrow> bool" where
  "isPermissionDenied stderr =
     (if stderr = [] then False
      else contains (to_lower stderr) ''permission denied'' \<or> contains (to_lower stderr) ''access denied'')"

text \<open>What became of a process: the errors are classified as \<open>errors.Is\<close> and the type tests do.\<close>

datatype os_error = OsNotFound | OsPermission | OsOther

datatype process_outcome =
    StartFailed os_error
  | Exited int
  | ContextDone
  | WaitFailed os_error

definition captured :: "cmd_result \<Rightarrow> capped_buffer \<Rightarrow> capped_buffer \<Rightarrow> cmd_result" where
  "captured res out errb = res
     \<lparr>cr_Stdout := CappedBuffer_String out, cr_Stderr := CappedBuffer_String errb,
      cr_StdoutTruncated := cb_truncated out, cr_StderrTruncated := cb_truncated errb,
      cr_StdoutSeenBytes := cb_seen out, cr_StderrSeenBytes := cb_seen errb\<rparr>"

definition RealRunner_RunWithOptions ::
  "run_options \<Rightarrow> string \<Rightarrow> string list \<Rightarrow> process_outcome \<Rightarrow> string list \<Rightarrow> string list \<Rightarrow> cmd_result"
where
  "RealRunner_RunWithOptions opts name args outcome outw errw =
     (let res = zero_cmd_result\<lparr>cr_Command := name, cr_Args := args\<rparr>;
          full = captured res (write_all (NewCappedBuffer (rn_StdoutCapBytes opts)) outw)
                   (write_all (NewCappedBuffer (rn_StderrCapBytes opts)) errw)
      in case outcome of
           StartFailed e \<Rightarrow> res\<lparr>cr_ExitCode := - 1, cr_NotFound := (e = OsNotFound),
                              cr_PermissionDenied := (e = OsPermission)\<rparr>
         | ContextDone \<Rightarrow> full\<lparr>cr_TimedOut := True, cr_ExitCode := - 1\<rparr>
         | Exited code \<Rightarrow>
             if code = 0 then full\<lparr>cr_ExitCode := 0\<rparr>
             else full\<lparr>cr_ExitCode := code,
                       cr_PermissionDenied := isPermissionDenied (cr_Stderr full)\<rparr>
         | WaitFailed e \<Rightarrow>
             if e = OsNotFound then full\<lparr>cr_NotFound := True, cr_ExitCode := - 1\<rparr>
             else full\<lparr>cr_ExitCode := - 1, cr_PermissionDenied := (e = OsPermission)\<rparr>)"

text \<open>A runner with or without options; the absent one is the real runner.\<close>

datatype command_runner =
    OptionRunner "run_options \<Rightarrow> string \<Rightarrow> string list \<Rightarrow> cmd_result"
  | PlainRunner "string \<Rightarrow> string list \<Rightarrow> cmd_result"

definition RunWithOptions ::
  "command_runner \<Rightarrow> run_options \<Rightarrow> string \<Rightarrow> string list \<Rightarrow> cmd_result" where
  "RunWithOptions r opts name args =
     (case r of OptionRunner run \<Rightarrow> run opts name args | PlainRunner run \<Rightarrow> run name args)"

section \<open>What the buffer holds\<close>

text \<open>The state after writing \<open>s\<close> in non-empty chunks, within the range of Go's \<open>int\<close>.\<close>

definition holds :: "nat \<Rightarrow> string \<Rightarrow> capped_buffer \<Rightarrow> bool" where
  "holds c s b \<longleftrightarrow> cb_cap b = int c \<and> cb_buf b = take c s \<and> cb_seen b = int (length s) \<and>
     (cb_truncated b \<longleftrightarrow> length s > c)"

lemma holds_write:
  assumes "holds c s b" "p \<noteq> []" "int (length (s @ p)) \<le> max_int64"
  shows "holds c (s @ p) (CappedBuffer_Write b p)"
proof -
  have seen: "wrap64 (cb_seen b + int (length p)) = int (length (s @ p))"
    using assms(1,3) by (subst wrap64_id) (auto simp: holds_def min_int64_def)
  consider "length s > c" | "length s \<le> c" "length s = c" | "length s < c" by linarith
  then show ?thesis
  proof cases
    case 1
    with assms(1) seen show ?thesis by (simp add: holds_def CappedBuffer_Write_def)
  next
    case 2
    moreover have "length p > 0" using assms(2) by simp
    ultimately show ?thesis using assms(1) seen by (simp add: holds_def CappedBuffer_Write_def)
  next
    case 3
    then have "nat (int c - int (length s)) = c - length s" by simp
    with 3 assms(1) seen show ?thesis
      by (auto simp: holds_def CappedBuffer_Write_def Let_def)
  qed
qed

lemma holds_write_all:
  "holds c s b \<Longrightarrow> [] \<notin> set ps \<Longrightarrow> int (length (s @ concat ps)) \<le> max_int64 \<Longrightarrow>
   holds c (s @ concat ps) (write_all b ps)"
proof (induction ps arbitrary: s b)
  case Nil
  then show ?case by (simp add: write_all_def)
next
  case (Cons p ps)
  then have "holds c (s @ p) (CappedBuffer_Write b p)" by (intro holds_write) auto
  from Cons.IH [OF this] Cons.prems show ?case by (simp add: write_all_def)
qed

text \<open>
  However the output is cut into non-empty chunks, the buffer holds its first bytes up to the
  capacity, counts all of it, and is marked truncated exactly when something was dropped.
\<close>

theorem CappedBuffer_writes:
  assumes "[] \<notin> set ps" "0 < c" "int (length (concat ps)) \<le> max_int64"
  shows "cb_buf (write_all (NewCappedBuffer (int c)) ps) = take c (concat ps) \<and>
    cb_seen (write_all (NewCappedBuffer (int c)) ps) = int (length (concat ps)) \<and>
    (cb_truncated (write_all (NewCappedBuffer (int c)) ps) \<longleftrightarrow> length (concat ps) > c) \<and>
    CappedBuffer_String (write_all (NewCappedBuffer (int c)) ps) =
      take c (concat ps) @ (if length (concat ps) > c then TruncationMarker else [])"
proof -
  have "holds c [] (NewCappedBuffer (int c))" using assms(2) by (simp add: holds_def NewCappedBuffer_def)
  from holds_write_all [OF this assms(1)] assms(3)
  have "holds c (concat ps) (write_all (NewCappedBuffer (int c)) ps)" by simp
  then show ?thesis by (simp add: holds_def CappedBuffer_String_def)
qed

theorem CappedBuffer_writes_witness:
  "cb_buf (write_all (NewCappedBuffer 4) [''abc'', ''def'']) = ''abcd'' \<and>
   cb_truncated (write_all (NewCappedBuffer 4) [''abc'', ''def''])"
  using CappedBuffer_writes [of "[''abc'', ''def'']" 4] by (simp add: max_int64_def)

end
