(* ===== verification/Fix_Executor.thy ===== *)
theory Fix_Executor
  imports Fix_Planner Cmdrunner
begin

text \<open>
  \<open>internal/fix/executor.go\<close>: the execution of one proposal. Its effects are a list of events, in
  order: entries handed to the audit log, the confirmation dialog, commands handed to the runner.
  What the world answers is a record: whether there is an audit log, whether its preflight and its
  final write fail, the line typed at the confirmation, and the command runner. Times are left out
  of the entries, and the message of the final write's error is text.
\<close>

datatype audit_error = AuditPermission | AuditOther

record exec_world =
  ew_audit :: bool
  ew_preflight :: "audit_error option"
  ew_final :: "string option"
  ew_answer :: "string option"
  ew_runner :: command_runner

record exec_options =
  eo_Apply :: bool
  eo_Fresh :: bool
  eo_Interactive :: bool
  eo_Redact :: "(string \<Rightarrow> string) option"
  eo_CaptureCapBytes :: int

datatype exec_event =
    AuditWrite fix_audit_entry
  | Prompted string
  | CommandRun string "string list"

text \<open>The errors of \<open>Execute\<close>; those marked by a flag wrap \<open>ErrPermissionDenied\<close> when it is set.\<close>

datatype exec_error =
    FixIsBlocked string
  | AuditUnavailable bool
  | RequiresFresh
  | DeclinedConfirmation
  | RequiresTTY
  | ManualFix
  | NoCommandBinary
  | RuntimeBlocklist
  | ExecutionFailed string bool

definition audit_entry :: "fix_proposal \<Rightarrow> fix_audit_entry" where
  "audit_entry p =
     \<lparr>a_RunID = p_RunID p, a_FindingID = p_FindingID p, a_HintID = p_HintID p, a_Class = p_Class p,
      a_Source = p_Source p, a_DryRun = False, a_Execution = None, a_Refused = False,
      a_RefuseReason = [], a_Note = []\<rparr>"

text \<open>\<open>e.audit\<close> may be absent; then nothing is written.\<close>

definition write_audit :: "exec_world \<Rightarrow> fix_audit_entry \<Rightarrow> exec_event list" where
  "write_audit w entry = (if ew_audit w then [AuditWrite entry] else [])"

definition refusal :: "fix_proposal \<Rightarrow> string \<Rightarrow> fix_audit_entry" where
  "refusal p reason = (audit_entry p)\<lparr>a_Refused := True, a_RefuseReason := reason\<rparr>"

definition PreflightAudit :: "exec_world \<Rightarrow> fix_proposal \<Rightarrow> exec_event list \<times> audit_error option" where
  "PreflightAudit w p =
     (if \<not> ew_audit w then ([], None)
      else ([AuditWrite ((audit_entry p)\<lparr>a_Note := ''audit_preflight''\<rparr>)], ew_preflight w))"

definition line :: "string \<Rightarrow> string" where
  "line s = s @ [CHR 0x0A]"

definition confirm_text :: "fix_proposal \<Rightarrow> string" where
  "confirm_text p =
     [CHR 0x0A] @ line (''Guarded fix: '' @ p_Title p) @
     (if p_ConfirmMessage p \<noteq> [] then line (''Risk: '' @ p_ConfirmMessage p) else []) @
     line (''Command: '' @ p_Bin p @ '' '' @ join '' '' (p_Args p)) @
     (if p_Rollback p \<noteq> [] then line (''Rollback: '' @ join '' '' (p_Rollback p)) else []) @
     ''Apply? [y/N]: ''"

definition confirmTTY :: "exec_world \<Rightarrow> bool" where
  "confirmTTY w =
     (case ew_answer w of
        None \<Rightarrow> False
      | Some resp \<Rightarrow> trim_space (to_lower resp) = ''y'' \<or> trim_space (to_lower resp) = ''yes'')"

text \<open>The checks on guarded fixes: the events and the error of the refusal, if there is one.\<close>

definition guard_checks ::
  "exec_world \<Rightarrow> exec_options \<Rightarrow> (string \<Rightarrow> string) \<Rightarrow> fix_proposal \<Rightarrow> exec_event list \<times> exec_error option"
where
  "guard_checks w opts redact p =
     (if p_Class p \<noteq> FixGuarded then ([], None)
      else if \<not> eo_Fresh opts \<and> p_Source p = FixSourceSavedReport
      then (write_audit w (refusal p (redact ''guarded fix requires --fresh or fresh scan'')),
            Some RequiresFresh)
      else if eo_Interactive opts
      then if \<not> confirmTTY w
           then (Prompted (confirm_text p) # write_audit w (refusal p (redact ''user declined confirmation'')),
                 Some DeclinedConfirmation)
           else ([Prompted (confirm_text p)], None)
      else (write_audit w (refusal p (redact ''guarded fix requires interactive TTY'')),
            Some RequiresTTY))"

definition zero_execution :: "fix_proposal \<Rightarrow> fix_execution" where
  "zero_execution p =
     \<lparr>x_FindingID = p_FindingID p, x_HintID = p_HintID p, x_Success = False, x_ExitCode = 0,
      x_Stdout = [], x_Stderr = [], x_Error = []\<rparr>"

text \<open>The execution a result amounts to, and whether it is a matter of privileges.\<close>

definition classify_result ::
  "(string \<Rightarrow> string) \<Rightarrow> string \<Rightarrow> fix_execution \<Rightarrow> cmd_result \<Rightarrow> fix_execution \<times> bool" where
  "classify_result redact bin execution res =
     (let x = execution\<lparr>x_Stdout := redact (cr_Stdout res), x_Stderr := redact (cr_Stderr res),
                        x_ExitCode := cr_ExitCode res\<rparr>
      in if cr_TimedOut res then (x\<lparr>x_Success := False, x_Error := ''fix command timed out''\<rparr>, False)
         else if cr_NotFound res
         then (x\<lparr>x_Success := False, x_Error := ''command not found: '' @ bin\<rparr>, False)
         else if cr_PermissionDenied res
         then (x\<lparr>x_Success := False, x_Error := ''permission denied running '' @ bin\<rparr>, True)
         else if cr_ExitCode res \<noteq> 0
         then (x\<lparr>x_Success := False,
                 x_Error := redact (''command exited with code '' @ itoa (cr_ExitCode res))\<rparr>, False)
         else (x\<lparr>x_Success := True\<rparr>, False))"

text \<open>The final audit entry; its failure outranks the result of the command.\<close>

definition final_audit :: "exec_world \<Rightarrow> fix_execution \<times> bool \<Rightarrow> fix_execution \<times> bool" where
  "final_audit w xd =
     (if \<not> ew_audit w then xd
      else case ew_final w of
             None \<Rightarrow> xd
           | Some err \<Rightarrow>
               let msg = ''failed to write final audit entry: '' @ err
               in ((fst xd)\<lparr>x_Error := (if x_Error (fst xd) \<noteq> [] then x_Error (fst xd) @ ''; '' @ msg else msg),
                            x_Success := False\<rparr>, False))"

definition command_of :: "fix_proposal \<Rightarrow> string \<times> string list" where
  "command_of p =
     (if p_Bin p = [] \<and> p_Args p \<noteq> [] then (hd (p_Args p), tl (p_Args p)) else (p_Bin p, p_Args p))"

type_synonym exec_result = "exec_event list \<times> fix_execution option \<times> exec_error option"

definition run_fix ::
  "exec_world \<Rightarrow> exec_options \<Rightarrow> (string \<Rightarrow> string) \<Rightarrow> fix_proposal \<Rightarrow> exec_result" where
  "run_fix w opts redact p =
     (let bin = fst (command_of p); args = snd (command_of p)
      in if bin = []
         then ([], Some ((zero_execution p)\<lparr>x_Error := ''no command binary specified''\<rparr>),
               Some NoCommandBinary)
         else if IsBlockedCommand bin args
         then ([], Some ((zero_execution p)\<lparr>x_Error := ''command matches runtime blocklist''\<rparr>),
               Some RuntimeBlocklist)
         else let res = RunWithOptions (ew_runner w)
                    (zero_run_options\<lparr>rn_StdoutCapBytes := eo_CaptureCapBytes opts,
                                      rn_StderrCapBytes := eo_CaptureCapBytes opts\<rparr>) bin args;
                  xd = classify_result redact bin (zero_execution p) res;
                  fin = final_audit w xd
              in (CommandRun bin args # write_audit w ((audit_entry p)\<lparr>a_Execution := Some (fst xd)\<rparr>),
                  Some (fst fin),
                  if \<not> x_Success (fst fin) then Some (ExecutionFailed (x_Error (fst fin)) (snd fin))
                  else None))"

definition Execute :: "exec_world \<Rightarrow> exec_options \<Rightarrow> fix_proposal \<Rightarrow> exec_result" where
  "Execute w opts p =
     (let redact = (case eo_Redact opts of Some r \<Rightarrow> r | None \<Rightarrow> (\<lambda>s. s))
      in if p_Class p = FixBlocked
         then (write_audit w ((refusal p (redact (p_BlockedReason p)))\<lparr>a_DryRun := \<not> eo_Apply opts\<rparr>),
               None, Some (FixIsBlocked (p_BlockedReason p)))
         else if \<not> eo_Apply opts
         then (write_audit w ((audit_entry p)\<lparr>a_DryRun := True\<rparr>), None, None)
         else case snd (PreflightAudit w p) of
                Some err \<Rightarrow>
                  (fst (PreflightAudit w p), None, Some (AuditUnavailable (err = AuditPermission)))
              | None \<Rightarrow>
                  let pre = fst (PreflightAudit w p); gc = guard_checks w opts redact p
                  in case snd gc of
                       Some err \<Rightarrow> (pre @ fst gc, None, Some err)
                     | None \<Rightarrow>
                         if p_Class p = FixManual
                         then (pre @ fst gc @
                               write_audit w (refusal p (redact ''manual fix is not executable'')),
                               None, Some ManualFix)
                         else let r = run_fix w opts redact p
                              in (pre @ fst gc @ fst r, snd r))"

section \<open>What may run\<close>

definition command_events :: "exec_event list \<Rightarrow> exec_event list" where
  "command_events es = filter (\<lambda>e. \<exists>bin args. e = CommandRun bin args) es"

lemma command_events_simps [simp]:
  "command_events [] = []"
  "command_events (AuditWrite a # es) = command_events es"
  "command_events (Prompted t # es) = command_events es"
  "command_events (CommandRun b args # es) = CommandRun b args # command_events es"
  "command_events (es @ es') = command_events es @ command_events es'"
  by (simp_all add: command_events_def)

lemma write_audit_commands [simp]: "command_events (write_audit w a) = []"
  by (simp add: write_audit_def)

lemma preflight_events: "fst (PreflightAudit w p) =
    write_audit w ((audit_entry p)\<lparr>a_Note := ''audit_preflight''\<rparr>)"
  by (simp add: PreflightAudit_def write_audit_def)

lemma preflight_ok: "snd (PreflightAudit w p) = (if ew_audit w then ew_preflight w else None)"
  by (simp add: PreflightAudit_def)

lemma guard_events: "command_events (fst (guard_checks w opts r p)) = []"
  by (simp add: guard_checks_def)

text \<open>The guarded fix is let through.\<close>

definition guard_passed :: "exec_world \<Rightarrow> exec_options \<Rightarrow> fix_proposal \<Rightarrow> bool" where
  "guard_passed w opts p \<longleftrightarrow> p_Class p \<noteq> FixGuarded \<or>
     eo_Interactive opts \<and> confirmTTY w \<and> (eo_Fresh opts \<or> p_Source p \<noteq> FixSourceSavedReport)"

lemma guard_passed_iff: "snd (guard_checks w opts r p) = None \<longleftrightarrow> guard_passed w opts p"
  by (auto simp: guard_checks_def guard_passed_def)

lemma guard_passed_snd: "guard_passed w opts p \<Longrightarrow> snd (guard_checks w opts r p) = None"
  by (simp add: guard_passed_iff)

lemma guard_passed_events:
  "guard_passed w opts p \<Longrightarrow> fst (guard_checks w opts r p) =
     (if p_Class p = FixGuarded then [Prompted (confirm_text p)] else [])"
  by (auto simp: guard_checks_def guard_passed_def)

text \<open>Whether \<open>Execute\<close> gets as far as the command.\<close>

definition cleared :: "exec_world \<Rightarrow> exec_options \<Rightarrow> fix_proposal \<Rightarrow> bool" where
  "cleared w opts p \<longleftrightarrow> eo_Apply opts \<and> p_Class p \<notin> {FixBlocked, FixManual} \<and>
     (ew_audit w \<longrightarrow> ew_preflight w = None) \<and> guard_passed w opts p"

definition redact_of :: "exec_options \<Rightarrow> string \<Rightarrow> string" where
  "redact_of opts = (case eo_Redact opts of Some r \<Rightarrow> r | None \<Rightarrow> (\<lambda>s. s))"

lemma Execute_cleared:
  "cleared w opts p \<Longrightarrow> Execute w opts p =
     (write_audit w ((audit_entry p)\<lparr>a_Note := ''audit_preflight''\<rparr>) @
      (if p_Class p = FixGuarded then [Prompted (confirm_text p)] else []) @
      fst (run_fix w opts (redact_of opts) p), snd (run_fix w opts (redact_of opts) p))"
  by (auto simp: Execute_def Let_def cleared_def preflight_ok preflight_events guard_passed_snd
      guard_passed_events redact_of_def split: if_splits)

lemma Execute_not_cleared: "\<not> cleared w opts p \<Longrightarrow> command_events (fst (Execute w opts p)) = []"
  by (auto simp: Execute_def Let_def cleared_def preflight_ok preflight_events guard_events
      guard_passed_iff split: option.splits if_splits)

lemma run_fix_commands:
  "command_events (fst (run_fix w opts r p)) =
     (if fst (command_of p) = [] \<or> IsBlockedCommand (fst (command_of p)) (snd (command_of p)) then []
      else [CommandRun (fst (command_of p)) (snd (command_of p))])"
  by (simp add: run_fix_def Let_def)

text \<open>
  A command runs only for an applied proposal that is neither blocked nor manual, after the audit
  log was found writable, past the checks of guarded fixes (interactive, confirmed, fresh), and not
  on the blocklist; it is the command of the proposal, and it runs once.
\<close>

theorem Execute_runs_only_cleared:
  assumes "CommandRun bin args \<in> set (fst (Execute w opts p))"
  shows "eo_Apply opts \<and> p_Class p \<notin> {FixBlocked, FixManual} \<and>
    (ew_audit w \<longrightarrow> ew_preflight w = None) \<and>
    (p_Class p = FixGuarded \<longrightarrow> eo_Interactive opts \<and> confirmTTY w \<and>
       (eo_Fresh opts \<or> p_Source p \<noteq> FixSourceSavedReport)) \<and>
    (bin, args) = command_of p \<and> bin \<noteq> [] \<and> \<not> IsBlockedCommand bin args \<and>
    command_events (fst (Execute w opts p)) = [CommandRun bin args]"
proof -
  have mem: "CommandRun bin args \<in> set (command_events (fst (Execute w opts p)))"
    using assms by (simp add: command_events_def)
  then have c: "cleared w opts p" using Execute_not_cleared by fastforce
  then have ev: "command_events (fst (Execute w opts p)) =
      command_events (fst (run_fix w opts (redact_of opts) p))"
    by (simp add: Execute_cleared)
  with mem run_fix_commands [of w opts "redact_of opts" p] c show ?thesis
    by (auto simp: cleared_def guard_passed_def split: if_splits)
qed

definition chmod_proposal :: fix_proposal where
  "chmod_proposal =
     \<lparr>p_FindingID = ''F-FS-001'', p_HintID = ''chmod-script'', p_Title = [], p_Class = FixSafe,
      p_Bin = ''chmod'', p_Args = [''+x'', ''/repo/a.sh''], p_Rollback = [], p_ConfirmMessage = [],
      p_BlockedReason = [], p_RequiredEvidence = [], p_Source = FixSourceFreshScan, p_RunID = [],
      p_StalenessWarn = []\<rparr>"

definition quiet_world :: exec_world where
  "quiet_world = \<lparr>ew_audit = True, ew_preflight = None, ew_final = None, ew_answer = None,
     ew_runner = PlainRunner (\<lambda>_ _. zero_cmd_result)\<rparr>"

definition apply_options :: exec_options where
  "apply_options = \<lparr>eo_Apply = True, eo_Fresh = False, eo_Interactive = False, eo_Redact = None,
     eo_CaptureCapBytes = 0\<rparr>"

theorem Execute_runs_only_cleared_witness:
  "CommandRun ''chmod'' [''+x'', ''/repo/a.sh''] \<in> set (fst (Execute quiet_world apply_options chmod_proposal)) \<and>
   \<not> IsBlockedCommand ''chmod'' [''+x'', ''/repo/a.sh'']"
proof -
  have m: "CommandRun ''chmod'' [''+x'', ''/repo/a.sh''] \<in>
      set (fst (Execute quiet_world apply_options chmod_proposal))" by code_simp
  from Execute_runs_only_cleared [OF m] m show ?thesis by blast
qed

section \<open>What is audited\<close>

text \<open>The audit entries among the events, in order.\<close>

fun audited :: "exec_event list \<Rightarrow> fix_audit_entry list" where
  "audited [] = []"
| "audited (AuditWrite a # es) = a # audited es"
| "audited (_ # es) = audited es"

lemma audited_append [simp]: "audited (es @ es') = audited es @ audited es'"
  by (induction es rule: audited.induct) auto

lemma audited_write [simp]: "audited (write_audit w a) = (if ew_audit w then [a] else [])"
  by (simp add: write_audit_def)

text \<open>The reason of a refusal, by its error; refusals before the last check have none in the log.\<close>

fun refuse_reason :: "exec_error \<Rightarrow> string option" where
  "refuse_reason (FixIsBlocked reason) = Some reason"
| "refuse_reason RequiresFresh = Some ''guarded fix requires --fresh or fresh scan''"
| "refuse_reason DeclinedConfirmation = Some ''user declined confirmation''"
| "refuse_reason RequiresTTY = Some ''guarded fix requires interactive TTY''"
| "refuse_reason ManualFix = Some ''manual fix is not executable''"
| "refuse_reason _ = None"

text \<open>The execution tells the result the runner gave, redacted.\<close>

definition tells_result :: "(string \<Rightarrow> string) \<Rightarrow> fix_proposal \<Rightarrow> cmd_result \<Rightarrow> fix_execution \<Rightarrow> bool" where
  "tells_result redact p res x \<longleftrightarrow>
     x_FindingID x = p_FindingID p \<and> x_HintID x = p_HintID p \<and> x_ExitCode x = cr_ExitCode res \<and>
     x_Stdout x = redact (cr_Stdout res) \<and> x_Stderr x = redact (cr_Stderr res) \<and>
     (x_Success x \<longleftrightarrow> \<not> cr_TimedOut res \<and> \<not> cr_NotFound res \<and> \<not> cr_PermissionDenied res \<and> cr_ExitCode res = 0)"

lemma classify_tells: "tells_result redact p res (fst (classify_result redact bin (zero_execution p) res))"
  by (simp add: tells_result_def classify_result_def zero_execution_def Let_def)

definition preflight_entry :: "fix_proposal \<Rightarrow> fix_audit_entry" where
  "preflight_entry p = (audit_entry p)\<lparr>a_Note := ''audit_preflight''\<rparr>"

text \<open>
  C12: with an audit log, the entries that \<open>Execute\<close> hands to it are exactly these, each about the
  proposal. Without the wish to apply: one dry run, or the refusal of a blocked fix. Otherwise, but for
  a blocked fix, first the preflight entry; then, for a command that was run, one entry that is neither a dry
  run nor a refusal and tells the result the runner gave, redacted, and that is the execution returned
  unless the final write fails; for a refusal by a check, one entry with its redacted reason; and nothing
  more for the three refusals that the code does not log: the log cannot be written, the proposal has no
  command, or the command is on the blocklist.
\<close>

theorem Execute_audited:
  assumes log: "ew_audit w" and run: "Execute w opts p = (evs, x, err)"
  shows "if \<not> eo_Apply opts \<and> p_Class p \<noteq> FixBlocked
      then audited evs = [(audit_entry p)\<lparr>a_DryRun := True\<rparr>] \<and> err = None \<and> command_events evs = []
    else if p_Class p = FixBlocked
      then audited evs = [(audit_entry p)\<lparr>a_DryRun := \<not> eo_Apply opts, a_Refused := True,
             a_RefuseReason := redact_of opts (p_BlockedReason p)\<rparr>] \<and> command_events evs = []
    else case command_events evs of
        [] \<Rightarrow>
          (err \<noteq> None \<and>
             (case refuse_reason (the err) of
                Some reason \<Rightarrow> audited evs = [preflight_entry p,
                  (audit_entry p)\<lparr>a_Refused := True, a_RefuseReason := redact_of opts reason\<rparr>]
              | None \<Rightarrow> the err \<in> {AuditUnavailable True, AuditUnavailable False, NoCommandBinary, RuntimeBlocklist} \<and>
                  audited evs = [preflight_entry p]))
      | c # cs \<Rightarrow>
          cs = [] \<and>
          (\<exists>res ex ret. res = RunWithOptions (ew_runner w)
               (zero_run_options\<lparr>rn_StdoutCapBytes := eo_CaptureCapBytes opts, rn_StderrCapBytes := eo_CaptureCapBytes opts\<rparr>)
               (fst (command_of p)) (snd (command_of p)) \<and>
             c = CommandRun (fst (command_of p)) (snd (command_of p)) \<and>
             audited evs = [preflight_entry p, (audit_entry p)\<lparr>a_Execution := Some ex\<rparr>] \<and>
             tells_result (redact_of opts) p res ex \<and>
             x = Some ret \<and> (ew_final w = None \<longrightarrow> ret = ex) \<and> (ew_final w \<noteq> None \<longrightarrow> \<not> x_Success ret) \<and>
             (err = None \<longleftrightarrow> x_Success ret))"
proof (cases "cleared w opts p")
  case True
  then have c: "eo_Apply opts" "p_Class p \<noteq> FixBlocked" by (auto simp: cleared_def)
  let ?r = "run_fix w opts (redact_of opts) p"
  from run True log have evs: "command_events evs = command_events (fst ?r)" "audited evs = preflight_entry p # audited (fst ?r)"
    and x: "(x, err) = snd ?r"
    by (auto simp: Execute_cleared preflight_entry_def)
  let ?b = "fst (command_of p)" and ?a = "snd (command_of p)"
  let ?res = "RunWithOptions (ew_runner w)
    (zero_run_options\<lparr>rn_StdoutCapBytes := eo_CaptureCapBytes opts, rn_StderrCapBytes := eo_CaptureCapBytes opts\<rparr>) ?b ?a"
  let ?xd = "classify_result (redact_of opts) ?b (zero_execution p) ?res"
  show ?thesis
  proof (cases "?b = [] \<or> IsBlockedCommand ?b ?a")
    case none: True
    then have "command_events (fst ?r) = []" "audited (fst ?r) = []"
      "snd (snd ?r) = Some NoCommandBinary \<or> snd (snd ?r) = Some RuntimeBlocklist"
      by (auto simp: run_fix_def Let_def)
    moreover have "err = snd (snd ?r)" using x by (metis snd_conv)
    ultimately show ?thesis using c evs by auto
  next
    case some: False
    then have r: "?r = (CommandRun ?b ?a # write_audit w ((audit_entry p)\<lparr>a_Execution := Some (fst ?xd)\<rparr>),
        Some (fst (final_audit w ?xd)),
        if \<not> x_Success (fst (final_audit w ?xd)) then
          Some (ExecutionFailed (x_Error (fst (final_audit w ?xd))) (snd (final_audit w ?xd))) else None)"
      by (simp add: run_fix_def Let_def)
    have fin: "ew_final w = None \<Longrightarrow> final_audit w ?xd = ?xd" "ew_final w \<noteq> None \<Longrightarrow> \<not> x_Success (fst (final_audit w ?xd))"
      using log by (auto simp: final_audit_def Let_def)
    have ex: "command_events evs = [CommandRun ?b ?a]" "audited evs = [preflight_entry p, (audit_entry p)\<lparr>a_Execution := Some (fst ?xd)\<rparr>]"
      "x = Some (fst (final_audit w ?xd))" "err = None \<longleftrightarrow> x_Success (fst (final_audit w ?xd))"
      using evs x log by (auto simp: r)
    show ?thesis
      using c ex fin classify_tells [of "redact_of opts" p ?res ?b]
      by (simp, intro exI [of _ "fst ?xd"]) auto
  qed
next
  case False
  with run log show ?thesis
    by (auto simp: Execute_def Let_def cleared_def preflight_ok preflight_events guard_checks_def guard_passed_def
        preflight_entry_def refusal_def redact_of_def split: option.splits if_splits)
qed

theorem Execute_audited_witness:
  "audited (fst (Execute quiet_world apply_options chmod_proposal)) =
     [preflight_entry chmod_proposal, (audit_entry chmod_proposal)\<lparr>a_Execution := Some
        ((zero_execution chmod_proposal)\<lparr>x_Success := True\<rparr>)\<rparr>]"
proof -
  obtain evs x err where run: "Execute quiet_world apply_options chmod_proposal = (evs, x, err)"
    by (cases "Execute quiet_world apply_options chmod_proposal")
  have "CommandRun ''chmod'' [''+x'', ''/repo/a.sh''] \<in> set (fst (Execute quiet_world apply_options chmod_proposal))"
    by code_simp
  from Execute_runs_only_cleared [OF this]
  have ev: "command_events (fst (Execute quiet_world apply_options chmod_proposal)) = [CommandRun ''chmod'' [''+x'', ''/repo/a.sh'']]"
    by blast
  have r: "fst (snd (Execute quiet_world apply_options chmod_proposal)) =
      Some ((zero_execution chmod_proposal)\<lparr>x_Success := True\<rparr>)"
    and c: "ew_audit quiet_world" "eo_Apply apply_options" "p_Class chmod_proposal \<noteq> FixBlocked" "ew_final quiet_world = None"
    by code_simp+
  from Execute_audited [OF c(1) run] ev r c show ?thesis by (auto simp: run)
qed

end
