(* ===== verification/Rulepack.thy ===== *)
theory Rulepack
  imports Schema Go_Path Rules_Common
begin

text \<open>
  \<open>internal/rulepack/rulepack.go\<close>: validation of external rule packs and evaluation of those written
  in Rego. What the CUE and YAML libraries make of the file, the contents of the policy files and
  the result of the Rego evaluation are parameters; JSON values are a datatype. The capabilities
  handed to Rego are left out, and a pack that cannot be decoded is the zero pack rather than what the decoder got hold of.
\<close>

section \<open>Packs\<close>

record rule =
  rl_ID :: string
  rl_Severity :: string
  rl_Enabled :: "bool option"

record pack =
  pk_SchemaVersion :: string
  pk_ID :: string
  pk_Name :: string
  pk_Version :: string
  pk_Description :: string
  pk_Engine :: string
  pk_Entrypoint :: string
  pk_PolicyFiles :: "string list"
  pk_Publisher :: string
  pk_License :: string
  pk_Homepage :: string
  pk_DevDiagMinVersion :: string
  pk_Tags :: "string list"
  pk_Rules :: "rule list"

definition zero_pack :: pack where
  "zero_pack = \<lparr>pk_SchemaVersion = [], pk_ID = [], pk_Name = [], pk_Version = [],
     pk_Description = [], pk_Engine = [], pk_Entrypoint = [], pk_PolicyFiles = [], pk_Publisher = [],
     pk_License = [], pk_Homepage = [], pk_DevDiagMinVersion = [], pk_Tags = [], pk_Rules = []\<rparr>"

definition built_in :: "string \<Rightarrow> string \<Rightarrow> string \<Rightarrow> pack" where
  "built_in i name description =
     zero_pack\<lparr>pk_SchemaVersion := ''1'', pk_ID := i, pk_Name := name, pk_Version := ''0.1'',
       pk_Engine := ''go'', pk_Description := description\<rparr>"

definition BuiltInPacks :: "pack list" where
  "BuiltInPacks =
     [built_in ''core'' ''Core Linux diagnostics''
        ''Repo, env, runtime, host, service, and filesystem rules'',
      built_in ''containers'' ''Docker and Podman diagnostics''
        ''Container runtime, Compose, SELinux, and AppArmor rules'',
      built_in ''gpu-ml'' ''GPU and ML diagnostics''
        ''NVIDIA, CUDA, Python ML, cache, and container GPU rules'',
      built_in ''ci'' ''CI/local parity diagnostics''
        ''GitHub Actions, GitLab CI, local parity, annotation, and artifact rules'',
      built_in ''agent-safety'' ''Agent safety diagnostics''
        ''Untrusted-context and prompt-injection evidence rules'']"

text \<open>
  What the libraries find in the text of a pack: the errors of \<open>cueyaml.Extract\<close>, of compiling the
  schema and of building the value, the errors of its validation against the schema, and the decoded
  pack or the error of the decoder.
\<close>

record pack_text =
  pt_extract :: "string option"
  pt_compile :: "string option"
  pt_build :: "string option"
  pt_schema :: "string list"
  pt_decoded :: "string + pack"

record validation_result =
  vr_Valid :: bool
  vr_Errors :: "string list"

definition validSeverity :: "string \<Rightarrow> bool" where
  "validSeverity v \<longleftrightarrow> v \<in> {''info'', ''low'', ''medium'', ''high'', ''critical''}"

text \<open>The loop over the rules: \<open>i\<close> is the index, \<open>seen\<close> the identifiers so far.\<close>

fun rule_errors :: "nat \<Rightarrow> string list \<Rightarrow> rule list \<Rightarrow> string list" where
  "rule_errors i seen [] = []"
| "rule_errors i seen (r # rs) =
     (let ruleID = trim_space (rl_ID r);
          loc = ''rules['' @ itoa (int i) @ '']'';
          sev = (if rl_Severity r \<noteq> [] \<and> \<not> validSeverity (rl_Severity r)
                 then [loc @ ''.severity '' @ quote_go (rl_Severity r) @ '' is invalid''] else [])
      in if ruleID = [] then (loc @ ''.id is required'') # sev @ rule_errors (Suc i) seen rs
         else if ruleID \<in> set seen
         then (loc @ ''.id '' @ quote_go ruleID @ '' is duplicated'') # sev @ rule_errors (Suc i) seen rs
         else sev @ rule_errors (Suc i) (ruleID # seen) rs)"

definition engine_errors :: "pack \<Rightarrow> string list" where
  "engine_errors p =
     (if pk_Engine p = ''go'' then
        (if pk_PolicyFiles p \<noteq> [] \<or> trim_space (pk_Entrypoint p) \<noteq> []
         then [''go rule packs must not define entrypoint or policy_files''] else [])
      else if pk_Engine p = ''rego'' then
        (if trim_space (pk_Entrypoint p) = [] then [''rego rule packs require entrypoint''] else []) @
        (if pk_PolicyFiles p = [] then [''rego rule packs require policy_files''] else [])
      else [''unsupported engine '' @ quote_go (pk_Engine p)])"

definition unsafe_policy_file :: "string \<Rightarrow> bool" where
  "unsafe_policy_file f \<longleftrightarrow> trim_space f = [] \<or> IsAbs f \<or> contains f ''..''"

definition pack_errors :: "pack \<Rightarrow> string list" where
  "pack_errors p =
     (if trim_space (pk_ID p) = [] then [''id is required''] else []) @
     (if trim_space (pk_Version p) = [] then [''version is required''] else []) @
     (if pk_Rules p = [] then [''at least one rule is required''] else []) @
     rule_errors 0 [] (pk_Rules p) @
     engine_errors p @
     map (\<lambda>f. ''policy file '' @ quote_go f @ '' is unsafe'') (filter unsafe_policy_file (pk_PolicyFiles p))"

definition pack_Validate :: "pack_text \<Rightarrow> pack \<times> validation_result" where
  "pack_Validate t =
     (let fail = (\<lambda>msg. (zero_pack, \<lparr>vr_Valid = False, vr_Errors = [msg]\<rparr>))
      in case pt_extract t of Some e \<Rightarrow> fail (''parse rule pack: '' @ e)
      | None \<Rightarrow> (case pt_compile t of Some e \<Rightarrow> fail (''compile rule pack schema: '' @ e)
      | None \<Rightarrow> (case pt_build t of Some e \<Rightarrow> fail (''parse rule pack: '' @ e)
      | None \<Rightarrow> (case pt_decoded t of Inl e \<Rightarrow> fail (''parse rule pack: '' @ e)
      | Inr p \<Rightarrow>
          (let p = (if pk_Engine p = [] then p\<lparr>pk_Engine := ''go''\<rparr> else p);
               errs = pt_schema t @ pack_errors p
           in (p, \<lparr>vr_Valid = (errs = []), vr_Errors = errs\<rparr>))))))"

section \<open>Findings of a rule pack\<close>

fun flattenFindingValues :: "json list \<Rightarrow> json list" where
  "flattenFindingValues [] = []"
| "flattenFindingValues (JArray vs # rest) = flattenFindingValues vs @ flattenFindingValues rest"
| "flattenFindingValues (v # rest) = v # flattenFindingValues rest"

definition clampConfidence :: "rat \<Rightarrow> rat" where
  "clampConfidence v = (if v < 0 then 0 else if v > 1 then 1 else v)"

fun numberValue :: "json option \<Rightarrow> rat \<Rightarrow> rat" where
  "numberValue (Some (JNumber x)) fallback = x"
| "numberValue _ fallback = fallback"

fun stringValue :: "json option \<Rightarrow> string" where
  "stringValue (Some (JString s)) = s"
| "stringValue _ = []"

text \<open>The pattern \<open>^F-[A-Z0-9][A-Z0-9-]*$\<close>.\<close>

definition upper_or_digit :: "char \<Rightarrow> bool" where
  "upper_or_digit c \<longleftrightarrow> c \<in> set ''ABCDEFGHIJKLMNOPQRSTUVWXYZ0123456789''"

definition validFindingID :: "string \<Rightarrow> bool" where
  "validFindingID i \<longleftrightarrow> has_prefix i ''F-'' \<and>
     (case drop 2 i of
        [] \<Rightarrow> False
      | c # cs \<Rightarrow> upper_or_digit c \<and> list_all (\<lambda>d. upper_or_digit d \<or> d = CHR ''-'') cs)"

datatype rego_error =
    NotAnObject
  | MissingFields
  | InvalidFindingID string

definition decode_candidate :: "json \<Rightarrow> rego_error + finding" where
  "decode_candidate item =
     (case item of
        JObject m \<Rightarrow>
          (let i = stringValue (map_of m ''id''); title = stringValue (map_of m ''title'');
               severity = stringValue (map_of m ''severity'')
           in if trim_space i = [] \<or> trim_space title = [] \<or> \<not> validSeverity severity then Inl MissingFields
              else if \<not> validFindingID i then Inl (InvalidFindingID i)
              else Inr (zero_finding
                \<lparr>f_ID := i, f_Title := title, f_Severity := severity,
                 f_Confidence := clampConfidence (numberValue (map_of m ''confidence'') (7/10)),
                 f_Symptom := stringValue (map_of m ''symptom''), f_RedactionStatus := ''safe''\<rparr>))
      | _ \<Rightarrow> Inl NotAnObject)"

fun decode_all :: "json list \<Rightarrow> rego_error + finding list" where
  "decode_all [] = Inr []"
| "decode_all (v # vs) =
     (case decode_candidate v of
        Inl e \<Rightarrow> Inl e
      | Inr f \<Rightarrow> (case decode_all vs of Inl e \<Rightarrow> Inl e | Inr fs \<Rightarrow> Inr (f # fs)))"

definition decodeFindingCandidates :: "json list \<Rightarrow> rego_error + finding list" where
  "decodeFindingCandidates values = decode_all (flattenFindingValues values)"

fun rego_error_text :: "rego_error \<Rightarrow> string" where
  "rego_error_text NotAnObject = ''rego output must contain finding objects''"
| "rego_error_text MissingFields = ''rego finding candidates require id, title, and valid severity''"
| "rego_error_text (InvalidFindingID i) =
     ''rego finding id '' @ quote_go i @ '' is invalid: must match ^F-[A-Z0-9][A-Z0-9-]*$''"

definition forbiddenRegoToken :: "string \<Rightarrow> string" where
  "forbiddenRegoToken policy =
     (case find (contains policy) [''http.send'', ''net.lookup_ip_addr'', ''opa.runtime''] of
        Some t \<Rightarrow> t | None \<Rightarrow> [])"

section \<open>Evaluation\<close>

text \<open>
  The surroundings: the text of the pack or the error of reading it, the contents of a policy file
  by its path, and the values of a Rego evaluation of a query over modules.
\<close>

record rego_world =
  rw_pack :: "string + pack_text"
  rw_policy :: "string \<Rightarrow> string + string"
  rw_eval :: "string \<Rightarrow> (string \<times> string) list \<Rightarrow> snapshot \<Rightarrow> string + json list"

record rego_result =
  rr_Valid :: bool
  rr_Errors :: "string list"
  rr_Findings :: "finding list"
  rr_Pack :: pack

definition rego_fail :: "pack \<Rightarrow> string list \<Rightarrow> rego_result" where
  "rego_fail p errs = \<lparr>rr_Valid = False, rr_Errors = errs, rr_Findings = [], rr_Pack = p\<rparr>"

text \<open>The loop over the policy files: the modules, or the error that ends it.\<close>

fun load_policies :: "(string \<Rightarrow> string + string) \<Rightarrow> string \<Rightarrow> string list \<Rightarrow> string + (string \<times> string) list"
where
  "load_policies policy dir [] = Inr []"
| "load_policies policy dir (name # names) =
     (case policy (Join2 dir name) of
        Inl e \<Rightarrow> Inl (''read policy '' @ name @ '': '' @ e)
      | Inr content \<Rightarrow>
          if forbiddenRegoToken content \<noteq> []
          then Inl (''policy '' @ name @ '' uses unsupported token '' @ quote_go (forbiddenRegoToken content))
          else (case load_policies policy dir names of
                  Inl e \<Rightarrow> Inl e
                | Inr ms \<Rightarrow> Inr ((name, content) # ms)))"

definition EvaluateRegoFile :: "rego_world \<Rightarrow> string \<Rightarrow> snapshot \<Rightarrow> rego_result" where
  "EvaluateRegoFile w packPath input =
     (case rw_pack w of
        Inl e \<Rightarrow> rego_fail zero_pack [''read rule pack: '' @ e]
      | Inr t \<Rightarrow>
          (let p = fst (pack_Validate t); v = snd (pack_Validate t)
           in if \<not> vr_Valid v then rego_fail p (vr_Errors v)
              else if pk_Engine p \<noteq> ''rego''
              then rego_fail p (vr_Errors v @ [''scan --rule-pack currently evaluates engine: rego packs only''])
              else case load_policies (rw_policy w) (Dir packPath) (pk_PolicyFiles p) of
                     Inl e \<Rightarrow> rego_fail p (vr_Errors v @ [e])
                   | Inr modules \<Rightarrow>
                       (case rw_eval w (pk_Entrypoint p) modules input of
                          Inl e \<Rightarrow> rego_fail p (vr_Errors v @ [''evaluate rego: '' @ e])
                        | Inr values \<Rightarrow>
                            (case decodeFindingCandidates values of
                               Inl e \<Rightarrow> rego_fail p (vr_Errors v @ [rego_error_text e])
                             | Inr fs \<Rightarrow> \<lparr>rr_Valid = True, rr_Errors = vr_Errors v, rr_Findings = fs,
                                          rr_Pack = p\<rparr>))))"

section \<open>What a valid pack is\<close>

text \<open>The specification of the structural checks.\<close>

definition rules_ok :: "string list \<Rightarrow> rule list \<Rightarrow> bool" where
  "rules_ok seen rs \<longleftrightarrow>
     (let ids = map (\<lambda>r. trim_space (rl_ID r)) rs
      in [] \<notin> set ids \<and> distinct ids \<and> set ids \<inter> set seen = {} \<and>
         list_all (\<lambda>r. rl_Severity r = [] \<or> validSeverity (rl_Severity r)) rs)"

definition safe_policy_file :: "string \<Rightarrow> bool" where
  "safe_policy_file f \<longleftrightarrow> trim_space f \<noteq> [] \<and> \<not> IsAbs f \<and> \<not> contains f ''..''"

definition pack_ok :: "pack \<Rightarrow> bool" where
  "pack_ok p \<longleftrightarrow>
     trim_space (pk_ID p) \<noteq> [] \<and> trim_space (pk_Version p) \<noteq> [] \<and>
     pk_Rules p \<noteq> [] \<and> rules_ok [] (pk_Rules p) \<and>
     (pk_Engine p = ''go'' \<and> pk_PolicyFiles p = [] \<and> trim_space (pk_Entrypoint p) = [] \<or>
      pk_Engine p = ''rego'' \<and> pk_PolicyFiles p \<noteq> [] \<and> trim_space (pk_Entrypoint p) \<noteq> []) \<and>
     list_all safe_policy_file (pk_PolicyFiles p)"

lemma rule_errors_Nil: "rule_errors i seen rs = [] \<longleftrightarrow> rules_ok seen rs"
proof (induction rs arbitrary: i seen)
  case (Cons r rs)
  show ?case by (simp add: Let_def Cons.IH) (auto simp: rules_ok_def Let_def)
qed (simp add: rules_ok_def)

lemma pack_errors_Nil: "pack_errors p = [] \<longleftrightarrow> pack_ok p"
  by (auto simp: pack_errors_def pack_ok_def rule_errors_Nil engine_errors_def filter_empty_conv
      unsafe_policy_file_def safe_policy_file_def list_all_iff)

text \<open>
  A pack is valid exactly when the libraries read it without complaint and it has an identifier,
  a version, rules with distinct identifiers and known severities, an engine with what that engine
  needs and nothing else, and policy files that are relative and never climb; a valid one has no errors.
\<close>

theorem pack_Validate_iff:
  "vr_Valid (snd (pack_Validate t)) \<longleftrightarrow>
     pt_extract t = None \<and> pt_compile t = None \<and> pt_build t = None \<and> pt_schema t = [] \<and>
     (case pt_decoded t of
        Inl e \<Rightarrow> False
      | Inr p \<Rightarrow> pack_ok (fst (pack_Validate t)) \<and>
          fst (pack_Validate t) = p\<lparr>pk_Engine := if pk_Engine p = [] then ''go'' else pk_Engine p\<rparr>) \<and>
     vr_Errors (snd (pack_Validate t)) = []"
  by (cases "pt_extract t"; cases "pt_compile t"; cases "pt_build t"; cases "pt_decoded t")
     (auto simp: pack_Validate_def Let_def pack_errors_Nil)

section \<open>What evaluation returns\<close>

definition well_formed_candidate :: "finding \<Rightarrow> bool" where
  "well_formed_candidate f \<longleftrightarrow>
     validFindingID (f_ID f) \<and> trim_space (f_Title f) \<noteq> [] \<and> validSeverity (f_Severity f) \<and>
     0 \<le> f_Confidence f \<and> f_Confidence f \<le> 1 \<and> f_RedactionStatus f = ''safe'' \<and>
     f_Evidence f = [] \<and> f_FixHints f = []"

lemma decode_candidate_wf: "decode_candidate v = Inr f \<Longrightarrow> well_formed_candidate f"
  by (cases v)
     (auto simp: decode_candidate_def Let_def well_formed_candidate_def clampConfidence_def
        split: if_splits)

lemma decode_all_wf: "decode_all vs = Inr fs \<Longrightarrow> list_all well_formed_candidate fs \<and> length fs = length vs"
  by (induction vs arbitrary: fs) (auto dest: decode_candidate_wf split: sum.splits)

lemma load_policies_free:
  "load_policies policy dir names = Inr ms \<Longrightarrow>
   map fst ms = names \<and> list_all (\<lambda>m. forbiddenRegoToken (snd m) = []) ms \<and>
   list_all (\<lambda>m. policy (Join2 dir (fst m)) = Inr (snd m)) ms"
  by (induction names arbitrary: ms) (auto split: sum.splits if_splits)

text \<open>A pack of one policy, whose evaluation yields one finding in a nested list.\<close>

definition demo_pack :: pack where
  "demo_pack = zero_pack\<lparr>pk_ID := ''team'', pk_Version := ''1'', pk_Engine := ''rego'',
     pk_Entrypoint := ''data.team.findings'', pk_PolicyFiles := [''policy/a.rego''],
     pk_Rules := [\<lparr>rl_ID = ''r1'', rl_Severity = ''high'', rl_Enabled = None\<rparr>]\<rparr>"

definition demo_rego_world :: rego_world where
  "demo_rego_world =
     \<lparr>rw_pack = Inr \<lparr>pt_extract = None, pt_compile = None, pt_build = None, pt_schema = [],
                     pt_decoded = Inr demo_pack\<rparr>,
      rw_policy = (\<lambda>path. if path = ''/repo/policy/a.rego'' then Inr ''package team'' else Inl ''missing''),
      rw_eval = (\<lambda>_ _ _. Inr [JArray [JArray [JObject [(''id'', JString ''F-TEAM-1''),
        (''title'', JString ''Pin the toolchain''), (''severity'', JString ''low''),
        (''confidence'', JNumber 7)]]]])\<rparr>"

lemma safe_policy_file_below:
  assumes "safe_policy_file f"
  shows "path_elems (Join2 (Dir path) f) = path_elems (Dir path) @ path_elems f"
proof (rule Join2_Clean_below)
  show "''..'' \<notin> set (path_elems f)"
    using assms split_at_sublist [of "''..''" "''/''" f] by (auto simp: safe_policy_file_def path_elems_def)
  show "f \<noteq> []" using assms by (auto simp: safe_policy_file_def trim_space_def trim_left_def trim_right_def)
  show "Dir path = Clean (rev (dropWhile (\<lambda>c. c \<noteq> CHR ''/'') (rev path)))" by (simp add: Dir_def)
  then show "Dir path \<noteq> []" using Clean_nonempty by metis
qed

text \<open>The finding a candidate describes.\<close>

definition describes :: "json \<Rightarrow> finding \<Rightarrow> bool" where
  "describes v f \<longleftrightarrow> (\<exists>m. v = JObject m \<and>
     map_of m ''id'' = Some (JString (f_ID f)) \<and> map_of m ''title'' = Some (JString (f_Title f)) \<and>
     map_of m ''severity'' = Some (JString (f_Severity f)) \<and>
     f_Symptom f = (case map_of m ''symptom'' of Some (JString s) \<Rightarrow> s | _ \<Rightarrow> []) \<and>
     f_Confidence f = max 0 (min 1 (case map_of m ''confidence'' of Some (JNumber x) \<Rightarrow> x | _ \<Rightarrow> 7/10)))"

lemma decode_candidate_describes:
  assumes "decode_candidate v = Inr f"
  shows "describes v f"
proof -
  have str: "j = Some (JString (stringValue j))" if "trim_space (stringValue j) \<noteq> [] \<or> validSeverity (stringValue j)" for j
    using that by (cases j rule: stringValue.cases) (auto simp: validSeverity_def)
  have sym: "stringValue j = (case j of Some (JString s) \<Rightarrow> s | _ \<Rightarrow> [])"
    "numberValue j c = (case j of Some (JNumber x) \<Rightarrow> x | _ \<Rightarrow> c)" for j c
    by (cases j rule: stringValue.cases; simp) (cases "(j, c)" rule: numberValue.cases; simp)
  have clamp: "clampConfidence x = max 0 (min 1 x)" for x by (simp add: clampConfidence_def)
  obtain m where m: "v = JObject m" using assms by (auto simp: decode_candidate_def split: json.splits)
  let ?i = "stringValue (map_of m ''id'')" and ?t = "stringValue (map_of m ''title'')"
    and ?s = "stringValue (map_of m ''severity'')"
  from assms m have ok: "trim_space ?i \<noteq> []" "trim_space ?t \<noteq> []" "validSeverity ?s"
    and f: "f_ID f = ?i" "f_Title f = ?t" "f_Severity f = ?s" "f_Symptom f = stringValue (map_of m ''symptom'')"
      "f_Confidence f = clampConfidence (numberValue (map_of m ''confidence'') (7/10))"
    by (auto simp: decode_candidate_def Let_def split: if_splits)
  have "map_of m ''id'' = Some (JString (f_ID f))" "map_of m ''title'' = Some (JString (f_Title f))"
    "map_of m ''severity'' = Some (JString (f_Severity f))"
    unfolding f by (intro str disjI1 ok disjI2)+
  with m f(4,5) show ?thesis by (simp add: describes_def sym clamp)
qed

lemma decode_all_describes: "decode_all vs = Inr fs \<Longrightarrow> list_all2 describes vs fs"
  by (induction vs arbitrary: fs) (auto dest: decode_candidate_describes split: sum.splits)



end
