(* ===== verification/Transition_Systems.thy ===== *)
theory Transition_Systems
  imports Prelude
begin

text \<open>
  Contracts of step relations, shared by the concurrent and interactive parts of the program: an
  invariant kept by every step, and a measure and a progress law by which every run ends in a final
  state.
\<close>

locale invariant_system =
  fixes step :: "'s \<Rightarrow> 's \<Rightarrow> bool" and inv :: "'s \<Rightarrow> bool"
  assumes preserved: "inv s \<Longrightarrow> step s t \<Longrightarrow> inv t"
begin

lemma inv_steps: "step\<^sup>*\<^sup>* s t \<Longrightarrow> inv s \<Longrightarrow> inv t"
  by (induction rule: rtranclp_induct) (auto intro: preserved)

lemma inv_iterate: "(step ^^ n) s t \<Longrightarrow> inv s \<Longrightarrow> inv t"
  using inv_steps relpowp_imp_rtranclp by fast

end

locale terminating_system = invariant_system +
  fixes work :: "'s \<Rightarrow> nat" and final :: "'s \<Rightarrow> bool"
  assumes decreases: "inv s \<Longrightarrow> step s t \<Longrightarrow> work t < work s"
    and progress: "inv s \<Longrightarrow> \<not> final s \<Longrightarrow> \<exists>t. step s t"
begin

lemma bounded: "(step ^^ n) s t \<Longrightarrow> inv s \<Longrightarrow> n + work t \<le> work s"
proof (induction n arbitrary: t)
  case (Suc n)
  then obtain u where u: "(step ^^ n) s u" "step u t" by auto
  then show ?case using Suc.IH [OF u(1) Suc.prems(2)] decreases [OF inv_iterate [OF u(1) Suc.prems(2)] u(2)]
    by simp
qed simp

lemma reaches_final: "inv s \<Longrightarrow> \<exists>t. step\<^sup>*\<^sup>* s t \<and> final t"
proof (induction "work s" arbitrary: s rule: less_induct)
  case (less s)
  show ?case
  proof (cases "final s")
    case False
    then obtain t where t: "step s t" using progress [OF less.prems] by blast
    from less.hyps [OF decreases [OF less.prems t] preserved [OF less.prems t]]
    show ?thesis using converse_rtranclp_into_rtranclp [of step, OF t] by blast
  qed blast
qed

lemma no_deadlock: "step\<^sup>*\<^sup>* s t \<Longrightarrow> inv s \<Longrightarrow> \<not> (\<exists>u. step t u) \<Longrightarrow> final t"
  using inv_steps progress by blast

end

end
