(* ===== verification/Collectors_Runner.thy ===== *)
theory Collectors_Runner
  imports Schema Transition_Systems
begin

text \<open>
  \<open>internal/collectors/runner.go\<close>: the concurrent run of the collectors. \<open>runOne\<close> is a function of
  what happens to its two channels and of the errors of the context; \<open>RunWithObserver\<close> is a step
  relation whose steps are those of the goroutines (one per collector) and of the loop that receives
  their results from the buffered channel. Durations reported to the observer are left out.
\<close>

section \<open>One collector\<close>

datatype ctx_error = DeadlineExceeded | Canceled

fun ctx_error_text :: "ctx_error \<Rightarrow> string" where
  "ctx_error_text DeadlineExceeded = ''context deadline exceeded''"
| "ctx_error_text Canceled = ''context canceled''"

text \<open>A collector: its name and the timeout it asks for, if it does; and a runner's default.\<close>

record collector =
  co_Name :: string
  co_Timeout :: "int option"

record runner =
  ru_Timeout :: int

definition defaultCollectorTimeout :: int where
  "defaultCollectorTimeout = 5000000000"

definition NewRunner :: runner where
  "NewRunner = \<lparr>ru_Timeout = defaultCollectorTimeout\<rparr>"

text \<open>The error a collector returns: its text, and whether it wraps an error of the context.\<close>

datatype collect_error = CollectError (ce_text: string) (ce_ctx: bool)

record collector_outcome =
  oc_Result :: collector_result
  oc_Err :: "collect_error option"

text \<open>What \<open>Collect\<close> does, when it ends: return, or panic with a value that prints as the text.\<close>

datatype collection = Returned collector_result "collect_error option" | Panicked string

text \<open>
  What \<open>runOne\<close> sees: the outcome while it waits, with the error of the context at that moment; the
  end of the context and then the outcome within the grace period; the end of both; or none of these, ever,
  when the collector does not return and its context never ends.
\<close>

datatype race =
    DoneFirst collection "ctx_error option"
  | DoneInGrace collection ctx_error
  | GraceOver ctx_error
  | WaitsForever

definition appendUniqueNote :: "string list \<Rightarrow> string \<Rightarrow> string list" where
  "appendUniqueNote notes note = (if note = [] \<or> note \<in> set notes then notes else notes @ [note])"

definition timeoutResult ::
  "string \<Rightarrow> int \<Rightarrow> ctx_error option \<Rightarrow> collector_result option \<Rightarrow> collector_result" where
  "timeoutResult name timeout err partial =
     (let res = (case partial of
                   Some p \<Rightarrow> (if c_Name p = [] then p\<lparr>c_Name := name\<rparr> else p)
                 | None \<Rightarrow> zero_result\<lparr>c_Name := name\<rparr>);
          res = res\<lparr>c_Status := CollectorTimeout, c_Partial := True\<rparr>;
          res = (if timeout > 0 then res\<lparr>c_TimeoutMs := timeout div 1000000\<rparr> else res)
      in case err of
           Some e \<Rightarrow> res\<lparr>c_Notes := appendUniqueNote (c_Notes res) (ctx_error_text e)\<rparr>
         | None \<Rightarrow> res)"

definition finalizeResult ::
  "string \<Rightarrow> int \<Rightarrow> ctx_error option \<Rightarrow> collector_outcome \<Rightarrow> collector_result" where
  "finalizeResult name timeout ctxErr outcome =
     (let res = oc_Result outcome;
          res = (if c_Name res = [] then res\<lparr>c_Name := name\<rparr> else res)
      in case oc_Err outcome of
           None \<Rightarrow> (if c_Status res = [] then res\<lparr>c_Status := CollectorOK\<rparr> else res)
         | Some err \<Rightarrow>
             if ctxErr \<noteq> None \<and> ce_ctx err then timeoutResult name timeout ctxErr (Some res)
             else res\<lparr>c_Status := CollectorFailed,
                      c_Notes := appendUniqueNote (c_Notes res) (ce_text err), c_Partial := True\<rparr>)"

definition timeoutFor :: "runner option \<Rightarrow> collector \<Rightarrow> int" where
  "timeoutFor r col =
     (let own = (case co_Timeout col of Some timeout \<Rightarrow> timeout | None \<Rightarrow> 0)
      in if own > 0 then own
         else case r of Some r \<Rightarrow> (if ru_Timeout r > 0 then ru_Timeout r else 0) | None \<Rightarrow> 0)"

text \<open>The outcome the goroutine of \<open>runOne\<close> sends, a panic turned into an error.\<close>

fun outcome_of :: "string \<Rightarrow> collection \<Rightarrow> collector_outcome" where
  "outcome_of name (Returned res err) = \<lparr>oc_Result = res, oc_Err = err\<rparr>"
| "outcome_of name (Panicked v) =
     \<lparr>oc_Result = zero_result\<lparr>c_Name := name, c_Status := CollectorFailed,
                             c_Notes := [''panic: '' @ v], c_Partial := True\<rparr>,
      oc_Err = Some (CollectError (''panic: '' @ v) False)\<rparr>"

text \<open>\<open>None\<close> when it does not return.\<close>

definition runOne :: "runner option \<Rightarrow> ctx_error option \<Rightarrow> collector \<Rightarrow> race \<Rightarrow> collector_result option" where
  "runOne r ctx col race =
     (let name = co_Name col; timeout = timeoutFor r col
      in case ctx of
           Some err \<Rightarrow> Some (timeoutResult name timeout (Some err) None)
         | None \<Rightarrow>
             (case race of
                DoneFirst c ctxErr \<Rightarrow> Some (finalizeResult name timeout ctxErr (outcome_of name c))
              | DoneInGrace c e \<Rightarrow> Some (finalizeResult name timeout (Some e) (outcome_of name c))
              | GraceOver e \<Rightarrow> Some (timeoutResult name timeout (Some e) None)
              | WaitsForever \<Rightarrow> None))"

lemma runOne_None: "runOne r ctx col race = None \<longleftrightarrow> ctx = None \<and> race = WaitsForever"
  by (auto simp: runOne_def Let_def split: option.splits race.splits)

section \<open>The concurrent run\<close>

text \<open>
  The phases of a goroutine: spawned, its observer told of the start, \<open>runOne\<close> returned, its observer
  told of the result, and the result sent.
\<close>

datatype phase =
    Spawned
  | Started
  | Finished collector_result
  | Reported collector_result
  | Sent

datatype observation = CollectorStarted string | CollectorDone collector_result

record run_state =
  rs_phases :: "phase list"
  rs_channel :: "(nat \<times> collector_result) list"
  rs_results :: "collector_result list"
  rs_received :: nat
  rs_log :: "(nat \<times> observation) list"

definition run_start :: "collector list \<Rightarrow> run_state" where
  "run_start cols =
     \<lparr>rs_phases = replicate (length cols) Spawned, rs_channel = [],
      rs_results = replicate (length cols) zero_result, rs_received = 0, rs_log = []\<rparr>"

definition observe :: "bool \<Rightarrow> nat \<Rightarrow> observation \<Rightarrow> (nat \<times> observation) list" where
  "observe observer i ob = (if observer then [(i, ob)] else [])"

text \<open>
  One step: \<open>ctx i\<close> is the error of the context when collector \<open>i\<close> starts and \<open>race i\<close> what its
  \<open>runOne\<close> sees; \<open>observer\<close> says whether there is one. The channel has room for one result per
  collector; a send waits for room and a receive for a result.
\<close>

inductive run_step ::
  "runner option \<Rightarrow> (nat \<Rightarrow> ctx_error option) \<Rightarrow> (nat \<Rightarrow> race) \<Rightarrow> bool \<Rightarrow> collector list \<Rightarrow>
   run_state \<Rightarrow> run_state \<Rightarrow> bool"
  for r ctx race observer cols
where
  step_start: "\<lbrakk>i < length cols; rs_phases s ! i = Spawned\<rbrakk> \<Longrightarrow>
    run_step r ctx race observer cols s
      (s\<lparr>rs_phases := (rs_phases s)[i := Started],
         rs_log := rs_log s @ observe observer i (CollectorStarted (co_Name (cols ! i)))\<rparr>)"
| step_collect: "\<lbrakk>i < length cols; rs_phases s ! i = Started; runOne r (ctx i) (cols ! i) (race i) = Some res\<rbrakk> \<Longrightarrow>
    run_step r ctx race observer cols s
      (s\<lparr>rs_phases := (rs_phases s)[i := Finished res]\<rparr>)"
| step_report: "\<lbrakk>i < length cols; rs_phases s ! i = Finished res\<rbrakk> \<Longrightarrow>
    run_step r ctx race observer cols s
      (s\<lparr>rs_phases := (rs_phases s)[i := Reported res],
         rs_log := rs_log s @ observe observer i (CollectorDone res)\<rparr>)"
| step_send: "\<lbrakk>i < length cols; rs_phases s ! i = Reported res; length (rs_channel s) < length cols\<rbrakk> \<Longrightarrow>
    run_step r ctx race observer cols s
      (s\<lparr>rs_phases := (rs_phases s)[i := Sent], rs_channel := rs_channel s @ [(i, res)]\<rparr>)"
| step_receive: "\<lbrakk>rs_received s < length cols; rs_channel s = (i, res) # rest\<rbrakk> \<Longrightarrow>
    run_step r ctx race observer cols s
      (s\<lparr>rs_results := (rs_results s)[i := res], rs_received := Suc (rs_received s),
         rs_channel := rest\<rparr>)"

text \<open>The loop has received one result per collector: \<open>RunWithObserver\<close> returns \<open>rs_results\<close>.\<close>

definition run_done :: "collector list \<Rightarrow> run_state \<Rightarrow> bool" where
  "run_done cols s \<longleftrightarrow> rs_received s = length cols"

section \<open>The invariant of a run\<close>

definition expected ::
  "runner option \<Rightarrow> (nat \<Rightarrow> ctx_error option) \<Rightarrow> (nat \<Rightarrow> race) \<Rightarrow> collector list \<Rightarrow> nat \<Rightarrow> collector_result" where
  "expected r ctx race cols i = the (runOne r (ctx i) (cols ! i) (race i))"

fun phase_holds :: "collector_result \<Rightarrow> phase \<Rightarrow> bool" where
  "phase_holds e (Finished res) \<longleftrightarrow> res = e"
| "phase_holds e (Reported res) \<longleftrightarrow> res = e"
| "phase_holds e _ \<longleftrightarrow> True"

text \<open>A goroutine past the collection has a result.\<close>

definition has_collected :: "phase \<Rightarrow> bool" where
  "has_collected p \<longleftrightarrow> p \<noteq> Spawned \<and> p \<noteq> Started"

fun history :: "string \<Rightarrow> collector_result \<Rightarrow> phase \<Rightarrow> observation list" where
  "history name e Spawned = []"
| "history name e Started = [CollectorStarted name]"
| "history name e (Finished _) = [CollectorStarted name]"
| "history name e (Reported _) = [CollectorStarted name, CollectorDone e]"
| "history name e Sent = [CollectorStarted name, CollectorDone e]"

fun phase_work :: "phase \<Rightarrow> nat" where
  "phase_work Spawned = 5"
| "phase_work Started = 4"
| "phase_work (Finished _) = 3"
| "phase_work (Reported _) = 2"
| "phase_work Sent = 0"

definition run_work :: "run_state \<Rightarrow> nat" where
  "run_work s = sum_list (map phase_work (rs_phases s)) + length (rs_channel s)"

definition sent :: "phase \<Rightarrow> nat" where
  "sent p = (if p = Sent then 1 else 0)"

lemma sent_simps [simp]:
  "sent Spawned = 0" "sent Started = 0" "sent (Finished a) = 0" "sent (Reported a) = 0" "sent Sent = 1"
  by (simp_all add: sent_def)

text \<open>The observations of one collector.\<close>

definition log_of :: "run_state \<Rightarrow> nat \<Rightarrow> observation list" where
  "log_of s i = map snd (filter (\<lambda>e. fst e = i) (rs_log s))"

definition run_inv ::
  "runner option \<Rightarrow> (nat \<Rightarrow> ctx_error option) \<Rightarrow> (nat \<Rightarrow> race) \<Rightarrow> bool \<Rightarrow> collector list \<Rightarrow> run_state \<Rightarrow> bool"
where
  "run_inv r ctx race observer cols s \<longleftrightarrow>
     length (rs_phases s) = length cols \<and> length (rs_results s) = length cols \<and>
     rs_received s + length (rs_channel s) = sum_list (map sent (rs_phases s)) \<and>
     distinct (map fst (rs_channel s)) \<and>
     (\<forall>i res. (i, res) \<in> set (rs_channel s) \<longrightarrow>
        i < length cols \<and> rs_phases s ! i = Sent \<and> res = expected r ctx race cols i) \<and>
     (\<forall>i < length cols. phase_holds (expected r ctx race cols i) (rs_phases s ! i) \<and>
        (has_collected (rs_phases s ! i) \<longrightarrow> runOne r (ctx i) (cols ! i) (race i) \<noteq> None) \<and>
        (rs_phases s ! i = Sent \<and> i \<notin> fst ` set (rs_channel s) \<longrightarrow>
           rs_results s ! i = expected r ctx race cols i) \<and>
        log_of s i = (if observer then
           history (co_Name (cols ! i)) (expected r ctx race cols i) (rs_phases s ! i) else []))"

lemma sum_map_update:
  fixes f :: "'a \<Rightarrow> nat"
  shows "i < length xs \<Longrightarrow> sum_list (map f (xs[i := x])) + f (xs ! i) = sum_list (map f xs) + f x"
  by (induction xs arbitrary: i) (auto split: nat.splits)

lemma sum_sent_le: "sum_list (map sent ps) \<le> length ps"
  by (induction ps) (auto simp: sent_def)

lemma sum_sent_all: "sum_list (map sent ps) = length ps \<Longrightarrow> p \<in> set ps \<Longrightarrow> p = Sent"
proof (induction ps)
  case (Cons a ps)
  then show ?case using sum_sent_le [of ps] by (cases "a = Sent") (auto simp: sent_def [of a])
qed simp

lemma run_inv_start: "run_inv r ctx race observer cols (run_start cols)"
  by (simp add: run_inv_def run_start_def log_of_def has_collected_def)

lemma log_of_observe [simp]:
  "log_of (s\<lparr>rs_phases := ps, rs_log := rs_log s @ observe observer i ob\<rparr>) j =
     log_of s j @ (if observer \<and> j = i then [ob] else [])"
  "log_of (s\<lparr>rs_phases := ps\<rparr>) j = log_of s j"
  "log_of (s\<lparr>rs_phases := ps, rs_channel := ch\<rparr>) j = log_of s j"
  "log_of (s\<lparr>rs_results := rss, rs_received := k, rs_channel := ch\<rparr>) j = log_of s j"
  by (auto simp: log_of_def observe_def)

text \<open>The steps of a goroutine that neither send nor receive change one phase and the log.\<close>

lemma run_inv_local:
  assumes inv: "run_inv r ctx race observer cols s" and i: "i < length cols"
    and neq: "rs_phases s ! i \<noteq> Sent" "p \<noteq> Sent"
    and p: "phase_holds (expected r ctx race cols i) p" "has_collected p \<longrightarrow> runOne r (ctx i) (cols ! i) (race i) \<noteq> None"
    and t: "rs_phases t = (rs_phases s)[i := p]" "rs_channel t = rs_channel s"
      "rs_results t = rs_results s" "rs_received t = rs_received s"
    and log: "\<And>j. log_of t j = log_of s j @ (if observer \<and> j = i then obs else [])"
    and hist: "history (co_Name (cols ! i)) (expected r ctx race cols i) p =
      history (co_Name (cols ! i)) (expected r ctx race cols i) (rs_phases s ! i) @ obs"
  shows "run_inv r ctx race observer cols t"
proof -
  have len: "length (rs_phases s) = length cols" using inv by (simp add: run_inv_def)
  have "sum_list (map sent (rs_phases t)) = sum_list (map sent (rs_phases s))"
    using sum_map_update [of i "rs_phases s" sent p] i len neq by (simp add: t sent_def)
  then show ?thesis
    using inv i neq p hist by (auto simp: run_inv_def t log nth_list_update len)
qed

lemma run_step_inv:
  assumes "run_inv r ctx race observer cols s" "run_step r ctx race observer cols s t"
  shows "run_inv r ctx race observer cols t"
  using assms(2)
proof (cases rule: run_step.cases)
  case (step_start i)
  then show ?thesis
    by (intro run_inv_local [OF assms(1), where i = i and p = Started and
          obs = "[CollectorStarted (co_Name (cols ! i))]"]) (auto simp: has_collected_def)
next
  case (step_collect i res)
  then show ?thesis
    by (intro run_inv_local [OF assms(1), where i = i and obs = "[]" and
          p = "Finished (expected r ctx race cols i)"]) (auto simp: expected_def)
next
  case (step_report i res)
  then have "res = expected r ctx race cols i" "runOne r (ctx i) (cols ! i) (race i) \<noteq> None"
    using assms(1) by (auto simp: run_inv_def has_collected_def)
  with step_report show ?thesis
    by (intro run_inv_local [OF assms(1), where i = i and p = "Reported res" and
          obs = "[CollectorDone res]"]) auto
next
  case (step_send i res)
  then have res: "res = expected r ctx race cols i" "runOne r (ctx i) (cols ! i) (race i) \<noteq> None"
    using assms(1) by (auto simp: run_inv_def has_collected_def)
  have len: "length (rs_phases s) = length cols" using assms(1) by (simp add: run_inv_def)
  have new: "i \<notin> fst ` set (rs_channel s)" using assms(1) step_send by (auto simp: run_inv_def)
  have "sum_list (map sent (rs_phases t)) = Suc (sum_list (map sent (rs_phases s)))"
    using sum_map_update [of i "rs_phases s" sent Sent] step_send len by simp
  then show ?thesis
    using assms(1) step_send res new by (auto simp: run_inv_def len nth_list_update)
next
  case (step_receive i res rest)
  have "i < length cols" "res = expected r ctx race cols i" "rs_phases s ! i = Sent"
    using assms(1) step_receive by (auto simp: run_inv_def)
  then show ?thesis
    using assms(1) step_receive by (auto simp: run_inv_def nth_list_update)
qed

lemma run_step_work:
  assumes "run_inv r ctx race observer cols s" "run_step r ctx race observer cols s t"
  shows "run_work s = Suc (run_work t)"
proof -
  have len: "length (rs_phases s) = length cols" using assms(1) by (simp add: run_inv_def)
  from assms(2) show ?thesis
  proof (cases rule: run_step.cases)
    case (step_start i)
    then show ?thesis using sum_map_update [of i "rs_phases s" phase_work Started] len
      by (simp add: run_work_def)
  next
    case (step_collect i res)
    then show ?thesis
      using sum_map_update [of i "rs_phases s" phase_work "Finished res"] len
      by (simp add: run_work_def)
  next
    case (step_report i res)
    then show ?thesis using sum_map_update [of i "rs_phases s" phase_work "Reported res"] len
      by (simp add: run_work_def)
  next
    case (step_send i res)
    then show ?thesis using sum_map_update [of i "rs_phases s" phase_work Sent] len
      by (simp add: run_work_def)
  next
    case step_receive
    then show ?thesis by (simp add: run_work_def)
  qed
qed

text \<open>Every collector returns or is given up.\<close>

definition all_return ::
  "runner option \<Rightarrow> (nat \<Rightarrow> ctx_error option) \<Rightarrow> (nat \<Rightarrow> race) \<Rightarrow> collector list \<Rightarrow> bool" where
  "all_return r ctx race cols \<longleftrightarrow> (\<forall>i < length cols. runOne r (ctx i) (cols ! i) (race i) \<noteq> None)"

lemma run_progress:
  assumes inv: "run_inv r ctx race observer cols s" and "\<not> run_done cols s" and ret: "all_return r ctx race cols"
  shows "\<exists>t. run_step r ctx race observer cols s t"
proof (cases "rs_channel s")
  case (Cons e rest)
  have "rs_received s < length cols"
    using inv assms(2) sum_sent_le [of "rs_phases s"] by (auto simp: run_inv_def run_done_def)
  with Cons show ?thesis by (cases e) (auto intro: step_receive)
next
  case Nil
  have "sum_list (map sent (rs_phases s)) \<noteq> length cols"
    using inv assms(2) Nil by (auto simp: run_inv_def run_done_def)
  moreover have "sum_list (map sent ps) = length ps" if "\<forall>p \<in> set ps. p = Sent" for ps
    using that by (induction ps) auto
  moreover have len: "length (rs_phases s) = length cols" using inv by (simp add: run_inv_def)
  ultimately obtain p where "p \<in> set (rs_phases s)" "p \<noteq> Sent" by metis
  then obtain i where i: "i < length cols" "rs_phases s ! i \<noteq> Sent" using len by (auto simp: in_set_conv_nth)
  show ?thesis
  proof (cases "rs_phases s ! i")
    case Spawned
    from step_start [OF i(1) this] show ?thesis by blast
  next
    case Started
    moreover obtain res where "runOne r (ctx i) (cols ! i) (race i) = Some res"
      using ret i(1) by (auto simp: all_return_def)
    ultimately show ?thesis using step_collect [OF i(1)] by blast
  next
    case (Finished res)
    from step_report [OF i(1) this] show ?thesis by blast
  next
    case (Reported res)
    have "length (rs_channel s) < length cols" using Nil i(1) by auto
    from step_send [OF i(1) Reported this] show ?thesis by blast
  qed (use i in simp)
qed

interpretation running: invariant_system "run_step r ctx race observer cols" "run_inv r ctx race observer cols"
  for r ctx race observer cols
  by unfold_locales (rule run_step_inv)

interpretation run: terminating_system
  "run_step r ctx race observer cols" "\<lambda>s. run_inv r ctx race observer cols s \<and> all_return r ctx race cols"
  run_work "run_done cols"
  for r ctx race observer cols
proof unfold_locales
  show "run_work t < run_work s"
    if "run_inv r ctx race observer cols s \<and> all_return r ctx race cols" "run_step r ctx race observer cols s t" for s t
    using run_step_work that by fastforce
  show "\<exists>t. run_step r ctx race observer cols s t"
    if "run_inv r ctx race observer cols s \<and> all_return r ctx race cols" "\<not> run_done cols s" for s
    using run_progress that by blast
qed (use run_step_inv in blast)

lemma run_bounded:
  "(run_step r ctx race observer cols ^^ n) s t \<Longrightarrow> run_inv r ctx race observer cols s \<Longrightarrow> n + run_work t = run_work s"
proof (induction n arbitrary: t)
  case (Suc n)
  then obtain u where u: "(run_step r ctx race observer cols ^^ n) s u" "run_step r ctx race observer cols u t" by auto
  then show ?case
    using Suc.IH [OF u(1) Suc.prems(2)] run_step_work [OF running.inv_iterate [OF u(1) Suc.prems(2)] u(2)] by simp
qed simp

lemma run_done_sent:
  assumes "run_inv r ctx race observer cols s" "run_done cols s" "i < length cols"
  shows "rs_phases s ! i = Sent" "rs_channel s = []"
proof -
  have "length cols + length (rs_channel s) = sum_list (map sent (rs_phases s))"
    "length (rs_phases s) = length cols"
    using assms by (simp_all add: run_inv_def run_done_def)
  then have "length (rs_channel s) = 0 \<and> sum_list (map sent (rs_phases s)) = length (rs_phases s)"
    using sum_sent_le [of "rs_phases s"] by linarith
  then show "rs_channel s = []" "rs_phases s ! i = Sent"
    using sum_sent_all [of "rs_phases s"] assms(1,3) by (auto simp: run_inv_def)
qed

lemma run_done_all_return:
  "run_inv r ctx race observer cols s \<Longrightarrow> run_done cols s \<Longrightarrow> all_return r ctx race cols"
  unfolding all_return_def
proof (intro allI impI)
  fix i assume inv: "run_inv r ctx race observer cols s" and fin: "run_done cols s" and i: "i < length cols"
  have "has_collected (rs_phases s ! i)" using run_done_sent(1) [OF inv fin i] by (simp add: has_collected_def)
  with inv i show "runOne r (ctx i) (cols ! i) (race i) \<noteq> None" by (simp add: run_inv_def)
qed

lemma run_done_results:
  assumes "run_inv r ctx race observer cols s" "run_done cols s"
  shows "rs_results s = map (expected r ctx race cols) [0..<length cols]"
proof (rule nth_equalityI)
  show "length (rs_results s) = length (map (expected r ctx race cols) [0..<length cols])"
    using assms(1) by (simp add: run_inv_def)
  fix i assume "i < length (rs_results s)"
  then have i: "i < length cols" using assms(1) by (simp add: run_inv_def)
  note sent = run_done_sent [OF assms i]
  moreover have "i \<notin> fst ` set (rs_channel s)" using sent(2) by simp
  ultimately show "rs_results s ! i = map (expected r ctx race cols) [0..<length cols] ! i"
    using assms(1) i by (simp add: run_inv_def)
qed

lemma run_reachable_inv:
  "(run_step r ctx race observer cols)\<^sup>*\<^sup>* (run_start cols) s \<Longrightarrow> run_inv r ctx race observer cols s"
  by (rule running.inv_steps [OF _ run_inv_start])

section \<open>What a run returns\<close>

text \<open>
  C18: whatever the interleaving of the goroutines, a run that has received all results returns for
  every collector, in the order of the collectors, exactly what its \<open>runOne\<close> returned.
\<close>

theorem Run_results:
  assumes "(run_step r ctx race observer cols)\<^sup>*\<^sup>* (run_start cols) s" "run_done cols s"
  shows "map Some (rs_results s) = map (\<lambda>i. runOne r (ctx i) (cols ! i) (race i)) [0..<length cols]"
proof -
  note inv = run_reachable_inv [OF assms(1)]
  from run_done_all_return [OF inv assms(2)] run_done_results [OF inv assms(2)]
  show ?thesis by (auto simp: expected_def all_return_def intro!: nth_equalityI)
qed

lemma NewRunner_timeouts: "timeoutFor (Some NewRunner) col > 0"
  by (simp add: timeoutFor_def NewRunner_def defaultCollectorTimeout_def Let_def)

text \<open>
  C19: no schedule of a run has more than five steps per collector, and unless some collector never returns
  and is never given up, a run cannot deadlock: from every reachable state all results can still be
  received, and a state without a further step has received them. Such a collector can only be one without
  a timeout, as a context with a timeout ends, so a run whose collectors all have one, as those of
  \<open>NewRunner\<close> do, always ends; and with such a collector it never does, and its caller waits for ever.
\<close>

theorem Run_ends:
  assumes steps: "(run_step r ctx race observer cols ^^ n) (run_start cols) s"
    and law: "\<forall>i < length cols. race i = WaitsForever \<longrightarrow> timeoutFor r (cols ! i) \<le> 0"
  shows "n \<le> 5 * length cols \<and>
    ((\<forall>i < length cols. timeoutFor r (cols ! i) > 0 \<or> ctx i \<noteq> None \<or> race i \<noteq> WaitsForever) \<longrightarrow>
       (\<exists>t. (run_step r ctx race observer cols)\<^sup>*\<^sup>* s t \<and> run_done cols t) \<and>
       (run_done cols s \<or> (\<exists>t. run_step r ctx race observer cols s t))) \<and>
    (r = Some NewRunner \<longrightarrow> (\<forall>i < length cols. race i \<noteq> WaitsForever)) \<and>
    ((\<exists>i < length cols. ctx i = None \<and> race i = WaitsForever) \<longrightarrow>
       \<not> (\<exists>t. (run_step r ctx race observer cols)\<^sup>*\<^sup>* s t \<and> run_done cols t))"
proof (intro conjI impI)
  have inv: "run_inv r ctx race observer cols s" by (rule running.inv_iterate [OF steps run_inv_start])
  have "run_work (run_start cols) = 5 * length cols"
    by (simp add: run_work_def run_start_def sum_list_replicate)
  with run_bounded [OF steps run_inv_start] show "n \<le> 5 * length cols" by simp
  have done_inv: "all_return r ctx race cols"
    if "(run_step r ctx race observer cols)\<^sup>*\<^sup>* s t" "run_done cols t" for t
    using run_done_all_return [OF running.inv_steps [OF that(1) inv] that(2)] .
  {
    assume "\<forall>i < length cols. timeoutFor r (cols ! i) > 0 \<or> ctx i \<noteq> None \<or> race i \<noteq> WaitsForever"
    with law have "all_return r ctx race cols" by (fastforce simp: all_return_def runOne_None)
    with inv have i: "run_inv r ctx race observer cols s \<and> all_return r ctx race cols" by blast
    from run.reaches_final [OF i] show "\<exists>t. (run_step r ctx race observer cols)\<^sup>*\<^sup>* s t \<and> run_done cols t" .
    from run.progress [OF i] show "run_done cols s \<or> (\<exists>t. run_step r ctx race observer cols s t)" by blast
  }
  show "\<forall>i < length cols. race i \<noteq> WaitsForever" if "r = Some NewRunner"
    using law that NewRunner_timeouts by (metis not_le)
  show "\<not> (\<exists>t. (run_step r ctx race observer cols)\<^sup>*\<^sup>* s t \<and> run_done cols t)"
    if "\<exists>i < length cols. ctx i = None \<and> race i = WaitsForever"
    using that done_inv unfolding all_return_def runOne_None by blast
qed

text \<open>
  At every moment of a run the observer has been told of each collector, in this order, nothing,
  its start, or its start and its result, once each; after the run it was told both of all.
\<close>

theorem Run_observed:
  assumes "(run_step r ctx race True cols)\<^sup>*\<^sup>* (run_start cols) s" "i < length cols"
  shows "prefix (log_of s i) [CollectorStarted (co_Name (cols ! i)),
      CollectorDone (the (runOne r (ctx i) (cols ! i) (race i)))] \<and>
    (run_done cols s \<longrightarrow> length (log_of s i) = 2)"
proof -
  have inv: "run_inv r ctx race True cols s" by (rule run_reachable_inv [OF assms(1)])
  then have log: "log_of s i =
      history (co_Name (cols ! i)) (expected r ctx race cols i) (rs_phases s ! i)"
    using assms(2) by (simp add: run_inv_def)
  have "prefix (log_of s i) [CollectorStarted (co_Name (cols ! i)),
      CollectorDone (expected r ctx race cols i)]"
    by (cases "rs_phases s ! i") (simp_all add: log)
  moreover have "rs_phases s ! i = Sent" if "run_done cols s"
    using run_done_sent(1) [OF inv that assms(2)] .
  ultimately show ?thesis by (auto simp: log expected_def)
qed

text \<open>Two collectors, of which the second panics while the first is cut off by its timeout.\<close>

definition two_collectors :: "collector list" where
  "two_collectors = [\<lparr>co_Name = ''git'', co_Timeout = Some 2000000000\<rparr>, \<lparr>co_Name = ''ci'', co_Timeout = None\<rparr>]"

definition two_races :: "nat \<Rightarrow> race" where
  "two_races i = (if i = 0 then GraceOver DeadlineExceeded else DoneFirst (Panicked ''boom'') None)"

abbreviation two_step :: "run_state \<Rightarrow> run_state \<Rightarrow> bool" where
  "two_step \<equiv> run_step (Some NewRunner) (\<lambda>_. None) two_races True two_collectors"

definition two_results :: "collector_result list" where
  "two_results = map (\<lambda>i. the (runOne (Some NewRunner) None (two_collectors ! i) (two_races i))) [0..<2]"

lemma two_results_eq:
  "map c_Status two_results = [CollectorTimeout, CollectorFailed] \<and>
   map c_TimeoutMs two_results = [2000, 0] \<and>
   map c_Notes two_results = [[''context deadline exceeded''], [''panic: boom'']]"
  unfolding two_results_def by code_simp

text \<open>
  The steps as a function of who moves, \<open>Some i\<close> the goroutine of collector \<open>i\<close> and \<open>None\<close> the
  receiving loop, to run schedules.
\<close>

definition move ::
  "runner option \<Rightarrow> (nat \<Rightarrow> ctx_error option) \<Rightarrow> (nat \<Rightarrow> race) \<Rightarrow> bool \<Rightarrow> collector list \<Rightarrow>
   nat option \<Rightarrow> run_state \<Rightarrow> run_state option" where
  "move r ctx race observer cols m s =
     (case m of
        None \<Rightarrow>
          (case rs_channel s of
             [] \<Rightarrow> None
           | (i, res) # rest \<Rightarrow>
               if rs_received s < length cols
               then Some (s\<lparr>rs_results := (rs_results s)[i := res], rs_received := Suc (rs_received s),
                            rs_channel := rest\<rparr>)
               else None)
      | Some i \<Rightarrow>
          if i < length cols then
            (case rs_phases s ! i of
               Spawned \<Rightarrow> Some (s\<lparr>rs_phases := (rs_phases s)[i := Started],
                 rs_log := rs_log s @ observe observer i (CollectorStarted (co_Name (cols ! i)))\<rparr>)
             | Started \<Rightarrow> (case runOne r (ctx i) (cols ! i) (race i) of
                 None \<Rightarrow> None
               | Some res \<Rightarrow> Some (s\<lparr>rs_phases := (rs_phases s)[i := Finished res]\<rparr>))
             | Finished res \<Rightarrow> Some (s\<lparr>rs_phases := (rs_phases s)[i := Reported res],
                 rs_log := rs_log s @ observe observer i (CollectorDone res)\<rparr>)
             | Reported res \<Rightarrow>
                 if length (rs_channel s) < length cols
                 then Some (s\<lparr>rs_phases := (rs_phases s)[i := Sent],
                              rs_channel := rs_channel s @ [(i, res)]\<rparr>)
                 else None
             | Sent \<Rightarrow> None)
          else None)"

lemma move_step: "move r ctx race observer cols m s = Some t \<Longrightarrow> run_step r ctx race observer cols s t"
  by (auto simp: move_def split: option.splits list.splits if_splits phase.splits
      intro: run_step.intros)

fun moves ::
  "runner option \<Rightarrow> (nat \<Rightarrow> ctx_error option) \<Rightarrow> (nat \<Rightarrow> race) \<Rightarrow> bool \<Rightarrow> collector list \<Rightarrow>
   nat option list \<Rightarrow> run_state \<Rightarrow> run_state option" where
  "moves r ctx race observer cols [] s = Some s"
| "moves r ctx race observer cols (m # ms) s =
     (case move r ctx race observer cols m s of
        None \<Rightarrow> None
      | Some t \<Rightarrow> moves r ctx race observer cols ms t)"

lemma moves_steps:
  "moves r ctx race observer cols ms s = Some t \<Longrightarrow> (run_step r ctx race observer cols ^^ length ms) s t"
proof (induction ms arbitrary: s)
  case (Cons m ms)
  then obtain u where "move r ctx race observer cols m s = Some u"
      "moves r ctx race observer cols ms u = Some t"
    by (auto split: option.splits)
  with Cons.IH [of u] show ?case
    using relpowp_Suc_I2 [of "run_step r ctx race observer cols", OF move_step] by simp
qed simp

text \<open>A schedule in which the second collector overtakes the first.\<close>

definition overtaking :: run_state where
  "overtaking = the (moves (Some NewRunner) (\<lambda>_. None) two_races True two_collectors
     [Some 1, Some 1, Some 1, Some 1, None, Some 0, Some 0, Some 0, Some 0, None]
     (run_start two_collectors))"

lemma overtaking_run:
  "(two_step ^^ 10) (run_start two_collectors) overtaking"
proof -
  let ?ms = "[Some 1, Some 1, Some 1, Some 1, None, Some 0, Some 0, Some 0, Some 0, None]"
  have "moves (Some NewRunner) (\<lambda>_. None) two_races True two_collectors ?ms (run_start two_collectors) \<noteq> None"
    by code_simp
  then have "moves (Some NewRunner) (\<lambda>_. None) two_races True two_collectors ?ms
      (run_start two_collectors) = Some overtaking"
    unfolding overtaking_def by (rule option.collapse [symmetric])
  moreover have "length ?ms = 10" by simp
  ultimately show ?thesis using moves_steps by metis
qed

lemma overtaking_done: "run_done two_collectors overtaking"
  unfolding overtaking_def by code_simp

theorem Run_results_witness:
  "map c_Status (rs_results overtaking) = [CollectorTimeout, CollectorFailed] \<and>
   map c_TimeoutMs (rs_results overtaking) = [2000, 0] \<and>
   map c_Notes (rs_results overtaking) = [[''context deadline exceeded''], [''panic: boom'']]"
proof -
  have "rs_results overtaking = map the (map Some (rs_results overtaking))" by (simp add: comp_def)
  also have "\<dots> = map the (map (\<lambda>i. runOne (Some NewRunner) None (two_collectors ! i) (two_races i))
      [0..<length two_collectors])"
    unfolding Run_results [OF relpowp_imp_rtranclp [OF overtaking_run] overtaking_done] ..
  finally show ?thesis by simp code_simp
qed

theorem Run_ends_witness:
  "(10::nat) \<le> 5 * length two_collectors \<and>
   (\<exists>t. two_step\<^sup>*\<^sup>* overtaking t \<and> run_done two_collectors t)"
proof -
  have law: "\<forall>i < length two_collectors. two_races i = WaitsForever \<longrightarrow> timeoutFor (Some NewRunner) (two_collectors ! i) \<le> 0"
    by (simp add: two_races_def)
  from Run_ends [OF overtaking_run law] show ?thesis using NewRunner_timeouts by simp
qed

theorem Run_observed_witness:
  "length (log_of overtaking 0) = 2 \<and> length (log_of overtaking 1) = 2"
  using Run_observed [OF relpowp_imp_rtranclp [OF overtaking_run], of 0]
    Run_observed [OF relpowp_imp_rtranclp [OF overtaking_run], of 1] overtaking_done
  by (simp add: two_collectors_def)

section \<open>One collector\<close>

text \<open>How the collection of a race ended, or the error of the context that ended the wait for it.\<close>

fun collection_of :: "race \<Rightarrow> ctx_error + collection" where
  "collection_of (DoneFirst c _) = Inr c"
| "collection_of (DoneInGrace c _) = Inr c"
| "collection_of (GraceOver e) = Inl e"
| "collection_of WaitsForever = Inl DeadlineExceeded"

lemma ctx_error_text_nonempty [simp]: "ctx_error_text e \<noteq> []"
  by (cases e) simp_all

lemma appendUniqueNote_set [simp]: "note \<noteq> [] \<Longrightarrow> set (appendUniqueNote ns note) = insert note (set ns)"
  by (auto simp: appendUniqueNote_def)

lemma appendUniqueNote_keeps: "set ns \<subseteq> set (appendUniqueNote ns note)"
  by (auto simp: appendUniqueNote_def)

text \<open>A partial result that failed or timed out, with the given evidence and at least these notes.\<close>

definition reports_failure :: "evidence list \<Rightarrow> string list \<Rightarrow> collector_result \<Rightarrow> bool" where
  "reports_failure es ns res \<longleftrightarrow>
     c_Name res \<noteq> [] \<and> c_Partial res \<and> c_Status res \<in> {CollectorFailed, CollectorTimeout} \<and>
     c_Evidence res = es \<and> set ns \<subseteq> set (c_Notes res)"

lemma timeoutResult_fails:
  "name \<noteq> [] \<Longrightarrow> reports_failure [] [ctx_error_text e] (timeoutResult name t (Some e) None)"
  "name \<noteq> [] \<Longrightarrow> reports_failure (c_Evidence res) (ctx_error_text e # c_Notes res)
     (timeoutResult name t (Some e) (Some res))"
  by (auto simp: reports_failure_def timeoutResult_def Let_def)

lemma finalizeResult_ok:
  "finalizeResult name t e \<lparr>oc_Result = res, oc_Err = None\<rparr> =
     res\<lparr>c_Name := if c_Name res = [] then name else c_Name res,
         c_Status := if c_Status res = [] then CollectorOK else c_Status res\<rparr>"
  by (simp add: finalizeResult_def Let_def)

lemma finalizeResult_fails:
  assumes "name \<noteq> []"
  shows "reports_failure (c_Evidence res) (c_Notes res)
    (finalizeResult name t e \<lparr>oc_Result = res, oc_Err = Some err\<rparr>)"
proof -
  define res' where "res' = (if c_Name res = [] then res\<lparr>c_Name := name\<rparr> else res)"
  have res': "c_Name res' \<noteq> []" "c_Evidence res' = c_Evidence res" "c_Notes res' = c_Notes res"
    using assms by (simp_all add: res'_def)
  have "reports_failure (c_Evidence res) (c_Notes res) (timeoutResult name t (Some x) (Some res'))" for x
    using timeoutResult_fails(2) [OF assms, of res' x t] res' by (simp add: reports_failure_def)
  then show ?thesis using res' appendUniqueNote_keeps [of "c_Notes res"]
    by (auto simp: finalizeResult_def reports_failure_def simp flip: res'_def split: option.splits)
qed

text \<open>
  \<open>runOne\<close> never loses a failure: a collector that returned without an error is passed on with
  an empty name and status filled in; every other (an error, a panic, a timeout, a context that had
  ended) gives a partial result that has failed or timed out, says so in its notes, and keeps the
  evidence that was returned with the error.
\<close>

theorem runOne_outcome:
  assumes "co_Name col \<noteq> []" and "runOne r ctx col race = Some out"
  shows "case (ctx, collection_of race) of
       (None, Inr (Returned res None)) \<Rightarrow>
         out = res\<lparr>c_Name := if c_Name res = [] then co_Name col else c_Name res,
               c_Status := if c_Status res = [] then CollectorOK else c_Status res\<rparr>
     | (None, Inr (Returned res (Some err))) \<Rightarrow> reports_failure (c_Evidence res) (c_Notes res) out
     | (None, Inr (Panicked v)) \<Rightarrow> reports_failure [] [''panic: '' @ v] out
     | (None, Inl e) \<Rightarrow> reports_failure [] [ctx_error_text e] out
     | (Some e, _) \<Rightarrow> reports_failure [] [ctx_error_text e] out"
proof -
  note facts = finalizeResult_ok timeoutResult_fails(1) [OF assms(1)] finalizeResult_fails [OF assms(1)]
  have panic: "reports_failure [] [''panic: '' @ v] (finalizeResult (co_Name col) t e (outcome_of (co_Name col) (Panicked v)))"
    for t e v using finalizeResult_fails [OF assms(1), of "oc_Result (outcome_of (co_Name col) (Panicked v))"]
    by simp
  have "out = (case collection_of race of
      Inl e \<Rightarrow> timeoutResult (co_Name col) (timeoutFor r col) (Some e) None
    | Inr c \<Rightarrow> finalizeResult (co_Name col) (timeoutFor r col)
        (case race of DoneFirst c e \<Rightarrow> e | DoneInGrace c e \<Rightarrow> Some e) (outcome_of (co_Name col) c))" if "ctx = None"
    using assms(2) that by (cases race) (simp_all add: runOne_def Let_def)
  moreover have "out = timeoutResult (co_Name col) (timeoutFor r col) (Some e) None" if "ctx = Some e" for e
    using assms(2) that by (simp add: runOne_def Let_def)
  moreover have "race \<noteq> WaitsForever" if "ctx = None" using assms(2) that by (auto simp: runOne_def Let_def)
  ultimately show ?thesis
    using facts panic
    by (cases race) (auto simp del: outcome_of.simps(2) split: option.splits collection.splits)
qed

theorem runOne_outcome_witness:
  "reports_failure [] [''panic: boom''] (the (runOne None None \<lparr>co_Name = ''ci'', co_Timeout = None\<rparr>
     (DoneFirst (Panicked ''boom'') None)))"
proof -
  have "runOne None None \<lparr>co_Name = ''ci'', co_Timeout = None\<rparr> (DoneFirst (Panicked ''boom'') None) \<noteq> None"
    by (simp add: runOne_None)
  then obtain out where out: "runOne None None \<lparr>co_Name = ''ci'', co_Timeout = None\<rparr>
      (DoneFirst (Panicked ''boom'') None) = Some out" by blast
  from runOne_outcome [OF _ out] show ?thesis by (simp add: out)
qed

end
