(* ===== verification/Go_Regexp.thy ===== *)
theory Go_Regexp
  imports Prelude
begin

text \<open>
  Package \<open>regexp\<close> as far as the program uses it: regular expressions with groups and assertions,
  matched leftmost-first (the alternatives of an expression in the order of preference of Perl, which
  is what the package documents), \<open>FindAll\<close>, and rewriting of all matches. Texts are sequences of
  characters below 256, one \<open>char\<close> each. No expression of the program repeats an expression that
  matches the empty text, so iterations of a star that consume nothing are not tried.
\<close>

section \<open>Character classes\<close>

fun is_digit :: "char \<Rightarrow> bool" where
  "is_digit (Char b0 b1 b2 b3 b4 b5 b6 b7) \<longleftrightarrow> b4 \<and> b5 \<and> \<not> b6 \<and> \<not> b7 \<and> \<not> (b3 \<and> (b1 \<or> b2))"

fun is_upper :: "char \<Rightarrow> bool" where
  "is_upper (Char b0 b1 b2 b3 b4 b5 b6 b7) \<longleftrightarrow> b6 \<and> \<not> b5 \<and> \<not> b7 \<and> letter_bits b0 b1 b2 b3 b4"

fun is_lower :: "char \<Rightarrow> bool" where
  "is_lower (Char b0 b1 b2 b3 b4 b5 b6 b7) \<longleftrightarrow> b6 \<and> b5 \<and> \<not> b7 \<and> letter_bits b0 b1 b2 b3 b4"

definition is_alpha :: "char \<Rightarrow> bool" where
  "is_alpha c \<longleftrightarrow> is_upper c \<or> is_lower c"

definition is_alnum :: "char \<Rightarrow> bool" where
  "is_alnum c \<longleftrightarrow> is_upper c \<or> is_lower c \<or> is_digit c"

definition is_word :: "char \<Rightarrow> bool" where
  "is_word c \<longleftrightarrow> is_alnum c \<or> c = CHR ''_''"

text \<open>\<open>\s\<close>: tab, newline, form feed, carriage return and space.\<close>

definition is_space :: "char \<Rightarrow> bool" where
  "is_space c \<longleftrightarrow> c \<in> {CHR 0x09, CHR 0x0A, CHR 0x0C, CHR 0x0D, CHR '' ''}"

lemma char_class_lists:
  "\<forall>c. is_digit c = (c \<in> set ''0123456789'')"
  "\<forall>c. is_upper c = (c \<in> set ''ABCDEFGHIJKLMNOPQRSTUVWXYZ'')"
  "\<forall>c. is_lower c = (c \<in> set ''abcdefghijklmnopqrstuvwxyz'')"
  by code_simp+

section \<open>Expressions and their matches\<close>

text \<open>
  \<open>RBegin\<close> is the beginning of the text, \<open>RLine\<close> that of a line (\<open>^\<close> under \<open>(?m)\<close>), \<open>REnd\<close> the end of
  the text and \<open>RBound\<close> a boundary of words.
\<close>

datatype rx =
    REps
  | RCls "char \<Rightarrow> bool"
  | RSeq rx rx
  | RAlt rx rx
  | RStar rx
  | RLazy rx
  | RCap nat rx
  | RBegin
  | RLine
  | REnd
  | RBound

abbreviation (input) ROpt :: "rx \<Rightarrow> rx" where "ROpt r \<equiv> RAlt r REps"
abbreviation (input) RPlus :: "rx \<Rightarrow> rx" where "RPlus r \<equiv> RSeq r (RStar r)"

definition RChr :: "char \<Rightarrow> rx" where "RChr c = RCls (\<lambda>d. d = c)"

text \<open>Under \<open>(?i)\<close>.\<close>

definition RChrI :: "char \<Rightarrow> rx" where "RChrI c = RCls (\<lambda>d. lower_char d = c)"

fun RSeqs :: "rx list \<Rightarrow> rx" where
  "RSeqs [] = REps"
| "RSeqs [r] = r"
| "RSeqs (r # rs) = RSeq r (RSeqs rs)"

fun RAlts :: "rx list \<Rightarrow> rx" where
  "RAlts [] = RCls (\<lambda>_. False)"
| "RAlts [r] = r"
| "RAlts (r # rs) = RAlt r (RAlts rs)"

definition RStr :: "string \<Rightarrow> rx" where "RStr s = RSeqs (map RChr s)"
definition RStrI :: "string \<Rightarrow> rx" where "RStrI s = RSeqs (map RChrI s)"

definition RTimes :: "nat \<Rightarrow> rx \<Rightarrow> rx" where "RTimes n r = RSeqs (replicate n r)"
definition RAtLeast :: "nat \<Rightarrow> rx \<Rightarrow> rx" where "RAtLeast n r = RSeq (RTimes n r) (RStar r)"

text \<open>
  A state of the matcher: the text before, reversed, the text ahead, and the groups closed so far,
  the last one first, with their bounds.
\<close>

type_synonym rx_state = "string \<times> string \<times> (nat \<times> nat \<times> nat) list"

fun head_word :: "string \<Rightarrow> bool" where
  "head_word [] = False"
| "head_word (c # _) = is_word c"

text \<open>All ways to match at a place, the preferred one first.\<close>

function rx_match :: "rx \<Rightarrow> rx_state \<Rightarrow> rx_state list" where
  "rx_match REps st = [st]"
| "rx_match (RCls P) st =
     (case st of (pre, post, cs) \<Rightarrow>
        (case post of [] \<Rightarrow> [] | c # post' \<Rightarrow> if P c then [(c # pre, post', cs)] else []))"
| "rx_match (RSeq a b) st = concat (map (rx_match b) (rx_match a st))"
| "rx_match (RAlt a b) st = rx_match a st @ rx_match b st"
| "rx_match (RStar a) st =
     concat (map (\<lambda>st'. if length (fst (snd st')) < length (fst (snd st)) then rx_match (RStar a) st' else [])
       (rx_match a st)) @ [st]"
| "rx_match (RLazy a) st =
     st # concat (map (\<lambda>st'. if length (fst (snd st')) < length (fst (snd st)) then rx_match (RLazy a) st' else [])
       (rx_match a st))"
| "rx_match (RCap n a) st =
     map (\<lambda>(pre', post', cs'). (pre', post', (n, length (fst st), length pre') # cs')) (rx_match a st)"
| "rx_match RBegin st = (if fst st = [] then [st] else [])"
| "rx_match RLine st = (if fst st = [] \<or> hd (fst st) = CHR 0x0A then [st] else [])"
| "rx_match REnd st = (if fst (snd st) = [] then [st] else [])"
| "rx_match RBound st = (if head_word (fst st) \<noteq> head_word (fst (snd st)) then [st] else [])"
  by pat_completeness auto
termination
  by (relation "measures [\<lambda>(r, st). size r, \<lambda>(r, st). length (fst (snd st))]") auto

lemmas rx_match_star = rx_match.simps(5) and rx_match_lazy = rx_match.simps(6)

declare rx_match.simps(5,6) [simp del]

section \<open>Finding and rewriting\<close>

record rx_found =
  rf_start :: nat
  rf_end :: nat
  rf_groups :: "(nat \<times> nat \<times> nat) list"

text \<open>The leftmost match from a place on: where it starts (the text before, reversed) and its state.\<close>

fun find_from :: "rx \<Rightarrow> string \<Rightarrow> string \<Rightarrow> (string \<times> rx_state) option" where
  "find_from r pre post =
     (case rx_match r (pre, post, []) of
        st # _ \<Rightarrow> Some (pre, st)
      | [] \<Rightarrow> (case post of [] \<Rightarrow> None | c # post' \<Rightarrow> find_from r (c # pre) post'))"

declare find_from.simps [simp del]

definition found_at :: "string \<Rightarrow> rx_state \<Rightarrow> rx_found" where
  "found_at spre st = \<lparr>rf_start = length spre, rf_end = length (fst st), rf_groups = snd (snd st)\<rparr>"

text \<open>
  The loop of \<open>FindAll\<close>: after a match that consumed text it goes on at its end, after an empty one
  at the next character; an empty match next to the previous match (\<open>prev\<close> is its end) is dropped.
\<close>

function find_all_from :: "rx \<Rightarrow> string \<Rightarrow> string \<Rightarrow> nat option \<Rightarrow> rx_found list" where
  "find_all_from r pre post prev =
     (case find_from r pre post of
        None \<Rightarrow> []
      | Some (spre, st) \<Rightarrow>
          if length (fst (snd st)) < length post
          then found_at spre st # find_all_from r (fst st) (fst (snd st)) (Some (length (fst st)))
          else (if prev = Some (length spre) then [] else [found_at spre st]) @
               (case post of
                  [] \<Rightarrow> []
                | c # post' \<Rightarrow> find_all_from r (c # pre) post' (Some (length (fst st)))))"
  by pat_completeness auto
termination
  by (relation "measure (\<lambda>(r, pre, post, prev). length post)") auto

declare find_all_from.simps [simp del]

definition FindAll :: "rx \<Rightarrow> string \<Rightarrow> rx_found list" where
  "FindAll r s = find_all_from r [] s None"

definition MatchString :: "rx \<Rightarrow> string \<Rightarrow> bool" where
  "MatchString r s \<longleftrightarrow> find_from r [] s \<noteq> None"

definition FindFirst :: "rx \<Rightarrow> string \<Rightarrow> rx_found option" where
  "FindFirst r s = map_option (\<lambda>(spre, st). found_at spre st) (find_from r [] s)"

definition substr :: "string \<Rightarrow> nat \<Rightarrow> nat \<Rightarrow> string" where
  "substr s i j = take (j - i) (drop i s)"

definition group_bounds :: "rx_found \<Rightarrow> nat \<Rightarrow> (nat \<times> nat) option" where
  "group_bounds m n = map_of (rf_groups m) n"

definition submatch :: "string \<Rightarrow> rx_found \<Rightarrow> nat \<Rightarrow> string" where
  "submatch input m n = (case group_bounds m n of None \<Rightarrow> [] | Some (i, j) \<Rightarrow> substr input i j)"

definition whole_match :: "string \<Rightarrow> rx_found \<Rightarrow> string" where
  "whole_match input m = substr input (rf_start m) (rf_end m)"

fun rewrite_from :: "string \<Rightarrow> nat \<Rightarrow> rx_found list \<Rightarrow> (rx_found \<Rightarrow> string) \<Rightarrow> string" where
  "rewrite_from input done [] render = drop done input"
| "rewrite_from input done (m # ms) render =
     substr input done (rf_start m) @ render m @ rewrite_from input (rf_end m) ms render"

text \<open>\<open>rewriteMatches\<close> of the program, and \<open>ReplaceAll\<close> for expressions that consume text.\<close>

definition rewriteMatches :: "string \<Rightarrow> rx \<Rightarrow> (rx_found \<Rightarrow> string) \<Rightarrow> string" where
  "rewriteMatches input r render = rewrite_from input 0 (FindAll r input) render"

section \<open>What an expression matches\<close>

text \<open>
  The meaning of an expression apart from preference: \<open>rx_in r pre w post\<close> says that \<open>r\<close> matches \<open>w\<close>
  between the text before (reversed) and the text after.
\<close>

inductive rx_in :: "rx \<Rightarrow> string \<Rightarrow> string \<Rightarrow> string \<Rightarrow> bool" where
  in_eps: "rx_in REps pre [] post"
| in_cls: "P c \<Longrightarrow> rx_in (RCls P) pre [c] post"
| in_seq: "rx_in a pre v (w @ post) \<Longrightarrow> rx_in b (rev v @ pre) w post \<Longrightarrow> rx_in (RSeq a b) pre (v @ w) post"
| in_alt1: "rx_in a pre w post \<Longrightarrow> rx_in (RAlt a b) pre w post"
| in_alt2: "rx_in b pre w post \<Longrightarrow> rx_in (RAlt a b) pre w post"
| in_star_nil: "rx_in (RStar a) pre [] post"
| in_star: "v \<noteq> [] \<Longrightarrow> rx_in a pre v (w @ post) \<Longrightarrow> rx_in (RStar a) (rev v @ pre) w post \<Longrightarrow>
    rx_in (RStar a) pre (v @ w) post"
| in_lazy_nil: "rx_in (RLazy a) pre [] post"
| in_lazy: "v \<noteq> [] \<Longrightarrow> rx_in a pre v (w @ post) \<Longrightarrow> rx_in (RLazy a) (rev v @ pre) w post \<Longrightarrow>
    rx_in (RLazy a) pre (v @ w) post"
| in_cap: "rx_in a pre w post \<Longrightarrow> rx_in (RCap n a) pre w post"
| in_begin: "rx_in RBegin [] [] post"
| in_line: "pre = [] \<or> hd pre = CHR 0x0A \<Longrightarrow> rx_in RLine pre [] post"
| in_end: "rx_in REnd pre [] []"
| in_bound: "head_word pre \<noteq> head_word post \<Longrightarrow> rx_in RBound pre [] post"

inductive_simps rx_in_simps:
  "rx_in REps pre w post" "rx_in (RCls P) pre w post" "rx_in (RSeq a b) pre w post"
  "rx_in (RAlt a b) pre w post" "rx_in (RCap n a) pre w post" "rx_in RBegin pre w post"
  "rx_in RLine pre w post" "rx_in REnd pre w post" "rx_in RBound pre w post"

inductive_cases rx_in_starE: "rx_in (RStar a) pre w post"
inductive_cases rx_in_lazyE: "rx_in (RLazy a) pre w post"

lemma set_star:
  "t \<in> set (rx_match (RStar a) (pre, post, cs)) \<longleftrightarrow> t = (pre, post, cs) \<or>
     (\<exists>p q ds. (p, q, ds) \<in> set (rx_match a (pre, post, cs)) \<and> length q < length post \<and>
        t \<in> set (rx_match (RStar a) (p, q, ds)))"
  by (subst rx_match_star) (fastforce split: if_splits)

lemma set_lazy:
  "t \<in> set (rx_match (RLazy a) (pre, post, cs)) \<longleftrightarrow> t = (pre, post, cs) \<or>
     (\<exists>p q ds. (p, q, ds) \<in> set (rx_match a (pre, post, cs)) \<and> length q < length post \<and>
        t \<in> set (rx_match (RLazy a) (p, q, ds)))"
  by (subst rx_match_lazy) (fastforce split: if_splits)

lemma rx_match_sound:
  "(pre', post', cs') \<in> set (rx_match r (pre, post, cs)) \<Longrightarrow>
   \<exists>w. post = w @ post' \<and> pre' = rev w @ pre \<and> rx_in r pre w post'"
proof (induction r "(pre, post, cs)" arbitrary: pre post cs pre' post' cs' rule: rx_match.induct)
  case (3 a b)
  from 3(3) obtain p q ds where m: "(p, q, ds) \<in> set (rx_match a (pre, post, cs))"
      "(pre', post', cs') \<in> set (rx_match b (p, q, ds))" by auto
  obtain v where v: "post = v @ q" "p = rev v @ pre" "rx_in a pre v q" using 3(1) [OF m(1)] by blast
  obtain w where "q = w @ post'" "pre' = rev w @ p" "rx_in b p w post'" using 3(2) [OF m] by blast
  with v have "rx_in (RSeq a b) pre (v @ w) post'" by (auto intro: in_seq)
  with v show ?case using \<open>q = w @ post'\<close> \<open>pre' = rev w @ p\<close> by (intro exI [of _ "v @ w"]) simp
next
  case (5 a)
  show ?case
  proof (cases "(pre', post', cs') = (pre, post, cs)")
    case True
    then show ?thesis by (auto intro: in_star_nil)
  next
    case False
    then obtain p q ds where m: "(p, q, ds) \<in> set (rx_match a (pre, post, cs))" "length q < length post"
        "(pre', post', cs') \<in> set (rx_match (RStar a) (p, q, ds))"
      using 5(3) set_star [of "(pre', post', cs')"] by blast
    obtain v where v: "post = v @ q" "p = rev v @ pre" "rx_in a pre v q" using 5(1) [OF m(1)] by blast
    have "\<exists>w. q = w @ post' \<and> pre' = rev w @ p \<and> rx_in (RStar a) p w post'"
      using 5(2) [OF m(1)] m(2,3) by simp
    then obtain w where w: "q = w @ post'" "pre' = rev w @ p" "rx_in (RStar a) p w post'" by blast
    have "rx_in (RStar a) pre (v @ w) post'" using v w m(2) by (intro in_star) auto
    with v w show ?thesis by (intro exI [of _ "v @ w"]) simp
  qed
next
  case (6 a)
  show ?case
  proof (cases "(pre', post', cs') = (pre, post, cs)")
    case True
    then show ?thesis by (auto intro: in_lazy_nil)
  next
    case False
    then obtain p q ds where m: "(p, q, ds) \<in> set (rx_match a (pre, post, cs))" "length q < length post"
        "(pre', post', cs') \<in> set (rx_match (RLazy a) (p, q, ds))"
      using 6(3) set_lazy [of "(pre', post', cs')"] by blast
    obtain v where v: "post = v @ q" "p = rev v @ pre" "rx_in a pre v q" using 6(1) [OF m(1)] by blast
    have "\<exists>w. q = w @ post' \<and> pre' = rev w @ p \<and> rx_in (RLazy a) p w post'"
      using 6(2) [OF m(1)] m(2,3) by simp
    then obtain w where w: "q = w @ post'" "pre' = rev w @ p" "rx_in (RLazy a) p w post'" by blast
    have "rx_in (RLazy a) pre (v @ w) post'" using v w m(2) by (intro in_lazy) auto
    with v w show ?thesis by (intro exI [of _ "v @ w"]) simp
  qed
next
  case (4 a b)
  from 4(3) consider "(pre', post', cs') \<in> set (rx_match a (pre, post, cs))"
    | "(pre', post', cs') \<in> set (rx_match b (pre, post, cs))" by auto
  then show ?case
  proof cases
    case 1
    from 4(1) [OF this] show ?thesis by (auto intro: in_alt1)
  next
    case 2
    from 4(2) [OF this] show ?thesis by (auto intro: in_alt2)
  qed
next
  case (7 n a)
  then obtain ds where "(pre', post', ds) \<in> set (rx_match a (pre, post, cs))" by auto
  from 7(1) [OF this] show ?case by (auto intro: in_cap)
qed (auto simp: rx_in_simps split: list.splits if_splits)

lemma rx_match_complete:
  "rx_in r pre w post \<Longrightarrow> \<exists>cs'. (rev w @ pre, post, cs') \<in> set (rx_match r (pre, w @ post, cs))"
proof (induction arbitrary: cs rule: rx_in.induct)
  case (in_seq a pre v w post b)
  then show ?case by fastforce
next
  case (in_star v a pre w post)
  from in_star.IH(1) obtain ds where "(rev v @ pre, w @ post, ds) \<in> set (rx_match a (pre, v @ w @ post, cs))"
    by blast
  moreover from in_star.IH(2) obtain cs' where
    "(rev w @ rev v @ pre, post, cs') \<in> set (rx_match (RStar a) (rev v @ pre, w @ post, ds))" by blast
  moreover have "length (w @ post) < length (v @ w @ post)" using in_star.hyps(1) by simp
  ultimately have "(rev w @ rev v @ pre, post, cs') \<in> set (rx_match (RStar a) (pre, v @ w @ post, cs))"
    unfolding set_star [of _ a pre] by blast
  then show ?case by auto
next
  case (in_lazy v a pre w post)
  from in_lazy.IH(1) obtain ds where "(rev v @ pre, w @ post, ds) \<in> set (rx_match a (pre, v @ w @ post, cs))"
    by blast
  moreover from in_lazy.IH(2) obtain cs' where
    "(rev w @ rev v @ pre, post, cs') \<in> set (rx_match (RLazy a) (rev v @ pre, w @ post, ds))" by blast
  moreover have "length (w @ post) < length (v @ w @ post)" using in_lazy.hyps(1) by simp
  ultimately have "(rev w @ rev v @ pre, post, cs') \<in> set (rx_match (RLazy a) (pre, v @ w @ post, cs))"
    unfolding set_lazy [of _ a pre] by blast
  then show ?case by auto
next
  case (in_star_nil a pre post)
  show ?case using set_star [of "(pre, post, cs)" a pre post cs] by (intro exI [of _ cs]) simp
next
  case (in_lazy_nil a pre post)
  show ?case using set_lazy [of "(pre, post, cs)" a pre post cs] by (intro exI [of _ cs]) simp
next
  case (in_cap a pre w post n)
  then obtain cs' where "(rev w @ pre, post, cs') \<in> set (rx_match a (pre, w @ post, cs))" by blast
  then show ?case by (intro exI [of _ "(n, length pre, length (rev w @ pre)) # cs'"]) force
next
  case (in_alt1 a pre w post b)
  from in_alt1.IH [of cs] show ?case by auto
next
  case (in_alt2 b pre w post a)
  from in_alt2.IH [of cs] show ?case by auto
qed auto

lemma rx_match_Nil: "rx_match r (pre, post, cs) = [] \<longleftrightarrow> \<not> (\<exists>w q. post = w @ q \<and> rx_in r pre w q)"
  using rx_match_sound [of _ _ _ r pre post cs] rx_match_complete [of r pre _ _ cs]
  by (metis (no_types, opaque_lifting) empty_iff list.set(1) list.set_intros(1) neq_Nil_conv prod_cases3)

text \<open>
  The least number of characters an expression consumes, and so the length of what it matches.
\<close>

fun min_len :: "rx \<Rightarrow> nat" where
  "min_len (RCls P) = 1"
| "min_len (RSeq a b) = min_len a + min_len b"
| "min_len (RAlt a b) = min (min_len a) (min_len b)"
| "min_len (RCap n a) = min_len a"
| "min_len _ = 0"

lemma min_len_le: "rx_in r pre w post \<Longrightarrow> min_len r \<le> length w"
  by (induction rule: rx_in.induct) auto

section \<open>Leftmost matches\<close>

text \<open>
  The search returns the first place where the expression matches at all, and a match there.
\<close>

lemma find_from_Some:
  "find_from r pre post = Some (spre, st) \<Longrightarrow>
   \<exists>gap w q cs. post = gap @ w @ q \<and> spre = rev gap @ pre \<and> st = (rev w @ spre, q, cs) \<and> rx_in r spre w q \<and>
     (\<forall>g h v u. gap = g @ h \<and> h \<noteq> [] \<and> h @ w @ q = v @ u \<longrightarrow> \<not> rx_in r (rev g @ pre) v u)"
proof (induction r pre post rule: find_from.induct)
  case (1 r pre post)
  show ?case
  proof (cases "rx_match r (pre, post, [])")
    case (Cons t ts)
    with 1(2) have "spre = pre" "st = t" by (simp_all add: find_from.simps)
    moreover obtain p q cs where "t = (p, q, cs)" by (cases t) auto
    ultimately show ?thesis
      using rx_match_sound [of p q cs r pre post "[]"] Cons by (auto intro!: exI [of _ "[]"])
  next
    case Nil
    with 1(2) obtain c post' where post: "post = c # post'" and rec: "find_from r (c # pre) post' = Some (spre, st)"
      by (auto simp: find_from.simps [of r pre post] split: list.splits)
    from 1(1) [OF Nil post rec] obtain gap w q cs where
      g: "post' = gap @ w @ q" "spre = rev gap @ c # pre" "st = (rev w @ spre, q, cs)" "rx_in r spre w q"
      and none: "\<forall>g h v u. gap = g @ h \<and> h \<noteq> [] \<and> h @ w @ q = v @ u \<longrightarrow> \<not> rx_in r (rev g @ c # pre) v u"
      by blast
    have "\<not> rx_in r (rev g' @ pre) v u"
      if "c # gap = g' @ h" "h \<noteq> []" "h @ w @ q = v @ u" for g' h v u
    proof (cases g')
      case Nil': Nil
      with that g(1) post have "post = v @ u" by (metis append.left_neutral append_assoc append_Cons)
      with Nil rx_match_Nil [of r pre post "[]"] Nil' show ?thesis by auto
    next
      case (Cons d g)
      with that none show ?thesis by auto
    qed
    with g post show ?thesis by (intro exI [of _ "c # gap"] exI [of _ w] exI [of _ q] exI [of _ cs]) auto
  qed
qed

lemma find_from_None:
  "find_from r pre post = None \<longleftrightarrow> (\<forall>g v u. post = g @ v @ u \<longrightarrow> \<not> rx_in r (rev g @ pre) v u)"
proof (induction r pre post rule: find_from.induct)
  case (1 r pre post)
  show ?case
  proof (cases "rx_match r (pre, post, [])")
    case (Cons t ts)
    then obtain w q where "post = w @ q" "rx_in r pre w q"
      using rx_match_Nil [of r pre post "[]"] by auto
    then have "\<exists>g v u. post = g @ v @ u \<and> rx_in r (rev g @ pre) v u"
      by (intro exI [of _ "[]"] exI [of _ w] exI [of _ q]) simp
    with Cons show ?thesis by (auto simp: find_from.simps)
  next
    case Nil
    then have here: "\<not> rx_in r pre v u" if "post = v @ u" for v u
      using rx_match_Nil [of r pre post "[]"] that by blast
    show ?thesis
    proof (cases post)
      case Nil': Nil
      with Nil here show ?thesis by (auto simp: find_from.simps)
    next
      case (Cons c post')
      have "find_from r pre post = find_from r (c # pre) post'" using Nil Cons by (simp add: find_from.simps)
      also have "\<dots> = None \<longleftrightarrow> (\<forall>g v u. post' = g @ v @ u \<longrightarrow> \<not> rx_in r (rev g @ c # pre) v u)"
        by (rule 1(1) [OF Nil Cons])
      also have "\<dots> \<longleftrightarrow> (\<forall>g v u. post = g @ v @ u \<longrightarrow> \<not> rx_in r (rev g @ pre) v u)"
      proof (intro iffI allI impI)
        fix g v u assume all: "\<forall>g v u. post' = g @ v @ u \<longrightarrow> \<not> rx_in r (rev g @ c # pre) v u"
          and eq: "post = g @ v @ u"
        show "\<not> rx_in r (rev g @ pre) v u"
          using all eq here Cons by (cases g) auto
      next
        fix g v u assume "\<forall>g v u. post = g @ v @ u \<longrightarrow> \<not> rx_in r (rev g @ pre) v u" "post' = g @ v @ u"
        then show "\<not> rx_in r (rev g @ c # pre) v u" using Cons by (auto dest: spec [of _ "c # g"])
      qed
      finally show ?thesis .
    qed
  qed
qed

theorem MatchString_iff: "MatchString r s \<longleftrightarrow> (\<exists>g v u. s = g @ v @ u \<and> rx_in r (rev g) v u)"
  by (auto simp: MatchString_def find_from_None [of r "[]" s])

section \<open>Rewriting all matches\<close>

text \<open>No match starts inside \<open>gap\<close>, which stands between \<open>pre\<close> and \<open>rest\<close>; or nowhere from \<open>pre\<close> on.\<close>

definition no_start :: "rx \<Rightarrow> string \<Rightarrow> string \<Rightarrow> string \<Rightarrow> bool" where
  "no_start r pre gap rest \<longleftrightarrow>
     (\<forall>g h v u. gap = g @ h \<and> h \<noteq> [] \<and> h @ rest = v @ u \<longrightarrow> \<not> rx_in r (rev g @ pre) v u)"

definition no_match :: "rx \<Rightarrow> string \<Rightarrow> string \<Rightarrow> bool" where
  "no_match r pre post \<longleftrightarrow> (\<forall>g v u. post = g @ v @ u \<longrightarrow> \<not> rx_in r (rev g @ pre) v u)"

text \<open>Rewriting with an expression that consumes text, as an induction over gaps and matches.\<close>

lemma rewrite_induct:
  assumes consumes: "0 < min_len r"
    and base: "\<And>pre post. input = rev pre @ post \<Longrightarrow> no_match r pre post \<Longrightarrow> P pre post post"
    and step: "\<And>pre gap w q m out. \<lbrakk>input = rev pre @ gap @ w @ q; rx_in r (rev gap @ pre) w q;
        no_start r pre gap (w @ q); rf_start m = length pre + length gap;
        rf_end m = length pre + length gap + length w;
        (rev (gap @ w) @ pre, q, rf_groups m) \<in> set (rx_match r (rev gap @ pre, w @ q, []));
        P (rev (gap @ w) @ pre) q out\<rbrakk>
      \<Longrightarrow> P pre (gap @ w @ q) (gap @ render m @ out)"
    and "input = rev pre @ post"
  shows "P pre post (rewrite_from input (length pre) (find_all_from r pre post prev) render)"
  using assms(4)
proof (induction "length post" arbitrary: pre post prev rule: less_induct)
  case less
  show ?case
  proof (cases "find_from r pre post")
    case None
    then have "no_match r pre post" by (simp add: find_from_None no_match_def)
    with base less.prems None show ?thesis by (simp add: find_all_from.simps)
  next
    case (Some found)
    obtain spre st where f: "find_from r pre post = Some (spre, st)" using Some by (cases found) auto
    from find_from_Some [OF f] obtain gap w q cs where
      g: "post = gap @ w @ q" "spre = rev gap @ pre" "st = (rev w @ spre, q, cs)" "rx_in r spre w q"
      and none: "no_start r pre gap (w @ q)"
      unfolding no_start_def by blast
    have w: "w \<noteq> []" using min_len_le [OF g(4)] consumes by auto
    have "(rev w @ spre, q, cs) \<in> set (rx_match r (spre, w @ q, []))"
    proof -
      have "\<exists>ts. rx_match r (spre, w @ q, []) = st # ts"
        using f g(1,2)
      proof (induction r pre post arbitrary: gap rule: find_from.induct)
        case (1 r pre post)
        show ?case
        proof (cases "rx_match r (pre, post, [])")
          case (Cons t ts)
          with 1(2) have "spre = pre" "st = t" by (simp_all add: find_from.simps)
          with 1(3,4) Cons show ?thesis by simp
        next
          case Nil
          with 1(2) obtain c post' where post: "post = c # post'"
              and rec: "find_from r (c # pre) post' = Some (spre, st)"
            by (auto simp: find_from.simps [of r pre post] split: list.splits)
          from find_from_Some [OF rec] obtain gap' where "spre = rev gap' @ c # pre" by blast
          with 1(4) have "gap = c # gap'" by (metis append_Cons append_assoc append_same_eq rev.simps(2) rev_append rev_rev_ident append.left_neutral)
          with 1(1) [OF Nil post rec, of gap'] 1(3,4) post show ?thesis by simp
        qed
      qed
      with g(3) show ?thesis by force
    qed
    moreover have "length q < length post" using g(1) w by simp
    moreover have "find_all_from r pre post prev =
        found_at spre st # find_all_from r (rev w @ spre) q (Some (length (rev w @ spre)))"
      using f g w by (simp add: find_all_from.simps [of r pre])
    moreover have "rewrite_from input (length pre) (found_at spre st # ms) render =
        gap @ render (found_at spre st) @ rewrite_from input (length (rev w @ spre)) ms render" for ms
      using less.prems g by (simp add: found_at_def substr_def)
    ultimately show ?thesis
      using step [of pre gap w q "found_at spre st"] less.hyps [of q "rev w @ spre"] g none less.prems
      by (simp add: found_at_def add.commute)
  qed
qed

lemma rewriteMatches_induct [consumes 1, case_names base step]:
  assumes "0 < min_len r"
    and "\<And>pre post. input = rev pre @ post \<Longrightarrow> no_match r pre post \<Longrightarrow> P pre post post"
    and "\<And>pre gap w q m out. \<lbrakk>input = rev pre @ gap @ w @ q; rx_in r (rev gap @ pre) w q;
        no_start r pre gap (w @ q); rf_start m = length pre + length gap;
        rf_end m = length pre + length gap + length w;
        (rev (gap @ w) @ pre, q, rf_groups m) \<in> set (rx_match r (rev gap @ pre, w @ q, []));
        P (rev (gap @ w) @ pre) q out\<rbrakk>
      \<Longrightarrow> P pre (gap @ w @ q) (gap @ render m @ out)"
  shows "P [] input (rewriteMatches input r render)"
  using rewrite_induct [of r input P render "[]" input None] assms
  by (simp add: rewriteMatches_def FindAll_def)

section \<open>Expressions without assertions, and the characters of a match\<close>

fun ctx_free :: "rx \<Rightarrow> bool" where
  "ctx_free (RSeq a b) \<longleftrightarrow> ctx_free a \<and> ctx_free b"
| "ctx_free (RAlt a b) \<longleftrightarrow> ctx_free a \<and> ctx_free b"
| "ctx_free (RStar a) \<longleftrightarrow> ctx_free a"
| "ctx_free (RLazy a) \<longleftrightarrow> ctx_free a"
| "ctx_free (RCap n a) \<longleftrightarrow> ctx_free a"
| "ctx_free REps \<longleftrightarrow> True"
| "ctx_free (RCls P) \<longleftrightarrow> True"
| "ctx_free _ \<longleftrightarrow> False"

lemma ctx_free_in: "rx_in r pre w post \<Longrightarrow> ctx_free r \<Longrightarrow> rx_in r pre' w post'"
  by (induction arbitrary: pre' post' rule: rx_in.induct) (auto intro: rx_in.intros)

fun rx_chars :: "rx \<Rightarrow> char \<Rightarrow> bool" where
  "rx_chars (RCls P) c \<longleftrightarrow> P c"
| "rx_chars (RSeq a b) c \<longleftrightarrow> rx_chars a c \<or> rx_chars b c"
| "rx_chars (RAlt a b) c \<longleftrightarrow> rx_chars a c \<or> rx_chars b c"
| "rx_chars (RStar a) c \<longleftrightarrow> rx_chars a c"
| "rx_chars (RLazy a) c \<longleftrightarrow> rx_chars a c"
| "rx_chars (RCap n a) c \<longleftrightarrow> rx_chars a c"
| "rx_chars _ c \<longleftrightarrow> False"

lemma rx_in_chars: "rx_in r pre w post \<Longrightarrow> c \<in> set w \<Longrightarrow> rx_chars r c"
  by (induction rule: rx_in.induct) auto

text \<open>The characters a match can begin with, for an expression that consumes text.\<close>

fun rx_first :: "rx \<Rightarrow> char \<Rightarrow> bool" where
  "rx_first (RCls P) c \<longleftrightarrow> P c"
| "rx_first (RSeq a b) c \<longleftrightarrow> rx_first a c \<or> min_len a = 0 \<and> rx_first b c"
| "rx_first (RAlt a b) c \<longleftrightarrow> rx_first a c \<or> rx_first b c"
| "rx_first (RStar a) c \<longleftrightarrow> rx_first a c"
| "rx_first (RLazy a) c \<longleftrightarrow> rx_first a c"
| "rx_first (RCap n a) c \<longleftrightarrow> rx_first a c"
| "rx_first _ c \<longleftrightarrow> False"

lemma rx_in_first: "rx_in r pre w post \<Longrightarrow> w \<noteq> [] \<Longrightarrow> rx_first r (hd w)"
proof (induction rule: rx_in.induct)
  case (in_seq a pre v w post b)
  then show ?case using min_len_le [OF in_seq.hyps(1)] by (cases v) auto
qed (auto simp: hd_append)

lemma rx_in_lazy_any: "rx_in (RLazy (RCls (\<lambda>_. True))) pre w post"
proof (induction w arbitrary: pre)
  case (Cons c w)
  have "rx_in (RLazy (RCls (\<lambda>_. True))) pre ([c] @ w) post"
    using Cons by (intro in_lazy in_cls) auto
  then show ?case by simp
qed (rule in_lazy_nil)

lemma rx_in_Seqs: "rx_in (RSeqs (r # rs)) pre w post \<longleftrightarrow>
    (\<exists>v u. w = v @ u \<and> rx_in r pre v (u @ post) \<and> rx_in (RSeqs rs) (rev v @ pre) u post)"
  by (cases rs) (auto simp: rx_in_simps)

section \<open>Rewriting that removes what a marker matches\<close>

definition free_of :: "rx \<Rightarrow> string \<Rightarrow> bool" where
  "free_of r s \<longleftrightarrow> (\<forall>g v u. s = g @ v @ u \<longrightarrow> \<not> rx_in r (rev g) v u)"

lemma free_of_MatchString: "free_of r s \<longleftrightarrow> \<not> MatchString r s"
  by (auto simp: free_of_def MatchString_def find_from_None [of r "[]" s])

text \<open>
  An expression that matches wherever a marker does leaves no marker behind, when its matches are
  replaced by a text that no match of the marker can begin in nor run into.
\<close>

lemma rewriteMatches_free_of:
  assumes consumes: "0 < min_len r" "0 < min_len mk" and free: "ctx_free mk"
    and covers: "\<And>pre w post. rx_in mk pre w post \<Longrightarrow> \<exists>v u. w @ post = v @ u \<and> rx_in r pre v u"
    and fresh: "new \<noteq> []" "\<not> rx_chars mk (hd new)" "\<forall>c \<in> set new. \<not> rx_first mk c"
  shows "free_of mk (rewriteMatches input r (\<lambda>_. new))"
  using consumes(1)
proof (induction rule: rewriteMatches_induct)
  case (base pre post)
  have "\<not> rx_in mk (rev g) v u" if eq: "post = g @ v @ u" for g v u
  proof
    assume "rx_in mk (rev g) v u"
    then have "rx_in mk (rev g @ pre) v u" by (rule ctx_free_in [OF _ free])
    from covers [OF this] base(2) eq show False by (auto simp: no_match_def)
  qed
  then show ?case by (simp add: free_of_def)
next
  case (step pre gap w q m out)
  have "\<not> rx_in mk (rev g) v u" if eq: "gap @ new @ out = g @ v @ u" for g v u
  proof
    assume mk: "rx_in mk (rev g) v u"
    have v: "v \<noteq> []" using min_len_le [OF mk] consumes(2) by auto
    have no_hd: "hd new \<notin> set v" using rx_in_chars [OF mk] fresh(2) by blast
    have first: "hd v \<notin> set new" using rx_in_first [OF mk v] fresh(3) by blast
    consider (gap) h where "gap = g @ h" "h \<noteq> []" "h @ new @ out = v @ u"
      | (inside) h h' where "g = gap @ h" "new = h @ h'" "h' \<noteq> []" "h' @ out = v @ u"
      | (out) h where "g = gap @ new @ h" "out = h @ v @ u"
    proof -
      obtain us where "gap = g @ us \<and> us @ new @ out = v @ u \<or> gap @ us = g \<and> new @ out = us @ v @ u"
        using append_eq_append_conv2 [THEN iffD1, OF eq] by blast
      then consider (a) us where "gap @ us = g" "new @ out = us @ v @ u"
        | (b) us where "gap = g @ us" "us @ new @ out = v @ u" by blast
      then show ?thesis
      proof cases
        case a
        obtain us' where "new = us @ us' \<and> us' @ out = v @ u \<or> new @ us' = us \<and> out = us' @ v @ u"
          using append_eq_append_conv2 [THEN iffD1, OF a(2)] by blast
        then consider us' where "new @ us' = us" "out = us' @ v @ u"
          | us' where "new = us @ us'" "us' @ out = v @ u" by blast
        then show ?thesis
        proof cases
          case 1
          with a(1) show ?thesis by (intro that(3) [of us']) auto
        next
          case (2 us')
          then show ?thesis using a(1) fresh(1) that(2) [of us us'] that(3) [of "[]"] by (cases "us' = []") auto
        qed
      next
        case (b us)
        show ?thesis
        proof (cases "us = []")
          case True
          with b fresh(1) show ?thesis by (intro that(2) [of "[]" new]) auto
        next
          case False
          with b show ?thesis by (intro that(1) [of us]) auto
        qed
      qed
    qed
    then show False
    proof cases
      case (gap h)
      obtain t where "h = v @ t \<or> h @ t = v \<and> new @ out = t @ u"
        using append_eq_append_conv2 [THEN iffD1, OF gap(3)] by blast
      then consider t where "h = v @ t" | t where "v = h @ t" "new @ out = t @ u" "t \<noteq> []"
        by (cases "t = []") auto
      then show False
      proof cases
        case (1 t)
        have "rx_in mk (rev g @ pre) v (t @ w @ q)" by (rule ctx_free_in [OF mk free])
        from covers [OF this] obtain v' u' where "v @ t @ w @ q = v' @ u'" "rx_in r (rev g @ pre) v' u'" by auto
        with 1 have "h @ w @ q = v' @ u'" by simp
        with \<open>rx_in r (rev g @ pre) v' u'\<close> step(3) gap(1,2) show False unfolding no_start_def by blast
      next
        case (2 t)
        then have "hd t = hd new" using fresh(1) by (cases new; cases t) auto
        with 2 no_hd show False by (auto dest: hd_in_set)
      qed
    next
      case (inside h h')
      have "hd v = hd h'" using inside(3,4) v by (cases h'; cases v) auto
      with inside first show False by (auto dest: hd_in_set)
    next
      case (out h)
      have "rx_in mk (rev h) v u" by (rule ctx_free_in [OF mk free])
      with step.IH out show False by (auto simp: free_of_def)
    qed
  qed
  then show ?case by (simp add: free_of_def)
qed

section \<open>Words and alternatives\<close>

lemma rx_in_Alts: "rx_in (RAlts rs) pre w post \<longleftrightarrow> (\<exists>r \<in> set rs. rx_in r pre w post)"
  by (induction rs rule: RAlts.induct) (auto simp: rx_in_simps)

lemma rx_in_StrI: "rx_in (RStrI s) pre w post \<longleftrightarrow> to_lower w = s"
proof (induction s arbitrary: pre w)
  case Nil
  then show ?case by (auto simp: RStrI_def rx_in_simps to_lower_def)
next
  case (Cons c s)
  have "rx_in (RStrI (c # s)) pre w post \<longleftrightarrow>
      (\<exists>v u. w = v @ u \<and> rx_in (RChrI c) pre v (u @ post) \<and> rx_in (RStrI s) (rev v @ pre) u post)"
    by (simp add: RStrI_def rx_in_Seqs)
  also have "\<dots> \<longleftrightarrow> (\<exists>d u. w = [d] @ u \<and> lower_char d = c \<and> to_lower u = s)"
    unfolding Cons.IH RChrI_def rx_in_simps by blast
  also have "\<dots> \<longleftrightarrow> to_lower w = c # s"
    by (cases w) (auto simp: to_lower_def)
  finally show ?case .
qed

lemma rx_in_Chr: "rx_in (RChr c) pre w post \<longleftrightarrow> w = [c]"
  by (auto simp: RChr_def rx_in_simps)

lemma rx_in_Str: "rx_in (RStr s) pre w post \<longleftrightarrow> w = s"
proof (induction s arbitrary: pre w)
  case Nil
  then show ?case by (auto simp: RStr_def rx_in_simps)
next
  case (Cons c s)
  then show ?case by (cases w) (auto simp: RStr_def rx_in_Seqs rx_in_Chr)
qed

lemma to_lower_split:
  "to_lower s = a @ b \<longleftrightarrow> (\<exists>x y. s = x @ y \<and> to_lower x = a \<and> to_lower y = b)"
  by (auto simp: to_lower_def map_eq_append_conv)

lemma contains_to_lower: "contains (to_lower s) w \<longleftrightarrow> (\<exists>g v u. s = g @ v @ u \<and> to_lower v = w)"
  unfolding sublist_def to_lower_split by blast

section \<open>The preferred match\<close>

text \<open>
  Rules for the preferred match at a place, to follow an expression through a text that is known
  only up to its shape.
\<close>

definition prefers :: "rx \<Rightarrow> rx_state \<Rightarrow> rx_state \<Rightarrow> bool" where
  "prefers r st t \<longleftrightarrow> (\<exists>ts. rx_match r st = t # ts)"

named_theorems prefers_intros "the preferred match of each kind of expression"

lemma prefers_eps [prefers_intros]: "prefers REps st st"
  by (simp add: prefers_def)

lemma prefers_cls [prefers_intros]: "P c \<Longrightarrow> prefers (RCls P) (pre, c # post, cs) (c # pre, post, cs)"
  by (simp add: prefers_def)

lemma prefers_seq [prefers_intros]: "prefers a st s \<Longrightarrow> prefers b s t \<Longrightarrow> prefers (RSeq a b) st t"
  by (auto simp: prefers_def)

lemma prefers_alt1: "prefers a st t \<Longrightarrow> prefers (RAlt a b) st t"
  by (auto simp: prefers_def)

lemma prefers_alt2: "rx_match a st = [] \<Longrightarrow> prefers b st t \<Longrightarrow> prefers (RAlt a b) st t"
  by (auto simp: prefers_def)

lemma prefers_cap [prefers_intros]:
  "prefers a st (pre', post', cs') \<Longrightarrow>
   prefers (RCap n a) st (pre', post', (n, length (fst st), length pre') # cs')"
  by (auto simp: prefers_def)

lemma prefers_line: "pre = [] \<or> hd pre = CHR 0x0A \<Longrightarrow> prefers RLine (pre, post, cs) (pre, post, cs)"
  by (simp add: prefers_def)

lemma prefers_star_cls [prefers_intros]:
  "prefers (RStar (RCls P)) (pre, post, cs) (rev (takeWhile P post) @ pre, dropWhile P post, cs)"
proof (induction post arbitrary: pre)
  case Nil
  then show ?case by (simp add: prefers_def rx_match_star [of _ "(pre, [], cs)"])
next
  case (Cons c post)
  from Cons [of "c # pre"] show ?case
    by (auto simp: prefers_def rx_match_star [of _ "(pre, c # post, cs)"])
qed

lemma find_from_prefers: "prefers r (pre, post, []) st \<Longrightarrow> find_from r pre post = Some (pre, st)"
  by (auto simp: prefers_def find_from.simps)

lemma FindAll_none: "no_match r [] s \<Longrightarrow> FindAll r s = []"
  using find_from_None [of r "[]" s]
  by (simp add: FindAll_def find_all_from.simps [of r "[]" s] no_match_def)

text \<open>A preferred match of the whole text is the only one.\<close>

lemma rewriteMatches_whole:
  assumes "prefers r ([], s, []) (rev s, [], cs)" "0 < min_len r" "s \<noteq> []"
  shows "rewriteMatches s r render = render \<lparr>rf_start = 0, rf_end = length s, rf_groups = cs\<rparr>"
proof -
  have "find_from r (rev s) [] = None"
    using assms(2) min_len_le [of r "rev s" "[]" "[]"] by (auto simp: find_from_None)
  then have "find_all_from r (rev s) [] p = []" for p by (simp add: find_all_from.simps)
  then have "FindAll r s = [found_at [] (rev s, [], cs)]"
    using assms(3) find_from_prefers [OF assms(1)]
    by (simp add: FindAll_def find_all_from.simps [of r "[]" s])
  then show ?thesis by (simp add: rewriteMatches_def found_at_def substr_def)
qed

text \<open>What is found first is the preferred match at its place; an anchored expression is tried at the start only.\<close>

lemma find_from_prefers_at:
  "find_from r pre post = Some (spre, st) \<Longrightarrow>
   \<exists>gap rest. post = gap @ rest \<and> spre = rev gap @ pre \<and> prefers r (spre, rest, []) st"
proof (induction r pre post rule: find_from.induct)
  case (1 r pre post)
  show ?case
  proof (cases "rx_match r (pre, post, [])")
    case (Cons t ts)
    with 1(2) have "spre = pre" "st = t" by (simp_all add: find_from.simps)
    with Cons show ?thesis by (intro exI [of _ "[]"] exI [of _ post]) (auto simp: prefers_def)
  next
    case Nil
    with 1(2) obtain c post' where post: "post = c # post'" and rec: "find_from r (c # pre) post' = Some (spre, st)"
      by (auto simp: find_from.simps [of r pre post] split: list.splits)
    from 1(1) [OF Nil post rec] obtain gap rest where
      "post' = gap @ rest" "spre = rev gap @ c # pre" "prefers r (spre, rest, []) st" by blast
    with post show ?thesis by (intro exI [of _ "c # gap"] exI [of _ rest]) simp
  qed
qed

lemma prefers_unique: "prefers r st t \<Longrightarrow> prefers r st u \<Longrightarrow> t = u"
  by (auto simp: prefers_def)

lemma prefers_in: "prefers r (pre, post, cs) st \<Longrightarrow> \<exists>w q. post = w @ q \<and> fst st = rev w @ pre \<and> rx_in r pre w q"
proof -
  assume p: "prefers r (pre, post, cs) st"
  obtain pre' post' cs' where st: "st = (pre', post', cs')" by (cases st) auto
  with p have "(pre', post', cs') \<in> set (rx_match r (pre, post, cs))" by (auto simp: prefers_def)
  from rx_match_sound [OF this] st show ?thesis by auto
qed

lemma FindFirst_begin:
  "FindFirst (RSeq RBegin r) s =
     (case rx_match r ([], s, []) of [] \<Rightarrow> None | st # _ \<Rightarrow> Some (found_at [] st))"
proof -
  have "find_from (RSeq RBegin r) (c # pre) post = None" for c pre post
    by (auto simp: find_from_None rx_in_simps)
  then show ?thesis
    by (simp add: FindFirst_def find_from.simps [of "RSeq RBegin r" "[]" s] split: list.split)
qed

lemma FindFirst_begin_prefers:
  "prefers r ([], s, []) st \<Longrightarrow> FindFirst (RSeq RBegin r) s = Some (found_at [] st)"
  by (auto simp: FindFirst_begin prefers_def)

lemma RSeqs_cons: "rs \<noteq> [] \<Longrightarrow> RSeqs (r # rs) = RSeq r (RSeqs rs)"
  by (cases rs) simp_all

lemma prefers_times [prefers_intros]:
  "length w = n \<Longrightarrow> list_all P w \<Longrightarrow> prefers (RTimes n (RCls P)) (pre, w @ post, cs) (rev w @ pre, post, cs)"
proof (induction n arbitrary: w pre)
  case 0
  then show ?case by (simp add: RTimes_def prefers_eps)
next
  case (Suc n)
  then obtain c v where w: "w = c # v" by (cases w) auto
  show ?case
  proof (cases n)
    case 0
    with Suc.prems w show ?thesis by (simp add: RTimes_def prefers_cls)
  next
    case (Suc m)
    have "RTimes (Suc n) (RCls P) = RSeq (RCls P) (RTimes n (RCls P))"
      by (simp add: RTimes_def Suc)
    with Suc.prems w Suc.IH [of v "c # pre"] show ?thesis by (auto intro!: prefers_seq prefers_cls)
  qed
qed

lemma prefers_chr [prefers_intros]: "prefers (RChr c) (pre, c # post, cs) (c # pre, post, cs)"
  unfolding RChr_def by (rule prefers_cls) simp

end
