(* ===== verification/Redact_Rules.thy ===== *)
theory Redact_Rules
  imports Go_Regexp
begin

text \<open>
  \<open>internal/redact/rules.go\<close>: the rules of redaction, in the order of the file. Texts are sequences of
  code points below 256 (see \<open>Go_Regexp\<close>); the operations on bytes of the code look only for ASCII
  characters, so they do the same on code points. The home directory is a parameter.
\<close>

section \<open>Classes and expressions\<close>

text \<open>\<open>ws\<close>, \<open>wsDelim\<close> and \<open>notWsDelim\<close>.\<close>

definition is_ws :: "char \<Rightarrow> bool" where
  "is_ws c \<longleftrightarrow> is_space c \<or> c \<in> {CHR 0x0B, CHR 0x85, CHR 0xA0}"

definition is_delim :: "char \<Rightarrow> bool" where
  "is_delim c \<longleftrightarrow> \<not> is_alnum c \<and> c \<notin> set ''{:/=_.>-''"

definition key_start :: "char \<Rightarrow> bool" where
  "key_start c \<longleftrightarrow> is_alpha c \<or> c = CHR ''_''"

definition key_char :: "char \<Rightarrow> bool" where
  "key_char c \<longleftrightarrow> is_alnum c \<or> c \<in> set ''_.-''"

definition is_blank :: "char \<Rightarrow> bool" where
  "is_blank c \<longleftrightarrow> c = CHR '' '' \<or> c = CHR 0x09"

definition is_b64 :: "char \<Rightarrow> bool" where
  "is_b64 c \<longleftrightarrow> is_alnum c \<or> c = CHR ''+'' \<or> c = CHR ''/''"

definition one_of :: "string \<Rightarrow> rx" where "one_of cs = RCls (\<lambda>c. c \<in> set cs)"
definition none_of :: "string \<Rightarrow> rx" where "none_of cs = RCls (\<lambda>c. c \<notin> set cs)"

abbreviation (input) dquote :: char where "dquote \<equiv> CHR 0x22"
abbreviation (input) squote :: char where "squote \<equiv> CHR 0x27"

definition userInfoPattern :: rx where
  "userInfoPattern = RSeqs
     [RCap 1 (RSeq (RPlus (RCls is_word)) (RStr ''://'')),
      RCap 2 (RPlus (RCls (\<lambda>c. \<not> is_space c \<and> c \<notin> set ''@/?#''))), RChr CHR ''@'']"

definition jwt_char :: "char \<Rightarrow> bool" where
  "jwt_char c \<longleftrightarrow> is_alnum c \<or> c \<in> set ''_-''"

definition jwtPattern :: rx where
  "jwtPattern = RSeqs [RBound, RStr ''eyJ'', RStar (RCls jwt_char), RChr CHR ''.'', RStar (RCls jwt_char),
     RChr CHR ''.'', RStar (RCls jwt_char), RBound]"

definition is_hex :: "char \<Rightarrow> bool" where
  "is_hex c \<longleftrightarrow> is_digit c \<or> c \<in> set ''abcdefABCDEF''"

definition strictTokenPattern :: rx where
  "strictTokenPattern = RSeqs [RBound,
     RCap 1 (RAlt (RAtLeast 40 (RCls is_hex)) (RSeq (RAtLeast 40 (RCls is_b64)) (RStar (RChr CHR ''='')))),
     RBound]"

definition quotedKeyMaterialPattern :: rx where
  "quotedKeyMaterialPattern = RSeqs [RChr dquote,
     RCap 1 (RSeq (RAtLeast 32 (RCls is_b64)) (RStar (RChr CHR ''=''))), RChr dquote]"

text \<open>The boundary before a key, and a value with its own quotes or without.\<close>

definition key_boundary :: rx where
  "key_boundary = RCap 1 (RAlt RLine (RCls is_delim))"

definition bareValue :: rx where "bareValue = RStar (RCls (\<lambda>c. \<not> is_ws c))"

definition quoted_by :: "char \<Rightarrow> rx" where
  "quoted_by q = RSeqs [RChr q, RStar (RCls (\<lambda>c. c \<noteq> q)), RChr q]"

definition assigned_value :: rx where
  "assigned_value = RAlts [RSeq (quoted_by dquote) bareValue, RSeq (quoted_by squote) bareValue, bareValue]"

definition equals_sign :: rx where
  "equals_sign = RSeqs [RStar (RCls is_ws), RChr CHR ''='', RStar (RCls is_ws)]"

definition envValuePattern :: rx where
  "envValuePattern = RSeqs [key_boundary,
     RCap 2 (RSeqs [RCls (\<lambda>c. is_upper c \<or> c = CHR ''_''),
       RStar (RCls (\<lambda>c. is_upper c \<or> is_digit c \<or> c = CHR ''_'')), equals_sign]),
     RCap 3 assigned_value]"

definition bearerTokenPattern :: rx where
  "bearerTokenPattern = RSeqs [RBound, RCap 1 (RSeq (RStrI ''bearer'') (RPlus (RCls is_space))),
     RPlus (RCls (\<lambda>c. is_alnum c \<or> c \<in> set ''._~+/=-''))]"

definition cookieHeaderPattern :: rx where
  "cookieHeaderPattern = RSeqs [RLine,
     RCap 1 (RSeqs [RStar (RCls is_blank), ROpt (RCap 2 (RStrI ''set-'')), RStrI ''cookie'',
       RStar (RCls is_blank), RChr CHR '':'', RStar (RCls is_blank)]),
     RCap 3 (RStar (RCls (\<lambda>c. c \<noteq> CHR 0x0D \<and> c \<noteq> CHR 0x0A)))]"

definition authScheme :: rx where
  "authScheme = RAlts (map RStrI [''basic'', ''bearer'', ''digest'', ''negotiate'', ''ntlm'', ''token'', ''hoba'',
     ''mutual'', ''vapid'', ''aws4-hmac-sha256'', ''scram-sha-1'', ''scram-sha-256''])"

definition authHeaderPattern :: rx where
  "authHeaderPattern = RSeq
     (RCap 1 (RSeqs [ROpt (RStrI ''proxy-''), RStrI ''authorization'', RStar (RCls is_blank), RChr CHR '':'',
       RStar (RCls is_blank), ROpt (RSeq authScheme (RPlus (RCls is_blank)))]))
     (RStar (RCls (\<lambda>c. c \<noteq> CHR 0x0D \<and> c \<noteq> CHR 0x0A \<and> c \<noteq> dquote)))"

definition secretKeyValuePattern :: rx where
  "secretKeyValuePattern = RSeqs [key_boundary,
     RCap 2 (RSeqs [RStar (RCls is_word),
       RAlts [RStrI ''password'', RStrI ''passwd'', RStrI ''secret'', RStrI ''token'',
         RSeqs [RStrI ''api'', ROpt (RChr CHR ''_''), RStrI ''key''], RStrI ''credential'', RStrI ''auth_''],
       RStar (RCls is_word), equals_sign]),
     RCap 3 assigned_value]"

definition cliSecretPattern :: rx where
  "cliSecretPattern = RSeq
     (RCap 1 (RSeqs [RStr ''--'',
       RAlts [RStrI ''password'', RStrI ''token'', RSeqs [RStrI ''api'', one_of ''-_'', RStrI ''key''],
         RSeqs [RStrI ''client'', one_of ''-_'', RStrI ''secret''], RStrI ''secret'',
         RSeqs [RStrI ''auth'', one_of ''-_'', RStrI ''token'']],
       RAlt (RChr CHR ''='') (RPlus (RCls is_space))]))
     (RCap 2 (RAlts [quoted_by dquote, quoted_by squote, RPlus (RCls (\<lambda>c. \<not> is_space c))]))"

text \<open>A name as a segment of its own: between underscores or the ends of the text.\<close>

definition segment :: "string \<Rightarrow> rx" where
  "segment w = RSeqs [RAlt RBegin (RChr CHR ''_''), RStrI w, RAlt (RChr CHR ''_'') REnd]"

definition secretKeyNamePattern :: rx where
  "secretKeyNamePattern = RCap 1 (RAlts
     [RStrI ''password'', RStrI ''passwd'', RStrI ''secret'', RStrI ''credential'', RStrI ''token'',
      RSeqs [RStrI ''api'', ROpt (RChr CHR ''_''), RStrI ''key''],
      RSeqs [RStrI ''private'', ROpt (RChr CHR ''_''), RStrI ''key''],
      RSeqs [RStrI ''access'', ROpt (RChr CHR ''_''), RStrI ''key''],
      RStrI ''jwt'', RStrI ''signature'', RSeqs [RStrI ''session'', ROpt (RChr CHR ''_''), RStrI ''id''],
      RSeqs [RStrI ''sess'', ROpt (RChr CHR ''_''), RStrI ''id''],
      segment ''key'', segment ''auth'', segment ''sig'', segment ''sid''])"

definition blank_indent :: rx where
  "blank_indent = RSeq (RStar (RCls is_blank)) (RStar (RSeq (RChr CHR ''-'') (RPlus (RCls is_blank))))"

definition opt_quote :: rx where
  "opt_quote = ROpt (one_of [squote, dquote])"

definition key_name :: rx where
  "key_name = RSeq (RCls key_start) (RStar (RCls key_char))"

definition blockScalarHeaderPattern :: rx where
  "blockScalarHeaderPattern = RSeqs [RBegin,
     RCap 1 (RSeqs [RCap 2 (RSeq blank_indent opt_quote), RCap 3 key_name, opt_quote,
       RStar (RCls is_blank), RChr CHR '':'', RStar (RCls is_blank)]),
     one_of ''|>'', RStar (RCls (\<lambda>c. is_digit c \<or> c \<in> set ''+-'')), RStar (RCls is_blank),
     ROpt (RSeq (RChr CHR ''#'') (RStar (RCls (\<lambda>c. c \<noteq> CHR 0x0A)))), REnd]"

definition mappingEntryPattern :: rx where
  "mappingEntryPattern = RSeqs [RBegin, blank_indent, opt_quote, key_name, opt_quote,
     RStar (RCls is_blank), RChr CHR '':'']"

text \<open>Dashes, 4 or 5, as around a PEM marker, and the marker of the beginning or end of a key.\<close>

definition pem_dashes :: rx where
  "pem_dashes = RSeq (RTimes 4 (RChr CHR ''-'')) (ROpt (RChr CHR ''-''))"

definition pem_marker :: "string \<Rightarrow> rx" where
  "pem_marker what = RSeqs [pem_dashes, ROpt (RChr CHR '' ''), RStrI what, RChr CHR '' '',
     RStar (RCls (\<lambda>c. is_alnum c \<or> c = CHR '' '')), RStrI ''private key'',
     RStar (RCls (\<lambda>c. is_alpha c \<or> c = CHR '' '')), pem_dashes]"

definition pemPrivateKeyMarker :: rx where
  "pemPrivateKeyMarker = pem_marker ''begin''"

definition pemPrivateKeyBlockPattern :: rx where
  "pemPrivateKeyBlockPattern =
     RSeqs [pemPrivateKeyMarker, RLazy (RCls (\<lambda>_. True)), RAlt (pem_marker ''end'') REnd]"

definition interpolationOpenPattern :: rx where
  "interpolationOpenPattern = RSeqs [RStr ''${'', RCap 1 (RPlus (RCls is_word)),
     ROpt (RSeqs [RChr CHR ''['', RStar (none_of '']''), RChr CHR '']'']),
     RCap 2 (RSeq (ROpt (RChr CHR '':'')) (one_of ''-=+?''))]"

definition camelBoundary :: rx where
  "camelBoundary = RSeq (RCap 1 (RCls (\<lambda>c. is_lower c \<or> is_digit c))) (RCap 2 (RCls is_upper))"

definition acronymBoundary :: rx where
  "acronymBoundary = RSeq (RCap 1 (RPlus (RCls is_upper))) (RCap 2 (RSeq (RCls is_upper) (RCls is_lower)))"

definition assignment_key :: "char \<Rightarrow> rx" where
  "assignment_key sep = RSeq (RCap 2 key_name)
     (RCap 3 (RSeqs [opt_quote, RStar (RCls is_ws), RChr sep, RStar (RCls is_ws)]))"

definition assignmentPattern :: rx where
  "assignmentPattern = RSeqs [key_boundary, assignment_key CHR ''='', RCap 4 assigned_value]"

definition colonValueTail :: rx where
  "colonValueTail = RStar (RCls (\<lambda>c. c \<noteq> CHR 0x0A \<and> c \<noteq> CHR '',''))"

definition colonAssignmentPattern :: rx where
  "colonAssignmentPattern = RSeqs [key_boundary, assignment_key CHR '':'',
     RCap 4 (RAlts [RSeq (quoted_by dquote) colonValueTail, RSeq (quoted_by squote) colonValueTail,
       RSeq (RStar (RChr CHR '']'')) colonValueTail])]"

section \<open>Rules of one expression\<close>

text \<open>\<open>containsFold\<close>, for an ASCII word.\<close>

fun containsFold :: "string \<Rightarrow> string \<Rightarrow> bool" where
  "containsFold [] sub \<longleftrightarrow> sub = []"
| "containsFold (c # s) sub \<longleftrightarrow>
     length sub \<le> length (c # s) \<and> equal_fold (take (length sub) (c # s)) sub \<or> containsFold s sub"

definition redacted :: string where "redacted = ''<redacted>''"

definition redactURL :: "string \<Rightarrow> string" where
  "redactURL input =
     (if \<not> contains input ''://'' then input
      else rewriteMatches input userInfoPattern (\<lambda>m.
        case index_of '':'' (submatch input m 2) of
          Some idx \<Rightarrow> submatch input m 1 @ take idx (submatch input m 2) @ '':<redacted>@''
        | None \<Rightarrow> submatch input m 1 @ ''<redacted>@''))"

definition redactJWT :: "string \<Rightarrow> string" where
  "redactJWT input =
     (if \<not> contains input ''eyJ'' then input else rewriteMatches input jwtPattern (\<lambda>_. ''<jwt>''))"

definition redactBearerTokens :: "string \<Rightarrow> string" where
  "redactBearerTokens input =
     (if \<not> containsFold input ''bearer'' then input
      else rewriteMatches input bearerTokenPattern (\<lambda>m. submatch input m 1 @ redacted))"

definition redactAuthHeaders :: "string \<Rightarrow> string" where
  "redactAuthHeaders input =
     (if \<not> containsFold input ''authorization'' then input
      else rewriteMatches input authHeaderPattern (\<lambda>m. submatch input m 1 @ redacted))"

definition redactStrictTokens :: "string \<Rightarrow> string" where
  "redactStrictTokens input = rewriteMatches input strictTokenPattern (\<lambda>_. ''<token>'')"

definition redactQuotedKeyMaterial :: "string \<Rightarrow> string" where
  "redactQuotedKeyMaterial input =
     (if dquote \<notin> set input then input
      else rewriteMatches input quotedKeyMaterialPattern (\<lambda>_. [dquote] @ ''<token>'' @ [dquote]))"

definition redactHome :: "string \<Rightarrow> string \<Rightarrow> string" where
  "redactHome homeDir input = (if homeDir = [] then input else replace_all input homeDir ''~'')"

definition redactCLISecrets :: "string \<Rightarrow> string" where
  "redactCLISecrets input =
     (if \<not> contains input ''--'' then input
      else rewriteMatches input cliSecretPattern (\<lambda>m. submatch input m 1 @ redacted))"

definition redactPEMPrivateKeys :: "string \<Rightarrow> string" where
  "redactPEMPrivateKeys input =
     (if \<not> contains input ''----'' then input
      else rewriteMatches input pemPrivateKeyBlockPattern (\<lambda>_. redacted))"

section \<open>Names of keys\<close>

text \<open>\<open>keySeparators\<close> replaces single characters; the two boundaries insert underscores.\<close>

definition normalizeKeyName :: "string \<Rightarrow> string" where
  "normalizeKeyName key0 =
     (let key1 = map (\<lambda>c. if c = CHR ''.'' \<or> c = CHR ''-'' then CHR ''_'' else c) key0;
          key2 = rewriteMatches key1 acronymBoundary (\<lambda>m. submatch key1 m 1 @ ''_'' @ submatch key1 m 2)
      in rewriteMatches key2 camelBoundary (\<lambda>m. submatch key2 m 1 @ ''_'' @ submatch key2 m 2))"

definition IsSecretKeyName :: "string \<Rightarrow> bool" where
  "IsSecretKeyName key \<longleftrightarrow>
     MatchString secretKeyNamePattern key \<or> MatchString secretKeyNamePattern (normalizeKeyName key)"

text \<open>The part after the last \<open>__\<close>.\<close>

definition last_segment :: "string \<Rightarrow> string" where
  "last_segment s = (case last_index_of ''__'' s of None \<Rightarrow> s | Some idx \<Rightarrow> drop (idx + 2) s)"

definition isSecretSource :: "string \<Rightarrow> bool" where
  "isSecretSource source \<longleftrightarrow>
     (has_prefix source ''ci_env__'' \<or> has_prefix source ''ci_setup__'') \<and>
     (case index_of ''__'' source of
        None \<Rightarrow> False
      | Some idx \<Rightarrow>
          IsSecretKeyName (replace_all (last_segment (drop (idx + 2) source)) ''%5F%5F'' ''__''))"

section \<open>Cookies\<close>

definition trim_runes :: "string \<Rightarrow> string" where
  "trim_runes s = rev (dropWhile is_ws (rev (dropWhile is_ws s)))"

definition cookieAttributes :: "string list" where
  "cookieAttributes = [''path'', ''domain'', ''expires'', ''max-age'', ''samesite'', ''secure'', ''httponly'',
     ''partitioned'', ''priority'', ''version'', ''comment'', ''commenturl'', ''discard'', ''port'', ''sameparty'']"

definition cookie_segment :: "bool \<Rightarrow> nat \<Rightarrow> string \<Rightarrow> string" where
  "cookie_segment isSetCookie i seg =
     (case cut ''='' seg of
        None \<Rightarrow> seg
      | Some (name, val) \<Rightarrow>
          if isSetCookie \<and> i > 0 \<and>
             (to_lower (trim_runes name) \<in> set cookieAttributes \<or> \<not> IsSecretKeyName (trim_runes name))
          then seg
          else name @ ''=<redacted>'' @ drop (length (trim_right_set [CHR '' '', CHR 0x09] val)) val)"

fun cookie_segments :: "bool \<Rightarrow> nat \<Rightarrow> string list \<Rightarrow> string list" where
  "cookie_segments isSetCookie i [] = []"
| "cookie_segments isSetCookie i (seg # segs) =
     cookie_segment isSetCookie i seg # cookie_segments isSetCookie (Suc i) segs"

definition redactCookieValues :: "string \<Rightarrow> string" where
  "redactCookieValues input =
     (if \<not> containsFold input ''cookie'' then input
      else rewriteMatches input cookieHeaderPattern (\<lambda>m.
        if submatch input m 3 = [] then whole_match input m
        else submatch input m 1 @
          join '';'' (cookie_segments (submatch input m 2 \<noteq> []) 0 (split_at '';'' (submatch input m 3)))))"

section \<open>Assignments\<close>

text \<open>Where the quote that opens a value is closed; within double quotes a backslash escapes.\<close>

fun closing_from :: "char \<Rightarrow> nat \<Rightarrow> string \<Rightarrow> nat option" where
  "closing_from q i [] = None"
| "closing_from q i (c # cs) =
     (if q = dquote \<and> c = CHR 0x5C then (case cs of [] \<Rightarrow> None | _ # ds \<Rightarrow> closing_from q (i + 2) ds)
      else if c = q then Some i
      else closing_from q (i + 1) cs)"

definition closingQuote :: "string \<Rightarrow> nat option" where
  "closingQuote v = closing_from (hd v) 1 (tl v)"

definition valueClosers :: string where
  "valueClosers = [squote, dquote, CHR 0x60, CHR '')'', CHR '']'', CHR ''}'', CHR ''@'', CHR '';'']"

definition splitValueTail :: "string \<Rightarrow> string \<times> bool" where
  "splitValueTail v =
     (let split = (if length v > 1 \<and> (hd v = dquote \<or> hd v = squote)
                   then (case closingQuote v of
                           Some j \<Rightarrow> (take (j + 1) v, drop (j + 1) v)
                         | None \<Rightarrow> ([], v))
                   else ([], v));
          rest = snd split;
          kept = rev (dropWhile (\<lambda>c. c \<in> set valueClosers) (rev rest))
      in if fst split = [] \<and> kept = [] then (rest, False) else (drop (length kept) rest, True))"

definition openingDelimiters :: string where
  "openingDelimiters = [CHR ''('', CHR ''['', CHR ''{'', squote, dquote, CHR 0x60]"

definition maskedAssignment :: "string \<Rightarrow> string \<Rightarrow> string \<Rightarrow> string \<Rightarrow> string" where
  "maskedAssignment whole lead head v =
     (if \<not> snd (splitValueTail v)
      then (if lead \<noteq> [] \<and> hd lead \<in> set openingDelimiters then whole else lead @ head @ redacted)
      else lead @ head @ redacted @ fst (splitValueTail v))"

definition ownedSpans :: "string \<Rightarrow> rx_found list" where
  "ownedSpans input =
     (if contains input ''://'' then FindAll userInfoPattern input else []) @
     (if containsFold input ''cookie'' then FindAll cookieHeaderPattern input else [])"

definition insideSpan :: "rx_found list \<Rightarrow> nat \<Rightarrow> bool" where
  "insideSpan spans i \<longleftrightarrow> list_ex (\<lambda>sp. rf_start sp \<le> i \<and> i < rf_end sp) spans"

definition maskEnvAssignment :: "string \<Rightarrow> rx \<Rightarrow> string" where
  "maskEnvAssignment input pattern =
     (let skip = ownedSpans input
      in rewriteMatches input pattern (\<lambda>m.
           if insideSpan skip (rf_start m) \<or> submatch input m 3 = [] then whole_match input m
           else maskedAssignment (whole_match input m) (submatch input m 1) (submatch input m 2)
                  (submatch input m 3)))"

definition redactEnvValues :: "string \<Rightarrow> string" where
  "redactEnvValues input = maskEnvAssignment (maskEnvAssignment input envValuePattern) secretKeyValuePattern"

text \<open>
  The rule over both kinds of separators. \<open>rescanValue\<close> is inlined: a value its own match does not
  mask is rewritten in its own right when it holds the separator and no URL. The value is shorter
  than the text it was found in, which is tested here to make the recursion terminate.
\<close>

definition rescans :: "string \<Rightarrow> string \<Rightarrow> bool" where
  "rescans v separator \<longleftrightarrow>
     (if contains separator '':'' then CHR '':'' else CHR ''='') \<in> set v \<and>
     \<not> has_prefix v ''//'' \<and> \<not> contains v ''://''"

definition upto_group :: "string \<Rightarrow> rx_found \<Rightarrow> nat \<Rightarrow> string" where
  "upto_group input m n =
     (case group_bounds m n of None \<Rightarrow> [] | Some (i, j) \<Rightarrow> substr input (rf_start m) i)"

function redactWithAssignmentPattern :: "rx \<Rightarrow> string \<Rightarrow> string" where
  "redactWithAssignmentPattern pattern input =
     (let skip = ownedSpans input
      in rewriteMatches input pattern (\<lambda>m.
           if insideSpan skip (rf_start m) \<or> submatch input m 4 = [] then whole_match input m
           else if \<not> IsSecretKeyName (submatch input m 2)
           then upto_group input m 4 @
                (if rescans (submatch input m 4) (submatch input m 3) \<and>
                    length (submatch input m 4) < length input
                 then redactWithAssignmentPattern pattern (submatch input m 4)
                 else submatch input m 4)
           else maskedAssignment (whole_match input m) (submatch input m 1)
                  (submatch input m 2 @ submatch input m 3) (submatch input m 4)))"
  by pat_completeness auto
termination by (relation "measure (\<lambda>(r, s). length s)") auto

declare redactWithAssignmentPattern.simps [simp del]

section \<open>Interpolations\<close>

fun findBalancedClose :: "nat \<Rightarrow> nat \<Rightarrow> string \<Rightarrow> nat option" where
  "findBalancedClose i depth [] = None"
| "findBalancedClose i depth (c # cs) =
     (if c = CHR 0x5C then (case cs of [] \<Rightarrow> None | _ # ds \<Rightarrow> findBalancedClose (i + 2) depth ds)
      else if c = CHR ''$'' \<and> cs \<noteq> [] \<and> hd cs = CHR ''{'' then findBalancedClose (i + 1) (depth + 1) cs
      else if c = CHR ''}''
      then (if depth = 0 then Some i else findBalancedClose (i + 1) (depth - 1) cs)
      else findBalancedClose (i + 1) depth cs)"

fun interpolation_loop :: "string \<Rightarrow> nat \<Rightarrow> rx_found list \<Rightarrow> string" where
  "interpolation_loop input done [] = drop done input"
| "interpolation_loop input done (m # ms) =
     (if rf_start m < done \<or> \<not> IsSecretKeyName (submatch input m 1) then interpolation_loop input done ms
      else case findBalancedClose (rf_end m) 0 (drop (rf_end m) input) of
             None \<Rightarrow> interpolation_loop input done ms
           | Some closing \<Rightarrow>
               if closing = rf_end m then interpolation_loop input done ms
               else substr input done (rf_end m) @ redacted @ interpolation_loop input closing ms)"

definition redactInterpolationDefaults :: "string \<Rightarrow> string" where
  "redactInterpolationDefaults input =
     (if \<not> contains input ''${'' then input
      else interpolation_loop input 0 (FindAll interpolationOpenPattern input))"

section \<open>Block scalars of YAML\<close>

fun indentWidth :: "string \<Rightarrow> nat" where
  "indentWidth [] = 0"
| "indentWidth (c # cs) =
     (if c = CHR '' '' then indentWidth cs + 1 else if c = CHR 0x09 then indentWidth cs + 8 else 0)"

definition leadingWhitespace :: "string \<Rightarrow> string" where
  "leadingWhitespace l = takeWhile is_blank l"

definition displayWidth :: "string \<Rightarrow> nat" where
  "displayWidth p = sum_list (map (\<lambda>c. if c = CHR 0x09 then 8 else 1) p)"

definition trimCR :: "string \<Rightarrow> string \<times> string" where
  "trimCR l = (if l \<noteq> [] \<and> last l = CHR 0x0D then (butlast l, [CHR 0x0D]) else (l, []))"

text \<open>
  How many of the lines after a header belong to its block: \<open>j\<close> lines are scanned, the last that
  belongs to it is the one before \<open>found\<close>.
\<close>

fun block_lines :: "nat \<Rightarrow> nat \<Rightarrow> bool \<Rightarrow> nat \<Rightarrow> nat \<Rightarrow> string list \<Rightarrow> nat" where
  "block_lines indent lineIndent headerHasTab j found [] = found"
| "block_lines indent lineIndent headerHasTab j found (l # ls) =
     (let candidate = fst (trimCR l); width = indentWidth candidate
      in if trim_runes candidate = [] then block_lines indent lineIndent headerHasTab (Suc j) found ls
         else if width > indent then block_lines indent lineIndent headerHasTab (Suc j) (Suc j) ls
         else if width = indent \<and> \<not> MatchString mappingEntryPattern candidate \<and>
                 (indent > lineIndent \<or>
                  width > 0 \<and> (headerHasTab \<or> CHR 0x09 \<in> set (leadingWhitespace candidate)))
         then block_lines indent lineIndent headerHasTab (Suc j) (Suc j) ls
         else found)"

function block_loop :: "string list \<Rightarrow> string list" where
  "block_loop [] = []"
| "block_loop (l # ls) =
     (let body = fst (trimCR l); ending = snd (trimCR l)
      in case FindFirst blockScalarHeaderPattern body of
           None \<Rightarrow> l # block_loop ls
         | Some m \<Rightarrow>
             (let lead = submatch body m 2;
                  n = block_lines (displayWidth lead) (indentWidth body) (CHR 0x09 \<in> set lead) 0 0 ls
              in if n = 0 then l # block_loop ls
                 else if \<not> IsSecretKeyName (submatch body m 3) \<and>
                         \<not> MatchString pemPrivateKeyMarker (join [CHR 0x0A] (take n ls))
                 then l # block_loop ls
                 else (submatch body m 1 @ redacted @ ending) # block_loop (drop n ls)))"
  by pat_completeness auto
termination by (relation "measure length") auto

definition redactYAMLBlockScalars :: "string \<Rightarrow> string" where
  "redactYAMLBlockScalars input =
     (if CHR ''|'' \<notin> set input \<and> CHR ''>'' \<notin> set input then input
      else join [CHR 0x0A] (block_loop (split_at [CHR 0x0A] input)))"

definition redactSecretNamedAssignments :: "string \<Rightarrow> string" where
  "redactSecretNamedAssignments input =
     redactWithAssignmentPattern colonAssignmentPattern
       (redactWithAssignmentPattern assignmentPattern (redactYAMLBlockScalars input))"

end
