(* ===== verification/Redact.thy ===== *)
theory Redact
  imports Schema Redact_Rules Go_Path
begin

text \<open>
  \<open>internal/redact/engine.go\<close>: the pipeline of the rules over a text, and the redaction of evidence
  and of whole reports.
\<close>

abbreviation LevelDefault :: string where "LevelDefault \<equiv> ''default''"
abbreviation LevelStrict :: string where "LevelStrict \<equiv> ''strict''"
abbreviation LevelOff :: string where "LevelOff \<equiv> ''off''"

definition defaultRuleNames :: "string list" where
  "defaultRuleNames =
     [''pem_private_keys'', ''cookie_values'', ''env_values'', ''secret_key_values'', ''cli_secret_flags'',
      ''secret_named_assignments'', ''interpolation_defaults'', ''quoted_key_material'', ''url_credentials'',
      ''auth_headers'', ''bearer_tokens'', ''jwt_tokens'', ''home_directory'', ''evidence_secret_sources'']"

definition RuleNames :: "string \<Rightarrow> string list" where
  "RuleNames level =
     (if level = LevelOff then []
      else if level = LevelStrict then defaultRuleNames @ [''strict_long_tokens'']
      else defaultRuleNames)"

record redact_engine =
  re_Level :: string
  re_home :: string

definition RedactString :: "redact_engine \<Rightarrow> string \<Rightarrow> string" where
  "RedactString e input =
     (if re_Level e = LevelOff then input
      else
        let result = redactPEMPrivateKeys input;
            result = redactCookieValues result;
            result = redactEnvValues result;
            result = redactCLISecrets result;
            result = redactSecretNamedAssignments result;
            result = redactInterpolationDefaults result;
            result = redactQuotedKeyMaterial result;
            result = redactURL result;
            result = redactAuthHeaders result;
            result = redactBearerTokens result;
            result = redactJWT result;
            result = redactHome (re_home e) result
        in if re_Level e = LevelStrict then redactStrictTokens result else result)"

definition RedactEvidence :: "redact_engine \<Rightarrow> string \<Rightarrow> string \<Rightarrow> string" where
  "RedactEvidence e source val =
     (if re_Level e = LevelOff then val
      else if val \<noteq> [] \<and> isSecretSource source then redacted
      else RedactString e val)"

definition redact_ev :: "redact_engine \<Rightarrow> evidence \<Rightarrow> evidence" where
  "redact_ev e ev = mk_ev (ev_Source ev) (RedactEvidence e (ev_Source ev) (ev_Value ev))"

definition redactFix :: "redact_engine \<Rightarrow> fix_option \<Rightarrow> fix_option" where
  "redactFix e fx = fx
     \<lparr>fx_Title := RedactString e (fx_Title fx),
      fx_Commands := map (RedactString e) (fx_Commands fx),
      fx_Rollback := map (RedactString e) (fx_Rollback fx)\<rparr>"

definition redactFinding :: "redact_engine \<Rightarrow> finding \<Rightarrow> finding" where
  "redactFinding e f = f
     \<lparr>f_Title := RedactString e (f_Title f),
      f_Symptom := RedactString e (f_Symptom f),
      f_Evidence := map (redact_ev e) (f_Evidence f),
      f_LikelyCauses := map (RedactString e) (f_LikelyCauses f),
      f_Fixes := map (redactFix e) (f_Fixes f)\<rparr>"

definition redactCollector :: "redact_engine \<Rightarrow> collector_result \<Rightarrow> collector_result" where
  "redactCollector e c = c
     \<lparr>c_Evidence := map (redact_ev e) (c_Evidence c), c_Notes := map (RedactString e) (c_Notes c)\<rparr>"

fun redactInterface :: "redact_engine \<Rightarrow> json \<Rightarrow> json" where
  "redactInterface e (JString s) = JString (RedactString e s)"
| "redactInterface e (JObject m) = JObject (map (\<lambda>(k, v). (k, redactInterface e v)) m)"
| "redactInterface e (JArray vs) = JArray (map (redactInterface e) vs)"
| "redactInterface e v = v"

definition redactHost :: "redact_engine \<Rightarrow> host_info \<Rightarrow> host_info" where
  "redactHost e h =
     \<lparr>h_OS = RedactString e (h_OS h), h_Distro = RedactString e (h_Distro h),
      h_Version = RedactString e (h_Version h), h_Kernel = RedactString e (h_Kernel h),
      h_Arch = RedactString e (h_Arch h), h_Session = RedactString e (h_Session h)\<rparr>"

definition RedactReport :: "redact_engine \<Rightarrow> report option \<Rightarrow> report option" where
  "RedactReport e r =
     (case r of
        None \<Rightarrow> None
      | Some r \<Rightarrow>
          (if re_Level e = LevelOff then Some (r\<lparr>r_RedactionStatus := re_Level e\<rparr>)
           else Some (r\<lparr>r_RedactionStatus := re_Level e,
                        r_Findings := map (redactFinding e) (r_Findings r),
                        r_Collectors := map (redactCollector e) (r_Collectors r),
                        r_Repro := map_option (map (\<lambda>(k, v). (k, redactInterface e v))) (r_Repro r),
                        r_RepoRoot := RedactString e (r_RepoRoot r),
                        r_Host := redactHost e (r_Host r)\<rparr>)))"

section \<open>Private keys\<close>

lemma pem_block_covers:
  assumes "rx_in pemPrivateKeyMarker pre w post"
  shows "\<exists>v u. w @ post = v @ u \<and> rx_in pemPrivateKeyBlockPattern pre v u"
proof -
  have "rx_in (RAlt (pem_marker ''end'') REnd) (rev post @ rev w @ pre) [] []"
    by (intro in_alt2 in_end)
  then have "rx_in (RSeq (RLazy (RCls (\<lambda>_. True))) (RAlt (pem_marker ''end'') REnd)) (rev w @ pre) (post @ []) []"
    by (intro in_seq rx_in_lazy_any) simp
  then have "rx_in pemPrivateKeyBlockPattern pre (w @ post @ []) []"
    unfolding pemPrivateKeyBlockPattern_def RSeqs.simps using assms by (intro in_seq [OF _ \<open>rx_in (RSeq _ _) _ _ _\<close>]) simp
  then show ?thesis by (intro exI [of _ "w @ post"] exI [of _ "[]"]) simp
qed

lemma pem_free: "free_of pemPrivateKeyMarker (rewriteMatches input pemPrivateKeyBlockPattern (\<lambda>_. redacted))"
proof (rule rewriteMatches_free_of)
  show "0 < min_len pemPrivateKeyBlockPattern" "0 < min_len pemPrivateKeyMarker" "ctx_free pemPrivateKeyMarker"
    by code_simp+
  show "redacted \<noteq> []" "\<not> rx_chars pemPrivateKeyMarker (hd redacted)"
    "\<forall>c \<in> set redacted. \<not> rx_first pemPrivateKeyMarker c" by code_simp+
qed (rule pem_block_covers)

lemma pem_marker_dashes: "rx_in pemPrivateKeyMarker pre w post \<Longrightarrow> \<exists>u. w = ''----'' @ u"
  by (auto simp: pemPrivateKeyMarker_def pem_marker_def pem_dashes_def RTimes_def numeral_eq_Suc rx_in_Chr
      rx_in_simps)

text \<open>
  C21: no PEM opening of a private key survives the rule on private keys, whatever its algorithm, its
  case, the text around it, and whether its block is closed or cut off.
\<close>

theorem no_private_key_survives: "\<not> MatchString pemPrivateKeyMarker (redactPEMPrivateKeys input)"
proof (cases "contains input ''----''")
  case True
  with pem_free show ?thesis by (simp add: redactPEMPrivateKeys_def flip: free_of_MatchString)
next
  case False
  then have "\<not> rx_in pemPrivateKeyMarker (rev g) v u" if "input = g @ v @ u" for g v u
    using pem_marker_dashes that by (force simp: sublist_def)
  with False show ?thesis
    by (auto simp: redactPEMPrivateKeys_def free_of_def simp flip: free_of_MatchString)
qed

section \<open>Names that denote secrets\<close>

definition secret_words :: "string list" where
  "secret_words = [''password'', ''passwd'', ''secret'', ''credential'', ''token'', ''apikey'', ''api_key'',
     ''privatekey'', ''private_key'', ''accesskey'', ''access_key'', ''jwt'', ''signature'', ''sessionid'',
     ''session_id'', ''sessid'', ''sess_id'']"

definition secret_segments :: "string list" where
  "secret_segments = [''key'', ''auth'', ''sig'', ''sid'']"

text \<open>What the expression on names means: a word anywhere, or a segment between underscores.\<close>

definition names_secret :: "string \<Rightarrow> bool" where
  "names_secret key \<longleftrightarrow>
     list_ex (contains (to_lower key)) secret_words \<or>
     list_ex (\<lambda>w. w \<in> set (split_at ''_'' (to_lower key))) secret_segments"

lemma split_at_mem:
  "x \<in> set (split_at [c] s) \<longleftrightarrow>
     c \<notin> set x \<and> (\<exists>p q. s = p @ x @ q \<and> (p = [] \<or> last p = c) \<and> (q = [] \<or> hd q = c))"
proof (induction s rule: length_induct)
  case (1 s)
  show ?case
  proof (cases "cut [c] s")
    case None
    then have no: "c \<notin> set s" by (simp add: cut_None_iff sublist_single)
    then have "split_at [c] s = [s]" by (simp add: split_at_single sublist_single)
    moreover have "x = s" if "s = p @ x @ q" "p = [] \<or> last p = c" "q = [] \<or> hd q = c" for p q
      using that no by (metis append_Nil append_Nil2 in_set_conv_decomp last_in_set hd_in_set Un_iff set_append)
    ultimately show ?thesis using no by (auto intro!: exI [of _ "[]"])
  next
    case (Some ab)
    then obtain a b where ab: "cut [c] s = Some (a, b)" by (cases ab) auto
    from cut_Some [OF ab] have s: "s = a @ [c] @ b" .
    have na: "c \<notin> set a" by (rule cut_char_no_sep [OF ab])
    have split: "split_at [c] s = a # split_at [c] b" using ab by (simp add: split_at.simps [of _ s])
    have IH: "x \<in> set (split_at [c] b) \<longleftrightarrow>
       c \<notin> set x \<and> (\<exists>p q. b = p @ x @ q \<and> (p = [] \<or> last p = c) \<and> (q = [] \<or> hd q = c))"
      using 1 s by simp
    show ?thesis
    proof
      assume "x \<in> set (split_at [c] s)"
      then consider "x = a" | "x \<in> set (split_at [c] b)" using split by auto
      then show "c \<notin> set x \<and> (\<exists>p q. s = p @ x @ q \<and> (p = [] \<or> last p = c) \<and> (q = [] \<or> hd q = c))"
      proof cases
        case 1
        with na s show ?thesis by (intro conjI exI [of _ "[]"] exI [of _ "[c] @ b"]) auto
      next
        case 2
        with IH obtain p q where "c \<notin> set x" "b = p @ x @ q" "p = [] \<or> last p = c" "q = [] \<or> hd q = c" by blast
        with s show ?thesis by (intro conjI exI [of _ "a @ [c] @ p"] exI [of _ q]) auto
      qed
    next
      assume r: "c \<notin> set x \<and> (\<exists>p q. s = p @ x @ q \<and> (p = [] \<or> last p = c) \<and> (q = [] \<or> hd q = c))"
      then obtain p q where pq: "s = p @ x @ q" "p = [] \<or> last p = c" "q = [] \<or> hd q = c" by blast
      show "x \<in> set (split_at [c] s)"
      proof (cases "p = []")
        case True
        then have "x @ q = a @ [c] @ b" using pq s by simp
        then have "x = a" using r na pq(3)
          by (cases q) (auto simp: append_eq_append_conv2 append_eq_Cons_conv Cons_eq_append_conv)
        then show ?thesis using split by simp
      next
        case False
        with pq have "p @ x @ q = a @ [c] @ b" "c \<in> set p" using s by auto
        then obtain p' where "p = a @ [c] @ p'" "b = p' @ x @ q"
          using na by (auto simp: append_eq_append_conv2 append_eq_Cons_conv Cons_eq_append_conv)
        moreover from this False pq(2) have "p' = [] \<or> last p' = c" by (cases "p' = []") auto
        ultimately have "x \<in> set (split_at [c] b)" using IH r pq(3) by blast
        then show ?thesis using split by simp
      qed
    qed
  qed
qed

lemma lower_underscore: "lower_char c = CHR ''_'' \<longleftrightarrow> c = CHR ''_''"
proof -
  have "\<forall>c. lower_char c = CHR ''_'' \<longleftrightarrow> c = CHR ''_''" by code_simp
  then show ?thesis by blast
qed

lemma to_lower_underscore: "to_lower x = ''_'' \<longleftrightarrow> x = ''_''"
  by (cases x; cases "tl x") (auto simp: to_lower_def lower_underscore)

lemma rx_in_opt_underscore:
  "(\<exists>g v u. s = g @ v @ u \<and> rx_in (RSeqs [RStrI a, RAlt (RChr CHR ''_'') REps, RStrI b]) (rev g) v u) \<longleftrightarrow>
     contains (to_lower s) (a @ b) \<or> contains (to_lower s) (a @ ''_'' @ b)"
proof -
  have "rx_in (RSeqs [RStrI a, RAlt (RChr CHR ''_'') REps, RStrI b]) pre v u \<longleftrightarrow>
      (\<exists>x m y. v = x @ m @ y \<and> to_lower x = a \<and> (m = ''_'' \<or> m = []) \<and> to_lower y = b)" for pre v u
    by (simp add: rx_in_simps rx_in_StrI rx_in_Chr) blast
  also have "(\<exists>x m y. v = x @ m @ y \<and> to_lower x = a \<and> (m = ''_'' \<or> m = []) \<and> to_lower y = b) \<longleftrightarrow>
      to_lower v = a @ b \<or> to_lower v = a @ ''_'' @ b" for v
  proof -
    have "to_lower v = a @ ''_'' @ b \<longleftrightarrow> (\<exists>x m y. v = x @ m @ y \<and> to_lower x = a \<and> m = ''_'' \<and> to_lower y = b)"
      unfolding to_lower_split [of v a "''_'' @ b"] to_lower_split [of _ "''_''" b] to_lower_underscore by blast
    moreover have "to_lower v = a @ b \<longleftrightarrow> (\<exists>x m y. v = x @ m @ y \<and> to_lower x = a \<and> m = [] \<and> to_lower y = b)"
      unfolding to_lower_split [of v a b] by simp
    ultimately show ?thesis by blast
  qed
  finally have *: "rx_in (RSeqs [RStrI a, RAlt (RChr CHR ''_'') REps, RStrI b]) pre v u \<longleftrightarrow>
      to_lower v = a @ b \<or> to_lower v = a @ ''_'' @ b" for pre v u .
  show ?thesis unfolding * contains_to_lower by blast
qed

lemma lower_ends:
  "to_lower p = [] \<or> last (to_lower p) = CHR ''_'' \<longleftrightarrow> p = [] \<or> last p = CHR ''_''"
  "to_lower p = [] \<or> hd (to_lower p) = CHR ''_'' \<longleftrightarrow> p = [] \<or> hd p = CHR ''_''"
  by (cases "p = []"; simp add: to_lower_def last_map hd_map lower_underscore)+

lemma rx_in_segment:
  assumes "CHR ''_'' \<notin> set w"
  shows "(\<exists>g v u. s = g @ v @ u \<and> rx_in (segment w) (rev g) v u) \<longleftrightarrow> w \<in> set (split_at ''_'' (to_lower s))"
proof -
  have "(\<exists>g v u. s = g @ v @ u \<and> rx_in (segment w) (rev g) v u) \<longleftrightarrow>
      (\<exists>p x q. s = p @ x @ q \<and> to_lower x = w \<and> (p = [] \<or> last p = CHR ''_'') \<and> (q = [] \<or> hd q = CHR ''_''))"
    (is "?l \<longleftrightarrow> ?r")
  proof
    assume ?l
    then obtain g v u where s: "s = g @ v @ u" and "rx_in (segment w) (rev g) v u" by blast
    then obtain a x b where v: "v = a @ x @ b" "a = [] \<and> g = [] \<or> a = ''_''" "to_lower x = w"
        "b = ''_'' \<or> b = [] \<and> u = []"
      by (auto simp: segment_def rx_in_simps rx_in_StrI rx_in_Chr)
    show ?r
      by (rule exI [of _ "g @ a"], rule exI [of _ x], rule exI [of _ "b @ u"]) (use s v in auto)
  next
    assume ?r
    then obtain p x q where s: "s = p @ x @ q" "to_lower x = w" "p = [] \<or> last p = CHR ''_''"
        "q = [] \<or> hd q = CHR ''_''" by blast
    obtain g a where g: "p = g @ a" "a = [] \<and> g = [] \<or> a = ''_''"
      using s(3) by (metis append_butlast_last_id append.right_neutral)
    obtain b u where b: "q = b @ u" "b = ''_'' \<or> b = [] \<and> u = []"
      using s(4) that [of "[]" "[]"] that [of "''_''" "tl q"] by (cases q) auto
    have "rx_in (segment w) (rev g) (a @ x @ b) u"
      unfolding segment_def RSeqs.simps using g(2) b(2) s(2)
      by (intro in_seq) (auto simp: rx_in_simps rx_in_StrI rx_in_Chr)
    with s g b show ?l by (intro exI [of _ g] exI [of _ "a @ x @ b"] exI [of _ u]) auto
  qed
  also have "\<dots> \<longleftrightarrow> (\<exists>p q. to_lower s = p @ w @ q \<and> (p = [] \<or> last p = CHR ''_'') \<and> (q = [] \<or> hd q = CHR ''_''))"
    (is "_ \<longleftrightarrow> ?r")
  proof
    assume "\<exists>p x q. s = p @ x @ q \<and> to_lower x = w \<and> (p = [] \<or> last p = CHR ''_'') \<and> (q = [] \<or> hd q = CHR ''_'')"
    then obtain p x q where s: "s = p @ x @ q" "to_lower x = w" "p = [] \<or> last p = CHR ''_''"
        "q = [] \<or> hd q = CHR ''_''" by blast
    then have "to_lower s = to_lower p @ w @ to_lower q" by (simp add: to_lower_def)
    with s lower_ends [of p] lower_ends [of q] show ?r by blast
  next
    assume ?r
    then obtain p q where s: "to_lower s = p @ w @ q" "p = [] \<or> last p = CHR ''_''" "q = [] \<or> hd q = CHR ''_''"
      by blast
    from s(1) obtain x y z where "s = x @ y @ z" "to_lower x = p" "to_lower y = w" "to_lower z = q"
      unfolding to_lower_split by blast
    with s(2,3) lower_ends [of x] lower_ends [of z]
    show "\<exists>p x q. s = p @ x @ q \<and> to_lower x = w \<and> (p = [] \<or> last p = CHR ''_'') \<and> (q = [] \<or> hd q = CHR ''_'')"
      by blast
  qed
  finally show ?thesis using assms split_at_mem [of w "CHR ''_''" "to_lower s"] by simp
qed

lemma secretKeyNamePattern_iff: "MatchString secretKeyNamePattern key \<longleftrightarrow> names_secret key"
proof -
  let ?m = "\<lambda>r. \<exists>g v u. key = g @ v @ u \<and> rx_in r (rev g) v u"
  have words: "?m (RStrI w) \<longleftrightarrow> contains (to_lower key) w" for w
    by (simp add: rx_in_StrI contains_to_lower)
  have "MatchString secretKeyNamePattern key \<longleftrightarrow>
      (\<exists>r \<in> set [RStrI ''password'', RStrI ''passwd'', RStrI ''secret'', RStrI ''credential'', RStrI ''token'',
        RSeqs [RStrI ''api'', ROpt (RChr CHR ''_''), RStrI ''key''],
        RSeqs [RStrI ''private'', ROpt (RChr CHR ''_''), RStrI ''key''],
        RSeqs [RStrI ''access'', ROpt (RChr CHR ''_''), RStrI ''key''],
        RStrI ''jwt'', RStrI ''signature'', RSeqs [RStrI ''session'', ROpt (RChr CHR ''_''), RStrI ''id''],
        RSeqs [RStrI ''sess'', ROpt (RChr CHR ''_''), RStrI ''id''],
        segment ''key'', segment ''auth'', segment ''sig'', segment ''sid'']. ?m r)"
    unfolding MatchString_iff secretKeyNamePattern_def rx_in_simps(5) rx_in_Alts by blast
  also have "\<dots> \<longleftrightarrow> names_secret key"
    unfolding names_secret_def secret_words_def secret_segments_def
    by (simp add: words rx_in_opt_underscore rx_in_segment del: RSeqs.simps)
  finally show ?thesis .
qed

text \<open>
  A name denotes a secret exactly when it, or its form with underscores at the boundaries of its
  words, contains one of the secret words in any case, or has \<open>key\<close>, \<open>auth\<close>, \<open>sig\<close> or \<open>sid\<close> as a
  segment of its own.
\<close>

theorem IsSecretKeyName_iff:
  "IsSecretKeyName key \<longleftrightarrow> names_secret key \<or> names_secret (normalizeKeyName key)"
  by (simp add: IsSecretKeyName_def secretKeyNamePattern_iff)

section \<open>Assignments\<close>

text \<open>The trailing run of the characters of a set.\<close>

lemma trailing_run:
  fixes xs :: string and P :: "char \<Rightarrow> bool"
  defines "t \<equiv> drop (length (rev (dropWhile P (rev xs)))) xs"
  shows "suffix t xs \<and> list_all P t"
proof -
  have "xs = rev (dropWhile P (rev xs)) @ rev (takeWhile P (rev xs))"
    by (metis rev_append rev_rev_ident takeWhile_dropWhile_id)
  then have "t = rev (takeWhile P (rev xs))"
    unfolding t_def by (metis append_eq_conv_conj)
  then show ?thesis by (auto simp: suffix_to_prefix takeWhile_is_prefix list_all_iff dest: set_takeWhileD)
qed

lemma splitValueTail_tail:
  "suffix (fst (splitValueTail v)) v \<and> list_all (\<lambda>c. c \<in> set valueClosers) (fst (splitValueTail v))"
proof -
  have "\<exists>rest. suffix rest v \<and>
      fst (splitValueTail v) = drop (length (rev (dropWhile (\<lambda>c. c \<in> set valueClosers) (rev rest)))) rest"
  proof -
    let ?split = "if length v > 1 \<and> (hd v = CHR 0x22 \<or> hd v = CHR 0x27)
      then (case closingQuote v of Some j \<Rightarrow> (take (j + 1) v, drop (j + 1) v) | None \<Rightarrow> ([], v)) else ([], v)"
    have gen: "fst (if A \<and> k = [] then (r, False) else (drop (length k) r, True)) = drop (length k) r"
      for A and k r :: string by simp
    have "suffix (snd ?split) v" by (auto split: option.splits simp: suffix_drop)
    moreover have "fst (splitValueTail v) =
        drop (length (rev (dropWhile (\<lambda>c. c \<in> set valueClosers) (rev (snd ?split))))) (snd ?split)"
      unfolding splitValueTail_def Let_def by (rule gen)
    ultimately show ?thesis by blast
  qed
  then obtain rest where "suffix rest v"
    "fst (splitValueTail v) = drop (length (rev (dropWhile (\<lambda>c. c \<in> set valueClosers) (rev rest)))) rest"
    by blast
  with trailing_run [of "\<lambda>c. c \<in> set valueClosers" rest] show ?thesis
    by (auto intro: suffix_order.trans)
qed

text \<open>A key and a plain value: no white space, no quote at its start, no colon.\<close>

definition plain_key :: "string \<Rightarrow> bool" where
  "plain_key k \<longleftrightarrow> k \<noteq> [] \<and> key_start (hd k) \<and> list_all key_char k"

definition plain_value :: "string \<Rightarrow> bool" where
  "plain_value v \<longleftrightarrow> v \<noteq> [] \<and> list_all (\<lambda>c. \<not> is_ws c \<and> c \<noteq> CHR '':'') v \<and> hd v \<notin> {CHR 0x22, CHR 0x27}"

lemma plain_match:
  assumes "plain_key k" "plain_value v"
  shows "\<exists>cs. prefers assignmentPattern ([], k @ ''='' @ v, []) (rev (k @ ''='' @ v), [], cs) \<and>
    map_of cs 1 = Some (0, 0) \<and> map_of cs 2 = Some (0, length k) \<and>
    map_of cs 3 = Some (length k, length k + 1) \<and> map_of cs 4 = Some (length k + 1, length (k @ ''='' @ v))"
proof -
  obtain c ks where k: "k = c # ks" "key_start c" "list_all key_char ks"
    using assms(1) by (cases k) (auto simp: plain_key_def)
  have no_eq: "\<not> key_char CHR ''=''" "\<not> is_ws CHR ''=''" by code_simp+
  have tw: "takeWhile key_char (ks @ CHR ''='' # v) = ks" "dropWhile key_char (ks @ CHR ''='' # v) = CHR ''='' # v"
    using k(3) no_eq by (simp_all add: takeWhile_append2 dropWhile_append2 list_all_iff)
  have tv: "takeWhile (\<lambda>c. \<not> is_ws c) v = v" "dropWhile (\<lambda>c. \<not> is_ws c) v = []"
      "takeWhile is_ws v = []" "dropWhile is_ws v = v"
    using assms(2) by (cases v; simp add: plain_value_def list_all_iff)+
  have name: "prefers key_name ([], k @ ''='' @ v, cs) (rev k, ''='' @ v, cs)" for cs
    using prefers_seq [OF prefers_cls [of key_start c "[]" "ks @ ''='' @ v" cs, OF k(2)]
        prefers_star_cls [of key_char "[c]" "ks @ ''='' @ v" cs]] tw k(1)
    by (simp add: key_name_def)
  have quote: "prefers opt_quote (pre, CHR ''='' # v, cs) (pre, CHR ''='' # v, cs)" for pre cs
    unfolding opt_quote_def one_of_def by (intro prefers_alt2 prefers_eps) simp
  have ws0: "prefers (RStar (RCls is_ws)) (pre, CHR ''='' # v, cs) (pre, CHR ''='' # v, cs)" for pre cs
    using prefers_star_cls [of is_ws pre "CHR ''='' # v" cs] no_eq by simp
  have ws1: "prefers (RStar (RCls is_ws)) (pre, v, cs) (pre, v, cs)" for pre cs
    using prefers_star_cls [of is_ws pre v cs] tv by simp
  have eq: "prefers (RChr CHR ''='') (pre, CHR ''='' # v, cs) (CHR ''='' # pre, v, cs)" for pre cs
    unfolding RChr_def by (rule prefers_cls) simp
  have no_quote: "rx_match (RSeq (quoted_by q) bareValue) (pre, v, cs) = []" if "q \<in> {CHR 0x22, CHR 0x27}" for q pre cs
    using assms(2) that by (cases v) (auto simp: quoted_by_def RChr_def plain_value_def)
  have val: "prefers assigned_value (pre, v, cs) (rev v @ pre, [], cs)" for pre cs
    unfolding assigned_value_def RAlts.simps
    using prefers_star_cls [of "\<lambda>c. \<not> is_ws c" pre v cs] tv
    by (intro prefers_alt2 no_quote) (simp_all add: bareValue_def)
  have bound: "prefers key_boundary ([], s, []) ([], s, [(1, 0, 0)])" for s
    using prefers_cap [OF prefers_alt1 [OF prefers_line [of "[]" s "[]"]], of 1] by (simp add: key_boundary_def)
  have sep: "prefers (RSeqs [opt_quote, RStar (RCls is_ws), RChr CHR ''='', RStar (RCls is_ws)])
      (pre, CHR ''='' # v, cs) (CHR ''='' # pre, v, cs)" for pre cs
    unfolding RSeqs.simps by (intro prefers_seq) (rule quote ws0 eq ws1)+
  have p2: "prefers (RCap 2 key_name) ([], k @ ''='' @ v, [(1, 0, 0)])
      (rev k, ''='' @ v, [(2, 0, length k), (1, 0, 0)])"
    using prefers_cap [OF name [of "[(1, 0, 0)]"], of 2] by simp
  have p3: "prefers (RCap 3 (RSeqs [opt_quote, RStar (RCls is_ws), RChr CHR ''='', RStar (RCls is_ws)]))
      (rev k, ''='' @ v, cs) (CHR ''='' # rev k, v, (3, length k, length k + 1) # cs)" for cs
    using prefers_cap [OF sep [of "rev k" cs], of 3] by simp
  have p4: "prefers (RCap 4 assigned_value) (CHR ''='' # rev k, v, cs)
      (rev v @ CHR ''='' # rev k, [], (4, length k + 1, length (k @ ''='' @ v)) # cs)" for cs
    using prefers_cap [OF val [of "CHR ''='' # rev k" cs], of 4] by (simp add: add.commute add.left_commute)
  have "prefers assignmentPattern ([], k @ ''='' @ v, [])
      (rev v @ CHR ''='' # rev k, [], [(4, length k + 1, length (k @ ''='' @ v)), (3, length k, length k + 1),
        (2, 0, length k), (1, 0, 0)])"
    unfolding assignmentPattern_def assignment_key_def RSeqs.simps
    by (rule prefers_seq [OF bound prefers_seq [OF prefers_seq [OF p2 p3 [unfolded RSeqs.simps]] p4]])
  then show ?thesis by (intro exI conjI) auto
qed

lemma no_colon_no_spans:
  assumes "CHR '':'' \<notin> set s"
  shows "ownedSpans s = []"
proof -
  have "CHR '':'' \<in> set w" if "rx_in cookieHeaderPattern pre w post" for pre w post
    using that by (auto simp: cookieHeaderPattern_def rx_in_simps rx_in_Chr)
  then have "no_match cookieHeaderPattern [] s" using assms by (auto simp: no_match_def)
  moreover have "\<not> contains s ''://''" using assms by (auto simp: sublist_def)
  ultimately show ?thesis by (simp add: ownedSpans_def FindAll_none)
qed

text \<open>
  The assignment of a plain value to a name that denotes a secret is masked: what is left of the
  value are at most the closing delimiters at its end.
\<close>

theorem secret_assignment_masked:
  assumes "plain_key k" "IsSecretKeyName k" "plain_value v"
  shows "\<exists>tail. redactWithAssignmentPattern assignmentPattern (k @ ''='' @ v) = k @ ''='' @ ''<redacted>'' @ tail \<and>
    suffix tail v \<and> list_all (\<lambda>c. c \<in> set valueClosers) tail"
proof -
  define s where "s = k @ ''='' @ v"
  obtain cs where p: "prefers assignmentPattern ([], s, []) (rev s, [], cs)"
    and g: "map_of cs 1 = Some (0, 0)" "map_of cs 2 = Some (0, length k)"
      "map_of cs 3 = Some (length k, length k + 1)" "map_of cs 4 = Some (length k + 1, length s)"
    using plain_match [OF assms(1,3)] unfolding s_def by blast
  have colon: "\<not> key_char CHR '':''" by code_simp
  then have "CHR '':'' \<notin> set s"
    using assms(1,3) by (auto simp: s_def plain_key_def plain_value_def list_all_iff)
  then have spans: "ownedSpans s = []" by (rule no_colon_no_spans)
  have len: "0 < min_len assignmentPattern" by code_simp
  have "s \<noteq> []" by (simp add: s_def)
  note whole = rewriteMatches_whole [OF p len this]
  define m where "m = \<lparr>rf_start = 0, rf_end = length s, rf_groups = cs\<rparr>"
  have sub: "submatch s m 1 = []" "submatch s m 2 = k" "submatch s m 3 = ''=''" "submatch s m 4 = v"
    using g unfolding m_def submatch_def group_bounds_def
    by (simp_all only: rx_found.simps option.case prod.case) (simp_all add: substr_def s_def)
  have "v \<noteq> []" using assms(3) by (simp add: plain_value_def)
  have "redactWithAssignmentPattern assignmentPattern s =
      maskedAssignment (whole_match s m) (submatch s m 1) (submatch s m 2 @ submatch s m 3) (submatch s m 4)"
    unfolding redactWithAssignmentPattern.simps [of _ s] Let_def whole m_def [symmetric]
    using assms(2) \<open>v \<noteq> []\<close> by (simp add: spans insideSpan_def sub [unfolded One_nat_def])
  then have "redactWithAssignmentPattern assignmentPattern s =
      k @ ''='' @ ''<redacted>'' @ (if snd (splitValueTail v) then fst (splitValueTail v) else [])"
    by (simp add: sub [unfolded One_nat_def] maskedAssignment_def redacted_def)
  with splitValueTail_tail [of v] show ?thesis unfolding s_def by (cases "snd (splitValueTail v)") auto
qed

theorem secret_assignment_masked_witness:
  "\<exists>tail. redactWithAssignmentPattern assignmentPattern ''deployKey=hunter2'' = ''deployKey=<redacted>'' @ tail \<and>
     suffix tail ''hunter2''"
proof -
  have k: "plain_key ''deployKey''" "IsSecretKeyName ''deployKey''" "plain_value ''hunter2''"
    by code_simp+
  from secret_assignment_masked [OF k] show ?thesis by auto
qed

section \<open>Evidence and reports\<close>

lemma index_of_double:
  "\<not> sublist ''__'' b \<Longrightarrow> b = [] \<or> last b \<noteq> CHR ''_'' \<Longrightarrow> index_of ''__'' (b @ ''__'' @ a) = Some (length b)"
proof (induction b)
  case (Cons c b)
  have "\<not> prefix ''__'' (c # b @ ''__'' @ a)"
    using Cons.prems by (cases b) (auto simp: sublist_Cons_right split: if_splits)
  moreover have "index_of ''__'' (b @ ''__'' @ a) = Some (length b)"
    using Cons by (auto simp: sublist_Cons_right split: if_splits)
  ultimately show ?case by simp
qed simp

lemma last_segment_name:
  assumes "\<not> contains name ''__''" "name = [] \<or> hd name \<noteq> CHR ''_''"
  shows "last_segment (lead @ ''__'' @ name) = name"
proof -
  have "\<not> sublist ''__'' (rev name)"
    using assms(1) sublist_rev [of "''__''" name] by simp
  moreover have "rev name = [] \<or> last (rev name) \<noteq> CHR ''_''" using assms(2) by (auto simp: last_rev)
  ultimately have "index_of ''__'' (rev name @ ''__'' @ rev lead) = Some (length name)"
    using index_of_double [of "rev name" "rev lead"] by simp
  then show ?thesis by (simp add: last_segment_def last_index_of_def)
qed

text \<open>
  Unless redaction is off, the value of CI environment evidence whose source ends in a name that
  denotes a secret is masked as a whole, whatever it looks like.
\<close>

theorem secret_source_masked:
  assumes "re_Level e \<noteq> LevelOff" "val \<noteq> []" "IsSecretKeyName name"
    and "\<not> contains name ''__''" "\<not> contains name ''%5F%5F''" "hd name \<noteq> CHR ''_''"
  shows "RedactEvidence e (''ci_env__'' @ job @ ''__'' @ name) val = ''<redacted>''"
proof -
  let ?src = "''ci_env__'' @ job @ ''__'' @ name"
  have "index_of ''__'' ?src = Some 6" using index_of_double [of "''ci_env''" "job @ ''__'' @ name"]
    by (simp add: sublist_Cons_right)
  moreover have "drop (6 + 2) ?src = job @ ''__'' @ name" by simp
  moreover have "last_segment (job @ ''__'' @ name) = name" using assms by (intro last_segment_name) auto
  moreover have "replace_all name ''%5F%5F'' ''__'' = name" using assms by (intro replace_all_absent) auto
  ultimately have "isSecretSource ?src" using assms(3) by (simp add: isSecretSource_def)
  with assms(1,2) show ?thesis by (simp add: RedactEvidence_def redacted_def)
qed

theorem secret_source_masked_witness:
  "RedactEvidence \<lparr>re_Level = ''default'', re_home = []\<rparr> ''ci_env__build__1__DEPLOY_KEY'' ''s3cr3t'' = ''<redacted>''"
proof -
  have k: "IsSecretKeyName ''DEPLOY_KEY''" "\<not> contains ''DEPLOY_KEY'' ''__''" "\<not> contains ''DEPLOY_KEY'' ''%5F%5F''"
    by code_simp+
  from secret_source_masked [of "\<lparr>re_Level = ''default'', re_home = []\<rparr>" "''s3cr3t''", OF _ _ k, of "''build__1''"]
  show ?thesis by simp
qed

section \<open>Reports\<close>

text \<open>The texts of a report that redaction has to go through, those of the reproduction record included.\<close>

definition finding_texts :: "finding \<Rightarrow> string list" where
  "finding_texts f = f_Title f # f_Symptom f # f_LikelyCauses f @
     concat (map (\<lambda>fx. fx_Title fx # fx_Commands fx @ fx_Rollback fx) (f_Fixes f))"

fun json_texts :: "json \<Rightarrow> string list" where
  "json_texts (JString s) = [s]"
| "json_texts (JObject m) = concat (map (\<lambda>(k, v). json_texts v) m)"
| "json_texts (JArray vs) = concat (map json_texts vs)"
| "json_texts v = []"

definition repro_texts :: "(string \<times> json) list option \<Rightarrow> string list" where
  "repro_texts p = (case p of None \<Rightarrow> [] | Some m \<Rightarrow> concat (map (\<lambda>(k, v). json_texts v) m))"

definition report_texts :: "report \<Rightarrow> string list" where
  "report_texts r = concat (map finding_texts (r_Findings r)) @ concat (map c_Notes (r_Collectors r)) @
     [r_RepoRoot r, h_OS (r_Host r), h_Distro (r_Host r), h_Version (r_Host r), h_Kernel (r_Host r),
      h_Arch (r_Host r), h_Session (r_Host r)] @ repro_texts (r_Repro r)"

definition report_evidence :: "report \<Rightarrow> evidence list" where
  "report_evidence r = concat (map f_Evidence (r_Findings r)) @ concat (map c_Evidence (r_Collectors r))"

text \<open>A report with every such text and every evidence value emptied: all that redaction must not touch.\<close>

definition ev_blank :: "evidence \<Rightarrow> evidence" where
  "ev_blank ev = mk_ev (ev_Source ev) []"

definition finding_blank :: "finding \<Rightarrow> finding" where
  "finding_blank f = f
     \<lparr>f_Title := [], f_Symptom := [], f_Evidence := map ev_blank (f_Evidence f),
      f_LikelyCauses := map (\<lambda>_. []) (f_LikelyCauses f),
      f_Fixes := map (\<lambda>fx. fx\<lparr>fx_Title := [], fx_Commands := map (\<lambda>_. []) (fx_Commands fx),
        fx_Rollback := map (\<lambda>_. []) (fx_Rollback fx)\<rparr>) (f_Fixes f)\<rparr>"

definition collector_blank :: "collector_result \<Rightarrow> collector_result" where
  "collector_blank c = c\<lparr>c_Evidence := map ev_blank (c_Evidence c), c_Notes := map (\<lambda>_. []) (c_Notes c)\<rparr>"

fun json_blank :: "json \<Rightarrow> json" where
  "json_blank (JString s) = JString []"
| "json_blank (JObject m) = JObject (map (\<lambda>(k, v). (k, json_blank v)) m)"
| "json_blank (JArray vs) = JArray (map json_blank vs)"
| "json_blank v = v"

definition report_blank :: "report \<Rightarrow> report" where
  "report_blank r = r
     \<lparr>r_RedactionStatus := [], r_RepoRoot := [], r_Host := zero_host,
      r_Collectors := map collector_blank (r_Collectors r), r_Findings := map finding_blank (r_Findings r),
      r_Repro := map_option (map (\<lambda>(k, v). (k, json_blank v))) (r_Repro r)\<rparr>"

lemma redactFinding_texts: "finding_texts (redactFinding e f) = map (RedactString e) (finding_texts f)"
  by (simp add: finding_texts_def redactFinding_def redactFix_def map_concat comp_def)

lemma redactInterface_texts: "json_texts (redactInterface e v) = map (RedactString e) (json_texts v)"
proof (induction v rule: json_texts.induct)
  case (2 m)
  then have "map (\<lambda>(k, v). json_texts (redactInterface e v)) m = map (\<lambda>(k, v). map (RedactString e) (json_texts v)) m"
    by fastforce
  then show ?case by (simp add: map_concat comp_def case_prod_beta cong: map_cong)
next
  case (3 vs)
  then have "map (\<lambda>v. json_texts (redactInterface e v)) vs = map (\<lambda>v. map (RedactString e) (json_texts v)) vs" by simp
  then show ?case by (simp add: map_concat comp_def cong: map_cong)
qed simp_all

lemma redactInterface_blank: "json_blank (redactInterface e v) = json_blank v"
  by (induction v rule: json_texts.induct) auto

lemma redact_blank:
  "ev_blank (redact_ev e ev) = ev_blank ev" "finding_blank (redactFinding e f) = finding_blank f"
  "collector_blank (redactCollector e c) = collector_blank c"
  by (simp_all add: ev_blank_def redact_ev_def mk_ev_def finding_blank_def redactFinding_def redactFix_def
      collector_blank_def redactCollector_def comp_def)

text \<open>
  C22: a redacted report has every title, symptom, cause, command, rollback step, note, path and host field and
  every text of the reproduction record replaced by its redaction, every evidence value by its redaction
  under its source, and nothing else is changed: with these texts and values emptied and the redaction
  status aside the two reports are the same, so findings, collectors, identifiers, sources, states, numbers,
  signals and versions are those of the original, in their order.
\<close>

theorem RedactReport_complete:
  "case RedactReport e (Some r) of
     None \<Rightarrow> False
   | Some r' \<Rightarrow>
       r_RedactionStatus r' = re_Level e \<and>
       report_texts r' = map (RedactString e) (report_texts r) \<and>
       report_evidence r' = map (\<lambda>ev. mk_ev (ev_Source ev) (RedactEvidence e (ev_Source ev) (ev_Value ev)))
         (report_evidence r) \<and>
       report_blank r' = report_blank r"
proof (cases "re_Level e = LevelOff")
  case True
  have "RedactString e = (\<lambda>s. s)" "\<And>ev. mk_ev (ev_Source ev) (RedactEvidence e (ev_Source ev) (ev_Value ev)) = ev"
    using True by (auto simp: RedactString_def RedactEvidence_def mk_ev_def)
  with True show ?thesis by (simp add: RedactReport_def report_texts_def report_evidence_def report_blank_def)
next
  case False
  have "repro_texts (map_option (map (\<lambda>(k, v). (k, redactInterface e v))) p) = map (RedactString e) (repro_texts p)"
    for p :: "(string \<times> json) list option"
    by (cases p) (simp_all add: repro_texts_def map_concat comp_def case_prod_beta redactInterface_texts)
  moreover have "map_option (map (\<lambda>(k, v). (k, json_blank v))) (map_option (map (\<lambda>(k, v). (k, redactInterface e v))) p) =
      map_option (map (\<lambda>(k, v). (k, json_blank v))) p" for p :: "(string \<times> json) list option"
    by (cases p) (simp_all add: comp_def case_prod_beta redactInterface_blank)
  ultimately have "report_blank (the (RedactReport e (Some r))) = report_blank r"
    and t: "report_texts (the (RedactReport e (Some r))) = map (RedactString e) (report_texts r)"
    using False by (simp_all add: RedactReport_def report_blank_def redact_blank comp_def report_texts_def
        redactFinding_texts map_concat redactHost_def) (simp add: redactCollector_def)
  then show ?thesis using False
    by (simp add: RedactReport_def report_evidence_def map_concat comp_def redactCollector_def redactFinding_def
        redact_ev_def [abs_def])
qed

end
