(* ===== verification/App_Scan.thy ===== *)
theory App_Scan
  imports Aggregator Engines Rulepack Collectors_Runner Redact
begin

text \<open>
  \<open>internal/app/scan.go\<close> and \<open>events.go\<close>: a scan from its collectors to the report, and the events it
  emits. The runner's results and the order of its callbacks come from a run of \<open>Collectors_Runner\<close>;
  timestamps and durations are left out, and so are the fields of events that nothing sets.
\<close>

section \<open>Events and sinks\<close>

datatype event_type =
    EventScanStarted
  | EventCollectorStarted
  | EventCollectorDone
  | EventRuleEvaluated
  | EventFindingAdded
  | EventScanCompleted
  | EventScanFailed

record event =
  en_Type :: event_type
  en_RunID :: string
  en_Path :: string
  en_Collector :: string
  en_Status :: collector_status
  en_RuleEngine :: string
  en_FindingID :: string
  en_Severity :: severity
  en_Confidence :: rat
  en_Message :: string
  en_Error :: string

definition mk_event :: "event_type \<Rightarrow> string \<Rightarrow> event" where
  "mk_event t msg =
     \<lparr>en_Type = t, en_RunID = [], en_Path = [], en_Collector = [], en_Status = [], en_RuleEngine = [],
      en_FindingID = [], en_Severity = [], en_Confidence = 0, en_Message = msg, en_Error = []\<rparr>"

text \<open>A sink that sends on a channel of fixed capacity and counts what it drops.\<close>

record channel_sink =
  cs_cap :: nat
  cs_queue :: "event list"
  cs_dropped :: nat

definition ChannelSink_Emit :: "channel_sink \<Rightarrow> event \<Rightarrow> channel_sink" where
  "ChannelSink_Emit s e =
     (if length (cs_queue s) < cs_cap s then s\<lparr>cs_queue := cs_queue s @ [e]\<rparr>
      else s\<lparr>cs_dropped := cs_dropped s + 1\<rparr>)"

text \<open>The consumer of the channel; \<open>None\<close> when it would wait.\<close>

definition ChannelSink_Receive :: "channel_sink \<Rightarrow> (event \<times> channel_sink) option" where
  "ChannelSink_Receive s =
     (case cs_queue s of [] \<Rightarrow> None | e # es \<Rightarrow> Some (e, s\<lparr>cs_queue := es\<rparr>))"

definition RecordingSink_Emit :: "event list \<Rightarrow> event \<Rightarrow> event list" where
  "RecordingSink_Emit events e = events @ [e]"

section \<open>Options, signals and collectors\<close>

record scan_options =
  so_Path :: string
  so_Profile :: string
  so_RulePackPath :: string
  so_RedactLevel :: string
  so_CI :: bool

record repo_signals =
  sg_Root :: string
  sg_HasDocker :: bool
  sg_HasPodman :: bool
  sg_HasContainers :: bool
  sg_HasCI :: bool
  sg_HasPython :: bool

text \<open>What the factory asks the repository: its absolute path and the signals in it.\<close>

record repo_world =
  wo_Abs :: "string \<Rightarrow> string option"
  wo_HasDockerSignal :: "string \<Rightarrow> bool"
  wo_HasPodmanSignal :: "string \<Rightarrow> bool"
  wo_HasCISignal :: "string \<Rightarrow> bool"
  wo_HasPythonSignal :: "string \<Rightarrow> bool"

definition named :: "string list \<Rightarrow> collector list" where
  "named ns = map (\<lambda>n. \<lparr>co_Name = n, co_Timeout = None\<rparr>) ns"

text \<open>The collectors by the name each reports; none of them asks for a timeout of its own.\<close>

definition defaultCollectorFactory_Build ::
  "repo_world \<Rightarrow> scan_options \<Rightarrow> collector list \<times> repo_signals" where
  "defaultCollectorFactory_Build w opts =
     (let absPath = (case wo_Abs w (so_Path opts) of Some p \<Rightarrow> p | None \<Rightarrow> so_Path opts);
          repoHasDocker = wo_HasDockerSignal w absPath;
          repoHasPodman = wo_HasPodmanSignal w absPath;
          repoHasContainers = (repoHasDocker \<or> repoHasPodman);
          repoHasCI = wo_HasCISignal w absPath;
          allCollectors =
            named [''config'', ''repo'', ''env'', ''compose'', ''git'', ''runtime'', ''host'',
              ''host_runtime'', ''disk'', ''port'', ''network'', ''systemd'', ''security'',
              ''permission'', ''self''] @
            (if repoHasContainers
             then (if repoHasDocker then named [''docker''] else []) @
                  (if repoHasPodman then named [''podman''] else []) @ named [''compose_status'']
             else []) @
            (if repoHasCI \<or> so_CI opts then named [''ci''] else []) @
            (if so_Profile opts = ''ai-ml''
             then named [''gpu'', ''cuda'', ''pythonml'', ''gpudocker'', ''cache''] else [])
      in (allCollectors,
          \<lparr>sg_Root = absPath, sg_HasDocker = repoHasDocker, sg_HasPodman = repoHasPodman,
           sg_HasContainers = repoHasContainers, sg_HasCI = repoHasCI,
           sg_HasPython = wo_HasPythonSignal w absPath\<rparr>))"

section \<open>The scan\<close>

datatype scan_error = EngineError string | RulePackError "string list"

fun scan_error_text :: "scan_error \<Rightarrow> string" where
  "scan_error_text (EngineError e) = e"
| "scan_error_text (RulePackError errs) = ''rule pack validation failed: '' @ join ''; '' errs"

text \<open>
  The dependencies of a scanner and what its surroundings give: the signals, the engines, the rule
  pack, the run identifier, the version of the build and the home directory redaction hides.
\<close>

record scan_deps =
  sd_Signals :: repo_signals
  sd_M1 :: policy_engine
  sd_M6 :: policy_engine
  sd_M8 :: policy_engine
  sd_Rego :: rego_world
  sd_RunID :: string
  sd_Version :: string
  sd_home :: string

definition sanitizeString :: "string \<Rightarrow> string \<Rightarrow> string \<Rightarrow> string" where
  "sanitizeString home s level =
     (if s = [] then []
      else RedactString \<lparr>re_Level = (if level = [] then LevelDefault else level), re_home = home\<rparr> s)"

definition emit_event :: "scan_deps \<Rightarrow> scan_options \<Rightarrow> event \<Rightarrow> event" where
  "emit_event d opts e =
     e\<lparr>en_RunID := if en_RunID e = [] then sd_RunID d else en_RunID e,
       en_Path := if en_Path e = [] then so_Path opts else en_Path e,
       en_Message := sanitizeString (sd_home d) (en_Message e) (so_RedactLevel opts),
       en_Error := sanitizeString (sd_home d) (en_Error e) (so_RedactLevel opts)\<rparr>"

text \<open>The callbacks of the observer.\<close>

fun observer_event :: "observation \<Rightarrow> event" where
  "observer_event (CollectorStarted name) =
     (mk_event EventCollectorStarted (''collector '' @ name @ '' started''))\<lparr>en_Collector := name\<rparr>"
| "observer_event (CollectorDone res) =
     (let statusStr = (if c_Status res = [] then ''unknown'' else c_Status res)
      in (mk_event EventCollectorDone
            (if c_Status res = CollectorTimeout then ''collector '' @ c_Name res @ '' timed out''
             else ''collector '' @ c_Name res @ '' done with status '' @ statusStr))
           \<lparr>en_Collector := c_Name res, en_Status := c_Status res\<rparr>)"

definition finding_event :: "finding \<Rightarrow> event" where
  "finding_event f =
     (mk_event EventFindingAdded (''finding '' @ f_ID f @ '' added''))
       \<lparr>en_FindingID := f_ID f, en_Severity := f_Severity f, en_Confidence := f_Confidence f\<rparr>"

definition evaluated_event :: "string \<Rightarrow> string \<Rightarrow> finding list \<Rightarrow> event" where
  "evaluated_event engine what fs =
     (mk_event EventRuleEvaluated (what @ '' evaluated '' @ itoa (int (length fs)) @ '' findings''))
       \<lparr>en_RuleEngine := engine\<rparr>"

definition failed_event :: "string \<Rightarrow> event" where
  "failed_event e = (mk_event EventScanFailed [])\<lparr>en_Error := e\<rparr>"

text \<open>The events and findings of an add-on engine, whose failure is tolerated.\<close>

definition addon ::
  "bool \<Rightarrow> string \<Rightarrow> string \<Rightarrow> policy_engine \<Rightarrow> snapshot \<Rightarrow> event list \<times> finding list" where
  "addon wanted engine label eng snapshot =
     (if \<not> wanted then ([], [])
      else case eng snapshot of
             Inl err \<Rightarrow>
               ([(mk_event EventRuleEvaluated (label @ '' engine error: '' @ err))
                   \<lparr>en_RuleEngine := engine, en_Error := err\<rparr>], [])
           | Inr fs \<Rightarrow>
               (evaluated_event engine (label @ '' engine'') fs # map finding_event fs, fs))"

definition rulepack_result :: "rego_result \<Rightarrow> collector_result" where
  "rulepack_result r =
     zero_result\<lparr>c_Name := ''rulepack'', c_Status := CollectorOK,
       c_Evidence := [mk_ev ''rulepack_id'' (pk_ID (rr_Pack r)),
                      mk_ev ''rulepack_engine'' (pk_Engine (rr_Pack r)),
                      mk_ev ''rulepack_findings'' (itoa (int (length (rr_Findings r))))]\<rparr>"

fun set_host :: "host_info \<Rightarrow> evidence \<Rightarrow> host_info" where
  "set_host h e =
     (if ev_Source e = ''host_os_id'' then h\<lparr>h_OS := ev_Value e\<rparr>
      else if ev_Source e = ''host_os_version'' then h\<lparr>h_Version := ev_Value e\<rparr>
      else if ev_Source e = ''host_kernel'' then h\<lparr>h_Kernel := ev_Value e\<rparr>
      else if ev_Source e = ''host_arch'' then h\<lparr>h_Arch := ev_Value e\<rparr>
      else h)"

definition populateHostInfo :: "collector_result list \<Rightarrow> host_info" where
  "populateHostInfo results =
     foldl set_host zero_host (concat (map c_Evidence (filter (\<lambda>c. c_Name c = ''host'') results)))"

definition scan_report ::
  "scan_deps \<Rightarrow> scan_options \<Rightarrow> collector_result list \<Rightarrow> finding list \<Rightarrow> report" where
  "scan_report d opts results sortedFindings =
     \<lparr>r_SchemaVersion = ''0.1'', r_DevDiagVersion = sd_Version d, r_RunID = sd_RunID d,
      r_RedactionStatus = so_RedactLevel opts, r_RepoRoot = sg_Root (sd_Signals d), r_RepoSignals = [],
      r_Host = populateHostInfo results, r_Collectors = results, r_Findings = sortedFindings,
      r_Repro = None\<rparr>"

definition completed_event :: "finding list \<Rightarrow> event" where
  "completed_event fs =
     mk_event EventScanCompleted (''scan completed with '' @ itoa (int (length fs)) @ '' findings'')"

definition Scan ::
  "scan_deps \<Rightarrow> scan_options \<Rightarrow> collector_result list \<Rightarrow> observation list \<Rightarrow>
   event list \<times> (scan_error + report)" where
  "Scan d opts results observed =
     (let snapshot = snapshot_Build results;
          evs0 = mk_event EventScanStarted ''scan started'' # map observer_event observed;
          emits = map (emit_event d opts)
      in case sd_M1 d snapshot of
           Inl err \<Rightarrow> (emits (evs0 @ [failed_event err]), Inl (EngineError err))
         | Inr m1 \<Rightarrow>
             (let evs1 = evaluated_event ''m1'' ''M1 engine'' m1 # map finding_event m1;
                  m6 = addon (so_Profile opts = ''ai-ml'') ''m6'' ''M6'' (sd_M6 d) snapshot;
                  m8 = addon (sg_HasCI (sd_Signals d) \<or> so_CI opts) ''m8'' ''M8'' (sd_M8 d) snapshot;
                  evs = evs0 @ evs1 @ fst m6 @ fst m8;
                  allf = m1 @ snd m6 @ snd m8
              in if so_RulePackPath opts \<noteq> []
                 then let ev = EvaluateRegoFile (sd_Rego d) (so_RulePackPath opts) snapshot
                      in if \<not> rr_Valid ev
                         then let err = RulePackError (rr_Errors ev)
                              in (emits (evs @ [failed_event (scan_error_text err)]), Inl err)
                         else let sorted = Aggregator_Add (allf @ rr_Findings ev)
                              in (emits (evs @ evaluated_event ''rulepack'' ''rule pack'' (rr_Findings ev) #
                                         map finding_event (rr_Findings ev) @ [completed_event sorted]),
                                  Inr (scan_report d opts (results @ [rulepack_result ev]) sorted))
                 else let sorted = Aggregator_Add allf
                      in (emits (evs @ [completed_event sorted]),
                          Inr (scan_report d opts results sorted))))"

section \<open>The events of a scan\<close>

definition is_terminal :: "event \<Rightarrow> bool" where
  "is_terminal e \<longleftrightarrow> en_Type e = EventScanCompleted \<or> en_Type e = EventScanFailed"

lemma emit_event_type [simp]: "en_Type (emit_event d opts e) = en_Type e"
  by (simp add: emit_event_def)

lemma mk_event_sel [simp]:
  "en_Type (mk_event t m) = t" "en_RunID (mk_event t m) = []" "en_Path (mk_event t m) = []"
  "en_Message (mk_event t m) = m" "en_Error (mk_event t m) = []"
  by (simp_all add: mk_event_def)

lemma observer_event_running [simp]: "en_Type (observer_event ob) \<noteq> EventScanCompleted \<and>
    en_Type (observer_event ob) \<noteq> EventScanFailed \<and> en_Type (observer_event ob) \<noteq> EventFindingAdded"
  by (cases ob) (simp_all add: Let_def)

lemma event_types [simp]:
  "en_Type (finding_event f) = EventFindingAdded" "en_Type (evaluated_event en w fs) = EventRuleEvaluated"
  "en_Type (failed_event e) = EventScanFailed" "en_Type (completed_event fs) = EventScanCompleted"
  by (simp_all add: finding_event_def evaluated_event_def failed_event_def completed_event_def)

text \<open>Events that neither end the scan nor carry their own run or path.\<close>

definition progress_event :: "event \<Rightarrow> bool" where
  "progress_event e \<longleftrightarrow> \<not> is_terminal e \<and> en_RunID e = [] \<and> en_Path e = []"

lemma progress_event_intros [simp]:
  "progress_event (observer_event ob)" "progress_event (finding_event f)"
  "progress_event (evaluated_event en w fs)" "progress_event (mk_event EventScanStarted m)"
  by (cases ob; simp add: progress_event_def is_terminal_def Let_def)
     (simp_all add: progress_event_def is_terminal_def finding_event_def evaluated_event_def)

lemma addon_progress: "e \<in> set (fst (addon w en l eng s)) \<Longrightarrow> progress_event e"
  by (auto simp: addon_def progress_event_def [of "_\<lparr>en_RuleEngine := _, en_Error := _\<rparr>"] is_terminal_def
      split: if_splits sum.splits)

definition added :: "event list \<Rightarrow> string list" where
  "added evs = map en_FindingID (filter (\<lambda>e. en_Type e = EventFindingAdded) evs)"

lemma added_simps [simp]:
  "added [] = []" "added (xs @ ys) = added xs @ added ys"
  "added (e # es) = (if en_Type e = EventFindingAdded then en_FindingID e # added es else added es)"
  "added (map finding_event fs) = map f_ID fs" "added (map observer_event obs) = []"
  "added (map (emit_event d opts) evs) = added evs"
  by (simp_all add: added_def comp_def filter_map finding_event_def emit_event_def)

text \<open>The events before the last, the last one, and the outcome of a scan.\<close>

lemma Scan_shape:
  obtains evs last_ev out where
    "Scan d opts results observed = (map (emit_event d opts) (evs @ [last_ev]), out)"
    "evs \<noteq> []" "hd evs = mk_event EventScanStarted ''scan started''"
    "\<forall>e \<in> set evs. progress_event e"
    "case out of
       Inl err \<Rightarrow> last_ev = failed_event (scan_error_text err)
     | Inr rep \<Rightarrow> last_ev = completed_event (r_Findings rep) \<and>
         (\<exists>fs. added evs = map f_ID fs \<and> r_Findings rep = Aggregator_Add fs)"
proof (cases "sd_M1 d (snapshot_Build results)")
  case (Inl err)
  show ?thesis
    by (rule that [of "mk_event EventScanStarted ''scan started'' # map observer_event observed"
          "failed_event err" "Inl (EngineError err)"]) (auto simp: Scan_def Let_def Inl)
next
  case (Inr m1)
  define snap where "snap = snapshot_Build results"
  define a6 where "a6 = addon (so_Profile opts = ''ai-ml'') ''m6'' ''M6'' (sd_M6 d) snap"
  define a8 where "a8 = addon (sg_HasCI (sd_Signals d) \<or> so_CI opts) ''m8'' ''M8'' (sd_M8 d) snap"
  define evs where "evs = mk_event EventScanStarted ''scan started'' # map observer_event observed @
    evaluated_event ''m1'' ''M1 engine'' m1 # map finding_event m1 @ fst a6 @ fst a8"
  define allf where "allf = m1 @ snd a6 @ snd a8"
  define ev where "ev = EvaluateRegoFile (sd_Rego d) (so_RulePackPath opts) snap"
  note defs = Scan_def Let_def Inr evs_def allf_def a6_def a8_def ev_def snap_def
  have "added (fst (addon w en l eng snap)) = map f_ID (snd (addon w en l eng snap))" for w en l eng
    by (simp add: addon_def split: sum.splits)
  then have added: "added evs = map f_ID allf" by (simp add: evs_def allf_def a6_def a8_def)
  have progress: "\<forall>e \<in> set evs. progress_event e"
    using addon_progress by (auto simp: evs_def a6_def a8_def)
  have start: "evs \<noteq> []" "hd evs = mk_event EventScanStarted ''scan started''"
    by (simp_all add: evs_def)
  show ?thesis
  proof (cases "so_RulePackPath opts = []")
    case True
    have scan: "Scan d opts results observed = (map (emit_event d opts) (evs @ [completed_event (Aggregator_Add allf)]),
        Inr (scan_report d opts results (Aggregator_Add allf)))"
      using True by (simp add: defs)
    show ?thesis
      by (rule that [OF scan start progress]) (use added in \<open>simp add: scan_report_def exI [of _ allf]\<close>)
  next
    case nonempty: False
    show ?thesis
    proof (cases "rr_Valid ev")
      case True
      define evs' where "evs' = evs @ evaluated_event ''rulepack'' ''rule pack'' (rr_Findings ev) #
        map finding_event (rr_Findings ev)"
      define sorted where "sorted = Aggregator_Add (allf @ rr_Findings ev)"
      have scan: "Scan d opts results observed = (map (emit_event d opts) (evs' @ [completed_event sorted]),
          Inr (scan_report d opts (results @ [rulepack_result ev]) sorted))"
        using nonempty True by (simp add: defs evs'_def sorted_def)
      have start': "evs' \<noteq> []" "hd evs' = mk_event EventScanStarted ''scan started''"
        using start by (simp_all add: evs'_def)
      have progress': "\<forall>e \<in> set evs'. progress_event e" using progress by (auto simp: evs'_def)
      have added': "added evs' = map f_ID (allf @ rr_Findings ev)" using added by (simp add: evs'_def)
      have "\<exists>fs. added evs' = map f_ID fs \<and> sorted = Aggregator_Add fs"
        using added' unfolding sorted_def by blast
      then show ?thesis
        by (intro that [OF scan start' progress']) (simp add: scan_report_def)
    next
      case False
      have scan: "Scan d opts results observed = (map (emit_event d opts)
          (evs @ [failed_event (scan_error_text (RulePackError (rr_Errors ev)))]), Inl (RulePackError (rr_Errors ev)))"
        using nonempty False by (simp add: defs)
      show ?thesis by (rule that [OF scan start progress]) simp
    qed
  qed
qed

section \<open>The findings of a scan\<close>

text \<open>The findings of an engine that is asked when it is wanted and tolerated when it fails.\<close>

definition answer :: "bool \<Rightarrow> policy_engine \<Rightarrow> snapshot \<Rightarrow> finding list" where
  "answer wanted eng s = (if wanted then (case eng s of Inl err \<Rightarrow> [] | Inr fs \<Rightarrow> fs) else [])"

text \<open>What the engines asked and the rule pack find: M1, M6 for the profile, M8 for CI, the pack if it is valid.\<close>

definition found_by_engines :: "scan_deps \<Rightarrow> scan_options \<Rightarrow> collector_result list \<Rightarrow> finding list" where
  "found_by_engines d opts results =
     (let s = snapshot_Build results in
      case sd_M1 d s of
        Inl err \<Rightarrow> []
      | Inr m1 \<Rightarrow>
          m1 @ answer (so_Profile opts = ''ai-ml'') (sd_M6 d) s @
          answer (sg_HasCI (sd_Signals d) \<or> so_CI opts) (sd_M8 d) s @
          (if so_RulePackPath opts \<noteq> [] \<and> rr_Valid (EvaluateRegoFile (sd_Rego d) (so_RulePackPath opts) s)
           then rr_Findings (EvaluateRegoFile (sd_Rego d) (so_RulePackPath opts) s) else []))"

text \<open>What the events announce: identifier, severity and confidence.\<close>

definition announced :: "event list \<Rightarrow> (string \<times> severity \<times> rat) list" where
  "announced evs = map (\<lambda>e. (en_FindingID e, en_Severity e, en_Confidence e)) (filter (\<lambda>e. en_Type e = EventFindingAdded) evs)"

lemma announced_simps [simp]:
  "announced [] = []" "announced (xs @ ys) = announced xs @ announced ys"
  "announced (e # es) =
     (if en_Type e = EventFindingAdded then (en_FindingID e, en_Severity e, en_Confidence e) # announced es else announced es)"
  "announced (map finding_event fs) = map (\<lambda>f. (f_ID f, f_Severity f, f_Confidence f)) fs"
  "announced (map observer_event obs) = []"
  "announced (map (emit_event d opts) evs) = announced evs"
  by (simp_all add: announced_def comp_def filter_map finding_event_def emit_event_def)

lemma announced_addon:
  "announced (fst (addon w en l eng s)) = map (\<lambda>f. (f_ID f, f_Severity f, f_Confidence f)) (answer w eng s)"
  "snd (addon w en l eng s) = answer w eng s"
  by (simp_all add: addon_def answer_def split: sum.splits)

lemma Scan_announces:
  "announced (fst (Scan d opts results observed)) =
     map (\<lambda>f. (f_ID f, f_Severity f, f_Confidence f)) (found_by_engines d opts results)"
  by (simp add: Scan_def Let_def found_by_engines_def announced_addon del: map_map list.map_comp split: sum.splits)

text \<open>
  C15: the events of a scan begin with its start and end with its only terminal event, which is
  \<open>scan_completed\<close> exactly when a report is returned; each carries the run and the path of the scan
  and texts that went through redaction. And the findings they announce, with identifier, severity and
  confidence, are exactly those of the engines asked and of a valid rule pack, in that order.
\<close>

theorem Scan_events:
  "en_Type (hd (fst (Scan d opts results observed))) = EventScanStarted \<and>
   filter is_terminal (fst (Scan d opts results observed)) = [last (fst (Scan d opts results observed))] \<and>
   (en_Type (last (fst (Scan d opts results observed))) = EventScanCompleted \<longleftrightarrow>
      (case snd (Scan d opts results observed) of Inl err \<Rightarrow> False | Inr rep \<Rightarrow> True)) \<and>
   list_all (\<lambda>e. en_RunID e = sd_RunID d \<and> en_Path e = so_Path opts \<and>
        (\<exists>m. en_Message e = sanitizeString (sd_home d) m (so_RedactLevel opts)) \<and>
        (\<exists>m. en_Error e = sanitizeString (sd_home d) m (so_RedactLevel opts)))
      (fst (Scan d opts results observed)) \<and>
   announced (fst (Scan d opts results observed)) =
     map (\<lambda>f. (f_ID f, f_Severity f, f_Confidence f)) (found_by_engines d opts results)"
proof (cases rule: Scan_shape [of d opts results observed])
  case (1 evs last_ev out)
  have last: "is_terminal last_ev" "en_RunID last_ev = []" "en_Path last_ev = []"
      "en_Type last_ev = EventScanCompleted \<longleftrightarrow> (case out of Inl err \<Rightarrow> False | Inr rep \<Rightarrow> True)"
    using 1(5) by (auto simp: is_terminal_def failed_event_def completed_event_def split: sum.splits)
  have progress: "\<not> is_terminal e" "en_RunID e = []" "en_Path e = []" if "e \<in> set evs" for e
    using 1(4) that by (auto simp: progress_event_def)
  have "filter is_terminal (map (emit_event d opts) evs) = []"
    using progress(1) by (auto simp: filter_empty_conv is_terminal_def)
  moreover have "is_terminal (emit_event d opts last_ev)" using last(1) by (simp add: is_terminal_def)
  moreover have "en_RunID (emit_event d opts e) = sd_RunID d" "en_Path (emit_event d opts e) = so_Path opts"
    if "e \<in> set (evs @ [last_ev])" for e
    using that last progress by (auto simp: emit_event_def)
  moreover have "en_Type (hd (map (emit_event d opts) evs)) = EventScanStarted"
    using 1(2,3) by (simp add: hd_map)
  ultimately have "en_Type (hd (fst (Scan d opts results observed))) = EventScanStarted \<and>
   filter is_terminal (fst (Scan d opts results observed)) = [last (fst (Scan d opts results observed))] \<and>
   (en_Type (last (fst (Scan d opts results observed))) = EventScanCompleted \<longleftrightarrow>
      (case snd (Scan d opts results observed) of Inl err \<Rightarrow> False | Inr rep \<Rightarrow> True)) \<and>
   list_all (\<lambda>e. en_RunID e = sd_RunID d \<and> en_Path e = so_Path opts \<and>
        (\<exists>m. en_Message e = sanitizeString (sd_home d) m (so_RedactLevel opts)) \<and>
        (\<exists>m. en_Error e = sanitizeString (sd_home d) m (so_RedactLevel opts)))
      (fst (Scan d opts results observed))" using last(4) 1(1,2)
    by (auto simp: list_all_iff emit_event_def hd_append)
  with Scan_announces show ?thesis by blast
qed

text \<open>
  C16: a scan returns a report exactly when M1 answers and the rule pack, if one is given, is valid, never
  failing because of M6 or M8; it then holds the aggregation of exactly the findings of M1, of M6 for the
  profile \<open>ai-ml\<close>, of M8 when there is CI, and of the pack, and the results of the collectors, with one for
  the pack. Otherwise the error is that of M1, or tells what is wrong with the pack.
\<close>

theorem Scan_findings:
  fixes d opts results observed
  defines "s \<equiv> snapshot_Build results"
    and "pack \<equiv> EvaluateRegoFile (sd_Rego d) (so_RulePackPath opts) (snapshot_Build results)"
    and "out \<equiv> snd (Scan d opts results observed)"
  shows "((\<exists>rep. out = Inr rep) \<longleftrightarrow>
      (\<exists>m1. sd_M1 d s = Inr m1) \<and> (so_RulePackPath opts = [] \<or> rr_Valid pack)) \<and>
    (case out of
       Inr rep \<Rightarrow>
         r_Findings rep = Aggregator_Add (found_by_engines d opts results) \<and>
         r_Collectors rep = results @ (if so_RulePackPath opts = [] then [] else [rulepack_result pack]) \<and>
         r_RunID rep = sd_RunID d \<and> r_RepoRoot rep = sg_Root (sd_Signals d)
     | Inl err \<Rightarrow>
         (case sd_M1 d s of Inl e \<Rightarrow> err = EngineError e | Inr m1 \<Rightarrow> err = RulePackError (rr_Errors pack)))"
  by (simp add: Scan_def Let_def s_def pack_def out_def announced_addon found_by_engines_def scan_report_def
      split: sum.splits)

section \<open>From the runner to the report\<close>

text \<open>The scan of a finished run of the collectors.\<close>

definition scan_run :: "scan_deps \<Rightarrow> scan_options \<Rightarrow> run_state \<Rightarrow> event list \<times> (scan_error + report)" where
  "scan_run d opts s = Scan d opts (rs_results s) (map snd (rs_log s))"

lemma Scan_outcome: "snd (Scan d opts results observed) = snd (Scan d opts results observed')"
  by (simp add: Scan_def Let_def split: sum.splits)

text \<open>
  C17: the report of a scan does not depend on how its collectors were scheduled: two runs of the same
  collectors, each interleaved in its own way, give the same report or the same error.
\<close>

theorem scan_schedule_independent:
  assumes "(run_step r ctx race True cols)\<^sup>*\<^sup>* (run_start cols) s" "run_done cols s"
    and "(run_step r ctx race True cols)\<^sup>*\<^sup>* (run_start cols) t" "run_done cols t"
  shows "snd (scan_run d opts s) = snd (scan_run d opts t)"
proof -
  have "rs_results s = rs_results t"
    using run_done_results [OF run_reachable_inv] assms by metis
  then show ?thesis unfolding scan_run_def using Scan_outcome by metis
qed

text \<open>The other schedule of the two collectors: one after the other.\<close>

definition in_turn :: run_state where
  "in_turn = the (moves (Some NewRunner) (\<lambda>_. None) two_races True two_collectors
     [Some 0, Some 0, Some 0, Some 0, None, Some 1, Some 1, Some 1, Some 1, None]
     (run_start two_collectors))"

lemma in_turn_run: "(two_step ^^ 10) (run_start two_collectors) in_turn"
proof -
  let ?ms = "[Some 0, Some 0, Some 0, Some 0, None, Some 1, Some 1, Some 1, Some 1, None]"
  have "moves (Some NewRunner) (\<lambda>_. None) two_races True two_collectors ?ms (run_start two_collectors) \<noteq> None"
    by code_simp
  then have "moves (Some NewRunner) (\<lambda>_. None) two_races True two_collectors ?ms
      (run_start two_collectors) = Some in_turn"
    unfolding in_turn_def by (rule option.collapse [symmetric])
  moreover have "length ?ms = 10" by simp
  ultimately show ?thesis using moves_steps by metis
qed

theorem scan_schedule_independent_witness:
  "map snd (rs_log overtaking) \<noteq> map snd (rs_log in_turn) \<and>
   (\<forall>d opts. snd (scan_run d opts overtaking) = snd (scan_run d opts in_turn))"
proof -
  have logs: "map snd (rs_log overtaking) \<noteq> map snd (rs_log in_turn)"
    "run_done two_collectors in_turn" by code_simp+
  from scan_schedule_independent [OF relpowp_imp_rtranclp [OF overtaking_run] overtaking_done
      relpowp_imp_rtranclp [OF in_turn_run] logs(2)] logs(1)
  show ?thesis by blast
qed

section \<open>The collectors of a scan\<close>

text \<open>The names, by what was asked for.\<close>

definition build_names :: "bool \<Rightarrow> bool \<Rightarrow> bool \<Rightarrow> bool \<Rightarrow> string list" where
  "build_names docker podman ci ml =
     [''config'', ''repo'', ''env'', ''compose'', ''git'', ''runtime'', ''host'', ''host_runtime'',
      ''disk'', ''port'', ''network'', ''systemd'', ''security'', ''permission'', ''self''] @
     (if docker \<or> podman then
        (if docker then [''docker''] else []) @ (if podman then [''podman''] else []) @ [''compose_status'']
      else []) @
     (if ci then [''ci''] else []) @
     (if ml then [''gpu'', ''cuda'', ''pythonml'', ''gpudocker'', ''cache''] else [])"

lemma build_names_facts:
  "\<forall>docker podman ci ml.
     distinct (build_names docker podman ci ml) \<and> ''rulepack'' \<notin> set (build_names docker podman ci ml) \<and>
     (''docker'' \<in> set (build_names docker podman ci ml) \<longleftrightarrow> docker) \<and>
     (''podman'' \<in> set (build_names docker podman ci ml) \<longleftrightarrow> podman) \<and>
     (''compose_status'' \<in> set (build_names docker podman ci ml) \<longleftrightarrow> docker \<or> podman) \<and>
     (''ci'' \<in> set (build_names docker podman ci ml) \<longleftrightarrow> ci) \<and>
     (''gpu'' \<in> set (build_names docker podman ci ml) \<longleftrightarrow> ml)"
  by code_simp

lemma map_co_Name_named [simp]: "map co_Name (named ns) = ns"
  by (simp add: named_def comp_def)

lemma Build_names:
  "map co_Name (fst (defaultCollectorFactory_Build w opts)) =
     build_names (sg_HasDocker (snd (defaultCollectorFactory_Build w opts)))
       (sg_HasPodman (snd (defaultCollectorFactory_Build w opts)))
       (sg_HasCI (snd (defaultCollectorFactory_Build w opts)) \<or> so_CI opts) (so_Profile opts = ''ai-ml'')"
  "sg_HasContainers (snd (defaultCollectorFactory_Build w opts)) \<longleftrightarrow>
     sg_HasDocker (snd (defaultCollectorFactory_Build w opts)) \<or>
     sg_HasPodman (snd (defaultCollectorFactory_Build w opts))"
  by (simp_all add: defaultCollectorFactory_Build_def Let_def build_names_def)

text \<open>
  A scan never runs two collectors of the same name, so that no result hides another from the
  rules, and none of the name \<open>rulepack\<close>, which \<open>Scan\<close> adds itself; those of Docker, Podman, their
  Compose status, CI and the \<open>ai-ml\<close> profile run exactly when their signal or option is there.
\<close>

theorem Build_collectors:
  "distinct (map co_Name (fst (defaultCollectorFactory_Build w opts))) \<and>
   ''rulepack'' \<notin> set (map co_Name (fst (defaultCollectorFactory_Build w opts))) \<and>
   (''docker'' \<in> set (map co_Name (fst (defaultCollectorFactory_Build w opts))) \<longleftrightarrow>
      sg_HasDocker (snd (defaultCollectorFactory_Build w opts))) \<and>
   (''podman'' \<in> set (map co_Name (fst (defaultCollectorFactory_Build w opts))) \<longleftrightarrow>
      sg_HasPodman (snd (defaultCollectorFactory_Build w opts))) \<and>
   (''compose_status'' \<in> set (map co_Name (fst (defaultCollectorFactory_Build w opts))) \<longleftrightarrow>
      sg_HasContainers (snd (defaultCollectorFactory_Build w opts))) \<and>
   (''ci'' \<in> set (map co_Name (fst (defaultCollectorFactory_Build w opts))) \<longleftrightarrow>
      sg_HasCI (snd (defaultCollectorFactory_Build w opts)) \<or> so_CI opts) \<and>
   (''gpu'' \<in> set (map co_Name (fst (defaultCollectorFactory_Build w opts))) \<longleftrightarrow> so_Profile opts = ''ai-ml'')"
  unfolding Build_names by (rule build_names_facts [rule_format])

section \<open>The channel sink\<close>

text \<open>What a channel sink and its consumer do: emit an event, or take one if there is one.\<close>

datatype sink_op = Emit event | Receive

fun sink_run :: "channel_sink \<Rightarrow> sink_op list \<Rightarrow> event list \<times> channel_sink" where
  "sink_run s [] = ([], s)"
| "sink_run s (Emit e # ops) = sink_run (ChannelSink_Emit s e) ops"
| "sink_run s (Receive # ops) =
     (case ChannelSink_Receive s of
        None \<Rightarrow> sink_run s ops
      | Some (e, s') \<Rightarrow> (e # fst (sink_run s' ops), snd (sink_run s' ops)))"

fun emitted :: "sink_op list \<Rightarrow> event list" where
  "emitted [] = []"
| "emitted (Emit e # ops) = e # emitted ops"
| "emitted (Receive # ops) = emitted ops"

text \<open>
  A channel sink never blocks and loses no event unaccounted: what was received and what waits
  is a subsequence of what was emitted, the dropped counter is exactly the number of the missing,
  and the channel never holds more than its capacity.
\<close>

theorem ChannelSink_accounts:
  assumes "length (cs_queue s) \<le> cs_cap s"
  shows "subseq (fst (sink_run s ops) @ cs_queue (snd (sink_run s ops))) (cs_queue s @ emitted ops) \<and>
    length (fst (sink_run s ops)) + length (cs_queue (snd (sink_run s ops))) +
      (cs_dropped (snd (sink_run s ops)) - cs_dropped s) = length (cs_queue s) + length (emitted ops) \<and>
    cs_dropped s \<le> cs_dropped (snd (sink_run s ops)) \<and>
    length (cs_queue (snd (sink_run s ops))) \<le> cs_cap s"
  using assms
proof (induction s ops rule: sink_run.induct)
  case (2 s e ops)
  show ?case
  proof (cases "length (cs_queue s) < cs_cap s")
    case True
    then show ?thesis using 2 by (simp add: ChannelSink_Emit_def)
  next
    case False
    have "subseq (cs_queue s @ emitted ops) (cs_queue s @ e # emitted ops)"
      by (intro list_emb_append_mono) auto
    with False 2 show ?thesis
      by (auto simp: ChannelSink_Emit_def intro: subseq_order.trans)
  qed
next
  case (3 s ops)
  then show ?case by (auto simp: ChannelSink_Receive_def split: list.splits)
qed simp

theorem ChannelSink_accounts_witness:
  "cs_dropped (snd (sink_run \<lparr>cs_cap = 1, cs_queue = [], cs_dropped = 0\<rparr>
     [Emit (mk_event EventScanStarted ''a''), Emit (mk_event EventScanFailed ''b''), Receive])) = 1"
  using ChannelSink_accounts [of "\<lparr>cs_cap = 1, cs_queue = [], cs_dropped = 0\<rparr>"
    "[Emit (mk_event EventScanStarted ''a''), Emit (mk_event EventScanFailed ''b''), Receive]"]
  by (simp add: ChannelSink_Receive_def ChannelSink_Emit_def)

end
