(* ===== verification/Pathfilter.thy ===== *)
theory Pathfilter
  imports Go_Path Go_Regexp
begin

text \<open>
  \<open>internal/pathfilter/pathfilter.go\<close>: which paths are left out of the evidence on a project, by the
  classes of their segments and by glob patterns. Which files exist is a parameter. Patterns are
  ASCII: the code turns each byte of a pattern into a character of its own.
\<close>

section \<open>Classes of paths\<close>

datatype path_class =
    PathProject
  | PathDependency
  | PathGenerated
  | PathCache
  | PathVCS
  | PathTooling
  | PathUnknown

definition segmentClasses :: "(string \<times> path_class) list" where
  "segmentClasses =
     [(''.git'', PathVCS), (''.devdiag'', PathTooling), (''node_modules'', PathDependency),
      (''vendor'', PathDependency), (''.venv'', PathDependency), (''venv'', PathDependency),
      (''site-packages'', PathDependency), (''__pycache__'', PathCache), (''.pytest_cache'', PathCache),
      (''.mypy_cache'', PathCache), (''.ruff_cache'', PathCache), (''.tox'', PathCache), (''.nox'', PathCache),
      (''.cache'', PathCache), (''coverage'', PathGenerated), (''dist'', PathGenerated),
      (''build'', PathGenerated), (''target'', PathGenerated), (''bin'', PathGenerated),
      (''obj'', PathGenerated), (''.next'', PathGenerated), (''.nuxt'', PathGenerated),
      (''.svelte-kit'', PathGenerated), (''.angular'', PathGenerated), (''.parcel-cache'', PathCache),
      (''.turbo'', PathCache), (''.gradle'', PathCache), (''DerivedData'', PathGenerated),
      (''Pods'', PathDependency)]"

definition ShouldSkipDir :: "string \<Rightarrow> bool" where
  "ShouldSkipDir name \<longleftrightarrow> map_of segmentClasses name \<noteq> None"

definition venvMarkerDirs :: "string list" where
  "venvMarkerDirs = [''env'', ''ENV'']"

fun classPriority :: "path_class \<Rightarrow> nat" where
  "classPriority PathDependency = 5"
| "classPriority PathGenerated = 4"
| "classPriority PathCache = 3"
| "classPriority PathVCS = 2"
| "classPriority PathTooling = 1"
| "classPriority _ = 0"

definition relativePath :: "string \<Rightarrow> string \<Rightarrow> string" where
  "relativePath base path =
     (case Rel (if base = [] then ''.'' else base) path of
        None \<Rightarrow> Clean path
      | Some rel \<Rightarrow> if has_prefix rel ''../'' then Clean path else rel)"

definition isVirtualEnvDir :: "(string \<Rightarrow> bool) \<Rightarrow> string \<Rightarrow> bool" where
  "isVirtualEnvDir exists_file dir \<longleftrightarrow>
     exists_file (Join2 dir ''pyvenv.cfg'') \<or> exists_file (Join2 dir ''bin/activate'')"

text \<open>The class a segment at a path stands for, and the loop over the segments.\<close>

definition segment_class :: "(string \<Rightarrow> bool) \<Rightarrow> string \<Rightarrow> string \<Rightarrow> path_class option" where
  "segment_class exists_file dir segment =
     (case map_of segmentClasses segment of
        Some c \<Rightarrow> Some c
      | None \<Rightarrow> if segment \<in> set venvMarkerDirs \<and> isVirtualEnvDir exists_file dir
                then Some PathDependency else None)"

fun classify_segments :: "(string \<Rightarrow> bool) \<Rightarrow> string \<Rightarrow> path_class \<Rightarrow> string list \<Rightarrow> path_class" where
  "classify_segments exists_file dir cls [] = cls"
| "classify_segments exists_file dir cls (segment # segments) =
     (if segment = [] \<or> segment = ''.'' then classify_segments exists_file dir cls segments
      else let dir = Join2 dir segment
           in case segment_class exists_file dir segment of
                None \<Rightarrow> classify_segments exists_file dir cls segments
              | Some c \<Rightarrow>
                  classify_segments exists_file dir
                    (if classPriority c > classPriority cls then c else cls) segments)"

definition ClassifyPath :: "(string \<Rightarrow> bool) \<Rightarrow> string \<Rightarrow> string \<Rightarrow> path_class" where
  "ClassifyPath exists_file base path =
     (let rel = relativePath base path
      in if rel = [] \<or> rel = ''.'' then PathProject
         else classify_segments exists_file base PathProject (split_at ''/'' rel))"

definition ShouldSkipPath :: "(string \<Rightarrow> bool) \<Rightarrow> string \<Rightarrow> string \<Rightarrow> bool" where
  "ShouldSkipPath exists_file base path \<longleftrightarrow>
     ClassifyPath exists_file base path \<in> {PathDependency, PathGenerated, PathCache, PathVCS, PathTooling}"

section \<open>Globs\<close>

definition any_char :: rx where "any_char = RCls (\<lambda>c. c \<noteq> CHR 0x0A)"

function glob_parts :: "string \<Rightarrow> rx list" where
  "glob_parts p =
     (case p of
        [] \<Rightarrow> []
      | ch # p1 \<Rightarrow>
          if ch = CHR ''*''
          then if has_prefix p1 ''*''
               then if has_prefix p1 ''*/''
                    then RAlt (RSeq (RStar any_char) (RChr CHR ''/'')) REps # glob_parts (drop 2 p1)
                    else RStar any_char # glob_parts (drop 1 p1)
               else RStar (RCls (\<lambda>c. c \<noteq> CHR ''/'')) # glob_parts p1
          else if ch = CHR ''?'' then RCls (\<lambda>c. c \<noteq> CHR ''/'') # glob_parts p1
          else RChr ch # glob_parts p1)"
  by pat_completeness auto
termination by (relation "measure length") auto

declare glob_parts.simps [simp del]

definition globRegexp :: "string \<Rightarrow> rx" where
  "globRegexp pattern = RSeqs (RBegin # glob_parts pattern @ [REnd])"

definition matchGlob :: "string \<Rightarrow> string \<Rightarrow> bool" where
  "matchGlob pattern0 rel \<longleftrightarrow>
     (let pattern = trim_space pattern0
      in pattern \<noteq> [] \<and> MatchString (globRegexp (trim_prefix pattern ''./'')) rel)"

definition ShouldSkipPathWithPatterns ::
  "(string \<Rightarrow> bool) \<Rightarrow> string \<Rightarrow> string \<Rightarrow> string list \<Rightarrow> bool" where
  "ShouldSkipPathWithPatterns exists_file base path patterns \<longleftrightarrow>
     ShouldSkipPath exists_file base path \<or>
     list_ex (\<lambda>p. matchGlob p (relativePath base path)) patterns"

definition IsProjectManifestPathWithPatterns ::
  "(string \<Rightarrow> bool) \<Rightarrow> string \<Rightarrow> string \<Rightarrow> string list \<Rightarrow> bool" where
  "IsProjectManifestPathWithPatterns exists_file base path patterns \<longleftrightarrow>
     \<not> ShouldSkipPathWithPatterns exists_file base path patterns"

section \<open>What globs match\<close>

text \<open>The meaning of a glob on a path, by its characters.\<close>

inductive glob :: "string \<Rightarrow> string \<Rightarrow> bool" where
  glob_end: "glob [] []"
| glob_deep_none: "glob p s \<Longrightarrow> glob (''**/'' @ p) s"
| glob_deep_some: "glob p s \<Longrightarrow> CHR 0x0A \<notin> set d \<Longrightarrow> glob (''**/'' @ p) (d @ ''/'' @ s)"
| glob_rest: "glob p s \<Longrightarrow> CHR 0x0A \<notin> set d \<Longrightarrow> \<not> has_prefix p ''/'' \<Longrightarrow> glob (''**'' @ p) (d @ s)"
| glob_star: "glob p s \<Longrightarrow> CHR ''/'' \<notin> set d \<Longrightarrow> \<not> has_prefix p ''*'' \<Longrightarrow> glob (''*'' @ p) (d @ s)"
| glob_one: "glob p s \<Longrightarrow> c \<noteq> CHR ''/'' \<Longrightarrow> glob (''?'' @ p) ([c] @ s)"
| glob_char: "glob p s \<Longrightarrow> c \<noteq> CHR ''*'' \<Longrightarrow> c \<noteq> CHR ''?'' \<Longrightarrow> glob ([c] @ p) ([c] @ s)"

lemma glob_parts_simps:
  "glob_parts [] = []"
  "glob_parts (''**/'' @ p) = RAlt (RSeq (RStar any_char) (RChr CHR ''/'')) REps # glob_parts p"
  "\<not> has_prefix p ''/'' \<Longrightarrow> glob_parts (''**'' @ p) = RStar any_char # glob_parts p"
  "\<not> has_prefix p ''*'' \<Longrightarrow> glob_parts (''*'' @ p) = RStar (RCls (\<lambda>c. c \<noteq> CHR ''/'')) # glob_parts p"
  "glob_parts (''?'' @ p) = RCls (\<lambda>c. c \<noteq> CHR ''/'') # glob_parts p"
  "c \<noteq> CHR ''*'' \<Longrightarrow> c \<noteq> CHR ''?'' \<Longrightarrow> glob_parts ([c] @ p) = RChr c # glob_parts p"
  by (subst glob_parts.simps; simp)+

text \<open>The forms of a pattern, each with its rest.\<close>

lemma glob_forms:
  obtains "p = []"
    | q where "p = ''**/'' @ q"
    | q where "p = ''**'' @ q" "\<not> has_prefix q ''/''"
    | q where "p = ''*'' @ q" "\<not> has_prefix q ''*''"
    | q where "p = ''?'' @ q"
    | c q where "p = [c] @ q" "c \<noteq> CHR ''*''" "c \<noteq> CHR ''?''"
proof (cases p)
  case (Cons c q)
  consider "c = CHR ''*'' \<and> has_prefix q ''*/''" | "c = CHR ''*'' \<and> has_prefix q ''*'' \<and> \<not> has_prefix q ''*/''"
    | "c = CHR ''*'' \<and> \<not> has_prefix q ''*''" | "c = CHR ''?''" | "c \<noteq> CHR ''*'' \<and> c \<noteq> CHR ''?''" by blast
  then show ?thesis using Cons that by cases (auto simp: prefix_def)
qed (use that in simp)

lemma rx_in_star_cls: "rx_in (RStar (RCls P)) pre w post \<longleftrightarrow> list_all P w"
proof
  assume "rx_in (RStar (RCls P)) pre w post"
  then show "list_all P w" by (auto simp: list_all_iff dest: rx_in_chars)
next
  show "list_all P w \<Longrightarrow> rx_in (RStar (RCls P)) pre w post"
  proof (induction w arbitrary: pre)
    case (Cons c w)
    have "rx_in (RStar (RCls P)) pre ([c] @ w) post"
      using Cons by (intro in_star in_cls) auto
    then show ?case by simp
  qed (rule in_star_nil)
qed

text \<open>Parts of a glob look at nothing but the text they match.\<close>

fun in_parts :: "rx list \<Rightarrow> string \<Rightarrow> bool" where
  "in_parts [] w \<longleftrightarrow> w = []"
| "in_parts (r # rs) w \<longleftrightarrow> (\<exists>v u. w = v @ u \<and> rx_in r [] v [] \<and> in_parts rs u)"

lemma glob_parts_ctx_free: "r \<in> set (glob_parts p) \<Longrightarrow> ctx_free r"
proof (induction "length p" arbitrary: p rule: less_induct)
  case less
  show ?case using less.prems
    by (cases p rule: glob_forms)
       (auto simp: glob_parts_simps any_char_def RChr_def simp del: append_Cons dest: less.hyps [rotated])
qed

lemma rx_in_parts:
  "\<forall>r \<in> set rs. ctx_free r \<Longrightarrow>
   rx_in (RSeqs (rs @ [REnd])) pre w post \<longleftrightarrow> in_parts rs w \<and> post = []"
proof (induction rs arbitrary: pre w)
  case Nil
  then show ?case by (auto simp: rx_in_simps)
next
  case (Cons r rs)
  have "rx_in r pre v (u @ post) \<longleftrightarrow> rx_in r [] v []" for v u
    using Cons.prems ctx_free_in by auto
  with Cons show ?case unfolding append_Cons rx_in_Seqs by auto
qed

lemma any_char_in: "rx_in (RStar any_char) [] w [] \<longleftrightarrow> CHR 0x0A \<notin> set w"
  by (auto simp: any_char_def rx_in_star_cls list_all_iff)

lemma in_parts_cls: "in_parts (RCls P # rs) s \<longleftrightarrow> (\<exists>c u. s = c # u \<and> P c \<and> in_parts rs u)"
proof -
  have "rx_in (RCls P) [] v [] \<longleftrightarrow> (\<exists>c. v = [c] \<and> P c)" for v by (auto simp: rx_in_simps)
  then have "in_parts (RCls P # rs) s \<longleftrightarrow> (\<exists>v u. s = v @ u \<and> (\<exists>c. v = [c] \<and> P c) \<and> in_parts rs u)" by simp
  also have "\<dots> \<longleftrightarrow> (\<exists>c u. s = [c] @ u \<and> P c \<and> in_parts rs u)" by blast
  finally show ?thesis by simp
qed

lemma glob_simps:
  "glob [] s \<longleftrightarrow> s = []"
  "glob (''**/'' @ p) s \<longleftrightarrow> glob p s \<or> (\<exists>d u. s = d @ ''/'' @ u \<and> CHR 0x0A \<notin> set d \<and> glob p u)"
  "\<not> has_prefix p ''/'' \<Longrightarrow> glob (''**'' @ p) s \<longleftrightarrow> (\<exists>d u. s = d @ u \<and> CHR 0x0A \<notin> set d \<and> glob p u)"
  "\<not> has_prefix p ''*'' \<Longrightarrow> glob (''*'' @ p) s \<longleftrightarrow> (\<exists>d u. s = d @ u \<and> CHR ''/'' \<notin> set d \<and> glob p u)"
  "glob (''?'' @ p) s \<longleftrightarrow> (\<exists>c u. s = [c] @ u \<and> c \<noteq> CHR ''/'' \<and> glob p u)"
  "c \<noteq> CHR ''*'' \<Longrightarrow> c \<noteq> CHR ''?'' \<Longrightarrow> glob ([c] @ p) s \<longleftrightarrow> (\<exists>u. s = [c] @ u \<and> glob p u)"
  by (subst glob.simps; auto simp: prefix_def)+

lemma glob_parts_glob: "in_parts (glob_parts p) s \<longleftrightarrow> glob p s"
proof (induction "length p" arbitrary: p s rule: less_induct)
  case less
  show ?case
  proof (cases p rule: glob_forms)
    case 1
    then show ?thesis by (simp add: glob_parts_simps glob_simps)
  next
    case (2 q)
    have "in_parts (glob_parts q) u \<longleftrightarrow> glob q u" for u using less 2 by simp
    moreover have "rx_in (RAlt (RSeq (RStar any_char) (RChr CHR ''/'')) REps) [] v [] \<longleftrightarrow>
        v = [] \<or> (\<exists>d. v = d @ ''/'' \<and> CHR 0x0A \<notin> set d)" for v
      by (auto simp: rx_in_simps rx_in_Chr any_char_def rx_in_star_cls list_all_iff)
    ultimately have "in_parts (glob_parts p) s \<longleftrightarrow>
        glob q s \<or> (\<exists>v u. s = v @ u \<and> (\<exists>d. v = d @ ''/'' \<and> CHR 0x0A \<notin> set d) \<and> glob q u)"
      unfolding 2 glob_parts_simps in_parts.simps by (metis append_Nil)
    also have "\<dots> \<longleftrightarrow> glob p s" unfolding 2 glob_simps by (metis append_assoc)
    finally show ?thesis .
  next
    case (3 q)
    have "in_parts (glob_parts q) u \<longleftrightarrow> glob q u" for u using less 3 by simp
    then show ?thesis unfolding 3(1) glob_parts_simps(3) [OF 3(2)] glob_simps(3) [OF 3(2)]
      by (auto simp: any_char_in)
  next
    case (4 q)
    have "in_parts (glob_parts q) u \<longleftrightarrow> glob q u" for u using less 4 by simp
    then show ?thesis unfolding 4(1) glob_parts_simps(4) [OF 4(2)] glob_simps(4) [OF 4(2)]
      by (auto simp: rx_in_star_cls list_all_iff)
  next
    case (5 q)
    have "in_parts (glob_parts q) u \<longleftrightarrow> glob q u" for u using less 5 by simp
    then show ?thesis unfolding 5(1) glob_parts_simps glob_simps
      by (simp add: in_parts_cls del: in_parts.simps)
  next
    case (6 c q)
    have "in_parts (glob_parts q) u \<longleftrightarrow> glob q u" for u using less 6 by simp
    then show ?thesis unfolding 6(1) glob_parts_simps(6) [OF 6(2,3)] glob_simps(6) [OF 6(2,3)]
      by (simp add: RChr_def in_parts_cls del: in_parts.simps)
  qed
qed

text \<open>
  C23: the regular expression a glob is translated to matches exactly the paths the glob means: \<open>**/\<close>
  any number of whole segments, \<open>**\<close> anything, \<open>*\<close> and \<open>?\<close> within a segment, other characters
  themselves.
\<close>

theorem globRegexp_glob: "MatchString (globRegexp p) s \<longleftrightarrow> glob p s"
proof -
  have "rx_in (globRegexp p) (rev g) v u \<longleftrightarrow> g = [] \<and> glob p v \<and> u = []" for g v u
    unfolding globRegexp_def rx_in_Seqs
    using rx_in_parts [of "glob_parts p"] glob_parts_ctx_free glob_parts_glob by (auto simp: rx_in_simps)
  then show ?thesis by (auto simp: MatchString_iff)
qed

section \<open>What is skipped\<close>

text \<open>The directories on the way to a path, with their last segments.\<close>

fun steps :: "string \<Rightarrow> string list \<Rightarrow> (string \<times> string) list" where
  "steps dir [] = []"
| "steps dir (segment # segments) =
     (if segment = [] \<or> segment = ''.'' then steps dir segments
      else (Join2 dir segment, segment) # steps (Join2 dir segment) segments)"

definition skipped_step :: "(string \<Rightarrow> bool) \<Rightarrow> string \<times> string \<Rightarrow> bool" where
  "skipped_step ex st \<longleftrightarrow> ShouldSkipDir (snd st) \<or> snd st \<in> set venvMarkerDirs \<and> isVirtualEnvDir ex (fst st)"

lemma segmentClasses_priority: "map_of segmentClasses s = Some c \<Longrightarrow> 0 < classPriority c"
proof -
  have "list_all (\<lambda>(s, c). 0 < classPriority c) segmentClasses" by code_simp
  then show "map_of segmentClasses s = Some c \<Longrightarrow> 0 < classPriority c"
    by (auto simp: list_all_iff dest!: map_of_SomeD)
qed

lemma segment_class_skipped:
  "(\<exists>c. segment_class ex dir s = Some c) \<longleftrightarrow> skipped_step ex (dir, s)"
  "segment_class ex dir s = Some c \<Longrightarrow> 0 < classPriority c"
  by (auto simp: segment_class_def skipped_step_def ShouldSkipDir_def split: option.splits if_splits
      dest: segmentClasses_priority)

lemma classify_segments_pos:
  "0 < classPriority (classify_segments ex dir cls segs) \<longleftrightarrow>
     0 < classPriority cls \<or> list_ex (skipped_step ex) (steps dir segs)"
proof (induction ex dir cls segs rule: classify_segments.induct)
  case (2 ex dir cls segment segments)
  show ?case
  proof (cases "segment = [] \<or> segment = ''.''")
    case False
    show ?thesis
    proof (cases "segment_class ex (Join2 dir segment) segment")
      case None
      with 2 False segment_class_skipped(1) [of ex "Join2 dir segment" segment] show ?thesis
        by (simp add: Let_def)
    next
      case (Some c)
      from segment_class_skipped [of ex "Join2 dir segment" segment] Some
      have "skipped_step ex (Join2 dir segment, segment)" "0 < classPriority c" by blast+
      with 2(3) [OF False refl Some] False Some show ?thesis by (simp add: Let_def)
    qed
  qed (use 2 in simp)
qed simp

text \<open>
  a path is skipped exactly when some directory on the way to it, below the base, has the name of a
  dependency, cache, build output, version control or tool directory, or is a virtual environment.
\<close>

theorem ShouldSkipPath_iff:
  "ShouldSkipPath ex base path \<longleftrightarrow>
     relativePath base path \<notin> {[], ''.''} \<and>
     list_ex (skipped_step ex) (steps base (split_at ''/'' (relativePath base path)))"
proof -
  have "c \<in> {PathDependency, PathGenerated, PathCache, PathVCS, PathTooling} \<longleftrightarrow> 0 < classPriority c" for c
    by (cases c) simp_all
  then show ?thesis
    by (simp add: ShouldSkipPath_def ClassifyPath_def Let_def classify_segments_pos)
qed

end
