(* ===== verification/Repro_Classifier.thy ===== *)
theory Repro_Classifier
  imports Schema
begin

text \<open>
  \<open>internal/repro/classifier/classifier.go\<close>: the patterns by which the output of a reproduced command
  is classified. Letter case is that of ASCII.
\<close>

record classifier_rule =
  cr_ID :: string
  cr_Kind :: string
  cr_Patterns :: "string list"
  cr_SourceStream :: string
  cr_Confidence :: rat
  cr_CaseSensitive :: bool

record classification =
  cl_Kind :: string
  cl_SourceStream :: string
  cl_Confidence :: rat
  cl_PatternID :: string
  cl_Excerpt :: string

definition any_rule :: "string \<Rightarrow> string \<Rightarrow> string list \<Rightarrow> rat \<Rightarrow> classifier_rule" where
  "any_rule i kind pats conf =
     \<lparr>cr_ID = i, cr_Kind = kind, cr_Patterns = pats, cr_SourceStream = ''any'', cr_Confidence = conf,
      cr_CaseSensitive = False\<rparr>"

definition DefaultRules :: "classifier_rule list" where
  "DefaultRules =
     [any_rule ''perm-denied-001'' ''permission_denied''
        [''permission denied'', ''EACCES'', ''Operation not permitted''] (7/10),
      any_rule ''missing-file-001'' ''missing_file''
        [''No such file or directory'', ''ENOENT'', ''command not found''] (7/10),
      any_rule ''addr-in-use-001'' ''address_in_use''
        [''address already in use'', ''EADDRINUSE'', ''bind: Address already in use''] (9/10),
      any_rule ''conn-refused-001'' ''connection_refused''
        [''connection refused'', ''ECONNREFUSED'', ''Connection refused''] (7/10),
      any_rule ''runtime-version-001'' ''runtime_version_failure''
        [''current node.js version'', ''requires node.js'', ''unsupported engine'',
         ''engine '' @ [CHR 0x22] @ ''node'' @ [CHR 0x22] @ '' is incompatible'',
         ''engine '' @ [CHR 0x22] @ ''npm'' @ [CHR 0x22] @ '' is incompatible'',
         ''requires python'', ''requires go'', ''go.mod requires go'', ''requires rust'', ''requires .net''] (7/10),
      any_rule ''dep-fail-001'' ''dependency_failure''
        [''npm ERR!'', ''pip failed'', ''go: module'', ''unresolved import'', ''cannot resolve''] (6/10),
      any_rule ''compose-config-001'' ''compose_config_error''
        [''interpolation'', ''Invalid interpolation'', ''compose config'', ''docker compose config''] (6/10)]"

definition contains_pattern :: "bool \<Rightarrow> string \<Rightarrow> string \<Rightarrow> bool" where
  "contains_pattern caseSensitive s pat \<longleftrightarrow>
     (if caseSensitive then contains s pat else contains (to_lower s) (to_lower pat))"

definition containsAnyPattern :: "string \<Rightarrow> string list \<Rightarrow> bool \<Rightarrow> bool" where
  "containsAnyPattern s patterns caseSensitive \<longleftrightarrow> list_ex (contains_pattern caseSensitive s) patterns"

text \<open>The first line with a pattern, whatever the case, cut after \<open>maxLen\<close> bytes.\<close>

fun excerpt_of_lines :: "string list \<Rightarrow> string list \<Rightarrow> nat \<Rightarrow> string" where
  "excerpt_of_lines [] patterns maxLen = []"
| "excerpt_of_lines (l # ls) patterns maxLen =
     (if list_ex (\<lambda>pat. contains (to_lower l) (to_lower pat)) patterns
      then trim_space (if length l > maxLen then take maxLen l @ ''...'' else l)
      else excerpt_of_lines ls patterns maxLen)"

definition extractExcerpt :: "string \<Rightarrow> string list \<Rightarrow> nat \<Rightarrow> string" where
  "extractExcerpt s patterns maxLen = excerpt_of_lines (split_at [CHR 0x0A] s) patterns maxLen"

definition stream_text :: "string \<Rightarrow> string \<Rightarrow> string \<Rightarrow> string" where
  "stream_text stream stdout stderr =
     (if stream = ''stdout'' then stdout
      else if stream = ''stderr'' then stderr
      else stdout @ [CHR 0x0A] @ stderr)"

definition classify_rule :: "string \<Rightarrow> string \<Rightarrow> classifier_rule \<Rightarrow> classification option" where
  "classify_rule stdout stderr r =
     (let s = stream_text (cr_SourceStream r) stdout stderr
      in if containsAnyPattern s (cr_Patterns r) (cr_CaseSensitive r)
         then Some
           \<lparr>cl_Kind = cr_Kind r,
            cl_SourceStream =
              (if cr_SourceStream r = ''any''
               then (if containsAnyPattern stdout (cr_Patterns r) (cr_CaseSensitive r) then ''stdout'' else ''stderr'')
               else cr_SourceStream r),
            cl_Confidence = cr_Confidence r, cl_PatternID = cr_ID r,
            cl_Excerpt = extractExcerpt s (cr_Patterns r) 120\<rparr>
         else None)"

definition Classify :: "classifier_rule list \<Rightarrow> string \<Rightarrow> string \<Rightarrow> classification list" where
  "Classify rules stdout stderr = List.map_filter (classify_rule stdout stderr) rules"

section \<open>What is classified\<close>

lemma contains_across:
  assumes "sep \<notin> set p"
  shows "contains (a @ sep # b) p \<longleftrightarrow> contains a p \<or> contains b p"
proof
  assume "contains (a @ sep # b) p"
  then obtain x y where xy: "a @ sep # b = x @ p @ y" by (auto simp: sublist_def)
  show "contains a p \<or> contains b p"
  proof (cases "length x \<le> length a")
    case True
    have "take (length x) (a @ sep # b) = x" "drop (length x) (a @ sep # b) = p @ y" by (simp_all add: xy)
    with True have a: "a = x @ drop (length x) a" and u: "drop (length x) a @ sep # b = p @ y"
      by (simp_all, metis append_take_drop_id)
    have "prefix p (drop (length x) a)"
    proof (rule ccontr)
      assume "\<not> prefix p (drop (length x) a)"
      with u have "length (drop (length x) a) < length p"
        by (metis append_eq_append_conv_if not_le prefix_def take_is_prefix)
      then have "p ! length (drop (length x) a) \<in> set p" "(p @ y) ! length (drop (length x) a) = p ! length (drop (length x) a)"
        by (simp_all add: nth_append)
      with assms show False unfolding u [symmetric] by (metis nth_append_length)
    qed
    with a show ?thesis by (metis prefix_def sublist_def)
  next
    case False
    have "drop (Suc (length a)) (a @ sep # b) = b" by simp
    then have "b = drop (Suc (length a)) x @ p @ y" using False by (simp add: xy)
    then show ?thesis by (metis sublist_def)
  qed
next
  assume "contains a p \<or> contains b p"
  then show "contains (a @ sep # b) p" by (auto simp: sublist_def) (metis append.assoc append_Cons)+
qed

definition plain_rule :: "classifier_rule \<Rightarrow> bool" where
  "plain_rule r \<longleftrightarrow> cr_SourceStream r = ''any'' \<and> \<not> cr_CaseSensitive r \<and>
     list_all (\<lambda>p. CHR 0x0A \<notin> set (to_lower p)) (cr_Patterns r)"

lemma DefaultRules_plain: "list_all plain_rule DefaultRules"
  by code_simp

lemma any_stream:
  assumes "plain_rule r"
  shows "containsAnyPattern (stdout @ [CHR 0x0A] @ stderr) (cr_Patterns r) (cr_CaseSensitive r) \<longleftrightarrow>
    containsAnyPattern stdout (cr_Patterns r) False \<or> containsAnyPattern stderr (cr_Patterns r) False"
proof -
  have "lower_char CHR 0x0A = CHR 0x0A" by code_simp
  then have low: "to_lower (stdout @ [CHR 0x0A] @ stderr) = to_lower stdout @ CHR 0x0A # to_lower stderr"
    by (simp add: to_lower_def)
  have "contains (to_lower (stdout @ [CHR 0x0A] @ stderr)) (to_lower p) \<longleftrightarrow>
      contains (to_lower stdout) (to_lower p) \<or> contains (to_lower stderr) (to_lower p)"
    if "p \<in> set (cr_Patterns r)" for p
    unfolding low using assms that by (intro contains_across) (auto simp: plain_rule_def list_all_iff)
  with assms show ?thesis
    by (auto simp: containsAnyPattern_def contains_pattern_def plain_rule_def list_ex_iff)
qed

lemma excerpt_length: "length (excerpt_of_lines ls pats n) \<le> n + 3"
proof (induction ls)
  case (Cons l ls)
  have "length (trim_space s) \<le> length s" for s
    by (metis le_trans prefix_length_le suffix_length_le trim_left_suffix trim_right_prefix trim_space_def)
  from this [of l] this [of "take n l @ ''...''"] Cons show ?case by auto
qed simp

definition occurs :: "string \<Rightarrow> classifier_rule \<Rightarrow> bool" where
  "occurs s r \<longleftrightarrow> list_ex (\<lambda>p. contains (to_lower s) (to_lower p)) (cr_Patterns r)"

text \<open>
  The classification of an output by the built-in rules has, in the order of the rules, exactly those
  with a pattern that occurs in one of the streams whatever the case; the stream named holds one, and the
  standard output comes first; the excerpt is bounded.
\<close>

theorem Classify_correct:
  "map (\<lambda>c. (cl_PatternID c, cl_Kind c, cl_SourceStream c)) (Classify DefaultRules stdout stderr) =
      map (\<lambda>r. (cr_ID r, cr_Kind r, if occurs stdout r then ''stdout'' else ''stderr''))
        (filter (\<lambda>r. occurs stdout r \<or> occurs stderr r) DefaultRules) \<and>
    list_all (\<lambda>c. length (cl_Excerpt c) \<le> 123) (Classify DefaultRules stdout stderr)"
proof -
  have occ: "containsAnyPattern s (cr_Patterns r) False \<longleftrightarrow> occurs s r" for s r
    by (simp add: containsAnyPattern_def contains_pattern_def occurs_def list_ex_iff)
  have one: "classify_rule stdout stderr r =
      (if occurs stdout r \<or> occurs stderr r
       then Some \<lparr>cl_Kind = cr_Kind r, cl_SourceStream = (if occurs stdout r then ''stdout'' else ''stderr''),
              cl_Confidence = cr_Confidence r, cl_PatternID = cr_ID r,
              cl_Excerpt = extractExcerpt (stdout @ [CHR 0x0A] @ stderr) (cr_Patterns r) 120\<rparr>
       else None)" if "plain_rule r" for r
    using that any_stream [OF that, of stdout stderr]
    by (simp add: classify_rule_def stream_text_def plain_rule_def Let_def occ)
  have "map (\<lambda>c. (cl_PatternID c, cl_Kind c, cl_SourceStream c)) (Classify rs stdout stderr) =
      map (\<lambda>r. (cr_ID r, cr_Kind r, if occurs stdout r then ''stdout'' else ''stderr''))
        (filter (\<lambda>r. occurs stdout r \<or> occurs stderr r) rs) \<and>
      list_all (\<lambda>c. length (cl_Excerpt c) \<le> 123) (Classify rs stdout stderr)"
    if "list_all plain_rule rs" for rs
    using that excerpt_length [of _ _ 120]
    by (induction rs) (simp_all add: Classify_def map_filter_simps one extractExcerpt_def)
  with DefaultRules_plain show ?thesis by blast
qed

end
