(* ===== verification/Trace_Parser.thy ===== *)
theory Trace_Parser
  imports Schema Go_Regexp "HOL-Library.AList"
begin

text \<open>
  \<open>internal/trace/types.go\<close>, \<open>parser.go\<close> and the part of \<open>runner.go\<close> that reads a trace: lines of strace
  are parsed into events, calls that strace printed in two parts are put together. Time stamps are
  nanoseconds of the day, durations nanoseconds in 64 bits.
\<close>

section \<open>Types\<close>

datatype trace_scope = ScopeFile | ScopeProcess | ScopeNetwork

datatype trace_backend = BackendStrace | BackendEBPF

fun scopes_of :: "string list \<Rightarrow> string + trace_scope list" where
  "scopes_of [] = Inr []"
| "scopes_of (p # ps) =
     (let p = trim_space (to_lower p);
          more = (\<lambda>s. case scopes_of ps of Inl e \<Rightarrow> Inl e | Inr ss \<Rightarrow> Inr (s # ss))
      in if p = [] then scopes_of ps
         else if p = ''file'' then more ScopeFile
         else if p = ''process'' then more ScopeProcess
         else if p = ''network'' then more ScopeNetwork
         else Inl (''invalid scope: '' @ quote_go p))"

definition ParseScopes :: "string \<Rightarrow> string + trace_scope list" where
  "ParseScopes s =
     (if s = [] then Inl ''scope string is empty''
      else case scopes_of (split_at '','' s) of
             Inl e \<Rightarrow> Inl e
           | Inr scopes \<Rightarrow> if scopes = [] then Inl ''no valid scopes found'' else Inr scopes)"

definition ParseBackend :: "string \<Rightarrow> string + trace_backend" where
  "ParseBackend s =
     (let b = trim_space (to_lower s)
      in if b = [] \<or> b = ''strace'' then Inr BackendStrace
         else if b = ''ebpf'' then Inr BackendEBPF
         else Inl (''invalid backend: '' @ quote_go s))"

text \<open>A time stamp that was not printed is \<open>None\<close>.\<close>

record trace_event =
  te_Timestamp :: "int option"
  te_PID :: int
  te_Syscall :: string
  te_Args :: "string list"
  te_Result :: string
  te_Error :: string
  te_Duration :: int

section \<open>Parts of a line\<close>

definition digits_rx :: rx where "digits_rx = RPlus (RCls is_digit)"
definition spaces_rx :: rx where "spaces_rx = RStar (RCls is_space)"

fun RUpTo :: "nat \<Rightarrow> rx \<Rightarrow> rx" where
  "RUpTo 0 r = REps"
| "RUpTo (Suc n) r = ROpt (RSeq r (RUpTo n r))"

text \<open>One to nine digits.\<close>

definition fraction_rx :: rx where "fraction_rx = RSeq (RCls is_digit) (RUpTo 8 (RCls is_digit))"

definition pidRegex :: rx where
  "pidRegex = RSeqs [RBegin, RStr ''[pid'', RPlus (RCls is_space), RCap 1 digits_rx, RChr CHR '']'', spaces_rx]"

definition timeRegex :: rx where
  "timeRegex = RSeqs [RBegin, RCap 1 (RTimes 2 (RCls is_digit)), RChr CHR '':'', RCap 2 (RTimes 2 (RCls is_digit)),
     RChr CHR '':'', RCap 3 (RTimes 2 (RCls is_digit)), RChr CHR ''.'', RCap 4 (RTimes 6 (RCls is_digit)), spaces_rx]"

definition durationRegex :: rx where
  "durationRegex = RSeqs [spaces_rx, RChr CHR ''<'', RCap 1 digits_rx, RChr CHR ''.'',
     RCap 2 fraction_rx, RChr CHR ''>'', spaces_rx, REnd]"

definition resumedRegex :: rx where
  "resumedRegex = RSeqs [RBegin, RStr ''<...'', RPlus (RCls is_space), RCap 1 (RPlus (RCls is_word)),
     RPlus (RCls is_space), RStr ''resumed>'', spaces_rx, RCap 2 (RStar (RCls (\<lambda>c. c \<noteq> CHR 0x0A))), REnd]"

text \<open>\<open>strconv.Atoi\<close> on digits with the error ignored: a number out of range gives the largest one.\<close>

definition atoi_clamped :: "string \<Rightarrow> int" where
  "atoi_clamped s =
     (case digits_val 0 s of None \<Rightarrow> 0 | Some n \<Rightarrow> if s = [] then 0 else min n max_int64)"

definition splitPIDPrefix :: "string \<Rightarrow> int \<times> string" where
  "splitPIDPrefix line0 =
     (let line = trim_space line0
      in case FindFirst pidRegex line of
           Some m \<Rightarrow> (atoi_clamped (submatch line m 1), trim_space (drop (rf_end m) line))
         | None \<Rightarrow>
             (case str_fields line of
                f # g # fs \<Rightarrow>
                  (case atoi f of
                     Some pid \<Rightarrow> (pid, trim_space (drop (length f) line))
                   | None \<Rightarrow> (0, line))
              | _ \<Rightarrow> (0, line)))"

definition split_time :: "string \<Rightarrow> int option \<times> string" where
  "split_time line =
     (case FindFirst timeRegex line of
        None \<Rightarrow> (None, line)
      | Some m \<Rightarrow>
          (let n = (\<lambda>i. atoi_clamped (submatch line m i))
           in (Some (((n 1 * 60 + n 2) * 60 + n 3) * 1000000000 + n 4 * 1000),
               trim_space (drop (rf_end m) line))))"

definition parseTrailingDuration :: "string \<Rightarrow> string \<times> int" where
  "parseTrailingDuration s =
     (case FindFirst durationRegex s of
        None \<Rightarrow> (s, 0)
      | Some m \<Rightarrow>
          (let frac = submatch s m 2;
               frac = take 9 (frac @ replicate (9 - length frac) CHR ''0'')
           in (trim_space (rewriteMatches s durationRegex (\<lambda>_. [])),
               wrap64 (wrap64 (atoi_clamped (submatch s m 1) * 1000000000) + atoi_clamped frac))))"

text \<open>
  The parenthesis that closes the arguments: depth of the open ones, whether within a quoted string
  and after a backslash in it.
\<close>

fun close_paren :: "nat \<Rightarrow> int \<Rightarrow> bool \<Rightarrow> bool \<Rightarrow> string \<Rightarrow> nat option" where
  "close_paren i depth inQuote escaped [] = None"
| "close_paren i depth inQuote escaped (c # cs) =
     (if escaped then close_paren (i + 1) depth inQuote False cs
      else if c = CHR 0x5C \<and> inQuote then close_paren (i + 1) depth inQuote True cs
      else if c = CHR 0x22 then close_paren (i + 1) depth (\<not> inQuote) False cs
      else if c = CHR ''('' \<and> \<not> inQuote then close_paren (i + 1) (depth + 1) inQuote False cs
      else if c = CHR '')'' \<and> \<not> inQuote
      then (if depth - 1 = 0 then Some i else close_paren (i + 1) (depth - 1) inQuote False cs)
      else close_paren (i + 1) depth inQuote False cs)"

text \<open>The arguments, split at the commas outside brackets and strings; \<open>cur\<close> is the current one, reversed.\<close>

fun arg_pieces :: "int \<Rightarrow> bool \<Rightarrow> bool \<Rightarrow> string \<Rightarrow> string \<Rightarrow> string list" where
  "arg_pieces depth inQuote escaped cur [] = (if cur = [] then [] else [rev cur])"
| "arg_pieces depth inQuote escaped cur (c # cs) =
     (if escaped then arg_pieces depth inQuote False (c # cur) cs
      else if c = CHR 0x5C \<and> inQuote then arg_pieces depth inQuote True (c # cur) cs
      else if c = CHR 0x22 then arg_pieces depth (\<not> inQuote) False (c # cur) cs
      else if c \<in> set ''{[('' \<and> \<not> inQuote then arg_pieces (depth + 1) inQuote False (c # cur) cs
      else if c \<in> set ''}])'' \<and> \<not> inQuote then arg_pieces (depth - 1) inQuote False (c # cur) cs
      else if c = CHR '','' \<and> \<not> inQuote \<and> depth = 0
      then rev cur # arg_pieces depth inQuote False [] cs
      else arg_pieces depth inQuote False (c # cur) cs)"

definition parseArgs :: "string \<Rightarrow> string list" where
  "parseArgs s =
     (let s = trim_suffix (trim_prefix s ''('') '')''
      in if s = [] then [] else map trim_space (arg_pieces 0 False False [] s))"

text \<open>The result, the error and the duration in what follows the arguments; \<open>None\<close> without a result.\<close>

definition parse_result :: "string \<Rightarrow> (string \<times> string \<times> int) option" where
  "parse_result rest =
     (let after = trim_space rest
      in if \<not> has_prefix after ''='' then None
         else let (resultPart, duration) = parseTrailingDuration (trim_space (drop 1 after))
              in if has_prefix resultPart ''-1''
                 then (case str_fields resultPart of
                         p # q # ps \<Rightarrow> Some (p, q, duration)
                       | _ \<Rightarrow> Some ([], [], duration))
                 else Some (takeWhile (\<lambda>c. c \<noteq> CHR '' '' \<and> c \<noteq> CHR ''<'') resultPart, [], duration))"

section \<open>Lines\<close>

text \<open>The call in what follows the process and the time.\<close>

definition parse_call :: "int \<Rightarrow> int option \<Rightarrow> string \<Rightarrow> string + trace_event" where
  "parse_call pid ts line =
     (case index_of ''('' line of
        None \<Rightarrow> Inl ''no syscall found''
      | Some openParen \<Rightarrow>
          (let syscall = take openParen line; rest = drop openParen line;
               ev = (\<lambda>args result errStr duration.
                      \<lparr>te_Timestamp = ts, te_PID = pid, te_Syscall = syscall, te_Args = parseArgs args,
                       te_Result = result, te_Error = errStr, te_Duration = duration\<rparr>)
           in case close_paren 0 0 False False rest of
                None \<Rightarrow> Inr (ev rest [] [] 0)
              | Some closeParen \<Rightarrow>
                  (case parse_result (drop (closeParen + 1) rest) of
                     None \<Rightarrow> Inr (ev rest [] [] 0)
                   | Some (result, errStr, duration) \<Rightarrow>
                       Inr (ev (take (closeParen + 1) rest) result errStr duration))))"

definition ParseLine :: "string \<Rightarrow> string + trace_event" where
  "ParseLine line0 =
     (let line = trim_space line0
      in if line = [] then Inl ''empty line''
         else if has_prefix line ''+++'' \<or> has_prefix line ''---'' then Inl ''metadata line''
         else if contains line ''<unfinished ...>'' \<or> contains line ''<... '' then Inl ''unfinished/resumed line''
         else let (pid, rest) = splitPIDPrefix line; (ts, call) = split_time rest
              in parse_call pid ts call)"

text \<open>A call that was not finished: its process and name, and the line without the mark.\<close>

type_synonym pending_syscall = "int \<times> string"

definition parseUnfinishedTraceLine :: "string \<Rightarrow> (pending_syscall \<times> string) option" where
  "parseUnfinishedTraceLine line =
     (let raw = trim_space line
      in if \<not> contains raw ''<unfinished ...>'' then None
         else let (pid, rest) = splitPIDPrefix raw; rest = snd (split_time rest)
              in case index_of ''('' rest of
                   None \<Rightarrow> None
                 | Some openParen \<Rightarrow>
                     Some ((pid, take openParen rest), trim_space (replace_first raw ''<unfinished ...>'' [])))"

definition mergeResumedTraceLine ::
  "string \<Rightarrow> (pending_syscall \<times> string) list \<Rightarrow> (string \<times> pending_syscall) option" where
  "mergeResumedTraceLine line pending =
     (let (pid, rest) = splitPIDPrefix (trim_space line); rest = snd (split_time rest)
      in case FindFirst resumedRegex rest of
           None \<Rightarrow> None
         | Some m \<Rightarrow>
             (let key = (pid, submatch rest m 1)
              in case map_of pending key of
                   None \<Rightarrow> None
                 | Some partial \<Rightarrow> Some (trim_space (partial @ '' '' @ trim_space (submatch rest m 2)), key)))"

section \<open>Traces\<close>

definition maxTraceEvents :: nat where "maxTraceEvents = 10000"
definition maxTraceFileBytes :: nat where "maxTraceFileBytes = 50 * 1024 * 1024"

text \<open>What the reader of a trace writes to the result.\<close>

record trace_read =
  tr_Events :: "trace_event list"
  tr_Partial :: bool
  tr_SkippedEvents :: nat
  tr_Notes :: "string list"

definition skippedNote :: string where
  "skippedNote = ''skipped unfinished/resumed syscall pair''"

text \<open>
  The loop over the lines; \<open>pending\<close> holds the calls not finished, each once, and \<open>noted\<close> says whether
  the note was made. What is left pending is counted at the end.
\<close>

definition end_of_trace :: "(pending_syscall \<times> string) list \<Rightarrow> bool \<Rightarrow> trace_read \<Rightarrow> trace_read" where
  "end_of_trace pending noted res =
     (if pending = [] then res
      else res\<lparr>tr_Partial := True, tr_SkippedEvents := tr_SkippedEvents res + length pending,
               tr_Notes := tr_Notes res @ (if noted then [] else [skippedNote])\<rparr>)"

definition add_line :: "string \<Rightarrow> trace_read \<Rightarrow> trace_read" where
  "add_line line res =
     (case ParseLine line of Inl e \<Rightarrow> res | Inr ev \<Rightarrow> res\<lparr>tr_Events := tr_Events res @ [ev]\<rparr>)"

fun read_lines ::
  "nat \<Rightarrow> string list \<Rightarrow> (pending_syscall \<times> string) list \<Rightarrow> bool \<Rightarrow> trace_read \<Rightarrow> trace_read" where
  "read_lines maxEvents [] pending noted res = end_of_trace pending noted res"
| "read_lines maxEvents (line # ls) pending noted res =
     (if length (tr_Events res) \<ge> maxEvents
      then end_of_trace pending noted
        (res\<lparr>tr_Partial := True,
            tr_Notes := tr_Notes res @
              [''reached max trace events ('' @ itoa (int maxEvents) @ ''); stopping parse'']\<rparr>)
      else if line = [] then read_lines maxEvents ls pending noted res
      else case parseUnfinishedTraceLine line of
             Some (key, partial) \<Rightarrow> read_lines maxEvents ls (AList.update key partial pending) noted res
           | None \<Rightarrow>
               if contains line ''<... ''
               then (case mergeResumedTraceLine line pending of
                       None \<Rightarrow>
                         read_lines maxEvents ls pending True
                           (res\<lparr>tr_Partial := True, tr_SkippedEvents := tr_SkippedEvents res + 1,
                               tr_Notes := tr_Notes res @ (if noted then [] else [skippedNote])\<rparr>)
                     | Some (merged, key) \<Rightarrow>
                         read_lines maxEvents ls (AList.delete key pending) noted (add_line merged res))
               else read_lines maxEvents ls pending noted (add_line line res))"

text \<open>The file is opened and its size and content read, or there is an error.\<close>

definition readTraceFile :: "nat \<Rightarrow> string + string \<Rightarrow> trace_read \<Rightarrow> string option \<times> trace_read" where
  "readTraceFile maxEvents file res =
     (case file of
        Inl err \<Rightarrow> (Some err, res)
      | Inr content \<Rightarrow>
          (let res = (if length content > maxTraceFileBytes
                      then res\<lparr>tr_Partial := True,
                               tr_Notes := tr_Notes res @ [''trace file exceeds '' @ itoa (int maxTraceFileBytes) @
                                 '' bytes; parsing partial data'']\<rparr>
                      else res);
               (ls, err) = scan_lines (1024 * 1024) (take maxTraceFileBytes content)
           in (err, read_lines maxEvents ls [] False res)))"

end
