(* ===== verification/Trace_Analyzer.thy ===== *)
theory Trace_Analyzer
  imports Trace_Parser Rules_Common
begin

text \<open>
  \<open>internal/trace/analyzer.go\<close>: the failed calls of a trace, sorted into classes, and the findings made
  of them. A map from keys to evidence is the association list of its entries; the maps that remember
  what was seen are lists.
\<close>

section \<open>Paths and addresses\<close>

definition maxEvidencePerFinding :: nat where "maxEvidencePerFinding = 20"

definition noisyPaths :: "string list" where
  "noisyPaths = [''/usr/share/locale'', ''/etc/ld.so.preload'', ''/usr/lib/locale'', ''/usr/lib/x86_64-linux-gnu'']"

definition isNoisyPath :: "string \<Rightarrow> bool" where
  "isNoisyPath path \<longleftrightarrow> (\<exists>p \<in> set noisyPaths. has_prefix path p)"

definition capEvidence :: "evidence list \<Rightarrow> evidence list" where
  "capEvidence evs =
     (if length evs \<le> maxEvidencePerFinding then evs
      else take maxEvidencePerFinding evs @
             [mk_ev ''trace_evidence_omitted''
                (itoa (int (length evs - maxEvidencePerFinding)) @ '' additional entries omitted'')])"

definition quoted_arg :: "string \<Rightarrow> bool" where
  "quoted_arg a \<longleftrightarrow> has_prefix a [CHR 0x22] \<and> has_suffix a [CHR 0x22]"

definition extractPath :: "string list \<Rightarrow> string" where
  "extractPath args = (case find quoted_arg args of Some a \<Rightarrow> trim_set [CHR 0x22] a | None \<Rightarrow> [])"

definition not_quote :: rx where "not_quote = RPlus (RCls (\<lambda>c. c \<noteq> CHR 0x22))"

definition inetAddrRegex :: rx where
  "inetAddrRegex = RSeqs [RStr (''inet_addr('' @ [CHR 0x22]), RCap 1 not_quote, RStr ([CHR 0x22] @ '')'')]"

definition htonsRegex :: rx where
  "htonsRegex = RSeqs [RStr ''sin_port=htons('', RCap 1 digits_rx, RChr CHR '')'']"

definition unixPathRegex :: rx where
  "unixPathRegex = RSeqs [RStr (''sun_path='' @ [CHR 0x22]), RCap 1 not_quote, RChr CHR 0x22]"

definition first_group :: "rx \<Rightarrow> string \<Rightarrow> string option" where
  "first_group r a = map_option (\<lambda>m. submatch a m 1) (FindFirst r a)"

text \<open>One argument of the loop of \<open>extractHostPort\<close>, on host, port and raw address so far.\<close>

definition host_port_arg :: "string \<Rightarrow> string \<times> string \<times> string \<Rightarrow> string \<times> string \<times> string" where
  "host_port_arg a acc =
     (case acc of (host, port, raw) \<Rightarrow>
        (let raw = (if contains a ''sa_family='' \<or> contains a ''sin_port'' \<or> contains a ''sun_path'' then a else raw);
             host = (case first_group inetAddrRegex a of Some h \<Rightarrow> h | None \<Rightarrow> host);
             port = (case first_group htonsRegex a of Some p \<Rightarrow> p | None \<Rightarrow> port)
         in case first_group unixPathRegex a of
              Some u \<Rightarrow> (u, ''unix'', raw)
            | None \<Rightarrow> (host, port, raw)))"

definition extractHostPort :: "string list \<Rightarrow> string \<times> string \<times> string" where
  "extractHostPort args = fold host_port_arg args ([], [], [])"

section \<open>Name resolution\<close>

definition isDNSErrno :: "string \<Rightarrow> bool" where
  "isDNSErrno e \<longleftrightarrow>
     e \<in> {''ENOENT'', ''EACCES'', ''EPERM'', ''ECONNREFUSED'', ''ENETUNREACH'', ''ETIMEDOUT'', ''EHOSTUNREACH''}"

definition isDNSSocketErrno :: "string \<Rightarrow> bool" where
  "isDNSSocketErrno e \<longleftrightarrow> e \<in> {''ECONNREFUSED'', ''ENETUNREACH'', ''ETIMEDOUT'', ''EHOSTUNREACH''}"

definition isResolverPath :: "string \<Rightarrow> bool" where
  "isResolverPath p \<longleftrightarrow> p = ''/etc/resolv.conf'' \<or> p = ''/etc/nsswitch.conf''"

definition isResolverModule :: "string \<Rightarrow> bool" where
  "isResolverModule p =
     (let base = (case last_index_of ''/'' p of Some i \<Rightarrow> drop (i + 1) p | None \<Rightarrow> p)
      in has_prefix base ''libnss_dns.so'' \<or> has_prefix base ''libnss_resolve.so'')"

section \<open>The evidence of one event\<close>

datatype trace_class =
  FileNotFound | PermDenied | ConnRefused | ExecFailed | AddrInUse | DNSFailure

text \<open>
  What one event contributes: its class, the key under which it is filed, the key by which it counts
  as seen, and its evidence. \<open>collectDNSEvidence\<close> comes first and takes the event when it applies.
\<close>

type_synonym contribution = "trace_class \<times> string \<times> string \<times> evidence list"

definition collectDNSEvidence :: "trace_event \<Rightarrow> contribution option" where
  "collectDNSEvidence ev =
     (let err = te_Error ev; path = extractPath (te_Args ev)
      in if \<not> isDNSErrno err then None
         else if isResolverPath path \<or> isResolverModule path
         then Some (DNSFailure, path, path @ ''|'' @ err,
                    [mk_ev ''trace_dns_path'' path, mk_ev ''trace_errno'' err])
         else
           (case extractHostPort (te_Args ev) of (host, port, raw) \<Rightarrow>
              if port = ''53'' \<and> isDNSSocketErrno err
              then let key = host @ '':'' @ port @ ''|'' @ err;
                       key = (if key = '':53|'' @ err then raw @ ''|'' @ err else key)
                   in Some (DNSFailure, key, key,
                        (if host \<noteq> [] then [mk_ev ''trace_dns_host'' host] else []) @
                        [mk_ev ''trace_dns_port'' port, mk_ev ''trace_errno'' err])
              else None))"

definition address_key :: "string \<Rightarrow> string \<Rightarrow> string \<Rightarrow> string" where
  "address_key host port raw = (if host = [] \<and> port = [] then raw else host @ '':'' @ port)"

definition file_event :: "trace_event \<Rightarrow> contribution option" where
  "file_event ev =
     (let path = extractPath (te_Args ev)
      in if te_Syscall ev = ''execve'' \<or> te_Syscall ev = ''execveat''
         then (if path \<noteq> []
               then Some (ExecFailed, path, path @ ''|'' @ te_Error ev,
                          [mk_ev ''trace_exec_path'' path, mk_ev ''trace_errno'' (te_Error ev)])
               else None)
         else if path \<noteq> [] \<and> \<not> isNoisyPath path
         then Some (FileNotFound, path, path, [mk_ev ''trace_open_path'' path])
         else None)"

definition permission_event :: "trace_event \<Rightarrow> contribution option" where
  "permission_event ev =
     (let path = extractPath (te_Args ev)
      in if path \<noteq> []
         then Some (PermDenied, path, path @ ''|'' @ te_Error ev,
                    [mk_ev ''trace_open_path'' path, mk_ev ''trace_errno'' (te_Error ev)])
         else None)"

definition refused_event :: "trace_event \<Rightarrow> contribution option" where
  "refused_event ev =
     (case extractHostPort (te_Args ev) of (host, port, raw) \<Rightarrow>
        let key = address_key host port raw
        in if key \<noteq> []
           then Some (ConnRefused, key, key @ ''|ECONNREFUSED'',
                  (if host = [] \<and> port = [] then [mk_ev ''trace_connect_addr'' raw]
                   else [mk_ev ''trace_connect_host'' host, mk_ev ''trace_connect_port'' port]) @
                  [mk_ev ''trace_errno'' ''ECONNREFUSED''])
           else None)"

definition bind_event :: "trace_event \<Rightarrow> contribution option" where
  "bind_event ev =
     (case extractHostPort (te_Args ev) of (host, port, raw) \<Rightarrow>
        let key = address_key host port raw
        in if key \<noteq> []
           then Some (AddrInUse, key, key @ ''|EADDRINUSE'',
                  (if host \<noteq> [] then [mk_ev ''trace_bind_host'' host] else []) @
                  (if port \<noteq> [] then [mk_ev ''trace_bind_port'' port] else []) @
                  (if host = [] \<and> port = [] then [mk_ev ''trace_bind_addr'' raw] else []) @
                  [mk_ev ''trace_errno'' ''EADDRINUSE''])
           else None)"

definition contribution_of :: "trace_event \<Rightarrow> contribution option" where
  "contribution_of ev =
     (if te_Result ev \<noteq> ''-1'' \<or> te_Error ev = [] then None
      else case collectDNSEvidence ev of
             Some c \<Rightarrow> Some c
           | None \<Rightarrow>
               if te_Error ev = ''ENOENT'' then file_event ev
               else if te_Error ev = ''EACCES'' \<or> te_Error ev = ''EPERM'' then permission_event ev
               else if te_Error ev = ''ECONNREFUSED'' then refused_event ev
               else if te_Error ev = ''EADDRINUSE'' then bind_event ev
               else None)"

section \<open>Collecting\<close>

text \<open>The two maps of a class: what was seen, and the evidence under each key.\<close>

record tally =
  ta_Seen :: "string list"
  ta_Found :: "(string \<times> evidence list) list"

definition empty_tally :: tally where "empty_tally = \<lparr>ta_Seen = [], ta_Found = []\<rparr>"

definition file_under :: "string \<Rightarrow> evidence list \<Rightarrow> (string \<times> evidence list) list \<Rightarrow> (string \<times> evidence list) list" where
  "file_under k evs m = AList.update k (case map_of m k of Some old \<Rightarrow> old @ evs | None \<Rightarrow> evs) m"

definition note_seen :: "string \<times> string \<times> evidence list \<Rightarrow> tally \<Rightarrow> tally" where
  "note_seen c t =
     (case c of (k, seen, evs) \<Rightarrow>
        if seen \<in> set (ta_Seen t) then t
        else \<lparr>ta_Seen = seen # ta_Seen t, ta_Found = file_under k evs (ta_Found t)\<rparr>)"

definition analyze_event :: "trace_event \<Rightarrow> (trace_class \<Rightarrow> tally) \<Rightarrow> trace_class \<Rightarrow> tally" where
  "analyze_event ev s =
     (case contribution_of ev of
        None \<Rightarrow> s
      | Some (c, k) \<Rightarrow> s(c := note_seen k (s c)))"

text \<open>The findings, in the order in which they are built, those of empty classes left out.\<close>

definition class_order :: "trace_class list" where
  "class_order = [FileNotFound, PermDenied, ConnRefused, ExecFailed, AddrInUse, DNSFailure]"

definition unix_key :: "string \<Rightarrow> bool" where
  "unix_key k \<longleftrightarrow> has_suffix k '':unix'' \<or> k = ''unix''"

definition connect_hints :: "string list \<Rightarrow> string list" where
  "connect_hints keys =
     (if list_ex unix_key keys then [''verify-unix-socket'']
      else [''start-service'', ''verify-port'', ''verify-service-listening''])"

fun class_finding :: "trace_class \<Rightarrow> string list \<Rightarrow> finding" where
  "class_finding FileNotFound keys =
     zero_finding\<lparr>f_ID := ''F-TRACE-FILE-001'', f_Title := ''File not found during trace'',
       f_Severity := SeverityLow, f_Confidence := 5 / 10,
       f_Symptom := ''Process attempted to open files that do not exist'',
       f_LikelyCauses := [''Wrong working directory'', ''Missing config file'', ''Hardcoded path''],
       f_FixHints := [''check-wd'', ''verify-config-path'']\<rparr>"
| "class_finding PermDenied keys =
     zero_finding\<lparr>f_ID := ''F-TRACE-FILE-002'', f_Title := ''Permission denied during trace'',
       f_Severity := SeverityMedium, f_Confidence := 7 / 10,
       f_Symptom := ''Process was denied access to a file or directory'',
       f_LikelyCauses := [''Insufficient permissions on parent directory'', ''Wrong user''],
       f_FixHints := [''check-parent-permissions'', ''check-file-owner'']\<rparr>"
| "class_finding ConnRefused keys =
     zero_finding\<lparr>f_ID := ''F-TRACE-NET-001'', f_Title := ''Connection refused during trace'',
       f_Severity := SeverityHigh, f_Confidence := 8 / 10,
       f_Symptom := ''Process attempted to connect to a service that refused the connection'',
       f_LikelyCauses := [''Service not running'', ''Wrong port/host'', ''Firewall''],
       f_FixHints := connect_hints keys\<rparr>"
| "class_finding ExecFailed keys =
     zero_finding\<lparr>f_ID := ''F-TRACE-EXEC-001'', f_Title := ''Executable not found during trace'',
       f_Severity := SeverityMedium, f_Confidence := 75 / 100,
       f_Symptom := ''Process attempted to execute a binary that was not found'',
       f_LikelyCauses := [''Wrong PATH'', ''Missing runtime binary'', ''Incorrect shebang or toolchain path''],
       f_FixHints := [''verify-executable-path'', ''check-path'', ''install-runtime'']\<rparr>"
| "class_finding AddrInUse keys =
     zero_finding\<lparr>f_ID := ''F-TRACE-NET-002'', f_Title := ''Address already in use during trace'',
       f_Severity := SeverityHigh, f_Confidence := 85 / 100,
       f_Symptom := ''Process attempted to bind a port or socket that is already in use'',
       f_LikelyCauses := [''Another process is already listening'', ''Port conflict'', ''Stale local service''],
       f_FixHints := [''check-listening-process'', ''change-port'', ''stop-conflicting-service'']\<rparr>"
| "class_finding DNSFailure keys =
     zero_finding\<lparr>f_ID := ''F-TRACE-DNS-001'', f_Title := ''DNS resolver dependency failed during trace'',
       f_Severity := SeverityMedium, f_Confidence := 75 / 100,
       f_Symptom := ''Process hit resolver configuration, NSS, or DNS socket failures'',
       f_LikelyCauses := [''Missing resolver configuration'', ''Blocked DNS server'', ''NSS resolver module unavailable''],
       f_FixHints := [''verify-resolver-config'', ''check-dns-connectivity'', ''check-nss-config'']\<rparr>"

definition tally_evidence :: "tally \<Rightarrow> evidence list" where
  "tally_evidence t = concat (map (\<lambda>k. the (map_of (ta_Found t) k)) (sortedKeys (ta_Found t)))"

definition build_finding :: "(trace_class \<Rightarrow> tally) \<Rightarrow> trace_class \<Rightarrow> finding list" where
  "build_finding s c =
     (if ta_Found (s c) = [] then []
      else [(class_finding c (sortedKeys (ta_Found (s c))))\<lparr>f_Evidence := capEvidence (tally_evidence (s c))\<rparr>])"

definition Analyze :: "trace_event list \<Rightarrow> finding list" where
  "Analyze events =
     concat (map (build_finding (fold analyze_event events (\<lambda>_. empty_tally))) class_order)"

section \<open>The events of the kernel probes\<close>

section \<open>What the findings say\<close>

text \<open>
  The contributions of the events to a class, those that repeat an earlier one left out, and the
  evidence they make together: by sorted keys, in order under each key.
\<close>

definition of_class :: "trace_class \<Rightarrow> contribution option \<Rightarrow> (string \<times> string \<times> evidence list) list" where
  "of_class c x = (case x of Some (d, k) \<Rightarrow> if d = c then [k] else [] | None \<Rightarrow> [])"

definition contributions :: "trace_class \<Rightarrow> trace_event list \<Rightarrow> (string \<times> string \<times> evidence list) list" where
  "contributions c events = concat (map (of_class c \<circ> contribution_of) events)"

fun firsts :: "string list \<Rightarrow> (string \<times> string \<times> evidence list) list \<Rightarrow> (string \<times> string \<times> evidence list) list" where
  "firsts seen [] = []"
| "firsts seen (x # xs) =
     (if fst (snd x) \<in> set seen then firsts seen xs else x # firsts (fst (snd x) # seen) xs)"

definition class_keys :: "trace_class \<Rightarrow> trace_event list \<Rightarrow> string list" where
  "class_keys c events = sort_strings (remdups (map fst (firsts [] (contributions c events))))"

definition evidence_under :: "string \<Rightarrow> (string \<times> string \<times> evidence list) list \<Rightarrow> evidence list" where
  "evidence_under k xs = concat (map (snd \<circ> snd) (filter (\<lambda>x. fst x = k) xs))"

definition class_evidence :: "trace_class \<Rightarrow> trace_event list \<Rightarrow> evidence list" where
  "class_evidence c events =
     concat (map (\<lambda>k. evidence_under k (firsts [] (contributions c events))) (class_keys c events))"

lemma fold_analyze: "fold analyze_event events s c = fold note_seen (contributions c events) (s c)"
proof (induction events arbitrary: s)
  case (Cons ev events)
  have "analyze_event ev s c = fold note_seen (of_class c (contribution_of ev)) (s c)"
    by (auto simp: analyze_event_def of_class_def split: option.splits)
  then show ?case by (simp add: Cons contributions_def)
qed (simp add: contributions_def)

definition filed :: "(string \<times> evidence list) list \<Rightarrow> string \<Rightarrow> evidence list" where
  "filed m k = (case map_of m k of Some e \<Rightarrow> e | None \<Rightarrow> [])"

lemma filed_under: "filed (file_under k evs m) j = (if j = k then filed m k @ evs else filed m j)"
  by (auto simp: filed_def file_under_def update_conv split: option.splits)

lemma evidence_under_Cons:
  "evidence_under k (x # xs) = (if fst x = k then snd (snd x) @ evidence_under k xs else evidence_under k xs)"
  by (simp add: evidence_under_def)

lemma fold_note_found:
  "filed (ta_Found (fold note_seen xs t)) k = filed (ta_Found t) k @ evidence_under k (firsts (ta_Seen t) xs)"
proof (induction xs arbitrary: t)
  case (Cons x xs)
  obtain a b e where x: "x = (a, b, e)" by (metis prod_cases3)
  show ?case using Cons [of "note_seen x t"] by (simp add: x note_seen_def filed_under evidence_under_Cons)
qed (simp add: evidence_under_def)

lemma file_under_keys: "set (map fst (file_under a e m)) = insert a (set (map fst m))"
  by (simp add: file_under_def dom_update)

lemma fold_note_keys:
  "distinct (map fst (ta_Found t)) \<Longrightarrow>
     distinct (map fst (ta_Found (fold note_seen xs t))) \<and>
     set (map fst (ta_Found (fold note_seen xs t))) = set (map fst (ta_Found t)) \<union> fst ` set (firsts (ta_Seen t) xs)"
proof (induction xs arbitrary: t)
  case (Cons x xs)
  obtain a b e where x: "x = (a, b, e)" by (metis prod_cases3)
  show ?case
  proof (cases "b \<in> set (ta_Seen t)")
    case True
    then have "note_seen x t = t" by (simp add: note_seen_def x)
    then show ?thesis using Cons.IH [OF Cons.prems] True by (simp add: x)
  next
    case False
    let ?t = "\<lparr>ta_Seen = b # ta_Seen t, ta_Found = file_under a e (ta_Found t)\<rparr>"
    have "distinct (map fst (ta_Found ?t))" using Cons.prems by (simp add: file_under_def distinct_update)
    note ih = Cons.IH [OF this]
    have "note_seen x t = ?t" using False by (simp add: note_seen_def x)
    then show ?thesis using ih file_under_keys [of a e "ta_Found t"] False by (simp add: x)
  qed
qed simp

lemma firsts_Nil_iff: "firsts [] xs = [] \<longleftrightarrow> xs = []"
  by (cases xs) auto

lemma sort_strings_remdups_eq: "distinct xs \<Longrightarrow> set xs = set ys \<Longrightarrow> sort_strings xs = sort_strings (remdups ys)"
  by (rule sort_strings_distinct_eq) simp_all

lemma set_firsts: "set (firsts seen xs) \<subseteq> set xs"
  by (induction xs arbitrary: seen) (auto split: if_splits)

lemma Analyze_eq:
  "Analyze events =
     concat (map (\<lambda>c. if contributions c events = [] then []
                      else [(class_finding c (class_keys c events))
                              \<lparr>f_Evidence := capEvidence (class_evidence c events)\<rparr>]) class_order)"
proof -
  have "build_finding (fold analyze_event events (\<lambda>_. empty_tally)) c =
      (if contributions c events = [] then []
       else [(class_finding c (class_keys c events))\<lparr>f_Evidence := capEvidence (class_evidence c events)\<rparr>])" for c
  proof -
    let ?t = "fold note_seen (contributions c events) empty_tally"
    have t: "fold analyze_event events (\<lambda>_. empty_tally) c = ?t" by (simp add: fold_analyze)
    have keys: "distinct (map fst (ta_Found ?t))"
      "set (map fst (ta_Found ?t)) = set (map fst (firsts [] (contributions c events)))"
      using fold_note_keys [of empty_tally "contributions c events"] by (simp_all add: empty_tally_def)
    have sorted: "sortedKeys (ta_Found ?t) = class_keys c events"
      unfolding sortedKeys_def class_keys_def by (rule sort_strings_remdups_eq [OF keys])
    have "the (map_of (ta_Found ?t) k) = evidence_under k (firsts [] (contributions c events))"
      if "k \<in> set (sortedKeys (ta_Found ?t))" for k
      using that fold_note_found [of "contributions c events" empty_tally k]
      by (auto simp: sortedKeys_def filed_def empty_tally_def map_of_eq_None_iff split: option.splits)
    then have ev: "tally_evidence ?t = class_evidence c events"
      unfolding tally_evidence_def class_evidence_def sorted by (simp cong: map_cong)
    have "ta_Found ?t = [] \<longleftrightarrow> contributions c events = []"
      using keys(2) firsts_Nil_iff [of "contributions c events"] by (metis list.map_disc_iff set_empty)
    then show ?thesis by (simp add: build_finding_def t sorted ev)
  qed
  then show ?thesis unfolding Analyze_def by (intro arg_cong [of _ _ concat] map_cong refl)
qed

text \<open>Evidence is never invented and never runs away: every entry comes from a failed call of the
  trace, except the last one of a list that was cut, and no finding has more than 21 entries.\<close>

theorem Analyze_evidence:
  assumes "f \<in> set (Analyze events)" "e \<in> set (f_Evidence f)"
  shows "length (f_Evidence f) \<le> 21 \<and>
         (ev_Source e = ''trace_evidence_omitted'' \<or>
          (\<exists>ev \<in> set events. \<exists>c k s evs.
             contribution_of ev = Some (c, k, s, evs) \<and> e \<in> set evs \<and>
             te_Result ev = ''-1'' \<and> te_Error ev \<noteq> []))"
proof -
  obtain c where f: "f = (class_finding c (class_keys c events))\<lparr>f_Evidence := capEvidence (class_evidence c events)\<rparr>"
    using assms(1) by (auto simp: Analyze_eq split: if_splits)
  have len: "length (f_Evidence f) \<le> 21"
    by (simp add: f capEvidence_def maxEvidencePerFinding_def)
  have "ev_Source e = ''trace_evidence_omitted'' \<or> e \<in> set (class_evidence c events)"
    using assms(2) by (auto simp: f capEvidence_def dest: in_set_takeD split: if_splits)
  then show ?thesis
  proof
    assume "e \<in> set (class_evidence c events)"
    then obtain k s evs where x: "(k, s, evs) \<in> set (firsts [] (contributions c events))" "e \<in> set evs"
      by (auto simp: class_evidence_def evidence_under_def)
    then have "(k, s, evs) \<in> set (contributions c events)" using set_firsts by blast
    then obtain ev where ev: "ev \<in> set events" "contribution_of ev = Some (c, k, s, evs)"
      by (auto simp: contributions_def of_class_def split: option.splits if_splits)
    then have "te_Result ev = ''-1'' \<and> te_Error ev \<noteq> []" by (auto simp: contribution_of_def split: if_splits)
    then show ?thesis using len ev x(2) by blast
  qed (use len in simp)
qed

section \<open>What a trace reports\<close>

text \<open>
  What a failed call is evidence of, said without the order of the analyzer's tests: its class, the path or
  address it is listed under, the mark by which a repetition is known, and its evidence. A call that a
  name lookup makes counts for name resolution only.
\<close>

definition failed_with :: "trace_event \<Rightarrow> string \<Rightarrow> bool" where
  "failed_with ev e \<longleftrightarrow> te_Result ev = ''-1'' \<and> te_Error ev = e \<and> e \<noteq> []"

definition resolver_file :: "trace_event \<Rightarrow> string \<Rightarrow> bool" where
  "resolver_file ev path \<longleftrightarrow> extractPath (te_Args ev) = path \<and>
     te_Error ev \<in> {''ENOENT'', ''EACCES'', ''EPERM'', ''ECONNREFUSED'', ''ENETUNREACH'', ''ETIMEDOUT'', ''EHOSTUNREACH''} \<and>
     (path \<in> {''/etc/resolv.conf'', ''/etc/nsswitch.conf''} \<or> isResolverModule path)"

definition resolver_socket :: "trace_event \<Rightarrow> string \<Rightarrow> string \<Rightarrow> bool" where
  "resolver_socket ev host raw \<longleftrightarrow> extractHostPort (te_Args ev) = (host, ''53'', raw) \<and>
     te_Error ev \<in> {''ECONNREFUSED'', ''ENETUNREACH'', ''ETIMEDOUT'', ''EHOSTUNREACH''} \<and>
     \<not> resolver_file ev (extractPath (te_Args ev))"

definition other_failure :: "trace_event \<Rightarrow> string \<Rightarrow> bool" where
  "other_failure ev e \<longleftrightarrow> failed_with ev e \<and> (\<nexists>path. resolver_file ev path) \<and> (\<nexists>host raw. resolver_socket ev host raw)"

definition under_noisy_dir :: "string \<Rightarrow> bool" where
  "under_noisy_dir path \<longleftrightarrow>
     has_prefix path ''/usr/share/locale'' \<or> has_prefix path ''/etc/ld.so.preload'' \<or>
     has_prefix path ''/usr/lib/locale'' \<or> has_prefix path ''/usr/lib/x86_64-linux-gnu''"

inductive reports :: "trace_event \<Rightarrow> trace_class \<Rightarrow> string \<Rightarrow> string \<Rightarrow> evidence list \<Rightarrow> bool" where
  Resolver_file: "failed_with ev e \<Longrightarrow> resolver_file ev path \<Longrightarrow>
    reports ev DNSFailure path (path @ ''|'' @ e) [mk_ev ''trace_dns_path'' path, mk_ev ''trace_errno'' e]"
| Resolver_address: "failed_with ev e \<Longrightarrow> resolver_socket ev host raw \<Longrightarrow> host \<noteq> [] \<Longrightarrow> key = host @ '':53|'' @ e \<Longrightarrow>
    reports ev DNSFailure key key [mk_ev ''trace_dns_host'' host, mk_ev ''trace_dns_port'' ''53'', mk_ev ''trace_errno'' e]"
| Resolver_raw: "failed_with ev e \<Longrightarrow> resolver_socket ev [] raw \<Longrightarrow> key = raw @ ''|'' @ e \<Longrightarrow>
    reports ev DNSFailure key key [mk_ev ''trace_dns_port'' ''53'', mk_ev ''trace_errno'' e]"
| Exec: "other_failure ev ''ENOENT'' \<Longrightarrow> te_Syscall ev \<in> {''execve'', ''execveat''} \<Longrightarrow>
    extractPath (te_Args ev) = path \<Longrightarrow> path \<noteq> [] \<Longrightarrow>
    reports ev ExecFailed path (path @ ''|ENOENT'') [mk_ev ''trace_exec_path'' path, mk_ev ''trace_errno'' ''ENOENT'']"
| Missing: "other_failure ev ''ENOENT'' \<Longrightarrow> te_Syscall ev \<notin> {''execve'', ''execveat''} \<Longrightarrow>
    extractPath (te_Args ev) = path \<Longrightarrow> path \<noteq> [] \<Longrightarrow> \<not> under_noisy_dir path \<Longrightarrow>
    reports ev FileNotFound path path [mk_ev ''trace_open_path'' path]"
| Denied: "other_failure ev e \<Longrightarrow> e \<in> {''EACCES'', ''EPERM''} \<Longrightarrow> extractPath (te_Args ev) = path \<Longrightarrow> path \<noteq> [] \<Longrightarrow>
    reports ev PermDenied path (path @ ''|'' @ e) [mk_ev ''trace_open_path'' path, mk_ev ''trace_errno'' e]"
| Refused: "other_failure ev ''ECONNREFUSED'' \<Longrightarrow> extractHostPort (te_Args ev) = (host, port, raw) \<Longrightarrow>
    host \<noteq> [] \<or> port \<noteq> [] \<Longrightarrow> key = host @ '':'' @ port \<Longrightarrow>
    reports ev ConnRefused key (key @ ''|ECONNREFUSED'')
      [mk_ev ''trace_connect_host'' host, mk_ev ''trace_connect_port'' port, mk_ev ''trace_errno'' ''ECONNREFUSED'']"
| Refused_raw: "other_failure ev ''ECONNREFUSED'' \<Longrightarrow> extractHostPort (te_Args ev) = ([], [], raw) \<Longrightarrow> raw \<noteq> [] \<Longrightarrow>
    reports ev ConnRefused raw (raw @ ''|ECONNREFUSED'')
      [mk_ev ''trace_connect_addr'' raw, mk_ev ''trace_errno'' ''ECONNREFUSED'']"
| In_use: "other_failure ev ''EADDRINUSE'' \<Longrightarrow> extractHostPort (te_Args ev) = (host, port, raw) \<Longrightarrow>
    host \<noteq> [] \<or> port \<noteq> [] \<Longrightarrow> key = host @ '':'' @ port \<Longrightarrow>
    reports ev AddrInUse key (key @ ''|EADDRINUSE'')
      ((if host = [] then [] else [mk_ev ''trace_bind_host'' host]) @
       (if port = [] then [] else [mk_ev ''trace_bind_port'' port]) @ [mk_ev ''trace_errno'' ''EADDRINUSE''])"
| In_use_raw: "other_failure ev ''EADDRINUSE'' \<Longrightarrow> extractHostPort (te_Args ev) = ([], [], raw) \<Longrightarrow> raw \<noteq> [] \<Longrightarrow>
    reports ev AddrInUse raw (raw @ ''|EADDRINUSE'')
      [mk_ev ''trace_bind_addr'' raw, mk_ev ''trace_errno'' ''EADDRINUSE'']"

lemma dns_file_iff: "isDNSErrno (te_Error ev) \<and> (isResolverPath p \<or> isResolverModule p) \<and> p = extractPath (te_Args ev) \<longleftrightarrow>
    resolver_file ev p"
  by (auto simp: resolver_file_def isDNSErrno_def isResolverPath_def)

lemma dns_errno: "isDNSSocketErrno e \<Longrightarrow> isDNSErrno e"
  by (auto simp: isDNSSocketErrno_def isDNSErrno_def)

lemma dns_socket_iff: "resolver_socket ev host raw \<longleftrightarrow>
    extractHostPort (te_Args ev) = (host, ''53'', raw) \<and> isDNSSocketErrno (te_Error ev) \<and>
    \<not> resolver_file ev (extractPath (te_Args ev))"
  by (simp add: resolver_socket_def isDNSSocketErrno_def)

lemma resolver_file_path: "resolver_file ev p \<Longrightarrow> p = extractPath (te_Args ev)"
  by (simp add: resolver_file_def)

lemma collectDNS_file:
  assumes "resolver_file ev p"
  shows "collectDNSEvidence ev = Some (DNSFailure, p, p @ ''|'' @ te_Error ev,
    [mk_ev ''trace_dns_path'' p, mk_ev ''trace_errno'' (te_Error ev)])"
  using assms unfolding dns_file_iff [symmetric] by (auto simp: collectDNSEvidence_def Let_def)

lemma collectDNS_socket:
  assumes "resolver_socket ev host raw"
  shows "collectDNSEvidence ev =
    (let key = (if host = [] then raw @ ''|'' @ te_Error ev else host @ '':53|'' @ te_Error ev)
     in Some (DNSFailure, key, key, (if host = [] then [] else [mk_ev ''trace_dns_host'' host]) @
          [mk_ev ''trace_dns_port'' ''53'', mk_ev ''trace_errno'' (te_Error ev)]))"
proof -
  have s: "extractHostPort (te_Args ev) = (host, ''53'', raw)" "isDNSSocketErrno (te_Error ev)"
    and f: "\<not> (isResolverPath (extractPath (te_Args ev)) \<or> isResolverModule (extractPath (te_Args ev)))"
    using assms dns_errno dns_file_iff [of ev "extractPath (te_Args ev)"] unfolding dns_socket_iff by blast+
  have "(host @ '':53|'' @ te_Error ev = '':53|'' @ te_Error ev) = (host = [])" by simp
  then show ?thesis using s f dns_errno [OF s(2)] by (simp add: collectDNSEvidence_def Let_def)
qed

lemma collectDNS_none:
  assumes "\<nexists>p. resolver_file ev p" "\<nexists>h r. resolver_socket ev h r"
  shows "collectDNSEvidence ev = None"
proof -
  have f: "\<not> (isDNSErrno (te_Error ev) \<and>
      (isResolverPath (extractPath (te_Args ev)) \<or> isResolverModule (extractPath (te_Args ev))))"
    using assms(1) dns_file_iff [of ev "extractPath (te_Args ev)"] by blast
  obtain h p r where hp: "extractHostPort (te_Args ev) = (h, p, r)" by (metis prod_cases3)
  have "\<not> (p = ''53'' \<and> isDNSSocketErrno (te_Error ev))"
    using assms hp unfolding dns_socket_iff by blast
  with f hp show ?thesis by (auto simp: collectDNSEvidence_def Let_def)
qed

lemma noisy_iff: "isNoisyPath p = under_noisy_dir p"
  by (auto simp: isNoisyPath_def noisyPaths_def under_noisy_dir_def)

lemma contribution_other:
  assumes "other_failure ev e"
  shows "contribution_of ev =
    (if e = ''ENOENT'' then file_event ev
     else if e = ''EACCES'' \<or> e = ''EPERM'' then permission_event ev
     else if e = ''ECONNREFUSED'' then refused_event ev
     else if e = ''EADDRINUSE'' then bind_event ev else None)"
proof -
  have "collectDNSEvidence ev = None" "te_Result ev = ''-1''" "te_Error ev = e" "e \<noteq> []"
    using assms collectDNS_none [of ev] by (auto simp: other_failure_def failed_with_def)
  then show ?thesis by (simp add: contribution_of_def)
qed

lemma reports_contribution: "reports ev c k s es \<Longrightarrow> contribution_of ev = Some (c, k, s, es)"
proof (induction rule: reports.induct)
  case (Resolver_file ev e path)
  then show ?case by (simp add: contribution_of_def failed_with_def collectDNS_file)
next
  case (Resolver_address ev e host raw key)
  then show ?case by (simp add: contribution_of_def failed_with_def collectDNS_socket Let_def)
next
  case (Resolver_raw ev e raw key)
  then show ?case by (simp add: contribution_of_def failed_with_def collectDNS_socket Let_def)
next
  case (Exec ev path)
  then have "te_Error ev = ''ENOENT''" by (simp add: other_failure_def failed_with_def)
  with Exec show ?case by (auto simp: contribution_other file_event_def Let_def)
next
  case (Missing ev path)
  then show ?case by (simp add: contribution_other file_event_def Let_def noisy_iff)
next
  case (Denied ev e path)
  then have "te_Error ev = e" by (simp add: other_failure_def failed_with_def)
  with Denied show ?case by (auto simp: contribution_other permission_event_def Let_def)
next
  case (Refused ev host port raw key)
  then show ?case by (auto simp: contribution_other refused_event_def address_key_def Let_def)
next
  case (Refused_raw ev raw)
  then show ?case by (simp add: contribution_other refused_event_def address_key_def Let_def)
next
  case (In_use ev host port raw key)
  then show ?case by (auto simp: contribution_other bind_event_def address_key_def Let_def)
next
  case (In_use_raw ev raw)
  then show ?case by (simp add: contribution_other bind_event_def address_key_def Let_def)
qed

lemma contribution_reports:
  assumes "contribution_of ev = Some (c, k, s, es)"
  shows "reports ev c k s es"
proof -
  let ?e = "te_Error ev"
  have fail: "failed_with ev ?e" using assms by (auto simp: contribution_of_def failed_with_def split: if_splits)
  consider (lookup) p where "resolver_file ev p" | (socket) h r where "resolver_socket ev h r"
    | (other) "other_failure ev ?e" using fail by (auto simp: other_failure_def)
  then show ?thesis
  proof cases
    case lookup
    from assms fail show ?thesis using reports.Resolver_file [OF fail lookup]
      by (auto simp: contribution_of_def failed_with_def collectDNS_file [OF lookup])
  next
    case socket
    show ?thesis
    proof (cases "h = []")
      case True
      from assms fail show ?thesis using reports.Resolver_raw [OF fail _ refl, of r] socket True
        by (auto simp: contribution_of_def failed_with_def collectDNS_socket [OF socket] Let_def)
    next
      case False
      from assms fail show ?thesis using reports.Resolver_address [OF fail socket False refl] False
        by (auto simp: contribution_of_def failed_with_def collectDNS_socket [OF socket] Let_def)
    qed
  next
    case other
    obtain h p r where hp: "extractHostPort (te_Args ev) = (h, p, r)" by (metis prod_cases3)
    note c = assms [unfolded contribution_other [OF other]]
    consider (n) "?e = ''ENOENT''" | (d) "?e \<in> {''EACCES'', ''EPERM''}" | (r) "?e = ''ECONNREFUSED''"
      | (b) "?e = ''EADDRINUSE''" using c by (auto split: if_splits)
    then show ?thesis
    proof cases
      case n
      show ?thesis
      proof (cases "te_Syscall ev \<in> {''execve'', ''execveat''}")
        case True
        then show ?thesis using c n reports.Exec [OF other [unfolded n] True refl]
          by (auto simp: file_event_def Let_def split: if_splits)
      next
        case False
        then show ?thesis using c n reports.Missing [OF other [unfolded n] False refl]
          by (auto simp: file_event_def Let_def noisy_iff split: if_splits)
      qed
    next
      case d
      then have "permission_event ev = Some (c, k, s, es)" using c by auto
      then show ?thesis using reports.Denied [OF other d refl]
        by (auto simp: permission_event_def Let_def split: if_splits)
    next
      case r
      then have "refused_event ev = Some (c, k, s, es)" using c by simp
      then show ?thesis using reports.Refused [OF other [unfolded r] hp _ refl] reports.Refused_raw [OF other [unfolded r]] hp
        by (auto simp: refused_event_def address_key_def Let_def split: if_splits)
    next
      case b
      then have "bind_event ev = Some (c, k, s, es)" using c by simp
      then show ?thesis using reports.In_use [OF other [unfolded b] hp _ refl] reports.In_use_raw [OF other [unfolded b]] hp
        by (auto simp: bind_event_def address_key_def Let_def split: if_splits)
    qed
  qed
qed

lemma reports_iff: "reports ev c k s es \<longleftrightarrow> contribution_of ev = Some (c, k, s, es)"
  using reports_contribution contribution_reports by blast

text \<open>The event at a place reports something no earlier one of its class did, told by the marks.\<close>

definition first_report :: "trace_class \<Rightarrow> trace_event list \<Rightarrow> nat \<Rightarrow> string \<times> evidence list \<Rightarrow> bool" where
  "first_report c events i x \<longleftrightarrow>
     (\<exists>s. reports (events ! i) c (fst x) s (snd x) \<and> (\<forall>j < i. \<forall>k es. \<not> reports (events ! j) c k s es))"

text \<open>
  All the evidence of a class: the first reports in the order of the trace, grouped by path or address,
  the groups in ascending order.
\<close>

definition full_evidence :: "trace_class \<Rightarrow> trace_event list \<Rightarrow> evidence list \<Rightarrow> bool" where
  "full_evidence c events full \<longleftrightarrow>
     (\<exists>xs keys. list_all2 (first_report c events) (filter (\<lambda>i. \<exists>x. first_report c events i x) [0..<length events]) xs \<and>
        sorted keys \<and> distinct keys \<and> set keys = fst ` set xs \<and>
        full = concat (map (\<lambda>k. concat (map snd (filter (\<lambda>x. fst x = k) xs))) keys))"

lemma contributions_snoc: "contributions c (evs @ [ev]) = contributions c evs @ of_class c (contribution_of ev)"
  by (simp add: contributions_def)

lemma firsts_snoc:
  "firsts seen (xs @ [x]) = firsts seen xs @ (if fst (snd x) \<in> set seen \<union> (fst \<circ> snd) ` set xs then [] else [x])"
  by (induction xs arbitrary: seen) auto

lemma mark_reported: "s \<in> (fst \<circ> snd) ` set (contributions c evs) \<longleftrightarrow> (\<exists>j < length evs. \<exists>k es. reports (evs ! j) c k s es)"
proof
  assume "s \<in> (fst \<circ> snd) ` set (contributions c evs)"
  then obtain k es where "(k, s, es) \<in> set (contributions c evs)" by force
  then obtain ev where "ev \<in> set evs" "contribution_of ev = Some (c, k, s, es)"
    by (auto simp: contributions_def of_class_def split: option.splits if_splits)
  then show "\<exists>j < length evs. \<exists>k es. reports (evs ! j) c k s es" unfolding reports_iff in_set_conv_nth by blast
next
  assume "\<exists>j < length evs. \<exists>k es. reports (evs ! j) c k s es"
  then obtain j k es where "j < length evs" "contribution_of (evs ! j) = Some (c, k, s, es)" unfolding reports_iff by blast
  then have "(k, s, es) \<in> set (contributions c evs)"
    unfolding contributions_def by (force simp: of_class_def intro!: bexI [of _ "evs ! j"])
  then show "s \<in> (fst \<circ> snd) ` set (contributions c evs)" by force
qed

lemma first_report_snoc: "i < length evs \<Longrightarrow> first_report c (evs @ [ev]) i x = first_report c evs i x"
  by (simp add: first_report_def nth_append)

lemma first_report_last:
  "first_report c (evs @ [ev]) (length evs) (k, es) \<longleftrightarrow>
     (\<exists>s. contribution_of ev = Some (c, k, s, es) \<and> s \<notin> (fst \<circ> snd) ` set (contributions c evs))"
  unfolding first_report_def mark_reported by (simp add: reports_iff nth_append)

lemma first_reports:
  "list_all2 (first_report c events) (filter (\<lambda>i. \<exists>x. first_report c events i x) [0..<length events])
     (map (\<lambda>x. (fst x, snd (snd x))) (firsts [] (contributions c events)))"
proof (induction events rule: rev_induct)
  case (snoc ev evs)
  let ?ev = "evs @ [ev]"
  have old: "list_all2 (first_report c ?ev) (filter (\<lambda>i. \<exists>x. first_report c ?ev i x) [0..<length evs])
      (map (\<lambda>x. (fst x, snd (snd x))) (firsts [] (contributions c evs)))"
  proof -
    have f: "filter (\<lambda>i. \<exists>x. first_report c ?ev i x) [0..<length evs] = filter (\<lambda>i. \<exists>x. first_report c evs i x) [0..<length evs]"
      by (intro filter_cong refl) (simp add: first_report_snoc)
    show ?thesis unfolding f
      by (rule list.rel_mono_strong [OF snoc.IH]) (auto simp: first_report_snoc)
  qed
  have up: "[0..<length ?ev] = [0..<length evs] @ [length evs]" by simp
  show ?case
  proof (cases "\<exists>x. first_report c ?ev (length evs) x")
    case False
    have "firsts [] (contributions c ?ev) = firsts [] (contributions c evs)"
    proof (cases "contribution_of ev")
      case (Some y)
      obtain d k s es where y: "y = (d, k, s, es)" by (metis prod_cases4)
      then show ?thesis using False Some first_report_last [of c evs ev k es]
        by (auto simp: contributions_snoc of_class_def firsts_snoc)
    qed (simp add: contributions_snoc of_class_def)
    with False old show ?thesis unfolding up by simp
  next
    case True
    then obtain k es where x: "first_report c ?ev (length evs) (k, es)" by (metis surj_pair)
    then obtain s where s: "contribution_of ev = Some (c, k, s, es)" "s \<notin> (fst \<circ> snd) ` set (contributions c evs)"
      unfolding first_report_last by blast
    then have "firsts [] (contributions c ?ev) = firsts [] (contributions c evs) @ [(k, s, es)]"
      by (simp add: contributions_snoc of_class_def firsts_snoc)
    with True old x show ?thesis unfolding up by (simp add: list_all2_appendI)
  qed
qed (simp add: contributions_def)

lemma full_evidence_class: "full_evidence c events (class_evidence c events)"
proof -
  let ?f = "firsts [] (contributions c events)"
  let ?xs = "map (\<lambda>x. (fst x, snd (snd x))) ?f"
  have "evidence_under k ?f = concat (map snd (filter (\<lambda>x. fst x = k) ?xs))" for k
    by (simp add: evidence_under_def filter_map comp_def)
  then have "class_evidence c events = concat (map (\<lambda>k. concat (map snd (filter (\<lambda>x. fst x = k) ?xs))) (class_keys c events))"
    by (simp add: class_evidence_def)
  moreover have "sorted (class_keys c events)" "distinct (class_keys c events)" "set (class_keys c events) = fst ` set ?xs"
    by (simp_all add: class_keys_def sorted_sort_strings image_image)
  ultimately show ?thesis unfolding full_evidence_def using first_reports [of c events] by blast
qed

text \<open>The identifier and the severity under which a class is reported.\<close>

fun reported_as :: "trace_class \<Rightarrow> string \<times> severity" where
  "reported_as FileNotFound = (''F-TRACE-FILE-001'', SeverityLow)"
| "reported_as PermDenied = (''F-TRACE-FILE-002'', SeverityMedium)"
| "reported_as ConnRefused = (''F-TRACE-NET-001'', SeverityHigh)"
| "reported_as ExecFailed = (''F-TRACE-EXEC-001'', SeverityMedium)"
| "reported_as AddrInUse = (''F-TRACE-NET-002'', SeverityHigh)"
| "reported_as DNSFailure = (''F-TRACE-DNS-001'', SeverityMedium)"

text \<open>At most twenty entries, and how many were left out.\<close>

definition cut_at_twenty :: "evidence list \<Rightarrow> evidence list \<Rightarrow> bool" where
  "cut_at_twenty full es \<longleftrightarrow>
     (if length full \<le> 20 then es = full
      else length es = 21 \<and> take 20 es = take 20 full \<and> es ! 20 = mk_ev ''trace_evidence_omitted''
             (itoa (int (length full) - 20) @ '' additional entries omitted''))"

lemma capEvidence_cut: "cut_at_twenty full (capEvidence full)"
  by (simp add: cut_at_twenty_def capEvidence_def maxEvidencePerFinding_def nth_append of_nat_diff)

text \<open>C26: The findings of a trace are one for each class that some event of it reports, in the order missing
  files, denied files, refused connections, failed executions, addresses in use, name resolution, under
  the identifier and severity of the class. Its evidence is what the events of the class report, an
  event that repeats an earlier one aside, grouped by path or address in ascending order, and cut to
  twenty entries and a note of how many were left out.\<close>

theorem Analyze_correct:
  "list_all2 (\<lambda>c f. (f_ID f, f_Severity f) = reported_as c \<and>
       (\<exists>full. full_evidence c events full \<and> cut_at_twenty full (f_Evidence f)))
     (filter (\<lambda>c. \<exists>ev \<in> set events. \<exists>k s es. reports ev c k s es)
        [FileNotFound, PermDenied, ConnRefused, ExecFailed, AddrInUse, DNSFailure])
     (Analyze events)"
proof -
  let ?has = "\<lambda>c. \<exists>ev \<in> set events. \<exists>k s es. reports ev c k s es"
  let ?finding = "\<lambda>c. (class_finding c (class_keys c events))\<lparr>f_Evidence := capEvidence (class_evidence c events)\<rparr>"
  have has: "contributions c events = [] \<longleftrightarrow> \<not> ?has c" for c
    unfolding reports_iff by (fastforce simp: contributions_def of_class_def split: option.splits)
  have "concat (map (\<lambda>c. if contributions c events = [] then [] else [?finding c]) cs) = map ?finding (filter ?has cs)" for cs
    by (induction cs) (simp_all add: has)
  then have "Analyze events = map ?finding (filter ?has class_order)" by (simp add: Analyze_eq)
  moreover have "(f_ID (?finding c), f_Severity (?finding c)) = reported_as c \<and>
      (\<exists>full. full_evidence c events full \<and> cut_at_twenty full (f_Evidence (?finding c)))" for c
    using full_evidence_class [of c events] capEvidence_cut [of "class_evidence c events"] by (cases c) auto
  ultimately show ?thesis unfolding class_order_def by (simp add: list_all2_map2 list.rel_refl)
qed

end
