(* ===== verification/Trace_Runner.thy ===== *)
theory Trace_Runner
  imports Trace_Analyzer Redact "HOL-Library.Word"
begin

unbundle bit_operations_syntax

text \<open>
  \<open>internal/trace\<close> around the parser: the arguments of strace and what \<open>Run\<close> makes of its outcome
  (\<open>runner.go\<close>), the support checks of the eBPF backend (\<open>ebpf_support.go\<close>), the stages of \<open>RunEBPF\<close>
  and the attachment of its programs (\<open>ebpf_runner_linux.go\<close>), the events of the kernel
  (\<open>ebpf_events_linux.go\<close>) and the redaction of a result (\<open>redact.go\<close>). What the operating system
  answers is a record for each backend. Durations are left out.
\<close>

type_synonym trace_note = string

record trace_result =
  rs_Command :: string
  rs_Args :: "string list"
  rs_Scopes :: "trace_scope list"
  rs_Backend :: string
  rs_Read :: trace_read
  rs_Evidence :: "evidence list"
  rs_SeccompRequested :: bool
  rs_SeccompApplied :: bool
  rs_SeccompDegraded :: bool
  rs_TimedOut :: bool
  rs_TraceUnavailable :: bool
  rs_UnavailableReason :: string
  rs_ProcessFailed :: bool
  rs_Canceled :: bool
  rs_ExitCode :: int

definition add_note :: "string \<Rightarrow> trace_result \<Rightarrow> trace_result" where
  "add_note n r = r\<lparr>rs_Read := (rs_Read r)\<lparr>tr_Notes := tr_Notes (rs_Read r) @ [n]\<rparr>\<rparr>"

definition set_partial :: "trace_result \<Rightarrow> trace_result" where
  "set_partial r = r\<lparr>rs_Read := (rs_Read r)\<lparr>tr_Partial := True\<rparr>\<rparr>"

definition empty_read :: trace_read where
  "empty_read = \<lparr>tr_Events = [], tr_Partial = False, tr_SkippedEvents = 0, tr_Notes = []\<rparr>"

definition empty_result :: "string \<Rightarrow> string list \<Rightarrow> trace_scope list \<Rightarrow> string \<Rightarrow> trace_result" where
  "empty_result command args scopes backend =
     \<lparr>rs_Command = command, rs_Args = args, rs_Scopes = scopes, rs_Backend = backend, rs_Read = empty_read,
      rs_Evidence = [], rs_SeccompRequested = False, rs_SeccompApplied = False, rs_SeccompDegraded = False,
      rs_TimedOut = False, rs_TraceUnavailable = False, rs_UnavailableReason = [], rs_ProcessFailed = False,
      rs_Canceled = False, rs_ExitCode = 0\<rparr>"

section \<open>strace\<close>

fun scope_group :: "trace_scope \<Rightarrow> string" where
  "scope_group ScopeFile = ''%file''"
| "scope_group ScopeProcess = ''%process''"
| "scope_group ScopeNetwork = ''%network''"

definition buildStraceFilters :: "trace_scope list \<Rightarrow> string list" where
  "buildStraceFilters scopes =
     (if scopes = [] then [] else [''-e'', ''trace='' @ join '','' (map scope_group scopes)])"

definition buildStraceArgs :: "trace_scope list \<Rightarrow> string \<Rightarrow> string \<Rightarrow> string list \<Rightarrow> string list" where
  "buildStraceArgs scopes tracePath command args =
     [''-f'', ''-tt'', ''-T'', ''-yy'', ''-o'', tracePath, ''--seccomp-bpf''] @
     buildStraceFilters scopes @ [''--'', command] @ args"

definition traceUnavailablePatterns :: "string list" where
  "traceUnavailablePatterns =
     [''operation not permitted'', ''ptrace_traceme'', ''permission denied'', ''strace: attach'', ''ptrace'']"

definition isTraceUnavailable :: "string \<Rightarrow> bool" where
  "isTraceUnavailable stderr \<longleftrightarrow> (\<exists>p \<in> set traceUnavailablePatterns. contains (to_lower stderr) p)"

definition isSeccompBPFDegraded :: "string \<Rightarrow> bool" where
  "isSeccompBPFDegraded stderr \<longleftrightarrow> contains stderr ''strace: seccomp-bpf requested but not enabled''"

definition degraded_note :: string where
  "degraded_note = ''seccomp-bpf degraded: tracing fell back to full ptrace syscall stops; heavy commands such as npm install, cargo build, or large test suites can become dramatically slower''"

definition markSeccompBPFDegraded :: "trace_result \<Rightarrow> trace_result" where
  "markSeccompBPFDegraded r =
     add_note degraded_note (r\<lparr>rs_SeccompRequested := True, rs_SeccompApplied := False, rs_SeccompDegraded := True\<rparr>)"

datatype ctx_end = CtxAlive | CtxDeadline | CtxCanceled
datatype wait_error = NonZeroExit | StartFailed string

text \<open>
  How a run of strace ended: its standard error, the error of \<open>runWithGroupKill\<close>, the context, the state
  of the process if it ran (exit code, and number and name of a signal that killed it) and the file
  it wrote (or why it cannot be read).
\<close>

record strace_outcome =
  so_Stderr :: string
  so_Error :: "wait_error option"
  so_Context :: ctx_end
  so_State :: "(int \<times> (int \<times> string) option) option"
  so_File :: "string + string"

definition context_notes :: "ctx_end \<Rightarrow> trace_result \<Rightarrow> trace_result" where
  "context_notes c r =
     (case c of
        CtxAlive \<Rightarrow> r
      | CtxDeadline \<Rightarrow>
          add_note ''trace timed out; child processes were signaled by command context''
            (set_partial (r\<lparr>rs_TimedOut := True\<rparr>))
      | CtxCanceled \<Rightarrow>
          add_note ''trace canceled by parent context'' (set_partial (r\<lparr>rs_Canceled := True\<rparr>)))"

definition process_state ::
  "(int \<times> (int \<times> string) option) option \<Rightarrow> bool \<Rightarrow> trace_result \<Rightarrow> trace_result" where
  "process_state st failed r =
     (case st of
        Some (code, sig) \<Rightarrow>
          (let r = r\<lparr>rs_ExitCode := code\<rparr>
           in case sig of
                None \<Rightarrow> r
              | Some (n, name) \<Rightarrow>
                  add_note (''traced process killed by signal '' @ itoa n @ '' ('' @ name @ '')'')
                    (r\<lparr>rs_ProcessFailed := True\<rparr>))
      | None \<Rightarrow> if failed then r\<lparr>rs_ExitCode := - 1\<rparr> else r)"

definition strace_failure :: "string \<Rightarrow> wait_error \<Rightarrow> trace_result \<Rightarrow> trace_result" where
  "strace_failure stderr e r =
     (let r = (if stderr \<noteq> [] then add_note (''strace stderr: '' @ trim_space stderr) r else r)
      in if isTraceUnavailable stderr
         then add_note ''trace unavailable: ptrace/permission denied''
                (r\<lparr>rs_TraceUnavailable := True, rs_UnavailableReason := ''ptrace_permission_denied''\<rparr>)
         else
           (case e of
              NonZeroExit \<Rightarrow> add_note ''strace or traced command exited non-zero'' r
            | StartFailed m \<Rightarrow> add_note (''strace could not start: '' @ m) r))"

definition Run_strace ::
  "nat \<Rightarrow> trace_scope list \<Rightarrow> string \<Rightarrow> string list \<Rightarrow> strace_outcome \<Rightarrow> string + trace_result" where
  "Run_strace maxEvents scopes command args out =
     (if command = [] then Inl ''trace command is empty''
      else
        (let maxEvents = (if maxEvents = 0 then maxTraceEvents else maxEvents);
             r = (empty_result command args scopes ''strace'')\<lparr>rs_SeccompRequested := True\<rparr>;
             r = (if isSeccompBPFDegraded (so_Stderr out) then markSeccompBPFDegraded r else r);
             r = context_notes (so_Context out) r;
             r = process_state (so_State out) (so_Error out \<noteq> None) r;
             r = (case so_Error out of
                    Some e \<Rightarrow> if \<not> rs_TimedOut r \<and> \<not> rs_Canceled r then strace_failure (so_Stderr out) e r else r
                  | None \<Rightarrow> r);
             r = (if rs_SeccompRequested r \<and> \<not> rs_SeccompDegraded r \<and> \<not> rs_TraceUnavailable r \<and>
                     (so_Error out = None \<or> so_State out \<noteq> None)
                  then r\<lparr>rs_SeccompApplied := True\<rparr> else r)
         in case readTraceFile maxEvents (so_File out) (rs_Read r) of
              (err, rd) \<Rightarrow>
                (let r = r\<lparr>rs_Read := rd\<rparr>
                 in Inr (case err of Some e \<Rightarrow> add_note (''trace file read error: '' @ e) r | None \<Rightarrow> r))))"

section \<open>Support of the eBPF backend\<close>

definition hex_val :: "char \<Rightarrow> int option" where
  "hex_val c = map_of (zip ''0123456789abcdefABCDEF'' [0, 1, 2, 3, 4, 5, 6, 7, 8, 9, 10, 11, 12, 13, 14, 15, 10, 11, 12, 13, 14, 15]) c"

fun hex_digits_val :: "int \<Rightarrow> string \<Rightarrow> int option" where
  "hex_digits_val acc [] = Some acc"
| "hex_digits_val acc (c # s) =
     (case hex_val c of None \<Rightarrow> None | Some d \<Rightarrow> hex_digits_val (16 * acc + d) s)"

text \<open>\<open>strconv.ParseUint(value, 16, 64)\<close>.\<close>

definition parse_hex64 :: "string \<Rightarrow> 64 word option" where
  "parse_hex64 s =
     (if s = [] then None
      else case hex_digits_val 0 s of
             None \<Rightarrow> None
           | Some n \<Rightarrow> if n < 18446744073709551616 then Some (word_of_int n) else None)"

definition readCapEff :: "string option \<Rightarrow> 64 word option" where
  "readCapEff file =
     (case file of
        None \<Rightarrow> None
      | Some data \<Rightarrow>
          (case find (\<lambda>l. has_prefix l ''CapEff:'') (split_at [CHR 0x0A] data) of
             None \<Rightarrow> None
           | Some l \<Rightarrow> parse_hex64 (trim_space (trim_prefix l ''CapEff:''))))"

definition hasCapability :: "64 word \<Rightarrow> nat \<Rightarrow> bool" where
  "hasCapability cap n \<longleftrightarrow> cap AND push_bit n 1 \<noteq> 0"

definition hex_char :: "nat \<Rightarrow> char" where
  "hex_char n = ''0123456789abcdef'' ! n"

definition formatCapHex :: "64 word \<Rightarrow> string" where
  "formatCapHex cap = map (\<lambda>i. hex_char (unat (drop_bit (4 * (15 - i)) cap AND 15))) [0..<16]"

definition bool_text :: "bool \<Rightarrow> string" where
  "bool_text b = (if b then ''true'' else ''false'')"

record ebpf_environment =
  eb_BTF :: bool
  eb_Status :: "string option"
  eb_Probe :: "string option option"

text \<open>The evidence of the three checks and the reason of the first one that fails.\<close>

definition btf_check :: "ebpf_environment \<Rightarrow> evidence list \<times> string" where
  "btf_check env =
     (if eb_BTF env then ([mk_ev ''ebpf_btf'' ''present''], [])
      else ([mk_ev ''ebpf_btf'' ''missing''], ''ebpf_btf_missing''))"

definition capability_check :: "ebpf_environment \<Rightarrow> evidence list \<times> string" where
  "capability_check env =
     (case readCapEff (eb_Status env) of
        None \<Rightarrow> ([mk_ev ''ebpf_proc_status'' ''unreadable''], ''ebpf_capabilities_unknown'')
      | Some cap \<Rightarrow>
          (let bpf = hasCapability cap 39; perfmon = hasCapability cap 38; admin = hasCapability cap 21
           in ([mk_ev ''ebpf_cap_eff'' (formatCapHex cap), mk_ev ''ebpf_cap_bpf'' (bool_text bpf),
                mk_ev ''ebpf_cap_perfmon'' (bool_text perfmon), mk_ev ''ebpf_cap_sys_admin'' (bool_text admin)],
               if bpf \<and> perfmon \<or> admin then [] else ''ebpf_capabilities_missing'')))"

definition probe_check :: "ebpf_environment \<Rightarrow> evidence list \<times> string" where
  "probe_check env =
     (case eb_Probe env of
        None \<Rightarrow> ([], [])
      | Some (Some e) \<Rightarrow>
          ([mk_ev ''ebpf_tracepoint_program_type'' ''unavailable'', mk_ev ''ebpf_feature_probe_error'' e],
           ''ebpf_tracepoint_unavailable'')
      | Some None \<Rightarrow> ([mk_ev ''ebpf_tracepoint_program_type'' ''available''], []))"

record ebpf_support =
  es_Supported :: bool
  es_Reason :: string
  es_Evidence :: "evidence list"

definition checkEBPFSupport :: "ebpf_environment \<Rightarrow> ebpf_support" where
  "checkEBPFSupport env =
     (let checks = [btf_check env, capability_check env, probe_check env];
          reason = (case filter (\<lambda>r. r \<noteq> []) (map snd checks) of [] \<Rightarrow> [] | r # _ \<Rightarrow> r)
      in \<lparr>es_Supported = (reason = []), es_Reason = reason, es_Evidence = concat (map fst checks)\<rparr>)"

section \<open>Trace points\<close>

fun scope_tracepoints :: "trace_scope \<Rightarrow> string list" where
  "scope_tracepoints ScopeFile = [''syscalls/sys_enter_openat'', ''syscalls/sys_exit_openat'']"
| "scope_tracepoints ScopeProcess =
     [''syscalls/sys_enter_execve'', ''syscalls/sys_exit_execve'', ''syscalls/sys_enter_clone'',
      ''syscalls/sys_enter_fork'', ''syscalls/sys_enter_vfork'']"
| "scope_tracepoints ScopeNetwork =
     [''syscalls/sys_enter_connect'', ''syscalls/sys_exit_connect'', ''syscalls/sys_enter_bind'',
      ''syscalls/sys_exit_bind'']"

definition add_new :: "string \<Rightarrow> string list \<Rightarrow> string list" where
  "add_new t ts = (if t \<in> set ts then ts else ts @ [t])"

definition ebpfTracepointsForScopes :: "trace_scope list \<Rightarrow> string list" where
  "ebpfTracepointsForScopes scopes =
     fold add_new ((if scopes \<noteq> [] then [''sched/sched_process_fork''] else []) @ concat (map scope_tracepoints scopes)) []"

definition perf_programs :: "string list" where
  "perf_programs =
     [''sched/sched_process_fork'', ''syscalls/sys_enter_openat'', ''syscalls/sys_exit_openat'',
      ''syscalls/sys_enter_execve'', ''syscalls/sys_exit_execve'', ''syscalls/sys_enter_connect'',
      ''syscalls/sys_exit_connect'', ''syscalls/sys_enter_bind'', ''syscalls/sys_exit_bind'']"

text \<open>
  Attaching programs: \<open>link\<close> is the error of attaching one, if any. The result is the list of the
  attached, those closed again on an error, and the error.
\<close>

record attach_result =
  at_names :: "string list"
  at_mode :: string

fun attach_links :: "(string \<Rightarrow> string option) \<Rightarrow> string list \<Rightarrow> string list \<Rightarrow> string list + string list" where
  "attach_links link [] links = Inr links"
| "attach_links link (t # ts) links =
     (if t \<notin> set perf_programs then Inl links
      else case link t of
             Some e \<Rightarrow> Inl links
           | None \<Rightarrow> attach_links link ts (links @ [t]))"

definition attachDevdiagPerfTracepoints :: "(string \<Rightarrow> string option) \<Rightarrow> string list \<Rightarrow> attach_result option" where
  "attachDevdiagPerfTracepoints link tracepoints =
     (case attach_links link tracepoints [] of
        Inl cs \<Rightarrow> None
      | Inr links \<Rightarrow> Some \<lparr>at_names = tracepoints, at_mode = ''tracepoint''\<rparr>)"

definition rawTracepoints :: "string list" where
  "rawTracepoints = [''raw_tracepoint/sys_enter'', ''raw_tracepoint/sys_exit'']"

definition attachDevdiagRawTracepoints :: "(string \<Rightarrow> string option) \<Rightarrow> string list \<Rightarrow> attach_result option" where
  "attachDevdiagRawTracepoints link tracepoints =
     (if tracepoints = [] then Some \<lparr>at_names = [], at_mode = ''raw_tracepoint''\<rparr>
      else if list_all (\<lambda>t. link t = None) rawTracepoints
      then Some \<lparr>at_names = rawTracepoints, at_mode = ''raw_tracepoint''\<rparr>
      else None)"

definition attachDevdiagEBPFTracepoints :: "(string \<Rightarrow> string option) \<Rightarrow> string list \<Rightarrow> attach_result option" where
  "attachDevdiagEBPFTracepoints link tracepoints =
     (case attachDevdiagPerfTracepoints link tracepoints of
        Some r \<Rightarrow> Some r
      | None \<Rightarrow> attachDevdiagRawTracepoints link tracepoints)"

section \<open>Events of the kernel\<close>

record kernel_event =
  ke_TimestampNs :: "64 word"
  ke_Pid :: "32 word"
  ke_Ppid :: "32 word"
  ke_EventType :: "32 word"
  ke_Ret :: "64 word"
  ke_Family :: "32 word"
  ke_Port :: "32 word"
  ke_Addr4 :: "32 word"
  ke_Arg0 :: string

definition ebpfEventMetadata :: "32 word \<Rightarrow> (trace_scope \<times> string) option" where
  "ebpfEventMetadata t =
     (if t = 1 then Some (ScopeFile, ''openat'')
      else if t = 2 then Some (ScopeProcess, ''execve'')
      else if t = 3 then Some (ScopeNetwork, ''connect'')
      else if t = 4 then Some (ScopeNetwork, ''bind'')
      else if t = 5 then Some (ScopeProcess, ''clone'')
      else None)"

definition ebpfErrnoName :: "int \<Rightarrow> string" where
  "ebpfErrnoName n =
     (if n = 1 then ''EPERM'' else if n = 2 then ''ENOENT'' else if n = 13 then ''EACCES''
      else if n = 98 then ''EADDRINUSE'' else if n = 101 then ''ENETUNREACH'' else if n = 110 then ''ETIMEDOUT''
      else if n = 111 then ''ECONNREFUSED'' else if n = 113 then ''EHOSTUNREACH'' else [])"

definition ebpfResultAndError :: "64 word \<Rightarrow> string \<times> string" where
  "ebpfResultAndError ret =
     (let r = sint ret; n = sint (- ret)
      in if r \<ge> 0 then (itoa r, [])
         else if ebpfErrnoName n \<noteq> [] then (''-1'', ebpfErrnoName n)
         else (itoa r, ''ERRNO_'' @ itoa n))"

definition ebpfCString :: "string \<Rightarrow> string" where
  "ebpfCString raw = takeWhile (\<lambda>c. c \<noteq> CHR 0x00) raw"

definition ipv4_text :: "32 word \<Rightarrow> string" where
  "ipv4_text a =
     join ''.'' (map (\<lambda>i. itoa (uint (drop_bit (8 * i) a AND 255))) [0, 1, 2, 3])"

definition ebpfSockaddrArg :: "kernel_event \<Rightarrow> string" where
  "ebpfSockaddrArg e =
     (if ke_Family e \<noteq> 2 \<or> ke_Port e = 0 then []
      else ''{sa_family=AF_INET, sin_port=htons('' @ itoa (uint (ke_Port e)) @ ''), sin_addr=inet_addr('' @ [CHR 0x22] @
             ipv4_text (ke_Addr4 e) @ [CHR 0x22] @ '')}'')"

definition kernel_args :: "kernel_event \<Rightarrow> string list" where
  "kernel_args e =
     (if ke_EventType e \<in> {1, 2}
      then (let arg = ebpfCString (ke_Arg0 e) in if arg \<noteq> [] then [quote_go arg] else [])
      else if ke_EventType e \<in> {3, 4}
      then (let arg = ebpfSockaddrArg e in if arg \<noteq> [] then [arg] else [])
      else [''child_pid='' @ itoa (uint (ke_Pid e)), ''parent_pid='' @ itoa (uint (ke_Ppid e))])"

definition kernel_trace_event :: "trace_scope list \<Rightarrow> kernel_event \<Rightarrow> trace_event option" where
  "kernel_trace_event scopes e =
     (case ebpfEventMetadata (ke_EventType e) of
        None \<Rightarrow> None
      | Some (scope, syscall) \<Rightarrow>
          if scopes \<noteq> [] \<and> scope \<notin> set scopes then None
          else
            (case ebpfResultAndError (ke_Ret e) of (result, errno) \<Rightarrow>
               Some \<lparr>te_Timestamp = Some (sint (ke_TimestampNs e)), te_PID = uint (ke_Pid e), te_Syscall = syscall,
                     te_Args = kernel_args e, te_Result = result, te_Error = errno, te_Duration = 0\<rparr>))"

definition eventsFromEBPFKernelEvents :: "kernel_event list \<Rightarrow> trace_scope list \<Rightarrow> trace_event list" where
  "eventsFromEBPFKernelEvents raw scopes = List.map_filter (kernel_trace_event scopes) raw"

record ebpf_record =
  er_Scope :: trace_scope
  er_Event :: trace_event

definition EventsFromEBPFRecords :: "ebpf_record list \<Rightarrow> int list \<Rightarrow> trace_scope list \<Rightarrow> trace_event list" where
  "EventsFromEBPFRecords records processTree scopes =
     map er_Event (filter (\<lambda>r. (processTree = [] \<or> te_PID (er_Event r) \<in> set processTree) \<and>
                              (scopes = [] \<or> er_Scope r \<in> set scopes)) records)"

section \<open>The run with eBPF\<close>

text \<open>
  What the system answers at each stage. \<open>eo_Items\<close> are the events of the ring buffer, or the error of
  reading one, and \<open>eo_ReadBeforeClose\<close> how many of them the reading goroutine took before the reader
  was closed: its channel holds 1024 and is only emptied after the command has ended, so it never
  takes more than 1025.
\<close>

record ebpf_outcome =
  eo_Environment :: ebpf_environment
  eo_Memlock :: "string option"
  eo_Load :: "string option"
  eo_Ringbuf :: "string option"
  eo_Link :: "string \<Rightarrow> string option"
  eo_AttachError :: string
  eo_Start :: "string option"
  eo_RootPid :: "32 word"
  eo_Stop :: "string option"
  eo_Seed :: "string option"
  eo_Resume :: "string option"
  eo_Wait :: "wait_error option"
  eo_State :: "(int \<times> (int \<times> string) option) option"
  eo_Canceled :: bool
  eo_Items :: "(string + kernel_event) list"
  eo_ReadBeforeClose :: nat

definition add_evidence :: "evidence list \<Rightarrow> trace_result \<Rightarrow> trace_result" where
  "add_evidence evs r = r\<lparr>rs_Evidence := rs_Evidence r @ evs\<rparr>"

definition unavailable :: "string \<Rightarrow> string \<Rightarrow> trace_result \<Rightarrow> trace_result" where
  "unavailable reason n r =
     add_note (''ebpf backend unavailable: '' @ n) (r\<lparr>rs_TraceUnavailable := True, rs_UnavailableReason := reason\<rparr>)"

definition process_failed :: "string \<Rightarrow> trace_result \<Rightarrow> trace_result" where
  "process_failed n r = add_note n (r\<lparr>rs_ProcessFailed := True\<rparr>)"

definition ebpf_drained :: "ebpf_outcome \<Rightarrow> (string + kernel_event) list" where
  "ebpf_drained out = take (min (eo_ReadBeforeClose out) 1025) (eo_Items out)"

fun ebpf_items :: "(string + kernel_event) list \<Rightarrow> bool \<Rightarrow> kernel_event list \<Rightarrow> trace_result \<Rightarrow> kernel_event list \<times> trace_result" where
  "ebpf_items [] noted raw r = (raw, r)"
| "ebpf_items (Inr e # is) noted raw r = ebpf_items is noted (raw @ [e]) r"
| "ebpf_items (Inl m # is) noted raw r =
     ebpf_items is True raw
       ((if noted then r else add_note (''skipped undecodable ebpf event: '' @ m) r)
         \<lparr>rs_Read := (rs_Read (if noted then r else add_note (''skipped undecodable ebpf event: '' @ m) r))
            \<lparr>tr_SkippedEvents := tr_SkippedEvents (rs_Read r) + 1\<rparr>\<rparr>)"

text \<open>After the command has ended: its state, the context, the error and the events.\<close>

definition ebpf_finish :: "trace_scope list \<Rightarrow> ebpf_outcome \<Rightarrow> trace_result \<Rightarrow> trace_result" where
  "ebpf_finish scopes out r =
     (let r = process_state (eo_State out) (eo_Wait out \<noteq> None) r;
          r = (if eo_Canceled out
               then add_note ''trace canceled by parent context'' (set_partial (r\<lparr>rs_Canceled := True\<rparr>)) else r);
          r = (case eo_Wait out of
                 None \<Rightarrow> r
               | Some NonZeroExit \<Rightarrow> process_failed ''traced command exited non-zero'' r
               | Some (StartFailed m) \<Rightarrow>
                   if \<not> eo_Canceled out then process_failed (''traced command failed: '' @ m) r else r)
      in case ebpf_items (ebpf_drained out) False [] r of
           (raw, r) \<Rightarrow>
             (let events = eventsFromEBPFKernelEvents raw scopes
              in add_evidence [mk_ev ''ebpf_raw_event_count'' (itoa (int (length raw))),
                               mk_ev ''ebpf_event_count'' (itoa (int (length events)))]
                   (r\<lparr>rs_Read := (rs_Read r)\<lparr>tr_Events := events\<rparr>\<rparr>)))"

text \<open>The command, stopped at its start until its process is tracked.\<close>

definition ebpf_traced :: "trace_scope list \<Rightarrow> ebpf_outcome \<Rightarrow> trace_result \<Rightarrow> trace_result" where
  "ebpf_traced scopes out r =
     (case eo_Start out of
        Some e \<Rightarrow> process_failed (''traced command failed to start: '' @ e) (r\<lparr>rs_ExitCode := - 1\<rparr>)
      | None \<Rightarrow>
     (case eo_Stop out of
        Some e \<Rightarrow> process_failed (''traced command did not pause for eBPF setup: '' @ e) r
      | None \<Rightarrow>
     (case eo_Seed out of
        Some e \<Rightarrow>
          unavailable ''ebpf_pid_seed_failed'' ''root pid could not be seeded''
            (add_evidence [mk_ev ''ebpf_pid_seed'' ''failed'', mk_ev ''ebpf_pid_seed_error'' e] r)
      | None \<Rightarrow>
          (let r = add_evidence [mk_ev ''ebpf_root_pid'' (itoa (uint (eo_RootPid out)))] r
           in case eo_Resume out of
                Some e \<Rightarrow> process_failed (''traced command could not resume after eBPF setup: '' @ e) r
              | None \<Rightarrow> ebpf_finish scopes out r))))"

definition RunEBPF ::
  "trace_scope list \<Rightarrow> string \<Rightarrow> string list \<Rightarrow> ebpf_outcome \<Rightarrow> string + trace_result" where
  "RunEBPF scopes command args out =
     (if command = [] then Inl ''trace command is empty''
      else
        (let r = empty_result command args scopes ''ebpf'';
             support = checkEBPFSupport (eo_Environment out);
             r = add_evidence (es_Evidence support) r
         in Inr (if \<not> es_Supported support then unavailable (es_Reason support) (es_Reason support) r
            else case eo_Memlock out of
              Some e \<Rightarrow>
                unavailable ''ebpf_memlock_unavailable'' ''memlock limit could not be removed''
                  (add_evidence [mk_ev ''ebpf_memlock'' ''unavailable'', mk_ev ''ebpf_memlock_error'' e] r)
            | None \<Rightarrow>
            (case eo_Load out of
              Some e \<Rightarrow>
                unavailable ''ebpf_load_failed'' ''object load failed''
                  (add_evidence [mk_ev ''ebpf_load'' ''failed'', mk_ev ''ebpf_load_error'' e] r)
            | None \<Rightarrow>
            (case eo_Ringbuf out of
              Some e \<Rightarrow>
                unavailable ''ebpf_ringbuf_failed'' ''ring buffer reader failed''
                  (add_evidence [mk_ev ''ebpf_ringbuf'' ''failed'', mk_ev ''ebpf_ringbuf_error'' e] r)
            | None \<Rightarrow>
            (case attachDevdiagEBPFTracepoints (eo_Link out) (ebpfTracepointsForScopes scopes) of
              None \<Rightarrow>
                unavailable ''ebpf_tracepoint_attach_failed'' ''tracepoint attach failed''
                  (add_evidence [mk_ev ''ebpf_tracepoint_attach'' ''failed'',
                     mk_ev ''ebpf_tracepoint_attach_error'' (eo_AttachError out)] r)
            | Some a \<Rightarrow>
                ebpf_traced scopes out
                  (add_evidence [mk_ev ''ebpf_attach_mode'' (at_mode a),
                     mk_ev ''ebpf_tracepoints_attached'' (join '','' (at_names a)),
                     mk_ev ''ebpf_tracepoint_link_count'' (itoa (int (length (at_names a))))] r)))))))"

section \<open>Redaction of a result\<close>

definition redact_event :: "redact_engine \<Rightarrow> trace_event \<Rightarrow> trace_event" where
  "redact_event e ev =
     ev\<lparr>te_Error := RedactString e (te_Error ev), te_Args := map (RedactString e) (te_Args ev),
        te_Result := RedactString e (te_Result ev)\<rparr>"

definition RedactResult :: "redact_engine \<Rightarrow> trace_result \<Rightarrow> trace_result" where
  "RedactResult e r =
     r\<lparr>rs_Command := RedactString e (rs_Command r), rs_Args := map (RedactString e) (rs_Args r),
       rs_Read := (rs_Read r)\<lparr>tr_Events := map (redact_event e) (tr_Events (rs_Read r)),
                            tr_Notes := map (RedactString e) (tr_Notes (rs_Read r))\<rparr>,
       rs_Evidence := map (\<lambda>ev. mk_ev (RedactString e (ev_Source ev)) (RedactString e (ev_Value ev))) (rs_Evidence r),
       rs_UnavailableReason := RedactString e (rs_UnavailableReason r)\<rparr>"

end
