(* ===== verification/Trace_Correct.thy ===== *)
theory Trace_Correct
  imports Trace_Parser
begin

text \<open>
  What the parser makes of the lines strace prints: every call it prints is read back, whole or in two
  parts, and a trace is read within its bounds.
\<close>

section \<open>Splitting at the first or last of a character\<close>

lemma first_split: "a @ c # u = b @ c # v \<Longrightarrow> c \<notin> set a \<Longrightarrow> c \<notin> set b \<Longrightarrow> a = b \<and> u = v"
proof (induction a arbitrary: b)
  case Nil
  then show ?case by (cases b) auto
next
  case (Cons x a)
  then show ?case by (cases b) auto
qed

lemma last_split: "a @ c # u = b @ c # v \<Longrightarrow> c \<notin> set u \<Longrightarrow> c \<notin> set v \<Longrightarrow> a = b \<and> u = v"
  using first_split [of "rev u" c "rev a" "rev v" "rev b"] by (metis (no_types, opaque_lifting) append.assoc append_Cons
    append_Nil rev.simps(2) rev_append rev_is_rev_conv set_rev)

section \<open>Characters\<close>

lemma space_classes:
  "is_space c \<Longrightarrow> ascii_space c"
  "ascii_space c \<Longrightarrow> \<not> is_digit c" "is_digit c \<Longrightarrow> \<not> is_space c"
  "is_digit c \<Longrightarrow> c \<noteq> CHR ''.'' \<and> c \<noteq> CHR ''<'' \<and> c \<noteq> CHR ''>'' \<and> c \<noteq> CHR '']''"
  "is_word c \<Longrightarrow> no_space_byte c \<and> c \<noteq> CHR ''('' \<and> \<not> is_space c"
  "is_digit c \<longleftrightarrow> c \<in> set digits"
proof -
  have "\<forall>c. (is_space c \<longrightarrow> ascii_space c) \<and> (ascii_space c \<longrightarrow> \<not> is_digit c) \<and> (is_digit c \<longrightarrow> \<not> is_space c) \<and>
     (is_digit c \<longrightarrow> c \<noteq> CHR ''.'' \<and> c \<noteq> CHR ''<'' \<and> c \<noteq> CHR ''>'' \<and> c \<noteq> CHR '']'') \<and>
     (is_word c \<longrightarrow> no_space_byte c \<and> c \<noteq> CHR ''('' \<and> \<not> is_space c) \<and> (is_digit c \<longleftrightarrow> c \<in> set digits)"
    by code_simp
  then show "is_space c \<Longrightarrow> ascii_space c" "ascii_space c \<Longrightarrow> \<not> is_digit c" "is_digit c \<Longrightarrow> \<not> is_space c"
    "is_digit c \<Longrightarrow> c \<noteq> CHR ''.'' \<and> c \<noteq> CHR ''<'' \<and> c \<noteq> CHR ''>'' \<and> c \<noteq> CHR '']''"
    "is_word c \<Longrightarrow> no_space_byte c \<and> c \<noteq> CHR ''('' \<and> \<not> is_space c"
    "is_digit c \<longleftrightarrow> c \<in> set digits"
    by blast+
qed

section \<open>Digits of a fixed width\<close>

fun pad_digits :: "nat \<Rightarrow> nat \<Rightarrow> string" where
  "pad_digits 0 n = []"
| "pad_digits (Suc w) n = pad_digits w (n div 10) @ [digit_char (n mod 10)]"

lemma length_pad_digits [simp]: "length (pad_digits w n) = w"
  by (induction w n rule: pad_digits.induct) simp_all

lemma set_pad_digits: "set (pad_digits w n) \<subseteq> set digits"
proof (induction w n rule: pad_digits.induct)
  case (2 w n)
  have "digit_char (n mod 10) \<in> set digits"
    using digit_val_digit_char [of "n mod 10"] digit_val_SomeD by fastforce
  with 2 show ?case by simp
qed simp

lemma digits_val_pad_digits: "digits_val 0 (pad_digits w n) = Some (int (n mod 10 ^ w))"
proof (induction w n rule: pad_digits.induct)
  case (2 w n)
  have "10 * int (n div 10 mod 10 ^ w) + int (n mod 10) = int (n mod 10 ^ Suc w)"
    by (simp add: mod_mult2_eq flip: of_nat_mult of_nat_add) 
  with 2 show ?case by (simp add: digits_val_append digit_val_digit_char)
qed simp

lemma all_digits: "set s \<subseteq> set digits \<Longrightarrow> list_all is_digit s"
  by (auto simp: list_all_iff space_classes(6))

lemma atoi_clamped_val: "digits_val 0 s = Some n \<Longrightarrow> s \<noteq> [] \<Longrightarrow> n \<le> max_int64 \<Longrightarrow> atoi_clamped s = n"
  by (simp add: atoi_clamped_def)

section \<open>The duration at the end of a line\<close>

definition seconds_of :: "string \<Rightarrow> string \<Rightarrow> int" where
  "seconds_of ds fs =
     wrap64 (wrap64 (atoi_clamped ds * 1000000000) + atoi_clamped (take 9 (fs @ replicate (9 - length fs) CHR ''0'')))"

lemma prefers_upto:
  "length w \<le> n \<Longrightarrow> list_all P w \<Longrightarrow> post = [] \<or> \<not> P (hd post) \<Longrightarrow>
   prefers (RUpTo n (RCls P)) (pre, w @ post, cs) (rev w @ pre, post, cs)"
proof (induction n arbitrary: w pre)
  case 0
  then show ?case by (simp add: prefers_eps)
next
  case (Suc n)
  show ?case
  proof (cases w)
    case Nil
    have "rx_match (RSeq (RCls P) (RUpTo n (RCls P))) (pre, post, cs) = []"
      using Suc.prems(3) by (cases post) simp_all
    then show ?thesis unfolding RUpTo.simps Nil by (simp add: prefers_alt2 prefers_eps)
  next
    case (Cons c v)
    with Suc.prems Suc.IH [of v "c # pre"] have "prefers (RUpTo n (RCls P)) (c # pre, v @ post, cs) (rev w @ pre, post, cs)"
      "prefers (RCls P) (pre, w @ post, cs) (c # pre, v @ post, cs)"
      by (auto intro: prefers_cls)
    then show ?thesis unfolding RUpTo.simps by (blast intro: prefers_alt1 prefers_seq)
  qed
qed

lemma prefers_digits:
  assumes "ds \<noteq> []" "list_all is_digit ds" "post = [] \<or> \<not> is_digit (hd post)"
  shows "prefers digits_rx (pre, ds @ post, cs) (rev ds @ pre, post, cs)"
proof -
  obtain d ds' where ds: "ds = d # ds'" using assms(1) by (cases ds) auto
  have "takeWhile is_digit (ds' @ post) = ds'" "dropWhile is_digit (ds' @ post) = post"
    using assms(2,3) ds by (auto simp: list_all_iff takeWhile_append2 dropWhile_append2 intro: takeWhile_eq_Nil_iff [THEN iffD2])
      (cases post; simp)+
  with prefers_star_cls [of is_digit "d # pre" "ds' @ post" cs]
  have "prefers (RStar (RCls is_digit)) (d # pre, ds' @ post, cs) (rev ds @ pre, post, cs)" using ds by simp
  moreover have "prefers (RCls is_digit) (pre, ds @ post, cs) (d # pre, ds' @ post, cs)"
    using assms(2) ds by (auto intro: prefers_cls)
  ultimately show ?thesis unfolding digits_rx_def by (blast intro: prefers_seq)
qed

lemma prefers_star_run:
  assumes "list_all P w" "post = [] \<or> \<not> P (hd post)"
  shows "prefers (RStar (RCls P)) (pre, w @ post, cs) (rev w @ pre, post, cs)"
proof -
  have "takeWhile P (w @ post) = w" "dropWhile P (w @ post) = post"
    using assms by (auto simp: list_all_iff takeWhile_append2 dropWhile_append2) (cases post; simp)+
  with prefers_star_cls [of P pre "w @ post" cs] show ?thesis by simp
qed

text \<open>A duration as strace prints it, with the white space before it.\<close>

definition timed :: "string \<Rightarrow> string \<Rightarrow> string" where
  "timed ds fs = ''<'' @ ds @ ''.'' @ fs @ ''>''"

definition digit_run :: "string \<Rightarrow> bool" where
  "digit_run s \<longleftrightarrow> s \<noteq> [] \<and> list_all is_digit s"

lemma prefers_duration:
  assumes "list_all is_space sp" "digit_run ds" "digit_run fs" "length fs \<le> 9"
  shows "prefers durationRegex (pre, sp @ timed ds fs, []) (rev (sp @ timed ds fs) @ pre, [],
    [(2, length (pre @ sp @ ds) + 2, length (pre @ sp @ ds @ fs) + 2),
     (1, length (pre @ sp) + 1, length (pre @ sp @ ds) + 1)])"
proof -
  obtain f fs' where fs: "fs = f # fs'" using assms(3) by (cases fs) (auto simp: digit_run_def)
  define p1 where "p1 = CHR ''<'' # rev sp @ pre"
  define p2 where "p2 = CHR ''.'' # rev ds @ p1"
  define p3 where "p3 = CHR ''>'' # rev fs @ p2"
  have ns: "\<not> is_space CHR ''<''" "\<not> is_digit CHR ''.''" "\<not> is_digit CHR ''>''" by code_simp+
  have sp: "prefers spaces_rx (pre, sp @ timed ds fs, []) (rev sp @ pre, timed ds fs, [])"
    unfolding spaces_rx_def using assms(1) by (intro prefers_star_run) (simp_all add: timed_def ns)
  have lt: "prefers (RChr CHR ''<'') (rev sp @ pre, timed ds fs, []) (p1, ds @ ''.'' @ fs @ ''>'', [])"
    unfolding timed_def p1_def by (simp add: prefers_chr)
  have c1: "prefers (RCap 1 digits_rx) (p1, ds @ ''.'' @ fs @ ''>'', [])
      (rev ds @ p1, ''.'' @ fs @ ''>'', [(1, length p1, length (rev ds @ p1))])"
    using prefers_cap [OF prefers_digits [of ds "''.'' @ fs @ ''>''" p1 "[]"], of 1] assms(2) ns
    by (simp add: digit_run_def)
  have dot: "prefers (RChr CHR ''.'') (rev ds @ p1, ''.'' @ fs @ ''>'', cs) (p2, fs @ ''>'', cs)" for cs
    unfolding p2_def by (simp add: prefers_chr)
  have "prefers (RCls is_digit) (p2, fs @ ''>'', cs) (f # p2, fs' @ ''>'', cs)"
    "prefers (RUpTo 8 (RCls is_digit)) (f # p2, fs' @ ''>'', cs) (rev fs' @ f # p2, ''>'', cs)" for cs
    using assms(3,4) fs ns by (auto simp: digit_run_def intro!: prefers_cls prefers_upto)
  then have "prefers fraction_rx (p2, fs @ ''>'', cs) (rev fs @ p2, ''>'', cs)" for cs
    unfolding fraction_rx_def using prefers_seq fs by fastforce
  note c2 = prefers_cap [OF this, of 2]
  have gt: "prefers (RChr CHR ''>'') (rev fs @ p2, ''>'', cs) (p3, [], cs)" for cs
    unfolding p3_def by (simp add: prefers_chr)
  have sp2: "prefers spaces_rx (p3, [], cs) (p3, [], cs)" for cs
    using prefers_star_run [of is_space "[]" "[]" p3 cs] by (simp add: spaces_rx_def)
  have en: "prefers REnd (p3, [], cs) (p3, [], cs)" for cs by (simp add: prefers_def)
  have "prefers durationRegex (pre, sp @ timed ds fs, [])
     (p3, [], [(2, length p2, length (rev fs @ p2)), (1, length p1, length (rev ds @ p1))])"
    unfolding durationRegex_def RSeqs.simps
    using prefers_seq [OF sp prefers_seq [OF lt prefers_seq [OF c1 prefers_seq [OF dot prefers_seq [OF c2
      prefers_seq [OF gt prefers_seq [OF sp2 en]]]]]]] by simp
  then show ?thesis unfolding p3_def p2_def p1_def by (simp add: timed_def add.commute add.left_commute)
qed

lemma rx_in_run: "rx_in (RStar (RCls P)) pre w post \<Longrightarrow> list_all P w"
  by (auto simp: list_all_iff dest: rx_in_chars)

lemma rx_in_digits: "rx_in digits_rx pre w post \<Longrightarrow> list_all is_digit w"
  by (auto simp: list_all_iff digits_rx_def dest: rx_in_chars)

lemma rx_chars_upto: "rx_chars (RUpTo n (RCls P)) c \<Longrightarrow> P c"
  by (induction n) auto

lemma rx_in_fraction: "rx_in fraction_rx pre w post \<Longrightarrow> list_all is_digit w"
  by (auto simp: list_all_iff fraction_rx_def dest!: rx_in_chars dest: rx_chars_upto)

lemma rx_in_duration:
  assumes "rx_in durationRegex pre w post"
  obtains sp ds fs sp' where "w = sp @ timed ds fs @ sp'" "post = []" "list_all is_space sp" "list_all is_space sp'"
    "list_all is_digit ds" "list_all is_digit fs"
proof -
  from assms show ?thesis
    unfolding durationRegex_def rx_in_Seqs
    by (clarsimp simp: rx_in_Chr rx_in_simps spaces_rx_def)
       (rule that, auto simp: timed_def dest: rx_in_run rx_in_digits rx_in_fraction)
qed

lemma all_notin: "list_all P w \<Longrightarrow> \<not> P c \<Longrightarrow> c \<notin> set w"
  by (auto simp: list_all_iff)

lemma timed_unique:
  assumes "a @ timed ds fs @ sp' = b @ timed es gs" "list_all is_space sp'"
    and "list_all is_digit ds" "list_all is_digit fs" "list_all is_digit es" "list_all is_digit gs"
  shows "a = b \<and> ds = es \<and> fs = gs \<and> sp' = []"
proof -
  have no: "\<not> is_digit CHR ''<''" "\<not> is_digit CHR ''.''" "\<not> is_digit CHR ''>''" "\<not> is_space CHR ''<''" by code_simp+
  have e: "a @ CHR ''<'' # (ds @ CHR ''.'' # fs @ CHR ''>'' # sp') = b @ CHR ''<'' # (es @ CHR ''.'' # gs @ [CHR ''>''])"
    using assms(1) by (simp add: timed_def)
  have n: "CHR ''<'' \<notin> set (ds @ CHR ''.'' # fs @ CHR ''>'' # sp')" "CHR ''<'' \<notin> set (es @ CHR ''.'' # gs @ [CHR ''>''])"
    using all_notin [OF assms(2) no(4)] all_notin [OF assms(3) no(1)] all_notin [OF assms(4) no(1)]
      all_notin [OF assms(5) no(1)] all_notin [OF assms(6) no(1)] by simp_all
  have 1: "a = b" "ds @ CHR ''.'' # fs @ CHR ''>'' # sp' = es @ CHR ''.'' # gs @ [CHR ''>'']"
    using last_split [OF e n] by simp_all
  have 2: "ds = es" "fs @ CHR ''>'' # sp' = gs @ CHR ''>'' # []"
    using first_split [OF 1(2)] all_notin [OF assms(3) no(2)] all_notin [OF assms(5) no(2)] by simp_all
  have "fs = gs" "sp' = []" using first_split [OF 2(2)] all_notin [OF assms(4) no(3)] all_notin [OF assms(6) no(3)] by simp_all
  with 1 2 show ?thesis by simp
qed

lemma parseTrailingDuration_timed:
  assumes x: "x \<noteq> []" "trimmed x" and ds: "digit_run ds" "digit_run fs" "length fs \<le> 9"
  shows "parseTrailingDuration (x @ '' '' @ timed ds fs) = (x, seconds_of ds fs)"
proof -
  define s where "s = x @ '' '' @ timed ds fs"
  have blank: "list_all is_space '' ''" by code_simp
  from prefers_duration [OF blank ds, of "rev x"]
  obtain st where "prefers durationRegex (rev x, '' '' @ timed ds fs, []) st" by blast
  from prefers_in [OF this] obtain w q where "'' '' @ timed ds fs = w @ q" "rx_in durationRegex (rev x) w q" by blast
  then have "find_from durationRegex [] s \<noteq> None" unfolding find_from_None s_def by fastforce
  then obtain spre st where f: "find_from durationRegex [] s = Some (spre, st)" by auto
  from find_from_prefers_at [OF f] obtain gap rest where g: "s = gap @ rest" "spre = rev gap"
    "prefers durationRegex (rev gap, rest, []) st" by auto
  from prefers_in [OF g(3)] obtain w q where w: "rest = w @ q" "rx_in durationRegex (rev gap) w q" by blast
  from w(2) obtain sp d f sp' where d: "w = sp @ timed d f @ sp'" "q = []" "list_all is_space sp" "list_all is_space sp'"
    "list_all is_digit d" "list_all is_digit f" by (rule rx_in_duration)
  have "(gap @ sp) @ timed d f @ sp' = (x @ '' '') @ timed ds fs" using g(1) w(1) d by (simp add: s_def)
  from timed_unique [OF this d(4-6)] ds have u: "gap @ sp = x @ '' ''" "d = ds" "f = fs" "sp' = []"
    by (auto simp: digit_run_def)
  have st: "st = (rev s, [], [(2, length (gap @ sp @ ds) + 2, length (gap @ sp @ ds @ fs) + 2),
      (1, length (gap @ sp) + 1, length (gap @ sp @ ds) + 1)])"
    using prefers_unique [OF g(3)] prefers_duration [OF d(3) ds, of "rev gap"] g(1) w(1) d(1,2) u(2-4) by simp
  define m where "m = found_at spre st"
  have first: "FindFirst durationRegex s = Some m" by (simp add: FindFirst_def f m_def)
  have sdecomp: "s = gap @ sp @ ''<'' @ ds @ ''.'' @ fs @ ''>''" using g(1) w(1) d u by (simp add: timed_def)
  have sub: "submatch s m 1 = ds" "submatch s m 2 = fs"
    unfolding m_def found_at_def st submatch_def group_bounds_def by (simp_all add: substr_def sdecomp)
  have "durationRegex \<noteq> REps" "0 < min_len durationRegex" by (simp add: durationRegex_def) code_simp
  then have "find_from durationRegex (rev s) [] = None"
    using min_len_le [of durationRegex "rev s" "[]" "[]"] by (auto simp: find_from_None)
  then have "find_all_from durationRegex (rev s) [] p = []" for p by (simp add: find_all_from.simps)
  moreover have "s \<noteq> []" by (simp add: s_def)
  ultimately have "FindAll durationRegex s = [m]"
    using f by (simp add: FindAll_def find_all_from.simps [of _ "[]" s] m_def st)
  then have "rewriteMatches s durationRegex (\<lambda>_. []) = gap"
    by (simp add: rewriteMatches_def m_def found_at_def st g(2) substr_def) (simp add: g(1))
  moreover have "trim_space gap = x"
  proof -
    have "list_all ascii_space sp" using d(3) space_classes(1) by (auto simp: list_all_iff)
    moreover have "last x \<notin> set sp"
      using x d(3) space_classes(1) by (auto simp: trimmed_def no_space_byte_def list_all_iff)
    ultimately have "gap = x @ [] \<or> gap = x @ '' ''"
      using u(1) x(1) by (auto simp: append_eq_append_conv2 append_eq_Cons_conv Cons_eq_append_conv) 
    then show ?thesis using trim_space_within [of "[]" "[]" x] trim_space_within [of "[]" "'' ''" x] x(2)
      by (auto simp: ascii_space_def)
  qed
  ultimately show ?thesis
    unfolding s_def [symmetric] parseTrailingDuration_def first option.case Let_def sub seconds_of_def by simp
qed

section \<open>The process and the time of a line\<close>

lemma no_pid_bracket: "is_digit c \<Longrightarrow> FindFirst pidRegex (c # s) = None"
proof -
  have "\<not> is_digit CHR ''[''" by code_simp
  moreover assume "is_digit c"
  ultimately show ?thesis by (auto simp: pidRegex_def RSeqs_cons FindFirst_begin RStr_def RChr_def)
qed

lemma splitPIDPrefix_plain:
  assumes "int n \<le> max_int64" "trimmed rest" "rest \<noteq> []"
  shows "splitPIDPrefix (nat_digits n @ CHR '' '' # rest) = (int n, rest)"
proof -
  let ?l = "nat_digits n @ CHR '' '' # rest"
  obtain d ds where d: "nat_digits n = d # ds" by (cases "nat_digits n") auto
  have dig: "\<forall>c \<in> set (nat_digits n). c \<in> set digits" using set_nat_digits by blast
  have "trimmed ?l" using assms(2,3) d dig digit_no_space by (auto simp: trimmed_def)
  then have tl: "trim_space ?l = ?l" by (rule trim_space_trimmed)
  have "is_digit d" using dig d by (simp add: space_classes(6))
  then have 1: "FindFirst pidRegex ?l = None" using d no_pid_bracket by simp
  have sp: "ascii_space CHR '' ''" by code_simp
  have "str_fields ?l = nat_digits n # str_fields rest"
    using dig digit_no_space sp by (intro str_fields_word) auto
  moreover have "str_fields rest \<noteq> []"
  proof -
    have "str_fields_from acc s \<noteq> []" if "acc \<noteq> []" for acc s
      using that
    proof (induction acc s rule: str_fields_from.induct)
      case (1 acc s)
      then show ?case by (subst str_fields_from.simps) auto
    qed
    moreover have "space_len rest = 0" using assms(2) space_len_hd by (auto simp: trimmed_def)
    ultimately show ?thesis using assms(3) unfolding str_fields_def by (subst str_fields_from.simps) simp
  qed
  then obtain g gs where "str_fields rest = g # gs" by (cases "str_fields rest") auto
  moreover have "atoi (nat_digits n) = Some (int n)"
    using atoi_itoa [of "int n"] assms(1) by (simp add: itoa_def min_int64_def)
  moreover have "trim_space (CHR '' '' # rest) = rest"
    using trim_space_within [of "'' ''" "[]" rest] assms(2) sp by simp
  ultimately show ?thesis by (simp add: splitPIDPrefix_def tl 1)
qed

definition clock :: "nat \<Rightarrow> nat \<Rightarrow> nat \<Rightarrow> nat \<Rightarrow> string" where
  "clock h m s us = pad_digits 2 h @ '':'' @ pad_digits 2 m @ '':'' @ pad_digits 2 s @ ''.'' @ pad_digits 6 us"

lemma split_time_clock:
  assumes "h < 100" "m < 100" "s < 100" "us < 1000000" "trimmed rest" "rest \<noteq> []"
  shows "split_time (clock h m s us @ '' '' @ rest) =
    (Some (int (((h * 60 + m) * 60 + s) * 1000000000 + us * 1000)), rest)"
proof -
  define a b c d where abcd: "a = pad_digits 2 h" "b = pad_digits 2 m" "c = pad_digits 2 s" "d = pad_digits 6 us"
  have len: "length a = 2" "length b = 2" "length c = 2" "length d = 6" by (simp_all add: abcd)
  have dig: "list_all is_digit a" "list_all is_digit b" "list_all is_digit c" "list_all is_digit d"
    by (simp_all add: abcd all_digits set_pad_digits)
  let ?l = "a @ '':'' @ b @ '':'' @ c @ ''.'' @ d @ '' '' @ rest"
  have "no_space_byte (hd rest)" using assms(5,6) by (simp add: trimmed_def)
  then have "\<not> is_space (hd rest)" using space_classes(1) by (auto simp: no_space_byte_def)
  moreover have "list_all is_space '' ''" by code_simp
  ultimately have sp: "prefers spaces_rx (pre, '' '' @ rest, cs) (CHR '' '' # pre, rest, cs)" for pre cs
    using prefers_star_run [of is_space "'' ''" rest pre cs] by (simp add: spaces_rx_def)
  have col: "prefers (RChr x) (pre, [x] @ r, cs) (x # pre, r, cs)" for x pre r cs by (simp add: prefers_chr)
  have p: "prefers (RSeqs [RCap 1 (RTimes 2 (RCls is_digit)), RChr CHR '':'', RCap 2 (RTimes 2 (RCls is_digit)),
      RChr CHR '':'', RCap 3 (RTimes 2 (RCls is_digit)), RChr CHR ''.'', RCap 4 (RTimes 6 (RCls is_digit)), spaces_rx])
      ([], ?l, []) (CHR '' '' # rev (a @ '':'' @ b @ '':'' @ c @ ''.'' @ d), rest,
        [(4, 9, 15), (3, 6, 8), (2, 3, 5), (1, 0, 2)])"
  proof -
    let ?ra = "rev a" and ?rb = "rev b @ CHR '':'' # rev a"
    let ?rc = "rev c @ CHR '':'' # ?rb"
    let ?rd = "rev d @ CHR ''.'' # ?rc"
    have 1: "prefers (RCap 1 (RTimes 2 (RCls is_digit))) ([], ?l, []) (?ra, '':'' @ b @ '':'' @ c @ ''.'' @ d @ '' '' @ rest, [(1, 0, 2)])"
      using prefers_cap [OF prefers_times [OF len(1) dig(1), of "[]" "'':'' @ b @ '':'' @ c @ ''.'' @ d @ '' '' @ rest" "[]"], of 1] len by simp
    have 2: "prefers (RCap 2 (RTimes 2 (RCls is_digit))) (CHR '':'' # ?ra, b @ '':'' @ c @ ''.'' @ d @ '' '' @ rest, [(1, 0, 2)])
        (?rb, '':'' @ c @ ''.'' @ d @ '' '' @ rest, [(2, 3, 5), (1, 0, 2)])"
      using prefers_cap [OF prefers_times [OF len(2) dig(2), of "CHR '':'' # ?ra" "'':'' @ c @ ''.'' @ d @ '' '' @ rest" "[(1, 0, 2)]"], of 2] len by simp
    have 3: "prefers (RCap 3 (RTimes 2 (RCls is_digit))) (CHR '':'' # ?rb, c @ ''.'' @ d @ '' '' @ rest, [(2, 3, 5), (1, 0, 2)])
        (?rc, ''.'' @ d @ '' '' @ rest, [(3, 6, 8), (2, 3, 5), (1, 0, 2)])"
      using prefers_cap [OF prefers_times [OF len(3) dig(3), of "CHR '':'' # ?rb" "''.'' @ d @ '' '' @ rest" "[(2, 3, 5), (1, 0, 2)]"], of 3] len by simp
    have 4: "prefers (RCap 4 (RTimes 6 (RCls is_digit))) (CHR ''.'' # ?rc, d @ '' '' @ rest, [(3, 6, 8), (2, 3, 5), (1, 0, 2)])
        (?rd, '' '' @ rest, [(4, 9, 15), (3, 6, 8), (2, 3, 5), (1, 0, 2)])"
      using prefers_cap [OF prefers_times [OF len(4) dig(4), of "CHR ''.'' # ?rc" "'' '' @ rest" "[(3, 6, 8), (2, 3, 5), (1, 0, 2)]"], of 4] len by simp
    show ?thesis
      unfolding RSeqs.simps
      using prefers_seq [OF 1 prefers_seq [OF col prefers_seq [OF 2 prefers_seq [OF col prefers_seq [OF 3
        prefers_seq [OF col prefers_seq [OF 4 sp]]]]]]] by simp
  qed
  from FindFirst_begin_prefers [OF p] obtain f where f: "FindFirst timeRegex ?l = Some f"
    "f = \<lparr>rf_start = 0, rf_end = 16, rf_groups = [(4, 9, 15), (3, 6, 8), (2, 3, 5), (1, 0, 2)]\<rparr>"
    using len by (simp add: timeRegex_def RSeqs_cons found_at_def)
  have sub: "submatch ?l f 1 = a" "submatch ?l f 2 = b" "submatch ?l f 3 = c" "submatch ?l f 4 = d"
    unfolding f(2) submatch_def group_bounds_def using len by (simp_all add: substr_def)
  have val: "atoi_clamped (pad_digits w n) = int n" if "n < 10 ^ w" "0 < w" "w < 10" for w n
  proof -
    have "n < 10 ^ 10" using that power_increasing [of w 10 "10::nat"] by simp
    then have "int n \<le> max_int64" by (simp add: max_int64_def)
    moreover have "pad_digits w n \<noteq> []" using that(2) by (metis length_pad_digits less_not_refl list.size(3))
    ultimately show ?thesis using that(1) digits_val_pad_digits [of w n] by (intro atoi_clamped_val) simp_all
  qed
  have "atoi_clamped a = int h" "atoi_clamped b = int m" "atoi_clamped c = int s" "atoi_clamped d = int us"
    using assms val [of h 2] val [of m 2] val [of s 2] val [of us 6] by (simp_all add: abcd)
  moreover have "drop 16 ?l = rest" using len by simp
  ultimately have "split_time ?l = (Some (((int h * 60 + int m) * 60 + int s) * 1000000000 + int us * 1000), rest)"
    using trim_space_trimmed [OF assms(5)]
    unfolding split_time_def f(1) option.case Let_def sub by (simp add: f(2))
  then show ?thesis by (simp add: clock_def abcd)
qed

section \<open>Arguments\<close>

text \<open>
  The texts of arguments: brackets are closed in pairs outside of strings, strings end at their quote;
  at the \<open>outer\<close> level there is no comma.
\<close>

fun string_body :: "string \<Rightarrow> bool" where
  "string_body [] \<longleftrightarrow> True"
| "string_body (c # cs) \<longleftrightarrow>
     (if c = CHR 0x5C then (case cs of [] \<Rightarrow> False | _ # ds \<Rightarrow> string_body ds)
      else c \<noteq> CHR 0x22 \<and> string_body cs)"

inductive balanced :: "bool \<Rightarrow> string \<Rightarrow> bool" where
  bal_nil: "balanced outer []"
| bal_char: "c \<notin> set ''(){}[]'' \<Longrightarrow> c \<noteq> CHR 0x22 \<Longrightarrow> (outer \<longrightarrow> c \<noteq> CHR '','') \<Longrightarrow> balanced outer w \<Longrightarrow>
    balanced outer (c # w)"
| bal_string: "string_body q \<Longrightarrow> balanced outer w \<Longrightarrow> balanced outer ([CHR 0x22] @ q @ [CHR 0x22] @ w)"
| bal_paren: "balanced False v \<Longrightarrow> balanced outer w \<Longrightarrow> balanced outer (''('' @ v @ '')'' @ w)"
| bal_square: "balanced False v \<Longrightarrow> balanced outer w \<Longrightarrow> balanced outer (''['' @ v @ '']'' @ w)"
| bal_brace: "balanced False v \<Longrightarrow> balanced outer w \<Longrightarrow> balanced outer (''{'' @ v @ ''}'' @ w)"

lemma close_paren_string:
  "string_body q \<Longrightarrow> close_paren i d True False (q @ CHR 0x22 # w) = close_paren (i + length q + 1) d False False w"
  by (induction q arbitrary: i rule: string_body.induct) (auto split: if_splits list.splits)

lemma arg_pieces_string:
  "string_body q \<Longrightarrow> arg_pieces d True False cur (q @ CHR 0x22 # w) = arg_pieces d False False (CHR 0x22 # rev q @ cur) w"
  by (induction q arbitrary: cur rule: string_body.induct) (auto split: if_splits list.splits)

lemma close_paren_balanced:
  "balanced outer v \<Longrightarrow> 1 \<le> d \<Longrightarrow>
   close_paren i d False False (v @ w) = close_paren (i + length v) d False False w"
  by (induction arbitrary: i d w rule: balanced.induct) (simp_all add: close_paren_string algebra_simps)

lemma arg_pieces_balanced:
  "balanced outer v \<Longrightarrow> (\<not> outer \<longrightarrow> 1 \<le> d) \<Longrightarrow> 0 \<le> d \<Longrightarrow>
   arg_pieces d False False cur (v @ w) = arg_pieces d False False (rev v @ cur) w"
proof (induction arbitrary: d cur w rule: balanced.induct)
  case (bal_char c outer v)
  from bal_char.hyps bal_char.prems have "\<not> (c = CHR '','' \<and> d = 0)" by (cases outer) simp_all
  then consider "c \<noteq> CHR '',''" | "d \<noteq> 0" by blast
  then show ?case using bal_char by cases simp_all
qed (simp_all add: arg_pieces_string)

definition arg_ok :: "string \<Rightarrow> bool" where
  "arg_ok a \<longleftrightarrow> balanced True a \<and> a \<noteq> [] \<and> trimmed a"

lemmas bal_intros = balanced.intros [simplified]

lemma balanced_append: "balanced outer a \<Longrightarrow> balanced False b \<Longrightarrow> balanced False (a @ b)"
  by (induction rule: balanced.induct) (simp_all add: bal_intros)

lemma balanced_spaces: "list_all ascii_space w \<Longrightarrow> balanced outer w"
proof (induction w)
  case (Cons c w)
  have "\<forall>c. ascii_space c \<longrightarrow> c \<notin> set ''(){}[],'' \<and> c \<noteq> CHR 0x22" by code_simp
  with Cons show ?case by (auto intro!: bal_char)
qed (rule bal_nil)

lemma balanced_join: "\<forall>a \<in> set args. balanced True a \<Longrightarrow> balanced False (join '', '' args)"
proof (induction "'', ''" args rule: join.induct)
  case (2 x)
  then show ?case using balanced_append [of True x "[]"] by (simp add: bal_nil)
next
  case (3 x y xs)
  then have "balanced False ('', '' @ join '', '' (y # xs))" by (auto intro!: bal_char)
  with 3 balanced_append [of True x] show ?case by simp
qed (simp add: bal_nil)

lemma arg_pieces_join:
  assumes "\<forall>a \<in> set (x # xs). arg_ok a" "list_all ascii_space pad" "list_all ascii_space cur"
  shows "map trim_space (arg_pieces 0 False False cur (join '', '' (x # xs) @ pad)) = x # xs"
  using assms(1,3)
proof (induction xs arbitrary: x cur)
  case Nil
  have pad: "arg_pieces 0 False False w (pad @ []) = arg_pieces 0 False False (rev pad @ w) []" for w
    using balanced_spaces [OF assms(2), of True] by (rule arg_pieces_balanced) simp_all
  have "balanced True x" using Nil by (simp add: arg_ok_def)
  from arg_pieces_balanced [OF this, of 0 cur pad] pad [of "rev x @ cur"] Nil assms(2)
    trim_space_within [of "rev cur" pad x]
  show ?case by (simp add: arg_ok_def list_all_iff)
next
  case (Cons y ys)
  have "balanced True x" using Cons by (simp add: arg_ok_def)
  from arg_pieces_balanced [OF this, of 0 cur] Cons.prems
    trim_space_within [of "rev cur" "[]" x] Cons.IH [of y "'' ''"]
  show ?case by (simp add: arg_ok_def list_all_iff ascii_space_def)
qed

lemma parseArgs_join:
  assumes "\<forall>a \<in> set args. arg_ok a" "list_all ascii_space pad" "args = [] \<longrightarrow> pad = []"
  shows "parseArgs (''('' @ join '', '' args @ pad @ '')'') = args"
proof (cases args)
  case Nil
  then show ?thesis using assms(3) by (simp add: parseArgs_def trim_prefix_def trim_suffix_def)
next
  case (Cons x xs)
  have "join '', '' args @ pad \<noteq> []" using assms(1) Cons by (cases xs) (auto simp: arg_ok_def)
  moreover have "trim_suffix (join '', '' args @ pad @ '')'') '')'' = join '', '' args @ pad"
    using trim_suffix_append [of "join '', '' args @ pad" "'')''"] by simp
  moreover have "trim_prefix (''('' @ join '', '' args @ pad @ '')'') ''('' = join '', '' args @ pad @ '')''"
    by (rule trim_prefix_append)
  ultimately show ?thesis using arg_pieces_join [of x xs pad "[]"] assms Cons
    unfolding parseArgs_def Let_def by simp
qed

section \<open>A call as strace prints it\<close>

text \<open>
  A call ends with a result and what strace adds to it, or with an error and its description. The note
  on a result begins with a blank or, for a descriptor, with its path in angle brackets.
\<close>

datatype call_outcome = Completed string string | Refused string string

record strace_call =
  sc_pid :: nat
  sc_hour :: nat
  sc_min :: nat
  sc_sec :: nat
  sc_usec :: nat
  sc_name :: string
  sc_args :: "string list"
  sc_outcome :: call_outcome
  sc_took_sec :: nat
  sc_took_usec :: nat

fun outcome_text :: "call_outcome \<Rightarrow> string" where
  "outcome_text (Completed r n) = r @ n"
| "outcome_text (Refused e n) = ''-1 '' @ e @ '' '' @ n"

fun outcome_ok :: "call_outcome \<Rightarrow> bool" where
  "outcome_ok (Completed r n) \<longleftrightarrow> r \<noteq> [] \<and> list_all (\<lambda>c. no_space_byte c \<and> c \<noteq> CHR ''<'') r \<and>
     \<not> has_prefix (r @ n) ''-1'' \<and> (n = [] \<or> hd n = CHR '' '' \<or> hd n = CHR ''<'') \<and> trimmed (r @ n)"
| "outcome_ok (Refused e n) \<longleftrightarrow> e \<noteq> [] \<and> list_all no_space_byte e \<and> n \<noteq> [] \<and> trimmed n"

definition call_head :: "strace_call \<Rightarrow> string" where
  "call_head c = nat_digits (sc_pid c) @ '' '' @ clock (sc_hour c) (sc_min c) (sc_sec c) (sc_usec c) @ '' ''"

definition call_tail :: "strace_call \<Rightarrow> string" where
  "call_tail c = '') = '' @ outcome_text (sc_outcome c) @ '' '' @
     timed (nat_digits (sc_took_sec c)) (pad_digits 6 (sc_took_usec c))"

definition call_line :: "string \<Rightarrow> strace_call \<Rightarrow> string" where
  "call_line pad c = call_head c @ sc_name c @ ''('' @ join '', '' (sc_args c) @ pad @ call_tail c"

definition call_ok :: "strace_call \<Rightarrow> bool" where
  "call_ok c \<longleftrightarrow> int (sc_pid c) \<le> max_int64 \<and> sc_hour c < 100 \<and> sc_min c < 100 \<and> sc_sec c < 100 \<and>
     sc_usec c < 1000000 \<and> sc_name c \<noteq> [] \<and> list_all is_word (sc_name c) \<and> list_all arg_ok (sc_args c) \<and>
     outcome_ok (sc_outcome c) \<and> sc_took_sec c \<le> 9223372035 \<and> sc_took_usec c < 1000000"

definition call_event :: "strace_call \<Rightarrow> trace_event" where
  "call_event c =
     \<lparr>te_Timestamp =
        Some (int (((sc_hour c * 60 + sc_min c) * 60 + sc_sec c) * 1000000000 + sc_usec c * 1000)),
      te_PID = int (sc_pid c), te_Syscall = sc_name c, te_Args = sc_args c,
      te_Result = (case sc_outcome c of Completed r n \<Rightarrow> r | Refused e n \<Rightarrow> ''-1''),
      te_Error = (case sc_outcome c of Completed r n \<Rightarrow> [] | Refused e n \<Rightarrow> e),
      te_Duration = int (sc_took_sec c * 1000000000 + sc_took_usec c * 1000)\<rparr>"

text \<open>The line has neither of the marks of a call printed in two parts.\<close>

definition unmarked :: "string \<Rightarrow> bool" where
  "unmarked l \<longleftrightarrow> \<not> contains l ''<unfinished ...>'' \<and> \<not> contains l ''<... ''"

lemma seconds_of_digits:
  assumes "sec \<le> 9223372035" "usec < 1000000"
  shows "seconds_of (nat_digits sec) (pad_digits 6 usec) = int (sec * 1000000000 + usec * 1000)"
proof -
  have A: "atoi_clamped (nat_digits sec) = int sec"
    using assms(1) by (intro atoi_clamped_val digits_val_nat_digits) (simp_all add: max_int64_def)
  have zeros: "digits_val n ''000'' = Some (n * 1000)" for n by (simp add: digit_val_def digits_def)
  have "digits_val 0 (pad_digits 6 usec) = Some (int usec)"
    using assms(2) digits_val_pad_digits [of 6 usec] by simp
  then have "digits_val 0 (pad_digits 6 usec @ ''000'') = Some (int usec * 1000)"
    unfolding digits_val_append by (simp only: option.case zeros)
  then have B: "atoi_clamped (pad_digits 6 usec @ ''000'') = int usec * 1000"
    using assms(2) by (intro atoi_clamped_val) (simp_all add: max_int64_def)
  have "replicate 3 x = [x, x, x]" for x :: char by (simp add: eval_nat_numeral)
  then have C: "take 9 (pad_digits 6 usec @ replicate (9 - length (pad_digits 6 usec)) CHR ''0'') = pad_digits 6 usec @ ''000''"
    unfolding length_pad_digits by (simp del: pad_digits.simps)
  have "wrap64 (int sec * 1000000000) = int sec * 1000000000"
    "wrap64 (int sec * 1000000000 + int usec * 1000) = int sec * 1000000000 + int usec * 1000"
    using assms by (intro wrap64_id; simp add: min_int64_def max_int64_def)+
  then show ?thesis by (simp only: seconds_of_def A B C of_nat_add of_nat_mult of_nat_numeral)
qed

lemma digit_run_digits: "digit_run (nat_digits n)" "0 < w \<Longrightarrow> digit_run (pad_digits w n)"
proof -
  show "digit_run (nat_digits n)" using set_nat_digits [of n] by (simp add: digit_run_def all_digits)
  show "0 < w \<Longrightarrow> digit_run (pad_digits w n)" using set_pad_digits [of w n]
    by (auto simp: digit_run_def all_digits simp flip: length_greater_0_conv)
qed

lemma outcome_trimmed:
  assumes "outcome_ok oc"
  shows "outcome_text oc \<noteq> [] \<and> trimmed (outcome_text oc)"
proof -
  have "no_space_byte CHR ''-''" by code_simp
  with assms show ?thesis by (cases oc) (auto simp: trimmed_def)
qed

lemma parse_result_tail:
  assumes "outcome_ok oc" "sec \<le> 9223372035" "usec < 1000000"
  shows "parse_result ('' = '' @ outcome_text oc @ '' '' @ timed (nat_digits sec) (pad_digits 6 usec)) =
    Some (case oc of Completed r n \<Rightarrow> r | Refused e n \<Rightarrow> ''-1'', case oc of Completed r n \<Rightarrow> [] | Refused e n \<Rightarrow> e,
      int (sec * 1000000000 + usec * 1000))"
proof -
  define x where "x = outcome_text oc"
  let ?t = "x @ '' '' @ timed (nat_digits sec) (pad_digits 6 usec)"
  have x: "x \<noteq> []" "trimmed x" using outcome_trimmed [OF assms(1)] by (simp_all add: x_def)
  have b: "no_space_byte CHR ''=''" "no_space_byte CHR ''>''" "list_all ascii_space '' ''" by code_simp+
  have 1: "trim_space ('' = '' @ ?t) = ''= '' @ ?t"
    using trim_space_within [of "'' ''" "[]" "''= '' @ ?t"] b by (simp add: trimmed_def timed_def)
  have "trimmed ?t" using x b by (simp add: trimmed_def timed_def)
  then have 2: "trim_space ('' '' @ ?t) = ?t" using trim_space_within [of "'' ''" "[]" ?t] b by simp
  have 3: "parseTrailingDuration ?t = (x, int (sec * 1000000000 + usec * 1000))"
    using parseTrailingDuration_timed [OF x digit_run_digits(1) digit_run_digits(2) [of 6]] seconds_of_digits [OF assms(2,3)]
    by simp
  show ?thesis
  proof (cases oc)
    case (Completed r n)
    have "takeWhile (\<lambda>c. c \<noteq> CHR '' '' \<and> c \<noteq> CHR ''<'') x = r"
    proof -
      have "\<not> no_space_byte CHR '' ''" by code_simp
      then have "\<forall>c \<in> set r. c \<noteq> CHR '' '' \<and> c \<noteq> CHR ''<''"
        using assms(1) Completed by (auto simp: list_all_iff)
      moreover have "takeWhile (\<lambda>c. c \<noteq> CHR '' '' \<and> c \<noteq> CHR ''<'') n = []"
        using assms(1) Completed by (cases n) auto
      ultimately show ?thesis using Completed by (simp add: x_def takeWhile_append2)
    qed
    with Completed assms(1) show ?thesis
      unfolding parse_result_def Let_def x_def [symmetric] 1
      using 2 3 by (simp add: x_def)
  next
    case (Refused e n)
    have f: "str_fields (''-1'' @ CHR '' '' # e @ CHR '' '' # n) = ''-1'' # e # str_fields n"
    proof -
      have "ascii_space CHR '' ''" "\<forall>c \<in> set ''-1''. no_space_byte c" by code_simp+
      with assms(1) Refused show ?thesis by (subst str_fields_word; simp add: list_all_iff str_fields_word)
    qed
    then show ?thesis
      unfolding parse_result_def Let_def x_def [symmetric] 1
      using 2 3 Refused by (simp add: x_def)
  qed
qed

lemma head_digit: "\<exists>d r. nat_digits n = d # r \<and> is_digit d \<and> no_space_byte d"
  using set_nat_digits [of n] digit_no_space by (cases "nat_digits n") (auto simp: space_classes(6))

lemma call_head_parsed:
  assumes "call_ok c" "trimmed rest" "rest \<noteq> []"
  shows "trim_space (call_head c @ rest) = call_head c @ rest"
    and "splitPIDPrefix (call_head c @ rest) =
      (int (sc_pid c), clock (sc_hour c) (sc_min c) (sc_sec c) (sc_usec c) @ '' '' @ rest)"
    and "split_time (clock (sc_hour c) (sc_min c) (sc_sec c) (sc_usec c) @ '' '' @ rest) = (te_Timestamp (call_event c), rest)"
proof -
  let ?k = "clock (sc_hour c) (sc_min c) (sc_sec c) (sc_usec c)"
  obtain d r where d: "nat_digits (sc_pid c) = d # r" "no_space_byte d" using head_digit by blast
  then have "trimmed (call_head c @ rest)" using assms(2,3) by (auto simp: trimmed_def call_head_def)
  then show "trim_space (call_head c @ rest) = call_head c @ rest" by (rule trim_space_trimmed)
  have "no_space_byte (digit_char (h mod 10))" for h
    using digit_val_SomeD [OF digit_val_digit_char [of "h mod 10"]] digit_no_space by simp
  moreover have "pad_digits 2 h = [digit_char (h div 10 mod 10), digit_char (h mod 10)]" for h
    by (simp add: numeral_2_eq_2)
  ultimately have "trimmed (?k @ '' '' @ rest)"
    using assms(2,3) by (simp add: trimmed_def clock_def)
  moreover have "?k @ '' '' @ rest \<noteq> []" by simp
  ultimately show "splitPIDPrefix (call_head c @ rest) = (int (sc_pid c), ?k @ '' '' @ rest)"
    using splitPIDPrefix_plain [of "sc_pid c" "?k @ '' '' @ rest"] assms(1) by (simp add: call_head_def call_ok_def)
  show "split_time (?k @ '' '' @ rest) = (te_Timestamp (call_event c), rest)"
    using assms by (subst split_time_clock) (simp_all add: call_ok_def call_event_def)
qed

lemma call_name_parsed:
  assumes "call_ok c"
  shows "index_of ''('' (sc_name c @ ''('' @ r) = Some (length (sc_name c))"
proof -
  have "CHR ''('' \<notin> set (sc_name c)" using assms space_classes(5) by (auto simp: call_ok_def list_all_iff)
  then show ?thesis using index_of_char by simp
qed

lemma ParseLine_call:
  assumes "call_ok c" "list_all ascii_space pad" "sc_args c = [] \<longrightarrow> pad = []"
    and "unmarked (call_line pad c)"
  shows "ParseLine (call_line pad c) = Inr (call_event c)"
proof -
  define tail where "tail = '' = '' @ outcome_text (sc_outcome c) @ '' '' @
    timed (nat_digits (sc_took_sec c)) (pad_digits 6 (sc_took_usec c))"
  define args where "args = join '', '' (sc_args c) @ pad"
  define rest where "rest = sc_name c @ ''('' @ args @ '')'' @ tail"
  have line: "call_line pad c = call_head c @ rest"
    by (simp add: call_line_def call_tail_def rest_def args_def tail_def)
  have "no_space_byte CHR ''>''" by code_simp
  moreover have "no_space_byte (hd (sc_name c))" "sc_name c \<noteq> []"
    using assms(1) space_classes(5) by (auto simp: call_ok_def list_all_iff)
  ultimately have rest: "trimmed rest" "rest \<noteq> []" by (simp_all add: rest_def trimmed_def tail_def timed_def)
  note head = call_head_parsed [OF assms(1) rest]
  obtain d r where d: "call_head c = d # r" "is_digit d" using head_digit [of "sc_pid c"] by (auto simp: call_head_def)
  have "\<not> is_digit CHR ''+''" "\<not> is_digit CHR ''-''" by code_simp+
  then have meta: "\<not> has_prefix (call_head c @ rest) ''+++''" "\<not> has_prefix (call_head c @ rest) ''---''"
    "call_head c @ rest \<noteq> []"
    using d by auto
  have bal: "balanced False args"
    using assms(1,2) balanced_append [OF balanced_append [of True "[]"] balanced_spaces]
      balanced_append [OF balanced_join] balanced_spaces
    by (auto simp: args_def call_ok_def list_all_iff arg_ok_def)
  have close: "close_paren 0 0 False False (''('' @ args @ '')'' @ tail) = Some (length args + 1)"
    using close_paren_balanced [OF bal, of 1 1 "'')'' @ tail"] by simp
  have pargs: "parseArgs (''('' @ args @ '')'') = sc_args c"
    using parseArgs_join [of "sc_args c" pad] assms(1-3) by (simp add: args_def call_ok_def list_all_iff)
  have res: "parse_result tail = Some (te_Result (call_event c), te_Error (call_event c), te_Duration (call_event c))"
    using parse_result_tail [of "sc_outcome c" "sc_took_sec c" "sc_took_usec c"] assms(1)
    by (simp add: tail_def call_ok_def call_event_def)
  have idx: "index_of ''('' rest = Some (length (sc_name c))"
    unfolding rest_def by (rule call_name_parsed [OF assms(1)])
  have call: "parse_call p ts rest = Inr ((call_event c)\<lparr>te_PID := p, te_Timestamp := ts\<rparr>)" for p ts
  proof -
    have t: "take (length (sc_name c)) rest = sc_name c" "drop (length (sc_name c)) rest = ''('' @ args @ '')'' @ tail"
      by (simp_all add: rest_def)
    have u: "take (length args + 1 + 1) (''('' @ args @ '')'' @ tail) = ''('' @ args @ '')''"
      "drop (length args + 1 + 1) (''('' @ args @ '')'' @ tail) = tail" by simp_all
    show ?thesis
      unfolding parse_call_def idx option.case Let_def t close u res prod.case pargs by (simp add: call_event_def)
  qed
  show ?thesis
    unfolding line ParseLine_def head(1) Let_def head(2) prod.case head(3) call
    using assms(4) meta unfolding line unmarked_def by (simp add: call_event_def)
qed

lemma balanced_plain: "list_all (\<lambda>c. c \<notin> set ''(){}[],'' \<and> c \<noteq> CHR 0x22) w \<Longrightarrow> balanced True w"
  by (induction w) (auto intro!: bal_intros)

definition open_call :: strace_call where
  "open_call =
     \<lparr>sc_pid = 17, sc_hour = 6, sc_min = 1, sc_sec = 2, sc_usec = 40, sc_name = ''openat'',
      sc_args = [''AT_FDCWD'', [CHR 0x22] @ ''/a,b'' @ [CHR 0x22], ''O_RDONLY''],
      sc_outcome = Completed ''3'' ''</a,b>'', sc_took_sec = 0, sc_took_usec = 12\<rparr>"

lemma open_call_ok: "call_ok open_call"
proof -
  have "balanced True ''AT_FDCWD''" "balanced True ''O_RDONLY''"
    by (rule balanced_plain, code_simp)+
  moreover have "balanced True ([CHR 0x22] @ ''/a,b'' @ [CHR 0x22])"
    using bal_string [of "''/a,b''" True "[]"] bal_nil by simp
  moreover have "list_all trimmed (sc_args open_call)" "list_all is_word (sc_name open_call)"
    "outcome_ok (sc_outcome open_call)" by code_simp+
  ultimately show ?thesis by (simp add: call_ok_def open_call_def arg_ok_def max_int64_def)
qed

section \<open>Lines in the widths strace uses\<close>

text \<open>
  How strace lays out a call: the blanks after the process, which it pads, those before the closing
  bracket and those by which it aligns the result, and whether it adds the time taken, which a call that
  does not return has not.
\<close>

record layout =
  ly_pid :: string
  ly_close :: string
  ly_align :: string
  ly_timed :: bool

definition layout_ok :: "layout \<Rightarrow> strace_call \<Rightarrow> bool" where
  "layout_ok l c \<longleftrightarrow> ly_pid l \<noteq> [] \<and> list_all ascii_space (ly_pid l) \<and> list_all ascii_space (ly_close l) \<and>
     list_all ascii_space (ly_align l) \<and> (sc_args c = [] \<longrightarrow> ly_close l = []) \<and>
     (ly_timed l \<or> last (outcome_text (sc_outcome c)) \<noteq> CHR ''>'')"

definition printed_line :: "layout \<Rightarrow> strace_call \<Rightarrow> string" where
  "printed_line l c =
     nat_digits (sc_pid c) @ ly_pid l @ clock (sc_hour c) (sc_min c) (sc_sec c) (sc_usec c) @ '' '' @
     sc_name c @ ''('' @ join '', '' (sc_args c) @ ly_close l @ '')'' @ ly_align l @ ''= '' @ outcome_text (sc_outcome c) @
     (if ly_timed l then '' '' @ timed (nat_digits (sc_took_sec c)) (pad_digits 6 (sc_took_usec c)) else [])"

definition printed_event :: "layout \<Rightarrow> strace_call \<Rightarrow> trace_event" where
  "printed_event l c = (if ly_timed l then call_event c else (call_event c)\<lparr>te_Duration := 0\<rparr>)"

lemma splitPIDPrefix_blanks:
  assumes "int n \<le> max_int64" "trimmed rest" "rest \<noteq> []" "sp \<noteq> []" "list_all ascii_space sp"
  shows "splitPIDPrefix (nat_digits n @ sp @ rest) = (int n, rest)"
proof -
  let ?l = "nat_digits n @ sp @ rest"
  obtain d ds where d: "nat_digits n = d # ds" by (cases "nat_digits n") auto
  obtain b bs where b: "sp = b # bs" "ascii_space b" "list_all ascii_space bs" using assms(4,5) by (cases sp) auto
  have dig: "\<forall>c \<in> set (nat_digits n). c \<in> set digits" using set_nat_digits by blast
  have "trimmed ?l" using assms(2,3) d dig digit_no_space by (auto simp: trimmed_def)
  then have tl: "trim_space ?l = ?l" by (rule trim_space_trimmed)
  have "is_digit d" using dig d by (simp add: space_classes(6))
  then have 1: "FindFirst pidRegex ?l = None" using d no_pid_bracket by simp
  have "str_fields (nat_digits n @ b # bs @ rest) = nat_digits n # str_fields (bs @ rest)"
    using dig digit_no_space b(2) by (intro str_fields_word) auto
  moreover have "list_all ascii_space w \<Longrightarrow> str_fields (w @ rest) = str_fields rest" for w
    by (induction w) (simp_all add: str_fields_space)
  ultimately have "str_fields ?l = nat_digits n # str_fields rest" using b by simp
  moreover have "str_fields rest \<noteq> []"
  proof -
    have "str_fields_from acc s \<noteq> []" if "acc \<noteq> []" for acc s
      using that
    proof (induction acc s rule: str_fields_from.induct)
      case (1 acc s)
      then show ?case by (subst str_fields_from.simps) auto
    qed
    moreover have "space_len rest = 0" using assms(2) space_len_hd by (auto simp: trimmed_def)
    ultimately show ?thesis using assms(3) unfolding str_fields_def by (subst str_fields_from.simps) simp
  qed
  then obtain g gs where "str_fields rest = g # gs" by (cases "str_fields rest") auto
  moreover have "atoi (nat_digits n) = Some (int n)"
    using atoi_itoa [of "int n"] assms(1) by (simp add: itoa_def min_int64_def)
  moreover have "trim_space (sp @ rest) = rest"
    using trim_space_within [of sp "[]" rest] assms(2,5) by simp
  ultimately show ?thesis by (simp add: splitPIDPrefix_def tl 1)
qed

lemma parseTrailingDuration_none:
  assumes "x \<noteq> []" "trimmed x" "last x \<noteq> CHR ''>''"
  shows "parseTrailingDuration x = (x, 0)"
proof -
  have "\<not> rx_in durationRegex pre v u" if x: "x = g @ v @ u" for g v u pre
  proof
    assume "rx_in durationRegex pre v u"
    then obtain sp ds fs sp' where v: "v = sp @ timed ds fs @ sp'" "u = []" "list_all is_space sp'"
      by (rule rx_in_duration)
    show False
    proof (cases sp' rule: rev_cases)
      case Nil
      with v x assms(3) show False by (simp add: timed_def)
    next
      case (snoc ys y)
      then have "ascii_space (last x)" using v x space_classes(1) by simp
      moreover have "no_space_byte (last x)" using assms(1,2) by (simp add: trimmed_def)
      ultimately show False by (simp add: no_space_byte_def)
    qed
  qed
  then have "FindFirst durationRegex x = None" unfolding FindFirst_def by (simp add: find_from_None)
  then show ?thesis by (simp add: parseTrailingDuration_def)
qed

lemma parse_result_printed:
  assumes "outcome_ok oc" "sec \<le> 9223372035" "usec < 1000000" "list_all ascii_space al"
    and "timing \<or> last (outcome_text oc) \<noteq> CHR ''>''"
  shows "parse_result (al @ ''= '' @ outcome_text oc @ (if timing then '' '' @ timed (nat_digits sec) (pad_digits 6 usec) else [])) =
    Some (case oc of Completed r n \<Rightarrow> r | Refused e n \<Rightarrow> ''-1'', case oc of Completed r n \<Rightarrow> [] | Refused e n \<Rightarrow> e,
      if timing then int (sec * 1000000000 + usec * 1000) else 0)"
proof -
  define x where "x = outcome_text oc"
  define t where "t = x @ (if timing then '' '' @ timed (nat_digits sec) (pad_digits 6 usec) else [])"
  have x: "x \<noteq> []" "trimmed x" using outcome_trimmed [OF assms(1)] by (simp_all add: x_def)
  have b: "no_space_byte CHR ''=''" "no_space_byte CHR ''>''" "list_all ascii_space '' ''" by code_simp+
  have tt: "trimmed t" "t \<noteq> []" using x b by (simp_all add: trimmed_def timed_def t_def)
  then have "trimmed (''= '' @ t)" using b by (simp add: trimmed_def)
  then have 1: "trim_space (al @ ''= '' @ t) = ''= '' @ t"
    using trim_space_within [of al "[]" "''= '' @ t"] assms(4) by simp
  have 2: "trim_space ('' '' @ t) = t" using trim_space_within [of "'' ''" "[]" t] b tt by simp
  have 3: "parseTrailingDuration t = (x, if timing then int (sec * 1000000000 + usec * 1000) else 0)"
  proof (cases timing)
    case True
    then show ?thesis
      using parseTrailingDuration_timed [OF x digit_run_digits(1) digit_run_digits(2) [of 6]] seconds_of_digits [OF assms(2,3)]
      by (simp add: t_def)
  next
    case False
    then show ?thesis using parseTrailingDuration_none [OF x] assms(5) by (simp add: t_def x_def)
  qed
  have f: "outcome_text oc @ (if timing then '' '' @ timed (nat_digits sec) (pad_digits 6 usec) else []) = t"
    by (simp add: t_def x_def)
  show ?thesis
  proof (cases oc)
    case (Completed r n)
    have "takeWhile (\<lambda>c. c \<noteq> CHR '' '' \<and> c \<noteq> CHR ''<'') x = r"
    proof -
      have "\<not> no_space_byte CHR '' ''" by code_simp
      then have "\<forall>c \<in> set r. c \<noteq> CHR '' '' \<and> c \<noteq> CHR ''<''"
        using assms(1) Completed by (auto simp: list_all_iff)
      moreover have "takeWhile (\<lambda>c. c \<noteq> CHR '' '' \<and> c \<noteq> CHR ''<'') n = []"
        using assms(1) Completed by (cases n) auto
      ultimately show ?thesis using Completed by (simp add: x_def takeWhile_append2)
    qed
    with Completed assms(1) show ?thesis
      unfolding parse_result_def Let_def f 1
      using 2 3 by (simp add: x_def)
  next
    case (Refused e n)
    have "str_fields (''-1'' @ CHR '' '' # e @ CHR '' '' # n) = ''-1'' # e # str_fields n"
    proof -
      have "ascii_space CHR '' ''" "\<forall>c \<in> set ''-1''. no_space_byte c" by code_simp+
      with assms(1) Refused show ?thesis by (subst str_fields_word; simp add: list_all_iff str_fields_word)
    qed
    then show ?thesis
      unfolding parse_result_def Let_def f 1
      using 2 3 Refused by (simp add: x_def)
  qed
qed

lemma ParseLine_printed:
  assumes "call_ok c" "layout_ok l c" "unmarked (printed_line l c)"
  shows "ParseLine (printed_line l c) = Inr (printed_event l c)"
proof -
  define tail where "tail = ly_align l @ ''= '' @ outcome_text (sc_outcome c) @
    (if ly_timed l then '' '' @ timed (nat_digits (sc_took_sec c)) (pad_digits 6 (sc_took_usec c)) else [])"
  define args where "args = join '', '' (sc_args c) @ ly_close l"
  define rest where "rest = sc_name c @ ''('' @ args @ '')'' @ tail"
  let ?k = "clock (sc_hour c) (sc_min c) (sc_sec c) (sc_usec c)"
  have line: "printed_line l c = nat_digits (sc_pid c) @ ly_pid l @ ?k @ '' '' @ rest"
    by (simp add: printed_line_def rest_def args_def tail_def)
  have "no_space_byte CHR ''>''" by code_simp
  then have "tail \<noteq> [] \<and> no_space_byte (last tail)"
    using outcome_trimmed [of "sc_outcome c"] assms(1) by (auto simp: tail_def timed_def trimmed_def call_ok_def)
  moreover have "no_space_byte (hd (sc_name c))" "sc_name c \<noteq> []"
    using assms(1) space_classes(5) by (auto simp: call_ok_def list_all_iff)
  ultimately have rest: "trimmed rest" "rest \<noteq> []" by (simp_all add: rest_def trimmed_def)
  obtain d r where d: "nat_digits (sc_pid c) = d # r" "is_digit d" "no_space_byte d" using head_digit by blast
  have trk: "trimmed (?k @ '' '' @ rest)" "?k @ '' '' @ rest \<noteq> []"
  proof -
    have "no_space_byte (digit_char (h mod 10))" for h
      using digit_val_SomeD [OF digit_val_digit_char [of "h mod 10"]] digit_no_space by simp
    moreover have "pad_digits 2 h = [digit_char (h div 10 mod 10), digit_char (h mod 10)]" for h
      by (simp add: numeral_2_eq_2)
    ultimately show "trimmed (?k @ '' '' @ rest)" using rest by (simp add: trimmed_def clock_def)
  qed simp
  have pid: "splitPIDPrefix (printed_line l c) = (int (sc_pid c), ?k @ '' '' @ rest)"
    unfolding line using assms(1,2) trk by (intro splitPIDPrefix_blanks) (simp_all add: call_ok_def layout_ok_def)
  have time: "split_time (?k @ '' '' @ rest) = (te_Timestamp (call_event c), rest)"
    using assms rest by (subst split_time_clock) (simp_all add: call_ok_def call_event_def)
  have "trimmed (printed_line l c)" using trk d unfolding line by (simp add: trimmed_def)
  then have tr: "trim_space (printed_line l c) = printed_line l c" by (rule trim_space_trimmed)
  have "\<not> is_digit CHR ''+''" "\<not> is_digit CHR ''-''" by code_simp+
  then have meta: "\<not> has_prefix (printed_line l c) ''+++''" "\<not> has_prefix (printed_line l c) ''---''" "printed_line l c \<noteq> []"
    using d by (auto simp: line)
  have bal: "balanced False args"
    using assms(1,2) balanced_append [OF balanced_append [of True "[]"] balanced_spaces]
      balanced_append [OF balanced_join] balanced_spaces
    by (auto simp: args_def call_ok_def list_all_iff arg_ok_def layout_ok_def)
  have close: "close_paren 0 0 False False (''('' @ args @ '')'' @ tail) = Some (length args + 1)"
    using close_paren_balanced [OF bal, of 1 1 "'')'' @ tail"] by simp
  have pargs: "parseArgs (''('' @ args @ '')'') = sc_args c"
    using parseArgs_join [of "sc_args c" "ly_close l"] assms(1,2) by (simp add: args_def call_ok_def list_all_iff layout_ok_def)
  have res: "parse_result tail = Some (te_Result (printed_event l c), te_Error (printed_event l c), te_Duration (printed_event l c))"
    using parse_result_printed [of "sc_outcome c" "sc_took_sec c" "sc_took_usec c" "ly_align l" "ly_timed l"] assms(1,2)
    by (simp add: tail_def call_ok_def call_event_def printed_event_def layout_ok_def)
  have idx: "index_of ''('' rest = Some (length (sc_name c))"
    unfolding rest_def by (rule call_name_parsed [OF assms(1)])
  have call: "parse_call p ts rest = Inr ((printed_event l c)\<lparr>te_PID := p, te_Timestamp := ts\<rparr>)" for p ts
  proof -
    have t: "take (length (sc_name c)) rest = sc_name c" "drop (length (sc_name c)) rest = ''('' @ args @ '')'' @ tail"
      by (simp_all add: rest_def)
    have u: "take (length args + 1 + 1) (''('' @ args @ '')'' @ tail) = ''('' @ args @ '')''"
      "drop (length args + 1 + 1) (''('' @ args @ '')'' @ tail) = tail" by simp_all
    show ?thesis
      unfolding parse_call_def idx option.case Let_def t close u res prod.case pargs
      by (simp add: printed_event_def call_event_def)
  qed
  show ?thesis
    unfolding ParseLine_def tr Let_def pid prod.case time call
    using assms(3) meta unfolding unmarked_def by (simp add: printed_event_def call_event_def)
qed

text \<open>
  C24: a call that strace prints on one line - the process with any blanks after it, the time of the day, the
  name, the arguments with strings and nested brackets, the result with any blanks before it or the error with
  its description, and the time taken or none - is read back as the event with exactly these parts. The
  line must not hold, in a string say, the marks of a call printed in two parts; and when the time taken
  is missing, the outcome must not end in an angle bracket.
\<close>

theorem ParseLine_roundtrip:
  assumes "call_ok c" "layout_ok l c" "unmarked (printed_line l c)"
  shows "ParseLine (printed_line l c) = Inr (printed_event l c)"
  using assms by (rule ParseLine_printed)

theorem ParseLine_roundtrip_witness:
  "let l = \<lparr>ly_pid = ''    '', ly_close = [], ly_align = ''   '', ly_timed = False\<rparr>;
       c = open_call\<lparr>sc_outcome := Refused ''ENOENT'' ''(No such file or directory)''\<rparr>
   in ParseLine (printed_line l c) = Inr (printed_event l c) \<and> te_Result (printed_event l c) = ''-1''"
proof -
  let ?l = "\<lparr>ly_pid = ''    '', ly_close = [], ly_align = ''   '', ly_timed = False\<rparr>"
  let ?c = "open_call\<lparr>sc_outcome := Refused ''ENOENT'' ''(No such file or directory)''\<rparr>"
  have "outcome_ok (sc_outcome ?c)" by code_simp
  then have "call_ok ?c" using open_call_ok by (simp add: call_ok_def)
  moreover have "layout_ok ?l ?c" by code_simp
  moreover have "unmarked (printed_line ?l ?c)" by code_simp
  moreover have "te_Result (printed_event ?l ?c) = ''-1''" by (simp add: printed_event_def call_event_def)
  ultimately show ?thesis using ParseLine_roundtrip [of ?c ?l] by (simp add: Let_def)
qed

section \<open>Calls in two parts\<close>

definition unfinished_line :: "strace_call \<Rightarrow> string" where
  "unfinished_line c = call_head c @ sc_name c @ ''('' @ join '', '' (sc_args c) @ '' <unfinished ...>''"

text \<open>The second part has the time of the call \<open>at\<close>.\<close>

definition resumed_line :: "strace_call \<Rightarrow> strace_call \<Rightarrow> string" where
  "resumed_line again c = call_head again @ ''<... '' @ sc_name c @ '' resumed>'' @ call_tail c"

lemma sublist_extend: "sublist p a \<Longrightarrow> sublist p (a @ b)"
  unfolding sublist_def by (metis append.assoc)

lemma prefix_before: "prefix q (x @ c # r) \<Longrightarrow> c \<notin> set q \<Longrightarrow> prefix q x"
  by (auto simp: prefix_def append_eq_append_conv2 Cons_eq_append_conv)

lemma index_of_mark:
  "\<not> sublist (c # q) x \<Longrightarrow> c \<notin> set q \<Longrightarrow> index_of (c # q) (x @ (c # q) @ r) = Some (length x)"
proof (induction x)
  case (Cons d x)
  have "\<not> prefix (c # q) (d # x @ (c # q) @ r)"
    using Cons.prems prefix_before [of q x c "q @ r"] by (auto simp: sublist_Cons_right)
  with Cons show ?case by (auto simp: sublist_Cons_right)
qed simp

lemma call_rest_trimmed:
  assumes "call_ok c" "no_space_byte (last w)" "w \<noteq> []"
  shows "trimmed (sc_name c @ w)" "sc_name c @ w \<noteq> []"
  using assms space_classes(5) by (auto simp: trimmed_def call_ok_def list_all_iff hd_append)

lemma unfinished_parsed:
  assumes "call_ok c" "sc_args c \<noteq> []" "unmarked (call_line '' '' c)"
  shows "parseUnfinishedTraceLine (unfinished_line c) =
    Some ((int (sc_pid c), sc_name c), call_head c @ sc_name c @ ''('' @ join '', '' (sc_args c))"
proof -
  define w where "w = ''('' @ join '', '' (sc_args c)"
  have mark: "no_space_byte CHR ''>''" "no_space_byte CHR ''(''" "list_all ascii_space '' ''" by code_simp+
  have raw: "unfinished_line c = call_head c @ sc_name c @ w @ '' <unfinished ...>''"
    by (simp add: unfinished_line_def w_def)
  have tr: "trimmed (sc_name c @ w @ '' <unfinished ...>'')" "sc_name c @ w @ '' <unfinished ...>'' \<noteq> []"
    using call_rest_trimmed [OF assms(1), of "w @ '' <unfinished ...>''"] mark by simp_all
  note head = call_head_parsed [OF assms(1) tr]
  have "trimmed (last (sc_args c))" "last (sc_args c) \<noteq> []"
    using assms(1,2) by (auto simp: call_ok_def list_all_iff arg_ok_def)
  moreover have "args \<noteq> [] \<Longrightarrow> last args \<noteq> [] \<Longrightarrow> join '', '' args \<noteq> [] \<and> last (join '', '' args) = last (last args)" for args
  proof (induction "'', ''" args rule: join.induct)
    case (3 x y xs)
    then show ?case by simp
  qed simp_all
  ultimately have "no_space_byte (last w)" using assms(2) by (simp add: w_def trimmed_def)
  then have "trimmed (call_head c @ sc_name c @ w)"
    using head_digit [of "sc_pid c"] by (auto simp: trimmed_def call_head_def w_def)
  then have partial: "trim_space (call_head c @ sc_name c @ w @ '' '') = call_head c @ sc_name c @ w"
    using trim_space_within [of "[]" "'' ''" "call_head c @ sc_name c @ w"] mark by simp
  have "\<not> sublist ''<unfinished ...>'' (call_head c @ sc_name c @ w @ '' '')"
  proof
    assume "sublist ''<unfinished ...>'' (call_head c @ sc_name c @ w @ '' '')"
    moreover have "call_line '' '' c = (call_head c @ sc_name c @ w @ '' '') @ call_tail c"
      by (simp add: call_line_def w_def)
    ultimately have "sublist ''<unfinished ...>'' (call_line '' '' c)" using sublist_extend by metis
    with assms(3) show False by (simp add: unmarked_def)
  qed
  then have index: "index_of ''<unfinished ...>'' ((call_head c @ sc_name c @ w @ '' '') @ ''<unfinished ...>'' @ []) =
      Some (length (call_head c @ sc_name c @ w @ '' ''))"
    by (intro index_of_mark) simp_all
  then have repl: "replace_first (unfinished_line c) ''<unfinished ...>'' [] = call_head c @ sc_name c @ w @ '' ''"
    by (simp add: raw replace_first_def cut_def)
  have has: "contains (unfinished_line c) ''<unfinished ...>''"
    using index index_of_None_iff [of "''<unfinished ...>''" "unfinished_line c"] by (simp add: raw)
  have idx: "index_of ''('' (sc_name c @ w @ '' <unfinished ...>'') = Some (length (sc_name c))"
    unfolding w_def using call_name_parsed [OF assms(1)] by simp
  show ?thesis
    unfolding parseUnfinishedTraceLine_def raw head(1) Let_def head(2) prod.case head(3)
    by (simp only: has [unfolded raw] repl [unfolded raw] not_True_eq_False if_False snd_conv idx option.case partial)
       (simp add: w_def)
qed

lemma resumed_merged:
  assumes "call_ok c" "call_ok again" "sc_pid again = sc_pid c" "CHR 0x0A \<notin> set (call_tail c)"
    and "map_of pending (int (sc_pid c), sc_name c) = Some (call_head c @ sc_name c @ ''('' @ join '', '' (sc_args c))"
  shows "mergeResumedTraceLine (resumed_line again c) pending =
    Some (call_line '' '' c, (int (sc_pid c), sc_name c))"
proof -
  define tail where "tail = call_tail c"
  define rest where "rest = ''<...'' @ '' '' @ sc_name c @ '' '' @ ''resumed>'' @ tail"
  have mark: "no_space_byte CHR ''>''" "no_space_byte CHR ''<''" "no_space_byte CHR '')''" "list_all is_space '' ''"
    "\<not> is_space CHR ''r''" "\<not> is_space CHR '')''" "\<not> is_word CHR '' ''" by code_simp+
  have tail: "trimmed tail" "tail \<noteq> []" "hd tail = CHR '')''" using mark by (simp_all add: tail_def call_tail_def trimmed_def timed_def)
  have rest: "trimmed rest" "rest \<noteq> []" using tail mark by (simp_all add: rest_def trimmed_def)
  note head = call_head_parsed [OF assms(2) rest]
  obtain n ns where n: "sc_name c = n # ns" "is_word n" "list_all is_word ns" "\<not> is_space n"
    using assms(1) space_classes(5) by (cases "sc_name c") (auto simp: call_ok_def list_all_iff)
  have p0: "prefers (RStr ''<...'') ([], rest, []) (rev ''<...'', '' '' @ sc_name c @ '' '' @ ''resumed>'' @ tail, [])"
    by (simp add: rest_def RStr_def RChr_def prefers_def)
  have blank: "prefers (RPlus (RCls is_space)) (pre, '' '' @ post, cs) (CHR '' '' # pre, post, cs)"
    if "post = [] \<or> \<not> is_space (hd post)" for pre post cs
    using prefers_seq [OF prefers_cls prefers_star_run [of is_space "[]" post "CHR '' '' # pre" cs]] that mark(4) by simp
  have p2: "prefers (RPlus (RCls is_word)) (pre, sc_name c @ '' '' @ ''resumed>'' @ tail, cs) (rev (sc_name c) @ pre, '' '' @ ''resumed>'' @ tail, cs)" for pre cs
    using prefers_seq [OF prefers_cls prefers_star_run [of is_word ns "'' '' @ ''resumed>'' @ tail" "n # pre" cs]] n mark by simp
  have p4: "prefers (RStr ''resumed>'') (pre, ''resumed>'' @ tail, cs) (rev ''resumed>'' @ pre, tail, cs)" for pre cs
    by (simp add: RStr_def RChr_def prefers_def)
  have p5: "prefers spaces_rx (pre, tail, cs) (pre, tail, cs)" for pre cs
    using prefers_star_run [of is_space "[]" tail pre cs] tail mark by (simp add: spaces_rx_def)
  have p6: "prefers (RStar (RCls (\<lambda>c. c \<noteq> CHR 0x0A))) (pre, tail, cs) (rev tail @ pre, [], cs)" for pre cs
    using prefers_star_run [of "\<lambda>c. c \<noteq> CHR 0x0A" tail "[]" pre cs] assms(4) by (auto simp: tail_def list_all_iff)
  have p7: "prefers REnd (pre, [], cs) (pre, [], cs)" for pre cs by (simp add: prefers_def)
  let ?k = "length (sc_name c)"
  have "\<exists>st. prefers (RSeqs [RStr ''<...'', RPlus (RCls is_space), RCap 1 (RPlus (RCls is_word)), RPlus (RCls is_space),
      RStr ''resumed>'', spaces_rx, RCap 2 (RStar (RCls (\<lambda>c. c \<noteq> CHR 0x0A))), REnd]) ([], rest, []) st \<and>
      map_of (snd (snd st)) 1 = Some (5, 5 + ?k) \<and> map_of (snd (snd st)) 2 = Some (14 + ?k, length rest)"
    unfolding RSeqs.simps
    using prefers_seq [OF p0 prefers_seq [OF blank [of "sc_name c @ '' '' @ ''resumed>'' @ tail" "rev ''<...''" "[]"]
      prefers_seq [OF prefers_cap [OF p2, of 1] prefers_seq [OF blank [of "''resumed>'' @ tail"]
      prefers_seq [OF p4 prefers_seq [OF p5 prefers_seq [OF prefers_cap [OF p6, of 2] p7]]]]]]] n mark
    by (intro exI conjI) (auto simp: rest_def)
  then obtain f where f: "FindFirst resumedRegex rest = Some f"
    "map_of (rf_groups f) 1 = Some (5, 5 + ?k)" "map_of (rf_groups f) 2 = Some (14 + ?k, length rest)"
    using FindFirst_begin_prefers by (fastforce simp: resumedRegex_def RSeqs_cons found_at_def)
  have sub: "submatch rest f 1 = sc_name c" "submatch rest f 2 = tail"
    proof -
      show "submatch rest f 1 = sc_name c"
        by (simp only: submatch_def group_bounds_def f(2) option.case prod.case) (simp add: rest_def substr_def)
      have "rest = (''<... '' @ sc_name c @ '' resumed>'') @ tail" "14 + ?k = length (''<... '' @ sc_name c @ '' resumed>'')"
        by (simp_all add: rest_def)
      then have "drop (14 + ?k) rest = tail" "length rest - (14 + ?k) = length tail" by (metis append_eq_conv_conj, simp)
      then show "submatch rest f 2 = tail"
        by (simp only: submatch_def group_bounds_def f(3) option.case prod.case substr_def take_all_iff)
    qed
  have "trimmed (call_line '' '' c)"
    using head_digit [of "sc_pid c"] mark by (auto simp: trimmed_def call_line_def call_head_def call_tail_def timed_def)
  then have merged: "trim_space ((call_head c @ sc_name c @ ''('' @ join '', '' (sc_args c)) @ '' '' @ trim_space tail) = call_line '' '' c"
    using trim_space_trimmed [OF tail(1)] trim_space_trimmed by (simp add: call_line_def tail_def)
  have line: "resumed_line again c = call_head again @ rest" by (simp add: resumed_line_def rest_def tail_def)
  show ?thesis
    unfolding mergeResumedTraceLine_def line head(1) Let_def head(2) prod.case head(3) snd_conv f(1) option.case sub
    using assms(3,5) merged by simp
qed

section \<open>Reading a trace\<close>

declare read_lines.simps [simp del]

definition add_events :: "trace_event list \<Rightarrow> trace_read \<Rightarrow> trace_read" where
  "add_events evs res = res\<lparr>tr_Events := tr_Events res @ evs\<rparr>"

lemma add_events_simps [simp]:
  "add_events [] res = res" "add_events evs (add_events evs' res) = add_events (evs' @ evs) res"
  "tr_Events (add_events evs res) = tr_Events res @ evs"
  by (simp_all add: add_events_def)

definition plain_call :: "strace_call \<Rightarrow> bool" where
  "plain_call c \<longleftrightarrow> call_ok c \<and> unmarked (call_line [] c)"

lemma plain_call_line:
  assumes "plain_call c"
  shows "call_line [] c \<noteq> []" "parseUnfinishedTraceLine (call_line [] c) = None"
    "\<not> contains (call_line [] c) ''<... ''" "add_line (call_line [] c) res = add_events [call_event c] res"
proof -
  have "trimmed (call_line [] c)"
  proof -
    have "no_space_byte CHR ''>''" by code_simp
    then show ?thesis
      using head_digit [of "sc_pid c"] by (auto simp: trimmed_def call_line_def call_head_def call_tail_def timed_def)
  qed
  then have tr: "trim_space (call_line [] c) = call_line [] c" by (rule trim_space_trimmed)
  have un: "\<not> contains (call_line [] c) ''<unfinished ...>''" "\<not> contains (call_line [] c) ''<... ''"
    using assms by (simp_all add: plain_call_def unmarked_def)
  show "call_line [] c \<noteq> []" using head_digit [of "sc_pid c"] by (auto simp: call_line_def call_head_def)
  show "parseUnfinishedTraceLine (call_line [] c) = None"
    unfolding parseUnfinishedTraceLine_def tr Let_def by (rule if_P [OF un(1)])
  show "\<not> contains (call_line [] c) ''<... ''" by (rule un(2))
  have "ParseLine (call_line [] c) = Inr (call_event c)"
    using assms by (intro ParseLine_call) (simp_all add: plain_call_def)
  then show "add_line (call_line [] c) res = add_events [call_event c] res" by (simp add: add_line_def add_events_def)
qed

lemma read_plain_calls:
  "list_all plain_call cs \<Longrightarrow> length (tr_Events res) + length cs \<le> n \<Longrightarrow>
   read_lines n (map (call_line []) cs @ ls) pending noted res =
   read_lines n ls pending noted (add_events (map call_event cs) res)"
proof (induction cs arbitrary: res)
  case (Cons c cs)
  have step: "read_lines n (call_line [] c # l) pending noted res =
      read_lines n l pending noted (add_events [call_event c] res)" for l
    using Cons.prems plain_call_line [of c] by (subst read_lines.simps) simp
  from Cons show ?case by (simp add: step)
qed simp

text \<open>
  Calls that strace prints while another one is running do not disturb it: the call is put together
  from its two parts and reported, after the others, as the event it would have been in one line, and
  nothing is counted as skipped.
\<close>

theorem resumed_call_read:
  assumes "call_ok c" "sc_args c \<noteq> []" "unmarked (call_line '' '' c)" "CHR 0x0A \<notin> set (call_tail c)"
    and "call_ok again" "sc_pid again = sc_pid c" "\<not> contains (resumed_line again c) ''<unfinished ...>''"
    and "list_all plain_call cs" "length (tr_Events res) + length cs < n"
  shows "read_lines n (unfinished_line c # map (call_line []) cs @ [resumed_line again c]) [] False res =
    res\<lparr>tr_Events := tr_Events res @ map call_event cs @ [call_event c]\<rparr>"
proof -
  define key where "key = (int (sc_pid c), sc_name c)"
  define partial where "partial = call_head c @ sc_name c @ ''('' @ join '', '' (sc_args c)"
  define evs where "evs = map call_event cs"
  have un: "parseUnfinishedTraceLine (unfinished_line c) = Some (key, partial)" "unfinished_line c \<noteq> []"
    using unfinished_parsed [OF assms(1-3)] by (simp_all add: key_def partial_def unfinished_line_def)
  have merged: "mergeResumedTraceLine (resumed_line again c) [(key, partial)] = Some (call_line '' '' c, key)"
    using resumed_merged [OF assms(1,5,6,4), of "[(key, partial)]"] by (simp add: key_def partial_def)
  have tr: "trim_space (resumed_line again c) = resumed_line again c"
  proof -
    have "no_space_byte CHR ''>''" by code_simp
    then have "trimmed (resumed_line again c)"
      using head_digit [of "sc_pid again"] by (auto simp: trimmed_def resumed_line_def call_head_def call_tail_def timed_def)
    then show ?thesis by (rule trim_space_trimmed)
  qed
  have re: "parseUnfinishedTraceLine (resumed_line again c) = None" "resumed_line again c \<noteq> []"
    using assms(7) by (simp_all add: parseUnfinishedTraceLine_def tr Let_def)
      (simp add: resumed_line_def)
  have has: "contains (resumed_line again c) ''<... ''"
    by (simp add: resumed_line_def sublist_append)
  have ev: "add_line (call_line '' '' c) r = add_events [call_event c] r" for r
  proof -
    have "list_all ascii_space '' ''" by code_simp
    from ParseLine_call [OF assms(1) this _ assms(3)] assms(2) show ?thesis
      by (simp add: add_line_def add_events_def)
  qed
  have "read_lines n (unfinished_line c # map (call_line []) cs @ [resumed_line again c]) [] False res =
      read_lines n (map (call_line []) cs @ [resumed_line again c]) [(key, partial)] False res"
    using un assms(9) by (subst read_lines.simps) simp
  also have "\<dots> = read_lines n [resumed_line again c] [(key, partial)] False (add_events evs res)"
    using read_plain_calls [OF assms(8)] assms(9) by (simp add: evs_def)
  also have "\<dots> = add_events [call_event c] (add_events evs res)"
    using re has merged ev assms(9) by (simp add: read_lines.simps evs_def end_of_trace_def)
  finally show ?thesis by (simp add: add_events_def evs_def)
qed

theorem resumed_call_read_witness:
  "read_lines 2 [unfinished_line open_call, resumed_line open_call open_call] [] False
     \<lparr>tr_Events = [], tr_Partial = False, tr_SkippedEvents = 0, tr_Notes = []\<rparr> =
   \<lparr>tr_Events = [call_event open_call], tr_Partial = False, tr_SkippedEvents = 0, tr_Notes = []\<rparr>"
proof -
  have "unmarked (call_line '' '' open_call)" "\<not> contains (resumed_line open_call open_call) ''<unfinished ...>''"
    "CHR 0x0A \<notin> set (call_tail open_call)" by code_simp+
  moreover have "sc_args open_call \<noteq> []" by (simp add: open_call_def)
  ultimately show ?thesis
    using resumed_call_read [OF open_call_ok _ _ _ open_call_ok, of "[]"
        "\<lparr>tr_Events = [], tr_Partial = False, tr_SkippedEvents = 0, tr_Notes = []\<rparr>" 2]
    by simp
qed

text \<open>Whatever the lines are, no more events are read than asked for, and none is dropped silently.\<close>

lemma add_line_events: "length (tr_Events (add_line l res)) \<le> Suc (length (tr_Events res))"
  "tr_Partial (add_line l res) = tr_Partial res" "tr_SkippedEvents (add_line l res) = tr_SkippedEvents res"
  by (auto simp: add_line_def split: sum.split)

lemma read_lines_bounded:
  "length (tr_Events res) \<le> n \<Longrightarrow> length (tr_Events (read_lines n ls pending noted res)) \<le> n"
proof (induction ls arbitrary: pending noted res)
  case (Cons l ls)
  have "length (tr_Events (add_line m res)) \<le> n" if "\<not> n \<le> length (tr_Events res)" for m
    using add_line_events(1) [of m res] that by simp
  with Cons show ?case
    by (subst read_lines.simps) (simp add: end_of_trace_def split: option.split prod.split)
qed (simp add: read_lines.simps end_of_trace_def)

definition accounted :: "trace_read \<Rightarrow> bool" where
  "accounted res \<longleftrightarrow> tr_SkippedEvents res = 0 \<or> tr_Partial res"

lemma accounted_rules [simp]:
  "accounted (add_line l res) = accounted res" "accounted (end_of_trace pending noted res) \<longleftrightarrow> pending \<noteq> [] \<or> accounted res"
  "tr_Partial res \<Longrightarrow> accounted res"
  by (auto simp: accounted_def add_line_events end_of_trace_def)

lemma read_lines_accounted: "accounted res \<Longrightarrow> accounted (read_lines n ls pending noted res)"
proof (induction ls arbitrary: pending noted res)
  case (Cons l ls)
  then show ?case by (subst read_lines.simps) (simp split: option.split prod.split)
qed (simp add: read_lines.simps)

definition nothing_read :: trace_read where
  "nothing_read = \<lparr>tr_Events = [], tr_Partial = False, tr_SkippedEvents = 0, tr_Notes = []\<rparr>"

text \<open>
  Reading a trace file of any content gives at most as many events as asked for, and a result that
  left a call out says so: it is marked partial.
\<close>

theorem readTraceFile_bounded:
  "length (tr_Events (snd (readTraceFile n content nothing_read))) \<le> n \<and>
   accounted (snd (readTraceFile n content nothing_read))"
proof -
  have "length (tr_Events (read_lines n ls [] False res)) \<le> n \<and> accounted (read_lines n ls [] False res)"
    if "tr_Events res = []" "tr_SkippedEvents res = 0" for ls res
    using that read_lines_bounded [of res n] read_lines_accounted [of res] by (simp add: accounted_def)
  then show ?thesis
    by (cases content) (simp_all add: readTraceFile_def nothing_read_def accounted_def split: prod.split)
qed

end
