(* ===== verification/Trace_Kernel.thy ===== *)
theory Trace_Kernel
  imports Trace_Runner Trace_Correct
begin

text \<open>
  From the kernel to a finding: the address the eBPF backend prints is the one the analyzer reads, so a
  refused connection of a traced process is reported with its host and port.
\<close>

section \<open>Literals in a text\<close>

lemma literal_later:
  assumes "lit \<noteq> []" "last lit \<notin> set (a @ butlast lit)" "i < length a"
  shows "\<not> prefix lit (drop i (a @ lit @ rest))"
proof
  let ?s = "a @ lit @ rest" and ?n = "length lit - 1"
  assume p: "prefix lit (drop i ?s)"
  then obtain z where z: "drop i ?s = lit @ z" by (auto simp: prefix_def)
  have n: "i + ?n < length (a @ butlast lit)" "?n < length lit" using assms(1,3) by (cases lit; simp)+
  have "lit ! ?n = drop i ?s ! ?n" unfolding z using n(2) by (simp add: nth_append)
  also have "\<dots> = ?s ! (i + ?n)" using assms(3) by (subst nth_drop) simp_all
  also have "?s = (a @ butlast lit) @ last lit # rest" using assms(1) by simp
  also have "((a @ butlast lit) @ last lit # rest) ! (i + ?n) = (a @ butlast lit) ! (i + ?n)"
    using n(1) by (simp only: nth_append) simp
  finally have "lit ! ?n \<in> set (a @ butlast lit)" using nth_mem [OF n(1)] by simp
  then show False using assms(1,2) by (simp add: last_conv_nth)
qed

lemma rx_match_literal: "\<not> prefix lit post \<Longrightarrow> rs \<noteq> [] \<Longrightarrow> rx_match (RSeqs (RStr lit # rs)) (pre, post, cs) = []"
proof (rule ccontr)
  assume a: "\<not> prefix lit post" "rs \<noteq> []" "rx_match (RSeqs (RStr lit # rs)) (pre, post, cs) \<noteq> []"
  obtain pre' post' cs' where "(pre', post', cs') \<in> set (rx_match (RSeqs (RStr lit # rs)) (pre, post, cs))"
    using last_in_set [OF a(3)] by (metis prod_cases3)
  from rx_match_sound [OF this] obtain w where "post = w @ post'" "rx_in (RSeqs (RStr lit # rs)) pre w post'" by blast
  then show False using a(1) by (auto simp: rx_in_Seqs rx_in_Str)
qed

lemma find_from_skip:
  "(\<And>i. i < length a \<Longrightarrow> rx_match r (rev (take i a) @ pre, drop i a @ post, []) = []) \<Longrightarrow>
   find_from r pre (a @ post) = find_from r (rev a @ pre) post"
proof (induction a arbitrary: pre)
  case (Cons c a)
  have "rx_match r (pre, c # a @ post, []) = []" using Cons.prems [of 0] by simp
  then have "find_from r pre (c # a @ post) = find_from r (c # pre) (a @ post)"
    by (simp add: find_from.simps [of r pre])
  moreover have "find_from r (c # pre) (a @ post) = find_from r (rev a @ c # pre) post"
  proof (rule Cons.IH)
    fix i assume "i < length a"
    then show "rx_match r (rev (take i a) @ c # pre, drop i a @ post, []) = []"
      using Cons.prems [of "Suc i"] by simp
  qed
  ultimately show ?case by simp
qed simp

lemma prefers_str: "prefers (RStr s) (pre, s @ post, cs) (rev s @ pre, post, cs)"
proof (induction s arbitrary: pre)
  case Nil
  then show ?case by (simp add: RStr_def prefers_eps)
next
  case (Cons c s)
  show ?case
  proof (cases s)
    case Nil
    then show ?thesis by (simp add: RStr_def prefers_chr)
  next
    case (Cons d s')
    have "RStr (c # s) = RSeq (RChr c) (RStr s)" by (simp add: RStr_def Cons)
    then show ?thesis using prefers_seq [OF prefers_chr Cons.IH [of "c # pre"]] by simp
  qed
qed

text \<open>A literal, a captured run of characters of a class, and something that follows it.\<close>

lemma first_group_run:
  assumes "lit \<noteq> []" "last lit \<notin> set (a @ butlast lit)" "w \<noteq> []" "list_all P w" "rest = [] \<or> \<not> P (hd rest)"
    and "\<And>pre cs. prefers r (pre, rest, cs) (rev v @ pre, rest', cs)"
  shows "first_group (RSeqs [RStr lit, RCap 1 (RPlus (RCls P)), r]) (a @ lit @ w @ rest) = Some w"
proof -
  let ?r = "RSeqs [RStr lit, RCap 1 (RPlus (RCls P)), r]" and ?p = "rev (a @ lit)"
  have skip: "find_from ?r [] (a @ lit @ w @ rest) = find_from ?r (rev a) (lit @ w @ rest)"
  proof -
    have "rx_match ?r (rev (take i a) @ [], drop i a @ lit @ w @ rest, []) = []" if "i < length a" for i
      using literal_later [OF assms(1,2) that, of "w @ rest"] that by (intro rx_match_literal) simp_all
    from find_from_skip [OF this] show ?thesis by simp
  qed
  obtain c w' where w: "w = c # w'" using assms(3) by (cases w) auto
  have "prefers (RPlus (RCls P)) (?p, w @ rest, []) (rev w @ ?p, rest, [])"
    using prefers_seq [OF prefers_cls [of P c ?p "w' @ rest" "[]"] prefers_star_run [of P w' rest "c # ?p" "[]"]]
      assms(4,5) by (simp add: w)
  from prefers_cap [OF this, of 1]
  have cap: "prefers (RCap 1 (RPlus (RCls P))) (?p, w @ rest, [])
      (rev w @ ?p, rest, [(1, length (a @ lit), length (a @ lit) + length w)])" by (simp add: add.commute)
  have "prefers ?r (rev a, lit @ w @ rest, [])
      (rev v @ rev w @ ?p, rest', [(1, length (a @ lit), length (a @ lit) + length w)])"
    using prefers_seq [OF prefers_str [of lit "rev a" "w @ rest" "[]"] prefers_seq [OF _ assms(6)]] cap by simp
  from find_from_prefers [OF this]
  show ?thesis unfolding first_group_def FindFirst_def skip
    by (simp add: found_at_def submatch_def group_bounds_def substr_def)
qed

lemma first_group_none: "c \<in> set lit \<Longrightarrow> c \<notin> set s \<Longrightarrow> rs \<noteq> [] \<Longrightarrow> first_group (RSeqs (RStr lit # rs)) s = None"
proof -
  assume a: "c \<in> set lit" "c \<notin> set s" "rs \<noteq> []"
  have "\<not> prefix lit t" if "suffix t s" for t
    using a(1,2) set_mono_prefix set_mono_suffix [OF that] by blast
  then have "find_from (RSeqs (RStr lit # rs)) [] s = find_from (RSeqs (RStr lit # rs)) (rev s) []"
    using find_from_skip [of s "RSeqs (RStr lit # rs)" "[]" "[]"] a(3)
    by (simp add: rx_match_literal suffix_drop)
  moreover have "rx_match (RSeqs (RStr lit # rs)) (rev s, [], []) = []"
    using a by (intro rx_match_literal) auto
  ultimately show ?thesis by (simp add: first_group_def FindFirst_def find_from.simps [of _ "rev s" "[]"])
qed

section \<open>The address of a kernel event\<close>

lemma itoa_digits: "0 \<le> n \<Longrightarrow> itoa n \<noteq> [] \<and> list_all is_digit (itoa n)"
  using all_digits [OF set_nat_digits] by (simp add: itoa_def)

lemma ipv4_chars: "ipv4_text a \<noteq> [] \<and> set (ipv4_text a) \<subseteq> insert CHR ''.'' {c. is_digit c}"
proof -
  have d: "itoa (uint (x :: 32 word)) \<noteq> [] \<and> set (itoa (uint x)) \<subseteq> {c. is_digit c}" for x
    using itoa_digits [of "uint x"] by (auto simp: list_all_iff)
  show ?thesis using d unfolding ipv4_text_def by (auto simp: join_Cons)
qed

lemma ebpf_address_parts:
  assumes "ke_Family e = 2" "ke_Port e \<noteq> 0"
  shows "extractHostPort [ebpfSockaddrArg e] =
         (ipv4_text (ke_Addr4 e), itoa (uint (ke_Port e)), ebpfSockaddrArg e)"
proof -
  let ?ip = "ipv4_text (ke_Addr4 e)" and ?port = "itoa (uint (ke_Port e))"
  let ?a = "''{sa_family=AF_INET, ''" and ?b = "''), sin_addr=inet_addr(''" and ?q = "[CHR 0x22]"
  have arg: "ebpfSockaddrArg e = ?a @ ''sin_port=htons('' @ ?port @ ?b @ ?q @ ?ip @ ?q @ '')}''"
    using assms by (simp add: ebpfSockaddrArg_def)
  have port: "?port \<noteq> []" "list_all is_digit ?port" using itoa_digits [of "uint (ke_Port e)"] by simp_all
  have no: "\<not> is_digit CHR '')''" "\<not> is_digit CHR 0x22" "\<not> is_digit CHR ''u''" by code_simp+
  have h: "first_group htonsRegex (ebpfSockaddrArg e) = Some ?port"
    unfolding htonsRegex_def digits_rx_def arg
    by (rule first_group_run [where v = "'')''"]) (use port no in \<open>auto intro: prefers_chr\<close>)
  have quote: "CHR 0x22 \<notin> set ?port" "CHR 0x22 \<notin> set ?ip" "CHR ''u'' \<notin> set ?port" "CHR ''u'' \<notin> set ?ip"
    using port(2) ipv4_chars [of "ke_Addr4 e"] no by (auto simp: list_all_iff)
  have arg2: "ebpfSockaddrArg e =
      (?a @ ''sin_port=htons('' @ ?port @ ''), sin_addr='') @ (''inet_addr('' @ ?q) @ ?ip @ (?q @ '')}'')"
    by (simp add: arg)
  have i: "first_group inetAddrRegex (ebpfSockaddrArg e) = Some ?ip"
    unfolding inetAddrRegex_def not_quote_def arg2
    by (rule first_group_run [where v = "?q @ '')''" and rest' = "''}''"])
      (use quote ipv4_chars [of "ke_Addr4 e"] prefers_str [of "?q @ '')''" _ "''}''"] in \<open>auto simp: list_all_iff\<close>)
  have u: "first_group unixPathRegex (ebpfSockaddrArg e) = None"
    unfolding unixPathRegex_def by (rule first_group_none [where c = "CHR ''u''"]) (use quote in \<open>simp_all add: arg\<close>)
  have "contains (ebpfSockaddrArg e) ''sa_family=''"
    unfolding arg using sublist_mid [of "''sa_family=''" "''{''"] by simp
  then show ?thesis using h i u by (simp add: extractHostPort_def host_port_arg_def Let_def)
qed

lemma refused_result: "ebpfResultAndError (- 111) = (''-1'', ''ECONNREFUSED'')"
  by code_simp

lemma port_not_dns: "p \<noteq> (53 :: 32 word) \<Longrightarrow> itoa (uint p) \<noteq> ''53''"
proof
  assume p: "p \<noteq> 53" "itoa (uint p) = ''53''"
  have "uint p \<le> max_int64" using uint_bounded [of p] by (simp add: max_int64_def)
  then have "atoi (itoa (uint p)) = Some (uint p)" by (intro atoi_itoa) (simp_all add: min_int64_def order_trans [of _ 0])
  moreover have "atoi ''53'' = Some 53" by code_simp
  ultimately have "uint p = uint (53 :: 32 word)" using p(2) by simp
  then show False using p(1) by (simp only: word_uint_eq_iff)
qed

text \<open>Every key of a refused connection is kept: it counts as seen by the key itself.\<close>

lemma firsts_key:
  "(k, g k, evs) \<in> set xs \<Longrightarrow> (\<And>x. x \<in> set xs \<Longrightarrow> fst (snd x) = g (fst x)) \<Longrightarrow> inj g \<Longrightarrow> g k \<notin> set seen \<Longrightarrow>
   k \<in> fst ` set (firsts seen xs)"
proof (induction xs arbitrary: seen)
  case (Cons x xs)
  have x: "fst (snd x) = g (fst x)" using Cons.prems(2) by simp
  show ?case
  proof (cases "fst x = k")
    case True
    then show ?thesis using x Cons.prems(4) by simp
  next
    case False
    then have "(k, g k, evs) \<in> set xs" using Cons.prems(1) by auto
    moreover have "g k \<noteq> g (fst x)" using False Cons.prems(3) by (auto dest: injD)
    ultimately have "k \<in> fst ` set (firsts seen xs)" "k \<in> fst ` set (firsts (fst (snd x) # seen) xs)"
      using Cons.prems x by (auto intro!: Cons.IH)
    then show ?thesis by simp
  qed
qed simp

lemma event_classes:
  "collectDNSEvidence ev = Some (c, x) \<Longrightarrow> c = DNSFailure"
  "file_event ev = Some (c, x) \<Longrightarrow> c = ExecFailed \<or> c = FileNotFound"
  "permission_event ev = Some (c, x) \<Longrightarrow> c = PermDenied"
  "bind_event ev = Some (c, x) \<Longrightarrow> c = AddrInUse"
  by (auto simp: collectDNSEvidence_def Let_def split: prod.splits if_splits)
     (auto simp: file_event_def permission_event_def bind_event_def Let_def split: prod.splits if_splits)

lemma refused_event_seen: "refused_event ev = Some (c, x) \<Longrightarrow> fst (snd x) = fst x @ ''|ECONNREFUSED''"
  by (auto simp: refused_event_def Let_def split: prod.splits if_splits)

lemma refused_contribution:
  assumes "contribution_of ev = Some (ConnRefused, x)"
  shows "fst (snd x) = fst x @ ''|ECONNREFUSED''"
proof -
  from assms have "collectDNSEvidence ev = Some (ConnRefused, x) \<or> file_event ev = Some (ConnRefused, x) \<or>
      permission_event ev = Some (ConnRefused, x) \<or> bind_event ev = Some (ConnRefused, x) \<or>
      refused_event ev = Some (ConnRefused, x)"
    unfolding contribution_of_def by (simp split: if_splits option.splits)
  then show ?thesis using event_classes [of ev ConnRefused x] refused_event_seen [of ev ConnRefused x] by auto
qed

lemma refused_seen:
  assumes "x \<in> set (contributions ConnRefused events)"
  shows "fst (snd x) = fst x @ ''|ECONNREFUSED''"
proof -
  from assms obtain ev where "contribution_of ev = Some (ConnRefused, x)"
    unfolding contributions_def of_class_def by (auto split: option.splits if_splits)
  then show ?thesis by (rule refused_contribution)
qed

lemma refused_keys:
  "(k, k @ ''|ECONNREFUSED'', evs) \<in> set (contributions ConnRefused events) \<Longrightarrow>
   k \<in> fst ` set (firsts [] (contributions ConnRefused events))"
  using firsts_key [of k "\<lambda>k. k @ ''|ECONNREFUSED''" evs "contributions ConnRefused events" "[]"] refused_seen
  by (simp add: inj_def)

text \<open>Refused connections listed under the same host and port give the same evidence.\<close>

lemma raw_address_letters: "extractHostPort args = (h, p, raw) \<Longrightarrow> raw = [] \<or> CHR ''s'' \<in> set raw"
proof -
  have step: "snd (snd (host_port_arg a acc)) = snd (snd acc) \<or> CHR ''s'' \<in> set (snd (snd (host_port_arg a acc)))" for a acc
  proof -
    have "CHR ''s'' \<in> set a" if "contains a ''sa_family='' \<or> contains a ''sin_port'' \<or> contains a ''sun_path''"
      using that set_mono_sublist [of _ a] by fastforce
    then show ?thesis by (cases acc) (auto simp: host_port_arg_def Let_def split: option.splits)
  qed
  have "snd (snd (fold host_port_arg args acc)) = snd (snd acc) \<or> CHR ''s'' \<in> set (snd (snd (fold host_port_arg args acc)))" for acc
  proof (induction args arbitrary: acc)
    case (Cons a args)
    show ?case using Cons [of "host_port_arg a acc"] step [of a acc] by auto
  qed simp
  from this [of "([], [], [])"] show "extractHostPort args = (h, p, raw) \<Longrightarrow> ?thesis" by (simp add: extractHostPort_def)
qed

lemma colon_split:
  assumes "h @ '':'' @ p = ip @ '':'' @ port" "CHR '':'' \<notin> set ip" "CHR '':'' \<notin> set port"
  shows "h = ip \<and> p = port"
proof -
  have "split_at '':'' (h @ '':'' @ p) = split_at '':'' h @ split_at '':'' p" by (simp only: split_at_append)
  moreover have "split_at '':'' (ip @ '':'' @ port) = [ip] @ [port]"
    using assms(2,3) split_at_single [of "'':''" ip] split_at_single [of "'':''" port]
    by (simp only: split_at_append sublist_single) simp
  ultimately have "split_at '':'' h @ split_at '':'' p = [ip, port]" using assms(1) by simp
  moreover have "split_at '':'' h \<noteq> []" "split_at '':'' p \<noteq> []" by (simp_all add: split_at_not_Nil)
  ultimately have "split_at '':'' h = [ip]" "split_at '':'' p = [port]"
    by (cases "split_at '':'' h"; cases "split_at '':'' p"; auto simp: append_eq_Cons_conv)+
  then show ?thesis by (metis join.simps(2) join_split_at)
qed

lemma refused_same_key:
  assumes "(ip @ '':'' @ port, s, es) \<in> set (contributions ConnRefused events)"
    and "CHR '':'' \<notin> set ip" "CHR '':'' \<notin> set port" "CHR ''s'' \<notin> set (ip @ '':'' @ port)"
  shows "s = (ip @ '':'' @ port) @ ''|ECONNREFUSED'' \<and>
    es = [mk_ev ''trace_connect_host'' ip, mk_ev ''trace_connect_port'' port, mk_ev ''trace_errno'' ''ECONNREFUSED'']"
proof -
  let ?k = "ip @ '':'' @ port"
  from assms(1) obtain ev where "contribution_of ev = Some (ConnRefused, ?k, s, es)"
    unfolding contributions_def of_class_def by (auto split: option.splits if_splits)
  then have "reports ev ConnRefused ?k s es" by (rule contribution_reports)
  then show ?thesis
  proof cases
    case (Refused host p raw)
    then have "host = ip \<and> p = port" using colon_split [of host p ip port] assms(2,3) by simp
    with Refused show ?thesis by simp
  next
    case Refused_raw
    then show ?thesis using raw_address_letters [of "te_Args ev" "[]" "[]" ?k] assms(4) by auto
  qed
qed

lemma firsts_once: "inj g \<Longrightarrow> (\<And>x. x \<in> set xs \<Longrightarrow> fst (snd x) = g (fst x)) \<Longrightarrow>
   distinct (map fst (firsts seen xs)) \<and> (\<forall>x \<in> set (firsts seen xs). fst (snd x) \<notin> set seen)"
proof (induction xs arbitrary: seen)
  case (Cons x xs)
  have g: "fst (snd y) = g (fst y)" if "y \<in> set xs" for y using Cons.prems(2) that by simp
  have gx: "fst (snd x) = g (fst x)" using Cons.prems(2) by simp
  note ih = Cons.IH [OF Cons.prems(1) g]
  show ?case
  proof (cases "fst (snd x) \<in> set seen")
    case False
    have "fst x \<notin> fst ` set (firsts (fst (snd x) # seen) xs)"
    proof
      assume "fst x \<in> fst ` set (firsts (fst (snd x) # seen) xs)"
      then obtain y where y: "y \<in> set (firsts (fst (snd x) # seen) xs)" "fst y = fst x" by force
      then have "fst (snd y) = g (fst x)" using g [of y] set_firsts [of "fst (snd x) # seen" xs] by auto
      with gx ih [of "fst (snd x) # seen"] y(1) show False by auto
    qed
    with False ih [of "fst (snd x) # seen"] show ?thesis by auto
  qed (use ih [of seen] in simp)
qed simp

lemma evidence_under_one: "distinct (map fst xs) \<Longrightarrow> (k, s, es) \<in> set xs \<Longrightarrow> evidence_under k xs = es"
proof (induction xs)
  case (Cons x xs)
  show ?case
  proof (cases "x = (k, s, es)")
    case True
    then have "filter (\<lambda>y. fst y = k) xs = []" using Cons.prems(1) by (force simp: filter_empty_conv)
    then show ?thesis using True by (simp add: evidence_under_def)
  next
    case False
    then have "(k, s, es) \<in> set xs" using Cons.prems(2) by auto
    moreover from this have "k \<in> fst ` set xs" by force
    then have "fst x \<noteq> k" using Cons.prems(1) by auto
    ultimately show ?thesis using Cons by (simp add: evidence_under_def)
  qed
qed simp

text \<open>C27: When the network scope is traced, an IPv4 connection refused to a traced process, to a port other
  than 0 and 53, is reported by the eBPF backend as a refused connection, whatever else the trace holds:
  the evidence of the finding, before it is cut to twenty entries and the note of how many were left out, has
  its host, its port and the error in one place, and so has the evidence itself when nothing is cut.\<close>

theorem refused_connection_reported:
  assumes "e \<in> set raw" "ke_EventType e = 3" "ke_Ret e = - 111" "ke_Family e = 2" "ke_Port e \<noteq> 0" "ke_Port e \<noteq> 53"
    and "scopes = [] \<or> ScopeNetwork \<in> set scopes"
  shows "\<exists>f \<in> set (Analyze (eventsFromEBPFKernelEvents raw scopes)). \<exists>full pre post.
           f_ID f = ''F-TRACE-NET-001'' \<and>
           full_evidence ConnRefused (eventsFromEBPFKernelEvents raw scopes) full \<and>
           full = pre @ [mk_ev ''trace_connect_host'' (ipv4_text (ke_Addr4 e)),
             mk_ev ''trace_connect_port'' (itoa (uint (ke_Port e))), mk_ev ''trace_errno'' ''ECONNREFUSED''] @ post \<and>
           cut_at_twenty full (f_Evidence f)"
proof -
  let ?ip = "ipv4_text (ke_Addr4 e)" and ?port = "itoa (uint (ke_Port e))" and ?evs = "eventsFromEBPFKernelEvents raw scopes"
  let ?block = "[mk_ev ''trace_connect_host'' ?ip, mk_ev ''trace_connect_port'' ?port, mk_ev ''trace_errno'' ''ECONNREFUSED'']"
  let ?k = "?ip @ '':'' @ ?port" and ?cs = "contributions ConnRefused ?evs"
  obtain ev where ev: "kernel_trace_event scopes e = Some ev" "te_Result ev = ''-1''" "te_Error ev = ''ECONNREFUSED''"
    "te_Args ev = [ebpfSockaddrArg e]"
    using assms(2-5,7) by (auto simp: kernel_trace_event_def ebpfEventMetadata_def refused_result kernel_args_def ebpfSockaddrArg_def)
  note addr = ebpf_address_parts [OF assms(4,5)]
  have path: "extractPath (te_Args ev) = []"
    using assms(4,5) by (simp add: ev(4) extractPath_def quoted_arg_def ebpfSockaddrArg_def)
  have "itoa (uint (ke_Port e)) \<noteq> ''53''" by (rule port_not_dns [OF assms(6)])
  then have dns: "collectDNSEvidence ev = None"
    using path addr ev(3,4) by (simp add: collectDNSEvidence_def isResolverPath_def isResolverModule_def last_index_of_def Let_def)
  have con: "contribution_of ev = Some (ConnRefused, ?k, ?k @ ''|ECONNREFUSED'', ?block)"
    using dns ev addr ipv4_chars [of "ke_Addr4 e"] by (simp add: contribution_of_def refused_event_def address_key_def)
  have "ev \<in> set ?evs" using ev(1) assms(1)
    by (auto simp: eventsFromEBPFKernelEvents_def List.map_filter_def intro!: image_eqI [of _ _ e])
  then have m: "(?k, ?k @ ''|ECONNREFUSED'', ?block) \<in> set ?cs" using con by (force simp: contributions_def of_class_def)
  have chars: "c \<notin> set ?ip" "c \<notin> set ?port" if "\<not> is_digit c" "c \<noteq> CHR ''.''" for c
    using ipv4_chars [of "ke_Addr4 e"] itoa_digits [of "uint (ke_Port e)"] that by (auto simp: list_all_iff)
  have nd: "\<not> is_digit CHR '':''" "\<not> is_digit CHR ''s''" by code_simp+
  have no: "CHR '':'' \<notin> set ?ip" "CHR '':'' \<notin> set ?port" "CHR ''s'' \<notin> set ?k" using chars nd by auto
  have "?k \<in> fst ` set (firsts [] ?cs)" by (rule refused_keys [OF m])
  then obtain s es where f: "(?k, s, es) \<in> set (firsts [] ?cs)" by force
  then have "(?k, s, es) \<in> set ?cs" using set_firsts by blast
  from refused_same_key [OF this no] have es: "es = ?block" by blast
  have "distinct (map fst (firsts [] ?cs))"
    using firsts_once [of "\<lambda>k. k @ ''|ECONNREFUSED''" ?cs "[]"] refused_seen by (simp add: inj_def)
  from evidence_under_one [OF this f] have under: "evidence_under ?k (firsts [] ?cs) = ?block" by (simp add: es)
  have "?k \<in> set (class_keys ConnRefused ?evs)" using f by (force simp: class_keys_def)
  then obtain ks ks' where "class_keys ConnRefused ?evs = ks @ ?k # ks'" by (meson split_list)
  then obtain pre post where full: "class_evidence ConnRefused ?evs = pre @ ?block @ post"
    using under by (simp add: class_evidence_def)
  let ?f = "(class_finding ConnRefused (class_keys ConnRefused ?evs))\<lparr>f_Evidence := capEvidence (class_evidence ConnRefused ?evs)\<rparr>"
  have "?cs \<noteq> []" using m by auto
  then have "?f \<in> set (Analyze ?evs)" by (force simp: Analyze_eq class_order_def)
  moreover have "f_ID ?f = ''F-TRACE-NET-001''" "cut_at_twenty (class_evidence ConnRefused ?evs) (f_Evidence ?f)"
    by (simp_all add: capEvidence_cut)
  ultimately show ?thesis using full_evidence_class [of ConnRefused ?evs] full by blast
qed

theorem refused_connection_reported_witness:
  "let e = \<lparr>ke_TimestampNs = 0, ke_Pid = 7, ke_Ppid = 1, ke_EventType = 3, ke_Ret = - 111, ke_Family = 2,
            ke_Port = 5432, ke_Addr4 = 16777343, ke_Arg0 = []\<rparr>
   in ipv4_text (ke_Addr4 e) = ''127.0.0.1'' \<and>
      (\<exists>f \<in> set (Analyze (eventsFromEBPFKernelEvents [e] [ScopeNetwork])). f_ID f = ''F-TRACE-NET-001'')"
proof -
  let ?e = "\<lparr>ke_TimestampNs = 0, ke_Pid = 7, ke_Ppid = 1, ke_EventType = 3, ke_Ret = - 111, ke_Family = 2,
            ke_Port = 5432, ke_Addr4 = 16777343, ke_Arg0 = []\<rparr> :: kernel_event"
  have "ipv4_text (16777343 :: 32 word) = ''127.0.0.1''" by code_simp
  moreover have "ke_EventType ?e = 3" "ke_Ret ?e = - 111" "ke_Family ?e = 2" "ke_Port ?e \<noteq> 0" "ke_Port ?e \<noteq> 53"
    "[ScopeNetwork] = [] \<or> ScopeNetwork \<in> set [ScopeNetwork]" by simp_all
  from refused_connection_reported [OF list.set_intros(1) [of ?e "[]"] this]
  have "\<exists>f \<in> set (Analyze (eventsFromEBPFKernelEvents [?e] [ScopeNetwork])). f_ID f = ''F-TRACE-NET-001''"
    by blast
  ultimately show ?thesis by (simp add: Let_def)
qed

section \<open>The backend\<close>

lemma result_simps [simp]:
  "rs_Read (add_note n r) = (rs_Read r)\<lparr>tr_Notes := tr_Notes (rs_Read r) @ [n]\<rparr>"
  "rs_TraceUnavailable (add_note n r) = rs_TraceUnavailable r"
  "rs_UnavailableReason (add_note n r) = rs_UnavailableReason r"
  "rs_Read (add_evidence evs r) = rs_Read r"
  "rs_TraceUnavailable (add_evidence evs r) = rs_TraceUnavailable r"
  "rs_TraceUnavailable (set_partial r) = rs_TraceUnavailable r"
  "tr_Events (rs_Read (set_partial r)) = tr_Events (rs_Read r)"
  "rs_Read (unavailable reason n r) = (rs_Read r)\<lparr>tr_Notes := tr_Notes (rs_Read r) @ [''ebpf backend unavailable: '' @ n]\<rparr>"
  "rs_TraceUnavailable (unavailable reason n r)" "rs_UnavailableReason (unavailable reason n r) = reason"
  "rs_Read (process_failed n r) = (rs_Read r)\<lparr>tr_Notes := tr_Notes (rs_Read r) @ [n]\<rparr>"
  "rs_TraceUnavailable (process_failed n r) = rs_TraceUnavailable r"
  "rs_TraceUnavailable (process_state st b r) = rs_TraceUnavailable r"
  "tr_Events (rs_Read (process_state st b r)) = tr_Events (rs_Read r)"
  by (auto simp: add_note_def add_evidence_def set_partial_def unavailable_def process_failed_def process_state_def
      Let_def split: option.splits)

lemma empty_result_simps [simp]:
  "\<not> rs_TraceUnavailable (empty_result c a s b)" "tr_Events (rs_Read (empty_result c a s b)) = []"
  by (simp_all add: empty_result_def empty_read_def)

lemma ebpf_items_result:
  "ebpf_items is noted raw r = (raw', r') \<Longrightarrow>
     length raw' \<le> length raw + length is \<and> rs_TraceUnavailable r' = rs_TraceUnavailable r"
proof (induction "is" noted raw r rule: ebpf_items.induct)
  case (2 e "is" noted raw r)
  then show ?case by force
next
  case (3 m "is" noted raw r)
  then show ?case by (fastforce split: if_splits)
qed simp

lemma map_filter_length: "length (List.map_filter f xs) \<le> length xs"
  by (simp add: List.map_filter_def)

text \<open>Whether a run was available, with no events unless it was, and how many events it can have.\<close>

definition sound_run :: "trace_result \<Rightarrow> bool" where
  "sound_run r \<longleftrightarrow>
     (rs_TraceUnavailable r \<longrightarrow> tr_Events (rs_Read r) = [] \<and> rs_UnavailableReason r \<noteq> []) \<and>
     length (tr_Events (rs_Read r)) \<le> 1025"

lemma ebpf_finish_sound: "\<not> rs_TraceUnavailable r \<Longrightarrow> sound_run (ebpf_finish scopes out r)"
proof -
  assume r: "\<not> rs_TraceUnavailable r"
  have fin: "sound_run (case ebpf_items (ebpf_drained out) False [] v of (raw, v) \<Rightarrow>
      (let events = eventsFromEBPFKernelEvents raw scopes
       in add_evidence (f raw events) (v\<lparr>rs_Read := (rs_Read v)\<lparr>tr_Events := events\<rparr>\<rparr>)))"
    if "\<not> rs_TraceUnavailable v" for v f
  proof -
    obtain raw v' where i: "ebpf_items (ebpf_drained out) False [] v = (raw, v')" by fastforce
    have "length raw \<le> 1025" using ebpf_items_result [OF i] by (simp add: ebpf_drained_def)
    moreover have "length (eventsFromEBPFKernelEvents raw scopes) \<le> length raw"
      by (simp add: eventsFromEBPFKernelEvents_def map_filter_length)
    ultimately show ?thesis using that ebpf_items_result [OF i] i by (simp add: sound_run_def Let_def)
  qed
  show ?thesis unfolding ebpf_finish_def Let_def
    by (intro fin [unfolded Let_def]) (use r in \<open>auto split: option.splits wait_error.splits\<close>)
qed

lemma sound_simps:
  "\<not> rs_TraceUnavailable r \<Longrightarrow> tr_Events (rs_Read r) = [] \<Longrightarrow> sound_run (process_failed n r)"
  "reason \<noteq> [] \<Longrightarrow> tr_Events (rs_Read r) = [] \<Longrightarrow> sound_run (unavailable reason n r)"
  by (simp_all add: sound_run_def)

lemma ebpf_traced_sound:
  "\<not> rs_TraceUnavailable r \<Longrightarrow> tr_Events (rs_Read r) = [] \<Longrightarrow> sound_run (ebpf_traced scopes out r)"
  by (simp add: ebpf_traced_def Let_def ebpf_finish_sound sound_simps split: option.split)

lemma support_reason: "es_Supported s = (es_Reason s = [])" if "s = checkEBPFSupport env"
  using that by (simp add: checkEBPFSupport_def Let_def)

text \<open>A run of the eBPF backend that was not available says why and has no events, and no run has
  more than 1025 events, however many the kernel reported.\<close>

theorem RunEBPF_sound:
  assumes "RunEBPF scopes command args out = Inr r"
  shows "command \<noteq> [] \<and>
         (rs_TraceUnavailable r \<longrightarrow> tr_Events (rs_Read r) = [] \<and> rs_UnavailableReason r \<noteq> []) \<and>
         length (tr_Events (rs_Read r)) \<le> 1025"
proof -
  have c: "command \<noteq> []" using assms by (auto simp: RunEBPF_def)
  let ?s = "checkEBPFSupport (eo_Environment out)"
  have "es_Supported ?s \<or> es_Reason ?s \<noteq> []" by (simp add: support_reason [OF refl])
  then have "sound_run r"
    using assms c
    by (auto simp: RunEBPF_def Let_def ebpf_traced_sound sound_simps split: if_splits option.splits)
  then show ?thesis using c by (simp add: sound_run_def)
qed

theorem RunEBPF_sound_witness:
  "\<exists>r. RunEBPF [ScopeFile] ''ls'' [] \<lparr>eo_Environment = \<lparr>eb_BTF = False, eb_Status = None, eb_Probe = None\<rparr>,
      eo_Memlock = None, eo_Load = None, eo_Ringbuf = None, eo_Link = (\<lambda>_. None), eo_AttachError = [], eo_Start = None,
      eo_RootPid = 0, eo_Stop = None, eo_Seed = None, eo_Resume = None, eo_Wait = None, eo_State = None,
      eo_Canceled = False, eo_Items = [], eo_ReadBeforeClose = 0\<rparr> = Inr r \<and>
      rs_TraceUnavailable r \<and> rs_UnavailableReason r \<noteq> []"
proof -
  let ?o = "\<lparr>eo_Environment = \<lparr>eb_BTF = False, eb_Status = None, eb_Probe = None\<rparr>,
      eo_Memlock = None, eo_Load = None, eo_Ringbuf = None, eo_Link = (\<lambda>_. None), eo_AttachError = [], eo_Start = None,
      eo_RootPid = 0, eo_Stop = None, eo_Seed = None, eo_Resume = None, eo_Wait = None, eo_State = None,
      eo_Canceled = False, eo_Items = [], eo_ReadBeforeClose = 0\<rparr> :: ebpf_outcome"
  obtain r where r: "RunEBPF [ScopeFile] ''ls'' [] ?o = Inr r" "rs_TraceUnavailable r"
    by (simp add: RunEBPF_def checkEBPFSupport_def btf_check_def Let_def)
  then show ?thesis using RunEBPF_sound [OF r(1)] by blast
qed

section \<open>Programs that are missing\<close>

text \<open>
  The trace points of the process scope name the entries of \<open>clone\<close>, \<open>fork\<close> and \<open>vfork\<close>, for which there
  is no program: attaching to perf trace points always fails for that scope.
\<close>

lemma attach_links_missing:
  "t \<in> set ts \<Longrightarrow> t \<notin> set perf_programs \<Longrightarrow> \<exists>cs. attach_links link ts links = Inl cs"
  by (induction ts arbitrary: links) (auto split: option.splits)

lemma set_fold_add_new: "set (fold add_new ts acc) = set acc \<union> set ts"
  by (induction ts arbitrary: acc) (auto simp: add_new_def)

lemma process_scope_not_attached:
  "ScopeProcess \<in> set scopes \<Longrightarrow> attachDevdiagPerfTracepoints link (ebpfTracepointsForScopes scopes) = None"
proof -
  assume "ScopeProcess \<in> set scopes"
  then have "''syscalls/sys_enter_clone'' \<in> set (ebpfTracepointsForScopes scopes)"
    by (force simp: ebpfTracepointsForScopes_def set_fold_add_new)
  then obtain cs where "attach_links link (ebpfTracepointsForScopes scopes) [] = Inl cs"
    using attach_links_missing by (force simp: perf_programs_def)
  then show ?thesis by (simp add: attachDevdiagPerfTracepoints_def)
qed

end
