(* ===== verification/File_System.thy ===== *)
theory File_System
  imports Go_Path "HOL-Library.Word"
begin

unbundle bit_operations_syntax

text \<open>
  The part of the file system the program changes itself, as functions on a world. A world is the
  tree of files (a path is absent, a regular file with its bytes, permission bits and time of last
  change, or a symbolic link), the number of system calls made, and the trail of all trees since,
  newest first. What the machine answers is a \<open>host\<close>: whether the n-th call fails and how, how many
  bytes a failing write has written, the clock, the file mode creation mask, the random names of
  temporary files and what a failing removal of a directory leaves. A call that cannot succeed for reasons the tree does not show (a directory that is
  missing or not writable, a full disk, a busy executable) is a fault of the host. Symbolic links are
  followed as Linux does, forty at most; links within the directory part of a path are not resolved.
\<close>

datatype node = File (file_bytes: string) (file_perm: "9 word") (file_time: int) | Link string

type_synonym files = "string \<Rightarrow> node option"

datatype os_error = NotExist | Exists | TooManyLinks | Fault string

record host =
  h_fault :: "nat \<Rightarrow> string option"
  h_written :: "nat \<Rightarrow> nat"
  h_clock :: "nat \<Rightarrow> int"
  h_umask :: "9 word"
  h_random :: "nat \<Rightarrow> string"
  h_pid :: nat
  h_kept :: "nat \<Rightarrow> string \<Rightarrow> bool"

record world =
  tree :: files
  calls :: nat
  trail :: "files list"

definition fault_of :: "host \<Rightarrow> world \<Rightarrow> os_error option" where
  "fault_of h w = map_option Fault (h_fault h (calls w))"

definition called :: "world \<Rightarrow> world" where
  "called w = w\<lparr>calls := Suc (calls w)\<rparr>"

definition put :: "files \<Rightarrow> world \<Rightarrow> world" where
  "put t w = called w\<lparr>tree := t, trail := t # trail w\<rparr>"

text \<open>The path a path stands for after its symbolic links are followed; the file may be absent.\<close>

fun follow :: "nat \<Rightarrow> files \<Rightarrow> string \<Rightarrow> os_error + string" where
  "follow 0 t p = Inl TooManyLinks"
| "follow (Suc n) t p =
     (case t p of
        Some (Link q) \<Rightarrow> follow n t (if IsAbs q then q else Join2 (Dir p) q)
      | _ \<Rightarrow> Inr p)"

definition max_links :: nat where "max_links = 40"

definition resolve :: "files \<Rightarrow> string \<Rightarrow> os_error + string" where
  "resolve t p = follow (Suc max_links) t p"

text \<open>\<open>os.Lstat\<close> and \<open>os.Stat\<close>.\<close>

definition lstat :: "host \<Rightarrow> string \<Rightarrow> world \<Rightarrow> (os_error + node) \<times> world" where
  "lstat h p w =
     (case fault_of h w of
        Some e \<Rightarrow> (Inl e, called w)
      | None \<Rightarrow> (case tree w p of None \<Rightarrow> (Inl NotExist, called w) | Some n \<Rightarrow> (Inr n, called w)))"

definition stat :: "host \<Rightarrow> string \<Rightarrow> world \<Rightarrow> (os_error + node) \<times> world" where
  "stat h p w =
     (case fault_of h w of
        Some e \<Rightarrow> (Inl e, called w)
      | None \<Rightarrow>
          (case resolve (tree w) p of
             Inl e \<Rightarrow> (Inl e, called w)
           | Inr q \<Rightarrow>
               (case tree w q of None \<Rightarrow> (Inl NotExist, called w) | Some n \<Rightarrow> (Inr n, called w))))"

text \<open>
  \<open>os.Open\<close>; \<open>os.OpenFile\<close> to write, with \<open>O_CREATE|O_TRUNC\<close> and with \<open>O_CREATE|O_EXCL\<close>. A file
  that is open is known by its path, which no other call moves while it is open.
\<close>

definition open_read :: "host \<Rightarrow> string \<Rightarrow> world \<Rightarrow> (os_error + string) \<times> world" where
  "open_read h p w =
     (case fault_of h w of
        Some e \<Rightarrow> (Inl e, called w)
      | None \<Rightarrow>
          (case resolve (tree w) p of
             Inl e \<Rightarrow> (Inl e, called w)
           | Inr q \<Rightarrow>
               (case tree w q of None \<Rightarrow> (Inl NotExist, called w) | Some n \<Rightarrow> (Inr q, called w))))"

definition new_file :: "host \<Rightarrow> 9 word \<Rightarrow> world \<Rightarrow> node" where
  "new_file h mode w = File [] (mode AND NOT (h_umask h)) (h_clock h (calls w))"

definition truncated :: "host \<Rightarrow> 9 word \<Rightarrow> string \<Rightarrow> world \<Rightarrow> node" where
  "truncated h mode q w =
     (case tree w q of
        Some (File _ m _) \<Rightarrow> File [] m (h_clock h (calls w))
      | _ \<Rightarrow> new_file h mode w)"

definition open_trunc :: "host \<Rightarrow> string \<Rightarrow> 9 word \<Rightarrow> world \<Rightarrow> (os_error + string) \<times> world" where
  "open_trunc h p mode w =
     (case fault_of h w of
        Some e \<Rightarrow> (Inl e, called w)
      | None \<Rightarrow>
          (case resolve (tree w) p of
             Inl e \<Rightarrow> (Inl e, called w)
           | Inr q \<Rightarrow> (Inr q, put ((tree w)(q \<mapsto> truncated h mode q w)) w)))"

definition open_excl :: "host \<Rightarrow> string \<Rightarrow> 9 word \<Rightarrow> world \<Rightarrow> (os_error + string) \<times> world" where
  "open_excl h p mode w =
     (case fault_of h w of
        Some e \<Rightarrow> (Inl e, called w)
      | None \<Rightarrow>
          if tree w p \<noteq> None then (Inl Exists, called w)
          else (Inr p, put ((tree w)(p \<mapsto> new_file h mode w)) w))"

text \<open>
  Writing bytes at the end of an open file; a write that fails may have written some of them. The
  file may have been removed since it was opened.
\<close>

definition append_to :: "host \<Rightarrow> string \<Rightarrow> string \<Rightarrow> world \<Rightarrow> files" where
  "append_to h p s w =
     (case tree w p of
        Some (File b m _) \<Rightarrow> (tree w)(p \<mapsto> File (b @ s) m (h_clock h (calls w)))
      | _ \<Rightarrow> tree w)"

definition write_bytes :: "host \<Rightarrow> string \<Rightarrow> string \<Rightarrow> world \<Rightarrow> os_error option \<times> world" where
  "write_bytes h p s w =
     (case fault_of h w of
        Some e \<Rightarrow> (Some e, put (append_to h p (take (h_written h (calls w)) s) w) w)
      | None \<Rightarrow> (None, put (append_to h p s w) w))"

definition bytes_at :: "files \<Rightarrow> string \<Rightarrow> string" where
  "bytes_at t p = (case t p of Some (File b _ _) \<Rightarrow> b | _ \<Rightarrow> [])"

text \<open>\<open>Sync\<close> and \<open>Close\<close> of an open file or directory, \<open>os.Remove\<close>, \<open>os.Rename\<close>.\<close>

definition sync_file :: "host \<Rightarrow> world \<Rightarrow> os_error option \<times> world" where
  "sync_file h w = (fault_of h w, called w)"

definition close_file :: "host \<Rightarrow> world \<Rightarrow> os_error option \<times> world" where
  "close_file h w = (fault_of h w, called w)"

definition remove :: "host \<Rightarrow> string \<Rightarrow> world \<Rightarrow> os_error option \<times> world" where
  "remove h p w =
     (case fault_of h w of
        Some e \<Rightarrow> (Some e, called w)
      | None \<Rightarrow> if tree w p = None then (Some NotExist, called w) else (None, put ((tree w)(p := None)) w))"

definition rename :: "host \<Rightarrow> string \<Rightarrow> string \<Rightarrow> world \<Rightarrow> os_error option \<times> world" where
  "rename h p q w =
     (case fault_of h w of
        Some e \<Rightarrow> (Some e, called w)
      | None \<Rightarrow>
          if tree w p = None then (Some NotExist, called w)
          else (None, put (((tree w)(p := None))(q := tree w p)) w))"

text \<open>
  A directory is known by the files below it: \<open>os.MkdirTemp\<close> only chooses a name, and
  \<open>os.RemoveAll\<close> removes what is below; when it fails, some files are left.
\<close>

definition below :: "string \<Rightarrow> string \<Rightarrow> bool" where
  "below dir p \<longleftrightarrow> prefix (dir @ ''/'') p"

definition mkdir_temp :: "host \<Rightarrow> string \<Rightarrow> world \<Rightarrow> (os_error + string) \<times> world" where
  "mkdir_temp h pre w =
     (case fault_of h w of
        Some e \<Rightarrow> (Inl e, called w)
      | None \<Rightarrow> (Inr (pre @ h_random h (calls w)), called w))"

definition remove_all :: "host \<Rightarrow> string \<Rightarrow> world \<Rightarrow> os_error option \<times> world" where
  "remove_all h dir w =
     (fault_of h w,
      put (\<lambda>p. if (p = dir \<or> below dir p) \<and> (fault_of h w = None \<or> \<not> h_kept h (calls w) p) then None else tree w p) w)"

text \<open>\<open>os.WriteFile\<close>.\<close>

definition write_file :: "host \<Rightarrow> string \<Rightarrow> string \<Rightarrow> 9 word \<Rightarrow> world \<Rightarrow> os_error option \<times> world" where
  "write_file h p s mode w =
     (case open_trunc h p mode w of
        (Inl e, w) \<Rightarrow> (Some e, w)
      | (Inr f, w) \<Rightarrow>
          (case write_bytes h f s w of (r, w) \<Rightarrow>
             (case close_file h w of (c, w) \<Rightarrow> (if r = None then c else r, w))))"

lemmas call_defs = lstat_def stat_def open_read_def open_trunc_def open_excl_def write_bytes_def
  sync_file_def close_file_def remove_def rename_def

section \<open>What a sequence of calls may have changed\<close>

text \<open>
  \<open>changes_in A w w'\<close>: \<open>w'\<close> comes after \<open>w\<close>, and in no tree since then anything differs from the
  tree of \<open>w\<close> outside \<open>A\<close>.
\<close>

definition agree_outside :: "string set \<Rightarrow> files \<Rightarrow> files \<Rightarrow> bool" where
  "agree_outside A s t \<longleftrightarrow> (\<forall>p. p \<notin> A \<longrightarrow> t p = s p)"

definition changes_in :: "string set \<Rightarrow> world \<Rightarrow> world \<Rightarrow> bool" where
  "changes_in A w w' \<longleftrightarrow>
     (\<exists>ts. trail w' = ts @ trail w \<and> (\<forall>t \<in> set ts. agree_outside A (tree w) t)) \<and>
     agree_outside A (tree w) (tree w')"

lemma changes_in_refl [simp, intro]: "changes_in A w w"
  by (simp add: changes_in_def agree_outside_def)

lemma changes_in_trans:
  assumes "changes_in A u v" "changes_in B v w"
  shows "changes_in (A \<union> B) u w"
proof -
  from assms(1) obtain s where s: "trail v = s @ trail u" "\<forall>t \<in> set s. agree_outside A (tree u) t"
    "agree_outside A (tree u) (tree v)" by (auto simp: changes_in_def)
  from assms(2) obtain r where r: "trail w = r @ trail v" "\<forall>t \<in> set r. agree_outside B (tree v) t"
    "agree_outside B (tree v) (tree w)" by (auto simp: changes_in_def)
  have "trail w = (r @ s) @ trail u" using s r by simp
  moreover have "\<forall>t \<in> set (r @ s). agree_outside (A \<union> B) (tree u) t"
    using s r by (auto simp: agree_outside_def)
  moreover have "agree_outside (A \<union> B) (tree u) (tree w)"
    using s r by (auto simp: agree_outside_def)
  ultimately show ?thesis unfolding changes_in_def by blast
qed

lemma changes_in_mono: "changes_in A v w \<Longrightarrow> A \<subseteq> B \<Longrightarrow> changes_in B v w"
  unfolding changes_in_def agree_outside_def by blast

lemma changes_in_seq: "changes_in A u v \<Longrightarrow> changes_in A v w \<Longrightarrow> changes_in A u w"
  using changes_in_trans [of A u v A w] by simp

lemma changes_in_tree: "changes_in A v w \<Longrightarrow> p \<notin> A \<Longrightarrow> tree w p = tree v p"
  by (simp add: changes_in_def agree_outside_def)

lemma changes_in_called [simp]: "changes_in A v (called w) = changes_in A v w"
  by (simp add: changes_in_def called_def)

lemma called_simps [simp]: "tree (called w) = tree w" "trail (called w) = trail w"
  by (simp_all add: called_def)

lemma put_simps [simp]: "tree (put t w) = t" "trail (put t w) = t # trail w"
  by (simp_all add: put_def)

lemma changes_in_put: "agree_outside A (tree w) t \<Longrightarrow> changes_in A w (put t w)"
  by (simp add: changes_in_def)

lemma agree_outside_upd [simp]: "agree_outside A s (s(p := n)) \<longleftrightarrow> p \<in> A \<or> s p = n"
  by (auto simp: agree_outside_def)

lemma agree_outside_refl [simp]: "agree_outside A s s"
  by (simp add: agree_outside_def)

definition not_link :: "node option \<Rightarrow> bool" where
  "not_link n = (case n of Some (Link _) \<Rightarrow> False | _ \<Rightarrow> True)"

lemma not_link_simps [simp]: "not_link None" "not_link (Some (File b m c))" "\<not> not_link (Some (Link q))"
  by (simp_all add: not_link_def)

lemma resolve_plain: "not_link (t p) \<Longrightarrow> resolve t p = Inr p"
  by (auto simp: resolve_def not_link_def split: option.splits node.splits)

lemma remove_changes: "remove h p w = (r, w') \<Longrightarrow> changes_in {p} w w'"
  by (auto simp: remove_def changes_in_put split: option.splits if_splits)

lemma close_changes: "close_file h w = (r, w') \<Longrightarrow> changes_in A w w' \<and> tree w' = tree w"
  by (auto simp: close_file_def)

lemma sync_changes: "sync_file h w = (r, w') \<Longrightarrow> changes_in A w w' \<and> tree w' = tree w"
  by (auto simp: sync_file_def)

lemma write_changes: "write_bytes h p s w = (r, w') \<Longrightarrow> changes_in {p} w w'"
  by (auto simp: write_bytes_def append_to_def changes_in_put split: option.splits node.splits)

lemma open_trunc_changes:
  "not_link (tree w p) \<Longrightarrow> open_trunc h p m w = (r, w') \<Longrightarrow> changes_in {p} w w'"
  by (auto simp: open_trunc_def resolve_plain changes_in_put split: option.splits)

lemma open_excl_changes: "open_excl h p m w = (r, w') \<Longrightarrow> changes_in {p} w w'"
  by (auto simp: open_excl_def changes_in_put split: option.splits if_splits)

lemma open_read_changes: "open_read h p w = (r, w') \<Longrightarrow> changes_in A w w' \<and> tree w' = tree w"
  by (auto simp: open_read_def split: option.splits sum.splits)

lemma stat_changes: "stat h p w = (r, w') \<Longrightarrow> changes_in A w w' \<and> tree w' = tree w"
  by (auto simp: stat_def split: option.splits sum.splits)

lemma lstat_changes: "lstat h p w = (r, w') \<Longrightarrow> changes_in A w w' \<and> tree w' = tree w"
  by (auto simp: lstat_def split: option.splits)


lemma open_excl_Inr:
  "open_excl h p m w = (Inr q, w') \<Longrightarrow>
     q = p \<and> tree w p = None \<and> tree w' p = Some (File [] (m AND NOT (h_umask h)) (h_clock h (calls w)))"
  by (auto simp: open_excl_def new_file_def split: option.splits if_splits)

lemma write_bytes_None:
  "write_bytes h p s w = (None, w') \<Longrightarrow> tree w p = Some (File b m c) \<Longrightarrow>
     \<exists>c'. tree w' p = Some (File (b @ s) m c')"
  by (auto simp: write_bytes_def append_to_def split: option.splits)

lemma write_file_changes:
  assumes "write_file h p s m w = (r, w')" "not_link (tree w p)"
  shows "changes_in {p} w w'"
proof -
  obtain f w1 where 1: "open_trunc h p m w = (f, w1)" by fastforce
  note c1 = open_trunc_changes [OF assms(2) 1]
  show ?thesis
  proof (cases f)
    case (Inr q)
    then have q: "q = p" using 1 assms(2) by (auto simp: open_trunc_def resolve_plain split: option.splits)
    obtain r2 w2 where 2: "write_bytes h p s w1 = (r2, w2)" by fastforce
    obtain r3 w3 where 3: "close_file h w2 = (r3, w3)" by fastforce
    from changes_in_seq [OF changes_in_seq [OF c1 write_changes [OF 2]] conjunct1 [OF close_changes [OF 3]]]
    show ?thesis using assms(1) 1 2 3 Inr q by (auto simp: write_file_def)
  qed (use assms 1 c1 in \<open>auto simp: write_file_def\<close>)
qed

lemma remove_all_changes: "changes_in {p. p = dir \<or> below dir p} w (snd (remove_all h dir w))"
  by (auto simp: remove_all_def agree_outside_def intro!: changes_in_put)

lemma remove_all_gone: "fault_of h w = None \<Longrightarrow> below dir p \<Longrightarrow> tree (snd (remove_all h dir w)) p = None"
  by (simp add: remove_all_def)

end
