(* ===== verification/Updater_Swap.thy ===== *)
theory Updater_Swap
  imports File_System
begin

text \<open>
  \<open>internal/updater/swap.go\<close>: the replacement of the installed binary, every system call of it,
  with the rollback the code defers and the removal of the lock. \<open>os.Getpid\<close> is \<open>h_pid\<close>; times
  are in nanoseconds; the modes \<open>0600\<close>, \<open>0644\<close> and \<open>0755\<close> are written in hexadecimal.
\<close>

datatype swap_error =
    TargetIsLink string string
  | NotWritable string os_error
  | LockFailed os_error
  | LockHeld string
  | LockNotAcquired string
  | BackupFailed os_error
  | StageFailed os_error
  | RenameFailed os_error
  | DirSyncFailed os_error
  | RollbackFailed swap_error os_error string

definition discard :: "'a \<times> world \<Rightarrow> world" where
  "discard r = snd r"

definition copyFileSyncMode :: "host \<Rightarrow> string \<Rightarrow> string \<Rightarrow> 9 word \<Rightarrow> world \<Rightarrow> os_error option \<times> world" where
  "copyFileSyncMode h src dst mode w =
     (case open_read h src w of
        (Inl e, w) \<Rightarrow> (Some e, w)
      | (Inr i, w) \<Rightarrow>
          (case open_trunc h dst mode w of
             (Inl e, w) \<Rightarrow> (Some e, discard (close_file h w))
           | (Inr out, w) \<Rightarrow>
               (case write_bytes h out (bytes_at (tree w) i) w of
                  (Some e, w) \<Rightarrow>
                    (Some e, discard (close_file h (discard (remove h dst (discard (close_file h w))))))
                | (None, w) \<Rightarrow>
                    (case sync_file h w of
                       (Some e, w) \<Rightarrow>
                         (Some e, discard (close_file h (discard (remove h dst (discard (close_file h w))))))
                     | (None, w) \<Rightarrow>
                         (case close_file h w of (r, w) \<Rightarrow> (r, discard (close_file h w)))))))"

definition syncDir :: "host \<Rightarrow> world \<Rightarrow> os_error option \<times> world" where
  "syncDir h w =
     (case fault_of h w of
        Some e \<Rightarrow> (Some e, called w)
      | None \<Rightarrow> (case sync_file h (called w) of (r, w) \<Rightarrow> (r, discard (close_file h w))))"

definition checkWritable :: "host \<Rightarrow> string \<Rightarrow> world \<Rightarrow> os_error option \<times> world" where
  "checkWritable h dir w =
     (case open_excl h (Join2 dir (''.devdiag-write-probe-'' @ h_random h (calls w))) 0x180 w of
        (Inl e, w) \<Rightarrow> (Some e, w)
      | (Inr probe, w) \<Rightarrow> remove h probe (discard (close_file h w)))"

definition hour :: int where "hour = 3600000000000"

definition node_time :: "node \<Rightarrow> int" where
  "node_time n = (case n of File _ _ t \<Rightarrow> t | Link _ \<Rightarrow> 0)"

text \<open>The two attempts of \<open>acquireLock\<close>; the lock is taken when there is no error.\<close>

fun acquire_attempts :: "nat \<Rightarrow> host \<Rightarrow> string \<Rightarrow> world \<Rightarrow> swap_error option \<times> world" where
  "acquire_attempts 0 h lock w = (Some (LockNotAcquired lock), w)"
| "acquire_attempts (Suc n) h lock w =
     (case open_excl h lock 0x1A4 w of
        (Inr f, w) \<Rightarrow>
          (None, discard (close_file h (discard (write_bytes h f (itoa (int (h_pid h)) @ [CHR 0x0A]) w))))
      | (Inl e, w) \<Rightarrow>
          if e \<noteq> Exists then (Some (LockFailed e), w)
          else
            (case stat h lock w of
               (Inr f, w) \<Rightarrow>
                 if h_clock h (calls w) - node_time f > hour
                 then acquire_attempts n h lock (discard (remove h lock w))
                 else (Some (LockHeld lock), w)
             | (Inl _, w) \<Rightarrow> (Some (LockHeld lock), w)))"

definition acquireLock :: "host \<Rightarrow> string \<Rightarrow> world \<Rightarrow> swap_error option \<times> world" where
  "acquireLock h lock w = acquire_attempts 2 h lock w"

definition old_path :: "string \<Rightarrow> string" where "old_path p = p @ ''.old''"
definition new_path :: "string \<Rightarrow> string" where "new_path p = p @ ''.new''"
definition lock_path :: "string \<Rightarrow> string" where "lock_path p = p @ ''.update-lock''"

text \<open>The deferred function that restores the old binary after the error \<open>e\<close>.\<close>

definition roll_back :: "host \<Rightarrow> string \<Rightarrow> 9 word \<Rightarrow> bool \<Rightarrow> swap_error \<Rightarrow> world \<Rightarrow> swap_error option \<times> world" where
  "roll_back h target mode backed_up e w =
     (let w = discard (remove h (new_path target) w)
      in if backed_up
         then (case copyFileSyncMode h (old_path target) target mode w of
                 (Some c, w) \<Rightarrow> (Some (RollbackFailed e c (old_path target)), w)
               | (None, w) \<Rightarrow> (Some e, discard (syncDir h w)))
         else (Some e, w))"

definition replace_target :: "host \<Rightarrow> string \<Rightarrow> 9 word \<Rightarrow> bool \<Rightarrow> world \<Rightarrow> swap_error option \<times> world" where
  "replace_target h target mode backed_up w =
     (case rename h (new_path target) target w of
        (Some e, w) \<Rightarrow> roll_back h target mode backed_up (RenameFailed e) w
      | (None, w) \<Rightarrow>
          (case syncDir h w of
             (Some e, w) \<Rightarrow> roll_back h target mode backed_up (DirSyncFailed e) w
           | (None, w) \<Rightarrow> (None, w)))"

definition stage_binary :: "host \<Rightarrow> string \<Rightarrow> string \<Rightarrow> 9 word \<Rightarrow> bool \<Rightarrow> world \<Rightarrow> swap_error option \<times> world" where
  "stage_binary h binary target mode backed_up w =
     (case copyFileSyncMode h binary (new_path target) mode w of
        (Some e, w) \<Rightarrow> (Some (StageFailed e), w)
      | (None, w) \<Rightarrow> replace_target h target mode backed_up w)"

definition node_perm :: "node \<Rightarrow> 9 word" where
  "node_perm n = (case n of File _ m _ \<Rightarrow> m | Link _ \<Rightarrow> 0x1FF)"

definition swap_locked :: "host \<Rightarrow> string \<Rightarrow> string \<Rightarrow> world \<Rightarrow> swap_error option \<times> world" where
  "swap_locked h binary target w =
     (case stat h target w of
        (Inr f, w) \<Rightarrow>
          (case copyFileSyncMode h target (old_path target) (node_perm f) w of
             (Some e, w) \<Rightarrow> (Some (BackupFailed e), w)
           | (None, w) \<Rightarrow> stage_binary h binary target (node_perm f) True w)
      | (Inl _, w) \<Rightarrow> stage_binary h binary target 0x1ED False w)"

definition link_text :: "files \<Rightarrow> string \<Rightarrow> string" where
  "link_text t p =
     (case resolve t p of
        Inr q \<Rightarrow> (if t q = None then ''<unresolvable>'' else q)
      | Inl _ \<Rightarrow> ''<unresolvable>'')"

definition is_link :: "os_error + node \<Rightarrow> bool" where
  "is_link r = (case r of Inr (Link _) \<Rightarrow> True | _ \<Rightarrow> False)"

definition SwapBinary :: "host \<Rightarrow> string \<Rightarrow> string \<Rightarrow> world \<Rightarrow> swap_error option \<times> world" where
  "SwapBinary h binary target w =
     (case lstat h target w of (fi, w) \<Rightarrow>
        if is_link fi then (Some (TargetIsLink target (link_text (tree w) target)), w)
        else
          (case checkWritable h (Dir target) w of
             (Some e, w) \<Rightarrow> (Some (NotWritable (Dir target) e), w)
           | (None, w) \<Rightarrow>
               (case acquireLock h (lock_path target) w of
                  (Some e, w) \<Rightarrow> (Some e, w)
                | (None, w) \<Rightarrow>
                    (case swap_locked h binary target w of
                       (r, w) \<Rightarrow> (r, discard (remove h (lock_path target) w))))))"

lemmas swap_defs = copyFileSyncMode_def syncDir_def checkWritable_def roll_back_def
  replace_target_def stage_binary_def swap_locked_def SwapBinary_def

section \<open>Paths beside the target\<close>

lemma side_paths [simp]:
  "old_path p \<noteq> p" "p \<noteq> old_path p" "new_path p \<noteq> p" "p \<noteq> new_path p"
  "lock_path p \<noteq> p" "p \<noteq> lock_path p"
  "old_path p \<noteq> new_path p" "new_path p \<noteq> old_path p" "old_path p \<noteq> lock_path p" "lock_path p \<noteq> old_path p"
  "new_path p \<noteq> lock_path p" "lock_path p \<noteq> new_path p"
  by (simp_all add: old_path_def new_path_def lock_path_def)

section \<open>Copying\<close>

text \<open>
  \<open>copied w w' dst b mode\<close>: the copy left at \<open>dst\<close> the bytes \<open>b\<close>, with the mode of the file that was
  there or else the requested one without the mask.
\<close>

definition copy_perm :: "host \<Rightarrow> 9 word \<Rightarrow> node option \<Rightarrow> 9 word" where
  "copy_perm h mode n = (case n of Some (File _ m _) \<Rightarrow> m | _ \<Rightarrow> mode AND NOT (h_umask h))"

lemma discard_close [simp]: "tree (discard (close_file h w)) = tree w"
  "changes_in A u (discard (close_file h w)) = changes_in A u w"
  by (simp_all add: discard_def close_file_def)

lemma discard_remove_changes: "changes_in {p} w (discard (remove h p w))"
  using remove_changes [of h p w] by (cases "remove h p w") (simp add: discard_def)

lemma remove_not_link: "not_link (tree w p) \<Longrightarrow> not_link (tree (discard (remove h p w)) p)"
  by (simp add: remove_def discard_def split: option.split)

lemma open_trunc_Inr:
  "not_link (tree w p) \<Longrightarrow> open_trunc h p m w = (Inr q, w') \<Longrightarrow>
     q = p \<and> (\<exists>c. tree w' p = Some (File [] (copy_perm h m (tree w p)) c))"
  by (auto simp: open_trunc_def resolve_plain truncated_def new_file_def copy_perm_def
        split: option.splits node.splits)

lemma open_read_Inr:
  "not_link (tree w p) \<Longrightarrow> open_read h p w = (Inr q, w') \<Longrightarrow> q = p \<and> tree w p \<noteq> None"
  by (auto simp: open_read_def resolve_plain split: option.splits)

lemma write_bytes_not_link:
  "write_bytes h p s w = (r, w') \<Longrightarrow> not_link (tree w p) \<Longrightarrow> not_link (tree w' p)"
  by (auto simp: write_bytes_def append_to_def split: option.splits node.splits)

lemma copy_changes:
  assumes "copyFileSyncMode h src dst mode w = (r, w')" "not_link (tree w dst)"
  shows "changes_in {dst} w w' \<and> not_link (tree w' dst)"
proof (cases "open_read h src w")
  case (Pair i w1)
  note 1 = open_read_changes [OF Pair]
  show ?thesis
  proof (cases i)
    case (Inl e)
    then show ?thesis using assms 1 Pair by (auto simp: copyFileSyncMode_def)
  next
    case (Inr i')
    obtain out w2 where 2: "open_trunc h dst mode w1 = (out, w2)" by fastforce
    have nl: "not_link (tree w1 dst)" using 1 assms(2) by simp
    note c2 = changes_in_seq [OF conjunct1 [OF 1] open_trunc_changes [OF nl 2]]
    show ?thesis
    proof (cases out)
      case (Inl e)
      then show ?thesis using assms c2 Pair Inr 2 nl
        by (auto simp: copyFileSyncMode_def open_trunc_def resolve_plain split: option.splits)
    next
      case out: (Inr q)
      from open_trunc_Inr [OF nl 2 [unfolded out]] have q: "q = dst" and nl2: "not_link (tree w2 dst)" by auto
      obtain r3 w3 where 3: "write_bytes h dst (bytes_at (tree w2) i') w2 = (r3, w3)" by fastforce
      note c3 = changes_in_seq [OF c2 write_changes [OF 3]]
      note nl3 = write_bytes_not_link [OF 3 nl2]
      have rem: "changes_in {dst} w (discard (remove h dst w4)) \<and> not_link (tree (discard (remove h dst w4)) dst)"
        if "changes_in {dst} w w4" "not_link (tree w4 dst)" for w4
        using changes_in_seq [OF that(1) discard_remove_changes] remove_not_link [OF that(2)] by simp
      obtain r4 w4 where 4: "sync_file h w3 = (r4, w4)" by fastforce
      have w4: "tree w4 = tree w3" "changes_in {dst} w w4"
        using sync_changes [OF 4] changes_in_seq [OF c3] by auto
      show ?thesis
        using assms(1) Pair Inr 2 out q 3 4 w4 c3 nl3
          rem [of "discard (close_file h w3)"] rem [of "discard (close_file h w4)"]
        by (cases r3; cases r4) (auto simp: copyFileSyncMode_def split: prod.splits
             dest!: close_changes [where A = "{dst}"] elim: changes_in_seq)
    qed
  qed
qed

lemma copy_done:
  assumes "copyFileSyncMode h src dst mode w = (None, w')" "not_link (tree w dst)" "not_link (tree w src)"
    "src \<noteq> dst"
  shows "\<exists>c. tree w' dst = Some (File (bytes_at (tree w) src) (copy_perm h mode (tree w dst)) c)"
proof -
  obtain i w1 where 1: "open_read h src w = (Inr i, w1)"
    using assms(1) by (auto simp: copyFileSyncMode_def split: prod.splits sum.splits)
  have i: "i = src" and t1: "tree w1 = tree w"
    using open_read_Inr [OF assms(3) 1] open_read_changes [OF 1] by auto
  obtain out w2 where 2: "open_trunc h dst mode w1 = (Inr out, w2)"
    using assms(1) 1 by (auto simp: copyFileSyncMode_def split: prod.splits sum.splits)
  have nl: "not_link (tree w1 dst)" using assms(2) t1 by simp
  from open_trunc_Inr [OF nl 2] obtain c where out: "out = dst"
    and t2: "tree w2 dst = Some (File [] (copy_perm h mode (tree w dst)) c)" using t1 by auto
  have b: "bytes_at (tree w2) src = bytes_at (tree w) src"
    using changes_in_tree [OF open_trunc_changes [OF nl 2], of src] assms(4) t1 by (simp add: bytes_at_def)
  obtain w3 where 3: "write_bytes h dst (bytes_at (tree w) src) w2 = (None, w3)"
    using assms(1) 1 2 i out b
    by (auto simp: copyFileSyncMode_def split: prod.splits sum.splits option.splits)
  from write_bytes_None [OF 3 t2] obtain c' where
    t3: "tree w3 dst = Some (File (bytes_at (tree w) src) (copy_perm h mode (tree w dst)) c')" by auto
  have "tree w' = tree w3"
    using assms(1) 1 2 3 i out b
    by (auto simp: copyFileSyncMode_def sync_file_def close_file_def discard_def split: option.splits)
  then show ?thesis using t3 by auto
qed

section \<open>The writability probe and the lock\<close>

lemma syncDir_changes: "syncDir h w = (r, w') \<Longrightarrow> changes_in A w w' \<and> tree w' = tree w"
  by (auto simp: syncDir_def sync_file_def close_file_def discard_def split: option.splits)

lemma checkWritable_changes:
  assumes "checkWritable h dir w = (r, w')"
  shows "changes_in {p. tree w p = None} w w' \<and> (r = None \<longrightarrow> tree w' = tree w)"
proof -
  let ?p = "Join2 dir (''.devdiag-write-probe-'' @ h_random h (calls w))"
  obtain f w1 where 1: "open_excl h ?p 0x180 w = (f, w1)" by fastforce
  show ?thesis
  proof (cases f)
    case (Inl e)
    then show ?thesis using assms 1 by (auto simp: checkWritable_def open_excl_def split: option.splits if_splits)
  next
    case (Inr q)
    have q: "q = ?p" and none: "tree w ?p = None" and t1: "tree w1 = (tree w)(?p := tree w1 ?p)"
      using 1 Inr by (auto simp: open_excl_def split: option.splits if_splits)
    obtain r2 w2 where 2: "remove h ?p (discard (close_file h w1)) = (r2, w2)" by fastforce
    have "changes_in {?p} w w2"
      using changes_in_seq [of "{?p}" w "discard (close_file h w1)" w2] open_excl_changes [OF 1] remove_changes [OF 2]
      by simp
    then have ch: "changes_in {p. tree w p = None} w w2" using none by (auto elim: changes_in_mono)
    have "r2 = None \<Longrightarrow> tree w2 = tree w"
      using 2 t1 none by (auto simp: remove_def discard_def close_file_def fun_upd_idem split: option.splits if_splits)
    then show ?thesis using assms 1 Inr q 2 ch by (auto simp: checkWritable_def)
  qed
qed

lemma acquire_changes: "acquire_attempts n h lock w = (r, w') \<Longrightarrow> changes_in {lock} w w'"
proof (induction n arbitrary: w)
  case (Suc n)
  obtain f w1 where 1: "open_excl h lock 0x1A4 w = (f, w1)" by fastforce
  note c1 = open_excl_changes [OF 1]
  show ?case
  proof (cases f)
    case (Inr q)
    then have q: "q = lock" using 1 by (auto simp: open_excl_def split: option.splits if_splits)
    obtain r2 w2 where 2: "write_bytes h lock (itoa (int (h_pid h)) @ [CHR 0x0A]) w1 = (r2, w2)" by fastforce
    show ?thesis using Suc.prems 1 2 Inr q changes_in_seq [OF c1 write_changes [OF 2]]
      by (auto simp: discard_def close_file_def)
  next
    case (Inl e)
    obtain s w2 where 2: "stat h lock w1 = (s, w2)" by fastforce
    have c2: "changes_in {lock} w w2" using changes_in_seq [OF c1] stat_changes [OF 2] by auto
    note c3 = changes_in_seq [OF c2 discard_remove_changes]
    show ?thesis using Suc.prems 1 2 Inl c1 c2 changes_in_seq [OF c3 Suc.IH]
      by (auto split: if_splits sum.splits)
  qed
qed simp


lemma acquire_error:
  "acquire_attempts n h lock w = (Some e, w') \<Longrightarrow> (\<exists>x. e = LockFailed x) \<or> e = LockHeld lock \<or> e = LockNotAcquired lock"
  by (induction n arbitrary: w) (auto split: prod.splits sum.splits if_splits)

section \<open>The outcomes of a swap\<close>

text \<open>What a regular file holds, and a property of all trees since a world.\<close>

definition content :: "files \<Rightarrow> string \<Rightarrow> string option" where
  "content t p = (case t p of Some (File b _ _) \<Rightarrow> Some b | _ \<Rightarrow> None)"

definition since :: "(files \<Rightarrow> bool) \<Rightarrow> world \<Rightarrow> world \<Rightarrow> bool" where
  "since P w w' \<longleftrightarrow> (\<exists>ts. trail w' = ts @ trail w \<and> (\<forall>t \<in> set ts. P t))"

lemma since_trans: "since P u v \<Longrightarrow> since P v w \<Longrightarrow> since P u w"
  unfolding since_def by (metis (no_types) append_assoc set_append Un_iff)

lemma since_mono: "since P u v \<Longrightarrow> (\<And>t. P t \<Longrightarrow> Q t) \<Longrightarrow> since Q u v"
  unfolding since_def by blast

lemma since_changes:
  "changes_in A w w' \<Longrightarrow> (\<And>t. agree_outside A (tree w) t \<Longrightarrow> P t) \<Longrightarrow> since P w w'"
  by (auto simp: changes_in_def since_def)

lemma agree_content: "agree_outside A s t \<Longrightarrow> p \<notin> A \<Longrightarrow> content t p = content s p"
  by (simp add: agree_outside_def content_def)

lemma changes_content: "changes_in A w w' \<Longrightarrow> p \<notin> A \<Longrightarrow> content (tree w') p = content (tree w) p"
  by (simp add: changes_in_tree content_def)

lemma since_content:
  assumes "changes_in A w w'" "p \<notin> A" "content (tree w) p = b"
  shows "since (\<lambda>t. content t p = b) w w'"
  by (rule since_changes [OF assms(1)]) (simp add: agree_content [OF _ assms(2)] assms(3))

lemma content_not_link: "content t p = Some b \<Longrightarrow> not_link (t p)"
  by (simp add: content_def split: option.splits node.splits)

lemma content_bytes: "content t p = Some b \<Longrightarrow> bytes_at t p = b"
  by (simp add: content_def bytes_at_def split: option.splits node.splits)

lemma copy_content:
  assumes "copyFileSyncMode h src dst mode w = (None, w')" "not_link (tree w dst)"
    "content (tree w) src = Some b" "src \<noteq> dst"
  shows "content (tree w') dst = Some b"
  using copy_done [OF assms(1,2) content_not_link [OF assms(3)] assms(4)] content_bytes [OF assms(3)]
  by (auto simp: content_def)

text \<open>A complete binary is at hand: the old or the new one in place, or the old one beside it.\<close>

definition in_place :: "string \<Rightarrow> string \<Rightarrow> string \<Rightarrow> files \<Rightarrow> bool" where
  "in_place b b' target t \<longleftrightarrow> content t target \<in> {Some b, Some b'}"

definition recoverable :: "string \<Rightarrow> string \<Rightarrow> string \<Rightarrow> files \<Rightarrow> bool" where
  "recoverable b b' target t \<longleftrightarrow> in_place b b' target t \<or> content t (old_path target) = Some b"

text \<open>
  What a swap promises of its result: the new binary in place on success, the old one on an error.
  When the rollback fails too, the old binary is at the path the error names; when the directory
  cannot be synced and there was nothing to roll back to, the new binary stays.
\<close>

definition swap_promise :: "string \<Rightarrow> string \<Rightarrow> string \<Rightarrow> swap_error option \<Rightarrow> files \<Rightarrow> bool" where
  "swap_promise b b' target r t =
     (case r of
        None \<Rightarrow> content t target = Some b'
      | Some (RollbackFailed e c p) \<Rightarrow> p = old_path target \<and> content t p = Some b
      | Some (DirSyncFailed e) \<Rightarrow> content t target \<in> {Some b, Some b'}
      | Some e \<Rightarrow> content t target = Some b)"

lemma roll_back_result:
  assumes "roll_back h target mode True e w = (r, w')"
    and "content (tree w) (old_path target) = Some b" "not_link (tree w target)"
    and "\<And>x c p. e \<noteq> RollbackFailed x c p"
  shows "swap_promise b b' target r (tree w') \<and> since (recoverable b b' target) w w' \<and> r \<noteq> None"
proof -
  define w1 where "w1 = discard (remove h (new_path target) w)"
  have c1: "changes_in {new_path target} w w1" by (simp add: w1_def discard_remove_changes)
  obtain r2 w2 where 2: "copyFileSyncMode h (old_path target) target mode w1 = (r2, w2)" by fastforce
  have o1: "content (tree w1) (old_path target) = Some b" using changes_content [OF c1] assms(2) by simp
  have n1: "not_link (tree w1 target)" using changes_in_tree [OF c1, of target] assms(3) by simp
  note c2 = conjunct1 [OF copy_changes [OF 2 n1]]
  have c12: "changes_in {new_path target, target} w w2"
    using changes_in_trans [OF c1 c2] by (simp add: insert_commute)
  have rec: "since (recoverable b b' target) w v" if "changes_in {new_path target, target} w v" for v
    using that assms(2) by (elim since_changes) (simp add: recoverable_def agree_content)
  show ?thesis
  proof (cases r2)
    case (Some c)
    then have r: "r = Some (RollbackFailed e c (old_path target))" "w' = w2"
      using assms(1) 2 by (simp_all add: roll_back_def w1_def)
    show ?thesis using r rec [OF c12] changes_content [OF c12, of "old_path target"] assms(2)
      by (simp add: swap_promise_def)
  next
    case None
    obtain r3 w3 where 3: "syncDir h w2 = (r3, w3)" by fastforce
    have r: "r = Some e" "w' = w3" using assms(1) 2 3 None by (simp_all add: roll_back_def w1_def discard_def)
    have c3: "changes_in {new_path target, target} w w3"
      using changes_in_seq [OF c12] syncDir_changes [OF 3] by auto
    have "content (tree w3) target = Some b"
      using copy_content [OF 2 [unfolded None] n1 o1] syncDir_changes [OF 3] by simp
    then show ?thesis using r rec [OF c3] assms(4) by (auto simp: swap_promise_def split: swap_error.split)
  qed
qed

lemma replace_result:
  assumes "replace_target h target mode backed w = (r, w')"
    and "content (tree w) target = Some b" "content (tree w) (new_path target) = Some b'"
    and "backed \<longrightarrow> content (tree w) (old_path target) = Some b"
  shows "swap_promise b b' target r (tree w') \<and> since (recoverable b b' target) w w' \<and>
         (r = None \<longrightarrow> since (in_place b b' target) w w')"
proof -
  have undo: "swap_promise b b' target r (tree w') \<and> since (recoverable b b' target) v w' \<and> r \<noteq> None"
    if "roll_back h target mode backed e v = (r, w')" "content (tree v) target \<in> {Some b, Some b'}"
       "backed \<longrightarrow> content (tree v) (old_path target) = Some b" "e = DirSyncFailed x \<or> e = RenameFailed x \<and> content (tree v) target = Some b"
    for e v x
  proof (cases backed)
    case True
    then show ?thesis using that content_not_link [of "tree v" target] by (intro roll_back_result) auto
  next
    case False
    define u where "u = discard (remove h (new_path target) v)"
    have c: "changes_in {new_path target} v u" by (simp add: u_def discard_remove_changes)
    have "r = Some e" "w' = u" using that(1) False by (simp_all add: roll_back_def u_def)
    moreover have "content (tree u) target = content (tree v) target" using changes_content [OF c] by simp
    moreover have "since (recoverable b b' target) v u"
      using c that(2) by (elim since_changes) (auto simp: recoverable_def in_place_def agree_content)
    ultimately show ?thesis using that(2,4) by (auto simp: swap_promise_def)
  qed
  obtain r1 w1 where 1: "rename h (new_path target) target w = (r1, w1)" by fastforce
  show ?thesis
  proof (cases r1)
    case (Some e)
    have t1: "tree w1 = tree w" "trail w1 = trail w"
      using 1 Some by (auto simp: rename_def split: option.splits if_splits)
    have s: "since P w w' = since P w1 w'" for P by (simp add: since_def t1)
    have rb: "roll_back h target mode backed (RenameFailed e) w1 = (r, w')"
      using assms(1) 1 Some by (simp add: replace_target_def)
    have "swap_promise b b' target r (tree w') \<and> since (recoverable b b' target) w1 w' \<and> r \<noteq> None"
      by (rule undo [OF rb, where x = e]) (use t1 assms in simp_all)
    then show ?thesis by (auto simp: s)
  next
    case None
    have t1: "trail w1 = tree w1 # trail w" "content (tree w1) target = Some b'"
      "content (tree w1) (old_path target) = content (tree w) (old_path target)"
      using 1 None assms(3) by (auto simp: rename_def content_def split: option.splits if_splits)
    have s1: "since (in_place b b' target) w w1" using t1 by (simp add: since_def in_place_def)
    have s1': "since (recoverable b b' target) w w1" using since_mono [OF s1] by (simp add: recoverable_def)
    obtain r2 w2 where 2: "syncDir h w1 = (r2, w2)" by fastforce
    have t2: "tree w2 = tree w1" "trail w2 = trail w1"
      using 2 by (auto simp: syncDir_def sync_file_def close_file_def discard_def split: option.splits)
    have s2: "since P w w2 = since P w w1" for P by (simp add: since_def t2)
    show ?thesis
    proof (cases r2)
      case (Some e)
      have rb: "roll_back h target mode backed (DirSyncFailed e) w2 = (r, w')"
        using assms(1) 1 2 None Some by (simp add: replace_target_def)
      have "swap_promise b b' target r (tree w') \<and> since (recoverable b b' target) w2 w' \<and> r \<noteq> None"
        by (rule undo [OF rb, where x = e]) (use t1 t2 assms in simp_all)
      then show ?thesis using since_trans [of "recoverable b b' target" w w2 w'] s1' s2 by auto
    next
      case N: None
      then have "r = None" "w' = w2" using assms(1) 1 2 None by (simp_all add: replace_target_def)
      then show ?thesis using s1 s1' s2 t1 t2 by (simp add: swap_promise_def)
    qed
  qed
qed


lemma stage_result:
  assumes "stage_binary h binary target mode backed w = (r, w')"
    and "content (tree w) target = Some b" "content (tree w) binary = Some b'"
    and "not_link (tree w (new_path target))" "binary \<noteq> new_path target"
    and "backed \<longrightarrow> content (tree w) (old_path target) = Some b"
  shows "swap_promise b b' target r (tree w') \<and> since (recoverable b b' target) w w' \<and>
         (r = None \<longrightarrow> since (in_place b b' target) w w')"
proof -
  obtain r1 w1 where 1: "copyFileSyncMode h binary (new_path target) mode w = (r1, w1)" by fastforce
  note c1 = conjunct1 [OF copy_changes [OF 1 assms(4)]]
  have t1: "content (tree w1) target = Some b" "content (tree w1) (old_path target) = content (tree w) (old_path target)"
    using changes_content [OF c1] assms(2) by simp_all
  have s1: "since (in_place b b' target) w w1"
    using c1 assms(2) by (elim since_changes) (simp add: in_place_def agree_content)
  have s1': "since (recoverable b b' target) w w1" using since_mono [OF s1] by (simp add: recoverable_def)
  show ?thesis
  proof (cases r1)
    case (Some e)
    then show ?thesis using assms(1) 1 t1 s1' by (auto simp: stage_binary_def swap_promise_def)
  next
    case None
    have 2: "replace_target h target mode backed w1 = (r, w')" using assms(1) 1 None by (simp add: stage_binary_def)
    have n: "content (tree w1) (new_path target) = Some b'"
      by (rule copy_content [OF 1 [unfolded None] assms(4,3,5)])
    have "backed \<longrightarrow> content (tree w1) (old_path target) = Some b" using assms(6) t1 by simp
    from replace_result [OF 2 t1(1) n this] show ?thesis
      using since_trans [OF s1'] since_trans [OF s1] by blast
  qed
qed

lemma swap_locked_result:
  assumes "swap_locked h binary target w = (r, w')"
    and "content (tree w) target = Some b" "content (tree w) binary = Some b'"
    and "not_link (tree w (new_path target))" "not_link (tree w (old_path target))"
    and "binary \<notin> {new_path target, old_path target}"
  shows "swap_promise b b' target r (tree w') \<and> since (recoverable b b' target) w w' \<and>
         (r = None \<longrightarrow> since (in_place b b' target) w w')"
proof -
  obtain f w1 where 1: "stat h target w = (f, w1)" by fastforce
  have t1: "tree w1 = tree w" and s1: "\<And>P v. since P w v = since P w1 v"
    using 1 by (auto simp: stat_def since_def split: option.splits sum.splits)
  show ?thesis
  proof (cases f)
    case (Inl e)
    have "stage_binary h binary target 0x1ED False w1 = (r, w')"
      using assms(1) 1 Inl by (simp add: swap_locked_def)
    from stage_result [OF this] show ?thesis using assms t1 s1 by simp
  next
    case (Inr n)
    obtain r2 w2 where 2: "copyFileSyncMode h target (old_path target) (node_perm n) w1 = (r2, w2)" by fastforce
    have nl: "not_link (tree w1 (old_path target))" using assms(5) t1 by simp
    note c2 = conjunct1 [OF copy_changes [OF 2 nl]]
    have t2: "content (tree w2) target = Some b" "content (tree w2) binary = Some b'"
      "not_link (tree w2 (new_path target))"
      using changes_content [OF c2] changes_in_tree [OF c2, of "new_path target"] assms t1 by simp_all
    have s2: "since (in_place b b' target) w1 w2"
      using c2 assms(2) t1 by (elim since_changes) (simp add: in_place_def agree_content)
    have s2': "since (recoverable b b' target) w1 w2" using since_mono [OF s2] by (simp add: recoverable_def)
    show ?thesis
    proof (cases r2)
      case (Some e)
      then show ?thesis using assms(1) 1 2 Inr t2 s2' s1 by (auto simp: swap_locked_def swap_promise_def)
    next
      case None
      have 3: "stage_binary h binary target (node_perm n) True w2 = (r, w')"
        using assms(1) 1 2 Inr None by (simp add: swap_locked_def)
      have "content (tree w2) (old_path target) = Some b"
        by (rule copy_content [OF 2 [unfolded None] nl]) (use assms t1 in simp_all)
      then show ?thesis
        using stage_result [OF 3 t2(1,2,3)] assms(6) since_trans [OF s2'] since_trans [OF s2] s1 by simp
    qed
  qed
qed

text \<open>A swap ends as promised, and at every moment of it a complete binary is at hand.\<close>

definition ready_to_swap :: "string \<Rightarrow> string \<Rightarrow> string \<Rightarrow> string \<Rightarrow> files \<Rightarrow> bool" where
  "ready_to_swap b b' binary target t \<longleftrightarrow>
     content t target = Some b \<and> content t binary = Some b' \<and>
     not_link (t (new_path target)) \<and> not_link (t (old_path target)) \<and>
     binary \<notin> {new_path target, old_path target, lock_path target}"

lemma ready_changes:
  "changes_in A w w' \<Longrightarrow> ready_to_swap b b' binary target (tree w) \<Longrightarrow>
   A \<inter> {target, binary, new_path target, old_path target} = {} \<Longrightarrow> ready_to_swap b b' binary target (tree w')"
  by (auto simp: ready_to_swap_def changes_content changes_in_tree)

lemma SwapBinary_result:
  assumes "SwapBinary h binary target w = (r, w')" "ready_to_swap b b' binary target (tree w)"
  shows "swap_promise b b' target r (tree w') \<and> since (recoverable b b' target) w w' \<and>
         (r = None \<longrightarrow> since (in_place b b' target) w w')"
proof -
  have b: "content (tree w) target = Some b" using assms(2) by (simp add: ready_to_swap_def)
  obtain f w1 where 1: "lstat h target w = (f, w1)" by fastforce
  have t1: "tree w1 = tree w" and s1: "\<And>P v. since P w v = since P w1 v" and nl: "\<not> is_link f"
    using 1 b by (auto simp: lstat_def since_def is_link_def content_def split: option.splits node.splits)
  obtain r2 w2 where 2: "checkWritable h (Dir target) w1 = (r2, w2)" by fastforce
  note c2 = checkWritable_changes [OF 2]
  have ex: "target \<notin> {p. tree w1 p = None}" using b t1 by (auto simp: content_def split: option.splits)
  have s2: "since (in_place b b' target) w1 w2" "content (tree w2) target = Some b"
    using since_changes [OF conjunct1 [OF c2], where P = "in_place b b' target"]
      changes_content [OF conjunct1 [OF c2], of target] agree_content [of _ _ _ target] b t1 ex
    by (simp_all add: in_place_def)
  have early: ?thesis
    if "since (in_place b b' target) w1 w'" "content (tree w') target = Some b" "r = Some e"
       "case e of RollbackFailed _ _ _ \<Rightarrow> False | _ \<Rightarrow> True" for e
    using that s1 since_mono [OF that(1)] by (simp add: recoverable_def swap_promise_def split: swap_error.splits)
  show ?thesis
  proof (cases r2)
    case (Some e)
    then show ?thesis using assms(1) 1 2 nl s2 by (intro early [of "NotWritable (Dir target) e"]) (simp_all add: SwapBinary_def)
  next
    case None
    have ready2: "ready_to_swap b b' binary target (tree w2)" using c2 None assms(2) t1 by simp
    obtain r3 w3 where 3: "acquireLock h (lock_path target) w2 = (r3, w3)" by fastforce
    have c3: "changes_in {lock_path target} w2 w3" using 3 by (auto simp: acquireLock_def dest: acquire_changes)
    have ready3: "ready_to_swap b b' binary target (tree w3)"
      using ready_changes [OF c3 ready2] ready2 by (auto simp: ready_to_swap_def)
    have s3: "since (in_place b b' target) w1 w3"
      using since_trans [OF s2(1) since_changes [OF c3]] s2(2) by (simp add: in_place_def agree_content)
    show ?thesis
    proof (cases r3)
      case (Some e)
      have "case e of RollbackFailed _ _ _ \<Rightarrow> False | _ \<Rightarrow> True"
        using acquire_error [OF 3 [unfolded acquireLock_def Some]] by (auto split: swap_error.splits)
      then show ?thesis using assms(1) 1 2 3 nl None Some s3 ready3
        by (intro early [of e]) (simp_all add: SwapBinary_def ready_to_swap_def)
    next
      case N3: None
      obtain r4 w4 where 4: "swap_locked h binary target w3 = (r4, w4)" by fastforce
      have fin: "r = r4" "w' = discard (remove h (lock_path target) w4)"
        using assms(1) 1 2 3 4 nl None N3 by (simp_all add: SwapBinary_def)
      have c5: "changes_in {lock_path target} w4 w'" by (simp add: fin discard_remove_changes)
      have res: "swap_promise b b' target r (tree w4) \<and> since (recoverable b b' target) w3 w4 \<and>
                 (r = None \<longrightarrow> since (in_place b b' target) w3 w4)"
        using swap_locked_result [OF 4] ready3 fin by (simp add: ready_to_swap_def)
      have eq: "recoverable b b' target t = recoverable b b' target (tree w4)"
        "in_place b b' target t = in_place b b' target (tree w4)"
        if "agree_outside {lock_path target} (tree w4) t" for t
        using agree_content [OF that, of target] agree_content [OF that, of "old_path target"]
        by (simp_all add: recoverable_def in_place_def)
      have pr: "swap_promise b b' target r (tree w')"
        using res changes_content [OF c5, of target] changes_content [OF c5, of "old_path target"]
        by (auto simp: swap_promise_def split: option.splits swap_error.splits)
      have rec: "recoverable b b' target (tree w4)" "r = None \<longrightarrow> in_place b b' target (tree w4)"
        using res by (auto simp: swap_promise_def recoverable_def in_place_def split: option.splits swap_error.splits)
      have s5: "since (recoverable b b' target) w4 w'" "r = None \<longrightarrow> since (in_place b b' target) w4 w'"
        using since_changes [OF c5, of "recoverable b b' target"] since_changes [OF c5, of "in_place b b' target"]
          rec eq by blast+
      have "since (recoverable b b' target) w1 w3" using since_mono [OF s3] by (simp add: recoverable_def)
      from since_trans [OF since_trans [OF this] s5(1)] since_trans [OF since_trans [OF s3]] s5(2)
      show ?thesis using pr res s1 by blast
    qed
  qed
qed

section \<open>A rollback that loses the binary\<close>

definition example_host :: "nat list \<Rightarrow> host" where
  "example_host faults =
     \<lparr>h_fault = (\<lambda>n. if n \<in> set faults then Some ''disk full'' else None), h_written = (\<lambda>_. 0), h_clock = (\<lambda>_. 0),
      h_umask = 0, h_random = (\<lambda>_. ''1''), h_pid = 7, h_kept = (\<lambda>_ _. True)\<rparr>"

definition example_world :: world where
  "example_world =
     \<lparr>tree = (\<lambda>p. if p = ''/b/d'' then Some (File ''old'' 0 0) else if p = ''/t/n'' then Some (File ''new'' 0 0) else None),
      calls = 0, trail = []\<rparr>"


text \<open>
  The rename fails, so the binary is still in place; then the rollback truncates it to write the
  backup over it, the disk is full, and the file is removed.
\<close>

lemma rollback_loses_binary:
  "case SwapBinary (example_host [20, 24]) ''/t/n'' ''/b/d'' example_world of (r, w) \<Rightarrow>
     r = Some (RollbackFailed (RenameFailed (Fault ''disk full'')) (Fault ''disk full'') ''/b/d.old'') \<and>
     tree w ''/b/d'' = None"
  by code_simp

end
