(* ===== verification/Updater_Lock.thy ===== *)
theory Updater_Lock
  imports Updater_Swap Transition_Systems
begin

text \<open>
  Several updaters at the lock of \<open>internal/updater/swap.go\<close>: each makes the calls of
  \<open>acquireLock\<close>, one after the other, holds the lock while it swaps, and removes it; between two
  calls of one, others may make theirs, time may pass, and an updater that holds the lock may crash.
  The lock file is known by its creator and its time.
\<close>

datatype phase = Trying nat | Judging nat | Breaking nat | Holding | Over

record lock_state =
  l_file :: "(nat \<times> int) option"
  l_phase :: "nat \<Rightarrow> phase"
  l_now :: int

definition stale :: "lock_state \<Rightarrow> bool" where
  "stale s \<longleftrightarrow> (case l_file s of None \<Rightarrow> False | Some (p, t) \<Rightarrow> l_now s - t > hour)"

definition to_phase :: "nat \<Rightarrow> phase \<Rightarrow> lock_state \<Rightarrow> lock_state" where
  "to_phase p a s = s\<lparr>l_phase := (l_phase s)(p := a)\<rparr>"

text \<open>
  A step of updater \<open>p\<close>: the exclusive creation of the file and its two outcomes, the end of the
  loop, the look at the age of a file that exists, the removal of a stale one, the removal at the end.
\<close>

inductive own_step :: "nat \<Rightarrow> lock_state \<Rightarrow> lock_state \<Rightarrow> bool" where
  "l_phase s p = Trying (Suc n) \<Longrightarrow> l_file s = None \<Longrightarrow>
     own_step p s ((to_phase p Holding s)\<lparr>l_file := Some (p, l_now s)\<rparr>)"
| "l_phase s p = Trying (Suc n) \<Longrightarrow> l_file s \<noteq> None \<Longrightarrow> own_step p s (to_phase p (Judging n) s)"
| "l_phase s p = Trying 0 \<Longrightarrow> own_step p s (to_phase p Over s)"
| "l_phase s p = Judging n \<Longrightarrow> stale s \<Longrightarrow> own_step p s (to_phase p (Breaking n) s)"
| "l_phase s p = Judging n \<Longrightarrow> \<not> stale s \<Longrightarrow> own_step p s (to_phase p Over s)"
| "l_phase s p = Breaking n \<Longrightarrow> own_step p s ((to_phase p (Trying n) s)\<lparr>l_file := None\<rparr>)"
| "l_phase s p = Holding \<Longrightarrow> own_step p s ((to_phase p Over s)\<lparr>l_file := None\<rparr>)"

inductive lock_step :: "lock_state \<Rightarrow> lock_state \<Rightarrow> bool" where
  "own_step p s t \<Longrightarrow> lock_step s t"
| "0 \<le> d \<Longrightarrow> lock_step s (s\<lparr>l_now := l_now s + d\<rparr>)"
| "l_phase s p = Holding \<Longrightarrow> lock_step s (to_phase p Over s)"

inductive_cases own_stepE: "own_step p s t"
inductive_cases lock_stepE: "lock_step s t"

definition lock_start :: "(nat \<times> int) option \<Rightarrow> int \<Rightarrow> lock_state" where
  "lock_start f now = \<lparr>l_file = f, l_phase = (\<lambda>_. Trying 2), l_now = now\<rparr>"

lemma to_phase_simps [simp]:
  "l_phase (to_phase p a s) = (l_phase s)(p := a)" "l_file (to_phase p a s) = l_file s" "l_now (to_phase p a s) = l_now s"
  by (simp_all add: to_phase_def)

section \<open>Mutual exclusion\<close>

text \<open>Steps after which no lock file is stale: every updater is done within an hour.\<close>

definition prompt_step :: "lock_state \<Rightarrow> lock_state \<Rightarrow> bool" where
  "prompt_step s t \<longleftrightarrow> lock_step s t \<and> \<not> stale t"

definition exclusive :: "lock_state \<Rightarrow> bool" where
  "exclusive s \<longleftrightarrow>
     \<not> stale s \<and> (\<forall>p n. l_phase s p \<noteq> Breaking n) \<and>
     (\<forall>p. l_phase s p = Holding \<longrightarrow> (\<exists>t. l_file s = Some (p, t)))"

lemma exclusiveD: "exclusive s \<Longrightarrow> l_phase s p = Holding \<Longrightarrow> \<exists>t. l_file s = Some (p, t)"
  by (simp add: exclusive_def)

lemma exclusive_unique: "exclusive s \<Longrightarrow> l_phase s p = Holding \<Longrightarrow> l_phase s q = Holding \<Longrightarrow> p = q"
  using exclusiveD [of s p] exclusiveD [of s q] by auto

lemma exclusiveI:
  "\<not> stale t \<Longrightarrow> (\<And>p n. l_phase t p \<noteq> Breaking n) \<Longrightarrow>
   (\<And>p. l_phase t p = Holding \<Longrightarrow> \<exists>c. l_file t = Some (p, c)) \<Longrightarrow> exclusive t"
  by (simp add: exclusive_def)

lemma exclusive_drop:
  assumes "exclusive s" "l_phase s p = Holding" "\<not> stale t"
    and "l_phase t = (l_phase s)(p := Over)"
  shows "exclusive t"
proof (rule exclusiveI [OF assms(3)])
  fix q
  show "l_phase t q \<noteq> Breaking n" for n using assms by (simp add: exclusive_def)
  assume "l_phase t q = Holding"
  then show "\<exists>c. l_file t = Some (q, c)"
    using exclusive_unique [OF assms(1,2), of q] assms(4) by (cases "q = p") simp_all
qed

lemma own_step_exclusive:
  assumes "exclusive s" "own_step p s t" "\<not> stale t"
  shows "exclusive t"
  using assms(2)
proof (cases rule: own_step.cases)
  case (1 n)
  have "l_phase s q \<noteq> Holding" for q using exclusiveD [OF assms(1), of q] 1 by auto
  then show ?thesis using assms(1,3) 1 by (intro exclusiveI) (auto simp: exclusive_def split: if_splits)
next
  case 7
  show ?thesis by (rule exclusive_drop [OF assms(1) 7(2) assms(3)]) (simp add: 7)
qed (use assms in \<open>auto simp: exclusive_def\<close>)

lemma exclusive_step:
  assumes "exclusive s" "prompt_step s t"
  shows "exclusive t"
proof -
  have fresh: "\<not> stale t" and "lock_step s t" using assms(2) by (simp_all add: prompt_step_def)
  from this(2) show ?thesis
  proof (cases rule: lock_step.cases)
    case (1 p)
    then show ?thesis using own_step_exclusive [OF assms(1) _ fresh] by blast
  next
    case (2 d)
    then show ?thesis using assms(1) fresh by (simp add: exclusive_def)
  next
    case (3 p)
    show ?thesis by (rule exclusive_drop [OF assms(1) 3(2) fresh]) (simp add: 3)
  qed
qed

interpretation lk: invariant_system prompt_step exclusive
  by unfold_locales (rule exclusive_step)

lemma exclusive_start: "exclusive (lock_start None now)"
  by (simp add: exclusive_def lock_start_def stale_def)

text \<open>C25: While every updater that takes the lock is done within an hour, no two updaters hold it at
  the same time, whatever the order of their calls.\<close>

theorem lock_mutual_exclusion:
  assumes "prompt_step\<^sup>*\<^sup>* (lock_start None now) s" "l_phase s p = Holding" "l_phase s q = Holding"
  shows "p = q"
  using lk.inv_steps [OF assms(1) exclusive_start] assms(2,3) by (rule exclusive_unique)

theorem lock_mutual_exclusion_witness:
  "let s = (lock_start None 0)\<lparr>l_phase := (\<lambda>_. Trying 2)(3 := Holding), l_file := Some (3, 0)\<rparr>
   in \<forall>q. l_phase s q = Holding \<longrightarrow> 3 = q"
proof -
  let ?s = "(lock_start None 0)\<lparr>l_phase := (\<lambda>_. Trying 2)(3 := Holding), l_file := Some (3, 0)\<rparr>"
  have "own_step 3 (lock_start None 0) ((to_phase 3 Holding (lock_start None 0))\<lparr>l_file := Some (3, l_now (lock_start None 0))\<rparr>)"
    by (rule own_step.intros(1) [of _ _ 1]) (simp_all add: lock_start_def)
  then have "own_step 3 (lock_start None 0) ?s" by (simp add: to_phase_def lock_start_def)
  then have "prompt_step (lock_start None 0) ?s"
    unfolding prompt_step_def by (auto intro: lock_step.intros simp: stale_def lock_start_def hour_def)
  then have r: "prompt_step\<^sup>*\<^sup>* (lock_start None 0) ?s" by (rule r_into_rtranclp)
  have h: "l_phase ?s 3 = Holding" by simp
  show ?thesis using lock_mutual_exclusion [OF r h] by (simp only: Let_def) blast
qed

section \<open>The lock of a crashed updater\<close>

text \<open>
  A stale lock is removed by name after its age was read. Two updaters that both read the age of the
  same stale file both remove "the" file: the second removes the new file of the first, and both
  hold the lock.
\<close>

lemma own_run: "own_step p s t \<Longrightarrow> lock_step\<^sup>*\<^sup>* t u \<Longrightarrow> lock_step\<^sup>*\<^sup>* s u"
  using converse_rtranclp_into_rtranclp [of lock_step s t u] lock_step.intros(1) by blast

lemma stale_lock_taken_twice:
  "\<exists>s. lock_step\<^sup>*\<^sup>* (lock_start (Some (0, 0)) (hour + 1)) s \<and> l_phase s 1 = Holding \<and> l_phase s 2 = Holding"
proof -
  let ?s = "lock_start (Some (0, 0)) (hour + 1)"
  let ?j = "to_phase 2 (Judging 1) (to_phase 1 (Judging 1) ?s)"
  let ?b = "to_phase 2 (Breaking 1) (to_phase 1 (Breaking 1) ?j)"
  let ?t = "(to_phase 1 (Trying 1) ?b)\<lparr>l_file := None\<rparr>"
  let ?h = "(to_phase 1 Holding ?t)\<lparr>l_file := Some (1, l_now ?t)\<rparr>"
  let ?u = "(to_phase 2 (Trying 1) ?h)\<lparr>l_file := None\<rparr>"
  let ?e = "(to_phase 2 Holding ?u)\<lparr>l_file := Some (2, l_now ?u)\<rparr>"
  have 1: "own_step 1 ?s (to_phase 1 (Judging 1) ?s)"
    by (rule own_step.intros(2)) (simp_all add: lock_start_def)
  have 2: "own_step 2 (to_phase 1 (Judging 1) ?s) ?j"
    by (rule own_step.intros(2)) (simp_all add: lock_start_def)
  have 3: "own_step 1 ?j (to_phase 1 (Breaking 1) ?j)"
    by (rule own_step.intros(4)) (simp_all add: lock_start_def stale_def)
  have 4: "own_step 2 (to_phase 1 (Breaking 1) ?j) ?b"
    by (rule own_step.intros(4)) (simp_all add: lock_start_def stale_def)
  have 5: "own_step 1 ?b ?t" by (rule own_step.intros(6) [of _ _ 1]) simp
  have 6: "own_step 1 ?t ?h" by (rule own_step.intros(1) [of _ _ 0]) simp_all
  have 7: "own_step 2 ?h ?u" by (rule own_step.intros(6) [of _ _ 1]) simp
  have 8: "own_step 2 ?u ?e" by (rule own_step.intros(1) [of _ _ 0]) simp_all
  have "lock_step\<^sup>*\<^sup>* ?s ?e"
    by (rule own_run [OF 1 own_run [OF 2 own_run [OF 3 own_run [OF 4 own_run [OF 5 own_run
          [OF 6 own_run [OF 7 own_run [OF 8 rtranclp.rtrancl_refl]]]]]]]])
  moreover have "l_phase ?e 1 = Holding" by simp
  moreover have "l_phase ?e 2 = Holding" by simp
  ultimately show ?thesis by (intro exI [of _ ?e] conjI)
qed

section \<open>No updater waits for ever\<close>

fun rank :: "phase \<Rightarrow> nat" where
  "rank (Trying n) = 3 * n + 1"
| "rank (Judging n) = 3 * n + 3"
| "rank (Breaking n) = 3 * n + 2"
| "rank Holding = 1"
| "rank Over = 0"

text \<open>The runs of the system with the number of steps an updater makes in them.\<close>

inductive own_steps :: "nat \<Rightarrow> nat \<Rightarrow> lock_state \<Rightarrow> lock_state \<Rightarrow> bool" where
  "own_steps p 0 s s"
| "own_steps p n s t \<Longrightarrow> own_step p t u \<Longrightarrow> own_steps p (Suc n) s u"
| "own_steps p n s t \<Longrightarrow> lock_step t u \<Longrightarrow> l_phase u p = l_phase t p \<Longrightarrow> own_steps p n s u"

lemma own_step_rank: "own_step p s t \<Longrightarrow> rank (l_phase t p) < rank (l_phase s p)"
  by (erule own_stepE) auto

lemma own_step_possible:
  assumes "l_phase s p \<noteq> Over"
  shows "\<exists>t. own_step p s t"
proof (cases "l_phase s p")
  case (Trying n)
  show ?thesis
  proof (cases n)
    case 0
    then show ?thesis using own_step.intros(3) Trying by blast
  next
    case (Suc m)
    then show ?thesis using own_step.intros(1,2) Trying by (cases "l_file s = None") blast+
  qed
next
  case (Judging n)
  then show ?thesis using own_step.intros(4,5) by (cases "stale s") blast+
next
  case (Breaking n)
  then show ?thesis using own_step.intros(6) by blast
next
  case Holding
  then show ?thesis using own_step.intros(7) by blast
qed (use assms in simp)

text \<open>An updater never waits for another: it can always make its next call, and after at most
  seven calls of the lock protocol it is over, whatever the others do.\<close>

theorem lock_no_waiting:
  assumes "own_steps p n (lock_start f now) s"
  shows "n \<le> 7 \<and> (l_phase s p \<noteq> Over \<longrightarrow> (\<exists>t. own_step p s t))"
proof -
  have "own_steps p n r s \<Longrightarrow> n + rank (l_phase s p) \<le> rank (l_phase r p)" for r
  proof (induction rule: own_steps.induct)
    case (2 p n s t u)
    then show ?case using own_step_rank by fastforce
  qed simp_all
  from this [OF assms] show ?thesis using own_step_possible by (simp add: lock_start_def)
qed

theorem lock_no_waiting_witness: "(0::nat) \<le> 7 \<and> (\<exists>t. own_step 5 (lock_start None 0) t)"
  using lock_no_waiting [OF own_steps.intros(1) [of 5 "lock_start None 0"]] by (simp add: lock_start_def)

end
