(* ===== verification/Updater.thy ===== *)
theory Updater
  imports Updater_Swap
begin

text \<open>
  \<open>internal/updater\<close>: the release to update to, the digests of \<open>checksums.txt\<close>, the provenance check,
  the extraction of the binary from the archive, and \<open>Apply\<close>, which runs them in order before the
  swap. What is outside is a record \<open>upd_world\<close>: \<open>url.Parse\<close> (scheme and host name), the
  environment, what the network answers to a request, SHA-256 in lower-case hexadecimal, the reading
  of a gzip-compressed tar archive as its list of entries, the lookup of a command on the path, the
  run of the \<open>gh\<close> command on the bytes of a file, the platform, the directory for temporary files, and the decoding of the
  response of the releases API (the tag and the names and addresses of the assets).
\<close>

datatype tar_type = TypeReg | TypeSymlink | TypeLink | TypeOther char

record tar_entry =
  te_Name :: string
  te_Typeflag :: tar_type
  te_Size :: int
  te_Data :: string
  te_Error :: "string option"

record upd_request =
  rq_URL :: string
  rq_Accept :: string
  rq_Authorization :: "string option"

record upd_world =
  uw_parse :: "string \<Rightarrow> (string \<times> string) option"
  uw_env :: "string \<Rightarrow> string"
  uw_net :: "upd_request \<Rightarrow> string + int \<times> string \<times> string option"
  uw_sha256 :: "string \<Rightarrow> string"
  uw_untar :: "string \<Rightarrow> string + tar_entry list \<times> string option"
  uw_path :: "string \<Rightarrow> bool"
  uw_run :: "string \<Rightarrow> string list \<Rightarrow> string \<Rightarrow> string option"
  uw_GOOS :: string
  uw_GOARCH :: string
  uw_tmp :: string
  uw_decode :: "string \<Rightarrow> string + string \<times> (string \<times> string) list"

record upd_options =
  uo_Repo :: string
  uo_APIBase :: string
  uo_DownloadBase :: string
  uo_GHPath :: string

record release =
  rel_TagName :: string
  rel_Assets :: "string \<Rightarrow> string option"

datatype upd_error =
    BadRequest string
  | FetchFailed string
  | StatusError int
  | OverCap nat
  | NoBuild string string
  | NoChecksums string
  | AssetDownload upd_error
  | ChecksumsDownload upd_error
  | MalformedDigest string
  | ConflictingDigests string
  | ChecksumsRead string
  | NotListed string
  | DigestMismatch
  | NoStaging os_error
  | AssetNotStaged os_error
  | NoGH
  | AttestationFailed string
  | NotGzip string
  | ArchiveRead string
  | TooManyEntries
  | EscapingEntry string
  | LinkEntry string
  | IrregularEntry string char
  | SecondBinary
  | ImplausibleSize int
  | BinaryNotStaged os_error
  | BinaryWrite string
  | BinaryClose os_error
  | TruncatedEntry
  | NoBinary
  | SwapError swap_error
  | BadResponse string
  | NoTag

section \<open>Addresses and credentials\<close>

definition DefaultRepo :: string where "DefaultRepo = ''meedoomostafa/devdiag''"

definition repo :: "upd_options \<Rightarrow> string" where
  "repo opts = (if uo_Repo opts \<noteq> [] then uo_Repo opts else DefaultRepo)"

definition isLoopbackHost :: "string \<Rightarrow> bool" where
  "isLoopbackHost h \<longleftrightarrow> h = ''127.0.0.1'' \<or> h = ''::1'' \<or> h = ''localhost''"

definition IsLoopbackURL :: "upd_world \<Rightarrow> string \<Rightarrow> bool" where
  "IsLoopbackURL u raw = (case uw_parse u raw of None \<Rightarrow> False | Some (_, h) \<Rightarrow> isLoopbackHost h)"

definition authHeaderAllowed :: "upd_world \<Rightarrow> string \<Rightarrow> bool" where
  "authHeaderAllowed u base =
     (case uw_parse u base of
        None \<Rightarrow> False
      | Some (scheme, h) \<Rightarrow>
          if isLoopbackHost h then True
          else if scheme \<noteq> ''https'' then False
          else h = ''api.github.com'' \<or> h = ''github.com'' \<or> has_suffix h ''.github.com'')"

definition apiBase :: "upd_world \<Rightarrow> upd_options \<Rightarrow> string" where
  "apiBase u opts =
     (if uo_APIBase opts \<noteq> [] \<and> IsLoopbackURL u (uo_APIBase opts) then trim_suffix (uo_APIBase opts) ''/''
      else ''https://api.github.com'')"

definition downloadBase :: "upd_world \<Rightarrow> upd_options \<Rightarrow> string" where
  "downloadBase u opts =
     (if uo_DownloadBase opts \<noteq> [] \<and> IsLoopbackURL u (uo_DownloadBase opts)
      then trim_suffix (uo_DownloadBase opts) ''/''
      else ''https://github.com'')"

definition ghPath :: "upd_world \<Rightarrow> upd_options \<Rightarrow> string" where
  "ghPath u opts =
     (if uo_GHPath opts \<noteq> [] \<and> uo_APIBase opts \<noteq> [] \<and> IsLoopbackURL u (uo_APIBase opts)
      then uo_GHPath opts else ''gh'')"

definition newRequest :: "upd_world \<Rightarrow> string \<Rightarrow> string \<Rightarrow> upd_error + upd_request" where
  "newRequest u url accept =
     (if uw_parse u url = None then Inl (BadRequest url)
      else
        (let token = uw_env u ''GITHUB_TOKEN'';
             token = (if token = [] then uw_env u ''GH_TOKEN'' else token)
         in Inr \<lparr>rq_URL = url, rq_Accept = accept,
                 rq_Authorization =
                   (if authHeaderAllowed u url \<and> token \<noteq> [] then Some (''Bearer '' @ token) else None)\<rparr>))"

definition fetch :: "upd_world \<Rightarrow> string \<Rightarrow> string \<Rightarrow> nat \<Rightarrow> upd_error + string" where
  "fetch u url accept cap =
     (case newRequest u url accept of
        Inl e \<Rightarrow> Inl e
      | Inr req \<Rightarrow>
          (case uw_net u req of
             Inl e \<Rightarrow> Inl (FetchFailed e)
           | Inr (status, body, err) \<Rightarrow>
               if status \<noteq> 200 then Inl (StatusError status)
               else
                 (let data = take (cap + 1) body
                  in if err \<noteq> None \<and> length body \<le> cap then Inl (FetchFailed (the err))
                     else if length data > cap then Inl (OverCap cap)
                     else Inr data)))"

definition maxAssetBytes :: nat where "maxAssetBytes = 268435456"
definition maxChecksumsBytes :: nat where "maxChecksumsBytes = 1048576"

definition LatestRelease :: "upd_world \<Rightarrow> upd_options \<Rightarrow> upd_error + release" where
  "LatestRelease u opts =
     (case fetch u (apiBase u opts @ ''/repos/'' @ repo opts @ ''/releases/latest'')
             ''application/vnd.github+json'' maxChecksumsBytes of
        Inl e \<Rightarrow> Inl e
      | Inr data \<Rightarrow>
          (case uw_decode u data of
             Inl e \<Rightarrow> Inl (BadResponse e)
           | Inr (tag, assets) \<Rightarrow>
               if tag = [] then Inl NoTag
               else Inr \<lparr>rel_TagName = tag, rel_Assets = foldl (\<lambda>m (name, a). m(name \<mapsto> a)) (\<lambda>_. None) assets\<rparr>))"

definition AssetName :: "upd_world \<Rightarrow> string \<Rightarrow> upd_error + string" where
  "AssetName u tag =
     (if uw_GOARCH u \<noteq> ''amd64'' \<and> uw_GOARCH u \<noteq> ''arm64'' then Inl (NoBuild (uw_GOOS u) (uw_GOARCH u))
      else if uw_GOOS u \<noteq> ''linux'' then Inl (NoBuild (uw_GOOS u) (uw_GOARCH u))
      else Inr (''devdiag_'' @ trim_prefix tag ''v'' @ ''_linux_'' @ uw_GOARCH u @ ''.tar.gz''))"

definition assetURL :: "upd_world \<Rightarrow> upd_options \<Rightarrow> release \<Rightarrow> string \<Rightarrow> string" where
  "assetURL u opts rel name =
     (case rel_Assets rel name of
        Some a \<Rightarrow>
          if a \<noteq> [] \<and> uo_DownloadBase opts = [] then a
          else downloadBase u opts @ ''/'' @ repo opts @ ''/releases/download/'' @ rel_TagName rel @ ''/'' @ name
      | None \<Rightarrow> downloadBase u opts @ ''/'' @ repo opts @ ''/releases/download/'' @ rel_TagName rel @ ''/'' @ name)"

section \<open>Digests\<close>

definition isHex :: "string \<Rightarrow> bool" where
  "isHex s = list_all (\<lambda>c. CHR ''0'' \<le> c \<and> c \<le> CHR ''9'' \<or> CHR ''a'' \<le> c \<and> c \<le> CHR ''f'' \<or>
                          CHR ''A'' \<le> c \<and> c \<le> CHR ''F'') s"

text \<open>The loop of \<open>checksumFor\<close> over the lines, with the digest found so far.\<close>

fun checksum_lines :: "string \<Rightarrow> string list \<Rightarrow> string \<Rightarrow> upd_error + string" where
  "checksum_lines name [] found = Inr found"
| "checksum_lines name (l # ls) found =
     (case str_fields l of
        [digest, entry] \<Rightarrow>
          if trim_prefix entry ''*'' \<noteq> name then checksum_lines name ls found
          else if length digest \<noteq> 64 \<or> \<not> isHex digest then Inl (MalformedDigest name)
          else if found \<noteq> [] \<and> found \<noteq> digest then Inl (ConflictingDigests name)
          else checksum_lines name ls digest
      | _ \<Rightarrow> checksum_lines name ls found)"

definition checksumFor :: "string \<Rightarrow> string \<Rightarrow> upd_error + string" where
  "checksumFor checksums name =
     (case scan_lines (64 * 1024) checksums of (ls, err) \<Rightarrow>
        (case checksum_lines name ls [] of
           Inl e \<Rightarrow> Inl e
         | Inr found \<Rightarrow>
             (case err of
                Some e \<Rightarrow> Inl (ChecksumsRead e)
              | None \<Rightarrow> if found = [] then Inl (NotListed name) else Inr found)))"

definition verifySHA256 :: "upd_world \<Rightarrow> string \<Rightarrow> string \<Rightarrow> bool" where
  "verifySHA256 u data expected = equal_fold (uw_sha256 u data) expected"

section \<open>Provenance\<close>

text \<open>The duration in the message of a failure is left out.\<close>

definition attestation_args :: "upd_options \<Rightarrow> string \<Rightarrow> string list" where
  "attestation_args opts asset =
     [''attestation'', ''verify'', asset, ''--repo'', repo opts,
      ''--signer-workflow'', repo opts @ ''/.github/workflows/release.yml'']"

definition VerifyAttestation :: "upd_world \<Rightarrow> upd_options \<Rightarrow> string \<Rightarrow> world \<Rightarrow> upd_error option" where
  "VerifyAttestation u opts asset w =
     (let gh = ghPath u opts
      in if \<not> uw_path u gh then Some NoGH
         else case uw_run u gh (attestation_args opts asset) (bytes_at (tree w) asset) of
                None \<Rightarrow> None
              | Some out \<Rightarrow> Some (AttestationFailed (take 2000 (trim_space out))))"

section \<open>Extraction\<close>

definition maxBinaryBytes :: int where "maxBinaryBytes = 536870912"
definition maxArchiveEntries :: nat where "maxArchiveEntries = 1024"

definition escapes :: "string \<Rightarrow> bool" where
  "escapes clean \<longleftrightarrow> IsAbs clean \<or> clean = ''..'' \<or> length clean \<ge> 3 \<and> take 3 clean = ''../''"

text \<open>
  The loop of \<open>ExtractBinary\<close>: the number of headers read, whether the binary was staged (then
  \<open>outPath\<close> is set), and the error the archive ends in, if any.
\<close>

fun extract_entries ::
  "host \<Rightarrow> string \<Rightarrow> nat \<Rightarrow> bool \<Rightarrow> tar_entry list \<Rightarrow> string option \<Rightarrow> world \<Rightarrow> (upd_error + bool) \<times> bool \<times> world" where
  "extract_entries h out n found [] end_err w =
     (case end_err of
        Some e \<Rightarrow> (Inl (ArchiveRead e), found, w)
      | None \<Rightarrow> (Inr found, found, w))"
| "extract_entries h out n found (e # es) end_err w =
     (if n + 1 > maxArchiveEntries then (Inl TooManyEntries, found, w)
      else if escapes (Clean (te_Name e)) then (Inl (EscapingEntry (te_Name e)), found, w)
      else if path_Base (Clean (te_Name e)) \<noteq> ''devdiag'' then extract_entries h out (n + 1) found es end_err w
      else
        (case te_Typeflag e of
           TypeSymlink \<Rightarrow> (Inl (LinkEntry (te_Name e)), found, w)
         | TypeLink \<Rightarrow> (Inl (LinkEntry (te_Name e)), found, w)
         | TypeOther t \<Rightarrow> (Inl (IrregularEntry (te_Name e) t), found, w)
         | TypeReg \<Rightarrow>
             if found then (Inl SecondBinary, found, w)
             else if te_Size e \<le> 0 \<or> te_Size e > maxBinaryBytes then (Inl (ImplausibleSize (te_Size e)), found, w)
             else
               (case open_excl h out 0x1ED w of
                  (Inl err, w) \<Rightarrow> (Inl (BinaryNotStaged err), found, w)
                | (Inr f, w) \<Rightarrow>
                    (let data = take (nat (te_Size e) + 1) (te_Data e)
                     in case write_bytes h f data w of (werr, w) \<Rightarrow>
                          (case close_file h w of (cerr, w) \<Rightarrow>
                             (if werr \<noteq> None then (Inl (BinaryWrite ''write''), True, w)
                              else if te_Error e \<noteq> None then (Inl (BinaryWrite (the (te_Error e))), True, w)
                              else if cerr \<noteq> None then (Inl (BinaryClose (the cerr)), True, w)
                              else if int (length data) \<noteq> te_Size e then (Inl TruncatedEntry, True, w)
                              else extract_entries h out (n + 1) True es end_err w))))))"

definition ExtractBinary :: "upd_world \<Rightarrow> host \<Rightarrow> string \<Rightarrow> string \<Rightarrow> world \<Rightarrow> (upd_error + string) \<times> world" where
  "ExtractBinary u h archive destDir w =
     (case uw_untar u archive of
        Inl e \<Rightarrow> (Inl (NotGzip e), w)
      | Inr (entries, end_err) \<Rightarrow>
          (let out = Join2 destDir ''devdiag''
           in case extract_entries h out 0 False entries end_err w of
                (r, staged, w) \<Rightarrow>
                  (case r of
                     Inr True \<Rightarrow> (Inr out, w)
                   | _ \<Rightarrow>
                       ((case r of Inl e \<Rightarrow> Inl e | Inr _ \<Rightarrow> Inl NoBinary),
                        if staged then discard (remove h out w) else w))))"

section \<open>The update\<close>

record upd_result =
  ur_Tag :: string
  ur_AssetName :: string
  ur_AssetURL :: string
  ur_TargetPath :: string
  ur_BackupPath :: string

text \<open>The part of \<open>Apply\<close> in the staging directory, which is removed afterwards.\<close>

definition apply_staged ::
  "upd_world \<Rightarrow> upd_options \<Rightarrow> host \<Rightarrow> string \<Rightarrow> string \<Rightarrow> string \<Rightarrow> string \<Rightarrow> world \<Rightarrow> upd_error option \<times> world" where
  "apply_staged u opts h tmpDir assetName asset target w =
     (let assetPath = tmpDir @ ''/'' @ assetName
      in case write_file h assetPath asset 0x180 w of
           (Some e, w) \<Rightarrow> (Some (AssetNotStaged e), w)
         | (None, w) \<Rightarrow>
             (case VerifyAttestation u opts assetPath w of
                Some e \<Rightarrow> (Some e, w)
              | None \<Rightarrow>
                  (case ExtractBinary u h asset tmpDir w of
                     (Inl e, w) \<Rightarrow> (Some e, w)
                   | (Inr bin, w) \<Rightarrow>
                       (case SwapBinary h bin target w of
                          (Some e, w) \<Rightarrow> (Some (SwapError e), w)
                        | (None, w) \<Rightarrow> (None, w)))))"

text \<open>What \<open>Apply\<close> downloads and checks before anything is written.\<close>

definition checked_asset :: "upd_world \<Rightarrow> upd_options \<Rightarrow> release \<Rightarrow> upd_error + string \<times> string" where
  "checked_asset u opts rel =
     (case AssetName u (rel_TagName rel) of
        Inl e \<Rightarrow> Inl e
      | Inr name \<Rightarrow>
          if rel_Assets rel ''checksums.txt'' = None then Inl (NoChecksums (rel_TagName rel))
          else
            (case fetch u (assetURL u opts rel name) ''application/octet-stream'' maxAssetBytes of
               Inl e \<Rightarrow> Inl (AssetDownload e)
             | Inr asset \<Rightarrow>
                 (case fetch u (assetURL u opts rel ''checksums.txt'') ''application/octet-stream'' maxChecksumsBytes of
                    Inl e \<Rightarrow> Inl (ChecksumsDownload e)
                  | Inr checksums \<Rightarrow>
                      (case checksumFor checksums name of
                         Inl e \<Rightarrow> Inl e
                       | Inr expected \<Rightarrow>
                           if verifySHA256 u asset expected then Inr (name, asset) else Inl DigestMismatch))))"

definition Apply ::
  "upd_world \<Rightarrow> upd_options \<Rightarrow> host \<Rightarrow> release \<Rightarrow> string \<Rightarrow> world \<Rightarrow> (upd_error + upd_result) \<times> world" where
  "Apply u opts h rel target w =
     (case checked_asset u opts rel of
        Inl e \<Rightarrow> (Inl e, w)
      | Inr (name, asset) \<Rightarrow>
          (case mkdir_temp h (uw_tmp u @ ''/devdiag-update-'') w of
             (Inl e, w) \<Rightarrow> (Inl (NoStaging e), w)
           | (Inr tmpDir, w) \<Rightarrow>
               (case apply_staged u opts h tmpDir name asset target w of
                  (r, w) \<Rightarrow>
                    (case r of
                       Some e \<Rightarrow> Inl e
                     | None \<Rightarrow>
                         Inr \<lparr>ur_Tag = rel_TagName rel, ur_AssetName = name,
                              ur_AssetURL = assetURL u opts rel name, ur_TargetPath = target,
                              ur_BackupPath = target @ ''.old''\<rparr>,
                     discard (remove_all h tmpDir w)))))"

end
