(* ===== verification/Updater_Correct.thy ===== *)
theory Updater_Correct
  imports Updater
begin

text \<open>
  What the updater guarantees: only a single, regular and complete entry is extracted, within the
  staging directory; the installed binary changes only after digest, provenance and archive were
  checked, and only to the binary of the archive that was checked.
\<close>

section \<open>Extraction\<close>

definition devdiag_entry :: "tar_entry \<Rightarrow> bool" where
  "devdiag_entry e \<longleftrightarrow> path_Base (Clean (te_Name e)) = ''devdiag''"

definition plain_binary :: "tar_entry \<Rightarrow> bool" where
  "plain_binary e \<longleftrightarrow>
     devdiag_entry e \<and> te_Typeflag e = TypeReg \<and> 0 < te_Size e \<and> te_Size e \<le> maxBinaryBytes \<and>
     int (length (te_Data e)) = te_Size e \<and> te_Error e = None"

lemma extract_found:
  "extract_entries h out n True es end_err w = (Inr b, st, w') \<Longrightarrow>
     b \<and> w' = w \<and> (\<forall>e \<in> set es. \<not> devdiag_entry e \<and> \<not> escapes (Clean (te_Name e))) \<and> (es = [] \<or> n + length es \<le> maxArchiveEntries)"
proof (induction es arbitrary: n)
  case (Cons e es)
  then show ?case by (cases "te_Typeflag e") (fastforce simp: devdiag_entry_def split: if_splits)+
qed (auto split: option.splits)

lemma extract_changes:
  "extract_entries h out n found es end_err w = (r, st, w') \<Longrightarrow> changes_in {out} w w'"
proof (induction es arbitrary: n found w)
  case (Cons e es)
  obtain f w1 where 1: "open_excl h out 0x1ED w = (f, w1)" by fastforce
  note c1 = open_excl_changes [OF 1]
  obtain r2 w2 where 2: "write_bytes h out (take (nat (te_Size e) + 1) (te_Data e)) w1 = (r2, w2)" by fastforce
  note c2 = changes_in_seq [OF c1 write_changes [OF 2]]
  obtain r3 w3 where 3: "close_file h w2 = (r3, w3)" by fastforce
  note c3 = changes_in_seq [OF c2 conjunct1 [OF close_changes [OF 3]]]
  show ?case
  proof (cases "te_Typeflag e")
    case TypeReg
    show ?thesis
    proof (cases f)
      case (Inl x)
      then show ?thesis using Cons.prems Cons.IH TypeReg 1 c1 by (auto split: if_splits)
    next
      case (Inr q)
      then have "q = out" using open_excl_Inr 1 by blast
      then show ?thesis using Cons.prems Cons.IH TypeReg 1 2 3 c3 Inr changes_in_seq [OF c3 Cons.IH]
        by (auto split: if_splits)
    qed
  qed (use Cons in \<open>auto split: if_splits\<close>)
qed (auto split: option.splits)

definition sole_binary :: "tar_entry list \<Rightarrow> tar_entry \<Rightarrow> bool" where
  "sole_binary entries e \<longleftrightarrow>
     plain_binary e \<and> length entries \<le> maxArchiveEntries \<and>
     (\<forall>x \<in> set entries. \<not> escapes (Clean (te_Name x))) \<and>
     (\<exists>xs ys. entries = xs @ e # ys \<and> (\<forall>x \<in> set (xs @ ys). \<not> devdiag_entry x))"

lemma extract_sole:
  "extract_entries h out n False es end_err w = (Inr True, st, w') \<Longrightarrow>
     \<exists>e xs ys. es = xs @ e # ys \<and> plain_binary e \<and> n + length es \<le> maxArchiveEntries \<and>
       (\<forall>x \<in> set es. \<not> escapes (Clean (te_Name x))) \<and> (\<forall>x \<in> set (xs @ ys). \<not> devdiag_entry x) \<and>
       tree w out = None \<and> (\<exists>m c. tree w' out = Some (File (te_Data e) m c))"
proof (induction es arbitrary: n w)
  case (Cons e es)
  show ?case
  proof (cases "devdiag_entry e")
    case False
    then have "extract_entries h out (n + 1) False es end_err w = (Inr True, st, w')"
      and nb: "\<not> escapes (Clean (te_Name e))"
      using Cons.prems by (auto simp: devdiag_entry_def split: if_splits)
    from Cons.IH [OF this(1)] obtain x xs ys where "es = xs @ x # ys" "plain_binary x"
      "n + 1 + length es \<le> maxArchiveEntries" "\<forall>x \<in> set es. \<not> escapes (Clean (te_Name x))"
      "\<forall>x \<in> set (xs @ ys). \<not> devdiag_entry x" "tree w out = None"
      "\<exists>m c. tree w' out = Some (File (te_Data x) m c)" by blast
    then show ?thesis using nb False by (intro exI [of _ x] exI [of _ "e # xs"] exI [of _ ys]) simp
  next
    case True
    have guard: "n + 1 \<le> maxArchiveEntries" "\<not> escapes (Clean (te_Name e))" "te_Typeflag e = TypeReg"
      "0 < te_Size e" "te_Size e \<le> maxBinaryBytes"
      using Cons.prems True by (auto simp: devdiag_entry_def split: if_splits tar_type.splits)
    let ?data = "take (nat (te_Size e) + 1) (te_Data e)"
    obtain f w1 where 1: "open_excl h out 0x1ED w = (f, w1)" by fastforce
    then obtain q where f: "f = Inr q" using Cons.prems True guard by (cases f) (auto simp: devdiag_entry_def)
    note o = open_excl_Inr [OF 1 [unfolded f]]
    obtain r2 w2 where 2: "write_bytes h out ?data w1 = (r2, w2)" by fastforce
    obtain r3 w3 where 3: "close_file h w2 = (r3, w3)" by fastforce
    have r2: "r2 = None" and err: "te_Error e = None" and size: "int (length ?data) = te_Size e"
      and rest: "extract_entries h out (n + 1) True es end_err w3 = (Inr True, st, w')"
      using Cons.prems True guard 1 f o 2 3 by (auto simp: devdiag_entry_def Let_def split: if_splits)
    have data: "?data = te_Data e" using size by (simp add: min_def split: if_splits)
    have pb: "plain_binary e" using True guard size err data by (simp add: plain_binary_def)
    from write_bytes_None [OF 2 [unfolded r2] conjunct2 [OF conjunct2 [OF o]]] data
    have "\<exists>m c. tree w3 out = Some (File (te_Data e) m c)" using close_changes [OF 3] by auto
    then show ?thesis using extract_found [OF rest] pb guard o
      by (intro exI [of _ e] exI [of _ "[]"] exI [of _ es]) auto
  qed
qed (auto split: option.splits)

lemma ExtractBinary_changes:
  assumes "ExtractBinary u h archive destDir w = (r, w')"
  shows "changes_in {Join2 destDir ''devdiag''} w w'"
proof (cases "uw_untar u archive")
  case (Inr t)
  obtain entries end_err where t: "t = (entries, end_err)" by fastforce
  obtain r1 st w1 where x: "extract_entries h (Join2 destDir ''devdiag'') 0 False entries end_err w = (r1, st, w1)"
    by (metis prod_cases3)
  show ?thesis
    using assms Inr t x extract_changes [OF x] changes_in_seq [OF extract_changes [OF x] discard_remove_changes]
    by (cases r1) (auto simp: ExtractBinary_def Let_def split: bool.splits if_splits)
qed (use assms in \<open>auto simp: ExtractBinary_def\<close>)

lemma ExtractBinary_Inr:
  assumes "ExtractBinary u h archive destDir w = (Inr p, w')"
  shows "p = Join2 destDir ''devdiag'' \<and> changes_in {p} w w' \<and> tree w p = None \<and>
         (\<exists>entries e. uw_untar u archive = Inr (entries, None) \<and> sole_binary entries e \<and>
                      content (tree w') p = Some (te_Data e))"
proof -
  let ?out = "Join2 destDir ''devdiag''"
  obtain entries end_err where t: "uw_untar u archive = Inr (entries, end_err)"
    using assms by (auto simp: ExtractBinary_def split: sum.splits)
  obtain r st w1 where x: "extract_entries h ?out 0 False entries end_err w = (r, st, w1)" by (metis prod_cases3)
  have r: "r = Inr True" and p: "p = ?out" and w: "w' = w1"
    using assms t x by (auto simp: ExtractBinary_def Let_def split: sum.splits bool.splits)
  have no_err: "end_err = None"
  proof -
    have "extract_entries h o' n found es (Some z) v \<noteq> (Inr b, s, v')" for o' n found es z v b s v'
      by (induction es arbitrary: n found v)
        (auto simp: Let_def split: tar_type.splits prod.splits sum.splits if_splits)
    then show ?thesis using x r by (cases end_err) auto
  qed
  from extract_sole [OF x [unfolded r]] extract_changes [OF x] show ?thesis
    unfolding sole_binary_def using t no_err p w by (fastforce simp: content_def)
qed


section \<open>The staging directory\<close>

definition staging_dir :: "upd_world \<Rightarrow> host \<Rightarrow> world \<Rightarrow> string" where
  "staging_dir u h w = uw_tmp u @ ''/devdiag-update-'' @ h_random h (calls w)"

text \<open>
  \<open>os.MkdirTemp\<close> gives a directory that was not there: no file is at its path or below it, and it is
  none of the paths beside the target. The directory for temporary files has a clean path.
\<close>

definition fresh_staging :: "upd_world \<Rightarrow> host \<Rightarrow> string \<Rightarrow> world \<Rightarrow> bool" where
  "fresh_staging u h target w \<longleftrightarrow>
     (let d = staging_dir u h w
      in Join2 d ''devdiag'' = d @ ''/devdiag'' \<and> (\<forall>p. p = d \<or> below d p \<longrightarrow> tree w p = None) \<and>
         d \<notin> {old_path target, new_path target, lock_path target})"

lemma below_append:
  assumes "below d (p @ s)" "CHR ''/'' \<notin> set s"
  shows "below d p"
proof (cases "prefix (d @ ''/'') p")
  case False
  with assms(1) obtain us where us: "d @ ''/'' = p @ us" "prefix us s"
    by (auto simp: below_def prefix_append)
  have "us \<noteq> []" using us(1) False by auto
  then have "last us = CHR ''/''" using us(1) by (metis last_appendR last_snoc)
  then have "CHR ''/'' \<in> set us" using last_in_set [OF \<open>us \<noteq> []\<close>] by simp
  then show ?thesis using set_mono_prefix [OF us(2)] assms(2) by blast
qed (simp add: below_def)

lemma side_not_below:
  assumes "\<not> below d target"
  shows "\<not> below d (old_path target)" "\<not> below d (new_path target)" "\<not> below d (lock_path target)"
  using assms below_append [of d target "''.old''"] below_append [of d target "''.new''"]
    below_append [of d target "''.update-lock''"]
  by (auto simp: old_path_def new_path_def lock_path_def)

lemma write_file_done:
  assumes "write_file h p s m w = (None, w')" "tree w p = None"
  shows "bytes_at (tree w') p = s"
proof -
  obtain f w1 where 1: "open_trunc h p m w = (f, w1)" by fastforce
  then obtain q where q: "f = Inr q" using assms(1) by (cases f) (auto simp: write_file_def)
  from 1 q assms(2) have o: "q = p" "\<exists>m c. tree w1 p = Some (File [] m c)"
    by (auto simp: open_trunc_def resolve_plain truncated_def new_file_def split: option.splits)
  then obtain m' c where t1: "tree w1 p = Some (File [] m' c)" by blast
  obtain r2 w2 where 2: "write_bytes h p s w1 = (r2, w2)" by fastforce
  have "r2 = None" "tree w' = tree w2"
    using assms(1) 1 2 q o by (auto simp: write_file_def close_file_def split: if_splits)
  then show ?thesis using write_bytes_None [OF 2 [unfolded \<open>r2 = None\<close>] t1] by (auto simp: bytes_at_def)
qed

section \<open>What is checked before anything is written\<close>

definition verified_asset :: "upd_world \<Rightarrow> upd_options \<Rightarrow> release \<Rightarrow> string \<Rightarrow> string \<Rightarrow> bool" where
  "verified_asset u opts rel name asset \<longleftrightarrow>
     AssetName u (rel_TagName rel) = Inr name \<and>
     fetch u (assetURL u opts rel name) ''application/octet-stream'' maxAssetBytes = Inr asset \<and>
     (\<exists>listing digest.
        fetch u (assetURL u opts rel ''checksums.txt'') ''application/octet-stream'' maxChecksumsBytes = Inr listing \<and>
        checksumFor listing name = Inr digest \<and> equal_fold (uw_sha256 u asset) digest)"

lemma checked_asset_Inr: "checked_asset u opts rel = Inr (name, asset) \<Longrightarrow> verified_asset u opts rel name asset"
  by (auto simp: checked_asset_def verified_asset_def verifySHA256_def split: sum.splits if_splits)

definition attested :: "upd_world \<Rightarrow> upd_options \<Rightarrow> string \<Rightarrow> string \<Rightarrow> bool" where
  "attested u opts path asset \<longleftrightarrow>
     uw_path u (ghPath u opts) \<and> uw_run u (ghPath u opts) (attestation_args opts path) asset = None"

lemma VerifyAttestation_None:
  "VerifyAttestation u opts path w = None \<Longrightarrow> attested u opts path (bytes_at (tree w) path)"
  by (auto simp: VerifyAttestation_def attested_def Let_def split: if_splits option.splits)

section \<open>The update\<close>

definition swap_error_of :: "upd_error option \<Rightarrow> swap_error option" where
  "swap_error_of r = (case r of Some (SwapError e) \<Rightarrow> Some e | _ \<Rightarrow> None)"

definition cleared_update ::
  "upd_world \<Rightarrow> upd_options \<Rightarrow> string \<Rightarrow> string \<Rightarrow> string \<Rightarrow> string \<Rightarrow> bool" where
  "cleared_update u opts dir name asset binary \<longleftrightarrow>
     attested u opts (dir @ ''/'' @ name) asset \<and>
     (\<exists>entries e. uw_untar u asset = Inr (entries, None) \<and> sole_binary entries e \<and> te_Data e = binary)"

lemma apply_staged_result:
  assumes "apply_staged u opts h d name asset target w = (r, w')"
    and "content (tree w) target = Some b" "not_link (tree w (old_path target))" "not_link (tree w (new_path target))"
    and "Join2 d ''devdiag'' = d @ ''/devdiag''" "\<forall>p. p = d \<or> below d p \<longrightarrow> tree w p = None"
  shows "since (\<lambda>t. content t target = Some b) w w' \<and> content (tree w') target = Some b \<and> r \<noteq> None \<or>
         (\<exists>b'. cleared_update u opts d name asset b' \<and> (r = None \<or> (\<exists>e. r = Some (SwapError e))) \<and>
               swap_promise b b' target (swap_error_of r) (tree w') \<and> since (recoverable b b' target) w w')"
proof -
  let ?a = "d @ ''/'' @ name" and ?old = "\<lambda>t. content t target = Some b"
  have nt: "\<not> below d target" using assms(2,6) by (auto simp: content_def)
  have below: "below d ?a" "below d (d @ ''/devdiag'')" by (simp_all add: below_def)
  have side: "\<not> below d (old_path target)" "\<not> below d (new_path target)" "\<not> below d (lock_path target)"
    using side_not_below [OF nt] by simp_all
  have na: "tree w ?a = None" using below assms(6) by blast
  obtain r1 w1 where 1: "write_file h ?a asset 0x180 w = (r1, w1)" by fastforce
  have c1: "changes_in {p. below d p} w w1"
    using changes_in_mono [OF write_file_changes [OF 1]] na below by auto
  have old: "since ?old w v \<and> content (tree v) target = Some b" if "changes_in {p. below d p} w v" for v
    using since_content [OF that _ assms(2)] changes_content [OF that, of target] assms(2) nt by simp
  show ?thesis
  proof (cases r1)
    case (Some e)
    then show ?thesis using assms(1) 1 old [OF c1] by (auto simp: apply_staged_def)
  next
    case N1: None
    have bytes: "bytes_at (tree w1) ?a = asset" using write_file_done [OF 1 [unfolded N1] na] .
    show ?thesis
    proof (cases "VerifyAttestation u opts ?a w1")
      case (Some e)
      then show ?thesis using assms(1) 1 N1 old [OF c1] by (auto simp: apply_staged_def)
    next
      case NV: None
      have att: "attested u opts ?a asset" using VerifyAttestation_None [OF NV] bytes by simp
      obtain r2 w2 where 2: "ExtractBinary u h asset d w1 = (r2, w2)" by fastforce
      show ?thesis
      proof (cases r2)
        case (Inl e)
        have "changes_in {Join2 d ''devdiag''} w1 w2" by (rule ExtractBinary_changes [OF 2])
        then have "changes_in {p. below d p} w1 w2" using below assms(5) by (auto elim: changes_in_mono)
        from old [OF changes_in_seq [OF c1 this]] show ?thesis
          using assms(1) 1 2 N1 NV Inl by (auto simp: apply_staged_def)
      next
        case (Inr bin)
        note x = ExtractBinary_Inr [OF 2 [unfolded Inr]]
        then have bin: "bin = d @ ''/devdiag''" using assms(5) by simp
        obtain entries e where e: "uw_untar u asset = Inr (entries, None)" "sole_binary entries e"
          "content (tree w2) bin = Some (te_Data e)" using x by blast
        have c2: "changes_in {p. below d p} w w2"
          using changes_in_seq [OF c1 changes_in_mono] x bin below by auto
        obtain r3 w3 where 3: "SwapBinary h bin target w2 = (r3, w3)" by fastforce
        have clear: "cleared_update u opts d name asset (te_Data e)" using att e by (auto simp: cleared_update_def)
        have "ready_to_swap b (te_Data e) bin target (tree w2)"
          using old [OF c2] e(3) changes_in_tree [OF c2] side assms(3,4) bin below
          by (auto simp: ready_to_swap_def)
        note res = SwapBinary_result [OF 3 this]
        have s2: "since (recoverable b (te_Data e) target) w w2"
          using old [OF c2] since_mono [of ?old w w2 "recoverable b (te_Data e) target"]
          by (simp add: recoverable_def in_place_def)
        show ?thesis
          using assms(1) 1 2 3 N1 NV Inr res clear since_trans [OF s2]
          by (cases r3) (auto simp: apply_staged_def swap_error_of_def Let_def)
      qed
    qed
  qed
qed


lemma promise_recoverable: "swap_promise b b' target r t \<Longrightarrow> recoverable b b' target t"
  by (auto simp: swap_promise_def recoverable_def in_place_def split: option.splits swap_error.splits)

lemma recoverable_outside:
  assumes "agree_outside A s t" "target \<notin> A" "old_path target \<notin> A"
  shows "recoverable b b' target t = recoverable b b' target s"
  using agree_content [OF assms(1,2)] agree_content [OF assms(1,3)] by (simp add: recoverable_def in_place_def)

text \<open>C1: An update changes the installed binary only after the digest, the provenance and the archive
  of the download were checked, and only to the binary of that archive: any other failure leaves it
  untouched at every moment. During the swap the old or the new binary is complete at its place, or
  the old one is beside it; at the end the new one is installed, or the old one is, unless the
  rollback failed too, which the error tells.\<close>

theorem Apply_verified:
  assumes "content (tree w) target = Some b" "not_link (tree w (old_path target))"
    and "not_link (tree w (new_path target))" "fresh_staging u h target w"
  shows "case Apply u opts h rel target w of (r, w') \<Rightarrow>
    (\<exists>name asset binary.
       verified_asset u opts rel name asset \<and>
       cleared_update u opts (staging_dir u h w) name asset binary \<and>
       since (recoverable b binary target) w w' \<and>
       (case r of
          Inr _ \<Rightarrow> swap_promise b binary target None (tree w')
        | Inl (SwapError e) \<Rightarrow> swap_promise b binary target (Some e) (tree w')
        | Inl _ \<Rightarrow> False)) \<or>
    (\<exists>e. r = Inl e) \<and> since (\<lambda>t. content t target = Some b) w w' \<and> content (tree w') target = Some b"
proof (cases "checked_asset u opts rel")
  case (Inl e)
  then show ?thesis using assms(1) by (simp add: Apply_def since_def)
next
  case (Inr na)
  obtain name asset where na: "na = (name, asset)" by fastforce
  note verified = checked_asset_Inr [OF Inr [unfolded na]]
  let ?d = "staging_dir u h w" and ?old = "\<lambda>t. content t target = Some b"
  obtain d w1 where 1: "mkdir_temp h (uw_tmp u @ ''/devdiag-update-'') w = (d, w1)" by fastforce
  have t1: "tree w1 = tree w" "trail w1 = trail w" using 1 by (auto simp: mkdir_temp_def split: option.splits)
  show ?thesis
  proof (cases d)
    case (Inl e)
    then show ?thesis using assms(1) 1 t1 Inr na by (simp add: Apply_def since_def)
  next
    case d: (Inr d')
    then have d': "d' = ?d" using 1 by (auto simp: mkdir_temp_def staging_dir_def split: option.splits)
    have fresh: "Join2 ?d ''devdiag'' = ?d @ ''/devdiag''" "\<forall>p. p = ?d \<or> below ?d p \<longrightarrow> tree w1 p = None"
      "?d \<notin> {old_path target, new_path target, lock_path target}"
      using assms(4) t1 by (simp_all add: fresh_staging_def Let_def)
    obtain r2 w2 where 2: "apply_staged u opts h ?d name asset target w1 = (r2, w2)" by fastforce
    note res = apply_staged_result [OF 2 _ _ _ fresh(1,2), unfolded t1, OF assms(1,2,3)]
    let ?w = "discard (remove_all h ?d w2)" and ?A = "{p. p = ?d \<or> below ?d p}"
    have c: "changes_in ?A w2 ?w" using remove_all_changes by (simp add: discard_def)
    have "\<not> below ?d target" "target \<noteq> ?d" using fresh(2) assms(1) t1 by (auto simp: content_def)
    then have out: "target \<notin> ?A" "old_path target \<notin> ?A"
      using side_not_below [of ?d target] fresh(3) by auto
    have trail: "since P w v = since P w1 v" for P v by (simp add: since_def t1)
    have app: "Apply u opts h rel target w =
      ((case r2 of Some e \<Rightarrow> Inl e
        | None \<Rightarrow> Inr \<lparr>ur_Tag = rel_TagName rel, ur_AssetName = name, ur_AssetURL = assetURL u opts rel name,
                     ur_TargetPath = target, ur_BackupPath = target @ ''.old''\<rparr>), ?w)"
      using Inr na 1 d d' 2 by (simp add: Apply_def)
    from res consider
        "since ?old w1 w2" "content (tree w2) target = Some b" "r2 \<noteq> None"
      | b' where "cleared_update u opts ?d name asset b'" "r2 = None \<or> (\<exists>e. r2 = Some (SwapError e))"
          "swap_promise b b' target (swap_error_of r2) (tree w2)" "since (recoverable b b' target) w1 w2"
      by blast
    then show ?thesis
    proof cases
      case s: 1
      have "since ?old w ?w" using since_trans [OF s(1) since_content [OF c out(1) s(2)]] trail by simp
      then show ?thesis using app s changes_content [OF c out(1)] by auto
    next
      case (2 b')
      note clear = 2(1) and r2 = 2(2) and pr = 2(3) and rec = 2(4)
      have "recoverable b b' target (tree w2)" by (rule promise_recoverable [OF pr])
      then have "since (recoverable b b' target) w2 ?w"
        by (intro since_changes [OF c]) (simp add: recoverable_outside [OF _ out])
      then have "since (recoverable b b' target) w ?w" using since_trans [OF rec] trail by simp
      moreover have "swap_promise b b' target (swap_error_of r2) (tree ?w)"
        using pr changes_content [OF c out(1)] changes_content [OF c out(2)]
        by (auto simp: swap_promise_def split: option.splits swap_error.splits)
      ultimately have *: "verified_asset u opts rel name asset \<and> cleared_update u opts ?d name asset b' \<and>
        since (recoverable b b' target) w ?w \<and> swap_promise b b' target (swap_error_of r2) (tree ?w)"
        using verified clear by simp
      show ?thesis unfolding app prod.case
        using * r2 by (intro disjI1 exI [of _ name] exI [of _ asset] exI [of _ b'])
          (auto simp: swap_error_of_def)
    qed
  qed
qed


theorem Apply_verified_witness:
  "let u = \<lparr>uw_parse = (\<lambda>a. Some (''https'', ''github.com'')), uw_env = (\<lambda>_. []),
            uw_net = (\<lambda>q. Inr (200, ''archive'', None)), uw_sha256 = (\<lambda>_. ''00''),
            uw_untar = (\<lambda>_. Inr ([], None)), uw_path = (\<lambda>_. True), uw_run = (\<lambda>_ _ _. None),
            uw_GOOS = ''linux'', uw_GOARCH = ''amd64'', uw_tmp = ''/t'', uw_decode = (\<lambda>_. Inl [])\<rparr>;
       opts = \<lparr>uo_Repo = [], uo_APIBase = [], uo_DownloadBase = [], uo_GHPath = []\<rparr>;
       rel = \<lparr>rel_TagName = ''v2'', rel_Assets = (\<lambda>_. Some ''https://github.com/a'')\<rparr>
   in case Apply u opts (example_host []) rel ''/b/d'' example_world of (r, w') \<Rightarrow>
        (\<exists>name asset binary.
           verified_asset u opts rel name asset \<and>
           cleared_update u opts (staging_dir u (example_host []) example_world) name asset binary \<and>
           since (recoverable ''old'' binary ''/b/d'') example_world w' \<and>
           (case r of
              Inr _ \<Rightarrow> swap_promise ''old'' binary ''/b/d'' None (tree w')
            | Inl (SwapError e) \<Rightarrow> swap_promise ''old'' binary ''/b/d'' (Some e) (tree w')
            | Inl _ \<Rightarrow> False)) \<or>
        (\<exists>e. r = Inl e) \<and> since (\<lambda>t. content t ''/b/d'' = Some ''old'') example_world w' \<and>
        content (tree w') ''/b/d'' = Some ''old''"
proof -
  have j: "Join2 ''/t/devdiag-update-1'' ''devdiag'' = ''/t/devdiag-update-1/devdiag''" by code_simp
  show ?thesis unfolding Let_def
    by (rule Apply_verified)
      (auto simp: example_world_def example_host_def content_def not_link_def old_path_def new_path_def
        lock_path_def fresh_staging_def staging_dir_def j below_def Let_def)
qed

end
