(* ===== verification/Update_Command.thy ===== *)
theory Update_Command
  imports Updater
begin

text \<open>
  The \<open>update\<close> command, \<open>internal/cli/update.go\<close>: the comparison of versions, the test overrides, the
  choice of the binary to replace and the refresh of the install metadata. The metadata file as it
  was read is an argument (absent, malformed or decoded), with the running executable,
  \<open>filepath.EvalSymlinks\<close>, the time as text and the JSON encoding of the metadata. Errors of the
  update are values; \<open>redactUpdateError\<close> is modelled on their texts.
\<close>

record install_metadata =
  im_SchemaVersion :: string
  im_Repo :: string
  im_SourceRef :: string
  im_ResolvedVersion :: string
  im_InstallDir :: string
  im_BinaryPath :: string
  im_InstalledAt :: string
  im_InstallMethod :: string
  im_ArchiveURL :: string
  im_ChecksumRequired :: bool
  im_ChecksumProvided :: bool

datatype metadata_file = NoMetadata | MalformedMetadata | Metadata install_metadata

record update_input =
  ui_path :: string
  ui_file :: metadata_file
  ui_executable :: "string option"
  ui_links :: "string \<Rightarrow> string option"
  ui_version :: string
  ui_time :: string
  ui_encode :: "install_metadata \<Rightarrow> string"
  ui_mkdir :: bool
  ui_dry_run :: bool

datatype update_error =
    ResolveFailed upd_error
  | MetadataMalformed
  | MetadataStale string string
  | NoTarget
  | UpdateRefused upd_error

section \<open>Versions\<close>

definition update_version :: "string \<Rightarrow> string" where
  "update_version v = trim_prefix (trim_prefix (trim_prefix v ''refs/tags/'') ''refs/heads/'') ''v''"

text \<open>
  The value \<open>strconv.Atoi\<close> returns beside its error, which the code drops: 0 for a text that is no
  number, the end of the range for a number out of range.
\<close>

definition atoi_value :: "string \<Rightarrow> int" where
  "atoi_value s =
     (case atoi s of
        Some n \<Rightarrow> n
      | None \<Rightarrow>
          (let neg = prefix ''-'' s; body = (if neg \<or> prefix ''+'' s then tl s else s)
           in if body = [] \<or> digits_val 0 body = None then 0 else if neg then min_int64 else max_int64))"

fun compare_parts :: "string list \<Rightarrow> string list \<Rightarrow> int" where
  "compare_parts [] [] = 0"
| "compare_parts (a # as) [] =
     (if atoi_value a > 0 then 1 else if atoi_value a < 0 then - 1 else compare_parts as [])"
| "compare_parts [] (b # bs) =
     (if 0 > atoi_value b then 1 else if 0 < atoi_value b then - 1 else compare_parts [] bs)"
| "compare_parts (a # as) (b # bs) =
     (if atoi_value a > atoi_value b then 1
      else if atoi_value a < atoi_value b then - 1
      else compare_parts as bs)"

definition compareVersions :: "string \<Rightarrow> string \<Rightarrow> int" where
  "compareVersions a b = compare_parts (split_at ''.'' (update_version a)) (split_at ''.'' (update_version b))"

section \<open>Surroundings\<close>

definition getMetadataPath :: "(string \<Rightarrow> string) \<Rightarrow> string option \<Rightarrow> string \<Rightarrow> string" where
  "getMetadataPath env user_home override =
     (if override \<noteq> [] then override
      else if env ''XDG_CONFIG_HOME'' \<noteq> [] then Clean (env ''XDG_CONFIG_HOME'' @ ''/devdiag/install.json'')
      else if env ''HOME'' = []
           then (case user_home of
                   Some d \<Rightarrow> Clean (d @ ''/.config/devdiag/install.json'')
                 | None \<Rightarrow> [])
           else Clean (env ''HOME'' @ ''/.config/devdiag/install.json''))"

definition updaterOptions :: "upd_world \<Rightarrow> string \<Rightarrow> upd_options" where
  "updaterOptions u rp =
     (let opts = \<lparr>uo_Repo = rp, uo_APIBase = [], uo_DownloadBase = [], uo_GHPath = []\<rparr>;
          api = uw_env u ''DEVDIAG_GITHUB_API_BASE_URL''
      in if api \<noteq> [] \<and> IsLoopbackURL u api
         then let dl = uw_env u ''DEVDIAG_DOWNLOAD_BASE_URL'';
                  opts = opts\<lparr>uo_APIBase := api\<rparr>;
                  opts = (if dl \<noteq> [] \<and> IsLoopbackURL u dl then opts\<lparr>uo_DownloadBase := dl\<rparr> else opts)
              in opts\<lparr>uo_GHPath := uw_env u ''DEVDIAG_GH_PATH''\<rparr>
         else opts)"

definition redactUpdateError :: "(string \<Rightarrow> string) \<Rightarrow> string \<Rightarrow> string" where
  "redactUpdateError env msg =
     (let msg = (if env ''GITHUB_TOKEN'' \<noteq> [] then replace_all msg (env ''GITHUB_TOKEN'') ''<redacted>'' else msg)
      in if env ''GH_TOKEN'' \<noteq> [] then replace_all msg (env ''GH_TOKEN'') ''<redacted>'' else msg)"

section \<open>The command\<close>

definition old_metadata :: "metadata_file \<Rightarrow> install_metadata" where
  "old_metadata f =
     (case f of
        Metadata m \<Rightarrow> m
      | _ \<Rightarrow> \<lparr>im_SchemaVersion = ''1'', im_Repo = [], im_SourceRef = [], im_ResolvedVersion = [],
             im_InstallDir = [], im_BinaryPath = [], im_InstalledAt = [], im_InstallMethod = [],
             im_ArchiveURL = [], im_ChecksumRequired = False, im_ChecksumProvided = False\<rparr>)"

definition updated_metadata :: "update_input \<Rightarrow> string \<Rightarrow> upd_result \<Rightarrow> install_metadata" where
  "updated_metadata i rp res =
     (old_metadata (ui_file i))\<lparr>
       im_Repo := rp,
       im_SourceRef := ur_Tag res,
       im_ResolvedVersion := update_version (ur_Tag res),
       im_InstallDir := Dir (ur_TargetPath res),
       im_BinaryPath := ur_TargetPath res,
       im_InstalledAt := ui_time i,
       im_InstallMethod := ''release-binary'',
       im_ArchiveURL := ur_AssetURL res,
       im_ChecksumRequired := True,
       im_ChecksumProvided := True\<rparr>"

text \<open>The result tells whether the metadata was refreshed.\<close>

definition writeUpdatedMetadata ::
  "host \<Rightarrow> update_input \<Rightarrow> string \<Rightarrow> upd_result \<Rightarrow> world \<Rightarrow> bool \<times> world" where
  "writeUpdatedMetadata h i rp res w =
     (if ui_path i = [] then (False, w)
      else if \<not> ui_mkdir i then (False, w)
      else
        (case write_file h (ui_path i @ ''.tmp'') (ui_encode i (updated_metadata i rp res) @ [CHR 0x0A]) 0x1A4 w of
           (Some e, w) \<Rightarrow> (False, w)
         | (None, w) \<Rightarrow> (case rename h (ui_path i @ ''.tmp'') (ui_path i) w of (r, w) \<Rightarrow> (r = None, w))))"

definition running_executable :: "update_input \<Rightarrow> string" where
  "running_executable i =
     (case ui_executable i of
        None \<Rightarrow> []
      | Some exe \<Rightarrow> (case ui_links i exe of Some p \<Rightarrow> p | None \<Rightarrow> exe))"

definition metadata_target :: "metadata_file \<Rightarrow> string" where
  "metadata_target f = (case f of Metadata m \<Rightarrow> im_BinaryPath m | _ \<Rightarrow> [])"

definition update_target :: "update_input \<Rightarrow> upd_options \<Rightarrow> update_error + string" where
  "update_target i opts =
     (let target = metadata_target (ui_file i); running = running_executable i;
          result =
            (if target = [] then Inr running
             else if running \<noteq> [] \<and> uo_APIBase opts = []
             then let resolved = (case ui_links i target of Some p \<Rightarrow> p | None \<Rightarrow> target)
                  in if resolved \<noteq> running then Inl (MetadataStale target running) else Inr resolved
             else Inr target)
      in case result of
           Inl e \<Rightarrow> Inl e
         | Inr t \<Rightarrow> if t = [] then Inl NoTarget else Inr t)"

definition plan_lines :: "update_input \<Rightarrow> string \<Rightarrow> string \<Rightarrow> string list" where
  "plan_lines i current latest =
     [''DevDiag update plan'', ''current_version: '' @ current, ''latest_version: '' @ latest] @
     (case ui_file i of
        Metadata m \<Rightarrow>
          [''installed_binary: '' @ im_BinaryPath m, ''install_method: '' @ im_InstallMethod m,
           if compareVersions current latest \<ge> 0 then ''action: already_up_to_date'' else ''action: update_available'']
      | MalformedMetadata \<Rightarrow>
          [''action: metadata_malformed'', ''hint: reinstall with scripts/install.sh to create metadata'']
      | NoMetadata \<Rightarrow>
          [''action: metadata_missing'', ''hint: reinstall with scripts/install.sh to create metadata''])"

text \<open>
  The run of the command: the lines it prints, its error or success, the target it applied the
  update to, if it came to that, and the world afterwards. The steps \<open>Apply\<close> reports as it goes
  are left out of the lines.
\<close>

definition run_update ::
  "upd_world \<Rightarrow> host \<Rightarrow> update_input \<Rightarrow> world \<Rightarrow> string list \<times> update_error option \<times> string option \<times> world" where
  "run_update u h i w =
     (let opts = updaterOptions u DefaultRepo
      in case LatestRelease u opts of
           Inl e \<Rightarrow> ([], Some (ResolveFailed e), None, w)
         | Inr rel \<Rightarrow>
             (let latest = update_version (rel_TagName rel);
                  current = update_version (ui_version i);
                  plan = plan_lines i current latest
              in if ui_dry_run i then (plan, None, None, w)
                 else if compareVersions current latest \<ge> 0 then (plan, None, None, w)
                 else if ui_file i = MalformedMetadata then (plan, Some MetadataMalformed, None, w)
                 else
                   (case update_target i opts of
                      Inl e \<Rightarrow> (plan, Some e, None, w)
                    | Inr target \<Rightarrow>
                        (let plan = plan @ [''action: applying_update'']
                         in case Apply u opts h rel target w of
                              (Inl e, w) \<Rightarrow> (plan, Some (UpdateRefused e), Some target, w)
                            | (Inr res, w) \<Rightarrow>
                                (case writeUpdatedMetadata h i DefaultRepo res w of
                                   (_, w) \<Rightarrow>
                                     (plan @ [''backup: '' @ ur_BackupPath res, ''action: updated''],
                                      None, Some target, w))))))"

section \<open>The order of versions\<close>

text \<open>A version as the infinite sequence of its numbers, 0 after its last.\<close>

definition version_seq :: "string \<Rightarrow> nat \<Rightarrow> int" where
  "version_seq v n =
     (let ps = split_at ''.'' (update_version v) in if n < length ps then atoi_value (ps ! n) else 0)"

definition parts_seq :: "string list \<Rightarrow> nat \<Rightarrow> int" where
  "parts_seq ps n = (if n < length ps then atoi_value (ps ! n) else 0)"

definition seq_less :: "(nat \<Rightarrow> int) \<Rightarrow> (nat \<Rightarrow> int) \<Rightarrow> bool" where
  "seq_less f g \<longleftrightarrow> (\<exists>n. f n < g n \<and> (\<forall>m < n. f m = g m))"

lemma parts_seq_simps [simp]:
  "parts_seq [] = (\<lambda>_. 0)" "parts_seq (a # as) 0 = atoi_value a" "parts_seq (a # as) (Suc n) = parts_seq as n"
  by (simp_all add: parts_seq_def fun_eq_iff)

lemma seq_less_Suc:
  "seq_less f g \<longleftrightarrow> f 0 < g 0 \<or> f 0 = g 0 \<and> seq_less (\<lambda>n. f (Suc n)) (\<lambda>n. g (Suc n))"
proof
  assume "seq_less f g"
  then obtain n where n: "f n < g n" "\<forall>m < n. f m = g m" by (auto simp: seq_less_def)
  show "f 0 < g 0 \<or> f 0 = g 0 \<and> seq_less (\<lambda>n. f (Suc n)) (\<lambda>n. g (Suc n))"
  proof (cases n)
    case (Suc k)
    then show ?thesis using n by (auto simp: seq_less_def intro!: exI [of _ k])
  qed (use n in simp)
next
  assume "f 0 < g 0 \<or> f 0 = g 0 \<and> seq_less (\<lambda>n. f (Suc n)) (\<lambda>n. g (Suc n))"
  then show "seq_less f g"
  proof
    assume "f 0 = g 0 \<and> seq_less (\<lambda>n. f (Suc n)) (\<lambda>n. g (Suc n))"
    then obtain n where "f 0 = g 0" "f (Suc n) < g (Suc n)" "\<forall>m < n. f (Suc m) = g (Suc m)"
      by (auto simp: seq_less_def)
    then show ?thesis unfolding seq_less_def
      by (intro exI [of _ "Suc n"]) (auto simp: less_Suc_eq_0_disj)
  qed (auto simp: seq_less_def)
qed

lemma seq_less_parts [simp]:
  "\<not> seq_less (\<lambda>_. 0) (\<lambda>_. 0)"
  "seq_less (parts_seq (a # as)) (\<lambda>_. 0) \<longleftrightarrow> atoi_value a < 0 \<or> atoi_value a = 0 \<and> seq_less (parts_seq as) (\<lambda>_. 0)"
  "seq_less (\<lambda>_. 0) (parts_seq (b # bs)) \<longleftrightarrow> 0 < atoi_value b \<or> 0 = atoi_value b \<and> seq_less (\<lambda>_. 0) (parts_seq bs)"
  "seq_less (parts_seq (a # as)) (parts_seq (b # bs)) \<longleftrightarrow>
     atoi_value a < atoi_value b \<or> atoi_value a = atoi_value b \<and> seq_less (parts_seq as) (parts_seq bs)"
  using seq_less_Suc [of "parts_seq (a # as)" "\<lambda>_. 0"] seq_less_Suc [of "\<lambda>_. 0" "parts_seq (b # bs)"]
    seq_less_Suc [of "parts_seq (a # as)" "parts_seq (b # bs)"]
  by (simp_all add: seq_less_def [of "\<lambda>_. 0" "\<lambda>_. 0"])

lemma compare_parts_less: "compare_parts as bs = - 1 \<longleftrightarrow> seq_less (parts_seq as) (parts_seq bs)"
  by (induction as bs rule: compare_parts.induct) auto

lemma compare_parts_greater: "compare_parts as bs = 1 \<longleftrightarrow> seq_less (parts_seq bs) (parts_seq as)"
  by (induction as bs rule: compare_parts.induct) auto

lemma compare_parts_range: "compare_parts as bs \<in> {- 1, 0, 1}"
  by (induction as bs rule: compare_parts.induct) auto

lemma version_seq_parts: "version_seq v = parts_seq (split_at ''.'' (update_version v))"
  by (rule ext) (simp add: version_seq_def parts_seq_def Let_def)

lemma compareVersions_order':
  "compareVersions a b =
     (if seq_less (version_seq a) (version_seq b) then - 1
      else if seq_less (version_seq b) (version_seq a) then 1 else 0)"
proof -
  let ?a = "split_at ''.'' (update_version a)" and ?b = "split_at ''.'' (update_version b)"
  show ?thesis
    using compare_parts_range [of ?a ?b] compare_parts_less [of ?a ?b] compare_parts_greater [of ?a ?b]
    unfolding compareVersions_def version_seq_parts by auto
qed

text \<open>Versions are compared by their numbers, the first difference deciding, where a missing or
  unreadable number counts as 0.\<close>

theorem compareVersions_order:
  "compareVersions a b =
     (if seq_less (version_seq a) (version_seq b) then - 1
      else if seq_less (version_seq b) (version_seq a) then 1 else 0)"
  by (rule compareVersions_order')

section \<open>When an update is applied\<close>

lemma update_target_sound:
  "update_target i opts = Inr t \<Longrightarrow> t \<noteq> [] \<and>
     (metadata_target (ui_file i) = [] \<and> t = running_executable i \<or>
      t = metadata_target (ui_file i) \<and> (running_executable i = [] \<or> uo_APIBase opts \<noteq> []) \<or>
      t = running_executable i \<and>
        t = (case ui_links i (metadata_target (ui_file i)) of Some p \<Rightarrow> p | None \<Rightarrow> metadata_target (ui_file i)))"
  by (auto simp: update_target_def Let_def split: if_splits)

lemma updaterOptions_loopback:
  "uo_Repo (updaterOptions u rp) = rp \<and>
   (uo_APIBase (updaterOptions u rp) \<noteq> [] \<longrightarrow> IsLoopbackURL u (uo_APIBase (updaterOptions u rp))) \<and>
   (uo_DownloadBase (updaterOptions u rp) \<noteq> [] \<longrightarrow>
      uo_APIBase (updaterOptions u rp) \<noteq> [] \<and> IsLoopbackURL u (uo_DownloadBase (updaterOptions u rp))) \<and>
   (uo_GHPath (updaterOptions u rp) \<noteq> [] \<longrightarrow> uo_APIBase (updaterOptions u rp) \<noteq> [])"
  by (auto simp: updaterOptions_def Let_def)

text \<open>The command touches no file unless it is not a dry run, a strictly newer release was found,
  the metadata is not malformed, and the binary to replace is the one the metadata and the running
  program agree on; the test overrides count only for loopback addresses.\<close>

theorem run_update_guarded:
  assumes "run_update u h i w = (out, r, t, w')" "w' \<noteq> w \<or> t \<noteq> None"
  shows "\<not> ui_dry_run i \<and> ui_file i \<noteq> MalformedMetadata \<and>
         (\<exists>rel target.
            LatestRelease u (updaterOptions u DefaultRepo) = Inr rel \<and> t = Some target \<and>
            seq_less (version_seq (update_version (ui_version i))) (version_seq (update_version (rel_TagName rel))) \<and>
            update_target i (updaterOptions u DefaultRepo) = Inr target \<and> target \<noteq> [] \<and>
            (metadata_target (ui_file i) \<noteq> [] \<and> running_executable i \<noteq> [] \<and>
               \<not> IsLoopbackURL u (uw_env u ''DEVDIAG_GITHUB_API_BASE_URL'') \<longrightarrow> target = running_executable i))"
proof -
  let ?o = "updaterOptions u DefaultRepo"
  obtain rel where rel: "LatestRelease u ?o = Inr rel"
    using assms by (cases "LatestRelease u ?o") (auto simp: run_update_def Let_def)
  have dry: "\<not> ui_dry_run i" and newer: "\<not> compareVersions (update_version (ui_version i)) (update_version (rel_TagName rel)) \<ge> 0"
    and mal: "ui_file i \<noteq> MalformedMetadata"
    using assms rel by (auto simp: run_update_def Let_def split: if_splits)
  obtain target where target: "update_target i ?o = Inr target"
    using assms rel dry newer mal by (cases "update_target i ?o") (auto simp: run_update_def Let_def)
  have t: "t = Some target"
    using assms(1) rel dry newer mal target
    by (auto simp: run_update_def Let_def split: prod.splits sum.splits)
  have less: "seq_less (version_seq (update_version (ui_version i))) (version_seq (update_version (rel_TagName rel)))"
    using newer compareVersions_order' by (auto split: if_splits)
  have api: "\<not> IsLoopbackURL u (uw_env u ''DEVDIAG_GITHUB_API_BASE_URL'') \<Longrightarrow> uo_APIBase ?o = []"
    by (simp add: updaterOptions_def Let_def)
  show ?thesis using rel dry mal target t less update_target_sound [OF target] api by auto
qed


definition example_upd :: upd_world where
  "example_upd =
     \<lparr>uw_parse = (\<lambda>_. Some (''https'', ''api.github.com'')), uw_env = (\<lambda>_. []), uw_net = (\<lambda>q. Inr (200, [], None)),
      uw_sha256 = (\<lambda>_. []), uw_untar = (\<lambda>_. Inl []), uw_path = (\<lambda>_. False), uw_run = (\<lambda>_ _ _. None),
      uw_GOOS = ''linux'', uw_GOARCH = ''arm64'', uw_tmp = ''/t'', uw_decode = (\<lambda>_. Inr (''v2'', []))\<rparr>"

definition example_input :: update_input where
  "example_input =
     \<lparr>ui_path = [], ui_file = NoMetadata, ui_executable = Some ''/b/d'', ui_links = (\<lambda>_. None), ui_version = ''1'',
      ui_time = [], ui_encode = (\<lambda>_. []), ui_mkdir = True, ui_dry_run = False\<rparr>"

theorem run_update_guarded_witness:
  "\<exists>target. update_target example_input (updaterOptions example_upd DefaultRepo) = Inr target \<and> target \<noteq> [] \<and>
     (\<exists>rel :: release. seq_less (version_seq (update_version ''1'')) (version_seq (update_version (rel_TagName rel))))"
proof -
  have 1: "LatestRelease example_upd (updaterOptions example_upd DefaultRepo) = Inr \<lparr>rel_TagName = ''v2'', rel_Assets = (\<lambda>_. None)\<rparr>"
    by (simp add: LatestRelease_def fetch_def newRequest_def example_upd_def Let_def)
  moreover have "compareVersions (update_version ''1'') (update_version ''v2'') = - 1" by code_simp
  moreover have "update_target example_input (updaterOptions example_upd DefaultRepo) = Inr ''/b/d''"
    by (simp add: update_target_def metadata_target_def running_executable_def example_input_def)
  moreover have "Apply example_upd (updaterOptions example_upd DefaultRepo) h \<lparr>rel_TagName = ''v2'', rel_Assets = (\<lambda>_. None)\<rparr> p w =
      (Inl (NoChecksums ''v2''), w)" for h p w
    by (simp add: Apply_def checked_asset_def AssetName_def example_upd_def)
  ultimately have "run_update example_upd h example_input w =
      (plan_lines example_input (update_version ''1'') (update_version ''v2'') @ [''action: applying_update''],
       Some (UpdateRefused (NoChecksums ''v2'')), Some ''/b/d'', w)" for h w
    by (simp add: run_update_def Let_def example_input_def)
  from run_update_guarded [OF this [of undefined undefined], OF disjI2 [OF option.distinct(2)]]
  have "\<exists>(rel :: release) target. update_target example_input (updaterOptions example_upd DefaultRepo) = Inr target \<and> target \<noteq> [] \<and>
     seq_less (version_seq (update_version (ui_version example_input))) (version_seq (update_version (rel_TagName rel)))"
    by blast
  moreover have "ui_version example_input = ''1''" by (simp add: example_input_def)
  ultimately show ?thesis by auto
qed

end
