(* ===== verification/Tui.thy ===== *)
theory Tui
  imports Relevance Redact App_Scan Sorting_Go Transition_Systems "HOL-Library.Signed_Division"
begin

text \<open>
  \<open>internal/tui\<close>, the interactive view of a report: the view model of a finding (\<open>model.go\<close>,
  \<open>commands.go\<close>), the filters (\<open>filters.go\<close>) and the update function (\<open>update.go\<close>). A message
  handler returns the new model with what it does: the commands it hands to Bubble Tea and the
  sessions it cancels. The animation frame of the progress spinner, a widget of a library, is left
  out; its next tick is the command \<open>SpinnerTick\<close>. \<open>sha\<close> is the digest of \<open>Baseline\<close>.
\<close>

section \<open>The view model of a finding\<close>

record command_hint =
  ch_Title :: string
  ch_Command :: string
  ch_Kind :: string
  ch_MutationRisk :: string

record related_resource =
  rr_Kind :: string
  rr_Value :: string

record inspect_finding =
  if_Finding :: finding
  if_ConfidenceLabel :: string
  if_Domain :: string
  if_Target :: string
  if_BlastRadius :: string
  if_MutationRisk :: string
  if_Reasoning :: "string list"
  if_SuggestedCommands :: "command_hint list"
  if_RelatedResources :: "related_resource list"

definition tui_severityRank :: "severity \<Rightarrow> int" where
  "tui_severityRank s =
     (if s = SeverityCritical then 4 else if s = SeverityHigh then 3
      else if s = SeverityMedium then 2 else if s = SeverityLow then 1 else 0)"

definition confidenceLabel :: "rat \<Rightarrow> string" where
  "confidenceLabel c = (if c \<ge> 85 / 100 then ''high'' else if c \<ge> 60 / 100 then ''medium'' else ''low'')"

fun domain_of_layers :: "string list \<Rightarrow> string" where
  "domain_of_layers [] = ''general''"
| "domain_of_layers (l # ls) =
     (let l = to_lower l in
      if l = ''ci'' then ''ci''
      else if l \<in> {''local'', ''runtime''} then ''runtime''
      else if l = ''env'' then ''env''
      else if l \<in> {''network'', ''port''} then ''network''
      else if l = ''security'' then ''security''
      else if l \<in> {''container'', ''docker'', ''podman''} then ''containers''
      else if l \<in> {''gpu'', ''cuda''} then ''gpu''
      else if l = ''cache'' then ''cache''
      else if l = ''host'' then ''host''
      else if l = ''permission'' then ''filesystem''
      else if l = ''git'' then ''git''
      else if l = ''config'' then ''config''
      else domain_of_layers ls)"

definition deriveDomain :: "finding \<Rightarrow> string" where
  "deriveDomain f =
     (case FindDomainByFindingID (f_ID f) of Some d \<Rightarrow> d_Name d | None \<Rightarrow> domain_of_layers (f_Layers f))"

definition deriveTarget :: "finding \<Rightarrow> string" where
  "deriveTarget f =
     (case FindDomainByName (deriveDomain f) of Some d \<Rightarrow> d_Target d | None \<Rightarrow> ''project'')"

definition deriveBlastRadius :: "finding \<Rightarrow> string" where
  "deriveBlastRadius f =
     (if f_Severity f = SeverityCritical then ''high''
      else if f_Severity f = SeverityHigh then ''high''
      else if f_Severity f = SeverityMedium then ''medium''
      else if f_Severity f = SeverityLow then ''low''
      else ''low'')"

fun risk_of_hints :: "string list \<Rightarrow> string option" where
  "risk_of_hints [] = None"
| "risk_of_hints (h # hs) =
     (let hl = to_lower h in
      if contains hl ''destructive'' \<or> contains hl ''delete'' \<or> contains hl ''remove'' \<or> contains hl ''rm''
        then Some ''high''
      else if contains hl ''safe'' \<or> contains hl ''restart'' \<or> contains hl ''reconfigure'' \<or> contains hl ''edit''
        then Some ''low''
      else risk_of_hints hs)"

fun risk_of_fixes :: "fix_option list \<Rightarrow> string option" where
  "risk_of_fixes [] = None"
| "risk_of_fixes (fx # fxs) =
     (let fl = to_lower (fx_Title fx) in
      if contains fl ''destructive'' \<or> contains fl ''delete'' \<or> contains fl ''remove'' then Some ''high''
      else if contains fl ''safe'' \<or> contains fl ''restart'' \<or> contains fl ''reconfigure'' then Some ''low''
      else risk_of_fixes fxs)"

definition deriveMutationRisk :: "finding \<Rightarrow> string" where
  "deriveMutationRisk f =
     (case risk_of_hints (f_FixHints f) of
        Some r \<Rightarrow> r
      | None \<Rightarrow>
          (case risk_of_fixes (f_Fixes f) of
             Some r \<Rightarrow> r
           | None \<Rightarrow>
               (if f_Severity f = SeverityCritical \<or> f_Severity f = SeverityHigh then ''medium''
                else ''low'')))"

definition deriveReasoning :: "finding \<Rightarrow> string list" where
  "deriveReasoning f =
     (let out = (if f_Symptom f \<noteq> [] then [f_Symptom f] else []) @ f_LikelyCauses f
      in if out = [] then [''Derived from evidence and rule evaluation.''] else out)"

definition check_hint :: "string \<Rightarrow> string \<Rightarrow> command_hint" where
  "check_hint title cmd =
     \<lparr>ch_Title = title, ch_Command = cmd, ch_Kind = ''check'', ch_MutationRisk = ''none''\<rparr>"

definition deriveCommandHints :: "inspect_finding \<Rightarrow> command_hint list" where
  "deriveCommandHints f =
     (let d = if_Domain f;
          first =
            (if d = ''ci'' then check_hint ''Check CI configuration'' ''devdiag check ci . --verbose''
             else if d = ''containers'' then check_hint ''Check containers'' ''devdiag check containers . --verbose''
             else if d = ''security'' then
               check_hint ''Check security posture'' ''devdiag check security . --verbose''
             else if d = ''gpu'' then check_hint ''Check GPU stack'' ''devdiag check gpu . --verbose''
             else if d = ''cache'' then
               check_hint ''Check cache configuration'' ''devdiag check cache . --verbose''
             else if d = ''network'' then check_hint ''Check network ports'' ''devdiag check ports . --verbose''
             else \<lparr>ch_Title = ''Re-scan with verbose output'', ch_Command = ''devdiag scan . --verbose'',
                   ch_Kind = ''scan'', ch_MutationRisk = ''none''\<rparr>);
          i = f_ID (if_Finding f)
      in first #
         (if f_Fixes (if_Finding f) \<noteq> []
          then [\<lparr>ch_Title = ''Plan fix for '' @ i, ch_Command = ''devdiag fix '' @ i @ '' --dry-run'',
                 ch_Kind = ''fix'', ch_MutationRisk = if_MutationRisk f\<rparr>]
          else []))"

definition resources_of :: "evidence \<Rightarrow> related_resource list" where
  "resources_of ev =
     (if has_prefix (ev_Source ev) ''url_'' \<or> contains (ev_Value ev) ''http''
      then [\<lparr>rr_Kind = ''url'', rr_Value = ev_Value ev\<rparr>] else []) @
     (if has_suffix (ev_Source ev) ''_file'' \<or> contains (ev_Source ev) ''path''
      then [\<lparr>rr_Kind = ''file'', rr_Value = ev_Value ev\<rparr>] else [])"

definition deriveRelatedResources :: "inspect_finding \<Rightarrow> related_resource list" where
  "deriveRelatedResources f = concat (map resources_of (f_Evidence (if_Finding f)))"

definition deriveInspectFinding :: "finding \<Rightarrow> inspect_finding" where
  "deriveInspectFinding f =
     (let inf =
        \<lparr>if_Finding = f,
         if_ConfidenceLabel = confidenceLabel (f_Confidence f),
         if_Domain = deriveDomain f,
         if_Target = deriveTarget f,
         if_BlastRadius = deriveBlastRadius f,
         if_MutationRisk = deriveMutationRisk f,
         if_Reasoning = deriveReasoning f,
         if_SuggestedCommands = [],
         if_RelatedResources = []\<rparr>;
        inf = inf\<lparr>if_SuggestedCommands := deriveCommandHints inf\<rparr>
      in inf\<lparr>if_RelatedResources := deriveRelatedResources inf\<rparr>)"

definition BuildInspectFindings :: "report option \<Rightarrow> inspect_finding list" where
  "BuildInspectFindings r =
     (case r of None \<Rightarrow> [] | Some r \<Rightarrow> map deriveInspectFinding (r_Findings r))"

definition more_severe :: "inspect_finding \<Rightarrow> inspect_finding \<Rightarrow> bool" where
  "more_severe a b =
     (let ri = tui_severityRank (f_Severity (if_Finding a));
          rj = tui_severityRank (f_Severity (if_Finding b))
      in if ri \<noteq> rj then ri > rj else f_Confidence (if_Finding a) > f_Confidence (if_Finding b))"

definition sortFindingsBySeverity :: "inspect_finding list \<Rightarrow> inspect_finding list" where
  "sortFindingsBySeverity fs = slice_stable more_severe fs"

interpretation more_severe: strict_weak_order more_severe
  by unfold_locales (auto simp: more_severe_def Let_def split: if_splits)

section \<open>Filters\<close>

record active_filters =
  af_Severity :: "severity list"
  af_Domain :: string
  af_ConfidenceMin :: rat
  af_MutationRisk :: string
  af_Text :: string

definition DefaultFilters :: active_filters where
  "DefaultFilters =
     \<lparr>af_Severity = [SeverityCritical, SeverityHigh, SeverityMedium, SeverityLow, SeverityInfo],
      af_Domain = [], af_ConfidenceMin = 0, af_MutationRisk = [], af_Text = []\<rparr>"

definition Match :: "active_filters \<Rightarrow> inspect_finding \<Rightarrow> bool" where
  "Match af f =
     (let g = if_Finding f in
      if af_Severity af \<noteq> [] \<and> f_Severity g \<notin> set (af_Severity af) then False
      else if af_Domain af \<noteq> [] \<and> \<not> equal_fold (if_Domain f) (af_Domain af) then False
      else if f_Confidence g < af_ConfidenceMin af then False
      else if af_MutationRisk af \<noteq> [] \<and> \<not> equal_fold (if_MutationRisk f) (af_MutationRisk af) then False
      else if af_Text af \<noteq> [] then
        (let t = to_lower (af_Text af) in
         contains (to_lower (f_ID g)) t \<or> contains (to_lower (f_Title g)) t \<or>
         contains (to_lower (if_Domain f)) t \<or> contains (to_lower (f_Symptom g)) t)
      else True)"

definition ApplyFilters :: "inspect_finding list \<Rightarrow> active_filters \<Rightarrow> inspect_finding list" where
  "ApplyFilters fs af = filter (Match af) fs"


section \<open>The model\<close>

datatype model_mode = ModeScan | ModeReport | ModeRun

datatype detail_pane = PaneDetail | PaneEvidence

text \<open>
  The handle of a background scan: its number, and whether it holds a cancel function. What the scan
  returns travels in the messages.
\<close>

record scan_session =
  ss_id :: int
  ss_has_cancel :: bool

record tui_model =
  tm_mode :: model_mode
  tm_sourceName :: string
  tm_statusBarMsg :: string
  tm_opts :: scan_options
  tm_scanning :: bool
  tm_events :: "event list"
  tm_session :: "scan_session option"
  tm_sessionID :: int
  tm_scanErr :: "string option"
  tm_report :: "report option"
  tm_fullReport :: "report option"
  tm_redactEngine :: "redact_engine option"
  tm_findings :: "inspect_finding list"
  tm_filtered :: "inspect_finding list"
  tm_selected :: int
  tm_scrollOffset :: int
  tm_verbose :: bool
  tm_showHelp :: bool
  tm_filterInput :: string
  tm_filtering :: bool
  tm_includeHidden :: bool
  tm_showHidden :: bool
  tm_hiddenCount :: nat
  tm_activeFilters :: active_filters
  tm_activePane :: detail_pane
  tm_evidencePage :: int
  tm_viewMode :: string
  tm_width :: int
  tm_height :: int

definition zero_model :: tui_model where
  "zero_model =
     \<lparr>tm_mode = ModeScan, tm_sourceName = [], tm_statusBarMsg = [],
      tm_opts = \<lparr>so_Path = [], so_Profile = [], so_RulePackPath = [], so_RedactLevel = [], so_CI = False\<rparr>,
      tm_scanning = False, tm_events = [], tm_session = None, tm_sessionID = 0, tm_scanErr = None,
      tm_report = None, tm_fullReport = None, tm_redactEngine = None, tm_findings = [], tm_filtered = [],
      tm_selected = 0, tm_scrollOffset = 0, tm_verbose = False, tm_showHelp = False, tm_filterInput = [],
      tm_filtering = False, tm_includeHidden = False, tm_showHidden = False, tm_hiddenCount = 0,
      tm_activeFilters = \<lparr>af_Severity = [], af_Domain = [], af_ConfidenceMin = 0, af_MutationRisk = [],
        af_Text = []\<rparr>,
      tm_activePane = PaneDetail, tm_evidencePage = 0, tm_viewMode = [], tm_width = 0, tm_height = 0\<rparr>"

text \<open>\<open>base64.StdEncoding\<close>.\<close>

definition base64_digit :: "nat \<Rightarrow> char" where
  "base64_digit n = (''ABCDEFGHIJKLMNOPQRSTUVWXYZabcdefghijklmnopqrstuvwxyz0123456789+/'' ! (n mod 64))"

fun base64 :: "string \<Rightarrow> string" where
  "base64 (a # b # c # s) =
     (let n = of_char a * 65536 + of_char b * 256 + of_char c in
      base64_digit (n div 262144) # base64_digit (n div 4096) # base64_digit (n div 64) #
      base64_digit n # base64 s)"
| "base64 [a, b] =
     (let n = of_char a * 1024 + of_char b * 4 in
      [base64_digit (n div 4096), base64_digit (n div 64), base64_digit n, CHR ''=''])"
| "base64 [a] =
     (let n = of_char a * 16 in [base64_digit (n div 64), base64_digit n, CHR ''='', CHR ''=''])"
| "base64 [] = []"

text \<open>What a handler does: a command for Bubble Tea, or the cancellation of a session's context.\<close>

datatype tui_effect =
    StartScanCmd scan_options int
  | NextEvent scan_session
  | SpinnerTick
  | QuitCmd
  | PrintCmd string
  | CancelSession int

definition applyActiveFilters :: "tui_model \<Rightarrow> tui_model" where
  "applyActiveFilters m = m
     \<lparr>tm_filtered := ApplyFilters (tm_findings m) (tm_activeFilters m),
      tm_selected := 0, tm_scrollOffset := 0\<rparr>"

definition applyVisibility :: "(string \<Rightarrow> string) \<Rightarrow> tui_model \<Rightarrow> report option \<Rightarrow> tui_model" where
  "applyVisibility sha m report =
     (let m = m\<lparr>tm_fullReport := report\<rparr>;
          policy = (PolicyFromReport report (tm_showHidden m))\<lparr>pl_View := tm_viewMode m\<rparr>
      in case FilterReport sha report policy of
           (filteredReport, summary) \<Rightarrow>
             let m = m\<lparr>tm_report := filteredReport, tm_hiddenCount := sm_Hidden summary,
                       tm_findings := sortFindingsBySeverity (BuildInspectFindings filteredReport)\<rparr>
             in m\<lparr>tm_filtered := ApplyFilters (tm_findings m) (tm_activeFilters m),
                  tm_selected := 0, tm_scrollOffset := 0, tm_evidencePage := 0\<rparr>)"

definition NewScanModel :: "scan_options \<Rightarrow> redact_engine option \<Rightarrow> bool list \<Rightarrow> tui_model" where
  "NewScanModel opts engine includeHidden =
     (let showHidden = (includeHidden \<noteq> [] \<and> hd includeHidden) in
      zero_model\<lparr>tm_mode := ModeScan, tm_opts := opts, tm_redactEngine := engine,
        tm_includeHidden := showHidden, tm_showHidden := showHidden,
        tm_activeFilters := DefaultFilters, tm_activePane := PaneDetail, tm_viewMode := ViewActionable\<rparr>)"

definition NewReportModel ::
  "(string \<Rightarrow> string) \<Rightarrow> report option \<Rightarrow> string \<Rightarrow> model_mode \<Rightarrow> redact_engine option \<Rightarrow> bool
    \<Rightarrow> string list \<Rightarrow> tui_model" where
  "NewReportModel sha report sourceName mode engine includeHidden viewModes =
     (let viewMode =
            (if viewModes \<noteq> [] \<and> hd viewModes \<noteq> [] then hd viewModes else ViewActionable);
          m = zero_model\<lparr>tm_mode := mode, tm_sourceName := sourceName, tm_redactEngine := engine,
                tm_includeHidden := includeHidden, tm_showHidden := includeHidden,
                tm_activeFilters := DefaultFilters, tm_activePane := PaneDetail, tm_viewMode := viewMode\<rparr>;
          report = (case (engine, report) of
                      (Some e, Some r) \<Rightarrow> RedactReport e (Some r)
                    | _ \<Rightarrow> report)
      in applyVisibility sha m report)"

definition WithViewMode :: "(string \<Rightarrow> string) \<Rightarrow> tui_model \<Rightarrow> string \<Rightarrow> tui_model" where
  "WithViewMode sha m viewMode =
     (let viewMode = (if viewMode = [] then ViewActionable else viewMode);
          m = m\<lparr>tm_viewMode := viewMode\<rparr>
      in if tm_fullReport m \<noteq> None then applyVisibility sha m (tm_fullReport m) else m)"

definition StartScan :: "tui_model \<Rightarrow> tui_model \<times> tui_effect list" where
  "StartScan m =
     (let m = m\<lparr>tm_sessionID := tm_sessionID m + 1, tm_scanning := True, tm_events := [],
                tm_session := None, tm_scanErr := None, tm_report := None, tm_fullReport := None,
                tm_findings := [], tm_filtered := [], tm_selected := 0, tm_scrollOffset := 0,
                tm_activePane := PaneDetail, tm_evidencePage := 0\<rparr>
      in (m, [StartScanCmd (tm_opts m) (tm_sessionID m), SpinnerTick]))"

definition cancelScan :: "tui_model \<Rightarrow> tui_effect list" where
  "cancelScan m =
     (case tm_session m of
        None \<Rightarrow> []
      | Some s \<Rightarrow> if ss_has_cancel s then [CancelSession (ss_id s)] else [])"

definition ReRun :: "tui_model \<Rightarrow> tui_model \<times> tui_effect list" where
  "ReRun m =
     (if tm_mode m \<noteq> ModeScan
      then (m\<lparr>tm_statusBarMsg := ''Rerun disabled for loaded reports. Run '' @ [CHR 0x27] @
                ''devdiag inspect <path>'' @ [CHR 0x27] @ '' for a fresh scan.''\<rparr>, [])
      else (case StartScan m of (m', fx) \<Rightarrow> (m', cancelScan m @ fx)))"

definition Init :: "tui_model \<Rightarrow> tui_effect list" where
  "Init m =
     (if tm_mode m \<noteq> ModeScan then [] else [StartScanCmd (tm_opts m) (tm_sessionID m), SpinnerTick])"

section \<open>Moving through the findings\<close>

definition maxVisibleItems :: "tui_model \<Rightarrow> int" where
  "maxVisibleItems m = (let maxItems = (tm_height m - 7) sdiv 2 in if maxItems < 1 then 1 else maxItems)"

definition adjustScroll :: "tui_model \<Rightarrow> tui_model" where
  "adjustScroll m =
     (let maxItems = maxVisibleItems m;
          n = int (length (tm_filtered m));
          m = (if tm_selected m < tm_scrollOffset m then m\<lparr>tm_scrollOffset := tm_selected m\<rparr> else m);
          m = (if tm_selected m \<ge> tm_scrollOffset m + maxItems
               then m\<lparr>tm_scrollOffset := tm_selected m - maxItems + 1\<rparr> else m);
          m = (if tm_scrollOffset m < 0 then m\<lparr>tm_scrollOffset := 0\<rparr> else m)
      in if tm_scrollOffset m > n - maxItems
         then (if n > maxItems then m\<lparr>tm_scrollOffset := n - maxItems\<rparr> else m\<lparr>tm_scrollOffset := 0\<rparr>)
         else m)"

definition nextFinding :: "tui_model \<Rightarrow> tui_model" where
  "nextFinding m =
     (if tm_filtered m = [] then m
      else if tm_selected m < int (length (tm_filtered m)) - 1
      then adjustScroll (m\<lparr>tm_selected := tm_selected m + 1, tm_evidencePage := 0\<rparr>)
      else m)"

definition prevFinding :: "tui_model \<Rightarrow> tui_model" where
  "prevFinding m =
     (if tm_selected m > 0
      then adjustScroll (m\<lparr>tm_selected := tm_selected m - 1, tm_evidencePage := 0\<rparr>) else m)"

definition selectedFinding :: "tui_model \<Rightarrow> inspect_finding option" where
  "selectedFinding m =
     (if tm_selected m < 0 \<or> tm_selected m \<ge> int (length (tm_filtered m)) then None
      else Some (tm_filtered m ! nat (tm_selected m)))"

definition evidencePageSize :: int where "evidencePageSize = 5"

definition evidencePageCount :: "tui_model \<Rightarrow> int" where
  "evidencePageCount m =
     (case selectedFinding m of
        None \<Rightarrow> 1
      | Some f \<Rightarrow>
          let n = int (length (f_Evidence (if_Finding f))) in
          if n = 0 then 1
          else let pages = (n + evidencePageSize - 1) sdiv evidencePageSize
               in if pages < 1 then 1 else pages)"

definition nextEvidencePage :: "tui_model \<Rightarrow> tui_model" where
  "nextEvidencePage m =
     (let m = (if tm_activePane m \<noteq> PaneEvidence then m\<lparr>tm_activePane := PaneEvidence\<rparr> else m) in
      if tm_evidencePage m < evidencePageCount m - 1
      then m\<lparr>tm_evidencePage := tm_evidencePage m + 1\<rparr> else m)"

definition prevEvidencePage :: "tui_model \<Rightarrow> tui_model" where
  "prevEvidencePage m =
     (let m = (if tm_activePane m \<noteq> PaneEvidence then m\<lparr>tm_activePane := PaneEvidence\<rparr> else m) in
      if tm_evidencePage m > 0 then m\<lparr>tm_evidencePage := tm_evidencePage m - 1\<rparr> else m)"

definition copySuggestedCommand :: "tui_model \<Rightarrow> tui_model \<times> tui_effect list" where
  "copySuggestedCommand m =
     (case selectedFinding m of
        None \<Rightarrow> (m\<lparr>tm_statusBarMsg := ''No suggested command to copy''\<rparr>, [])
      | Some f \<Rightarrow>
          (case if_SuggestedCommands f of
             [] \<Rightarrow> (m\<lparr>tm_statusBarMsg := ''No suggested command to copy''\<rparr>, [])
           | h # _ \<Rightarrow>
               (m\<lparr>tm_statusBarMsg := ''Copy command: '' @ ch_Command h\<rparr>,
                [PrintCmd ([CHR 0x1B] @ '']52;c;'' @ base64 (ch_Command h) @ [CHR 0x07])])))"

definition showFixDryRun :: "tui_model \<Rightarrow> tui_model" where
  "showFixDryRun m =
     (case selectedFinding m of
        None \<Rightarrow> m\<lparr>tm_statusBarMsg := ''No finding selected''\<rparr>
      | Some f \<Rightarrow>
          if f_Fixes (if_Finding f) = []
          then m\<lparr>tm_statusBarMsg := ''No fix dry-run available for '' @ f_ID (if_Finding f)\<rparr>
          else m\<lparr>tm_statusBarMsg := ''Fix dry-run: devdiag fix '' @ f_ID (if_Finding f) @ '' --dry-run''\<rparr>)"

section \<open>Messages\<close>

text \<open>A key as Bubble Tea reports it: its type, its runes, and its name (\<open>KeyMsg.String\<close>).\<close>

datatype key_type = KeyEnter | KeyEscape | KeyBackspace | KeyRunes | KeyOther

record key_msg =
  km_Type :: key_type
  km_Runes :: string
  km_String :: string

datatype tui_msg =
    WindowSizeMsg int int
  | ScanStartedMsg scan_session
  | ScanEventMsg int event
  | ScanDoneMsg int "report option" "string option"
  | TickMsg
  | KeyMsg key_msg
  | OtherMsg

definition handleFilterKey :: "tui_model \<Rightarrow> key_msg \<Rightarrow> tui_model" where
  "handleFilterKey m k =
     (case km_Type k of
        KeyEnter \<Rightarrow> applyActiveFilters
          (m\<lparr>tm_filtering := False,
             tm_activeFilters := (tm_activeFilters m)\<lparr>af_Text := trim_space (tm_filterInput m)\<rparr>\<rparr>)
      | KeyEscape \<Rightarrow> applyActiveFilters
          (m\<lparr>tm_filtering := False, tm_filterInput := [],
             tm_activeFilters := (tm_activeFilters m)\<lparr>af_Text := []\<rparr>\<rparr>)
      | KeyBackspace \<Rightarrow>
          if tm_filterInput m \<noteq> [] then m\<lparr>tm_filterInput := butlast (tm_filterInput m)\<rparr> else m
      | KeyRunes \<Rightarrow> m\<lparr>tm_filterInput := tm_filterInput m @ km_Runes k\<rparr>
      | KeyOther \<Rightarrow> m)"

definition handleNormalKey :: "(string \<Rightarrow> string) \<Rightarrow> tui_model \<Rightarrow> string \<Rightarrow> tui_model \<times> tui_effect list" where
  "handleNormalKey sha m s =
     (if s = ''r'' then ReRun (m\<lparr>tm_statusBarMsg := []\<rparr>)
      else if s = ''v'' then (m\<lparr>tm_verbose := \<not> tm_verbose m\<rparr>, [])
      else if s = ''e'' then (m\<lparr>tm_activePane := PaneEvidence, tm_evidencePage := 0\<rparr>, [])
      else if s = ''tab'' then
        (m\<lparr>tm_activePane := (if tm_activePane m = PaneEvidence then PaneDetail else PaneEvidence)\<rparr>, [])
      else if s = ''pgdown'' then (nextEvidencePage m, [])
      else if s = ''pgup'' then (prevEvidencePage m, [])
      else if s = ''c'' then copySuggestedCommand m
      else if s = ''x'' then
        (m\<lparr>tm_statusBarMsg := ''Command execution disabled until a read-only command registry is available''\<rparr>, [])
      else if s = ''f'' then (showFixDryRun m, [])
      else if s = ''h'' then
        (if tm_fullReport m \<noteq> None
         then (let m = m\<lparr>tm_showHidden := \<not> tm_showHidden m\<rparr> in applyVisibility sha m (tm_fullReport m), [])
         else (m, []))
      else if s = ''/'' then (m\<lparr>tm_filtering := True, tm_filterInput := []\<rparr>, [])
      else if s = ''up'' \<or> s = ''k'' then (prevFinding m, [])
      else if s = ''down'' \<or> s = ''j'' then (nextFinding m, [])
      else if s = ''0'' then
        (applyActiveFilters (m\<lparr>tm_activeFilters := (tm_activeFilters m)\<lparr>af_Domain := []\<rparr>,
           tm_statusBarMsg := ''Domain filter cleared''\<rparr>), [])
      else (case FindDomainByTUIKey s of
              Some d \<Rightarrow>
                (applyActiveFilters (m\<lparr>tm_activeFilters := (tm_activeFilters m)\<lparr>af_Domain := d_Name d\<rparr>,
                   tm_statusBarMsg := ''Filter: '' @ d_Name d\<rparr>), [])
            | None \<Rightarrow> (m, [])))"

definition handleKey :: "(string \<Rightarrow> string) \<Rightarrow> tui_model \<Rightarrow> key_msg \<Rightarrow> tui_model \<times> tui_effect list" where
  "handleKey sha m k =
     (let s = km_String k in
      if s = ''q'' \<or> s = ''ctrl+c'' then (m, cancelScan m @ [QuitCmd])
      else if s = ''?'' then (m\<lparr>tm_showHelp := \<not> tm_showHelp m\<rparr>, [])
      else if tm_filtering m then (handleFilterKey m k, [])
      else handleNormalKey sha m s)"

fun tui_Update :: "(string \<Rightarrow> string) \<Rightarrow> tui_model \<Rightarrow> tui_msg \<Rightarrow> tui_model \<times> tui_effect list" where
  "tui_Update sha m (WindowSizeMsg w h) = (m\<lparr>tm_width := w, tm_height := h\<rparr>, [])"
| "tui_Update sha m (ScanStartedMsg s) =
     (m\<lparr>tm_scanning := True, tm_session := Some s, tm_events := []\<rparr>, [NextEvent s])"
| "tui_Update sha m (ScanEventMsg i e) =
     (case tm_session m of
        None \<Rightarrow> (m, [])
      | Some s \<Rightarrow>
          if i \<noteq> ss_id s then (m, [])
          else (m\<lparr>tm_events := tm_events m @ [e]\<rparr>, [NextEvent s]))"
| "tui_Update sha m (ScanDoneMsg i r err) =
     (case tm_session m of
        None \<Rightarrow> (m, [])
      | Some s \<Rightarrow>
          if i \<noteq> ss_id s then (m, [])
          else
            let m = m\<lparr>tm_scanning := False, tm_report := r, tm_scanErr := err\<rparr> in
            (case r of
               None \<Rightarrow> (m, [])
             | Some _ \<Rightarrow>
                 let report = (case tm_redactEngine m of None \<Rightarrow> r | Some e \<Rightarrow> RedactReport e r)
                 in (applyVisibility sha m report, [])))"
| "tui_Update sha m TickMsg = (if \<not> tm_scanning m then (m, []) else (m, [SpinnerTick]))"
| "tui_Update sha m (KeyMsg k) = handleKey sha m k"
| "tui_Update sha m OtherMsg = (m, [])"

end
