(* ===== verification/Tui_Correct.thy ===== *)
theory Tui_Correct
  imports Tui
begin

text \<open>
  What the interactive view shows in every state it can reach: the invariant of the model under all
  messages, the window of the list, and the races the handlers leave open.
\<close>

section \<open>The invariant\<close>

text \<open>What the list is meant to hold: the findings the policy shows, ordered by severity.\<close>

definition visible_findings ::
  "(string \<Rightarrow> string) \<Rightarrow> report option \<Rightarrow> bool \<Rightarrow> string \<Rightarrow> inspect_finding list" where
  "visible_findings sha r hidden view =
     (case r of
        None \<Rightarrow> []
      | Some rep \<Rightarrow>
          sortFindingsBySeverity (map deriveInspectFinding
            (filter (\<lambda>f. \<not> IsHidden sha f ((PolicyFromReport r hidden)\<lparr>pl_View := view\<rparr>))
              (r_Findings rep))))"

definition report_redacted :: "redact_engine option \<Rightarrow> report option \<Rightarrow> bool" where
  "report_redacted e r \<longleftrightarrow>
     (case (e, r) of (Some e, Some r) \<Rightarrow> \<exists>r0. RedactReport e (Some r0) = Some r | _ \<Rightarrow> True)"

definition list_ok :: "tui_model \<Rightarrow> bool" where
  "list_ok m \<longleftrightarrow>
     tm_filtered m = ApplyFilters (tm_findings m) (tm_activeFilters m) \<and>
     0 \<le> tm_selected m \<and> (tm_selected m < int (length (tm_filtered m)) \<or> tm_selected m = 0) \<and>
     0 \<le> tm_scrollOffset m \<and> tm_scrollOffset m \<le> tm_selected m \<and> 0 \<le> tm_evidencePage m"

definition source_ok :: "(string \<Rightarrow> string) \<Rightarrow> tui_model \<Rightarrow> bool" where
  "source_ok sha m \<longleftrightarrow>
     tm_findings m = visible_findings sha (tm_fullReport m) (tm_showHidden m) (tm_viewMode m) \<and>
     report_redacted (tm_redactEngine m) (tm_fullReport m)"

definition tui_inv :: "(string \<Rightarrow> string) \<Rightarrow> tui_model \<Rightarrow> bool" where
  "tui_inv sha m \<longleftrightarrow> list_ok m \<and> source_ok sha m"

lemma applyActiveFilters_sel [simp]:
  "tm_findings (applyActiveFilters m) = tm_findings m"
  "tm_fullReport (applyActiveFilters m) = tm_fullReport m"
  "tm_showHidden (applyActiveFilters m) = tm_showHidden m"
  "tm_viewMode (applyActiveFilters m) = tm_viewMode m"
  "tm_redactEngine (applyActiveFilters m) = tm_redactEngine m"
  "tm_session (applyActiveFilters m) = tm_session m"
  by (simp_all add: applyActiveFilters_def)

lemma list_ok_applyActiveFilters: "0 \<le> tm_evidencePage m \<Longrightarrow> list_ok (applyActiveFilters m)"
  by (simp add: list_ok_def applyActiveFilters_def)

lemma FilterReport_None: "FilterReport sha None p = (None, \<lparr>sm_Visible = 0, sm_Hidden = 0\<rparr>)"
  by (simp add: FilterReport_def)

lemma applyVisibility_findings:
  "tm_findings (applyVisibility sha m r) = visible_findings sha r (tm_showHidden m) (tm_viewMode m)"
  by (cases r) (simp_all add: applyVisibility_def visible_findings_def FilterReport_eq FilterReport_None
      BuildInspectFindings_def sortFindingsBySeverity_def Let_def)

lemma applyVisibility_sel [simp]:
  "tm_fullReport (applyVisibility sha m r) = r"
  "tm_showHidden (applyVisibility sha m r) = tm_showHidden m"
  "tm_viewMode (applyVisibility sha m r) = tm_viewMode m"
  "tm_redactEngine (applyVisibility sha m r) = tm_redactEngine m"
  "tm_session (applyVisibility sha m r) = tm_session m"
  by (simp_all add: applyVisibility_def Let_def split: prod.split)

lemma list_ok_applyVisibility: "list_ok (applyVisibility sha m r)"
  by (simp add: list_ok_def applyVisibility_def Let_def split: prod.split)

lemma applyVisibility_inv:
  "report_redacted (tm_redactEngine m) r \<Longrightarrow> tui_inv sha (applyVisibility sha m r)"
  by (simp add: tui_inv_def source_ok_def list_ok_applyVisibility applyVisibility_findings)

lemma StartScan_inv: "tui_inv sha (fst (StartScan m))"
  by (simp add: tui_inv_def source_ok_def list_ok_def StartScan_def ApplyFilters_def visible_findings_def
      report_redacted_def split: option.split)

lemma adjustScroll_sel [simp]:
  "tm_findings (adjustScroll m) = tm_findings m" "tm_filtered (adjustScroll m) = tm_filtered m"
  "tm_activeFilters (adjustScroll m) = tm_activeFilters m" "tm_selected (adjustScroll m) = tm_selected m"
  "tm_evidencePage (adjustScroll m) = tm_evidencePage m" "tm_fullReport (adjustScroll m) = tm_fullReport m"
  "tm_showHidden (adjustScroll m) = tm_showHidden m" "tm_viewMode (adjustScroll m) = tm_viewMode m"
  "tm_redactEngine (adjustScroll m) = tm_redactEngine m" "tm_height (adjustScroll m) = tm_height m"
  "tm_session (adjustScroll m) = tm_session m"
  by (simp_all add: adjustScroll_def Let_def)

lemma maxVisibleItems_pos: "1 \<le> maxVisibleItems m"
  by (simp add: maxVisibleItems_def Let_def)

lemma adjustScroll_window:
  assumes "0 \<le> tm_selected m" "tm_selected m < int (length (tm_filtered m))"
  shows "0 \<le> tm_scrollOffset (adjustScroll m) \<and> tm_scrollOffset (adjustScroll m) \<le> tm_selected m \<and>
    tm_selected m < tm_scrollOffset (adjustScroll m) + maxVisibleItems m \<and>
    (tm_scrollOffset (adjustScroll m) = 0 \<or>
     tm_scrollOffset (adjustScroll m) + maxVisibleItems m \<le> int (length (tm_filtered m)))"
  using assms maxVisibleItems_pos [of m] by (auto simp: adjustScroll_def Let_def)


text \<open>A change of the fields no invariant speaks of keeps it.\<close>

definition same_source :: "tui_model \<Rightarrow> tui_model \<Rightarrow> bool" where
  "same_source m m' \<longleftrightarrow>
     tm_findings m' = tm_findings m \<and> tm_fullReport m' = tm_fullReport m \<and>
     tm_showHidden m' = tm_showHidden m \<and> tm_viewMode m' = tm_viewMode m \<and>
     tm_redactEngine m' = tm_redactEngine m"

lemma source_ok_same: "source_ok sha m \<Longrightarrow> same_source m m' \<Longrightarrow> source_ok sha m'"
  by (simp add: source_ok_def same_source_def)

lemma moves_inv:
  assumes "tui_inv sha m"
  shows "tui_inv sha (nextFinding m)" "tui_inv sha (prevFinding m)"
proof -
  have l: "list_ok m" and s: "source_ok sha m" using assms by (simp_all add: tui_inv_def)
  have "list_ok (nextFinding m)"
    using l adjustScroll_window [of "m\<lparr>tm_selected := tm_selected m + 1, tm_evidencePage := 0\<rparr>"]
    by (auto simp: nextFinding_def list_ok_def)
  moreover have "list_ok (prevFinding m)"
    using l adjustScroll_window [of "m\<lparr>tm_selected := tm_selected m - 1, tm_evidencePage := 0\<rparr>"]
    by (auto simp: prevFinding_def list_ok_def)
  moreover have "same_source m (nextFinding m)" "same_source m (prevFinding m)"
    by (simp_all add: same_source_def nextFinding_def prevFinding_def)
  ultimately show "tui_inv sha (nextFinding m)" "tui_inv sha (prevFinding m)"
    using source_ok_same [OF s] by (simp_all add: tui_inv_def)
qed

definition same_list :: "tui_model \<Rightarrow> tui_model \<Rightarrow> bool" where
  "same_list m m' \<longleftrightarrow>
     tm_filtered m' = tm_filtered m \<and> tm_activeFilters m' = tm_activeFilters m \<and>
     tm_selected m' = tm_selected m \<and> tm_scrollOffset m' = tm_scrollOffset m \<and>
     (0 \<le> tm_evidencePage m \<longrightarrow> 0 \<le> tm_evidencePage m')"

lemma tui_inv_same: "tui_inv sha m \<Longrightarrow> same_source m m' \<Longrightarrow> same_list m m' \<Longrightarrow> tui_inv sha m'"
  by (auto simp: tui_inv_def source_ok_def list_ok_def same_source_def same_list_def)

lemmas same_defs = same_source_def same_list_def

lemma pages_inv:
  assumes "tui_inv sha m"
  shows "tui_inv sha (nextEvidencePage m)" "tui_inv sha (prevEvidencePage m)"
  by (rule tui_inv_same [OF assms]; simp add: same_defs nextEvidencePage_def prevEvidencePage_def Let_def)+

lemma status_inv:
  assumes "tui_inv sha m"
  shows "tui_inv sha (fst (copySuggestedCommand m))" "tui_inv sha (showFixDryRun m)"
    "tui_inv sha (m\<lparr>tm_statusBarMsg := msg\<rparr>)"
  by (rule tui_inv_same [OF assms]; simp add: same_defs copySuggestedCommand_def
      showFixDryRun_def split: option.split list.split)+

lemma set_filters_inv:
  assumes "tui_inv sha m" "same_source m m'" "tm_evidencePage m' = tm_evidencePage m"
  shows "tui_inv sha (applyActiveFilters m')"
proof -
  have "0 \<le> tm_evidencePage m'" "source_ok sha m'"
    using assms source_ok_same by (auto simp: tui_inv_def list_ok_def)
  then show ?thesis
    using list_ok_applyActiveFilters source_ok_same [of sha m' "applyActiveFilters m'"]
    by (simp add: tui_inv_def same_source_def)
qed

lemma filters_inv:
  assumes "tui_inv sha m"
  shows "tui_inv sha (applyActiveFilters (m\<lparr>tm_activeFilters := af, tm_statusBarMsg := msg\<rparr>))"
    and "tui_inv sha (handleFilterKey m k)"
proof -
  show "tui_inv sha (applyActiveFilters (m\<lparr>tm_activeFilters := af, tm_statusBarMsg := msg\<rparr>))"
    by (rule set_filters_inv [OF assms]) (simp_all add: same_source_def)
  show "tui_inv sha (handleFilterKey m k)"
  proof (cases "km_Type k \<in> {KeyEnter, KeyEscape}")
    case True
    then show ?thesis
      by (auto simp: handleFilterKey_def intro!: set_filters_inv [OF assms])
        (simp_all add: same_source_def)
  next
    case False
    then show ?thesis
      by (intro tui_inv_same [OF assms]) (auto simp: same_defs handleFilterKey_def split: key_type.split)
  qed
qed

lemma normal_key_inv:
  assumes "tui_inv sha m" shows "tui_inv sha (fst (handleNormalKey sha m s))"
proof -
  have "source_ok sha m" "list_ok m" using assms by (simp_all add: tui_inv_def)
  then have red: "report_redacted (tm_redactEngine m) (tm_fullReport m)" by (simp add: source_ok_def)
  have plain: "tui_inv sha (m\<lparr>tm_verbose := b\<rparr>)" "tui_inv sha (m\<lparr>tm_activePane := p\<rparr>)"
      "tui_inv sha (m\<lparr>tm_activePane := p, tm_evidencePage := 0\<rparr>)"
      "tui_inv sha (m\<lparr>tm_filtering := True, tm_filterInput := []\<rparr>)" for b p
    by (rule tui_inv_same [OF assms]; simp add: same_defs)+
  have "tui_inv sha (fst (ReRun (m\<lparr>tm_statusBarMsg := []\<rparr>)))"
    using StartScan_inv [of sha "m\<lparr>tm_statusBarMsg := []\<rparr>"] status_inv(3) [OF assms]
    by (auto simp: ReRun_def split: prod.split)
  moreover have "tui_inv sha (applyVisibility sha (m\<lparr>tm_showHidden := b\<rparr>) (tm_fullReport m))" for b
    by (rule applyVisibility_inv) (simp add: red)
  ultimately show ?thesis
    using assms plain moves_inv [OF assms] pages_inv [OF assms] status_inv [OF assms] filters_inv(1) [OF assms]
    by (simp add: handleNormalKey_def Let_def split: option.split)
qed

lemma Update_inv:
  assumes "tui_inv sha m" shows "tui_inv sha (fst (tui_Update sha m msg))"
proof (cases msg)
  case (ScanDoneMsg i r err)
  let ?m = "m\<lparr>tm_scanning := False, tm_report := r, tm_scanErr := err\<rparr>"
  have "tui_inv sha ?m" by (rule tui_inv_same [OF assms]) (simp_all add: same_defs)
  moreover have "tui_inv sha (applyVisibility sha ?m (case tm_redactEngine m of None \<Rightarrow> r | Some e \<Rightarrow> RedactReport e r))"
    if "r = Some r0" for r0
    using that by (intro applyVisibility_inv)
      (auto simp: report_redacted_def RedactReport_def split: option.split)
  ultimately show ?thesis using assms ScanDoneMsg by (cases r; cases "tm_redactEngine m") (simp_all add: Let_def split: option.split)
next
  case (KeyMsg k)
  have "tui_inv sha (m\<lparr>tm_showHelp := b\<rparr>)" for b
    by (rule tui_inv_same [OF assms]) (simp_all add: same_defs)
  with KeyMsg show ?thesis
    using assms normal_key_inv filters_inv(2) by (simp add: handleKey_def Let_def)
next
  case (WindowSizeMsg w h)
  have "tui_inv sha (m\<lparr>tm_width := w, tm_height := h\<rparr>)"
    by (rule tui_inv_same [OF assms]) (simp_all add: same_defs)
  then show ?thesis using WindowSizeMsg by simp
next
  case (ScanStartedMsg s)
  have "tui_inv sha (m\<lparr>tm_scanning := True, tm_session := Some s, tm_events := []\<rparr>)"
    by (rule tui_inv_same [OF assms]) (simp_all add: same_defs)
  then show ?thesis using ScanStartedMsg by simp
next
  case (ScanEventMsg i e)
  have "tui_inv sha (m\<lparr>tm_events := es\<rparr>)" for es
    by (rule tui_inv_same [OF assms]) (simp_all add: same_defs)
  then show ?thesis using ScanEventMsg assms by (simp split: option.split)
qed (use assms in simp_all)

definition tui_step :: "(string \<Rightarrow> string) \<Rightarrow> tui_model \<Rightarrow> tui_model \<Rightarrow> bool" where
  "tui_step sha m m' \<longleftrightarrow> (\<exists>msg. m' = fst (tui_Update sha m msg))"

interpretation tui: invariant_system "tui_step sha" "tui_inv sha" for sha
  by unfold_locales (auto simp: tui_step_def Update_inv)

lemma NewScanModel_inv: "tui_inv sha (NewScanModel opts engine hidden)"
  by (simp add: tui_inv_def list_ok_def source_ok_def NewScanModel_def zero_model_def ApplyFilters_def
      visible_findings_def report_redacted_def Let_def split: option.split)

lemma NewScanModel_view_inv: "tui_inv sha (WithViewMode sha (NewScanModel opts engine hidden) view)"
  by (simp add: tui_inv_def list_ok_def source_ok_def NewScanModel_def WithViewMode_def zero_model_def ApplyFilters_def
      visible_findings_def report_redacted_def Let_def split: option.split)

lemma NewReportModel_inv: "tui_inv sha (NewReportModel sha r name md engine hidden views)"
  unfolding NewReportModel_def Let_def
  by (rule applyVisibility_inv)
    (auto simp: report_redacted_def RedactReport_def split: option.split)

definition tui_start :: "(string \<Rightarrow> string) \<Rightarrow> tui_model \<Rightarrow> bool" where
  "tui_start sha m \<longleftrightarrow>
     (\<exists>opts engine hidden view. m = NewScanModel opts engine hidden \<or> m = WithViewMode sha (NewScanModel opts engine hidden) view) \<or>
     (\<exists>r name md engine hidden views. m = NewReportModel sha r name md engine hidden views)"

lemma tui_reachable_inv: "tui_start sha m0 \<Longrightarrow> (tui_step sha)\<^sup>*\<^sup>* m0 m \<Longrightarrow> tui_inv sha m"
  using tui.inv_steps NewScanModel_inv NewScanModel_view_inv NewReportModel_inv unfolding tui_start_def by blast


section \<open>Properties\<close>

text \<open>Runs on a list of messages, for concrete cases.\<close>

definition tui_run :: "(string \<Rightarrow> string) \<Rightarrow> tui_model \<Rightarrow> tui_msg list \<Rightarrow> tui_model" where
  "tui_run sha m msgs = foldl (\<lambda>m msg. fst (tui_Update sha m msg)) m msgs"

lemma tui_run_steps: "(tui_step sha)\<^sup>*\<^sup>* m (tui_run sha m msgs)"
proof (induction msgs arbitrary: m)
  case (Cons msg msgs)
  have "tui_step sha m (fst (tui_Update sha m msg))" by (auto simp: tui_step_def)
  with Cons.IH [of "fst (tui_Update sha m msg)"] show ?case
    by (simp add: tui_run_def converse_rtranclp_into_rtranclp)
qed (simp add: tui_run_def)

definition press :: "string \<Rightarrow> tui_msg" where
  "press s = KeyMsg \<lparr>km_Type = KeyRunes, km_Runes = s, km_String = s\<rparr>"

definition ev_n :: "nat \<Rightarrow> evidence list" where
  "ev_n n = replicate n (mk_ev ''log'' ''line'')"

definition tui_report :: report where
  "tui_report =
     \<lparr>r_SchemaVersion = [], r_DevDiagVersion = [], r_RunID = [], r_RedactionStatus = [], r_RepoRoot = [],
      r_RepoSignals = [], r_Host = zero_host, r_Collectors = [],
      r_Findings =
        [zero_finding\<lparr>f_ID := ''F-X-1'', f_Severity := SeverityHigh, f_Evidence := ev_n 2\<rparr>,
         zero_finding\<lparr>f_ID := ''F-X-2'', f_Severity := SeverityCritical, f_Evidence := ev_n 2\<rparr>,
         zero_finding\<lparr>f_ID := ''F-X-3'', f_Severity := SeverityHigh, f_Evidence := ev_n 7\<rparr>],
      r_Repro = None\<rparr>"

definition loaded :: tui_model where
  "loaded = NewReportModel sha_example (Some tui_report) ''report.json'' ModeReport None False []"

lemma loaded_start: "tui_start sha_example loaded"
  unfolding tui_start_def loaded_def by blast

text \<open>
  C28: In every state the interface can reach from a new scan or a loaded report, whatever messages
  arrive, the list holds exactly the findings of the current report that the policy shows and the
  active filters match, in order of severity; the selection is inside the list, the window starts at
  or above it, and a report held with a redaction engine is that engine's output.
\<close>

theorem tui_shows_visible_findings:
  assumes "tui_start sha m0" "(tui_step sha)\<^sup>*\<^sup>* m0 m"
  shows "tm_filtered m =
      filter (Match (tm_activeFilters m))
        (visible_findings sha (tm_fullReport m) (tm_showHidden m) (tm_viewMode m)) \<and>
    (tm_filtered m \<noteq> [] \<longrightarrow> selectedFinding m \<noteq> None) \<and>
    0 \<le> tm_scrollOffset m \<and> tm_scrollOffset m \<le> tm_selected m \<and>
    (case (tm_redactEngine m, tm_fullReport m) of
       (Some e, Some r) \<Rightarrow> \<exists>r0. RedactReport e (Some r0) = Some r | _ \<Rightarrow> True)"
  using tui_reachable_inv [OF assms]
  by (auto simp: tui_inv_def list_ok_def source_ok_def ApplyFilters_def selectedFinding_def report_redacted_def)

definition window_ok :: "tui_model \<Rightarrow> bool" where
  "window_ok m \<longleftrightarrow>
     0 \<le> tm_selected m \<and> tm_selected m < int (length (tm_filtered m)) \<and>
     tm_scrollOffset m \<le> tm_selected m \<and> tm_selected m < tm_scrollOffset m + maxVisibleItems m \<and>
     (tm_scrollOffset m = 0 \<or> tm_scrollOffset m + maxVisibleItems m \<le> int (length (tm_filtered m)))"

lemma window_ok_adjustScroll:
  "0 \<le> tm_selected m \<Longrightarrow> tm_selected m < int (length (tm_filtered m)) \<Longrightarrow> window_ok (adjustScroll m)"
  using adjustScroll_window [of m] by (simp add: window_ok_def maxVisibleItems_def)

text \<open>
  In every reachable state the keys for the next and the previous finding move the selection by
  one, or do nothing at the end of the list; after a move the selected finding is inside the window
  of the list for the current height of the terminal, the window does not run past the end of the
  list, and the evidence of the new selection is shown from its first page.
\<close>

theorem moves_keep_selection_visible:
  assumes "tui_start sha m0" "(tui_step sha)\<^sup>*\<^sup>* m0 m"
  shows "(if tm_selected m + 1 < int (length (tm_filtered m))
          then tm_selected (nextFinding m) = tm_selected m + 1 \<and> window_ok (nextFinding m) \<and>
            tm_evidencePage (nextFinding m) = 0
          else nextFinding m = m) \<and>
    (if 0 < tm_selected m
     then tm_selected (prevFinding m) = tm_selected m - 1 \<and> window_ok (prevFinding m) \<and>
       tm_evidencePage (prevFinding m) = 0
     else prevFinding m = m)"
proof -
  have "list_ok m" using tui_reachable_inv [OF assms] by (simp add: tui_inv_def)
  then have sel: "0 \<le> tm_selected m" "tm_selected m = 0 \<or> tm_selected m < int (length (tm_filtered m))"
    by (auto simp: list_ok_def)
  then show ?thesis
    by (auto simp: nextFinding_def prevFinding_def intro!: window_ok_adjustScroll)
qed


theorem tui_shows_visible_findings_witness:
  "selectedFinding (tui_run sha_example loaded [WindowSizeMsg 80 24, press ''j'']) \<noteq> None"
proof -
  have "tm_filtered (tui_run sha_example loaded [WindowSizeMsg 80 24, press ''j'']) \<noteq> []" by code_simp
  then show ?thesis
    using tui_shows_visible_findings [OF loaded_start tui_run_steps, of "[WindowSizeMsg 80 24, press ''j'']"]
    by simp
qed

theorem moves_keep_selection_visible_witness:
  "window_ok (nextFinding (tui_run sha_example loaded [WindowSizeMsg 80 9]))"
proof -
  have "tm_selected (tui_run sha_example loaded [WindowSizeMsg 80 9]) + 1 <
      int (length (tm_filtered (tui_run sha_example loaded [WindowSizeMsg 80 9])))" by code_simp
  then show ?thesis
    using moves_keep_selection_visible [OF loaded_start tui_run_steps, of "[WindowSizeMsg 80 9]"] by simp
qed

section \<open>What the handlers leave open\<close>

text \<open>Shrinking the terminal leaves the selected finding outside the window until the next move.\<close>

lemma resize_hides_selection:
  "\<not> window_ok (tui_run sha_example loaded [WindowSizeMsg 80 24, press ''j'', press ''j'', WindowSizeMsg 80 9])"
  by code_simp

text \<open>
  Filtering selects another finding without returning to its first evidence page, so the page can
  lie past the pages of the selected finding, and the key for the previous page seems to do nothing.
\<close>

lemma filter_keeps_evidence_page:
  "let m = tui_run sha_example loaded [press ''j'', press ''j'', press ''pgdown'', press ''0'']
   in tm_evidencePage m = 1 \<and> evidencePageCount m = 1"
  by code_simp

text \<open>Only the question mark closes the help, although it says that any key does.\<close>

lemma help_closes_only_on_question_mark:
  assumes "\<And>k. msg = KeyMsg k \<Longrightarrow> km_String k \<noteq> ''?''"
  shows "tm_showHelp (fst (tui_Update sha m msg)) = tm_showHelp m"
proof -
  have vis: "tm_showHelp (applyVisibility sha m' r) = tm_showHelp m'" for m' r
    by (simp add: applyVisibility_def Let_def split: prod.split)
  have moves: "tm_showHelp (nextFinding m) = tm_showHelp m" "tm_showHelp (prevFinding m) = tm_showHelp m"
    by (simp_all add: nextFinding_def prevFinding_def adjustScroll_def Let_def)
  have filters: "tm_showHelp (applyActiveFilters m') = tm_showHelp m'" for m'
    by (simp add: applyActiveFilters_def)
  have "tm_showHelp (handleFilterKey m k) = tm_showHelp m" for k
    by (simp add: handleFilterKey_def filters split: key_type.split)
  moreover have "tm_showHelp (fst (handleNormalKey sha m s)) = tm_showHelp m" for s
    by (simp add: handleNormalKey_def vis moves filters ReRun_def StartScan_def nextEvidencePage_def
        prevEvidencePage_def copySuggestedCommand_def showFixDryRun_def Let_def
        split: option.split list.split)
  ultimately show ?thesis
    using assms by (cases msg) (simp_all add: vis handleKey_def Let_def split: option.split)
qed

text \<open>
  A started session is adopted whatever its number: when the message of the first scan arrives after
  that of a rerun, the interface follows the first scan and ignores the report of the rerun.
\<close>

lemma late_start_adopted:
  "let fresh = NewScanModel (tm_opts zero_model) None [];
       m = tui_run sha_example fresh
         [press ''r'', ScanStartedMsg \<lparr>ss_id = 1, ss_has_cancel = True\<rparr>,
          ScanStartedMsg \<lparr>ss_id = 0, ss_has_cancel = True\<rparr>, ScanDoneMsg 1 (Some tui_report) None]
   in tm_sessionID m = 1 \<and> tm_scanning m \<and> tm_report m = None"
  by code_simp

end
