(* ===== verification/Tui_Session.thy ===== *)
theory Tui_Session
  imports Tui_Correct
begin

text \<open>
  The background scan of the interface (\<open>startScan\<close>, \<open>nextEvent\<close> and \<open>safeEventSink\<close> of
  \<open>update.go\<close>) beside the model that consumes its events: the scan's goroutine emits into a channel
  of 256 places and waits when it is full; one outstanding \<open>nextEvent\<close> command reads an event, or
  the completion once the scan is done and the channel drained, and hands it to the update function,
  which issues the next command only for its current session.
\<close>

definition session_capacity :: nat where "session_capacity = 256"

record session_state =
  se_pending :: "event list"
  se_queue :: "event list"
  se_sinkClosed :: bool
  se_done :: bool
  se_waiting :: bool
  se_cancelled :: bool
  se_model :: tui_model

text \<open>
  \<open>Emit\<close>: nothing once the sink is closed, else a send that waits for a free place; \<open>None\<close> when it
  waits.
\<close>

definition safeEventSink_Emit :: "session_state \<Rightarrow> event \<Rightarrow> session_state option" where
  "safeEventSink_Emit s e =
     (if se_sinkClosed s then Some s
      else if length (se_queue s) < session_capacity then Some (s\<lparr>se_queue := se_queue s @ [e]\<rparr>)
      else None)"

definition safeEventSink_Close :: "session_state \<Rightarrow> session_state" where
  "safeEventSink_Close s = s\<lparr>se_sinkClosed := True\<rparr>"

text \<open>The message a \<open>nextEvent\<close> command returns; \<open>None\<close> while it waits.\<close>

definition nextEvent ::
  "scan_session \<Rightarrow> report option \<Rightarrow> string option \<Rightarrow> session_state \<Rightarrow> (tui_msg \<times> session_state) option" where
  "nextEvent sess r err s =
     (case se_queue s of
        e # es \<Rightarrow> Some (ScanEventMsg (ss_id sess) e, s\<lparr>se_queue := es\<rparr>)
      | [] \<Rightarrow> if se_done s then Some (ScanDoneMsg (ss_id sess) r err, s) else None)"

text \<open>What the model does with a message, and whether it asks for the session's next event.\<close>

definition deliver :: "(string \<Rightarrow> string) \<Rightarrow> scan_session \<Rightarrow> tui_msg \<Rightarrow> session_state \<Rightarrow> session_state" where
  "deliver sha sess msg s =
     (case tui_Update sha (se_model s) msg of
        (m', fx) \<Rightarrow> s\<lparr>se_model := m', se_waiting := (NextEvent sess \<in> set fx),
                       se_cancelled := (se_cancelled s \<or> CancelSession (ss_id sess) \<in> set fx)\<rparr>)"

inductive session_step ::
  "(string \<Rightarrow> string) \<Rightarrow> scan_session \<Rightarrow> report option \<Rightarrow> string option \<Rightarrow> session_state \<Rightarrow> session_state \<Rightarrow> bool"
  for sha sess r err where
  emit: "se_pending s = e # es \<Longrightarrow> safeEventSink_Emit s e = Some s' \<Longrightarrow>
    session_step sha sess r err s (s'\<lparr>se_pending := es\<rparr>)"
| close_sink: "se_pending s = [] \<Longrightarrow> \<not> se_sinkClosed s \<Longrightarrow>
    session_step sha sess r err s (safeEventSink_Close s)"
| close_done: "se_sinkClosed s \<Longrightarrow> \<not> se_done s \<Longrightarrow> session_step sha sess r err s (s\<lparr>se_done := True\<rparr>)"
| next_event: "se_waiting s \<Longrightarrow> nextEvent sess r err s = Some (msg, s') \<Longrightarrow>
    session_step sha sess r err s (deliver sha sess msg s')"

text \<open>A message from elsewhere, such as a key, beside the pending command.\<close>

definition interrupt :: "(string \<Rightarrow> string) \<Rightarrow> scan_session \<Rightarrow> tui_msg \<Rightarrow> session_state \<Rightarrow> session_state" where
  "interrupt sha sess msg s = (deliver sha sess msg s)\<lparr>se_waiting := se_waiting s\<rparr>"

definition session_start :: "(string \<Rightarrow> string) \<Rightarrow> tui_model \<Rightarrow> scan_session \<Rightarrow> event list \<Rightarrow> session_state" where
  "session_start sha m sess es =
     \<lparr>se_pending = es, se_queue = [], se_sinkClosed = False, se_done = False, se_waiting = True,
      se_cancelled = False, se_model = fst (tui_Update sha m (ScanStartedMsg sess))\<rparr>"

section \<open>An undisturbed scan\<close>

definition session_inv :: "scan_session \<Rightarrow> event list \<Rightarrow> session_state \<Rightarrow> bool" where
  "session_inv sess es s \<longleftrightarrow>
     tm_events (se_model s) @ se_queue s @ se_pending s = es \<and>
     length (se_queue s) \<le> session_capacity \<and>
     tm_session (se_model s) = Some sess \<and> tm_scanning (se_model s) = se_waiting s \<and>
     (se_sinkClosed s \<longrightarrow> se_pending s = []) \<and> (se_done s \<longrightarrow> se_sinkClosed s) \<and>
     (\<not> se_waiting s \<longrightarrow> se_done s \<and> se_queue s = [])"

definition session_work :: "session_state \<Rightarrow> nat" where
  "session_work s =
     2 * length (se_pending s) + length (se_queue s) + of_bool (\<not> se_sinkClosed s) +
     of_bool (\<not> se_done s) + of_bool (se_waiting s)"

definition session_final :: "session_state \<Rightarrow> bool" where
  "session_final s \<longleftrightarrow> \<not> se_waiting s"

lemma applyVisibility_other [simp]:
  "tm_events (applyVisibility sha m r) = tm_events m" "tm_scanning (applyVisibility sha m r) = tm_scanning m"
  by (simp_all add: applyVisibility_def Let_def split: prod.split)

lemma Update_event:
  "tm_session m = Some s \<Longrightarrow> tui_Update sha m (ScanEventMsg (ss_id s) e) =
     (m\<lparr>tm_events := tm_events m @ [e]\<rparr>, [NextEvent s])"
  by simp

lemma Update_done:
  "tm_session m = Some s \<Longrightarrow> tui_Update sha m (ScanDoneMsg (ss_id s) r err) = (m', fx) \<Longrightarrow>
     fx = [] \<and> tm_events m' = tm_events m \<and> tm_session m' = Some s \<and> \<not> tm_scanning m'"
  by (auto simp: Let_def split: option.splits)

lemma session_preserved:
  assumes "session_inv sess es s" "session_step sha sess r err s t"
  shows "session_inv sess es t \<and> session_work t < session_work s"
  using assms(2)
proof cases
  case (emit e es' s')
  then show ?thesis
    using assms(1) by (auto simp: session_inv_def session_work_def safeEventSink_Emit_def split: if_splits)
next
  case close_sink
  then show ?thesis using assms(1) by (auto simp: session_inv_def session_work_def safeEventSink_Close_def)
next
  case close_done
  then show ?thesis using assms(1) by (auto simp: session_inv_def session_work_def)
next
  case (next_event msg s')
  have ses: "tm_session (se_model s) = Some sess" using assms(1) by (simp add: session_inv_def)
  show ?thesis
  proof (cases "se_queue s")
    case (Cons e q)
    then have "t = s\<lparr>se_queue := q, se_model := (se_model s)\<lparr>tm_events := tm_events (se_model s) @ [e]\<rparr>,
        se_waiting := True, se_cancelled := se_cancelled s\<rparr>"
      using next_event ses by (auto simp: nextEvent_def deliver_def)
    then show ?thesis
      using assms(1) Cons \<open>se_waiting s\<close> by (auto simp: session_inv_def session_work_def)
  next
    case Nil
    then have n: "se_done s" "msg = ScanDoneMsg (ss_id sess) r err" "s' = s"
      using next_event by (auto simp: nextEvent_def split: if_splits)
    obtain m' fx where u: "tui_Update sha (se_model s) msg = (m', fx)" by fastforce
    with Update_done [OF ses] n(2) have d: "fx = []" "tm_events m' = tm_events (se_model s)"
      "tm_session m' = Some sess" "\<not> tm_scanning m'" by blast+
    have "t = s\<lparr>se_model := m', se_waiting := False, se_cancelled := se_cancelled s\<rparr>"
      using next_event u n(3) d(1) by (simp add: deliver_def)
    then show ?thesis
      using assms(1) Nil n(1) d \<open>se_waiting s\<close> by (auto simp: session_inv_def session_work_def)
  qed
qed

lemma session_progress:
  assumes "session_inv sess es s" "se_waiting s"
  shows "\<exists>t. session_step sha sess r err s t"
proof (cases "se_queue s")
  case (Cons e q)
  then have "nextEvent sess r err s = Some (ScanEventMsg (ss_id sess) e, s\<lparr>se_queue := q\<rparr>)"
    by (simp add: nextEvent_def)
  then show ?thesis using next_event [OF assms(2)] by blast
next
  case Nil
  show ?thesis
  proof (cases "se_pending s")
    case (Cons e p)
    have "safeEventSink_Emit s e = Some (if se_sinkClosed s then s else s\<lparr>se_queue := [e]\<rparr>)"
      using Nil by (simp add: safeEventSink_Emit_def session_capacity_def)
    then show ?thesis using emit [OF Cons] by blast
  next
    case Nil': Nil
    have "nextEvent sess r err s = Some (ScanDoneMsg (ss_id sess) r err, s)" if "se_done s"
      using that Nil by (simp add: nextEvent_def)
    then show ?thesis
      using close_sink [OF Nil'] close_done [of s] next_event [OF assms(2)] by blast
  qed
qed

interpretation session: terminating_system
  "session_step sha sess r err" "session_inv sess es" session_work session_final for sha sess r err es
  by unfold_locales (use session_preserved session_progress in \<open>auto simp: session_final_def\<close>)

lemma session_start_inv: "session_inv sess es (session_start sha m sess es)"
  by (simp add: session_inv_def session_start_def)

lemma final_stuck:
  assumes "session_inv sess es s" "session_final s" shows "\<not> session_step sha sess r err s t"
  using assms by (auto simp: session_inv_def session_final_def elim!: session_step.cases)

definition session_example :: scan_session where
  "session_example = \<lparr>ss_id = 1, ss_has_cancel = True\<rparr>"

definition events_example :: "event list" where
  "events_example = [mk_event EventScanStarted ''start'', mk_event EventScanCompleted ''done'']"

section \<open>A scan beside everything else\<close>

text \<open>
  The messages that leave a scan alone, in the state in which they arrive: all but the keys that quit or
  start the scan again, the start of another scan, and an event or a completion that is not handed over
  by the scan's own command. Resizes, ticks of the spinner, messages of other sessions, keys that move,
  filter, page, copy or show hidden findings, and whatever is typed into the filter are among them.
\<close>

definition leaves_scan :: "scan_session \<Rightarrow> tui_model \<Rightarrow> tui_msg \<Rightarrow> bool" where
  "leaves_scan sess m msg =
     (case msg of
        ScanStartedMsg _ \<Rightarrow> False
      | ScanEventMsg i _ \<Rightarrow> i \<noteq> ss_id sess
      | ScanDoneMsg i _ _ \<Rightarrow> i \<noteq> ss_id sess
      | KeyMsg k \<Rightarrow> km_String k \<noteq> ''q'' \<and> km_String k \<noteq> ''ctrl+c'' \<and>
          (km_String k = ''r'' \<longrightarrow> tm_filtering m \<or> tm_mode m \<noteq> ModeScan)
      | _ \<Rightarrow> True)"

text \<open>
  The runs of a scan and the interface: steps of the scan and its event command, which are counted, and
  such messages at any moment and in any number.
\<close>

inductive session_run ::
  "(string \<Rightarrow> string) \<Rightarrow> scan_session \<Rightarrow> report option \<Rightarrow> string option \<Rightarrow> session_state \<Rightarrow> nat \<Rightarrow> session_state \<Rightarrow> bool"
  for sha sess r err s where
  run_start: "session_run sha sess r err s 0 s"
| run_scan_step: "session_run sha sess r err s n t \<Longrightarrow> session_step sha sess r err t u \<Longrightarrow>
    session_run sha sess r err s (Suc n) u"
| run_message: "session_run sha sess r err s n t \<Longrightarrow> leaves_scan sess (se_model t) msg \<Longrightarrow>
    session_run sha sess r err s n (interrupt sha sess msg t)"

definition scan_part :: "tui_model \<Rightarrow> event list \<times> scan_session option \<times> bool" where
  "scan_part m = (tm_events m, tm_session m, tm_scanning m)"

lemma scan_part_moves [simp]:
  "scan_part (applyActiveFilters m) = scan_part m" "scan_part (applyVisibility sha m rep) = scan_part m"
  "scan_part (adjustScroll m) = scan_part m" "scan_part (nextFinding m) = scan_part m"
  "scan_part (prevFinding m) = scan_part m" "scan_part (nextEvidencePage m) = scan_part m"
  "scan_part (prevEvidencePage m) = scan_part m" "scan_part (showFixDryRun m) = scan_part m"
  "scan_part (fst (copySuggestedCommand m)) = scan_part m"
proof -
  show f: "scan_part (applyActiveFilters m) = scan_part m" for m by (simp add: scan_part_def applyActiveFilters_def)
  show v: "scan_part (applyVisibility sha m rep) = scan_part m" for m
    by (simp add: scan_part_def applyVisibility_def Let_def split: prod.split)
  show a: "scan_part (adjustScroll m) = scan_part m" for m by (simp add: scan_part_def adjustScroll_def Let_def)
  show "scan_part (nextFinding m) = scan_part m" "scan_part (prevFinding m) = scan_part m"
    by (simp_all add: nextFinding_def prevFinding_def a) (simp_all add: scan_part_def)
  show "scan_part (nextEvidencePage m) = scan_part m" "scan_part (prevEvidencePage m) = scan_part m"
    by (simp_all add: nextEvidencePage_def prevEvidencePage_def scan_part_def Let_def)
  show "scan_part (showFixDryRun m) = scan_part m" "scan_part (fst (copySuggestedCommand m)) = scan_part m"
    by (simp_all add: showFixDryRun_def copySuggestedCommand_def scan_part_def Let_def split: option.split list.split)
qed

lemma scan_part_filter_key: "scan_part (handleFilterKey m k) = scan_part m"
  by (cases "km_Type k") (simp_all add: handleFilterKey_def, simp_all add: scan_part_def)

lemma scan_part_normal_key:
  assumes "s = ''r'' \<longrightarrow> tm_mode m \<noteq> ModeScan"
  shows "scan_part (fst (handleNormalKey sha m s)) = scan_part m \<and> (\<forall>i. CancelSession i \<notin> set (snd (handleNormalKey sha m s)))"
proof -
  have "CancelSession i \<notin> set (snd (copySuggestedCommand m))" for i
    by (simp add: copySuggestedCommand_def split: option.split list.split)
  with assms show ?thesis
    unfolding handleNormalKey_def ReRun_def Let_def
    by (simp split: option.split) (simp add: scan_part_def)
qed

lemma leaves_scan_part:
  assumes "leaves_scan sess m msg" "tm_session m = Some sess"
  shows "scan_part (fst (tui_Update sha m msg)) = scan_part m \<and> (\<forall>i. CancelSession i \<notin> set (snd (tui_Update sha m msg)))"
proof (cases msg)
  case (KeyMsg k)
  then have k: "km_String k \<noteq> ''q''" "km_String k \<noteq> ''ctrl+c''" "km_String k = ''r'' \<longrightarrow> tm_filtering m \<or> tm_mode m \<noteq> ModeScan"
    using assms(1) by (simp_all add: leaves_scan_def)
  show ?thesis
  proof (cases "km_String k = ''?''")
    case True
    with KeyMsg k(1,2) show ?thesis by (simp add: handleKey_def) (simp add: scan_part_def)
  next
    case unhelped: False
    show ?thesis
    proof (cases "tm_filtering m")
      case True
      with KeyMsg k(1,2) unhelped show ?thesis by (simp add: handleKey_def scan_part_filter_key)
    next
      case False
      with KeyMsg k unhelped scan_part_normal_key [of "km_String k" m sha] show ?thesis by (simp add: handleKey_def)
    qed
  qed
qed (use assms in \<open>simp_all add: leaves_scan_def scan_part_def\<close>)

lemma interrupt_leaves:
  assumes "leaves_scan sess (se_model s) msg" "session_inv sess es s"
  shows "session_inv sess es (interrupt sha sess msg s) \<and> session_work (interrupt sha sess msg s) = session_work s \<and>
    se_cancelled (interrupt sha sess msg s) = se_cancelled s"
proof -
  have ses: "tm_session (se_model s) = Some sess" using assms(2) by (simp add: session_inv_def)
  obtain m' fx where u: "tui_Update sha (se_model s) msg = (m', fx)" by fastforce
  with leaves_scan_part [OF assms(1) ses, of sha]
  have m: "tm_events m' = tm_events (se_model s)" "tm_session m' = tm_session (se_model s)"
    "tm_scanning m' = tm_scanning (se_model s)" "\<forall>i. CancelSession i \<notin> set fx"
    by (simp_all add: scan_part_def)
  have "interrupt sha sess msg s = s\<lparr>se_model := m'\<rparr>" using u m(4) by (simp add: interrupt_def deliver_def)
  with assms(2) m(1-3) show ?thesis by (simp add: session_inv_def session_work_def)
qed

lemma session_run_inv:
  assumes "session_run sha sess r err s n t" "session_inv sess es s"
  shows "session_inv sess es t \<and> n + session_work t \<le> session_work s"
  using assms
proof (induction rule: session_run.induct)
  case (run_scan_step n t u)
  then have t: "session_inv sess es t" "n + session_work t \<le> session_work s" by blast+
  from session_preserved [OF t(1) run_scan_step.hyps(2)] t(2) show ?case by linarith
next
  case (run_message n t msg)
  then have t: "session_inv sess es t" "n + session_work t \<le> session_work s" by blast+
  from interrupt_leaves [OF run_message.hyps(2) t(1), of sha] t(2) show ?case by simp
qed simp

text \<open>
  C29: A scan beside the interface, whatever the interleaving of the scan's goroutine, the event commands
  and any number of other messages that do not quit, rerun or start a scan: the scan takes at most two
  steps per event and three more; at every moment the events shown are a prefix of those emitted, in
  order; as long as the interface waits for the scan one of the two can go on, and going on reaches a
  state where it does not; and then it has shown every event and has left the scanning state.
\<close>

theorem session_delivers_every_event:
  fixes sha sess r err es m
  defines "start \<equiv> session_start sha m sess es"
  shows "\<forall>n t. session_run sha sess r err start n t \<longrightarrow>
     n \<le> 2 * length es + 3 \<and> prefix (tm_events (se_model t)) es \<and>
     ((\<exists>u. session_step sha sess r err t u) \<longleftrightarrow> se_waiting t) \<and>
     (\<exists>u. (session_step sha sess r err)\<^sup>*\<^sup>* t u \<and> \<not> se_waiting u) \<and>
     (\<not> se_waiting t \<longrightarrow> tm_events (se_model t) = es \<and> \<not> tm_scanning (se_model t))"
proof (intro allI impI)
  fix n t assume run: "session_run sha sess r err start n t"
  have i: "session_inv sess es start" by (simp add: start_def session_start_inv)
  have w: "session_work start = 2 * length es + 3"
    by (simp add: start_def session_start_def session_work_def)
  from session_run_inv [OF run i] w have inv: "session_inv sess es t" and n: "n \<le> 2 * length es + 3" by auto
  have "(\<exists>u. session_step sha sess r err t u) \<longleftrightarrow> se_waiting t"
    using session_progress [OF inv, of sha r err] final_stuck [OF inv, of sha r err] unfolding session_final_def by blast
  moreover have "\<exists>u. (session_step sha sess r err)\<^sup>*\<^sup>* t u \<and> \<not> se_waiting u"
    using session.reaches_final [OF inv, of sha r err] by (simp add: session_final_def)
  ultimately show "n \<le> 2 * length es + 3 \<and> prefix (tm_events (se_model t)) es \<and>
     ((\<exists>u. session_step sha sess r err t u) \<longleftrightarrow> se_waiting t) \<and>
     (\<exists>u. (session_step sha sess r err)\<^sup>*\<^sup>* t u \<and> \<not> se_waiting u) \<and>
     (\<not> se_waiting t \<longrightarrow> tm_events (se_model t) = es \<and> \<not> tm_scanning (se_model t))"
    using inv n by (auto simp: session_inv_def prefix_def)
qed

theorem session_delivers_every_event_witness:
  "\<exists>t. session_run (\<lambda>s. s) session_example None None (session_start (\<lambda>s. s) zero_model session_example events_example) 0 t \<and>
    tm_width (se_model t) = 80 \<and> prefix (tm_events (se_model t)) events_example \<and> se_waiting t"
proof -
  let ?start = "session_start (\<lambda>s. s) zero_model session_example events_example"
  let ?t = "interrupt (\<lambda>s. s) session_example (WindowSizeMsg 80 24) ?start"
  have run: "session_run (\<lambda>s. s) session_example None None ?start 0 ?t"
    by (intro run_message run_start) (simp add: leaves_scan_def)
  have "tm_width (se_model ?t) = 80" "se_waiting ?t" by (simp_all add: interrupt_def deliver_def session_start_def)
  with run session_delivers_every_event [rule_format, OF run] show ?thesis by blast
qed

section \<open>A scan that is rerun\<close>

text \<open>
  The update function ignores an event of another session and asks for no further one, so nobody
  reads the channel of a scan that a rerun replaced; its sink is closed only after the scan returns.
\<close>

definition blocked :: "session_state \<Rightarrow> bool" where
  "blocked s \<longleftrightarrow>
     \<not> se_waiting s \<and> \<not> se_sinkClosed s \<and> se_pending s \<noteq> [] \<and> session_capacity \<le> length (se_queue s)"

lemma blocked_stuck: "blocked s \<Longrightarrow> \<not> session_step sha sess r err s t"
  by (auto simp: blocked_def safeEventSink_Emit_def elim!: session_step.cases split: if_splits)

lemma emit_steps:
  assumes "\<not> se_sinkClosed s" "length (se_queue s) + length xs \<le> session_capacity" "se_pending s = xs @ ys"
  shows "(session_step sha sess r err)\<^sup>*\<^sup>* s (s\<lparr>se_queue := se_queue s @ xs, se_pending := ys\<rparr>)"
  using assms
proof (induction xs arbitrary: s)
  case (Cons x xs)
  let ?s = "s\<lparr>se_queue := se_queue s @ [x], se_pending := xs @ ys\<rparr>"
  have "safeEventSink_Emit s x = Some (s\<lparr>se_queue := se_queue s @ [x]\<rparr>)"
    using Cons.prems by (simp add: safeEventSink_Emit_def)
  then have "session_step sha sess r err s ?s"
    using emit [of s x "xs @ ys" _ sha sess r err] Cons.prems(3) by simp
  moreover have "(session_step sha sess r err)\<^sup>*\<^sup>* ?s (s\<lparr>se_queue := se_queue s @ x # xs, se_pending := ys\<rparr>)"
    using Cons.IH [of ?s] Cons.prems by simp
  ultimately show ?case by (simp add: converse_rtranclp_into_rtranclp)
next
  case Nil
  then have "s\<lparr>se_queue := se_queue s @ [], se_pending := ys\<rparr> = s" by (cases s) simp
  then show ?case by simp
qed

text \<open>
  When the user reruns a scan that still has more events to emit than its channel holds, its
  context is cancelled but its goroutine can come to wait forever: a state is reachable from which
  neither it nor the interface ever takes another step of that session.
\<close>

theorem rerun_blocks_old_scan:
  assumes "tm_mode m = ModeScan" "\<not> tm_filtering m" "ss_has_cancel sess"
    and "session_capacity + 1 < length es"
  shows "\<exists>t. (session_step sha sess r err)\<^sup>*\<^sup>*
      (interrupt sha sess (press ''r'') (session_start sha m sess es)) t \<and>
    se_cancelled t \<and> blocked t \<and> (\<forall>u. \<not> session_step sha sess r err t u)"
proof -
  let ?s = "interrupt sha sess (press ''r'') (session_start sha m sess es)"
  obtain e xs ys where es: "es = (e # xs) @ ys" "length xs = session_capacity" "ys \<noteq> []"
  proof
    show "es = (hd es # take session_capacity (tl es)) @ drop session_capacity (tl es)"
      using assms(4) by (cases es) simp_all
  qed (use assms(4) in simp_all)
  have s: "se_pending ?s = [e] @ xs @ ys" "se_queue ?s = []" "\<not> se_sinkClosed ?s" "se_waiting ?s"
    "se_cancelled ?s" "tm_session (se_model ?s) = None"
    using assms(1-3) es(1)
    by (simp_all add: interrupt_def deliver_def session_start_def press_def handleKey_def handleNormalKey_def
        ReRun_def StartScan_def cancelScan_def)
  let ?t = "?s\<lparr>se_queue := [e], se_pending := xs @ ys\<rparr>"
  let ?u = "?s\<lparr>se_pending := xs @ ys, se_queue := [], se_waiting := False, se_cancelled := True\<rparr>"
  let ?v = "?u\<lparr>se_queue := xs, se_pending := ys\<rparr>"
  have "(session_step sha sess r err)\<^sup>*\<^sup>* ?s ?t"
    using emit_steps [OF s(3), of "[e]" "xs @ ys" sha sess r err] s(1,2) by (simp add: session_capacity_def)
  moreover have "session_step sha sess r err ?t ?u"
    using next_event [of ?t sess r err "ScanEventMsg (ss_id sess) e" "?t\<lparr>se_queue := []\<rparr>" sha] s(4-6)
    by (simp add: nextEvent_def deliver_def)
  moreover have "(session_step sha sess r err)\<^sup>*\<^sup>* ?u ?v"
    using emit_steps [of ?u xs ys sha sess r err] s(3) es(2) by simp
  ultimately have "(session_step sha sess r err)\<^sup>*\<^sup>* ?s ?v" by (meson rtranclp.rtrancl_into_rtrancl rtranclp_trans)
  moreover have "blocked ?v" "se_cancelled ?v" using s(3,5) es(2,3) by (simp_all add: blocked_def)
  ultimately show ?thesis using blocked_stuck by blast
qed

definition many_events :: "event list" where
  "many_events = replicate (session_capacity + 2) (mk_event EventFindingAdded ''finding'')"

theorem rerun_blocks_old_scan_witness:
  "\<exists>t. (session_step (\<lambda>s. s) \<lparr>ss_id = 0, ss_has_cancel = True\<rparr> None None)\<^sup>*\<^sup>*
      (interrupt (\<lambda>s. s) \<lparr>ss_id = 0, ss_has_cancel = True\<rparr> (press ''r'')
        (session_start (\<lambda>s. s) (NewScanModel (tm_opts zero_model) None []) \<lparr>ss_id = 0, ss_has_cancel = True\<rparr>
          many_events)) t \<and>
    se_cancelled t \<and> blocked t"
proof -
  let ?sess = "\<lparr>ss_id = 0, ss_has_cancel = True\<rparr> :: scan_session"
  have "tm_mode (NewScanModel (tm_opts zero_model) None []) = ModeScan"
    "\<not> tm_filtering (NewScanModel (tm_opts zero_model) None [])" "ss_has_cancel ?sess"
    "session_capacity + 1 < length many_events"
    by (simp_all add: NewScanModel_def zero_model_def many_events_def Let_def)
  from rerun_blocks_old_scan [OF this] show ?thesis by blast
qed

end
