(* ===== verification/Collect_Env.thy ===== *)
theory Collect_Env
  imports M1_Correct
begin

text \<open>
  \<open>internal/collectors/env/env.go\<close>: the keys of the three environment files, with the rules that read
  them. A file is what opening and reading it gives: absent, unreadable, or its text.
\<close>

section \<open>Lines of an environment file\<close>

datatype file_read = Absent | Unreadable | Readable string

definition env_letter :: "char \<Rightarrow> bool" where
  "env_letter c \<longleftrightarrow> c = CHR ''_'' \<or> (c \<ge> CHR ''A'' \<and> c \<le> CHR ''Z'') \<or> (c \<ge> CHR ''a'' \<and> c \<le> CHR ''z'')"

definition isValidEnvKey :: "string \<Rightarrow> bool" where
  "isValidEnvKey k \<longleftrightarrow>
     k \<noteq> [] \<and> env_letter (hd k) \<and>
     list_all (\<lambda>c. env_letter c \<or> CHR ''0'' \<le> c \<and> c \<le> CHR ''9'') (tl k)"

definition diffKeys :: "string list \<Rightarrow> string list \<Rightarrow> string list" where
  "diffKeys a b = filter (\<lambda>k. k \<notin> set b) a"

abbreviation dquote :: char where "dquote \<equiv> CHR 0x22"
abbreviation squote :: char where "squote \<equiv> CHR 0x27"
abbreviation backslash :: char where "backslash \<equiv> CHR 0x5C"

text \<open>
  Inside which quotes a text ends: the state is (in single, in double) quotes, \<open>prev\<close> the byte before
  the current one. A quote after a backslash closes nothing.
\<close>

fun quote_scan :: "char option \<Rightarrow> string \<Rightarrow> bool \<times> bool \<Rightarrow> bool \<times> bool" where
  "quote_scan prev [] st = st"
| "quote_scan prev (c # s) (inS, inD) =
     quote_scan (Some c) s
       (if inD then (inS, \<not> (c = dquote \<and> prev \<noteq> Some backslash))
        else if inS then (\<not> (c = squote \<and> prev \<noteq> Some backslash), inD)
        else if c = dquote then (inS, True)
        else if c = squote then (True, inD)
        else (inS, inD))"

text \<open>The first equal sign or colon outside quotes.\<close>

fun find_delimiter :: "char option \<Rightarrow> string \<Rightarrow> bool \<times> bool \<Rightarrow> nat option" where
  "find_delimiter prev [] st = None"
| "find_delimiter prev (c # s) (inS, inD) =
     (if \<not> inD \<and> \<not> inS \<and> (c = CHR ''='' \<or> c = CHR '':'') then Some 0
      else map_option Suc (find_delimiter (Some c) s
        (if inD then (inS, \<not> (c = dquote \<and> prev \<noteq> Some backslash))
         else if inS then (\<not> (c = squote \<and> prev \<noteq> Some backslash), inD)
         else if c = dquote then (inS, True)
         else if c = squote then (True, inD)
         else (inS, inD))))"

record env_scan =
  es_keys :: "string list"
  es_ignored :: nat
  es_quotes :: "bool \<times> bool"

definition env_line :: "env_scan \<Rightarrow> string \<Rightarrow> env_scan" where
  "env_line s txt =
     (let line = trim_space txt in
      if es_quotes s \<noteq> (False, False) then s\<lparr>es_quotes := quote_scan None line (es_quotes s)\<rparr>
      else if line = [] \<or> has_prefix line ''#'' then s
      else
        let trimmed = (if has_prefix line ''export '' then trim_space (trim_prefix line ''export '') else line) in
        case find_delimiter None trimmed (False, False) of
          None \<Rightarrow> s\<lparr>es_ignored := es_ignored s + 1\<rparr>
        | Some i \<Rightarrow>
            let keyPart = trim_space (take i trimmed); valPart = drop (i + 1) trimmed in
            if \<not> isValidEnvKey keyPart then s\<lparr>es_ignored := es_ignored s + 1\<rparr>
            else s\<lparr>es_keys := es_keys s @ [keyPart],
                   es_quotes := quote_scan None valPart (False, False)\<rparr>)"

definition env_scan_text :: "string \<Rightarrow> env_scan \<times> string option" where
  "env_scan_text content =
     (case scan_lines (64 * 1024) content of
        (ls, err) \<Rightarrow> (foldl env_line \<lparr>es_keys = [], es_ignored = 0, es_quotes = (False, False)\<rparr> ls, err))"

datatype env_error = NotExist | ReadError

definition parseEnvFileKeys :: "file_read \<Rightarrow> string list \<times> nat \<times> env_error option" where
  "parseEnvFileKeys f =
     (case f of
        Absent \<Rightarrow> ([], 0, Some NotExist)
      | Unreadable \<Rightarrow> ([], 0, Some ReadError)
      | Readable content \<Rightarrow>
          (case env_scan_text content of
             (s, err) \<Rightarrow> (es_keys s, es_ignored s, map_option (\<lambda>_. ReadError) err)))"

section \<open>The collector\<close>

definition keys_evidence :: "string \<Rightarrow> string list \<Rightarrow> evidence list" where
  "keys_evidence source keys =
     (if keys \<noteq> [] then [mk_ev source (''keys: '' @ join '', '' keys)] else [])"

definition env_Collect :: "file_read \<Rightarrow> file_read \<Rightarrow> file_read \<Rightarrow> collector_result" where
  "env_Collect example env local_env =
     (case (parseEnvFileKeys example, parseEnvFileKeys env, parseEnvFileKeys local_env) of
        ((exampleKeys, exampleIgnored, exampleErr), (envKeys, envIgnored, envErr),
         (localKeys, localIgnored, localErr)) \<Rightarrow>
          let totalIgnored =
                (if exampleErr = None then exampleIgnored else 0) +
                (if envErr = None then envIgnored else 0) +
                (if localErr = None then localIgnored else 0);
              missing = diffKeys exampleKeys envKeys;
              missingLocal = diffKeys exampleKeys localKeys
          in zero_result
               \<lparr>c_Name := ''env'', c_Status := CollectorOK,
                c_Evidence :=
                  (if exampleErr = None then keys_evidence ''.env.example'' exampleKeys else []) @
                  (if envErr = None then keys_evidence ''.env'' envKeys
                   else if envErr = Some NotExist then [mk_ev ''.env'' ''missing''] else []) @
                  (if localErr = None then keys_evidence ''.env.local'' localKeys else []) @
                  (if exampleErr = None \<and> envErr = None \<and> missing \<noteq> []
                   then [mk_ev ''missing_keys'' (join '', '' missing)] else []) @
                  (if localErr = None \<and> missingLocal \<noteq> []
                   then [mk_ev ''missing_local_keys'' (join '', '' missingLocal)] else []),
                c_Notes :=
                  (if totalIgnored > 0
                   then [''ignored '' @ nat_digits totalIgnored @ '' invalid lines''] else [])\<rparr>)"

section \<open>Files that are read as they are written\<close>

text \<open>The lines of the usual form, and how they are written.\<close>

datatype env_value = Plain string | Quoted string

datatype env_entry = Assign bool string env_value | Comment string | Blank

fun value_text :: "env_value \<Rightarrow> string" where
  "value_text (Plain v) = v"
| "value_text (Quoted v) = dquote # v @ [dquote]"

fun entry_text :: "env_entry \<Rightarrow> string" where
  "entry_text (Assign exported k v) = (if exported then ''export '' else []) @ k @ ''='' @ value_text v"
| "entry_text (Comment s) = ''#'' @ s"
| "entry_text Blank = []"

definition env_text :: "env_entry list \<Rightarrow> string" where
  "env_text es = concat (map (\<lambda>e. entry_text e @ [CHR 0x0A]) es)"

fun value_ok :: "env_value \<Rightarrow> bool" where
  "value_ok (Plain v) \<longleftrightarrow> dquote \<notin> set v \<and> squote \<notin> set v"
| "value_ok (Quoted v) \<longleftrightarrow> dquote \<notin> set v \<and> backslash \<notin> set v"

fun entry_ok :: "env_entry \<Rightarrow> bool" where
  "entry_ok (Assign exported k v) \<longleftrightarrow> isValidEnvKey k \<and> value_ok v"
| "entry_ok (Comment s) \<longleftrightarrow> True"
| "entry_ok Blank \<longleftrightarrow> True"

fun entry_keys :: "env_entry \<Rightarrow> string list" where
  "entry_keys (Assign _ k _) = [k]"
| "entry_keys _ = []"

definition env_keys :: "env_entry list \<Rightarrow> string list" where
  "env_keys es = concat (map entry_keys es)"

definition key_char :: "char \<Rightarrow> bool" where
  "key_char c \<longleftrightarrow> env_letter c \<or> CHR ''0'' \<le> c \<and> c \<le> CHR ''9''"

definition tidy :: "string \<Rightarrow> bool" where
  "tidy s \<longleftrightarrow> s = [] \<or> no_space_byte (last s)"

text \<open>A line that the scanner and the trimming leave as it is.\<close>

definition line_ok :: "env_entry \<Rightarrow> bool" where
  "line_ok e \<longleftrightarrow>
     entry_ok e \<and> tidy (entry_text e) \<and> CHR 0x0A \<notin> set (entry_text e) \<and> length (entry_text e) < 64 * 1024"

lemma not_key_chars: "list_all (\<lambda>c. \<not> key_char c) (concat multi_spaces @ [CHR 0x09, CHR 0x0A, CHR 0x0B,
    CHR 0x0C, CHR 0x0D, CHR '' '', CHR ''='', CHR '':'', dquote, squote, CHR ''#'', CHR '',''])"
  by code_simp

lemma key_char_plain:
  "key_char c \<Longrightarrow> no_space_byte c \<and> c \<noteq> CHR ''='' \<and> c \<noteq> CHR '':'' \<and> c \<noteq> dquote \<and> c \<noteq> squote \<and>
     c \<noteq> CHR ''#'' \<and> c \<noteq> CHR '','' \<and> c \<noteq> CHR '' ''"
  using not_key_chars unfolding list_all_iff no_space_byte_def ascii_space_def by auto

lemma valid_key_chars: "isValidEnvKey k \<Longrightarrow> k \<noteq> [] \<and> (\<forall>c \<in> set k. key_char c)"
  by (cases k) (auto simp: isValidEnvKey_def key_char_def list_all_iff)

lemma valid_key_trim: "isValidEnvKey k \<Longrightarrow> trim_space k = k"
  using valid_key_chars key_char_plain by (blast intro: trim_space_no_space)

lemma find_delimiter_key:
  "\<forall>c \<in> set k. key_char c \<Longrightarrow> find_delimiter prev (k @ CHR ''='' # r) (False, False) = Some (length k)"
proof (induction k arbitrary: prev)
  case (Cons c k)
  then show ?case using key_char_plain [of c] by simp
qed simp

lemma quote_scan_plain:
  "dquote \<notin> set v \<Longrightarrow> squote \<notin> set v \<Longrightarrow> quote_scan prev v (False, False) = (False, False)"
  by (induction v arbitrary: prev) auto

lemma quote_scan_inside:
  "dquote \<notin> set v \<Longrightarrow> backslash \<notin> set v \<Longrightarrow> p \<noteq> backslash \<Longrightarrow>
   quote_scan (Some p) (v @ [dquote]) (False, True) = (False, False)"
proof (induction v arbitrary: p)
  case (Cons c v)
  have "c \<noteq> backslash" "c \<noteq> dquote" using Cons.prems(1,2) by auto
  with Cons have "quote_scan (Some c) (v @ [dquote]) (False, True) = (False, False)" by simp
  then show ?case using \<open>c \<noteq> dquote\<close> by simp
qed simp

lemma quote_scan_value: "value_ok v \<Longrightarrow> quote_scan None (value_text v) (False, False) = (False, False)"
  using quote_scan_inside [of _ dquote] by (cases v) (simp_all add: quote_scan_plain)

lemma not_export_key:
  assumes "\<forall>c \<in> set k. key_char c" shows "\<not> prefix ''export '' (k @ CHR ''='' # r)"
proof
  assume "prefix ''export '' (k @ CHR ''='' # r)"
  then consider "prefix ''export '' k" | ys where "''export '' = k @ ys" "prefix ys (CHR ''='' # r)"
    by (auto simp: prefix_append)
  then show False
  proof cases
    case 1
    then have "CHR '' '' \<in> set k" by (auto simp: prefix_def)
    with assms key_char_plain show False by blast
  next
    case 2
    moreover have "CHR ''='' \<notin> set ''export ''" by simp
    ultimately have "ys = []" by (cases ys) (metis Un_iff list.set_intros(1) prefix_Cons set_append list.distinct(1))+
    then have "CHR '' '' \<in> set k" using 2(1) by (metis append_Nil2 list.set_intros)
    with assms key_char_plain show False by blast
  qed
qed

lemma env_line_eq:
  assumes "es_quotes s = (False, False)" "trim_space l = l" "l \<noteq> []" "\<not> prefix ''#'' l"
    and "(if prefix ''export '' l then trim_space (trim_prefix l ''export '') else l) = t"
    and "find_delimiter None t (False, False) = Some i" "isValidEnvKey (trim_space (take i t))"
  shows "env_line s l = s\<lparr>es_keys := es_keys s @ [trim_space (take i t)],
    es_quotes := quote_scan None (drop (i + 1) t) (False, False)\<rparr>"
  unfolding env_line_def assms(2) Let_def assms(5) using assms(1,3,4,6,7) by simp

text \<open>A line of the usual form adds its key, whatever its value, and leaves no quote open.\<close>

lemma env_line_entry:
  assumes "entry_ok e" "tidy (entry_text e)" "es_quotes s = (False, False)"
  shows "env_line s (entry_text e) = s\<lparr>es_keys := es_keys s @ entry_keys e\<rparr>"
proof (cases e)
  case (Assign exported k v)
  let ?l = "k @ ''='' @ value_text v"
  have k: "k \<noteq> []" "\<forall>c \<in> set k. key_char c" using assms(1) Assign valid_key_chars by auto
  then have hd: "no_space_byte (hd ?l)" "hd ?l \<noteq> CHR ''#''"
    using key_char_plain by (auto simp: hd_append)
  have last: "no_space_byte (last ?l)" using assms(2) Assign by (auto simp: tidy_def split: if_splits)
  have "trimmed ?l" "trimmed (''export '' @ ?l)"
    using hd(1) last by (auto simp: trimmed_def no_space_byte_def ascii_space_def multi_spaces_def)
  note t = this [THEN trim_space_trimmed]
  have "(if has_prefix (entry_text e) ''export ''
      then trim_space (trim_prefix (entry_text e) ''export '') else entry_text e) = ?l"
  proof (cases exported)
    case True
    then show ?thesis using Assign t(1) by (simp add: trim_prefix_def)
  next
    case False
    then show ?thesis using Assign not_export_key [OF k(2), of "value_text v"] by simp
  qed
  moreover have "trim_space (entry_text e) = entry_text e" using Assign t by (cases exported) simp_all
  moreover have "entry_text e \<noteq> []" "\<not> prefix ''#'' (entry_text e)"
    using Assign k hd(2) by (cases k; cases exported; simp)+
  ultimately have "env_line s (entry_text e) = s\<lparr>es_keys := es_keys s @ [trim_space (take (length k) ?l)],
      es_quotes := quote_scan None (drop (length k + 1) ?l) (False, False)\<rparr>"
    using assms(1) Assign find_delimiter_key [OF k(2), of None "value_text v"]
    by (intro env_line_eq [OF assms(3)]) (simp_all add: valid_key_trim)
  then show ?thesis using assms(1,3) Assign by (cases s) (simp add: valid_key_trim quote_scan_value)
next
  case (Comment c)
  then have "trimmed (entry_text e)"
    using assms(2) by (auto simp: trimmed_def tidy_def no_space_byte_def ascii_space_def multi_spaces_def)
  then show ?thesis using Comment assms(3) by (simp add: env_line_def trim_space_trimmed)
next
  case Blank
  then show ?thesis using assms(3) by (simp add: env_line_def)
qed


lemma split_at_lines:
  "\<forall>l \<in> set ls. c \<notin> set l \<Longrightarrow> split_at [c] (concat (map (\<lambda>l. l @ [c]) ls)) = ls @ [[]]"
proof (induction ls)
  case Nil
  then show ?case by (simp add: split_at_single sublist_single)
next
  case (Cons l ls)
  then show ?case by (subst split_at.simps) (simp add: cut_char)
qed

lemma scan_lines_text:
  assumes "\<forall>l \<in> set ls. CHR 0x0A \<notin> set l \<and> length l < limit \<and> tidy l"
  shows "scan_lines limit (concat (map (\<lambda>l. l @ [CHR 0x0A]) ls)) = (ls, None)"
proof -
  have tw: "takeWhile (\<lambda>l. length l < limit) ls = ls" using assms by (simp add: takeWhile_eq_all_conv)
  have "map drop_cr ls = ls"
    using assms by (intro map_idI) (auto simp: drop_cr_def tidy_def no_space_byte_def ascii_space_def)
  then show ?thesis using assms by (simp add: scan_lines_def split_at_lines Let_def tw)
qed

lemma foldl_env_line:
  assumes "\<forall>e \<in> set es. line_ok e" "es_quotes s = (False, False)"
  shows "foldl env_line s (map entry_text es) = s\<lparr>es_keys := es_keys s @ env_keys es\<rparr>"
  using assms
proof (induction es arbitrary: s)
  case (Cons e es)
  then show ?case by (simp add: env_line_entry line_ok_def env_keys_def)
qed (simp add: env_keys_def)

lemma parse_env_text:
  assumes "\<forall>e \<in> set es. line_ok e"
  shows "parseEnvFileKeys (Readable (env_text es)) = (env_keys es, 0, None)"
proof -
  have "scan_lines (64 * 1024) (env_text es) = (map entry_text es, None)"
    using scan_lines_text [of "map entry_text es" "64 * 1024"] assms
    by (simp add: env_text_def comp_def line_ok_def)
  then show ?thesis using assms by (simp add: parseEnvFileKeys_def env_scan_text_def foldl_env_line)
qed

section \<open>From the files to the findings\<close>

lemma split_at_join_sep:
  "sep \<noteq> [] \<Longrightarrow> \<forall>x \<in> set xs. hd sep \<notin> set x \<Longrightarrow> xs \<noteq> [] \<Longrightarrow> split_at sep (join sep xs) = xs"
proof (induction sep xs rule: join.induct)
  case (2 sep x)
  then show ?case by (simp add: split_at_single index_of_absent flip: index_of_None_iff)
next
  case (3 sep x y xs)
  then have "cut sep (x @ sep @ join sep (y # xs)) = Some (x, join sep (y # xs))"
    by (simp add: cut_def index_of_absent_first)
  with 3 show ?case by (subst split_at.simps) simp
qed simp

lemma env_keys_valid: "\<forall>e \<in> set es. line_ok e \<Longrightarrow> k \<in> set (env_keys es) \<Longrightarrow> isValidEnvKey k"
proof -
  assume "\<forall>e \<in> set es. line_ok e" "k \<in> set (env_keys es)"
  then obtain e where "line_ok e" "k \<in> set (entry_keys e)" by (auto simp: env_keys_def)
  then show "isValidEnvKey k" by (cases e) (simp_all add: line_ok_def)
qed

lemma split_keys:
  assumes "\<forall>k \<in> set ks. isValidEnvKey k" "ks \<noteq> []"
  shows "split_at '', '' (join '', '' ks) = ks" "named_keys ks = ks"
proof -
  show "split_at '', '' (join '', '' ks) = ks"
    using assms valid_key_chars key_char_plain by (intro split_at_join_sep) (simp_all, blast)
  show "named_keys ks = ks"
    using assms valid_key_trim valid_key_chars by (auto simp: named_keys_def filter_id_conv intro!: map_idI)
qed

text \<open>
  C31: For environment files in the usual form, with comments, blank lines, exported keys and quoted
  values, the collector and the rules together report the keys of the example file that the local file
  lacks, but for those the project's configuration tells to ignore: in one finding exactly those that
  configuration requires, in another exactly the others, each in the order of the example file; and
  nothing when there is none.
\<close>

theorem env_gap_reported:
  assumes "\<forall>e \<in> set example. line_ok e" "\<forall>e \<in> set env. line_ok e"
  defines "missing \<equiv> filter (\<lambda>k. k \<notin> set (env_keys env)) (env_keys example)"
  shows "envRules (env_Collect (Readable (env_text example)) (Readable (env_text env)) local_env) m =
    (let cfg = env_config_of m;
         required = filter (must_have cfg) missing;
         optional = filter (may_lack cfg) missing
     in (if required \<noteq> [] then [env_missing_keys required] else []) @
        (if optional \<noteq> [] then [env_optional_keys optional] else []))"
proof -
  obtain lk li le where l: "parseEnvFileKeys local_env = (lk, li, le)" by (metis prod_cases3)
  let ?c = "env_Collect (Readable (env_text example)) (Readable (env_text env)) local_env"
  have "missing = diffKeys (env_keys example) (env_keys env)" by (simp add: missing_def diffKeys_def)
  then have v: "values_of ''missing_keys'' (c_Evidence ?c) = (if missing = [] then [] else [join '', '' missing])"
    "''missing'' \<notin> set (values_of ''.env'' (c_Evidence ?c))"
    by (auto simp: env_Collect_def parse_env_text assms(1,2) l keys_evidence_def values_of_def Let_def)
  have "missing \<noteq> [] \<Longrightarrow> split_at '', '' (join '', '' missing) = missing \<and> named_keys missing = missing"
    using env_keys_valid [OF assms(1)] by (intro conjI split_keys) (auto simp: missing_def)
  then show ?thesis
    by (simp add: envRules_def v missing_keys_findings_def split_missing_eq Let_def)
qed

definition example_entries :: "env_entry list" where
  "example_entries =
     [Comment '' settings'', Assign False ''DB_URL'' (Quoted ''postgres://db''), Blank,
      Assign True ''API_KEY'' (Plain ''change me''), Assign False ''PORT'' (Plain ''8080'')]"

definition env_entries :: "env_entry list" where
  "env_entries = [Assign False ''PORT'' (Plain ''9000'')]"

theorem env_gap_reported_witness:
  "envRules (env_Collect (Readable (env_text example_entries)) (Readable (env_text env_entries)) Absent)
     (\<lambda>_. None) = [env_missing_keys [''DB_URL'', ''API_KEY'']]"
proof -
  have "\<forall>e \<in> set example_entries. line_ok e" "\<forall>e \<in> set env_entries. line_ok e"
    by (simp_all add: example_entries_def env_entries_def line_ok_def tidy_def isValidEnvKey_def env_letter_def
        no_space_byte_def ascii_space_def multi_spaces_def)
  from env_gap_reported [OF this, of Absent "\<lambda>_. None"] show ?thesis
    by (simp add: example_entries_def env_entries_def env_keys_def must_have_def may_lack_def env_config_of_def
        evidence_of_def)
qed

text \<open>
  An apostrophe in an unquoted value, or in a comment after one, opens a quotation: the keys of the
  lines that follow it are lost, and reported as missing from the local file.
\<close>

lemma apostrophe_swallows_keys:
  "es_keys (foldl env_line \<lparr>es_keys = [], es_ignored = 0, es_quotes = (False, False)\<rparr>
     [''GREETING=don'' @ [squote] @ ''t'', ''PORT=80'', ''HOST=localhost'']) = [''GREETING'']"
  by code_simp

end
