(* ===== verification/Tui_View.thy ===== *)
theory Tui_View
  imports Tui_Correct "HOL-Library.Monad_Syntax"
begin

text \<open>
  \<open>view.go\<close>: the screens of the interactive view. Styling and layout are a library's (\<open>lipgloss\<close>):
  \<open>look\<close> holds what a style makes of a text and how panels are joined, and \<open>spin\<close> is the current
  frame of the spinner. A slice out of range panics in Go; here it is \<open>None\<close>. Column widths of
  \<open>Sprintf\<close> count bytes, as labels are ASCII.
\<close>

section \<open>Formatting\<close>

definition pad_right :: "nat \<Rightarrow> string \<Rightarrow> string" where
  "pad_right n s = s @ replicate (n - length s) CHR '' ''"

text \<open>\<open>%.2f\<close>, with halves rounded to the even digit.\<close>

definition fixed2 :: "rat \<Rightarrow> string" where
  "fixed2 c =
     (let x = \<bar>c\<bar> * 100; f = \<lfloor>x\<rfloor>; d = x - of_int f;
          n = nat (if d > 1 / 2 \<or> (d = 1 / 2 \<and> odd f) then f + 1 else f)
      in (if c < 0 then ''-'' else []) @ nat_digits (n div 100) @ ''.'' @
         [digit_char (n div 10 mod 10), digit_char (n mod 10)])"

text \<open>\<open>s[:n]\<close> and \<open>xs[i:j]\<close>.\<close>

definition slice :: "int \<Rightarrow> int \<Rightarrow> 'a list \<Rightarrow> 'a list option" where
  "slice i j xs =
     (if 0 \<le> i \<and> i \<le> j \<and> j \<le> int (length xs) then Some (take (nat (j - i)) (drop (nat i) xs)) else None)"

definition newline :: string where "newline = [CHR 0x0A]"

definition em_dash :: string where "em_dash = [CHR 0xE2, CHR 0x80, CHR 0x94]"
definition up_arrow :: string where "up_arrow = [CHR 0xE2, CHR 0x86, CHR 0x91]"
definition down_arrow :: string where "down_arrow = [CHR 0xE2, CHR 0x86, CHR 0x93]"

definition lns :: "string list \<Rightarrow> string" where
  "lns ls = concat (map (\<lambda>l. l @ newline) ls)"

text \<open>\<open>val[:width-k] + "..."\<close> for a value longer than its column.\<close>

definition shorten :: "int \<Rightarrow> int \<Rightarrow> string \<Rightarrow> string option" where
  "shorten limit keep v =
     (if int (length v) > limit then map_option (\<lambda>s. s @ ''...'') (slice 0 keep v) else Some v)"

section \<open>Styles\<close>

datatype tui_style =
    AppTitleStyle
  | ListStyle int int
  | DetailStyle int int
  | SelectedItemStyle int
  | AccentStyle
  | SeverityStyle string
  | HelpStyle
  | MutedStyle
  | BoldStyle
  | PlainStyle

record look =
  lk_Render :: "tui_style \<Rightarrow> string \<Rightarrow> string"
  lk_JoinHorizontal :: "string \<Rightarrow> string \<Rightarrow> string"
  lk_JoinVertical :: "string list \<Rightarrow> string"

definition severityStyle :: "severity \<Rightarrow> tui_style" where
  "severityStyle s = SeverityStyle
     (if s = SeverityCritical then ''#F87171'' else if s = SeverityHigh then ''#FB923C''
      else if s = SeverityMedium then ''#FACC15'' else if s = SeverityLow then ''#38BDF8''
      else if s = SeverityInfo then ''#A1A1AA'' else ''#FAFAFA'')"

fun wrap_words :: "int \<Rightarrow> string list \<Rightarrow> int \<Rightarrow> string \<Rightarrow> string" where
  "wrap_words width [] lineLen result = result"
| "wrap_words width (word # ws) lineLen result =
     (let wlen = int (length word);
          (result, lineLen) =
            (if lineLen > 0 \<and> lineLen + 1 + wlen > width then (result @ newline, 0) else (result, lineLen));
          (result, lineLen) = (if lineLen > 0 then (result @ '' '', lineLen + 1) else (result, lineLen))
      in wrap_words width ws (lineLen + wlen) (result @ word))"

definition wrapText :: "string \<Rightarrow> int \<Rightarrow> string" where
  "wrapText txt width =
     (let width = (if width \<le> 0 then 40 else width) in wrap_words width (str_fields txt) 0 [])"

section \<open>Titles and summaries\<close>

definition inspectTitle :: "tui_model \<Rightarrow> string" where
  "inspectTitle m =
     (case tm_mode m of
        ModeScan \<Rightarrow> ''DevDiag Inspect '' @ em_dash @ '' scan''
      | ModeReport \<Rightarrow> ''DevDiag Inspect '' @ em_dash @ '' report ('' @ tm_sourceName m @ '')''
      | ModeRun \<Rightarrow> ''DevDiag Inspect '' @ em_dash @ '' run '' @ tm_sourceName m)"

definition modeLabel :: "tui_model \<Rightarrow> string" where
  "modeLabel m =
     (case tm_mode m of
        ModeScan \<Rightarrow> ''scan''
      | ModeReport \<Rightarrow> ''saved report''
      | ModeRun \<Rightarrow> if tm_sourceName m \<noteq> [] then ''run '' @ tm_sourceName m else ''run'')"

definition status_labels :: "(collector_status \<times> string) list" where
  "status_labels =
     [(CollectorOK, ''ok''), (CollectorPartial, ''partial''), (CollectorTimeout, ''timeout''),
      (CollectorUnavailable, ''unavailable''), (CollectorPermissionDenied, ''permission denied''),
      (CollectorFailed, ''failed'')]"

definition status_count :: "collector_result list \<Rightarrow> collector_status \<Rightarrow> nat" where
  "status_count cs st =
     length (filter (\<lambda>c. (if c_Status c = [] then CollectorOK else c_Status c) = st) cs)"

definition collectorStatusSummary :: "tui_model \<Rightarrow> string" where
  "collectorStatusSummary m =
     (case tm_report m of
        None \<Rightarrow> ''0''
      | Some r \<Rightarrow>
          if r_Collectors r = [] then ''0''
          else
            let parts = concat (map (\<lambda>(st, label).
                  let n = status_count (r_Collectors r) st
                  in if n > 0 then [nat_digits n @ '' '' @ label] else []) status_labels)
            in if parts = [] then ''0'' else join '', '' parts)"

definition renderModeSummary :: "tui_model \<Rightarrow> string" where
  "renderModeSummary m =
     ''Mode: '' @ modeLabel m @ '' | Findings: '' @ nat_digits (length (tm_findings m)) @ '' actionable, '' @
     nat_digits (tm_hiddenCount m) @ '' hidden | Collectors: '' @ collectorStatusSummary m"

definition scanDisplayPath :: "tui_model \<Rightarrow> string" where
  "scanDisplayPath m = (let path = trim_space (so_Path (tm_opts m)) in if path = [] then ''.'' else path)"

definition footer :: "tui_model \<Rightarrow> string \<Rightarrow> string" where
  "footer m txt = (if tm_statusBarMsg m \<noteq> [] then txt @ '' | '' @ tm_statusBarMsg m else txt)"

section \<open>Screens without a list\<close>

definition renderHelp :: "look \<Rightarrow> string" where
  "renderHelp lk =
     lk_Render lk AppTitleStyle ('' DevDiag Inspect '' @ em_dash @ '' Help '') @ newline @ newline @
     lns ([''Navigation'',
       ''  q / ctrl+c   quit'',
       ''  r            rerun scan'',
       ''  up / k       previous finding'',
       ''  down / j     next finding'',
       ''  v            toggle verbose evidence'',
       ''  e            open evidence panel'',
       ''  tab          switch detail/evidence panel'',
       ''  pgup/pgdn    previous/next evidence page'',
       ''  c            show command to copy'',
       ''  x            run safe read-only command (disabled)'',
       ''  f            show fix dry-run command'',
       ''  h            toggle hidden low/info findings'',
       ''  /            filter findings'',
       ''  ?            toggle this help'',
       [],
       ''Domain Filters'',
       ''  0            clear domain filter''] @
      map (\<lambda>d. ''  '' @ d_TUIKey d @ ''            '' @ d_Name d) GetTUIMappedDomains @ [[]]) @
     lk_Render lk HelpStyle ''Press ? or any key to close help.''"

text \<open>
  The map from collectors to their latest event: an entry per collector that finished, then one per
  collector that only started.
\<close>

fun done_events :: "event list \<Rightarrow> (string \<times> event) list \<Rightarrow> (string \<times> event) list" where
  "done_events [] acc = acc"
| "done_events (e # es) acc =
     done_events es
       (if en_Type e = EventCollectorDone \<and> en_Collector e \<noteq> [] then AList.update (en_Collector e) e acc
        else acc)"

fun started_events :: "event list \<Rightarrow> (string \<times> event) list \<Rightarrow> (string \<times> event) list" where
  "started_events [] acc = acc"
| "started_events (e # es) acc =
     started_events es
       (if en_Type e = EventCollectorStarted \<and> en_Collector e \<noteq> [] \<and> map_of acc (en_Collector e) = None
        then AList.update (en_Collector e)
               ((mk_event EventCollectorStarted [])\<lparr>en_Collector := en_Collector e\<rparr>) acc
        else acc)"

definition collectorStatus :: "event list \<Rightarrow> (string \<times> event) list" where
  "collectorStatus es = started_events es (done_events es [])"

definition needs_review :: "event \<Rightarrow> bool" where
  "needs_review e \<longleftrightarrow> en_Status e \<in>
     {CollectorPartial, CollectorTimeout, CollectorPermissionDenied, CollectorUnavailable, CollectorFailed}"

definition collectorStatusLabel :: "look \<Rightarrow> event \<Rightarrow> string" where
  "collectorStatusLabel lk e =
     (let st = en_Status e in
      if en_Type e \<noteq> EventCollectorDone then lk_Render lk MutedStyle ''[run]''
      else if st = [] \<or> st = CollectorOK then lk_Render lk AccentStyle ''[ok]''
      else if st = CollectorPartial then lk_Render lk (severityStyle SeverityMedium) ''[partial]''
      else if st = CollectorTimeout then lk_Render lk (severityStyle SeverityMedium) ''[timeout]''
      else if st = CollectorPermissionDenied then lk_Render lk (severityStyle SeverityHigh) ''[denied]''
      else if st = CollectorUnavailable then lk_Render lk MutedStyle ''[unavail]''
      else if st = CollectorFailed then lk_Render lk (severityStyle SeverityHigh) ''[failed]''
      else lk_Render lk MutedStyle (''['' @ st @ '']''))"

definition renderProgress :: "look \<Rightarrow> string \<Rightarrow> tui_model \<Rightarrow> string" where
  "renderProgress lk spin m =
     (let sts = collectorStatus (tm_events m);
          names = sort (map fst sts);
          evts = map (\<lambda>n. the (map_of sts n)) names;
          finished = filter (\<lambda>e. en_Type e = EventCollectorDone) evts;
          doneCount = length finished;
          partialCount = length (filter needs_review finished);
          activeCount = length evts - doneCount
      in lk_Render lk AppTitleStyle ('' '' @ inspectTitle m @ '' '') @ newline @ newline @
         spin @ '' scanning '' @ lk_Render lk MutedStyle (scanDisplayPath m) @ newline @
         ''Collectors: '' @ nat_digits doneCount @ '' done, '' @ nat_digits activeCount @ '' running, '' @
         nat_digits partialCount @ '' need review'' @ newline @ newline @
         lns (map (\<lambda>n. ''  '' @ pad_right 8 (collectorStatusLabel lk (the (map_of sts n))) @ '' '' @ n) names) @
         (if tm_events m \<noteq> [] \<and> en_Message (last (tm_events m)) \<noteq> []
          then newline @ lk_Render lk HelpStyle (''Latest: '' @ en_Message (last (tm_events m))) else []) @
         newline @ newline @ lk_Render lk HelpStyle ''q:quit'')"

definition renderError :: "look \<Rightarrow> tui_model \<Rightarrow> string \<Rightarrow> string" where
  "renderError lk m err =
     lk_Render lk AppTitleStyle ('' '' @ inspectTitle m @ '' '') @ newline @ newline @
     lns [''Scan failed.'', [], ''Error: '' @ err, []] @ lk_Render lk HelpStyle ''r:rerun  q:quit''"

definition renderEmpty :: "look \<Rightarrow> tui_model \<Rightarrow> string" where
  "renderEmpty lk m =
     lk_Render lk AppTitleStyle ('' '' @ inspectTitle m @ '' '') @ newline @ newline @
     (if tm_findings m = [] then
        (if tm_hiddenCount m > 0 then
           lns [''No actionable findings at the default visibility level.'', [],
                nat_digits (tm_hiddenCount m) @ '' hidden low/info finding(s) are available with h.'', []]
         else lns [''No findings.'', []])
      else lns [''No findings match the current filters.'', []]) @
     lk_Render lk HelpStyle (footer m ''h:hidden r:rerun q:quit'')"


section \<open>The list and the panels\<close>

fun concat_options :: "string option list \<Rightarrow> string option" where
  "concat_options [] = Some []"
| "concat_options (x # xs) = do { a \<leftarrow> x; b \<leftarrow> concat_options xs; Some (a @ b) }"

text \<open>One entry of the list; \<open>None\<close> when the index is outside the findings, or a title is cut out of range.\<close>

definition renderItem :: "look \<Rightarrow> tui_model \<Rightarrow> int \<Rightarrow> nat \<Rightarrow> string option" where
  "renderItem lk m width i =
     (if \<not> i < length (tm_filtered m) then None
      else
      let f = if_Finding (tm_filtered m ! i);
          label = ''['' @ f_Severity f @ '']'';
          chosen = (int i = tm_selected m);
          line = (if chosen
                  then lk_Render lk (SelectedItemStyle (width - 2)) (pad_right 12 label @ '' '' @ f_ID f)
                  else lk_Render lk (severityStyle (f_Severity f)) label @ '' '' @
                    lk_Render lk PlainStyle (f_ID f))
      in if f_Title f = [] then Some (line @ newline)
         else do {
           title \<leftarrow> shorten (width - 4) (width - 7) (f_Title f);
           Some (line @ newline @
             (if chosen then lk_Render lk (SelectedItemStyle (width - 2)) (''  '' @ title)
              else ''  '' @ lk_Render lk HelpStyle title) @ newline)
         })"

definition window_items :: "tui_model \<Rightarrow> nat list" where
  "window_items m =
     (let maxItems = maxVisibleItems m;
          start = (if tm_scrollOffset m < 0 then 0 else tm_scrollOffset m);
          end1 = start + maxItems;
          end2 = (if end1 > int (length (tm_filtered m)) then int (length (tm_filtered m)) else end1)
      in [nat start..<nat end2])"

definition renderList :: "look \<Rightarrow> tui_model \<Rightarrow> int \<Rightarrow> string option" where
  "renderList lk m width =
     do {
       items \<leftarrow> concat_options (map (renderItem lk m width) (window_items m));
       Some ((if tm_showHidden m then ''All findings'' else ''Actionable findings'') @ '' ('' @
         nat_digits (length (tm_filtered m)) @ '')'' @ newline @
         (if \<not> tm_showHidden m \<and> tm_hiddenCount m > 0
          then lk_Render lk HelpStyle (nat_digits (tm_hiddenCount m) @ '' hidden, press h'') else []) @
         newline @ newline @ items @
         (if tm_filtering m then newline @ lk_Render lk HelpStyle (''Filter: '' @ tm_filterInput m @ ''_'') else []))
     }"

definition bold_line :: "look \<Rightarrow> string \<Rightarrow> string" where
  "bold_line lk s = lk_Render lk BoldStyle s @ newline"

definition bullets :: "int \<Rightarrow> string list \<Rightarrow> string" where
  "bullets width xs = lns (map (\<lambda>x. wrapText (''- '' @ x) width) xs)"

definition command_line :: "command_hint \<Rightarrow> string" where
  "command_line h =
     ''  '' @ ch_Command h @
     (if ch_MutationRisk h \<noteq> [] \<and> ch_MutationRisk h \<noteq> ''none''
      then '' (mut. risk: '' @ ch_MutationRisk h @ '')'' else [])"

definition renderDetail :: "look \<Rightarrow> tui_model \<Rightarrow> int \<Rightarrow> string option" where
  "renderDetail lk m width =
     (if tm_selected m \<ge> int (length (tm_filtered m)) then Some []
      else if tm_selected m < 0 then None
      else
        let view = tm_filtered m ! nat (tm_selected m); f = if_Finding view in
        do {
          evid \<leftarrow> (if tm_verbose m \<and> f_Evidence f \<noteq> []
            then do {
              ls \<leftarrow> concat_options (map (\<lambda>ev. do {
                  v \<leftarrow> shorten (width - 6) (width - 9) (ev_Value ev);
                  Some (''  '' @ ev_Source ev @ '' = '' @ v @ newline) }) (f_Evidence f));
              Some (bold_line lk ''Evidence'' @ ls @ newline) }
            else Some []);
          Some (
            lk_Render lk (severityStyle (f_Severity f)) (f_Severity f) @ '' '' @
            lk_Render lk BoldStyle (f_Title f) @ newline @ newline @
            lns [''ID:          '' @ f_ID f,
                 ''Confidence:  '' @ if_ConfidenceLabel view @ '' ('' @ fixed2 (f_Confidence f) @ '')'',
                 ''Domain:      '' @ if_Domain view,
                 ''Target:      '' @ if_Target view,
                 ''Blast:       '' @ if_BlastRadius view,
                 ''Mut. risk:   '' @ if_MutationRisk view, []] @
            (if f_Symptom f \<noteq> []
             then bold_line lk ''Symptom'' @ wrapText (f_Symptom f) (width - 2) @ newline @ newline else []) @
            evid @
            (if if_Reasoning view \<noteq> []
             then bold_line lk ''Why DevDiag thinks this'' @ bullets (width - 2) (if_Reasoning view) @ newline
             else []) @
            (if f_LikelyCauses f \<noteq> []
             then bold_line lk ''Likely causes'' @ bullets (width - 2) (f_LikelyCauses f) @ newline else []) @
            (if if_SuggestedCommands view \<noteq> []
             then bold_line lk ''Suggested commands'' @ lns (map command_line (if_SuggestedCommands view)) @ newline
             else []))
        })"

text \<open>The page of the evidence panel, clamped to the pages of the selected finding.\<close>

definition shown_page :: "tui_model \<Rightarrow> int" where
  "shown_page m =
     (let pageCount = evidencePageCount m;
          page = (if tm_evidencePage m \<ge> pageCount then pageCount - 1 else tm_evidencePage m)
      in if page < 0 then 0 else page)"

definition page_evidence :: "int \<Rightarrow> evidence list \<Rightarrow> evidence list option" where
  "page_evidence page evs =
     (let start = page * evidencePageSize;
          end1 = start + evidencePageSize;
          end2 = (if end1 > int (length evs) then int (length evs) else end1)
      in slice start end2 evs)"

definition renderEvidencePanel :: "look \<Rightarrow> tui_model \<Rightarrow> int \<Rightarrow> string option" where
  "renderEvidencePanel lk m width =
     (case selectedFinding m of
        None \<Rightarrow> Some []
      | Some view \<Rightarrow>
          let evs = f_Evidence (if_Finding view);
              header = lk_Render lk BoldStyle ''Evidence'' @ ''  Page '' @ itoa (shown_page m + 1) @ ''/'' @
                itoa (evidencePageCount m) @ newline @ newline
          in if evs = [] then Some (header @ ''No evidence attached to this finding.'' @ newline)
             else do {
               page \<leftarrow> page_evidence (shown_page m) evs;
               ls \<leftarrow> concat_options (map (\<lambda>ev. do {
                   v \<leftarrow> shorten (width - 6) (width - 9) (ev_Value ev);
                   Some (bold_line lk (ev_Source ev) @ wrapText v (width - 2) @ newline @ newline) }) page);
               Some (header @ ls)
             })"

definition renderCompact :: "look \<Rightarrow> tui_model \<Rightarrow> string option" where
  "renderCompact lk m =
     (if tm_selected m < int (length (tm_filtered m)) \<and> tm_selected m < 0 then None
      else Some (
        lk_Render lk AppTitleStyle ('' '' @ inspectTitle m @ '' '') @ newline @ newline @
        (if tm_selected m < int (length (tm_filtered m)) then
           let view = tm_filtered m ! nat (tm_selected m); f = if_Finding view in
           itoa (tm_selected m + 1) @ ''/'' @ nat_digits (length (tm_filtered m)) @ '' '' @
           lk_Render lk (severityStyle (f_Severity f)) (f_Severity f) @ '' '' @
           lk_Render lk BoldStyle (f_ID f) @ newline @
           lk_Render lk HelpStyle (f_Title f) @ newline @ newline @
           ''Confidence: '' @ if_ConfidenceLabel view @ '' ('' @ fixed2 (f_Confidence f) @ '')  Domain: '' @
           if_Domain view @ ''  Blast: '' @ if_BlastRadius view @ ''  Mut: '' @ if_MutationRisk view @ newline @
           (if f_Symptom f \<noteq> [] then wrapText (f_Symptom f) (tm_width m - 2) @ newline @ newline else [])
         else lns [''No findings.'', []]) @
        lk_Render lk HelpStyle
          (footer m (''q:quit r:rerun '' @ up_arrow @ ''k:prev '' @ down_arrow @
             ''j:next h:hidden e:evidence 0-6:domain ?:help''))))"

definition list_width :: "tui_model \<Rightarrow> int" where
  "list_width m = (let w = tm_width m sdiv 3 in if w < 25 then 25 else w)"

definition detail_width :: "tui_model \<Rightarrow> int" where
  "detail_width m = (let w = tm_width m - list_width m - 4 in if w < 30 then 30 else w)"

definition renderPanels :: "look \<Rightarrow> tui_model \<Rightarrow> string option" where
  "renderPanels lk m =
     do {
       listContent \<leftarrow> renderList lk m (list_width m);
       detail \<leftarrow> renderDetail lk m (detail_width m);
       detailContent \<leftarrow>
         (if tm_activePane m = PaneEvidence then renderEvidencePanel lk m (detail_width m) else Some detail);
       Some (lk_JoinVertical lk
         [lk_Render lk AppTitleStyle ('' '' @ inspectTitle m @ '' ''),
          lk_Render lk HelpStyle (renderModeSummary m),
          lk_JoinHorizontal lk
            (lk_Render lk (ListStyle (list_width m) (tm_height m - 4)) listContent)
            (lk_Render lk (DetailStyle (detail_width m) (tm_height m - 4)) detailContent),
          lk_Render lk HelpStyle
            (footer m (''q:quit r:rerun '' @ up_arrow @ ''k:prev '' @ down_arrow @
               ''j:next h:hidden v:verbose e:evidence tab:pane c:copy f:fix 0-6:domain ?:help''))])
     }"

definition renderFindings :: "look \<Rightarrow> tui_model \<Rightarrow> string option" where
  "renderFindings lk m =
     (let m = (if tm_width m = 0 then m\<lparr>tm_width := 80\<rparr> else m);
          m = (if tm_height m = 0 then m\<lparr>tm_height := 24\<rparr> else m)
      in if tm_width m < 60 \<or> tm_height m < 12 then renderCompact lk m else renderPanels lk m)"

definition View :: "look \<Rightarrow> string \<Rightarrow> tui_model \<Rightarrow> string option" where
  "View lk spin m =
     (if tm_width m < 40 \<or> tm_height m < 8 then Some ''Terminal too small''
      else if tm_showHelp m then Some (renderHelp lk)
      else if tm_scanning m then Some (renderProgress lk spin m)
      else
        case tm_scanErr m of
          Some err \<Rightarrow> Some (renderError lk m err)
        | None \<Rightarrow> if tm_filtered m = [] then Some (renderEmpty lk m) else renderFindings lk m)"

section \<open>Every screen can be drawn\<close>

lemma shorten_Some: "0 \<le> keep \<Longrightarrow> keep \<le> limit \<Longrightarrow> \<exists>s. shorten limit keep v = Some s"
  by (auto simp: shorten_def slice_def)

lemma concat_options_Some:
  assumes "\<And>x. x \<in> set xs \<Longrightarrow> \<exists>s. g x = Some s" shows "\<exists>s. concat_options (map g xs) = Some s"
  using assms
proof (induction xs)
  case (Cons x xs)
  then obtain a b where "g x = Some a" "concat_options (map g xs) = Some b" by (metis list.set_intros)
  then show ?case by simp
qed simp

lemma evidencePageCount_pos: "1 \<le> evidencePageCount m"
  by (simp add: evidencePageCount_def Let_def split: option.split)

lemma evidencePageCount_eq:
  assumes "selectedFinding m = Some f" "f_Evidence (if_Finding f) \<noteq> []"
  shows "evidencePageCount m = int ((length (f_Evidence (if_Finding f)) + 4) div 5)"
proof -
  let ?n = "length (f_Evidence (if_Finding f))"
  have "(int ?n + 4) div 5 = int ((?n + 4) div 5)" by (simp add: zdiv_int)
  moreover have "0 < ?n" using assms(2) by simp
  then have "1 \<le> (?n + 4) div 5" by linarith
  ultimately show ?thesis
    using assms by (simp add: evidencePageCount_def evidencePageSize_def Let_def signed_divide_int_def add.commute)
qed

lemma page_evidence_Some:
  assumes "selectedFinding m = Some f" "f_Evidence (if_Finding f) \<noteq> []"
  shows "\<exists>es. page_evidence (shown_page m) (f_Evidence (if_Finding f)) = Some es"
proof -
  let ?n = "int (length (f_Evidence (if_Finding f)))"
  have n: "0 < ?n" using assms(2) by simp
  have p: "0 \<le> shown_page m" "shown_page m < evidencePageCount m"
    using evidencePageCount_pos [of m] by (auto simp: shown_page_def Let_def)
  have "evidencePageCount m = (?n + 4) div 5"
    by (simp add: evidencePageCount_eq [OF assms] zdiv_int)
  then have "shown_page m * 5 < ?n" using p by linarith
  then show ?thesis using p(1) by (auto simp: page_evidence_def slice_def evidencePageSize_def Let_def)
qed

lemma renderItem_Some: "7 \<le> width \<Longrightarrow> i < length (tm_filtered m) \<Longrightarrow> \<exists>s. renderItem lk m width i = Some s"
  using shorten_Some [of "width - 7" "width - 4" "f_Title (if_Finding (tm_filtered m ! i))"]
  by (auto simp: renderItem_def Let_def)

lemma renderList_Some: "7 \<le> width \<Longrightarrow> \<exists>s. renderList lk m width = Some s"
proof -
  assume w: "7 \<le> width"
  have "i < length (tm_filtered m)" if "i \<in> set (window_items m)" for i
    using that by (auto simp: window_items_def Let_def split: if_splits)
  then obtain items where "concat_options (map (renderItem lk m width) (window_items m)) = Some items"
    using concat_options_Some [of "window_items m" "renderItem lk m width"] renderItem_Some [OF w] by blast
  then show ?thesis by (simp add: renderList_def)
qed

lemma evidence_lines_Some:
  fixes h :: "evidence \<Rightarrow> string \<Rightarrow> string"
  assumes "9 \<le> (width :: int)"
  shows "\<exists>s. concat_options (map (\<lambda>ev. do { v \<leftarrow> shorten (width - 6) (width - 9) (ev_Value ev);
      Some (h ev v) }) es) = Some s"
proof (rule concat_options_Some)
  fix ev :: evidence
  obtain v where "shorten (width - 6) (width - 9) (ev_Value ev) = Some v"
    using shorten_Some [of "width - 9" "width - 6" "ev_Value ev"] assms by auto
  then show "\<exists>s. do { v \<leftarrow> shorten (width - 6) (width - 9) (ev_Value ev); Some (h ev v) } = Some s" by simp
qed

lemma renderDetail_Some:
  "9 \<le> width \<Longrightarrow> 0 \<le> tm_selected m \<Longrightarrow> \<exists>s. renderDetail lk m width = Some s"
  using evidence_lines_Some [of width "\<lambda>ev v. ''  '' @ ev_Source ev @ '' = '' @ v @ newline"
      "f_Evidence (if_Finding (tm_filtered m ! nat (tm_selected m)))"]
  by (auto simp: renderDetail_def Let_def)

lemma renderEvidencePanel_Some:
  assumes "9 \<le> width" shows "\<exists>s. renderEvidencePanel lk m width = Some s"
proof (cases "selectedFinding m")
  case (Some f)
  show ?thesis
  proof (cases "f_Evidence (if_Finding f) = []")
    case False
    then obtain es where "page_evidence (shown_page m) (f_Evidence (if_Finding f)) = Some es"
      using page_evidence_Some [OF Some] by blast
    then show ?thesis
      using Some False evidence_lines_Some [OF assms, of "\<lambda>ev v. bold_line lk (ev_Source ev) @
          wrapText v (width - 2) @ newline @ newline" es]
      by (auto simp: renderEvidencePanel_def Let_def)
  qed (simp add: renderEvidencePanel_def Some Let_def)
qed (simp add: renderEvidencePanel_def)

text \<open>
  C30: In every reachable state, for every size of the terminal, a screen can be drawn: no index and no slice
  of the view leaves its string or list, whatever the lengths of titles and values, the scroll position,
  the number of findings the window would hold and the evidence page.
\<close>

theorem View_never_panics:
  assumes "tui_start sha m0" "(tui_step sha)\<^sup>*\<^sup>* m0 m"
  shows "View lk spin m \<noteq> None"
proof -
  have sel: "0 \<le> tm_selected m" using tui_reachable_inv [OF assms] by (simp add: tui_inv_def list_ok_def)
  have w: "7 \<le> list_width m" "9 \<le> detail_width m" by (simp_all add: list_width_def detail_width_def Let_def)
  obtain a b c where "renderList lk m (list_width m) = Some a"
    "renderDetail lk m (detail_width m) = Some b" "renderEvidencePanel lk m (detail_width m) = Some c"
    using renderList_Some [OF w(1)] renderDetail_Some [OF w(2) sel] renderEvidencePanel_Some [OF w(2)] by blast
  then have "renderPanels lk m \<noteq> None" by (simp add: renderPanels_def)
  moreover have "renderCompact lk m \<noteq> None" using sel by (simp add: renderCompact_def)
  ultimately have "renderFindings lk m \<noteq> None" if "40 \<le> tm_width m" "8 \<le> tm_height m"
    using that by (simp add: renderFindings_def)
  then show ?thesis by (auto simp: View_def split: option.split)
qed


definition plain_look :: look where
  "plain_look = \<lparr>lk_Render = (\<lambda>_ s. s), lk_JoinHorizontal = (@), lk_JoinVertical = concat\<rparr>"

theorem View_never_panics_witness:
  "View plain_look ''|'' (tui_run sha_example loaded [WindowSizeMsg 80 24, press ''e'', press ''j'']) \<noteq> None"
  using View_never_panics [OF loaded_start tui_run_steps] .

text \<open>The pages of the evidence panel, one after the other, are the evidence of the finding.\<close>

lemma concat_pages: "concat (map (\<lambda>p. take k (drop (k * p) xs)) [0..<n]) = take (k * n) xs"
proof (induction n)
  case (Suc n)
  have "k * Suc n = k * n + k" by simp
  with Suc show ?case by (simp only: take_add upt_Suc) simp
qed simp

lemma evidence_pages_cover:
  assumes "selectedFinding m = Some f" "f_Evidence (if_Finding f) \<noteq> []"
  shows "concat (map (\<lambda>p. the (page_evidence (int p) (f_Evidence (if_Finding f))))
    [0..<nat (evidencePageCount m)]) = f_Evidence (if_Finding f)" (is "concat (map ?g _) = ?evs")
proof -
  let ?n = "length ?evs"
  have n: "0 < ?n" using assms(2) by simp
  have c: "nat (evidencePageCount m) = (?n + 4) div 5"
    by (simp add: evidencePageCount_eq [OF assms])
  have "?g p = take 5 (drop (5 * p) ?evs)" if "p < (?n + 4) div 5" for p
  proof -
    have "5 * p < ?n" "nat (int p * 5 + 5) = p * 5 + 5" using that by linarith+
    then show ?thesis
      by (auto simp: page_evidence_def slice_def evidencePageSize_def Let_def nat_diff_distrib nat_mult_distrib
          mult.commute)
  qed
  then have "concat (map ?g [0..<nat (evidencePageCount m)]) =
      concat (map (\<lambda>p. take 5 (drop (5 * p) ?evs)) [0..<(?n + 4) div 5])"
    unfolding c by (intro arg_cong [where f = concat] map_cong) simp_all
  also have "\<dots> = ?evs" by (simp only: concat_pages) (simp add: take_all)
  finally show ?thesis .
qed

end
