(* ===== verification/Output.thy ===== *)
theory Output
  imports Collect_Env Tui_View
begin

text \<open>
  \<open>internal/output\<close>: the renderers of a report for people (\<open>human.go\<close>), Markdown (\<open>markdown.go\<close>) and
  GitHub annotations (\<open>github.go\<close>), and the choice of colors (\<open>color.go\<close>). A renderer is the text it
  writes. The JSON renderers call \<open>encoding/json\<close> and are left out.
\<close>

section \<open>Colors\<close>

datatype color_mode = ColorAlways | ColorAuto | ColorNever

text \<open>\<open>no_color\<close> is the value of \<open>NO_COLOR\<close>.\<close>

definition ResolveColorMode :: "string \<Rightarrow> string \<Rightarrow> bool \<Rightarrow> color_mode" where
  "ResolveColorMode no_color flagColor flagNoColor =
     (if flagNoColor then ColorNever
      else if flagColor = ''always'' then ColorAlways
      else if no_color \<noteq> [] then ColorNever
      else if flagColor = ''never'' then ColorNever
      else ColorAuto)"

fun ShouldColor :: "color_mode \<Rightarrow> bool \<Rightarrow> bool" where
  "ShouldColor ColorAlways isTTY = True"
| "ShouldColor ColorNever isTTY = False"
| "ShouldColor ColorAuto isTTY = isTTY"

definition severityColors :: "(string \<times> string) list" where
  "severityColors =
     [(''critical'', CHR 0x1B # ''[31m''), (''high'', CHR 0x1B # ''[33m''), (''medium'', CHR 0x1B # ''[35m''),
      (''low'', CHR 0x1B # ''[36m''), (''info'', CHR 0x1B # ''[34m'')]"

definition resetColor :: string where "resetColor = CHR 0x1B # ''[0m''"

definition colorizeSeverity :: "string \<Rightarrow> string \<Rightarrow> string" where
  "colorizeSeverity sev txt =
     (case map_of severityColors sev of None \<Rightarrow> txt | Some c \<Rightarrow> c @ txt @ resetColor)"

section \<open>Summaries\<close>

record collector_summary =
  cm_OK :: nat
  cm_Partial :: nat
  cm_Timeout :: nat
  cm_Unavailable :: nat
  cm_Failed :: nat
  cm_PermissionDenied :: nat

definition count_collector :: "collector_summary \<Rightarrow> collector_result \<Rightarrow> collector_summary" where
  "count_collector s c =
     (let st = c_Status c in
      if st = CollectorOK \<or> st = [] then s\<lparr>cm_OK := cm_OK s + 1\<rparr>
      else if st = CollectorPartial then s\<lparr>cm_Partial := cm_Partial s + 1\<rparr>
      else if st = CollectorTimeout then s\<lparr>cm_Timeout := cm_Timeout s + 1\<rparr>
      else if st = CollectorUnavailable then s\<lparr>cm_Unavailable := cm_Unavailable s + 1\<rparr>
      else if st = CollectorFailed then s\<lparr>cm_Failed := cm_Failed s + 1\<rparr>
      else if st = CollectorPermissionDenied then s\<lparr>cm_PermissionDenied := cm_PermissionDenied s + 1\<rparr>
      else s\<lparr>cm_OK := cm_OK s + 1\<rparr>)"

definition summarizeCollectors :: "report \<Rightarrow> collector_summary" where
  "summarizeCollectors r =
     foldl count_collector
       \<lparr>cm_OK = 0, cm_Partial = 0, cm_Timeout = 0, cm_Unavailable = 0, cm_Failed = 0, cm_PermissionDenied = 0\<rparr>
       (r_Collectors r)"

definition output_rank :: "severity \<Rightarrow> int" where
  "output_rank s =
     (if s = SeverityCritical then 4 else if s = SeverityHigh then 3
      else if s = SeverityMedium then 2 else if s = SeverityLow then 1 else 0)"

definition highestSeverity :: "finding list \<Rightarrow> severity" where
  "highestSeverity fs =
     foldl (\<lambda>highest f. if output_rank (f_Severity f) > output_rank highest then f_Severity f else highest)
       SeverityInfo fs"

text \<open>The first value of a source that is a number; 0 when there is none.\<close>

fun first_number :: "string \<Rightarrow> evidence list \<Rightarrow> int" where
  "first_number src [] = 0"
| "first_number src (ev # evs) =
     (if ev_Source ev = src
      then (case atoi (ev_Value ev) of Some n \<Rightarrow> n | None \<Rightarrow> first_number src evs)
      else first_number src evs)"

definition summarizeFindingTitle :: "finding \<Rightarrow> string" where
  "summarizeFindingTitle f =
     (if f_ID f = ''F-ENV-001'' \<or> f_ID f = ''F-ENV-001-OPTIONAL'' then
        (let count = sum_list (map (\<lambda>ev.
               if (ev_Source ev = ''missing_keys'' \<or> ev_Source ev = ''missing_optional_keys'') \<and> ev_Value ev \<noteq> []
               then length (split_at '', '' (ev_Value ev)) else 0) (f_Evidence f))
         in if count > 0 then
              (if contains (to_lower (f_Title f)) ''optional'' \<or> f_ID f = ''F-ENV-001-OPTIONAL''
               then nat_digits count @ '' optional env keys missing from .env''
               else nat_digits count @ '' env keys missing from .env'')
            else f_Title f)
      else if f_ID f = ''F-CI-ENV-001'' then
        (let count = length (filter (\<lambda>ev. ev_Source ev = ''ci_env'') (f_Evidence f))
         in if count > 0 then nat_digits count @ '' CI env vars not found locally'' else f_Title f)
      else if f_ID f = ''F-CI-ENV-DEPLOY-INFO'' then
        (let count = length (filter (\<lambda>ev. ev_Source ev = ''ci_env'') (f_Evidence f))
         in if count > 0 then nat_digits count @ '' CI deployment env vars not found locally'' else f_Title f)
      else if f_ID f = ''F-CI-COMMAND-001'' then
        (let count = first_number ''ci_undocumented_command_count'' (f_Evidence f)
         in if count > 0 then ''CI has '' @ itoa count @ '' undocumented commands'' else f_Title f)
      else if f_ID f = ''F-DOCKER-GPU-001'' then ''Docker GPU runtime unavailable''
      else if length (f_Title f) > 96 then take 93 (f_Title f) @ ''...''
      else f_Title f)"

text \<open>The Markdown renderer has its own copy of the last two functions.\<close>

definition mdHighestSeverity :: "finding list \<Rightarrow> severity" where
  "mdHighestSeverity fs =
     foldl (\<lambda>highest f. if output_rank (f_Severity f) > output_rank highest then f_Severity f else highest)
       SeverityInfo fs"

definition mdSummarizeFindingTitle :: "finding \<Rightarrow> string" where
  "mdSummarizeFindingTitle f =
     (if f_ID f = ''F-ENV-001'' \<or> f_ID f = ''F-ENV-001-OPTIONAL'' then
        (let count = sum_list (map (\<lambda>ev.
               if (ev_Source ev = ''missing_keys'' \<or> ev_Source ev = ''missing_optional_keys'') \<and> ev_Value ev \<noteq> []
               then length (split_at '', '' (ev_Value ev)) else 0) (f_Evidence f))
         in if count > 0 then
              (if contains (to_lower (f_Title f)) ''optional'' \<or> f_ID f = ''F-ENV-001-OPTIONAL''
               then nat_digits count @ '' optional env keys missing from .env''
               else nat_digits count @ '' env keys missing from .env'')
            else f_Title f)
      else if f_ID f = ''F-CI-ENV-001'' then
        (let count = length (filter (\<lambda>ev. ev_Source ev = ''ci_env'') (f_Evidence f))
         in if count > 0 then nat_digits count @ '' CI env vars not found locally'' else f_Title f)
      else if f_ID f = ''F-CI-ENV-DEPLOY-INFO'' then
        (let count = length (filter (\<lambda>ev. ev_Source ev = ''ci_env'') (f_Evidence f))
         in if count > 0 then nat_digits count @ '' CI deployment env vars not found locally'' else f_Title f)
      else if f_ID f = ''F-CI-COMMAND-001'' then
        (let count = first_number ''ci_undocumented_command_count'' (f_Evidence f)
         in if count > 0 then ''CI has '' @ itoa count @ '' undocumented commands'' else f_Title f)
      else if f_ID f = ''F-DOCKER-GPU-001'' then ''Docker GPU runtime unavailable''
      else if length (f_Title f) > 96 then take 93 (f_Title f) @ ''...''
      else f_Title f)"

definition suggestedNextCommand :: "finding \<Rightarrow> string" where
  "suggestedNextCommand f =
     (let i = f_ID f; u = to_upper i in
      if i = ''F-ENV-001'' \<or> i = ''F-ENV-001-OPTIONAL'' then ''devdiag inspect . --filter env''
      else if i = ''F-CI-ENV-001'' \<or> i = ''F-CI-ENV-DEPLOY-INFO'' \<or> i = ''F-CI-COMMAND-001''
        then ''devdiag inspect . --filter ci''
      else if contains u ''-ENV-'' then ''devdiag inspect . --filter env''
      else if contains u ''-CI-'' then ''devdiag inspect . --filter ci''
      else if contains u ''-CONTAINER-'' \<or> contains u ''-DOCKER-'' \<or> contains u ''-PODMAN-''
        then ''devdiag inspect . --filter containers''
      else if contains u ''-RUNTIME-'' then ''devdiag inspect . --filter runtime''
      else if contains u ''-GPU-'' then ''devdiag inspect . --filter gpu''
      else if contains u ''-TRACE-'' then ''devdiag inspect . --filter trace''
      else ''devdiag inspect .'')"

definition collector_issue :: "collector_result \<Rightarrow> bool" where
  "collector_issue c \<longleftrightarrow>
     c_Status c = CollectorUnavailable \<or> c_Status c = CollectorFailed \<or> c_Status c = CollectorPermissionDenied \<or>
     c_Status c = CollectorTimeout \<or> c_Status c = CollectorPartial"

definition hasUnavailableCollectors :: "collector_result list \<Rightarrow> bool" where
  "hasUnavailableCollectors cs \<longleftrightarrow> (\<exists>c \<in> set cs. collector_issue c)"

definition renderCollectorIssues :: "collector_result list \<Rightarrow> string" where
  "renderCollectorIssues cs =
     lns (''Collector Issues:'' #
       concat (map (\<lambda>c. if collector_issue c
         then (''  - '' @ c_Name c @ '': '' @ c_Status c) # map (\<lambda>note. ''    Note: '' @ note) (c_Notes c)
         else []) cs) @ [[]])"

definition related_table :: "(string list \<times> string list) list" where
  "related_table =
     [([''-GPU-''], [''gpu'', ''cuda'', ''gpudocker'', ''docker'']),
      ([''-ML-''], [''python_ml'', ''gpu'', ''cuda'']),
      ([''-CACHE-''], [''cache'']),
      ([''-ENV-''], [''env'', ''config'']),
      ([''-CI-''], [''ci'', ''config'']),
      ([''-PORT-''], [''port'', ''compose'']),
      ([''-DOCKER-''], [''docker'']),
      ([''-PODMAN-''], [''podman'']),
      ([''-PM-''], [''repo'']),
      ([''-RUNTIME-''], [''runtime'', ''host_runtime'']),
      ([''-GIT-''], [''git'']),
      ([''-DISK-''], [''disk'']),
      ([''-NET-''], [''network'']),
      ([''-SVC-''], [''systemd'']),
      ([''-SEC-''], [''security'']),
      ([''-FS-'', ''-PERM-''], [''permission'']),
      ([''-TRACE-''], [''trace''])]"

definition relatedCollectorsForFinding :: "finding \<Rightarrow> string list" where
  "relatedCollectorsForFinding f =
     (case find (\<lambda>(marks, _). \<exists>mk \<in> set marks. contains (to_upper (f_ID f)) mk) related_table of
        Some (_, cs) \<Rightarrow> cs | None \<Rightarrow> [])"

section \<open>A trace that was not available\<close>

record trace_unavailable_info =
  tu_Backend :: string
  tu_Reason :: string
  tu_Command :: string

definition note_trace :: "trace_unavailable_info \<Rightarrow> evidence \<Rightarrow> trace_unavailable_info" where
  "note_trace i ev =
     (if ev_Source ev = ''trace_backend'' then i\<lparr>tu_Backend := ev_Value ev\<rparr>
      else if ev_Source ev = ''trace_unavailable_reason'' then i\<lparr>tu_Reason := ev_Value ev\<rparr>
      else if ev_Source ev = ''trace_command'' then i\<lparr>tu_Command := ev_Value ev\<rparr>
      else i)"

definition findTraceUnavailable :: "report \<Rightarrow> trace_unavailable_info option" where
  "findTraceUnavailable r =
     (let info = \<lparr>tu_Backend = [], tu_Reason = [], tu_Command = []\<rparr> in
      case find (\<lambda>c. c_Name c = ''trace'' \<and> c_Status c = CollectorUnavailable) (r_Collectors r) of
        Some c \<Rightarrow>
          let i = foldl note_trace info (c_Evidence c);
              i = (if tu_Backend i = [] then i\<lparr>tu_Backend := ''unknown''\<rparr> else i)
          in Some (if tu_Reason i = [] then i\<lparr>tu_Reason := ''unavailable''\<rparr> else i)
      | None \<Rightarrow>
          if (\<exists>f \<in> set (r_Findings r). f_ID f = ''F-TRACE-UNAVAILABLE-001'') then Some info else None)"

definition renderTraceUnavailableHuman :: "trace_unavailable_info \<Rightarrow> string" where
  "renderTraceUnavailableHuman i =
     lns ([''DevDiag trace unavailable'', []] @
       (if tu_Backend i \<noteq> [] then [''Backend: '' @ tu_Backend i] else []) @
       (if tu_Reason i \<noteq> [] then [''Reason: '' @ tu_Reason i] else []) @
       (if tu_Command i \<noteq> [] then [''Command: '' @ tu_Command i] else []) @
       [[], ''Next:'', ''  - Install strace'', ''  - Or use --backend ebpf when available'', []])"

definition renderTraceUnavailableMarkdown :: "trace_unavailable_info \<Rightarrow> string" where
  "renderTraceUnavailableMarkdown i =
     lns ([''## Trace Unavailable'', [], ''| Field | Value |'', ''|---|---|''] @
       (if tu_Backend i \<noteq> [] then [''| Backend | '' @ tu_Backend i @ '' |''] else []) @
       (if tu_Reason i \<noteq> [] then [''| Reason | '' @ tu_Reason i @ '' |''] else []) @
       (if tu_Command i \<noteq> [] then [''| Command | `'' @ tu_Command i @ ''` |''] else []) @
       [[], ''Next:'', [], ''- Install strace'', ''- Or use `--backend ebpf` when available'', []])"

section \<open>Reports for people\<close>

record human_renderer =
  hr_ColorMode :: color_mode
  hr_Verbose :: bool
  hr_HiddenCount :: int

definition containsLowVisibilityFinding :: "finding list \<Rightarrow> bool" where
  "containsLowVisibilityFinding fs \<longleftrightarrow>
     (\<exists>f \<in> set fs. f_Severity f = SeverityLow \<or> f_Severity f = SeverityInfo)"

definition human_finding :: "bool \<Rightarrow> nat \<Rightarrow> finding \<Rightarrow> string list" where
  "human_finding useColor i f =
     (let label = ''['' @ f_Severity f @ '']'';
          label = (if useColor then colorizeSeverity (f_Severity f) label else label)
      in [''  '' @ nat_digits (i + 1) @ ''. '' @ pad_right 12 label @ '' '' @ f_ID f @ ''  '' @ summarizeFindingTitle f] @
         (if f_Symptom f \<noteq> [] then [''     Why: '' @ f_Symptom f] else []) @
         [''     Next: '' @ suggestedNextCommand f, []])"

definition status_or_ok :: "collector_result \<Rightarrow> string" where
  "status_or_ok c = (if c_Status c = [] then ''ok'' else c_Status c)"

definition human_verbose :: "report \<Rightarrow> string list" where
  "human_verbose r =
     (let related = concat (map relatedCollectorsForFinding (r_Findings r));
          detailed = filter (\<lambda>c. c_Name c \<in> set related) (r_Collectors r)
      in [[], ''Collector evidence''] @
         map (\<lambda>c. ''  '' @ pad_right 11 (c_Name c) @ '' '' @ pad_right 8 (status_or_ok c) @ '' '' @
           nat_digits (length (c_Evidence c)) @ '' evidence'') (r_Collectors r) @
         [[], ''Detailed evidence for active findings:''] @
         concat (map (\<lambda>c. (''- '' @ c_Name c @ '': '' @ status_or_ok c) #
             map (\<lambda>ev. ''  '' @ ev_Source ev @ ''='' @ ev_Value ev) (c_Evidence c) @
             map (\<lambda>note. ''  note='' @ note) (c_Notes c)) detailed) @
         (if detailed = [] then [''  No active findings requiring detailed collector evidence.''] else []))"

definition summary_counts :: "collector_summary \<Rightarrow> string" where
  "summary_counts s =
     nat_digits (cm_OK s) @ '' ok, '' @ nat_digits (cm_Partial s) @ '' partial, '' @
     nat_digits (cm_Timeout s) @ '' timeout, '' @ nat_digits (cm_Unavailable s) @ '' unavailable, '' @
     nat_digits (cm_PermissionDenied s) @ '' permission denied, '' @ nat_digits (cm_Failed s) @ '' failed''"

definition human_Render :: "human_renderer \<Rightarrow> bool \<Rightarrow> report \<Rightarrow> string" where
  "human_Render r isTTY rep =
     (let useColor = ShouldColor (hr_ColorMode r) isTTY; h = r_Host rep; fs = r_Findings rep in
      lns ([''DevDiag '' @ r_DevDiagVersion rep @ '' '' @ em_dash @ '' scan completed'',
            ''Repo: '' @ r_RepoRoot rep] @
           (if h_OS h \<noteq> [] then
              [''Host: '' @ h_OS h @ '' '' @ h_Version h @ '' | kernel '' @ h_Kernel h @ '' | shell '' @ h_Session h]
            else []) @
           [[], ''Summary'',
            ''  Findings: '' @ nat_digits (length fs) @ '' actionable, '' @ itoa (hr_HiddenCount r) @ '' hidden'',
            ''  Collectors: '' @ summary_counts (summarizeCollectors rep),
            ''  Highest severity: '' @ highestSeverity fs, []]) @
      (case findTraceUnavailable rep of Some i \<Rightarrow> renderTraceUnavailableHuman i | None \<Rightarrow> []) @
      (if fs \<noteq> [] then
         lns ((if containsLowVisibilityFinding fs \<and> hr_HiddenCount r = 0 then ''Findings''
               else ''Actionable findings'') #
              concat (map (\<lambda>(i, f). human_finding useColor i f) (enumerate 0 fs)))
       else if hr_HiddenCount r > 0
       then lns [''No actionable findings at the default visibility level.'', []]
       else lns [''No findings.'', []]) @
      (if hasUnavailableCollectors (r_Collectors rep) then renderCollectorIssues (r_Collectors rep) else []) @
      lns ([''Run ID: '' @ r_RunID rep, ''Redaction: '' @ r_RedactionStatus rep] @
           (if hr_HiddenCount r > 0 then
              [''Hidden: '' @ itoa (hr_HiddenCount r) @
               '' low/info or suppressed finding(s). Re-run with --include-hidden to show them.'']
            else []) @
           (if r_RedactionStatus rep = ''off'' then
              [''WARNING: redaction is disabled. Secrets may be visible.''] else []) @
           [''Use --verbose for evidence. Use '' @ [squote] @ ''devdiag inspect .'' @ [squote] @
            '' for interactive view.''] @
           (if hr_Verbose r \<and> r_Collectors rep \<noteq> [] then human_verbose rep else [])))"

section \<open>Markdown\<close>

definition evidenceKeys :: "evidence list \<Rightarrow> string list \<Rightarrow> string list" where
  "evidenceKeys evs sources =
     concat (map (\<lambda>ev. if ev_Source ev \<notin> set sources then []
       else filter (\<lambda>k. k \<noteq> []) (map trim_space (split_at '','' (ev_Value ev)))) evs)"

definition markdown_evidence :: "evidence \<Rightarrow> string list" where
  "markdown_evidence ev =
     (let v = (if length (ev_Value ev) > 200 then take 197 (ev_Value ev) @ ''...'' else ev_Value ev) in
      if has_prefix (ev_Source ev) ''ci_run__''
      then [''- `'' @ ev_Source ev @ ''`:'', [], ''```sh'', v, ''```'']
      else [''- `'' @ ev_Source ev @ ''`: '' @ v])"

definition renderMarkdownEvidence :: "evidence list \<Rightarrow> string list" where
  "renderMarkdownEvidence evs =
     (let keys = evidenceKeys evs [''missing_keys'', ''missing_optional_keys''] in
      if keys \<noteq> [] then map (\<lambda>k. ''- '' @ k) keys
      else concat (map markdown_evidence (take 5 evs)) @
           (if length evs > 5 then [''- and '' @ nat_digits (length evs - 5) @ '' more''] else []))"

definition renderMarkdownCollectorSummary :: "report \<Rightarrow> string list" where
  "renderMarkdownCollectorSummary r =
     (if r_Collectors r = [] then []
      else
        [''## Collector Summary'', [], ''| Collector | Status | Evidence | Notes |'', ''|---|---|---:|---:|''] @
        map (\<lambda>c. ''| '' @ c_Name c @ '' | '' @ status_or_ok c @ '' | '' @ nat_digits (length (c_Evidence c)) @
          '' | '' @ nat_digits (length (c_Notes c)) @ '' |'') (r_Collectors r) @
        [[], ''Totals: '' @ summary_counts (summarizeCollectors r) @ ''.'', []] @
        (if hasUnavailableCollectors (r_Collectors r) then
           [''**Collector notes:**'', []] @
           concat (map (\<lambda>c.
             if c_Status c = CollectorOK \<or> c_Status c = [] then []
             else if c_Notes c = [] then [''- `'' @ c_Name c @ ''`: '' @ c_Status c]
             else map (\<lambda>note. ''- `'' @ c_Name c @ ''`: '' @ note) (c_Notes c)) (r_Collectors r)) @ [[]]
         else []))"

definition markdown_row :: "finding \<Rightarrow> string" where
  "markdown_row f =
     ''| '' @ f_Severity f @ '' | '' @ f_ID f @ '' | '' @ mdSummarizeFindingTitle f @ '' | '' @
     fixed2 (f_Confidence f) @ '' |''"

definition markdown_details :: "finding \<Rightarrow> string list" where
  "markdown_details f =
     [''<details>'', ''<summary>'' @ f_ID f @ '' '' @ em_dash @ '' '' @ mdSummarizeFindingTitle f @ ''</summary>'', []] @
     (if f_Symptom f \<noteq> [] then [''**Symptom:** '' @ f_Symptom f, []] else []) @
     (if f_Evidence f \<noteq> [] then [''**Evidence:**'', []] @ renderMarkdownEvidence (f_Evidence f) @ [[]] else []) @
     (if f_LikelyCauses f \<noteq> []
      then [''**Likely causes:**'', []] @ map (\<lambda>c. ''- '' @ c) (f_LikelyCauses f) @ [[]] else []) @
     (if f_FixHints f \<noteq> [] then [''**Fix hints:**'', []] @ map (\<lambda>h. ''- '' @ h) (f_FixHints f) @ [[]] else []) @
     [''</details>'', []]"

definition markdown_Render :: "int \<Rightarrow> report \<Rightarrow> string" where
  "markdown_Render hiddenCount r =
     (let fs = r_Findings r in
      lns ([''# DevDiag Report'', [], ''## Summary'', [], ''| Field | Value |'', ''|---|---|'',
            ''| Version | '' @ r_DevDiagVersion r @ '' |'',
            ''| Repo | '' @ r_RepoRoot r @ '' |'',
            ''| Findings | '' @ nat_digits (length fs) @ '' actionable, '' @ itoa hiddenCount @ '' hidden |'',
            ''| Highest severity | '' @ mdHighestSeverity fs @ '' |'', []] @
           (if hiddenCount > 0 then
              [itoa hiddenCount @ '' hidden finding(s) are not shown at this visibility level. Re-run with '' @
               ''`--include-hidden` or an audit view to show them when policy allows.'', []]
            else []) @
           renderMarkdownCollectorSummary r) @
      (case findTraceUnavailable r of Some i \<Rightarrow> renderTraceUnavailableMarkdown i | None \<Rightarrow> []) @
      (if fs \<noteq> [] then
         lns ([''## Actionable findings'', [], ''| Severity | ID | Summary | Confidence |'', ''|---|---|---|---|''] @
              map markdown_row fs @ [[], ''## Details'', []] @ concat (map markdown_details fs))
       else if hiddenCount > 0
       then lns [''No actionable findings at the default visibility level.'', []]
       else lns [''No findings.'', []]))"

section \<open>GitHub annotations\<close>

definition escapeGHData :: "string \<Rightarrow> string" where
  "escapeGHData s =
     (let s = replace_all s ''%'' ''%25'';
          s = replace_all s [CHR 0x0D] ''%0D''
      in replace_all s [CHR 0x0A] ''%0A'')"

definition escapeGHProperty :: "string \<Rightarrow> string" where
  "escapeGHProperty s =
     (let s = escapeGHData s; s = replace_all s '':'' ''%3A'' in replace_all s '','' ''%2C'')"

definition renderGitHubAnnotation :: "string \<Rightarrow> finding \<Rightarrow> string" where
  "renderGitHubAnnotation level f =
     (let title = escapeGHProperty (f_ID f);
          msg = escapeGHData (f_Title f);
          msg = (if f_Symptom f \<noteq> [] then msg @ '': '' @ escapeGHData (f_Symptom f) else msg)
      in ''::'' @ level @ '' title='' @ title @ ''::'' @ msg @ newline)"

definition github_Render :: "report \<Rightarrow> string" where
  "github_Render r =
     concat (map (\<lambda>f.
       if f_Severity f = SeverityCritical \<or> f_Severity f = SeverityHigh then renderGitHubAnnotation ''error'' f
       else if f_Severity f = SeverityMedium then renderGitHubAnnotation ''warning'' f
       else []) (r_Findings r))"


section \<open>Annotations are read back as they are meant\<close>

definition gh_level :: "finding \<Rightarrow> string option" where
  "gh_level f =
     (if f_Severity f \<in> {SeverityCritical, SeverityHigh} then Some ''error''
      else if f_Severity f = SeverityMedium then Some ''warning'' else None)"

lemma replace_all_char: "replace_all s [c] new = concat (map (\<lambda>d. if d = c then new else [d]) s)"
proof (induction s rule: length_induct)
  case (1 s)
  show ?case
  proof (cases "c \<in> set s")
    case True
    then obtain x r where s: "s = x @ c # r" "c \<notin> set x" by (meson split_list_first)
    have "split_at [c] s = x # split_at [c] r" by (subst split_at.simps) (simp add: s cut_char)
    moreover have "concat (map (\<lambda>d. if d = c then new else [d]) x) = x"
      using s(2) by (induction x) auto
    ultimately show ?thesis using 1 s by (simp add: replace_all_def join_Cons)
  next
    case False
    then have "concat (map (\<lambda>d. if d = c then new else [d]) s) = s" by (induction s) auto
    then show ?thesis using False by (simp add: replace_all_absent sublist_single)
  qed
qed

definition gh_data_char :: "char \<Rightarrow> string" where
  "gh_data_char c =
     (if c = CHR ''%'' then ''%25'' else if c = CHR 0x0D then ''%0D'' else if c = CHR 0x0A then ''%0A'' else [c])"

definition gh_property_char :: "char \<Rightarrow> string" where
  "gh_property_char c =
     (if c = CHR '':'' then ''%3A'' else if c = CHR '','' then ''%2C'' else gh_data_char c)"

lemma concat_map_concat: "concat (map g (concat (map h s))) = concat (map (\<lambda>c. concat (map g (h c))) s)"
  by (induction s) simp_all

lemma escapeGHData_eq: "escapeGHData s = concat (map gh_data_char s)"
  by (auto simp: escapeGHData_def Let_def replace_all_char concat_map_concat gh_data_char_def
      intro!: arg_cong [where f = concat] map_cong)

lemma escapeGHProperty_eq: "escapeGHProperty s = concat (map gh_property_char s)"
  by (auto simp: escapeGHProperty_def escapeGHData_eq Let_def replace_all_char concat_map_concat gh_data_char_def
      gh_property_char_def intro!: arg_cong [where f = concat] map_cong)

definition gh_line :: "string \<Rightarrow> finding \<Rightarrow> string" where
  "gh_line level f =
     ''::'' @ level @ '' title='' @ escapeGHProperty (f_ID f) @ ''::'' @ escapeGHData (f_Title f) @
     (if f_Symptom f \<noteq> [] then '': '' @ escapeGHData (f_Symptom f) else [])"

lemma github_Render_lines:
  "github_Render r = concat (map (\<lambda>l. l @ newline)
     (concat (map (\<lambda>f. case gh_level f of Some level \<Rightarrow> [gh_line level f] | None \<Rightarrow> []) (r_Findings r))))"
  by (auto simp: github_Render_def renderGitHubAnnotation_def gh_line_def gh_level_def concat_map_concat Let_def
      intro!: arg_cong [where f = concat] map_cong)

text \<open>
  How a workflow runner reads a line \<open>::name key=value,key=value::message\<close>: up to the next colons a level and,
  after a blank, properties between commas, and then the message. Line ends and percent signs are decoded in
  both, colons and commas in the values of properties only.
\<close>

fun gh_unescape :: "(string \<times> char) list \<Rightarrow> string \<Rightarrow> string" where
  "gh_unescape codes [] = []"
| "gh_unescape codes (c # s) =
     (if c = CHR ''%'' then
        (case s of
           a # b # t \<Rightarrow> (case map_of codes [a, b] of Some d \<Rightarrow> d # gh_unescape codes t | None \<Rightarrow> c # gh_unescape codes s)
         | _ \<Rightarrow> c # gh_unescape codes s)
      else c # gh_unescape codes s)"

definition data_codes :: "(string \<times> char) list" where
  "data_codes = [(''25'', CHR ''%''), (''0D'', CHR 0x0D), (''0A'', CHR 0x0A)]"

definition property_codes :: "(string \<times> char) list" where
  "property_codes = data_codes @ [(''3A'', CHR '':''), (''2C'', CHR '','')]"

definition gh_property :: "string \<Rightarrow> (string \<times> string) list" where
  "gh_property p = (case cut ''='' p of None \<Rightarrow> [] | Some (k, v) \<Rightarrow> [(k, gh_unescape property_codes v)])"

definition gh_parse :: "string \<Rightarrow> (string \<times> (string \<times> string) list \<times> string) option" where
  "gh_parse line =
     (if \<not> prefix ''::'' line then None
      else case cut ''::'' (drop 2 line) of
             None \<Rightarrow> None
           | Some (cmd, msg) \<Rightarrow>
               (case cut '' '' cmd of
                  None \<Rightarrow> Some (cmd, [], gh_unescape data_codes msg)
                | Some (level, props) \<Rightarrow>
                    Some (level, concat (map gh_property (split_at '','' props)), gh_unescape data_codes msg)))"

lemma gh_unescape_data: "gh_unescape data_codes (escapeGHData s @ t) = s @ gh_unescape data_codes t"
  by (induction s) (simp_all add: escapeGHData_eq gh_data_char_def data_codes_def)

lemma gh_unescape_property: "gh_unescape property_codes (escapeGHProperty s) = s"
  by (induction s) (simp_all add: escapeGHProperty_eq gh_property_char_def gh_data_char_def property_codes_def data_codes_def)

lemma gh_chars:
  "CHR 0x0A \<notin> set (escapeGHData s)" "CHR 0x0A \<notin> set (escapeGHProperty s)"
  "CHR '':'' \<notin> set (escapeGHProperty s)" "CHR '','' \<notin> set (escapeGHProperty s)"
  by (auto simp: escapeGHData_eq escapeGHProperty_eq gh_property_char_def gh_data_char_def split: if_splits)

lemma cut_absent_first: "hd sep \<notin> set v \<Longrightarrow> sep \<noteq> [] \<Longrightarrow> cut sep (v @ sep @ r) = Some (v, r)"
  using index_of_absent_first [of v sep r] by (simp add: cut_def)

lemma gh_parse_line:
  assumes "CHR '' '' \<notin> set level" "CHR '':'' \<notin> set level"
  shows "gh_parse (gh_line level f) =
    Some (level, [(''title'', f_ID f)], f_Title f @ (if f_Symptom f \<noteq> [] then '': '' @ f_Symptom f else []))"
proof -
  let ?m = "escapeGHData (f_Title f) @ (if f_Symptom f \<noteq> [] then '': '' @ escapeGHData (f_Symptom f) else [])"
  let ?t = "escapeGHProperty (f_ID f)"
  have "CHR '':'' \<notin> set (level @ '' title='' @ ?t)" using assms(2) gh_chars(3) by simp
  then have 1: "cut ''::'' ((level @ '' title='' @ ?t) @ ''::'' @ ?m) = Some (level @ '' title='' @ ?t, ?m)"
    by (intro cut_absent_first) simp_all
  have 2: "cut '' '' (level @ '' title='' @ ?t) = Some (level, ''title='' @ ?t)"
    using assms(1) cut_char [of "CHR '' ''" level "''title='' @ ?t"] by simp
  have "CHR '','' \<notin> set (''title='' @ ?t)" using gh_chars(4) by simp
  then have 3: "split_at '','' (''title='' @ ?t) = [''title='' @ ?t]"
    using split_at_single [of "'',''" "''title='' @ ?t"] by (simp add: sublist_single)
  have 4: "gh_property (''title='' @ ?t) = [(''title'', f_ID f)]"
    using cut_char [of "CHR ''=''" "''title''" ?t] by (simp add: gh_property_def gh_unescape_property)
  have "gh_unescape data_codes ?m = f_Title f @ (if f_Symptom f \<noteq> [] then '': '' @ f_Symptom f else [])"
    using gh_unescape_data [of "f_Symptom f" "[]"] gh_unescape_data [of "f_Title f" "[]"] by (simp add: gh_unescape_data)
  then show ?thesis using 1 2 3 4 by (simp add: gh_parse_def gh_line_def)
qed


section \<open>Summaries of reports\<close>

lemma mdHighestSeverity_eq: "mdHighestSeverity = highestSeverity"
  by (simp add: fun_eq_iff mdHighestSeverity_def highestSeverity_def)

lemma mdSummarizeFindingTitle_eq: "mdSummarizeFindingTitle = summarizeFindingTitle"
  by (rule ext) (simp only: mdSummarizeFindingTitle_def summarizeFindingTitle_def)

lemma highest_loop:
  fixes fs :: "finding list" and h :: severity
  defines "best \<equiv> foldl (\<lambda>highest f. if output_rank (f_Severity f) > output_rank highest then f_Severity f else highest) h fs"
  shows "output_rank h \<le> output_rank best \<and> (\<forall>f \<in> set fs. output_rank (f_Severity f) \<le> output_rank best) \<and>
    (best = h \<or> best \<in> f_Severity ` set fs)"
  unfolding best_def
proof (induction fs arbitrary: h)
  case (Cons f fs)
  show ?case using Cons [of "if output_rank (f_Severity f) > output_rank h then f_Severity f else h"]
    by (auto split: if_splits)
qed simp

text \<open>
  The summaries of all renderers name the severity of a finding that no other exceeds, \<open>info\<close>
  when there is none above, and count every collector under exactly one status.
\<close>

theorem summaries_correct:
  "(\<forall>f \<in> set fs. output_rank (f_Severity f) \<le> output_rank (highestSeverity fs)) \<and>
   (highestSeverity fs = SeverityInfo \<or> highestSeverity fs \<in> f_Severity ` set fs) \<and>
   mdHighestSeverity fs = highestSeverity fs \<and>
   (let s = summarizeCollectors r in
    cm_OK s + cm_Partial s + cm_Timeout s + cm_Unavailable s + cm_Failed s + cm_PermissionDenied s =
      length (r_Collectors r))"
proof -
  let ?n = "\<lambda>s. cm_OK s + cm_Partial s + cm_Timeout s + cm_Unavailable s + cm_Failed s + cm_PermissionDenied s"
  have "?n (foldl count_collector s cs) = ?n s + length cs" for s :: collector_summary and cs
  proof (induction cs arbitrary: s)
    case (Cons c cs)
    have "?n (count_collector s c) = ?n s + 1" by (simp add: count_collector_def Let_def)
    with Cons show ?case by simp
  qed simp
  then show ?thesis
    using highest_loop [of SeverityInfo fs]
    by (simp add: highestSeverity_def mdHighestSeverity_eq summarizeCollectors_def Let_def)
qed

text \<open>The summary of missing keys counts them, for keys a project's files can have.\<close>

lemma env_summary_counts:
  assumes "\<forall>k \<in> set ks. isValidEnvKey k" "ks \<noteq> []"
    and "\<not> contains (to_lower (f_Title (env_missing_keys ks))) ''optional''"
  shows "summarizeFindingTitle (env_missing_keys ks) = nat_digits (length ks) @ '' env keys missing from .env''"
proof -
  have "join '', '' ks \<noteq> []" using assms(1,2) valid_key_chars by (cases ks; cases "tl ks") auto
  then show ?thesis
    using assms(2,3) split_keys(1) [OF assms(1,2)]
    by (simp add: summarizeFindingTitle_def env_missing_keys_def del: split_at.simps)
qed

text \<open>
  A required key with \<open>optional\<close> in its name is announced as optional, although its finding is the
  severe one.
\<close>

lemma required_key_called_optional:
  "f_Severity (env_missing_keys [''OPTIONAL_URL'']) = SeverityMedium \<and>
   summarizeFindingTitle (env_missing_keys [''OPTIONAL_URL'']) = ''1 optional env keys missing from .env''"
  by code_simp

text \<open>Nothing is escaped in Markdown: a bar in a title adds a cell to its row.\<close>

lemma markdown_row_injection:
  "length (split_at '' | '' (markdown_row (zero_finding\<lparr>f_ID := ''F-X-1'', f_Severity := SeverityHigh,
     f_Confidence := 1 / 2, f_Title := ''uses a | b''\<rparr>))) = 5"
  by code_simp

end
