(* ===== verification/Baseline_Command.thy ===== *)
theory Baseline_Command
  imports Relevance Redact Transition_Systems Go_Path
begin

text \<open>
  \<open>internal/cli/baseline.go\<close> with \<open>Load\<close> and \<open>Save\<close> of \<open>internal/baseline\<close>: the commands that create,
  list, check, prune, extend, shorten, export and import the file of accepted findings. The state is
  the baseline file of one project; \<open>baseline_env\<close> holds what the commands get from elsewhere: the
  YAML and JSON codecs, the clock, the user's name, the resolution of the path argument, the saved
  report, and the error of the next write, if it fails. \<open>Save\<close> writes a temporary file and renames
  it, so a failed write leaves the file as it was. A command returns its exit code with a message, or
  the lines it prints.
\<close>

section \<open>The file\<close>

datatype baseline_file =
    NoFile
  | Unstatable string
  | Unreadable_file string
  | File_text string

record baseline_env =
  be_marshal :: "baseline \<Rightarrow> string"
  be_unmarshal :: "string \<Rightarrow> string + baseline"
  be_json :: "baseline \<Rightarrow> string + string"
  be_sha :: "string \<Rightarrow> string"
  be_now :: time
  be_format_time :: "time \<Rightarrow> string"
  be_user :: string
  be_username :: string
  be_dir :: "string + string"
  be_save_error :: "string option"

fun baseline_error_text :: "baseline_error \<Rightarrow> string" where
  "baseline_error_text (UnsupportedSchema v) =
     ''unsupported baseline schema version '' @ quote_go v @ '' (expected '' @ quote_go baselineSchemaVersion @ '')''"
| "baseline_error_text (EntryEmptyID i) = ''baseline entry '' @ nat_digits i @ '' has empty id''"
| "baseline_error_text (EntryZeroCreatedAt i n) =
     ''baseline entry '' @ nat_digits i @ '' ('' @ n @ '') has zero created_at''"
| "baseline_error_text (EntryInvalidFingerprint i n) =
     ''baseline entry '' @ nat_digits i @ '' ('' @ n @ '') has invalid fingerprint''"
| "baseline_error_text NilBaseline = ''baseline is nil''"
| "baseline_error_text EmptyID = ''entry ID cannot be empty''"
| "baseline_error_text EmptyReason = ''entry reason cannot be empty''"
| "baseline_error_text (InvalidFingerprint fp) = ''invalid fingerprint: '' @ quote_go fp"
| "baseline_error_text EmptyExpiry = ''empty expiry duration''"
| "baseline_error_text (InvalidExpiry raw) = ''invalid expiry duration '' @ quote_go raw"
| "baseline_error_text (ExpiryNotPositive raw) =
     ''invalid expiry duration '' @ quote_go raw @ '': value must be a positive integer''"
| "baseline_error_text (ExpiryUnit raw) =
     ''invalid expiry duration '' @ quote_go raw @ '': supported units are d (days), h (hours), m (minutes)''"

definition empty_baseline :: baseline where
  "empty_baseline = \<lparr>b_SchemaVersion = baselineSchemaVersion, b_Entries = []\<rparr>"

definition Baseline_Load :: "baseline_env \<Rightarrow> baseline_file \<Rightarrow> string + baseline" where
  "Baseline_Load w f =
     (case f of
        NoFile \<Rightarrow> Inr empty_baseline
      | Unstatable e \<Rightarrow> Inl (''read baseline: '' @ e)
      | Unreadable_file e \<Rightarrow> Inl (''read baseline: '' @ e)
      | File_text data \<Rightarrow>
          if trim_space data = [] then Inr empty_baseline
          else (case be_unmarshal w data of
                  Inl e \<Rightarrow> Inl (''parse baseline YAML: '' @ e)
                | Inr b \<Rightarrow> (case baseline_validate b of
                              Some e \<Rightarrow> Inl (baseline_error_text e)
                            | None \<Rightarrow> Inr b)))"

definition Baseline_Save :: "baseline_env \<Rightarrow> baseline_file \<Rightarrow> baseline \<Rightarrow> (string + unit) \<times> baseline_file" where
  "Baseline_Save w f b =
     (case be_save_error w of
        Some e \<Rightarrow> (Inl e, f)
      | None \<Rightarrow> (Inr (), File_text (be_marshal w
          \<lparr>b_SchemaVersion = b_SchemaVersion b, b_Entries = Save_entries b\<rparr>)))"

definition loadExistingBaseline :: "baseline_env \<Rightarrow> string \<Rightarrow> baseline_file \<Rightarrow> string + baseline" where
  "loadExistingBaseline w path f =
     (case f of
        NoFile \<Rightarrow> Inl (''baseline not found: '' @ path)
      | Unstatable e \<Rightarrow> Inl e
      | _ \<Rightarrow> Baseline_Load w f)"

definition loadBaselineForCommand :: "baseline_env \<Rightarrow> string \<Rightarrow> bool \<Rightarrow> baseline_file \<Rightarrow> string + baseline" where
  "loadBaselineForCommand w path explicit f =
     (if explicit then loadExistingBaseline w path f else Baseline_Load w f)"

section \<open>Helpers\<close>

definition baselineMatchMode :: "string \<Rightarrow> string" where
  "baselineMatchMode fingerprint = (if trim_space fingerprint \<noteq> [] then ''fingerprint'' else ''id'')"

definition formatBaselineTime :: "baseline_env \<Rightarrow> time \<Rightarrow> string" where
  "formatBaselineTime w t = (if t = 0 then ''-'' else be_format_time w t)"

definition pluralYIes :: "nat \<Rightarrow> string" where
  "pluralYIes n = (if n = 1 then ''y'' else ''ies'')"

text \<open>Of well-formed UTF-8: the control characters of ASCII, and those encoded by C2 and 80 to 9F.\<close>

fun sanitizeTerminal :: "string \<Rightarrow> string" where
  "sanitizeTerminal [] = []"
| "sanitizeTerminal (c # s) =
     (if c < CHR 0x20 \<or> c = CHR 0x7F then sanitizeTerminal s
      else if c = CHR 0xC2 \<and> s \<noteq> [] \<and> CHR 0x80 \<le> hd s \<and> hd s \<le> CHR 0x9F then sanitizeTerminal (tl s)
      else c # sanitizeTerminal s)"

definition resolveCreatedBy :: "baseline_env \<Rightarrow> string \<Rightarrow> string" where
  "resolveCreatedBy w flag =
     (if flag \<noteq> [] then trim_space flag
      else if be_user w \<noteq> [] then trim_space (be_user w)
      else if be_username w \<noteq> [] then trim_space (be_username w)
      else ''unknown'')"

definition baseline_parseSeverity :: "string \<Rightarrow> severity option" where
  "baseline_parseSeverity v =
     (if v \<in> {''info'', ''low'', ''medium'', ''high'', ''critical''} then Some v else None)"

definition finding_key :: "string \<Rightarrow> string" where
  "finding_key i = to_upper (trim_space i)"

definition selectFindingsByID :: "finding list \<Rightarrow> string list \<Rightarrow> string + finding list" where
  "selectFindingsByID findings requested =
     (let want = map finding_key requested in
      if [] \<in> set want then Inl ''--finding value must not be empty''
      else
        let selected = filter (\<lambda>f. finding_key (f_ID f) \<in> set want) findings;
            found = map (\<lambda>f. finding_key (f_ID f)) selected;
            missing = sort (filter (\<lambda>i. i \<notin> set found) (remdups want))
        in if missing \<noteq> []
           then Inl (''finding(s) not present in the saved report: '' @ sanitizeTerminal (join '', '' missing) @
                  '' (nothing was baselined)'')
           else Inr selected)"

section \<open>Commands\<close>

datatype cli_line = Out string | Err_out string | Row "string list"

type_synonym cli_result = "(exit_code \<times> string) + cli_line list"

definition save_and :: "baseline_env \<Rightarrow> baseline_file \<Rightarrow> baseline \<Rightarrow> cli_line list \<Rightarrow> cli_result \<times> baseline_file" where
  "save_and w f b out =
     (case Baseline_Save w f b of
        (Inl e, f') \<Rightarrow> (Inl (InternalError, ''save baseline: '' @ e), f')
      | (Inr _, f') \<Rightarrow> (Inr out, f'))"

text \<open>Every command first resolves its path; \<open>DefaultPath\<close> is the file below it.\<close>

definition baseline_path :: "string \<Rightarrow> string" where
  "baseline_path projectRoot = Join2 projectRoot ''.devdiag/baseline.yaml''"

definition in_project ::
  "baseline_env \<Rightarrow> baseline_file \<Rightarrow> (string \<Rightarrow> cli_result \<times> baseline_file) \<Rightarrow> cli_result \<times> baseline_file" where
  "in_project w f k =
     (case be_dir w of
        Inl e \<Rightarrow> (Inl (InvalidInput, e), f)
      | Inr projectRoot \<Rightarrow> k (baseline_path projectRoot))"

record create_flags =
  cf_Reason :: string
  cf_Findings :: "string list"
  cf_All :: bool
  cf_Expires :: string
  cf_CreatedBy :: string
  cf_Force :: bool
  cf_MinSev :: string
  cf_Fingerprint :: bool

text \<open>The checks on the flags before anything is read.\<close>

definition create_flag_error :: "create_flags \<Rightarrow> string option" where
  "create_flag_error fl =
     (if trim_space (cf_Reason fl) = [] then Some ''--reason is required''
      else if cf_All fl \<and> cf_Findings fl \<noteq> [] then Some ''--all and --finding are mutually exclusive''
      else if \<not> cf_All fl \<and> cf_Findings fl = [] then
        Some (''select findings explicitly: pass --finding <id> (repeatable) for specific findings, '' @
              ''or --all to deliberately baseline every finding in the report'')
      else if cf_Findings fl \<noteq> [] \<and> cf_MinSev fl \<noteq> [] then
        Some (''--min-severity applies to --all sweeps; it cannot be combined with explicit '' @
              ''--finding selection'')
      else None)"

definition create_options_of :: "baseline_env \<Rightarrow> create_flags \<Rightarrow> string + create_options" where
  "create_options_of w fl =
     (let opts = \<lparr>o_Reason = trim_space (cf_Reason fl), o_CreatedAt = be_now w,
                  o_CreatedBy = resolveCreatedBy w (cf_CreatedBy fl), o_ExpiresAt = None,
                  o_MinSeverity = [], o_UseFingerprint = cf_Fingerprint fl\<rparr>;
          expiry = (if cf_Expires fl \<noteq> []
                    then (case ParseExpiryDuration (cf_Expires fl) (be_now w) of
                            Inl e \<Rightarrow> Inl (baseline_error_text e) | Inr t \<Rightarrow> Inr (opts\<lparr>o_ExpiresAt := Some t\<rparr>))
                    else Inr opts)
      in case expiry of
           Inl e \<Rightarrow> Inl e
         | Inr opts \<Rightarrow>
             if cf_MinSev fl = [] then Inr opts
             else (case baseline_parseSeverity (cf_MinSev fl) of
                     None \<Rightarrow> Inl (''invalid --min-severity: '' @ cf_MinSev fl @
                       '' (allowed: info, low, medium, high, critical)'')
                   | Some sev \<Rightarrow> Inr (opts\<lparr>o_MinSeverity := sev\<rparr>)))"

definition baseline_create ::
  "redact_engine \<Rightarrow> (string + report \<times> string) \<Rightarrow> create_flags \<Rightarrow> baseline_env \<Rightarrow> baseline_file
    \<Rightarrow> cli_result \<times> baseline_file" where
  "baseline_create engine saved fl w f =
     (case create_flag_error fl of
        Some e \<Rightarrow> (Inl (InvalidInput, e), f)
      | None \<Rightarrow> in_project w f (\<lambda>path.
          case saved of
            Inl e \<Rightarrow> (Inl (InvalidInput, ''load saved report: '' @ e), f)
          | Inr (rep, runID) \<Rightarrow>
              (case (if cf_Findings fl \<noteq> [] then selectFindingsByID (r_Findings rep) (cf_Findings fl)
                     else Inr (r_Findings rep)) of
                 Inl e \<Rightarrow> (Inl (InvalidInput, e), f)
               | Inr selected \<Rightarrow>
                   if \<not> cf_Force fl \<and> (case f of NoFile \<Rightarrow> False | Unstatable _ \<Rightarrow> False | _ \<Rightarrow> True)
                   then (Inl (InvalidInput, ''baseline already exists at '' @ path @ ''; use --force to overwrite''), f)
                   else
                     (case create_options_of w fl of
                        Inl e \<Rightarrow> (Inl (InvalidInput, e), f)
                      | Inr opts \<Rightarrow>
                          let b = CreateFromFindings (be_sha w) selected opts;
                              n = length (b_Entries b);
                              summary = ''Baselining from run '' @ sanitizeTerminal runID @ '': '' @ nat_digits n @
                                '' entr'' @ pluralYIes n @ '' ['' @
                                join '', '' (map (\<lambda>e. sanitizeTerminal (b_ID e)) (b_Entries b)) @ ''] (match: '' @
                                (if cf_Fingerprint fl then ''fingerprint'' else ''id'') @ '') -> '' @
                                sanitizeTerminal (RedactString engine path)
                          in save_and w f b
                               [Err_out summary, Out (''Created baseline with '' @ nat_digits n @ '' entries at '' @ path)]))))"

definition entry_row :: "baseline_env \<Rightarrow> baseline_entry \<Rightarrow> cli_line" where
  "entry_row w e = Row
     [b_ID e, baselineMatchMode (b_Fingerprint e),
      (if expired e (be_now w) then ''expired'' else ''active''),
      (case b_ExpiresAt e of None \<Rightarrow> ''-'' | Some t \<Rightarrow> formatBaselineTime w t),
      b_CreatedBy e, formatBaselineTime w (b_CreatedAt e), b_Reason e]"

definition baseline_list :: "baseline_env \<Rightarrow> baseline_file \<Rightarrow> cli_result \<times> baseline_file" where
  "baseline_list w f = in_project w f (\<lambda>path.
     case Baseline_Load w f of
       Inl e \<Rightarrow> (Inl (InvalidInput, ''load baseline: '' @ e), f)
     | Inr b \<Rightarrow>
         let active = length (ActiveEntries (Some b) (be_now w)); total = length (b_Entries b) in
         (Inr ([Out (''Baseline: '' @ path),
                Out (''Total: '' @ nat_digits total @ '' entries ('' @ nat_digits active @ '' active, '' @
                  nat_digits (total - active) @ '' expired)'')] @
               (if b_Entries b \<noteq> []
                then [Out [], Row [''FINDING ID'', ''MATCH'', ''STATUS'', ''EXPIRES AT'', ''CREATED BY'',
                        ''CREATED AT'', ''REASON'']] @ map (entry_row w) (b_Entries b)
                else [])), f))"

definition baseline_validate_command :: "baseline_env \<Rightarrow> baseline_file \<Rightarrow> cli_result \<times> baseline_file" where
  "baseline_validate_command w f = in_project w f (\<lambda>path.
     case loadExistingBaseline w path f of
       Inl e \<Rightarrow> (Inl (InvalidInput, ''validate baseline: '' @ e), f)
     | Inr b \<Rightarrow> (Inr [Out (''Baseline at '' @ path @ '' is valid.'')], f))"

definition baseline_path_command :: "baseline_env \<Rightarrow> baseline_file \<Rightarrow> cli_result \<times> baseline_file" where
  "baseline_path_command w f = in_project w f (\<lambda>path. (Inr [Out path], f))"

definition baseline_status :: "baseline_env \<Rightarrow> baseline_file \<Rightarrow> cli_result \<times> baseline_file" where
  "baseline_status w f = in_project w f (\<lambda>path.
     case f of
       NoFile \<Rightarrow> (Inr [Out (''Baseline: Not Found ('' @ path @ '')'')], f)
     | Unstatable e \<Rightarrow> (Inl (InternalError, e), f)
     | _ \<Rightarrow>
         (case Baseline_Load w f of
            Inl e \<Rightarrow> (Inl (InvalidInput, ''load baseline: '' @ e), f)
          | Inr b \<Rightarrow>
              let active = length (ActiveEntries (Some b) (be_now w)) in
              (Inr [Out (''Baseline Path: '' @ path), Out ''Status: Valid'',
                    Out (''Active Entries: '' @ nat_digits active),
                    Out (''Expired Entries: '' @ nat_digits (length (b_Entries b) - active))], f)))"

definition baseline_prune :: "baseline_env \<Rightarrow> baseline_file \<Rightarrow> cli_result \<times> baseline_file" where
  "baseline_prune w f = in_project w f (\<lambda>path.
     case loadExistingBaseline w path f of
       Inl e \<Rightarrow> (Inl (InvalidInput, ''load baseline: '' @ e), f)
     | Inr b \<Rightarrow>
         (case Baseline_Prune (Some b) (be_now w) of
            (b', pruned) \<Rightarrow>
              save_and w f (the b')
                [Out (''Pruned '' @ nat_digits pruned @ '' expired entries. '' @
                   nat_digits (length (b_Entries (the b'))) @ '' active entries remaining.'')]))"

record add_flags =
  ad_ID :: string
  ad_Reason :: string
  ad_Expires :: string
  ad_CreatedBy :: string
  ad_Fingerprint :: string

definition invalid_fingerprint_flag :: "string \<Rightarrow> string" where
  "invalid_fingerprint_flag fp =
     ''invalid --fingerprint: '' @ quote_go fp @ '' (must be a 64-character lowercase hex SHA-256 hash)''"

definition added_by :: "baseline_env \<Rightarrow> add_flags \<Rightarrow> string" where
  "added_by w fl =
     (let createdBy = trim_space (ad_CreatedBy fl);
          createdBy = (if createdBy = [] then trim_space (resolveCreatedBy w []) else createdBy)
      in if createdBy = [] then ''unknown'' else createdBy)"

definition baseline_add :: "add_flags \<Rightarrow> baseline_env \<Rightarrow> baseline_file \<Rightarrow> cli_result \<times> baseline_file" where
  "baseline_add fl w f =
     (let i = to_upper (trim_space (ad_ID fl)); reason = trim_space (ad_Reason fl);
          fp = trim_space (ad_Fingerprint fl)
      in if i = [] then (Inl (InvalidInput, ''finding ID cannot be empty''), f)
         else if reason = [] then (Inl (InvalidInput, ''--reason is required''), f)
         else if fp \<noteq> [] \<and> \<not> IsValidFingerprint fp then (Inl (InvalidInput, invalid_fingerprint_flag fp), f)
         else in_project w f (\<lambda>path.
           case Baseline_Load w f of
             Inl e \<Rightarrow> (Inl (InvalidInput, ''load baseline: '' @ e), f)
           | Inr b \<Rightarrow>
               let entry = \<lparr>b_ID = i, b_Reason = reason, b_ExpiresAt = None, b_CreatedAt = be_now w,
                            b_CreatedBy = added_by w fl, b_Fingerprint = fp\<rparr> in
               (case (if ad_Expires fl \<noteq> []
                      then (case ParseExpiryDuration (ad_Expires fl) (be_now w) of
                              Inl e \<Rightarrow> Inl e | Inr t \<Rightarrow> Inr (entry\<lparr>b_ExpiresAt := Some t\<rparr>))
                      else Inr entry) of
                  Inl e \<Rightarrow> (Inl (InvalidInput, baseline_error_text e), f)
                | Inr entry \<Rightarrow>
                    (case Baseline_Add (be_now w) (Some b) entry of
                       Inl e \<Rightarrow> (Inl (InvalidInput, baseline_error_text e), f)
                     | Inr (b', updated) \<Rightarrow>
                         save_and w f b'
                           [Out (if updated
                              then ''Updated entry for '' @ i @ '' (match: '' @ baselineMatchMode fp @ '') in baseline.''
                              else ''Added entry for '' @ i @ '' (match: '' @ baselineMatchMode fp @ '') to baseline.'')]))))"

definition baseline_remove :: "string \<Rightarrow> string \<Rightarrow> baseline_env \<Rightarrow> baseline_file \<Rightarrow> cli_result \<times> baseline_file" where
  "baseline_remove arg fpflag w f =
     (let i = to_upper (trim_space arg); fp = trim_space fpflag in
      if i = [] then (Inl (InvalidInput, ''finding ID cannot be empty''), f)
      else if fp \<noteq> [] \<and> \<not> IsValidFingerprint fp then (Inl (InvalidInput, invalid_fingerprint_flag fp), f)
      else in_project w f (\<lambda>path.
        case loadExistingBaseline w path f of
          Inl e \<Rightarrow> (Inl (InvalidInput, ''load baseline: '' @ e), f)
        | Inr b \<Rightarrow>
            (case Baseline_Remove (Some b) i fp of
               (b', removed) \<Rightarrow>
                 if \<not> removed
                 then (Inl (InvalidInput,
                   ''baseline entry not found: '' @ i @ '' (match: '' @ baselineMatchMode fp @ '')''), f)
                 else save_and w f (the b')
                   [Out (''Removed entry for '' @ i @ '' (match: '' @ baselineMatchMode fp @ '') from baseline.'')])))"

text \<open>Where an export goes: to the output, or to a file whose path and writing may fail.\<close>

datatype export_target = To_stdout | To_file "string option" "string option"

definition baseline_export :: "string \<Rightarrow> export_target \<Rightarrow> baseline_env \<Rightarrow> baseline_file \<Rightarrow> cli_result \<times> baseline_file" where
  "baseline_export fmtflag target w f =
     (let format = to_lower (trim_space fmtflag) in
      if format \<noteq> ''yaml'' \<and> format \<noteq> ''json''
      then (Inl (InvalidInput, ''invalid --format: '' @ quote_go fmtflag @ '' (must be yaml or json)''), f)
      else in_project w f (\<lambda>path.
        case loadExistingBaseline w path f of
          Inl e \<Rightarrow> (Inl (InvalidInput, ''load baseline: '' @ e), f)
        | Inr b \<Rightarrow>
            (case (if format = ''json'' then be_json w b else Inr (be_marshal w b)) of
               Inl e \<Rightarrow> (Inl (InternalError, ''marshal baseline: '' @ e), f)
             | Inr data \<Rightarrow>
                 (case target of
                    To_stdout \<Rightarrow> (Inr [Out data], f)
                  | To_file (Some e) _ \<Rightarrow> (Inl (InvalidInput, e), f)
                  | To_file None (Some e) \<Rightarrow> (Inl (InternalError, ''write baseline: '' @ e), f)
                  | To_file None None \<Rightarrow> (Inr [], f)))))"

fun import_entries :: "time \<Rightarrow> baseline \<Rightarrow> nat \<Rightarrow> nat \<Rightarrow> baseline_entry list \<Rightarrow> baseline_error + baseline \<times> nat \<times> nat" where
  "import_entries now b added updated [] = Inr (b, added, updated)"
| "import_entries now b added updated (e # es) =
     (case Baseline_Add now (Some b) e of
        Inl err \<Rightarrow> Inl err
      | Inr (b', up) \<Rightarrow>
          if up then import_entries now b' added (Suc updated) es
          else import_entries now b' (Suc added) updated es)"

text \<open>\<open>source\<close> is the file the command names, with the error of resolving its path.\<close>

definition baseline_import ::
  "(string + string \<times> baseline_file) \<Rightarrow> baseline_env \<Rightarrow> baseline_file \<Rightarrow> cli_result \<times> baseline_file" where
  "baseline_import source w f =
     (case source of
        Inl e \<Rightarrow> (Inl (InvalidInput, e), f)
      | Inr (sourcePath, sf) \<Rightarrow>
          (case loadExistingBaseline w sourcePath sf of
             Inl e \<Rightarrow> (Inl (InvalidInput, ''load source baseline: '' @ e), f)
           | Inr src \<Rightarrow> in_project w f (\<lambda>path.
               case Baseline_Load w f of
                 Inl e \<Rightarrow> (Inl (InvalidInput, ''load target baseline: '' @ e), f)
               | Inr b \<Rightarrow>
                   (case import_entries (be_now w) b 0 0 (b_Entries src) of
                      Inl e \<Rightarrow> (Inl (InvalidInput, baseline_error_text e), f)
                    | Inr (b', added, updated) \<Rightarrow>
                        save_and w f b'
                          [Out (''Imported '' @ nat_digits (length (b_Entries src)) @ '' entries (added '' @
                             nat_digits added @ '', updated '' @ nat_digits updated @ '') to '' @ path)]))))"


section \<open>Every command on the file\<close>

datatype baseline_command =
    CmdCreate redact_engine "string + report \<times> string" create_flags
  | CmdList
  | CmdValidate
  | CmdPath
  | CmdStatus
  | CmdPrune
  | CmdAdd add_flags
  | CmdRemove string string
  | CmdExport string export_target
  | CmdImport "string + string \<times> baseline_file"

fun run_baseline_command :: "baseline_command \<Rightarrow> baseline_env \<Rightarrow> baseline_file \<Rightarrow> cli_result \<times> baseline_file" where
  "run_baseline_command (CmdCreate engine saved fl) = baseline_create engine saved fl"
| "run_baseline_command CmdList = baseline_list"
| "run_baseline_command CmdValidate = baseline_validate_command"
| "run_baseline_command CmdPath = baseline_path_command"
| "run_baseline_command CmdStatus = baseline_status"
| "run_baseline_command CmdPrune = baseline_prune"
| "run_baseline_command (CmdAdd fl) = baseline_add fl"
| "run_baseline_command (CmdRemove i fp) = baseline_remove i fp"
| "run_baseline_command (CmdExport fmt target) = baseline_export fmt target"
| "run_baseline_command (CmdImport source) = baseline_import source"

text \<open>What the commands rely on: what is marshalled is read back, and the digest and clock are sane.\<close>

definition codec_ok :: "baseline_env \<Rightarrow> bool" where
  "codec_ok w \<longleftrightarrow>
     (\<forall>b. baseline_validate b = None \<longrightarrow>
        be_unmarshal w (be_marshal w b) = Inr b \<and> trim_space (be_marshal w b) \<noteq> [])"

definition env_ok :: "baseline_env \<Rightarrow> bool" where
  "env_ok w \<longleftrightarrow> codec_ok w \<and> (\<forall>s. IsValidFingerprint (be_sha w s)) \<and> be_now w \<noteq> 0"

definition sound_baseline :: "baseline \<Rightarrow> bool" where
  "sound_baseline b \<longleftrightarrow> baseline_validate b = None \<and> distinct_keys b"

definition saved_form :: "baseline \<Rightarrow> baseline" where
  "saved_form b = \<lparr>b_SchemaVersion = b_SchemaVersion b, b_Entries = Save_entries b\<rparr>"

lemma saved_form_sound: "sound_baseline b \<Longrightarrow> sound_baseline (saved_form b)"
proof -
  have "mset (map entry_key (Save_entries b)) = mset (map entry_key (b_Entries b))"
    by (simp add: Save_entries_def)
  from mset_eq_imp_distinct_iff [OF this] show "sound_baseline b \<Longrightarrow> sound_baseline (saved_form b)"
    by (simp add: sound_baseline_def saved_form_def baseline_validate_None distinct_keys_def Save_entries_def
        list_all_iff)
qed

lemma load_saved:
  assumes "codec_ok w" "baseline_validate b = None"
  shows "Baseline_Load w (File_text (be_marshal w (saved_form b))) = Inr (saved_form b)"
proof -
  have "baseline_validate (saved_form b) = None"
    using assms(2) by (simp add: saved_form_def baseline_validate_None list_all_iff Save_entries_def)
  then show ?thesis using assms(1) by (simp add: Baseline_Load_def codec_ok_def)
qed

lemma Load_valid: "Baseline_Load w f = Inr b \<Longrightarrow> baseline_validate b = None"
  by (auto simp: Baseline_Load_def empty_baseline_def baseline_validate_None
      split: baseline_file.splits if_splits sum.splits option.splits)

lemma loadExisting_Load: "loadExistingBaseline w path f = Inr b \<Longrightarrow> Baseline_Load w f = Inr b"
  by (auto simp: loadExistingBaseline_def split: baseline_file.splits)

text \<open>
  The outcome of a command: an error leaves the file, and success leaves it or stores the saved form
  of a baseline with the given property.
\<close>

definition outcome :: "(baseline \<Rightarrow> bool) \<Rightarrow> baseline_env \<Rightarrow> baseline_file \<Rightarrow> cli_result \<times> baseline_file \<Rightarrow> bool" where
  "outcome P w f r \<longleftrightarrow>
     (case fst r of
        Inl _ \<Rightarrow> snd r = f
      | Inr _ \<Rightarrow> snd r = f \<or> (\<exists>b. P b \<and> snd r = File_text (be_marshal w (saved_form b))))"

lemma outcome_simps [simp]:
  "outcome P w f (Inl e, f)" "outcome P w f (Inr out, f)"
  by (simp_all add: outcome_def)

lemma outcome_save: "P b \<Longrightarrow> outcome P w f (save_and w f b out)"
  by (auto simp: outcome_def save_and_def Baseline_Save_def saved_form_def split: option.split)

lemma outcome_project: "(\<And>path. outcome P w f (k path)) \<Longrightarrow> outcome P w f (in_project w f k)"
  by (auto simp: in_project_def split: sum.split)

lemma sound_put:
  assumes "sound_baseline b" "acceptable e" "now \<noteq> 0"
  shows "sound_baseline (put_entry (stored_entry now e) (with_schema b))"
proof -
  have "with_schema b = b"
    using assms(1) by (simp add: with_schema_def sound_baseline_def baseline_validate_None baselineSchemaVersion_def)
  moreover have "distinct_keys (put_entry (stored_entry now e) b)"
    using assms(1) bl.distinct_put by (simp add: sound_baseline_def distinct_keys_def)
  ultimately show ?thesis
    using assms put_entry_set [of "stored_entry now e" b] valid_stored_entry [OF assms(2,3)]
    by (auto simp: sound_baseline_def baseline_validate_None list_all_iff)
qed

lemma sound_add: "sound_baseline b \<Longrightarrow> now \<noteq> 0 \<Longrightarrow> Baseline_Add now (Some b) e = Inr (b', up) \<Longrightarrow> sound_baseline b'"
  using sound_put by (auto simp: Baseline_Add_Inr)

lemma sound_remove: "sound_baseline b \<Longrightarrow> Baseline_Remove (Some b) i fp = (b', removed) \<Longrightarrow> sound_baseline (the b')"
  using del_entry_set [of "(to_upper (trim_space i), trim_space fp)" b]
    bl.distinct_del [of b "(to_upper (trim_space i), trim_space fp)"]
  by (auto simp: Baseline_Remove_eq Let_def sound_baseline_def baseline_validate_None list_all_iff distinct_keys_def
      split: if_splits)

lemma sound_prune: "sound_baseline b \<Longrightarrow> Baseline_Prune (Some b) now = (b', n) \<Longrightarrow> sound_baseline (the b')"
  by (auto simp: Baseline_Prune_eq sound_baseline_def baseline_validate_None list_all_iff distinct_keys_def
      distinct_map_filter)

lemma sound_import:
  "sound_baseline b \<Longrightarrow> now \<noteq> 0 \<Longrightarrow> import_entries now b added updated es = Inr (b', n, k) \<Longrightarrow> sound_baseline b'"
  by (induction now b added updated es rule: import_entries.induct)
    (auto split: sum.splits if_splits dest: sound_add)

lemma create_options_now: "create_options_of w fl = Inr opts \<Longrightarrow> o_CreatedAt opts = be_now w"
  by (auto simp: create_options_of_def Let_def split: if_splits sum.splits option.splits)

lemma command_outcome:
  assumes "env_ok w" "\<And>b. Baseline_Load w f = Inr b \<Longrightarrow> sound_baseline b"
  shows "outcome sound_baseline w f (run_baseline_command c w f)"
proof -
  have now: "be_now w \<noteq> 0" using assms(1) by (simp add: env_ok_def)
  have ex: "sound_baseline b" if "loadExistingBaseline w path f = Inr b" for path b
    using assms(2) loadExisting_Load [OF that] .
  show ?thesis
  proof (cases c)
    case (CmdCreate engine saved fl)
    have "sound_baseline (CreateFromFindings (be_sha w) sel opts)" if "create_options_of w fl = Inr opts" for sel opts
      using CreateFromFindings_facts [of "be_sha w" opts sel] create_options_now [OF that] assms(1)
      by (simp add: sound_baseline_def env_ok_def)
    then show ?thesis
      using CmdCreate
      by (auto simp: baseline_create_def Let_def intro!: outcome_project outcome_save split: option.split sum.split prod.split)
  next
    case CmdPrune
    then show ?thesis
      by (auto simp: baseline_prune_def intro!: outcome_project outcome_save split: sum.split prod.split)
        (blast dest: ex sound_prune)
  next
    case (CmdAdd fl)
    then show ?thesis
      using assms(2) sound_add [OF _ now]
      by (auto simp: baseline_add_def Let_def intro!: outcome_project outcome_save split: sum.split prod.split)
  next
    case (CmdRemove i fp)
    then show ?thesis
      by (auto simp: baseline_remove_def Let_def intro!: outcome_project outcome_save split: sum.split prod.split)
        (blast dest: ex sound_remove)+
  next
    case (CmdImport source)
    then show ?thesis
      using assms(2) sound_import [OF _ now]
      by (auto simp: baseline_import_def intro!: outcome_project outcome_save split: sum.split prod.split)
  qed (auto simp: baseline_list_def baseline_validate_command_def baseline_path_command_def baseline_status_def
      baseline_export_def Let_def intro!: outcome_project
      split: sum.split baseline_file.split export_target.split option.split)
qed


text \<open>A step of the file: some command, by some user at some time, with the same codec.\<close>

definition baseline_step ::
  "(baseline \<Rightarrow> string) \<Rightarrow> (string \<Rightarrow> string + baseline) \<Rightarrow> baseline_file \<Rightarrow> baseline_file \<Rightarrow> bool" where
  "baseline_step mar unm f f' \<longleftrightarrow>
     (\<exists>c w. env_ok w \<and> be_marshal w = mar \<and> be_unmarshal w = unm \<and> f' = snd (run_baseline_command c w f))"

definition file_inv :: "(baseline \<Rightarrow> string) \<Rightarrow> baseline_file \<Rightarrow> bool" where
  "file_inv mar f \<longleftrightarrow> f = NoFile \<or> (\<exists>b. sound_baseline b \<and> f = File_text (mar (saved_form b)))"

lemma file_inv_load:
  assumes "codec_ok w" "file_inv (be_marshal w) f" "Baseline_Load w f = Inr b" shows "sound_baseline b"
  using assms load_saved [OF assms(1)] saved_form_sound
  by (auto simp: file_inv_def sound_baseline_def)
    (auto simp: Baseline_Load_def empty_baseline_def baseline_validate_None distinct_keys_def)

interpretation baseline_file: invariant_system "baseline_step mar unm" "file_inv mar" for mar unm
proof
  fix f f'
  assume inv: "file_inv mar f" and "baseline_step mar unm f f'"
  then obtain c w where w: "env_ok w" "be_marshal w = mar" "f' = snd (run_baseline_command c w f)"
    by (auto simp: baseline_step_def)
  have "outcome sound_baseline w f (run_baseline_command c w f)"
    using file_inv_load [of w f] w(1,2) inv by (intro command_outcome) (auto simp: env_ok_def)
  then show "file_inv mar f'" using inv w by (auto simp: outcome_def file_inv_def split: sum.splits)
qed

lemma saved_form_sorted: "sorted_by entryBefore (b_Entries (saved_form b))"
  by (simp add: saved_form_def Save_entries_def bl_order.sorted_slice_stable)

section \<open>A codec\<close>

text \<open>That \<open>codec_ok\<close> can hold: every string is written after its length, and the list ends with a dot.\<close>

definition write_str :: "string \<Rightarrow> string" where
  "write_str s = nat_digits (length s) @ CHR '':'' # s"

definition read_str :: "string \<Rightarrow> (string \<times> string) option" where
  "read_str t =
     (case cut '':'' t of
        None \<Rightarrow> None
      | Some (d, r) \<Rightarrow> (case digits_val 0 d of None \<Rightarrow> None | Some n \<Rightarrow> Some (take (nat n) r, drop (nat n) r)))"

fun read_strs :: "nat \<Rightarrow> string \<Rightarrow> string list option" where
  "read_strs 0 t = None"
| "read_strs (Suc n) t =
     (if t = ''.'' then Some []
      else case read_str t of None \<Rightarrow> None | Some (s, r) \<Rightarrow> map_option (\<lambda>ss. s # ss) (read_strs n r))"

definition read_int :: "string \<Rightarrow> int" where
  "read_int s =
     (if prefix ''-'' s then - the (digits_val 0 (tl s)) else the (digits_val 0 s))"

definition entry_strs :: "baseline_entry \<Rightarrow> string list" where
  "entry_strs e =
     [b_ID e, b_Reason e, (case b_ExpiresAt e of None \<Rightarrow> [] | Some t \<Rightarrow> itoa t), itoa (b_CreatedAt e),
      b_CreatedBy e, b_Fingerprint e]"

fun entries_of_strs :: "string list \<Rightarrow> baseline_entry list option" where
  "entries_of_strs [] = Some []"
| "entries_of_strs (i # r # x # c # u # p # ss) =
     map_option (\<lambda>es. \<lparr>b_ID = i, b_Reason = r, b_ExpiresAt = (if x = [] then None else Some (read_int x)),
        b_CreatedAt = read_int c, b_CreatedBy = u, b_Fingerprint = p\<rparr> # es) (entries_of_strs ss)"
| "entries_of_strs _ = None"

definition plain_marshal :: "baseline \<Rightarrow> string" where
  "plain_marshal b = concat (map write_str (concat (map entry_strs (b_Entries b)))) @ ''.''"

definition plain_unmarshal :: "string \<Rightarrow> string + baseline" where
  "plain_unmarshal t =
     (case read_strs (Suc (length t)) t of
        None \<Rightarrow> Inl ''not a list of strings''
      | Some ss \<Rightarrow>
          (case entries_of_strs ss of
             None \<Rightarrow> Inl ''not a list of entries''
           | Some es \<Rightarrow> Inr \<lparr>b_SchemaVersion = baselineSchemaVersion, b_Entries = es\<rparr>))"

lemma nat_digits_no: "c \<notin> set digits \<Longrightarrow> c \<notin> set (nat_digits n)"
  using set_nat_digits by blast

lemma read_write_str: "read_str (write_str s @ r) = Some (s, r)"
proof -
  have "cut '':'' (nat_digits (length s) @ CHR '':'' # (s @ r)) = Some (nat_digits (length s), s @ r)"
    by (rule cut_char) (rule nat_digits_no, simp add: digits_def)
  then show ?thesis by (simp add: read_str_def write_str_def digits_val_nat_digits)
qed

lemma write_str_long: "\<exists>a b t. write_str s = a # b # t"
  by (cases "nat_digits (length s)") (auto simp: write_str_def neq_Nil_conv intro: list.exhaust)

lemma read_write_strs: "length ss \<le> n \<Longrightarrow> read_strs (Suc n) (concat (map write_str ss) @ ''.'') = Some ss"
proof (induction ss arbitrary: n)
  case (Cons s ss)
  obtain a b t where "write_str s = a # b # t" using write_str_long by blast
  then have ne: "write_str s @ r \<noteq> ''.''" for r by simp
  obtain m where m: "n = Suc m" "length ss \<le> m" using Cons.prems by (cases n) auto
  show ?case
    using Cons.IH [OF m(2)] ne read_write_str
    by (simp add: m(1) read_strs.simps(2) [of "Suc m"] del: read_strs.simps)
qed simp

lemma read_itoa: "read_int (itoa i) = i" "itoa i \<noteq> []"
  using hd_nat_digits [of "nat i"] digits_val_nat_digits [of "nat i"] digits_val_nat_digits [of "nat (- i)"]
  by (auto simp: read_int_def itoa_def)

lemma entries_of_entry_strs: "entries_of_strs (concat (map entry_strs es)) = Some es"
  by (induction es) (auto simp: entry_strs_def read_itoa split: option.split)

lemma length_write_strs: "length ss \<le> length (concat (map write_str ss))"
proof (induction ss)
  case (Cons s ss)
  obtain a b t where "write_str s = a # b # t" using write_str_long by blast
  with Cons show ?case by simp
qed simp

lemma plain_marshal_visible: "trim_space (plain_marshal b) \<noteq> []"
proof -
  have "trim_space ([] @ (plain_marshal b) @ []) = plain_marshal b"
  proof (rule trim_space_within)
    have "no_space_byte c" if "c \<in> set digits" for c
      using that by (auto simp: digits_def no_space_byte_def ascii_space_def multi_spaces_def)
    moreover have "hd (plain_marshal b) \<in> insert (CHR ''.'') (set digits)"
    proof (cases "b_Entries b")
      case (Cons e es)
      obtain c d where "nat_digits (length (b_ID e)) = c # d" using hd_nat_digits by blast
      with Cons set_nat_digits [of "length (b_ID e)"] show ?thesis
        by (auto simp: plain_marshal_def write_str_def entry_strs_def)
    qed (simp add: plain_marshal_def)
    moreover have "no_space_byte (CHR ''.'')"
      by (simp add: no_space_byte_def ascii_space_def multi_spaces_def)
    ultimately show "trimmed (plain_marshal b)" by (auto simp: trimmed_def plain_marshal_def)
  qed simp_all
  then show ?thesis by (simp add: plain_marshal_def)
qed

lemma plain_codec: "baseline_validate b = None \<Longrightarrow> plain_unmarshal (plain_marshal b) = Inr b"
proof -
  let ?ss = "concat (map entry_strs (b_Entries b))"
  assume "baseline_validate b = None"
  then have "b_SchemaVersion b = baselineSchemaVersion"
    by (simp add: baseline_validate_None baselineSchemaVersion_def)
  moreover have "read_strs (Suc (length (plain_marshal b))) (plain_marshal b) = Some ?ss"
    using read_write_strs [of ?ss "length (plain_marshal b)"] length_write_strs [of ?ss]
    by (simp add: plain_marshal_def del: read_strs.simps)
  ultimately show ?thesis by (simp add: plain_unmarshal_def entries_of_entry_strs del: read_strs.simps)
qed

definition plain_env :: baseline_env where
  "plain_env = \<lparr>be_marshal = plain_marshal, be_unmarshal = plain_unmarshal, be_json = (\<lambda>_. Inl ''no JSON''),
     be_sha = (\<lambda>_. replicate 64 (CHR ''0'')), be_now = 5, be_format_time = itoa, be_user = ''ann'',
     be_username = [], be_dir = Inr ''/p'', be_save_error = None\<rparr>"

lemma plain_codec_ok: "codec_ok plain_env"
  by (simp add: codec_ok_def plain_env_def plain_codec plain_marshal_visible)

lemma plain_env_ok: "env_ok plain_env"
proof -
  have "IsValidFingerprint (replicate 64 (CHR ''0''))" by code_simp
  then show ?thesis using plain_codec_ok unfolding env_ok_def by (simp add: plain_env_def)
qed

definition plain_add :: add_flags where
  "plain_add = \<lparr>ad_ID = ''e1'', ad_Reason = ''known'', ad_Expires = [], ad_CreatedBy = [], ad_Fingerprint = []\<rparr>"

text \<open>
  C8: Starting without a baseline file, after any sequence of baseline commands, run by any users at
  any times, with any arguments, whether they succeed or fail and whether or not their writes do,
  the file is absent, or it loads and holds a valid baseline with one entry per finding and
  fingerprint, in sorted order.
\<close>

theorem baseline_file_always_loads:
  assumes "(baseline_step (be_marshal w) (be_unmarshal w))\<^sup>*\<^sup>* NoFile f" "codec_ok w"
  shows "f = NoFile \<or>
    (\<exists>b. Baseline_Load w f = Inr b \<and> baseline_validate b = None \<and> distinct_keys b \<and>
       sorted_by entryBefore (b_Entries b))"
proof -
  have "file_inv (be_marshal w) f"
    using baseline_file.inv_steps [OF assms(1)] by (simp add: file_inv_def)
  then show ?thesis
    using load_saved [OF assms(2)] saved_form_sound saved_form_sorted
    unfolding file_inv_def sound_baseline_def by blast
qed

theorem baseline_file_always_loads_witness:
  "\<exists>b. Baseline_Load plain_env (snd (run_baseline_command (CmdAdd plain_add) plain_env NoFile)) = Inr b \<and>
     baseline_validate b = None \<and> distinct_keys b \<and> sorted_by entryBefore (b_Entries b)"
proof -
  let ?f = "snd (run_baseline_command (CmdAdd plain_add) plain_env NoFile)"
  have "(baseline_step (be_marshal plain_env) (be_unmarshal plain_env))\<^sup>*\<^sup>* NoFile ?f"
    using plain_env_ok unfolding baseline_step_def by (intro r_into_rtranclp) blast
  moreover have "?f \<noteq> NoFile" by code_simp
  ultimately show ?thesis using baseline_file_always_loads [OF _ plain_codec_ok] by blast
qed

section \<open>Accepting a finding\<close>

lemma ApplyBaseline_hides:
  assumes "e \<in> set (ActiveEntries (Some b) now)" "\<not> pl_IncludeHidden p"
    and "if b_Fingerprint e = [] then b_ID e = f_ID g else b_Fingerprint e = Fingerprint sha g"
  shows "IsHidden sha g (ApplyBaseline p (Some b) now)"
proof -
  have "suppressed sha g (ApplyBaseline p (Some b) now)"
    using assms(1,3) foldl_apply_adds [OF assms(1), of p]
    by (auto simp: suppressed_def ApplyBaseline_def split: if_splits)
  then show ?thesis using assms(2) by (simp add: IsHidden_cases ApplyBaseline_def)
qed

definition accepted_entry :: "baseline_env \<Rightarrow> add_flags \<Rightarrow> baseline_entry" where
  "accepted_entry w fl =
     \<lparr>b_ID = to_upper (trim_space (ad_ID fl)), b_Reason = trim_space (ad_Reason fl),
      b_ExpiresAt = None, b_CreatedAt = be_now w, b_CreatedBy = added_by w fl,
      b_Fingerprint = trim_space (ad_Fingerprint fl)\<rparr>"

lemma baseline_add_Inr:
  assumes "fst (baseline_add fl w f) = Inr out" "ad_Expires fl = []" "Baseline_Load w f = Inr b"
  shows "\<exists>b' up. Baseline_Add (be_now w) (Some b) (accepted_entry w fl) = Inr (b', up) \<and>
    snd (baseline_add fl w f) = File_text (be_marshal w (saved_form b'))"
proof -
  obtain r where "be_dir w = Inr r" and e: "trim_space (ad_ID fl) \<noteq> []" "trim_space (ad_Reason fl) \<noteq> []"
      "trim_space (ad_Fingerprint fl) = [] \<or> IsValidFingerprint (trim_space (ad_Fingerprint fl))"
    using assms(1) by (auto simp: baseline_add_def Let_def in_project_def split: if_splits sum.splits)
  then show ?thesis
    using assms
    by (cases "Baseline_Add (be_now w) (Some b) (accepted_entry w fl)")
      (auto simp: baseline_add_def Let_def in_project_def accepted_entry_def save_and_def Baseline_Save_def
        saved_form_def split: option.splits)
qed

lemma baseline_map_saved_form:
  assumes "distinct_keys b" shows "baseline_map (saved_form b) = baseline_map b"
proof -
  have d: "distinct (map entry_key (b_Entries b))" using assms by (simp add: distinct_keys_def)
  have m: "mset (b_Entries (saved_form b)) = mset (b_Entries b)" by (simp add: saved_form_def Save_entries_def)
  then have "mset (map entry_key (b_Entries (saved_form b))) = mset (map entry_key (b_Entries b))" by simp
  from mset_eq_imp_distinct_iff [OF this] d have "distinct (map entry_key (b_Entries (saved_form b)))" by simp
  with d mset_eq_setD [OF m] show ?thesis
    by (simp add: keyed_map_def map_of_inject_set comp_def)
qed

lemma baseline_map_Some: "baseline_map b k = Some e \<Longrightarrow> e \<in> set (b_Entries b)"
  by (auto simp: keyed_map_def dest: map_of_SomeD)

lemma stored_accepted:
  "b_ExpiresAt (stored_entry now (accepted_entry w fl)) = None"
  "entry_key (stored_entry now (accepted_entry w fl)) = (to_upper (trim_space (ad_ID fl)), trim_space (ad_Fingerprint fl))"
  by (simp_all add: stored_entry_def normalize_entry_def accepted_entry_def entry_key_def trim_space_upper Let_def)

text \<open>
  C33: When \<open>baseline add\<close> reports success for an entry without expiry, on a baseline that has no two entries
  for one finding and fingerprint, the file afterwards loads to the former baseline updated at exactly
  that finding and fingerprint, and every later scan that does not include hidden findings hides those
  the entry names.
\<close>

theorem baseline_add_accepts_finding:
  assumes "env_ok w" "Baseline_Load w f = Inr b" "distinct_keys b" "ad_Expires fl = []"
    and "fst (baseline_add fl w f) = Inr out"
  shows "\<exists>b' e. Baseline_Load w (snd (baseline_add fl w f)) = Inr b' \<and>
    entry_key e = (to_upper (trim_space (ad_ID fl)), trim_space (ad_Fingerprint fl)) \<and>
    baseline_map b' = (baseline_map b)(entry_key e \<mapsto> e) \<and>
    (\<forall>g p now. \<not> pl_IncludeHidden p \<and>
       (if trim_space (ad_Fingerprint fl) = [] then f_ID g = to_upper (trim_space (ad_ID fl))
        else Fingerprint (be_sha w) g = trim_space (ad_Fingerprint fl)) \<longrightarrow>
       IsHidden (be_sha w) g (ApplyBaseline p (Some b') now))"
proof -
  define e where "e = stored_entry (be_now w) (accepted_entry w fl)"
  have now: "be_now w \<noteq> 0" and cod: "codec_ok w" using assms(1) by (simp_all add: env_ok_def)
  have sound: "sound_baseline b" using Load_valid [OF assms(2)] assms(3) by (simp add: sound_baseline_def)
  obtain c up where c: "Baseline_Add (be_now w) (Some b) (accepted_entry w fl) = Inr (c, up)"
    and out: "snd (baseline_add fl w f) = File_text (be_marshal w (saved_form c))"
    using baseline_add_Inr [OF assms(5,4,2)] by blast
  have sc: "sound_baseline c" using sound_add [OF sound now c] .
  have "with_schema b = b"
    using sound by (simp add: with_schema_def sound_baseline_def baseline_validate_None baselineSchemaVersion_def)
  then have "c = put_entry e b" using c by (simp add: Baseline_Add_Inr e_def)
  then have map_c: "baseline_map c = (baseline_map b)(entry_key e \<mapsto> e)"
    using bl.map_put assms(3) by (simp add: distinct_keys_def)
  then have "baseline_map c (entry_key e) = Some e" by simp
  then have mem: "e \<in> set (b_Entries c)" by (rule baseline_map_Some)
  have key: "entry_key e = (to_upper (trim_space (ad_ID fl)), trim_space (ad_Fingerprint fl))"
    and exp: "b_ExpiresAt e = None" by (simp_all add: e_def stored_accepted)
  have hides: "IsHidden (be_sha w) g (ApplyBaseline p (Some (saved_form c)) n)"
    if "\<not> pl_IncludeHidden p" "if trim_space (ad_Fingerprint fl) = [] then f_ID g = to_upper (trim_space (ad_ID fl))
        else Fingerprint (be_sha w) g = trim_space (ad_Fingerprint fl)" for g p n
  proof (rule ApplyBaseline_hides [OF _ that(1)])
    show "e \<in> set (ActiveEntries (Some (saved_form c)) n)"
      using mem exp by (simp add: ActiveEntries_def saved_form_def Save_entries_def expired_def)
    show "if b_Fingerprint e = [] then b_ID e = f_ID g else b_Fingerprint e = Fingerprint (be_sha w) g"
      using that(2) key by (auto simp: entry_key_def split: if_splits)
  qed
  have "baseline_map (saved_form c) = (baseline_map b)(entry_key e \<mapsto> e)"
    using baseline_map_saved_form [of c] sc map_c by (simp add: sound_baseline_def)
  then show ?thesis
    using load_saved [OF cod, of c] sc key out hides
    by (intro exI [of _ "saved_form c"] exI [of _ e]) (simp add: sound_baseline_def)
qed

theorem baseline_add_accepts_finding_witness:
  "\<exists>b' e. Baseline_Load plain_env (snd (baseline_add plain_add plain_env NoFile)) = Inr b' \<and>
    entry_key e = (''E1'', []) \<and> baseline_map b' = (baseline_map empty_baseline)(entry_key e \<mapsto> e) \<and>
    (\<forall>g p now. \<not> pl_IncludeHidden p \<and> f_ID g = ''E1'' \<longrightarrow>
       IsHidden (be_sha plain_env) g (ApplyBaseline p (Some b') now))"
proof -
  have l: "Baseline_Load plain_env NoFile = Inr empty_baseline" by (simp add: Baseline_Load_def)
  have i: "to_upper (trim_space (ad_ID plain_add)) = ''E1''" "trim_space (ad_Fingerprint plain_add) = []" by code_simp+
  have "fst (baseline_add plain_add plain_env NoFile) = Inr [Out ''Added entry for E1 (match: id) to baseline.'']"
    by code_simp
  from baseline_add_accepts_finding [OF plain_env_ok l _ _ this] i show ?thesis
    by (simp add: distinct_keys_def empty_baseline_def plain_add_def)
qed

end
