(* ===== verification/Saved_Runs.thy ===== *)
theory Saved_Runs
  imports Schema Go_Path Sorting_Go
begin

text \<open>
  \<open>internal/artifact/artifact.go\<close> and what \<open>internal/cli\<close> does with it: where the runs of a project
  are kept, how a run is found again, and how its report is saved and loaded. \<open>run_world\<close> is what these
  functions see of the file system: contents and modification times by path, symbolic links, the
  entries of directories as \<open>os.ReadDir\<close> lists them, the working directory and the home directory,
  an error being a text. The JSON codec is a parameter. Permissions are not modelled.
\<close>

section \<open>Paths of runs\<close>

definition RunsDir :: "string \<Rightarrow> string" where
  "RunsDir base = Join2 base ''.devdiag/runs''"

definition RunDir :: "string \<Rightarrow> string \<Rightarrow> string" where
  "RunDir base runID = Join2 (RunsDir base) runID"

definition LatestLink :: "string \<Rightarrow> string" where
  "LatestLink base = Join2 (RunsDir base) ''latest''"

definition ValidateRunID :: "string \<Rightarrow> string option" where
  "ValidateRunID i =
     (if i = [] then Some ''run ID is empty''
      else if (\<exists>c \<in> set i. c \<in> set [CHR ''/'', CHR 0x5C, CHR ''.'']) \<or> i = ''latest''
      then Some (''invalid run ID: '' @ i) else None)"

text \<open>\<open>ts\<close> is the formatted time; the suffix are four random bytes, or digits of the clock.\<close>

definition hex_char :: "nat \<Rightarrow> char" where
  "hex_char n = ''0123456789abcdef'' ! (n mod 16)"

definition hex_byte :: "nat \<Rightarrow> string" where
  "hex_byte b = [hex_char (b div 16), hex_char b]"

fun hex_nat :: "nat \<Rightarrow> nat \<Rightarrow> string" where
  "hex_nat 0 n = []"
| "hex_nat (Suc k) n = hex_nat k (n div 16) @ [hex_char n]"

definition generateRunID :: "string \<Rightarrow> nat list option \<Rightarrow> nat \<Rightarrow> string" where
  "generateRunID ts random nanos =
     (case random of
        None \<Rightarrow> ts @ ''_'' @ hex_nat 4 (nanos mod 65535)
      | Some bs \<Rightarrow> ts @ ''_'' @ concat (map hex_byte bs))"

section \<open>The world\<close>

record run_entry =
  rn_Name :: string
  rn_IsDir :: bool
  rn_ModTime :: "time option"

record run_world =
  rw_files :: "string \<Rightarrow> string + string \<times> time"
  rw_links :: "string \<rightharpoonup> string"
  rw_entries :: "string \<Rightarrow> string + run_entry list"
  rw_exists :: "string \<Rightarrow> bool"
  rw_cwd :: "string + string"
  rw_home :: "string + string"

definition Abs :: "run_world \<Rightarrow> string \<Rightarrow> string + string" where
  "Abs w p =
     (if IsAbs p then Inr (Clean p)
      else case rw_cwd w of Inl e \<Rightarrow> Inl e | Inr d \<Rightarrow> Inr (Join2 d p))"

definition ErrNoRunsFound :: string where
  "ErrNoRunsFound = ''no .devdiag/runs directory found in ancestors''"

text \<open>The loop over the parents; \<open>None\<close> would be a loop that does not end.\<close>

partial_function (option) discover :: "(string \<Rightarrow> bool) \<Rightarrow> string \<Rightarrow> string option option" where
  "discover ex d =
     (if ex (RunsDir d) then Some (Some d)
      else if Dir d = d then Some None
      else discover ex (Dir d))"

definition DiscoverBase :: "run_world \<Rightarrow> string \<Rightarrow> (string + string) option" where
  "DiscoverBase w start =
     (case Abs w start of
        Inl e \<Rightarrow> Some (Inl e)
      | Inr p \<Rightarrow> (case discover (rw_exists w) p of
                   None \<Rightarrow> None
                 | Some None \<Rightarrow> Some (Inl ErrNoRunsFound)
                 | Some (Some b) \<Rightarrow> Some (Inr b)))"

section \<open>The latest run\<close>

definition newest_step :: "(string \<times> time) option \<Rightarrow> run_entry \<Rightarrow> (string \<times> time) option" where
  "newest_step best e =
     (if \<not> rn_IsDir e \<or> ValidateRunID (rn_Name e) \<noteq> None then best
      else case rn_ModTime e of
             None \<Rightarrow> best
           | Some t \<Rightarrow> (case best of
                         None \<Rightarrow> Some (rn_Name e, t)
                       | Some (i, u) \<Rightarrow> if t > u then Some (rn_Name e, t) else best))"

definition FindLatestRunID :: "run_world \<Rightarrow> string \<Rightarrow> string + string" where
  "FindLatestRunID w base =
     (let runs = RunsDir base in
      case rw_links w (LatestLink base) of
        Some target \<Rightarrow>
          (case (if IsAbs target
                 then (case Rel runs target of
                         None \<Rightarrow> Inl (''latest symlink points outside runs dir: '' @ target)
                       | Some rel \<Rightarrow>
                           if has_prefix rel ''..'' \<or> IsAbs rel
                           then Inl (''latest symlink points outside runs dir: '' @ target) else Inr rel)
                 else Inr target) of
             Inl e \<Rightarrow> Inl e
           | Inr targetID \<Rightarrow>
               (case ValidateRunID targetID of
                  Some e \<Rightarrow> Inl (''invalid run ID in latest symlink: '' @ e)
                | None \<Rightarrow> Inr targetID))
      | None \<Rightarrow>
          (case rw_entries w runs of
             Inl e \<Rightarrow> Inl e
           | Inr es \<Rightarrow>
               (case foldl newest_step None es of
                  None \<Rightarrow> Inl (''no valid runs found in '' @ runs)
                | Some (i, t) \<Rightarrow> Inr i)))"

section \<open>Saving and loading reports\<close>

record report_codec =
  rc_marshal :: "report \<Rightarrow> string + string"
  rc_unmarshal :: "string \<Rightarrow> string + report"

text \<open>How the calls of one save end: a failed write may leave a part of the text.\<close>

datatype save_calls = Mkdir_fails string | Write_fails string "string option" | Calls_ok

text \<open>What creating a run's directory, or a file in it, does to the entries of the runs.\<close>

definition touch_run :: "string \<Rightarrow> time \<Rightarrow> run_entry list \<Rightarrow> run_entry list" where
  "touch_run i now es =
     (if i \<in> rn_Name ` set es
      then map (\<lambda>e. if rn_Name e = i then e\<lparr>rn_ModTime := Some now\<rparr> else e) es
      else insort_key rn_Name \<lparr>rn_Name = i, rn_IsDir = True, rn_ModTime = Some now\<rparr> es)"

definition made_run :: "string \<Rightarrow> string \<Rightarrow> time \<Rightarrow> run_world \<Rightarrow> run_world" where
  "made_run base i now w =
     (let runs = RunsDir base;
          es = (case rw_entries w runs of Inl _ \<Rightarrow> [] | Inr es \<Rightarrow> es)
      in w\<lparr>rw_entries := (rw_entries w)(runs := Inr (if i \<in> rn_Name ` set es then es else touch_run i now es)),
           rw_exists := (rw_exists w)(runs := True, RunDir base i := True)\<rparr>)"

definition wrote_report :: "string \<Rightarrow> string \<Rightarrow> string \<Rightarrow> time \<Rightarrow> run_world \<Rightarrow> run_world" where
  "wrote_report base i data now w =
     (let p = Join2 (RunDir base i) ''report.json''; runs = RunsDir base;
          es = (case rw_entries w runs of Inl _ \<Rightarrow> [] | Inr es \<Rightarrow> es)
      in w\<lparr>rw_files := (rw_files w)(p := Inr (data, now)),
           rw_entries := (rw_entries w)(runs := Inr (case rw_files w p of Inl _ \<Rightarrow> touch_run i now es | Inr _ \<Rightarrow> es)),
           rw_exists := (rw_exists w)(p := True)\<rparr>)"

definition persistReport ::
  "report_codec \<Rightarrow> save_calls \<Rightarrow> time \<Rightarrow> string \<Rightarrow> report \<Rightarrow> run_world \<Rightarrow> (string + unit) \<times> run_world" where
  "persistReport codec calls now base0 r w =
     (let base = (if base0 = [] then ''.'' else base0); i = r_RunID r in
      case calls of
        Mkdir_fails e \<Rightarrow> (Inl (''create runs dir: '' @ e), w)
      | _ \<Rightarrow>
          (let w = made_run base i now w in
           case rc_marshal codec r of
             Inl e \<Rightarrow> (Inl (''marshal report: '' @ e), w)
           | Inr data \<Rightarrow>
               (case calls of
                  Write_fails e left \<Rightarrow>
                    (Inl (''write report: '' @ e),
                     case left of None \<Rightarrow> w | Some part \<Rightarrow> wrote_report base i part now w)
                | _ \<Rightarrow> (Inr (), wrote_report base i data now w))))"

definition expandTildeAndAbs :: "run_world \<Rightarrow> string \<Rightarrow> string + string" where
  "expandTildeAndAbs w path =
     (let p = trim_space path in
      if has_prefix p ''~/''
      then (case rw_home w of
              Inl e \<Rightarrow> Inl (''unable to resolve home directory: '' @ e)
            | Inr h \<Rightarrow> Abs w (Join2 h (drop 2 p)))
      else if p = ''~''
      then (case rw_home w of
              Inl e \<Rightarrow> Inl (''unable to resolve home directory: '' @ e)
            | Inr h \<Rightarrow> Abs w h)
      else Abs w p)"

definition rooted_report :: "run_world \<Rightarrow> report \<Rightarrow> report" where
  "rooted_report w r =
     (if r_RepoRoot r \<noteq> [] \<and> \<not> IsAbs (r_RepoRoot r)
      then (case expandTildeAndAbs w (r_RepoRoot r) of Inl _ \<Rightarrow> r | Inr a \<Rightarrow> r\<lparr>r_RepoRoot := a\<rparr>)
      else r)"

definition loadReportFile :: "report_codec \<Rightarrow> run_world \<Rightarrow> string \<Rightarrow> string + report" where
  "loadReportFile codec w path =
     (case rw_files w path of
        Inl e \<Rightarrow> Inl (''read report file: '' @ e)
      | Inr (data, t) \<Rightarrow>
          (case rc_unmarshal codec data of
             Inl e \<Rightarrow> Inl (''parse report JSON: '' @ e)
           | Inr r \<Rightarrow> Inr (rooted_report w r)))"

definition resolveReportFromRunID :: "report_codec \<Rightarrow> run_world \<Rightarrow> string \<Rightarrow> string \<Rightarrow> string + report" where
  "resolveReportFromRunID codec w base runID =
     (case ValidateRunID runID of
        Some e \<Rightarrow> Inl (''invalid run ID: '' @ e)
      | None \<Rightarrow> loadReportFile codec w (Join2 (RunDir base runID) ''report.json''))"

definition resolveLatestReport :: "report_codec \<Rightarrow> run_world \<Rightarrow> string \<Rightarrow> string + report \<times> string" where
  "resolveLatestReport codec w base =
     (case FindLatestRunID w base of
        Inl e \<Rightarrow> Inl (''find latest run ID: '' @ e)
      | Inr latestID \<Rightarrow>
          (case loadReportFile codec w (Join2 (RunDir base latestID) ''report.json'') of
             Inl e \<Rightarrow> Inl e
           | Inr r \<Rightarrow> Inr (r, latestID)))"

text \<open>\<open>loadSavedReport\<close> of the \<open>issue\<close> command, which leaves the root as it is.\<close>

definition loadSavedReport :: "report_codec \<Rightarrow> run_world \<Rightarrow> string \<Rightarrow> string \<Rightarrow> string + report" where
  "loadSavedReport codec w base runID =
     (case rw_files w (Join2 (RunDir base runID) ''report.json'') of
        Inl e \<Rightarrow> Inl (''read saved report: '' @ e)
      | Inr (data, t) \<Rightarrow>
          (case rc_unmarshal codec data of
             Inl e \<Rightarrow> Inl (''parse saved report: '' @ e)
           | Inr r \<Rightarrow> Inr r))"

text \<open>\<open>os.Stat\<close> of a directory argument.\<close>

datatype path_stat = Not_exist | Stat_fails string | Is_dir | Not_dir

definition resolveExistingDirectory :: "run_world \<Rightarrow> (string \<Rightarrow> path_stat) \<Rightarrow> string \<Rightarrow> string + string" where
  "resolveExistingDirectory w stat path0 =
     (let path = (if trim_space path0 = [] then ''.'' else path0) in
      case Abs w path of
        Inl e \<Rightarrow> Inl (''resolve path: '' @ e)
      | Inr absPath \<Rightarrow>
          (case stat absPath of
             Not_exist \<Rightarrow> Inl (''path does not exist: '' @ absPath)
           | Stat_fails e \<Rightarrow> Inl (''stat path '' @ absPath @ '': '' @ e)
           | Not_dir \<Rightarrow> Inl (''path is not a directory: '' @ absPath)
           | Is_dir \<Rightarrow> Inr absPath))"

section \<open>Run identifiers\<close>

definition safe_char :: "char \<Rightarrow> bool" where
  "safe_char c \<longleftrightarrow> c \<notin> set [CHR ''/'', CHR 0x5C, CHR ''.'']"

lemma ValidateRunID_None: "ValidateRunID i = None \<longleftrightarrow> i \<noteq> [] \<and> (\<forall>c \<in> set i. safe_char c) \<and> i \<noteq> ''latest''"
  by (auto simp: ValidateRunID_def safe_char_def)

lemma ValidateRunID_elem: assumes "ValidateRunID i = None" shows "down_elem i"
proof -
  have i: "i \<noteq> []" "\<forall>c \<in> set i. safe_char c" using assms by (simp_all add: ValidateRunID_None)
  have "\<not> safe_char (CHR ''/'')" "\<not> safe_char (CHR ''.'')" by (simp_all add: safe_char_def)
  with i(2) have n: "CHR ''/'' \<notin> set i" "CHR ''.'' \<notin> set i" by blast+
  then have "i \<noteq> ''.''" "i \<noteq> ''..''" by (metis list.set_intros(1))+
  with i(1) n(1) show ?thesis by (simp add: down_elem_def path_elem_def)
qed

lemma path_elems_single: "down_elem i \<Longrightarrow> path_elems i = [i]"
  using path_elems_join [of "[i]"] by (simp add: down_elem_def)

lemma RunsDir_abs: "IsAbs base \<Longrightarrow> IsAbs (RunsDir base) \<and> Clean (RunsDir base) = RunsDir base"
  using Join2_abs [of base "''.devdiag/runs''"] Clean_Clean by (auto simp: RunsDir_def)

lemma RunDir_elems:
  assumes "IsAbs base" "ValidateRunID i = None"
  shows "path_elems (RunDir base i) = path_elems (RunsDir base) @ [i]"
proof -
  have "down_elem i" using ValidateRunID_elem [OF assms(2)] .
  then have "path_elems i = [i]" "''..'' \<noteq> i" "i \<noteq> []" by (auto simp: path_elems_single down_elem_def path_elem_def)
  then show ?thesis
    unfolding RunDir_def using RunsDir_abs [OF assms(1)] by (subst Join2_below) auto
qed

lemma hex_char_safe [simp]: "safe_char (hex_char n)"
proof -
  have "\<forall>n \<in> set [0..<16]. safe_char (''0123456789abcdef'' ! n)" by code_simp
  moreover have "n mod 16 < 16" by simp
  ultimately show ?thesis by (simp add: hex_char_def del: upt_rec_numeral)
qed

lemma hex_nat_safe: "c \<in> set (hex_nat k n) \<Longrightarrow> safe_char c"
  by (induction k n rule: hex_nat.induct) auto

lemma generateRunID_valid:
  assumes "\<forall>c \<in> set ts. safe_char c" "ts = [] \<or> hd ts \<noteq> CHR ''l''"
  shows "ValidateRunID (generateRunID ts random nanos) = None"
proof -
  have "safe_char CHR ''_''" by (simp add: safe_char_def)
  moreover have "generateRunID ts random nanos \<noteq> ''latest''"
    using assms(2) by (cases ts) (auto simp: generateRunID_def split: option.split)
  ultimately show ?thesis
    using assms(1) by (auto simp: ValidateRunID_None generateRunID_def hex_byte_def split: option.splits dest: hex_nat_safe)
qed

section \<open>Discovery\<close>

definition dir_of :: "string list \<Rightarrow> string" where
  "dir_of es = ''/'' @ join ''/'' es"

lemma dir_of_elems: "\<forall>e \<in> set es. down_elem e \<Longrightarrow> path_elems (dir_of es) = es"
proof -
  assume "\<forall>e \<in> set es. down_elem e"
  then have "path_elems ([] @ ''/'' @ join ''/'' es) = es"
    unfolding path_elems_append by (subst path_elems_join) (auto simp: down_elem_def)
  then show ?thesis by (simp add: dir_of_def)
qed

lemma dir_of_Clean:
  assumes "IsAbs p" "path_elems p = es" "\<forall>e \<in> set es. down_elem e" shows "Clean p = dir_of es"
  using assms clean_elems_id [of es True "[]"] by (auto simp: Clean_def dir_of_def down_elem_def)

lemma Clean_dir_of: "IsAbs p \<Longrightarrow> Clean p = dir_of (path_elems (Clean p)) \<and> (\<forall>e \<in> set (path_elems (Clean p)). down_elem e)"
  using Clean_abs [of p] clean_abs_elems [of p] by (auto simp: dir_of_def)

lemma Dir_dir_of:
  assumes "\<forall>e \<in> set (es @ [e]). down_elem e" shows "Dir (dir_of (es @ [e])) = dir_of es"
proof -
  obtain q where q: "dir_of (es @ [e]) = q @ ''/'' @ e" "path_elems q = es" "q = [] \<or> IsAbs q"
  proof (cases "es = []")
    case False
    show ?thesis
    proof (rule that [of "dir_of es"])
      show "dir_of (es @ [e]) = dir_of es @ ''/'' @ e" using False by (simp add: dir_of_def join_append)
      show "path_elems (dir_of es) = es" using assms by (intro dir_of_elems) simp
    qed (simp add: dir_of_def IsAbs_hd)
  qed (auto simp: dir_of_def intro: that [of "[]"])
  have "CHR ''/'' \<notin> set e" using assms by (simp add: down_elem_def path_elem_def)
  then have "\<forall>c \<in> set (rev e). c \<noteq> CHR ''/''" by auto
  then have "dropWhile (\<lambda>c. c \<noteq> CHR ''/'') (rev e @ CHR ''/'' # rev q) = CHR ''/'' # rev q"
    by (subst dropWhile_append2) auto
  then have "Dir (dir_of (es @ [e])) = Clean (q @ ''/'')" by (simp add: Dir_def q(1))
  also have "\<dots> = dir_of es"
  proof (rule dir_of_Clean)
    show "IsAbs (q @ ''/'')" using q(3) by (auto simp: IsAbs_hd)
    show "path_elems (q @ ''/'') = es" using path_elems_append [of q "[]"] q(2) by simp
    show "\<forall>e \<in> set es. down_elem e" using assms by simp
  qed
  finally show ?thesis .
qed

lemma Dir_root: "Dir (dir_of []) = dir_of []"
  by code_simp

lemma discover_nearest:
  "\<forall>e \<in> set es. down_elem e \<Longrightarrow>
   discover ex (dir_of es) = Some (find (\<lambda>d. ex (RunsDir d)) (map dir_of (rev (prefixes es))))"
proof (induction es rule: rev_induct)
  case Nil
  then show ?case by (subst discover.simps) (simp add: Dir_root)
next
  case (snoc e es)
  have "dir_of es \<noteq> dir_of (es @ [e])"
    using dir_of_elems [of es] dir_of_elems [of "es @ [e]"] snoc.prems by (metis append_self_conv not_Cons_self2 butlast_snoc in_set_butlastD)
  then show ?case
    using snoc by (subst discover.simps) (simp add: Dir_dir_of prefixes_snoc)
qed

lemma Abs_clean:
  assumes "Abs w p = Inr a" "\<And>d. rw_cwd w = Inr d \<Longrightarrow> IsAbs d"
  shows "a = dir_of (path_elems a) \<and> (\<forall>e \<in> set (path_elems a). down_elem e)"
proof -
  obtain q where "IsAbs q" "a = Clean q"
    using assms Join2_abs by (auto simp: Abs_def split: if_splits sum.splits)
  then show ?thesis using Clean_dir_of by simp
qed

text \<open>
  From any starting point the search for the saved runs ends, and it finds the nearest directory
  above with a directory of runs, the starting point included, or reports that there is none.
\<close>

theorem DiscoverBase_nearest:
  assumes "rw_cwd w = Inr d" "IsAbs d" "Abs w start = Inr p"
  shows "DiscoverBase w start =
    Some (case find (\<lambda>d. rw_exists w (RunsDir d)) (map dir_of (rev (prefixes (path_elems p)))) of
            None \<Rightarrow> Inl ErrNoRunsFound | Some b \<Rightarrow> Inr b)"
proof -
  have "p = dir_of (path_elems p)" "\<forall>e \<in> set (path_elems p). down_elem e"
    using Abs_clean [OF assms(3)] assms(1,2) by auto
  with discover_nearest [of "path_elems p" "rw_exists w"]
  have "discover (rw_exists w) p = Some (find (\<lambda>d. rw_exists w (RunsDir d)) (map dir_of (rev (prefixes (path_elems p)))))"
    by simp
  then show ?thesis using assms(3) by (simp add: DiscoverBase_def split: option.split)
qed

section \<open>The latest run\<close>

definition candidate :: "run_entry \<Rightarrow> time \<Rightarrow> bool" where
  "candidate e t \<longleftrightarrow> rn_IsDir e \<and> ValidateRunID (rn_Name e) = None \<and> rn_ModTime e = Some t"

lemma newest_step_candidate:
  "newest_step best e =
     (if \<exists>t. candidate e t \<and> (\<forall>i u. best = Some (i, u) \<longrightarrow> t > u)
      then Some (rn_Name e, the (rn_ModTime e)) else best)"
  by (auto simp: newest_step_def candidate_def split: option.splits)

definition newest_of :: "run_entry list \<Rightarrow> (string \<times> time) option \<Rightarrow> bool" where
  "newest_of es b \<longleftrightarrow>
     (case b of
        None \<Rightarrow> \<forall>e \<in> set es. \<forall>t. \<not> candidate e t
      | Some (i, u) \<Rightarrow> (\<exists>e \<in> set es. rn_Name e = i \<and> candidate e u) \<and> (\<forall>e \<in> set es. \<forall>t. candidate e t \<longrightarrow> t \<le> u))"

lemma candidate_fun: "candidate e t \<Longrightarrow> candidate e u \<Longrightarrow> t = u" "candidate e t \<Longrightarrow> the (rn_ModTime e) = t"
  by (simp_all add: candidate_def)

lemma newest_of_step:
  assumes "newest_of es b" shows "newest_of (es @ [e]) (newest_step b e)"
proof (cases "\<exists>t. candidate e t")
  case True
  then obtain t where t: "candidate e t" by blast
  have only: "candidate e u \<longleftrightarrow> u = t" for u using t candidate_fun(1) by blast
  show ?thesis
  proof (cases b)
    case None
    with assms t only show ?thesis by (auto simp: newest_of_def newest_step_candidate candidate_fun(2) [OF t])
  next
    case (Some p)
    obtain i u where p: "p = (i, u)" by fastforce
    have s: "newest_step b e = (if t > u then Some (rn_Name e, t) else Some (i, u))"
      using Some p only by (auto simp: newest_step_candidate candidate_fun(2) [OF t])
    have le: "\<And>f v. f \<in> set es \<Longrightarrow> candidate f v \<Longrightarrow> v \<le> u" using assms Some p by (auto simp: newest_of_def)
    show ?thesis
    proof (cases "t > u")
      case True
      then have "\<And>f v. f \<in> set es \<Longrightarrow> candidate f v \<Longrightarrow> v \<le> t" using le by fastforce
      with True t only show ?thesis by (auto simp: s newest_of_def)
    next
      case False
      have ex: "\<exists>f \<in> set es. rn_Name f = i \<and> candidate f u" using assms Some p by (simp add: newest_of_def)
      have "v \<le> u" if "f \<in> set (es @ [e])" "candidate f v" for f v
        using le that False only by (cases "f \<in> set es") auto
      with ex False show ?thesis unfolding s newest_of_def by auto
    qed
  qed
next
  case False
  then have "newest_step b e = b" by (simp add: newest_step_candidate)
  with assms False show ?thesis by (auto simp: newest_of_def split: option.splits)
qed

lemma newest_spec: "newest_of es (foldl newest_step None es)"
  by (induction es rule: rev_induct) (use newest_of_step in \<open>auto simp: newest_of_def [of "[]"]\<close>)

lemma newest_is:
  assumes "e \<in> set es" "candidate e now" "\<And>f t. f \<in> set es \<Longrightarrow> candidate f t \<Longrightarrow> rn_Name f = rn_Name e \<or> t < now"
  shows "\<exists>t. foldl newest_step None es = Some (rn_Name e, t)"
proof (cases "foldl newest_step None es")
  case None
  with newest_spec [of es] assms(1,2) show ?thesis by (auto simp: newest_of_def)
next
  case (Some b)
  obtain i u where b: "b = (i, u)" by fastforce
  with newest_spec [of es] Some obtain f where "f \<in> set es" "rn_Name f = i" "candidate f u" "now \<le> u"
    using assms(1,2) by (auto simp: newest_of_def)
  with assms(3) have "i = rn_Name e" by fastforce
  with Some b show ?thesis by blast
qed

lemma FindLatestRunID_valid: "FindLatestRunID w base = Inr i \<Longrightarrow> ValidateRunID i = None"
proof (cases "rw_links w (LatestLink base)")
  case None
  assume a: "FindLatestRunID w base = Inr i"
  then obtain es t where "foldl newest_step None es = Some (i, t)"
    using None by (auto simp: FindLatestRunID_def Let_def split: sum.splits option.splits prod.splits)
  with newest_spec [of es] show ?thesis by (auto simp: newest_of_def candidate_def)
next
  case (Some target)
  assume "FindLatestRunID w base = Inr i"
  with Some show ?thesis
    by (auto simp: FindLatestRunID_def Let_def split: sum.splits option.splits if_splits)
qed

section \<open>Reports are found where they were saved\<close>

lemma Join2_dir_of:
  assumes "IsAbs d" "Clean d = d" "down_elem f" shows "Join2 d f = dir_of (path_elems d @ [f])"
proof -
  have f: "path_elems f = [f]" "f \<noteq> []" "f \<noteq> ''..''" using assms(3) path_elems_single by (auto simp: down_elem_def path_elem_def)
  obtain q where q: "IsAbs q" "Join2 d f = Clean q" using Join2_abs [OF assms(1)] by blast
  have "path_elems (Join2 d f) = path_elems d @ [f]" using Join2_below [OF assms(1,2)] f by simp
  with Clean_dir_of [OF q(1)] q(2) show ?thesis by simp
qed

lemma report_path:
  assumes "IsAbs base" "ValidateRunID i = None"
  shows "Join2 (RunDir base i) ''report.json'' = dir_of (path_elems (RunsDir base) @ [i, ''report.json''])"
proof -
  have runs: "IsAbs (RunsDir base)" "Clean (RunsDir base) = RunsDir base" using RunsDir_abs [OF assms(1)] by simp_all
  have run: "RunDir base i = dir_of (path_elems (RunsDir base) @ [i])"
    unfolding RunDir_def using Join2_dir_of [OF runs ValidateRunID_elem [OF assms(2)]] .
  have "IsAbs (RunDir base i)" "Clean (RunDir base i) = RunDir base i"
    using Join2_abs [OF runs(1), of i] Clean_Clean by (auto simp: RunDir_def)
  moreover have "down_elem ''report.json''" by (simp add: down_elem_def path_elem_def)
  ultimately show ?thesis using Join2_dir_of RunDir_elems [OF assms] by simp
qed

text \<open>
  C34: Whatever run identifier is given and whatever the link to the latest run says, a report that is
  found comes from the file \<open>report.json\<close> of a directory directly below the runs of the project.
\<close>

theorem saved_runs_contained:
  assumes "IsAbs base"
    and "resolveReportFromRunID codec w base i = Inr r \<or> resolveLatestReport codec w base = Inr (r, i)"
  shows "down_elem i \<and>
    (\<exists>data t r0. rw_files w (dir_of (path_elems (RunsDir base) @ [i, ''report.json''])) = Inr (data, t) \<and>
       rc_unmarshal codec data = Inr r0 \<and> r = rooted_report w r0)"
proof -
  have "ValidateRunID i = None \<and> loadReportFile codec w (Join2 (RunDir base i) ''report.json'') = Inr r"
    using assms(2) FindLatestRunID_valid [of w base]
    by (auto simp: resolveReportFromRunID_def resolveLatestReport_def split: option.splits sum.splits)
  then show ?thesis
    using report_path [OF assms(1)] ValidateRunID_elem [of i]
    by (auto simp: loadReportFile_def split: sum.splits)
qed

lemma RunsDir_here: "RunsDir [] = RunsDir ''.''"
  by code_simp

lemma runs_here:
  "RunsDir (if base = [] then ''.'' else base) = RunsDir base"
  "RunDir (if base = [] then ''.'' else base) i = RunDir base i"
  by (simp_all add: RunDir_def RunsDir_here)

lemma made_here:
  "made_run (if base = [] then ''.'' else base) i now w = made_run base i now w"
  "wrote_report (if base = [] then ''.'' else base) i data now w = wrote_report base i data now w"
  by (simp_all only: made_run_def wrote_report_def runs_here)

definition saved_entries :: "string \<Rightarrow> time \<Rightarrow> run_entry list \<Rightarrow> run_entry list" where
  "saved_entries i now es = touch_run i now (touch_run i now es)"

lemma persist_ok:
  assumes "persistReport codec calls now base r w = (Inr (), w')"
  obtains data where "rc_marshal codec r = Inr data"
    and "rw_files w' (Join2 (RunDir base (r_RunID r)) ''report.json'') = Inr (data, now)"
    and "rw_links w' = rw_links w"
    and "\<And>e es. rw_files w (Join2 (RunDir base (r_RunID r)) ''report.json'') = Inl e \<Longrightarrow>
           es = (case rw_entries w (RunsDir base) of Inl _ \<Rightarrow> [] | Inr es \<Rightarrow> es) \<Longrightarrow> r_RunID r \<notin> rn_Name ` set es \<Longrightarrow>
           rw_entries w' (RunsDir base) = Inr (saved_entries (r_RunID r) now es)"
proof -
  obtain data where d: "rc_marshal codec r = Inr data"
    using assms by (auto simp: persistReport_def Let_def split: save_calls.splits sum.splits)
  then have w: "w' = wrote_report base (r_RunID r) data now (made_run base (r_RunID r) now w)"
    using assms by (auto simp: persistReport_def Let_def made_here split: save_calls.splits)
  show ?thesis
    by (rule that [OF d]) (auto simp: w wrote_report_def made_run_def Let_def saved_entries_def split: sum.splits)
qed

lemma saved_entries_newest:
  assumes "i \<notin> rn_Name ` set es" "ValidateRunID i = None" "\<And>e t. e \<in> set es \<Longrightarrow> candidate e t \<Longrightarrow> t < now"
  shows "\<exists>t. foldl newest_step None (saved_entries i now es) = Some (i, t)"
proof -
  let ?e = "\<lparr>rn_Name = i, rn_IsDir = True, rn_ModTime = Some now\<rparr>"
  have set: "set (saved_entries i now es) = insert ?e (set es)"
    using assms(1) by (force simp: saved_entries_def touch_run_def set_insort_key)
  have "candidate ?e now" using assms(2) by (simp add: candidate_def)
  moreover have "?e \<in> set (saved_entries i now es)" by (simp add: set)
  ultimately have "\<exists>t. foldl newest_step None (saved_entries i now es) = Some (rn_Name ?e, t)"
    using assms(3) by (intro newest_is) (auto simp: set)
  then show ?thesis by simp
qed

lemma saved_report_resolves:
  assumes "persistReport codec calls now base r w = (Inr (), w')"
    and "ValidateRunID (r_RunID r) = None"
    and "\<And>data. rc_marshal codec r = Inr data \<Longrightarrow> rc_unmarshal codec data = Inr r"
  shows "resolveReportFromRunID codec w' base (r_RunID r) = Inr (rooted_report w' r)"
proof -
  from assms(1) obtain data where d: "rc_marshal codec r = Inr data"
    "rw_files w' (Join2 (RunDir base (r_RunID r)) ''report.json'') = Inr (data, now)"
    by (rule persist_ok) blast
  then show ?thesis using assms(2,3) by (simp add: loadReportFile_def resolveReportFromRunID_def)
qed

text \<open>
  C35: A report that was saved without an error is found again by its run identifier, and as the latest
  report when its run is new, no link names another one and the earlier runs are older: the report
  itself, with its root made absolute.
\<close>

theorem saved_report_found:
  assumes "persistReport codec calls now base r w = (Inr (), w')"
    and "ValidateRunID (r_RunID r) = None"
    and "\<And>data. rc_marshal codec r = Inr data \<Longrightarrow> rc_unmarshal codec data = Inr r"
  shows "resolveReportFromRunID codec w' base (r_RunID r) = Inr (rooted_report w' r) \<and>
    (\<forall>e es. rw_files w (Join2 (RunDir base (r_RunID r)) ''report.json'') = Inl e \<and>
       rw_links w (LatestLink base) = None \<and>
       es = (case rw_entries w (RunsDir base) of Inl _ \<Rightarrow> [] | Inr es \<Rightarrow> es) \<and>
       r_RunID r \<notin> rn_Name ` set es \<and> (\<forall>f \<in> set es. \<forall>t. candidate f t \<longrightarrow> t < now) \<longrightarrow>
       resolveLatestReport codec w' base = Inr (rooted_report w' r, r_RunID r))"
proof -
  from assms(1) obtain data where d: "rc_marshal codec r = Inr data"
    "rw_files w' (Join2 (RunDir base (r_RunID r)) ''report.json'') = Inr (data, now)"
    and links: "rw_links w' = rw_links w"
    and entries: "\<And>e es. rw_files w (Join2 (RunDir base (r_RunID r)) ''report.json'') = Inl e \<Longrightarrow>
           es = (case rw_entries w (RunsDir base) of Inl _ \<Rightarrow> [] | Inr es \<Rightarrow> es) \<Longrightarrow> r_RunID r \<notin> rn_Name ` set es \<Longrightarrow>
           rw_entries w' (RunsDir base) = Inr (saved_entries (r_RunID r) now es)"
    by (rule persist_ok) blast
  have load: "loadReportFile codec w' (Join2 (RunDir base (r_RunID r)) ''report.json'') = Inr (rooted_report w' r)"
    using d assms(3) by (simp add: loadReportFile_def)
  have "FindLatestRunID w' base = Inr (r_RunID r)"
    if "rw_files w (Join2 (RunDir base (r_RunID r)) ''report.json'') = Inl e" "rw_links w (LatestLink base) = None"
      "es = (case rw_entries w (RunsDir base) of Inl _ \<Rightarrow> [] | Inr es \<Rightarrow> es)" "r_RunID r \<notin> rn_Name ` set es"
      "\<forall>f \<in> set es. \<forall>t. candidate f t \<longrightarrow> t < now" for e es
  proof -
    have "\<exists>t. foldl newest_step None (saved_entries (r_RunID r) now es) = Some (r_RunID r, t)"
      using saved_entries_newest [OF that(4) assms(2)] that(5) by blast
    then obtain t where "foldl newest_step None (saved_entries (r_RunID r) now es) = Some (r_RunID r, t)" by blast
    then show ?thesis
      using that(2) links entries [OF that(1,3,4)] by (simp add: FindLatestRunID_def Let_def)
  qed
  then show ?thesis
    using load saved_report_resolves [OF assms] by (auto simp: resolveLatestReport_def)
qed

section \<open>Witnesses\<close>

definition saved_example :: report where
  "saved_example = \<lparr>r_SchemaVersion = [], r_DevDiagVersion = [], r_RunID = ''r2'', r_RedactionStatus = [],
     r_RepoRoot = ''~/p'', r_RepoSignals = [], r_Host = zero_host, r_Collectors = [], r_Findings = [],
     r_Repro = None\<rparr>"

definition codec_example :: report_codec where
  "codec_example = \<lparr>rc_marshal = (\<lambda>_. Inr ''R''), rc_unmarshal = (\<lambda>_. Inr saved_example)\<rparr>"

definition world_example :: run_world where
  "world_example = \<lparr>rw_files = (\<lambda>_. Inl ''absent''), rw_links = (\<lambda>_. None),
     rw_entries = (\<lambda>_. Inr [\<lparr>rn_Name = ''r1'', rn_IsDir = True, rn_ModTime = Some 3\<rparr>]),
     rw_exists = (\<lambda>p. p = ''/p/.devdiag/runs''), rw_cwd = Inr ''/p/q'', rw_home = Inr ''/h''\<rparr>"

definition world_saved :: run_world where
  "world_saved = snd (persistReport codec_example Calls_ok 7 ''/p'' saved_example world_example)"

lemma world_saved: "persistReport codec_example Calls_ok 7 ''/p'' saved_example world_example = (Inr (), world_saved)"
proof -
  have "fst (persistReport codec_example Calls_ok 7 ''/p'' saved_example world_example) = Inr ()" by code_simp
  then show ?thesis by (simp add: world_saved_def prod_eq_iff)
qed

theorem DiscoverBase_nearest_witness: "DiscoverBase world_example ''.'' = Some (Inr ''/p'')"
proof -
  have a: "Abs world_example ''.'' = Inr ''/p/q''" by code_simp
  have f: "find (\<lambda>d. rw_exists world_example (RunsDir d)) (map dir_of (rev (prefixes (path_elems ''/p/q'')))) = Some ''/p''"
    by code_simp
  show ?thesis
    using DiscoverBase_nearest [of world_example "''/p/q''", OF _ _ a] f by (simp add: world_example_def IsAbs_def)
qed

theorem saved_report_found_witness:
  "resolveLatestReport codec_example world_saved ''/p'' =
     Inr (saved_example\<lparr>r_RepoRoot := ''/h/p''\<rparr>, ''r2'')"
proof -
  have v: "ValidateRunID (r_RunID saved_example) = None" by code_simp
  have r: "rooted_report world_saved saved_example = saved_example\<lparr>r_RepoRoot := ''/h/p''\<rparr>" by code_simp
  from saved_report_found [OF world_saved v] r show ?thesis
    by (simp add: codec_example_def world_example_def candidate_def saved_example_def)
qed

theorem saved_runs_contained_witness:
  "rw_files world_saved ''/p/.devdiag/runs/r2/report.json'' \<noteq> Inl ''absent''"
proof -
  have a: "IsAbs ''/p''" "dir_of (path_elems (RunsDir ''/p'') @ [''r2'', ''report.json'']) = ''/p/.devdiag/runs/r2/report.json''"
    by code_simp+
  have "resolveReportFromRunID codec_example world_saved ''/p'' ''r2'' = Inr (saved_example\<lparr>r_RepoRoot := ''/h/p''\<rparr>)"
    by code_simp
  from saved_runs_contained [OF a(1) disjI1 [OF this]] a(2) show ?thesis by auto
qed

end
