(* ===== verification/Command_Line.thy ===== *)
theory Command_Line
  imports Output Baseline_Command Saved_Runs App_Scan Engines
begin

text \<open>
  \<open>internal/cli\<close>: the global flags and their checks (\<open>root.go\<close>), the exit codes (\<open>shared.go\<close>) and
  the commands \<open>scan\<close>, \<open>check\<close> and \<open>report\<close>, which collect or load a report, redact it, hide what the
  view and the baseline hide, print the rest and choose the exit code. \<open>cli_world\<close> holds what they get
  from elsewhere: the saved runs, the baseline files by path with the environment of their commands,
  the \<open>NO_COLOR\<close> variable, whether the output is a terminal, the home directory redaction hides, and
  the two JSON renderers. What a command logs is not modelled.
\<close>

section \<open>Errors and exit codes\<close>

datatype cli_error = Exit_error exit_code string | Other_error string

fun cli_error_text :: "cli_error \<Rightarrow> string" where
  "cli_error_text (Exit_error c m) = (if m \<noteq> [] then m else ''exit code '' @ itoa (exit_code_Int c))"
| "cli_error_text (Other_error m) = m"

definition isUsageError :: "string \<Rightarrow> bool" where
  "isUsageError m \<longleftrightarrow> sublist ''unknown command'' m \<or> sublist ''arg(s)'' m"

text \<open>What is written to the error output, and the exit code of the process.\<close>

fun Execute_exit :: "cli_error option \<Rightarrow> string \<times> int" where
  "Execute_exit None = ([], exit_code_Int Success)"
| "Execute_exit (Some (Exit_error c m)) =
     (if c \<noteq> Success then ''devdiag: '' @ cli_error_text (Exit_error c m) @ newline else [], exit_code_Int c)"
| "Execute_exit (Some (Other_error m)) =
     (''devdiag: '' @ m @ newline,
      if isUsageError m then exit_code_Int InvalidInput else exit_code_Int InternalError)"

definition cli_severityRank :: "severity \<Rightarrow> int" where
  "cli_severityRank s =
     (case map_of [(SeverityCritical, 4), (SeverityHigh, 3), (SeverityMedium, 2), (SeverityLow, 1), (SeverityInfo, 0)] s of
        Some n \<Rightarrow> n | None \<Rightarrow> 0)"

definition severityHigher :: "severity \<Rightarrow> severity \<Rightarrow> bool" where
  "severityHigher a b \<longleftrightarrow> cli_severityRank a > cli_severityRank b"

text \<open>The threshold, whether it is switched off, and whether the text is one.\<close>

definition parseFailSeverityThreshold :: "string \<Rightarrow> severity \<times> bool \<times> bool" where
  "parseFailSeverityThreshold v =
     (if v = ''off'' then (SeverityCritical, True, True)
      else if v = ''info'' then (SeverityInfo, False, True)
      else if v = ''low'' then (SeverityLow, False, True)
      else if v = ''medium'' then (SeverityMedium, False, True)
      else if v = ''high'' then (SeverityHigh, False, True)
      else if v = ''critical'' then (SeverityCritical, False, True)
      else (SeverityHigh, False, False))"

fun fail_severity_evidence :: "evidence list \<Rightarrow> string option" where
  "fail_severity_evidence [] = None"
| "fail_severity_evidence (ev # evs) =
     (let v = trim_space (ev_Value ev) in
      if ev_Source ev = ''devdiag_policy_fail_severity'' \<and> snd (snd (parseFailSeverityThreshold v)) then Some v
      else fail_severity_evidence evs)"

fun configuredFailSeverity :: "collector_result list \<Rightarrow> string option" where
  "configuredFailSeverity [] = None"
| "configuredFailSeverity (c # cs) =
     (if c_Name c \<noteq> ''config'' then configuredFailSeverity cs
      else case fail_severity_evidence (c_Evidence c) of
             Some v \<Rightarrow> Some v
           | None \<Rightarrow> configuredFailSeverity cs)"

fun status_code :: "collector_result list \<Rightarrow> exit_code" where
  "status_code [] = Success"
| "status_code (c # cs) =
     (if c_Status c = CollectorPartial then ExitCollectorPartial
      else if c_Status c = CollectorTimeout then ExitCollectorPartial
      else if c_Status c = CollectorPermissionDenied then ExitPermissionDenied
      else if c_Status c = CollectorFailed then ExitCollectorPartial
      else status_code cs)"

definition exitCodeFromResultsWithThreshold ::
  "finding list \<Rightarrow> collector_result list \<Rightarrow> bool \<Rightarrow> string \<Rightarrow> exit_code" where
  "exitCodeFromResultsWithThreshold fs cs reproFailed thresholdValue =
     (let maxSeverity = foldl (\<lambda>m f. if severityHigher (f_Severity f) m then f_Severity f else m) SeverityInfo fs in
      if reproFailed then ReproFailed
      else case parseFailSeverityThreshold thresholdValue of
             (threshold0, disabled, ok) \<Rightarrow>
               (let threshold = (if \<not> ok then SeverityHigh else threshold0) in
                if \<not> disabled \<and> cli_severityRank maxSeverity \<ge> cli_severityRank threshold then FindingsExist
                else status_code cs))"

section \<open>Flags\<close>

record cli_flags =
  fl_Format :: string
  fl_Redact :: string
  fl_Verbose :: bool
  fl_NoColor :: bool
  fl_Color :: string
  fl_Profile :: string
  fl_FailSeverity :: string
  fl_FailChanged :: bool
  fl_IncludeHidden :: bool
  fl_View :: string

definition effectiveFailSeverity :: "cli_flags \<Rightarrow> collector_result list \<Rightarrow> string" where
  "effectiveFailSeverity fl cs =
     (if fl_FailChanged fl then fl_FailSeverity fl
      else case configuredFailSeverity cs of Some v \<Rightarrow> v | None \<Rightarrow> fl_FailSeverity fl)"

definition exitCodeFromResultsForCommand ::
  "cli_flags \<Rightarrow> finding list \<Rightarrow> collector_result list \<Rightarrow> bool \<Rightarrow> exit_code" where
  "exitCodeFromResultsForCommand fl fs cs reproFailed =
     exitCodeFromResultsWithThreshold fs cs reproFailed (effectiveFailSeverity fl cs)"

definition exitCodeFromFixResults :: "bool \<Rightarrow> bool \<Rightarrow> bool \<Rightarrow> bool \<Rightarrow> exit_code" where
  "exitCodeFromFixResults reportFound blocked internalErr permDenied =
     (if internalErr then InternalError
      else if permDenied then ExitPermissionDenied
      else if blocked then UnsafeRefused
      else if \<not> reportFound then ExitCollectorPartial
      else Success)"

definition validateFormat :: "string \<Rightarrow> cli_error option" where
  "validateFormat v =
     (if v \<in> {''human'', ''json'', ''ndjson'', ''markdown'', ''github''} then None
      else Some (Exit_error InvalidInput
        (''invalid --format: '' @ v @ '' (allowed: human, json, ndjson, markdown, github)'')))"

definition validateRedact :: "string \<Rightarrow> cli_error option" where
  "validateRedact v =
     (if v \<in> {''default'', ''strict'', ''off''} then None
      else Some (Exit_error InvalidInput (''invalid --redact: '' @ v @ '' (allowed: default, strict, off)'')))"

definition validateColor :: "string \<Rightarrow> cli_error option" where
  "validateColor v =
     (if v \<in> {''always'', ''auto'', ''never''} then None
      else Some (Exit_error InvalidInput (''invalid --color: '' @ v @ '' (allowed: always, auto, never)'')))"

definition validateFailSeverity :: "string \<Rightarrow> cli_error option" where
  "validateFailSeverity v =
     (if snd (snd (parseFailSeverityThreshold v)) then None
      else Some (Exit_error InvalidInput
        (''invalid --fail-severity: '' @ v @ '' (allowed: off, info, low, medium, high, critical)'')))"

definition validateView :: "string \<Rightarrow> cli_error option" where
  "validateView v =
     (if v \<in> {ViewActionable, ViewAll, ViewAudit, ViewCI, ViewEnv} then None
      else Some (Exit_error InvalidInput (''invalid --view: '' @ v @ '' (allowed: actionable, all, audit, ci, env)'')))"

definition first_error :: "cli_error option list \<Rightarrow> cli_error option" where
  "first_error es = (case filter (\<lambda>e. e \<noteq> None) es of [] \<Rightarrow> None | e # _ \<Rightarrow> e)"

definition PersistentPreRun :: "cli_flags \<Rightarrow> cli_error option" where
  "PersistentPreRun fl =
     first_error [validateFormat (fl_Format fl), validateRedact (fl_Redact fl), validateColor (fl_Color fl),
       validateFailSeverity (fl_FailSeverity fl), validateView (fl_View fl)]"

section \<open>Rendering\<close>

record cli_world =
  cw_runs :: run_world
  cw_codec :: report_codec
  cw_stat :: "string \<Rightarrow> path_stat"
  cw_env :: baseline_env
  cw_baselines :: "string \<Rightarrow> baseline_file"
  cw_no_color :: string
  cw_tty :: bool
  cw_home :: string
  cw_json :: "report \<Rightarrow> string + string"
  cw_ndjson :: "report \<Rightarrow> string + string"

datatype renderer =
    JSONRenderer | NDJSONRenderer | MarkdownRenderer int | GitHubRenderer | HumanRenderer human_renderer

definition buildRedactEngine :: "cli_world \<Rightarrow> cli_flags \<Rightarrow> redact_engine" where
  "buildRedactEngine w fl = \<lparr>re_Level = fl_Redact fl, re_home = cw_home w\<rparr>"

definition buildColorMode :: "cli_world \<Rightarrow> cli_flags \<Rightarrow> color_mode" where
  "buildColorMode w fl = ResolveColorMode (cw_no_color w) (fl_Color fl) (fl_NoColor fl)"

definition pickRenderer :: "cli_flags \<Rightarrow> color_mode \<Rightarrow> renderer" where
  "pickRenderer fl colorMode =
     (if fl_Format fl = ''json'' then JSONRenderer
      else if fl_Format fl = ''ndjson'' then NDJSONRenderer
      else if fl_Format fl = ''markdown'' then MarkdownRenderer 0
      else if fl_Format fl = ''github'' then GitHubRenderer
      else HumanRenderer \<lparr>hr_ColorMode = colorMode, hr_Verbose = fl_Verbose fl, hr_HiddenCount = 0\<rparr>)"

fun with_hidden :: "nat \<Rightarrow> renderer \<Rightarrow> renderer" where
  "with_hidden n (HumanRenderer h) = HumanRenderer (h\<lparr>hr_HiddenCount := int n\<rparr>)"
| "with_hidden n (MarkdownRenderer _) = MarkdownRenderer (int n)"
| "with_hidden n r = r"

fun render_with :: "cli_world \<Rightarrow> renderer \<Rightarrow> report \<Rightarrow> string + string" where
  "render_with w JSONRenderer r = cw_json w r"
| "render_with w NDJSONRenderer r = cw_ndjson w r"
| "render_with w (MarkdownRenderer n) r = Inr (markdown_Render n r)"
| "render_with w GitHubRenderer r = Inr (github_Render r)"
| "render_with w (HumanRenderer h) r = Inr (human_Render h (cw_tty w) r)"

section \<open>Scanning\<close>

text \<open>What a command prints, the error it returns, and the saved runs afterwards.\<close>

record cli_outcome =
  oc_Printed :: string
  oc_Error :: "cli_error option"
  oc_Runs :: run_world

definition stops :: "cli_world \<Rightarrow> cli_error \<Rightarrow> cli_outcome" where
  "stops w e = \<lparr>oc_Printed = [], oc_Error = Some e, oc_Runs = cw_runs w\<rparr>"

definition code_error :: "exit_code \<Rightarrow> cli_error option" where
  "code_error c = (if c \<noteq> Success then Some (Exit_error c []) else None)"

record scan_flags =
  sf_SaveReport :: bool
  sf_CI :: bool
  sf_RulePackPath :: string
  sf_BaselinePath :: string
  sf_NoBaseline :: bool

definition chosen_baseline ::
  "cli_world \<Rightarrow> string \<Rightarrow> bool \<Rightarrow> string \<Rightarrow> cli_error + baseline option" where
  "chosen_baseline w explicitPath noBaseline defaultPath =
     (if noBaseline then Inr None
      else
        case (if explicitPath \<noteq> [] then Abs (cw_runs w) explicitPath else Inr defaultPath) of
          Inl e \<Rightarrow> Inl (Exit_error InvalidInput e)
        | Inr path \<Rightarrow>
            (case loadBaselineForCommand (cw_env w) path (explicitPath \<noteq> []) (cw_baselines w path) of
               Inl e \<Rightarrow> Inl (Exit_error InvalidInput (''load baseline: '' @ e))
             | Inr b \<Rightarrow> Inr (Some b)))"

text \<open>The policy of a command: what the report configures, the view, the baseline.\<close>

definition view_policy :: "cli_world \<Rightarrow> cli_flags \<Rightarrow> report option \<Rightarrow> baseline option \<Rightarrow> policy" where
  "view_policy w fl r b =
     ApplyBaseline ((PolicyFromReport r (fl_IncludeHidden fl))\<lparr>pl_View := fl_View fl\<rparr>) b (be_now (cw_env w))"

definition visible_report ::
  "cli_world \<Rightarrow> cli_flags \<Rightarrow> report \<Rightarrow> baseline option \<Rightarrow> report \<times> summary" where
  "visible_report w fl r b =
     (let redacted = RedactReport (buildRedactEngine w fl) (Some r);
          (filtered, summary) = FilterReport (be_sha (cw_env w)) redacted (view_policy w fl redacted b)
      in (the filtered, summary))"

text \<open>The part of a scan that prints and saves nothing: its directory and what will be shown.\<close>

definition scan_visible ::
  "cli_flags \<Rightarrow> scan_flags \<Rightarrow> string option \<Rightarrow>
   (string \<Rightarrow> scan_deps \<times> collector_result list \<times> observation list) \<Rightarrow> cli_world \<Rightarrow>
   cli_error + string \<times> report \<times> summary" where
  "scan_visible fl sf arg collected w =
     (if sf_BaselinePath sf \<noteq> [] \<and> sf_NoBaseline sf
      then Inl (Exit_error InvalidInput ''flags --baseline and --no-baseline are mutually exclusive'')
      else
        case resolveExistingDirectory (cw_runs w) (cw_stat w) (case arg of None \<Rightarrow> ''.'' | Some p \<Rightarrow> p) of
          Inl e \<Rightarrow> Inl (Exit_error InvalidInput e)
        | Inr absPath \<Rightarrow>
            (case chosen_baseline w (sf_BaselinePath sf) (sf_NoBaseline sf) (baseline_path absPath) of
               Inl e \<Rightarrow> Inl e
             | Inr b \<Rightarrow>
                 (case collected absPath of
                    (d, results, observed) \<Rightarrow>
                      (case snd (Scan d \<lparr>so_Path = absPath, so_Profile = fl_Profile fl,
                                so_RulePackPath = sf_RulePackPath sf, so_RedactLevel = fl_Redact fl,
                                so_CI = sf_CI sf\<rparr> results observed) of
                         Inl (RulePackError es) \<Rightarrow> Inl (Exit_error InvalidInput [])
                       | Inl (EngineError e) \<Rightarrow> Inl (Other_error (''policy evaluation failed: '' @ e))
                       | Inr r \<Rightarrow> Inr (absPath, visible_report w fl r b)))))"

definition scan_renderer :: "cli_world \<Rightarrow> cli_flags \<Rightarrow> summary \<Rightarrow> renderer" where
  "scan_renderer w fl s = with_hidden (sm_Hidden s) (pickRenderer fl (buildColorMode w fl))"

definition scan_end ::
  "cli_flags \<Rightarrow> scan_flags \<Rightarrow> save_calls \<Rightarrow> time \<Rightarrow> cli_world \<Rightarrow> string \<Rightarrow> report \<Rightarrow> string \<Rightarrow> cli_outcome" where
  "scan_end fl sf calls now w absPath filtered out =
     (case (if sf_SaveReport sf then persistReport (cw_codec w) calls now absPath filtered (cw_runs w)
            else (Inr (), cw_runs w)) of
        (Inl e, runs) \<Rightarrow> \<lparr>oc_Printed = out, oc_Error = Some (Exit_error InternalError []), oc_Runs = runs\<rparr>
      | (Inr _, runs) \<Rightarrow>
          \<lparr>oc_Printed = out,
           oc_Error = code_error (exitCodeFromResultsForCommand fl (r_Findings filtered) (r_Collectors filtered) False),
           oc_Runs = runs\<rparr>)"

definition run_scan ::
  "cli_flags \<Rightarrow> scan_flags \<Rightarrow> string option \<Rightarrow> save_calls \<Rightarrow> time \<Rightarrow>
   (string \<Rightarrow> scan_deps \<times> collector_result list \<times> observation list) \<Rightarrow> cli_world \<Rightarrow> cli_outcome" where
  "run_scan fl sf arg calls now collected w =
     (case scan_visible fl sf arg collected w of
        Inl e \<Rightarrow> stops w e
      | Inr (absPath, filtered, s) \<Rightarrow>
          (case render_with w (scan_renderer w fl s) filtered of
             Inl e \<Rightarrow> stops w (Other_error e)
           | Inr out \<Rightarrow> scan_end fl sf calls now w absPath filtered out))"

section \<open>Single checks\<close>

datatype check_kind =
    CheckEnv | CheckRuntimes | CheckGit | CheckPorts | CheckServices | CheckNetwork | CheckFilesystem
  | CheckSecurity | CheckCI | CheckContainers bool | CheckGPU bool | CheckCache

fun check_engine :: "map_order \<Rightarrow> check_kind \<Rightarrow> policy_engine" where
  "check_engine ord CheckEnv = NewEnvEngine ord"
| "check_engine ord CheckRuntimes = NewRuntimeEngine ord"
| "check_engine ord CheckGit = NewGitEngine ord"
| "check_engine ord CheckPorts = NewPortEngine ord"
| "check_engine ord CheckServices = NewServiceEngine ord"
| "check_engine ord CheckNetwork = NewNetworkEngine ord"
| "check_engine ord CheckFilesystem = NewFilesystemEngine ord"
| "check_engine ord CheckSecurity = NewSecurityEngine ord"
| "check_engine ord CheckCI = M8Engine ord"
| "check_engine ord (CheckContainers gpu) = NewContainerEngine ord gpu"
| "check_engine ord (CheckGPU _) = M6Engine"
| "check_engine ord CheckCache = M6Engine"

fun check_collectors :: "check_kind \<Rightarrow> collector list" where
  "check_collectors CheckEnv = named [''config'', ''env'', ''compose'']"
| "check_collectors CheckRuntimes = named [''runtime'', ''host_runtime'']"
| "check_collectors CheckGit = named [''git'', ''repo'']"
| "check_collectors CheckPorts = named [''env'', ''compose'', ''port'']"
| "check_collectors CheckServices = named [''systemd'', ''network'']"
| "check_collectors CheckNetwork = named [''network'', ''host'']"
| "check_collectors CheckFilesystem = named [''disk'', ''permission'']"
| "check_collectors CheckSecurity = named [''security'']"
| "check_collectors CheckCI =
     named [''config'', ''ci'', ''env'', ''compose'', ''runtime'', ''host'', ''host_runtime'', ''repo'']"
| "check_collectors (CheckContainers gpu) =
     named ([''docker'', ''podman'', ''compose_status''] @ (if gpu then [''gpu'', ''gpudocker''] else []))"
| "check_collectors (CheckGPU python) =
     named ([''gpu'', ''cuda''] @ (if python then [''pythonml''] else []) @ [''gpudocker''])"
| "check_collectors CheckCache = named [''cache'']"

text \<open>The root of the report: none for the GPU, a path that need not exist for the caches.\<close>

definition check_root :: "cli_world \<Rightarrow> check_kind \<Rightarrow> string option \<Rightarrow> cli_error + string" where
  "check_root w k arg =
     (let path = (case arg of None \<Rightarrow> ''.'' | Some p \<Rightarrow> p) in
      case k of
        CheckGPU _ \<Rightarrow> Inr []
      | CheckCache \<Rightarrow> Inr (case Abs (cw_runs w) path of Inl _ \<Rightarrow> path | Inr a \<Rightarrow> a)
      | _ \<Rightarrow> (case resolveExistingDirectory (cw_runs w) (cw_stat w) path of
                 Inl e \<Rightarrow> Inl (Exit_error InvalidInput e) | Inr a \<Rightarrow> Inr a))"

definition run_check ::
  "cli_flags \<Rightarrow> check_kind \<Rightarrow> string option \<Rightarrow> map_order \<Rightarrow> string \<Rightarrow> string \<Rightarrow>
   (string \<Rightarrow> collector list \<Rightarrow> collector_result list) \<Rightarrow> cli_world \<Rightarrow> cli_outcome" where
  "run_check fl k arg ord version runID collect w =
     (case check_root w k arg of
        Inl e \<Rightarrow> stops w e
      | Inr repo \<Rightarrow>
          (let results = collect repo (check_collectors k) in
           case check_engine ord k (snapshot_Build results) of
             Inl e \<Rightarrow> stops w (Other_error (''policy evaluation failed: '' @ e))
           | Inr raw \<Rightarrow>
               (let sorted = Aggregator_Add raw; engine = buildRedactEngine w fl;
                    r = \<lparr>r_SchemaVersion = ''0.1'', r_DevDiagVersion = version, r_RunID = runID,
                         r_RedactionStatus = re_Level engine, r_RepoRoot = repo, r_RepoSignals = [],
                         r_Host = populateHostInfo results, r_Collectors = results, r_Findings = sorted,
                         r_Repro = None\<rparr>
                in case render_with w (pickRenderer fl (buildColorMode w fl)) (the (RedactReport engine (Some r))) of
                     Inl e \<Rightarrow> stops w (Other_error e)
                   | Inr out \<Rightarrow>
                       \<lparr>oc_Printed = out,
                        oc_Error = code_error (exitCodeFromResultsForCommand fl sorted results False),
                        oc_Runs = cw_runs w\<rparr>)))"

text \<open>\<open>doctor self\<close>: an empty report.\<close>

definition run_doctor :: "cli_flags \<Rightarrow> string \<Rightarrow> string \<Rightarrow> cli_world \<Rightarrow> cli_outcome" where
  "run_doctor fl version runID w =
     (let engine = buildRedactEngine w fl;
          r = \<lparr>r_SchemaVersion = ''0.1'', r_DevDiagVersion = version, r_RunID = runID,
               r_RedactionStatus = re_Level engine, r_RepoRoot = [], r_RepoSignals = [], r_Host = zero_host,
               r_Collectors = [], r_Findings = [], r_Repro = None\<rparr>
      in case render_with w (pickRenderer fl (buildColorMode w fl)) (the (RedactReport engine (Some r))) of
           Inl e \<Rightarrow> stops w (Other_error e)
         | Inr out \<Rightarrow> \<lparr>oc_Printed = out, oc_Error = None, oc_Runs = cw_runs w\<rparr>)"

text \<open>The two checks that are commands of their own, \<open>check gpu\<close> and \<open>check cache\<close>.\<close>

definition run_check_gpu ::
  "cli_flags \<Rightarrow> bool \<Rightarrow> string \<Rightarrow> string \<Rightarrow> (string \<Rightarrow> collector list \<Rightarrow> collector_result list) \<Rightarrow>
   cli_world \<Rightarrow> cli_outcome" where
  "run_check_gpu fl python version runID collect w =
     run_check fl (CheckGPU python) None (\<lambda>_ ks. ks) version runID collect w"

definition run_check_cache ::
  "cli_flags \<Rightarrow> string option \<Rightarrow> string \<Rightarrow> string \<Rightarrow> (string \<Rightarrow> collector list \<Rightarrow> collector_result list) \<Rightarrow>
   cli_world \<Rightarrow> cli_outcome" where
  "run_check_cache fl arg version runID collect w =
     run_check fl CheckCache arg (\<lambda>_ ks. ks) version runID collect w"

section \<open>Saved reports\<close>

record report_flags =
  pf_Latest :: bool
  pf_RunID :: string
  pf_Report :: string
  pf_BaselinePath :: string
  pf_NoBaseline :: bool

definition countSourceFlags :: "bool \<Rightarrow> string \<Rightarrow> string \<Rightarrow> nat" where
  "countSourceFlags latest runID reportPath =
     of_bool latest + of_bool (runID \<noteq> []) + of_bool (reportPath \<noteq> [])"

text \<open>The base of the saved runs; the search ends for every absolute working directory.\<close>

definition discovered :: "cli_world \<Rightarrow> string \<Rightarrow> string option" where
  "discovered w start =
     (case DiscoverBase (cw_runs w) start of Some (Inr b) \<Rightarrow> Some b | _ \<Rightarrow> None)"

definition load_selected :: "cli_world \<Rightarrow> report_flags \<Rightarrow> string option \<Rightarrow> cli_error + report" where
  "load_selected w pf arg =
     (if pf_Report pf \<noteq> []
      then if arg \<noteq> None then Inl (Exit_error InvalidInput ''--report and [path] cannot be combined'')
           else (case loadReportFile (cw_codec w) (cw_runs w) (pf_Report pf) of
                   Inl e \<Rightarrow> Inl (Exit_error InvalidInput e) | Inr r \<Rightarrow> Inr r)
      else
        let startPath = (case arg of None \<Rightarrow> ''.'' | Some p \<Rightarrow> p);
            base = (case discovered w startPath of None \<Rightarrow> startPath | Some b \<Rightarrow> b)
        in if pf_RunID pf \<noteq> []
           then (case resolveReportFromRunID (cw_codec w) (cw_runs w) base (pf_RunID pf) of
                   Inl e \<Rightarrow> Inl (Exit_error InvalidInput e) | Inr r \<Rightarrow> Inr r)
           else (case resolveLatestReport (cw_codec w) (cw_runs w) base of
                   Inl e \<Rightarrow> Inl (Exit_error InvalidInput e) | Inr (r, i) \<Rightarrow> Inr r))"

text \<open>The baseline file of a saved report, empty when there is none to look for.\<close>

definition report_baseline :: "cli_world \<Rightarrow> report_flags \<Rightarrow> string option \<Rightarrow> cli_error + baseline option" where
  "report_baseline w pf arg =
     (if pf_NoBaseline pf then Inr None
      else
        let explicit = pf_BaselinePath pf \<noteq> [];
            startPath = (case arg of None \<Rightarrow> ''.'' | Some p \<Rightarrow> p);
            found = (if explicit then Abs (cw_runs w) (pf_BaselinePath pf)
                     else if pf_Report pf = []
                     then (case discovered w startPath of None \<Rightarrow> Inr [] | Some b \<Rightarrow> Inr (baseline_path b))
                     else Inr [])
        in case found of
             Inl e \<Rightarrow> Inl (Exit_error InvalidInput e)
           | Inr path \<Rightarrow>
               if path = [] then Inr None
               else (case loadBaselineForCommand (cw_env w) path explicit (cw_baselines w path) of
                       Inl e \<Rightarrow> Inl (Exit_error InvalidInput (''load baseline: '' @ e))
                     | Inr b \<Rightarrow> Inr (Some b)))"

definition run_report :: "cli_flags \<Rightarrow> report_flags \<Rightarrow> string option \<Rightarrow> cli_world \<Rightarrow> cli_outcome" where
  "run_report fl pf arg w =
     (let n = countSourceFlags (pf_Latest pf) (pf_RunID pf) (pf_Report pf) in
      if pf_BaselinePath pf \<noteq> [] \<and> pf_NoBaseline pf
      then stops w (Exit_error InvalidInput ''flags --baseline and --no-baseline are mutually exclusive'')
      else if n = 0
      then stops w (Exit_error InvalidInput ''exactly one of --latest, --run-id, or --report must be provided'')
      else if n > 1
      then stops w (Exit_error InvalidInput ''flags --latest, --run-id, and --report are mutually exclusive'')
      else
        case load_selected w pf arg of
          Inl e \<Rightarrow> stops w e
        | Inr r \<Rightarrow>
            (case report_baseline w pf arg of
               Inl e \<Rightarrow> stops w e
             | Inr b \<Rightarrow>
                 (case visible_report w fl r b of
                    (filtered, summary) \<Rightarrow>
                      (case render_with w (with_hidden (sm_Hidden summary)
                                (pickRenderer fl (buildColorMode w fl))) filtered of
                         Inl e \<Rightarrow> stops w (Other_error e)
                       | Inr out \<Rightarrow>
                           \<lparr>oc_Printed = out,
                            oc_Error = code_error (exitCodeFromResultsForCommand fl
                              (r_Findings filtered) (r_Collectors filtered) False),
                            oc_Runs = cw_runs w\<rparr>))))"

section \<open>The exit code\<close>

lemma cli_severityRank_values: "cli_severityRank s \<in> {0, 1, 2, 3, 4}"
  by (auto simp: cli_severityRank_def split: option.splits dest: map_of_SomeD)

lemma max_severity:
  "cli_severityRank (foldl (\<lambda>m f. if severityHigher (f_Severity f) m then f_Severity f else m) m fs) \<ge> n \<longleftrightarrow>
     cli_severityRank m \<ge> n \<or> (\<exists>f \<in> set fs. cli_severityRank (f_Severity f) \<ge> n)"
  by (induction fs arbitrary: m) (auto simp: severityHigher_def)

definition fails_at :: "string \<Rightarrow> finding list \<Rightarrow> bool" where
  "fails_at v fs \<longleftrightarrow>
     v \<noteq> ''off'' \<and> (v = ''info'' \<or>
       (\<exists>f \<in> set fs. cli_severityRank (f_Severity f) \<ge>
          (if v \<in> {''low'', ''medium'', ''critical''} then cli_severityRank v else 3)))"

lemma exit_code_cases:
  "exitCodeFromResultsWithThreshold fs cs failed v =
     (if failed then ReproFailed else if fails_at v fs then FindingsExist else status_code cs)"
proof -
  have ranks: "cli_severityRank SeverityInfo = 0" "cli_severityRank SeverityCritical = 4"
    "cli_severityRank SeverityHigh = 3" "cli_severityRank SeverityMedium = 2" "cli_severityRank SeverityLow = 1"
    by code_simp+
  have nonneg: "cli_severityRank s \<ge> 0" for s using cli_severityRank_values [of s] by auto
  show ?thesis
    unfolding exitCodeFromResultsWithThreshold_def parseFailSeverityThreshold_def fails_at_def Let_def
    using ranks nonneg by (auto simp: max_severity)
qed

section \<open>The contract of a scan\<close>

lemma Execute_code_error: "snd (Execute_exit (code_error c)) = exit_code_Int c"
  by (simp add: code_error_def)

text \<open>The process exit code of a scan, its output and what it saves.\<close>

definition process_code :: "cli_outcome \<Rightarrow> int" where
  "process_code out = snd (Execute_exit (oc_Error out))"

text \<open>The code of a refusal or an error of the command itself, and what the first collector that was cut short
  or refused makes of the exit code.\<close>

definition error_code :: "cli_error \<Rightarrow> int" where
  "error_code e = (case e of Exit_error c m \<Rightarrow> exit_code_Int c
     | Other_error m \<Rightarrow> if sublist ''unknown command'' m \<or> sublist ''arg(s)'' m then 2 else 8)"

definition first_cut :: "collector_result list \<Rightarrow> collector_result option" where
  "first_cut cs = List.find (\<lambda>c. c_Status c \<in>
     {CollectorPartial, CollectorTimeout, CollectorPermissionDenied, CollectorFailed}) cs"

lemma status_code_first_cut:
  "status_code cs =
     (case first_cut cs of None \<Rightarrow> Success
      | Some c \<Rightarrow> if c_Status c = CollectorPermissionDenied then ExitPermissionDenied else ExitCollectorPartial)"
  by (induction cs) (auto simp: first_cut_def split: if_splits)

lemma process_code_stops:
  "oc_Printed (stops w e) = []" "oc_Runs (stops w e) = cw_runs w" "process_code (stops w e) = error_code e"
  by (auto simp: stops_def process_code_def error_code_def isUsageError_def split: cli_error.splits)

lemma scan_visible_error: "scan_visible fl sf arg collected w = Inl e \<Longrightarrow>
    (\<exists>m. e = Exit_error InvalidInput m) \<or> (\<exists>m. e = Other_error m)"
  by (auto simp: scan_visible_def chosen_baseline_def split: if_splits sum.splits prod.splits scan_error.splits)

lemma process_code_results:
  assumes "oc_Error out = code_error (exitCodeFromResultsForCommand fl fs cs False)"
  shows "process_code out =
    (if fails_at (effectiveFailSeverity fl cs) fs then 1
     else case first_cut cs of None \<Rightarrow> 0
       | Some c \<Rightarrow> if c_Status c = CollectorPermissionDenied then 4 else 3)"
  using assms
  by (auto simp: process_code_def Execute_code_error exitCodeFromResultsForCommand_def exit_code_cases
      status_code_first_cut split: option.splits)

text \<open>
  C2: A scan that is refused or cannot be evaluated or rendered prints nothing, saves nothing and exits
  with the code of its error, which is 2 for a refusal and 2 or 8 for any other error by what its text says.
  Otherwise it prints the visible part of the redacted report; it exits with 8 when the report was
  to be saved and could not be, with 1 when a visible finding reaches the severity that applies or that
  severity is \<open>info\<close>, and else by the first collector that was cut short or refused: with 4 when it was
  refused, with 3 when it was partial, failed or timed out, and with 0 when there is none.
\<close>

theorem scan_exit_contract:
  fixes fl sf arg calls now collected w
  defines "res \<equiv> run_scan fl sf arg calls now collected w"
  shows "case scan_visible fl sf arg collected w of
      Inl e \<Rightarrow> oc_Printed res = [] \<and> oc_Runs res = cw_runs w \<and> process_code res = error_code e \<and>
        ((\<exists>m. e = Exit_error InvalidInput m) \<or> (\<exists>m. e = Other_error m))
    | Inr (absPath, filtered, s) \<Rightarrow>
        (case render_with w (scan_renderer w fl s) filtered of
           Inl e \<Rightarrow> oc_Printed res = [] \<and> oc_Runs res = cw_runs w \<and> process_code res = error_code (Other_error e)
         | Inr out \<Rightarrow>
             oc_Printed res = out \<and>
             oc_Runs res = (if sf_SaveReport sf
                  then snd (persistReport (cw_codec w) calls now absPath filtered (cw_runs w)) else cw_runs w) \<and>
             process_code res =
              (if sf_SaveReport sf \<and> (\<exists>e. fst (persistReport (cw_codec w) calls now absPath filtered (cw_runs w)) = Inl e)
               then 8
               else if fails_at (effectiveFailSeverity fl (r_Collectors filtered)) (r_Findings filtered) then 1
               else case first_cut (r_Collectors filtered) of None \<Rightarrow> 0
                 | Some c \<Rightarrow> if c_Status c = CollectorPermissionDenied then 4 else 3))"
proof (cases "scan_visible fl sf arg collected w")
  case (Inl e)
  then show ?thesis
    using process_code_stops [of w e] scan_visible_error [OF Inl] by (simp add: res_def run_scan_def)
next
  case (Inr v)
  obtain absPath filtered s where v: "v = (absPath, filtered, s)" by (cases v) auto
  show ?thesis
  proof (cases "render_with w (scan_renderer w fl s) filtered")
    case (Inl e)
    then show ?thesis
      using Inr v process_code_stops [of w "Other_error e"] by (simp add: res_def run_scan_def)
  next
    case out: (Inr out)
    have res: "res = scan_end fl sf calls now w absPath filtered out"
      using Inr v out by (simp add: res_def run_scan_def)
    let ?saved = "if sf_SaveReport sf then persistReport (cw_codec w) calls now absPath filtered (cw_runs w)
      else (Inr (), cw_runs w)"
    show ?thesis
    proof (cases "fst ?saved")
      case (Inl e)
      then obtain runs where "?saved = (Inl e, runs)" by (cases ?saved) auto
      with Inr v out Inl show ?thesis
        by (auto simp: res scan_end_def process_code_def split: if_splits)
    next
      case saved: (Inr u)
      then obtain runs where s: "?saved = (Inr u, runs)" by (cases ?saved) auto
      then have end_: "res = \<lparr>oc_Printed = out,
          oc_Error = code_error (exitCodeFromResultsForCommand fl (r_Findings filtered) (r_Collectors filtered) False),
          oc_Runs = runs\<rparr>"
        by (simp add: res scan_end_def)
      have code: "process_code res = (if fails_at (effectiveFailSeverity fl (r_Collectors filtered)) (r_Findings filtered) then 1
               else case first_cut (r_Collectors filtered) of None \<Rightarrow> 0
                 | Some c \<Rightarrow> if c_Status c = CollectorPermissionDenied then 4 else 3)"
        by (rule process_code_results) (simp add: end_)
      show ?thesis
        using Inr v out saved s code by (auto simp: end_ split: if_splits)
    qed
  qed
qed

section \<open>A saved scan is reported as it was\<close>

lemma persist_world:
  assumes "persistReport codec calls now base r w = (Inr (), w')"
  shows "rw_cwd w' = rw_cwd w \<and> rw_home w' = rw_home w \<and> rw_exists w' (RunsDir base)"
  using assms
  by (auto simp: persistReport_def Let_def made_here split: save_calls.splits sum.splits)
    (auto simp: wrote_report_def made_run_def Let_def)

lemma Abs_world: "rw_cwd w' = rw_cwd w \<Longrightarrow> Abs w' p = Abs w p"
  by (simp add: Abs_def)

lemma Abs_Abs:
  assumes "Abs w p = Inr a" "\<And>d. rw_cwd w = Inr d \<Longrightarrow> IsAbs d"
  shows "IsAbs a" "Clean a = a"
proof -
  obtain q where "IsAbs q" "a = Clean q"
    using assms Join2_abs by (auto simp: Abs_def split: if_splits sum.splits)
  then show "IsAbs a" "Clean a = a" by (simp_all add: Clean_Clean)
qed

lemma discovered_here:
  assumes "IsAbs a" "Clean a = a" "rw_exists (cw_runs w) (RunsDir a)"
  shows "discovered w a = Some a"
  using assms by (simp add: discovered_def DiscoverBase_def Abs_def discover.simps)

lemma visible_findings:
  "fst (visible_report w fl r b) =
     (the (RedactReport (buildRedactEngine w fl) (Some r)))\<lparr>r_Findings :=
        filter (\<lambda>f. \<not> IsHidden (be_sha (cw_env w)) f
          (view_policy w fl (RedactReport (buildRedactEngine w fl) (Some r)) b))
          (r_Findings (the (RedactReport (buildRedactEngine w fl) (Some r))))\<rparr>"
  by (simp add: visible_report_def Let_def RedactReport_def FilterReport_eq split: if_splits)

lemma view_policy_collectors:
  "r_Collectors r = r_Collectors r' \<Longrightarrow> view_policy w fl (Some r) b = view_policy w fl (Some r') b"
  by (simp add: view_policy_def PolicyFromReport_def)

text \<open>Reporting what is already redacted and filtered changes nothing.\<close>

lemma visible_again:
  assumes "RedactReport (buildRedactEngine w' fl) (Some r') = Some filtered"
    and "filtered = fst (visible_report w fl r b)" "cw_env w' = cw_env w"
  shows "visible_report w' fl r' b = (filtered, \<lparr>sm_Visible = length (r_Findings filtered), sm_Hidden = 0\<rparr>)"
proof -
  have "\<exists>red. RedactReport (buildRedactEngine w fl) (Some r) = Some red" by (simp add: RedactReport_def)
  then obtain red where red: "RedactReport (buildRedactEngine w fl) (Some r) = Some red" by blast
  let ?p = "view_policy w fl (Some red) b"
  have F: "filtered = red\<lparr>r_Findings := filter (\<lambda>f. \<not> IsHidden (be_sha (cw_env w)) f ?p) (r_Findings red)\<rparr>"
    using assms(2) by (simp add: visible_findings red)
  then have "view_policy w fl (Some filtered) b = ?p" by (intro view_policy_collectors) simp
  then have "view_policy w' fl (Some filtered) b = ?p" using assms(3) by (simp add: view_policy_def)
  then show ?thesis
    using assms(1,3) F by (simp add: visible_report_def FilterReport_eq Let_def comp_def) 
qed

lemma scan_visible_ok:
  assumes "scan_visible fl sf arg collected w = Inr (a, filtered, s)"
  obtains r b where "resolveExistingDirectory (cw_runs w) (cw_stat w) (case arg of None \<Rightarrow> ''.'' | Some p \<Rightarrow> p) = Inr a"
    "\<not> (sf_BaselinePath sf \<noteq> [] \<and> sf_NoBaseline sf)"
    "chosen_baseline w (sf_BaselinePath sf) (sf_NoBaseline sf) (baseline_path a) = Inr b"
    "visible_report w fl r b = (filtered, s)"
  using assms
  by (auto simp: scan_visible_def split: if_splits sum.splits prod.splits scan_error.splits)

lemma resolve_Abs: "resolveExistingDirectory w stat p = Inr a \<Longrightarrow> \<exists>q. Abs w q = Inr a"
  by (auto simp: resolveExistingDirectory_def Let_def split: sum.splits path_stat.splits if_splits)

definition same_run :: "scan_flags \<Rightarrow> report \<Rightarrow> report_flags" where
  "same_run sf r = \<lparr>pf_Latest = False, pf_RunID = r_RunID r, pf_Report = [],
     pf_BaselinePath = sf_BaselinePath sf, pf_NoBaseline = sf_NoBaseline sf\<rparr>"

lemma report_baseline_same:
  assumes "discovered w' a = Some a" "rw_cwd (cw_runs w') = rw_cwd (cw_runs w)"
    "rw_cwd (cw_runs w) = Inr d" "IsAbs d" "cw_env w' = cw_env w" "cw_baselines w' = cw_baselines w"
  shows "report_baseline w' (same_run sf r) (Some a) =
    chosen_baseline w (sf_BaselinePath sf) (sf_NoBaseline sf) (baseline_path a)"
proof -
  have ne: "p \<noteq> []" if "Abs (cw_runs w) q = Inr p" for p q
    using Abs_Abs(1) [OF that] assms(3,4) by (auto simp: IsAbs_hd)
  show ?thesis
  proof (cases "sf_BaselinePath sf = []")
    case True
    have "baseline_path a \<noteq> []" using Clean_nonempty by (simp add: baseline_path_def Join2_def)
    with True show ?thesis
      using assms(1,5,6) by (simp add: report_baseline_def chosen_baseline_def same_run_def Let_def)
  next
    case False
    then show ?thesis
      using assms(5,6) Abs_world [OF assms(2)] ne [of "sf_BaselinePath sf"]
      by (cases "Abs (cw_runs w) (sf_BaselinePath sf)")
        (simp_all add: report_baseline_def chosen_baseline_def same_run_def Let_def)
  qed
qed

lemma render_hidden:
  assumes "render_with w (with_hidden n (pickRenderer fl cm)) r = Inr out"
    "cw_json w' = cw_json w" "cw_ndjson w' = cw_ndjson w"
  shows "\<exists>out'. render_with w' (with_hidden m (pickRenderer fl cm)) r = Inr out' \<and>
    (fl_Format fl \<in> {''json'', ''ndjson'', ''github''} \<longrightarrow> out' = out)"
  using assms by (auto simp: pickRenderer_def)

definition flags_example :: cli_flags where
  "flags_example = \<lparr>fl_Format = ''json'', fl_Redact = ''off'', fl_Verbose = False, fl_NoColor = False,
     fl_Color = ''auto'', fl_Profile = [], fl_FailSeverity = ''info'', fl_FailChanged = False,
     fl_IncludeHidden = False, fl_View = ViewActionable\<rparr>"

definition scan_flags_example :: scan_flags where
  "scan_flags_example = \<lparr>sf_SaveReport = True, sf_CI = False, sf_RulePackPath = [], sf_BaselinePath = [],
     sf_NoBaseline = False\<rparr>"

definition deps_example :: scan_deps where
  "deps_example = \<lparr>sd_Signals = \<lparr>sg_Root = ''/p/q'', sg_HasDocker = False, sg_HasPodman = False,
       sg_HasContainers = False, sg_HasCI = False, sg_HasPython = False\<rparr>,
     sd_M1 = (\<lambda>_. Inr []), sd_M6 = (\<lambda>_. Inr []), sd_M8 = (\<lambda>_. Inr []), sd_Rego = demo_rego_world,
     sd_RunID = ''r2'', sd_Version = ''1'', sd_home = ''/h''\<rparr>"

text \<open>
  C5: After a scan that saved its report, \<open>devdiag report\<close> for that run and directory, with the same flags, reads
  the saved report back under the same baseline and shows it: it redacts it, hides what the baseline and the
  view hide, renders the rest and exits with the code of the findings and collectors shown. So when redacting
  the saved report once more leaves it as it is, it exits with the code of the scan and, in the formats that
  do not count hidden findings, prints the same text. The report is to survive JSON.
\<close>

theorem report_repeats_scan:
  fixes fl sf arg calls now collected w a filtered
  defines "res \<equiv> run_scan fl sf arg calls now collected w"
  defines "w' \<equiv> w\<lparr>cw_runs := oc_Runs res\<rparr>"
  defines "rep \<equiv> run_report fl (same_run sf filtered) (Some a) w'"
  defines "r' \<equiv> rooted_report (oc_Runs res) filtered"
  assumes scan: "scan_visible fl sf arg collected w = Inr (a, filtered, s)"
    and out: "render_with w (scan_renderer w fl s) filtered = Inr out"
    and saved: "sf_SaveReport sf" "process_code res \<noteq> 8"
    and cwd: "rw_cwd (cw_runs w) = Inr d" "IsAbs d"
    and run: "ValidateRunID (r_RunID filtered) = None"
    and codec: "\<And>data. rc_marshal (cw_codec w) filtered = Inr data \<Longrightarrow> rc_unmarshal (cw_codec w) data = Inr filtered"
  shows "(\<exists>b shown s'. chosen_baseline w (sf_BaselinePath sf) (sf_NoBaseline sf) (baseline_path a) = Inr b \<and>
       visible_report w fl r' b = (shown, s') \<and>
       rep = (case render_with w (scan_renderer w fl s') shown of
           Inl e \<Rightarrow> stops w' (Other_error e)
         | Inr txt' \<Rightarrow> \<lparr>oc_Printed = txt', oc_Error = code_error (exitCodeFromResultsForCommand fl
             (r_Findings shown) (r_Collectors shown) False), oc_Runs = oc_Runs res\<rparr>)) \<and>
    (RedactReport (buildRedactEngine w fl) (Some r') = Some filtered \<longrightarrow>
       process_code rep = process_code res \<and>
       (fl_Format fl \<in> {''json'', ''ndjson'', ''github''} \<longrightarrow> oc_Printed rep = oc_Printed res))"
proof -
  let ?p = "persistReport (cw_codec w) calls now a filtered (cw_runs w)"
  have res: "res = scan_end fl sf calls now w a filtered out" using scan out by (simp add: res_def run_scan_def)
  obtain u runs where p: "?p = (Inr u, runs)"
    using saved by (cases ?p; cases "fst ?p") (auto simp: res scan_end_def process_code_def)
  then have e: "oc_Error res = code_error (exitCodeFromResultsForCommand fl (r_Findings filtered) (r_Collectors filtered) False)"
    "oc_Printed res = out" "oc_Runs res = runs"
    using saved(1) by (simp_all add: res scan_end_def)
  obtain r b where b: "resolveExistingDirectory (cw_runs w) (cw_stat w) (case arg of None \<Rightarrow> ''.'' | Some p \<Rightarrow> p) = Inr a"
    "\<not> (sf_BaselinePath sf \<noteq> [] \<and> sf_NoBaseline sf)"
    "chosen_baseline w (sf_BaselinePath sf) (sf_NoBaseline sf) (baseline_path a) = Inr b"
    "visible_report w fl r b = (filtered, s)"
    using scan_visible_ok [OF scan] .
  obtain q where "Abs (cw_runs w) q = Inr a" using resolve_Abs [OF b(1)] by blast
  from Abs_Abs [OF this] cwd have a: "IsAbs a" "Clean a = a" by auto
  have pw: "rw_cwd runs = rw_cwd (cw_runs w)" "rw_exists runs (RunsDir a)" using persist_world [of "cw_codec w"] p by auto
  have disc: "discovered w' a = Some a" using discovered_here [OF a, of w'] pw e by (simp add: w'_def)
  have "resolveReportFromRunID (cw_codec w) runs a (r_RunID filtered) = Inr (rooted_report runs filtered)"
    using saved_report_resolves [OF _ run codec] p by simp
  then have load: "load_selected w' (same_run sf filtered) (Some a) = Inr r'"
    using disc run e by (simp add: load_selected_def same_run_def w'_def r'_def ValidateRunID_None)
  have "report_baseline w' (same_run sf filtered) (Some a) = chosen_baseline w (sf_BaselinePath sf) (sf_NoBaseline sf) (baseline_path a)"
    using disc pw(1) cwd by (intro report_baseline_same) (simp_all add: w'_def e)
  then have base: "report_baseline w' (same_run sf filtered) (Some a) = Inr b" using b(3) by simp
  have w': "cw_json w' = cw_json w" "cw_ndjson w' = cw_ndjson w" "cw_runs w' = oc_Runs res" "cw_home w' = cw_home w"
    "cw_env w' = cw_env w" "cw_no_color w' = cw_no_color w" "cw_tty w' = cw_tty w"
    by (simp_all add: w'_def)
  have same: "visible_report w' fl r' b = visible_report w fl r' b"
    "with_hidden (sm_Hidden sm) (pickRenderer fl (buildColorMode w' fl)) = scan_renderer w fl sm"
    "render_with w' re x = render_with w re x" for sm re x
    by (simp_all add: w' visible_report_def buildRedactEngine_def view_policy_def scan_renderer_def buildColorMode_def)
      (cases re; simp add: w')
  have one: "countSourceFlags False (r_RunID filtered) [] = 1" using run by (simp add: countSourceFlags_def ValidateRunID_None)
  obtain shown s' where shown: "visible_report w fl r' b = (shown, s')" by (cases "visible_report w fl r' b")
  have rep: "rep = (case render_with w (scan_renderer w fl s') shown of
           Inl e \<Rightarrow> stops w' (Other_error e)
         | Inr txt' \<Rightarrow> \<lparr>oc_Printed = txt', oc_Error = code_error (exitCodeFromResultsForCommand fl
             (r_Findings shown) (r_Collectors shown) False), oc_Runs = oc_Runs res\<rparr>)"
    unfolding rep_def run_report_def load base same shown w'(3) sum.case prod.case Let_def
    using b(2) one by (cases "sf_BaselinePath sf = []") (simp_all add: same_run_def)
  have again: "process_code rep = process_code res \<and>
       (fl_Format fl \<in> {''json'', ''ndjson'', ''github''} \<longrightarrow> oc_Printed rep = oc_Printed res)"
    if red: "RedactReport (buildRedactEngine w fl) (Some r') = Some filtered"
  proof -
    have "visible_report w fl r' b = (filtered, \<lparr>sm_Visible = length (r_Findings filtered), sm_Hidden = 0\<rparr>)"
      by (rule visible_again [where r = r, OF red]) (use b(4) in simp_all)
    then have sh: "shown = filtered" "s' = \<lparr>sm_Visible = length (r_Findings filtered), sm_Hidden = 0\<rparr>"
      using shown by simp_all
    obtain out' where out': "render_with w (with_hidden 0 (pickRenderer fl (buildColorMode w fl))) filtered = Inr out'"
      "fl_Format fl \<in> {''json'', ''ndjson'', ''github''} \<longrightarrow> out' = out"
      using render_hidden [where m = 0 and w' = w, OF out [unfolded scan_renderer_def]] by auto
    then have "rep = \<lparr>oc_Printed = out', oc_Error = oc_Error res, oc_Runs = oc_Runs res\<rparr>"
      using rep e(1) by (simp add: sh scan_renderer_def)
    then show ?thesis using out'(2) e(2) by (simp add: process_code_def)
  qed
  show ?thesis using b(3) shown rep again by blast
qed

definition flags_redacting :: cli_flags where
  "flags_redacting = flags_example\<lparr>fl_Redact := ''default''\<rparr>"

definition scanned_example :: report where
  "scanned_example = saved_example\<lparr>r_SchemaVersion := ''0.1'', r_DevDiagVersion := ''1'',
     r_RedactionStatus := ''default'', r_RepoRoot := ''/p/q''\<rparr>"

definition cli_example :: cli_world where
  "cli_example = \<lparr>cw_runs = world_example,
     cw_codec = \<lparr>rc_marshal = (\<lambda>_. Inr ''R''), rc_unmarshal = (\<lambda>_. Inr scanned_example)\<rparr>,
     cw_stat = (\<lambda>_. Is_dir), cw_env = plain_env, cw_baselines = (\<lambda>_. NoFile), cw_no_color = [], cw_tty = False,
     cw_home = ''/h'', cw_json = (\<lambda>r. Inr (r_RunID r)), cw_ndjson = (\<lambda>_. Inl ''none'')\<rparr>"

abbreviation scan_example :: cli_outcome where
  "scan_example \<equiv> run_scan flags_redacting scan_flags_example None Calls_ok 7 (\<lambda>_. (deps_example, [], [])) cli_example"

theorem report_repeats_scan_witness:
  "process_code (run_report flags_redacting (same_run scan_flags_example scanned_example) (Some ''/p/q'')
     (cli_example\<lparr>cw_runs := oc_Runs scan_example\<rparr>)) = 1"
proof -
  let ?e = "buildRedactEngine cli_example flags_redacting"
  let ?o = "\<lparr>so_Path = ''/p/q'', so_Profile = [], so_RulePackPath = [], so_RedactLevel = ''default'', so_CI = False\<rparr>"
  have raw: "snd (Scan deps_example ?o [] []) = Inr scanned_example" by code_simp
  have e: "RedactString ?e [] = []" "RedactString ?e ''/p/q'' = ''/p/q''" "re_Level ?e = ''default''" by code_simp+
  then have "RedactReport ?e (Some scanned_example) =
      Some (scanned_example\<lparr>r_Host := redactHost ?e (r_Host scanned_example)\<rparr>)"
    by (simp add: RedactReport_def scanned_example_def saved_example_def)
  also have "redactHost ?e (r_Host scanned_example) = r_Host scanned_example"
    using e by (simp add: redactHost_def scanned_example_def saved_example_def zero_host_def)
  finally have red: "RedactReport ?e (Some scanned_example) = Some scanned_example" by simp
  have vis: "visible_report cli_example flags_redacting scanned_example b =
      (scanned_example, \<lparr>sm_Visible = 0, sm_Hidden = 0\<rparr>)" for b
    by (simp add: visible_report_def red FilterReport_eq Let_def) (simp add: scanned_example_def saved_example_def)
  have "isl (chosen_baseline cli_example (sf_BaselinePath scan_flags_example) (sf_NoBaseline scan_flags_example)
      (baseline_path ''/p/q'')) = False" by code_simp
  then obtain b where b: "chosen_baseline cli_example (sf_BaselinePath scan_flags_example)
      (sf_NoBaseline scan_flags_example) (baseline_path ''/p/q'') = Inr b"
    by (cases "chosen_baseline cli_example (sf_BaselinePath scan_flags_example) (sf_NoBaseline scan_flags_example)
      (baseline_path ''/p/q'')") auto
  have pre: "resolveExistingDirectory (cw_runs cli_example) (cw_stat cli_example) ''.'' = Inr ''/p/q''"
    "\<not> (sf_BaselinePath scan_flags_example \<noteq> [] \<and> sf_NoBaseline scan_flags_example)"
    by code_simp+
  have scan: "scan_visible flags_redacting scan_flags_example None (\<lambda>_. (deps_example, [], [])) cli_example =
      Inr (''/p/q'', scanned_example, \<lparr>sm_Visible = 0, sm_Hidden = 0\<rparr>)"
    unfolding scan_visible_def using pre b raw vis by (simp add: flags_redacting_def flags_example_def scan_flags_example_def)
  have out: "render_with cli_example (scan_renderer cli_example flags_redacting \<lparr>sm_Visible = 0, sm_Hidden = 0\<rparr>)
      scanned_example = Inr ''r2''"
    by code_simp
  have end_: "scan_example = scan_end flags_redacting scan_flags_example Calls_ok 7 cli_example ''/p/q'' scanned_example ''r2''"
    unfolding run_scan_def scan sum.case prod.case out ..
  have saved: "sf_SaveReport scan_flags_example" "process_code scan_example = 1" unfolding end_ by code_simp+
  have cwd: "rw_cwd (cw_runs cli_example) = Inr ''/p/q''" "IsAbs ''/p/q''" by code_simp+
  have run: "ValidateRunID (r_RunID scanned_example) = None" by code_simp
  have "rooted_report (oc_Runs scan_example) scanned_example = scanned_example" unfolding end_ by code_simp
  then have again: "RedactReport (buildRedactEngine cli_example flags_redacting)
      (Some (rooted_report (oc_Runs scan_example) scanned_example)) = Some scanned_example"
    using red by simp
  have codec: "rc_unmarshal (cw_codec cli_example) data = Inr scanned_example" for data by (simp add: cli_example_def)
  have "process_code scan_example \<noteq> 8" using saved(2) by simp
  from report_repeats_scan [OF scan out saved(1) this cwd run codec, THEN conjunct2] again saved(2)
  show ?thesis by simp
qed

text \<open>The threshold \<open>info\<close> fails a scan without any finding.\<close>

lemma info_fails_without_findings: "exitCodeFromResultsWithThreshold [] [] False ''info'' = FindingsExist"
  by code_simp

text \<open>The text of an error decides its exit code: this one comes from a renderer, not from the user.\<close>

lemma internal_error_taken_for_usage:
  "snd (Execute_exit (Some (Other_error ''write out: unknown command''))) = exit_code_Int InvalidInput"
  by code_simp

end
