(* ===== verification/Command_Fix.thy ===== *)
theory Command_Fix
  imports Command_Line Fix_Executor
begin

text \<open>
  The \<open>fix\<close> command (\<open>internal/cli/fix.go\<close>) with the renderers of proposals (\<open>internal/fix/renderer.go\<close>)
  and the audit log (\<open>internal/fix/audit.go\<close>): a report is resolved, the planner proposes fixes for one
  finding, the proposals are shown and, when asked, executed one after the other. \<open>fix_world\<close> holds
  what the command gets from elsewhere: the world of the other commands, the planner's environment,
  how each execution goes, whether the input is a terminal, the clock, a fresh scan and the encoders.
\<close>

section \<open>Rendering proposals\<close>

definition render_command :: "fix_proposal \<Rightarrow> string" where
  "render_command p = p_Bin p @ '' '' @ join '' '' (p_Args p)"

definition human_proposal :: "fix_proposal \<Rightarrow> string" where
  "human_proposal p =
     line (''  '' @ p_HintID p @ '': '' @ p_Title p) @
     (if p_Bin p \<noteq> [] \<or> p_Args p \<noteq> [] then line (''    Command: '' @ render_command p) else []) @
     (if p_Rollback p \<noteq> [] then line (''    Rollback: '' @ join '' '' (p_Rollback p)) else []) @
     (if p_ConfirmMessage p \<noteq> [] then line (''    Warning: '' @ p_ConfirmMessage p) else []) @
     (if p_BlockedReason p \<noteq> [] then line (''    Blocked: '' @ p_BlockedReason p) else []) @
     (if p_StalenessWarn p \<noteq> [] then line (''    Staleness: '' @ p_StalenessWarn p) else []) @
     ''    Source: '' @ p_Source p @
     (if p_RunID p \<noteq> [] then '' (run_id='' @ p_RunID p @ '')'' else []) @ line [] @ line []"

definition fix_human_Render :: "fix_proposal list \<Rightarrow> string" where
  "fix_human_Render ps =
     (if ps = [] then line ''No fix proposals available.''
      else line (''Fix proposals ('' @ nat_digits (length ps) @ ''):'') @ line [] @
        concat (map (\<lambda>cls.
            (let items = filter (\<lambda>p. p_Class p = cls) ps in
             if items = [] then []
             else line (''['' @ to_upper cls @ '']'') @ concat (map human_proposal items)))
          [FixSafe, FixGuarded, FixManual, FixBlocked]))"

definition sign_warning :: string where
  "sign_warning = [CHR 0xE2, CHR 0x9A, CHR 0xA0, CHR 0xEF, CHR 0xB8, CHR 0x8F]"

definition sign_blocked :: string where
  "sign_blocked = [CHR 0xF0, CHR 0x9F, CHR 0x9A, CHR 0xAB]"

definition sign_stale :: string where
  "sign_stale = [CHR 0xE2, CHR 0x8F, CHR 0xB1, CHR 0xEF, CHR 0xB8, CHR 0x8F]"

definition markdown_proposal :: "fix_proposal \<Rightarrow> string" where
  "markdown_proposal p =
     line ((if p_Class p = FixBlocked then ''- [x]'' else ''- [ ]'') @ '' **'' @ p_HintID p @ ''** '' @ em_dash @
       '' '' @ p_Title p @ '' ('' @ p_Class p @ '')'') @
     (if p_Bin p \<noteq> [] \<or> p_Args p \<noteq> []
      then line ''  ```bash'' @ line (''  '' @ render_command p) @ line ''  ```'' else []) @
     (if p_Rollback p \<noteq> [] then line (''  Rollback: `'' @ join '' '' (p_Rollback p) @ ''`'') else []) @
     (if p_ConfirmMessage p \<noteq> [] then line (''  '' @ sign_warning @ '' '' @ p_ConfirmMessage p) else []) @
     (if p_BlockedReason p \<noteq> [] then line (''  '' @ sign_blocked @ '' Blocked: '' @ p_BlockedReason p) else []) @
     (if p_StalenessWarn p \<noteq> [] then line (''  '' @ sign_stale @ '' '' @ p_StalenessWarn p) else []) @
     line (''  Source: `'' @ p_Source p @ ''` (run_id='' @ p_RunID p @ '')'') @ line []"

definition fix_markdown_Render :: "fix_proposal list \<Rightarrow> string" where
  "fix_markdown_Render ps =
     line (''# Fix Proposals ('' @ nat_digits (length ps) @ '')'') @ line [] @ concat (map markdown_proposal ps)"

section \<open>The audit log\<close>

text \<open>How the calls of one write end; a failed write may leave a part of the entry.\<close>

datatype audit_calls =
    Audit_dir_fails string | Audit_open_fails string | Audit_marshal_fails string
  | Audit_write_fails string string | Audit_newline_fails string | Audit_sync_fails string | Audit_ok

text \<open>\<open>AuditLog.Write\<close> on the text of the log, with the encoder of entries.\<close>

fun AuditLog_Write ::
  "(fix_audit_entry \<Rightarrow> string) \<Rightarrow> audit_calls \<Rightarrow> fix_audit_entry \<Rightarrow> string \<Rightarrow> string option \<times> string" where
  "AuditLog_Write enc (Audit_dir_fails e) a old = (Some (''create audit dir: '' @ e), old)"
| "AuditLog_Write enc (Audit_open_fails e) a old = (Some (''open audit log: '' @ e), old)"
| "AuditLog_Write enc (Audit_marshal_fails e) a old = (Some (''marshal audit entry: '' @ e), old)"
| "AuditLog_Write enc (Audit_write_fails e written) a old = (Some (''write audit entry: '' @ e), old @ written)"
| "AuditLog_Write enc (Audit_newline_fails e) a old = (Some (''write newline: '' @ e), old @ enc a)"
| "AuditLog_Write enc (Audit_sync_fails e) a old = (Some (''sync audit log: '' @ e), old @ enc a @ newline)"
| "AuditLog_Write enc Audit_ok a old = (None, old @ enc a @ newline)"

fun write_all ::
  "(fix_audit_entry \<Rightarrow> string) \<Rightarrow> (fix_audit_entry \<times> audit_calls) list \<Rightarrow> string \<Rightarrow> string" where
  "write_all enc [] old = old"
| "write_all enc ((a, calls) # rest) old = write_all enc rest (snd (AuditLog_Write enc calls a old))"

definition DefaultAuditLog :: "run_world \<Rightarrow> string" where
  "DefaultAuditLog w =
     Join2 (case DiscoverBase w ''.'' of Some (Inr b) \<Rightarrow> b | _ \<Rightarrow> ''.'') ''.devdiag/audit/audit.ndjson''"

section \<open>The command\<close>

record fix_flags =
  fx_RunID :: string
  fx_Apply :: bool
  fx_DryRun :: bool
  fx_Fresh :: bool
  fx_Hint :: string
  fx_List :: bool
  fx_Templates :: bool
  fx_CI :: bool
  fx_RulePack :: string

record fix_world =
  fw_cli :: cli_world
  fw_env :: fix_env
  fw_exec :: "nat \<Rightarrow> exec_world"
  fw_tty :: bool
  fw_now :: time
  fw_collected :: "string \<Rightarrow> scan_deps \<times> collector_result list \<times> observation list"
  fw_json :: "fix_proposal list \<Rightarrow> string + string"
  fw_ndjson :: "fix_proposal list \<Rightarrow> string + string"

definition fix_render :: "fix_world \<Rightarrow> cli_flags \<Rightarrow> fix_proposal list \<Rightarrow> string + string" where
  "fix_render w fl ps =
     (if fl_Format fl = ''json'' then fw_json w ps
      else if fl_Format fl = ''ndjson'' then fw_ndjson w ps
      else if fl_Format fl = ''markdown'' then Inr (fix_markdown_Render ps)
      else Inr (fix_human_Render ps))"

definition no_saved_report :: string where
  "no_saved_report = ''no saved report found; run 'devdiag scan --save-report' first''"

definition resolveReport :: "fix_world \<Rightarrow> fix_flags \<Rightarrow> string + report \<times> fix_source \<times> string \<times> int" where
  "resolveReport w fx =
     (let cw = fw_cli w; rw = cw_runs cw in
      case discovered cw ''.'' of
        None \<Rightarrow> Inl no_saved_report
      | Some base \<Rightarrow>
          (case (if fx_RunID fx = []
                 then (case FindLatestRunID rw base of
                         Inl e \<Rightarrow> Inl (''no saved report found: '' @ e) | Inr i \<Rightarrow> Inr i)
                 else Inr (fx_RunID fx)) of
             Inl e \<Rightarrow> Inl e
           | Inr runID \<Rightarrow>
               (case rw_files rw (Join2 (RunDir base runID) ''report.json'') of
                  Inl e \<Rightarrow> Inl (''report not found: '' @ e)
                | Inr (data, modTime) \<Rightarrow>
                    (case rc_unmarshal (cw_codec cw) data of
                       Inl e \<Rightarrow> Inl (''parse report: '' @ e)
                     | Inr r \<Rightarrow> Inr (rooted_report rw r, FixSourceSavedReport, runID, fw_now w - modTime)))))"

definition resolveReportWithFresh ::
  "fix_world \<Rightarrow> cli_flags \<Rightarrow> fix_flags \<Rightarrow> string + report \<times> fix_source \<times> string \<times> int" where
  "resolveReportWithFresh w fl fx =
     (case discovered (fw_cli w) ''.'' of
        None \<Rightarrow> Inl no_saved_report
      | Some base \<Rightarrow>
          if fx_Fresh fx
          then (case fw_collected w base of
                  (d, results, observed) \<Rightarrow>
                    (case snd (Scan d \<lparr>so_Path = base, so_Profile = fl_Profile fl, so_RulePackPath = fx_RulePack fx,
                              so_RedactLevel = fl_Redact fl, so_CI = fx_CI fx\<rparr> results observed) of
                       Inl e \<Rightarrow> Inl (''fresh scan failed: '' @ scan_error_text e)
                     | Inr r \<Rightarrow> Inr (r, FixSourceFreshScan, r_RunID r, 0)))
          else resolveReport w fx)"

definition filterProposalsByHint :: "fix_proposal list \<Rightarrow> string \<Rightarrow> fix_proposal list" where
  "filterProposalsByHint ps hint = filter (\<lambda>p. p_HintID p = hint) ps"

text \<open>\<open>errors.Is(err, fix.ErrPermissionDenied)\<close>\<close>

fun is_permission :: "exec_error \<Rightarrow> bool" where
  "is_permission (AuditUnavailable denied) = denied"
| "is_permission (ExecutionFailed msg denied) = denied"
| "is_permission _ = False"

text \<open>The loop that applies the proposals: its events, and whether something was refused, failed or denied.\<close>

fun apply_proposals ::
  "(nat \<Rightarrow> exec_world) \<Rightarrow> exec_options \<Rightarrow> nat \<Rightarrow> fix_proposal list \<Rightarrow> exec_event list \<times> bool \<times> bool \<times> bool" where
  "apply_proposals ws opts i [] = ([], False, False, False)"
| "apply_proposals ws opts i (p # ps) =
     (case Execute ((ws i)\<lparr>ew_audit := True\<rparr>) opts p of
        (evs, x, err) \<Rightarrow>
          (case apply_proposals ws opts (Suc i) ps of
             (evs', refused, failed, denied) \<Rightarrow>
               (case err of
                  None \<Rightarrow> (evs @ evs', refused, failed, denied)
                | Some e \<Rightarrow>
                    if is_permission e then (evs @ evs', refused, failed, True)
                    else if p_Class p \<in> {FixBlocked, FixManual, FixGuarded} then (evs @ evs', True, failed, denied)
                    else (evs @ evs', refused, True, denied))))"

record fix_outcome =
  fo_Printed :: string
  fo_Events :: "exec_event list"
  fo_Error :: "cli_error option"

definition fix_stops :: "cli_error \<Rightarrow> fix_outcome" where
  "fix_stops e = \<lparr>fo_Printed = [], fo_Events = [], fo_Error = Some e\<rparr>"

definition fix_prints :: "string \<Rightarrow> fix_outcome" where
  "fix_prints s = \<lparr>fo_Printed = s, fo_Events = [], fo_Error = None\<rparr>"

definition fix_exec_options :: "fix_world \<Rightarrow> cli_flags \<Rightarrow> fix_flags \<Rightarrow> exec_options" where
  "fix_exec_options w fl fx =
     \<lparr>eo_Apply = True, eo_Fresh = fx_Fresh fx, eo_Interactive = fw_tty w,
      eo_Redact = Some (RedactString (buildRedactEngine (fw_cli w) fl)), eo_CaptureCapBytes = 0\<rparr>"

text \<open>The proposals that are left after the hint, or how the command ends without any.\<close>

definition fix_proposals :: "fix_world \<Rightarrow> cli_flags \<Rightarrow> fix_flags \<Rightarrow> string \<Rightarrow> fix_outcome + fix_proposal list" where
  "fix_proposals w fl fx findingID =
     (let nothing = fix_prints (line (''No fix proposals for finding '' @ findingID @ ''.'')) in
      case resolveReportWithFresh w fl fx of
        Inl e \<Rightarrow> Inl (fix_stops (Exit_error ExitCollectorPartial []))
      | Inr (r, source, runID, age) \<Rightarrow>
          (case Resolve (fw_env w) NewRegistry (Some r)
                  \<lparr>ro_FindingID = findingID, ro_Source = source, ro_RunID = runID, ro_ReportAge = age\<rparr> of
             Inl (FindingNotFound _) \<Rightarrow>
               Inl (if fx_Fresh fx then nothing else fix_stops (Exit_error InvalidInput []))
           | Inl ReportNil \<Rightarrow> Inl (fix_stops (Exit_error InternalError []))
           | Inr ps \<Rightarrow>
               if ps = [] then Inl nothing
               else if fx_Hint fx \<noteq> []
               then (let hinted = filterProposalsByHint ps (fx_Hint fx) in
                     if hinted = [] then Inl (fix_stops (Exit_error InvalidInput [])) else Inr hinted)
               else Inr ps))"

definition runFix :: "fix_world \<Rightarrow> cli_flags \<Rightarrow> fix_flags \<Rightarrow> string \<Rightarrow> fix_outcome" where
  "runFix w fl fx findingID =
     (case fix_proposals w fl fx findingID of
        Inl res \<Rightarrow> res
      | Inr ps \<Rightarrow>
          (case fix_render w fl ps of
             Inl e \<Rightarrow> fix_stops (Other_error e)
           | Inr out \<Rightarrow>
               if fx_Apply fx \<and> fx_Hint fx = [] \<and> length ps > 1
               then \<lparr>fo_Printed = out, fo_Events = [], fo_Error = Some (Exit_error UnsafeRefused [])\<rparr>
               else
                 (case (if fx_Apply fx then apply_proposals (fw_exec w) (fix_exec_options w fl fx) 0 ps
                        else ([], False, False, False)) of
                    (evs, refused, failed, denied) \<Rightarrow>
                      \<lparr>fo_Printed = out, fo_Events = evs,
                       fo_Error = code_error (exitCodeFromFixResults True refused failed denied)\<rparr>)))"

definition runFixList :: "fix_world \<Rightarrow> cli_flags \<Rightarrow> fix_flags \<Rightarrow> fix_outcome" where
  "runFixList w fl fx =
     (case resolveReportWithFresh w fl fx of
        Inl e \<Rightarrow> fix_stops (Exit_error ExitCollectorPartial [])
      | Inr (r, source, runID, age) \<Rightarrow>
          (case ListAll (fw_env w) NewRegistry (Some r) source runID age of
             Inl e \<Rightarrow> fix_stops (Exit_error InternalError [])
           | Inr ps \<Rightarrow>
               (case fix_render w fl ps of
                  Inl e \<Rightarrow> fix_stops (Other_error e)
                | Inr out \<Rightarrow> \<lparr>fo_Printed = out, fo_Events = [],
                    fo_Error = code_error (exitCodeFromFixResults True False False False)\<rparr>)))"

definition template_proposal :: "fix_template \<Rightarrow> fix_proposal" where
  "template_proposal t =
     \<lparr>p_FindingID = [], p_HintID = t_HintID t, p_Title = t_Title t, p_Class = t_Class t, p_Bin = t_Bin t,
      p_Args = t_Args t, p_Rollback = t_Rollback t, p_ConfirmMessage = t_ConfirmMessage t,
      p_BlockedReason = t_BlockedReason t, p_RequiredEvidence = t_RequiredEvidence t, p_Source = [],
      p_RunID = [], p_StalenessWarn = []\<rparr>"

text \<open>\<open>Registry.List\<close> follows the order of a map.\<close>

definition registry_templates :: "fix_env \<Rightarrow> fix_registry \<Rightarrow> fix_template list" where
  "registry_templates env reg =
     map (\<lambda>h. the (Lookup reg h)) (fe_order env ''templates'' (map fst reg))"

definition runFixTemplates :: "fix_world \<Rightarrow> cli_flags \<Rightarrow> fix_outcome" where
  "runFixTemplates w fl =
     (case fix_render w fl (map template_proposal (registry_templates (fw_env w) NewRegistry)) of
        Inl e \<Rightarrow> fix_stops (Other_error e)
      | Inr out \<Rightarrow> fix_prints out)"

definition fix_command :: "fix_world \<Rightarrow> cli_flags \<Rightarrow> fix_flags \<Rightarrow> string option \<Rightarrow> fix_outcome" where
  "fix_command w fl fx arg =
     (if fx_DryRun fx \<and> fx_Apply fx then fix_stops (Exit_error InvalidInput [])
      else if fx_List fx then runFixList w fl fx
      else if fx_Templates fx then runFixTemplates w fl
      else case arg of
             None \<Rightarrow> fix_stops (Exit_error InvalidInput [])
           | Some findingID \<Rightarrow> runFix w fl fx findingID)"

section \<open>What the command runs\<close>

lemma apply_proposals_commands:
  "CommandRun bin args \<in> set (fst (apply_proposals ws opts i ps)) \<Longrightarrow>
   \<exists>j < length ps. cleared ((ws (i + j))\<lparr>ew_audit := True\<rparr>) opts (ps ! j) \<and> (bin, args) = command_of (ps ! j) \<and>
     bin \<noteq> [] \<and> \<not> IsBlockedCommand bin args"
proof (induction ps arbitrary: i)
  case (Cons p ps)
  let ?w = "(ws i)\<lparr>ew_audit := True\<rparr>"
  have "CommandRun bin args \<in> set (fst (Execute ?w opts p)) \<or>
      CommandRun bin args \<in> set (fst (apply_proposals ws opts (Suc i) ps))"
    using Cons.prems by (auto split: prod.splits option.splits if_splits)
  then show ?case
  proof
    assume "CommandRun bin args \<in> set (fst (Execute ?w opts p))"
    then have m: "CommandRun bin args \<in> set (command_events (fst (Execute ?w opts p)))" by (simp add: command_events_def)
    then have c: "cleared ?w opts p" using Execute_not_cleared by fastforce
    with m have "CommandRun bin args \<in> set (command_events (fst (run_fix ?w opts (redact_of opts) p)))"
      by (simp add: Execute_cleared write_audit_def split: if_splits)
    then have "(bin, args) = command_of p \<and> bin \<noteq> [] \<and> \<not> IsBlockedCommand bin args"
      by (auto simp: run_fix_commands split: if_splits)
    with c show ?thesis by (intro exI [of _ 0]) simp
  next
    assume "CommandRun bin args \<in> set (fst (apply_proposals ws opts (Suc i) ps))"
    from Cons.IH [OF this] obtain j where "j < length ps" "cleared ((ws (Suc i + j))\<lparr>ew_audit := True\<rparr>) opts (ps ! j)"
      "(bin, args) = command_of (ps ! j)" "bin \<noteq> []" "\<not> IsBlockedCommand bin args" by blast
    then show ?thesis by (intro exI [of _ "Suc j"]) simp
  qed
qed simp

text \<open>What \<open>fix_proposals\<close> leaves: proposals of the planner for the finding, by the hint if there is one.\<close>

lemma fix_proposals_Inr:
  assumes "fix_proposals w fl fx findingID = Inr ps"
  shows "\<exists>r source runID age all. resolveReportWithFresh w fl fx = Inr (r, source, runID, age) \<and>
    Resolve (fw_env w) NewRegistry (Some r)
      \<lparr>ro_FindingID = findingID, ro_Source = source, ro_RunID = runID, ro_ReportAge = age\<rparr> = Inr all \<and>
    ps = (if fx_Hint fx = [] then all else filterProposalsByHint all (fx_Hint fx)) \<and> ps \<noteq> []"
  using assms
  by (auto simp: fix_proposals_def Let_def split: sum.splits prod.splits planner_error.splits if_splits)

text \<open>What a report is resolved to is the saved one, unless a fresh scan was asked for.\<close>

lemma resolved_source:
  "resolveReportWithFresh w fl fx = Inr (r, source, runID, age) \<Longrightarrow>
   source = (if fx_Fresh fx then FixSourceFreshScan else FixSourceSavedReport)"
  by (auto simp: resolveReportWithFresh_def resolveReport_def Let_def split: option.splits if_splits sum.splits prod.splits)

lemma runFix_commands:
  assumes "CommandRun bin args \<in> set (fo_Events (runFix w fl fx findingID))"
  shows "\<exists>ps p i. fix_proposals w fl fx findingID = Inr ps \<and> i < length ps \<and> ps ! i = p \<and> fx_Apply fx \<and>
    (fx_Hint fx = [] \<longrightarrow> ps = [p]) \<and>
    cleared ((fw_exec w i)\<lparr>ew_audit := True\<rparr>) (fix_exec_options w fl fx) p \<and>
    (bin, args) = command_of p \<and> bin \<noteq> [] \<and> \<not> IsBlockedCommand bin args"
proof (cases "fix_proposals w fl fx findingID")
  case (Inl res)
  then have "fo_Events res = []"
    by (auto simp: fix_proposals_def Let_def fix_stops_def fix_prints_def
        split: sum.splits prod.splits planner_error.splits if_splits)
  with assms Inl show ?thesis by (simp add: runFix_def)
next
  case (Inr ps)
  then have ps: "ps \<noteq> []" using fix_proposals_Inr by blast
  from assms Inr have ap: "fx_Apply fx" and one: "fx_Hint fx = [] \<Longrightarrow> \<not> length ps > 1"
    and ev: "CommandRun bin args \<in> set (fst (apply_proposals (fw_exec w) (fix_exec_options w fl fx) 0 ps))"
    by (auto simp: runFix_def fix_stops_def split: sum.splits prod.splits if_splits)
  from apply_proposals_commands [OF ev] obtain j where j: "j < length ps"
    "cleared ((fw_exec w j)\<lparr>ew_audit := True\<rparr>) (fix_exec_options w fl fx) (ps ! j)"
    "(bin, args) = command_of (ps ! j)" "bin \<noteq> []" "\<not> IsBlockedCommand bin args" by auto
  have "ps = [ps ! j]" if "fx_Hint fx = []"
    using one [OF that] ps j(1) by (cases ps) auto
  with Inr ap j show ?thesis by (intro exI [of _ ps] exI [of _ "ps ! j"] exI [of _ j]) auto
qed


section \<open>The audit log is only appended to\<close>

lemma write_all_append: "\<exists>rest. write_all enc es old = old @ rest"
proof (induction es arbitrary: old)
  case (Cons e es)
  obtain a calls where e: "e = (a, calls)" by fastforce
  obtain s where "snd (AuditLog_Write enc calls a old) = old @ s" by (cases calls) auto
  moreover obtain rest where "write_all enc es (old @ s) = (old @ s) @ rest" using Cons by blast
  ultimately show ?case by (simp add: e)
qed simp

lemma write_all_ok:
  "\<forall>e \<in> set es. snd e = Audit_ok \<Longrightarrow> write_all enc es old = old @ concat (map (\<lambda>e. enc (fst e) @ newline) es)"
  by (induction enc es old rule: write_all.induct) auto

text \<open>
  C36: Whatever goes wrong with writes to the audit log, what it held stays as its beginning; and when
  nothing goes wrong, what is added is one line per entry, in order, read back by splitting at the
  line ends, as long as the encoder writes no line end.
\<close>

theorem audit_log_append_only:
  assumes "\<And>a. CHR 0x0A \<notin> set (enc a)"
  shows "prefix old (write_all enc es old) \<and>
    (list_all (\<lambda>e. snd e = Audit_ok) es \<longrightarrow>
       split_at newline (drop (length old) (write_all enc es old)) = map (\<lambda>e. enc (fst e)) es @ [[]])"
proof (intro conjI impI)
  show "prefix old (write_all enc es old)" using write_all_append [of enc es old] by auto
  assume "list_all (\<lambda>e. snd e = Audit_ok) es"
  then have "write_all enc es old = old @ concat (map (\<lambda>e. enc (fst e) @ newline) es)"
    by (intro write_all_ok) (simp add: list_all_iff)
  moreover have "split_at newline (concat (map (\<lambda>e. enc (fst e) @ newline) es)) = map (\<lambda>e. enc (fst e)) es @ [[]]"
    using split_at_lines [of "map (\<lambda>e. enc (fst e)) es" "CHR 0x0A"] assms by (simp add: newline_def comp_def)
  ultimately show "split_at newline (drop (length old) (write_all enc es old)) = map (\<lambda>e. enc (fst e)) es @ [[]]" by simp
qed

text \<open>Without the line end of an entry the next one continues its line.\<close>

lemma lost_newline_joins_entries:
  "write_all enc [(a, Audit_newline_fails ''disk full''), (b, Audit_ok)] [] = enc a @ enc b @ newline"
  by simp

section \<open>Witnesses\<close>

definition fix_flags_example :: fix_flags where
  "fix_flags_example = \<lparr>fx_RunID = ''r1'', fx_Apply = True, fx_DryRun = False, fx_Fresh = False,
     fx_Hint = [], fx_List = False, fx_Templates = False, fx_CI = False, fx_RulePack = []\<rparr>"

definition fix_example :: fix_world where
  "fix_example = \<lparr>fw_cli = cli_example
       \<lparr>cw_runs := world_example\<lparr>rw_files := (\<lambda>p. if p = ''/p/.devdiag/runs/r1/report.json'' then Inr (''R'', 2) else Inl ''absent'')\<rparr>,
        cw_codec := \<lparr>rc_marshal = (\<lambda>_. Inr ''R''), rc_unmarshal = (\<lambda>_. Inr two_scripts)\<rparr>\<rparr>,
     fw_env = linux_env, fw_exec = (\<lambda>_. quiet_world), fw_tty = False, fw_now = 9,
     fw_collected = (\<lambda>_. (deps_example, [], [])), fw_json = (\<lambda>_. Inr ''[]''), fw_ndjson = (\<lambda>_. Inr [])\<rparr>"

abbreviation fix_example_run :: fix_outcome where
  "fix_example_run \<equiv> fix_command fix_example flags_example fix_flags_example (Some (f_ID (hd (r_Findings two_scripts))))"

lemma fix_example_discovers: "discovered (fw_cli fix_example) ''.'' = Some ''/p''"
proof -
  let ?w = "cw_runs (fw_cli fix_example)"
  have a: "Abs ?w ''.'' = Inr ''/p/q''" by code_simp
  have ex: "\<not> rw_exists ?w (RunsDir ''/p/q'')" "Dir ''/p/q'' = ''/p''" "rw_exists ?w (RunsDir ''/p'')" by code_simp+
  have "discover (rw_exists ?w) ''/p/q'' = Some (Some ''/p'')"
    using ex by (simp add: discover.simps [of _ "''/p/q''"] discover.simps [of _ "''/p''"])
  then show ?thesis using a by (simp add: discovered_def DiscoverBase_def)
qed

lemma fix_example_report:
  "resolveReportWithFresh fix_example flags_example fix_flags_example = Inr (two_scripts, FixSourceSavedReport, ''r1'', 7)"
proof -
  have f: "rw_files (cw_runs (fw_cli fix_example)) (Join2 (RunDir ''/p'' ''r1'') ''report.json'') = Inr (''R'', 2)" by code_simp
  have c: "rc_unmarshal (cw_codec (fw_cli fix_example)) ''R'' = Inr two_scripts"
    "rooted_report (cw_runs (fw_cli fix_example)) two_scripts = two_scripts" "fw_now fix_example = 9"
    "fx_Fresh fix_flags_example = False" "fx_RunID fix_flags_example = ''r1''"
    by code_simp+
  show ?thesis
    using fix_example_discovers f c by (simp add: resolveReportWithFresh_def resolveReport_def)
qed


theorem audit_log_append_only_witness:
  "split_at newline (drop 3 (write_all (\<lambda>_. ''E'') [(audit_entry chmod_proposal, Audit_ok), (audit_entry chmod_proposal, Audit_ok)] ''old'')) =
     [''E'', ''E'', []]"
  using audit_log_append_only [of "\<lambda>_. ''E''" "''old''"
      "[(audit_entry chmod_proposal, Audit_ok), (audit_entry chmod_proposal, Audit_ok)]"]
  by simp

text \<open>
  A run identifier given to \<open>fix\<close> is not checked: with \<open>..\<close> in it the report is read from outside the runs,
  where the other commands refuse.
\<close>

lemma fix_run_id_unchecked:
  "Join2 (RunDir ''/p'' ''../../evil'') ''report.json'' = ''/p/evil/report.json'' \<and>
   ValidateRunID ''../../evil'' \<noteq> None"
  by code_simp

end
