(* ===== verification/Remote_Target.thy ===== *)
theory Remote_Target
  imports Go_Path
begin

text \<open>
  \<open>internal/remote/target/target.go\<close>: what a remote command may be aimed at, how the target given on
  the command line is read, and when two targets are the same. An identifier that is accepted is safe
  as an argument of the commands the transports build. \<open>url.Parse\<close> is a parameter: the user with the
  fact whether a password was given, the host name and the port of the address.
\<close>

section \<open>Targets\<close>

datatype target_kind = KindSSH | KindContainer | KindK8s | KindOther string

record target =
  t_Kind :: target_kind
  t_Raw :: string
  t_User :: string
  t_Host :: string
  t_Port :: int
  t_Container :: string
  t_Runtime :: string
  t_Context :: string
  t_Namespace :: string
  t_Pod :: string
  t_ContainerName :: string

definition new_target :: "target_kind \<Rightarrow> target" where
  "new_target k = \<lparr>t_Kind = k, t_Raw = [], t_User = [], t_Host = [], t_Port = 0, t_Container = [], t_Runtime = [],
     t_Context = [], t_Namespace = [], t_Pod = [], t_ContainerName = []\<rparr>"

definition Target_String :: "target \<Rightarrow> string" where
  "Target_String t =
     (case t_Kind t of
        KindSSH \<Rightarrow>
          if t_Port t \<noteq> 0 \<and> t_Port t \<noteq> 22 then t_User t @ ''@'' @ t_Host t @ '':'' @ itoa (t_Port t)
          else if t_User t \<noteq> [] then t_User t @ ''@'' @ t_Host t
          else t_Host t
      | KindContainer \<Rightarrow>
          if t_Runtime t \<noteq> [] \<and> t_Runtime t \<noteq> ''auto'' then ''container:'' @ t_Runtime t @ ''/'' @ t_Container t
          else ''container:'' @ t_Container t
      | KindK8s \<Rightarrow>
          if t_Context t \<noteq> [] then ''k8s:'' @ t_Context t @ ''/'' @ t_Namespace t @ ''/'' @ t_Pod t
          else ''k8s:'' @ t_Namespace t @ ''/'' @ t_Pod t
      | KindOther _ \<Rightarrow> t_Raw t)"

text \<open>The errors, with the kind of identifier and the text in question.\<close>

datatype target_error =
    TargetEmpty
  | IdentifierEmpty string
  | IdentifierDash string string
  | IdentifierBlank string string
  | IdentifierMeta string string
  | ContainerMissing
  | ContainerNameMissing
  | RuntimeUnsupported string
  | PodMissing
  | PodForm
  | PodPartEmpty
  | UrlInvalid
  | UrlPassword
  | PortInvalid string
  | HostMissing
  | UserEmpty

definition shell_metacharacters :: string where
  "shell_metacharacters = ''|&;<>$'' @ [CHR 0x5C, CHR 0x60, CHR 0x27, CHR 0x22]"

definition ValidateIdentifier :: "string \<Rightarrow> string \<Rightarrow> target_error option" where
  "ValidateIdentifier kind v =
     (if v = [] then Some (IdentifierEmpty kind)
      else if has_prefix v ''-'' then Some (IdentifierDash kind v)
      else if list_ex (\<lambda>c. of_char c \<le> (32::nat) \<or> of_char c = (127::nat)) v then Some (IdentifierBlank kind v)
      else if list_ex (\<lambda>c. c \<in> set shell_metacharacters) v then Some (IdentifierMeta kind v)
      else None)"

section \<open>Reading a target\<close>

definition parseContainer :: "string \<Rightarrow> target_error + target" where
  "parseContainer raw =
     (let body = trim_prefix raw ''container:''
      in if body = [] then Inl ContainerMissing
         else case
                (case index_of ''/'' body of
                   Some i \<Rightarrow>
                     (let runtime = take i body; name = drop (i + 1) body
                      in if name = [] then Inl ContainerNameMissing
                         else if runtime \<noteq> ''docker'' \<and> runtime \<noteq> ''podman'' then Inl (RuntimeUnsupported runtime)
                         else Inr ((new_target KindContainer)\<lparr>t_Runtime := runtime, t_Container := name\<rparr>))
                 | None \<Rightarrow> Inr ((new_target KindContainer)\<lparr>t_Runtime := ''auto'', t_Container := body\<rparr>)) of
                Inl e \<Rightarrow> Inl e
              | Inr t \<Rightarrow>
                  (case ValidateIdentifier ''container ID'' (t_Container t) of Some e \<Rightarrow> Inl e | None \<Rightarrow> Inr t))"

definition parseK8s :: "string \<Rightarrow> target_error + target" where
  "parseK8s raw =
     (let body = trim_prefix raw ''k8s:''
      in if body = [] then Inl PodMissing
         else let parts = split_at ''/'' body
              in if length parts < 2 \<or> 3 < length parts then Inl PodForm
                 else let t = (if length parts = 2
                               then (new_target KindK8s)\<lparr>t_Namespace := parts ! 0, t_Pod := parts ! 1\<rparr>
                               else (new_target KindK8s)\<lparr>t_Context := parts ! 0, t_Namespace := parts ! 1,
                                                         t_Pod := parts ! 2\<rparr>)
                      in if t_Namespace t = [] \<or> t_Pod t = [] then Inl PodPartEmpty
                         else case (if t_Context t \<noteq> []
                                    then ValidateIdentifier ''kubernetes context'' (t_Context t) else None) of
                                Some e \<Rightarrow> Inl e
                              | None \<Rightarrow>
                            (case ValidateIdentifier ''kubernetes namespace'' (t_Namespace t) of
                               Some e \<Rightarrow> Inl e
                             | None \<Rightarrow>
                            (case ValidateIdentifier ''kubernetes pod'' (t_Pod t) of
                               Some e \<Rightarrow> Inl e
                             | None \<Rightarrow> Inr t)))"

text \<open>What \<open>url.Parse\<close> makes of an address, as far as it is read.\<close>

record ssh_url =
  su_User :: "(string \<times> bool) option"
  su_Hostname :: string
  su_Port :: string

text \<open>A port number within its range.\<close>

definition ssh_port :: "string \<Rightarrow> int option" where
  "ssh_port s = (case atoi s of None \<Rightarrow> None | Some p \<Rightarrow> if p < 1 \<or> 65535 < p then None else Some p)"

definition parse_ssh_url :: "(string \<Rightarrow> ssh_url option) \<Rightarrow> string \<Rightarrow> target_error + target" where
  "parse_ssh_url url raw =
     (case url raw of
        None \<Rightarrow> Inl UrlInvalid
      | Some u \<Rightarrow>
          (case su_User u of
             Some (_, True) \<Rightarrow> Inl UrlPassword
           | user \<Rightarrow>
               (let t = (new_target KindSSH)\<lparr>t_User := (case user of Some (n, _) \<Rightarrow> n | None \<Rightarrow> []),
                                              t_Host := su_Hostname u, t_Port := 22\<rparr>
                in case (if su_Port u \<noteq> []
                         then (case ssh_port (su_Port u) of
                                 None \<Rightarrow> Inl (PortInvalid (su_Port u)) | Some p \<Rightarrow> Inr (t\<lparr>t_Port := p\<rparr>))
                         else Inr t) of
                     Inl e \<Rightarrow> Inl e
                   | Inr t \<Rightarrow> if t_Host t = [] then Inl HostMissing else Inr t)))"

text \<open>The plain form: a user before the last \<open>@\<close>, and a port after the last colon of the rest.\<close>

definition split_user :: "string \<Rightarrow> target_error + (string \<times> string)" where
  "split_user raw =
     (case last_index_of ''@'' raw of
        None \<Rightarrow> Inr ([], raw)
      | Some i \<Rightarrow> if take i raw = [] then Inl UserEmpty else Inr (take i raw, drop (i + 1) raw))"

definition split_port :: "string \<Rightarrow> target_error + (string \<times> int)" where
  "split_port hostPart =
     (case last_index_of '':'' hostPart of
        None \<Rightarrow> Inr (hostPart, 22)
      | Some i \<Rightarrow>
          if has_prefix hostPart ''['' then Inr (hostPart, 22)
          else case ssh_port (drop (i + 1) hostPart) of
                 None \<Rightarrow> Inl (PortInvalid (drop (i + 1) hostPart))
               | Some p \<Rightarrow> Inr (take i hostPart, p))"

definition parse_ssh_plain :: "string \<Rightarrow> target_error + target" where
  "parse_ssh_plain raw =
     (case split_user raw of
        Inl e \<Rightarrow> Inl e
      | Inr (user, hostPart) \<Rightarrow>
          (case split_port hostPart of
             Inl e \<Rightarrow> Inl e
           | Inr (host, port) \<Rightarrow>
               if host = [] then Inl HostMissing
               else Inr ((new_target KindSSH)\<lparr>t_User := user, t_Host := host, t_Port := port\<rparr>)))"

definition parseSSH :: "(string \<Rightarrow> ssh_url option) \<Rightarrow> string \<Rightarrow> target_error + target" where
  "parseSSH url raw =
     (case (if has_prefix raw ''ssh://'' then parse_ssh_url url raw else parse_ssh_plain raw) of
        Inl e \<Rightarrow> Inl e
      | Inr t \<Rightarrow>
          (case (if t_User t \<noteq> [] then ValidateIdentifier ''ssh user'' (t_User t) else None) of
             Some e \<Rightarrow> Inl e
           | None \<Rightarrow>
               (case ValidateIdentifier ''ssh host'' (t_Host t) of Some e \<Rightarrow> Inl e | None \<Rightarrow> Inr t)))"

definition parse_kind :: "(string \<Rightarrow> ssh_url option) \<Rightarrow> string \<Rightarrow> target_error + target" where
  "parse_kind url raw =
     (if has_prefix raw ''container:'' then parseContainer raw
      else if has_prefix raw ''k8s:'' then parseK8s raw
      else parseSSH url raw)"

definition Target_Parse :: "(string \<Rightarrow> ssh_url option) \<Rightarrow> string \<Rightarrow> target_error + target" where
  "Target_Parse url raw =
     (if trim_space raw = [] then Inl TargetEmpty
      else case parse_kind url (trim_space raw) of
             Inl e \<Rightarrow> Inl e
           | Inr t \<Rightarrow> Inr (t\<lparr>t_Raw := Target_String t\<rparr>))"

definition SameTarget :: "target \<Rightarrow> target \<Rightarrow> bool" where
  "SameTarget a b =
     (if t_Kind a \<noteq> t_Kind b then False
      else case t_Kind a of
             KindSSH \<Rightarrow> t_User a = t_User b \<and> t_Host a = t_Host b \<and> t_Port a = t_Port b
           | KindContainer \<Rightarrow> t_Runtime a = t_Runtime b \<and> t_Container a = t_Container b
           | KindK8s \<Rightarrow> t_Context a = t_Context b \<and> t_Namespace a = t_Namespace b \<and> t_Pod a = t_Pod b \<and>
                        t_ContainerName a = t_ContainerName b
           | KindOther _ \<Rightarrow> Target_String a = Target_String b)"

section \<open>What an accepted target is\<close>

text \<open>A text the transports may put into the arguments of a command.\<close>

definition safe_identifier :: "string \<Rightarrow> bool" where
  "safe_identifier v \<longleftrightarrow> v \<noteq> [] \<and> hd v \<noteq> CHR ''-'' \<and>
     (\<forall>c \<in> set v. 32 < (of_char c :: nat) \<and> of_char c \<noteq> (127 :: nat) \<and> c \<notin> set shell_metacharacters)"

lemma ValidateIdentifier_None: "ValidateIdentifier k v = None \<longleftrightarrow> safe_identifier v"
proof -
  have "(\<forall>c \<in> set v. \<not> (of_char c \<le> (32::nat) \<or> of_char c = (127::nat)) \<and> c \<notin> set shell_metacharacters) \<longleftrightarrow>
      (\<forall>c \<in> set v. 32 < (of_char c :: nat) \<and> of_char c \<noteq> (127 :: nat) \<and> c \<notin> set shell_metacharacters)"
    by (simp add: not_le)
  then show ?thesis
    by (cases v) (auto simp: ValidateIdentifier_def safe_identifier_def list_ex_iff simp del: set_simps)
qed

text \<open>The identifiers of a target.\<close>

definition target_safe :: "target \<Rightarrow> bool" where
  "target_safe t \<longleftrightarrow>
     (case t_Kind t of
        KindSSH \<Rightarrow> safe_identifier (t_Host t) \<and> (t_User t = [] \<or> safe_identifier (t_User t)) \<and>
                    1 \<le> t_Port t \<and> t_Port t \<le> 65535
      | KindContainer \<Rightarrow> safe_identifier (t_Container t) \<and> t_Runtime t \<in> {''auto'', ''docker'', ''podman''}
      | KindK8s \<Rightarrow> safe_identifier (t_Namespace t) \<and> safe_identifier (t_Pod t) \<and>
                    (t_Context t = [] \<or> safe_identifier (t_Context t))
      | KindOther _ \<Rightarrow> False)"

lemma target_safe_raw [simp]: "target_safe (t\<lparr>t_Raw := r\<rparr>) = target_safe t"
  by (simp add: target_safe_def split: target_kind.split)

lemma ssh_port_range: "ssh_port s = Some p \<Longrightarrow> 1 \<le> p \<and> p \<le> 65535"
  by (auto simp: ssh_port_def split: option.splits if_splits)

lemma split_port_range: "split_port s = Inr (h, p) \<Longrightarrow> 1 \<le> p \<and> p \<le> 65535"
  by (auto simp: split_port_def dest: ssh_port_range split: option.splits if_splits)

lemma parseContainer_safe: "parseContainer raw = Inr t \<Longrightarrow> t_Kind t = KindContainer \<and> target_safe t"
  by (auto simp: parseContainer_def Let_def target_safe_def new_target_def ValidateIdentifier_None
    split: option.splits if_splits sum.splits)

lemma parseK8s_safe: "parseK8s raw = Inr t \<Longrightarrow> t_Kind t = KindK8s \<and> target_safe t"
  by (auto simp: parseK8s_def Let_def target_safe_def new_target_def ValidateIdentifier_None
    split: option.splits if_splits)

lemma parse_ssh_plain_port: "parse_ssh_plain raw = Inr t \<Longrightarrow> t_Kind t = KindSSH \<and> 1 \<le> t_Port t \<and> t_Port t \<le> 65535"
  by (auto simp: parse_ssh_plain_def new_target_def dest!: split_port_range split: sum.splits if_splits)

lemma parse_ssh_url_port: "parse_ssh_url url raw = Inr t \<Longrightarrow> t_Kind t = KindSSH \<and> 1 \<le> t_Port t \<and> t_Port t \<le> 65535"
  by (auto simp: parse_ssh_url_def Let_def new_target_def dest: ssh_port_range
    split: option.splits prod.splits bool.splits if_splits sum.splits)

lemma parseSSH_safe: "parseSSH url raw = Inr t \<Longrightarrow> t_Kind t = KindSSH \<and> target_safe t"
  by (auto simp: parseSSH_def target_safe_def ValidateIdentifier_None
    dest!: parse_ssh_plain_port parse_ssh_url_port split: sum.splits option.splits if_splits)

lemma parse_kind_safe: "parse_kind url raw = Inr t \<Longrightarrow> target_safe t"
  by (auto simp: parse_kind_def dest: parseContainer_safe parseK8s_safe parseSSH_safe split: if_splits)

lemma Target_Parse_facts:
  "Target_Parse url raw = Inr t \<Longrightarrow>
     (\<exists>t'. parse_kind url (trim_space raw) = Inr t' \<and> t = t'\<lparr>t_Raw := Target_String t'\<rparr>) \<and> target_safe t"
  by (auto simp: Target_Parse_def dest: parse_kind_safe split: sum.splits if_splits)


section \<open>Printing and reading back\<close>

lemma last_index_of_char: "c \<notin> set b \<Longrightarrow> last_index_of [c] (a @ c # b) = Some (length a)"
  using index_of_char [of c "rev b" "rev a"] by (simp add: last_index_of_def)

lemma last_index_of_None: "last_index_of [c] s = None \<longleftrightarrow> c \<notin> set s"
  by (simp add: last_index_of_def index_of_None_iff sublist_single)

lemma last_index_of_SomeD:
  assumes "last_index_of [c] s = Some i"
  shows "s = take i s @ c # drop (i + 1) s \<and> c \<notin> set (drop (i + 1) s)"
proof -
  have "c \<in> set s" using assms last_index_of_None [of c s] by (cases "c \<in> set s") simp_all
  then obtain a b where s: "s = a @ c # b" "c \<notin> set b" by (auto dest: split_list_last)
  with assms have "i = length a" by (simp add: last_index_of_char)
  with s show ?thesis by simp
qed

text \<open>What can be said of the printed form: a user is needed before a port, and a host before no port has no colon.\<close>

definition printable_target :: "target \<Rightarrow> bool" where
  "printable_target t \<longleftrightarrow>
     trim_space (Target_String t) = Target_String t \<and>
     (t_Kind t = KindSSH \<longrightarrow>
        (t_User t \<noteq> [] \<or> t_Port t = 22) \<and>
        (t_Port t = 22 \<longrightarrow> CHR '':'' \<notin> set (t_Host t) \<or> has_prefix (t_Host t) ''[''))"

definition printed_host :: "string \<Rightarrow> int \<Rightarrow> string" where
  "printed_host h p = (if p = 22 then h else h @ '':'' @ itoa p)"

lemma ssh_port_itoa: "1 \<le> p \<Longrightarrow> p \<le> 65535 \<Longrightarrow> ssh_port (itoa p) = Some p"
  by (simp add: ssh_port_def atoi_itoa min_int64_def max_int64_def)

lemma digits_not: "c \<notin> set digits \<Longrightarrow> 0 \<le> p \<Longrightarrow> c \<notin> set (itoa p)"
  using set_itoa_nonneg by blast

lemma split_port_printed:
  assumes "split_port hp = Inr (h, p)" "h \<noteq> []" "CHR ''@'' \<notin> set hp"
    and "p = 22 \<longrightarrow> CHR '':'' \<notin> set h \<or> has_prefix h ''[''"
  shows "split_port (printed_host h p) = Inr (h, p) \<and> CHR ''@'' \<notin> set (printed_host h p) \<and>
    (\<exists>r. hp = h @ r)"
proof (cases "last_index_of '':'' hp")
  case None
  with assms show ?thesis by (simp add: split_port_def printed_host_def)
next
  case (Some i)
  note hp = last_index_of_SomeD [OF Some]
  show ?thesis
  proof (cases "has_prefix hp ''[''")
    case True
    with Some assms show ?thesis by (simp add: split_port_def printed_host_def)
  next
    case False
    with Some assms(1) have h: "h = take i hp" and p: "1 \<le> p" "p \<le> 65535"
      by (auto simp: split_port_def dest: ssh_port_range split: option.splits)
    have at_h: "CHR ''@'' \<notin> set h" using assms(3) h by (auto dest: in_set_takeD)
    have "\<exists>r. hp = h @ r" using hp h by blast
    moreover have "\<not> has_prefix h ''[''" using False \<open>\<exists>r. hp = h @ r\<close> assms(2) by (cases h) auto
    moreover have "CHR ''@'' \<notin> set (printed_host h p)"
      using at_h p digits_not [of "CHR ''@''" p] by (simp add: printed_host_def digits_def)
    moreover have "split_port (printed_host h p) = Inr (h, p)"
    proof (cases "p = 22")
      case True
      with assms(4) \<open>\<not> has_prefix h ''[''\<close> have "CHR '':'' \<notin> set h" by simp
      then have "last_index_of '':'' h = None" by (rule last_index_of_None [THEN iffD2])
      with True show ?thesis by (simp add: split_port_def printed_host_def)
    next
      case False
      have "CHR '':'' \<notin> set (itoa p)" using p digits_not [of "CHR '':''" p] by (simp add: digits_def)
      from last_index_of_char [OF this, of h]
      have "last_index_of '':'' (h @ '':'' @ itoa p) = Some (length h)" by simp
      moreover have "\<not> has_prefix (h @ '':'' @ itoa p) ''[''"
        using \<open>\<not> has_prefix h ''[''\<close> assms(2) by (cases h) auto
      ultimately show ?thesis using False p by (simp add: split_port_def printed_host_def ssh_port_itoa)
    qed
    ultimately show ?thesis by blast
  qed
qed

lemma prefix_before_char:
  assumes "prefix p (u @ c # x)" "c \<notin> set p"
  shows "prefix p u"
proof -
  have "\<not> length u < length p"
  proof
    assume "length u < length p"
    then have "p ! length u = (u @ c # x) ! length u"
      using assms(1) by (metis prefix_def nth_append)
    then have "p ! length u = c" by simp
    with \<open>length u < length p\<close> assms(2) show False using nth_mem by force
  qed
  with assms(1) show ?thesis by (metis not_le_imp_less prefix_length_prefix prefixI)
qed

text \<open>A plain target of the second kind of text is printed so that it is read back.\<close>

lemma plain_printed:
  assumes "parse_ssh_plain raw = Inr t" "printable_target t"
  shows "parse_ssh_plain (Target_String t) = Inr t \<and>
    (\<forall>p. CHR ''@'' \<notin> set p \<longrightarrow> prefix p (Target_String t) \<longrightarrow> prefix p raw)"
proof -
  from assms(1) obtain u hp h p where u: "split_user raw = Inr (u, hp)" and hp: "split_port hp = Inr (h, p)"
    and h: "h \<noteq> []" and t: "t = (new_target KindSSH)\<lparr>t_User := u, t_Host := h, t_Port := p\<rparr>"
    by (auto simp: parse_ssh_plain_def split: sum.splits prod.splits if_splits)
  from assms(2) t have pt: "u \<noteq> [] \<or> p = 22" "p = 22 \<longrightarrow> CHR '':'' \<notin> set h \<or> has_prefix h ''[''"
    by (simp_all add: printable_target_def new_target_def)
  have p: "1 \<le> p" using split_port_range [OF hp] by simp
  have raw: "CHR ''@'' \<notin> set hp \<and> (u = [] \<and> raw = hp \<or> u \<noteq> [] \<and> raw = u @ CHR ''@'' # hp)"
  proof (cases "last_index_of ''@'' raw")
    case None
    with u show ?thesis by (auto simp: split_user_def last_index_of_None)
  next
    case (Some i)
    with u have "take i raw = u" "drop (i + 1) raw = hp" "u \<noteq> []"
      by (auto simp: split_user_def split: if_splits)
    with last_index_of_SomeD [OF Some] show ?thesis by simp
  qed
  with split_port_printed [OF hp h _ pt(2)]
  have sp: "split_port (printed_host h p) = Inr (h, p)" "CHR ''@'' \<notin> set (printed_host h p)" "\<exists>r. hp = h @ r"
    by blast+
  have str: "Target_String t = (if u = [] then h else u @ CHR ''@'' # printed_host h p)"
    using pt(1) p by (auto simp: t Target_String_def new_target_def printed_host_def)
  show ?thesis
  proof (cases "u = []")
    case True
    with pt(1) have "p = 22" by simp
    with sp True str have s: "Target_String t = h" "CHR ''@'' \<notin> set h" "split_port h = Inr (h, 22)"
      by (simp_all add: printed_host_def)
    moreover have "split_user h = Inr ([], h)"
      using last_index_of_None [THEN iffD2, OF s(2)] by (simp add: split_user_def)
    moreover have "\<exists>r. raw = h @ r" using raw True sp(3) by simp
    ultimately show ?thesis using t \<open>p = 22\<close> True h
      by (auto simp: parse_ssh_plain_def)
  next
    case False
    have "split_user (Target_String t) = Inr (u, printed_host h p)"
      using False str last_index_of_char [OF sp(2), of u] by (simp add: split_user_def)
    moreover have "prefix q raw" if "CHR ''@'' \<notin> set q" "prefix q (Target_String t)" for q
      using prefix_before_char [of q u "CHR ''@''" "printed_host h p"] that False str raw by auto
    ultimately show ?thesis using sp(1) h t by (simp add: parse_ssh_plain_def)
  qed
qed


lemma validated_ssh:
  assumes "parse_ssh_plain raw = Inr t" "target_safe t" "\<not> has_prefix raw ''ssh://''"
  shows "parseSSH url raw = Inr t"
proof -
  have "t_Kind t = KindSSH" using parse_ssh_plain_port [OF assms(1)] by blast
  with assms have "t_User t \<noteq> [] \<longrightarrow> ValidateIdentifier ''ssh user'' (t_User t) = None"
    "ValidateIdentifier ''ssh host'' (t_Host t) = None"
    by (auto simp: target_safe_def ValidateIdentifier_None)
  with assms(1,3) show ?thesis by (cases "t_User t = []") (simp_all add: parseSSH_def)
qed

lemma container_printed: "parseContainer raw = Inr t \<Longrightarrow> has_prefix raw ''container:'' \<Longrightarrow> Target_String t = raw"
proof -
  assume t: "parseContainer raw = Inr t" and "has_prefix raw ''container:''"
  then obtain body where raw: "raw = ''container:'' @ body" by (auto simp: prefix_def)
  have body: "trim_prefix raw ''container:'' = body" unfolding raw by (rule trim_prefix_append)
  show "Target_String t = raw"
  proof (cases "index_of ''/'' body")
    case None
    with t body have "t = (new_target KindContainer)\<lparr>t_Runtime := ''auto'', t_Container := body\<rparr>"
      by (simp add: parseContainer_def Let_def split: if_splits option.splits)
    then show ?thesis by (simp add: Target_String_def new_target_def raw)
  next
    case (Some i)
    with t body have "t = (new_target KindContainer)\<lparr>t_Runtime := take i body, t_Container := drop (i + 1) body\<rparr>"
      "take i body = ''docker'' \<or> take i body = ''podman''"
      by (auto simp add: parseContainer_def Let_def split: if_splits option.splits)
    moreover have "body = take i body @ ''/'' @ drop (i + 1) body" using index_of_SomeD [OF Some] by simp
    ultimately show ?thesis by (auto simp: Target_String_def new_target_def raw)
  qed
qed

lemma pod_printed:
  assumes "parseK8s raw = Inr t" "has_prefix raw ''k8s:''"
  shows "parseK8s (Target_String t) = Inr t \<and> has_prefix (Target_String t) ''k8s:''"
proof -
  obtain body where raw: "raw = ''k8s:'' @ body" using assms(2) by (auto simp: prefix_def)
  have body: "trim_prefix raw ''k8s:'' = body" unfolding raw by (rule trim_prefix_append)
  let ?ps = "split_at ''/'' body"
  have j: "join ''/'' ?ps = body" by (rule join_split_at)
  from assms(1) body consider (two) "length ?ps = 2" | (three) "length ?ps = 3" 
    by (fastforce simp: parseK8s_def Let_def split: if_splits)
  then show ?thesis
  proof cases
    case two
    then obtain a b where ps: "?ps = [a, b]" by (auto simp: numeral_2_eq_2 length_Suc_conv)
    with assms(1) body have t: "t = (new_target KindK8s)\<lparr>t_Namespace := a, t_Pod := b\<rparr>"
      by (auto simp: parseK8s_def Let_def split: if_splits option.splits)
    have "Target_String t = raw" using j ps by (simp add: t Target_String_def new_target_def raw)
    with assms show ?thesis by simp
  next
    case three
    then obtain a b c where ps: "?ps = [a, b, c]" by (auto simp: numeral_3_eq_3 length_Suc_conv)
    with assms(1) body have t: "t = (new_target KindK8s)\<lparr>t_Context := a, t_Namespace := b, t_Pod := c\<rparr>"
      and ok: "b \<noteq> []" "c \<noteq> []" "ValidateIdentifier ''kubernetes namespace'' b = None"
        "ValidateIdentifier ''kubernetes pod'' c = None"
      by (auto simp: parseK8s_def Let_def new_target_def split: if_splits option.splits)
    show ?thesis
    proof (cases "a = []")
      case False
      then have "Target_String t = raw" using j ps by (simp add: t Target_String_def new_target_def raw)
      with assms show ?thesis by simp
    next
      case True
      then have str: "Target_String t = ''k8s:'' @ join ''/'' [b, c]" by (simp add: t Target_String_def new_target_def)
      have "trim_prefix (Target_String t) ''k8s:'' = join ''/'' [b, c]" unfolding str by (rule trim_prefix_append)
      moreover have "split_at ''/'' (join ''/'' [b, c]) = [b, c]"
        using split_at_no_sep [of _ "CHR ''/''" body] ps by (intro split_at_join) auto
      ultimately have "parseK8s (Target_String t) = Inr t"
        using ok True by (simp add: parseK8s_def Let_def t new_target_def)
      with str show ?thesis by simp
    qed
  qed
qed

lemma Target_printed:
  assumes "Target_Parse url raw = Inr t" "\<not> has_prefix (trim_space raw) ''ssh://''" "printable_target t"
  shows "Target_Parse url' (Target_String t) = Inr t"
proof -
  let ?raw = "trim_space raw"
  from Target_Parse_facts [OF assms(1)] obtain t' where t': "parse_kind url ?raw = Inr t'"
    and t: "t = t'\<lparr>t_Raw := Target_String t'\<rparr>" and safe: "target_safe t" by blast
  have str: "Target_String t = Target_String t'" if "\<And>k. t_Kind t' \<noteq> KindOther k"
    using that by (cases "t_Kind t'") (simp_all add: t Target_String_def)
  have not_other: "\<And>k. t_Kind t' \<noteq> KindOther k" using safe by (auto simp: t target_safe_def)
  note str = str [OF not_other]
  have "parse_kind url' (Target_String t') = Inr t' \<and> Target_String t' \<noteq> []"
  proof (cases "has_prefix ?raw ''container:'' \<or> has_prefix ?raw ''k8s:''")
    case True
    then consider (c) "has_prefix ?raw ''container:''"
      | (k) "has_prefix ?raw ''k8s:''" "\<not> has_prefix ?raw ''container:''" by blast
    then show ?thesis
    proof cases
      case c
      with t' have p: "parseContainer ?raw = Inr t'" by (simp add: parse_kind_def)
      from container_printed [OF p c] c p show ?thesis by (auto simp: parse_kind_def)
    next
      case k
      with t' have p: "parseK8s ?raw = Inr t'" by (simp add: parse_kind_def)
      from pod_printed [OF p k(1)] show ?thesis by (auto simp: parse_kind_def prefix_def)
    qed
  next
    case False
    with t' assms(2) have p: "parse_ssh_plain ?raw = Inr t'"
      by (auto simp: parse_kind_def parseSSH_def split: sum.splits option.splits)
    have "printable_target t'" using assms(3) str by (auto simp: printable_target_def t)
    from plain_printed [OF p this] have q: "parse_ssh_plain (Target_String t') = Inr t'"
      and pre: "\<And>p. CHR ''@'' \<notin> set p \<Longrightarrow> prefix p (Target_String t') \<Longrightarrow> prefix p ?raw" by auto
    have no: "\<not> prefix x (Target_String t')" if "x \<in> {''container:'', ''k8s:'', ''ssh://''}" for x
      using pre [of x] that False assms(2) by auto
    have "target_safe t'" using safe t by simp
    from validated_ssh [OF q this] no have "parse_kind url' (Target_String t') = Inr t'"
      by (simp add: parse_kind_def)
    moreover have "Target_String t' \<noteq> []" using q
      by (auto simp: parse_ssh_plain_def split_user_def split_port_def last_index_of_def split: if_splits)
    ultimately show ?thesis by simp
  qed
  moreover have "trim_space (Target_String t) = Target_String t" using assms(3) by (simp add: printable_target_def)
  ultimately show ?thesis using str t by (simp add: Target_Parse_def)
qed

text \<open>
  C39: an accepted target has only identifiers that are safe in a command, and what it is printed as, in the
  clean-up commands and as the key of the saved sessions, reads back as the same target when it was not given
  as an \<open>ssh://\<close> address, its printed form has no blanks around it and, over ssh, it has a user or port
  22, and for port 22 a host without a colon or in brackets. Without a user and with another port the
  printed form is refused.
\<close>

theorem Target_roundtrip:
  "(\<forall>url raw t. Target_Parse url raw = Inr t \<longrightarrow>
      target_safe t \<and> t_Raw t = Target_String t \<and>
      (\<not> has_prefix (trim_space raw) ''ssh://'' \<and> printable_target t \<longrightarrow>
         (\<forall>url'. Target_Parse url' (Target_String t) = Inr t))) \<and>
   (\<forall>url (t :: target). t_Kind t = KindSSH \<and> t_User t = [] \<and> t_Port t \<noteq> 22 \<and>
      CHR ''@'' \<notin> set (t_Host t) \<and> 0 < t_Port t \<and> trim_space (Target_String t) = Target_String t \<longrightarrow>
      (\<exists>e. Target_Parse url (Target_String t) = Inl e))"
proof (intro conjI allI impI)
  fix url raw t assume p: "Target_Parse url raw = Inr t"
  from Target_Parse_facts [OF p] obtain t' where t': "parse_kind url (trim_space raw) = Inr t'"
    and t: "t = t'\<lparr>t_Raw := Target_String t'\<rparr>" and safe: "target_safe t" by blast
  show "target_safe t" by (rule safe)
  show "t_Raw t = Target_String t" using safe by (cases "t_Kind t'") (simp_all add: t Target_String_def target_safe_def)
  fix url'
  assume "\<not> has_prefix (trim_space raw) ''ssh://'' \<and> printable_target t"
  then show "Target_Parse url' (Target_String t) = Inr t" using Target_printed [OF p] by blast
next
  fix url and t :: target
  assume t: "t_Kind t = KindSSH \<and> t_User t = [] \<and> t_Port t \<noteq> 22 \<and>
      CHR ''@'' \<notin> set (t_Host t) \<and> 0 < t_Port t \<and> trim_space (Target_String t) = Target_String t"
  then have str: "Target_String t = CHR ''@'' # t_Host t @ '':'' @ itoa (t_Port t)"
    by (simp add: Target_String_def)
  show "\<exists>e. Target_Parse url (Target_String t) = Inl e"
  proof -
    have "CHR ''@'' \<notin> set (t_Host t @ '':'' @ itoa (t_Port t))"
      using t digits_not [of "CHR ''@''" "t_Port t"] by (simp add: digits_def)
    from last_index_of_char [OF this, of "[]"] str
    have "split_user (Target_String t) = Inl UserEmpty" by (simp add: split_user_def)
    with t str show ?thesis by (simp add: Target_Parse_def parse_kind_def parseSSH_def parse_ssh_plain_def)
  qed
qed

theorem Target_roundtrip_witness:
  "(case Target_Parse (\<lambda>_. None) '' ops@db.internal:2200 '' of
      Inl _ \<Rightarrow> False
    | Inr t \<Rightarrow> Target_String t = ''ops@db.internal:2200'' \<and> target_safe t \<and>
        Target_Parse (\<lambda>_. None) (Target_String t) = Inr t) \<and>
   (\<exists>e. Target_Parse (\<lambda>_. None) (Target_String ((new_target KindSSH)\<lparr>t_Host := ''db'', t_Port := 2200\<rparr>)) = Inl e)"
proof -
  let ?t = "(new_target KindSSH)\<lparr>t_User := ''ops'', t_Host := ''db.internal'', t_Port := 2200,
    t_Raw := ''ops@db.internal:2200''\<rparr>"
  let ?u = "(new_target KindSSH)\<lparr>t_Host := ''db'', t_Port := 2200\<rparr>"
  have p: "Target_Parse (\<lambda>_. None) '' ops@db.internal:2200 '' = Inr ?t" by code_simp
  have "\<not> has_prefix (trim_space '' ops@db.internal:2200 '') ''ssh://'' \<and> printable_target ?t" by code_simp
  moreover have "Target_String ?t = ''ops@db.internal:2200''" by code_simp
  moreover have "t_Kind ?u = KindSSH \<and> t_User ?u = [] \<and> t_Port ?u \<noteq> 22 \<and>
      CHR ''@'' \<notin> set (t_Host ?u) \<and> 0 < t_Port ?u \<and> trim_space (Target_String ?u) = Target_String ?u"
    by code_simp
  ultimately show ?thesis
    using Target_roundtrip [THEN conjunct1, rule_format, OF p]
      Target_roundtrip [THEN conjunct2, rule_format, of "(new_target KindSSH)\<lparr>t_Host := ''db'', t_Port := 2200\<rparr>"] p
    by simp
qed

end
