(* ===== verification/Remote_Session.thy ===== *)
theory Remote_Session
  imports Remote_Target
begin

text \<open>
  \<open>internal/remote/session\<close>: the manifest of a remote session, what is checked of it before anything is
  removed on a remote machine, quoting for a POSIX shell (\<open>session.go\<close>), and the local cache of the
  manifests (\<open>cache.go\<close>). The cache directory is the list of its entries in the order \<open>os.ReadDir\<close> gives
  them, by name, and can be read when it exists; JSON is a pair of an encoder and a decoder. Of a manifest, what
  the code never sets is left out: the logged commands, the backups, the hints and the digests of files.
\<close>

section \<open>Manifests\<close>

record managed_file =
  mf_Path :: string
  mf_Mode :: string
  mf_Created :: bool

record session_manifest =
  sm_SchemaVersion :: string
  sm_DevDiagVersion :: string
  sm_SessionID :: string
  sm_CreatedAt :: string
  sm_Target :: target
  sm_Profile :: string
  sm_Mode :: string
  sm_RootDir :: string
  sm_Files :: "managed_file list"
  sm_Status :: string

definition ascii_alpha :: "char \<Rightarrow> bool" where
  "ascii_alpha c \<longleftrightarrow> (let n = of_char c :: nat in 97 \<le> n \<and> n \<le> 122 \<or> 65 \<le> n \<and> n \<le> 90)"

definition ascii_alnum :: "char \<Rightarrow> bool" where
  "ascii_alnum c \<longleftrightarrow> ascii_alpha c \<or> c \<in> set digits"

text \<open>\<open>sessionIDRe\<close>: \<open>^[0-9]{8}T[0-9]{6}Z_[A-Za-z0-9][A-Za-z0-9_-]{5,63}$\<close>.\<close>

definition session_id_matches :: "string \<Rightarrow> bool" where
  "session_id_matches s =
     (let date = take 8 s; time = take 6 (drop 9 s); suffix = drop 17 s
      in 23 \<le> length s \<and> length suffix \<le> 64 \<and> list_all (\<lambda>c. c \<in> set digits) date \<and> s ! 8 = CHR ''T'' \<and>
         list_all (\<lambda>c. c \<in> set digits) time \<and> s ! 15 = CHR ''Z'' \<and> s ! 16 = CHR ''_'' \<and>
         ascii_alnum (hd suffix) \<and>
         list_all (\<lambda>c. ascii_alnum c \<or> c = CHR ''_'' \<or> c = CHR ''-'') (tl suffix))"

datatype identity_error = NoManifest | BadSchema string | BadSessionID string | NoTarget | BadKind | BadStatus string

definition ValidateSessionID :: "string \<Rightarrow> identity_error option" where
  "ValidateSessionID s = (if session_id_matches s then None else Some (BadSessionID s))"

definition ValidateManifestIdentity :: "session_manifest option \<Rightarrow> identity_error option" where
  "ValidateManifestIdentity om =
     (case om of
        None \<Rightarrow> Some NoManifest
      | Some m \<Rightarrow>
          if sm_SchemaVersion m \<noteq> ''0.1'' then Some (BadSchema (sm_SchemaVersion m))
          else case ValidateSessionID (sm_SessionID m) of
                 Some e \<Rightarrow> Some e
               | None \<Rightarrow>
                   if t_Raw (sm_Target m) = [] then Some NoTarget
                   else case t_Kind (sm_Target m) of
                          KindOther _ \<Rightarrow> Some BadKind
                        | _ \<Rightarrow> if sm_Status m \<in> {''active'', ''cleaned'', ''partial'', ''failed'', []} then None
                               else Some (BadStatus (sm_Status m)))"

section \<open>Roots and managed paths\<close>

definition SSHRootDir :: "string \<Rightarrow> string" where
  "SSHRootDir s = Join2 ''~/.devdiag/remote'' s"

definition ContainerRootDir :: "string \<Rightarrow> string" where
  "ContainerRootDir s = Join2 ''/tmp/devdiag-remote'' s"

definition K8sRootDir :: "string \<Rightarrow> string" where
  "K8sRootDir s = Join2 ''/tmp/devdiag-remote'' s"

definition isSafeRemotePath :: "string \<Rightarrow> bool" where
  "isSafeRemotePath p = list_all (\<lambda>c. ascii_alnum c \<or> c \<in> set ''._~/-'') p"

definition hasPathTraversal :: "string \<Rightarrow> bool" where
  "hasPathTraversal p = list_ex (\<lambda>e. e = ''..'') (split_at ''/'' (replace_all p [CHR 0x5C] ''/''))"

fun kind_name :: "target_kind \<Rightarrow> string" where
  "kind_name KindSSH = ''ssh''"
| "kind_name KindContainer = ''container''"
| "kind_name KindK8s = ''k8s''"
| "kind_name (KindOther s) = s"

definition ValidateRootDir :: "string \<Rightarrow> target_kind \<Rightarrow> string option" where
  "ValidateRootDir d kind =
     (let dir = trim_space d
      in if dir = [] then Some ''root dir is empty''
         else if \<not> isSafeRemotePath dir then Some ''root dir contains unsafe characters''
         else if dir = ''/'' then Some ''root dir cannot be /''
         else if dir = ''/home'' then Some ''root dir cannot be /home''
         else if dir = ''/tmp'' then Some ''root dir cannot be /tmp''
         else let cleanDir = Clean dir;
                  verdict = (case kind of
                     KindSSH \<Rightarrow>
                       if \<not> has_prefix cleanDir ''~/.devdiag/remote/'' \<and> \<not> contains cleanDir ''/.devdiag/remote/''
                       then Some ''ssh root dir must be within .devdiag/remote'' else None
                   | KindOther k \<Rightarrow> Some (''unsupported target kind '' @ quote_go k)
                   | k \<Rightarrow> if \<not> has_prefix cleanDir ''/tmp/devdiag-remote/''
                          then Some (kind_name k @ '' root dir must be within /tmp/devdiag-remote'') else None)
              in case verdict of
                   Some e \<Rightarrow> Some e
                 | None \<Rightarrow> if hasPathTraversal dir then Some ''root dir contains path traversal'' else None)"

definition ValidateManagedPath :: "string \<Rightarrow> string \<Rightarrow> string option" where
  "ValidateManagedPath rootDir0 path0 =
     (let rootDir = trim_space rootDir0; path = trim_space path0
      in if path = [] then Some ''path is empty''
         else if rootDir = [] then Some ''root dir is empty''
         else if \<not> isSafeRemotePath rootDir \<or> \<not> isSafeRemotePath path
         then Some ''managed path contains unsafe characters''
         else if hasPathTraversal path then Some ''path contains path traversal''
         else let cleanRoot = Clean rootDir; cleanPath = Clean path
              in if cleanPath = cleanRoot \<or> \<not> has_prefix cleanPath (cleanRoot @ ''/'')
                 then Some ''managed path must be within the session root'' else None)"

datatype manifest_error = BadIdentity identity_error | BadRoot string | BadPath string string

fun first_bad_path :: "string \<Rightarrow> managed_file list \<Rightarrow> manifest_error option" where
  "first_bad_path rootDir [] = None"
| "first_bad_path rootDir (f # fs) =
     (case ValidateManagedPath rootDir (mf_Path f) of
        Some e \<Rightarrow> Some (BadPath (mf_Path f) e)
      | None \<Rightarrow> first_bad_path rootDir fs)"

definition ValidateManifest :: "session_manifest option \<Rightarrow> manifest_error option" where
  "ValidateManifest om =
     (case ValidateManifestIdentity om of
        Some e \<Rightarrow> Some (BadIdentity e)
      | None \<Rightarrow>
          (case om of
             None \<Rightarrow> None
           | Some m \<Rightarrow>
               (case ValidateRootDir (sm_RootDir m) (t_Kind (sm_Target m)) of
                  Some e \<Rightarrow> Some (BadRoot e)
                | None \<Rightarrow> first_bad_path (sm_RootDir m) (sm_Files m))))"

section \<open>Quoting\<close>

definition ShellPath :: "string \<Rightarrow> string" where
  "ShellPath p = (if has_prefix p ''~/'' then ''$HOME/'' @ trim_prefix p ''~/'' else p)"

definition single_quote :: string where "single_quote = [CHR 0x27]"

definition ShellQuote :: "string \<Rightarrow> string" where
  "ShellQuote v =
     (if v = [] then single_quote @ single_quote
      else single_quote
        @ replace_all v single_quote (single_quote @ [CHR 0x22] @ single_quote @ [CHR 0x22] @ single_quote)
        @ single_quote)"

section \<open>The cache\<close>

record cache_entry =
  ce_IsDir :: bool
  ce_Content :: "string option"

type_synonym cache_dir = "(string \<times> cache_entry) list"

record manifest_codec =
  mc_encode :: "session_manifest \<Rightarrow> string"
  mc_decode :: "string \<Rightarrow> session_manifest option"

definition CacheDir :: "string \<Rightarrow> string \<Rightarrow> string" where
  "CacheDir cacheHome home =
     (if cacheHome = []
      then if home = [] then ''/tmp/devdiag-cache/remote/sessions''
           else Join2 (Join2 home ''.cache'') ''devdiag/remote/sessions''
      else Join2 cacheHome ''devdiag/remote/sessions'')"

text \<open>What the loops over the directory read of an entry: a manifest of a JSON file that can be read.\<close>

definition cached_manifest :: "manifest_codec \<Rightarrow> string \<times> cache_entry \<Rightarrow> session_manifest option" where
  "cached_manifest k e =
     (if ce_IsDir (snd e) \<or> \<not> has_suffix (fst e) ''.json'' then None
      else case ce_Content (snd e) of None \<Rightarrow> None | Some d \<Rightarrow> mc_decode k d)"

text \<open>The manifest of an entry for a target, the filters of \<open>ReadCache\<close> and \<open>ListCache\<close>.\<close>

definition cached_for :: "manifest_codec \<Rightarrow> string \<Rightarrow> string \<Rightarrow> string \<times> cache_entry \<Rightarrow> session_manifest option" where
  "cached_for k kind raw e =
     (if \<not> has_prefix (fst e) (kind @ ''_'') then None
      else case cached_manifest k e of
             None \<Rightarrow> None
           | Some m \<Rightarrow> if ValidateManifestIdentity (Some m) \<noteq> None \<or> t_Raw (sm_Target m) \<noteq> raw then None else Some m)"

fun read_latest ::
  "manifest_codec \<Rightarrow> string \<Rightarrow> string \<Rightarrow> session_manifest option \<Rightarrow> cache_dir \<Rightarrow> session_manifest option" where
  "read_latest k kind raw latest [] = latest"
| "read_latest k kind raw latest (e # es) =
     (case cached_for k kind raw e of
        None \<Rightarrow> read_latest k kind raw latest es
      | Some m \<Rightarrow>
          (case latest of
             None \<Rightarrow> read_latest k kind raw (Some m) es
           | Some l \<Rightarrow> if sm_CreatedAt m > sm_CreatedAt l then read_latest k kind raw (Some m) es
                       else read_latest k kind raw latest es))"

text \<open>An absent directory is an error of \<open>os.ReadDir\<close>; \<open>None\<close> is any error of the function.\<close>

definition ReadCache :: "manifest_codec \<Rightarrow> cache_dir option \<Rightarrow> string \<Rightarrow> string \<Rightarrow> session_manifest option" where
  "ReadCache k dir kind raw = (case dir of None \<Rightarrow> None | Some es \<Rightarrow> read_latest k kind raw None es)"

definition ListCache :: "manifest_codec \<Rightarrow> cache_dir option \<Rightarrow> string \<Rightarrow> string \<Rightarrow> session_manifest list" where
  "ListCache k dir kind raw = (case dir of None \<Rightarrow> [] | Some es \<Rightarrow> List.map_filter (cached_for k kind raw) es)"

fun find_session :: "manifest_codec \<Rightarrow> string \<Rightarrow> cache_dir \<Rightarrow> session_manifest option" where
  "find_session k s [] = None"
| "find_session k s (e # es) =
     (case cached_manifest k e of
        None \<Rightarrow> find_session k s es
      | Some m \<Rightarrow>
          if sm_SessionID m = s
          then (if ValidateManifestIdentity (Some m) \<noteq> None then None else Some m)
          else find_session k s es)"

definition ReadCacheBySessionID :: "manifest_codec \<Rightarrow> cache_dir option \<Rightarrow> string \<Rightarrow> session_manifest option" where
  "ReadCacheBySessionID k dir s = (case dir of None \<Rightarrow> None | Some es \<Rightarrow> find_session k s es)"

text \<open>Writing a file of the directory, which stays ordered by name.\<close>

fun put_entry :: "string \<Rightarrow> cache_entry \<Rightarrow> cache_dir \<Rightarrow> cache_dir" where
  "put_entry n e [] = [(n, e)]"
| "put_entry n e ((n', e') # es) =
     (if n = n' then (n, e) # es else if n < n' then (n, e) # (n', e') # es else (n', e') # put_entry n e es)"

definition cache_file_name :: "session_manifest \<Rightarrow> string" where
  "cache_file_name m = kind_name (t_Kind (sm_Target m)) @ ''_'' @ sm_SessionID m @ ''.json''"

datatype cache_error = InvalidManifest manifest_error | CacheMkdir | CacheWrite

text \<open>What becomes of the write of the file: a failed one may leave a part of the text.\<close>

datatype cache_write = Written | NotOpened | LeftPart string

text \<open>The directory afterwards and the error; the flag says whether the directory can be made.\<close>

definition WriteCache ::
  "manifest_codec \<Rightarrow> bool \<Rightarrow> cache_write \<Rightarrow> cache_dir option \<Rightarrow> session_manifest \<Rightarrow> cache_dir option \<times> cache_error option"
where
  "WriteCache k mkdir_ok wr dir m =
     (case ValidateManifest (Some m) of
        Some e \<Rightarrow> (dir, Some (InvalidManifest e))
      | None \<Rightarrow>
          if \<not> mkdir_ok then (dir, Some CacheMkdir)
          else let es = (case dir of None \<Rightarrow> [] | Some es \<Rightarrow> es);
                   put = (\<lambda>d. Some (put_entry (cache_file_name m) \<lparr>ce_IsDir = False, ce_Content = Some d\<rparr> es))
               in case wr of
                    Written \<Rightarrow> (put (mc_encode k m), None)
                  | NotOpened \<Rightarrow> (Some es, Some CacheWrite)
                  | LeftPart d \<Rightarrow> (put d, Some CacheWrite))"

section \<open>What the checks of paths guarantee\<close>

lemma Clean_no_elems: "path_elems p = [] \<Longrightarrow> path_elems (Clean p) = []"
proof -
  have "path_elems ''/'' = []" "path_elems ''.'' = []" by code_simp+
  then show "path_elems p = [] \<Longrightarrow> ?thesis" by (simp add: Clean_def)
qed

lemma Clean_down:
  assumes "''..'' \<notin> set (path_elems p)" "path_elems p \<noteq> []"
  shows "Clean p = (if IsAbs p then ''/'' else []) @ join ''/'' (path_elems p)"
    and "path_elems (Clean p) = path_elems p"
    and "split_at ''/'' (Clean p) = (if IsAbs p then [[]] else []) @ path_elems p"
proof -
  let ?es = "path_elems p"
  have "clean_elems (IsAbs p) [] ?es = ?es" using assms(1) by (subst clean_elems_id) auto
  then show c: "Clean p = (if IsAbs p then ''/'' else []) @ join ''/'' ?es"
    using assms(2) by (simp add: Clean_def Let_def)
  have es: "\<forall>e \<in> set ?es. path_elem e" by (auto dest: path_elems_elem)
  then have s: "split_at ''/'' (join ''/'' ?es) = ?es" using assms(2) by (intro split_at_join) (auto simp: path_elem_def)
  show sp: "split_at ''/'' (Clean p) = (if IsAbs p then [[]] else []) @ ?es"
    using split_at_append [of "CHR ''/''" "[]" "join ''/'' ?es"] s by (simp add: c)
  have "filter (\<lambda>e. e \<noteq> [] \<and> e \<noteq> ''.'') ?es = ?es" using es by (auto simp: path_elem_def filter_id_conv)
  then show "path_elems (Clean p) = ?es" unfolding path_elems_def [of "Clean p"] sp by simp
qed

lemma safe_no_traversal:
  assumes "isSafeRemotePath p" "\<not> hasPathTraversal p"
  shows "''..'' \<notin> set (path_elems p)"
proof -
  have "\<not> ascii_alnum (CHR 0x5C)" by (simp add: ascii_alnum_def ascii_alpha_def digits_def)
  then have "CHR 0x5C \<notin> set p" using assms(1) by (auto simp: isSafeRemotePath_def list_all_iff)
  then have "replace_all p [CHR 0x5C] ''/'' = p" by (intro replace_all_absent) (simp_all add: sublist_single)
  with assms(2) show ?thesis by (auto simp: hasPathTraversal_def list_ex_iff path_elems_def)
qed

text \<open>Where the sessions of a kind of target are kept, by the elements of the path.\<close>

definition session_place :: "target_kind \<Rightarrow> string list \<Rightarrow> bool" where
  "session_place kind es \<longleftrightarrow>
     (case kind of
        KindSSH \<Rightarrow> \<exists>pre ids. es = pre @ [''.devdiag'', ''remote''] @ ids \<and> ids \<noteq> []
      | KindOther _ \<Rightarrow> False
      | _ \<Rightarrow> \<exists>ids. es = [''tmp'', ''devdiag-remote''] @ ids \<and> ids \<noteq> [])"

definition root_elems :: "string \<Rightarrow> string list" where
  "root_elems rt = path_elems (Clean (trim_space rt))"

lemma split_two: "split_at ''/'' (a @ ''/'' @ x @ ''/'' @ y @ ''/'' @ b) =
    split_at ''/'' a @ split_at ''/'' x @ split_at ''/'' y @ split_at ''/'' b"
  by (simp only: split_at_append)

lemma ValidateRootDir_place:
  assumes "ValidateRootDir rt kind = None"
  shows "session_place kind (root_elems rt) \<and> ''..'' \<notin> set (root_elems rt) \<and> root_elems rt = path_elems (trim_space rt)"
proof -
  let ?d = "trim_space rt"
  have ok: "?d \<noteq> []" "isSafeRemotePath ?d" "\<not> hasPathTraversal ?d" and no: "\<nexists>k. kind = KindOther k"
    and where_ssh: "kind = KindSSH \<Longrightarrow> has_prefix (Clean ?d) ''~/.devdiag/remote/'' \<or> contains (Clean ?d) ''/.devdiag/remote/''"
    and where_tmp: "kind \<noteq> KindSSH \<Longrightarrow> has_prefix (Clean ?d) ''/tmp/devdiag-remote/''"
    using assms by (auto simp: ValidateRootDir_def Let_def split: if_splits target_kind.splits option.splits)
  have down: "''..'' \<notin> set (path_elems ?d)" by (rule safe_no_traversal [OF ok(2,3)])
  have lit: "split_at ''/'' ''.devdiag'' = [''.devdiag'']" "split_at ''/'' ''remote'' = [''remote'']"
    "split_at ''/'' ''tmp'' = [''tmp'']" "split_at ''/'' ''devdiag-remote'' = [''devdiag-remote'']"
    by code_simp+
  have ne: "path_elems ?d \<noteq> []"
  proof
    assume "path_elems ?d = []"
    then have "Clean ?d = ''/'' \<or> Clean ?d = ''.''" by (simp add: Clean_def)
    with where_ssh where_tmp show False by (cases "kind = KindSSH") (auto simp: sublist_Cons_right)
  qed
  note c = Clean_down [OF down ne]
  have "session_place kind (path_elems ?d)"
  proof (cases "kind = KindSSH")
    case True
    then obtain a b where "Clean ?d = a @ ''/.devdiag/remote/'' @ b"
      using where_ssh by (auto simp: sublist_def prefix_def) (metis append_Cons append_Nil)
    then have "split_at ''/'' (Clean ?d) = split_at ''/'' a @ [''.devdiag'', ''remote''] @ split_at ''/'' b"
      using split_two [of a "''.devdiag''" "''remote''" b] lit by simp
    then have s: "(if IsAbs ?d then [[]] else []) @ path_elems ?d = split_at ''/'' a @ [''.devdiag'', ''remote''] @ split_at ''/'' b"
      using c(3) by simp
    have "\<exists>pre. path_elems ?d = pre @ [''.devdiag'', ''remote''] @ split_at ''/'' b"
    proof (cases "IsAbs ?d")
      case True
      with s show ?thesis by (cases "split_at ''/'' a") auto
    next
      case False
      with s show ?thesis by auto
    qed
    then have "\<exists>pre ids. path_elems ?d = pre @ [''.devdiag'', ''remote''] @ ids \<and> ids \<noteq> []"
      using split_at_not_Nil by blast
    with True show ?thesis by (simp add: session_place_def)
  next
    case False
    with where_tmp obtain b where b: "Clean ?d = ''/tmp/devdiag-remote/'' @ b" by (auto simp: prefix_def)
    then have "IsAbs (Clean ?d)" by (simp add: IsAbs_def)
    then have "IsAbs ?d" by simp
    moreover have "split_at ''/'' (Clean ?d) = [[]] @ [''tmp'', ''devdiag-remote''] @ split_at ''/'' b"
      using split_two [of "[]" "''tmp''" "''devdiag-remote''" b] lit b by simp
    ultimately have "path_elems ?d = [''tmp'', ''devdiag-remote''] @ split_at ''/'' b" using c(3) by simp
    then have "\<exists>ids. path_elems ?d = [''tmp'', ''devdiag-remote''] @ ids \<and> ids \<noteq> []"
      using split_at_not_Nil by blast
    with False no show ?thesis by (cases kind) (auto simp: session_place_def)
  qed
  then show ?thesis using c(2) down by (simp add: root_elems_def)
qed

lemma prefix_slash_below:
  assumes "''..'' \<notin> set (path_elems p)" "path_elems r \<noteq> []" "''..'' \<notin> set (path_elems r)"
    and "Clean p \<noteq> Clean r" "has_prefix (Clean p) (Clean r @ ''/'')"
  shows "\<exists>rest. rest \<noteq> [] \<and> path_elems (Clean p) = path_elems (Clean r) @ rest \<and> IsAbs p = IsAbs r"
proof -
  from assms(5) obtain q where q: "Clean p = Clean r @ ''/'' @ q" by (auto simp: prefix_def)
  then have e: "path_elems (Clean p) = path_elems (Clean r) @ path_elems q"
    by (simp only: path_elems_append)
  note cr = Clean_down [OF assms(3,2)]
  have pne: "path_elems p \<noteq> []"
  proof
    assume "path_elems p = []"
    then have "path_elems (Clean p) = []" by (rule Clean_no_elems)
    with e cr(2) assms(2) show False by simp
  qed
  note cp = Clean_down [OF assms(1) pne]
  have "Clean r \<noteq> []" using cr(2) assms(2) by (metis path_elems_Nil)
  then have abs: "IsAbs p = IsAbs r" using q IsAbs_Clean_iff [of p] IsAbs_Clean_iff [of r] by (simp add: IsAbs_hd)
  have "path_elems q \<noteq> []"
  proof
    assume "path_elems q = []"
    with e cr(2) cp(2) have "path_elems p = path_elems r" by simp
    with cr(1) cp(1) abs assms(4) show False by simp
  qed
  with e abs show ?thesis by blast
qed

lemma ValidateManagedPath_below:
  assumes "ValidateRootDir rt kind = None" "ValidateManagedPath rt p = None"
  shows "\<exists>rest. rest \<noteq> [] \<and> root_elems p = root_elems rt @ rest \<and> ''..'' \<notin> set (path_elems (trim_space p)) \<and>
    root_elems p = path_elems (trim_space p) \<and> IsAbs (trim_space p) = IsAbs (trim_space rt)"
proof -
  let ?r = "trim_space rt" and ?p = "trim_space p"
  have r: "''..'' \<notin> set (root_elems rt)" "root_elems rt \<noteq> []"
    using ValidateRootDir_place [OF assms(1)] by (auto simp: session_place_def split: target_kind.splits)
  have rs: "isSafeRemotePath ?r" "\<not> hasPathTraversal ?r"
    using assms(1) by (auto simp: ValidateRootDir_def Let_def split: if_splits option.splits)
  have ps: "isSafeRemotePath ?p" "\<not> hasPathTraversal ?p" "Clean ?p \<noteq> Clean ?r" "has_prefix (Clean ?p) (Clean ?r @ ''/'')"
    using assms(2) by (auto simp: ValidateManagedPath_def Let_def split: if_splits)
  have rd: "''..'' \<notin> set (path_elems ?r)" by (rule safe_no_traversal [OF rs])
  have rne: "path_elems ?r \<noteq> []"
  proof
    assume "path_elems ?r = []"
    then have "path_elems (Clean ?r) = []" by (rule Clean_no_elems)
    with r(2) show False by (simp add: root_elems_def)
  qed
  have pd: "''..'' \<notin> set (path_elems ?p)" by (rule safe_no_traversal [OF ps(1,2)])
  from prefix_slash_below [OF pd rne rd ps(3,4)] obtain rest
    where rest: "rest \<noteq> []" "path_elems (Clean ?p) = path_elems (Clean ?r) @ rest"
      "IsAbs ?p = IsAbs ?r" by blast
  have "path_elems ?p \<noteq> []"
  proof
    assume "path_elems ?p = []"
    then have "path_elems (Clean ?p) = []" by (rule Clean_no_elems)
    with rest show False by simp
  qed
  from Clean_down(2) [OF pd this] pd rest show ?thesis by (auto simp: root_elems_def)
qed


section \<open>What a shell makes of quoted words\<close>

text \<open>
  A POSIX shell reads simple commands without expansions: unquoted letters, digits and some marks,
  texts in single quotes, and texts in double quotes without the characters that are special there.
  \<open>None\<close> is everything else: operators, expansions, a tilde, an open quote. \<open>cur\<close> is the word
  that is being read.
\<close>

definition sh_plain :: "char \<Rightarrow> bool" where
  "sh_plain c \<longleftrightarrow> ascii_alnum c \<or> c \<in> set ''._/-:=,+@%''"

definition sh_word :: "string option \<Rightarrow> string" where
  "sh_word cur = (case cur of None \<Rightarrow> [] | Some w \<Rightarrow> w)"

fun sh_scan :: "string option \<Rightarrow> string \<Rightarrow> string list option" where
  "sh_scan cur [] = Some (case cur of None \<Rightarrow> [] | Some w \<Rightarrow> [w])"
| "sh_scan cur (c # s) =
     (if c = CHR '' ''
      then (case cur of None \<Rightarrow> sh_scan None s | Some w \<Rightarrow> map_option (Cons w) (sh_scan None s))
      else if c = CHR 0x27
      then (case index_of [CHR 0x27] s of
              None \<Rightarrow> None
            | Some i \<Rightarrow> sh_scan (Some (sh_word cur @ take i s)) (drop (i + 1) s))
      else if c = CHR 0x22
      then (case index_of [CHR 0x22] s of
              None \<Rightarrow> None
            | Some i \<Rightarrow>
                if list_ex (\<lambda>d. d \<in> set [CHR ''$'', CHR 0x60, CHR 0x5C]) (take i s) then None
                else sh_scan (Some (sh_word cur @ take i s)) (drop (i + 1) s))
      else if sh_plain c then sh_scan (Some (sh_word cur @ [c])) s
      else None)"

definition sh_words :: "string \<Rightarrow> string list option" where
  "sh_words s = sh_scan None s"

lemma sh_scan_single:
  "CHR 0x27 \<notin> set v \<Longrightarrow>
   sh_scan cur (CHR 0x27 # v @ CHR 0x27 # r) = sh_scan (Some (sh_word cur @ v)) r"
  using index_of_char [of "CHR 0x27" v r] by simp

definition quoted_quote :: string where
  "quoted_quote = single_quote @ [CHR 0x22] @ single_quote @ [CHR 0x22] @ single_quote"

lemma sh_scan_parts:
  "ps \<noteq> [] \<Longrightarrow> \<forall>p \<in> set ps. CHR 0x27 \<notin> set p \<Longrightarrow>
   sh_scan cur (single_quote @ join quoted_quote ps @ single_quote @ r) =
     sh_scan (Some (sh_word cur @ join single_quote ps)) r"
proof (induction ps arbitrary: cur)
  case (Cons p ps)
  show ?case
  proof (cases "ps = []")
    case True
    with Cons.prems show ?thesis using sh_scan_single [of p cur r] by (simp add: single_quote_def)
  next
    case False
    let ?rest = "single_quote @ join quoted_quote ps @ single_quote @ r"
    have "sh_scan cur (single_quote @ join quoted_quote (p # ps) @ single_quote @ r) =
        sh_scan cur (CHR 0x27 # p @ CHR 0x27 # CHR 0x22 # CHR 0x27 # CHR 0x22 # ?rest)"
      using False by (simp add: join_Cons quoted_quote_def single_quote_def)
    also have "\<dots> = sh_scan (Some (sh_word cur @ p)) (CHR 0x22 # CHR 0x27 # CHR 0x22 # ?rest)"
      using Cons.prems by (intro sh_scan_single) simp
    also have "\<dots> = sh_scan (Some (sh_word cur @ p @ single_quote)) ?rest"
      by (simp add: sh_word_def single_quote_def)
    also have "\<dots> = sh_scan (Some (sh_word cur @ p @ single_quote @ join single_quote ps)) r"
      using Cons.IH [OF False, of "Some (sh_word cur @ p @ single_quote)"] Cons.prems by (simp add: sh_word_def)
    finally show ?thesis using False by (simp add: join_Cons)
  qed
qed simp

lemma ShellQuote_scan: "sh_scan cur (ShellQuote v @ r) = sh_scan (Some (sh_word cur @ v)) r"
proof (cases "v = []")
  case True
  then show ?thesis using sh_scan_single [of "[]" cur r] by (simp add: ShellQuote_def single_quote_def)
next
  case False
  have "ShellQuote v @ r = single_quote @ join quoted_quote (split_at single_quote v) @ single_quote @ r"
    using False by (simp add: ShellQuote_def replace_all_def quoted_quote_def)
  then show ?thesis
    using sh_scan_parts [of "split_at single_quote v" cur r] join_split_at [of single_quote v]
    by (auto simp: single_quote_def dest: split_at_no_sep)
qed

text \<open>A text of letters and marks at the start of a word.\<close>

lemma sh_scan_plain: "list_all sh_plain w \<Longrightarrow> sh_scan (Some u) (w @ r) = sh_scan (Some (u @ w)) r"
proof (induction w arbitrary: u)
  case (Cons c w)
  then have "c \<noteq> CHR '' ''" "c \<noteq> CHR 0x27" "c \<noteq> CHR 0x22" "sh_plain c"
    by (auto simp: sh_plain_def ascii_alnum_def ascii_alpha_def digits_def)
  with Cons show ?case by (simp add: sh_word_def)
qed simp

lemma sh_scan_word:
  assumes "list_all sh_plain w" "w \<noteq> []"
  shows "sh_scan None (w @ CHR '' '' # r) = map_option (Cons w) (sh_scan None r)"
proof -
  obtain c w' where w: "w = c # w'" using assms(2) by (cases w) auto
  with assms(1) have "c \<noteq> CHR '' ''" "c \<noteq> CHR 0x27" "c \<noteq> CHR 0x22" "sh_plain c" "list_all sh_plain w'"
    by (auto simp: sh_plain_def ascii_alnum_def ascii_alpha_def digits_def)
  then show ?thesis using sh_scan_plain [of w' "[c]" "CHR '' '' # r"] by (simp add: w sh_word_def)
qed

lemma ShellQuote_last: "sh_scan None (ShellQuote v) = Some [v]"
  using ShellQuote_scan [of None v "[]"] by (simp add: sh_word_def)

lemma ShellQuote_next: "sh_scan None (ShellQuote v @ CHR '' '' # r) = map_option (Cons v) (sh_scan None r)"
  using ShellQuote_scan [of None v "CHR '' '' # r"] by (simp add: sh_word_def)

lemma sh_words_quoted: "sh_words (join '' '' (map ShellQuote ws)) = Some ws"
proof (induction ws)
  case Nil
  then show ?case by (simp add: sh_words_def)
next
  case (Cons w ws)
  show ?case
  proof (cases "ws = []")
    case True
    then show ?thesis by (simp add: sh_words_def ShellQuote_last)
  next
    case False
    then have "join '' '' (map ShellQuote (w # ws)) = ShellQuote w @ CHR '' '' # join '' '' (map ShellQuote ws)"
      by (simp add: join_Cons)
    with Cons show ?thesis by (simp add: sh_words_def ShellQuote_next)
  qed
qed

end
