(* ===== verification/Remote_Transport.thy ===== *)
theory Remote_Transport
  imports Remote_Session Cmdrunner
begin

text \<open>
  How a remote target is reached: the transports of \<open>internal/remote/transport\<close> over ssh, docker or
  podman and kubectl, the staging and the upload of a profile (\<open>internal/remote/inject\<close>) and the profile
  itself (\<open>internal/remote/profile\<close>). A transport builds the arguments of local commands and reads their
  results. The machine is a \<open>remote_world\<close>: the result of a command given the commands that ran before
  it, and how an upload stream and an interactive shell end. Every operation returns the commands it ran,
  appended to those before. Contexts and their deadlines show in the results only. The flag for a
  read-only file system in the results of probes is left out: no transport sets it.
\<close>

section \<open>Running commands\<close>

record local_cmd =
  lc_Opts :: run_options
  lc_Name :: string
  lc_Args :: "string list"

type_synonym history = "local_cmd list"

text \<open>How the pipe of tar into ssh ends: a step that fails with its error, or both exits.\<close>

datatype stream_outcome =
    PipeFailed string
  | SshStartFailed string
  | TarStartFailed string
  | StreamDone "string option" "string option"
  | StreamCanceled string

datatype shell_outcome = ShellOk | ShellExited int | ShellFailed string

record remote_world =
  rw_run :: "history \<Rightarrow> local_cmd \<Rightarrow> cmd_result"
  rw_stream :: "history \<Rightarrow> stream_outcome"
  rw_shell :: "history \<Rightarrow> shell_outcome"

definition run_local :: "remote_world \<Rightarrow> run_options \<Rightarrow> string \<Rightarrow> string list \<Rightarrow> history \<Rightarrow> cmd_result \<times> history" where
  "run_local w opts name args h =
     (let c = \<lparr>lc_Opts = opts, lc_Name = name, lc_Args = args\<rparr> in (rw_run w h c, h @ [c]))"

definition run_plain :: "remote_world \<Rightarrow> string \<Rightarrow> string list \<Rightarrow> history \<Rightarrow> cmd_result \<times> history" where
  "run_plain w name args h = run_local w zero_run_options name args h"

text \<open>A command run with \<open>os/exec\<close> itself, on the terminal or in a pipe.\<close>

definition direct :: "string \<Rightarrow> string list \<Rightarrow> local_cmd" where
  "direct name args = \<lparr>lc_Opts = zero_run_options, lc_Name = name, lc_Args = args\<rparr>"

record remote_command =
  rc_Args :: "string list"
  rc_Stdin :: "string option"

record remote_result =
  rr_Stdout :: string
  rr_Stderr :: string
  rr_ExitCode :: int
  rr_TimedOut :: bool

definition remote_result_of :: "cmd_result \<Rightarrow> remote_result" where
  "remote_result_of r = \<lparr>rr_Stdout = cr_Stdout r, rr_Stderr = cr_Stderr r, rr_ExitCode = cr_ExitCode r,
     rr_TimedOut = cr_TimedOut r\<rparr>"

definition stdin_options :: "string option \<Rightarrow> run_options" where
  "stdin_options inp = zero_run_options\<lparr>rn_Stdin := inp\<rparr>"

section \<open>Probing\<close>

record probe_result =
  pr_Reachable :: bool
  pr_Shell :: string
  pr_OS :: string
  pr_Arch :: string
  pr_UID :: string
  pr_GID :: string
  pr_Home :: string
  pr_HomeWritable :: bool
  pr_PWD :: string
  pr_Tools :: "string \<Rightarrow> bool"
  pr_HasTar :: bool
  pr_RestrictedShell :: bool
  pr_Error :: string

definition empty_probe :: probe_result where
  "empty_probe = \<lparr>pr_Reachable = False, pr_Shell = [], pr_OS = [], pr_Arch = [], pr_UID = [], pr_GID = [],
     pr_Home = [], pr_HomeWritable = False, pr_PWD = [], pr_Tools = (\<lambda>_. False), pr_HasTar = False,
     pr_RestrictedShell = False, pr_Error = []\<rparr>"

definition fact_names :: "string \<Rightarrow> string list" where
  "fact_names writable = [''shell'', ''os'', ''arch'', ''uid'', ''gid'', ''pwd'', ''home'', ''sh'', ''bash'', ''zsh'', ''fish'',
     ''tmux'', ''vim'', ''nvim'', ''tar'', writable]"

definition set_fact :: "string \<Rightarrow> string \<Rightarrow> string \<Rightarrow> probe_result \<Rightarrow> probe_result" where
  "set_fact writable name v r =
     (if name = ''shell'' then r\<lparr>pr_Shell := v\<rparr>
      else if name = ''os'' then r\<lparr>pr_OS := v\<rparr>
      else if name = ''arch'' then r\<lparr>pr_Arch := v\<rparr>
      else if name = ''uid'' then r\<lparr>pr_UID := v\<rparr>
      else if name = ''gid'' then r\<lparr>pr_GID := v\<rparr>
      else if name = ''pwd'' then r\<lparr>pr_PWD := v\<rparr>
      else if name = ''home'' then r\<lparr>pr_Home := v\<rparr>
      else if name = writable then r\<lparr>pr_HomeWritable := (v = writable)\<rparr>
      else r\<lparr>pr_Tools := (pr_Tools r)(name := (v \<noteq> [] \<and> \<not> contains v ''not found''))\<rparr>)"

text \<open>The lines of the answer in turn, without the empty one after the last line end.\<close>

definition fact_lines :: "string \<Rightarrow> string list" where
  "fact_lines stdout =
     (let ls = split_at [CHR 0x0A] stdout in if trim_space (last ls) = [] then butlast ls else ls)"

definition read_facts :: "string \<Rightarrow> probe_result \<Rightarrow> string \<Rightarrow> probe_result" where
  "read_facts writable r stdout =
     (let r' = fold (\<lambda>(name, l). set_fact writable name (trim_space l)) (zip (fact_names writable) (fact_lines stdout)) r
      in r'\<lparr>pr_HasTar := pr_Tools r' ''tar''\<rparr>)"

definition sq :: string where "sq = [CHR 0x27]"
definition dq :: string where "dq = [CHR 0x22]"
definition bs :: string where "bs = [CHR 0x5C]"

definition script :: "string list \<Rightarrow> string" where
  "script ls = concat (map (\<lambda>l. l @ [CHR 0x0A]) ls)"

definition tool_lines :: "string list" where
  "tool_lines = map (\<lambda>t. ''command -v '' @ t @ '' 2>/dev/null || echo '' @ dq @ dq)
     [''sh'', ''bash'', ''zsh'', ''fish'', ''tmux'', ''vim'', ''nvim'', ''tar'']"

section \<open>ssh\<close>

record ssh_options =
  so_IdentityFile :: string
  so_UserKnownHostsFile :: string
  so_StrictHostKeyChecking :: string

definition Options_Args :: "ssh_options \<Rightarrow> string list" where
  "Options_Args opts =
     (if so_IdentityFile opts \<noteq> [] then [''-i'', so_IdentityFile opts] else []) @
     (if so_UserKnownHostsFile opts \<noteq> [] then [''-o'', ''UserKnownHostsFile='' @ so_UserKnownHostsFile opts] else []) @
     (if so_StrictHostKeyChecking opts \<noteq> [] then [''-o'', ''StrictHostKeyChecking='' @ so_StrictHostKeyChecking opts]
      else [])"

definition ssh_host :: "target \<Rightarrow> string" where
  "ssh_host t = (if t_User t \<noteq> [] then t_User t @ ''@'' @ t_Host t else t_Host t)"

definition port_args :: "string \<Rightarrow> target \<Rightarrow> string list" where
  "port_args flag t = (if t_Port t \<noteq> 0 \<and> t_Port t \<noteq> 22 then [flag, itoa (t_Port t)] else [])"

definition sshArgs :: "target \<Rightarrow> ssh_options \<Rightarrow> bool \<Rightarrow> string list" where
  "sshArgs t opts batchMode =
     [''-o'', ''ConnectTimeout=5''] @ Options_Args opts @ (if batchMode then [''-o'', ''BatchMode=yes''] else []) @
     port_args ''-p'' t @ [ssh_host t]"

definition classifySSHError :: "string \<Rightarrow> int \<Rightarrow> string" where
  "classifySSHError stderr0 code =
     (let stderr = to_lower stderr0
      in if contains stderr ''permission denied'' then ''ssh permission denied''
         else if contains stderr ''could not resolve hostname'' then ''host unreachable''
         else if contains stderr ''no route to host'' then ''host unreachable''
         else if contains stderr ''connection refused'' then ''connection refused''
         else if contains stderr ''connection timed out'' then ''connection timed out''
         else if code = 255 then ''ssh connection error''
         else ''ssh exited '' @ itoa code @ '': '' @ stderr)"

definition ssh_fact_script :: string where
  "ssh_fact_script = script
     ([''printf '' @ dq @ ''%s'' @ bs @ ''n'' @ dq @ '' '' @ dq @ ''${SHELL:-}'' @ dq, ''uname -s'', ''uname -m'', ''id -u'',
       ''id -g'', ''pwd'', ''printf '' @ dq @ ''%s'' @ bs @ ''n'' @ dq @ '' '' @ dq @ ''${HOME:-}'' @ dq] @ tool_lines @
      [''test -w '' @ dq @ ''$HOME'' @ dq @ '' && echo home_writable || echo home_not_writable''])"

definition ssh_parseFactOutput :: "probe_result \<Rightarrow> string \<Rightarrow> probe_result" where
  "ssh_parseFactOutput r stdout =
     (let r' = read_facts ''home_writable'' r stdout
      in if pr_Shell r' \<in> {''/bin/sh'', ''/bin/rsh'', ''/usr/bin/rsh''} then r'\<lparr>pr_RestrictedShell := True\<rparr> else r')"

definition ssh_Probe :: "remote_world \<Rightarrow> target \<Rightarrow> ssh_options \<Rightarrow> history \<Rightarrow> probe_result \<times> history" where
  "ssh_Probe w t opts h =
     (let (connectRes, h1) = run_plain w ''ssh'' (sshArgs t opts True @ [''--'', ''printf'', ''ok'']) h
      in if cr_TimedOut connectRes then (empty_probe\<lparr>pr_Error := ''connection timed out''\<rparr>, h1)
         else if cr_ExitCode connectRes \<noteq> 0
         then (empty_probe\<lparr>pr_Error := classifySSHError (cr_Stderr connectRes) (cr_ExitCode connectRes)\<rparr>, h1)
         else let r = empty_probe\<lparr>pr_Reachable := True\<rparr>;
                  factCmd = ''sh -lc '' @ sq @ ssh_fact_script @ sq;
                  (factRes, h2) = run_plain w ''ssh'' (sshArgs t opts True @ [''--'', factCmd]) h1
              in (if cr_ExitCode factRes = 0 then ssh_parseFactOutput r (cr_Stdout factRes)
                  else r\<lparr>pr_Error := ''fact probe failed: '' @ cr_Stderr factRes\<rparr>, h2))"

definition shellCommand :: "string list \<Rightarrow> string" where
  "shellCommand args = join '' '' (map ShellQuote args)"

definition ssh_Run ::
  "remote_world \<Rightarrow> target \<Rightarrow> ssh_options \<Rightarrow> remote_command \<Rightarrow> history \<Rightarrow> remote_result \<times> history" where
  "ssh_Run w t opts cmd h =
     (let args = sshArgs t opts False @ [''--''] @ (if rc_Args cmd \<noteq> [] then [shellCommand (rc_Args cmd)] else []);
          (res, h') = run_local w (stdin_options (rc_Stdin cmd)) ''ssh'' args h
      in (remote_result_of res, h'))"

definition ssh_Upload ::
  "remote_world \<Rightarrow> target \<Rightarrow> ssh_options \<Rightarrow> string \<Rightarrow> string \<Rightarrow> history \<Rightarrow> string option \<times> history" where
  "ssh_Upload w t opts localDir remoteDir h =
     (let args = [''-r'', ''-o'', ''ConnectTimeout=5''] @ Options_Args opts @ port_args ''-P'' t @
                 [localDir, ssh_host t @ '':'' @ remoteDir];
          (res, h') = run_plain w ''scp'' args h
      in (if cr_ExitCode res \<noteq> 0 then Some (''scp failed: '' @ cr_Stderr res) else None, h'))"

definition ssh_OpenShell ::
  "remote_world \<Rightarrow> target \<Rightarrow> ssh_options \<Rightarrow> string \<Rightarrow> history \<Rightarrow> string option \<times> history" where
  "ssh_OpenShell w t opts sh h =
     (let (res, h') = run_plain w ''ssh'' (sshArgs t opts False @ (if sh \<noteq> [] then [''--'', sh] else [])) h
      in (if cr_ExitCode res \<noteq> 0
          then Some (''shell exited with code '' @ itoa (cr_ExitCode res) @ '': '' @ cr_Stderr res) else None, h'))"

text \<open>The command line that sources the profile in a directory and continues in the user's shell.\<close>

definition enter_command :: "string \<Rightarrow> string" where
  "enter_command quotedDir = ''export DEVDDIR='' @ quotedDir @ ''; . '' @ dq @ ''$DEVDDIR/env.sh'' @ dq @ ''; exec '' @ dq @
     ''${SHELL:-sh}'' @ dq"

definition ssh_Enter_args :: "target \<Rightarrow> ssh_options \<Rightarrow> string \<Rightarrow> string list" where
  "ssh_Enter_args t opts remoteDir =
     [''-t'', ''-o'', ''ConnectTimeout=10''] @ Options_Args opts @ port_args ''-p'' t @
     [ssh_host t, ''--'', enter_command (dq @ ShellPath remoteDir @ dq)]"

text \<open>\<open>internal/remote/inject/upload.go\<close>: what the remote shell is to run, and the stream.\<close>

definition upload_command :: "string \<Rightarrow> string" where
  "upload_command quotedDir = ''mkdir -p '' @ quotedDir @ '' && tar -C '' @ quotedDir @ '' -xf -''"

definition upload_ssh_args :: "target \<Rightarrow> ssh_options \<Rightarrow> string \<Rightarrow> string list" where
  "upload_ssh_args t opts remoteDir =
     [''-o'', ''ConnectTimeout=10''] @ Options_Args opts @ port_args ''-p'' t @
     [ssh_host t, ''--'', ''sh -lc '' @ ShellQuote (upload_command (ShellQuote (ShellPath remoteDir)))]"

definition UploadTarStream ::
  "remote_world \<Rightarrow> target \<Rightarrow> ssh_options \<Rightarrow> string \<Rightarrow> string \<Rightarrow> history \<Rightarrow> string option \<times> history" where
  "UploadTarStream w t opts localDir remoteDir h =
     (let tar = direct ''tar'' [''-C'', localDir, ''-cf'', ''-'', ''.'']; ssh = direct ''ssh'' (upload_ssh_args t opts remoteDir)
      in case rw_stream w h of
           PipeFailed e \<Rightarrow> (Some (''tar stdout pipe: '' @ e), h)
         | SshStartFailed e \<Rightarrow> (Some (''ssh start: '' @ e), h)
         | TarStartFailed e \<Rightarrow> (Some (''tar start: '' @ e), h @ [ssh])
         | StreamDone tarErr sshErr \<Rightarrow>
             (case sshErr of
                Some e \<Rightarrow> Some (''ssh wait: '' @ e)
              | None \<Rightarrow> (case tarErr of Some e \<Rightarrow> Some (''tar run: '' @ e) | None \<Rightarrow> None), h @ [ssh, tar])
         | StreamCanceled e \<Rightarrow> (Some (''upload canceled: '' @ e), h @ [ssh, tar]))"

section \<open>docker and podman\<close>

definition combined_output :: "bool \<Rightarrow> cmd_result \<Rightarrow> string" where
  "combined_output tells_not_found res =
     (let stdout = trim_space (cr_Stdout res); stderr = trim_space (cr_Stderr res)
      in if stdout \<noteq> [] \<and> stderr \<noteq> [] then stdout @ [CHR 0x0A] @ stderr
         else if stdout \<noteq> [] then stdout
         else if stderr \<noteq> [] then stderr
         else if cr_TimedOut res then ''timed out''
         else if tells_not_found \<and> cr_NotFound res then ''command not found''
         else ''exit code '' @ itoa (cr_ExitCode res))"

definition container_combinedOutput :: "cmd_result \<Rightarrow> string" where
  "container_combinedOutput res = combined_output False res"

definition hasContainer :: "remote_world \<Rightarrow> string \<Rightarrow> string \<Rightarrow> history \<Rightarrow> bool \<times> history" where
  "hasContainer w runtime container h =
     (let (res, h') = run_plain w runtime [''inspect'', ''--format'', ''{{.Id}}'', container] h
      in (cr_ExitCode res = 0 \<and> trim_space (cr_Stdout res) \<noteq> [], h'))"

definition detectRuntime :: "remote_world \<Rightarrow> string \<Rightarrow> history \<Rightarrow> (string + string) \<times> history" where
  "detectRuntime w container h =
     (let (docker, h1) = hasContainer w ''docker'' container h
      in if docker then (Inr ''docker'', h1)
         else let (podman, h2) = hasContainer w ''podman'' container h1
              in if podman then (Inr ''podman'', h2)
                 else (Inl (''container '' @ quote_go container @ '' not found with docker or podman''), h2))"

text \<open>The runtime of the transport, or the error.\<close>

definition container_NewTransport :: "remote_world \<Rightarrow> target \<Rightarrow> history \<Rightarrow> (string + string) \<times> history" where
  "container_NewTransport w t h =
     (if t_Runtime t = [] \<or> t_Runtime t = ''auto'' then detectRuntime w (t_Container t) h else (Inr (t_Runtime t), h))"

definition container_fact_script :: string where
  "container_fact_script = script
     ([''printf '' @ sq @ ''%s'' @ bs @ ''n'' @ sq @ '' '' @ dq @ ''${SHELL:-}'' @ dq, ''uname -s 2>/dev/null || echo unknown'',
       ''uname -m 2>/dev/null || echo unknown'', ''id -u 2>/dev/null || echo unknown'',
       ''id -g 2>/dev/null || echo unknown'', ''pwd'',
       ''printf '' @ sq @ ''%s'' @ bs @ ''n'' @ sq @ '' '' @ dq @ ''${HOME:-}'' @ dq] @ tool_lines @
      [''test -w /tmp 2>/dev/null && echo tmp_writable || echo tmp_not_writable''])"

definition container_parseFactOutput :: "probe_result \<Rightarrow> string \<Rightarrow> probe_result" where
  "container_parseFactOutput r stdout = read_facts ''tmp_writable'' r stdout"

definition container_Probe :: "remote_world \<Rightarrow> target \<Rightarrow> string \<Rightarrow> history \<Rightarrow> probe_result \<times> history" where
  "container_Probe w t runtime h =
     (let (inspect, h1) = run_plain w runtime [''inspect'', ''--format'', ''{{.State.Running}}'', t_Container t] h
      in if cr_ExitCode inspect \<noteq> 0
         then (empty_probe\<lparr>pr_Error := ''container not found or not running: '' @ container_combinedOutput inspect\<rparr>, h1)
         else if trim_space (cr_Stdout inspect) \<noteq> ''true''
         then (empty_probe\<lparr>pr_Error := ''container is not running''\<rparr>, h1)
         else let r = empty_probe\<lparr>pr_Reachable := True\<rparr>;
                  (facts, h2) = run_plain w runtime
                    [''exec'', ''-i'', t_Container t, ''sh'', ''-lc'', container_fact_script] h1
              in if cr_ExitCode facts \<noteq> 0
                 then (r\<lparr>pr_Error := ''fact probe failed: '' @ container_combinedOutput facts\<rparr>, h2)
                 else (container_parseFactOutput r (cr_Stdout facts), h2))"

definition container_Run ::
  "remote_world \<Rightarrow> target \<Rightarrow> string \<Rightarrow> remote_command \<Rightarrow> history \<Rightarrow> remote_result \<times> history" where
  "container_Run w t runtime cmd h =
     (let (res, h') = run_local w (stdin_options (rc_Stdin cmd)) runtime
                        ([''exec'', ''-i'', t_Container t] @ rc_Args cmd) h
      in (remote_result_of res, h'))"

definition container_Upload ::
  "remote_world \<Rightarrow> target \<Rightarrow> string \<Rightarrow> string \<Rightarrow> string \<Rightarrow> history \<Rightarrow> string option \<times> history" where
  "container_Upload w t runtime localDir remoteDir h =
     (let (mkdir, h1) = run_plain w runtime [''exec'', t_Container t, ''mkdir'', ''-p'', remoteDir] h
      in if cr_ExitCode mkdir \<noteq> 0 then (Some (''mkdir remote dir: '' @ container_combinedOutput mkdir), h1)
         else let (cp, h2) = run_plain w runtime [''cp'', localDir @ ''/.'', t_Container t @ '':'' @ remoteDir] h1
              in (if cr_ExitCode cp \<noteq> 0 then Some (''cp failed: '' @ container_combinedOutput cp) else None, h2))"

definition container_Enter_args :: "target \<Rightarrow> string \<Rightarrow> string list" where
  "container_Enter_args t remoteDir =
     [''exec'', ''-it'', t_Container t, ''sh'', ''-lc'', enter_command (dq @ remoteDir @ dq)]"

section \<open>kubectl\<close>

text \<open>The container a transport is made for: the one given, or else that of the target.\<close>

definition k8s_NewTransport :: "target \<Rightarrow> string \<Rightarrow> string" where
  "k8s_NewTransport t container = (if container = [] then t_ContainerName t else container)"

definition kubectlExecArgs :: "target \<Rightarrow> string \<Rightarrow> bool \<Rightarrow> bool \<Rightarrow> string list \<Rightarrow> string list" where
  "kubectlExecArgs t container interactive stdin command =
     (if t_Context t \<noteq> [] then [''--context'', t_Context t] else []) @ [''-n'', t_Namespace t, ''exec''] @
     (if interactive then [''-it''] else if stdin then [''-i''] else []) @ [t_Pod t] @
     (if container \<noteq> [] then [''-c'', container] else []) @ [''--''] @ command"

definition k8s_combinedOutput :: "cmd_result \<Rightarrow> string" where
  "k8s_combinedOutput res = combined_output True res"

definition k8s_parseFactOutput :: "probe_result \<Rightarrow> string \<Rightarrow> probe_result" where
  "k8s_parseFactOutput r stdout = read_facts ''tmp_writable'' r stdout"

definition k8s_fact_script :: string where
  "k8s_fact_script = container_fact_script"

definition k8s_Probe :: "remote_world \<Rightarrow> target \<Rightarrow> string \<Rightarrow> history \<Rightarrow> probe_result \<times> history" where
  "k8s_Probe w t container h =
     (let (connect, h1) = run_plain w ''kubectl'' (kubectlExecArgs t container False False [''printf'', ''ok'']) h
      in if cr_TimedOut connect then (empty_probe\<lparr>pr_Error := ''kubectl exec timed out''\<rparr>, h1)
         else if cr_NotFound connect then (empty_probe\<lparr>pr_Error := ''kubectl executable not found''\<rparr>, h1)
         else if cr_ExitCode connect \<noteq> 0
         then (empty_probe\<lparr>pr_Error := ''kubectl exec failed: '' @ k8s_combinedOutput connect\<rparr>, h1)
         else if trim_space (cr_Stdout connect) \<noteq> ''ok''
         then (empty_probe\<lparr>pr_Error := ''kubectl exec returned unexpected probe output: '' @
                 quote_go (trim_space (cr_Stdout connect))\<rparr>, h1)
         else let r = empty_probe\<lparr>pr_Reachable := True\<rparr>;
                  (facts, h2) = run_plain w ''kubectl''
                    (kubectlExecArgs t container False False [''sh'', ''-lc'', k8s_fact_script]) h1
              in if cr_ExitCode facts \<noteq> 0
                 then (r\<lparr>pr_Error := ''fact probe failed: '' @ k8s_combinedOutput facts\<rparr>, h2)
                 else (k8s_parseFactOutput r (cr_Stdout facts), h2))"

definition k8s_Run ::
  "remote_world \<Rightarrow> target \<Rightarrow> string \<Rightarrow> remote_command \<Rightarrow> history \<Rightarrow> remote_result \<times> history" where
  "k8s_Run w t container cmd h =
     (let has_stdin = (case rc_Stdin cmd of None \<Rightarrow> False | Some d \<Rightarrow> d \<noteq> []);
          (res, h') = run_local w (stdin_options (rc_Stdin cmd)) ''kubectl''
                        (kubectlExecArgs t container False has_stdin (rc_Args cmd)) h
      in (remote_result_of res, h'))"

definition uploadTarCapBytes :: int where "uploadTarCapBytes = 256 * 1024 * 1024"

definition k8s_Upload ::
  "remote_world \<Rightarrow> target \<Rightarrow> string \<Rightarrow> string \<Rightarrow> string \<Rightarrow> history \<Rightarrow> string option \<times> history" where
  "k8s_Upload w t container localDir remoteDir h =
     (let (tar, h1) = run_local w (zero_run_options\<lparr>rn_Dir := localDir, rn_StdoutCapBytes := uploadTarCapBytes\<rparr>)
                        ''tar'' [''-cf'', ''-'', ''.''] h
      in if cr_ExitCode tar \<noteq> 0 then (Some (''tar stage failed: '' @ k8s_combinedOutput tar), h1)
         else if cr_StdoutTruncated tar
         then (Some (''tar stream truncated at '' @ itoa uploadTarCapBytes @
                     '' bytes; staging dir too large to upload''), h1)
         else let (kube, h2) = run_local w (stdin_options (Some (cr_Stdout tar))) ''kubectl''
                    (kubectlExecArgs t container False True
                       [''sh'', ''-lc'', upload_command (ShellQuote remoteDir)]) h1
              in (if cr_ExitCode kube \<noteq> 0 then Some (''kubectl upload failed: '' @ k8s_combinedOutput kube) else None, h2))"

definition k8s_Enter_args :: "target \<Rightarrow> string \<Rightarrow> string \<Rightarrow> string list" where
  "k8s_Enter_args t container remoteDir =
     kubectlExecArgs t container True False [''sh'', ''-lc'', enter_command (ShellQuote remoteDir)]"

section \<open>The interface of the transports\<close>

datatype transport =
    SSHTransport target ssh_options
  | ContainerTransport target string
  | K8sTransport target string

fun transport_Run :: "remote_world \<Rightarrow> transport \<Rightarrow> remote_command \<Rightarrow> history \<Rightarrow> remote_result \<times> history" where
  "transport_Run w (SSHTransport t opts) cmd h = ssh_Run w t opts cmd h"
| "transport_Run w (ContainerTransport t runtime) cmd h = container_Run w t runtime cmd h"
| "transport_Run w (K8sTransport t container) cmd h = k8s_Run w t container cmd h"

fun transport_Probe :: "remote_world \<Rightarrow> transport \<Rightarrow> history \<Rightarrow> probe_result \<times> history" where
  "transport_Probe w (SSHTransport t opts) h = ssh_Probe w t opts h"
| "transport_Probe w (ContainerTransport t runtime) h = container_Probe w t runtime h"
| "transport_Probe w (K8sTransport t container) h = k8s_Probe w t container h"

fun transport_Upload ::
  "remote_world \<Rightarrow> transport \<Rightarrow> string \<Rightarrow> string \<Rightarrow> history \<Rightarrow> string option \<times> history" where
  "transport_Upload w (SSHTransport t opts) localDir remoteDir h = ssh_Upload w t opts localDir remoteDir h"
| "transport_Upload w (ContainerTransport t runtime) localDir remoteDir h = container_Upload w t runtime localDir remoteDir h"
| "transport_Upload w (K8sTransport t container) localDir remoteDir h = k8s_Upload w t container localDir remoteDir h"

fun transport_Enter :: "remote_world \<Rightarrow> transport \<Rightarrow> string \<Rightarrow> history \<Rightarrow> shell_outcome \<times> history" where
  "transport_Enter w (SSHTransport t opts) remoteDir h =
     (rw_shell w h, h @ [direct ''ssh'' (ssh_Enter_args t opts remoteDir)])"
| "transport_Enter w (ContainerTransport t runtime) remoteDir h =
     (rw_shell w h, h @ [direct runtime (container_Enter_args t remoteDir)])"
| "transport_Enter w (K8sTransport t container) remoteDir h =
     (rw_shell w h, h @ [direct ''kubectl'' (k8s_Enter_args t container remoteDir)])"

section \<open>The profile and its staging\<close>

record profile_file =
  pf_LogicalName :: string
  pf_TargetPath :: string
  pf_Mode :: string
  pf_Content :: string
  pf_OnConflict :: string
  pf_Managed :: bool

record remote_profile =
  rp_SchemaVersion :: string
  rp_Name :: string
  rp_Description :: string
  rp_Files :: "profile_file list"
  rp_Env :: "(string \<times> string) list"
  rp_ShellHooks :: "(string \<times> string) list"
  rp_NeedsWritableHome :: bool
  rp_NeedsCommands :: "string list"

definition Minimal_files :: "profile_file list" where
  "Minimal_files =
    [
     \<lparr>pf_LogicalName = ''env.sh'', pf_TargetPath = ''env.sh'', pf_Mode = ''0644'',
      pf_Content = script
       [''# DevDiag temporary remote environment'',
        ''# Generated for this session only.'',
        [],
        ''export DEVDDIR='' @ dq @ ''${DEVDDIR:-$HOME/.devdiag/remote/__SESSION_ID__}'' @ dq,
        ''export PATH='' @ dq @ ''$DEVDDIR/bin:$PATH'' @ dq,
        [],
        ''if [ -f '' @ dq @ ''$DEVDDIR/aliases.sh'' @ dq @ '' ]; then'',
        ''  . '' @ dq @ ''$DEVDDIR/aliases.sh'' @ dq,
        ''fi'',
        [],
        ''if [ -n '' @ dq @ ''$PS1'' @ dq @ '' ]; then'',
        ''  PS1='' @ dq @ ''[devdiag] $PS1'' @ dq,
        ''fi''],
      pf_OnConflict = ''skip'', pf_Managed = True\<rparr>,
     \<lparr>pf_LogicalName = ''aliases.sh'', pf_TargetPath = ''aliases.sh'', pf_Mode = ''0644'',
      pf_Content = script
       [''alias ll='' @ sq @ ''ls -la'' @ sq,
        ''alias grep='' @ sq @ ''grep --color=auto'' @ sq,
        ''alias dd-path='' @ sq @ ''printf '' @ dq @ ''%s'' @ bs @ ''n'' @ dq @ '' '' @ dq @ ''$PATH'' @ dq @
           '' | tr '' @ dq @ '':'' @ dq @ '' '' @ dq @ bs @ ''n'' @ dq @ sq,
        ''alias dd-here='' @ sq @ ''pwd; id; uname -a'' @ sq],
      pf_OnConflict = ''skip'', pf_Managed = True\<rparr>,
     \<lparr>pf_LogicalName = ''bin/dd-path'', pf_TargetPath = ''bin/dd-path'', pf_Mode = ''0755'',
      pf_Content = script
       [''#!/bin/sh'',
        ''printf '' @ sq @ ''%s'' @ bs @ ''n'' @ sq @ '' '' @ dq @ ''$PATH'' @ dq @ '' | tr '' @ sq @ '':'' @
           sq @ '' '' @ sq @ bs @ ''n'' @ sq],
      pf_OnConflict = ''skip'', pf_Managed = True\<rparr>,
     \<lparr>pf_LogicalName = ''bin/dd-ports'', pf_TargetPath = ''bin/dd-ports'', pf_Mode = ''0755'',
      pf_Content = script
       [''#!/bin/sh'',
        ''if command -v ss >/dev/null 2>&1; then'',
        ''  ss -ltnp 2>/dev/null || ss -ltn 2>/dev/null'',
        ''elif command -v netstat >/dev/null 2>&1; then'',
        ''  netstat -ltn 2>/dev/null'',
        ''else'',
        ''  echo '' @ dq @ ''no ss or netstat available'' @ dq,
        ''  exit 1'',
        ''fi''],
      pf_OnConflict = ''skip'', pf_Managed = True\<rparr>,
     \<lparr>pf_LogicalName = ''bin/dd-proc'', pf_TargetPath = ''bin/dd-proc'', pf_Mode = ''0755'',
      pf_Content = script
       [''#!/bin/sh'',
        ''if command -v ps >/dev/null 2>&1; then'',
        ''  ps aux 2>/dev/null || ps 2>/dev/null'',
        ''else'',
        ''  echo '' @ dq @ ''ps unavailable'' @ dq,
        ''  exit 1'',
        ''fi''],
      pf_OnConflict = ''skip'', pf_Managed = True\<rparr>,
     \<lparr>pf_LogicalName = ''bin/dd-clean'', pf_TargetPath = ''bin/dd-clean'', pf_Mode = ''0755'',
      pf_Content = script
       [''#!/bin/sh'',
        ''# Print the DevDiag session root for manual cleanup.'',
        ''if [ -n '' @ dq @ ''$DEVDDIR'' @ dq @ '' ]; then'',
        ''  echo '' @ dq @ ''$DEVDDIR'' @ dq,
        ''else'',
        ''  echo '' @ dq @ ''DEVDDIR not set; no active DevDiag session'' @ dq,
        ''  exit 1'',
        ''fi''],
      pf_OnConflict = ''skip'', pf_Managed = True\<rparr>,
     \<lparr>pf_LogicalName = ''tmux.conf'', pf_TargetPath = ''tmux.conf'', pf_Mode = ''0644'',
      pf_Content = script
       [''set -g history-limit 10000'',
        ''set -g mouse on''],
      pf_OnConflict = ''skip'', pf_Managed = True\<rparr>]"

definition Minimal :: remote_profile where
  "Minimal = \<lparr>rp_SchemaVersion = ''0.1'', rp_Name = ''minimal'', rp_Description = ''Minimal safe developer environment helpers'',
     rp_Files = Minimal_files, rp_Env = [], rp_ShellHooks = [], rp_NeedsWritableHome = True, rp_NeedsCommands = [''sh'']\<rparr>"

definition substituteSessionID :: "string \<Rightarrow> string \<Rightarrow> string" where
  "substituteSessionID content sessionID = replace_all content ''__SESSION_ID__'' sessionID"

definition SubstituteSessionID :: "remote_profile \<Rightarrow> string \<Rightarrow> remote_profile" where
  "SubstituteSessionID p sessionID = p
     \<lparr>rp_Files := map (\<lambda>f. f\<lparr>pf_Content := substituteSessionID (pf_Content f) sessionID\<rparr>) (rp_Files p),
      rp_ShellHooks := map (\<lambda>(sh, c). (sh, substituteSessionID c sessionID)) (rp_ShellHooks p)\<rparr>"

text \<open>
  Staging: the temporary directory or the error of making it, and for each file the error of making its
  directory or of writing it. The files are those written, with contents and modes.
\<close>

record stage_world =
  sg_temp :: "string + string"
  sg_mkdir :: "string \<Rightarrow> string option"
  sg_write :: "string \<Rightarrow> string option"

definition octal_prefix :: "string \<Rightarrow> nat" where
  "octal_prefix s = foldl (\<lambda>n c. 8 * n + (of_char c - 48)) 0 (takeWhile (\<lambda>c. c \<in> set ''01234567'') s)"

definition parseMode :: "string \<Rightarrow> nat" where
  "parseMode s = (if s = [] then 420 else let m = octal_prefix s in if m = 0 then 420 else m)"

fun stage_files ::
  "stage_world \<Rightarrow> string \<Rightarrow> profile_file list \<Rightarrow> (string \<times> string \<times> nat) list \<times> string option" where
  "stage_files w dir [] = ([], None)"
| "stage_files w dir (f # fs) =
     (let localPath = Join2 dir (pf_TargetPath f)
      in case sg_mkdir w (Dir localPath) of
           Some e \<Rightarrow> ([], Some (''mkdir '' @ Dir localPath @ '': '' @ e))
         | None \<Rightarrow>
             (case sg_write w localPath of
                Some e \<Rightarrow> ([], Some (''write '' @ localPath @ '': '' @ e))
              | None \<Rightarrow>
                  (let (ws, e) = stage_files w dir fs in ((localPath, pf_Content f, parseMode (pf_Mode f)) # ws, e))))"

definition Stage :: "stage_world \<Rightarrow> remote_profile \<Rightarrow> string \<times> (string \<times> string \<times> nat) list \<times> string option" where
  "Stage w p =
     (case sg_temp w of
        Inl e \<Rightarrow> ([], [], Some (''create staging dir: '' @ e))
      | Inr dir \<Rightarrow> (let (ws, e) = stage_files w dir (rp_Files p) in (dir, ws, e)))"

section \<open>What a remote shell is made to run\<close>

text \<open>
  The words the remote shell reads from a command sent over ssh are the arguments of the command,
  whatever characters they hold.
\<close>

lemma shellCommand_words: "sh_words (shellCommand args) = Some args"
  by (simp add: shellCommand_def sh_words_quoted)

lemma ssh_Run_words:
  assumes "rc_Args cmd \<noteq> []"
  shows "\<exists>c. snd (ssh_Run w t opts cmd h) = h @ [c] \<and> lc_Name c = ''ssh'' \<and>
    lc_Args c = sshArgs t opts False @ [''--'', shellCommand (rc_Args cmd)] \<and>
    sh_words (last (lc_Args c)) = Some (rc_Args cmd)"
  using assms by (simp add: ssh_Run_def run_local_def Let_def shellCommand_words)

text \<open>The commands of an upload: one directory, whatever its name, and no expansion of it.\<close>

lemma upload_words:
  "sh_words (''mkdir -p '' @ ShellQuote d) = Some [''mkdir'', ''-p'', d]"
  "sh_words (''tar -C '' @ ShellQuote d @ '' -xf -'') = Some [''tar'', ''-C'', d, ''-xf'', ''-'']"
proof -
  have p: "list_all sh_plain ''mkdir''" "list_all sh_plain ''-p''" "list_all sh_plain ''tar''" "list_all sh_plain ''-C''"
    by code_simp+
  show "sh_words (''mkdir -p '' @ ShellQuote d) = Some [''mkdir'', ''-p'', d]"
    using sh_scan_word [OF p(1), of "''-p '' @ ShellQuote d"] sh_scan_word [OF p(2), of "ShellQuote d"]
    by (simp add: sh_words_def ShellQuote_last)
  have tail: "sh_scan None ''-xf -'' = Some [''-xf'', ''-'']" by code_simp
  show "sh_words (''tar -C '' @ ShellQuote d @ '' -xf -'') = Some [''tar'', ''-C'', d, ''-xf'', ''-'']"
    using sh_scan_word [OF p(3), of "''-C '' @ ShellQuote d @ '' -xf -''"] sh_scan_word [OF p(4), of "ShellQuote d @ '' -xf -''"]
      ShellQuote_next [of d "''-xf -''"] tail
    by (simp add: sh_words_def)
qed

lemma sh_lc_words: "sh_words (''sh -lc '' @ ShellQuote c) = Some [''sh'', ''-lc'', c]"
proof -
  have p: "list_all sh_plain ''sh''" "list_all sh_plain ''-lc''" by code_simp+
  show ?thesis
    using sh_scan_word [OF p(1), of "''-lc '' @ ShellQuote c"] sh_scan_word [OF p(2), of "ShellQuote c"]
    by (simp add: sh_words_def ShellQuote_last)
qed

text \<open>
  C40: whatever the arguments of a command sent over ssh hold, the remote shell reads them back as exactly
  those arguments; and an upload makes it run two commands on one directory, taken as it is.
\<close>

theorem ssh_arguments_roundtrip:
  "\<exists>c. snd (ssh_Run w t opts \<lparr>rc_Args = a # as, rc_Stdin = inp\<rparr> h) = h @ [c] \<and>
     lc_Args c = sshArgs t opts False @ [''--'', shellCommand (a # as)] \<and>
     sh_words (shellCommand (a # as)) = Some (a # as) \<and>
     (\<exists>mkdir untar.
        sh_words (last (upload_ssh_args t opts dir)) = Some [''sh'', ''-lc'', mkdir @ '' && '' @ untar] \<and>
        sh_words mkdir = Some [''mkdir'', ''-p'', ShellPath dir] \<and>
        sh_words untar = Some [''tar'', ''-C'', ShellPath dir, ''-xf'', ''-''])"
proof -
  let ?d = "ShellQuote (ShellPath dir)"
  have "sh_words (last (upload_ssh_args t opts dir)) =
      Some [''sh'', ''-lc'', (''mkdir -p '' @ ?d) @ '' && '' @ (''tar -C '' @ ?d @ '' -xf -'')]"
    using sh_lc_words [of "upload_command ?d"] by (simp add: upload_ssh_args_def) (simp add: upload_command_def)
  with upload_words [of "ShellPath dir"]
  have up: "\<exists>mkdir untar.
      sh_words (last (upload_ssh_args t opts dir)) = Some [''sh'', ''-lc'', mkdir @ '' && '' @ untar] \<and>
      sh_words mkdir = Some [''mkdir'', ''-p'', ShellPath dir] \<and>
      sh_words untar = Some [''tar'', ''-C'', ShellPath dir, ''-xf'', ''-'']" by blast
  have "\<exists>c. snd (ssh_Run w t opts \<lparr>rc_Args = a # as, rc_Stdin = inp\<rparr> h) = h @ [c] \<and>
      lc_Args c = sshArgs t opts False @ [''--'', shellCommand (a # as)]"
    by (simp add: ssh_Run_def run_local_def Let_def)
  with up shellCommand_words [of "a # as"] show ?thesis by blast
qed

end
