(* ===== verification/Remote_Command.thy ===== *)
theory Remote_Command
  imports Remote_Transport Redact Saved_Runs
begin

text \<open>
  The \<open>remote\<close> commands (\<open>internal/cli/remote.go\<close>) and their rendering (\<open>internal/remote/render\<close>): doctor,
  sync, enter, clean and status over the transports and the cache of sessions. \<open>remote_env\<close> holds what
  they get from elsewhere: the machine, \<open>url.Parse\<close>, the staging, the cache with the fate of every write,
  the new session identifier with its time, the version, the home directory that redaction hides, and
  the encoders. The log is left out, and of the printed result the constant version of its
  schema and the command to enter, which is never set. Nothing is written to the output but what \<open>ou_Out\<close> says, and
  \<open>ou_Err\<close> is the text of the error output.
\<close>

section \<open>Results\<close>

record remote_finding =
  rf_ID :: string
  rf_Title :: string
  rf_Severity :: string
  rf_Message :: string

record remote_report =
  rs_DevDiagVersion :: string
  rs_Target :: target
  rs_Status :: string
  rs_Profile :: string
  rs_SessionID :: string
  rs_RemoteDir :: string
  rs_FilesWritten :: nat
  rs_FilesCreated :: "string list"
  rs_NoDotfilesModified :: bool
  rs_CleanupCommand :: string
  rs_Findings :: "remote_finding list"
  rs_Notes :: "string list"
  rs_RedactionStatus :: string

definition out_line :: "string \<Rightarrow> string" where
  "out_line s = s @ [CHR 0x0A]"

definition clean_command :: "target \<Rightarrow> string \<Rightarrow> string" where
  "clean_command t sessionID = ''devdiag remote clean '' @ Target_String t @ '' --session '' @ sessionID"

definition NewSyncResult :: "string \<Rightarrow> target \<Rightarrow> string \<Rightarrow> string \<Rightarrow> string \<Rightarrow> string list \<Rightarrow> remote_report" where
  "NewSyncResult version t profile sessionID remoteDir files =
     \<lparr>rs_DevDiagVersion = version, rs_Target = t, rs_Status = ''synced'', rs_Profile = profile, rs_SessionID = sessionID,
      rs_RemoteDir = remoteDir, rs_FilesWritten = length files, rs_FilesCreated = files, rs_NoDotfilesModified = True,
      rs_CleanupCommand = clean_command t sessionID, rs_Findings = [], rs_Notes = [], rs_RedactionStatus = []\<rparr>"

definition NewDoctorResult :: "string \<Rightarrow> target \<Rightarrow> remote_report" where
  "NewDoctorResult version t =
     \<lparr>rs_DevDiagVersion = version, rs_Target = t, rs_Status = ''doctor'', rs_Profile = [], rs_SessionID = [],
      rs_RemoteDir = [], rs_FilesWritten = 0, rs_FilesCreated = [], rs_NoDotfilesModified = False,
      rs_CleanupCommand = [], rs_Findings = [], rs_Notes = [], rs_RedactionStatus = ''default''\<rparr>"

definition opt_line :: "string \<Rightarrow> string \<Rightarrow> string" where
  "opt_line label v = (if v \<noteq> [] then out_line (label @ v) else [])"

definition opt_section :: "string \<Rightarrow> string list \<Rightarrow> string" where
  "opt_section title ls =
     (if ls \<noteq> [] then [CHR 0x0A] @ out_line title @ concat (map (\<lambda>l. out_line (''  '' @ l)) ls) else [])"

definition remote_renderHuman :: "remote_report \<Rightarrow> string" where
  "remote_renderHuman r =
     (if rs_Status r = ''ok'' \<or> rs_Status r = ''synced'' then out_line ''DevDiag remote sync completed''
      else if rs_Status r = ''doctor'' then out_line ''DevDiag remote doctor''
      else if rs_Status r = ''cleaned'' then out_line ''DevDiag remote clean completed''
      else out_line (''DevDiag remote operation: '' @ rs_Status r)) @
     (if t_Raw (rs_Target r) \<noteq> [] then out_line (''Target: '' @ Target_String (rs_Target r)) else []) @
     opt_line ''Profile: '' (rs_Profile r) @ opt_line ''Session: '' (rs_SessionID r) @
     opt_line ''Remote dir: '' (rs_RemoteDir r) @
     opt_section ''Changed files'' (map (\<lambda>f. ''created  '' @ f) (rs_FilesCreated r)) @
     (if rs_NoDotfilesModified r then [CHR 0x0A] @ out_line ''No existing dotfiles were modified.'' else []) @
     opt_section ''Cleanup'' (if rs_CleanupCommand r \<noteq> [] then [rs_CleanupCommand r] else []) @
     opt_section ''Findings'' (map (\<lambda>f. ''['' @ rf_Severity f @ ''] '' @ rf_ID f @ '': '' @ rf_Title f) (rs_Findings r)) @
     opt_section ''Notes'' (rs_Notes r)"

section \<open>What the commands get from elsewhere\<close>

record remote_flags =
  fr_Format :: string
  fr_Redact :: string
  fr_Profile :: string
  fr_Session :: string
  fr_Keep :: bool
  fr_Cleanup :: string
  fr_DryRun :: bool
  fr_All :: bool
  fr_IdentityFile :: string
  fr_KnownHostsFile :: string
  fr_StrictHostKeyChecking :: string
  fr_K8sContainer :: string

record remote_env =
  re_world :: remote_world
  re_url :: "string \<Rightarrow> ssh_url option"
  re_stage :: stage_world
  re_codec :: manifest_codec
  re_cache :: "cache_dir option"
  re_mkdir :: bool
  re_write :: "session_manifest \<Rightarrow> cache_write"
  re_session :: string
  re_now :: string
  re_version :: string
  re_user_home :: string
  re_json :: "remote_report \<Rightarrow> string"
  re_ndjson :: "remote_report \<Rightarrow> string"

record remote_outcome =
  ou_Out :: string
  ou_Err :: string
  ou_Code :: "exit_code option"
  ou_Cache :: "cache_dir option"
  ou_History :: history
  ou_Panics :: bool

definition remote_Render :: "remote_env \<Rightarrow> remote_report \<Rightarrow> string \<Rightarrow> string" where
  "remote_Render env r format =
     (if format = ''json'' then re_json env r
      else if format = ''ndjson'' then re_ndjson env r
      else remote_renderHuman r)"

definition remote_engine :: "remote_env \<Rightarrow> remote_flags \<Rightarrow> redact_engine" where
  "remote_engine env fl = \<lparr>re_Level = fr_Redact fl, re_home = re_user_home env\<rparr>"

text \<open>Ending with a printed result, and ending with an exit code only.\<close>

definition outputRemoteResult :: "remote_env \<Rightarrow> remote_flags \<Rightarrow> remote_report \<Rightarrow> string" where
  "outputRemoteResult env fl r =
     (let e = remote_engine env fl;
          r' = r\<lparr>rs_Notes := map (RedactString e) (rs_Notes r),
                 rs_Findings := map (\<lambda>f. f\<lparr>rf_Message := RedactString e (rf_Message f)\<rparr>) (rs_Findings r)\<rparr>
      in if fr_Format fl \<in> {''json'', ''ndjson'', ''markdown'', ''github''} then remote_Render env r' (fr_Format fl)
         else remote_Render env r' ''human'')"

definition ends ::
  "remote_env \<Rightarrow> remote_flags \<Rightarrow> remote_report \<Rightarrow> exit_code option \<Rightarrow> cache_dir option \<Rightarrow> history \<Rightarrow> remote_outcome" where
  "ends env fl r code cache h =
     \<lparr>ou_Out = outputRemoteResult env fl r, ou_Err = [], ou_Code = code, ou_Cache = cache, ou_History = h,
      ou_Panics = False\<rparr>"

definition fails :: "remote_env \<Rightarrow> exit_code \<Rightarrow> history \<Rightarrow> remote_outcome" where
  "fails env code h =
     \<lparr>ou_Out = [], ou_Err = [], ou_Code = Some code, ou_Cache = re_cache env, ou_History = h, ou_Panics = False\<rparr>"

definition finding_exit :: "remote_report \<Rightarrow> exit_code option" where
  "finding_exit r =
     (if list_ex (\<lambda>f. rf_Severity f = ''high'' \<or> rf_Severity f = ''critical'') (rs_Findings r) then Some FindingsExist else None)"

definition GenerateID :: "string \<Rightarrow> nat list option \<Rightarrow> nat \<Rightarrow> string" where
  "GenerateID ts random nanos =
     (case random of
        None \<Rightarrow> ts @ ''_'' @ hex_nat 4 (nanos mod 65535)
      | Some bytes \<Rightarrow> ts @ ''_'' @ concat (map hex_byte bytes))"

definition buildRemoteSSHOptions :: "remote_flags \<Rightarrow> ssh_options option" where
  "buildRemoteSSHOptions fl =
     (if fr_StrictHostKeyChecking fl \<in> {[], ''yes'', ''no'', ''accept-new'', ''ask''}
      then Some \<lparr>so_IdentityFile = fr_IdentityFile fl, so_UserKnownHostsFile = fr_KnownHostsFile fl,
                 so_StrictHostKeyChecking = fr_StrictHostKeyChecking fl\<rparr>
      else None)"

definition applyRemoteK8sOptions :: "remote_flags \<Rightarrow> target \<Rightarrow> target" where
  "applyRemoteK8sOptions fl t =
     (if t_Kind t = KindK8s \<and> fr_K8sContainer fl \<noteq> [] then t\<lparr>t_ContainerName := fr_K8sContainer fl\<rparr> else t)"

definition remoteRootDir :: "target \<Rightarrow> string \<Rightarrow> string" where
  "remoteRootDir t sessionID =
     (case t_Kind t of
        KindContainer \<Rightarrow> ContainerRootDir sessionID
      | KindK8s \<Rightarrow> K8sRootDir sessionID
      | _ \<Rightarrow> SSHRootDir sessionID)"

definition chosen_profile :: "remote_flags \<Rightarrow> remote_profile option" where
  "chosen_profile fl = (if fr_Profile fl = ''minimal'' then Some Minimal else None)"

text \<open>The transport of a target; only detecting a container's runtime can fail.\<close>

definition new_transport :: "remote_env \<Rightarrow> target \<Rightarrow> ssh_options \<Rightarrow> history \<Rightarrow> (string + transport) \<times> history" where
  "new_transport env t opts h =
     (case t_Kind t of
        KindContainer \<Rightarrow>
          (let (r, h') = container_NewTransport (re_world env) t h
           in (case r of Inl e \<Rightarrow> Inl e | Inr runtime \<Rightarrow> Inr (ContainerTransport t runtime), h'))
      | KindK8s \<Rightarrow> (Inr (K8sTransport t (k8s_NewTransport t (t_ContainerName t))), h)
      | _ \<Rightarrow> (Inr (SSHTransport t opts), h))"

section \<open>doctor\<close>

definition high_finding :: "string \<Rightarrow> string \<Rightarrow> string \<Rightarrow> remote_finding" where
  "high_finding i title msg = \<lparr>rf_ID = i, rf_Title = title, rf_Severity = ''high'', rf_Message = msg\<rparr>"

definition medium_finding :: "string \<Rightarrow> string \<Rightarrow> string \<Rightarrow> remote_finding" where
  "medium_finding i title msg = \<lparr>rf_ID = i, rf_Title = title, rf_Severity = ''medium'', rf_Message = msg\<rparr>"

definition buildSSHProbeFindings :: "probe_result \<Rightarrow> remote_finding option" where
  "buildSSHProbeFindings p =
     (if \<not> pr_Reachable p then Some (high_finding ''F-REMOTE-001'' ''Remote target unreachable'' (pr_Error p))
      else if \<not> pr_HomeWritable p
      then Some (high_finding ''F-REMOTE-002'' ''Remote home directory not writable''
                   (''home='' @ pr_Home p @ '' is not writable; remote sync cannot inject profile''))
      else if pr_Shell p = []
      then Some (high_finding ''F-REMOTE-003'' ''No supported remote shell found''
                   ''no supported shell detected on remote target'')
      else if \<not> pr_HasTar p
      then Some (medium_finding ''F-REMOTE-004'' ''Required upload method unavailable''
                   ''tar not available on remote; upload will use fallback methods'')
      else None)"

definition has_shell :: "probe_result \<Rightarrow> bool" where
  "has_shell p \<longleftrightarrow> pr_Shell p \<noteq> [] \<or> pr_Tools p ''sh'' \<or> pr_Tools p ''bash'' \<or> pr_Tools p ''zsh'' \<or> pr_Tools p ''fish''"

definition buildContainerProbeFindings :: "probe_result \<Rightarrow> remote_finding option" where
  "buildContainerProbeFindings p =
     (if \<not> pr_Reachable p then Some (high_finding ''F-REMOTE-007'' ''Target container is not running'' (pr_Error p))
      else if \<not> pr_HomeWritable p
      then Some (high_finding ''F-REMOTE-006'' ''Remote filesystem is read-only''
                   ''container filesystem appears read-only; temporary remote sync cannot inject profile'')
      else if \<not> has_shell p
      then Some (high_finding ''F-REMOTE-003'' ''No supported remote shell found'' ''no supported shell detected in container'')
      else if \<not> pr_HasTar p
      then Some (medium_finding ''F-REMOTE-004'' ''Required upload method unavailable''
                   ''tar not available in container; upload will use fallback methods'')
      else None)"

definition buildK8sProbeFindings :: "probe_result \<Rightarrow> remote_finding option" where
  "buildK8sProbeFindings p =
     (if \<not> pr_Reachable p then Some (high_finding ''F-REMOTE-K8S-002'' ''Kubernetes pod unreachable'' (pr_Error p))
      else if \<not> pr_HomeWritable p
      then Some (high_finding ''F-REMOTE-K8S-003'' ''Kubernetes pod filesystem is read-only''
                   ''pod /tmp is not writable; temporary remote sync cannot inject profile'')
      else if \<not> has_shell p
      then Some (high_finding ''F-REMOTE-003'' ''No supported remote shell found''
                   ''no supported shell detected in Kubernetes pod'')
      else if \<not> pr_HasTar p
      then Some (medium_finding ''F-REMOTE-004'' ''Required upload method unavailable''
                   ''tar not available in Kubernetes pod; upload cannot stream profile archive'')
      else None)"

text \<open>Every command begins with the target and, but for status, the options of ssh.\<close>

definition parse_remote :: "remote_env \<Rightarrow> remote_flags \<Rightarrow> string \<Rightarrow> target option" where
  "parse_remote env fl arg =
     (case Target_Parse (re_url env) arg of Inl _ \<Rightarrow> None | Inr t \<Rightarrow> Some (applyRemoteK8sOptions fl t))"

definition plain_result :: "remote_env \<Rightarrow> remote_flags \<Rightarrow> target \<Rightarrow> remote_report" where
  "plain_result env fl t = (NewDoctorResult (re_version env) t)\<lparr>rs_RedactionStatus := fr_Redact fl\<rparr>"

definition add_note :: "string \<Rightarrow> remote_report \<Rightarrow> remote_report" where
  "add_note n r = r\<lparr>rs_Notes := rs_Notes r @ [n]\<rparr>"

definition probe_findings :: "transport \<Rightarrow> probe_result \<Rightarrow> remote_finding option" where
  "probe_findings tr p =
     (case tr of
        SSHTransport _ _ \<Rightarrow> buildSSHProbeFindings p
      | ContainerTransport _ _ \<Rightarrow> buildContainerProbeFindings p
      | K8sTransport _ _ \<Rightarrow> buildK8sProbeFindings p)"

definition runRemoteDoctor :: "remote_env \<Rightarrow> remote_flags \<Rightarrow> string \<Rightarrow> remote_outcome" where
  "runRemoteDoctor env fl arg =
     (case parse_remote env fl arg of
        None \<Rightarrow> fails env InvalidInput []
      | Some t \<Rightarrow>
     (case buildRemoteSSHOptions fl of
        None \<Rightarrow> fails env InvalidInput []
      | Some opts \<Rightarrow>
          (let result = plain_result env fl t
           in if fr_DryRun fl
              then ends env fl (add_note ''dry-run: no remote commands executed'' (result\<lparr>rs_Profile := fr_Profile fl\<rparr>))
                     None (re_cache env) []
              else case new_transport env t opts [] of
                     (Inl e, h) \<Rightarrow>
                       (let r = (add_note e result)\<lparr>rs_Profile := fr_Profile fl,
                                  rs_Findings := [high_finding ''F-REMOTE-007'' ''Target container is not running'' e]\<rparr>
                        in ends env fl r (finding_exit r) (re_cache env) h)
                   | (Inr tr, h) \<Rightarrow>
                       (let (probe, h') = transport_Probe (re_world env) tr h;
                            r = result\<lparr>rs_Profile := fr_Profile fl,
                                       rs_Findings := (case probe_findings tr probe of None \<Rightarrow> [] | Some f \<Rightarrow> [f])\<rparr>
                        in ends env fl r (finding_exit r) (re_cache env) h'))))"

section \<open>sync\<close>

definition manifestWriteError :: "remote_result \<Rightarrow> string option" where
  "manifestWriteError res =
     (if rr_TimedOut res then Some ''timed out''
      else if rr_ExitCode res \<noteq> 0
      then (if trim_space (rr_Stderr res) \<noteq> []
            then Some (''exit code '' @ itoa (rr_ExitCode res) @ '': '' @ trim_space (rr_Stderr res))
            else Some (''exit code '' @ itoa (rr_ExitCode res)))
      else None)"

definition managed_files :: "string \<Rightarrow> remote_profile \<Rightarrow> managed_file list" where
  "managed_files remoteDir p =
     map (\<lambda>f. \<lparr>mf_Path = Join2 remoteDir (pf_TargetPath f), mf_Mode = pf_Mode f, mf_Created = True\<rparr>) (rp_Files p)"

definition session_manifest_of :: "remote_env \<Rightarrow> remote_flags \<Rightarrow> target \<Rightarrow> remote_profile \<Rightarrow> session_manifest" where
  "session_manifest_of env fl t p =
     \<lparr>sm_SchemaVersion = ''0.1'', sm_DevDiagVersion = re_version env, sm_SessionID = re_session env,
      sm_CreatedAt = re_now env, sm_Target = t, sm_Profile = fr_Profile fl, sm_Mode = ''temporary'',
      sm_RootDir = remoteRootDir t (re_session env), sm_Files = managed_files (remoteRootDir t (re_session env)) p,
      sm_Status = ''active''\<rparr>"

definition remote_upload ::
  "remote_env \<Rightarrow> transport \<Rightarrow> string \<Rightarrow> string \<Rightarrow> history \<Rightarrow> string option \<times> history" where
  "remote_upload env tr stageDir remoteDir h =
     (case tr of
        SSHTransport t opts \<Rightarrow> UploadTarStream (re_world env) t opts stageDir remoteDir h
      | _ \<Rightarrow> transport_Upload (re_world env) tr stageDir remoteDir h)"

definition cat_to :: "string \<Rightarrow> string \<Rightarrow> remote_command" where
  "cat_to path data = \<lparr>rc_Args = [''sh'', ''-lc'', ''cat > '' @ ShellQuote path], rc_Stdin = Some data\<rparr>"

text \<open>Writing the manifest to the remote machine, with the note of its failure.\<close>

definition write_manifest :: "remote_env \<Rightarrow> transport \<Rightarrow> session_manifest \<Rightarrow> history \<Rightarrow> string option \<times> history" where
  "write_manifest env tr m h =
     (let data = mc_encode (re_codec env) m; path = Join2 (sm_RootDir m) ''manifest.json''
      in case tr of
           SSHTransport t opts \<Rightarrow>
             (let (res, h') = transport_Run (re_world env) tr (cat_to (ShellPath path) data) h
              in (map_option (\<lambda>e. ''remote manifest write failed: '' @ e) (manifestWriteError res), h'))
         | _ \<Rightarrow> (let (res, h') = transport_Run (re_world env) tr (cat_to path data) h in (manifestWriteError res, h')))"

definition write_cache :: "remote_env \<Rightarrow> cache_dir option \<Rightarrow> session_manifest \<Rightarrow> cache_dir option" where
  "write_cache env dir m = fst (WriteCache (re_codec env) (re_mkdir env) (re_write env m) dir m)"

definition failed_sync :: "remote_env \<Rightarrow> remote_flags \<Rightarrow> remote_report \<Rightarrow> string \<Rightarrow> history \<Rightarrow> remote_outcome" where
  "failed_sync env fl r msg h =
     ends env fl (add_note msg (r\<lparr>rs_Status := ''failed''\<rparr>)) (Some ReproFailed) (re_cache env) h"

definition runRemoteSync :: "remote_env \<Rightarrow> remote_flags \<Rightarrow> string \<Rightarrow> remote_outcome" where
  "runRemoteSync env fl arg =
     (case parse_remote env fl arg of
        None \<Rightarrow> fails env InvalidInput []
      | Some t \<Rightarrow>
     (case buildRemoteSSHOptions fl of
        None \<Rightarrow> fails env InvalidInput []
      | Some opts \<Rightarrow>
     (case chosen_profile fl of
        None \<Rightarrow> fails env InvalidInput []
      | Some p0 \<Rightarrow>
          (let p = SubstituteSessionID p0 (re_session env);
               remoteDir = remoteRootDir t (re_session env);
               (stageDir, staged, stage_err) = Stage (re_stage env) p
           in if stage_err \<noteq> None then fails env InternalError []
              else
                let result = (NewSyncResult (re_version env) t (fr_Profile fl) (re_session env) remoteDir
                                (map (\<lambda>f. Join2 remoteDir (pf_TargetPath f)) (rp_Files p)))
                               \<lparr>rs_RedactionStatus := fr_Redact fl\<rparr>
                in if fr_DryRun fl
                   then ends env fl (add_note ''dry-run: no files uploaded'' result) None (re_cache env) []
                   else
                     let manifest = session_manifest_of env fl t p
                     in case new_transport env t opts [] of
                          (Inl e, h) \<Rightarrow> failed_sync env fl result (''container failed: '' @ e) h
                        | (Inr tr, h) \<Rightarrow>
                            (case remote_upload env tr stageDir remoteDir h of
                               (Some e, h') \<Rightarrow> failed_sync env fl result (''upload failed: '' @ e) h'
                             | (None, h') \<Rightarrow>
                                 (let (werr, h'') = write_manifest env tr manifest h';
                                      r = add_note ''upload completed'' result
                                  in ends env fl
                                       (case werr of None \<Rightarrow> r | Some e \<Rightarrow> add_note (''manifest write failed: '' @ e) r)
                                       None (write_cache env (re_cache env) manifest) h''))))))"

section \<open>Cleaning up\<close>

definition rm_command :: "managed_file \<Rightarrow> remote_command" where
  "rm_command f = \<lparr>rc_Args = [''rm'', ''-f'', mf_Path f], rc_Stdin = None\<rparr>"

definition rmdir_command :: "string \<Rightarrow> remote_command" where
  "rmdir_command rootDir =
     \<lparr>rc_Args = [''sh'', ''-lc'', ''cd '' @ ShellQuote (ShellPath rootDir) @
        '' 2>/dev/null && rmdir $(find . -type d -empty | sort -r) 2>/dev/null || true''], rc_Stdin = None\<rparr>"

text \<open>
  Removing the files one after the other; the last error stays. \<open>run\<close> is the method of the transport
  the code calls.
\<close>

fun clean_files ::
  "(remote_command \<Rightarrow> history \<Rightarrow> remote_result \<times> history) \<Rightarrow> string \<Rightarrow> managed_file list \<Rightarrow> string option \<Rightarrow> history \<Rightarrow>
   string option \<times> history" where
  "clean_files run rootDir [] err h = (err, h)"
| "clean_files run rootDir (f # fs) err h =
     (case ValidateManagedPath rootDir (mf_Path f) of
        Some e \<Rightarrow> clean_files run rootDir fs (Some e) h
      | None \<Rightarrow>
          (let (res, h') = run (rm_command f) h
           in clean_files run rootDir fs
                (if rr_ExitCode res \<noteq> 0 then Some (''rm '' @ mf_Path f @ '' failed: '' @ rr_Stderr res) else err) h'))"

definition cleanManifest ::
  "(remote_command \<Rightarrow> history \<Rightarrow> remote_result \<times> history) \<Rightarrow> session_manifest \<Rightarrow> history \<Rightarrow> string option \<times> history" where
  "cleanManifest run m h =
     (case ValidateRootDir (sm_RootDir m) (t_Kind (sm_Target m)) of
        Some e \<Rightarrow> (Some e, h)
      | None \<Rightarrow>
          (let (err, h1) = clean_files run (sm_RootDir m) (sm_Files m) None h;
               (_, h2) = run (rmdir_command (sm_RootDir m)) h1
           in (err, h2)))"

definition cleaned :: "session_manifest \<Rightarrow> session_manifest" where
  "cleaned m = m\<lparr>sm_Status := ''cleaned''\<rparr>"

definition unsafe_error :: "string \<Rightarrow> bool" where
  "unsafe_error e \<longleftrightarrow> contains e ''must be within'' \<or> contains e ''root dir cannot be''"

text \<open>The counts of sessions cleaned, failed and unsafe, the last error, the cache and the commands.\<close>

record clean_state =
  cs_success :: nat
  cs_fail :: nat
  cs_unsafe :: nat
  cs_error :: string
  cs_cache :: "cache_dir option"
  cs_history :: history

definition clean_step :: "remote_env \<Rightarrow> transport \<Rightarrow> session_manifest \<Rightarrow> clean_state \<Rightarrow> clean_state" where
  "clean_step env tr m s =
     (case cleanManifest (transport_Run (re_world env) tr) m (cs_history s) of
        (Some e, h) \<Rightarrow> s\<lparr>cs_unsafe := cs_unsafe s + (if unsafe_error e then 1 else 0), cs_fail := cs_fail s + 1,
                        cs_error := e, cs_history := h\<rparr>
      | (None, h) \<Rightarrow> s\<lparr>cs_success := cs_success s + 1, cs_cache := write_cache env (cs_cache s) (cleaned m),
                      cs_history := h\<rparr>)"

definition clean_sessions :: "remote_env \<Rightarrow> transport \<Rightarrow> session_manifest list \<Rightarrow> history \<Rightarrow> clean_state" where
  "clean_sessions env tr ms h =
     fold (clean_step env tr) ms
       \<lparr>cs_success = 0, cs_fail = 0, cs_unsafe = 0, cs_error = [], cs_cache = re_cache env, cs_history = h\<rparr>"

definition clean_report :: "clean_state \<Rightarrow> remote_report \<Rightarrow> remote_report" where
  "clean_report s r =
     (if cs_fail s = 0 then r\<lparr>rs_Status := ''cleaned''\<rparr>
      else if cs_unsafe s > 0
      then r\<lparr>rs_Status := (if cs_success s > 0 then ''partial'' else ''refused''),
             rs_Findings := rs_Findings r @ [high_finding ''F-REMOTE-005'' ''Unsafe cleanup refused'' (cs_error s)]\<rparr>
      else r\<lparr>rs_Status := ''partial'',
             rs_Findings := rs_Findings r @
               [medium_finding ''F-REMOTE-010'' ''Cleanup completed partially'' (cs_error s)]\<rparr>)"

definition clean_code :: "clean_state \<Rightarrow> exit_code option" where
  "clean_code s =
     (if cs_fail s > 0
      then (if cs_unsafe s > 0 \<and> cs_success s = 0 then Some UnsafeRefused else Some ExitCollectorPartial)
      else None)"

text \<open>Which sessions are to be cleaned: an exit code, a note that there is nothing, or the manifests.\<close>

datatype clean_choice = ChoiceFails exit_code | NothingToClean string | Clean_these "session_manifest list"

definition choose_sessions :: "remote_env \<Rightarrow> remote_flags \<Rightarrow> target \<Rightarrow> clean_choice" where
  "choose_sessions env fl t =
     (if fr_Session fl \<noteq> []
      then (case ReadCacheBySessionID (re_codec env) (re_cache env) (fr_Session fl) of
              None \<Rightarrow> ChoiceFails InvalidInput
            | Some m \<Rightarrow> if \<not> SameTarget (sm_Target m) t then ChoiceFails InvalidInput else Clean_these [m])
      else if fr_All fl
      then (case filter (\<lambda>m. SameTarget (sm_Target m) t)
                   (ListCache (re_codec env) (re_cache env) (kind_name (t_Kind t)) (t_Raw t)) of
              [] \<Rightarrow> NothingToClean ''no matching sessions found''
            | ms \<Rightarrow> Clean_these ms)
      else (case ReadCache (re_codec env) (re_cache env) (kind_name (t_Kind t)) (t_Raw t) of
              None \<Rightarrow> NothingToClean ''no cached session found; nothing to clean''
            | Some m \<Rightarrow>
                if SameTarget (sm_Target m) t then Clean_these [m]
                else NothingToClean ''no cached session found; nothing to clean''))"

definition runRemoteClean :: "remote_env \<Rightarrow> remote_flags \<Rightarrow> string \<Rightarrow> remote_outcome" where
  "runRemoteClean env fl arg =
     (case parse_remote env fl arg of
        None \<Rightarrow> fails env InvalidInput []
      | Some t \<Rightarrow>
          if fr_All fl \<and> fr_Session fl \<noteq> [] then fails env InvalidInput []
          else (case buildRemoteSSHOptions fl of
                  None \<Rightarrow> fails env InvalidInput []
                | Some opts \<Rightarrow>
                    (let result = (plain_result env fl t)\<lparr>rs_Status := ''cleaned''\<rparr>
                     in case choose_sessions env fl t of
                          ChoiceFails c \<Rightarrow> fails env c []
                        | NothingToClean n \<Rightarrow> ends env fl (add_note n result) None (re_cache env) []
                        | Clean_these ms \<Rightarrow>
                            if fr_DryRun fl
                            then ends env fl
                                   (add_note (''dry-run: would clean '' @ itoa (int (length ms)) @ '' sessions (total '' @
                                      itoa (int (sum_list (map (length \<circ> sm_Files) ms))) @ '' files)'') result)
                                   None (re_cache env) []
                            else (case new_transport env t opts [] of
                                    (Inl e, h) \<Rightarrow> fails env ReproFailed h
                                  | (Inr tr, h) \<Rightarrow>
                                      (let s = clean_sessions env tr ms h
                                       in ends env fl (clean_report s result) (clean_code s) (cs_cache s) (cs_history s))))))"

section \<open>enter\<close>

definition shouldCleanupAfterEnter :: "string \<Rightarrow> int \<Rightarrow> bool" where
  "shouldCleanupAfterEnter cleanupMode code \<longleftrightarrow> cleanupMode = ''always''"

definition shell_exit_code :: "shell_outcome \<Rightarrow> int" where
  "shell_exit_code s = (case s of ShellOk \<Rightarrow> 0 | ShellExited c \<Rightarrow> c | ShellFailed _ \<Rightarrow> 1)"

definition cleanup_hint :: "string \<Rightarrow> target \<Rightarrow> string \<Rightarrow> string" where
  "cleanup_hint title t sessionID = [CHR 0x0A] @ out_line title @ out_line (''  '' @ clean_command t sessionID)"

text \<open>
  The clean-up after the shell. For a container whose runtime is not found any more the code holds a nil
  pointer in a transport that is not nil, so it panics at the first command; \<open>None\<close> is that panic.
  Otherwise the result says whether the clean-up is still wanted, with the text, the cache and the
  commands.
\<close>

definition enter_cleanup ::
  "remote_env \<Rightarrow> target \<Rightarrow> ssh_options \<Rightarrow> session_manifest \<Rightarrow> cache_dir option \<Rightarrow> history \<Rightarrow>
   (bool \<times> string \<times> cache_dir option \<times> history) option \<times> history" where
  "enter_cleanup env t opts m cache h =
     (case new_transport env t opts h of
        (Inl _, h') \<Rightarrow>
          (case ValidateRootDir (sm_RootDir m) (t_Kind (sm_Target m)) of
             Some e \<Rightarrow> (Some (False, cleanup_hint ''Cleanup failed. Run manually:'' t (sm_SessionID m), cache, h'), h')
           | None \<Rightarrow> (None, h'))
      | (Inr tr, h') \<Rightarrow>
          (case cleanManifest (transport_Run (re_world env) tr) m h' of
             (Some e, h'') \<Rightarrow>
               (Some (False, cleanup_hint ''Cleanup failed. Run manually:'' t (sm_SessionID m), cache, h''), h'')
           | (None, h'') \<Rightarrow> (Some (True, [], write_cache env cache (cleaned m), h''), h'')))"

definition after_shell ::
  "remote_env \<Rightarrow> remote_flags \<Rightarrow> target \<Rightarrow> ssh_options \<Rightarrow> session_manifest \<Rightarrow> cache_dir option \<Rightarrow>
   shell_outcome \<Rightarrow> history \<Rightarrow> remote_outcome" where
  "after_shell env fl t opts m cache sh h =
     (let mode = (if fr_Keep fl then ''never'' else fr_Cleanup fl);
          code = (if shell_exit_code sh \<noteq> 0 then Some ReproFailed else None);
          hint = cleanup_hint ''Cleanup:'' t (sm_SessionID m)
      in case (if shouldCleanupAfterEnter mode (shell_exit_code sh) then enter_cleanup env t opts m cache h
               else (Some (False, [], cache, h), h)) of
           (None, h') \<Rightarrow> \<lparr>ou_Out = [], ou_Err = [], ou_Code = None, ou_Cache = cache, ou_History = h', ou_Panics = True\<rparr>
         | (Some (needed, text, cache', h'), _) \<Rightarrow>
             \<lparr>ou_Out = [], ou_Err = text @ (if \<not> needed \<or> sh \<noteq> ShellOk then hint else []), ou_Code = code,
              ou_Cache = cache', ou_History = h', ou_Panics = False\<rparr>)"

definition enter_shell :: "remote_env \<Rightarrow> target \<Rightarrow> ssh_options \<Rightarrow> string \<Rightarrow> history \<Rightarrow> shell_outcome \<times> history" where
  "enter_shell env t opts remoteDir h =
     (case new_transport env t opts h of
        (Inl e, h') \<Rightarrow> (ShellFailed e, h')
      | (Inr tr, h') \<Rightarrow> transport_Enter (re_world env) tr remoteDir h')"

definition planned_result :: "remote_env \<Rightarrow> remote_flags \<Rightarrow> target \<Rightarrow> remote_report" where
  "planned_result env fl t =
     add_note ''dry-run: no files uploaded and no interactive shell opened''
       ((plain_result env fl t)\<lparr>rs_Status := ''planned'', rs_Profile := fr_Profile fl, rs_SessionID := re_session env,
          rs_RemoteDir := remoteRootDir t (re_session env), rs_CleanupCommand := clean_command t (re_session env)\<rparr>)"

definition enter_uploaded ::
  "remote_env \<Rightarrow> remote_flags \<Rightarrow> target \<Rightarrow> ssh_options \<Rightarrow> remote_profile \<Rightarrow> transport \<Rightarrow> history \<Rightarrow> remote_outcome" where
  "enter_uploaded env fl t opts p tr h =
     (let manifest = session_manifest_of env fl t p;
          (_, h1) = write_manifest env tr manifest h;
          cache = write_cache env (re_cache env) manifest;
          (sh, h2) = enter_shell env t opts (sm_RootDir manifest) h1
      in after_shell env fl t opts manifest cache sh h2)"

definition runRemoteEnter :: "remote_env \<Rightarrow> remote_flags \<Rightarrow> string \<Rightarrow> remote_outcome" where
  "runRemoteEnter env fl arg =
     (case parse_remote env fl arg of
        None \<Rightarrow> fails env InvalidInput []
      | Some t \<Rightarrow>
     if fr_Cleanup fl \<noteq> ''always'' \<and> fr_Cleanup fl \<noteq> ''never'' then fails env InvalidInput []
     else (case buildRemoteSSHOptions fl of
        None \<Rightarrow> fails env InvalidInput []
      | Some opts \<Rightarrow>
     (case chosen_profile fl of
        None \<Rightarrow> fails env InvalidInput []
      | Some p0 \<Rightarrow>
          (let p = SubstituteSessionID p0 (re_session env);
               remoteDir = remoteRootDir t (re_session env)
           in if fr_DryRun fl
              then (if fr_Format fl \<in> {''json'', ''ndjson'', ''markdown'', ''github''}
                    then ends env fl (planned_result env fl t) None (re_cache env) []
                    else \<lparr>ou_Out = [], ou_Err =
                            out_line (''dry-run: would stage profile, upload to '' @ remoteDir @
                                      '', then open interactive shell'') @
                            out_line ''Cleanup:'' @ out_line (''  '' @ clean_command t (re_session env)),
                          ou_Code = None, ou_Cache = re_cache env, ou_History = [], ou_Panics = False\<rparr>)
              else (let (stageDir, staged, stage_err) = Stage (re_stage env) p
                    in if stage_err \<noteq> None then fails env InternalError []
                       else case new_transport env t opts [] of
                              (Inl e, h) \<Rightarrow> fails env ReproFailed h
                            | (Inr tr, h) \<Rightarrow>
                                (case remote_upload env tr stageDir remoteDir h of
                                   (Some e, h') \<Rightarrow> fails env ReproFailed h'
                                 | (None, h') \<Rightarrow> enter_uploaded env fl t opts p tr h'))))))"

section \<open>status\<close>

definition runRemoteStatus :: "remote_env \<Rightarrow> remote_flags \<Rightarrow> string \<Rightarrow> remote_outcome" where
  "runRemoteStatus env fl arg =
     (case parse_remote env fl arg of
        None \<Rightarrow> fails env InvalidInput []
      | Some t \<Rightarrow>
          (let result = (plain_result env fl t)\<lparr>rs_Status := ''status''\<rparr>
           in ends env fl
                (case ReadCache (re_codec env) (re_cache env) (kind_name (t_Kind t)) (t_Raw t) of
                   None \<Rightarrow> add_note ''no cached session found for target'' result
                 | Some m \<Rightarrow>
                     result\<lparr>rs_SessionID := sm_SessionID m, rs_RemoteDir := sm_RootDir m, rs_Profile := sm_Profile m,
                            rs_Status := sm_Status m,
                            rs_Notes := [''cached session: '' @ sm_SessionID m, ''profile: '' @ sm_Profile m,
                              ''mode: '' @ sm_Mode m, ''files managed: '' @ itoa (int (length (sm_Files m)))]\<rparr>)
                None (re_cache env) []))"

end
