(* ===== verification/Remote_Correct.thy ===== *)
theory Remote_Correct
  imports Remote_Command
begin

text \<open>
  What the remote commands guarantee: which commands reach the remote machine when a session is cleaned
  up, that the sessions the program makes can be cleaned up, and where the code falls short of it.
\<close>

section \<open>Transports deliver arguments\<close>

text \<open>
  The contract of a transport that is usable: one local command is run for a remote one, and what the
  other side makes of it are the arguments it was given.
\<close>

locale delivering_transport =
  fixes run :: "remote_command \<Rightarrow> history \<Rightarrow> remote_result \<times> history"
    and received :: "local_cmd \<Rightarrow> string list option"
    and usable :: bool
  assumes delivers: "usable \<Longrightarrow> rc_Args cmd \<noteq> [] \<Longrightarrow> \<exists>c. snd (run cmd h) = h @ [c] \<and> received c = Some (rc_Args cmd)"
begin

lemma delivered:
  assumes "usable" "rc_Args cmd \<noteq> []"
  obtains c where "snd (run cmd h) = h @ [c]" "received c = Some (rc_Args cmd)"
  using delivers [OF assms, of h] by blast

lemma clean_files_commands:
  assumes "usable"
  shows "\<exists>cs. snd (clean_files run rootDir fs err h) = h @ cs \<and>
     map received cs =
       map (\<lambda>f. Some (rc_Args (rm_command f))) (filter (\<lambda>f. ValidateManagedPath rootDir (mf_Path f) = None) fs)"
proof (induction fs arbitrary: err h)
  case (Cons f fs)
  show ?case
  proof (cases "ValidateManagedPath rootDir (mf_Path f)")
    case None
    have "rc_Args (rm_command f) \<noteq> []" by (simp add: rm_command_def)
    then obtain c where c: "snd (run (rm_command f) h) = h @ [c]" "received c = Some (rc_Args (rm_command f))"
      by (rule delivered [OF assms])
    obtain res where run: "run (rm_command f) h = (res, h @ [c])" using c(1) by (cases "run (rm_command f) h") auto
    let ?err = "if rr_ExitCode res \<noteq> 0 then Some (''rm '' @ mf_Path f @ '' failed: '' @ rr_Stderr res) else err"
    from Cons.IH [of ?err "h @ [c]"] obtain cs
      where cs: "snd (clean_files run rootDir fs ?err (h @ [c])) = (h @ [c]) @ cs"
        "map received cs =
           map (\<lambda>f. Some (rc_Args (rm_command f))) (filter (\<lambda>f. ValidateManagedPath rootDir (mf_Path f) = None) fs)"
      by blast
    with None c(2) run show ?thesis by (intro exI [of _ "c # cs"]) simp
  next
    case (Some e)
    with Cons.IH [of "Some e" h] show ?thesis by simp
  qed
qed simp

lemma clean_files_error: "err \<noteq> None \<Longrightarrow> fst (clean_files run rootDir fs err h) \<noteq> None"
  by (induction fs arbitrary: err h) (auto split: option.splits prod.splits)

text \<open>A clean-up without an error has removed every file.\<close>

lemma clean_files_success:
  "fst (clean_files run rootDir fs err h) = None \<Longrightarrow>
   \<forall>f \<in> set fs. ValidateManagedPath rootDir (mf_Path f) = None"
proof (induction fs arbitrary: err h)
  case (Cons f fs)
  show ?case
  proof (cases "ValidateManagedPath rootDir (mf_Path f)")
    case None
    obtain res h' where run: "run (rm_command f) h = (res, h')" by (cases "run (rm_command f) h")
    with Cons.prems None
    have "fst (clean_files run rootDir fs
      (if rr_ExitCode res \<noteq> 0 then Some (''rm '' @ mf_Path f @ '' failed: '' @ rr_Stderr res) else err) h') = None"
      by simp
    from Cons.IH [OF this] None show ?thesis by simp
  next
    case (Some e)
    with Cons.prems clean_files_error [of "Some e" rootDir fs h] show ?thesis by simp
  qed
qed simp

lemma cleanManifest_commands:
  assumes "usable" "ValidateRootDir (sm_RootDir m) (t_Kind (sm_Target m)) = None"
  shows "\<exists>cs. snd (cleanManifest run m h) = h @ cs \<and>
     map received cs =
       map (\<lambda>f. Some (rc_Args (rm_command f)))
         (filter (\<lambda>f. ValidateManagedPath (sm_RootDir m) (mf_Path f) = None) (sm_Files m)) @
       [Some (rc_Args (rmdir_command (sm_RootDir m)))]"
proof -
  obtain err h1 where cf: "clean_files run (sm_RootDir m) (sm_Files m) None h = (err, h1)"
    by (cases "clean_files run (sm_RootDir m) (sm_Files m) None h")
  from clean_files_commands [OF assms(1), of "sm_RootDir m" "sm_Files m" None h] cf obtain cs where
    cs: "h1 = h @ cs" "map received cs = map (\<lambda>f. Some (rc_Args (rm_command f)))
         (filter (\<lambda>f. ValidateManagedPath (sm_RootDir m) (mf_Path f) = None) (sm_Files m))" by auto
  have "rc_Args (rmdir_command (sm_RootDir m)) \<noteq> []" by (simp add: rmdir_command_def)
  then obtain c where c: "snd (run (rmdir_command (sm_RootDir m)) h1) = h1 @ [c]"
      "received c = Some (rc_Args (rmdir_command (sm_RootDir m)))"
    by (rule delivered [OF assms(1)])
  have "snd (cleanManifest run m h) = h @ (cs @ [c])"
    using assms(2) cf c(1) cs(1) by (simp add: cleanManifest_def case_prod_beta)
  with cs(2) c(2) show ?thesis by (intro exI [of _ "cs @ [c]"]) simp
qed

lemma cleanManifest_success:
  assumes "fst (cleanManifest run m h) = None"
  shows "ValidateRootDir (sm_RootDir m) (t_Kind (sm_Target m)) = None \<and>
    (\<forall>f \<in> set (sm_Files m). ValidateManagedPath (sm_RootDir m) (mf_Path f) = None)"
proof -
  have v: "ValidateRootDir (sm_RootDir m) (t_Kind (sm_Target m)) = None"
    using assms by (auto simp: cleanManifest_def split: option.splits)
  with assms have "fst (clean_files run (sm_RootDir m) (sm_Files m) None h) = None"
    by (simp add: cleanManifest_def case_prod_beta)
  from clean_files_success [OF this] v show ?thesis by blast
qed

end

text \<open>
  A machine, and what the program that a local command starts makes of its arguments: the machine it
  goes to and the arguments a program there gets. \<open>ssh\<close> reads its options up to the destination, with the
  port it is given or 22, and the words of the command that follows are those of a shell; \<open>docker exec\<close>
  and \<open>podman exec\<close> name the container first, \<open>kubectl exec\<close> the context, the namespace and the pod,
  and hand the rest on as it is. A name that starts like an option is none.
\<close>

datatype machine =
    Host_at string string
  | Container_at string string
  | Pod_at string string string string

definition is_name :: "string \<Rightarrow> bool" where
  "is_name s \<longleftrightarrow> s \<noteq> [] \<and> hd s \<noteq> CHR ''-''"

fun ssh_reads :: "string \<Rightarrow> string list \<Rightarrow> (machine \<times> string list) option" where
  "ssh_reads port (o1 # v # cmd) =
     (if o1 = ''-p'' then ssh_reads v cmd
      else if o1 = ''-i'' then ssh_reads port cmd
      else if o1 = ''-o''
      then if list_ex (has_prefix v) [''ConnectTimeout='', ''UserKnownHostsFile='', ''StrictHostKeyChecking='']
           then ssh_reads port cmd else None
      else if is_name o1 \<and> v = ''--'' \<and> length cmd = 1
      then map_option (Pair (Host_at o1 port)) (sh_words (hd cmd))
      else None)"
| "ssh_reads port _ = None"

fun container_reads :: "string \<Rightarrow> string list \<Rightarrow> (machine \<times> string list) option" where
  "container_reads runtime (verb # o1 # name # cmd) =
     (if verb = ''exec'' \<and> o1 = ''-i'' \<and> is_name name then Some (Container_at runtime name, cmd) else None)"
| "container_reads runtime _ = None"

fun given_option :: "string \<Rightarrow> string list \<Rightarrow> string \<times> string list" where
  "given_option name (o1 # v # args) = (if o1 = name then (v, args) else ([], o1 # v # args))"
| "given_option name args = ([], args)"

definition kubectl_reads :: "string list \<Rightarrow> (machine \<times> string list) option" where
  "kubectl_reads args =
     (let (ctx, r1) = given_option ''--context'' args; (ns, r2) = given_option ''-n'' r1 in
      if r2 = [] \<or> hd r2 \<noteq> ''exec'' then None
      else let r3 = (if tl r2 \<noteq> [] \<and> hd (tl r2) = ''-i'' then tl (tl r2) else tl r2) in
        if r3 = [] \<or> \<not> is_name (hd r3) then None
        else let (ct, r4) = given_option ''-c'' (tl r3) in
          if r4 = [] \<or> hd r4 \<noteq> ''--'' then None
          else Some (Pod_at ctx ns (hd r3) ct, tl r4))"

definition reads :: "local_cmd \<Rightarrow> (machine \<times> string list) option" where
  "reads c =
     (if lc_Name c = ''ssh'' then ssh_reads ''22'' (lc_Args c)
      else if lc_Name c = ''kubectl'' then kubectl_reads (lc_Args c)
      else if lc_Name c = ''docker'' \<or> lc_Name c = ''podman'' then container_reads (lc_Name c) (lc_Args c)
      else None)"

text \<open>The machine of a target, and the one a transport is for.\<close>

definition on_target :: "target \<Rightarrow> machine \<Rightarrow> bool" where
  "on_target t mc \<longleftrightarrow>
     (case t_Kind t of
        KindSSH \<Rightarrow> mc = Host_at ((if t_User t \<noteq> [] then t_User t @ ''@'' else []) @ t_Host t) (itoa (t_Port t))
      | KindContainer \<Rightarrow> \<exists>r \<in> {''docker'', ''podman''}. (t_Runtime t = ''auto'' \<or> t_Runtime t = r) \<and>
          mc = Container_at r (t_Container t)
      | KindK8s \<Rightarrow> mc = Pod_at (t_Context t) (t_Namespace t) (t_Pod t) (t_ContainerName t)
      | KindOther _ \<Rightarrow> False)"

fun transport_machine :: "transport \<Rightarrow> machine" where
  "transport_machine (SSHTransport t opts) = Host_at (ssh_host t) (itoa (t_Port t))"
| "transport_machine (ContainerTransport t runtime) = Container_at runtime (t_Container t)"
| "transport_machine (K8sTransport t container) = Pod_at (t_Context t) (t_Namespace t) (t_Pod t) container"

text \<open>A transport for a validated target.\<close>

fun transport_safe :: "transport \<Rightarrow> bool" where
  "transport_safe (SSHTransport t opts) \<longleftrightarrow> t_Kind t = KindSSH \<and> target_safe t"
| "transport_safe (ContainerTransport t runtime) \<longleftrightarrow>
     t_Kind t = KindContainer \<and> target_safe t \<and> runtime \<in> {''docker'', ''podman''}"
| "transport_safe (K8sTransport t container) \<longleftrightarrow> t_Kind t = KindK8s \<and> target_safe t"

definition received_by :: "transport \<Rightarrow> local_cmd \<Rightarrow> string list option" where
  "received_by tr c =
     (case reads c of None \<Rightarrow> None | Some (mc, args) \<Rightarrow> if mc = transport_machine tr then Some args else None)"

lemma received_by_reads: "received_by tr c = Some args \<longleftrightarrow> reads c = Some (transport_machine tr, args)"
  by (auto simp: received_by_def split: option.split)

lemma safe_is_name: "safe_identifier s \<Longrightarrow> is_name s"
  by (simp add: safe_identifier_def is_name_def)

lemma ssh_reads_pair:
  assumes "o1 = ''-p'' \<or> o1 = ''-i'' \<or> o1 = ''-o'' \<and>
    list_ex (has_prefix v) [''ConnectTimeout='', ''UserKnownHostsFile='', ''StrictHostKeyChecking='']"
  shows "ssh_reads port (o1 # v # r) = ssh_reads (if o1 = ''-p'' then v else port) r"
  using assms by auto

lemma ssh_reads_options: "ssh_reads port (Options_Args opts @ r) = ssh_reads port r"
  by (simp add: Options_Args_def)

lemma ssh_reads_ssh:
  assumes "safe_identifier (t_Host t)" "t_User t = [] \<or> safe_identifier (t_User t)" "1 \<le> t_Port t"
  shows "ssh_reads ''22'' (sshArgs t opts False @ [''--'', cmd]) =
    map_option (Pair (Host_at (ssh_host t) (itoa (t_Port t)))) (sh_words cmd)"
proof -
  have n: "is_name (ssh_host t)" using assms(1,2) by (auto simp: ssh_host_def is_name_def safe_identifier_def)
  then have ne: "ssh_host t \<noteq> ''-p''" "ssh_host t \<noteq> ''-i''" "ssh_host t \<noteq> ''-o''" by (auto simp: is_name_def)
  have "itoa 22 = ''22''" by code_simp
  with n ne assms(3) show ?thesis by (simp add: sshArgs_def ssh_reads_options port_args_def)
qed

lemma kubectl_reads_exec:
  assumes "safe_identifier (t_Pod t)"
  shows "kubectl_reads (kubectlExecArgs t container False stdin args) =
    Some (Pod_at (t_Context t) (t_Namespace t) (t_Pod t) container, args)"
proof -
  have n: "is_name (t_Pod t)" "t_Pod t \<noteq> ''-i''" using assms by (auto simp: safe_identifier_def is_name_def)
  have c: "given_option ''-c'' ((if container \<noteq> [] then [''-c'', container] else []) @ [''--''] @ args) = (container, ''--'' # args)"
    by (cases args) auto
  have x: "given_option ''--context'' ((if t_Context t \<noteq> [] then [''--context'', t_Context t] else []) @ ''-n'' # r) =
      (t_Context t, ''-n'' # r)" for r
    by (cases r) auto
  show ?thesis
    using n c x by (simp add: kubectlExecArgs_def kubectl_reads_def)
qed

lemma transport_delivers:
  assumes "transport_safe tr" "rc_Args cmd \<noteq> []"
  shows "\<exists>c. snd (transport_Run w tr cmd h) = h @ [c] \<and> received_by tr c = Some (rc_Args cmd)"
proof (cases tr)
  case (SSHTransport t opts)
  with assms(1) have s: "safe_identifier (t_Host t)" "t_User t = [] \<or> safe_identifier (t_User t)" "1 \<le> t_Port t"
    by (auto simp: target_safe_def)
  have "sh_words (shellCommand (rc_Args cmd)) = Some (rc_Args cmd)" by (rule shellCommand_words)
  with ssh_reads_ssh [OF s] assms(2) SSHTransport show ?thesis
    by (simp add: received_by_reads reads_def ssh_Run_def run_local_def Let_def)
next
  case (ContainerTransport t runtime)
  with assms(1) have "is_name (t_Container t)" "runtime = ''docker'' \<or> runtime = ''podman''"
    by (auto simp: target_safe_def intro: safe_is_name)
  with ContainerTransport show ?thesis
    by (auto simp: received_by_reads reads_def container_Run_def run_local_def Let_def)
next
  case (K8sTransport t container)
  with assms(1) have "safe_identifier (t_Pod t)" by (auto simp: target_safe_def)
  with K8sTransport show ?thesis
    by (simp add: received_by_reads reads_def k8s_Run_def run_local_def Let_def kubectl_reads_exec)
qed

interpretation tr: delivering_transport "transport_Run w tr" "received_by tr" "transport_safe tr" for w tr
  by unfold_locales (rule transport_delivers)

lemma new_transport_safe:
  assumes "target_safe t" "new_transport env t opts h = (Inr tr, h')"
  shows "transport_safe tr" "on_target t (transport_machine tr)"
proof -
  have "transport_safe tr \<and> on_target t (transport_machine tr)"
  proof (cases "t_Kind t")
    case KindContainer
    obtain r h1 where n: "container_NewTransport (re_world env) t h = (r, h1)" by (cases "container_NewTransport (re_world env) t h")
    with assms(2) KindContainer obtain runtime where r: "r = Inr runtime" "tr = ContainerTransport t runtime"
      by (auto simp: new_transport_def split: sum.splits)
    have "t_Runtime t \<in> {''auto'', ''docker'', ''podman''}" using assms(1) KindContainer by (simp add: target_safe_def)
    with n r have "runtime \<in> {''docker'', ''podman''} \<and> (t_Runtime t = ''auto'' \<or> t_Runtime t = runtime)"
      by (auto simp: container_NewTransport_def detectRuntime_def Let_def split: if_splits prod.splits)
    with r KindContainer assms(1) show ?thesis by (auto simp: on_target_def)
  qed (use assms in \<open>auto simp: new_transport_def on_target_def ssh_host_def k8s_NewTransport_def target_safe_def\<close>)
  then show "transport_safe tr" "on_target t (transport_machine tr)" by blast+
qed

section \<open>The sessions the program makes\<close>

definition path_char :: "char \<Rightarrow> bool" where
  "path_char c \<longleftrightarrow> ascii_alnum c \<or> c \<in> set ''._~/-''"

lemma path_char_range: "path_char c \<Longrightarrow> 45 \<le> (of_char c :: nat) \<and> of_char c \<le> (126 :: nat)"
  by (auto simp: path_char_def ascii_alnum_def ascii_alpha_def Let_def digits_def)

lemma path_char_no_space: "path_char c \<Longrightarrow> no_space_byte c"
proof -
  assume "path_char c"
  note r = path_char_range [OF this]
  have "list_all (\<lambda>d. 128 \<le> (of_char d :: nat)) (concat multi_spaces)" by code_simp
  then have "c \<in> set (concat multi_spaces) \<Longrightarrow> 128 \<le> (of_char c :: nat)" unfolding list_all_iff by (rule bspec)
  with r have "c \<notin> set (concat multi_spaces)" by linarith
  moreover have "\<not> ascii_space c" using r by (auto simp: ascii_space_def)
  ultimately show ?thesis by (simp add: no_space_byte_def)
qed

text \<open>Paths given by their elements.\<close>

definition path_of :: "bool \<Rightarrow> string list \<Rightarrow> string" where
  "path_of rooted es = (if rooted then ''/'' else []) @ join ''/'' es"

definition good_elem :: "string \<Rightarrow> bool" where
  "good_elem e \<longleftrightarrow> down_elem e \<and> list_all path_char e"

lemma split_path_of:
  assumes "\<forall>e \<in> set es. good_elem e" "es \<noteq> []"
  shows "split_at ''/'' (path_of rooted es) = (if rooted then [[]] else []) @ es"
proof -
  have "split_at ''/'' (join ''/'' es) = es"
    using assms by (intro split_at_join) (auto simp: good_elem_def down_elem_def path_elem_def)
  then show ?thesis using split_at_append [of "CHR ''/''" "[]" "join ''/'' es"] by (simp add: path_of_def)
qed

lemma path_of_facts:
  assumes "\<forall>e \<in> set es. good_elem e" "es \<noteq> []"
  shows "path_elems (path_of rooted es) = es" "IsAbs (path_of rooted es) = rooted"
    "Clean (path_of rooted es) = path_of rooted es" "path_of rooted es \<noteq> []"
proof -
  have d: "\<forall>e \<in> set es. path_elem e" "''..'' \<notin> set es" using assms(1) by (auto simp: good_elem_def down_elem_def)
  have "filter (\<lambda>e. e \<noteq> [] \<and> e \<noteq> ''.'') es = es" using d by (auto simp: path_elem_def filter_id_conv)
  then show e: "path_elems (path_of rooted es) = es"
    unfolding path_elems_def split_path_of [OF assms] by simp
  have "\<not> IsAbs (join ''/'' es)" by (rule IsAbs_join [OF d(1)])
  then show a: "IsAbs (path_of rooted es) = rooted" by (auto simp: path_of_def) (simp add: IsAbs_def)
  have "''..'' \<notin> set (path_elems (path_of rooted es))" "path_elems (path_of rooted es) \<noteq> []"
    using d(2) assms(2) by (simp_all add: e)
  from Clean_down(1) [OF this] show "Clean (path_of rooted es) = path_of rooted es"
    by (simp add: e a) (simp add: path_of_def)
  show "path_of rooted es \<noteq> []" using e assms(2) by (metis path_elems_Nil)
qed

lemma set_join_subset: "set (join sep es) \<subseteq> set sep \<union> (\<Union>e \<in> set es. set e)"
  by (induction sep es rule: join.induct) auto

lemma path_of_safe:
  assumes "\<forall>e \<in> set es. good_elem e" "es \<noteq> []"
  shows "isSafeRemotePath (path_of rooted es)" "\<not> hasPathTraversal (path_of rooted es)"
    "trim_space (path_of rooted es) = path_of rooted es"
proof -
  have "path_char CHR ''/''" by (simp add: path_char_def)
  then have c: "\<forall>c \<in> set (path_of rooted es). path_char c"
    using assms(1) set_join_subset [of "''/''" es] by (fastforce simp: path_of_def good_elem_def list_all_iff)
  then show "isSafeRemotePath (path_of rooted es)" by (auto simp: isSafeRemotePath_def list_all_iff path_char_def)
  show "trim_space (path_of rooted es) = path_of rooted es"
    using c by (intro trim_space_no_space) (auto dest: path_char_no_space)
  have "\<not> path_char (CHR 0x5C)" by (simp add: path_char_def ascii_alnum_def ascii_alpha_def digits_def)
  then have "replace_all (path_of rooted es) [CHR 0x5C] ''/'' = path_of rooted es"
    using c by (intro replace_all_absent) (auto simp: sublist_single)
  then show "\<not> hasPathTraversal (path_of rooted es)"
    using assms(1) split_path_of [OF assms]
    by (auto simp: hasPathTraversal_def list_ex_iff good_elem_def down_elem_def)
qed

lemma path_of_append: "es \<noteq> [] \<Longrightarrow> fs \<noteq> [] \<Longrightarrow> path_of rooted (es @ fs) = path_of rooted es @ ''/'' @ path_of False fs"
  by (simp add: path_of_def join_append)

lemma Join2_path_of:
  assumes "\<forall>e \<in> set (es @ fs). good_elem e" "es \<noteq> []" "fs \<noteq> []"
  shows "Join2 (path_of rooted es) (path_of False fs) = path_of rooted (es @ fs)"
proof -
  have "path_of rooted es \<noteq> []" "path_of False fs \<noteq> []" using assms by (simp_all add: path_of_facts)
  moreover have "Clean (path_of rooted (es @ fs)) = path_of rooted (es @ fs)" using assms by (simp add: path_of_facts)
  ultimately show ?thesis using path_of_append [OF assms(2,3), of rooted] by (simp add: Join2_def)
qed

text \<open>A session identifier is one element of a path.\<close>

lemma session_id_chars:
  assumes "session_id_matches s" "c \<in> set s"
  shows "ascii_alnum c \<or> c = CHR ''_'' \<or> c = CHR ''-''"
proof -
  have len: "23 \<le> length s" using assms(1) by (simp add: session_id_matches_def Let_def)
  have d: "ascii_alnum x" if "x \<in> set digits" for x using that by (simp add: ascii_alnum_def)
  have "ascii_alnum (CHR ''T'')" "ascii_alnum (CHR ''Z'')" by (simp_all add: ascii_alnum_def ascii_alpha_def)
  obtain i where i: "i < length s" "c = s ! i" using assms(2) by (auto simp: in_set_conv_nth)
  consider "i < 8" | "i = 8" | "8 < i \<and> i < 15" | "i = 15" | "i = 16" | "i = 17" | "17 < i" by linarith
  then show ?thesis
  proof cases
    case 1
    then have "c \<in> set (take 8 s)" using i len by (auto simp: in_set_conv_nth intro!: exI [of _ i])
    with assms(1) d show ?thesis by (auto simp: session_id_matches_def Let_def list_all_iff)
  next
    case 3
    then have "c \<in> set (take 6 (drop 9 s))" using i len by (auto simp: in_set_conv_nth intro!: exI [of _ "i - 9"])
    with assms(1) d show ?thesis by (auto simp: session_id_matches_def Let_def list_all_iff)
  next
    case 6
    then have "hd (drop 17 s) = c" using i len by (simp add: hd_drop_conv_nth)
    with assms(1) show ?thesis by (simp add: session_id_matches_def Let_def)
  next
    case 7
    then have "c \<in> set (tl (drop 17 s))" using i len
      by (auto simp: in_set_conv_nth nth_tl intro!: exI [of _ "i - 18"])
    with assms(1) show ?thesis by (auto simp: session_id_matches_def Let_def list_all_iff)
  qed (use assms(1) i \<open>ascii_alnum (CHR ''T'')\<close> \<open>ascii_alnum (CHR ''Z'')\<close> in \<open>simp_all add: session_id_matches_def Let_def\<close>)
qed

lemma session_id_elem:
  assumes "session_id_matches s"
  shows "good_elem s"
proof -
  have "CHR ''/'' \<notin> set s" using session_id_chars [OF assms, of "CHR ''/''"]
    by (auto simp: ascii_alnum_def ascii_alpha_def digits_def)
  moreover have "23 \<le> length s" using assms by (simp add: session_id_matches_def Let_def)
  then have "s \<noteq> []" "s \<noteq> ''.''" "s \<noteq> ''..''" by auto
  moreover have "list_all path_char s"
    using session_id_chars [OF assms] by (auto simp: list_all_iff path_char_def)
  ultimately show ?thesis by (simp add: good_elem_def down_elem_def path_elem_def)
qed

definition base_elems :: "target_kind \<Rightarrow> string list" where
  "base_elems kind = (case kind of KindSSH \<Rightarrow> [''~'', ''.devdiag'', ''remote''] | _ \<Rightarrow> [''tmp'', ''devdiag-remote''])"

lemma good_base: "\<forall>e \<in> set (base_elems kind). good_elem e"
proof -
  have "list_all good_elem [''~'', ''.devdiag'', ''remote'', ''tmp'', ''devdiag-remote'']" by code_simp
  then show ?thesis by (auto simp: base_elems_def split: target_kind.split)
qed

lemma remoteRootDir_path:
  assumes "session_id_matches s" "target_safe t"
  shows "remoteRootDir t s = path_of (t_Kind t \<noteq> KindSSH) (base_elems (t_Kind t) @ [s])"
proof -
  note g = session_id_elem [OF assms(1)]
  have "path_of False [s] = s" by (simp add: path_of_def)
  with Join2_path_of [of "base_elems (t_Kind t)" "[s]" "t_Kind t \<noteq> KindSSH"] good_base [of "t_Kind t"] g
  have "Join2 (path_of (t_Kind t \<noteq> KindSSH) (base_elems (t_Kind t))) s =
      path_of (t_Kind t \<noteq> KindSSH) (base_elems (t_Kind t) @ [s])"
    by (simp add: base_elems_def split: target_kind.split)
  moreover have "path_of False [''~'', ''.devdiag'', ''remote''] = ''~/.devdiag/remote''"
    "path_of True [''tmp'', ''devdiag-remote''] = ''/tmp/devdiag-remote''" by (simp_all add: path_of_def)
  ultimately show ?thesis using assms(2)
    by (cases "t_Kind t") (auto simp: remoteRootDir_def SSHRootDir_def ContainerRootDir_def K8sRootDir_def base_elems_def
        target_safe_def)
qed

text \<open>The files of the profile.\<close>

definition profile_elems :: "string list list" where
  "profile_elems = [[''env.sh''], [''aliases.sh''], [''bin'', ''dd-path''], [''bin'', ''dd-ports''], [''bin'', ''dd-proc''],
     [''bin'', ''dd-clean''], [''tmux.conf'']]"

lemma Minimal_paths: "map pf_TargetPath (rp_Files (SubstituteSessionID Minimal s)) = map (path_of False) profile_elems"
  by (simp add: SubstituteSessionID_def Minimal_def Minimal_files_def profile_elems_def path_of_def)

lemma good_profile: "\<forall>fs \<in> set profile_elems. fs \<noteq> [] \<and> (\<forall>e \<in> set fs. good_elem e)"
proof -
  have "list_all (\<lambda>fs. fs \<noteq> [] \<and> list_all good_elem fs) profile_elems" by code_simp
  then show ?thesis by (auto simp: list_all_iff)
qed

lemma managed_path_ok:
  assumes "\<forall>e \<in> set (es @ fs). good_elem e" "es \<noteq> []" "fs \<noteq> []"
  shows "ValidateManagedPath (path_of rooted es) (path_of rooted (es @ fs)) = None"
proof -
  have p: "es @ fs \<noteq> []" using assms by simp
  note a = path_of_safe [OF assms(1) p, of rooted] path_of_facts [OF assms(1) p, of rooted]
  have g: "\<forall>e \<in> set es. good_elem e" using assms(1) by simp
  note b = path_of_safe [OF g assms(2), of rooted] path_of_facts [OF g assms(2), of rooted]
  have "path_of rooted (es @ fs) \<noteq> path_of rooted es" using a(4) b(4) assms(3) by (metis append_self_conv)
  moreover have "has_prefix (path_of rooted (es @ fs)) (path_of rooted es @ ''/'')"
    by (simp add: path_of_append [OF assms(2,3)])
  ultimately show ?thesis using a b by (simp add: ValidateManagedPath_def Let_def)
qed

lemma root_ok:
  assumes "session_id_matches s" "target_safe t"
  shows "ValidateRootDir (remoteRootDir t s) (t_Kind t) = None"
proof -
  let ?es = "base_elems (t_Kind t) @ [s]" and ?abs = "t_Kind t \<noteq> KindSSH"
  have g: "\<forall>e \<in> set ?es. good_elem e" using good_base session_id_elem [OF assms(1)] by auto
  have ne: "?es \<noteq> []" by simp
  note r = remoteRootDir_path [OF assms]
  note p = path_of_safe [OF g ne, of ?abs] path_of_facts [OF g ne, of ?abs]
  have len: "3 \<le> length ?es" by (simp add: base_elems_def split: target_kind.split)
  have "path_elems ''/'' = []" "path_elems ''/home'' = [''home'']" "path_elems ''/tmp'' = [''tmp'']" by code_simp+
  then have "length (path_elems x) < 3" if "x \<in> {''/'', ''/home'', ''/tmp''}" for x using that by auto
  from this [of "path_of ?abs ?es"] p(4) len
  have "path_of ?abs ?es \<noteq> ''/''" "path_of ?abs ?es \<noteq> ''/home''" "path_of ?abs ?es \<noteq> ''/tmp''" by auto
  moreover have "t_Kind t = KindSSH \<Longrightarrow> has_prefix (path_of ?abs ?es) ''~/.devdiag/remote/''"
    "t_Kind t \<noteq> KindSSH \<Longrightarrow> has_prefix (path_of ?abs ?es) ''/tmp/devdiag-remote/''"
    using assms(2) by (simp_all add: path_of_def base_elems_def join_append join_Cons split: target_kind.split)
  ultimately show ?thesis using p r assms(2)
    by (cases "t_Kind t") (simp_all add: ValidateRootDir_def Let_def target_safe_def)
qed

lemma session_manifest_cleanable:
  assumes "session_id_matches (re_session env)" "target_safe t" "p = SubstituteSessionID Minimal (re_session env)"
  shows "ValidateRootDir (sm_RootDir (session_manifest_of env fl t p)) (t_Kind t) = None \<and>
    (\<forall>f \<in> set (sm_Files (session_manifest_of env fl t p)).
       ValidateManagedPath (sm_RootDir (session_manifest_of env fl t p)) (mf_Path f) = None)"
proof -
  let ?es = "base_elems (t_Kind t) @ [re_session env]" and ?abs = "t_Kind t \<noteq> KindSSH"
  have g: "\<forall>e \<in> set ?es. good_elem e" using good_base session_id_elem [OF assms(1)] by auto
  note r = remoteRootDir_path [OF assms(1,2)]
  have "ValidateManagedPath (path_of ?abs ?es) (Join2 (path_of ?abs ?es) q) = None"
    if "q \<in> set (map pf_TargetPath (rp_Files p))" for q
  proof -
    from that obtain fs where fs: "fs \<in> set profile_elems" "q = path_of False fs"
      unfolding assms(3) Minimal_paths by auto
    with good_profile have f: "fs \<noteq> []" "\<forall>e \<in> set fs. good_elem e" by auto
    with g have ge: "\<forall>e \<in> set (?es @ fs). good_elem e" by auto
    show ?thesis unfolding fs(2) using Join2_path_of [OF ge _ f(1), of ?abs] managed_path_ok [OF ge _ f(1), of ?abs]
      by simp
  qed
  with root_ok [OF assms(1,2)] r show ?thesis
    by (auto simp: session_manifest_of_def managed_files_def)
qed

section \<open>Cleaning up removes what is below the root of a session\<close>

text \<open>
  The arguments that a clean-up may make another machine run, for the kind of target and a root: the
  removal of one path strictly below the root, or of the empty directories there. The root and the path
  are taken as they are given to the command.
\<close>

definition removes_below :: "target_kind \<Rightarrow> string \<Rightarrow> string list \<Rightarrow> bool" where
  "removes_below kind rt args \<longleftrightarrow>
     session_place kind (path_elems rt) \<and> ''..'' \<notin> set (path_elems rt) \<and>
     ((\<exists>p rest. args = [''rm'', ''-f'', p] \<and> rest \<noteq> [] \<and> path_elems p = path_elems rt @ rest \<and>
         ''..'' \<notin> set (path_elems p) \<and> IsAbs p = IsAbs rt) \<or>
      args = rc_Args (rmdir_command rt))"

text \<open>
  What the manifest of a session asks to remove, and whether its root and paths are free of blanks around
  them: the validation looks at the trimmed paths, the commands get the recorded ones.
\<close>

definition removal_of :: "session_manifest \<Rightarrow> string list \<Rightarrow> bool" where
  "removal_of m args \<longleftrightarrow>
     (\<exists>f \<in> set (sm_Files m). ValidateManagedPath (sm_RootDir m) (mf_Path f) = None \<and> args = [''rm'', ''-f'', mf_Path f]) \<or>
     args = rc_Args (rmdir_command (sm_RootDir m))"

definition unpadded :: "session_manifest \<Rightarrow> bool" where
  "unpadded m \<longleftrightarrow> trim_space (sm_RootDir m) = sm_RootDir m \<and> (\<forall>f \<in> set (sm_Files m). trim_space (mf_Path f) = mf_Path f)"

lemma removal_below:
  assumes "ValidateRootDir (sm_RootDir m) kind = None" "unpadded m" "removal_of m args"
  shows "removes_below kind (sm_RootDir m) args"
proof -
  have u: "trim_space (sm_RootDir m) = sm_RootDir m" "\<And>f. f \<in> set (sm_Files m) \<Longrightarrow> trim_space (mf_Path f) = mf_Path f"
    using assms(2) by (auto simp: unpadded_def)
  have place: "session_place kind (path_elems (sm_RootDir m))" "''..'' \<notin> set (path_elems (sm_RootDir m))"
    "root_elems (sm_RootDir m) = path_elems (sm_RootDir m)"
    using ValidateRootDir_place [OF assms(1)] by (auto simp: u(1))
  from assms(3) consider f where "f \<in> set (sm_Files m)" "ValidateManagedPath (sm_RootDir m) (mf_Path f) = None"
      "args = [''rm'', ''-f'', mf_Path f]" | "args = rc_Args (rmdir_command (sm_RootDir m))"
    by (auto simp: removal_of_def)
  then show ?thesis
  proof cases
    case 1
    from ValidateManagedPath_below [OF assms(1) 1(2)] obtain rest where
      "rest \<noteq> []" "path_elems (mf_Path f) = path_elems (sm_RootDir m) @ rest" "''..'' \<notin> set (path_elems (mf_Path f))"
      "IsAbs (mf_Path f) = IsAbs (sm_RootDir m)" by (auto simp: u(1) u(2) [OF 1(1)] place(3))
    then have "\<exists>p rest. args = [''rm'', ''-f'', p] \<and> rest \<noteq> [] \<and> path_elems p = path_elems (sm_RootDir m) @ rest \<and>
         ''..'' \<notin> set (path_elems p) \<and> IsAbs p = IsAbs (sm_RootDir m)" using 1(3) by blast
    with place(1,2) show ?thesis unfolding removes_below_def by blast
  next
    case 2
    with place(1,2) show ?thesis unfolding removes_below_def by blast
  qed
qed

text \<open>The manifests the program writes are.\<close>

lemma session_manifest_unpadded:
  assumes "session_id_matches (re_session env)" "target_safe t"
  shows "unpadded (session_manifest_of env fl t (SubstituteSessionID Minimal (re_session env)))"
proof -
  let ?es = "base_elems (t_Kind t) @ [re_session env]" and ?abs = "t_Kind t \<noteq> KindSSH"
  have g: "\<forall>e \<in> set ?es. good_elem e" using good_base session_id_elem [OF assms(1)] by auto
  note r = remoteRootDir_path [OF assms]
  have "trim_space (Join2 (path_of ?abs ?es) q) = Join2 (path_of ?abs ?es) q"
    if "q \<in> set (map pf_TargetPath (rp_Files (SubstituteSessionID Minimal (re_session env))))" for q
  proof -
    from that obtain fs where fs: "fs \<in> set profile_elems" "q = path_of False fs"
      unfolding Minimal_paths by auto
    with good_profile have f: "fs \<noteq> []" "\<forall>e \<in> set fs. good_elem e" by auto
    with g have ge: "\<forall>e \<in> set (?es @ fs). good_elem e" by auto
    show ?thesis unfolding fs(2) using Join2_path_of [OF ge _ f(1), of ?abs] path_of_safe(3) [OF ge, of ?abs] by simp
  qed
  moreover have "trim_space (path_of ?abs ?es) = path_of ?abs ?es" using path_of_safe(3) [OF g] by simp
  ultimately show ?thesis by (auto simp: unpadded_def session_manifest_of_def managed_files_def r)
qed

definition asks :: "transport \<Rightarrow> session_manifest \<Rightarrow> local_cmd \<Rightarrow> bool" where
  "asks tr m c \<longleftrightarrow> ValidateRootDir (sm_RootDir m) (t_Kind (sm_Target m)) = None \<and>
     (\<exists>args. received_by tr c = Some args \<and> removal_of m args)"

lemma cleanManifest_removes:
  assumes "transport_safe tr"
  shows "\<exists>cs. snd (cleanManifest (transport_Run w tr) m h) = h @ cs \<and> (\<forall>c \<in> set cs. asks tr m c)"
proof (cases "ValidateRootDir (sm_RootDir m) (t_Kind (sm_Target m))")
  case None
  let ?ok = "\<lambda>f. ValidateManagedPath (sm_RootDir m) (mf_Path f) = None"
  from tr.cleanManifest_commands [OF assms None, of w h] obtain cs
    where cs: "snd (cleanManifest (transport_Run w tr) m h) = h @ cs"
      "map (received_by tr) cs = map (\<lambda>f. Some (rc_Args (rm_command f))) (filter ?ok (sm_Files m)) @
        [Some (rc_Args (rmdir_command (sm_RootDir m)))]" by blast
  have "\<forall>a \<in> set (map (received_by tr) cs). \<exists>args. a = Some args \<and> removal_of m args"
    unfolding cs(2) by (auto simp: removal_of_def rm_command_def)
  with cs(1) None show ?thesis by (auto simp: asks_def)
qed (simp add: cleanManifest_def)

lemma clean_step_history:
  "cs_history (clean_step env tr m s) = snd (cleanManifest (transport_Run (re_world env) tr) m (cs_history s))"
  by (simp add: clean_step_def split: prod.split option.split)

lemma clean_fold_removes:
  assumes "transport_safe tr"
  shows "\<exists>cs. cs_history (fold (clean_step env tr) ms s) = cs_history s @ cs \<and>
     (\<forall>c \<in> set cs. \<exists>m \<in> set ms. asks tr m c)"
proof (induction ms arbitrary: s)
  case (Cons m ms)
  from cleanManifest_removes [OF assms, of "re_world env" m "cs_history s"] obtain cs1
    where 1: "cs_history (clean_step env tr m s) = cs_history s @ cs1" "\<forall>c \<in> set cs1. asks tr m c"
    unfolding clean_step_history by blast
  from Cons.IH [of "clean_step env tr m s"] obtain cs2
    where 2: "cs_history (fold (clean_step env tr) ms (clean_step env tr m s)) =
        cs_history (clean_step env tr m s) @ cs2"
      "\<forall>c \<in> set cs2. \<exists>m \<in> set ms. asks tr m c" by blast
  show ?case using 1 2 by (intro exI [of _ "cs1 @ cs2"]) auto
qed simp

text \<open>The commands that find the runtime of a container.\<close>

definition detects :: "target \<Rightarrow> local_cmd \<Rightarrow> bool" where
  "detects t c \<longleftrightarrow> (lc_Name c = ''docker'' \<or> lc_Name c = ''podman'') \<and>
     lc_Args c = [''inspect'', ''--format'', ''{{.Id}}'', t_Container t]"

lemma new_transport_detects:
  "\<exists>ds. snd (new_transport env t opts h) = h @ ds \<and> (\<forall>c \<in> set ds. detects t c)"
  by (auto simp: new_transport_def container_NewTransport_def detectRuntime_def hasContainer_def run_plain_def
      run_local_def detects_def Let_def split: target_kind.split)

lemma choose_same:
  "choose_sessions env fl t = Clean_these ms \<Longrightarrow> m \<in> set ms \<Longrightarrow> SameTarget (sm_Target m) t"
  by (auto simp: choose_sessions_def split: if_splits option.splits list.splits dest: filter_eq_ConsD)

lemma SameTarget_kind: "SameTarget a b \<Longrightarrow> t_Kind a = t_Kind b"
  by (simp add: SameTarget_def split: if_splits)

lemma parse_remote_target_safe: "parse_remote env fl arg = Some t \<Longrightarrow> target_safe t"
  by (auto simp: parse_remote_def applyRemoteK8sOptions_def target_safe_def split: sum.splits target_kind.splits if_splits
      dest!: Target_Parse_facts)

lemma clean_contained:
  assumes "c \<in> set (ou_History (runRemoteClean env fl arg))"
  shows "\<exists>t. parse_remote env fl arg = Some t \<and> \<not> fr_DryRun fl \<and>
    (detects t c \<or>
     (\<exists>ms m mc args. choose_sessions env fl t = Clean_these ms \<and> m \<in> set ms \<and> SameTarget (sm_Target m) t \<and>
        on_target t mc \<and> reads c = Some (mc, args) \<and> removal_of m args \<and>
        (unpadded m \<longrightarrow> removes_below (t_Kind t) (sm_RootDir m) args)))"
proof -
  from assms obtain t opts ms where t: "parse_remote env fl arg = Some t" and opts: "buildRemoteSSHOptions fl = Some opts"
    and ms: "choose_sessions env fl t = Clean_these ms" and dry: "\<not> fr_DryRun fl"
    and flags: "\<not> (fr_All fl \<and> fr_Session fl \<noteq> [])"
    by (auto simp: runRemoteClean_def fails_def ends_def Let_def split: option.splits if_splits clean_choice.splits)
  obtain r h where nt: "new_transport env t opts [] = (r, h)" by (cases "new_transport env t opts []")
  from new_transport_detects [of env t opts "[]"] nt have h: "\<forall>c \<in> set h. detects t c" by auto
  show ?thesis
  proof (cases r)
    case (Inl e)
    with assms t opts ms dry flags nt have "c \<in> set h" by (auto simp: runRemoteClean_def fails_def Let_def)
    with h t dry show ?thesis by blast
  next
    case (Inr tr)
    note safe = new_transport_safe [OF parse_remote_target_safe [OF t], of env opts "[]" tr h, unfolded nt Inr, OF refl]
    from Inr assms t opts ms dry flags nt have "c \<in> set (cs_history (clean_sessions env tr ms h))"
      by (auto simp: runRemoteClean_def ends_def Let_def)
    moreover have "\<exists>cs. cs_history (clean_sessions env tr ms h) = h @ cs \<and> (\<forall>c \<in> set cs. \<exists>m \<in> set ms. asks tr m c)"
      using clean_fold_removes [OF safe(1), of env ms "\<lparr>cs_success = 0, cs_fail = 0, cs_unsafe = 0, cs_error = [],
        cs_cache = re_cache env, cs_history = h\<rparr>"] by (simp add: clean_sessions_def)
    then obtain cs where cs: "cs_history (clean_sessions env tr ms h) = h @ cs" "\<forall>c \<in> set cs. \<exists>m \<in> set ms. asks tr m c"
      by blast
    ultimately consider "c \<in> set h" | "c \<in> set cs" by auto
    then show ?thesis
    proof cases
      case 1
      with h t dry show ?thesis by blast
    next
      case 2
      with cs(2) obtain m args where m: "m \<in> set ms" "ValidateRootDir (sm_RootDir m) (t_Kind (sm_Target m)) = None"
        "received_by tr c = Some args" "removal_of m args" by (auto simp: asks_def)
      note same = choose_same [OF ms m(1)]
      have "unpadded m \<longrightarrow> removes_below (t_Kind t) (sm_RootDir m) args"
        using removal_below [OF m(2) _ m(4)] by (simp add: SameTarget_kind [OF same])
      moreover have "reads c = Some (transport_machine tr, args)" using m(3) by (simp add: received_by_reads)
      ultimately show ?thesis using t dry ms m(1,4) same safe(2) by blast
    qed
  qed
qed

lemma clean_complete:
  assumes "transport_safe tr" "fst (cleanManifest (transport_Run w tr) m h) = None"
  shows "\<exists>cs. snd (cleanManifest (transport_Run w tr) m h) = h @ cs \<and>
     map reads cs = map (\<lambda>f. Some (transport_machine tr, [''rm'', ''-f'', mf_Path f])) (sm_Files m) @
       [Some (transport_machine tr, rc_Args (rmdir_command (sm_RootDir m)))]"
proof -
  from tr.cleanManifest_success [OF assms(2)]
  have v: "ValidateRootDir (sm_RootDir m) (t_Kind (sm_Target m)) = None"
    and all: "filter (\<lambda>f. ValidateManagedPath (sm_RootDir m) (mf_Path f) = None) (sm_Files m) = sm_Files m"
    by (auto simp: filter_id_conv)
  from tr.cleanManifest_commands [OF assms(1) v, of w h] all obtain cs
    where cs: "snd (cleanManifest (transport_Run w tr) m h) = h @ cs"
      "map (received_by tr) cs = map Some (map (\<lambda>f. [''rm'', ''-f'', mf_Path f]) (sm_Files m) @
        [rc_Args (rmdir_command (sm_RootDir m))])" by (auto simp: rm_command_def comp_def)
  have "map (received_by tr) cs = map Some xs \<Longrightarrow> map reads cs = map (\<lambda>a. Some (transport_machine tr, a)) xs" for cs xs
    by (induction cs arbitrary: xs) (auto simp: received_by_reads Cons_eq_map_conv)
  from this [OF cs(2)] cs(1) show ?thesis by (intro exI [of _ cs]) (simp add: comp_def)
qed


definition manifest_example :: session_manifest where
  "manifest_example =
     \<lparr>sm_SchemaVersion = ''0.1'', sm_DevDiagVersion = ''1'', sm_SessionID = ''20250102T030405Z_a1b2c3'',
      sm_CreatedAt = ''2025-01-02T03:04:05Z'',
      sm_Target = (new_target KindContainer)\<lparr>t_Raw := ''container:docker/web'', t_Runtime := ''docker'', t_Container := ''web''\<rparr>,
      sm_Profile = ''minimal'', sm_Mode = ''temporary'', sm_RootDir = ''/tmp/devdiag-remote/20250102T030405Z_a1b2c3'',
      sm_Files = [\<lparr>mf_Path = ''/tmp/devdiag-remote/20250102T030405Z_a1b2c3/env.sh'', mf_Mode = ''0644'', mf_Created = True\<rparr>],
      sm_Status = ''active''\<rparr>"

definition remote_example :: remote_env where
  "remote_example =
     \<lparr>re_world = \<lparr>rw_run = (\<lambda>h c. zero_cmd_result), rw_stream = (\<lambda>h. StreamDone None None), rw_shell = (\<lambda>h. ShellOk)\<rparr>,
      re_url = (\<lambda>_. None), re_stage = \<lparr>sg_temp = Inr ''/tmp/s'', sg_mkdir = (\<lambda>_. None), sg_write = (\<lambda>_. None)\<rparr>,
      re_codec = \<lparr>mc_encode = (\<lambda>_. []), mc_decode = (\<lambda>_. Some manifest_example)\<rparr>,
      re_cache = Some [(''container_20250102T030405Z_a1b2c3.json'', \<lparr>ce_IsDir = False, ce_Content = Some []\<rparr>)],
      re_mkdir = True, re_write = (\<lambda>_. Written), re_session = ''20250102T030405Z_a1b2c3'', re_now = ''2025-01-02T03:04:05Z'',
      re_version = ''1'', re_user_home = ''/root'', re_json = (\<lambda>_. []), re_ndjson = (\<lambda>_. [])\<rparr>"

definition remote_flags_example :: remote_flags where
  "remote_flags_example =
     \<lparr>fr_Format = ''human'', fr_Redact = ''off'', fr_Profile = ''minimal'', fr_Session = [], fr_Keep = False,
      fr_Cleanup = ''always'', fr_DryRun = False, fr_All = True, fr_IdentityFile = [], fr_KnownHostsFile = [],
      fr_StrictHostKeyChecking = [], fr_K8sContainer = []\<rparr>"

lemma example_history:
  "map lc_Args (ou_History (runRemoteClean remote_example remote_flags_example ''container:docker/web'')) =
     [[''exec'', ''-i'', ''web'', ''rm'', ''-f'', ''/tmp/devdiag-remote/20250102T030405Z_a1b2c3/env.sh''],
      [''exec'', ''-i'', ''web''] @ rc_Args (rmdir_command ''/tmp/devdiag-remote/20250102T030405Z_a1b2c3'')]"
  by code_simp


section \<open>Entering a machine leaves nothing behind\<close>

lemma enter_cleanup_commands:
  assumes "session_id_matches (re_session env)" "target_safe t"
    and m: "m = session_manifest_of env fl t (SubstituteSessionID Minimal (re_session env))"
    and tr: "new_transport env t opts h = (Inr tr, h')"
  shows "\<exists>r cs. enter_cleanup env t opts m cache h = (Some r, h' @ cs) \<and> snd (snd (snd r)) = h' @ cs \<and>
     map (received_by tr) cs = map (\<lambda>f. Some [''rm'', ''-f'', mf_Path f]) (sm_Files m) @
       [Some (rc_Args (rmdir_command (sm_RootDir m)))]"
proof -
  note v = session_manifest_cleanable [OF assms(1,2) refl, of fl]
  then have root: "ValidateRootDir (sm_RootDir m) (t_Kind (sm_Target m)) = None"
    by (simp add: m) (simp add: session_manifest_of_def)
  have "filter (\<lambda>f. ValidateManagedPath (sm_RootDir m) (mf_Path f) = None) (sm_Files m) = sm_Files m"
    using v by (auto simp: m filter_id_conv)
  with tr.cleanManifest_commands [OF new_transport_safe(1) [OF assms(2) tr] root, of "re_world env" h'] obtain cs
    where cs: "snd (cleanManifest (transport_Run (re_world env) tr) m h') = h' @ cs"
      "map (received_by tr) cs = map (\<lambda>f. Some [''rm'', ''-f'', mf_Path f]) (sm_Files m) @
        [Some (rc_Args (rmdir_command (sm_RootDir m)))]" by (auto simp: rm_command_def)
  obtain e where "cleanManifest (transport_Run (re_world env) tr) m h' = (e, h' @ cs)"
    using cs(1) by (metis prod.collapse)
  with tr cs(2) show ?thesis by (cases e) (auto simp: enter_cleanup_def)
qed

lemma after_shell_cleans:
  assumes "session_id_matches (re_session env)" "target_safe t" "\<not> fr_Keep fl" "fr_Cleanup fl = ''always''"
    and m: "m = session_manifest_of env fl t (SubstituteSessionID Minimal (re_session env))"
    and tr: "new_transport env t opts h = (Inr tr, h')"
  shows "\<not> ou_Panics (after_shell env fl t opts m cache sh h) \<and>
     (\<exists>cs. ou_History (after_shell env fl t opts m cache sh h) = h' @ cs \<and>
        map (received_by tr) cs = map (\<lambda>f. Some [''rm'', ''-f'', mf_Path f]) (sm_Files m) @
          [Some (rc_Args (rmdir_command (sm_RootDir m)))])"
proof -
  from enter_cleanup_commands [OF assms(1,2) m tr, of cache] obtain r cs
    where r: "enter_cleanup env t opts m cache h = (Some r, h' @ cs)" "snd (snd (snd r)) = h' @ cs"
      "map (received_by tr) cs = map (\<lambda>f. Some [''rm'', ''-f'', mf_Path f]) (sm_Files m) @
        [Some (rc_Args (rmdir_command (sm_RootDir m)))]" by blast
  obtain needed msg cache' where "r = (needed, msg, cache', h' @ cs)" using r(2) by (cases r) auto
  with r(1,3) assms(3,4) show ?thesis by (simp add: after_shell_def shouldCleanupAfterEnter_def Let_def)
qed

text \<open>
  C38: after the interactive shell has ended, however it did, the command asks for the removal of every
  file of its session and of the directories left empty, in this order, when the clean-up mode is
  always and the files are not to be kept; otherwise it runs nothing. When the runtime of a container
  is not found again at that moment, the command panics.
\<close>

theorem enter_cleans_up:
  assumes "session_id_matches (re_session env)" "target_safe t"
    and "m = session_manifest_of env fl t (SubstituteSessionID Minimal (re_session env))"
  shows "(fr_Keep fl \<or> fr_Cleanup fl \<noteq> ''always'' \<longrightarrow> ou_History (after_shell env fl t opts m cache sh h) = h) \<and>
    (\<not> fr_Keep fl \<and> fr_Cleanup fl = ''always'' \<longrightarrow>
      (\<forall>tr h'. new_transport env t opts h = (Inr tr, h') \<longrightarrow>
         \<not> ou_Panics (after_shell env fl t opts m cache sh h) \<and>
         (\<exists>cs. ou_History (after_shell env fl t opts m cache sh h) = h' @ cs \<and>
            map (received_by tr) cs = map (\<lambda>f. Some [''rm'', ''-f'', mf_Path f]) (sm_Files m) @
              [Some (rc_Args (rmdir_command (sm_RootDir m)))])) \<and>
      (\<forall>e h'. new_transport env t opts h = (Inl e, h') \<longrightarrow> ou_Panics (after_shell env fl t opts m cache sh h)))"
proof (intro conjI impI allI)
  show "fr_Keep fl \<or> fr_Cleanup fl \<noteq> ''always'' \<Longrightarrow> ou_History (after_shell env fl t opts m cache sh h) = h"
    by (auto simp: after_shell_def shouldCleanupAfterEnter_def Let_def)
next
  fix tr h' assume "\<not> fr_Keep fl \<and> fr_Cleanup fl = ''always''" "new_transport env t opts h = (Inr tr, h')"
  with after_shell_cleans [OF assms(1,2) _ _ assms(3)]
  show "\<not> ou_Panics (after_shell env fl t opts m cache sh h)"
    "\<exists>cs. ou_History (after_shell env fl t opts m cache sh h) = h' @ cs \<and>
       map (received_by tr) cs = map (\<lambda>f. Some [''rm'', ''-f'', mf_Path f]) (sm_Files m) @
         [Some (rc_Args (rmdir_command (sm_RootDir m)))]" by blast+
next
  fix e h' assume k: "\<not> fr_Keep fl \<and> fr_Cleanup fl = ''always''" "new_transport env t opts h = (Inl e, h')"
  have "ValidateRootDir (sm_RootDir m) (t_Kind (sm_Target m)) = None"
    using session_manifest_cleanable [OF assms(1,2) refl, of fl]
    by (simp add: assms(3)) (simp add: session_manifest_of_def)
  with k show "ou_Panics (after_shell env fl t opts m cache sh h)"
    by (simp add: after_shell_def shouldCleanupAfterEnter_def Let_def enter_cleanup_def)
qed

theorem enter_cleans_up_witness:
  "let t = sm_Target manifest_example;
       m = session_manifest_of remote_example remote_flags_example t
             (SubstituteSessionID Minimal (re_session remote_example));
       opts = \<lparr>so_IdentityFile = [], so_UserKnownHostsFile = [], so_StrictHostKeyChecking = []\<rparr>
   in ou_History (after_shell remote_example (remote_flags_example\<lparr>fr_Keep := True\<rparr>) t opts m None ShellOk []) = [] \<and>
      \<not> ou_Panics (after_shell remote_example remote_flags_example t opts m None (ShellExited 1) [])"
proof -
  let ?t = "sm_Target manifest_example"
  let ?opts = "\<lparr>so_IdentityFile = [], so_UserKnownHostsFile = [], so_StrictHostKeyChecking = []\<rparr>"
  have id: "session_id_matches (re_session remote_example)" by code_simp
  have safe: "target_safe ?t" by (simp add: target_safe_def manifest_example_def new_target_def safe_identifier_def
      shell_metacharacters_def)
  have m: "session_manifest_of remote_example remote_flags_example ?t (SubstituteSessionID Minimal (re_session remote_example)) =
      session_manifest_of remote_example (remote_flags_example\<lparr>fr_Keep := True\<rparr>) ?t
        (SubstituteSessionID Minimal (re_session remote_example))" by (simp add: session_manifest_of_def)
  have tr: "new_transport remote_example ?t ?opts [] = (Inr (ContainerTransport ?t ''docker''), [])"
    by (simp add: new_transport_def manifest_example_def new_target_def container_NewTransport_def)
  show ?thesis
    using enter_cleans_up [OF id safe m, of ?opts None ShellOk "[]"]
      enter_cleans_up [OF id safe refl, of remote_flags_example ?opts None "ShellExited 1" "[]"] tr
    by (simp add: Let_def) (simp add: remote_flags_example_def)
qed

section \<open>Where the code falls short\<close>

text \<open>
  Over ssh the paths of a session are not expanded: quoting keeps the tilde of the files to remove and
  the \<open>$HOME\<close> of the directory to upload to as they are, so the upload makes a directory of that
  literal name, and the removal, of a path that does not exist, reports success.
\<close>

lemma ssh_paths_unexpanded:
  assumes "session_id_matches (re_session env)" "target_safe t" "t_Kind t = KindSSH"
    and "m = session_manifest_of env fl t (SubstituteSessionID Minimal (re_session env))"
  shows "sm_RootDir m = ''~/.devdiag/remote/'' @ re_session env \<and>
    (\<forall>f \<in> set (sm_Files m). has_prefix (mf_Path f) ''~/.devdiag/remote/'') \<and>
    sh_words (''mkdir -p '' @ ShellQuote (ShellPath (sm_RootDir m))) =
      Some [''mkdir'', ''-p'', ''$HOME/.devdiag/remote/'' @ re_session env]"
proof -
  have root: "sm_RootDir m = ''~/.devdiag/remote/'' @ re_session env"
    using remoteRootDir_path [OF assms(1,2)] assms(3)
    by (simp add: assms(4) session_manifest_of_def base_elems_def path_of_def)
  moreover have "has_prefix (mf_Path f) ''~/.devdiag/remote/''" if f: "f \<in> set (sm_Files m)" for f
  proof -
    have "ValidateManagedPath (sm_RootDir m) (mf_Path f) = None" "ValidateRootDir (sm_RootDir m) (t_Kind t) = None"
      using session_manifest_cleanable [OF assms(1,2) refl, of fl] f by (auto simp: assms(4))
    have "mf_Path f \<in> Join2 (sm_RootDir m) `
        set (map pf_TargetPath (rp_Files (SubstituteSessionID Minimal (re_session env))))"
      using f by (auto simp: assms(4) session_manifest_of_def managed_files_def)
    then obtain fs where fs: "fs \<in> set profile_elems" "mf_Path f = Join2 (sm_RootDir m) (path_of False fs)"
      unfolding Minimal_paths by auto
    let ?es = "base_elems KindSSH @ [re_session env]"
    have g: "\<forall>e \<in> set (?es @ fs). good_elem e" "fs \<noteq> []"
      using good_profile fs(1) good_base session_id_elem [OF assms(1)] by auto
    have "sm_RootDir m = path_of False ?es" by (simp add: root base_elems_def path_of_def)
    with Join2_path_of [OF g(1) _ g(2), of False] fs(2) have "mf_Path f = path_of False (?es @ fs)" by simp
    also have "\<dots> = path_of False ?es @ ''/'' @ path_of False fs" using g(2) by (intro path_of_append) simp_all
    finally show ?thesis by (simp add: base_elems_def path_of_def)
  qed
  moreover have "ShellPath (sm_RootDir m) = ''$HOME/.devdiag/remote/'' @ re_session env"
    by (simp add: root ShellPath_def trim_prefix_def)
  then have "sh_words (''mkdir -p '' @ ShellQuote (ShellPath (sm_RootDir m))) =
      Some [''mkdir'', ''-p'', ''$HOME/.devdiag/remote/'' @ re_session env]"
    by (simp only: upload_words)
  ultimately show ?thesis by blast
qed

text \<open>The identifier made when no random bytes can be read is not a valid one.\<close>

lemma hex_nat_length: "length (hex_nat k n) = k"
  by (induction k n rule: hex_nat.induct) simp_all

lemma fallback_id_invalid: "length ts = 16 \<Longrightarrow> \<not> session_id_matches (GenerateID ts None nanos)"
  by (simp add: GenerateID_def session_id_matches_def hex_nat_length)

text \<open>The status for a clean-up of which nothing succeeded is replaced again.\<close>

lemma status_failed_never:
  "rs_Status r = ''cleaned'' \<Longrightarrow> rs_Status (clean_report s r) \<in> {''cleaned'', ''partial'', ''refused''}"
  by (simp add: clean_report_def)

section \<open>What sync records, clean finds\<close>

lemma find_put:
  assumes "cached_manifest k (n, e) = Some m" "sm_SessionID m = s" "ValidateManifestIdentity (Some m) = None"
  shows "\<forall>x \<in> set es. fst x \<noteq> n \<longrightarrow> (\<forall>m'. cached_manifest k x = Some m' \<longrightarrow> sm_SessionID m' \<noteq> s) \<Longrightarrow>
    find_session k s (put_entry n e es) = Some m"
proof (induction es)
  case (Cons x es)
  obtain n' e' where x: "x = (n', e')" by (cases x)
  from Cons have "find_session k s (put_entry n e es) = Some m" by simp
  moreover have "n' \<noteq> n \<Longrightarrow> cached_manifest k (n', e') = Some m' \<Longrightarrow> sm_SessionID m' \<noteq> s" for m'
    using Cons.prems x by simp
  ultimately show ?case using assms x by (cases "cached_manifest k (n', e')") auto
qed (use assms in simp)

lemma safe_printed: "target_safe t \<Longrightarrow> Target_String t \<noteq> []"
  by (cases "t_Kind t") (auto simp: target_safe_def Target_String_def safe_identifier_def)

lemma parse_remote_safe:
  assumes "parse_remote env fl arg = Some t"
  shows "target_safe t \<and> t_Raw t \<noteq> []"
proof -
  from assms obtain t0 where t0: "Target_Parse (re_url env) arg = Inr t0" "t = applyRemoteK8sOptions fl t0"
    by (auto simp: parse_remote_def split: sum.splits)
  from Target_Parse_facts [OF t0(1)] obtain t' where "target_safe t0" "t0 = t'\<lparr>t_Raw := Target_String t'\<rparr>" by blast
  moreover from this have "Target_String t' \<noteq> []" by (simp add: safe_printed)
  ultimately show ?thesis using t0(2)
    by (auto simp: applyRemoteK8sOptions_def target_safe_def split: target_kind.splits)
qed

lemma first_bad_path_None: "(\<forall>f \<in> set fs. ValidateManagedPath rt (mf_Path f) = None) \<Longrightarrow> first_bad_path rt fs = None"
  by (induction fs) auto

lemma session_manifest_valid:
  assumes "session_id_matches (re_session env)" "target_safe t" "t_Raw t \<noteq> []"
  shows "ValidateManifest (Some (session_manifest_of env fl t (SubstituteSessionID Minimal (re_session env)))) = None \<and>
    ValidateManifestIdentity (Some (session_manifest_of env fl t (SubstituteSessionID Minimal (re_session env)))) = None"
proof -
  let ?m = "session_manifest_of env fl t (SubstituteSessionID Minimal (re_session env))"
  note c = session_manifest_cleanable [OF assms(1,2) refl, of fl]
  have i: "ValidateManifestIdentity (Some ?m) = None"
    using assms by (cases "t_Kind t") (auto simp: ValidateManifestIdentity_def ValidateSessionID_def
        session_manifest_of_def target_safe_def)
  have "sm_Target ?m = t" by (simp add: session_manifest_of_def)
  with i c show ?thesis by (simp add: ValidateManifest_def first_bad_path_None)
qed

lemma sync_end:
  assumes "ou_Code (runRemoteSync env fl arg) = None" "\<not> fr_DryRun fl"
  shows "\<exists>t. parse_remote env fl arg = Some t \<and>
    ou_Cache (runRemoteSync env fl arg) =
      write_cache env (re_cache env)
        (session_manifest_of env fl t (SubstituteSessionID Minimal (re_session env)))"
  using assms
  by (auto simp: runRemoteSync_def fails_def failed_sync_def ends_def Let_def chosen_profile_def
      split: option.splits if_splits prod.splits sum.splits)

lemma cache_name_suffix: "has_suffix (cache_file_name m) ''.json''"
  by (simp add: cache_file_name_def suffix_def)

text \<open>
  C37: when sync succeeds and its manifest reaches the cache, cleaning that session by its identifier
  finds exactly the manifest of what was uploaded, whatever else the cache holds but another file for
  the same session.
\<close>

theorem sync_recorded:
  assumes "ou_Code (runRemoteSync env fl arg) = None" "\<not> fr_DryRun fl"
    and "session_id_matches (re_session env)" "re_mkdir env" "re_write env m = Written"
    and "mc_decode (re_codec env) (mc_encode (re_codec env) m) = Some m"
    and "parse_remote env fl arg = Some t"
    and "m = session_manifest_of env fl t (SubstituteSessionID Minimal (re_session env))"
    and "\<forall>es x. re_cache env = Some es \<and> x \<in> set es \<and> fst x \<noteq> cache_file_name m \<longrightarrow>
      (\<forall>m'. cached_manifest (re_codec env) x = Some m' \<longrightarrow> sm_SessionID m' \<noteq> re_session env)"
  shows "choose_sessions (env\<lparr>re_cache := ou_Cache (runRemoteSync env fl arg)\<rparr>) (fl'\<lparr>fr_Session := re_session env\<rparr>) t =
    Clean_these [m]"
proof -
  from sync_end [OF assms(1,2)] assms(7,8)
  have cache: "ou_Cache (runRemoteSync env fl arg) = write_cache env (re_cache env) m" by auto
  note safe = parse_remote_safe [OF assms(7)]
  have valid: "ValidateManifest (Some m) = None" "ValidateManifestIdentity (Some m) = None"
    using session_manifest_valid [OF assms(3), of t fl] safe by (simp_all add: assms(8))
  let ?es = "case re_cache env of None \<Rightarrow> [] | Some es \<Rightarrow> es"
  let ?e = "\<lparr>ce_IsDir = False, ce_Content = Some (mc_encode (re_codec env) m)\<rparr>"
  have put: "write_cache env (re_cache env) m = Some (put_entry (cache_file_name m) ?e ?es)"
    using valid(1) assms(4,5) by (simp add: write_cache_def WriteCache_def Let_def)
  have id: "sm_SessionID m = re_session env" "sm_Target m = t" by (simp_all add: assms(8) session_manifest_of_def)
  have "cached_manifest (re_codec env) (cache_file_name m, ?e) = Some m"
    using assms(6) cache_name_suffix by (simp add: cached_manifest_def)
  then have "find_session (re_codec env) (re_session env) (put_entry (cache_file_name m) ?e ?es) = Some m"
  proof (rule find_put [OF _ id(1) valid(2)])
    show "\<forall>x \<in> set ?es. fst x \<noteq> cache_file_name m \<longrightarrow>
        (\<forall>m'. cached_manifest (re_codec env) x = Some m' \<longrightarrow> sm_SessionID m' \<noteq> re_session env)"
      using assms(9) by (cases "re_cache env") auto
  qed
  moreover have "SameTarget t t" by (simp add: SameTarget_def split: target_kind.split)
  moreover have "re_session env \<noteq> []" using assms(3) by (auto simp: session_id_matches_def)
  ultimately show ?thesis using id(2)
    by (simp add: choose_sessions_def ReadCacheBySessionID_def cache put)
qed

definition sync_example :: remote_env where
  "sync_example = remote_example
     \<lparr>re_cache := None,
      re_codec := \<lparr>mc_encode = (\<lambda>_. ''{}''), mc_decode = (\<lambda>_. Some
        (session_manifest_of remote_example remote_flags_example (sm_Target manifest_example)
           (SubstituteSessionID Minimal (re_session remote_example))))\<rparr>\<rparr>"

lemma stage_ok:
  assumes "\<forall>x. sg_mkdir w x = None" "\<forall>x. sg_write w x = None" "sg_temp w = Inr d"
  shows "\<exists>ws. Stage w p = (d, ws, None)"
proof -
  have "snd (stage_files w d fs) = None" for fs
    using assms(1,2) by (induction fs) (simp_all add: Let_def case_prod_beta)
  from this [of "rp_Files p"] obtain ws where "stage_files w d (rp_Files p) = (ws, None)"
    by (cases "stage_files w d (rp_Files p)") simp
  then show ?thesis using assms(3) by (simp add: Stage_def)
qed

theorem sync_recorded_witness:
  "choose_sessions (sync_example\<lparr>re_cache := ou_Cache (runRemoteSync sync_example remote_flags_example ''container:docker/web'')\<rparr>)
       ((remote_flags_example\<lparr>fr_All := False\<rparr>)\<lparr>fr_Session := re_session sync_example\<rparr>) (sm_Target manifest_example) =
     Clean_these [session_manifest_of sync_example remote_flags_example (sm_Target manifest_example)
       (SubstituteSessionID Minimal (re_session sync_example))]"
proof (rule sync_recorded)
  show t: "parse_remote sync_example remote_flags_example ''container:docker/web'' = Some (sm_Target manifest_example)"
    by (simp only: parse_remote_def sync_example_def remote_example_def) code_simp
  let ?p = "SubstituteSessionID Minimal (re_session sync_example)"
  have "\<exists>ws. Stage (re_stage sync_example) ?p = (''/tmp/s'', ws, None)"
    by (rule stage_ok) (simp_all add: sync_example_def remote_example_def)
  then obtain ws where ws: "Stage (re_stage sync_example) ?p = (''/tmp/s'', ws, None)" by blast
  have fl: "chosen_profile remote_flags_example = Some Minimal" "fr_DryRun remote_flags_example = False"
    "\<exists>opts. buildRemoteSSHOptions remote_flags_example = Some opts"
    by (simp_all add: chosen_profile_def remote_flags_example_def buildRemoteSSHOptions_def)
  have tr: "new_transport sync_example (sm_Target manifest_example) opts [] =
      (Inr (ContainerTransport (sm_Target manifest_example) ''docker''), [])" for opts
    by (simp add: new_transport_def manifest_example_def new_target_def container_NewTransport_def)
  have run: "rw_run (re_world sync_example) h c = zero_cmd_result" for h c
    by (simp add: sync_example_def remote_example_def)
  have up: "fst (remote_upload sync_example (ContainerTransport t r) d d' h) = None" for t r d d' h
    by (simp add: remote_upload_def container_Upload_def run_plain_def run_local_def run zero_cmd_result_def Let_def)
  show "ou_Code (runRemoteSync sync_example remote_flags_example ''container:docker/web'') = None"
    using fl up by (auto simp: runRemoteSync_def t ws tr ends_def Let_def case_prod_beta split: option.split)
  show "session_id_matches (re_session sync_example)" by (simp only: sync_example_def remote_example_def) code_simp
qed (simp_all add: sync_example_def remote_example_def remote_flags_example_def session_manifest_of_def)

end
