(* ===== verification/Spec2Isabelle.thy ===== *)
theory Spec2Isabelle
  imports Aggregator Baseline Relevance Engines Fix_Executor App_Scan Pathfilter Repro_Classifier Trace_Kernel Updater_Lock Updater_Correct Update_Command Tui_Session
    Command_Fix Remote_Correct
begin

text \<open>
  A verification library of DevDiag, the command line tool that collects evidence about a project and its
  machine, turns it into ranked findings and proposes fixes. Paths of files are relative to \<open>src/\<close>.

  \<^bold>\<open>The program and its parts.\<close> \<open>scan\<close> runs collectors side by side (\<open>internal/collectors\<close>), hands their results
  as a snapshot to the rule engines (\<open>internal/rules\<close>) and to a rule pack if one is given
  (\<open>internal/rulepack\<close>), and aggregates the findings into a report (\<open>internal/findings\<close>, \<open>internal/app\<close>).
  The command line (\<open>internal/cli\<close>) redacts the report (\<open>internal/redact\<close>), hides what the view and the
  baseline hide (\<open>internal/relevance\<close>, \<open>internal/baseline\<close>), renders the rest (\<open>internal/output\<close>),
  saves it (\<open>internal/artifact\<close>) and chooses the exit code. \<open>report\<close> shows a saved report again, \<open>fix\<close>
  plans and runs fixes for its findings (\<open>internal/fix\<close>), \<open>baseline\<close> edits the file of accepted findings,
  \<open>inspect\<close> shows a scan interactively (\<open>internal/tui\<close>), \<open>trace\<close> reads the system calls of a command
  (\<open>internal/trace\<close>), \<open>repro\<close> classifies its output (\<open>internal/repro\<close>), \<open>remote\<close> prepares another machine,
  container or pod (\<open>internal/remote\<close>) and \<open>update\<close> replaces the installed binary (\<open>internal/updater\<close>).

  \<^bold>\<open>Shared theories.\<close> \<open>Prelude\<close> has Go's strings, numbers and formatting, \<open>Sorting_Go\<close> package \<open>sort\<close> with the
  locale \<open>strict_weak_order\<close>, \<open>Keyed_List\<close> the lists with distinct keys (\<open>keyed_merge\<close>, \<open>keyed_cover\<close>,
  \<open>keyed_store\<close>), \<open>Go_Path\<close> the lexical functions of \<open>path/filepath\<close>, \<open>Go_Regexp\<close> a matcher for the
  regular expressions of the program with its meaning as a language, \<open>Transition_Systems\<close> the contracts of
  step relations (\<open>invariant_system\<close>, \<open>terminating_system\<close>), and \<open>File_System\<close> a file system whose every
  call may fail. \<open>Schema\<close> has the data of \<open>internal/schema\<close>, \<open>internal/exitcode\<close> and \<open>internal/graph\<close>.
\<close>

text \<open>
  \<^bold>\<open>From evidence to a report.\<close>
  \<^item> \<open>Domains\<close>: the registry of domains and its lookups (\<open>domain/registry.go\<close>).
  \<^item> \<open>Collectors_Runner\<close>: \<open>collectors/runner.go\<close>. \<open>runOne\<close> is one collector with its timeout, panic and
    cancellation; \<open>run_step\<close> is the concurrent run, one goroutine per collector and a loop that receives. Which
    end of a race comes first, or that none ever comes, is the parameter \<open>race\<close>. \<open>Run_results\<close> and \<open>Run_ends\<close>
    show that every schedule gives the same results and when a run ends. \<open>Collect_Env\<close> is the
    collector of environment files (\<open>collectors/env/env.go\<close>), with its scanner of quoted values.
  \<^item> \<open>Versions\<close>, \<open>Rules_Common\<close>, \<open>Rules_M1\<close>, \<open>Rules_M6\<close>, \<open>Rules_M8\<close>, \<open>Engines\<close>: every rule group of the three
    engines, and engines scoped by identifier (\<open>rules/*.go\<close>). Loops over Go maps take the order from a
    parameter \<open>ord\<close>. \<open>M1_Correct\<close> and \<open>M8_Correct\<close> hold the identifiers of each rule group, the exact conditions
    of the environment rules and the parity rules.
  \<^item> \<open>Rulepack\<close>: validation of rule packs, loading of policies and decoding of findings.
  \<^item> \<open>Aggregator\<close>: normalising, merging and ranking (\<open>findings/aggregator.go\<close>); the list is sorted, without
    duplicates and keeps all evidence.
  \<^item> \<open>App_Scan\<close>: \<open>Scan\<close> with its events (\<open>app/scan.go\<close>, \<open>events.go\<close>), over a finished run of
    \<open>Collectors_Runner\<close>: what it announces, when it returns a report and what is in it, whatever the schedule.
\<close>

text \<open>
  \<^bold>\<open>What is shown.\<close>
  \<^item> \<open>Redact_Rules\<close> and \<open>Redact\<close>: every rule and the engine over reports (\<open>redact/rules.go\<close>, \<open>engine.go\<close>): no
    marker of a private key survives its rule, and redaction reaches exactly the texts of a report.
  \<^item> \<open>Baseline\<close>, \<open>Relevance\<close>, \<open>Baseline_Command\<close>: the operations on accepted findings, the suppression
    policy, and the baseline commands over the file (\<open>cli/baseline.go\<close>). The file loads after any commands; adding
    an entry is an update of a map, and hides the finding in later scans.
  \<^item> \<open>Output\<close>: the human, Markdown and GitHub renderers; annotations read back by a model of the runner.
  \<^item> \<open>Saved_Runs\<close>: discovery of the project, run identifiers, the latest run, saving and loading of reports.
    \<open>discover\<close> walks upwards and is a partial function, shown to end on every clean path.
  \<^item> \<open>Command_Line\<close>: the global flags, the exit codes and the commands \<open>scan\<close>, \<open>check\<close>, \<open>doctor\<close> and
    \<open>report\<close>. \<open>scan_exit_contract\<close> gives the code of every outcome; \<open>report_repeats_scan\<close> relates the two.
  \<^item> \<open>Tui\<close>, \<open>Tui_View\<close>, \<open>Tui_Session\<close>: model and update function of the interface, its screens, and
    the background scan beside it as a step relation. \<open>Tui_Correct\<close> has the invariant of all messages; every
    index and slice of a screen is an option, and drawing never gives \<open>None\<close>; a session delivers its events.
  \<^item> \<open>Pathfilter\<close>, \<open>Repro_Classifier\<close>, \<open>Cmdrunner\<close>: classes of paths and globs, the classifier of outputs, and
    the capped capture and outcome of a process.

  \<^bold>\<open>What is changed.\<close>
  \<^item> \<open>Fix_Registry\<close>, \<open>Fix_Validate\<close>, \<open>Fix_Planner\<close>, \<open>Fix_Executor\<close>, \<open>Command_Fix\<close>: templates and blocklist,
    validation of values, planning, execution as a list of events, and the command with the audit log. A
    command runs only through all gates, with sound values, and the log tells exactly what was done.
  \<^item> \<open>Updater\<close>, \<open>Updater_Swap\<close>, \<open>Updater_Lock\<close>, \<open>Update_Command\<close>: the release, its checks, extraction, the swap
    with rollback over \<open>File_System\<close>, and the lock as a step relation over its calls. \<open>Updater_Correct\<close> shows what
    replaces the binary and that one is at hand at every moment.
  \<^item> \<open>Remote_Target\<close>, \<open>Remote_Session\<close>, \<open>Remote_Transport\<close>, \<open>Remote_Command\<close>: targets, manifests and
    cache, the transports over ssh, docker or podman and kubectl, and the commands. \<open>Remote_Correct\<close> reads every
    local command as the other side does (machine and arguments) and bounds what cleaning up removes.
  \<^item> \<open>Trace_Parser\<close>, \<open>Trace_Analyzer\<close>, \<open>Trace_Runner\<close>: lines of strace, findings of a trace, and both
    backends after the operating system. \<open>Trace_Correct\<close> prints lines and reads them back; \<open>Trace_Kernel\<close> goes
    from kernel events to findings.
\<close>

text \<open>
  \<^bold>\<open>Interfaces.\<close> A comparison handed to package \<open>sort\<close> is an interpretation of \<open>strict_weak_order\<close>; the merging
  loops of the aggregator and the baseline are interpretations of \<open>keyed_cover\<close> and \<open>keyed_store\<close>; the three
  engines of \<open>policy_engine\<close>; the runner, the interface, its session, the baseline file and the lock of
  \<open>invariant_system\<close> or \<open>terminating_system\<close>; the transports of \<open>delivering_transport\<close>.

  \<^bold>\<open>Parameters.\<close> What is not code of the repository is an argument: SHA-256; the order of maps; home, working
  directory and platform; the results of commands, the answer of the user and the fate of audit writes;
  what CUE, YAML and Rego make of a rule pack; existence, contents and times of files; the outcome and
  the race of each collector; faults of the file system; \<open>url.Parse\<close>, network, gzip and tar, the \<open>gh\<close>
  command and the releases API; what strace, tracefs and the kernel deliver; the codecs of baselines, reports
  and manifests with clock and user; JSON renderers; the look of \<open>lipgloss\<close> and the spinner; the remote machine. A
  property that relies on them names it as a hypothesis: that a codec reads back what it wrote, that a working
  directory is absolute, that an order of a map only permutes its keys.

  \<^bold>\<open>Conventions.\<close> Strings are byte sequences; case is mapped for ASCII letters only; redaction works on code
  points below 256; a confidence is a rational number; a Go \<open>int\<close> is an integer, wrapped where the code can
  leave its range, and modes and kernel values are words; column widths of \<open>Sprintf\<close> count bytes; \<open>%q\<close> is
  modelled on printable text; times are integers. An error is a value of a sum or an option, a panic
  is \<open>None\<close> or a flag of the outcome.

  \<^bold>\<open>Bounds.\<close> No definition takes fuel: loops are structural or have a measure. Constants of the code are kept
  (a channel of 256 events for sessions and of one place per collector for the runner, twenty entries of evidence,
  forty symbolic links, output and upload caps, an hour for a stale lock). Step relations have bounds: five steps per
  collector, two per event and three more for a session.

  \<^bold>\<open>Not modelled.\<close> Starting and killing of processes; the collectors but that of environment files, which
  gather output of commands; the remote agent and the support capsules; running a reproduction and the commands
  that wrap the parts above (\<open>agent\<close>, \<open>capsule\<close>, \<open>config\<close>, \<open>inspect\<close>, \<open>issue\<close>, \<open>repro\<close>, \<open>rules\<close>, \<open>team\<close>,
  \<open>trace\<close>); logging; the CUE schema of the configuration; the JSON encoders; parsing of flags. File
  permissions and durations appear only where a definition says so.
\<close>

end
